(* ===== verification/Prelude.thy ===== *)
theory Prelude
  imports Main "HOL-Library.Char_ord" "HOL-Library.List_Lexorder" "HOL-Library.Product_Lexorder"
    "HOL-Library.AList"
begin

section \<open>Shared vocabulary of the development\<close>

text \<open>
  What every component of the control plane's model uses: instants and results, Python
  dictionaries as association lists in insertion order, database tables as lists of rows with
  a compare-and-set update, decimal rendering for f-strings, and two interfaces as locales: a
  life cycle given by a transition table (\<open>lifecycle\<close>) and a store whose rows carry a
  revision that an update has to name (\<open>versioned_store\<close>). A Python exception is a value
  \<open>Inl e\<close>; a function that returns is \<open>Inr x\<close>; inside a database transaction an \<open>Inl\<close>
  is a rollback, so an error carries no state.
\<close>

named_theorems res_simps "equations that take a result-valued computation apart"
named_theorems row_simps "lookup and update of table rows"

type_synonym instant = int
type_synonym duration = int
type_synonym ('e, 'a) res = "'e + 'a"

subsection \<open>Results\<close>

definition rbind :: "('e, 'a) res \<Rightarrow> ('a \<Rightarrow> ('e, 'b) res) \<Rightarrow> ('e, 'b) res" where
  "rbind m f = (case m of Inl e \<Rightarrow> Inl e | Inr x \<Rightarrow> f x)"

lemma rbind_simps [simp]: "rbind (Inl e) f = Inl e" "rbind (Inr x) f = f x"
  by (simp_all add: rbind_def)

lemma rbind_Inr_iff [res_simps]: "rbind m f = Inr y \<longleftrightarrow> (\<exists>x. m = Inr x \<and> f x = Inr y)"
  by (cases m) auto

lemma rbind_InrE:
  assumes "rbind m f = Inr y"
  obtains x where "m = Inr x" and "f x = Inr y"
  using assms by (cases m) auto

lemma rbind_pairE:
  assumes "rbind m (\<lambda>(x, s). f x s) = Inr y"
  obtains x s where "m = Inr (x, s)" and "f x s = Inr y"
  using assms by (cases m) auto

lemma rbind_Inl_iff [res_simps]:
  "rbind m f = Inl e \<longleftrightarrow> m = Inl e \<or> (\<exists>x. m = Inr x \<and> f x = Inl e)"
  by (cases m) auto

lemma if_Inr_iff [res_simps]: "(if b then Inl e else m) = Inr y \<longleftrightarrow> \<not> b \<and> m = Inr y"
  by simp

definition of_option :: "'e \<Rightarrow> 'a option \<Rightarrow> ('e, 'a) res" where
  "of_option e x = (case x of None \<Rightarrow> Inl e | Some y \<Rightarrow> Inr y)"

lemma of_option_simps [simp]: "of_option e None = Inl e" "of_option e (Some y) = Inr y"
  by (simp_all add: of_option_def)

lemma of_option_Inr_iff [res_simps]: "of_option e x = Inr y \<longleftrightarrow> x = Some y"
  by (cases x) simp_all

lemma of_option_Inl_iff [res_simps]: "of_option e x = Inl e' \<longleftrightarrow> x = None \<and> e' = e"
  by (cases x) auto

text \<open>A loop \<open>for x in xs: body\<close> whose body may raise.\<close>

fun each :: "('a \<Rightarrow> ('e, unit) res) \<Rightarrow> 'a list \<Rightarrow> ('e, unit) res" where
  "each f [] = Inr ()"
| "each f (x # xs) = rbind (f x) (\<lambda>_. each f xs)"

lemma each_Inr_iff [res_simps]: "each f xs = Inr u \<longleftrightarrow> (\<forall>x \<in> set xs. f x = Inr ())"
  by (induction xs) (auto simp: rbind_Inr_iff)

text \<open>A comprehension \<open>[body for x in xs]\<close> whose body may raise.\<close>

fun collect :: "('a \<Rightarrow> ('e, 'b) res) \<Rightarrow> 'a list \<Rightarrow> ('e, 'b list) res" where
  "collect f [] = Inr []"
| "collect f (x # xs) = rbind (f x) (\<lambda>y. rbind (collect f xs) (\<lambda>ys. Inr (y # ys)))"

lemma collect_Inr_length: "collect f xs = Inr ys \<Longrightarrow> length ys = length xs"
  by (induction xs arbitrary: ys) (auto simp: res_simps)

lemma collect_Inr_map: "collect f xs = Inr ys \<Longrightarrow> map f xs = map Inr ys"
  by (induction xs arbitrary: ys) (auto simp: res_simps)

lemma collect_Inr_iff: "collect f xs = Inr ys \<longleftrightarrow> map f xs = map Inr ys"
proof
  show "map f xs = map Inr ys \<Longrightarrow> collect f xs = Inr ys"
    by (induction xs arbitrary: ys) (auto simp: Cons_eq_map_conv)
qed (rule collect_Inr_map)

lemma map_Inr_inverse:
  assumes "\<And>e x. f e = Inr x \<longleftrightarrow> e = g x"
  shows "map f xs = map Inr ys \<longleftrightarrow> xs = map g ys"
proof (induction ys arbitrary: xs)
  case (Cons y ys)
  with assms show ?case by (cases xs) auto
qed simp

subsection \<open>Dictionaries in insertion order\<close>

type_synonym ('k, 'v) dict = "('k \<times> 'v) list"

definition dict_of_rows :: "('r \<Rightarrow> 'k) \<Rightarrow> ('r \<Rightarrow> 'v) \<Rightarrow> 'r list \<Rightarrow> ('k, 'v) dict" where
  "dict_of_rows key val rows = fold (\<lambda>r d. AList.update (key r) (val r) d) rows []"

definition dict_ok :: "('k, 'v) dict \<Rightarrow> bool" where
  "dict_ok d \<longleftrightarrow> distinct (map fst d)"

lemma dict_ok_update: "dict_ok d \<Longrightarrow> dict_ok (AList.update k v d)"
  by (simp add: dict_ok_def distinct_update)

lemma dict_ok_fold:
  "dict_ok d \<Longrightarrow> dict_ok (fold (\<lambda>r d. AList.update (key r) (val r) d) rows d)"
  by (induction rows arbitrary: d) (auto intro: dict_ok_update)

lemma dict_ok_of_rows [simp]: "dict_ok (dict_of_rows key val rows)"
  unfolding dict_of_rows_def by (rule dict_ok_fold) (simp add: dict_ok_def)

lemma fold_update_append:
  assumes "distinct (map key rows)" and "set (map key rows) \<inter> set (map fst d) = {}"
  shows "fold (\<lambda>r d. AList.update (key r) (val r) d) rows d
    = d @ map (\<lambda>r. (key r, val r)) rows"
  using assms
proof (induction rows arbitrary: d)
  case (Cons r rows)
  have upd: "AList.update (key r) (val r) d = d @ [(key r, val r)]" if "key r \<notin> set (map fst d)"
    using that by (induction d) auto
  from Cons.prems have "key r \<notin> set (map fst d)" by auto
  with upd have "AList.update (key r) (val r) d = d @ [(key r, val r)]" by blast
  moreover have "set (map key rows) \<inter> set (map fst (d @ [(key r, val r)])) = {}"
    using Cons.prems by auto
  ultimately show ?case using Cons.IH [of "d @ [(key r, val r)]"] Cons.prems by simp
qed simp

lemma dict_of_rows_distinct:
  "distinct (map key rows) \<Longrightarrow> dict_of_rows key val rows = map (\<lambda>r. (key r, val r)) rows"
  unfolding dict_of_rows_def using fold_update_append [of key rows "[]" val] by simp

lemma map_of_dict: "dict_ok d \<Longrightarrow> map_of d k = Some v \<longleftrightarrow> (k, v) \<in> set d"
  by (simp add: dict_ok_def)

lemma map_of_update [simp]: "map_of (AList.update k v d) = (map_of d)(k \<mapsto> v)"
  by (rule AList.update_conv')

subsection \<open>Decimal rendering\<close>

fun str_of_nat :: "nat \<Rightarrow> string" where
  "str_of_nat n =
     (if n < 10 then [char_of (48 + n)] else str_of_nat (n div 10) @ [char_of (48 + n mod 10)])"

declare str_of_nat.simps [simp del]

definition nat_of_str :: "string \<Rightarrow> nat" where
  "nat_of_str cs = foldl (\<lambda>n c. 10 * n + (of_char c - 48)) 0 cs"

lemma of_char_digit: "d < 10 \<Longrightarrow> of_char (char_of (48 + d) :: char) = 48 + (d :: nat)"
  by simp

lemma nat_of_str_of_nat [simp]: "nat_of_str (str_of_nat n) = n"
proof (induction n rule: str_of_nat.induct)
  case (1 n)
  show ?case
  proof (cases "n < 10")
    case True
    then show ?thesis by (subst str_of_nat.simps) (simp add: nat_of_str_def)
  next
    case False
    with "1" have "nat_of_str (str_of_nat (n div 10)) = n div 10" by simp
    with False show ?thesis by (subst str_of_nat.simps) (simp add: nat_of_str_def)
  qed
qed

lemma str_of_nat_inject [simp]: "str_of_nat m = str_of_nat n \<longleftrightarrow> m = n"
  by (metis nat_of_str_of_nat)

definition str_of_int :: "int \<Rightarrow> string" where
  "str_of_int i = (if i < 0 then ''-'' @ str_of_nat (nat (- i)) else str_of_nat (nat i))"

text \<open>Python's \<open>str.strip()\<close> removes the ASCII white space \<open>\t\n\v\f\r\<close>, the separators 28..31,
  the blank, and in the range of HOL's characters also 133 and 160.\<close>

definition is_space :: "char \<Rightarrow> bool" where
  "is_space c = (let n = (of_char c :: nat) in
     (9 \<le> n \<and> n \<le> 13) \<or> (28 \<le> n \<and> n \<le> 32) \<or> n = 133 \<or> n = 160)"

definition strip :: "string \<Rightarrow> string" where
  "strip s = rev (dropWhile is_space (rev (dropWhile is_space s)))"

definition blank :: "string \<Rightarrow> bool" where
  "blank s = list_all is_space s"

lemma strip_empty_iff: "strip s = [] \<longleftrightarrow> blank s"
proof -
  have "strip s = [] \<longleftrightarrow> list_all is_space (dropWhile is_space s)"
    by (simp add: strip_def dropWhile_eq_Nil_conv list_all_iff)
  also have "\<dots> \<longleftrightarrow> list_all is_space s"
  proof
    assume "list_all is_space (dropWhile is_space s)"
    moreover have "list_all is_space (takeWhile is_space s)"
      by (auto simp: list_all_iff dest: set_takeWhileD)
    ultimately show "list_all is_space s"
      by (metis list_all_append takeWhile_dropWhile_id)
  next
    assume "list_all is_space s"
    then show "list_all is_space (dropWhile is_space s)"
      by (auto simp: list_all_iff dest: set_dropWhileD)
  qed
  finally show ?thesis by (simp add: blank_def)
qed

end
