(* ===== verification/Interfaces.thy ===== *)
theory Interfaces
  imports Prelude
begin

section \<open>Interfaces between components\<close>

text \<open>
  Table rows with a primary key, the compare-and-set update every repository of the program
  issues (\<open>UPDATE ... SET revision = revision + 1 WHERE id = :id AND revision = :expected\<close>),
  and two interfaces stated as locales: \<open>versioned_store\<close> (what a client may rely on when it
  writes through such an update) and \<open>lifecycle\<close> (a state machine driven by a table of allowed
  targets). The components that provide them interpret the locales on their own operations.
\<close>

subsection \<open>Rows\<close>

definition row_by :: "('r \<Rightarrow> 'k) \<Rightarrow> 'k \<Rightarrow> 'r list \<Rightarrow> 'r option" where
  "row_by key k rows = List.find (\<lambda>r. key r = k) rows"

definition set_where :: "('r \<Rightarrow> bool) \<Rightarrow> ('r \<Rightarrow> 'r) \<Rightarrow> 'r list \<Rightarrow> 'r list" where
  "set_where p f rows = map (\<lambda>r. if p r then f r else r) rows"

definition cas_row ::
  "('r \<Rightarrow> 'k) \<Rightarrow> ('r \<Rightarrow> int) \<Rightarrow> 'k \<Rightarrow> int \<Rightarrow> ('r \<Rightarrow> 'r) \<Rightarrow> 'r list \<Rightarrow> ('r \<times> 'r list) option" where
  "cas_row key ver k n f rows =
     (case row_by key k rows of
        None \<Rightarrow> None
      | Some r \<Rightarrow>
          if ver r = n then Some (f r, set_where (\<lambda>r. key r = k \<and> ver r = n) f rows) else None)"

lemma row_by_Nil [simp]: "row_by key k [] = None"
  by (simp add: row_by_def)

lemma row_by_Cons [simp]:
  "row_by key k (r # rows) = (if key r = k then Some r else row_by key k rows)"
  by (simp add: row_by_def)

lemma row_by_Some: "row_by key k rows = Some r \<Longrightarrow> r \<in> set rows \<and> key r = k"
  by (induction rows) (auto split: if_splits)

lemma row_by_None: "row_by key k rows = None \<longleftrightarrow> k \<notin> key ` set rows"
  by (induction rows) auto

lemma row_by_absent [simp]: "k \<notin> key ` set rows \<Longrightarrow> row_by key k rows = None"
  by (simp add: row_by_None)

lemma row_by_append [row_simps]:
  "row_by key k (xs @ ys) = (case row_by key k xs of None \<Rightarrow> row_by key k ys | Some r \<Rightarrow> Some r)"
  by (induction xs) auto

lemma row_by_distinct:
  "distinct (map key rows) \<Longrightarrow> r \<in> set rows \<Longrightarrow> row_by key (key r) rows = Some r"
  by (induction rows) auto

lemma row_by_set_where [row_simps]:
  assumes "\<And>r. key (f r) = key r"
  shows "row_by key k (set_where p f rows)
    = map_option (\<lambda>r. if p r then f r else r) (row_by key k rows)"
  using assms by (induction rows) (auto simp: set_where_def)

lemma set_set_where: "set (set_where p f rows) = (\<lambda>r. if p r then f r else r) ` set rows"
  by (simp add: set_where_def)

lemma set_where_keys [simp]:
  "(\<And>r. key (f r) = key r) \<Longrightarrow> map key (set_where p f rows) = map key rows"
  by (simp add: set_where_def)

lemma set_where_none: "(\<And>r. r \<in> set rows \<Longrightarrow> \<not> p r) \<Longrightarrow> set_where p f rows = rows"
  by (simp add: set_where_def map_idI)

lemma filter_set_where_other:
  "(\<And>r. r \<in> set rows \<Longrightarrow> p r \<Longrightarrow> \<not> q r \<and> \<not> q (f r)) \<Longrightarrow>
   filter q (set_where p f rows) = filter q rows"
  by (induction rows) (auto simp: set_where_def)

lemma cas_row_Some:
  assumes "cas_row key ver k n f rows = Some (r', rows')"
  shows "\<exists>r. row_by key k rows = Some r \<and> ver r = n \<and> r' = f r
    \<and> rows' = set_where (\<lambda>r. key r = k \<and> ver r = n) f rows"
  using assms by (auto simp: cas_row_def split: option.splits if_splits)

lemma cas_row_None:
  "cas_row key ver k n f rows = None \<longleftrightarrow> (\<forall>r. row_by key k rows = Some r \<longrightarrow> ver r \<noteq> n)"
  by (auto simp: cas_row_def split: option.splits if_splits)

lemma map_of_rows: "map_of (map (\<lambda>r. (key r, val r)) rows) k = map_option val (row_by key k rows)"
  by (induction rows) auto

lemma row_by_unique:
  assumes "distinct (map key rows)" and "r \<in> set rows" and "key r = k"
  shows "row_by key k rows = Some r"
  using row_by_distinct [OF assms(1,2)] assms(3) by simp

lemma same_key:
  "distinct (map key rows) \<Longrightarrow> r \<in> set rows \<Longrightarrow> r' \<in> set rows \<Longrightarrow> key r = key r' \<Longrightarrow> r = r'"
  by (auto simp: distinct_map dest: inj_onD)

lemma row_by_cong_set:
  assumes "distinct (map key rows)" and "distinct (map key rows')" and "set rows' = set rows"
  shows "row_by key k rows' = row_by key k rows"
proof (cases "row_by key k rows")
  case None
  with assms(3) show ?thesis by (metis row_by_None)
next
  case (Some r)
  with assms show ?thesis using row_by_Some row_by_unique by metis
qed

lemma row_by_sorted:
  "distinct (map key rows) \<Longrightarrow> row_by key k (sort_key ord rows) = row_by key k rows"
  by (rule row_by_cong_set) (simp_all add: distinct_map)

text \<open>PostgreSQL's \<open>INTEGER\<close> and \<open>BIGINT\<close> ranges and the check \<open>length(btrim(x)) > 0\<close>.\<close>

definition int4 :: "int \<Rightarrow> bool" where
  "int4 x = (- 2147483648 \<le> x \<and> x \<le> 2147483647)"

definition int8 :: "int \<Rightarrow> bool" where
  "int8 x = (- 9223372036854775808 \<le> x \<and> x \<le> 9223372036854775807)"

definition nonblank_text :: "string \<Rightarrow> bool" where
  "nonblank_text s = list_ex (\<lambda>c. c \<noteq> CHR '' '') s"

definition require :: "bool \<Rightarrow> 'e \<Rightarrow> ('e, unit) res" where
  "require b e = (if b then Inr () else Inl e)"

lemma require_Inr [simp]: "require b e = Inr u \<longleftrightarrow> b"
  by (simp add: require_def)

subsection \<open>The versioned store\<close>

text \<open>Several writers that all read the same revision and now write in turn.\<close>

fun race :: "('m \<Rightarrow> 's \<Rightarrow> ('r \<times> 's) option) \<Rightarrow> 'm list \<Rightarrow> 's \<Rightarrow> 'r option list \<times> 's" where
  "race write [] s = ([], s)"
| "race write (m # ms) s =
     (case write m s of
        None \<Rightarrow> (let (outs, s') = race write ms s in (None # outs, s'))
      | Some (r, s1) \<Rightarrow> (let (outs, s') = race write ms s1 in (Some r # outs, s')))"

locale versioned_store =
  fixes get :: "'s \<Rightarrow> 'k \<Rightarrow> 'r option"
    and rev_of :: "'r \<Rightarrow> int"
    and cas :: "'k \<Rightarrow> int \<Rightarrow> 'm \<Rightarrow> 's \<Rightarrow> ('r \<times> 's) option"
  assumes cas_success: "cas k n m s = Some (r', s') \<Longrightarrow>
      (\<exists>r. get s k = Some r \<and> rev_of r = n) \<and> rev_of r' = n + 1 \<and> get s' k = Some r'"
    and cas_enabled: "get s k = Some r \<Longrightarrow> rev_of r = n \<Longrightarrow> cas k n m s \<noteq> None"
    and cas_frame: "cas k n m s = Some (r', s') \<Longrightarrow> k' \<noteq> k \<Longrightarrow> get s' k' = get s k'"
begin

lemma stale_writer_rejected: "get s k = Some r \<Longrightarrow> rev_of r \<noteq> n \<Longrightarrow> cas k n m s = None"
  by (cases "cas k n m s") (auto dest: cas_success)

lemma second_writer_rejected: "cas k n m s = Some (r', s') \<Longrightarrow> cas k n m' s' = None"
  using cas_success [of k n m s r' s'] stale_writer_rejected [of s' k r' n m'] by simp

lemma race_all_stale:
  "get s k = Some r \<Longrightarrow> rev_of r \<noteq> n \<Longrightarrow>
   race (cas k n) ms s = (replicate (length ms) None, s)"
proof (induction ms)
  case (Cons m ms)
  then have "cas k n m s = None" by (simp add: stale_writer_rejected)
  with Cons show ?case by simp
qed simp

lemma race_one_winner:
  assumes "get s k = Some r" and "rev_of r = n"
  shows "\<exists>w s'. race (cas k n) (m # ms) s = (Some w # replicate (length ms) None, s')
    \<and> cas k n m s = Some (w, s') \<and> get s' k = Some w \<and> rev_of w = n + 1"
proof -
  from cas_enabled [OF assms] obtain w s' where w: "cas k n m s = Some (w, s')"
    by fastforce
  with cas_success have "get s' k = Some w" and "rev_of w = n + 1" by blast+
  moreover from this have "race (cas k n) ms s' = (replicate (length ms) None, s')"
    by (simp add: race_all_stale)
  ultimately show ?thesis using w by simp
qed

end

subsection \<open>Life cycles\<close>

text \<open>A sequence of transitions, each from the state the last one reached.\<close>

fun run_steps :: "('x \<Rightarrow> 't \<Rightarrow> ('e, 'x) res) \<Rightarrow> 'x \<Rightarrow> 't list \<Rightarrow> ('e, 'x) res" where
  "run_steps step x [] = Inr x"
| "run_steps step x (t # ts) = rbind (step x t) (\<lambda>y. run_steps step y ts)"

fun is_path :: "('s \<Rightarrow> 's list) \<Rightarrow> 's \<Rightarrow> 's list \<Rightarrow> bool" where
  "is_path allowed s [] = True"
| "is_path allowed s (t # ts) = (t \<in> set (allowed s) \<and> is_path allowed t ts)"

locale lifecycle =
  fixes allowed :: "'s \<Rightarrow> 's list"
    and state_of :: "'x \<Rightarrow> 's"
    and step :: "'x \<Rightarrow> 's \<Rightarrow> ('e, 'x) res"
  assumes step_sound: "step x t = Inr y \<Longrightarrow> t \<in> set (allowed (state_of x)) \<and> state_of y = t"
begin

lemma run_path: "run_steps step x ts = Inr y \<Longrightarrow> is_path allowed (state_of x) ts"
proof (induction ts arbitrary: x)
  case (Cons t ts)
  then obtain z where z: "step x t = Inr z" and "run_steps step z ts = Inr y"
    by (auto simp: res_simps)
  with Cons.IH step_sound [OF z] show ?case by auto
qed simp

lemma run_last: "run_steps step x ts = Inr y \<Longrightarrow> state_of y = last (state_of x # ts)"
proof (induction ts arbitrary: x)
  case (Cons t ts)
  then obtain z where z: "step x t = Inr z" and "run_steps step z ts = Inr y"
    by (auto simp: res_simps)
  with Cons.IH step_sound [OF z] show ?case by auto
qed simp

lemma terminal_absorbing:
  assumes "allowed (state_of x) = []" and "run_steps step x ts = Inr y"
  shows "ts = [] \<and> y = x"
proof (cases ts)
  case (Cons t us)
  with run_path [OF assms(2)] assms(1) show ?thesis by simp
qed (use assms in simp)

end

locale ranked_lifecycle = lifecycle +
  fixes rank :: "'s \<Rightarrow> nat"
  assumes rank_increases: "step x t = Inr y \<Longrightarrow> rank (state_of x) < rank t"
begin

lemma run_bounded:
  "run_steps step x ts = Inr y \<Longrightarrow> length ts + rank (state_of x) \<le> rank (state_of y)"
proof (induction ts arbitrary: x)
  case (Cons t ts)
  then obtain z where z: "step x t = Inr z" and "run_steps step z ts = Inr y"
    by (auto simp: res_simps)
  with Cons.IH have "length ts + rank (state_of z) \<le> rank (state_of y)" by blast
  moreover have "rank (state_of x) < rank (state_of z)"
    using rank_increases [OF z] step_sound [OF z] by simp
  ultimately show ?case by simp
qed simp

end

subsection \<open>Answers of a port\<close>

text \<open>A call of another module that may raise.\<close>

datatype 'a answer = Raised | Answer 'a

subsection \<open>Simulation\<close>

text \<open>
  A detailed step relation over states that satisfy an invariant, and an abstraction under which
  each of its steps is a step of the specification or changes nothing the specification sees.
\<close>

locale simulation =
  fixes inv :: "'c \<Rightarrow> bool"
    and abs :: "'c \<Rightarrow> 'a"
    and cstep :: "'c \<Rightarrow> 'c \<Rightarrow> bool"
    and astep :: "'a \<Rightarrow> 'a \<Rightarrow> bool"
  assumes step_inv: "inv s \<Longrightarrow> cstep s s' \<Longrightarrow> inv s'"
    and step_simulated: "inv s \<Longrightarrow> cstep s s' \<Longrightarrow> abs s' = abs s \<or> astep (abs s) (abs s')"
begin

lemma run_inv: "cstep\<^sup>*\<^sup>* s s' \<Longrightarrow> inv s \<Longrightarrow> inv s'"
  by (induction rule: rtranclp_induct) (auto intro: step_inv)

lemma run_simulated: "cstep\<^sup>*\<^sup>* s s' \<Longrightarrow> inv s \<Longrightarrow> astep\<^sup>*\<^sup>* (abs s) (abs s')"
proof (induction rule: rtranclp_induct)
  case (step t u)
  then have "inv t" using run_inv by blast
  with step_simulated [of t u] step show ?case by (auto intro: rtranclp.rtrancl_into_rtrancl)
qed simp

end

end
