(* ===== verification/Audit_Log.thy ===== *)
theory Audit_Log
  imports Interfaces "HOL-Library.Multiset"
begin

section \<open>The audit module\<close>

text \<open>
  \<^verbatim>\<open>control_plane/app/modules/audit\<close>: the envelope every module appends
  (\<^verbatim>\<open>domain/envelope.py\<close>), the append inside the caller's transaction
  (\<^verbatim>\<open>adapters/transactional.py\<close>), the keyset query
  (\<^verbatim>\<open>adapters/sqlalchemy_repository.py\<close>) and the paging route
  (\<^verbatim>\<open>api/routes.py\<close>). The table is append-only: its role may only SELECT and INSERT. Base64,
  JSON and ISO-8601 of the cursor are the standard library's and parameters here
  (\<open>cursor_codec\<close>).
\<close>

record audit_envelope =
  ae_id :: string
  ae_occurred_at :: instant
  ae_actor :: string
  ae_actor_type :: string
  ae_action :: string
  ae_target_type :: string
  ae_target_id :: string
  ae_result :: string
  ae_reason :: "string option"
  ae_correlation_id :: string
  ae_request_id :: "string option"
  ae_schema_version :: int

type_synonym audit_log = "audit_envelope list"

text \<open>The database function stores the request id of the transaction's setting.\<close>

definition append_in_transaction ::
  "string option \<Rightarrow> audit_envelope \<Rightarrow> audit_log \<Rightarrow> audit_log" where
  "append_in_transaction current_request_id envelope log =
     log @ [envelope\<lparr>ae_request_id := current_request_id\<rparr>]"

definition record_in_transaction ::
  "string option \<Rightarrow> audit_envelope \<Rightarrow> audit_log \<Rightarrow> audit_log" where
  "record_in_transaction current_request_id envelope log =
     append_in_transaction current_request_id envelope log"

subsection \<open>The query\<close>

record audit_filter =
  af_actor :: "string option"
  af_target_type :: "string option"
  af_target_id :: "string option"
  af_occurred_from :: "instant option"
  af_occurred_to :: "instant option"
  af_request_id :: "string option"

definition opt_all :: "('a \<Rightarrow> bool) \<Rightarrow> 'a option \<Rightarrow> bool" where
  "opt_all p x = (case x of None \<Rightarrow> True | Some y \<Rightarrow> p y)"

definition audit_matches :: "audit_filter \<Rightarrow> audit_envelope \<Rightarrow> bool" where
  "audit_matches f e =
     (opt_all (\<lambda>v. ae_actor e = v) (af_actor f)
      \<and> opt_all (\<lambda>v. ae_target_type e = v) (af_target_type f)
      \<and> opt_all (\<lambda>v. ae_target_id e = v) (af_target_id f)
      \<and> opt_all (\<lambda>v. v \<le> ae_occurred_at e) (af_occurred_from f)
      \<and> opt_all (\<lambda>v. ae_occurred_at e < v) (af_occurred_to f)
      \<and> opt_all (\<lambda>v. ae_request_id e = Some v) (af_request_id f))"

definition event_key :: "audit_envelope \<Rightarrow> instant \<times> string" where
  "event_key e = (ae_occurred_at e, ae_id e)"

definition after_cursor :: "instant option \<Rightarrow> string option \<Rightarrow> audit_envelope \<Rightarrow> bool" where
  "after_cursor after_occurred_at after_id e =
     (case (after_occurred_at, after_id) of
        (Some t, Some i) \<Rightarrow> t < ae_occurred_at e \<or> (ae_occurred_at e = t \<and> i < ae_id e)
      | _ \<Rightarrow> True)"

definition list_events ::
  "audit_filter \<Rightarrow> instant option \<Rightarrow> string option \<Rightarrow> nat \<Rightarrow> audit_log \<Rightarrow> audit_envelope list" where
  "list_events f after_occurred_at after_id limit log =
     take limit (sort_key event_key
       (filter (\<lambda>e. audit_matches f e \<and> after_cursor after_occurred_at after_id e) log))"

subsection \<open>The paging route\<close>

record cursor_codec =
  pack :: "string list \<Rightarrow> string"
  unpack :: "string \<Rightarrow> string list option"
  isoformat :: "instant \<Rightarrow> string"
  fromisoformat :: "string \<Rightarrow> (instant \<times> bool) option"

datatype audit_api_error = InvalidCursor | TimeBoundsRequireOffset | InvalidTimeRange

definition encode_cursor :: "cursor_codec \<Rightarrow> instant \<Rightarrow> string \<Rightarrow> string" where
  "encode_cursor c occurred_at event_id = pack c [isoformat c occurred_at, event_id]"

definition decode_cursor ::
  "cursor_codec \<Rightarrow> string option \<Rightarrow> (audit_api_error, instant option \<times> string option) res" where
  "decode_cursor c cursor =
     (case cursor of
        None \<Rightarrow> Inr (None, None)
      | Some s \<Rightarrow>
          (case unpack c s of
             Some [a, b] \<Rightarrow>
               if a = [] \<or> b = [] then Inl InvalidCursor
               else (case fromisoformat c a of
                       Some (t, True) \<Rightarrow> Inr (Some t, Some b)
                     | _ \<Rightarrow> Inl InvalidCursor)
           | _ \<Rightarrow> Inl InvalidCursor))"

text \<open>A time bound is an instant and whether it carried an offset.\<close>

definition audit_events_list ::
  "cursor_codec \<Rightarrow> audit_filter \<Rightarrow> bool \<Rightarrow> string option \<Rightarrow> nat \<Rightarrow> audit_log
   \<Rightarrow> (audit_api_error, audit_envelope list \<times> string option) res" where
  "audit_events_list c f bounds_have_offset cursor limit log =
     (if \<not> bounds_have_offset then Inl TimeBoundsRequireOffset
      else if (case (af_occurred_from f, af_occurred_to f) of
                 (Some a, Some b) \<Rightarrow> b \<le> a | _ \<Rightarrow> False) then Inl InvalidTimeRange
      else rbind (decode_cursor c cursor) (\<lambda>(after_occurred_at, after_id).
        let values = list_events f after_occurred_at after_id (limit + 1) log;
            page = take limit values
        in Inr (page,
             if limit < length values
             then Some (encode_cursor c (ae_occurred_at (last page)) (ae_id (last page)))
             else None)))"

text \<open>A client that follows \<open>next_cursor\<close> until it is absent, with at most \<open>n\<close> requests.\<close>

fun walk_pages ::
  "cursor_codec \<Rightarrow> audit_filter \<Rightarrow> nat \<Rightarrow> audit_log \<Rightarrow> nat \<Rightarrow> string option
   \<Rightarrow> audit_envelope list option" where
  "walk_pages c f limit log 0 cursor = None"
| "walk_pages c f limit log (Suc n) cursor =
     (case audit_events_list c f True cursor limit log of
        Inl _ \<Rightarrow> None
      | Inr (page, None) \<Rightarrow> Some page
      | Inr (page, Some next) \<Rightarrow> map_option ((@) page) (walk_pages c f limit log n (Some next)))"

subsection \<open>The pages of a walk\<close>

text \<open>What the standard library's codec promises: what was encoded is decoded.\<close>

definition codec_ok :: "cursor_codec \<Rightarrow> audit_log \<Rightarrow> bool" where
  "codec_ok c log \<longleftrightarrow> (\<forall>e \<in> set log.
     unpack c (pack c [isoformat c (ae_occurred_at e), ae_id e])
       = Some [isoformat c (ae_occurred_at e), ae_id e]
     \<and> isoformat c (ae_occurred_at e) \<noteq> [] \<and> ae_id e \<noteq> []
     \<and> fromisoformat c (isoformat c (ae_occurred_at e)) = Some (ae_occurred_at e, True))"

lemma decode_encode:
  "codec_ok c log \<Longrightarrow> e \<in> set log \<Longrightarrow>
   decode_cursor c (Some (encode_cursor c (ae_occurred_at e) (ae_id e)))
     = Inr (Some (ae_occurred_at e), Some (ae_id e))"
  by (simp add: codec_ok_def decode_cursor_def encode_cursor_def)

definition event_order :: "audit_filter \<Rightarrow> audit_log \<Rightarrow> audit_envelope list" where
  "event_order f log = sort_key event_key (filter (audit_matches f) log)"

lemma after_cursor_Some:
  "after_cursor (Some (ae_occurred_at d)) (Some (ae_id d)) = (\<lambda>e. event_key d < event_key e)"
  by (auto simp: after_cursor_def event_key_def less_prod_def')

lemma list_events_order:
  "list_events f a i n log = take n (filter (after_cursor a i) (event_order f log))"
proof -
  have "filter (\<lambda>e. audit_matches f e \<and> after_cursor a i e) log
    = filter (after_cursor a i) (filter (audit_matches f) log)"
    by (simp add: conj_commute)
  then show ?thesis by (simp add: list_events_def event_order_def filter_sort)
qed

lemma strictly_sorted_drop:
  assumes "sorted_wrt (<) (map k xs)" and "i < length xs"
  shows "filter (\<lambda>x. k (xs ! i) < (k x :: 'a :: linorder)) xs = drop (Suc i) xs"
  using assms
proof (induction xs arbitrary: i)
  case (Cons x xs)
  show ?case
  proof (cases i)
    case 0
    with Cons.prems(1) show ?thesis by (auto intro!: filter_True)
  next
    case (Suc j)
    with Cons.prems have "k x < k (xs ! j)" by simp
    then have "\<not> k (xs ! j) < k x" by simp
    with Suc Cons show ?thesis by simp
  qed
qed simp

lemma event_order_strict:
  assumes "distinct (map ae_id log)"
  shows "sorted_wrt (<) (map event_key (event_order f log))"
proof -
  have "inj_on ae_id (set log)" using assms by (simp add: distinct_map)
  then have "inj_on event_key (set (event_order f log))"
    by (auto simp: inj_on_def event_key_def event_order_def)
  moreover have "distinct (event_order f log)"
    using assms by (simp add: event_order_def distinct_map)
  ultimately have "distinct (map event_key (event_order f log))" by (simp add: distinct_map)
  moreover have "sorted (map event_key (event_order f log))" by (simp add: event_order_def)
  ultimately show ?thesis by (simp add: strict_sorted_iff)
qed

lemma list_events_after:
  assumes "distinct (map ae_id log)" and "j < length (event_order f log)"
    and "e = event_order f log ! j"
  shows "list_events f (Some (ae_occurred_at e)) (Some (ae_id e)) n log
    = take n (drop (Suc j) (event_order f log))"
  using strictly_sorted_drop [OF event_order_strict [OF assms(1)] assms(2)] assms(3)
  by (simp add: list_events_order after_cursor_Some)

lemma list_events_start: "list_events f None None n log = take n (event_order f log)"
proof -
  have "filter (after_cursor None None) (event_order f log) = event_order f log"
    by (simp add: after_cursor_def)
  then show ?thesis by (simp only: list_events_order)
qed

definition range_ok :: "audit_filter \<Rightarrow> bool" where
  "range_ok f \<longleftrightarrow> (case (af_occurred_from f, af_occurred_to f) of
                 (Some a, Some b) \<Rightarrow> a < b | _ \<Rightarrow> True)"

text \<open>The cursor a walk holds after \<open>i\<close> events: none before the first, else the last event's.\<close>

definition cursor_at :: "cursor_codec \<Rightarrow> audit_envelope list \<Rightarrow> nat \<Rightarrow> string option" where
  "cursor_at c es i = (case i of 0 \<Rightarrow> None
     | Suc j \<Rightarrow> Some (encode_cursor c (ae_occurred_at (es ! j)) (ae_id (es ! j))))"

lemma page_at:
  assumes "distinct (map ae_id log)" and "codec_ok c log" and "range_ok f"
    and "i \<le> length (event_order f log)"
  shows "audit_events_list c f True (cursor_at c (event_order f log) i) limit log
    = (let values = take (limit + 1) (drop i (event_order f log)); page = take limit values
       in Inr (page, if limit < length values
            then Some (encode_cursor c (ae_occurred_at (last page)) (ae_id (last page)))
            else None))"
proof -
  let ?es = "event_order f log"
  have "\<not> (case (af_occurred_from f, af_occurred_to f) of
                 (Some a, Some b) \<Rightarrow> b \<le> a | _ \<Rightarrow> False)"
    using assms(3) by (auto simp: range_ok_def split: option.splits)
  moreover have "\<exists>a d. decode_cursor c (cursor_at c ?es i) = Inr (a, d)
      \<and> list_events f a d (limit + 1) log = take (limit + 1) (drop i ?es)"
  proof (cases i)
    case 0
    then show ?thesis by (simp add: cursor_at_def decode_cursor_def list_events_start)
  next
    case (Suc j)
    with assms(4) have j: "j < length ?es" by simp
    then have "?es ! j \<in> set ?es" by (rule nth_mem)
    then have "?es ! j \<in> set log" by (simp add: event_order_def)
    with Suc show ?thesis
      by (simp add: cursor_at_def decode_encode [OF assms(2)]
          list_events_after [OF assms(1) j refl])
  qed
  ultimately show ?thesis by (auto simp: audit_events_list_def Let_def)
qed

lemma last_take_drop:
  "0 < n \<Longrightarrow> i + n \<le> length xs \<Longrightarrow> last (take n (drop i xs)) = xs ! (i + n - 1)"
proof -
  assume n: "0 < n" "i + n \<le> length xs"
  then have len: "length (take n (drop i xs)) = n" by simp
  with n(1) have "take n (drop i xs) \<noteq> []" by auto
  then have "last (take n (drop i xs)) = take n (drop i xs) ! (n - 1)"
    using last_conv_nth [of "take n (drop i xs)"] len by metis
  also have "\<dots> = xs ! (i + (n - 1))" using n by simp
  finally show ?thesis using n(1) by simp
qed

lemma walk_from:
  assumes "distinct (map ae_id log)" and "codec_ok c log" and "range_ok f" and "0 < limit"
  shows "i \<le> length (event_order f log) \<Longrightarrow> length (event_order f log) - i < n \<Longrightarrow>
    walk_pages c f limit log n (cursor_at c (event_order f log) i)
      = Some (drop i (event_order f log))"
proof (induction n arbitrary: i)
  case (Suc n)
  let ?es = "event_order f log"
  show ?case
  proof (cases "limit < length ?es - i")
    case True
    then have more: "i + limit < length ?es" by simp
    have "last (take limit (drop i ?es)) = ?es ! (i + limit - 1)"
      using last_take_drop [OF assms(4), of i ?es] more by simp
    moreover have "cursor_at c ?es (i + limit)
        = Some (encode_cursor c (ae_occurred_at (?es ! (i + limit - 1)))
            (ae_id (?es ! (i + limit - 1))))"
      using assms(4) by (cases "i + limit") (auto simp: cursor_at_def)
    ultimately have "audit_events_list c f True (cursor_at c ?es i) limit log
        = Inr (take limit (drop i ?es), cursor_at c ?es (i + limit))"
      using page_at [OF assms(1-3) Suc.prems(1), of limit] True
      by (simp add: Let_def min_def)
    moreover have "walk_pages c f limit log n (cursor_at c ?es (i + limit))
        = Some (drop (i + limit) ?es)"
      using Suc.IH [of "i + limit"] Suc.prems more assms(4) by simp
    moreover have "take limit (drop i ?es) @ drop (i + limit) ?es = drop i ?es"
      by (metis append_take_drop_id drop_drop add.commute)
    ultimately show ?thesis using assms(4) by (cases "i + limit") (auto simp: cursor_at_def)
  next
    case False
    then show ?thesis
      using page_at [OF assms(1-3) Suc.prems(1), of limit] by (simp add: Let_def min_def)
  qed
qed simp

text \<open>
  C40: a client that follows \<open>next_cursor\<close> to the end gets every audit event that matches the
  filter exactly once, in the order of time and id, whatever the page size, provided that event
  ids are unique (the table's primary key) and the cursor codec decodes what it encoded.
\<close>

theorem audit_walk_complete:
  assumes "distinct (map ae_id log)" and "codec_ok c log" and "range_ok f" and "0 < limit"
    and "length (filter (audit_matches f) log) < n"
  shows "\<exists>es. walk_pages c f limit log n None = Some es
    \<and> sorted_wrt (<) (map event_key es) \<and> mset es = mset (filter (audit_matches f) log)"
proof (intro exI conjI)
  show "walk_pages c f limit log n None = Some (event_order f log)"
    using walk_from [OF assms(1-4), of 0 n] assms(5)
    by (simp add: cursor_at_def event_order_def)
  show "sorted_wrt (<) (map event_key (event_order f log))"
    by (rule event_order_strict [OF assms(1)])
  show "mset (event_order f log) = mset (filter (audit_matches f) log)"
    by (simp add: event_order_def)
qed

definition demo_codec :: cursor_codec where
  "demo_codec = \<lparr>
     pack = (\<lambda>ps. case ps of [a, b] \<Rightarrow> a @ CHR ''|'' # b | _ \<Rightarrow> []),
     unpack = (\<lambda>s. Some [takeWhile (\<lambda>c. c \<noteq> CHR ''|'') s, tl (dropWhile (\<lambda>c. c \<noteq> CHR ''|'') s)]),
     isoformat = (\<lambda>t. str_of_nat (nat t)),
     fromisoformat = (\<lambda>s. Some (int (nat_of_str s), True))\<rparr>"

definition demo_event :: "string \<Rightarrow> instant \<Rightarrow> string \<Rightarrow> audit_envelope" where
  "demo_event i t who = \<lparr>ae_id = i, ae_occurred_at = t, ae_actor = who, ae_actor_type = ''HUMAN'',
     ae_action = ''a'', ae_target_type = ''ACCOUNT'', ae_target_id = ''t'', ae_result = ''SUCCESS'',
     ae_reason = None, ae_correlation_id = ''c'', ae_request_id = None, ae_schema_version = 1\<rparr>"

definition demo_log :: audit_log where
  "demo_log = [demo_event ''b'' 5 ''x'', demo_event ''a'' 5 ''x'', demo_event ''c'' 3 ''y'',
     demo_event ''d'' 1 ''x'']"

definition demo_filter :: audit_filter where
  "demo_filter = \<lparr>af_actor = Some ''x'', af_target_type = None, af_target_id = None,
     af_occurred_from = Some 1, af_occurred_to = Some 9, af_request_id = None\<rparr>"

theorem audit_walk_complete_witness:
  "\<exists>es. walk_pages demo_codec demo_filter 2 demo_log 9 None = Some es
    \<and> sorted_wrt (<) (map event_key es)
    \<and> mset es = mset (filter (audit_matches demo_filter) demo_log)"
proof (rule audit_walk_complete)
  show "distinct (map ae_id demo_log)" by code_simp
  show "codec_ok demo_codec demo_log" by code_simp
  show "range_ok demo_filter" by code_simp
  show "0 < (2 :: nat)" by simp
  show "length (filter (audit_matches demo_filter) demo_log) < 9" by code_simp
qed

end
