(* ===== verification/Org_Structure.thy ===== *)
theory Org_Structure
  imports Audit_Log
begin

section \<open>The organization module: structure\<close>

text \<open>
  \<^verbatim>\<open>control_plane/app/modules/organization/domain/structure.py\<close> and
  \<^verbatim>\<open>application/commands.py\<close>: the fixed manager-leader-member hierarchy, its validation
  (levels, then a walk that looks for cycles), and the command that changes one account's
  superior. The edges dictionary keeps its insertion order; a kind is the string the database
  stores until \<open>OrgKind\<close> parses it.
\<close>

datatype org_kind = MANAGER | LEADER | MEMBER

datatype org_error =
    InvalidStructure string
  | OrgKindUnknown string
  | OrgKeyError string
  | InvalidParticipant string
  | MembershipChangeFailed
  | CorruptStructure string
  | ActorWithoutId

fun kind_value :: "org_kind \<Rightarrow> string" where
  "kind_value MANAGER = ''MANAGER''"
| "kind_value LEADER = ''LEADER''"
| "kind_value MEMBER = ''MEMBER''"

definition OrgKind :: "string \<Rightarrow> (org_error, org_kind) res" where
  "OrgKind s = (if s = ''MANAGER'' then Inr MANAGER else if s = ''LEADER'' then Inr LEADER
     else if s = ''MEMBER'' then Inr MEMBER else Inl (OrgKindUnknown s))"

lemma OrgKind_Inr [simp]: "OrgKind s = Inr k \<longleftrightarrow> s = kind_value k"
  by (cases k) (auto simp: OrgKind_def)

lemma OrgKind_value [simp]: "OrgKind (kind_value k) = Inr k"
  by simp

lemma kind_value_inject [simp]: "kind_value a = kind_value b \<longleftrightarrow> a = b"
  by (metis OrgKind_value Inr_inject)

lemma kind_value_eqs [simp]:
  "kind_value k = ''MANAGER'' \<longleftrightarrow> k = MANAGER"
  "kind_value k = ''LEADER'' \<longleftrightarrow> k = LEADER"
  "kind_value k = ''MEMBER'' \<longleftrightarrow> k = MEMBER"
  by (cases k; simp)+

subsection \<open>derive_kind and validate_structure\<close>

definition derive_kind :: "string option \<Rightarrow> (org_error, org_kind) res" where
  "derive_kind superior_kind =
     (case superior_kind of
        None \<Rightarrow> Inr MANAGER
      | Some s \<Rightarrow> rbind (OrgKind s) (\<lambda>parent.
          if parent = MANAGER then Inr LEADER
          else if parent = LEADER then Inr MEMBER
          else Inl (InvalidStructure ''ordinary members cannot have direct reports'')))"

type_synonym raw_edges = "(string, string option \<times> string) dict"
type_synonym edges = "(string, string option \<times> org_kind) dict"

definition normalize_edge ::
  "string \<times> string option \<times> string \<Rightarrow> (org_error, string \<times> string option \<times> org_kind) res" where
  "normalize_edge e = (case e of (account_id, superior_id, kind) \<Rightarrow>
     rbind (OrgKind kind) (\<lambda>k. Inr (account_id, superior_id, k)))"

definition check_edge ::
  "edges \<Rightarrow> string \<times> string option \<times> org_kind \<Rightarrow> (org_error, unit) res" where
  "check_edge normalized e = (case e of (account_id, superior_id, kind) \<Rightarrow>
     if superior_id = Some account_id
     then Inl (InvalidStructure ''an account cannot report to itself'')
     else if kind = MANAGER then
       (if superior_id \<noteq> None then Inl (InvalidStructure ''managers cannot have a superior'')
        else Inr ())
     else (case superior_id of
        None \<Rightarrow> Inl (InvalidStructure ''leader and member superiors must exist'')
      | Some s \<Rightarrow>
          (case map_of normalized s of
             None \<Rightarrow> Inl (InvalidStructure ''leader and member superiors must exist'')
           | Some (_, parent_kind) \<Rightarrow>
               rbind (derive_kind (Some (kind_value parent_kind))) (\<lambda>k.
                 if k \<noteq> kind
                 then Inl (InvalidStructure
                   ''organization levels must remain manager-leader-member'')
                 else Inr ()))))"

text \<open>The inner \<open>while current is not None\<close> loop: \<open>seen\<close> grows inside the keys.\<close>

function climb :: "edges \<Rightarrow> string list \<Rightarrow> string option \<Rightarrow> (org_error, unit) res" where
  "climb normalized seen None = Inr ()"
| "climb normalized seen (Some current) =
     (if current \<in> set seen
      then Inl (InvalidStructure ''organization graph cannot contain cycles'')
      else (case map_of normalized current of
              None \<Rightarrow> Inl (OrgKeyError current)
            | Some (superior_id, _) \<Rightarrow> climb normalized (current # seen) superior_id))"
  by pat_completeness auto
termination
proof (relation "measure (\<lambda>(n, seen, _). card (fst ` set n - set seen))")
  fix n :: edges and seen current p sup k
  assume new: "current \<notin> set seen" and look: "map_of n current = Some p" "(sup, k) = p"
  then have "current \<in> fst ` set n" by (metis map_of_SomeD fst_conv image_eqI)
  with new have "fst ` set n - set (current # seen) \<subset> fst ` set n - set seen" by auto
  then show "((n, current # seen, sup), (n, seen, Some current))
      \<in> measure (\<lambda>(n, seen, _). card (fst ` set n - set seen))"
    by (simp add: psubset_card_mono)
qed simp

declare climb.simps [simp del]

definition validate_structure :: "raw_edges \<Rightarrow> (org_error, unit) res" where
  "validate_structure edges =
     rbind (collect normalize_edge edges) (\<lambda>normalized.
     rbind (each (check_edge normalized) normalized) (\<lambda>_.
     each (\<lambda>(account_id, _). climb normalized [] (Some account_id)) normalized))"

subsection \<open>What a valid structure is\<close>

text \<open>
  The specification has no traversal: every manager is a root, every leader reports to a
  manager of the structure and every member to a leader of it.
\<close>

definition edge_level_ok :: "raw_edges \<Rightarrow> string option \<Rightarrow> string \<Rightarrow> bool" where
  "edge_level_ok edges superior_id kind \<longleftrightarrow>
     (kind = ''MANAGER'' \<and> superior_id = None)
     \<or> (kind = ''LEADER'' \<and> (\<exists>s s'. superior_id = Some s \<and> map_of edges s = Some (s', ''MANAGER'')))
     \<or> (kind = ''MEMBER'' \<and> (\<exists>s s'. superior_id = Some s \<and> map_of edges s = Some (s', ''LEADER'')))"

definition three_level :: "raw_edges \<Rightarrow> bool" where
  "three_level edges \<longleftrightarrow> (\<forall>(a, s, k) \<in> set edges. edge_level_ok edges s k)"

definition raw :: "edges \<Rightarrow> raw_edges" where
  "raw n = map (\<lambda>(a, s, k). (a, s, kind_value k)) n"

lemma map_of_raw: "map_of (raw n) a = map_option (\<lambda>(s, k). (s, kind_value k)) (map_of n a)"
  unfolding raw_def by (induction n) (auto split: prod.splits)

lemma normalize_raw: "collect normalize_edge edges = Inr n \<longleftrightarrow> edges = raw n"
proof -
  have "normalize_edge e = Inr x \<longleftrightarrow> e = (\<lambda>(a, s, k). (a, s, kind_value k)) x" for e x
    by (cases e; cases x) (auto simp: normalize_edge_def res_simps)
  then show ?thesis by (simp add: collect_Inr_iff raw_def map_Inr_inverse)
qed

lemma raw_keys [simp]: "map fst (raw n) = map fst n"
  by (simp add: raw_def case_prod_beta)

lemma check_edge_Inr:
  assumes "dict_ok n" and "(a, s, k) \<in> set n"
  shows "check_edge n (a, s, k) = Inr () \<longleftrightarrow> edge_level_ok (raw n) s (kind_value k)"
proof -
  have self: "map_of n a = Some (s, k)" using assms by (simp add: dict_ok_def)
  show ?thesis
    by (cases k; cases s)
      (auto simp: check_edge_def edge_level_ok_def derive_kind_def map_of_raw self
         split: option.splits org_kind.splits if_splits)
qed

lemma three_level_checks:
  assumes "dict_ok n"
  shows "each (check_edge n) n = Inr () \<longleftrightarrow> three_level (raw n)"
proof -
  have "each (check_edge n) n = Inr () \<longleftrightarrow>
      (\<forall>(a, s, k) \<in> set n. edge_level_ok (raw n) s (kind_value k))"
    using check_edge_Inr [OF assms] by (auto simp: each_Inr_iff)
  also have "\<dots> \<longleftrightarrow> three_level (raw n)"
    by (auto simp: three_level_def raw_def)
  finally show ?thesis .
qed

text \<open>Under the level rules a walk towards the root takes at most three steps, so the
  cycle check of the code never fires on a structure that passed the first loop.\<close>

lemma level_step:
  assumes "three_level (raw n)" and "map_of n a = Some (s, k)"
  shows "(k = MANAGER \<and> s = None)
    \<or> (k = LEADER \<and> (\<exists>m s'. s = Some m \<and> map_of n m = Some (s', MANAGER)))
    \<or> (k = MEMBER \<and> (\<exists>m s'. s = Some m \<and> map_of n m = Some (s', LEADER)))"
proof -
  from assms(2) have "(a, s, kind_value k) \<in> set (raw n)"
    by (force simp: raw_def dest: map_of_SomeD)
  with assms(1) have "edge_level_ok (raw n) s (kind_value k)"
    by (auto simp: three_level_def)
  then show ?thesis
    by (auto simp: edge_level_ok_def map_of_raw)
qed

lemma climb_manager:
  "three_level (raw n) \<Longrightarrow> map_of n a = Some (s, MANAGER) \<Longrightarrow> a \<notin> set seen \<Longrightarrow>
   climb n seen (Some a) = Inr ()"
  using level_step [of n a s MANAGER] by (auto simp: climb.simps)

lemma climb_leader:
  assumes "three_level (raw n)" and "map_of n a = Some (s, LEADER)" and "a \<notin> set seen"
    and "\<And>b t. b \<in> set seen \<Longrightarrow> map_of n b \<noteq> Some (t, MANAGER)"
  shows "climb n seen (Some a) = Inr ()"
proof -
  from level_step [OF assms(1,2)] obtain m s' where
    m: "s = Some m" "map_of n m = Some (s', MANAGER)" by auto
  with assms have "m \<notin> set (a # seen)" by auto
  with m assms show ?thesis by (simp add: climb.simps(2) [of n seen a] climb_manager)
qed

lemma climb_ok:
  assumes "three_level (raw n)" and "a \<in> fst ` set n"
  shows "climb n [] (Some a) = Inr ()"
proof -
  from assms(2) obtain s k where look: "map_of n a = Some (s, k)"
    by (metis map_of_eq_None_iff not_None_eq old.prod.exhaust)
  show ?thesis
  proof (cases k)
    case MEMBER
    with level_step [OF assms(1) look] obtain m s' where
      m: "s = Some m" "map_of n m = Some (s', LEADER)" by auto
    with look MEMBER have "m \<noteq> a" by auto
    with m look MEMBER assms(1) show ?thesis
      by (auto simp: climb.simps(2) [of n "[]" a] intro!: climb_leader)
  qed (use assms look in \<open>auto intro: climb_manager climb_leader\<close>)
qed

lemma kinded_raw:
  "\<forall>e \<in> set edges. \<exists>k. snd (snd e) = kind_value k \<Longrightarrow> \<exists>n. edges = raw n"
proof (induction edges)
  case (Cons e edges)
  then obtain n k where "edges = raw n" and "snd (snd e) = kind_value k" by auto
  then have "e # edges = raw ((fst e, fst (snd e), k) # n)"
    by (simp add: raw_def prod_eq_iff)
  then show ?case by blast
qed (simp add: raw_def)

lemma validate_iff:
  assumes "dict_ok edges"
  shows "validate_structure edges = Inr () \<longleftrightarrow> three_level edges"
proof
  assume "validate_structure edges = Inr ()"
  then obtain n where n: "edges = raw n" and "each (check_edge n) n = Inr ()"
    by (auto simp: validate_structure_def rbind_Inr_iff normalize_raw)
  with assms show "three_level edges"
    by (simp add: three_level_checks dict_ok_def)
next
  assume lev: "three_level edges"
  have "edge_level_ok edges s k \<Longrightarrow> \<exists>k'. k = kind_value k'" for s k
    unfolding edge_level_ok_def by (metis kind_value.simps)
  with lev have "\<forall>e \<in> set edges. \<exists>k. snd (snd e) = kind_value k"
    unfolding three_level_def by fastforce
  then obtain n where "edges = raw n" using kinded_raw by blast
  from this assms lev have "each (check_edge n) n = Inr ()"
    by (simp add: three_level_checks dict_ok_def)
  moreover have "each (\<lambda>(a, _). climb n [] (Some a)) n = Inr ()"
    using lev \<open>edges = raw n\<close> by (force simp: each_Inr_iff intro: climb_ok)
  moreover have "collect normalize_edge edges = Inr n"
    using \<open>edges = raw n\<close> by (simp only: normalize_raw)
  ultimately show "validate_structure edges = Inr ()"
    by (simp add: validate_structure_def)
qed

subsection \<open>The accounts a change affects\<close>

definition reports_of :: "raw_edges \<Rightarrow> string set \<Rightarrow> string set" where
  "reports_of edges affected =
     set (map fst (filter (\<lambda>(account_id, superior_id, kind).
       case superior_id of None \<Rightarrow> False | Some s \<Rightarrow> s \<in> affected) edges))"

function affected_loop :: "raw_edges \<Rightarrow> string set \<Rightarrow> string set" where
  "affected_loop edges affected =
     (let descendants = reports_of edges affected;
          expanded = affected \<union> descendants
      in if expanded = affected then affected else affected_loop edges expanded)"
  by pat_completeness auto
termination
proof (relation "measure (\<lambda>(edges, affected). card (fst ` set edges - affected))")
  fix edges :: raw_edges and affected d x
  assume d: "d = reports_of edges affected" and x: "x = affected \<union> d" and "x \<noteq> affected"
  then obtain a where a: "a \<in> d" "a \<notin> affected" by auto
  with d have "a \<in> fst ` set edges" by (force simp: reports_of_def)
  with a x have "fst ` set edges - x \<subset> fst ` set edges - affected" by auto
  then show "((edges, x), (edges, affected))
      \<in> measure (\<lambda>(edges, affected). card (fst ` set edges - affected))"
    by (simp add: psubset_card_mono)
qed simp

declare affected_loop.simps [simp del]

definition affected_accounts :: "raw_edges \<Rightarrow> string \<Rightarrow> string list" where
  "affected_accounts edges target_id = sorted_list_of_set (affected_loop edges {target_id})"

definition reporting :: "raw_edges \<Rightarrow> (string \<times> string) set" where
  "reporting edges = {(s, a). \<exists>k. (a, Some s, k) \<in> set edges}"

lemma reports_of_reporting: "reports_of edges A = reporting edges `` A"
  by (force simp: reports_of_def reporting_def split: option.splits)

lemma affected_loop_rtrancl: "affected_loop edges A = (reporting edges)\<^sup>* `` A"
proof (induction edges A rule: affected_loop.induct)
  case (1 edges A)
  let ?R = "reporting edges" and ?X = "A \<union> reports_of edges A"
  have step: "?R\<^sup>* `` ?X = ?R\<^sup>* `` A"
    by (auto simp: reports_of_reporting intro: converse_rtrancl_into_rtrancl)
  show ?case
  proof (cases "?X = A")
    case True
    then have "?R `` A \<subseteq> A" by (auto simp: reports_of_reporting)
    then have "?R\<^sup>* `` A = A" by (rule Image_closed_trancl)
    with True show ?thesis by (subst affected_loop.simps) (simp add: Let_def)
  next
    case False
    with "1" step show ?thesis by (subst affected_loop.simps) (simp add: Let_def)
  qed
qed

lemma affected_loop_finite: "finite A \<Longrightarrow> finite (affected_loop edges A)"
  by (induction edges A rule: affected_loop.induct, subst affected_loop.simps)
    (simp add: Let_def reports_of_def)

lemma set_affected_accounts:
  "set (affected_accounts edges t) = (reporting edges)\<^sup>* `` {t}"
  by (simp add: affected_accounts_def affected_loop_finite affected_loop_rtrancl [symmetric])

end
