(* ===== verification/Org_Commands.thy ===== *)
theory Org_Commands
  imports Org_Structure
begin

section \<open>The organization module: commands\<close>

text \<open>
  \<^verbatim>\<open>organization/application/commands.py\<close> over the edge table of
  \<^verbatim>\<open>organization/adapters/sqlalchemy.py\<close>. The advisory lock of \<open>lock_structure\<close> serialises the
  callers, so a command is one step on the table; the identity lookup, the clock, the random
  source and the membership callback are parameters (\<open>org_env\<close>).
\<close>

record org_account_view =
  ov_id :: string
  ov_employee_no :: string
  ov_display_name :: string
  ov_status :: string
  ov_initialized :: bool

record org_edge_row =
  er_account :: string
  er_superior :: "string option"
  er_kind :: string
  er_created_at :: instant
  er_updated_at :: instant

record org_db =
  od_edges :: "org_edge_row list"
  od_audit :: audit_log

record org_env =
  identity_get :: "string \<Rightarrow> org_account_view option"
  org_now :: instant
  org_uuid4 :: "nat \<Rightarrow> string"
  on_membership_change :: "string list \<Rightarrow> bool"
  org_request_id :: "string option"

record org_actor =
  oa_account_id :: "string option"
  oa_employee_id :: "string option"

subsection \<open>The edge table\<close>

definition all_edges :: "org_db \<Rightarrow> org_edge_row list" where
  "all_edges db = sort_key er_account (od_edges db)"

definition upsert_edge ::
  "string \<Rightarrow> string option \<Rightarrow> string \<Rightarrow> instant \<Rightarrow> org_db \<Rightarrow> org_db" where
  "upsert_edge account_id superior_id kind now db = db\<lparr>od_edges :=
     (if account_id \<in> er_account ` set (od_edges db)
      then set_where (\<lambda>r. er_account r = account_id)
             (\<lambda>r. r\<lparr>er_superior := superior_id, er_kind := kind, er_updated_at := now\<rparr>) (od_edges db)
      else od_edges db @ [\<lparr>er_account = account_id, er_superior = superior_id, er_kind = kind,
             er_created_at = now, er_updated_at = now\<rparr>])\<rparr>"

definition edges_of :: "org_db \<Rightarrow> raw_edges" where
  "edges_of db = dict_of_rows er_account (\<lambda>r. (er_superior r, er_kind r)) (all_edges db)"

definition org_db_ok :: "org_db \<Rightarrow> bool" where
  "org_db_ok db \<longleftrightarrow> distinct (map er_account (od_edges db))"

lemma edges_of_map:
  assumes "org_db_ok db"
  shows "map_of (edges_of db) a
    = map_option (\<lambda>r. (er_superior r, er_kind r)) (row_by er_account a (od_edges db))"
proof -
  have "distinct (map er_account (all_edges db))"
    using assms by (simp add: all_edges_def org_db_ok_def distinct_map)
  then have "edges_of db = map (\<lambda>r. (er_account r, er_superior r, er_kind r)) (all_edges db)"
    by (simp add: edges_of_def dict_of_rows_distinct)
  then show ?thesis
    using assms by (simp add: map_of_rows all_edges_def row_by_sorted org_db_ok_def)
qed

lemma dict_ok_edges [simp]: "dict_ok (edges_of db)"
  by (simp add: edges_of_def)

lemma upsert_edge_ok: "org_db_ok db \<Longrightarrow> org_db_ok (upsert_edge a s k now db)"
  by (auto simp: org_db_ok_def upsert_edge_def)

lemma upsert_edge_same:
  "\<exists>r. row_by er_account a (od_edges (upsert_edge a s k now db)) = Some r
     \<and> er_superior r = s \<and> er_kind r = k"
proof (cases "row_by er_account a (od_edges db)")
  case None
  then show ?thesis by (auto simp: upsert_edge_def row_simps row_by_None)
next
  case (Some r)
  then have "er_account r = a" and "a \<in> er_account ` set (od_edges db)"
    using row_by_Some [OF Some] by auto
  with Some show ?thesis by (simp add: upsert_edge_def row_simps)
qed

lemma upsert_edge_other:
  "b \<noteq> a \<Longrightarrow> row_by er_account b (od_edges (upsert_edge a s k now db))
     = row_by er_account b (od_edges db)"
proof (cases "row_by er_account b (od_edges db)")
  case (Some r)
  from row_by_Some [OF Some] have "er_account r = b" by simp
  moreover assume "b \<noteq> a"
  ultimately show ?thesis using Some by (auto simp: upsert_edge_def row_simps)
qed (auto simp: upsert_edge_def row_simps)

lemma upsert_edge_map:
  assumes "org_db_ok db"
  shows "map_of (edges_of (upsert_edge a s k now db)) = (map_of (edges_of db))(a \<mapsto> (s, k))"
proof
  fix b
  show "map_of (edges_of (upsert_edge a s k now db)) b
      = ((map_of (edges_of db))(a \<mapsto> (s, k))) b"
    using upsert_edge_same [of a s k now db] upsert_edge_other [of b a s k now db]
      upsert_edge_ok [OF assms, of a s k now] assms
    by (auto simp: edges_of_map)
qed

subsection \<open>set_superior\<close>

definition actor_id :: "org_actor \<Rightarrow> (org_error, string) res" where
  "actor_id actor =
     (case oa_account_id actor of
        Some (c # cs) \<Rightarrow> Inr (c # cs)
      | _ \<Rightarrow> (case oa_employee_id actor of
                Some (c # cs) \<Rightarrow> Inr (c # cs)
              | _ \<Rightarrow> Inl ActorWithoutId))"

definition is_effective :: "org_account_view option \<Rightarrow> bool" where
  "is_effective account =
     (case account of None \<Rightarrow> False | Some v \<Rightarrow> ov_status v = ''ENABLED'' \<and> ov_initialized v)"

definition or_none :: "string option \<Rightarrow> string" where
  "or_none s = (case s of None \<Rightarrow> ''none'' | Some x \<Rightarrow> if x = [] then ''none'' else x)"

definition structure_audit ::
  "org_env \<Rightarrow> string \<Rightarrow> string option \<Rightarrow> org_kind \<Rightarrow> (string option \<times> string) option \<Rightarrow> string
   \<Rightarrow> string \<Rightarrow> audit_envelope" where
  "structure_audit env account_id superior_id kind previous reason audit_actor =
     (let old_summary = (case previous of None \<Rightarrow> ''absent''
                         | Some (s, k) \<Rightarrow> k @ '':'' @ or_none s);
          new_summary = kind_value kind @ '':'' @ or_none superior_id
      in \<lparr>ae_id = org_uuid4 env 0,
          ae_occurred_at = org_now env,
          ae_actor = audit_actor,
          ae_actor_type = (if audit_actor \<noteq> ''SYSTEM'' then ''HUMAN'' else ''SYSTEM''),
          ae_action = ''organization.structure.changed'',
          ae_target_type = ''ACCOUNT'',
          ae_target_id = account_id,
          ae_result = ''SUCCESS'',
          ae_reason = Some (reason @ ''; old='' @ old_summary @ ''; new='' @ new_summary),
          ae_correlation_id = (case org_request_id env of
             Some (c # cs) \<Rightarrow> c # cs | _ \<Rightarrow> org_uuid4 env 1),
          ae_request_id = None,
          ae_schema_version = 1\<rparr>)"

definition new_kind :: "raw_edges \<Rightarrow> string option \<Rightarrow> (org_error, org_kind) res" where
  "new_kind edges superior_id =
     (case superior_id of
        None \<Rightarrow> derive_kind None
      | Some s \<Rightarrow>
          (case map_of edges s of
             None \<Rightarrow> Inl (InvalidStructure ''superior must already belong to the organization'')
           | Some (_, k) \<Rightarrow> derive_kind (Some k)))"

definition set_superior ::
  "org_env \<Rightarrow> string \<Rightarrow> string option \<Rightarrow> org_actor \<Rightarrow> string \<Rightarrow> org_db \<Rightarrow> (org_error, org_db) res"
  where
  "set_superior env account_id superior_id actor reason db =
     (if \<not> is_effective (identity_get env account_id)
      then Inl (InvalidParticipant ''target account is not enabled and initialized'')
      else if (case superior_id of None \<Rightarrow> False | Some s \<Rightarrow> \<not> is_effective (identity_get env s))
      then Inl (InvalidParticipant ''superior account is not enabled and initialized'')
      else
        let edges = edges_of db;
            previous = map_of edges account_id
        in rbind (new_kind edges superior_id) (\<lambda>kind.
           let proposed = AList.update account_id (superior_id, kind_value kind) edges
           in rbind (validate_structure proposed) (\<lambda>_.
              if previous = Some (superior_id, kind_value kind) then Inr db
              else
                let db1 = upsert_edge account_id superior_id (kind_value kind) (org_now env) db
                in rbind (actor_id actor) (\<lambda>audit_actor.
                   let entry = structure_audit env account_id superior_id kind previous reason
                                 audit_actor;
                       db2 = db1\<lparr>od_audit :=
                               record_in_transaction (org_request_id env) entry (od_audit db1)\<rparr>
                   in if on_membership_change env (affected_accounts proposed account_id)
                      then Inr db2 else Inl MembershipChangeFailed))))"

subsection \<open>The stored structure stays valid\<close>

definition org_inv :: "org_db \<Rightarrow> bool" where
  "org_inv db \<longleftrightarrow> org_db_ok db \<and> three_level (edges_of db)"

lemma edge_level_ok_cong: "map_of e = map_of e' \<Longrightarrow> edge_level_ok e s k = edge_level_ok e' s k"
  by (simp add: edge_level_ok_def)

lemma three_level_map:
  "dict_ok e \<Longrightarrow> three_level e \<longleftrightarrow> (\<forall>a s k. map_of e a = Some (s, k) \<longrightarrow> edge_level_ok e s k)"
  by (auto simp: three_level_def map_of_dict)

lemma three_level_cong:
  "dict_ok e \<Longrightarrow> dict_ok e' \<Longrightarrow> map_of e = map_of e' \<Longrightarrow> three_level e \<longleftrightarrow> three_level e'"
  using edge_level_ok_cong [of e e'] by (simp add: three_level_map)

lemma od_audit_upsert [simp]: "od_audit (upsert_edge a s k now db) = od_audit db"
  by (simp add: upsert_edge_def)

lemma set_superior_result:
  assumes "set_superior env a s actor reason db = Inr db'"
  obtains (unchanged) k where "db' = db" "map_of (edges_of db) a = Some (s, kind_value k)"
  | (changed) k who where
      "new_kind (edges_of db) s = Inr k"
      "validate_structure (AList.update a (s, kind_value k) (edges_of db)) = Inr ()"
      "map_of (edges_of db) a \<noteq> Some (s, kind_value k)"
      "db' = (upsert_edge a s (kind_value k) (org_now env) db)\<lparr>od_audit :=
         record_in_transaction (org_request_id env)
            (structure_audit env a s k (map_of (edges_of db) a) reason who) (od_audit db)\<rparr>"
      "on_membership_change env
         (affected_accounts (AList.update a (s, kind_value k) (edges_of db)) a)"
proof -
  let ?p = "\<lambda>k. AList.update a (s, kind_value k) (edges_of db)"
  let ?finish = "\<lambda>k who. if on_membership_change env (affected_accounts (?p k) a)
        then Inr ((upsert_edge a s (kind_value k) (org_now env) db)\<lparr>od_audit :=
          record_in_transaction (org_request_id env)
            (structure_audit env a s k (map_of (edges_of db) a) reason who) (od_audit db)\<rparr>)
        else Inl MembershipChangeFailed"
  from assms have "rbind (new_kind (edges_of db) s) (\<lambda>k. rbind (validate_structure (?p k)) (\<lambda>_.
      if map_of (edges_of db) a = Some (s, kind_value k) then Inr db
      else rbind (actor_id actor) (?finish k))) = Inr db'"
    unfolding set_superior_def Let_def od_audit_upsert by (simp split: if_splits)
  then obtain k where k: "new_kind (edges_of db) s = Inr k"
    and "rbind (validate_structure (?p k)) (\<lambda>_.
      if map_of (edges_of db) a = Some (s, kind_value k) then Inr db
      else rbind (actor_id actor) (?finish k)) = Inr db'"
    by (rule rbind_InrE)
  then obtain u where "validate_structure (?p k) = Inr u"
    and rest: "(if map_of (edges_of db) a = Some (s, kind_value k) then Inr db
      else rbind (actor_id actor) (?finish k)) = Inr db'"
    by - (rule rbind_InrE)
  then have valid: "validate_structure (?p k) = Inr ()" by simp
  show thesis
  proof (cases "map_of (edges_of db) a = Some (s, kind_value k)")
    case True
    with rest show thesis by (intro unchanged) auto
  next
    case False
    with rest have "rbind (actor_id actor) (?finish k) = Inr db'" by simp
    then obtain who where "?finish k who = Inr db'" by (rule rbind_InrE)
    then show thesis
      by (intro changed [OF k valid False, of who]) (simp_all split: if_splits)
  qed
qed

lemma edges_of_audit [simp]: "edges_of (db\<lparr>od_audit := x\<rparr>) = edges_of db"
  by (simp add: edges_of_def all_edges_def)

lemma org_db_ok_audit [simp]: "org_db_ok (db\<lparr>od_audit := x\<rparr>) = org_db_ok db"
  by (simp add: org_db_ok_def)

lemma set_superior_keeps:
  assumes "org_db_ok db" and "set_superior env a s actor reason db = Inr db'"
  shows "org_db_ok db' \<and> (db' = db \<or> three_level (edges_of db'))"
  using assms(2)
proof (cases rule: set_superior_result)
  case (changed k who)
  let ?p = "AList.update a (s, kind_value k) (edges_of db)"
  have "dict_ok ?p" by (rule dict_ok_update) simp
  with changed(2) have "three_level ?p" by (simp add: validate_iff)
  moreover have "map_of (edges_of db') = map_of ?p"
    using changed(4) assms(1) by (simp add: upsert_edge_map)
  ultimately show ?thesis
    using three_level_cong [of "edges_of db'" ?p] \<open>dict_ok ?p\<close> changed(4) assms(1)
    by (simp add: upsert_edge_ok)
qed (use assms in simp)

end
