(* ===== verification/Org_Queries.thy ===== *)
theory Org_Queries
  imports Org_Commands
begin

section \<open>The organization module: queries\<close>

text \<open>
  \<^verbatim>\<open>organization/application/queries.py\<close>: the validated edges, the three-level tree, an
  effective leader's direct reports and the reporting context a reviewer is routed by. The JSON
  text and hash of the reporting facts are the standard library's (\<open>facts_digest\<close>).
\<close>

record account_ref =
  ref_id :: string
  ref_employee_no :: string
  ref_display_name :: string

datatype leader_node = LeaderNode account_ref "account_ref list"
datatype manager_node = ManagerNode account_ref "leader_node list"

definition account_ref_of :: "org_account_view \<Rightarrow> account_ref" where
  "account_ref_of v = \<lparr>ref_id = ov_id v, ref_employee_no = ov_employee_no v,
     ref_display_name = ov_display_name v\<rparr>"

definition ref_sort_key :: "account_ref \<Rightarrow> string \<times> string" where
  "ref_sort_key r = (ref_employee_no r, ref_id r)"

definition valid_edges :: "org_db \<Rightarrow> (org_error, raw_edges) res" where
  "valid_edges db =
     (case validate_structure (edges_of db) of
        Inl _ \<Rightarrow> Inl (CorruptStructure ''stored organization hierarchy is invalid'')
      | Inr _ \<Rightarrow> Inr (edges_of db))"

subsection \<open>get_tree\<close>

definition load_accounts ::
  "org_env \<Rightarrow> raw_edges \<Rightarrow> (org_error, (string, account_ref) dict) res" where
  "load_accounts env edges = collect (\<lambda>(account_id, _).
     (case identity_get env account_id of
        Some v \<Rightarrow>
          if is_effective (Some v) then Inr (account_id, account_ref_of v)
          else Inl (CorruptStructure ''organization participant is not effective'')
      | None \<Rightarrow> Inl (CorruptStructure ''organization participant is not effective''))) edges"

definition sorted_refs ::
  "(string, account_ref) dict \<Rightarrow> string list \<Rightarrow> (org_error, (string \<times> account_ref) list) res" where
  "sorted_refs accounts ids =
     rbind (collect (\<lambda>i. rbind (of_option (OrgKeyError i) (map_of accounts i)) (\<lambda>r. Inr (i, r))) ids)
       (\<lambda>refs. Inr (sort_key (\<lambda>(i, r). ref_sort_key r) refs))"

definition ids_of_kind :: "raw_edges \<Rightarrow> string \<Rightarrow> string list" where
  "ids_of_kind edges kind = map fst (filter (\<lambda>(a, s, k). k = kind) edges)"

definition ids_under :: "raw_edges \<Rightarrow> string \<Rightarrow> string \<Rightarrow> string list" where
  "ids_under edges superior kind =
     map fst (filter (\<lambda>(a, s, k). k = kind \<and> s = Some superior) edges)"

definition leader_node_of ::
  "(string, account_ref) dict \<Rightarrow> raw_edges \<Rightarrow> string \<times> account_ref \<Rightarrow> (org_error, leader_node) res"
  where
  "leader_node_of accounts edges l =
     rbind (sorted_refs accounts (ids_under edges (fst l) ''MEMBER'')) (\<lambda>members.
       Inr (LeaderNode (snd l) (map snd members)))"

definition manager_node_of ::
  "(string, account_ref) dict \<Rightarrow> raw_edges \<Rightarrow> string \<times> account_ref \<Rightarrow> (org_error, manager_node) res"
  where
  "manager_node_of accounts edges m =
     rbind (sorted_refs accounts (ids_under edges (fst m) ''LEADER'')) (\<lambda>leaders.
     rbind (collect (leader_node_of accounts edges) leaders) (\<lambda>nodes.
       Inr (ManagerNode (snd m) nodes)))"

definition get_tree :: "org_env \<Rightarrow> org_db \<Rightarrow> (org_error, manager_node list) res" where
  "get_tree env db =
     rbind (valid_edges db) (\<lambda>edges.
     rbind (load_accounts env edges) (\<lambda>accounts.
     rbind (sorted_refs accounts (ids_of_kind edges ''MANAGER'')) (\<lambda>managers.
       collect (manager_node_of accounts edges) managers)))"

subsection \<open>direct_reports, is_effective_leader, reporting_context\<close>

definition is_effective_leader :: "org_env \<Rightarrow> string \<Rightarrow> org_db \<Rightarrow> (org_error, bool) res" where
  "is_effective_leader env leader_id db =
     rbind (valid_edges db) (\<lambda>edges.
       Inr (case map_of edges leader_id of
              None \<Rightarrow> False
            | Some (_, k) \<Rightarrow> k = ''LEADER'' \<and> is_effective (identity_get env leader_id)))"

definition effective_refs :: "org_env \<Rightarrow> string list \<Rightarrow> account_ref list" where
  "effective_refs env ids =
     List.map_filter (\<lambda>i. case identity_get env i of
        Some v \<Rightarrow> if is_effective (Some v) then Some (account_ref_of v) else None
      | None \<Rightarrow> None) ids"

definition direct_reports :: "org_env \<Rightarrow> string \<Rightarrow> org_db \<Rightarrow> (org_error, account_ref list) res" where
  "direct_reports env leader_id db =
     rbind (valid_edges db) (\<lambda>edges.
       if (case map_of edges leader_id of None \<Rightarrow> True | Some (_, k) \<Rightarrow> k \<noteq> ''LEADER'')
          \<or> \<not> is_effective (identity_get env leader_id)
       then Inl (CorruptStructure ''direct-report owner is not an effective leader'')
       else Inr (sort_key ref_sort_key (effective_refs env (ids_under edges leader_id ''MEMBER''))))"

record reporting_participant =
  rp_account_id :: string
  rp_superior_id :: "string option"
  rp_kind :: string
  rp_employee_no :: string
  rp_display_name :: string
  rp_status :: string
  rp_initialized :: bool

record reporting_context =
  rc_account_id :: string
  rc_kind :: string
  rc_reviewer_id :: string
  rc_participants :: "reporting_participant list"
  rc_facts_hash :: string

text \<open>The recursive query: the account's row, then its superior's, at most three rows.\<close>

fun reporting_rows :: "nat \<Rightarrow> string \<Rightarrow> org_db \<Rightarrow> org_edge_row list" where
  "reporting_rows 0 account_id db = []"
| "reporting_rows (Suc depth) account_id db =
     (case row_by er_account account_id (od_edges db) of
        None \<Rightarrow> []
      | Some r \<Rightarrow> r # (case er_superior r of
                        None \<Rightarrow> [] | Some s \<Rightarrow> reporting_rows depth s db))"

definition reporting_edges :: "string \<Rightarrow> org_db \<Rightarrow> org_edge_row list" where
  "reporting_edges account_id db = reporting_rows 3 account_id db"

definition participant_of ::
  "org_env \<Rightarrow> raw_edges \<Rightarrow> string \<Rightarrow> (org_error, reporting_participant) res" where
  "participant_of env edges participant_id =
     (case (identity_get env participant_id, map_of edges participant_id) of
        (Some v, Some (superior, kind)) \<Rightarrow>
          if is_effective (Some v) \<and> ov_id v = participant_id
          then Inr \<lparr>rp_account_id = participant_id, rp_superior_id = superior, rp_kind = kind,
                 rp_employee_no = ov_employee_no v, rp_display_name = ov_display_name v,
                 rp_status = ov_status v, rp_initialized = ov_initialized v\<rparr>
          else Inl (CorruptStructure ''reporting participant is not effective'')
      | (None, _) \<Rightarrow> Inl (CorruptStructure ''reporting participant is not effective'')
      | (Some _, None) \<Rightarrow> Inl (OrgKeyError participant_id))"

definition reporting_context_of ::
  "(string \<Rightarrow> string \<Rightarrow> string \<Rightarrow> reporting_participant list \<Rightarrow> string) \<Rightarrow> org_env \<Rightarrow> string \<Rightarrow> org_db
   \<Rightarrow> (org_error, reporting_context) res" where
  "reporting_context_of facts_digest env account_id db =
     (let rows = reporting_edges account_id db;
          edges = dict_of_rows er_account (\<lambda>r. (er_superior r, er_kind r)) rows
      in if length edges \<noteq> length rows \<or> map_of edges account_id = None
         then Inl (CorruptStructure ''missing or ambiguous reporting path'')
         else (case validate_structure edges of
            Inl _ \<Rightarrow> Inl (CorruptStructure ''invalid reporting path'')
          | Inr _ \<Rightarrow>
             (case map_of edges account_id of
                None \<Rightarrow> Inl (OrgKeyError account_id)
              | Some (superior_id, kind) \<Rightarrow>
                  if kind \<noteq> ''MEMBER'' \<and> kind \<noteq> ''LEADER''
                  then Inl (CorruptStructure ''unsupported reviewer routing context'')
                  else rbind (collect (participant_of env edges) (sort (map fst edges)))
                    (\<lambda>participants.
                      let reviewer_id = (if kind = ''MEMBER''
                            then (case superior_id of Some s \<Rightarrow> s | None \<Rightarrow> ''None'')
                            else account_id)
                      in Inr \<lparr>rc_account_id = account_id, rc_kind = kind,
                           rc_reviewer_id = reviewer_id, rc_participants = participants,
                           rc_facts_hash = ''sha256:'' @
                             facts_digest account_id kind reviewer_id participants\<rparr>))))"

subsection \<open>The tree holds every account once\<close>

fun leader_ids :: "leader_node \<Rightarrow> string list" where
  "leader_ids (LeaderNode l ms) = ref_id l # map ref_id ms"

fun manager_ids :: "manager_node \<Rightarrow> string list" where
  "manager_ids (ManagerNode m ls) = ref_id m # concat (map leader_ids ls)"

definition tree_ids :: "manager_node list \<Rightarrow> string list" where
  "tree_ids t = concat (map manager_ids t)"

definition identity_faithful :: "org_env \<Rightarrow> bool" where
  "identity_faithful env \<longleftrightarrow> (\<forall>i v. identity_get env i = Some v \<longrightarrow> ov_id v = i)"

definition ids_match :: "(string, account_ref) dict \<Rightarrow> bool" where
  "ids_match accounts \<longleftrightarrow> (\<forall>i r. map_of accounts i = Some r \<longrightarrow> ref_id r = i)"

lemma load_accounts_match:
  assumes "identity_faithful env" and "load_accounts env edges = Inr accounts"
  shows "ids_match accounts"
  using assms(2) unfolding ids_match_def load_accounts_def
proof (induction edges arbitrary: accounts)
  case (Cons e edges)
  then show ?case using assms(1)
    by (auto simp: rbind_Inr_iff identity_faithful_def account_ref_of_def
        split: option.splits if_splits prod.splits)
qed simp

lemma sorted_refs_ids:
  assumes "ids_match accounts" and "sorted_refs accounts ids = Inr refs"
  shows "mset (map fst refs) = mset ids \<and> map ref_id (map snd refs) = map fst refs"
proof -
  let ?look = "\<lambda>i. rbind (of_option (OrgKeyError i) (map_of accounts i)) (\<lambda>r. Inr (i, r))"
  obtain raws where raws: "collect ?look ids = Inr raws"
    and refs: "refs = sort_key (\<lambda>(i, r). ref_sort_key r) raws"
    using assms(2) by (auto simp: sorted_refs_def rbind_Inr_iff)
  from raws have keys: "map fst raws = ids"
  proof (induction ids arbitrary: raws)
    case (Cons i ids)
    then show ?case by (auto simp: rbind_Inr_iff of_option_Inr_iff)
  qed simp
  from raws have "\<forall>(i, r) \<in> set raws. ref_id r = i"
  proof (induction ids arbitrary: raws)
    case (Cons i ids)
    then show ?case using assms(1)
      by (auto simp: rbind_Inr_iff of_option_Inr_iff ids_match_def)
  qed simp
  then have "map ref_id (map snd refs) = map fst refs"
    by (auto simp: refs)
  moreover have "mset (map fst refs) = mset ids"
    by (simp add: refs keys [symmetric])
  ultimately show ?thesis by simp
qed

lemma leader_node_ids:
  assumes "ids_match accounts" and "leader_node_of accounts edges l = Inr node"
  shows "mset (leader_ids node)
    = add_mset (ref_id (snd l)) (mset (ids_under edges (fst l) ''MEMBER''))"
proof -
  obtain ms where "sorted_refs accounts (ids_under edges (fst l) ''MEMBER'') = Inr ms"
    and "node = LeaderNode (snd l) (map snd ms)"
    using assms(2) by (auto simp: leader_node_of_def rbind_Inr_iff)
  with sorted_refs_ids [OF assms(1)] show ?thesis
    by (metis leader_ids.simps mset.simps(2))
qed

lemma collect_mset:
  assumes "collect f xs = Inr ys" and "\<And>x y. x \<in> set xs \<Longrightarrow> f x = Inr y \<Longrightarrow> mset (g y) = h x"
  shows "mset (concat (map g ys)) = sum_list (map h xs)"
  using assms
proof (induction xs arbitrary: ys)
  case (Cons x xs)
  from Cons.prems(1) obtain y zs where "f x = Inr y" "collect f xs = Inr zs" "ys = y # zs"
    by (auto simp: rbind_Inr_iff)
  with Cons.IH [of zs] Cons.prems(2) show ?case by auto
qed simp

lemma sum_list_add_mset:
  "sum_list (map (\<lambda>x. add_mset (a x) (M x)) xs) = mset (map a xs) + sum_list (map M xs)"
  by (induction xs) simp_all

lemma sum_list_perm:
  "mset xs = mset ys \<Longrightarrow> sum_list (map (h :: 'a \<Rightarrow> 'b multiset) xs) = sum_list (map h ys)"
  by (metis mset_map sum_mset_sum_list)

lemma manager_node_ids:
  assumes "ids_match accounts" and "manager_node_of accounts edges m = Inr node"
  shows "mset (manager_ids node) = add_mset (ref_id (snd m))
    (mset (ids_under edges (fst m) ''LEADER'')
      + sum_list (map (\<lambda>l. mset (ids_under edges l ''MEMBER''))
          (ids_under edges (fst m) ''LEADER'')))"
proof -
  obtain ls nodes where ls: "sorted_refs accounts (ids_under edges (fst m) ''LEADER'') = Inr ls"
    and nodes: "collect (leader_node_of accounts edges) ls = Inr nodes"
    and node: "node = ManagerNode (snd m) nodes"
    using assms(2) by (auto simp: manager_node_of_def rbind_Inr_iff)
  from sorted_refs_ids [OF assms(1) ls] have
    keys: "mset (map fst ls) = mset (ids_under edges (fst m) ''LEADER'')"
    and ids: "map ref_id (map snd ls) = map fst ls" by auto
  have "mset (concat (map leader_ids nodes))
      = sum_list (map (\<lambda>l. add_mset (ref_id (snd l)) (mset (ids_under edges (fst l) ''MEMBER''))) ls)"
    by (rule collect_mset [OF nodes]) (rule leader_node_ids [OF assms(1)])
  also have "\<dots> = mset (map (\<lambda>l. ref_id (snd l)) ls)
      + sum_list (map (\<lambda>l. mset (ids_under edges (fst l) ''MEMBER'')) ls)"
    by (rule sum_list_add_mset)
  also have "map (\<lambda>l. ref_id (snd l)) ls = map fst ls"
    using ids by (simp only: map_map o_def)
  also have "mset (map fst ls) = mset (ids_under edges (fst m) ''LEADER'')" by (rule keys)
  also have "sum_list (map (\<lambda>l. mset (ids_under edges (fst l) ''MEMBER'')) ls)
      = sum_list (map (\<lambda>l. mset (ids_under edges l ''MEMBER'')) (map fst ls))"
    by (simp add: o_def)
  also have "\<dots> = sum_list (map (\<lambda>l. mset (ids_under edges l ''MEMBER''))
      (ids_under edges (fst m) ''LEADER''))"
    by (rule sum_list_perm [OF keys])
  finally show ?thesis by (simp add: node)
qed

text \<open>Grouping a list by the values of a function.\<close>

lemma group_by:
  assumes "distinct ms"
  shows "sum_list (map (\<lambda>m. mset (filter (\<lambda>e. P e \<and> f e = Some m) es)) ms)
    = mset (filter (\<lambda>e. P e \<and> (\<exists>m \<in> set ms. f e = Some m)) es)"
  using assms
proof (induction ms)
  case (Cons m ms)
  have "mset (filter (\<lambda>e. P e \<and> f e = Some m) es)
      + mset (filter (\<lambda>e. P e \<and> (\<exists>m \<in> set ms. f e = Some m)) es)
      = mset (filter (\<lambda>e. P e \<and> (\<exists>m \<in> set (m # ms). f e = Some m)) es)"
    using Cons.prems by (induction es) auto
  with Cons show ?case by simp
qed simp

lemma ids_under_group:
  assumes "distinct ms"
    and "\<And>a s. (a, s, kind) \<in> set edges \<Longrightarrow> \<exists>m \<in> set ms. s = Some m"
  shows "sum_list (map (\<lambda>m. mset (ids_under edges m kind)) ms) = mset (ids_of_kind edges kind)"
proof -
  let ?F = "\<lambda>m. mset (filter (\<lambda>e. snd (snd e) = kind \<and> fst (snd e) = Some m) edges)"
  have "sum_list (map (\<lambda>m. mset (ids_under edges m kind)) ms)
      = sum_list (map (\<lambda>m. image_mset fst (?F m)) ms)"
    by (simp add: ids_under_def case_prod_beta)
  also have "\<dots> = image_mset fst (sum_list (map ?F ms))"
    by (induction ms) simp_all
  also have "sum_list (map ?F ms)
      = mset (filter (\<lambda>e. snd (snd e) = kind \<and> (\<exists>m \<in> set ms. fst (snd e) = Some m)) edges)"
    by (rule group_by [OF assms(1)])
  also have "filter (\<lambda>e. snd (snd e) = kind \<and> (\<exists>m \<in> set ms. fst (snd e) = Some m)) edges
      = filter (\<lambda>e. snd (snd e) = kind) edges"
    using assms(2) by (intro filter_cong) auto
  finally show ?thesis by (simp add: ids_of_kind_def case_prod_beta)
qed

lemma kinds_partition:
  assumes "three_level edges"
  shows "mset (map fst edges) = mset (ids_of_kind edges ''MANAGER'')
    + (mset (ids_of_kind edges ''LEADER'') + mset (ids_of_kind edges ''MEMBER''))"
proof -
  have "\<forall>e \<in> set edges. snd (snd e) \<in> {''MANAGER'', ''LEADER'', ''MEMBER''}"
    using assms by (fastforce simp: three_level_def edge_level_ok_def)
  then show ?thesis
    unfolding ids_of_kind_def case_prod_beta by (induction edges) auto
qed

lemma distinct_ids_of_kind: "dict_ok edges \<Longrightarrow> distinct (ids_of_kind edges k)"
  by (simp add: ids_of_kind_def dict_ok_def distinct_map_filter)

lemma kind_lookup:
  "dict_ok edges \<Longrightarrow> map_of edges m = Some (s, k) \<Longrightarrow> m \<in> set (ids_of_kind edges k)"
  by (force simp: ids_of_kind_def dest: map_of_SomeD)

lemma valid_edges_Inr:
  "valid_edges db = Inr edges \<Longrightarrow> edges = edges_of db \<and> three_level edges"
  by (auto simp: valid_edges_def validate_iff split: sum.splits)

lemma superior_listed:
  assumes "three_level edges" and "dict_ok edges"
  shows "(a, s, ''LEADER'') \<in> set edges \<Longrightarrow> \<exists>m \<in> set (ids_of_kind edges ''MANAGER''). s = Some m"
    and "(a, s, ''MEMBER'') \<in> set edges \<Longrightarrow> \<exists>m \<in> set (ids_of_kind edges ''LEADER''). s = Some m"
  using assms kind_lookup [OF assms(2)]
  by (fastforce simp: three_level_def edge_level_ok_def)+

lemma tree_ids_edges:
  assumes "identity_faithful env" and "get_tree env db = Inr t"
  shows "mset (tree_ids t) = mset (map fst (edges_of db))"
proof -
  let ?E = "edges_of db"
  obtain accounts ms where lev: "three_level ?E"
    and acc: "load_accounts env ?E = Inr accounts"
    and ms: "sorted_refs accounts (ids_of_kind ?E ''MANAGER'') = Inr ms"
    and t: "collect (manager_node_of accounts ?E) ms = Inr t"
    using assms(2) by (auto simp: get_tree_def rbind_Inr_iff dest!: valid_edges_Inr)
  have match: "ids_match accounts" by (rule load_accounts_match [OF assms(1) acc])
  from sorted_refs_ids [OF match ms] have
    keys: "mset (map fst ms) = mset (ids_of_kind ?E ''MANAGER'')"
    and ids: "map ref_id (map snd ms) = map fst ms" by auto
  have leaders: "sum_list (map (\<lambda>m. mset (ids_under ?E m ''LEADER'')) (ids_of_kind ?E ''MANAGER''))
      = mset (ids_of_kind ?E ''LEADER'')"
    by (rule ids_under_group) (auto simp: distinct_ids_of_kind dest: superior_listed [OF lev dict_ok_edges])
  have members: "sum_list (map (\<lambda>l. mset (ids_under ?E l ''MEMBER'')) (ids_of_kind ?E ''LEADER''))
      = mset (ids_of_kind ?E ''MEMBER'')"
    by (rule ids_under_group) (auto simp: distinct_ids_of_kind dest: superior_listed [OF lev dict_ok_edges])
  define below where "below m = mset (ids_under ?E m ''LEADER'')
      + sum_list (map (\<lambda>l. mset (ids_under ?E l ''MEMBER'')) (ids_under ?E m ''LEADER''))" for m
  have "mset (tree_ids t) = sum_list (map (\<lambda>m. add_mset (ref_id (snd m)) (below (fst m))) ms)"
    unfolding tree_ids_def below_def
    by (rule collect_mset [OF t]) (rule manager_node_ids [OF match])
  also have "\<dots> = mset (map (\<lambda>m. ref_id (snd m)) ms) + sum_list (map below (map fst ms))"
    by (simp add: sum_list_add_mset o_def)
  also have "\<dots> = mset (ids_of_kind ?E ''MANAGER'')
      + sum_list (map below (ids_of_kind ?E ''MANAGER''))"
    using arg_cong [OF ids, of mset] keys sum_list_perm [OF keys, of below]
    by (simp only: map_map o_def)
  also have "sum_list (map below (ids_of_kind ?E ''MANAGER''))
      = mset (ids_of_kind ?E ''LEADER'') + mset (ids_of_kind ?E ''MEMBER'')"
  proof -
    let ?M = "\<lambda>l. mset (ids_under ?E l ''MEMBER'')"
    have "sum_list (map below xs) = sum_list (map (\<lambda>m. mset (ids_under ?E m ''LEADER'')) xs)
        + sum_mset (image_mset ?M (sum_list (map (\<lambda>m. mset (ids_under ?E m ''LEADER'')) xs)))" for xs
      by (induction xs) (simp_all add: below_def sum_mset_sum_list [symmetric])
    moreover have "sum_mset (image_mset ?M (mset (ids_of_kind ?E ''LEADER'')))
        = mset (ids_of_kind ?E ''MEMBER'')"
      using members by (simp only: sum_mset_sum_list [symmetric] mset_map)
    ultimately show ?thesis by (simp only: leaders)
  qed
  finally show ?thesis by (simp only: kinds_partition [OF lev])
qed

subsection \<open>Properties of the organization module\<close>

text \<open>
  C39: \<open>validate_structure\<close> accepts exactly the three-level hierarchies: a dictionary of edges
  passes if and only if every manager has no superior, every leader reports to a listed manager
  and every member to a listed leader. The cycle walk the code adds rejects nothing else.
\<close>

theorem structure_validation_exact:
  assumes "dict_ok edges"
  shows "validate_structure edges = Inr () \<longleftrightarrow> three_level edges"
  by (rule validate_iff [OF assms])

definition demo_edges :: raw_edges where
  "demo_edges = [(''b'', Some ''a'', ''LEADER''), (''a'', None, ''MANAGER''),
     (''c'', Some ''b'', ''MEMBER''), (''d'', Some ''b'', ''MEMBER'')]"

theorem structure_validation_exact_witness:
  "validate_structure demo_edges = Inr ()
   \<and> validate_structure (AList.update ''d'' (Some ''a'', ''MEMBER'') demo_edges) \<noteq> Inr ()"
  using structure_validation_exact [of demo_edges]
    structure_validation_exact [of "AList.update ''d'' (Some ''a'', ''MEMBER'') demo_edges"]
  by (simp add: demo_edges_def dict_ok_def three_level_def edge_level_ok_def)

text \<open>
  the accounts whose membership is refreshed after an edge change are the changed account
  and everyone who reports to it, directly or through others, in ascending order and without
  repetition: the fixed-point loop computes the reflexive transitive closure.
\<close>

theorem affected_accounts_closure:
  "set (affected_accounts edges target_id)
     = {a. (target_id, a) \<in> {(s, a). \<exists>k. (a, Some s, k) \<in> set edges}\<^sup>*}
   \<and> sorted (affected_accounts edges target_id) \<and> distinct (affected_accounts edges target_id)"
  by (auto simp: set_affected_accounts reporting_def)
    (simp_all add: affected_accounts_def)

text \<open>
  C34: \<open>set_superior\<close> keeps the stored hierarchy valid. Started on a table with one row per account
  whose edges form a three-level hierarchy, a successful call leaves such a table; the target's
  edge is the requested one with the kind its superior implies, every other account keeps its
  edge, and the audit log grows by exactly one entry about the target or nothing changed at all.
\<close>

theorem set_superior_correct:
  assumes "org_inv db" and "set_superior env a s actor reason db = Inr db'"
  shows "org_inv db'
    \<and> (\<exists>k. map_of (edges_of db') a = Some (s, kind_value k)
         \<and> (s = None \<longleftrightarrow> k = MANAGER))
    \<and> (\<forall>b. b \<noteq> a \<longrightarrow> map_of (edges_of db') b = map_of (edges_of db) b)
    \<and> (db' = db \<or> (\<exists>entry. od_audit db' = od_audit db @ [entry]
         \<and> ae_target_id entry = a \<and> ae_action entry = ''organization.structure.changed''))"
proof -
  have inv: "org_inv db'"
    using set_superior_keeps [OF _ assms(2)] assms(1) by (auto simp: org_inv_def)
  have level: "s = None \<longleftrightarrow> k = MANAGER" if "map_of (edges_of db') a = Some (s, kind_value k)" for k
  proof -
    from inv that have "edge_level_ok (edges_of db') s (kind_value k)"
      by (auto simp: org_inv_def three_level_map)
    then show ?thesis by (auto simp: edge_level_ok_def)
  qed
  from assms(2) show ?thesis
  proof (cases rule: set_superior_result)
    case (unchanged k)
    with inv level [of k] show ?thesis by auto
  next
    case (changed k who)
    have map: "map_of (edges_of db') = (map_of (edges_of db))(a \<mapsto> (s, kind_value k))"
      using assms(1) by (simp add: changed(4) org_inv_def upsert_edge_map)
    have "\<exists>entry. od_audit db' = od_audit db @ [entry] \<and> ae_target_id entry = a
        \<and> ae_action entry = ''organization.structure.changed''"
      by (simp add: changed(4) record_in_transaction_def append_in_transaction_def
          structure_audit_def Let_def)
    with map inv level [of k] show ?thesis by auto
  qed
qed

definition demo_org_env :: org_env where
  "demo_org_env = \<lparr>identity_get = (\<lambda>i. if i \<in> {''a'', ''b'', ''c'', ''d''}
       then Some \<lparr>ov_id = i, ov_employee_no = ''E'' @ i, ov_display_name = i,
                   ov_status = ''ENABLED'', ov_initialized = True\<rparr> else None),
     org_now = 7, org_uuid4 = (\<lambda>n. if n = 0 then ''u0'' else ''u1''),
     on_membership_change = (\<lambda>_. True), org_request_id = Some ''req''\<rparr>"

definition demo_org_db :: org_db where
  "demo_org_db = \<lparr>od_edges = map (\<lambda>(a, s, k). \<lparr>er_account = a, er_superior = s, er_kind = k,
       er_created_at = 1, er_updated_at = 1\<rparr>)
     [(''b'', Some ''a'', ''LEADER''), (''a'', None, ''MANAGER''), (''c'', Some ''b'', ''MEMBER'')],
     od_audit = []\<rparr>"

definition demo_org_admin :: org_actor where
  "demo_org_admin = \<lparr>oa_account_id = Some ''root'', oa_employee_id = None\<rparr>"

lemma demo_org_edges:
  "edges_of demo_org_db = [(''a'', None, ''MANAGER''), (''b'', Some ''a'', ''LEADER''),
     (''c'', Some ''b'', ''MEMBER'')]"
  by code_simp

lemma demo_org_inv: "org_inv demo_org_db"
  unfolding org_inv_def demo_org_edges
  by (simp add: org_db_ok_def demo_org_db_def three_level_def edge_level_ok_def)

definition demo_org_next :: org_db where
  "demo_org_next = (case set_superior demo_org_env ''d'' (Some ''b'') demo_org_admin ''joins'' demo_org_db
     of Inr db \<Rightarrow> db | Inl _ \<Rightarrow> demo_org_db)"

lemma demo_org_step:
  "set_superior demo_org_env ''d'' (Some ''b'') demo_org_admin ''joins'' demo_org_db
     = Inr demo_org_next"
  by code_simp

theorem set_superior_correct_witness:
  "org_inv demo_org_next
   \<and> map_of (edges_of demo_org_next) ''d'' = Some (Some ''b'', ''MEMBER'')
   \<and> map_of (edges_of demo_org_next) ''c'' = map_of (edges_of demo_org_db) ''c''"
  using set_superior_correct [OF demo_org_inv demo_org_step]
proof -
  have "map_of (edges_of demo_org_next) ''d'' = Some (Some ''b'', ''MEMBER'')" by code_simp
  with set_superior_correct [OF demo_org_inv demo_org_step] show ?thesis by simp
qed

text \<open>
  the organization tree lists every account of the stored hierarchy exactly once: the account
  ids read off the tree, managers, leaders and members together, are a permutation of the
  accounts that have an edge. So no account is lost by the per-level grouping and none is shown
  under two superiors. The identity lookup has to return the account it was asked for.
\<close>

theorem tree_lists_each_account_once:
  assumes "\<forall>i v. identity_get env i = Some v \<longrightarrow> ov_id v = i" and "get_tree env db = Inr t"
  shows "mset (tree_ids t) = mset (map fst (edges_of db))
    \<and> distinct (tree_ids t)"
proof -
  have "mset (tree_ids t) = mset (map fst (edges_of db))"
    using assms by (intro tree_ids_edges) (simp_all add: identity_faithful_def)
  moreover have "distinct (map fst (edges_of db))"
    using dict_ok_edges [of db] by (simp add: dict_ok_def)
  ultimately show ?thesis by (metis mset_eq_imp_distinct_iff)
qed

definition demo_tree :: "manager_node list" where
  "demo_tree = (case get_tree demo_org_env demo_org_db of Inr t \<Rightarrow> t | Inl _ \<Rightarrow> [])"

theorem tree_lists_each_account_once_witness:
  "distinct (tree_ids demo_tree) \<and> tree_ids demo_tree = [''a'', ''b'', ''c'']"
proof -
  have tree: "get_tree demo_org_env demo_org_db = Inr demo_tree" by code_simp
  have faithful: "\<forall>i v. identity_get demo_org_env i = Some v \<longrightarrow> ov_id v = i"
    by (simp add: demo_org_env_def)
  have "tree_ids demo_tree = [''a'', ''b'', ''c'']" by code_simp
  with tree_lists_each_account_once [OF faithful tree] show ?thesis by simp
qed

lemma effective_set:
  "set (effective_refs env ids) = {account_ref_of v |a v. a \<in> set ids
     \<and> identity_get env a = Some v \<and> is_effective (Some v)}"
  by (induction ids)
    (auto simp: effective_refs_def List.map_filter_def split: option.splits if_splits)

text \<open>
  \<open>direct_reports\<close> returns exactly the effective members whose superior is the leader, in
  ascending order of employee number and id, and it refuses anyone who is not an effective
  leader of a valid stored hierarchy.
\<close>

theorem direct_reports_exact:
  assumes "direct_reports env leader db = Inr refs"
  shows "sorted (map ref_sort_key refs)
    \<and> set refs = {account_ref_of v |a v. (a, Some leader, ''MEMBER'') \<in> set (edges_of db)
         \<and> identity_get env a = Some v \<and> is_effective (Some v)}
    \<and> (\<exists>m. map_of (edges_of db) leader = Some (Some m, ''LEADER'')
         \<and> map_of (edges_of db) m = Some (None, ''MANAGER''))
    \<and> is_effective (identity_get env leader)"
proof -
  from assms obtain edges where edges: "valid_edges db = Inr edges"
    and rest: "(if (case map_of edges leader of None \<Rightarrow> True | Some (_, k) \<Rightarrow> k \<noteq> ''LEADER'')
          \<or> \<not> is_effective (identity_get env leader)
       then Inl (CorruptStructure ''direct-report owner is not an effective leader'')
       else Inr (sort_key ref_sort_key (effective_refs env (ids_under edges leader ''MEMBER''))))
       = Inr refs"
    unfolding direct_reports_def by (rule rbind_InrE)
  from valid_edges_Inr [OF edges] have e: "edges = edges_of db" and lev: "three_level (edges_of db)"
    by auto
  from rest obtain s where leader: "map_of (edges_of db) leader = Some (s, ''LEADER'')"
    and eff: "is_effective (identity_get env leader)"
    and refs: "refs = sort_key ref_sort_key
      (effective_refs env (ids_under (edges_of db) leader ''MEMBER''))"
    by (auto simp: e split: if_splits option.splits)
  from lev leader have "edge_level_ok (edges_of db) s ''LEADER''" by (simp add: three_level_map)
  then obtain m s' where m: "s = Some m" "map_of (edges_of db) m = Some (s', ''MANAGER'')"
    by (auto simp: edge_level_ok_def)
  with lev have "s' = None" by (auto simp: three_level_map edge_level_ok_def)
  have "set refs = {account_ref_of v |a v. (a, Some leader, ''MEMBER'') \<in> set (edges_of db)
         \<and> identity_get env a = Some v \<and> is_effective (Some v)}"
    unfolding refs set_sort effective_set by (force simp: ids_under_def)
  with leader eff m \<open>s' = None\<close> show ?thesis by (simp add: refs)
qed

definition demo_refs :: "account_ref list" where
  "demo_refs = (case direct_reports demo_org_env ''b'' demo_org_db of Inr r \<Rightarrow> r | Inl _ \<Rightarrow> [])"

theorem direct_reports_exact_witness:
  "map ref_id demo_refs = [''c''] \<and> sorted (map ref_sort_key demo_refs)"
proof -
  have run: "direct_reports demo_org_env ''b'' demo_org_db = Inr demo_refs" by code_simp
  have "map ref_id demo_refs = [''c'']" by code_simp
  with direct_reports_exact [OF run] show ?thesis by simp
qed

end
