(* ===== verification/Platform_Json.thy ===== *)
theory Platform_Json
  imports Interfaces
begin

section \<open>Platform JSON values and text\<close>

text \<open>
  Python values that cross the platform boundary as JSON: \<^verbatim>\<open>_freeze_json\<close> and \<^verbatim>\<open>_thaw_json\<close> of
  \<^verbatim>\<open>agent/domain/models.py\<close>, \<^verbatim>\<open>_plain_json\<close> of the agent adapter, and the string constraints of
  \<^verbatim>\<open>agent/domain/types.py\<close>. A float is an opaque finite number or a non-finite one; \<open>PyOther\<close> is a
  value of any other Python type, named by its type. \<open>PyProxy\<close> is a \<open>MappingProxyType\<close>.
\<close>

datatype pyval =
    PyNone
  | PyBool bool
  | PyInt int
  | PyFloat bool int
  | PyStr string
  | PyDict "(string \<times> pyval) list"
  | PyProxy "(string \<times> pyval) list"
  | PyList "pyval list"
  | PyTuple "pyval list"
  | PyOther string

datatype json_error = NonFiniteFloat | UnsupportedValue string

fun freeze_json :: "pyval \<Rightarrow> (json_error, pyval) res"
  and freeze_items :: "(string \<times> pyval) list \<Rightarrow> (json_error, (string \<times> pyval) list) res"
  and freeze_list :: "pyval list \<Rightarrow> (json_error, pyval list) res" where
  "freeze_json (PyFloat fin x) = (if \<not> fin then Inl NonFiniteFloat else Inr (PyFloat fin x))"
| "freeze_json PyNone = Inr PyNone"
| "freeze_json (PyStr s) = Inr (PyStr s)"
| "freeze_json (PyInt i) = Inr (PyInt i)"
| "freeze_json (PyBool b) = Inr (PyBool b)"
| "freeze_json (PyDict kvs) = rbind (freeze_items kvs) (\<lambda>xs. Inr (PyProxy xs))"
| "freeze_json (PyProxy kvs) = rbind (freeze_items kvs) (\<lambda>xs. Inr (PyProxy xs))"
| "freeze_json (PyList vs) = rbind (freeze_list vs) (\<lambda>xs. Inr (PyTuple xs))"
| "freeze_json (PyTuple vs) = rbind (freeze_list vs) (\<lambda>xs. Inr (PyTuple xs))"
| "freeze_json (PyOther t) = Inl (UnsupportedValue t)"
| "freeze_items [] = Inr []"
| "freeze_items ((k, v) # kvs) =
     rbind (freeze_json v) (\<lambda>x. rbind (freeze_items kvs) (\<lambda>xs. Inr ((k, x) # xs)))"
| "freeze_list [] = Inr []"
| "freeze_list (v # vs) = rbind (freeze_json v) (\<lambda>x. rbind (freeze_list vs) (\<lambda>xs. Inr (x # xs)))"

fun thaw_json :: "pyval \<Rightarrow> pyval" where
  "thaw_json (PyDict kvs) = PyDict (map (\<lambda>(k, v). (k, thaw_json v)) kvs)"
| "thaw_json (PyProxy kvs) = PyDict (map (\<lambda>(k, v). (k, thaw_json v)) kvs)"
| "thaw_json (PyTuple vs) = PyList (map thaw_json vs)"
| "thaw_json v = v"

fun plain_json :: "pyval \<Rightarrow> pyval" where
  "plain_json (PyDict kvs) = PyDict (map (\<lambda>(k, v). (k, plain_json v)) kvs)"
| "plain_json (PyProxy kvs) = PyDict (map (\<lambda>(k, v). (k, plain_json v)) kvs)"
| "plain_json (PyTuple vs) = PyList (map plain_json vs)"
| "plain_json v = v"

text \<open>What \<open>json.loads\<close> returns: dictionaries and lists, and no proxy, tuple or foreign value.\<close>

fun loaded_json :: "pyval \<Rightarrow> bool" where
  "loaded_json (PyDict kvs) = list_all (\<lambda>(k, v). loaded_json v) kvs"
| "loaded_json (PyList vs) = list_all loaded_json vs"
| "loaded_json (PyFloat fin x) = fin"
| "loaded_json (PyProxy kvs) = False"
| "loaded_json (PyTuple vs) = False"
| "loaded_json (PyOther t) = False"
| "loaded_json _ = True"

text \<open>What a frozen snapshot may hold: nothing a caller could still mutate.\<close>

fun immutable_json :: "pyval \<Rightarrow> bool" where
  "immutable_json (PyProxy kvs) = list_all (\<lambda>(k, v). immutable_json v) kvs"
| "immutable_json (PyTuple vs) = list_all immutable_json vs"
| "immutable_json (PyFloat fin x) = fin"
| "immutable_json (PyDict kvs) = False"
| "immutable_json (PyList vs) = False"
| "immutable_json (PyOther t) = False"
| "immutable_json _ = True"

lemma freeze_thaw_all:
  "(loaded_json v \<longrightarrow> (\<exists>w. freeze_json v = Inr w \<and> immutable_json w \<and> thaw_json w = v))"
  "(list_all (\<lambda>(k, v). loaded_json v) kvs \<longrightarrow> (\<exists>ws. freeze_items kvs = Inr ws
      \<and> list_all (\<lambda>(k, v). immutable_json v) ws \<and> map (\<lambda>(k, v). (k, thaw_json v)) ws = kvs))"
  "(list_all loaded_json vs \<longrightarrow> (\<exists>ws. freeze_list vs = Inr ws
      \<and> list_all immutable_json ws \<and> map thaw_json ws = vs))"
proof (induction v and kvs and vs rule: freeze_json_freeze_items_freeze_list.induct)
  case (12 k v kvs)
  then show ?case by fastforce
next
  case (14 v vs)
  then show ?case by fastforce
qed fastforce+

lemma refreeze_all:
  "(freeze_json v = Inr w \<longrightarrow> immutable_json w \<and> freeze_json w = Inr w)"
  "(freeze_items kvs = Inr ws \<longrightarrow> list_all (\<lambda>(k, v). immutable_json v) ws \<and> freeze_items ws = Inr ws)"
  "(freeze_list vs = Inr us \<longrightarrow> list_all immutable_json us \<and> freeze_list us = Inr us)"
  by (induction v and kvs and vs arbitrary: w and ws and us
      rule: freeze_json_freeze_items_freeze_list.induct)
    (auto simp: res_simps)

text \<open>
  C38: freezing a loaded JSON document always succeeds, yields a value with no mutable container,
  and thawing it gives the document back; freezing is idempotent on whatever it accepts. This is
  what lets receipts and event data be kept as frozen snapshots and still be stored as JSON.
\<close>

theorem frozen_snapshot_roundtrip:
  "(loaded_json v \<longrightarrow> (\<exists>w. freeze_json v = Inr w \<and> immutable_json w \<and> thaw_json w = v))
   \<and> (\<forall>w. freeze_json v = Inr w \<longrightarrow> immutable_json w \<and> freeze_json w = Inr w)"
  using freeze_thaw_all(1) refreeze_all(1) by blast

theorem frozen_snapshot_roundtrip_witness:
  "\<exists>w. freeze_json (PyDict [(''outcome'', PyStr ''ACCEPTED''), (''n'', PyList [PyInt 1, PyNone])]) = Inr w
     \<and> immutable_json w
     \<and> thaw_json w = PyDict [(''outcome'', PyStr ''ACCEPTED''), (''n'', PyList [PyInt 1, PyNone])]"
  using frozen_snapshot_roundtrip
    [of "PyDict [(''outcome'', PyStr ''ACCEPTED''), (''n'', PyList [PyInt 1, PyNone])]"]
  by simp

subsection \<open>Bounded platform text\<close>

definition bounded_text :: "nat \<Rightarrow> nat \<Rightarrow> string \<Rightarrow> bool" where
  "bounded_text lo hi s = (lo \<le> length s \<and> length s \<le> hi)"

definition platform_reference :: "string \<Rightarrow> bool" where
  "platform_reference = bounded_text 1 2048"

definition platform_name :: "string \<Rightarrow> bool" where
  "platform_name = bounded_text 1 200"

definition platform_summary :: "string \<Rightarrow> bool" where
  "platform_summary = bounded_text 0 10000"

definition lower_hex :: "string \<Rightarrow> bool" where
  "lower_hex s = list_all (\<lambda>c. c \<in> set ''0123456789abcdef'') s"

definition content_digest :: "string \<Rightarrow> bool" where
  "content_digest s = (take 7 s = ''sha256:'' \<and> length s = 71 \<and> lower_hex (drop 7 s))"

text \<open>\<open>str.casefold\<close> on the characters HOL strings have, and \<open>part in text\<close>.\<close>

definition fold_char :: "char \<Rightarrow> string" where
  "fold_char c = (let n = (of_char c :: nat) in
     if (65 \<le> n \<and> n \<le> 90) \<or> (192 \<le> n \<and> n \<le> 222 \<and> n \<noteq> 215) then [char_of (n + 32)]
     else if n = 223 then ''ss'' else [c])"

definition casefold :: "string \<Rightarrow> string" where
  "casefold s = concat (map fold_char s)"

definition contains :: "string \<Rightarrow> string \<Rightarrow> bool" where
  "contains part s = list_ex (\<lambda>n. take (length part) (drop n s) = part) [0..<Suc (length s)]"

end
