(* ===== verification/Agent_Domain.thy ===== *)
theory Agent_Domain
  imports Platform_Json
begin

section \<open>The agent module: domain\<close>

text \<open>
  \<^verbatim>\<open>agent/domain/models.py\<close>, \<^verbatim>\<open>domain/transitions.py\<close> and \<^verbatim>\<open>domain/errors.py\<close>: runs, attempts
  and their states, execution bindings, canonical events and their validation, workflow commands,
  and the attempt's transition table. A pydantic model is a record; constructing or copying one
  runs its field bounds and its \<open>model_post_init\<close>, here the \<open>make_\<close> functions. The UUID parser,
  \<open>datetime.fromisoformat\<close> and the SHA-256 of a canonical JSON text are parameters (\<open>platform_env\<close>).
\<close>

datatype attempt_state =
    CREATED | BINDING | QUEUED | PROVISIONING | RUNNING | WAITING_INPUT
  | FINALIZING | SUCCEEDED | FAILED | CANCELING | CANCELED | TIMED_OUT

datatype run_state = ACTIVE | RUN_SUCCEEDED | RUN_FAILED | RUN_CANCELED | RUN_TIMED_OUT

datatype command_kind = START | CANCEL | RESUME

datatype command_state = PLANNED | DISPATCHED | UNKNOWN | COMMAND_FAILED

datatype claim_mode = DISPATCH | RECONCILE

datatype binding_source = DEV_FAKE | CONFIGURATION

fun attempt_state_value :: "attempt_state \<Rightarrow> string" where
  "attempt_state_value CREATED = ''CREATED''"
| "attempt_state_value BINDING = ''BINDING''"
| "attempt_state_value QUEUED = ''QUEUED''"
| "attempt_state_value PROVISIONING = ''PROVISIONING''"
| "attempt_state_value RUNNING = ''RUNNING''"
| "attempt_state_value WAITING_INPUT = ''WAITING_INPUT''"
| "attempt_state_value FINALIZING = ''FINALIZING''"
| "attempt_state_value SUCCEEDED = ''SUCCEEDED''"
| "attempt_state_value FAILED = ''FAILED''"
| "attempt_state_value CANCELING = ''CANCELING''"
| "attempt_state_value CANCELED = ''CANCELED''"
| "attempt_state_value TIMED_OUT = ''TIMED_OUT''"

fun binding_source_value :: "binding_source \<Rightarrow> string" where
  "binding_source_value DEV_FAKE = ''DEV_FAKE''"
| "binding_source_value CONFIGURATION = ''CONFIGURATION''"

definition parse_binding_source :: "string \<Rightarrow> binding_source option" where
  "parse_binding_source s = (if s = ''DEV_FAKE'' then Some DEV_FAKE
     else if s = ''CONFIGURATION'' then Some CONFIGURATION else None)"

datatype context_failure =
    RequirementNotFound
  | WorkItemAssigneeIneligible
  | WorkspaceChanged
  | WorkItemNotInRequirement
  | AssignmentMissing
  | AssignmentChanged
  | OtherContextFailure

datatype agent_error =
    InvalidModel string
  | FrozenJson json_error
  | RepositoryWriteForbidden string
  | IllegalAttemptTransition string
  | ResumeGenerationRequired string
  | CheckpointRequired string
  | CheckpointReplacementForbidden string
  | AttemptNotResumable string
  | InvalidFencingToken string
  | EventReplayConflict string
  | EventReplayUnavailable string
  | EventSequenceGap string
  | UnknownWorkflowEvent string
  | StaleRunnerGeneration string
  | AgentQueryUnavailable string
  | EventCursorAnchorMissing
  | AgentRunNotFound string
  | AgentAttemptNotFound string
  | AttemptRevisionConflict string
  | AttemptWaitingExpired string
  | BindingDigestMismatch string
  | DefinitionUnavailable string
  | DefinitionAlreadyExists string
  | InvalidRequirementExecutionContext string
  | RequirementDependencyUnavailable string
  | RequirementContextError context_failure
  | ActorNotTrusted
  | AgentIdempotencyConflict
  | AgentIdempotencyInProgress
  | AgentReplayUnavailable
  | IntegrityError string
  | LostRowLock string
  | ValueError string
  | PortFailure string

record platform_env =
  uuid_str :: "string \<Rightarrow> string option"
  parse_datetime :: "string \<Rightarrow> (instant \<times> bool) option"
  canonical_sha256 :: "pyval \<Rightarrow> string"

subsection \<open>Models\<close>

record checkpoint_input =
  cp_id :: string
  cp_artifact_id :: string
  cp_artifact_version :: string
  cp_content_sha256 :: string
  cp_schema_version :: string
  cp_adapter_version :: string
  cp_classification :: string

record agent_definition =
  df_id :: string
  df_version :: int
  df_name :: string
  df_capabilities :: "string list"
  df_skills :: "string list"
  df_permissions :: "string list"
  df_input_schema :: pyval
  df_created_at :: instant

record execution_binding =
  eb_id :: string
  eb_source :: binding_source
  eb_runtime_ref :: string
  eb_model_route_ref :: string
  eb_capability_bundle_ref :: string
  eb_skill_refs :: "string list"
  eb_runtime_permissions :: "string list"
  eb_context_policy_ref :: string
  eb_network_policy_ref :: string
  eb_digest :: string

record business_context =
  bc_requirement_id :: string
  bc_work_item_id :: string
  bc_assignment_id :: string

record agent_run =
  rn_id :: string
  rn_workspace_id :: string
  rn_context :: "business_context option"
  rn_goal_ref :: string
  rn_created_by :: string
  rn_definition_id :: string
  rn_definition_version :: int
  rn_latest_attempt_id :: string
  rn_state :: run_state
  rn_revision :: int
  rn_created_at :: instant
  rn_updated_at :: instant

record agent_attempt =
  at_id :: string
  at_run_id :: string
  at_number :: int
  at_state :: attempt_state
  at_binding_id :: string
  at_binding_digest :: string
  at_generation :: int
  at_fencing_token :: string
  at_checkpoint :: "checkpoint_input option"
  at_event_sequence :: int
  at_waiting_deadline :: "instant option"
  at_terminal_evidence :: "pyval option"
  at_revision :: int
  at_created_at :: instant
  at_updated_at :: instant

record attempt_mutation =
  am_state :: attempt_state
  am_generation :: int
  am_fencing_token :: string
  am_checkpoint :: "checkpoint_input option"
  am_event_sequence :: int
  am_waiting_deadline :: "instant option"
  am_terminal_evidence :: "pyval option"
  am_now :: instant

record run_mutation =
  rm_state :: run_state
  rm_latest_attempt_id :: string
  rm_now :: instant

record canonical_event =
  ev_id :: string
  ev_type :: string
  ev_attempt_id :: string
  ev_generation :: int
  ev_sequence :: int
  ev_correlation_id :: string
  ev_causation_id :: "string option"
  ev_trace_id :: string
  ev_span_id :: string
  ev_summary :: string
  ev_data :: "(string \<times> pyval) list"

record event_receipt =
  er_event_id :: string
  er_schema_version :: int
  er_attempt :: agent_attempt
  er_checkpoint :: "checkpoint_input option"

record workflow_command =
  wc_id :: string
  wc_key :: string
  wc_kind :: command_kind
  wc_attempt_id :: string
  wc_generation :: int
  wc_state :: command_state
  wc_attempts :: int
  wc_receipt :: "pyval option"
  wc_error :: "string option"
  wc_created_at :: instant
  wc_updated_at :: instant
  wc_dispatched_at :: "instant option"
  wc_claim_owner :: "string option"
  wc_claim_token :: "string option"
  wc_claim_until :: "instant option"
  wc_claim_mode :: "claim_mode option"

record dispatch_mutation =
  dm_state :: command_state
  dm_receipt :: "pyval option"
  dm_error :: "string option"
  dm_now :: instant

subsection \<open>Validation\<close>

definition freeze_evidence :: "pyval option \<Rightarrow> (agent_error, pyval option) res" where
  "freeze_evidence v = (case v of None \<Rightarrow> Inr None
     | Some j \<Rightarrow> (case freeze_json j of Inl e \<Rightarrow> Inl (FrozenJson e) | Inr w \<Rightarrow> Inr (Some w)))"

text \<open>
  The identifiers of an attempt come from UUID columns and \<^verbatim>\<open>uuid4\<close>: they are canonical
  already, and the validator of \<^verbatim>\<open>PlatformUUID\<close>, which checks and normalizes the text of a
  UUID, is the identity on them.
\<close>

definition make_attempt :: "agent_attempt \<Rightarrow> (agent_error, agent_attempt) res" where
  "make_attempt a =
     rbind (require (1 \<le> at_number a \<and> 1 \<le> at_generation a \<and> 0 \<le> at_event_sequence a
              \<and> 1 \<le> at_revision a) (InvalidModel ''AgentAttempt'')) (\<lambda>_.
     if at_state a = WAITING_INPUT \<and> at_checkpoint a = None
     then Inl (ValueError (''Checkpoint required for waiting Attempt: '' @ at_id a))
     else rbind (freeze_evidence (at_terminal_evidence a)) (\<lambda>ev.
       Inr (a\<lparr>at_terminal_evidence := ev\<rparr>)))"

definition make_attempt_mutation :: "attempt_mutation \<Rightarrow> (agent_error, attempt_mutation) res" where
  "make_attempt_mutation m =
     rbind (require (1 \<le> am_generation m \<and> 0 \<le> am_event_sequence m)
              (InvalidModel ''AttemptMutation'')) (\<lambda>_.
     if am_state m = WAITING_INPUT \<and> am_checkpoint m = None
     then Inl (ValueError ''Checkpoint required for a waiting Attempt mutation'')
     else rbind (freeze_evidence (am_terminal_evidence m)) (\<lambda>ev.
       Inr (m\<lparr>am_terminal_evidence := ev\<rparr>)))"

definition forbidden_permission_parts :: "string list" where
  "forbidden_permission_parts =
     [''repository.write'', ''git.push'', ''source_control.write'', ''merge'']"

definition forbidden_permission :: "string \<Rightarrow> bool" where
  "forbidden_permission p = list_ex (\<lambda>part. contains part (casefold p)) forbidden_permission_parts"

definition binding_canonical :: "execution_binding \<Rightarrow> pyval" where
  "binding_canonical b = PyDict [
     (''capabilityBundleRef'', PyStr (eb_capability_bundle_ref b)),
     (''contextPolicyRef'', PyStr (eb_context_policy_ref b)),
     (''modelRouteRef'', PyStr (eb_model_route_ref b)),
     (''networkPolicyRef'', PyStr (eb_network_policy_ref b)),
     (''runtimePermissions'', PyList (map PyStr (eb_runtime_permissions b))),
     (''runtimeRef'', PyStr (eb_runtime_ref b)),
     (''skillRefs'', PyList (map PyStr (eb_skill_refs b))),
     (''source'', PyStr (binding_source_value (eb_source b)))]"

definition make_binding ::
  "platform_env \<Rightarrow> execution_binding \<Rightarrow> (agent_error, execution_binding) res" where
  "make_binding env b =
     (case List.find forbidden_permission (eb_runtime_permissions b) of
        Some p \<Rightarrow> Inl (RepositoryWriteForbidden p)
      | None \<Rightarrow> Inr (b\<lparr>eb_digest := canonical_sha256 env (binding_canonical b)\<rparr>))"

definition json_str :: "string \<Rightarrow> (string \<times> pyval) list \<Rightarrow> (agent_error, string) res" where
  "json_str k kvs = (case map_of kvs k of Some (PyStr s) \<Rightarrow> Inr s | _ \<Rightarrow> Inl (InvalidModel k))"

definition checked :: "(string \<Rightarrow> bool) \<Rightarrow> string \<Rightarrow> (string \<times> pyval) list \<Rightarrow> (agent_error, string) res"
  where
  "checked ok k kvs = rbind (json_str k kvs) (\<lambda>s. if ok s then Inr s else Inl (InvalidModel k))"

definition mapping_items :: "pyval \<Rightarrow> (string \<times> pyval) list option" where
  "mapping_items v = (case v of PyDict kvs \<Rightarrow> Some kvs | PyProxy kvs \<Rightarrow> Some kvs | _ \<Rightarrow> None)"

definition parse_checkpoint :: "platform_env \<Rightarrow> pyval \<Rightarrow> (agent_error, checkpoint_input) res" where
  "parse_checkpoint env v =
     rbind (of_option (InvalidModel ''CheckpointInput'') (mapping_items v)) (\<lambda>kvs.
     if set (map fst kvs) \<noteq> {''id'', ''artifact_id'', ''artifact_version'', ''content_sha256'',
          ''schema_version'', ''adapter_version'', ''classification''}
     then Inl (InvalidModel ''CheckpointInput'')
     else
       rbind (json_str ''id'' kvs) (\<lambda>raw_id.
       rbind (of_option (InvalidModel ''id'') (uuid_str env raw_id)) (\<lambda>i.
       rbind (checked platform_reference ''artifact_id'' kvs) (\<lambda>artifact.
       rbind (checked platform_name ''artifact_version'' kvs) (\<lambda>version.
       rbind (checked content_digest ''content_sha256'' kvs) (\<lambda>sha.
       rbind (checked platform_name ''schema_version'' kvs) (\<lambda>schema.
       rbind (checked platform_name ''adapter_version'' kvs) (\<lambda>adapter.
       rbind (checked platform_name ''classification'' kvs) (\<lambda>class.
         Inr \<lparr>cp_id = i, cp_artifact_id = artifact, cp_artifact_version = version,
              cp_content_sha256 = sha, cp_schema_version = schema, cp_adapter_version = adapter,
              cp_classification = class\<rparr>)))))))))"

definition check_question :: "pyval \<Rightarrow> (agent_error, unit) res" where
  "check_question v =
     rbind (of_option (InvalidModel ''WaitingInputQuestion'') (mapping_items v)) (\<lambda>kvs.
     if set (map fst kvs) \<noteq> {''prompt''} then Inl (InvalidModel ''WaitingInputQuestion'')
     else rbind (json_str ''prompt'' kvs) (\<lambda>prompt.
       if \<not> bounded_text 1 10000 prompt then Inl (InvalidModel ''prompt'')
       else if blank prompt then Inl (ValueError ''question prompt must not be blank'')
       else Inr ()))"

definition lifecycle_events :: "string list" where
  "lifecycle_events = [''ATTEMPT_PROVISIONING'', ''ATTEMPT_RUNNING'', ''ATTEMPT_FINALIZING'',
     ''ATTEMPT_SUCCEEDED'', ''ATTEMPT_FAILED'', ''ATTEMPT_CANCELED'', ''ATTEMPT_TIMED_OUT'']"

definition check_queued_data :: "(string \<times> pyval) list \<Rightarrow> (agent_error, unit) res" where
  "check_queued_data d =
     (if set (map fst d) \<noteq> {''bindingSource'', ''bindingDigest''}
      then Inl (ValueError ''ATTEMPT_QUEUED requires only bindingSource and bindingDigest'')
      else (case map_of d ''bindingSource'' of
         Some (PyStr source) \<Rightarrow>
           if parse_binding_source source = None
           then Inl (ValueError (source @ '' is not a valid ExecutionBindingSource''))
           else (case map_of d ''bindingDigest'' of
              Some (PyStr digest) \<Rightarrow>
                if length digest = 64 \<and> lower_hex digest then Inr ()
                else Inl (ValueError ''ATTEMPT_QUEUED requires a canonical binding digest'')
            | _ \<Rightarrow> Inl (ValueError ''ATTEMPT_QUEUED requires a canonical binding digest''))
       | _ \<Rightarrow> Inl (ValueError ''bindingSource must be a platform source'')))"

definition check_waiting_data ::
  "platform_env \<Rightarrow> (string \<times> pyval) list \<Rightarrow> (agent_error, unit) res" where
  "check_waiting_data env d =
     (if set (map fst d) \<noteq> {''checkpoint'', ''waitingDeadline''}
         \<and> set (map fst d) \<noteq> {''checkpoint'', ''waitingDeadline'', ''question''}
      then Inl (ValueError ''WAITING_INPUT requires checkpoint, waitingDeadline and question'')
      else rbind (of_option (ValueError ''checkpoint'') (map_of d ''checkpoint'')) (\<lambda>c.
        rbind (parse_checkpoint env c) (\<lambda>_.
        (case map_of d ''waitingDeadline'' of
           Some (PyStr deadline) \<Rightarrow>
             (case parse_datetime env deadline of
                Some (t, True) \<Rightarrow>
                  (case map_of d ''question'' of None \<Rightarrow> Inr () | Some q \<Rightarrow> check_question q)
              | Some (t, False) \<Rightarrow> Inl (ValueError ''waitingDeadline must include an offset'')
              | None \<Rightarrow> Inl (ValueError ''Invalid isoformat string''))
         | _ \<Rightarrow> Inl (ValueError ''waitingDeadline must include an offset'')))))"

definition make_event :: "platform_env \<Rightarrow> canonical_event \<Rightarrow> (agent_error, canonical_event) res" where
  "make_event env e =
     rbind (of_option (InvalidModel ''id'') (uuid_str env (ev_id e))) (\<lambda>i.
     rbind (of_option (InvalidModel ''attempt_id'') (uuid_str env (ev_attempt_id e))) (\<lambda>att.
     rbind (require (platform_name (ev_type e) \<and> 1 \<le> ev_generation e \<and> 1 \<le> ev_sequence e
          \<and> platform_reference (ev_correlation_id e)
          \<and> (case ev_causation_id e of None \<Rightarrow> True | Some c \<Rightarrow> platform_reference c)
          \<and> platform_reference (ev_trace_id e) \<and> platform_reference (ev_span_id e)
          \<and> platform_summary (ev_summary e)) (InvalidModel ''CanonicalEventInput'')) (\<lambda>_.
     rbind (if ev_type e = ''ATTEMPT_QUEUED'' then check_queued_data (ev_data e)
            else if ev_type e = ''WAITING_INPUT'' then check_waiting_data env (ev_data e)
            else if ev_type e \<in> set lifecycle_events
            then (if ev_data e \<noteq> []
                  then Inl (ValueError ''Lifecycle events have no platform data fields'') else Inr ())
            else Inl (ValueError ''Unknown platform canonical event type'')) (\<lambda>_.
     (case freeze_items (ev_data e) of
        Inl err \<Rightarrow> Inl (FrozenJson err)
      | Inr d \<Rightarrow> Inr (e\<lparr>ev_id := i, ev_attempt_id := att, ev_data := d\<rparr>))))))"

definition claim_complete :: "workflow_command \<Rightarrow> bool" where
  "claim_complete c =
     (let claim_values = [wc_claim_owner c \<noteq> None, wc_claim_token c \<noteq> None,
            wc_claim_until c \<noteq> None, wc_claim_mode c \<noteq> None]
      in \<not> (list_ex id claim_values \<and> list_ex Not claim_values))"

definition make_command :: "workflow_command \<Rightarrow> (agent_error, workflow_command) res" where
  "make_command c =
     rbind (require (1 \<le> wc_generation c \<and> 0 \<le> wc_attempts c) (InvalidModel ''WorkflowCommand''))
       (\<lambda>_. rbind (freeze_evidence (wc_receipt c)) (\<lambda>receipt.
         if claim_complete c then Inr (c\<lparr>wc_receipt := receipt\<rparr>)
         else Inl (ValueError ''workflow claim fields must be present together'')))"

subsection \<open>Transitions\<close>

fun allowed_transitions :: "attempt_state \<Rightarrow> attempt_state list" where
  "allowed_transitions CREATED = [BINDING, CANCELING]"
| "allowed_transitions BINDING = [QUEUED, FAILED, CANCELING]"
| "allowed_transitions QUEUED = [PROVISIONING, CANCELING]"
| "allowed_transitions PROVISIONING = [RUNNING, FAILED, CANCELING]"
| "allowed_transitions RUNNING = [WAITING_INPUT, FINALIZING, CANCELING]"
| "allowed_transitions WAITING_INPUT = [QUEUED, CANCELING]"
| "allowed_transitions FINALIZING = [SUCCEEDED, FAILED, CANCELING]"
| "allowed_transitions CANCELING = [CANCELED, TIMED_OUT]"
| "allowed_transitions SUCCEEDED = []"
| "allowed_transitions FAILED = []"
| "allowed_transitions CANCELED = []"
| "allowed_transitions TIMED_OUT = []"

definition transition_attempt ::
  "agent_attempt \<Rightarrow> attempt_state \<Rightarrow> checkpoint_input option \<Rightarrow> instant
   \<Rightarrow> (agent_error, agent_attempt) res" where
  "transition_attempt a target checkpoint now =
     (if target \<notin> set (allowed_transitions (at_state a))
      then Inl (IllegalAttemptTransition
        (attempt_state_value (at_state a) @ ''->'' @ attempt_state_value target))
      else if at_state a = WAITING_INPUT \<and> target = QUEUED
      then Inl (ResumeGenerationRequired (at_id a))
      else if target = WAITING_INPUT \<and> checkpoint = None then Inl (CheckpointRequired (at_id a))
      else if target \<noteq> WAITING_INPUT \<and> checkpoint \<noteq> None
      then Inl (CheckpointReplacementForbidden (at_id a))
      else make_attempt (a\<lparr>at_state := target,
             at_checkpoint := (if target = WAITING_INPUT then checkpoint else at_checkpoint a),
             at_revision := at_revision a + 1, at_updated_at := now\<rparr>))"

definition resume_generation ::
  "agent_attempt \<Rightarrow> string \<Rightarrow> instant \<Rightarrow> (agent_error, agent_attempt) res" where
  "resume_generation a fencing_token now =
     (if at_state a \<noteq> WAITING_INPUT \<or> at_checkpoint a = None
      then Inl (AttemptNotResumable (at_id a))
      else if strip fencing_token = [] \<or> fencing_token = at_fencing_token a
      then Inl (InvalidFencingToken (at_id a))
      else make_attempt (a\<lparr>at_state := QUEUED, at_generation := at_generation a + 1,
             at_fencing_token := fencing_token, at_revision := at_revision a + 1,
             at_updated_at := now\<rparr>))"

end
