(* ===== verification/Agent_Lifecycle.thy ===== *)
theory Agent_Lifecycle
  imports Agent_Domain
begin

section \<open>The agent module: the attempt life cycle\<close>

text \<open>
  What the transition table and the two attempt operations guarantee. \<open>transition_attempt\<close>
  interprets the ranked life cycle of \<open>Interfaces\<close>: within one runner generation an attempt only
  moves forward, so a generation sees a bounded number of transitions.
\<close>

definition terminal_attempt :: "attempt_state \<Rightarrow> bool" where
  "terminal_attempt s \<longleftrightarrow> s \<in> {SUCCEEDED, FAILED, CANCELED, TIMED_OUT}"

lemma terminal_allowed: "allowed_transitions s = [] \<longleftrightarrow> terminal_attempt s"
  by (cases s) (simp_all add: terminal_attempt_def)

fun attempt_rank :: "attempt_state \<Rightarrow> nat" where
  "attempt_rank CREATED = 0"
| "attempt_rank BINDING = 1"
| "attempt_rank QUEUED = 2"
| "attempt_rank PROVISIONING = 3"
| "attempt_rank RUNNING = 4"
| "attempt_rank WAITING_INPUT = 5"
| "attempt_rank FINALIZING = 6"
| "attempt_rank CANCELING = 7"
| "attempt_rank _ = 8"

lemma rank_le: "attempt_rank s \<le> 8"
  by (cases s) simp_all

lemma allowed_rank:
  "t \<in> set (allowed_transitions s) \<Longrightarrow> \<not> (s = WAITING_INPUT \<and> t = QUEUED) \<Longrightarrow>
   attempt_rank s < attempt_rank t"
  by (cases s) auto

lemma freeze_evidence_same:
  "freeze_evidence (Some v) = Inr w \<Longrightarrow> \<exists>u. w = Some u \<and> freeze_json v = Inr u"
  by (auto simp: freeze_evidence_def split: sum.splits)

lemma make_attempt_Inr:
  assumes "make_attempt a = Inr b"
  shows "\<exists>ev. freeze_evidence (at_terminal_evidence a) = Inr ev
    \<and> b = a\<lparr>at_terminal_evidence := ev\<rparr>
    \<and> 1 \<le> at_number a \<and> 1 \<le> at_generation a \<and> 0 \<le> at_event_sequence a \<and> 1 \<le> at_revision a
    \<and> (at_state a = WAITING_INPUT \<longrightarrow> at_checkpoint a \<noteq> None)"
  using assms by (auto simp: make_attempt_def res_simps split: if_splits)

lemma transition_attempt_Inr:
  assumes "transition_attempt a t cp now = Inr b"
  shows "t \<in> set (allowed_transitions (at_state a)) \<and> \<not> (at_state a = WAITING_INPUT \<and> t = QUEUED)
    \<and> (t = WAITING_INPUT \<longleftrightarrow> cp \<noteq> None)
    \<and> (\<exists>ev. freeze_evidence (at_terminal_evidence a) = Inr ev
        \<and> b = a\<lparr>at_state := t,
             at_checkpoint := (if t = WAITING_INPUT then cp else at_checkpoint a),
             at_revision := at_revision a + 1, at_updated_at := now, at_terminal_evidence := ev\<rparr>)"
proof -
  let ?c = "a\<lparr>at_state := t, at_checkpoint := (if t = WAITING_INPUT then cp else at_checkpoint a),
      at_revision := at_revision a + 1, at_updated_at := now\<rparr>"
  from assms have guards: "t \<in> set (allowed_transitions (at_state a))"
      "\<not> (at_state a = WAITING_INPUT \<and> t = QUEUED)" "t = WAITING_INPUT \<longleftrightarrow> cp \<noteq> None"
    and made: "make_attempt ?c = Inr b"
    unfolding transition_attempt_def by (simp_all split: if_splits)
  from make_attempt_Inr [OF made] obtain ev where
    ev: "freeze_evidence (at_terminal_evidence ?c) = Inr ev" "b = ?c\<lparr>at_terminal_evidence := ev\<rparr>"
    by blast
  from ev(1) have "freeze_evidence (at_terminal_evidence a) = Inr ev" by simp
  with guards ev(2) show ?thesis by blast
qed

lemma resume_generation_Inr:
  assumes "resume_generation a token now = Inr b"
  shows "at_state a = WAITING_INPUT \<and> at_checkpoint a \<noteq> None \<and> strip token \<noteq> []
    \<and> token \<noteq> at_fencing_token a
    \<and> (\<exists>ev. freeze_evidence (at_terminal_evidence a) = Inr ev
        \<and> b = a\<lparr>at_state := QUEUED, at_generation := at_generation a + 1,
             at_fencing_token := token, at_revision := at_revision a + 1, at_updated_at := now,
             at_terminal_evidence := ev\<rparr>)"
proof -
  let ?c = "a\<lparr>at_state := QUEUED, at_generation := at_generation a + 1,
      at_fencing_token := token, at_revision := at_revision a + 1, at_updated_at := now\<rparr>"
  from assms have guards: "at_state a = WAITING_INPUT" "at_checkpoint a \<noteq> None" "strip token \<noteq> []"
      "token \<noteq> at_fencing_token a"
    and made: "make_attempt ?c = Inr b"
    unfolding resume_generation_def by (simp_all split: if_splits)
  from make_attempt_Inr [OF made] obtain ev where
    ev: "freeze_evidence (at_terminal_evidence ?c) = Inr ev" "b = ?c\<lparr>at_terminal_evidence := ev\<rparr>"
    by blast
  from ev(1) have "freeze_evidence (at_terminal_evidence a) = Inr ev" by simp
  with guards ev(2) show ?thesis by blast
qed

text \<open>One transition with a checkpoint chosen for the target.\<close>

definition advance ::
  "(attempt_state \<Rightarrow> checkpoint_input option) \<Rightarrow> (attempt_state \<Rightarrow> instant) \<Rightarrow> agent_attempt
   \<Rightarrow> attempt_state \<Rightarrow> (agent_error, agent_attempt) res" where
  "advance cp now a t = transition_attempt a t (cp t) (now t)"

interpretation attempt_cycle: ranked_lifecycle allowed_transitions at_state "advance cp now" attempt_rank
  for cp now
  by unfold_locales
    (auto simp: advance_def dest!: transition_attempt_Inr intro: allowed_rank)

lemma advance_revision:
  "run_steps (advance cp now) a ts = Inr b \<Longrightarrow>
     at_revision b = at_revision a + int (length ts)
     \<and> at_id b = at_id a \<and> at_run_id b = at_run_id a \<and> at_binding_id b = at_binding_id a
     \<and> at_generation b = at_generation a \<and> at_fencing_token b = at_fencing_token a
     \<and> at_event_sequence b = at_event_sequence a"
proof (induction ts arbitrary: a)
  case (Cons t ts)
  then obtain c where "advance cp now a t = Inr c" and "run_steps (advance cp now) c ts = Inr b"
    by (auto simp: res_simps)
  moreover from this have c: "transition_attempt a t (cp t) (now t) = Inr c"
    by (simp add: advance_def)
  ultimately show ?case using Cons.IH transition_attempt_Inr [OF c] by auto
qed simp

text \<open>
  C33: within one runner generation an attempt only moves forward. Any sequence of successful
  transitions follows the table, has at most eight steps, raises the revision by one per step,
  and keeps the attempt's identity, its generation and its fencing token; from a terminal state
  no transition succeeds. Leaving \<open>WAITING_INPUT\<close> for \<open>QUEUED\<close> is not among them: that needs a
  new generation.
\<close>

theorem attempt_transitions_bounded:
  assumes "run_steps (advance cp now) a ts = Inr b"
  shows "is_path allowed_transitions (at_state a) ts
    \<and> length ts \<le> 8 - attempt_rank (at_state a)
    \<and> at_revision b = at_revision a + int (length ts)
    \<and> at_id b = at_id a \<and> at_generation b = at_generation a
    \<and> at_fencing_token b = at_fencing_token a
    \<and> (terminal_attempt (at_state a) \<longrightarrow> ts = [])"
  using attempt_cycle.run_path [OF assms] attempt_cycle.run_bounded [OF assms]
    rank_le [of "at_state b"] advance_revision [OF assms]
    attempt_cycle.terminal_absorbing [OF _ assms]
  by (auto simp: terminal_allowed)

definition demo_attempt :: "attempt_state \<Rightarrow> agent_attempt" where
  "demo_attempt s = \<lparr>at_id = ''at'', at_run_id = ''rn'', at_number = 1, at_state = s,
     at_binding_id = ''eb'', at_binding_digest = ''d'', at_generation = 1,
     at_fencing_token = ''fence:at:generation:1'', at_checkpoint = None, at_event_sequence = 0,
     at_waiting_deadline = None, at_terminal_evidence = None, at_revision = 1,
     at_created_at = 0, at_updated_at = 0\<rparr>"

definition demo_path :: "attempt_state list" where
  "demo_path = [BINDING, QUEUED, PROVISIONING, RUNNING, FINALIZING, SUCCEEDED]"

definition demo_end :: agent_attempt where
  "demo_end = (case run_steps (advance (\<lambda>_. None) (\<lambda>_. 5)) (demo_attempt CREATED) demo_path of
     Inr b \<Rightarrow> b | Inl _ \<Rightarrow> demo_attempt CREATED)"

theorem attempt_transitions_bounded_witness:
  "at_revision demo_end = 7 \<and> is_path allowed_transitions CREATED demo_path"
proof -
  have run: "run_steps (advance (\<lambda>_. None) (\<lambda>_. 5)) (demo_attempt CREATED) demo_path
      = Inr demo_end" by code_simp
  from attempt_transitions_bounded [OF this] show ?thesis
    by (simp add: demo_path_def demo_attempt_def)
qed

text \<open>
  resuming starts a new generation. It succeeds only on an attempt that waits with a
  checkpoint and only with a non-blank token different from the current one; the result is
  queued again under the next generation number and the new token, and the checkpoint the
  worker will continue from is the one that was stored.
\<close>

theorem resume_starts_new_generation:
  assumes "resume_generation a token now = Inr b"
  shows "at_state a = WAITING_INPUT \<and> at_checkpoint a \<noteq> None
    \<and> at_state b = QUEUED \<and> at_generation b = at_generation a + 1
    \<and> at_fencing_token b = token \<and> at_fencing_token b \<noteq> at_fencing_token a
    \<and> \<not> blank token
    \<and> at_checkpoint b = at_checkpoint a \<and> at_revision b = at_revision a + 1"
  using resume_generation_Inr [OF assms] by (auto simp: strip_empty_iff)

definition demo_checkpoint :: checkpoint_input where
  "demo_checkpoint = \<lparr>cp_id = ''c1'', cp_artifact_id = ''art'', cp_artifact_version = ''1'',
     cp_content_sha256 = ''sha256:0'', cp_schema_version = ''1'', cp_adapter_version = ''1'',
     cp_classification = ''INTERNAL''\<rparr>"

definition demo_waiting :: agent_attempt where
  "demo_waiting = (demo_attempt WAITING_INPUT)\<lparr>at_checkpoint := Some demo_checkpoint\<rparr>"

definition demo_resumed :: agent_attempt where
  "demo_resumed = (case resume_generation demo_waiting ''fence:at:generation:2'' 9 of
     Inr b \<Rightarrow> b | Inl _ \<Rightarrow> demo_waiting)"

theorem resume_starts_new_generation_witness:
  "at_generation demo_resumed = 2 \<and> at_state demo_resumed = QUEUED
   \<and> at_checkpoint demo_resumed = Some demo_checkpoint"
proof -
  have run: "resume_generation demo_waiting ''fence:at:generation:2'' 9 = Inr demo_resumed"
    by code_simp
  from resume_starts_new_generation [OF this] show ?thesis
    by (simp add: demo_waiting_def demo_attempt_def)
qed

text \<open>No execution binding carries a permission to write the repository.\<close>

definition read_only_permissions :: "string list \<Rightarrow> bool" where
  "read_only_permissions ps \<longleftrightarrow> (\<forall>p \<in> set ps. \<forall>part \<in>
     {''repository.write'', ''git.push'', ''source_control.write'', ''merge''}.
     \<not> contains part (casefold p))"

lemma make_binding_Inr:
  assumes "make_binding env b = Inr b'"
  shows "read_only_permissions (eb_runtime_permissions b')
    \<and> eb_digest b' = canonical_sha256 env (binding_canonical b') \<and> eb_id b' = eb_id b"
proof -
  from assms have none: "List.find forbidden_permission (eb_runtime_permissions b) = None"
    and b': "b' = b\<lparr>eb_digest := canonical_sha256 env (binding_canonical b)\<rparr>"
    by (auto simp: make_binding_def split: option.splits)
  from none have "read_only_permissions (eb_runtime_permissions b)"
    by (auto simp: find_None_iff forbidden_permission_def forbidden_permission_parts_def
        read_only_permissions_def)
  then show ?thesis by (simp add: b' binding_canonical_def)
qed

end
