(* ===== verification/Idempotency.thy ===== *)
theory Idempotency
  imports Platform_Json
begin

section \<open>Idempotent command execution\<close>

text \<open>
  \<^verbatim>\<open>control_plane/app/shared/idempotency.py\<close>: claim a key, run the command, seal its response and
  complete the claim, or replay the sealed response. The repository is the code's
  \<open>IdempotencyRepository\<close> protocol: three operations over the caller's transaction state, collected
  in a record; what the execution relies on is the locale \<open>idempotency_store\<close>. Sealing and
  unsealing (an authenticated cipher, then JSON) and the request fingerprint (an HMAC of the
  canonical JSON) are external: the parameter \<open>sealer\<close>.
\<close>

datatype 'e idem_error =
    IdempotencyConflict string
  | IdempotencyReplayUnavailable string
  | CommandError 'e

record cookie_replay =
  ck_set :: bool
  ck_value :: "string option"

record idem_response =
  ip_status :: int
  ip_body :: pyval
  ip_headers :: "(string \<times> string) list"
  ip_cookie :: "cookie_replay option"
  ip_is_problem :: bool

record idem_envelope =
  ie_actor :: string
  ie_operation :: string
  ie_key :: string
  ie_fingerprint :: string
  ie_response :: idem_response

record idem_row =
  ir_id :: string
  ir_actor :: string
  ir_operation :: string
  ir_key :: string
  ir_fingerprint :: string
  ir_completed :: bool
  ir_http_status :: "int option"
  ir_metadata :: "pyval option"
  ir_sealed :: "string option"
  ir_created_at :: instant
  ir_updated_at :: instant
  ir_completed_at :: "instant option"

record sealer =
  seal :: "idem_envelope \<Rightarrow> string"
  unseal :: "string \<Rightarrow> idem_envelope option"
  request_fingerprint :: "string \<Rightarrow> string \<Rightarrow> string \<Rightarrow> pyval \<Rightarrow> string"

definition sealer_ok :: "sealer \<Rightarrow> bool" where
  "sealer_ok S \<longleftrightarrow> (\<forall>e. unseal S (seal S e) = Some e)"

record ('s, 'e) idem_repository =
  claim_idempotency ::
    "string \<Rightarrow> string \<Rightarrow> string \<Rightarrow> string \<Rightarrow> string \<Rightarrow> instant \<Rightarrow> 's \<Rightarrow> ('e, bool \<times> 's) res"
  idempotency_by_scope :: "string \<Rightarrow> string \<Rightarrow> string \<Rightarrow> 's \<Rightarrow> ('e, idem_row option) res"
  complete_idempotency ::
    "string \<Rightarrow> int \<Rightarrow> pyval \<Rightarrow> string \<Rightarrow> instant \<Rightarrow> 's \<Rightarrow> ('e, bool \<times> 's) res"

record idem_claim =
  ic_record_id :: string
  ic_actor :: string
  ic_operation :: string
  ic_key :: string
  ic_fingerprint :: string
  ic_created :: bool

record idem_execution =
  ix_response :: idem_response
  ix_replayed :: bool
  ix_claim :: idem_claim

text \<open>The scope, the request's fingerprint and the readings one execution makes.\<close>

record idem_request =
  iq_actor :: string
  iq_operation :: string
  iq_key :: string
  iq_fingerprint :: string
  iq_record_id :: string
  iq_claim_now :: instant
  iq_complete_now :: instant

definition replay_metadata :: pyval where
  "replay_metadata = PyDict [(''kind'', PyStr ''http-response''), (''schemaVersion'', PyInt 1)]"

definition replay :: "sealer \<Rightarrow> idem_row \<Rightarrow> ('e idem_error, idem_response) res" where
  "replay S row =
     (if \<not> ir_completed row \<or> ir_metadata row \<noteq> Some replay_metadata \<or> ir_sealed row = None
      then Inl (IdempotencyConflict ''idempotent command is still in progress'')
      else (case unseal S (the (ir_sealed row)) of
         None \<Rightarrow> Inl (IdempotencyReplayUnavailable ''idempotent response is unavailable'')
       | Some envelope \<Rightarrow>
          if ie_actor envelope \<noteq> ir_actor row \<or> ie_operation envelope \<noteq> ir_operation row
             \<or> ie_key envelope \<noteq> ir_key row \<or> ie_fingerprint envelope \<noteq> ir_fingerprint row
             \<or> Some (ip_status (ie_response envelope)) \<noteq> ir_http_status row
          then Inl (IdempotencyReplayUnavailable ''idempotent response is unavailable'')
          else Inr (ie_response envelope)))"

definition lift_command :: "('e, 'a) res \<Rightarrow> ('e idem_error, 'a) res" where
  "lift_command m = (case m of Inl e \<Rightarrow> Inl (CommandError e) | Inr x \<Rightarrow> Inr x)"

lemma lift_command_simps [simp]:
  "lift_command (Inl e) = Inl (CommandError e)" "lift_command (Inr x) = Inr x"
  by (simp_all add: lift_command_def)

lemma lift_command_Inr [res_simps]: "lift_command m = Inr x \<longleftrightarrow> m = Inr x"
  by (cases m) simp_all

definition run_claimed ::
  "('s, 'e) idem_repository \<Rightarrow> sealer \<Rightarrow> idem_request \<Rightarrow> idem_claim \<Rightarrow> string
   \<Rightarrow> ('s \<Rightarrow> ('e, idem_response \<times> 's) res) \<Rightarrow> 's
   \<Rightarrow> ('e idem_error, idem_execution \<times> 's) res" where
  "run_claimed R S q claim row_id command s =
     rbind (lift_command (command s)) (\<lambda>(response, s1).
     let envelope = \<lparr>ie_actor = iq_actor q, ie_operation = iq_operation q, ie_key = iq_key q,
           ie_fingerprint = iq_fingerprint q, ie_response = response\<rparr>
     in rbind (lift_command (complete_idempotency R row_id (ip_status response) replay_metadata
             (seal S envelope) (iq_complete_now q) s1)) (\<lambda>(completed, s2).
        if \<not> completed
        then Inl (IdempotencyReplayUnavailable ''idempotency completion is unavailable'')
        else Inr (\<lparr>ix_response = response, ix_replayed = False, ix_claim = claim\<rparr>, s2)))"

definition execute_idempotent ::
  "('s, 'e) idem_repository \<Rightarrow> sealer \<Rightarrow> idem_request
   \<Rightarrow> (idem_claim \<Rightarrow> 's \<Rightarrow> ('e, 's) res) option
   \<Rightarrow> ('s \<Rightarrow> ('e, idem_response \<times> 's) res) \<Rightarrow> 's
   \<Rightarrow> ('e idem_error, idem_execution \<times> 's) res" where
  "execute_idempotent R S q on_claimed command s =
     rbind (lift_command (claim_idempotency R (iq_record_id q) (iq_actor q) (iq_operation q)
             (iq_key q) (iq_fingerprint q) (iq_claim_now q) s)) (\<lambda>(claimed, s1).
     rbind (lift_command (idempotency_by_scope R (iq_actor q) (iq_operation q) (iq_key q) s1))
       (\<lambda>found. case found of
          None \<Rightarrow> Inl (IdempotencyReplayUnavailable ''idempotency claim is unavailable'')
        | Some row \<Rightarrow>
            if ir_fingerprint row \<noteq> iq_fingerprint q
            then Inl (IdempotencyConflict ''Idempotency-Key is bound to a different request'')
            else
              let claim = \<lparr>ic_record_id = ir_id row, ic_actor = iq_actor q,
                    ic_operation = iq_operation q, ic_key = iq_key q,
                    ic_fingerprint = iq_fingerprint q, ic_created = claimed\<rparr>
              in if \<not> claimed then
                   rbind (replay S row) (\<lambda>response.
                     Inr (\<lparr>ix_response = response, ix_replayed = True, ix_claim = claim\<rparr>, s1))
                 else
                   rbind (case on_claimed of None \<Rightarrow> Inr s1
                            | Some f \<Rightarrow> lift_command (f claim s1)) (\<lambda>s2.
                     run_claimed R S q claim (ir_id row) command s2)))"

text \<open>Whatever the repository's operations and the command preserve, the execution preserves.\<close>

lemma execute_preserves:
  assumes "execute_idempotent R S q None command s = Inr (x, s')" and "P s"
    and "\<And>i a p k fp now t c t'. claim_idempotency R i a p k fp now t = Inr (c, t') \<Longrightarrow> P t \<Longrightarrow> P t'"
    and "\<And>i st md sealed now t c t'. complete_idempotency R i st md sealed now t = Inr (c, t') \<Longrightarrow> Q t \<Longrightarrow> Q t'"
    and "\<And>t resp t'. command t = Inr (resp, t') \<Longrightarrow> P t \<Longrightarrow> Q t'"
    and "P s' \<Longrightarrow> Q s'"
  shows "Q s'"
proof -
  from assms(1) obtain claimed s1 found where
    cl: "claim_idempotency R (iq_record_id q) (iq_actor q) (iq_operation q) (iq_key q)
          (iq_fingerprint q) (iq_claim_now q) s = Inr (claimed, s1)"
    and found: "idempotency_by_scope R (iq_actor q) (iq_operation q) (iq_key q) s1 = Inr found"
    unfolding execute_idempotent_def by (auto simp: res_simps)
  have P1: "P s1" by (rule assms(3) [OF cl assms(2)])
  show ?thesis
  proof (cases "\<exists>c i. run_claimed R S q c i command s1 = Inr (x, s')")
    case True
    then obtain c i resp s2 fin s3 where "command s1 = Inr (resp, s2)"
      and "complete_idempotency R i (ip_status resp) replay_metadata
        (seal S \<lparr>ie_actor = iq_actor q, ie_operation = iq_operation q, ie_key = iq_key q,
           ie_fingerprint = iq_fingerprint q, ie_response = resp\<rparr>) (iq_complete_now q) s2
        = Inr (fin, s3)" and "s3 = s'"
      unfolding run_claimed_def by (auto simp: res_simps Let_def split: if_splits)
    with P1 assms(4,5) show ?thesis by metis
  next
    case False
    with assms(1) cl found have "s' = s1"
      by (auto simp: execute_idempotent_def res_simps Let_def split: option.splits if_splits)
    with P1 assms(6) show ?thesis by simp
  qed
qed

subsection \<open>What the execution relies on\<close>

definition at_scope :: "string \<Rightarrow> string \<Rightarrow> string \<Rightarrow> idem_row \<Rightarrow> bool" where
  "at_scope actor operation key row \<longleftrightarrow>
     ir_actor row = actor \<and> ir_operation row = operation \<and> ir_key row = key"

locale idempotency_store =
  fixes R :: "('s, 'e) idem_repository"
    and good :: "'s \<Rightarrow> bool"
    and fp_ok :: "string \<Rightarrow> bool"
  assumes claim_taken: "good s \<Longrightarrow> fp_ok fp \<Longrightarrow> idempotency_by_scope R a p k s = Inr (Some row) \<Longrightarrow>
      claim_idempotency R i a p k fp now s = Inr (False, s)"
    and claim_fresh: "good s \<Longrightarrow> claim_idempotency R i a p k fp now s = Inr (True, s') \<Longrightarrow>
      idempotency_by_scope R a p k s = Inr None \<and> good s'
      \<and> (\<exists>row. idempotency_by_scope R a p k s' = Inr (Some row) \<and> ir_id row = i
           \<and> at_scope a p k row \<and> ir_fingerprint row = fp \<and> \<not> ir_completed row)"
    and claim_lost: "good s \<Longrightarrow> claim_idempotency R i a p k fp now s = Inr (False, s') \<Longrightarrow>
      s' = s"
    and complete_row: "good s \<Longrightarrow> idempotency_by_scope R a p k s = Inr (Some row) \<Longrightarrow>
      complete_idempotency R (ir_id row) st replay_metadata sealed now s = Inr (True, s') \<Longrightarrow>
      good s' \<and> idempotency_by_scope R a p k s' = Inr (Some (row\<lparr>ir_completed := True,
        ir_http_status := Some st, ir_metadata := Some replay_metadata, ir_sealed := Some sealed,
        ir_updated_at := now, ir_completed_at := Some now\<rparr>))"
begin

text \<open>A command that leaves its own claim alone.\<close>

definition spares :: "('s \<Rightarrow> ('e, idem_response \<times> 's) res) \<Rightarrow> string \<Rightarrow> string \<Rightarrow> string \<Rightarrow> bool" where
  "spares command a p k \<longleftrightarrow> (\<forall>s resp s'. good s \<longrightarrow> command s = Inr (resp, s') \<longrightarrow>
     good s' \<and> idempotency_by_scope R a p k s' = idempotency_by_scope R a p k s)"

lemma conflicting_request_rejected:
  assumes "good s" and "fp_ok (iq_fingerprint q)"
    and "idempotency_by_scope R (iq_actor q) (iq_operation q) (iq_key q) s = Inr (Some row)"
    and "ir_fingerprint row \<noteq> iq_fingerprint q"
  shows "execute_idempotent R S q oc command s
    = Inl (IdempotencyConflict ''Idempotency-Key is bound to a different request'')"
  using claim_taken [OF assms(1-3)] assms(3,4) by (simp add: execute_idempotent_def)

lemma recorded_request_replays:
  assumes "good s" and "fp_ok (iq_fingerprint q)"
    and "idempotency_by_scope R (iq_actor q) (iq_operation q) (iq_key q) s = Inr (Some row)"
    and "ir_fingerprint row = iq_fingerprint q" and "replay S row = (Inr response :: ('e idem_error, idem_response) res)"
  shows "\<exists>x. execute_idempotent R S q oc command s = Inr (x, s)
    \<and> ix_response x = response \<and> ix_replayed x"
  using claim_taken [OF assms(1-3)] assms(3-5) by (simp add: execute_idempotent_def Let_def)

lemma first_execution:
  assumes "good s" and "spares command (iq_actor q) (iq_operation q) (iq_key q)"
    and "execute_idempotent R S q None command s = Inr (x, s')" and "\<not> ix_replayed x"
  shows "\<exists>s1 s2 row. claim_idempotency R (iq_record_id q) (iq_actor q) (iq_operation q) (iq_key q)
          (iq_fingerprint q) (iq_claim_now q) s = Inr (True, s1)
      \<and> command s1 = Inr (ix_response x, s2) \<and> good s'
      \<and> idempotency_by_scope R (iq_actor q) (iq_operation q) (iq_key q) s' = Inr (Some row)
      \<and> at_scope (iq_actor q) (iq_operation q) (iq_key q) row
      \<and> ir_fingerprint row = iq_fingerprint q \<and> ir_completed row
      \<and> ir_http_status row = Some (ip_status (ix_response x))
      \<and> ir_metadata row = Some replay_metadata
      \<and> ir_sealed row = Some (seal S \<lparr>ie_actor = iq_actor q, ie_operation = iq_operation q,
           ie_key = iq_key q, ie_fingerprint = iq_fingerprint q, ie_response = ix_response x\<rparr>)"
proof -
  let ?a = "iq_actor q" and ?p = "iq_operation q" and ?k = "iq_key q"
  obtain claimed s1 found where
    cl: "claim_idempotency R (iq_record_id q) ?a ?p ?k (iq_fingerprint q) (iq_claim_now q) s
        = Inr (claimed, s1)"
    and found: "idempotency_by_scope R ?a ?p ?k s1 = Inr found"
    using assms(3) unfolding execute_idempotent_def by (auto simp: res_simps)
  have claimed: "claimed"
    using assms(3,4) cl found
    by (auto simp: execute_idempotent_def res_simps Let_def split: option.splits if_splits)
  with cl have cl: "claim_idempotency R (iq_record_id q) ?a ?p ?k (iq_fingerprint q) (iq_claim_now q) s
      = Inr (True, s1)" by simp
  from claim_fresh [OF assms(1) cl] obtain row where good1: "good s1"
    and row: "idempotency_by_scope R ?a ?p ?k s1 = Inr (Some row)" "ir_id row = iq_record_id q"
      "at_scope ?a ?p ?k row" "ir_fingerprint row = iq_fingerprint q" by blast
  define c where "c = \<lparr>ic_record_id = ir_id row, ic_actor = ?a, ic_operation = ?p, ic_key = ?k,
      ic_fingerprint = iq_fingerprint q, ic_created = claimed\<rparr>"
  have "run_claimed R S q c (ir_id row) command s1 = Inr (x, s')"
    using assms(3) cl row(1,4) claimed by (simp add: execute_idempotent_def Let_def c_def)
  then obtain resp s2 where cmd: "command s1 = Inr (resp, s2)"
    and fin: "complete_idempotency R (ir_id row) (ip_status resp) replay_metadata
        (seal S \<lparr>ie_actor = ?a, ie_operation = ?p, ie_key = ?k, ie_fingerprint = iq_fingerprint q,
           ie_response = resp\<rparr>) (iq_complete_now q) s2 = Inr (True, s')"
    and x: "ix_response x = resp"
    unfolding run_claimed_def by (auto simp: res_simps Let_def split: if_splits)
  from assms(2) good1 cmd row(1) have "good s2" "idempotency_by_scope R ?a ?p ?k s2 = Inr (Some row)"
    by (simp_all add: spares_def)
  from complete_row [OF this fin] cl claimed cmd x row(3,4) show ?thesis
    by (auto simp: at_scope_def)
qed

lemma replayed_execution:
  assumes "good s" and "execute_idempotent R S q None command s = Inr (x, s')"
    and "ix_replayed x"
  shows "s' = s \<and> (\<exists>row. idempotency_by_scope R (iq_actor q) (iq_operation q) (iq_key q) s
      = Inr (Some row) \<and> ir_fingerprint row = iq_fingerprint q
      \<and> replay S row = (Inr (ix_response x) :: ('e idem_error, idem_response) res))"
proof -
  from assms(2) obtain claimed s1 found where
    cl: "claim_idempotency R (iq_record_id q) (iq_actor q) (iq_operation q) (iq_key q)
          (iq_fingerprint q) (iq_claim_now q) s = Inr (claimed, s1)"
    and found: "idempotency_by_scope R (iq_actor q) (iq_operation q) (iq_key q) s1 = Inr found"
    unfolding execute_idempotent_def by (auto simp: res_simps)
  obtain row where row: "found = Some row" "ir_fingerprint row = iq_fingerprint q"
    using assms(2) cl found by (auto simp: execute_idempotent_def split: option.splits if_splits)
  have "\<not> claimed"
  proof
    assume "claimed"
    with assms(2) cl found row have "\<exists>c. run_claimed R S q c (ir_id row) command s1 = Inr (x, s')"
      by (auto simp: execute_idempotent_def Let_def)
    with assms(3) show False
      unfolding run_claimed_def by (auto simp: res_simps Let_def split: if_splits)
  qed
  with claim_lost [OF assms(1)] cl have "s1 = s" by simp
  with assms(2) cl found row \<open>\<not> claimed\<close> show ?thesis
    by (auto simp: execute_idempotent_def Let_def res_simps)
qed

text \<open>After a successful execution the key's row replays it.\<close>

lemma execution_recorded:
  assumes "good s" and "sealer_ok S"
    and "spares command (iq_actor q) (iq_operation q) (iq_key q)"
    and "execute_idempotent R S q None command s = Inr (x, s')"
  shows "good s' \<and> (\<exists>row. idempotency_by_scope R (iq_actor q) (iq_operation q) (iq_key q) s'
      = Inr (Some row) \<and> ir_fingerprint row = iq_fingerprint q
      \<and> replay S row = (Inr (ix_response x) :: ('e idem_error, idem_response) res))"
proof (cases "ix_replayed x")
  case True
  with replayed_execution [OF assms(1,4)] assms(1) show ?thesis by auto
next
  case False
  from first_execution [OF assms(1,3,4) False] obtain row where good: "good s'"
    and row: "idempotency_by_scope R (iq_actor q) (iq_operation q) (iq_key q) s' = Inr (Some row)"
      "at_scope (iq_actor q) (iq_operation q) (iq_key q) row"
      "ir_fingerprint row = iq_fingerprint q" "ir_completed row"
      "ir_http_status row = Some (ip_status (ix_response x))" "ir_metadata row = Some replay_metadata"
      "ir_sealed row = Some (seal S \<lparr>ie_actor = iq_actor q, ie_operation = iq_operation q,
           ie_key = iq_key q, ie_fingerprint = iq_fingerprint q, ie_response = ix_response x\<rparr>)"
    by blast
  have "replay S row = (Inr (ix_response x) :: ('e idem_error, idem_response) res)"
    using row assms(2) by (simp add: replay_def sealer_ok_def at_scope_def)
  with good row(1,3) show ?thesis by blast
qed

text \<open>However the response was obtained, a later request under the same key gets it again.\<close>

lemma execution_repeats:
  assumes "good s" and "sealer_ok S" and "fp_ok (iq_fingerprint q)"
    and "spares command (iq_actor q) (iq_operation q) (iq_key q)"
    and "execute_idempotent R S q None command s = Inr (x, s')"
    and "iq_actor q' = iq_actor q" and "iq_operation q' = iq_operation q" and "iq_key q' = iq_key q"
    and "iq_fingerprint q' = iq_fingerprint q"
  shows "\<exists>y. execute_idempotent R S q' oc command' s' = Inr (y, s')
    \<and> ix_response y = ix_response x \<and> ix_replayed y"
proof -
  from execution_recorded [OF assms(1,2,4,5)] obtain row where "good s'"
    and "idempotency_by_scope R (iq_actor q') (iq_operation q') (iq_key q') s' = Inr (Some row)"
    and "ir_fingerprint row = iq_fingerprint q'"
    and "replay S row = (Inr (ix_response x) :: ('e idem_error, idem_response) res)"
    using assms(6-9) by auto
  with recorded_request_replays [of s' q' row S "ix_response x" oc command'] assms(3,9)
  show ?thesis by simp
qed

end

section \<open>An idempotency table\<close>

text \<open>
  Several modules keep the keys of their commands in a table \<open>idempotency_record\<close> of the same shape
  and issue the same three statements on it (\<open>claim_idempotency\<close>, \<open>idempotency_by_scope\<close>,
  \<open>complete_idempotency\<close> of their adapters, with the constraints of their first migration). The
  statements are stated once over a list of rows and lifted to a module's database through the
  selector and the update of its table; the lifted repository satisfies \<open>idempotency_store\<close>.
\<close>

definition key_scope :: "idem_row \<Rightarrow> string \<times> string \<times> string" where
  "key_scope r = (ir_actor r, ir_operation r, ir_key r)"

definition key_row_ok :: "idem_row \<Rightarrow> bool" where
  "key_row_ok r = (ir_actor r \<noteq> [] \<and> ir_operation r \<noteq> [] \<and> ir_key r \<noteq> [] \<and> ir_fingerprint r \<noteq> []
     \<and> (if ir_completed r
        then (case ir_http_status r of None \<Rightarrow> False | Some st \<Rightarrow> 100 \<le> st \<and> st \<le> 599)
          \<and> ir_metadata r \<noteq> None \<and> ir_sealed r \<noteq> None \<and> ir_completed_at r \<noteq> None
        else ir_http_status r = None \<and> ir_metadata r = None \<and> ir_sealed r = None
          \<and> ir_completed_at r = None)
     \<and> ir_created_at r \<le> ir_updated_at r
     \<and> (case ir_completed_at r of None \<Rightarrow> True
        | Some t \<Rightarrow> ir_created_at r \<le> t \<and> t \<le> ir_updated_at r))"

definition claimed_key ::
  "string \<Rightarrow> string \<Rightarrow> string \<Rightarrow> string \<Rightarrow> string \<Rightarrow> instant \<Rightarrow> idem_row" where
  "claimed_key i a p k fp now = \<lparr>ir_id = i, ir_actor = a, ir_operation = p, ir_key = k,
     ir_fingerprint = fp, ir_completed = False, ir_http_status = None, ir_metadata = None,
     ir_sealed = None, ir_created_at = now, ir_updated_at = now, ir_completed_at = None\<rparr>"

definition completed_key ::
  "int \<Rightarrow> pyval \<Rightarrow> string \<Rightarrow> instant \<Rightarrow> idem_row \<Rightarrow> idem_row" where
  "completed_key st md sealed now r = r\<lparr>ir_completed := True, ir_http_status := Some st,
     ir_metadata := Some md, ir_sealed := Some sealed, ir_updated_at := now,
     ir_completed_at := Some now\<rparr>"

text \<open>\<open>INSERT ... ON CONFLICT (actor, operation, idempotency_key) DO NOTHING\<close>: the row's constraints are
  checked before the conflict, a primary key in use raises.\<close>

definition claim_key_row :: "'e \<Rightarrow> idem_row \<Rightarrow> idem_row list \<Rightarrow> ('e, bool \<times> idem_row list) res" where
  "claim_key_row e r rows =
     (if \<not> key_row_ok r then Inl e
      else if row_by key_scope (key_scope r) rows \<noteq> None then Inr (False, rows)
      else if ir_id r \<in> ir_id ` set rows then Inl e
      else Inr (True, rows @ [r]))"

text \<open>\<open>UPDATE ... WHERE id = :id AND state = 'IN_PROGRESS'\<close> and its row count.\<close>

definition complete_key_row ::
  "'e \<Rightarrow> string \<Rightarrow> (idem_row \<Rightarrow> idem_row) \<Rightarrow> idem_row list \<Rightarrow> ('e, bool \<times> idem_row list) res" where
  "complete_key_row e i f rows =
     (case row_by ir_id i rows of
        None \<Rightarrow> Inr (False, rows)
      | Some r \<Rightarrow>
          if ir_completed r then Inr (False, rows)
          else if \<not> key_row_ok (f r) then Inl e
          else Inr (True, set_where (\<lambda>x. ir_id x = i) f rows))"

definition table_repository ::
  "('s \<Rightarrow> idem_row list) \<Rightarrow> (idem_row list \<Rightarrow> 's \<Rightarrow> 's) \<Rightarrow> 'e \<Rightarrow> ('s, 'e) idem_repository" where
  "table_repository get put e =
     \<lparr>claim_idempotency = (\<lambda>i a p k fp now s.
        rbind (claim_key_row e (claimed_key i a p k fp now) (get s)) (\<lambda>(c, rows). Inr (c, put rows s))),
      idempotency_by_scope = (\<lambda>a p k s. Inr (row_by key_scope (a, p, k) (get s))),
      complete_idempotency = (\<lambda>i st md sealed now s.
        rbind (complete_key_row e i (completed_key st md sealed now) (get s))
          (\<lambda>(c, rows). Inr (c, put rows s)))\<rparr>"

definition keys_inv :: "idem_row list \<Rightarrow> bool" where
  "keys_inv rows \<longleftrightarrow> distinct (map ir_id rows) \<and> distinct (map key_scope rows)
     \<and> (\<forall>r \<in> set rows. key_row_ok r)"

lemma claimed_key_simps [simp]:
  "key_scope (claimed_key i a p k fp now) = (a, p, k)" "ir_id (claimed_key i a p k fp now) = i"
  "ir_fingerprint (claimed_key i a p k fp now) = fp" "\<not> ir_completed (claimed_key i a p k fp now)"
  "at_scope a p k (claimed_key i a p k fp now)"
  by (simp_all add: claimed_key_def key_scope_def at_scope_def)

lemma completed_key_simps [simp]:
  "ir_id (completed_key st md sealed now r) = ir_id r"
  "key_scope (completed_key st md sealed now r) = key_scope r"
  by (simp_all add: completed_key_def key_scope_def)

lemma keys_inv_claim:
  assumes "keys_inv rows" and "claim_key_row e r rows = Inr (c, rows')"
  shows "keys_inv rows'"
  using assms by (auto simp: claim_key_row_def keys_inv_def row_by_None image_iff split: if_splits)

lemma keys_inv_complete:
  assumes "keys_inv rows" and "complete_key_row e i (completed_key st md sealed now) rows = Inr (c, rows')"
  shows "keys_inv rows'"
proof (cases "row_by ir_id i rows")
  case None
  with assms show ?thesis by (simp add: complete_key_row_def)
next
  case (Some r)
  have same: "x = r" if "x \<in> set rows" "ir_id x = i" for x
    using assms(1) that row_by_Some [OF Some] by (auto simp: keys_inv_def distinct_map dest: inj_onD)
  with assms Some show ?thesis
    by (auto simp: complete_key_row_def keys_inv_def set_set_where split: if_splits)
qed

lemma complete_key_row_at:
  assumes "keys_inv rows" and "r \<in> set rows"
    and "complete_key_row e (ir_id r) (completed_key st md sealed now) rows = Inr (True, rows')"
  shows "row_by key_scope (key_scope r) rows' = Some (completed_key st md sealed now r)"
proof -
  have ri: "row_by ir_id (ir_id r) rows = Some r"
    and rk: "row_by key_scope (key_scope r) rows = Some r"
    using assms(1,2) by (simp_all add: keys_inv_def row_by_distinct)
  from assms(3) ri have "rows' = set_where (\<lambda>x. ir_id x = ir_id r) (completed_key st md sealed now) rows"
    by (simp add: complete_key_row_def split: if_splits)
  with rk show ?thesis by (simp add: row_by_set_where)
qed

lemma table_idempotency_store:
  fixes e :: 'e
  assumes get_put: "\<And>rows s. get (put rows s) = rows" and put_get: "\<And>s. put (get s) s = s"
  shows "idempotency_store (table_repository get put e) (\<lambda>s. keys_inv (get s)) (\<lambda>fp. fp \<noteq> [])"
proof (unfold_locales, goal_cases)
  case (1 s fp a p k row i now)
  then have row: "row_by key_scope (a, p, k) (get s) = Some row" by (simp add: table_repository_def)
  from row_by_Some [OF row] 1(1) have "key_row_ok row" "key_scope row = (a, p, k)"
    by (auto simp: keys_inv_def)
  with 1(2) have "key_row_ok (claimed_key i a p k fp now)"
    by (auto simp: key_row_ok_def claimed_key_def key_scope_def)
  with row put_get show ?case by (simp add: table_repository_def claim_key_row_def)
next
  case (2 s i a p k fp now s')
  then obtain rows where cl: "claim_key_row e (claimed_key i a p k fp now) (get s) = Inr (True, rows)"
    and s': "s' = put rows s" by (auto simp: table_repository_def res_simps)
  then have "row_by key_scope (a, p, k) (get s) = None" "rows = get s @ [claimed_key i a p k fp now]"
    by (simp_all add: claim_key_row_def split: if_splits)
  with 2(1) s' keys_inv_claim [OF 2(1) cl] get_put show ?case
    by (simp add: table_repository_def row_by_append)
next
  case (3 s i a p k fp now s')
  then show ?case using put_get
    by (auto simp: table_repository_def res_simps claim_key_row_def split: if_splits)
next
  case (4 s a p k row st sealed now s')
  then obtain rows where row: "row_by key_scope (a, p, k) (get s) = Some row"
    and fin: "complete_key_row e (ir_id row) (completed_key st replay_metadata sealed now) (get s)
        = Inr (True, rows)"
    and s': "s' = put rows s" by (auto simp: table_repository_def res_simps)
  have mem: "row \<in> set (get s)" "key_scope row = (a, p, k)" using row_by_Some [OF row] by simp_all
  from complete_key_row_at [OF 4(1) mem(1) fin] keys_inv_complete [OF 4(1) fin] mem(2) s' get_put
  show ?case by (simp add: table_repository_def completed_key_def)
qed

end
