(* ===== verification/Agent_Store.thy ===== *)
theory Agent_Store
  imports Agent_Lifecycle Audit_Log Idempotency
begin

section \<open>The agent module: the repository\<close>

text \<open>
  \<^verbatim>\<open>agent/adapters/sqlalchemy.py\<close> over the tables of \<^verbatim>\<open>migrations/agent\<close>. A table is the list of
  its rows in insertion order; primary keys, unique and check constraints make an insert or an
  update raise \<open>IntegrityError\<close>; an \<open>INTEGER\<close> column holds a signed 32-bit value. A row is parsed
  into its model on every read, so reads can fail. A transaction that raises rolls back, which is
  why an error carries no database. Arguments the code re-validates on entry are validated
  values already (\<open>model_validate\<close> of a dumped model is the model).
\<close>

record run_row =
  rr_id :: string
  rr_workspace_id :: string
  rr_goal_ref :: string
  rr_created_by :: string
  rr_definition_id :: string
  rr_definition_version :: int
  rr_latest_attempt_id :: string
  rr_state :: run_state
  rr_revision :: int
  rr_created_at :: instant
  rr_updated_at :: instant
  rr_requirement_id :: "string option"
  rr_work_item_id :: "string option"
  rr_assignment_id :: "string option"

record attempt_row =
  tr_id :: string
  tr_run_id :: string
  tr_number :: int
  tr_state :: attempt_state
  tr_binding_id :: string
  tr_binding_digest :: string
  tr_generation :: int
  tr_fencing_token :: string
  tr_checkpoint_id :: "string option"
  tr_event_sequence :: int
  tr_waiting_deadline :: "instant option"
  tr_terminal_evidence :: "pyval option"
  tr_revision :: int
  tr_created_at :: instant
  tr_updated_at :: instant

record binding_row =
  br_id :: string
  br_attempt_id :: string
  br_source :: binding_source
  br_digest :: string
  br_snapshot :: execution_binding

record checkpoint_row =
  kr_attempt_id :: string
  kr_checkpoint :: checkpoint_input

record agent_db =
  ad_definitions :: "agent_definition list"
  ad_runs :: "run_row list"
  ad_attempts :: "attempt_row list"
  ad_bindings :: "binding_row list"
  ad_events :: "canonical_event list"
  ad_receipts :: "event_receipt list"
  ad_checkpoints :: "checkpoint_row list"
  ad_commands :: "workflow_command list"
  ad_idempotency :: "idem_row list"
  ad_audit :: audit_log

subsection \<open>Constraints\<close>

definition hex64 :: "string \<Rightarrow> bool" where
  "hex64 s = (length s = 64 \<and> lower_hex s)"

definition json_object :: "pyval option \<Rightarrow> bool" where
  "json_object v = (case v of None \<Rightarrow> True | Some j \<Rightarrow> mapping_items j \<noteq> None)"

definition run_row_ok :: "run_row \<Rightarrow> bool" where
  "run_row_ok r = (nonblank_text (rr_goal_ref r) \<and> nonblank_text (rr_created_by r)
     \<and> 1 \<le> rr_definition_version r \<and> int4 (rr_definition_version r)
     \<and> 1 \<le> rr_revision r \<and> int4 (rr_revision r) \<and> rr_created_at r \<le> rr_updated_at r
     \<and> length (filter (\<lambda>c. c \<noteq> None) [rr_requirement_id r, rr_work_item_id r, rr_assignment_id r])
         \<in> {0, 3})"

definition attempt_row_ok :: "attempt_row \<Rightarrow> bool" where
  "attempt_row_ok r = (1 \<le> tr_number r \<and> int4 (tr_number r) \<and> hex64 (tr_binding_digest r)
     \<and> 1 \<le> tr_generation r \<and> int4 (tr_generation r) \<and> nonblank_text (tr_fencing_token r)
     \<and> 0 \<le> tr_event_sequence r \<and> int4 (tr_event_sequence r)
     \<and> json_object (tr_terminal_evidence r)
     \<and> 1 \<le> tr_revision r \<and> int4 (tr_revision r) \<and> tr_created_at r \<le> tr_updated_at r)"

definition checkpoint_row_ok :: "checkpoint_row \<Rightarrow> bool" where
  "checkpoint_row_ok r = (let c = kr_checkpoint r in
     nonblank_text (cp_artifact_id c) \<and> nonblank_text (cp_artifact_version c)
     \<and> nonblank_text (cp_schema_version c) \<and> nonblank_text (cp_adapter_version c)
     \<and> content_digest (cp_content_sha256 c)
     \<and> cp_classification c \<in> {''PUBLIC'', ''INTERNAL'', ''CONFIDENTIAL'', ''RESTRICTED''})"

definition event_types :: "string list" where
  "event_types = [''ATTEMPT_QUEUED'', ''ATTEMPT_PROVISIONING'', ''ATTEMPT_RUNNING'', ''WAITING_INPUT'',
     ''ATTEMPT_FINALIZING'', ''ATTEMPT_SUCCEEDED'', ''ATTEMPT_FAILED'', ''ATTEMPT_CANCELED'',
     ''ATTEMPT_TIMED_OUT'']"

definition event_row_ok :: "canonical_event \<Rightarrow> string \<Rightarrow> bool" where
  "event_row_ok e digest = (ev_type e \<in> set event_types \<and> 1 \<le> ev_generation e \<and> int4 (ev_generation e)
     \<and> 1 \<le> ev_sequence e \<and> int4 (ev_sequence e) \<and> nonblank_text (ev_correlation_id e)
     \<and> nonblank_text (ev_trace_id e) \<and> nonblank_text (ev_span_id e)
     \<and> nonblank_text (ev_summary e) \<and> content_digest digest)"

definition accepted_receipt :: "string \<Rightarrow> pyval \<Rightarrow> bool" where
  "accepted_receipt key v = (case mapping_items v of None \<Rightarrow> False
     | Some kvs \<Rightarrow> set (map fst kvs) = {''commandKey'', ''outcome''}
         \<and> map_of kvs ''commandKey'' = Some (PyStr key)
         \<and> map_of kvs ''outcome'' = Some (PyStr ''ACCEPTED''))"

definition command_evidence_ok :: "workflow_command \<Rightarrow> bool" where
  "command_evidence_ok c = (case wc_state c of
     PLANNED \<Rightarrow> wc_receipt c = None \<and> wc_dispatched_at c = None
       \<and> wc_error c \<in> {None, Some ''WORKFLOW_PRE_CALL_FAILURE''}
   | DISPATCHED \<Rightarrow> (case wc_receipt c of None \<Rightarrow> False | Some r \<Rightarrow> accepted_receipt (wc_key c) r)
       \<and> wc_dispatched_at c \<noteq> None \<and> wc_error c = None
   | UNKNOWN \<Rightarrow> wc_receipt c = None \<and> wc_dispatched_at c = None
       \<and> wc_error c \<in> {Some ''WORKFLOW_ACKNOWLEDGEMENT_UNKNOWN'',
            Some ''WORKFLOW_CLAIM_ATTEMPTS_EXHAUSTED''}
   | COMMAND_FAILED \<Rightarrow> wc_receipt c = None \<and> wc_dispatched_at c = None
       \<and> wc_error c \<in> {Some ''DEV_DETERMINISTIC_REJECTION'',
            Some ''WORKFLOW_RECONCILIATION_REJECTED''})"

definition command_claim_ok :: "workflow_command \<Rightarrow> bool" where
  "command_claim_ok c =
     (((wc_claim_owner c = None \<and> wc_claim_token c = None \<and> wc_claim_until c = None
        \<and> wc_claim_mode c = None)
      \<or> ((case wc_claim_owner c of None \<Rightarrow> False | Some ow \<Rightarrow> nonblank_text ow)
        \<and> wc_claim_token c \<noteq> None \<and> wc_claim_until c \<noteq> None \<and> wc_claim_mode c \<noteq> None))
     \<and> (case wc_claim_mode c of None \<Rightarrow> True | Some DISPATCH \<Rightarrow> wc_state c = PLANNED
         | Some RECONCILE \<Rightarrow> wc_state c \<in> {PLANNED, UNKNOWN}))"

definition command_row_ok :: "workflow_command \<Rightarrow> bool" where
  "command_row_ok c = (nonblank_text (wc_key c) \<and> 1 \<le> wc_generation c \<and> int4 (wc_generation c)
     \<and> 0 \<le> wc_attempts c \<and> wc_attempts c \<le> 3 \<and> json_object (wc_receipt c)
     \<and> wc_created_at c \<le> wc_updated_at c
     \<and> (case wc_dispatched_at c of None \<Rightarrow> True | Some t \<Rightarrow> wc_created_at c \<le> t)
     \<and> command_claim_ok c \<and> command_evidence_ok c)"

definition idem_row_ok :: "idem_row \<Rightarrow> bool" where
  "idem_row_ok r = (nonblank_text (ir_actor r) \<and> nonblank_text (ir_operation r)
     \<and> nonblank_text (ir_key r) \<and> nonblank_text (ir_fingerprint r)
     \<and> (if ir_completed r
        then (case ir_http_status r of None \<Rightarrow> False | Some st \<Rightarrow> 100 \<le> st \<and> st \<le> 599)
          \<and> ir_metadata r \<noteq> None \<and> ir_sealed r \<noteq> None \<and> ir_completed_at r \<noteq> None
        else ir_http_status r = None \<and> ir_metadata r = None \<and> ir_sealed r = None
          \<and> ir_completed_at r = None)
     \<and> ir_created_at r \<le> ir_updated_at r
     \<and> (case ir_completed_at r of None \<Rightarrow> True
        | Some t \<Rightarrow> ir_created_at r \<le> t \<and> t \<le> ir_updated_at r))"

text \<open>\<open>INSERT ... RETURNING *\<close>: constraints, then the row at the end of the table.\<close>

definition insert_row ::
  "string \<Rightarrow> bool \<Rightarrow> ('r \<Rightarrow> 'k) list \<Rightarrow> 'r \<Rightarrow> 'r list \<Rightarrow> (agent_error, 'r list) res" where
  "insert_row table ok keys r rows =
     (if \<not> ok \<or> list_ex (\<lambda>key. key r \<in> key ` set rows) keys
      then Inl (IntegrityError table) else Inr (rows @ [r]))"

lemma insert_row_Inr [res_simps]:
  "insert_row t ok keys r rows = Inr rows'
     \<longleftrightarrow> ok \<and> (\<forall>key \<in> set keys. key r \<notin> key ` set rows) \<and> rows' = rows @ [r]"
  by (auto simp: insert_row_def list_ex_iff)

subsection \<open>Definitions and runs\<close>

definition definition_key :: "agent_definition \<Rightarrow> string \<times> int" where
  "definition_key d = (df_id d, df_version d)"

definition definition_name_version :: "agent_definition \<Rightarrow> string \<times> int" where
  "definition_name_version d = (df_name d, df_version d)"

definition make_definition :: "agent_definition \<Rightarrow> (agent_error, agent_definition) res" where
  "make_definition d =
     rbind (require (1 \<le> df_version d \<and> platform_name (df_name d)
         \<and> list_all platform_name (df_capabilities d) \<and> list_all platform_name (df_skills d)
         \<and> list_all platform_name (df_permissions d) \<and> mapping_items (df_input_schema d) \<noteq> None)
       (InvalidModel ''AgentDefinition'')) (\<lambda>_.
     (case freeze_json (df_input_schema d) of
        Inl e \<Rightarrow> Inl (FrozenJson e) | Inr w \<Rightarrow> Inr (d\<lparr>df_input_schema := w\<rparr>)))"

definition insert_definition ::
  "agent_definition \<Rightarrow> agent_db \<Rightarrow> (agent_error, agent_definition \<times> agent_db) res" where
  "insert_definition d db =
     rbind (if definition_name_version d \<in> definition_name_version ` set (ad_definitions db)
            then Inl (IntegrityError ''agent_definition'')
            else insert_row ''agent_definition'' (1 \<le> df_version d \<and> int4 (df_version d)
                   \<and> nonblank_text (df_name d)) [definition_key]
                   (d\<lparr>df_input_schema := plain_json (df_input_schema d)\<rparr>) (ad_definitions db))
       (\<lambda>rows. rbind (make_definition (last rows)) (\<lambda>d'.
          Inr (d', db\<lparr>ad_definitions := rows\<rparr>)))"

definition definition_by_id ::
  "string \<Rightarrow> int \<Rightarrow> agent_db \<Rightarrow> (agent_error, agent_definition option) res" where
  "definition_by_id i version db =
     (case row_by definition_key (i, version) (ad_definitions db) of
        None \<Rightarrow> Inr None
      | Some d \<Rightarrow> rbind (make_definition d) (\<lambda>d'. Inr (Some d')))"

definition list_definition_rows :: "agent_db \<Rightarrow> (agent_error, agent_definition list) res" where
  "list_definition_rows db = collect make_definition (sort_key definition_name_version (ad_definitions db))"

definition make_run :: "agent_run \<Rightarrow> (agent_error, agent_run) res" where
  "make_run r = rbind (require (platform_reference (rn_goal_ref r) \<and> platform_reference (rn_created_by r)
       \<and> 1 \<le> rn_definition_version r \<and> 1 \<le> rn_revision r) (InvalidModel ''AgentRun'')) (\<lambda>_. Inr r)"

definition run_of_row :: "run_row \<Rightarrow> (agent_error, agent_run) res" where
  "run_of_row r =
     rbind (case (rr_requirement_id r, rr_work_item_id r, rr_assignment_id r) of
              (None, None, None) \<Rightarrow> Inr None
            | (Some q, Some w, Some a) \<Rightarrow> Inr (Some \<lparr>bc_requirement_id = q, bc_work_item_id = w,
                 bc_assignment_id = a\<rparr>)
            | _ \<Rightarrow> Inl (AgentQueryUnavailable ''Agent Run business context unavailable''))
       (\<lambda>context. make_run \<lparr>rn_id = rr_id r, rn_workspace_id = rr_workspace_id r,
          rn_context = context, rn_goal_ref = rr_goal_ref r, rn_created_by = rr_created_by r,
          rn_definition_id = rr_definition_id r, rn_definition_version = rr_definition_version r,
          rn_latest_attempt_id = rr_latest_attempt_id r, rn_state = rr_state r,
          rn_revision = rr_revision r, rn_created_at = rr_created_at r,
          rn_updated_at = rr_updated_at r\<rparr>)"

definition row_of_run :: "agent_run \<Rightarrow> business_context \<Rightarrow> run_row" where
  "row_of_run r c = \<lparr>rr_id = rn_id r, rr_workspace_id = rn_workspace_id r,
     rr_goal_ref = rn_goal_ref r, rr_created_by = rn_created_by r,
     rr_definition_id = rn_definition_id r, rr_definition_version = rn_definition_version r,
     rr_latest_attempt_id = rn_latest_attempt_id r, rr_state = rn_state r,
     rr_revision = rn_revision r, rr_created_at = rn_created_at r, rr_updated_at = rn_updated_at r,
     rr_requirement_id = Some (bc_requirement_id c), rr_work_item_id = Some (bc_work_item_id c),
     rr_assignment_id = Some (bc_assignment_id c)\<rparr>"

definition insert_run :: "agent_run \<Rightarrow> agent_db \<Rightarrow> (agent_error, agent_run \<times> agent_db) res" where
  "insert_run r db =
     (case rn_context r of
        None \<Rightarrow> Inl (ValueError ''New Agent Run requires a complete business context'')
      | Some c \<Rightarrow>
          rbind (insert_row ''agent_run'' (run_row_ok (row_of_run r c)) [rr_id] (row_of_run r c)
                   (ad_runs db)) (\<lambda>rows.
          rbind (run_of_row (row_of_run r c)) (\<lambda>r'. Inr (r', db\<lparr>ad_runs := rows\<rparr>))))"

definition run_by_id :: "string \<Rightarrow> agent_db \<Rightarrow> (agent_error, agent_run option) res" where
  "run_by_id i db = (case row_by rr_id i (ad_runs db) of
     None \<Rightarrow> Inr None | Some r \<Rightarrow> rbind (run_of_row r) (\<lambda>run. Inr (Some run)))"

definition mutate_run :: "run_mutation \<Rightarrow> run_row \<Rightarrow> run_row" where
  "mutate_run m r = r\<lparr>rr_state := rm_state m, rr_latest_attempt_id := rm_latest_attempt_id m,
     rr_revision := rr_revision r + 1, rr_updated_at := rm_now m\<rparr>"

definition update_run ::
  "string \<Rightarrow> int \<Rightarrow> run_mutation \<Rightarrow> agent_db \<Rightarrow> (run_row \<times> agent_db) option" where
  "update_run i expected m db =
     (case cas_row rr_id rr_revision i expected (mutate_run m) (ad_runs db) of
        None \<Rightarrow> None | Some (r, rows) \<Rightarrow> Some (r, db\<lparr>ad_runs := rows\<rparr>))"

definition compare_and_set_run ::
  "string \<Rightarrow> int \<Rightarrow> run_mutation \<Rightarrow> agent_db \<Rightarrow> (agent_error, agent_run option \<times> agent_db) res"
  where
  "compare_and_set_run i expected m db =
     (case update_run i expected m db of
        None \<Rightarrow> Inr (None, db)
      | Some (r, db') \<Rightarrow>
          if \<not> run_row_ok r then Inl (IntegrityError ''agent_run'')
          else rbind (run_of_row r) (\<lambda>run. Inr (Some run, db')))"

subsection \<open>Checkpoints, attempts and bindings\<close>

definition make_checkpoint :: "checkpoint_input \<Rightarrow> (agent_error, checkpoint_input) res" where
  "make_checkpoint c = rbind (require (platform_reference (cp_artifact_id c)
       \<and> platform_name (cp_artifact_version c) \<and> content_digest (cp_content_sha256 c)
       \<and> platform_name (cp_schema_version c) \<and> platform_name (cp_adapter_version c)
       \<and> platform_name (cp_classification c)) (InvalidModel ''CheckpointInput'')) (\<lambda>_. Inr c)"

definition checkpoint_key :: "checkpoint_row \<Rightarrow> string" where
  "checkpoint_key r = cp_id (kr_checkpoint r)"

definition insert_checkpoint ::
  "string \<Rightarrow> checkpoint_input \<Rightarrow> agent_db \<Rightarrow> (agent_error, checkpoint_input \<times> agent_db) res" where
  "insert_checkpoint attempt_id c db =
     (let r = \<lparr>kr_attempt_id = attempt_id, kr_checkpoint = c\<rparr>
      in rbind (insert_row ''checkpoint'' (checkpoint_row_ok r) [checkpoint_key] r
                 (ad_checkpoints db)) (\<lambda>rows.
         rbind (make_checkpoint c) (\<lambda>c'. Inr (c', db\<lparr>ad_checkpoints := rows\<rparr>))))"

definition checkpoint_by_id ::
  "string \<Rightarrow> agent_db \<Rightarrow> (agent_error, checkpoint_input option) res" where
  "checkpoint_by_id i db = (case row_by checkpoint_key i (ad_checkpoints db) of
     None \<Rightarrow> Inr None | Some r \<Rightarrow> rbind (make_checkpoint (kr_checkpoint r)) (\<lambda>c. Inr (Some c)))"

definition attempt_of_row :: "agent_db \<Rightarrow> attempt_row \<Rightarrow> (agent_error, agent_attempt) res" where
  "attempt_of_row db r =
     rbind (case tr_checkpoint_id r of None \<Rightarrow> Inr None | Some i \<Rightarrow> checkpoint_by_id i db)
       (\<lambda>checkpoint. make_attempt \<lparr>at_id = tr_id r, at_run_id = tr_run_id r, at_number = tr_number r,
          at_state = tr_state r, at_binding_id = tr_binding_id r,
          at_binding_digest = tr_binding_digest r, at_generation = tr_generation r,
          at_fencing_token = tr_fencing_token r, at_checkpoint = checkpoint,
          at_event_sequence = tr_event_sequence r, at_waiting_deadline = tr_waiting_deadline r,
          at_terminal_evidence = tr_terminal_evidence r, at_revision = tr_revision r,
          at_created_at = tr_created_at r, at_updated_at = tr_updated_at r\<rparr>)"

definition row_of_attempt :: "agent_attempt \<Rightarrow> attempt_row" where
  "row_of_attempt a = \<lparr>tr_id = at_id a, tr_run_id = at_run_id a, tr_number = at_number a,
     tr_state = at_state a, tr_binding_id = at_binding_id a,
     tr_binding_digest = at_binding_digest a, tr_generation = at_generation a,
     tr_fencing_token = at_fencing_token a,
     tr_checkpoint_id = map_option cp_id (at_checkpoint a),
     tr_event_sequence = at_event_sequence a, tr_waiting_deadline = at_waiting_deadline a,
     tr_terminal_evidence = map_option plain_json (at_terminal_evidence a),
     tr_revision = at_revision a, tr_created_at = at_created_at a, tr_updated_at = at_updated_at a\<rparr>"

definition insert_attempt ::
  "agent_attempt \<Rightarrow> agent_db \<Rightarrow> (agent_error, agent_attempt \<times> agent_db) res" where
  "insert_attempt a db =
     (let r = row_of_attempt a
      in rbind (insert_row ''agent_attempt'' (attempt_row_ok r
                  \<and> (tr_run_id r, tr_number r) \<notin> (\<lambda>x. (tr_run_id x, tr_number x)) ` set (ad_attempts db))
                 [tr_id] r (ad_attempts db)) (\<lambda>rows.
         rbind (attempt_of_row db r) (\<lambda>a'. Inr (a', db\<lparr>ad_attempts := rows\<rparr>))))"

definition attempt_by_id :: "string \<Rightarrow> agent_db \<Rightarrow> (agent_error, agent_attempt option) res" where
  "attempt_by_id i db = (case row_by tr_id i (ad_attempts db) of
     None \<Rightarrow> Inr None | Some r \<Rightarrow> rbind (attempt_of_row db r) (\<lambda>a. Inr (Some a)))"

definition attempts_by_run_id :: "string \<Rightarrow> agent_db \<Rightarrow> (agent_error, agent_attempt list) res" where
  "attempts_by_run_id run_id db = collect (attempt_of_row db)
     (sort_key tr_number (filter (\<lambda>r. tr_run_id r = run_id) (ad_attempts db)))"

definition mutate_attempt :: "attempt_mutation \<Rightarrow> attempt_row \<Rightarrow> attempt_row" where
  "mutate_attempt m r = r\<lparr>tr_state := am_state m, tr_generation := am_generation m,
     tr_fencing_token := am_fencing_token m,
     tr_checkpoint_id := map_option cp_id (am_checkpoint m),
     tr_event_sequence := am_event_sequence m, tr_waiting_deadline := am_waiting_deadline m,
     tr_terminal_evidence := map_option plain_json (am_terminal_evidence m),
     tr_revision := tr_revision r + 1, tr_updated_at := am_now m\<rparr>"

definition update_attempt ::
  "string \<Rightarrow> int \<Rightarrow> attempt_mutation \<Rightarrow> agent_db \<Rightarrow> (attempt_row \<times> agent_db) option" where
  "update_attempt i expected m db =
     (case cas_row tr_id tr_revision i expected (mutate_attempt m) (ad_attempts db) of
        None \<Rightarrow> None | Some (r, rows) \<Rightarrow> Some (r, db\<lparr>ad_attempts := rows\<rparr>))"

definition compare_and_set_attempt ::
  "string \<Rightarrow> int \<Rightarrow> attempt_mutation \<Rightarrow> agent_db
   \<Rightarrow> (agent_error, agent_attempt option \<times> agent_db) res" where
  "compare_and_set_attempt i expected m db =
     rbind (make_attempt_mutation m) (\<lambda>m'.
     (case update_attempt i expected m' db of
        None \<Rightarrow> Inr (None, db)
      | Some (r, db') \<Rightarrow>
          if \<not> attempt_row_ok r then Inl (IntegrityError ''agent_attempt'')
          else rbind (attempt_of_row db' r) (\<lambda>a. Inr (Some a, db'))))"

definition binding_of_row ::
  "platform_env \<Rightarrow> binding_row \<Rightarrow> (agent_error, execution_binding) res" where
  "binding_of_row env r =
     rbind (make_binding env (br_snapshot r)) (\<lambda>b.
       if eb_source b \<noteq> br_source r \<or> eb_digest b \<noteq> br_digest r
       then Inl (ValueError ''execution binding evidence digest mismatch'') else Inr b)"

definition insert_binding ::
  "platform_env \<Rightarrow> string \<Rightarrow> execution_binding \<Rightarrow> agent_db
   \<Rightarrow> (agent_error, execution_binding \<times> agent_db) res" where
  "insert_binding env attempt_id b db =
     (let r = \<lparr>br_id = eb_id b, br_attempt_id = attempt_id, br_source = eb_source b,
            br_digest = eb_digest b, br_snapshot = b\<rparr>
      in rbind (insert_row ''execution_binding'' (hex64 (eb_digest b)) [br_id, br_attempt_id] r
                 (ad_bindings db)) (\<lambda>rows.
         rbind (binding_of_row env r) (\<lambda>b'. Inr (b', db\<lparr>ad_bindings := rows\<rparr>))))"

definition binding_by_attempt_id ::
  "platform_env \<Rightarrow> string \<Rightarrow> agent_db \<Rightarrow> (agent_error, execution_binding option) res" where
  "binding_by_attempt_id env i db = (case row_by br_attempt_id i (ad_bindings db) of
     None \<Rightarrow> Inr None | Some r \<Rightarrow> rbind (binding_of_row env r) (\<lambda>b. Inr (Some b)))"

subsection \<open>Events and receipts\<close>

definition event_json :: "canonical_event \<Rightarrow> pyval" where
  "event_json e = PyDict [
     (''id'', PyStr (ev_id e)), (''event_type'', PyStr (ev_type e)),
     (''attempt_id'', PyStr (ev_attempt_id e)), (''generation'', PyInt (ev_generation e)),
     (''sequence'', PyInt (ev_sequence e)), (''correlation_id'', PyStr (ev_correlation_id e)),
     (''causation_id'', (case ev_causation_id e of None \<Rightarrow> PyNone | Some c \<Rightarrow> PyStr c)),
     (''trace_id'', PyStr (ev_trace_id e)), (''span_id'', PyStr (ev_span_id e)),
     (''summary'', PyStr (ev_summary e)), (''data'', thaw_json (PyDict (ev_data e)))]"

definition event_digest :: "platform_env \<Rightarrow> canonical_event \<Rightarrow> string" where
  "event_digest env e = ''sha256:'' @ canonical_sha256 env (plain_json (event_json e))"

definition event_position :: "canonical_event \<Rightarrow> string \<times> int \<times> int" where
  "event_position e = (ev_attempt_id e, ev_generation e, ev_sequence e)"

text \<open>The \<open>data\<close> column holds plain JSON.\<close>

definition stored_event :: "canonical_event \<Rightarrow> canonical_event" where
  "stored_event e = e\<lparr>ev_data := map (\<lambda>(k, v). (k, plain_json (thaw_json v))) (ev_data e)\<rparr>"

definition event_by_id ::
  "platform_env \<Rightarrow> string \<Rightarrow> agent_db \<Rightarrow> (agent_error, canonical_event option) res" where
  "event_by_id env i db = (case row_by ev_id i (ad_events db) of
     None \<Rightarrow> Inr None | Some e \<Rightarrow> rbind (make_event env e) (\<lambda>e'. Inr (Some e')))"

definition event_by_position ::
  "platform_env \<Rightarrow> string \<Rightarrow> int \<Rightarrow> int \<Rightarrow> agent_db \<Rightarrow> (agent_error, canonical_event option) res"
  where
  "event_by_position env att generation sequence db =
     (case row_by event_position (att, generation, sequence) (ad_events db) of
        None \<Rightarrow> Inr None | Some e \<Rightarrow> rbind (make_event env e) (\<lambda>e'. Inr (Some e')))"

definition append_event ::
  "platform_env \<Rightarrow> canonical_event \<Rightarrow> agent_db \<Rightarrow> (agent_error, canonical_event \<times> agent_db) res" where
  "append_event env e db =
     (if \<not> event_row_ok e (event_digest env e) then Inl (IntegrityError ''canonical_event'')
      else if ev_id e \<notin> ev_id ` set (ad_events db)
              \<and> event_position e \<notin> event_position ` set (ad_events db)
      then rbind (make_event env (stored_event e)) (\<lambda>e'.
             Inr (e', db\<lparr>ad_events := ad_events db @ [stored_event e]\<rparr>))
      else rbind (event_by_id env (ev_id e) db) (\<lambda>existing. case existing of
             Some x \<Rightarrow>
               if event_digest env x = event_digest env e then Inr (x, db)
               else Inl (EventReplayConflict (''canonical event '' @ ev_id e @ '' changed during replay''))
           | None \<Rightarrow>
               if row_by event_position (event_position e) (ad_events db) \<noteq> None
               then Inl (EventReplayConflict
                 ''canonical event identity already has immutable sequence evidence'')
               else Inl (EventReplayConflict
                 ''canonical event insert conflicted without replayable evidence'')))"

definition append_event_receipt :: "event_receipt \<Rightarrow> agent_db \<Rightarrow> (agent_error, agent_db) res" where
  "append_event_receipt r db =
     rbind (insert_row ''event_acceptance_receipt''
        (er_schema_version r = 1 \<and> er_event_id r \<in> ev_id ` set (ad_events db)) [er_event_id] r
        (ad_receipts db)) (\<lambda>rows. Inr (db\<lparr>ad_receipts := rows\<rparr>))"

definition event_receipt_by_id :: "string \<Rightarrow> agent_db \<Rightarrow> (agent_error, event_receipt option) res" where
  "event_receipt_by_id i db = (case row_by er_event_id i (ad_receipts db) of
     None \<Rightarrow> Inr None
   | Some r \<Rightarrow> rbind (make_attempt (er_attempt r)) (\<lambda>a. Inr (Some (r\<lparr>er_attempt := a\<rparr>))))"

end
