(* ===== verification/Agent_Queue.thy ===== *)
theory Agent_Queue
  imports Agent_Store
begin

section \<open>The agent module: command queue, idempotency keys, audit\<close>

text \<open>
  The rest of \<^verbatim>\<open>agent/adapters/sqlalchemy.py\<close>: the workflow command queue with its fenced claims,
  the idempotency keys, and the audit append of the unit of work; and the interpretations of the
  versioned store on runs and attempts and of the idempotency store on the agent's keys. A claim
  selects and updates inside one transaction, so \<open>SKIP LOCKED\<close> skips nothing in a model whose
  transactions are steps.
\<close>

subsection \<open>Workflow commands\<close>

definition insert_workflow_command ::
  "workflow_command \<Rightarrow> agent_db \<Rightarrow> (agent_error, workflow_command \<times> agent_db) res" where
  "insert_workflow_command c db =
     (let r = c\<lparr>wc_receipt := map_option plain_json (wc_receipt c), wc_claim_owner := None,
            wc_claim_token := None, wc_claim_until := None, wc_claim_mode := None\<rparr>
      in rbind (insert_row ''workflow_command'' (command_row_ok r) [wc_id, wc_key] r
                 (ad_commands db)) (\<lambda>rows.
         rbind (make_command r) (\<lambda>c'. Inr (c', db\<lparr>ad_commands := rows\<rparr>))))"

definition workflow_command_by_id ::
  "string \<Rightarrow> agent_db \<Rightarrow> (agent_error, workflow_command option) res" where
  "workflow_command_by_id i db = (case row_by wc_id i (ad_commands db) of
     None \<Rightarrow> Inr None | Some r \<Rightarrow> rbind (make_command r) (\<lambda>c. Inr (Some c)))"

record claim_request =
  cq_limit :: nat
  cq_now :: instant
  cq_owner :: string
  cq_token :: string
  cq_until :: instant
  cq_mode :: claim_mode

fun claimable :: "claim_mode \<Rightarrow> instant \<Rightarrow> workflow_command \<Rightarrow> bool" where
  "claimable DISPATCH now c =
     (wc_state c = PLANNED \<and> wc_claim_token c = None \<and> wc_attempts c < 3)"
| "claimable RECONCILE now c =
     ((wc_state c = UNKNOWN \<and> wc_claim_token c = None \<and> wc_attempts c < 3)
      \<or> (wc_state c \<in> {PLANNED, UNKNOWN} \<and> wc_claim_token c \<noteq> None
         \<and> (case wc_claim_until c of None \<Rightarrow> False | Some t \<Rightarrow> t \<le> now) \<and> wc_attempts c \<le> 3))"

definition queue_order :: "workflow_command \<Rightarrow> int \<times> string" where
  "queue_order c = (wc_created_at c, wc_id c)"

definition claimed_command :: "claim_request \<Rightarrow> workflow_command \<Rightarrow> workflow_command" where
  "claimed_command q c = c\<lparr>
     wc_attempts := (if cq_mode q \<noteq> RECONCILE \<or> wc_claim_token c = None
                     then wc_attempts c + 1 else wc_attempts c),
     wc_updated_at := cq_now q, wc_claim_owner := Some (cq_owner q),
     wc_claim_token := Some (cq_token q), wc_claim_until := Some (cq_until q),
     wc_claim_mode := Some (cq_mode q)\<rparr>"

fun claim_rows ::
  "claim_request \<Rightarrow> workflow_command list \<Rightarrow> workflow_command list
   \<Rightarrow> (agent_error, workflow_command list \<times> workflow_command list) res" where
  "claim_rows q [] rows = Inr ([], rows)"
| "claim_rows q (c # cs) rows =
     (let updated = claimed_command q c
      in if \<not> command_row_ok updated then Inl (IntegrityError ''workflow_command'')
         else rbind (make_command updated) (\<lambda>parsed.
              rbind (claim_rows q cs (set_where (\<lambda>r. wc_id r = wc_id c) (\<lambda>_. updated) rows))
                (\<lambda>(claimed, rows'). Inr (parsed # claimed, rows'))))"

definition claim_workflow_commands ::
  "claim_request \<Rightarrow> agent_db \<Rightarrow> (agent_error, workflow_command list \<times> agent_db) res" where
  "claim_workflow_commands q db =
     (let selected = take (cq_limit q)
            (sort_key queue_order (filter (claimable (cq_mode q) (cq_now q)) (ad_commands db)))
      in rbind (claim_rows q selected (ad_commands db)) (\<lambda>(claimed, rows).
           Inr (claimed, db\<lparr>ad_commands := rows\<rparr>)))"

definition parkable :: "workflow_command \<Rightarrow> bool" where
  "parkable c = (wc_state c = UNKNOWN \<and> wc_claim_token c = None \<and> 3 \<le> wc_attempts c
     \<and> wc_error c \<noteq> Some ''WORKFLOW_CLAIM_ATTEMPTS_EXHAUSTED'')"

definition park_command :: "instant \<Rightarrow> workflow_command \<Rightarrow> workflow_command" where
  "park_command now c = c\<lparr>wc_state := UNKNOWN, wc_receipt := None,
     wc_error := Some ''WORKFLOW_CLAIM_ATTEMPTS_EXHAUSTED'', wc_claim_owner := None,
     wc_claim_token := None, wc_claim_until := None, wc_claim_mode := None, wc_updated_at := now\<rparr>"

definition park_expired_workflow_claims :: "instant \<Rightarrow> agent_db \<Rightarrow> (agent_error, agent_db) res" where
  "park_expired_workflow_claims now db =
     (if list_ex (\<lambda>c. parkable c \<and> \<not> command_row_ok (park_command now c)) (ad_commands db)
      then Inl (IntegrityError ''workflow_command'')
      else Inr (db\<lparr>ad_commands := set_where parkable (park_command now) (ad_commands db)\<rparr>))"

definition dispatched_command :: "dispatch_mutation \<Rightarrow> workflow_command \<Rightarrow> workflow_command" where
  "dispatched_command m c = c\<lparr>wc_state := dm_state m,
     wc_receipt := map_option plain_json (dm_receipt m), wc_error := dm_error m,
     wc_dispatched_at := (if dm_state m = DISPATCHED then Some (dm_now m) else None),
     wc_updated_at := dm_now m, wc_claim_owner := None, wc_claim_token := None,
     wc_claim_until := None, wc_claim_mode := None\<rparr>"

definition record_workflow_command_dispatch ::
  "string \<Rightarrow> command_state \<Rightarrow> string \<Rightarrow> dispatch_mutation \<Rightarrow> agent_db
   \<Rightarrow> (agent_error, workflow_command option \<times> agent_db) res" where
  "record_workflow_command_dispatch i expected_state token m db =
     (case row_by wc_id i (ad_commands db) of
        None \<Rightarrow> Inr (None, db)
      | Some c \<Rightarrow>
          if wc_state c \<noteq> expected_state \<or> wc_claim_token c \<noteq> Some token then Inr (None, db)
          else if \<not> command_row_ok (dispatched_command m c)
          then Inl (IntegrityError ''workflow_command'')
          else rbind (make_command (dispatched_command m c)) (\<lambda>c'.
            Inr (Some c', db\<lparr>ad_commands :=
              set_where (\<lambda>r. wc_id r = i) (\<lambda>_. dispatched_command m c) (ad_commands db)\<rparr>)))"

subsection \<open>Idempotency keys\<close>

definition idem_scope :: "idem_row \<Rightarrow> string \<times> string \<times> string" where
  "idem_scope r = (ir_actor r, ir_operation r, ir_key r)"

definition reserve_idempotency ::
  "idem_row \<Rightarrow> agent_db \<Rightarrow> (agent_error, (idem_row \<times> bool) \<times> agent_db) res" where
  "reserve_idempotency r db =
     (if \<not> idem_row_ok r then Inl (IntegrityError ''idempotency_key'')
      else case row_by idem_scope (idem_scope r) (ad_idempotency db) of
        None \<Rightarrow>
          if ir_id r \<in> ir_id ` set (ad_idempotency db) then Inl (IntegrityError ''idempotency_key'')
          else Inr ((r, True), db\<lparr>ad_idempotency := ad_idempotency db @ [r]\<rparr>)
      | Some existing \<Rightarrow> Inr ((existing, False), db))"

definition agent_idempotency_by_scope ::
  "string \<Rightarrow> string \<Rightarrow> string \<Rightarrow> agent_db \<Rightarrow> idem_row option" where
  "agent_idempotency_by_scope actor operation key db =
     row_by idem_scope (actor, operation, key) (ad_idempotency db)"

definition completed_row :: "int \<Rightarrow> pyval \<Rightarrow> string \<Rightarrow> instant \<Rightarrow> idem_row \<Rightarrow> idem_row" where
  "completed_row http_status metadata sealed now r = r\<lparr>ir_completed := True,
     ir_http_status := Some http_status, ir_metadata := Some metadata, ir_sealed := Some sealed,
     ir_updated_at := now, ir_completed_at := Some now\<rparr>"

definition agent_complete_idempotency ::
  "string \<Rightarrow> int \<Rightarrow> pyval \<Rightarrow> string \<Rightarrow> instant \<Rightarrow> agent_db
   \<Rightarrow> (agent_error, idem_row option \<times> agent_db) res" where
  "agent_complete_idempotency i http_status metadata sealed now db =
     rbind (require (100 \<le> http_status \<and> http_status \<le> 599) (InvalidModel ''IdempotencyCompletion''))
       (\<lambda>_. case row_by ir_id i (ad_idempotency db) of
          None \<Rightarrow> Inr (None, db)
        | Some r \<Rightarrow>
            if ir_completed r then Inr (None, db)
            else
              let r' = completed_row http_status metadata sealed now r
              in if \<not> idem_row_ok r' then Inl (IntegrityError ''idempotency_key'')
                 else Inr (Some r', db\<lparr>ad_idempotency :=
                   set_where (\<lambda>x. ir_id x = i \<and> \<not> ir_completed x)
                     (completed_row http_status metadata sealed now) (ad_idempotency db)\<rparr>))"

text \<open>The bridge \<open>_SharedRepository\<close> of \<^verbatim>\<open>agent/application/idempotency.py\<close>.\<close>

definition bridge_claim ::
  "string \<Rightarrow> string \<Rightarrow> string \<Rightarrow> string \<Rightarrow> string \<Rightarrow> instant \<Rightarrow> agent_db
   \<Rightarrow> (agent_error, bool \<times> agent_db) res" where
  "bridge_claim i actor operation key fingerprint now db =
     rbind (reserve_idempotency \<lparr>ir_id = i, ir_actor = actor, ir_operation = operation,
         ir_key = key, ir_fingerprint = fingerprint, ir_completed = False, ir_http_status = None,
         ir_metadata = None, ir_sealed = None, ir_created_at = now, ir_updated_at = now,
         ir_completed_at = None\<rparr> db) (\<lambda>((_, created), db'). Inr (created, db'))"

definition bridge_by_scope ::
  "string \<Rightarrow> string \<Rightarrow> string \<Rightarrow> agent_db \<Rightarrow> (agent_error, idem_row option) res" where
  "bridge_by_scope actor operation key db =
     (case agent_idempotency_by_scope actor operation key db of
        None \<Rightarrow> Inr None
      | Some r \<Rightarrow>
          if ir_completed r \<and> ir_metadata r \<noteq> Some replay_metadata then Inl AgentReplayUnavailable
          else Inr (Some r))"

definition bridge_complete ::
  "string \<Rightarrow> int \<Rightarrow> pyval \<Rightarrow> string \<Rightarrow> instant \<Rightarrow> agent_db \<Rightarrow> (agent_error, bool \<times> agent_db) res" where
  "bridge_complete i http_status metadata sealed now db =
     rbind (agent_complete_idempotency i http_status metadata sealed now db)
       (\<lambda>(r, db'). Inr (r \<noteq> None, db'))"

definition shared_repository :: "(agent_db, agent_error) idem_repository" where
  "shared_repository = \<lparr>claim_idempotency = bridge_claim, idempotency_by_scope = bridge_by_scope,
     complete_idempotency = bridge_complete\<rparr>"

text \<open>One transaction's readings of the clock and the id source, by order of use, and its ports:
  the actor resolver, the requirement context, the definition availability and the binding policy.\<close>

record requirement_context =
  rq_workspace_id :: string
  rq_requirement_id :: string
  rq_work_item_id :: string
  rq_assignment_id :: string
  rq_goal_ref :: string

record actor_reference =
  ac_reference :: string
  ac_type :: string

record agent_env =
  av_platform :: platform_env
  av_clock :: "nat \<Rightarrow> instant"
  av_new_id :: "nat \<Rightarrow> string"
  av_sealer :: "sealer option"
  av_sha256 :: "string \<Rightarrow> string"
  av_current_request :: "string option"
  av_actor :: "string \<Rightarrow> actor_reference option"
  av_resolve_context :: "string \<Rightarrow> string \<Rightarrow> string \<Rightarrow> (context_failure, requirement_context) res"
  av_protect_context ::
    "string \<Rightarrow> string \<Rightarrow> string \<Rightarrow> string \<Rightarrow> (context_failure, requirement_context) res"
  av_definition_active :: "agent_definition \<Rightarrow> bool option"
  av_binding_policy :: "string \<Rightarrow> agent_definition \<Rightarrow> requirement_context \<Rightarrow> execution_binding"

text \<open>\<open>execute_agent_command\<close>: the clock and id readings at the given positions belong to the
  claim and the completion; the command makes its own in between.\<close>

definition execute_agent_command ::
  "agent_env \<Rightarrow> nat \<Rightarrow> nat \<Rightarrow> nat \<Rightarrow> string \<Rightarrow> string \<Rightarrow> string \<Rightarrow> string \<Rightarrow> pyval
   \<Rightarrow> ('r \<Rightarrow> pyval) \<Rightarrow> (pyval \<Rightarrow> 'r option)
   \<Rightarrow> (agent_db \<Rightarrow> (agent_error, 'r \<times> agent_db) res) \<Rightarrow> agent_db
   \<Rightarrow> (agent_error, 'r \<times> agent_db) res" where
  "execute_agent_command env id_at claim_at complete_at actor operation key path body dump parse
       command db =
     (case av_sealer env of
        None \<Rightarrow> Inl AgentReplayUnavailable
      | Some S \<Rightarrow>
          let q = \<lparr>iq_actor = actor, iq_operation = operation, iq_key = key,
                iq_fingerprint = request_fingerprint S operation ''POST'' path body,
                iq_record_id = av_new_id env id_at, iq_claim_now = av_clock env claim_at,
                iq_complete_now = av_clock env complete_at\<rparr>
          in (case execute_idempotent shared_repository S q None
                (\<lambda>s. rbind (command s) (\<lambda>(result, s'). Inr (\<lparr>ip_status = 202,
                   ip_body = dump result, ip_headers = [], ip_cookie = None,
                   ip_is_problem = False\<rparr>, s'))) db of
             Inl (IdempotencyReplayUnavailable _) \<Rightarrow> Inl AgentReplayUnavailable
           | Inl (IdempotencyConflict message) \<Rightarrow>
               if contains ''in progress'' message then Inl AgentIdempotencyInProgress
               else Inl AgentIdempotencyConflict
           | Inl (CommandError e) \<Rightarrow> Inl e
           | Inr (x, db') \<Rightarrow>
               (case parse (ip_body (ix_response x)) of
                  None \<Rightarrow> Inl AgentReplayUnavailable | Some r \<Rightarrow> Inr (r, db'))))"

definition append_agent_audit :: "agent_env \<Rightarrow> audit_envelope \<Rightarrow> agent_db \<Rightarrow> agent_db" where
  "append_agent_audit env e db =
     db\<lparr>ad_audit := append_in_transaction (av_current_request env) e (ad_audit db)\<rparr>"

subsection \<open>The interfaces the repository provides\<close>

interpretation run_store: versioned_store "\<lambda>db k. row_by rr_id k (ad_runs db)" rr_revision
  "\<lambda>k n m db. update_run k n m db"
proof
  fix k n m r' k' and s s' :: agent_db
  assume "update_run k n m s = Some (r', s')"
  then obtain r where r: "row_by rr_id k (ad_runs s) = Some r" "rr_revision r = n"
    and r': "r' = mutate_run m r"
    and s': "s' = s\<lparr>ad_runs := set_where (\<lambda>r. rr_id r = k \<and> rr_revision r = n) (mutate_run m) (ad_runs s)\<rparr>"
    unfolding update_run_def by (auto dest!: cas_row_Some split: option.splits)
  have key: "rr_id (mutate_run m r) = rr_id r" for r by (simp add: mutate_run_def)
  show "(\<exists>r. row_by rr_id k (ad_runs s) = Some r \<and> rr_revision r = n) \<and> rr_revision r' = n + 1
      \<and> row_by rr_id k (ad_runs s') = Some r'"
    using r row_by_Some [OF r(1)] by (simp add: r' s' row_by_set_where key) (simp add: mutate_run_def)
  show "k' \<noteq> k \<Longrightarrow> row_by rr_id k' (ad_runs s') = row_by rr_id k' (ad_runs s)"
    by (cases "row_by rr_id k' (ad_runs s)") (auto simp: s' row_by_set_where key dest: row_by_Some)
next
  fix s :: agent_db and k r n m
  assume "row_by rr_id k (ad_runs s) = Some r" and "rr_revision r = n"
  then show "update_run k n m s \<noteq> None"
    by (simp add: update_run_def cas_row_def)
qed

interpretation attempt_store: versioned_store "\<lambda>db k. row_by tr_id k (ad_attempts db)" tr_revision
  "\<lambda>k n m db. update_attempt k n m db"
proof
  fix k n m r' k' and s s' :: agent_db
  assume "update_attempt k n m s = Some (r', s')"
  then obtain r where r: "row_by tr_id k (ad_attempts s) = Some r" "tr_revision r = n"
    and r': "r' = mutate_attempt m r"
    and s': "s' = s\<lparr>ad_attempts :=
      set_where (\<lambda>r. tr_id r = k \<and> tr_revision r = n) (mutate_attempt m) (ad_attempts s)\<rparr>"
    unfolding update_attempt_def by (auto dest!: cas_row_Some split: option.splits)
  have key: "tr_id (mutate_attempt m r) = tr_id r" for r by (simp add: mutate_attempt_def)
  show "(\<exists>r. row_by tr_id k (ad_attempts s) = Some r \<and> tr_revision r = n) \<and> tr_revision r' = n + 1
      \<and> row_by tr_id k (ad_attempts s') = Some r'"
    using r row_by_Some [OF r(1)]
    by (simp add: r' s' row_by_set_where key) (simp add: mutate_attempt_def)
  show "k' \<noteq> k \<Longrightarrow> row_by tr_id k' (ad_attempts s') = row_by tr_id k' (ad_attempts s)"
    by (cases "row_by tr_id k' (ad_attempts s)")
      (auto simp: s' row_by_set_where key dest: row_by_Some)
next
  fix s :: agent_db and k r n m
  assume "row_by tr_id k (ad_attempts s) = Some r" and "tr_revision r = n"
  then show "update_attempt k n m s \<noteq> None"
    by (simp add: update_attempt_def cas_row_def)
qed

definition idem_inv :: "agent_db \<Rightarrow> bool" where
  "idem_inv db \<longleftrightarrow> distinct (map ir_id (ad_idempotency db))
     \<and> distinct (map idem_scope (ad_idempotency db))
     \<and> (\<forall>r \<in> set (ad_idempotency db). idem_row_ok r)"

definition pending_row ::
  "string \<Rightarrow> string \<Rightarrow> string \<Rightarrow> string \<Rightarrow> string \<Rightarrow> instant \<Rightarrow> idem_row" where
  "pending_row i a p k fp now = \<lparr>ir_id = i, ir_actor = a, ir_operation = p,
         ir_key = k, ir_fingerprint = fp, ir_completed = False, ir_http_status = None,
         ir_metadata = None, ir_sealed = None, ir_created_at = now, ir_updated_at = now,
         ir_completed_at = None\<rparr>"

lemma pending_row_simps [simp]:
  "idem_scope (pending_row i a p k fp now) = (a, p, k)" "ir_id (pending_row i a p k fp now) = i"
  "ir_fingerprint (pending_row i a p k fp now) = fp" "\<not> ir_completed (pending_row i a p k fp now)"
  "at_scope a p k (pending_row i a p k fp now)"
  by (simp_all add: pending_row_def idem_scope_def at_scope_def)

lemma bridge_claim_cases:
  assumes "bridge_claim i a p k fp now s = Inr (created, s')"
  shows "(created \<longrightarrow> row_by idem_scope (a, p, k) (ad_idempotency s) = None
        \<and> i \<notin> ir_id ` set (ad_idempotency s) \<and> idem_row_ok (pending_row i a p k fp now)
        \<and> s' = s\<lparr>ad_idempotency := ad_idempotency s @ [pending_row i a p k fp now]\<rparr>)
    \<and> (\<not> created \<longrightarrow> s' = s \<and> row_by idem_scope (a, p, k) (ad_idempotency s) \<noteq> None)"
  using assms unfolding bridge_claim_def reserve_idempotency_def pending_row_def [symmetric]
  by (auto simp: res_simps split: option.splits if_splits)

lemma bridge_by_scope_Some:
  "bridge_by_scope a p k s = Inr (Some row) \<longleftrightarrow>
     row_by idem_scope (a, p, k) (ad_idempotency s) = Some row
     \<and> (ir_completed row \<longrightarrow> ir_metadata row = Some replay_metadata)"
  by (auto simp: bridge_by_scope_def agent_idempotency_by_scope_def split: option.splits)

lemma bridge_by_scope_None:
  "bridge_by_scope a p k s = Inr None \<longleftrightarrow> row_by idem_scope (a, p, k) (ad_idempotency s) = None"
  by (auto simp: bridge_by_scope_def agent_idempotency_by_scope_def split: option.splits)

lemma bridge_complete_cases:
  assumes inv: "idem_inv s" and row: "row_by idem_scope (a, p, k) (ad_idempotency s) = Some row"
    and fin: "bridge_complete (ir_id row) st md sealed now s = Inr (True, s')"
  shows "idem_row_ok (completed_row st md sealed now row)
    \<and> s' = s\<lparr>ad_idempotency := set_where (\<lambda>x. ir_id x = ir_id row \<and> \<not> ir_completed x)
                 (completed_row st md sealed now) (ad_idempotency s)\<rparr>
    \<and> \<not> ir_completed row"
proof -
  have "row_by ir_id (ir_id row) (ad_idempotency s) = Some row"
    using inv row_by_Some [OF row] by (intro row_by_distinct) (simp_all add: idem_inv_def)
  with fin show ?thesis
    unfolding bridge_complete_def agent_complete_idempotency_def Let_def
    by (auto simp: res_simps split: if_splits)
qed

lemma completed_row_simps [simp]:
  "ir_id (completed_row st md sealed now r) = ir_id r"
  "idem_scope (completed_row st md sealed now r) = idem_scope r"
  by (simp_all add: completed_row_def idem_scope_def)

lemma idem_inv_complete:
  assumes "idem_inv s" and "row \<in> set (ad_idempotency s)"
    and "idem_row_ok (completed_row st md sealed now row)"
  shows "idem_inv (s\<lparr>ad_idempotency := set_where (\<lambda>x. ir_id x = ir_id row \<and> \<not> ir_completed x)
                 (completed_row st md sealed now) (ad_idempotency s)\<rparr>)"
proof -
  have same: "x = row" if "x \<in> set (ad_idempotency s)" "ir_id x = ir_id row" for x
    using assms(1,2) that by (auto simp: idem_inv_def distinct_map dest: inj_onD)
  with assms show ?thesis
    by (auto simp: idem_inv_def set_set_where)
qed

interpretation agent_keys: idempotency_store shared_repository idem_inv nonblank_text
proof
  fix s :: agent_db and fp a p k i now row
  assume inv: "idem_inv s" and fp: "nonblank_text fp"
    and "idempotency_by_scope shared_repository a p k s = Inr (Some row)"
  then have row: "row_by idem_scope (a, p, k) (ad_idempotency s) = Some row"
    by (simp add: shared_repository_def bridge_by_scope_Some)
  from row_by_Some [OF row] inv have "idem_row_ok row" "idem_scope row = (a, p, k)"
    by (auto simp: idem_inv_def)
  with fp have "idem_row_ok (pending_row i a p k fp now)"
    by (auto simp: idem_row_ok_def pending_row_def idem_scope_def)
  with row show "claim_idempotency shared_repository i a p k fp now s = Inr (False, s)"
    by (simp add: shared_repository_def bridge_claim_def pending_row_def [symmetric]
        reserve_idempotency_def)
next
  fix s s' :: agent_db and fp a p k i now
  assume inv: "idem_inv s" and "claim_idempotency shared_repository i a p k fp now s = Inr (True, s')"
  then have c: "row_by idem_scope (a, p, k) (ad_idempotency s) = None"
      "i \<notin> ir_id ` set (ad_idempotency s)" "idem_row_ok (pending_row i a p k fp now)"
      "s' = s\<lparr>ad_idempotency := ad_idempotency s @ [pending_row i a p k fp now]\<rparr>"
    using bridge_claim_cases [of i a p k fp now s True s'] by (simp_all add: shared_repository_def)
  have "idem_inv s'"
    using inv c by (auto simp: idem_inv_def row_by_None image_iff)
  moreover have "row_by idem_scope (a, p, k) (ad_idempotency s') = Some (pending_row i a p k fp now)"
    using c by (simp add: row_by_append)
  ultimately show "idempotency_by_scope shared_repository a p k s = Inr None \<and> idem_inv s'
      \<and> (\<exists>row. idempotency_by_scope shared_repository a p k s' = Inr (Some row) \<and> ir_id row = i
           \<and> at_scope a p k row \<and> ir_fingerprint row = fp \<and> \<not> ir_completed row)"
    using c(1) by (simp add: shared_repository_def bridge_by_scope_Some bridge_by_scope_None)
next
  fix s s' :: agent_db and fp a p k i now
  assume "idem_inv s" and "claim_idempotency shared_repository i a p k fp now s = Inr (False, s')"
  then show "s' = s"
    using bridge_claim_cases [of i a p k fp now s False s'] by (simp add: shared_repository_def)
next
  fix s s' :: agent_db and a p k row st sealed now
  assume inv: "idem_inv s"
    and "idempotency_by_scope shared_repository a p k s = Inr (Some row)"
    and "complete_idempotency shared_repository (ir_id row) st replay_metadata sealed now s = Inr (True, s')"
  then have row: "row_by idem_scope (a, p, k) (ad_idempotency s) = Some row"
    and "bridge_complete (ir_id row) st replay_metadata sealed now s = Inr (True, s')"
    by (simp_all add: shared_repository_def bridge_by_scope_Some)
  from bridge_complete_cases [OF inv this]
  have c: "idem_row_ok (completed_row st replay_metadata sealed now row)" "\<not> ir_completed row"
      "s' = s\<lparr>ad_idempotency := set_where (\<lambda>x. ir_id x = ir_id row \<and> \<not> ir_completed x)
                 (completed_row st replay_metadata sealed now) (ad_idempotency s)\<rparr>" by simp_all
  have "idem_inv s'"
    unfolding c(3) using row_by_Some [OF row] by (intro idem_inv_complete [OF inv] c(1)) simp
  moreover have "row_by idem_scope (a, p, k) (ad_idempotency s')
      = Some (completed_row st replay_metadata sealed now row)"
    using row c(2) by (simp add: c(3) row_by_set_where)
  ultimately show "idem_inv s' \<and> idempotency_by_scope shared_repository a p k s'
      = Inr (Some (row\<lparr>ir_completed := True, ir_http_status := Some st,
          ir_metadata := Some replay_metadata, ir_sealed := Some sealed, ir_updated_at := now,
          ir_completed_at := Some now\<rparr>))"
    by (simp add: shared_repository_def bridge_by_scope_Some completed_row_def)
qed

end
