(* ===== verification/Agent_Events.thy ===== *)
theory Agent_Events
  imports Agent_Queue
begin

section \<open>The agent module: accepting worker events\<close>

text \<open>
  \<^verbatim>\<open>agent/application/events.py\<close>: a canonical event of a worker is accepted under the locks of its
  run and attempt. A replay of a stored event returns the original receipt; an event of another
  generation leaves only audit evidence; any other event has to be the next of its generation and
  moves the attempt, and with a terminal attempt the run. The locks make the transaction serial, so
  the reads before and after locking see the same rows.
\<close>

definition event_target :: "string \<Rightarrow> attempt_state option" where
  "event_target = map_of [
     (''ATTEMPT_PROVISIONING'', PROVISIONING), (''ATTEMPT_RUNNING'', RUNNING),
     (''WAITING_INPUT'', WAITING_INPUT), (''ATTEMPT_FINALIZING'', FINALIZING),
     (''ATTEMPT_SUCCEEDED'', SUCCEEDED), (''ATTEMPT_FAILED'', FAILED),
     (''ATTEMPT_CANCELED'', CANCELED), (''ATTEMPT_TIMED_OUT'', TIMED_OUT)]"

fun terminal_run_state :: "attempt_state \<Rightarrow> run_state option" where
  "terminal_run_state SUCCEEDED = Some RUN_SUCCEEDED"
| "terminal_run_state FAILED = Some RUN_FAILED"
| "terminal_run_state CANCELED = Some RUN_CANCELED"
| "terminal_run_state TIMED_OUT = Some RUN_TIMED_OUT"
| "terminal_run_state _ = None"

record event_acceptance =
  ea_event :: canonical_event
  ea_attempt :: agent_attempt
  ea_checkpoint :: "checkpoint_input option"

datatype acceptance = Accepted event_acceptance | StaleGeneration string

definition event_checkpoint ::
  "platform_env \<Rightarrow> canonical_event \<Rightarrow> (agent_error, checkpoint_input \<times> instant) res" where
  "event_checkpoint P e =
     (case (map_of (ev_data e) ''checkpoint'', map_of (ev_data e) ''waitingDeadline'') of
        (Some c, Some (PyStr deadline)) \<Rightarrow>
          if mapping_items c = None
          then Inl (ValueError ''WAITING_INPUT requires platform checkpoint and waitingDeadline'')
          else rbind (parse_checkpoint P c) (\<lambda>checkpoint.
            (case parse_datetime P deadline of
               Some (t, True) \<Rightarrow> Inr (checkpoint, t)
             | Some (t, False) \<Rightarrow> Inl (ValueError ''waitingDeadline must include an offset'')
             | None \<Rightarrow> Inl (ValueError ''Invalid isoformat string'')))
      | _ \<Rightarrow> Inl (ValueError ''WAITING_INPUT requires platform checkpoint and waitingDeadline''))"

definition attempt_mutation_of ::
  "agent_attempt \<Rightarrow> instant option \<Rightarrow> int \<Rightarrow> instant \<Rightarrow> attempt_mutation" where
  "attempt_mutation_of a waiting_deadline event_sequence now = \<lparr>am_state = at_state a,
     am_generation = at_generation a, am_fencing_token = at_fencing_token a,
     am_checkpoint = at_checkpoint a, am_event_sequence = event_sequence,
     am_waiting_deadline = waiting_deadline, am_terminal_evidence = at_terminal_evidence a,
     am_now = now\<rparr>"

definition stale_generation_audit ::
  "agent_env \<Rightarrow> actor_reference \<Rightarrow> canonical_event \<Rightarrow> agent_attempt \<Rightarrow> instant \<Rightarrow> audit_envelope" where
  "stale_generation_audit env actor e a now = \<lparr>ae_id = av_new_id env 0, ae_occurred_at = now,
     ae_actor = ac_reference actor, ae_actor_type = ac_type actor,
     ae_action = ''agent.event.reject_stale_generation'', ae_target_type = ''agent_attempt'',
     ae_target_id = at_id a, ae_result = ''REJECTED'',
     ae_reason = Some (''STALE_RUNNER_GENERATION;generation='' @ str_of_int (ev_generation e)
       @ '';currentGeneration='' @ str_of_int (at_generation a)
       @ '';eventRef='' @ av_sha256 env (ev_id e)),
     ae_correlation_id = ''agent-correlation:'' @ av_sha256 env (ev_correlation_id e),
     ae_request_id = None, ae_schema_version = 1\<rparr>"

definition accepted_event_audit ::
  "agent_env \<Rightarrow> actor_reference \<Rightarrow> canonical_event \<Rightarrow> string \<Rightarrow> attempt_state \<Rightarrow> instant
   \<Rightarrow> audit_envelope" where
  "accepted_event_audit env actor e attempt_id target now = \<lparr>ae_id = av_new_id env 0,
     ae_occurred_at = now, ae_actor = ac_reference actor, ae_actor_type = ac_type actor,
     ae_action = (if target = WAITING_INPUT then ''agent.attempt.waiting_input''
       else if target = SUCCEEDED then ''agent.attempt.succeeded'' else ''agent.event.accept''),
     ae_target_type = ''agent_attempt'', ae_target_id = attempt_id,
     ae_result = attempt_state_value target,
     ae_reason = Some (''eventType='' @ ev_type e @ '';generation='' @ str_of_int (ev_generation e)
       @ '';sequence='' @ str_of_int (ev_sequence e) @ '';eventRef='' @ av_sha256 env (ev_id e)),
     ae_correlation_id = ''agent-correlation:'' @ av_sha256 env (ev_correlation_id e),
     ae_request_id = None, ae_schema_version = 1\<rparr>"

definition waiting_checkpoint ::
  "platform_env \<Rightarrow> canonical_event \<Rightarrow> agent_attempt \<Rightarrow> attempt_state \<Rightarrow> agent_db
   \<Rightarrow> (agent_error, (checkpoint_input option \<times> instant option) \<times> agent_db) res" where
  "waiting_checkpoint P e a target db =
     (if target = WAITING_INPUT
      then rbind (event_checkpoint P e) (\<lambda>(c, deadline).
           rbind (insert_checkpoint (at_id a) c db) (\<lambda>(c', db').
             Inr ((Some c', Some deadline), db')))
      else Inr ((None, at_waiting_deadline a), db))"

definition finish_run ::
  "agent_run \<Rightarrow> attempt_state \<Rightarrow> instant \<Rightarrow> agent_db \<Rightarrow> (agent_error, agent_db) res" where
  "finish_run run target now db =
     (case terminal_run_state target of
        None \<Rightarrow> Inr db
      | Some s \<Rightarrow>
          rbind (compare_and_set_run (rn_id run) (rn_revision run)
                   \<lparr>rm_state = s, rm_latest_attempt_id = rn_latest_attempt_id run, rm_now = now\<rparr> db)
            (\<lambda>(r, db'). if r = None then Inl (LostRowLock ''Run mutation lost its row lock'')
                        else Inr db'))"

definition apply_event ::
  "agent_env \<Rightarrow> actor_reference \<Rightarrow> canonical_event \<Rightarrow> agent_run \<Rightarrow> agent_attempt \<Rightarrow> attempt_state
   \<Rightarrow> instant \<Rightarrow> agent_db \<Rightarrow> (agent_error, acceptance \<times> agent_db) res" where
  "apply_event env actor e run a target now db =
     (let P = av_platform env in
      rbind (waiting_checkpoint P e a target db) (\<lambda>((checkpoint, deadline), db1).
      rbind (transition_attempt a target checkpoint now) (\<lambda>transitioned.
      rbind (compare_and_set_attempt (at_id a) (at_revision a)
               (attempt_mutation_of transitioned deadline (ev_sequence e) now) db1)
        (\<lambda>(persisted, db2).
      rbind (of_option (LostRowLock ''Attempt mutation lost its row lock'') persisted) (\<lambda>attempt'.
      rbind (append_event P e db2) (\<lambda>(event', db3).
      rbind (append_event_receipt \<lparr>er_event_id = ev_id event', er_schema_version = 1,
               er_attempt = attempt', er_checkpoint = checkpoint\<rparr> db3) (\<lambda>db4.
      rbind (finish_run run target now db4) (\<lambda>db5.
        Inr (Accepted \<lparr>ea_event = event', ea_attempt = attempt', ea_checkpoint = checkpoint\<rparr>,
             append_agent_audit env (accepted_event_audit env actor e (at_id a) target now) db5)))))))))"

definition accept_new_event ::
  "agent_env \<Rightarrow> actor_reference \<Rightarrow> canonical_event \<Rightarrow> agent_run \<Rightarrow> agent_attempt \<Rightarrow> agent_db
   \<Rightarrow> (agent_error, acceptance \<times> agent_db) res" where
  "accept_new_event env actor e run a db =
     (if ev_type e = ''WAITING_INPUT'' \<and> map_of (ev_data e) ''question'' = None
      then Inl (ValueError ''new WAITING_INPUT event requires question'')
      else if ev_attempt_id e \<noteq> at_id a
      then Inl (ValueError ''canonical event references an unknown Attempt'')
      else
        let now = av_clock env 0 in
        if ev_generation e \<noteq> at_generation a
        then Inr (StaleGeneration (at_id a),
                  append_agent_audit env (stale_generation_audit env actor e a now) db)
        else if ev_sequence e \<noteq> at_event_sequence a + 1
        then Inl (EventSequenceGap (''expected event sequence '' @ str_of_int (at_event_sequence a + 1)
               @ '', received '' @ str_of_int (ev_sequence e)))
        else (case event_target (ev_type e) of
           None \<Rightarrow> Inl (UnknownWorkflowEvent (ev_type e))
         | Some target \<Rightarrow> apply_event env actor e run a target now db))"

definition replay_event ::
  "platform_env \<Rightarrow> canonical_event \<Rightarrow> canonical_event \<Rightarrow> agent_db
   \<Rightarrow> (agent_error, acceptance \<times> agent_db) res" where
  "replay_event P existing e db =
     (if event_digest P existing \<noteq> event_digest P e
      then Inl (EventReplayConflict (''canonical event '' @ ev_id e @ '' changed during replay''))
      else rbind (event_receipt_by_id (ev_id e) db) (\<lambda>receipt. case receipt of
         None \<Rightarrow> Inl (EventReplayUnavailable ''original event acceptance is unavailable'')
       | Some r \<Rightarrow> Inr (Accepted \<lparr>ea_event = existing, ea_attempt = er_attempt r,
                        ea_checkpoint = er_checkpoint r\<rparr>, db)))"

definition accept_operation ::
  "agent_env \<Rightarrow> actor_reference \<Rightarrow> canonical_event \<Rightarrow> agent_db
   \<Rightarrow> (agent_error, acceptance \<times> agent_db) res" where
  "accept_operation env actor e db =
     (let P = av_platform env in
      rbind (event_by_id P (ev_id e) db) (\<lambda>before.
      let lock_attempt_id = (case before of Some x \<Rightarrow> ev_attempt_id x | None \<Rightarrow> ev_attempt_id e) in
      rbind (attempt_by_id lock_attempt_id db) (\<lambda>unlocked.
      rbind (of_option (ValueError ''canonical event references an unknown Attempt'') unlocked)
        (\<lambda>unlocked_attempt.
      rbind (run_by_id (at_run_id unlocked_attempt) db) (\<lambda>found_run.
      rbind (of_option (ValueError ''Attempt references an unknown Agent Run'') found_run) (\<lambda>run.
      rbind (attempt_by_id lock_attempt_id db) (\<lambda>locked.
      rbind (of_option (ValueError ''canonical event Attempt identity changed'') locked) (\<lambda>a.
      if at_run_id a \<noteq> rn_id run
      then Inl (ValueError ''canonical event Attempt identity changed'')
      else rbind (event_by_id P (ev_id e) db) (\<lambda>existing. case existing of
             Some x \<Rightarrow> replay_event P x e db
           | None \<Rightarrow> accept_new_event env actor e run a db)))))))))"

text \<open>A transaction commits what its operation returns and rolls back what it raises.\<close>

definition transact ::
  "('s \<Rightarrow> ('e, 'a \<times> 's) res) \<Rightarrow> 's \<Rightarrow> ('e, 'a) res \<times> 's" where
  "transact operation db = (case operation db of Inl e \<Rightarrow> (Inl e, db) | Inr (x, db') \<Rightarrow> (Inr x, db'))"

definition accept_workflow_event ::
  "agent_env \<Rightarrow> canonical_event \<Rightarrow> agent_db \<Rightarrow> (agent_error, event_acceptance) res \<times> agent_db" where
  "accept_workflow_event env raw_event db =
     (case make_event (av_platform env) raw_event of
        Inl err \<Rightarrow> (Inl err, db)
      | Inr e \<Rightarrow>
          (case av_actor env ''system-901'' of
             None \<Rightarrow> (Inl ActorNotTrusted, db)
           | Some actor \<Rightarrow>
               (case transact (accept_operation env actor e) db of
                  (Inl err, db') \<Rightarrow> (Inl err, db')
                | (Inr (Accepted x), db') \<Rightarrow> (Inr x, db')
                | (Inr (StaleGeneration i), db') \<Rightarrow> (Inl (StaleRunnerGeneration i), db'))))"

end
