(* ===== verification/Agent_Runs.thy ===== *)
theory Agent_Runs
  imports Agent_Events
begin

section \<open>The agent module: definitions and starting runs\<close>

text \<open>
  \<^verbatim>\<open>agent/application/definitions.py\<close>, \<^verbatim>\<open>agent/application/runs.py\<close> and the restricted policies of
  \<^verbatim>\<open>agent/adapters/dev_policy.py\<close>. Starting a run writes the run, its first attempt already queued,
  the binding, the first canonical event with its receipt, the workflow command and an audit entry
  in one transaction under an idempotency key. A result travels through the sealed response as
  JSON; \<open>result_codec\<close> is the model's dump and parse.
\<close>

record definition_command =
  dc_definition :: agent_definition
  dc_actor :: string
  dc_correlation_id :: string

definition register_definition ::
  "agent_env \<Rightarrow> definition_command \<Rightarrow> agent_db \<Rightarrow> (agent_error, agent_definition \<times> agent_db) res" where
  "register_definition env command db =
     rbind (of_option ActorNotTrusted (av_actor env (dc_actor command))) (\<lambda>actor.
     let now = av_clock env 0;
         d = (dc_definition command)\<lparr>df_created_at := now\<rparr>;
         name = df_id d @ ''@'' @ str_of_int (df_version d)
     in rbind (definition_by_id (df_id d) (df_version d) db) (\<lambda>existing.
        if existing \<noteq> None then Inl (DefinitionAlreadyExists (''Agent Definition '' @ name @ '' exists''))
        else rbind (make_definition d) (\<lambda>definition.
             rbind (insert_definition definition db) (\<lambda>(persisted, db1).
               Inr (persisted, append_agent_audit env \<lparr>ae_id = av_new_id env 0,
                 ae_occurred_at = now, ae_actor = ac_reference actor, ae_actor_type = ac_type actor,
                 ae_action = ''agent.definition.register'', ae_target_type = ''agent_definition'',
                 ae_target_id = name, ae_result = ''SUCCESS'',
                 ae_reason = Some (''definition='' @ name),
                 ae_correlation_id = ''agent-correlation:'' @ av_sha256 env (dc_correlation_id command),
                 ae_request_id = None, ae_schema_version = 1\<rparr> db1)))))"

definition list_definitions :: "agent_env \<Rightarrow> agent_db \<Rightarrow> (agent_error, agent_definition list) res" where
  "list_definitions env db =
     rbind (list_definition_rows db) (\<lambda>candidates.
     rbind (collect (\<lambda>d. case av_definition_active env d of
              Some active \<Rightarrow> Inr (d, active)
            | None \<Rightarrow> Inl (AgentQueryUnavailable ''Definition availability is unverifiable'')) candidates)
       (\<lambda>marked. Inr (map fst (filter snd marked))))"

subsection \<open>The restricted policies\<close>

definition dev_binding_policy ::
  "string \<Rightarrow> agent_definition \<Rightarrow> requirement_context \<Rightarrow> execution_binding" where
  "dev_binding_policy binding_id d context = \<lparr>eb_id = binding_id, eb_source = DEV_FAKE,
     eb_runtime_ref = ''DEV_FAKE:runtime:control-plane-v1'',
     eb_model_route_ref = ''DEV_FAKE:model-route:none'',
     eb_capability_bundle_ref = ''DEV_FAKE:capability-bundle:control-plane-v1'',
     eb_skill_refs = df_skills d,
     eb_runtime_permissions = [''checkpoint.write'', ''context.read'', ''event.emit''],
     eb_context_policy_ref = ''DEV_FAKE:context-policy:requirement-read-v1'',
     eb_network_policy_ref = ''DEV_FAKE:network-policy:none'', eb_digest = []\<rparr>"

definition dev_definition_active :: "agent_definition \<Rightarrow> bool option" where
  "dev_definition_active d = Some True"

definition dev_actor_resolver :: "string \<Rightarrow> actor_reference option" where
  "dev_actor_resolver = map_of [
     (''employee-901'', \<lparr>ac_reference = ''employee-901'', ac_type = ''EMPLOYEE''\<rparr>),
     (''service-901'', \<lparr>ac_reference = ''service-901'', ac_type = ''SERVICE''\<rparr>),
     (''system-901'', \<lparr>ac_reference = ''system-901'', ac_type = ''SYSTEM''\<rparr>)]"

subsection \<open>start_run\<close>

record start_command =
  sc_workspace_id :: string
  sc_requirement_id :: string
  sc_work_item_id :: string
  sc_definition_id :: string
  sc_definition_version :: int
  sc_goal :: string
  sc_actor :: string
  sc_idempotency_key :: string
  sc_correlation_id :: string

record start_result =
  sr_run :: agent_run
  sr_attempt :: agent_attempt
  sr_binding :: execution_binding
  sr_event :: canonical_event
  sr_command :: workflow_command

record 'r result_codec =
  dump_result :: "'r \<Rightarrow> pyval"
  parse_result :: "pyval \<Rightarrow> 'r option"

definition codec_faithful :: "'r result_codec \<Rightarrow> bool" where
  "codec_faithful K \<longleftrightarrow> (\<forall>r. parse_result K (dump_result K r) = Some r)"

definition start_context ::
  "agent_env \<Rightarrow> start_command \<Rightarrow> (agent_error, requirement_context \<times> string \<times> business_context) res"
  where
  "start_context env command =
     (case av_resolve_context env (sc_workspace_id command) (sc_requirement_id command)
             (sc_work_item_id command) of
        Inl f \<Rightarrow> Inl (RequirementContextError f)
      | Inr context \<Rightarrow>
          (case (uuid_str (av_platform env) (rq_workspace_id context),
                 uuid_str (av_platform env) (rq_requirement_id context),
                 uuid_str (av_platform env) (rq_work_item_id context),
                 uuid_str (av_platform env) (rq_assignment_id context)) of
             (Some workspace_id, Some q, Some w, Some a) \<Rightarrow>
               if workspace_id \<noteq> sc_workspace_id command \<or> q \<noteq> sc_requirement_id command
                  \<or> w \<noteq> sc_work_item_id command
               then Inl (InvalidRequirementExecutionContext
                 ''Requirement context identities do not match Agent request'')
               else Inr (context, workspace_id, \<lparr>bc_requirement_id = q, bc_work_item_id = w,
                 bc_assignment_id = a\<rparr>)
           | _ \<Rightarrow> Inl (InvalidRequirementExecutionContext
                 ''Requirement context identities are invalid'')))"

definition initial_attempt ::
  "string \<Rightarrow> string \<Rightarrow> execution_binding \<Rightarrow> instant \<Rightarrow> agent_attempt" where
  "initial_attempt attempt_id run_id binding now = \<lparr>at_id = attempt_id, at_run_id = run_id,
     at_number = 1, at_state = CREATED, at_binding_id = eb_id binding,
     at_binding_digest = eb_digest binding, at_generation = 1,
     at_fencing_token = ''fence:'' @ attempt_id @ '':generation:1'', at_checkpoint = None,
     at_event_sequence = 0, at_waiting_deadline = None, at_terminal_evidence = None,
     at_revision = 1, at_created_at = now, at_updated_at = now\<rparr>"

definition queued_attempt ::
  "string \<Rightarrow> string \<Rightarrow> execution_binding \<Rightarrow> instant \<Rightarrow> (agent_error, agent_attempt) res" where
  "queued_attempt attempt_id run_id binding now =
     rbind (make_attempt (initial_attempt attempt_id run_id binding now)) (\<lambda>initial.
     rbind (transition_attempt initial BINDING None now) (\<lambda>binding_state.
     rbind (transition_attempt binding_state QUEUED None now) (\<lambda>queued.
       make_attempt (queued\<lparr>at_event_sequence := 1\<rparr>))))"

definition queued_event ::
  "agent_env \<Rightarrow> start_command \<Rightarrow> string \<Rightarrow> string \<Rightarrow> execution_binding \<Rightarrow> canonical_event" where
  "queued_event env command run_id attempt_id binding = \<lparr>ev_id = av_new_id env 4,
     ev_type = ''ATTEMPT_QUEUED'', ev_attempt_id = attempt_id, ev_generation = 1, ev_sequence = 1,
     ev_correlation_id = sc_correlation_id command, ev_causation_id = None,
     ev_trace_id = ''agent-start:'' @ run_id, ev_span_id = ''agent-start:'' @ attempt_id,
     ev_summary = ''Attempt queued for restricted DEV control-plane execution'',
     ev_data = [(''bindingSource'', PyStr (binding_source_value (eb_source binding))),
                (''bindingDigest'', PyStr (eb_digest binding))]\<rparr>"

definition start_workflow :: "agent_env \<Rightarrow> string \<Rightarrow> instant \<Rightarrow> workflow_command" where
  "start_workflow env attempt_id now = \<lparr>wc_id = av_new_id env 5,
     wc_key = ''start:'' @ attempt_id @ '':generation-1'', wc_kind = START,
     wc_attempt_id = attempt_id, wc_generation = 1, wc_state = PLANNED, wc_attempts = 0,
     wc_receipt = None, wc_error = None, wc_created_at = now, wc_updated_at = now,
     wc_dispatched_at = None, wc_claim_owner = None, wc_claim_token = None, wc_claim_until = None,
     wc_claim_mode = None\<rparr>"

definition start_audit ::
  "agent_env \<Rightarrow> start_command \<Rightarrow> actor_reference \<Rightarrow> agent_definition \<Rightarrow> execution_binding \<Rightarrow> string
   \<Rightarrow> instant \<Rightarrow> audit_envelope" where
  "start_audit env command actor d binding run_id now = \<lparr>ae_id = av_new_id env 6,
     ae_occurred_at = now, ae_actor = ac_reference actor, ae_actor_type = ac_type actor,
     ae_action = ''agent.run.start'', ae_target_type = ''agent_run'', ae_target_id = run_id,
     ae_result = ''QUEUED'',
     ae_reason = Some (''definition='' @ df_id d @ ''@'' @ str_of_int (df_version d)
       @ '';bindingDigest='' @ eb_digest binding
       @ '';bindingSource='' @ binding_source_value (eb_source binding)
       @ '';requestRef='' @ av_sha256 env (sc_correlation_id command)
       @ '';idempotencyRef='' @ av_sha256 env (sc_idempotency_key command)),
     ae_correlation_id = ''agent-correlation:'' @ av_sha256 env (sc_correlation_id command),
     ae_request_id = None, ae_schema_version = 1\<rparr>"

definition started_run ::
  "start_command \<Rightarrow> actor_reference \<Rightarrow> agent_definition \<Rightarrow> requirement_context \<Rightarrow> string
   \<Rightarrow> business_context \<Rightarrow> string \<Rightarrow> string \<Rightarrow> instant \<Rightarrow> agent_run" where
  "started_run command actor d context workspace_id business run_id attempt_id now =
     \<lparr>rn_id = run_id, rn_workspace_id = workspace_id, rn_context = Some business,
      rn_goal_ref = rq_goal_ref context, rn_created_by = ac_reference actor,
      rn_definition_id = df_id d, rn_definition_version = df_version d,
      rn_latest_attempt_id = attempt_id, rn_state = ACTIVE, rn_revision = 1, rn_created_at = now,
      rn_updated_at = now\<rparr>"

definition usable_definition ::
  "agent_env \<Rightarrow> start_command \<Rightarrow> agent_db \<Rightarrow> (agent_error, agent_definition) res" where
  "usable_definition env command db =
     rbind (definition_by_id (sc_definition_id command) (sc_definition_version command) db)
       (\<lambda>found. case found of
          None \<Rightarrow> Inl (DefinitionUnavailable ''active Agent Definition is unavailable'')
        | Some d \<Rightarrow>
            if av_definition_active env d \<noteq> Some True
            then Inl (DefinitionUnavailable ''inactive Agent Definition is unavailable'') else Inr d)"

definition persist_start ::
  "agent_env \<Rightarrow> agent_run \<Rightarrow> agent_attempt \<Rightarrow> execution_binding \<Rightarrow> canonical_event \<Rightarrow> workflow_command
   \<Rightarrow> agent_db \<Rightarrow> (agent_error, start_result \<times> agent_db) res" where
  "persist_start env run attempt binding event workflow db =
     (let P = av_platform env in
      rbind (insert_run run db) (\<lambda>(run', db1).
      rbind (insert_attempt attempt db1) (\<lambda>(attempt', db2).
      rbind (insert_binding P (at_id attempt) binding db2) (\<lambda>(binding', db3).
      rbind (append_event P event db3) (\<lambda>(event', db4).
      rbind (append_event_receipt \<lparr>er_event_id = ev_id event', er_schema_version = 1,
               er_attempt = attempt', er_checkpoint = None\<rparr> db4) (\<lambda>db5.
      rbind (insert_workflow_command workflow db5) (\<lambda>(workflow', db6).
        Inr (\<lparr>sr_run = run', sr_attempt = attempt', sr_binding = binding', sr_event = event',
              sr_command = workflow'\<rparr>, db6))))))))"

definition start_operation ::
  "agent_env \<Rightarrow> start_command \<Rightarrow> actor_reference \<Rightarrow> agent_db
   \<Rightarrow> (agent_error, start_result \<times> agent_db) res" where
  "start_operation env command actor db =
     (let now = av_clock env 0; P = av_platform env;
          run_id = av_new_id env 2; attempt_id = av_new_id env 3 in
      rbind (start_context env command) (\<lambda>(context, workspace_id, business).
      rbind (usable_definition env command db) (\<lambda>d.
      rbind (make_binding P (av_binding_policy env (av_new_id env 1) d context)) (\<lambda>binding.
      rbind (queued_attempt attempt_id run_id binding now) (\<lambda>attempt.
      rbind (make_run (started_run command actor d context workspace_id business run_id attempt_id
               now)) (\<lambda>run.
      rbind (make_event P (queued_event env command run_id attempt_id binding)) (\<lambda>event.
      rbind (make_command (start_workflow env attempt_id now)) (\<lambda>workflow.
      rbind (persist_start env run attempt binding event workflow db) (\<lambda>(result, db').
        Inr (result, append_agent_audit env
               (start_audit env command actor d binding run_id now) db'))))))))))"

definition start_body :: "start_command \<Rightarrow> pyval" where
  "start_body c = PyDict [(''workspace_id'', PyStr (sc_workspace_id c)),
     (''requirement_id'', PyStr (sc_requirement_id c)),
     (''work_item_id'', PyStr (sc_work_item_id c)),
     (''definition_id'', PyStr (sc_definition_id c)),
     (''definition_version'', PyInt (sc_definition_version c)), (''goal'', PyStr (sc_goal c))]"

definition start_run ::
  "agent_env \<Rightarrow> start_result result_codec \<Rightarrow> start_command \<Rightarrow> agent_db
   \<Rightarrow> (agent_error, start_result \<times> agent_db) res" where
  "start_run env K command db =
     rbind (of_option ActorNotTrusted (av_actor env (sc_actor command))) (\<lambda>actor.
       execute_agent_command env 0 1 2
         (''workspace:'' @ sc_workspace_id command @ '':actor:'' @ ac_reference actor)
         ''agent.run.start'' (sc_idempotency_key command) ''/api/v1/agent-runs''
         (start_body command) (dump_result K) (parse_result K)
         (start_operation env command actor) db)"

end
