(* ===== verification/Agent_Control.thy ===== *)
theory Agent_Control
  imports Agent_Runs
begin

section \<open>The agent module: cancelling and resuming attempts\<close>

text \<open>
  \<^verbatim>\<open>agent/application/control.py\<close>: both commands lock the run, then the attempt, and execute under
  an idempotency key; cancelling plans a CANCEL command, resuming verifies the binding and the
  requirement the run was started for and plans a RESUME command for the next generation.
\<close>

record control_command =
  cc_run_id :: string
  cc_attempt_id :: string
  cc_expected_revision :: int
  cc_actor :: string
  cc_idempotency_key :: string
  cc_correlation_id :: string

record control_result =
  cr_attempt :: agent_attempt
  cr_command :: "workflow_command option"

definition control_audit ::
  "agent_env \<Rightarrow> nat \<Rightarrow> string \<Rightarrow> agent_attempt \<Rightarrow> control_command \<Rightarrow> actor_reference \<Rightarrow> instant
   \<Rightarrow> audit_envelope" where
  "control_audit env id_at operation a command actor now = \<lparr>ae_id = av_new_id env id_at,
     ae_occurred_at = now, ae_actor = ac_reference actor, ae_actor_type = ac_type actor,
     ae_action = operation, ae_target_type = ''agent_attempt'', ae_target_id = at_id a,
     ae_result = attempt_state_value (at_state a),
     ae_reason = Some (''revision='' @ str_of_int (at_revision a)
       @ '';generation='' @ str_of_int (at_generation a)
       @ '';requestRef='' @ av_sha256 env (cc_correlation_id command)
       @ '';idempotencyRef='' @ av_sha256 env (cc_idempotency_key command)),
     ae_correlation_id = ''agent-correlation:'' @ av_sha256 env (cc_correlation_id command),
     ae_request_id = None, ae_schema_version = 1\<rparr>"

definition planned_command ::
  "string \<Rightarrow> command_kind \<Rightarrow> string \<Rightarrow> string \<Rightarrow> int \<Rightarrow> instant \<Rightarrow> workflow_command" where
  "planned_command i kind label attempt_id generation now = \<lparr>wc_id = i,
     wc_key = label @ '':'' @ attempt_id @ '':generation-'' @ str_of_int generation, wc_kind = kind,
     wc_attempt_id = attempt_id, wc_generation = generation, wc_state = PLANNED, wc_attempts = 0,
     wc_receipt = None, wc_error = None, wc_created_at = now, wc_updated_at = now,
     wc_dispatched_at = None, wc_claim_owner = None, wc_claim_token = None, wc_claim_until = None,
     wc_claim_mode = None\<rparr>"

text \<open>The locked run and attempt every control command starts from.\<close>

definition locked_attempt ::
  "control_command \<Rightarrow> agent_db \<Rightarrow> (agent_error, agent_run \<times> agent_attempt) res" where
  "locked_attempt command db =
     rbind (run_by_id (cc_run_id command) db) (\<lambda>found_run.
     rbind (of_option (AgentRunNotFound (cc_run_id command)) found_run) (\<lambda>run.
     rbind (attempt_by_id (cc_attempt_id command) db) (\<lambda>found.
     rbind (of_option (AgentAttemptNotFound (cc_attempt_id command)) found) (\<lambda>a.
       if at_run_id a \<noteq> rn_id run then Inl (AgentAttemptNotFound (cc_attempt_id command))
       else Inr (run, a)))))"

definition control_path :: "agent_run \<Rightarrow> agent_attempt \<Rightarrow> string \<Rightarrow> string" where
  "control_path run a verb = ''/api/v1/agent-runs/'' @ rn_id run @ ''/attempts/'' @ at_id a @ ''/'' @ verb"

definition control_scope :: "agent_run \<Rightarrow> actor_reference \<Rightarrow> string" where
  "control_scope run actor = ''workspace:'' @ rn_workspace_id run @ '':actor:'' @ ac_reference actor"

definition control_body :: "control_command \<Rightarrow> pyval" where
  "control_body command = PyDict [(''expectedRevision'', PyInt (cc_expected_revision command))]"

subsection \<open>cancel_attempt\<close>

definition cancel_mutate ::
  "agent_env \<Rightarrow> control_command \<Rightarrow> actor_reference \<Rightarrow> agent_attempt \<Rightarrow> agent_db
   \<Rightarrow> (agent_error, control_result \<times> agent_db) res" where
  "cancel_mutate env command actor a db =
     (let now = av_clock env 0 in
      if at_revision a \<noteq> cc_expected_revision command
      then Inl (AttemptRevisionConflict ''If-Match does not match the current Attempt revision'')
      else if terminal_attempt (at_state a) \<or> at_state a = CANCELING
      then Inr (\<lparr>cr_attempt = a, cr_command = None\<rparr>,
             append_agent_audit env (control_audit env 1 ''agent.attempt.cancel'' a command actor now) db)
      else
        rbind (transition_attempt a CANCELING None now) (\<lambda>canceling.
        rbind (compare_and_set_attempt (at_id a) (at_revision a)
                 (attempt_mutation_of canceling (at_waiting_deadline canceling)
                    (at_event_sequence canceling) now) db) (\<lambda>(updated, db1).
        rbind (of_option (LostRowLock ''Attempt cancellation lost its row lock'') updated) (\<lambda>a'.
        rbind (make_command (planned_command (av_new_id env 1) CANCEL ''cancel'' (at_id a)
                 (at_generation a) now)) (\<lambda>planned.
        rbind (insert_workflow_command planned db1) (\<lambda>(workflow, db2).
          Inr (\<lparr>cr_attempt = a', cr_command = Some workflow\<rparr>,
               append_agent_audit env
                 (control_audit env 2 ''agent.attempt.cancel'' a' command actor now) db2)))))))"

definition cancel_attempt ::
  "agent_env \<Rightarrow> control_result result_codec \<Rightarrow> control_command \<Rightarrow> agent_db
   \<Rightarrow> (agent_error, control_result \<times> agent_db) res" where
  "cancel_attempt env K command db =
     rbind (of_option ActorNotTrusted (av_actor env (cc_actor command))) (\<lambda>actor.
     rbind (locked_attempt command db) (\<lambda>(run, a).
       execute_agent_command env 0 1 2 (control_scope run actor) ''agent.attempt.cancel''
         (cc_idempotency_key command) (control_path run a ''cancel'') (control_body command)
         (dump_result K) (parse_result K) (cancel_mutate env command actor a) db))"

subsection \<open>resume_attempt\<close>

definition protect_resume_source :: "agent_env \<Rightarrow> agent_run \<Rightarrow> (agent_error, unit) res" where
  "protect_resume_source env run =
     (case rn_context run of
        None \<Rightarrow> Inl (AttemptNotResumable (rn_id run))
      | Some source \<Rightarrow>
          (case av_protect_context env (rn_workspace_id run) (bc_requirement_id source)
                  (bc_work_item_id source) (bc_assignment_id source) of
             Inl f \<Rightarrow>
               if f \<in> {RequirementNotFound, WorkItemAssigneeIneligible, WorkspaceChanged,
                        WorkItemNotInRequirement, AssignmentMissing, AssignmentChanged}
               then Inl (AttemptNotResumable (rn_id run))
               else Inl (RequirementDependencyUnavailable ''Resume business context is unverifiable'')
           | Inr current \<Rightarrow>
               (case (uuid_str (av_platform env) (rq_workspace_id current),
                      uuid_str (av_platform env) (rq_requirement_id current),
                      uuid_str (av_platform env) (rq_work_item_id current),
                      uuid_str (av_platform env) (rq_assignment_id current)) of
                  (Some workspace_id, Some q, Some w, Some assignment) \<Rightarrow>
                    if q \<noteq> bc_requirement_id source \<or> w \<noteq> bc_work_item_id source
                    then Inl (RequirementDependencyUnavailable
                      ''Resume business context target is invalid'')
                    else if workspace_id \<noteq> rn_workspace_id run \<or> assignment \<noteq> bc_assignment_id source
                    then Inl (AttemptNotResumable (rn_id run))
                    else Inr ()
                | _ \<Rightarrow> Inl (RequirementDependencyUnavailable ''Resume business context is invalid''))))"

definition verify_binding ::
  "agent_env \<Rightarrow> agent_attempt \<Rightarrow> agent_db \<Rightarrow> (agent_error, unit) res" where
  "verify_binding env a db =
     (case binding_by_attempt_id (av_platform env) (at_id a) db of
        Inl (ValueError _) \<Rightarrow> Inl (BindingDigestMismatch (at_id a))
      | Inl e \<Rightarrow> Inl e
      | Inr None \<Rightarrow> Inl (BindingDigestMismatch (at_id a))
      | Inr (Some b) \<Rightarrow>
          if eb_id b \<noteq> at_binding_id a \<or> eb_digest b \<noteq> at_binding_digest a
          then Inl (BindingDigestMismatch (at_id a)) else Inr ())"

definition waiting_open :: "agent_attempt \<Rightarrow> instant \<Rightarrow> bool" where
  "waiting_open a now = (case at_waiting_deadline a of None \<Rightarrow> False | Some t \<Rightarrow> now < t)"

definition next_fence :: "agent_attempt \<Rightarrow> string" where
  "next_fence a = ''fence:'' @ at_id a @ '':generation:'' @ str_of_int (at_generation a + 1)"

definition resume_mutate ::
  "agent_env \<Rightarrow> control_command \<Rightarrow> actor_reference \<Rightarrow> agent_run \<Rightarrow> agent_attempt \<Rightarrow> agent_db
   \<Rightarrow> (agent_error, control_result \<times> agent_db) res" where
  "resume_mutate env command actor run a db =
     (if at_revision a \<noteq> cc_expected_revision command
      then Inl (AttemptRevisionConflict ''If-Match does not match the current Attempt revision'')
      else if at_state a \<noteq> WAITING_INPUT \<or> at_checkpoint a = None
      then Inl (AttemptNotResumable (at_id a))
      else if \<not> waiting_open a (av_clock env 1) then Inl (AttemptWaitingExpired (at_id a))
      else
        rbind (verify_binding env a db) (\<lambda>_.
        rbind (protect_resume_source env run) (\<lambda>_.
        let now = av_clock env 2 in
        if \<not> waiting_open a now then Inl (AttemptWaitingExpired (at_id a))
        else
          rbind (resume_generation a (next_fence a) now) (\<lambda>resumed.
          rbind (compare_and_set_attempt (at_id a) (at_revision a)
                   (attempt_mutation_of resumed None 0 now) db) (\<lambda>(updated, db1).
          rbind (of_option (LostRowLock ''Attempt resume lost its row lock'') updated) (\<lambda>a'.
          rbind (make_command (planned_command (av_new_id env 1) RESUME ''resume'' (at_id a)
                   (at_generation a') now)) (\<lambda>planned.
          rbind (insert_workflow_command planned db1) (\<lambda>(workflow, db2).
            Inr (\<lparr>cr_attempt = a', cr_command = Some workflow\<rparr>,
                 append_agent_audit env
                   (control_audit env 2 ''agent.attempt.resume'' a' command actor now) db2)))))))))"

definition resume_attempt ::
  "agent_env \<Rightarrow> control_result result_codec \<Rightarrow> control_command \<Rightarrow> agent_db
   \<Rightarrow> (agent_error, control_result \<times> agent_db) res" where
  "resume_attempt env K command db =
     rbind (of_option ActorNotTrusted (av_actor env (cc_actor command))) (\<lambda>actor.
     rbind (locked_attempt command db) (\<lambda>(run, a).
       execute_agent_command env 0 0 3 (control_scope run actor) ''agent.attempt.resume''
         (cc_idempotency_key command) (control_path run a ''resume'') (control_body command)
         (dump_result K) (parse_result K) (resume_mutate env command actor run a) db))"

end
