(* ===== verification/Agent_Invariant.thy ===== *)
theory Agent_Invariant
  imports Agent_Control
begin

section \<open>The agent module: what every command preserves\<close>

text \<open>
  The invariant of the agent tables: one run per attempt in the matching state, events that belong
  to existing attempts and generations, and for every generation a gapless sequence of events. Each
  handler is described by what it does to the tables; the preservation lemma is shared.
\<close>

definition run_state_for :: "attempt_state \<Rightarrow> run_state" where
  "run_state_for s = (case terminal_run_state s of None \<Rightarrow> ACTIVE | Some x \<Rightarrow> x)"

definition sequences :: "canonical_event list \<Rightarrow> string \<Rightarrow> int \<Rightarrow> int set" where
  "sequences es i g = ev_sequence ` {e \<in> set es. ev_attempt_id e = i \<and> ev_generation e = g}"

definition fence_for :: "string \<Rightarrow> int \<Rightarrow> string" where
  "fence_for i g = ''fence:'' @ i @ '':generation:'' @ str_of_int g"

definition keys_inv :: "agent_db \<Rightarrow> bool" where
  "keys_inv db \<longleftrightarrow> distinct (map rr_id (ad_runs db)) \<and> distinct (map tr_id (ad_attempts db))
     \<and> distinct (map ev_id (ad_events db)) \<and> distinct (map event_position (ad_events db))"

definition runs_inv :: "agent_db \<Rightarrow> bool" where
  "runs_inv db \<longleftrightarrow> (\<forall>a \<in> set (ad_attempts db). \<exists>r \<in> set (ad_runs db). rr_id r = tr_run_id a
     \<and> rr_latest_attempt_id r = tr_id a \<and> rr_state r = run_state_for (tr_state a))"

definition events_inv :: "agent_db \<Rightarrow> bool" where
  "events_inv db \<longleftrightarrow> (\<forall>e \<in> set (ad_events db). \<exists>a \<in> set (ad_attempts db).
     tr_id a = ev_attempt_id e \<and> ev_generation e \<le> tr_generation a)"

definition sequence_inv :: "agent_db \<Rightarrow> bool" where
  "sequence_inv db \<longleftrightarrow> (\<forall>a \<in> set (ad_attempts db).
     sequences (ad_events db) (tr_id a) (tr_generation a) = {1..tr_event_sequence a}
     \<and> (\<forall>g. 1 \<le> g \<and> g < tr_generation a \<longrightarrow> (\<exists>n. sequences (ad_events db) (tr_id a) g = {1..n})))"

definition fences_inv :: "agent_db \<Rightarrow> bool" where
  "fences_inv db \<longleftrightarrow> (\<forall>a \<in> set (ad_attempts db). 1 \<le> tr_generation a \<and> 0 \<le> tr_event_sequence a
     \<and> tr_fencing_token a = fence_for (tr_id a) (tr_generation a)
     \<and> (tr_state a = WAITING_INPUT \<longrightarrow> tr_checkpoint_id a \<noteq> None))"

definition agent_inv :: "agent_db \<Rightarrow> bool" where
  "agent_inv db \<longleftrightarrow> keys_inv db \<and> runs_inv db \<and> events_inv db \<and> sequence_inv db \<and> fences_inv db"

lemmas agent_inv_defs = agent_inv_def keys_inv_def runs_inv_def events_inv_def sequence_inv_def
  fences_inv_def

lemma agent_inv_core:
  "ad_runs db' = ad_runs db \<Longrightarrow> ad_attempts db' = ad_attempts db \<Longrightarrow> ad_events db' = ad_events db \<Longrightarrow>
   agent_inv db' \<longleftrightarrow> agent_inv db"
  by (simp add: agent_inv_defs)

lemma sequences_append:
  "sequences (es @ fs) i g = sequences es i g \<union> sequences fs i g"
  by (auto simp: sequences_def)

lemma sequences_other:
  "\<forall>e \<in> set fs. ev_attempt_id e \<noteq> i \<Longrightarrow> sequences fs i g = {}"
  by (auto simp: sequences_def)

text \<open>A row of an attempt, and the runs it may share.\<close>

lemma attempt_row_unique:
  assumes "agent_inv db" and "row_by tr_id i (ad_attempts db) = Some r"
    and "a \<in> set (ad_attempts db)" and "tr_id a = i \<or> tr_run_id a = tr_run_id r"
  shows "a = r"
proof -
  from assms(2) have r: "r \<in> set (ad_attempts db)" "tr_id r = i" using row_by_Some by metis+
  from assms(1) r(1) assms(3) obtain x y where "x \<in> set (ad_runs db)" "rr_id x = tr_run_id r"
    "rr_latest_attempt_id x = tr_id r" "y \<in> set (ad_runs db)" "rr_id y = tr_run_id a"
    "rr_latest_attempt_id y = tr_id a"
    unfolding agent_inv_def runs_inv_def by blast
  with assms(1,4) r(2) have "tr_id a = i"
    using same_key [of rr_id "ad_runs db" x y] by (auto simp: agent_inv_def keys_inv_def)
  with assms(1,3) r show ?thesis
    using same_key [of tr_id "ad_attempts db" a r] by (simp add: agent_inv_def keys_inv_def)
qed

text \<open>An update of one attempt, the events it appends and the run it may finish.\<close>

lemma agent_inv_update:
  assumes inv: "agent_inv db" and row: "row_by tr_id i (ad_attempts db) = Some r"
    and attempts: "ad_attempts db' = set_where (\<lambda>x. tr_id x = i \<and> tr_revision x = tr_revision r) f
        (ad_attempts db)"
    and ident: "tr_id (f r) = tr_id r" "tr_run_id (f r) = tr_run_id r"
    and events: "ad_events db' = ad_events db @ es"
      "\<forall>e \<in> set es. ev_attempt_id e = i \<and> ev_generation e = tr_generation (f r)"
      "distinct (map ev_id (ad_events db @ es))" "distinct (map event_position (ad_events db @ es))"
    and runs: "map rr_id (ad_runs db') = map rr_id (ad_runs db)"
      "\<forall>x \<in> set (ad_runs db). rr_id x \<noteq> tr_run_id r \<longrightarrow> x \<in> set (ad_runs db')"
      "\<exists>x \<in> set (ad_runs db'). rr_id x = tr_run_id r \<and> rr_latest_attempt_id x = i
         \<and> rr_state x = run_state_for (tr_state (f r))"
    and gen: "tr_generation r \<le> tr_generation (f r)" "0 \<le> tr_event_sequence (f r)"
      "tr_fencing_token (f r) = fence_for i (tr_generation (f r))"
      "tr_state (f r) = WAITING_INPUT \<longrightarrow> tr_checkpoint_id (f r) \<noteq> None"
    and current: "sequences (ad_events db') i (tr_generation (f r)) = {1..tr_event_sequence (f r)}"
    and older: "\<forall>g. 1 \<le> g \<and> g < tr_generation (f r) \<longrightarrow> (\<exists>n. sequences (ad_events db') i g = {1..n})"
  shows "agent_inv db'"
proof -
  from row have r: "r \<in> set (ad_attempts db)" "tr_id r = i" using row_by_Some by metis+
  have only: "a = r" if "a \<in> set (ad_attempts db)" "tr_id a = i \<or> tr_run_id a = tr_run_id r" for a
    using attempt_row_unique [OF inv row that] .
  have upd: "set (ad_attempts db') = (\<lambda>a. if a = r then f r else a) ` set (ad_attempts db)"
    unfolding attempts set_set_where using only r by (intro image_cong) auto
  have new: "a' = f r \<or> (a' \<in> set (ad_attempts db) \<and> tr_id a' \<noteq> i \<and> tr_run_id a' \<noteq> tr_run_id r)"
    if "a' \<in> set (ad_attempts db')" for a'
    using that only unfolding upd by auto
  have "map tr_id (ad_attempts db') = map tr_id (ad_attempts db)"
    unfolding attempts set_where_def using only ident by auto
  then have "keys_inv db'"
    using inv events runs(1) by (simp add: agent_inv_def keys_inv_def)
  moreover have "runs_inv db'"
    unfolding runs_inv_def
  proof
    fix a assume "a \<in> set (ad_attempts db')"
    from new [OF this] show "\<exists>x \<in> set (ad_runs db'). rr_id x = tr_run_id a
        \<and> rr_latest_attempt_id x = tr_id a \<and> rr_state x = run_state_for (tr_state a)"
    proof
      assume "a = f r"
      with runs(3) ident r(2) show ?thesis by simp
    next
      assume a: "a \<in> set (ad_attempts db) \<and> tr_id a \<noteq> i \<and> tr_run_id a \<noteq> tr_run_id r"
      with inv obtain x where "x \<in> set (ad_runs db)" "rr_id x = tr_run_id a"
        "rr_latest_attempt_id x = tr_id a" "rr_state x = run_state_for (tr_state a)"
        by (auto simp: agent_inv_def runs_inv_def)
      with a runs(2) show ?thesis by metis
    qed
  qed
  moreover have "events_inv db'"
    unfolding events_inv_def
  proof
    fix e assume "e \<in> set (ad_events db')"
    then consider (old) "e \<in> set (ad_events db)" | (new) "e \<in> set es" by (auto simp: events(1))
    then show "\<exists>a \<in> set (ad_attempts db'). tr_id a = ev_attempt_id e \<and> ev_generation e \<le> tr_generation a"
    proof cases
      case old
      with inv obtain a where a: "a \<in> set (ad_attempts db)" "tr_id a = ev_attempt_id e"
        "ev_generation e \<le> tr_generation a" by (auto simp: agent_inv_def events_inv_def)
      then have "(if a = r then f r else a) \<in> set (ad_attempts db')" unfolding upd by blast
      with a gen(1) ident(1) show ?thesis by (cases "a = r") force+
    next
      case new
      have "f r \<in> set (ad_attempts db')" using r(1) by (auto simp: upd)
      with new events(2) ident(1) r(2) show ?thesis by auto
    qed
  qed
  moreover have "sequence_inv db'"
    unfolding sequence_inv_def
  proof
    fix a assume "a \<in> set (ad_attempts db')"
    from new [OF this] show "sequences (ad_events db') (tr_id a) (tr_generation a) = {1..tr_event_sequence a}
      \<and> (\<forall>g. 1 \<le> g \<and> g < tr_generation a \<longrightarrow> (\<exists>n. sequences (ad_events db') (tr_id a) g = {1..n}))"
    proof
      assume "a = f r"
      with current older ident(1) r(2) show ?thesis by simp
    next
      assume a: "a \<in> set (ad_attempts db) \<and> tr_id a \<noteq> i \<and> tr_run_id a \<noteq> tr_run_id r"
      then have "sequences (ad_events db') (tr_id a) g = sequences (ad_events db) (tr_id a) g" for g
        using events(1,2) sequences_other [of es "tr_id a" g] by (auto simp: sequences_append)
      with a inv show ?thesis by (simp add: agent_inv_def sequence_inv_def)
    qed
  qed
  moreover have "fences_inv db'"
    unfolding fences_inv_def
  proof
    fix a assume "a \<in> set (ad_attempts db')"
    from new [OF this] show "1 \<le> tr_generation a \<and> 0 \<le> tr_event_sequence a
     \<and> tr_fencing_token a = fence_for (tr_id a) (tr_generation a)
     \<and> (tr_state a = WAITING_INPUT \<longrightarrow> tr_checkpoint_id a \<noteq> None)"
    proof
      assume "a = f r"
      moreover have "1 \<le> tr_generation r" using inv r(1) by (auto simp: agent_inv_def fences_inv_def)
      ultimately show ?thesis using gen ident(1) r(2) by auto
    next
      assume "a \<in> set (ad_attempts db) \<and> tr_id a \<noteq> i \<and> tr_run_id a \<noteq> tr_run_id r"
      with inv show ?thesis by (auto simp: agent_inv_def fences_inv_def)
    qed
  qed
  ultimately show ?thesis by (simp add: agent_inv_def)
qed

lemma agent_inv_run:
  assumes "agent_inv db" and "r \<in> set (ad_attempts db)"
    and "row_by rr_id (tr_run_id r) (ad_runs db) = Some x"
  shows "rr_latest_attempt_id x = tr_id r \<and> rr_state x = run_state_for (tr_state r)"
proof -
  from assms(1,2) obtain y where y: "y \<in> set (ad_runs db)" "rr_id y = tr_run_id r"
      "rr_latest_attempt_id y = tr_id r" "rr_state y = run_state_for (tr_state r)"
    unfolding agent_inv_def runs_inv_def by blast
  moreover have "y = x"
    using assms(1) row_by_Some [OF assms(3)] y same_key [of rr_id "ad_runs db" y x]
    by (simp add: agent_inv_def keys_inv_def)
  ultimately show ?thesis by simp
qed

lemma agent_inv_attempt:
  assumes "agent_inv db" and "r \<in> set (ad_attempts db)"
  shows "1 \<le> tr_generation r" and "0 \<le> tr_event_sequence r"
    and "tr_fencing_token r = fence_for (tr_id r) (tr_generation r)"
    and "tr_state r = WAITING_INPUT \<longrightarrow> tr_checkpoint_id r \<noteq> None"
    and "sequences (ad_events db) (tr_id r) (tr_generation r) = {1..tr_event_sequence r}"
    and "\<forall>g. 1 \<le> g \<and> g < tr_generation r \<longrightarrow> (\<exists>n. sequences (ad_events db) (tr_id r) g = {1..n})"
  using assms by (auto simp: agent_inv_def sequence_inv_def fences_inv_def)

end
