(* ===== verification/Agent_Steps.thy ===== *)
theory Agent_Steps
  imports Agent_Invariant
begin

section \<open>The agent module: effects of the handlers\<close>

text \<open>
  Each repository operation by its effect on the tables, then each handler: accepting an event,
  cancelling, resuming and starting preserve \<open>agent_inv\<close>.
\<close>

subsection \<open>Repository effects\<close>

lemma attempt_of_row_fields:
  assumes "attempt_of_row db r = Inr a"
  shows "at_id a = tr_id r" "at_run_id a = tr_run_id r" "at_state a = tr_state r"
    "at_generation a = tr_generation r" "at_fencing_token a = tr_fencing_token r"
    "at_event_sequence a = tr_event_sequence r" "at_revision a = tr_revision r"
    "at_waiting_deadline a = tr_waiting_deadline r"
  using assms unfolding attempt_of_row_def by (auto simp: res_simps dest!: make_attempt_Inr)

lemma attempt_by_id_row:
  assumes "attempt_by_id i db = Inr (Some a)"
  obtains r where "row_by tr_id i (ad_attempts db) = Some r" and "attempt_of_row db r = Inr a"
    and "tr_id r = i"
  using assms unfolding attempt_by_id_def
  by (auto simp: res_simps split: option.splits dest: row_by_Some)

lemma run_of_row_fields:
  assumes "run_of_row r = Inr run"
  shows "rn_id run = rr_id r" "rn_latest_attempt_id run = rr_latest_attempt_id r"
    "rn_revision run = rr_revision r" "rn_state run = rr_state r"
  using assms unfolding run_of_row_def make_run_def by (auto simp: res_simps)

lemma run_by_id_row:
  assumes "run_by_id i db = Inr (Some run)"
  obtains r where "row_by rr_id i (ad_runs db) = Some r" and "run_of_row r = Inr run"
    and "rr_id r = i"
  using assms unfolding run_by_id_def
  by (auto simp: res_simps split: option.splits dest: row_by_Some)

lemma make_attempt_mutation_Inr:
  assumes "make_attempt_mutation m = Inr m'"
  shows "(\<exists>ev. m' = m\<lparr>am_terminal_evidence := ev\<rparr>) \<and> 1 \<le> am_generation m \<and> 0 \<le> am_event_sequence m
    \<and> (am_state m = WAITING_INPUT \<longrightarrow> am_checkpoint m \<noteq> None)"
  using assms unfolding make_attempt_mutation_def by (auto simp: res_simps split: if_splits)

lemma compare_and_set_attempt_effect:
  assumes "compare_and_set_attempt i n m db = Inr (Some a, db')"
  obtains r m' where "row_by tr_id i (ad_attempts db) = Some r" and "tr_revision r = n"
    and "db' = db\<lparr>ad_attempts := set_where (\<lambda>x. tr_id x = i \<and> tr_revision x = n) (mutate_attempt m')
           (ad_attempts db)\<rparr>"
    and "attempt_of_row db' (mutate_attempt m' r) = Inr a"
    and "\<exists>ev. m' = m\<lparr>am_terminal_evidence := ev\<rparr>"
    and "1 \<le> am_generation m" and "0 \<le> am_event_sequence m"
    and "am_state m = WAITING_INPUT \<longrightarrow> am_checkpoint m \<noteq> None"
proof -
  from assms obtain m' where m': "make_attempt_mutation m = Inr m'"
    and rest: "(case update_attempt i n m' db of None \<Rightarrow> Inr (None, db)
      | Some (r, db') \<Rightarrow> if \<not> attempt_row_ok r then Inl (IntegrityError ''agent_attempt'')
          else rbind (attempt_of_row db' r) (\<lambda>a. Inr (Some a, db'))) = Inr (Some a, db')"
    unfolding compare_and_set_attempt_def by (rule rbind_InrE)
  from rest obtain x where upd: "update_attempt i n m' db = Some (x, db')"
    and parsed: "attempt_of_row db' x = Inr a"
    by (auto simp: res_simps split: option.splits prod.splits if_splits)
  from upd obtain rows where cas: "cas_row tr_id tr_revision i n (mutate_attempt m') (ad_attempts db)
      = Some (x, rows)" and db': "db' = db\<lparr>ad_attempts := rows\<rparr>"
    unfolding update_attempt_def by (auto split: option.splits)
  from cas_row_Some [OF cas] obtain r where "row_by tr_id i (ad_attempts db) = Some r"
    "tr_revision r = n" "x = mutate_attempt m' r"
    "rows = set_where (\<lambda>x. tr_id x = i \<and> tr_revision x = n) (mutate_attempt m') (ad_attempts db)"
    by blast
  with db' parsed make_attempt_mutation_Inr [OF m'] that show thesis by blast
qed

lemma compare_and_set_run_effect:
  assumes "compare_and_set_run i n m db = Inr (Some run, db')"
  obtains r where "row_by rr_id i (ad_runs db) = Some r" and "rr_revision r = n"
    and "db' = db\<lparr>ad_runs := set_where (\<lambda>x. rr_id x = i \<and> rr_revision x = n) (mutate_run m)
           (ad_runs db)\<rparr>"
proof -
  from assms obtain x where upd: "update_run i n m db = Some (x, db')"
    unfolding compare_and_set_run_def
    by (auto simp: res_simps split: option.splits prod.splits if_splits)
  then obtain rows where cas: "cas_row rr_id rr_revision i n (mutate_run m) (ad_runs db) = Some (x, rows)"
    and db': "db' = db\<lparr>ad_runs := rows\<rparr>"
    unfolding update_run_def by (auto split: option.splits)
  from cas_row_Some [OF cas] db' that show thesis by blast
qed

lemma mutate_attempt_simps [simp]:
  "tr_id (mutate_attempt m r) = tr_id r" "tr_run_id (mutate_attempt m r) = tr_run_id r"
  "tr_state (mutate_attempt m r) = am_state m" "tr_generation (mutate_attempt m r) = am_generation m"
  "tr_fencing_token (mutate_attempt m r) = am_fencing_token m"
  "tr_event_sequence (mutate_attempt m r) = am_event_sequence m"
  "tr_checkpoint_id (mutate_attempt m r) = map_option cp_id (am_checkpoint m)"
  by (simp_all add: mutate_attempt_def)

lemma attempt_mutation_of_simps [simp]:
  "am_state (attempt_mutation_of a d n now) = at_state a"
  "am_generation (attempt_mutation_of a d n now) = at_generation a"
  "am_fencing_token (attempt_mutation_of a d n now) = at_fencing_token a"
  "am_checkpoint (attempt_mutation_of a d n now) = at_checkpoint a"
  "am_event_sequence (attempt_mutation_of a d n now) = n"
  by (simp_all add: attempt_mutation_of_def)

lemma stored_event_simps [simp]:
  "ev_id (stored_event e) = ev_id e" "ev_attempt_id (stored_event e) = ev_attempt_id e"
  "ev_generation (stored_event e) = ev_generation e" "ev_sequence (stored_event e) = ev_sequence e"
  "event_position (stored_event e) = event_position e"
  by (simp_all add: stored_event_def event_position_def)

lemma append_event_effect:
  assumes "append_event P e db = Inr (e', db')" and "ev_id e \<notin> ev_id ` set (ad_events db)"
  shows "db' = db\<lparr>ad_events := ad_events db @ [stored_event e]\<rparr>
    \<and> event_position e \<notin> event_position ` set (ad_events db)"
proof -
  have "event_by_id P (ev_id e) db = Inr None"
    using assms(2) by (simp add: event_by_id_def)
  with assms show ?thesis
    unfolding append_event_def by (auto simp: res_simps split: if_splits)
qed

lemma append_receipt_effect:
  "append_event_receipt r db = Inr db' \<Longrightarrow>
     ad_runs db' = ad_runs db \<and> ad_attempts db' = ad_attempts db \<and> ad_events db' = ad_events db"
  unfolding append_event_receipt_def by (auto simp: res_simps)

lemma insert_checkpoint_effect:
  "insert_checkpoint i c db = Inr (c', db') \<Longrightarrow>
     ad_runs db' = ad_runs db \<and> ad_attempts db' = ad_attempts db \<and> ad_events db' = ad_events db"
  unfolding insert_checkpoint_def by (auto simp: res_simps Let_def)

lemma insert_command_effect:
  "insert_workflow_command c db = Inr (c', db') \<Longrightarrow>
     ad_runs db' = ad_runs db \<and> ad_attempts db' = ad_attempts db \<and> ad_events db' = ad_events db"
  unfolding insert_workflow_command_def by (auto simp: res_simps Let_def)

lemma append_agent_audit_simps [simp]:
  "ad_runs (append_agent_audit env x db) = ad_runs db"
  "ad_attempts (append_agent_audit env x db) = ad_attempts db"
  "ad_events (append_agent_audit env x db) = ad_events db"
  "ad_commands (append_agent_audit env x db) = ad_commands db"
  "ad_idempotency (append_agent_audit env x db) = ad_idempotency db"
  by (simp_all add: append_agent_audit_def)

lemma agent_inv_audit [simp]: "agent_inv (append_agent_audit env x db) = agent_inv db"
  by (rule agent_inv_core) simp_all

lemma finish_run_effect:
  assumes "finish_run run target now db = Inr db'" and "rn_latest_attempt_id run = i"
    and "row_by rr_id (rn_id run) (ad_runs db) = Some x" and "rr_latest_attempt_id x = i"
    and "terminal_run_state target = None \<Longrightarrow> rr_state x = ACTIVE"
    and "distinct (map rr_id (ad_runs db))"
  shows "ad_attempts db' = ad_attempts db \<and> ad_events db' = ad_events db
    \<and> map rr_id (ad_runs db') = map rr_id (ad_runs db)
    \<and> (\<forall>y \<in> set (ad_runs db). rr_id y \<noteq> rn_id run \<longrightarrow> y \<in> set (ad_runs db'))
    \<and> (\<exists>y \<in> set (ad_runs db'). rr_id y = rn_id run \<and> rr_latest_attempt_id y = i
         \<and> rr_state y = run_state_for target)"
proof (cases "terminal_run_state target")
  case None
  with assms row_by_Some [OF assms(3)] show ?thesis
    by (auto simp: finish_run_def run_state_for_def)
next
  case (Some s)
  let ?m = "\<lparr>rm_state = s, rm_latest_attempt_id = rn_latest_attempt_id run, rm_now = now\<rparr>"
  from assms(1) Some obtain r where
    "compare_and_set_run (rn_id run) (rn_revision run) ?m db = Inr (Some r, db')"
    unfolding finish_run_def by (auto simp: res_simps split: if_splits)
  then obtain y where y: "row_by rr_id (rn_id run) (ad_runs db) = Some y"
      "rr_revision y = rn_revision run"
    and db': "db' = db\<lparr>ad_runs := set_where (\<lambda>x. rr_id x = rn_id run \<and> rr_revision x = rn_revision run)
        (mutate_run ?m) (ad_runs db)\<rparr>"
    by (rule compare_and_set_run_effect)
  from y assms(3) have x: "y = x" "x \<in> set (ad_runs db)" "rr_id x = rn_id run"
    using row_by_Some [OF assms(3)] by auto
  have set: "set (ad_runs db') = (\<lambda>z. if rr_id z = rn_id run \<and> rr_revision z = rn_revision run
      then mutate_run ?m z else z) ` set (ad_runs db)"
    by (simp add: db' set_set_where)
  then have "mutate_run ?m x \<in> set (ad_runs db')" using x y by force
  moreover have "\<forall>z \<in> set (ad_runs db). rr_id z \<noteq> rn_id run \<longrightarrow> z \<in> set (ad_runs db')"
    unfolding set by force
  moreover have "map rr_id (ad_runs db') = map rr_id (ad_runs db)"
    by (simp add: db' mutate_run_def)
  moreover have "rr_id (mutate_run ?m x) = rn_id run \<and> rr_latest_attempt_id (mutate_run ?m x) = i
      \<and> rr_state (mutate_run ?m x) = run_state_for target"
    using x(3) assms(2) Some by (simp add: mutate_run_def run_state_for_def)
  moreover have "ad_attempts db' = ad_attempts db \<and> ad_events db' = ad_events db" by (simp add: db')
  ultimately show ?thesis by blast
qed

subsection \<open>Accepting an event\<close>

lemma Suc_interval: "0 \<le> n \<Longrightarrow> insert (n + 1) {1..n} = {1..n + (1::int)}"
  by auto

lemma sequences_single [simp]:
  "sequences [e] i g = (if ev_attempt_id e = i \<and> ev_generation e = g then {ev_sequence e} else {})"
  by (auto simp: sequences_def)

lemma allowed_active:
  "t \<in> set (allowed_transitions s) \<Longrightarrow> run_state_for s = ACTIVE"
  by (cases s) (auto simp: run_state_for_def)

text \<open>The effect of \<open>apply_event\<close> on the tables.\<close>

lemma apply_event_effect:
  assumes "apply_event env actor e run a target now db = Inr (out, db')"
    and fresh: "ev_id e \<notin> ev_id ` set (ad_events db)"
  obtains r m mid where "row_by tr_id (at_id a) (ad_attempts db) = Some r"
    and "tr_revision r = at_revision a"
    and "ad_attempts mid = set_where (\<lambda>x. tr_id x = at_id a \<and> tr_revision x = at_revision a)
           (mutate_attempt m) (ad_attempts db)"
    and "ad_runs mid = ad_runs db" and "ad_events mid = ad_events db @ [stored_event e]"
    and "event_position e \<notin> event_position ` set (ad_events db)"
    and "am_state m = target" and "am_generation m = at_generation a"
    and "am_fencing_token m = at_fencing_token a" and "am_event_sequence m = ev_sequence e"
    and "0 \<le> ev_sequence e" and "target = WAITING_INPUT \<longrightarrow> am_checkpoint m \<noteq> None"
    and "target \<in> set (allowed_transitions (at_state a))"
    and "\<exists>mid'. finish_run run target now mid = Inr mid' \<and> ad_runs db' = ad_runs mid'
           \<and> ad_attempts db' = ad_attempts mid' \<and> ad_events db' = ad_events mid'"
proof -
  let ?P = "av_platform env"
  from assms(1) obtain checkpoint deadline db1 t p db2 a' e' db3 db4 db5 where
    w: "waiting_checkpoint ?P e a target db = Inr ((checkpoint, deadline), db1)"
    and t: "transition_attempt a target checkpoint now = Inr t"
    and c: "compare_and_set_attempt (at_id a) (at_revision a)
        (attempt_mutation_of t deadline (ev_sequence e) now) db1 = Inr (Some a', db2)"
    and ev: "append_event ?P e db2 = Inr (e', db3)"
    and rc: "append_event_receipt \<lparr>er_event_id = ev_id e', er_schema_version = 1,
        er_attempt = a', er_checkpoint = checkpoint\<rparr> db3 = Inr db4"
    and fin: "finish_run run target now db4 = Inr db5"
    and db': "db' = append_agent_audit env (accepted_event_audit env actor e (at_id a) target now) db5"
    unfolding apply_event_def Let_def by (auto simp: res_simps)
  have db1: "ad_runs db1 = ad_runs db" "ad_attempts db1 = ad_attempts db" "ad_events db1 = ad_events db"
    using w unfolding waiting_checkpoint_def
    by (auto simp: res_simps dest!: insert_checkpoint_effect split: if_splits)
  obtain r m where
    r: "row_by tr_id (at_id a) (ad_attempts db1) = Some r" "tr_revision r = at_revision a"
    and db2: "db2 = db1\<lparr>ad_attempts := set_where (\<lambda>x. tr_id x = at_id a \<and> tr_revision x = at_revision a)
           (mutate_attempt m) (ad_attempts db1)\<rparr>"
    and "attempt_of_row db2 (mutate_attempt m r) = Inr a'"
    and m: "\<exists>ev. m = (attempt_mutation_of t deadline (ev_sequence e) now)\<lparr>am_terminal_evidence := ev\<rparr>"
    and "1 \<le> am_generation (attempt_mutation_of t deadline (ev_sequence e) now)"
    and seq: "0 \<le> am_event_sequence (attempt_mutation_of t deadline (ev_sequence e) now)"
    and wait: "am_state (attempt_mutation_of t deadline (ev_sequence e) now) = WAITING_INPUT \<longrightarrow>
        am_checkpoint (attempt_mutation_of t deadline (ev_sequence e) now) \<noteq> None"
    by (rule compare_and_set_attempt_effect [OF c])
  from transition_attempt_Inr [OF t] have allowed: "target \<in> set (allowed_transitions (at_state a))"
    and tf: "at_state t = target" "at_generation t = at_generation a"
      "at_fencing_token t = at_fencing_token a" by auto
  have mf: "am_state m = target" "am_generation m = at_generation a"
      "am_fencing_token m = at_fencing_token a" "am_event_sequence m = ev_sequence e"
      "target = WAITING_INPUT \<longrightarrow> am_checkpoint m \<noteq> None"
    using m tf wait by auto
  have db3: "db3 = db2\<lparr>ad_events := ad_events db2 @ [stored_event e]\<rparr>"
      "event_position e \<notin> event_position ` set (ad_events db)"
    using append_event_effect [OF ev] fresh db1 db2 by auto
  note db4 = append_receipt_effect [OF rc]
  show thesis
  proof (rule that [of r db4 m])
    show "\<exists>mid'. finish_run run target now db4 = Inr mid' \<and> ad_runs db' = ad_runs mid'
           \<and> ad_attempts db' = ad_attempts mid' \<and> ad_events db' = ad_events mid'"
      using fin db' by auto
  qed (use r db1 db2 db3 db4 mf seq allowed in auto)
qed

lemma apply_event_inv:
  assumes inv: "agent_inv db" and ok: "apply_event env actor e run a target now db = Inr (out, db')"
    and fresh: "ev_id e \<notin> ev_id ` set (ad_events db)"
    and a: "row_by tr_id (at_id a) (ad_attempts db) = Some r" "attempt_of_row db r = Inr a"
    and run: "row_by rr_id (at_run_id a) (ad_runs db) = Some x" "run_of_row x = Inr run"
    and event: "ev_attempt_id e = at_id a" "ev_generation e = at_generation a"
      "ev_sequence e = at_event_sequence a + 1"
  shows "agent_inv db'"
proof -
  note af = attempt_of_row_fields [OF a(2)] and rf = run_of_row_fields [OF run(2)]
  obtain r' m mid where r': "row_by tr_id (at_id a) (ad_attempts db) = Some r'"
    and rev': "tr_revision r' = at_revision a"
    and att: "ad_attempts mid = set_where (\<lambda>x. tr_id x = at_id a \<and> tr_revision x = at_revision a)
           (mutate_attempt m) (ad_attempts db)"
    and runs: "ad_runs mid = ad_runs db" and evs: "ad_events mid = ad_events db @ [stored_event e]"
    and pos: "event_position e \<notin> event_position ` set (ad_events db)"
    and m: "am_state m = target" "am_generation m = at_generation a"
      "am_fencing_token m = at_fencing_token a" "am_event_sequence m = ev_sequence e"
      "0 \<le> ev_sequence e" "target = WAITING_INPUT \<longrightarrow> am_checkpoint m \<noteq> None"
    and allowed: "target \<in> set (allowed_transitions (at_state a))"
    and tail: "\<exists>mid'. finish_run run target now mid = Inr mid' \<and> ad_runs db' = ad_runs mid'
           \<and> ad_attempts db' = ad_attempts mid' \<and> ad_events db' = ad_events mid'"
    by (rule apply_event_effect [OF ok fresh])
  from tail obtain mid' where fin: "finish_run run target now mid = Inr mid'"
      "ad_runs db' = ad_runs mid'" "ad_attempts db' = ad_attempts mid'" "ad_events db' = ad_events mid'"
    by blast
  have r: "r \<in> set (ad_attempts db)" using row_by_Some [OF a(1)] by simp
  have x: "rr_id x = tr_run_id r" using row_by_Some [OF run(1)] af by simp
  have xf: "rr_latest_attempt_id x = tr_id r" "rr_state x = ACTIVE"
    using agent_inv_run [OF inv r] run(1) allowed_active [OF allowed] by (simp_all add: af)
  have "distinct (map rr_id (ad_runs mid))"
    using inv by (simp add: runs agent_inv_def keys_inv_def)
  then have fin': "ad_attempts mid' = ad_attempts mid \<and> ad_events mid' = ad_events mid
    \<and> map rr_id (ad_runs mid') = map rr_id (ad_runs mid)
    \<and> (\<forall>y \<in> set (ad_runs mid). rr_id y \<noteq> rn_id run \<longrightarrow> y \<in> set (ad_runs mid'))
    \<and> (\<exists>y \<in> set (ad_runs mid'). rr_id y = rn_id run \<and> rr_latest_attempt_id y = tr_id r
         \<and> rr_state y = run_state_for target)"
    using run(1) by (intro finish_run_effect [OF fin(1), where x = x]) (simp_all add: xf rf x runs af)
  note seqs = agent_inv_attempt [OF inv r]
  show ?thesis
  proof (rule agent_inv_update [OF inv a(1), where f = "mutate_attempt m" and es = "[stored_event e]"])
    show "distinct (map ev_id (ad_events db @ [stored_event e]))"
      "distinct (map event_position (ad_events db @ [stored_event e]))"
      using inv fresh pos by (auto simp: agent_inv_def keys_inv_def)
    show "sequences (ad_events db') (at_id a) (tr_generation (mutate_attempt m r))
        = {1..tr_event_sequence (mutate_attempt m r)}"
      using seqs(2,5) by (simp add: fin(4) fin' evs m event af sequences_append Suc_interval)
    show "\<forall>g. 1 \<le> g \<and> g < tr_generation (mutate_attempt m r) \<longrightarrow>
        (\<exists>n. sequences (ad_events db') (at_id a) g = {1..n})"
      using seqs(6) by (simp add: fin(4) fin' evs m event af sequences_append)
    show "ad_attempts db' = set_where (\<lambda>x. tr_id x = at_id a \<and> tr_revision x = tr_revision r)
        (mutate_attempt m) (ad_attempts db)"
      by (simp add: fin(3) fin' att af)
    show "\<forall>y \<in> set (ad_runs db). rr_id y \<noteq> tr_run_id r \<longrightarrow> y \<in> set (ad_runs db')"
      "\<exists>y \<in> set (ad_runs db'). rr_id y = tr_run_id r \<and> rr_latest_attempt_id y = at_id a
         \<and> rr_state y = run_state_for (tr_state (mutate_attempt m r))"
      using fin' by (simp_all add: fin(2) runs rf x m af)
    show "tr_fencing_token (mutate_attempt m r) = fence_for (at_id a) (tr_generation (mutate_attempt m r))"
      using seqs(3) by (simp add: m af)
    show "0 \<le> tr_event_sequence (mutate_attempt m r)" using m(5) by (simp add: m(4))
    show "tr_state (mutate_attempt m r) = WAITING_INPUT \<longrightarrow> tr_checkpoint_id (mutate_attempt m r) \<noteq> None"
      using m(1,6) by simp
  qed (simp_all add: fin(2,4) fin' runs evs event m af)
qed

lemma event_by_id_None:
  "event_by_id P i db = Inr None \<longleftrightarrow> i \<notin> ev_id ` set (ad_events db)"
proof (cases "row_by ev_id i (ad_events db)")
  case None
  then show ?thesis by (simp add: event_by_id_def) (simp add: row_by_None)
next
  case (Some e)
  with row_by_Some [OF Some] show ?thesis by (auto simp: event_by_id_def rbind_Inr_iff)
qed

lemma accept_new_event_inv:
  assumes inv: "agent_inv db" and ok: "accept_new_event env actor e run a db = Inr (out, db')"
    and fresh: "ev_id e \<notin> ev_id ` set (ad_events db)"
    and a: "row_by tr_id (at_id a) (ad_attempts db) = Some r" "attempt_of_row db r = Inr a"
    and run: "row_by rr_id (at_run_id a) (ad_runs db) = Some x" "run_of_row x = Inr run"
  shows "agent_inv db'"
proof (cases "ev_generation e = at_generation a")
  case False
  with ok have "db' = append_agent_audit env (stale_generation_audit env actor e a (av_clock env 0)) db"
    unfolding accept_new_event_def Let_def by (simp split: if_splits)
  with inv show ?thesis by simp
next
  case True
  with ok obtain target where "apply_event env actor e run a target (av_clock env 0) db = Inr (out, db')"
    and "ev_attempt_id e = at_id a" and "ev_sequence e = at_event_sequence a + 1"
    unfolding accept_new_event_def Let_def by (auto split: if_splits option.splits)
  with apply_event_inv [OF inv _ fresh a run] True show ?thesis by blast
qed

lemma replay_event_same: "replay_event P x e db = Inr (out, db') \<Longrightarrow> db' = db"
  unfolding replay_event_def by (auto simp: res_simps split: if_splits option.splits)

text \<open>What a successful acceptance read before it wrote.\<close>

lemma accept_operation_cases:
  assumes "accept_operation env actor e db = Inr (out, db')"
  obtains (replay) x where "event_by_id (av_platform env) (ev_id e) db = Inr (Some x)"
      and "replay_event (av_platform env) x e db = Inr (out, db')"
  | (fresh) a run r y where "ev_id e \<notin> ev_id ` set (ad_events db)"
      and "row_by tr_id (at_id a) (ad_attempts db) = Some r" and "attempt_of_row db r = Inr a"
      and "row_by rr_id (at_run_id a) (ad_runs db) = Some y" and "run_of_row y = Inr run"
      and "at_id a = ev_attempt_id e"
      and "accept_new_event env actor e run a db = Inr (out, db')"
proof -
  from assms obtain before where before: "event_by_id (av_platform env) (ev_id e) db = Inr before"
    unfolding accept_operation_def Let_def by (rule rbind_InrE)
  show thesis
  proof (cases before)
    case (Some x)
    with assms before have "replay_event (av_platform env) x e db = Inr (out, db')"
      unfolding accept_operation_def Let_def by (auto simp: res_simps split: if_splits)
    with before Some show thesis by (intro replay) simp_all
  next
    case None
    with assms before obtain a run where a: "attempt_by_id (ev_attempt_id e) db = Inr (Some a)"
      and run: "run_by_id (at_run_id a) db = Inr (Some run)" and same: "at_run_id a = rn_id run"
      and new: "accept_new_event env actor e run a db = Inr (out, db')"
      unfolding accept_operation_def Let_def by (auto simp: res_simps split: if_splits)
    obtain r where r: "row_by tr_id (ev_attempt_id e) (ad_attempts db) = Some r"
        "attempt_of_row db r = Inr a" "tr_id r = ev_attempt_id e"
      by (rule attempt_by_id_row [OF a])
    moreover have "at_id a = ev_attempt_id e" using attempt_of_row_fields [OF r(2)] r(3) by simp
    moreover obtain y where "row_by rr_id (at_run_id a) (ad_runs db) = Some y" "run_of_row y = Inr run"
        "rr_id y = at_run_id a"
      by (rule run_by_id_row [OF run])
    moreover have "ev_id e \<notin> ev_id ` set (ad_events db)"
      using before None by (simp add: event_by_id_None)
    ultimately show thesis using new by (intro fresh) simp_all
  qed
qed

lemma accept_operation_inv:
  assumes "agent_inv db" and "accept_operation env actor e db = Inr (out, db')"
  shows "agent_inv db'"
  using assms(2)
proof (cases rule: accept_operation_cases)
  case (replay x)
  with assms(1) replay_event_same show ?thesis by metis
next
  case (fresh a run r y)
  show ?thesis by (rule accept_new_event_inv [OF assms(1) fresh(7,1-5)])
qed

lemma accept_workflow_event_inv:
  assumes "agent_inv db"
  shows "agent_inv (snd (accept_workflow_event env e db))"
  using assms accept_operation_inv
  by (auto simp: accept_workflow_event_def transact_def split: sum.splits option.splits acceptance.splits
      prod.splits)

subsection \<open>Cancelling and resuming\<close>

text \<open>A control update keeps the events and the run; it either stays in the generation or opens the
  next one.\<close>

lemma control_update_inv:
  assumes inv: "agent_inv db"
    and cas: "compare_and_set_attempt (at_id a) (at_revision a) (attempt_mutation_of b d n now) db
        = Inr (Some a', db1)"
    and a: "row_by tr_id (at_id a) (ad_attempts db) = Some r" "attempt_of_row db r = Inr a"
    and active: "run_state_for (at_state a) = ACTIVE" "run_state_for (at_state b) = ACTIVE"
    and gen: "(at_generation b = at_generation a \<and> n = at_event_sequence a)
        \<or> (at_generation b = at_generation a + 1 \<and> n = 0)"
    and fence: "at_fencing_token b = fence_for (at_id a) (at_generation b)"
  shows "agent_inv db1"
proof -
  note af = attempt_of_row_fields [OF a(2)]
  obtain r' m where r': "row_by tr_id (at_id a) (ad_attempts db) = Some r'"
    and rev: "tr_revision r' = at_revision a"
    and db1: "db1 = db\<lparr>ad_attempts := set_where (\<lambda>x. tr_id x = at_id a \<and> tr_revision x = at_revision a)
           (mutate_attempt m) (ad_attempts db)\<rparr>"
    and "attempt_of_row db1 (mutate_attempt m r') = Inr a'"
    and m: "\<exists>ev. m = (attempt_mutation_of b d n now)\<lparr>am_terminal_evidence := ev\<rparr>"
    and "1 \<le> am_generation (attempt_mutation_of b d n now)"
    and seq: "0 \<le> am_event_sequence (attempt_mutation_of b d n now)"
    and wait: "am_state (attempt_mutation_of b d n now) = WAITING_INPUT \<longrightarrow>
        am_checkpoint (attempt_mutation_of b d n now) \<noteq> None"
    by (rule compare_and_set_attempt_effect [OF cas])
  have mf: "am_state m = at_state b" "am_generation m = at_generation b"
      "am_fencing_token m = at_fencing_token b" "am_event_sequence m = n"
      "am_checkpoint m = at_checkpoint b"
    using m by auto
  have r: "r \<in> set (ad_attempts db)" using row_by_Some [OF a(1)] by simp
  note seqs = agent_inv_attempt [OF inv r]
  from inv r obtain y where y: "y \<in> set (ad_runs db)" "rr_id y = tr_run_id r"
      "rr_latest_attempt_id y = tr_id r" "rr_state y = run_state_for (tr_state r)"
    unfolding agent_inv_def runs_inv_def by blast
  have empty: "sequences (ad_events db) (tr_id r) (tr_generation r + 1) = {}"
    using inv r same_key [of tr_id "ad_attempts db" _ r]
    by (fastforce simp: sequences_def agent_inv_def events_inv_def keys_inv_def)
  have older: "\<exists>k. sequences (ad_events db) (tr_id r) g = {1..k}" if "1 \<le> g" "g < tr_generation r + 1" for g
    using seqs(5,6) that by (cases "g = tr_generation r") auto
  show ?thesis
  proof (rule agent_inv_update [OF inv a(1), where f = "mutate_attempt m" and es = "[]"])
    show "sequences (ad_events db1) (at_id a) (tr_generation (mutate_attempt m r))
        = {1..tr_event_sequence (mutate_attempt m r)}"
      using gen empty seqs(5) by (auto simp: db1 mf af)
    show "\<forall>g. 1 \<le> g \<and> g < tr_generation (mutate_attempt m r) \<longrightarrow>
        (\<exists>n. sequences (ad_events db1) (at_id a) g = {1..n})"
      using gen older seqs(6) by (auto simp: db1 mf af)
    show "\<exists>y \<in> set (ad_runs db1). rr_id y = tr_run_id r \<and> rr_latest_attempt_id y = at_id a
         \<and> rr_state y = run_state_for (tr_state (mutate_attempt m r))"
      using y active by (auto simp: db1 mf af intro!: bexI [of _ y])
    show "tr_fencing_token (mutate_attempt m r) = fence_for (at_id a) (tr_generation (mutate_attempt m r))"
      using fence by (simp add: mf)
    show "distinct (map ev_id (ad_events db @ []))" "distinct (map event_position (ad_events db @ []))"
      using inv by (simp_all add: agent_inv_def keys_inv_def)
    show "tr_generation r \<le> tr_generation (mutate_attempt m r)"
      using gen by (auto simp: mf af)
    show "0 \<le> tr_event_sequence (mutate_attempt m r)" using seq by (simp add: mf)
    show "tr_state (mutate_attempt m r) = WAITING_INPUT \<longrightarrow> tr_checkpoint_id (mutate_attempt m r) \<noteq> None"
      using wait by (simp add: mf)
  qed (simp_all add: db1 af)
qed

lemma locked_attempt_rows:
  assumes "locked_attempt command db = Inr (run, a)"
  obtains r where "row_by tr_id (at_id a) (ad_attempts db) = Some r" and "attempt_of_row db r = Inr a"
proof -
  from assms have "attempt_by_id (cc_attempt_id command) db = Inr (Some a)"
    unfolding locked_attempt_def by (auto simp: res_simps split: if_splits)
  then obtain r where r: "row_by tr_id (cc_attempt_id command) (ad_attempts db) = Some r"
      "attempt_of_row db r = Inr a" "tr_id r = cc_attempt_id command"
    by (rule attempt_by_id_row)
  with attempt_of_row_fields [OF r(2)] that show thesis by simp
qed

lemma cancel_mutate_inv:
  assumes inv: "agent_inv db" and ok: "cancel_mutate env command actor a db = Inr (out, db')"
    and a: "row_by tr_id (at_id a) (ad_attempts db) = Some r" "attempt_of_row db r = Inr a"
  shows "agent_inv db'"
proof (cases "terminal_attempt (at_state a) \<or> at_state a = CANCELING")
  case True
  with ok have "db' = append_agent_audit env
      (control_audit env 1 ''agent.attempt.cancel'' a command actor (av_clock env 0)) db"
    unfolding cancel_mutate_def Let_def by (simp split: if_splits)
  with inv show ?thesis by simp
next
  case False
  let ?now = "av_clock env 0"
  from ok False obtain b a' db1 planned wf db2 where
    b: "transition_attempt a CANCELING None ?now = Inr b"
    and cas: "compare_and_set_attempt (at_id a) (at_revision a)
        (attempt_mutation_of b (at_waiting_deadline b) (at_event_sequence b) ?now) db = Inr (Some a', db1)"
    and wf: "insert_workflow_command planned db1 = Inr (wf, db2)"
    and db': "db' = append_agent_audit env
        (control_audit env 2 ''agent.attempt.cancel'' a' command actor ?now) db2"
    unfolding cancel_mutate_def Let_def by (auto simp: res_simps split: if_splits)
  from transition_attempt_Inr [OF b] have bf: "at_state b = CANCELING" "at_generation b = at_generation a"
    "at_event_sequence b = at_event_sequence a" "at_fencing_token b = at_fencing_token a"
    and allowed: "CANCELING \<in> set (allowed_transitions (at_state a))" by auto
  have r: "r \<in> set (ad_attempts db)" using row_by_Some [OF a(1)] by simp
  have "agent_inv db1"
  proof (rule control_update_inv [OF inv cas a])
    show "run_state_for (at_state a) = ACTIVE" by (rule allowed_active [OF allowed])
    show "at_fencing_token b = fence_for (at_id a) (at_generation b)"
      using agent_inv_attempt(3) [OF inv r] by (simp add: bf attempt_of_row_fields [OF a(2)])
  qed (simp_all add: bf run_state_for_def)
  moreover have "agent_inv db2 = agent_inv db1"
    using insert_command_effect [OF wf] by (intro agent_inv_core) simp_all
  ultimately show ?thesis by (simp add: db')
qed

lemma resume_mutate_cases:
  assumes "resume_mutate env command actor run a db = Inr (out, db')"
  obtains b a' db1 planned wf db2 where
    "resume_generation a (next_fence a) (av_clock env 2) = Inr b"
    and "compare_and_set_attempt (at_id a) (at_revision a)
        (attempt_mutation_of b None 0 (av_clock env 2)) db = Inr (Some a', db1)"
    and "insert_workflow_command planned db1 = Inr (wf, db2)"
    and "db' = append_agent_audit env
        (control_audit env 2 ''agent.attempt.resume'' a' command actor (av_clock env 2)) db2"
    and "out = \<lparr>cr_attempt = a', cr_command = Some wf\<rparr>"
    and "at_revision a = cc_expected_revision command"
    and "waiting_open a (av_clock env 1)" and "waiting_open a (av_clock env 2)"
    and "verify_binding env a db = Inr ()" and "protect_resume_source env run = Inr ()"
  using assms unfolding resume_mutate_def Let_def
  by (auto simp: res_simps split: if_splits)

lemma resume_mutate_inv:
  assumes inv: "agent_inv db" and ok: "resume_mutate env command actor run a db = Inr (out, db')"
    and a: "row_by tr_id (at_id a) (ad_attempts db) = Some r" "attempt_of_row db r = Inr a"
  shows "agent_inv db'"
proof -
  let ?now = "av_clock env 2"
  from ok obtain b a' db1 planned wf db2 where
    b: "resume_generation a (next_fence a) ?now = Inr b"
    and cas: "compare_and_set_attempt (at_id a) (at_revision a) (attempt_mutation_of b None 0 ?now) db
        = Inr (Some a', db1)"
    and wf: "insert_workflow_command planned db1 = Inr (wf, db2)"
    and db': "db' = append_agent_audit env
        (control_audit env 2 ''agent.attempt.resume'' a' command actor ?now) db2"
    by (cases rule: resume_mutate_cases) blast
  from resume_generation_Inr [OF b] have bf: "at_state b = QUEUED" "at_generation b = at_generation a + 1"
    "at_fencing_token b = next_fence a" and state: "at_state a = WAITING_INPUT" by auto
  have "agent_inv db1"
    by (rule control_update_inv [OF inv cas a])
      (simp_all add: bf state run_state_for_def next_fence_def fence_for_def)
  moreover have "agent_inv db2 = agent_inv db1"
    using insert_command_effect [OF wf] by (intro agent_inv_core) simp_all
  ultimately show ?thesis by (simp add: db')
qed

subsection \<open>The idempotent execution\<close>

lemma bridge_claim_frame:
  "bridge_claim i a p k fp now s = Inr (c, s') \<Longrightarrow> \<exists>rows. s' = s\<lparr>ad_idempotency := rows\<rparr>"
  unfolding bridge_claim_def reserve_idempotency_def
  by (auto simp: res_simps split: option.splits if_splits)
    (metis agent_db.surjective agent_db.update_convs(9))+

lemma bridge_complete_frame:
  "bridge_complete i st md sealed now s = Inr (c, s') \<Longrightarrow> \<exists>rows. s' = s\<lparr>ad_idempotency := rows\<rparr>"
  unfolding bridge_complete_def agent_complete_idempotency_def Let_def
  by (auto simp: res_simps split: option.splits if_splits)
    (metis agent_db.surjective agent_db.update_convs(9))+

lemma execute_agent_command_Inr:
  assumes "execute_agent_command env i c1 c2 actor operation key path body dump parse command db
    = Inr (r, db')"
  obtains S q x where "av_sealer env = Some S"
    and "q = \<lparr>iq_actor = actor, iq_operation = operation, iq_key = key,
        iq_fingerprint = request_fingerprint S operation ''POST'' path body,
        iq_record_id = av_new_id env i, iq_claim_now = av_clock env c1,
        iq_complete_now = av_clock env c2\<rparr>"
    and "execute_idempotent shared_repository S q None
      (\<lambda>s. rbind (command s) (\<lambda>(result, s'). Inr (\<lparr>ip_status = 202, ip_body = dump result,
         ip_headers = [], ip_cookie = None, ip_is_problem = False\<rparr>, s'))) db = Inr (x, db')"
    and "parse (ip_body (ix_response x)) = Some r"
  using assms unfolding execute_agent_command_def Let_def
  by (auto split: option.splits sum.splits prod.splits idem_error.splits if_splits)

lemma execute_agent_command_preserves:
  assumes "execute_agent_command env i c1 c2 actor operation key path body dump parse command db
      = Inr (r, db')"
    and "P db" and frame: "\<And>t rows. P (t\<lparr>ad_idempotency := rows\<rparr>) = P t"
      "\<And>t rows. Q (t\<lparr>ad_idempotency := rows\<rparr>) = Q t"
    and cmd: "\<And>t out t'. command t = Inr (out, t') \<Longrightarrow> P t \<Longrightarrow> Q t'"
    and sub: "\<And>t. P t \<Longrightarrow> Q t"
  shows "Q db'"
proof -
  obtain S q x where ex: "execute_idempotent shared_repository S q None
      (\<lambda>s. rbind (command s) (\<lambda>(result, s'). Inr (\<lparr>ip_status = 202, ip_body = dump result,
         ip_headers = [], ip_cookie = None, ip_is_problem = False\<rparr>, s'))) db = Inr (x, db')"
    using assms(1) by (rule execute_agent_command_Inr)
  show ?thesis
  proof (rule execute_preserves [OF ex, where P = P and Q = Q])
    fix i a p k fp now t c t'
    assume "claim_idempotency shared_repository i a p k fp now t = Inr (c, t')" and "P t"
    then show "P t'"
      using bridge_claim_frame [of i a p k fp now t c t'] frame(1) by (auto simp: shared_repository_def)
  next
    fix i st md sealed now t c t'
    assume "complete_idempotency shared_repository i st md sealed now t = Inr (c, t')" and "Q t"
    then show "Q t'"
      using bridge_complete_frame [of i st md sealed now t c t'] frame(2)
      by (auto simp: shared_repository_def)
  next
    fix t resp t'
    assume "rbind (command t) (\<lambda>(result, s'). Inr (\<lparr>ip_status = 202, ip_body = dump result,
         ip_headers = [], ip_cookie = None, ip_is_problem = False\<rparr>, s')) = Inr (resp, t')" and "P t"
    then show "Q t'" using cmd by (auto simp: res_simps)
  qed (use assms(2) sub in auto)
qed

lemma agent_inv_idempotency [simp]: "agent_inv (db\<lparr>ad_idempotency := rows\<rparr>) = agent_inv db"
  by (rule agent_inv_core) simp_all

lemma attempt_of_row_frame [simp]:
  "attempt_of_row (db\<lparr>ad_idempotency := rows\<rparr>) r = attempt_of_row db r"
  by (cases "tr_checkpoint_id r") (simp_all add: attempt_of_row_def checkpoint_by_id_def)

lemma cancel_attempt_inv:
  assumes "agent_inv db" and "cancel_attempt env K command db = Inr (out, db')"
  shows "agent_inv db'"
proof -
  from assms(2) obtain actor run a where lock: "locked_attempt command db = Inr (run, a)"
    and ex: "execute_agent_command env 0 1 2 (control_scope run actor) ''agent.attempt.cancel''
         (cc_idempotency_key command) (control_path run a ''cancel'') (control_body command)
         (dump_result K) (parse_result K) (cancel_mutate env command actor a) db = Inr (out, db')"
    unfolding cancel_attempt_def by (auto simp: res_simps)
  obtain r where r: "row_by tr_id (at_id a) (ad_attempts db) = Some r" "attempt_of_row db r = Inr a"
    by (rule locked_attempt_rows [OF lock])
  show ?thesis
    by (rule execute_agent_command_preserves [OF ex, where
          P = "\<lambda>t. agent_inv t \<and> row_by tr_id (at_id a) (ad_attempts t) = Some r
                 \<and> attempt_of_row t r = Inr a" and Q = agent_inv])
      (use assms(1) r cancel_mutate_inv in auto)
qed

lemma resume_attempt_inv:
  assumes "agent_inv db" and "resume_attempt env K command db = Inr (out, db')"
  shows "agent_inv db'"
proof -
  from assms(2) obtain actor run a where lock: "locked_attempt command db = Inr (run, a)"
    and ex: "execute_agent_command env 0 0 3 (control_scope run actor) ''agent.attempt.resume''
         (cc_idempotency_key command) (control_path run a ''resume'') (control_body command)
         (dump_result K) (parse_result K) (resume_mutate env command actor run a) db = Inr (out, db')"
    unfolding resume_attempt_def by (auto simp: res_simps)
  obtain r where r: "row_by tr_id (at_id a) (ad_attempts db) = Some r" "attempt_of_row db r = Inr a"
    by (rule locked_attempt_rows [OF lock])
  show ?thesis
    by (rule execute_agent_command_preserves [OF ex, where
          P = "\<lambda>t. agent_inv t \<and> row_by tr_id (at_id a) (ad_attempts t) = Some r
                 \<and> attempt_of_row t r = Inr a" and Q = agent_inv])
      (use assms(1) r resume_mutate_inv in auto)
qed

subsection \<open>Starting a run\<close>

text \<open>The id source returns canonical UUID texts and never one the tables hold already.\<close>

definition new_ids_ok :: "agent_env \<Rightarrow> bool" where
  "new_ids_ok env \<longleftrightarrow> (\<forall>n. uuid_str (av_platform env) (av_new_id env n) = Some (av_new_id env n))"

definition fresh_event_id :: "agent_env \<Rightarrow> agent_db \<Rightarrow> bool" where
  "fresh_event_id env db \<longleftrightarrow> av_new_id env 4 \<notin> ev_id ` set (ad_events db)"

lemma insert_run_effect:
  assumes "insert_run run db = Inr (run', db')"
  obtains c where "rn_context run = Some c"
    and "db' = db\<lparr>ad_runs := ad_runs db @ [row_of_run run c]\<rparr>"
    and "rn_id run \<notin> rr_id ` set (ad_runs db)"
  using assms unfolding insert_run_def
  by (auto simp: res_simps row_of_run_def split: option.splits)

lemma insert_attempt_effect:
  assumes "insert_attempt a db = Inr (a', db')"
  shows "db' = db\<lparr>ad_attempts := ad_attempts db @ [row_of_attempt a]\<rparr>
    \<and> at_id a \<notin> tr_id ` set (ad_attempts db)"
  using assms unfolding insert_attempt_def Let_def
  by (auto simp: res_simps row_of_attempt_def)

lemma insert_binding_effect:
  "insert_binding P i b db = Inr (b', db') \<Longrightarrow>
     ad_runs db' = ad_runs db \<and> ad_attempts db' = ad_attempts db \<and> ad_events db' = ad_events db"
  unfolding insert_binding_def Let_def by (auto simp: res_simps)

lemma row_of_attempt_simps [simp]:
  "tr_id (row_of_attempt a) = at_id a" "tr_run_id (row_of_attempt a) = at_run_id a"
  "tr_state (row_of_attempt a) = at_state a" "tr_generation (row_of_attempt a) = at_generation a"
  "tr_fencing_token (row_of_attempt a) = at_fencing_token a"
  "tr_event_sequence (row_of_attempt a) = at_event_sequence a"
  by (simp_all add: row_of_attempt_def)

lemma row_of_run_simps [simp]:
  "rr_id (row_of_run r c) = rn_id r" "rr_latest_attempt_id (row_of_run r c) = rn_latest_attempt_id r"
  "rr_state (row_of_run r c) = rn_state r"
  by (simp_all add: row_of_run_def)

lemma agent_inv_insert:
  assumes inv: "agent_inv db"
    and runs: "ad_runs db' = ad_runs db @ [x]" "rr_id x \<notin> rr_id ` set (ad_runs db)"
    and attempts: "ad_attempts db' = ad_attempts db @ [r]" "tr_id r \<notin> tr_id ` set (ad_attempts db)"
    and events: "ad_events db' = ad_events db @ [e]" "ev_id e \<notin> ev_id ` set (ad_events db)"
      "event_position e \<notin> event_position ` set (ad_events db)"
    and link: "rr_id x = tr_run_id r" "rr_latest_attempt_id x = tr_id r" "rr_state x = ACTIVE"
      "ev_attempt_id e = tr_id r" "ev_generation e = 1" "ev_sequence e = 1"
    and r: "tr_generation r = 1" "tr_event_sequence r = 1" "tr_state r = QUEUED"
      "tr_fencing_token r = fence_for (tr_id r) 1"
  shows "agent_inv db'"
proof -
  have none: "\<forall>e \<in> set (ad_events db). ev_attempt_id e \<noteq> tr_id r"
    using inv attempts(2) unfolding agent_inv_def events_inv_def by (metis image_eqI)
  have keys: "keys_inv db'"
    using inv runs attempts events by (auto simp: agent_inv_def keys_inv_def)
  have runs': "runs_inv db'"
    using inv runs attempts link r by (auto simp: agent_inv_def runs_inv_def run_state_for_def)
  have events': "events_inv db'"
    using inv attempts events link r by (auto simp: agent_inv_def events_inv_def)
  have old: "sequences (ad_events db') (tr_id a) g = sequences (ad_events db) (tr_id a) g"
    if "a \<in> set (ad_attempts db)" for a g
    using that attempts(2) link(4) by (auto simp: events(1) sequences_append image_iff)
  have "\<forall>a \<in> set (ad_attempts db). tr_id a \<noteq> tr_id r" using attempts(2) by (metis image_eqI)
  then have "sequence_inv db'"
    using old inv r link sequences_other [OF none]
    by (auto simp: agent_inv_def sequence_inv_def attempts(1))
      (simp_all add: events(1) sequences_append)
  moreover have "fences_inv db'"
    using inv r by (auto simp: agent_inv_def fences_inv_def attempts)
  ultimately show ?thesis using keys runs' events' by (simp add: agent_inv_def)
qed

lemma queued_attempt_fields:
  assumes "queued_attempt i j b now = Inr a"
  shows "at_id a = i" "at_run_id a = j" "at_generation a = 1" "at_event_sequence a = 1"
    "at_state a = QUEUED" "at_fencing_token a = ''fence:'' @ i @ '':generation:1''"
    "at_checkpoint a = None"
proof -
  from assms obtain a0 a1 a2 where "make_attempt (initial_attempt i j b now) = Inr a0"
    and "transition_attempt a0 BINDING None now = Inr a1"
    and "transition_attempt a1 QUEUED None now = Inr a2"
    and "make_attempt (a2\<lparr>at_event_sequence := 1\<rparr>) = Inr a"
    unfolding queued_attempt_def by (auto simp: res_simps)
  from this(1) [THEN make_attempt_Inr] this(2,3) [THEN transition_attempt_Inr]
    this(4) [THEN make_attempt_Inr]
  show "at_id a = i" "at_run_id a = j" "at_generation a = 1" "at_event_sequence a = 1"
    "at_state a = QUEUED" "at_fencing_token a = ''fence:'' @ i @ '':generation:1''"
    "at_checkpoint a = None"
    by (elim exE conjE; simp add: initial_attempt_def)+
qed

lemma make_event_fields:
  assumes "make_event P e = Inr e'"
  shows "uuid_str P (ev_id e) = Some (ev_id e')" "uuid_str P (ev_attempt_id e) = Some (ev_attempt_id e')"
    "ev_generation e' = ev_generation e" "ev_sequence e' = ev_sequence e" "ev_type e' = ev_type e"
proof -
  obtain i att where "uuid_str P (ev_id e) = Some i" and "uuid_str P (ev_attempt_id e) = Some att"
    and "(case freeze_items (ev_data e) of Inl err \<Rightarrow> Inl (FrozenJson err)
      | Inr d \<Rightarrow> Inr (e\<lparr>ev_id := i, ev_attempt_id := att, ev_data := d\<rparr>)) = Inr e'"
    using assms unfolding make_event_def by (elim rbind_InrE) (simp add: of_option_Inr_iff)
  then show "uuid_str P (ev_id e) = Some (ev_id e')"
    "uuid_str P (ev_attempt_id e) = Some (ev_attempt_id e')"
    "ev_generation e' = ev_generation e" "ev_sequence e' = ev_sequence e" "ev_type e' = ev_type e"
    by (auto split: sum.splits)
qed

lemma start_operation_inv:
  assumes inv: "agent_inv db" and ids: "new_ids_ok env" "fresh_event_id env db"
    and ok: "start_operation env command actor db = Inr (out, db')"
  shows "agent_inv db'"
proof -
  let ?P = "av_platform env" and ?now = "av_clock env 0"
  let ?run = "av_new_id env 2" and ?att = "av_new_id env 3"
  from ok obtain ctx w business d binding a run event workflow res1 db9 where
    a: "queued_attempt ?att ?run binding ?now = Inr a"
    and run: "make_run (started_run command actor d ctx w business ?run ?att ?now) = Inr run"
    and event: "make_event ?P (queued_event env command ?run ?att binding) = Inr event"
    and persist: "persist_start env run a binding event workflow db = Inr (res1, db9)"
    and db': "agent_inv db' = agent_inv db9"
    unfolding start_operation_def Let_def by (auto simp: res_simps)
  from persist obtain run' db1 a' db2 b' db3 e' db4 db5 wf where
    s1: "insert_run run db = Inr (run', db1)" and s2: "insert_attempt a db1 = Inr (a', db2)"
    and s3: "insert_binding ?P (at_id a) binding db2 = Inr (b', db3)"
    and s4: "append_event ?P event db3 = Inr (e', db4)"
    and s5: "append_event_receipt \<lparr>er_event_id = ev_id e', er_schema_version = 1,
               er_attempt = a', er_checkpoint = None\<rparr> db4 = Inr db5"
    and s6: "insert_workflow_command workflow db5 = Inr (wf, db9)"
    unfolding persist_start_def Let_def by (auto simp: res_simps)
  have runf: "run = started_run command actor d ctx w business ?run ?att ?now"
    using run unfolding make_run_def by (simp add: res_simps)
  note qf = queued_attempt_fields [OF a] and ef = make_event_fields [OF event]
  have evf: "ev_id event = av_new_id env 4" "ev_attempt_id event = ?att" "ev_generation event = 1"
      "ev_sequence event = 1"
    using ef ids(1) by (simp_all add: new_ids_ok_def queued_event_def)
  obtain c where db1: "db1 = db\<lparr>ad_runs := ad_runs db @ [row_of_run run c]\<rparr>"
      "rn_id run \<notin> rr_id ` set (ad_runs db)"
    using s1 by (rule insert_run_effect)
  note db2 = insert_attempt_effect [OF s2] and db3 = insert_binding_effect [OF s3]
    and db5 = append_receipt_effect [OF s5] and db9 = insert_command_effect [OF s6]
  have "ev_id event \<notin> ev_id ` set (ad_events db3)"
    using ids(2) db1 db2 db3 by (simp add: evf fresh_event_id_def)
  note db4 = append_event_effect [OF s4 this]
  have "agent_inv db9"
  proof (rule agent_inv_insert [OF inv])
    show "ad_runs db9 = ad_runs db @ [row_of_run run c]"
      "ad_attempts db9 = ad_attempts db @ [row_of_attempt a]"
      "ad_events db9 = ad_events db @ [stored_event event]"
      using db1 db2 db3 db4 db5 db9 by simp_all
    show "event_position (stored_event event) \<notin> event_position ` set (ad_events db)"
      using db1 db2 db3 db4 by simp
    show "tr_fencing_token (row_of_attempt a) = fence_for (tr_id (row_of_attempt a)) 1"
      by (simp add: qf fence_for_def str_of_int_def) code_simp
  qed (use db1 db2 db3 ids(2) in
      \<open>simp_all add: qf evf runf started_run_def fresh_event_id_def\<close>)
  with db' show ?thesis by simp
qed

lemma start_run_inv:
  assumes "agent_inv db" and "new_ids_ok env" and "fresh_event_id env db"
    and "start_run env K command db = Inr (out, db')"
  shows "agent_inv db'"
proof -
  from assms(4) obtain actor where
    ex: "execute_agent_command env 0 1 2
         (''workspace:'' @ sc_workspace_id command @ '':actor:'' @ ac_reference actor)
         ''agent.run.start'' (sc_idempotency_key command) ''/api/v1/agent-runs''
         (start_body command) (dump_result K) (parse_result K)
         (start_operation env command actor) db = Inr (out, db')"
    unfolding start_run_def by (auto simp: res_simps)
  show ?thesis
    by (rule execute_agent_command_preserves [OF ex, where
          P = "\<lambda>t. agent_inv t \<and> fresh_event_id env t" and Q = agent_inv])
      (use assms(1-3) start_operation_inv in \<open>auto simp: fresh_event_id_def\<close>)
qed

end
