(* ===== verification/Agent_Workflow.thy ===== *)
theory Agent_Workflow
  imports Agent_Queue
begin

section \<open>The agent module: dispatching and reconciling workflow commands\<close>

text \<open>
  \<^verbatim>\<open>agent/application/workflow.py\<close> and the local orchestrator \<^verbatim>\<open>agent/adapters/dev_temporal.py\<close>.
  Commands are parked, claimed and recorded in separate transactions; between claim and record
  the orchestrator is called outside any transaction. The orchestrator is a parameter with a state
  of its own; a call may raise the pre-call failure, raise anything else, or reply.
\<close>

datatype workflow_outcome = ACCEPTED | REJECTED | ACKNOWLEDGEMENT_UNKNOWN
datatype lookup_outcome = NEVER_OBSERVED | CONFIRMED | LOOKUP_REJECTED | STILL_UNKNOWN

record workflow_receipt =
  wt_command_key :: string
  wt_outcome :: workflow_outcome

record dispatch_outcome =
  do_outcome :: workflow_outcome
  do_receipt :: "workflow_receipt option"
  do_error :: "string option"

record lookup_result =
  lo_outcome :: lookup_outcome
  lo_receipt :: "workflow_receipt option"
  lo_error :: "string option"

definition make_receipt :: "string \<Rightarrow> workflow_outcome \<Rightarrow> workflow_receipt option" where
  "make_receipt key outcome = (if key = [] \<or> outcome \<noteq> ACCEPTED then None
     else Some \<lparr>wt_command_key = key, wt_outcome = outcome\<rparr>)"

definition make_dispatch_outcome ::
  "workflow_outcome \<Rightarrow> workflow_receipt option \<Rightarrow> string option \<Rightarrow> dispatch_outcome option" where
  "make_dispatch_outcome outcome receipt err =
     (if (outcome = ACCEPTED) \<noteq> (receipt \<noteq> None) then None
      else Some \<lparr>do_outcome = outcome, do_receipt = receipt, do_error = err\<rparr>)"

definition make_lookup_result ::
  "lookup_outcome \<Rightarrow> workflow_receipt option \<Rightarrow> string option \<Rightarrow> lookup_result option" where
  "make_lookup_result outcome receipt err =
     (if (outcome = CONFIRMED) \<noteq> (receipt \<noteq> None) then None
      else Some \<lparr>lo_outcome = outcome, lo_receipt = receipt, lo_error = err\<rparr>)"

record command_request =
  rqs_key :: string
  rqs_kind :: command_kind
  rqs_attempt_id :: string
  rqs_generation :: int

datatype dispatch_reply = PreCallFailure | DispatchRaised | Replied dispatch_outcome

record 'o orchestrator =
  orch_start :: "command_request \<Rightarrow> 'o \<Rightarrow> dispatch_reply \<times> 'o"
  orch_cancel :: "command_request \<Rightarrow> 'o \<Rightarrow> dispatch_reply \<times> 'o"
  orch_resume :: "command_request \<Rightarrow> 'o \<Rightarrow> dispatch_reply \<times> 'o"
  orch_lookup :: "string \<Rightarrow> 'o \<Rightarrow> lookup_result option \<times> 'o"

definition max_claims :: int where
  "max_claims = 3"

definition claim_lease :: duration where
  "claim_lease = 30 * 1000000"

definition workflow_request :: "workflow_command \<Rightarrow> command_request" where
  "workflow_request c = \<lparr>rqs_key = wc_key c, rqs_kind = wc_kind c, rqs_attempt_id = wc_attempt_id c,
     rqs_generation = wc_generation c\<rparr>"

definition receipt_json :: "workflow_command \<Rightarrow> workflow_receipt option \<Rightarrow> pyval option" where
  "receipt_json c receipt = (case receipt of
     None \<Rightarrow> None
   | Some r \<Rightarrow>
       if wt_command_key r \<noteq> wc_key c \<or> wt_outcome r \<noteq> ACCEPTED then None
       else Some (PyDict [(''commandKey'', PyStr (wt_command_key r)), (''outcome'', PyStr ''ACCEPTED'')]))"

definition uncertain :: "workflow_command \<Rightarrow> command_state \<times> string" where
  "uncertain c =
     (if wc_attempts c \<ge> max_claims then (UNKNOWN, ''WORKFLOW_CLAIM_ATTEMPTS_EXHAUSTED'')
      else (UNKNOWN, ''WORKFLOW_ACKNOWLEDGEMENT_UNKNOWN''))"

text \<open>What a reply means for the command: the state, receipt and error to record, and the counter
  of the result the command is counted under.\<close>

datatype counter = Dispatched | Failed | Unknown | PreCall | Confirmed | Rejected | StillUnknown | NeverObserved

type_synonym decision = "(command_state \<times> pyval option \<times> string option) \<times> counter"

definition uncertain_decision :: "workflow_command \<Rightarrow> counter \<Rightarrow> decision" where
  "uncertain_decision c k = (let (s, err) = uncertain c in ((s, None, Some err), k))"

definition dispatch_decision :: "workflow_command \<Rightarrow> dispatch_reply \<Rightarrow> decision" where
  "dispatch_decision c reply = (case reply of
     PreCallFailure \<Rightarrow>
       (if wc_attempts c \<ge> max_claims
        then ((UNKNOWN, None, Some ''WORKFLOW_CLAIM_ATTEMPTS_EXHAUSTED''), PreCall)
        else ((PLANNED, None, Some ''WORKFLOW_PRE_CALL_FAILURE''), PreCall))
   | DispatchRaised \<Rightarrow> uncertain_decision c Unknown
   | Replied outcome \<Rightarrow>
       (case do_outcome outcome of
          ACCEPTED \<Rightarrow> (case receipt_json c (do_receipt outcome) of
             Some receipt \<Rightarrow> ((DISPATCHED, Some receipt, None), Dispatched)
           | None \<Rightarrow> uncertain_decision c Unknown)
        | REJECTED \<Rightarrow> ((COMMAND_FAILED, None, Some ''DEV_DETERMINISTIC_REJECTION''), Failed)
        | ACKNOWLEDGEMENT_UNKNOWN \<Rightarrow> uncertain_decision c Unknown))"

definition reconcile_decision :: "workflow_command \<Rightarrow> lookup_result option \<Rightarrow> decision" where
  "reconcile_decision c reply =
     (let outcome = (case reply of None \<Rightarrow> \<lparr>lo_outcome = STILL_UNKNOWN, lo_receipt = None, lo_error = None\<rparr>
                     | Some x \<Rightarrow> x)
      in (case lo_outcome outcome of
            CONFIRMED \<Rightarrow> (case receipt_json c (lo_receipt outcome) of
               Some receipt \<Rightarrow> ((DISPATCHED, Some receipt, None), Confirmed)
             | None \<Rightarrow> uncertain_decision c StillUnknown)
          | LOOKUP_REJECTED \<Rightarrow>
              ((COMMAND_FAILED, None, Some ''WORKFLOW_RECONCILIATION_REJECTED''), Rejected)
          | NEVER_OBSERVED \<Rightarrow>
              if wc_state c = PLANNED \<and> wc_attempts c < max_claims
              then ((PLANNED, None, None), NeverObserved)
              else uncertain_decision c NeverObserved
          | STILL_UNKNOWN \<Rightarrow> uncertain_decision c StillUnknown))"

subsection \<open>The transactions\<close>

definition park :: "instant \<Rightarrow> agent_db \<Rightarrow> (agent_error, agent_db) res" where
  "park now db = park_expired_workflow_claims now db"

definition claim_owner_name :: "claim_mode \<Rightarrow> string" where
  "claim_owner_name mode = ''agent-workflow-'' @
     casefold (case mode of DISPATCH \<Rightarrow> ''DISPATCH'' | RECONCILE \<Rightarrow> ''RECONCILE'')"

definition claim ::
  "instant \<Rightarrow> string \<Rightarrow> claim_mode \<Rightarrow> nat \<Rightarrow> agent_db
   \<Rightarrow> (agent_error, workflow_command list \<times> agent_db) res" where
  "claim now token mode limit db =
     (if token = [] then Inl (InvalidModel ''WorkflowClaim'')
      else claim_workflow_commands \<lparr>cq_limit = limit, cq_now = now, cq_owner = claim_owner_name mode,
        cq_token = token, cq_until = now + claim_lease, cq_mode = mode\<rparr> db)"

definition persist ::
  "instant \<Rightarrow> workflow_command \<Rightarrow> command_state \<times> pyval option \<times> string option \<Rightarrow> agent_db
   \<Rightarrow> (agent_error, workflow_command option \<times> agent_db) res" where
  "persist now c what db =
     (case wc_claim_token c of
        None \<Rightarrow> Inl (PortFailure ''claimed workflow command is missing claim token'')
      | Some token \<Rightarrow>
          record_workflow_command_dispatch (wc_id c) (wc_state c) token
            \<lparr>dm_state = fst what, dm_receipt = fst (snd what), dm_error = snd (snd what), dm_now = now\<rparr> db)"

definition call_orchestrator ::
  "'o orchestrator \<Rightarrow> workflow_command \<Rightarrow> 'o \<Rightarrow> dispatch_reply \<times> 'o" where
  "call_orchestrator port c =
     (case wc_kind c of START \<Rightarrow> orch_start port (workflow_request c)
      | CANCEL \<Rightarrow> orch_cancel port (workflow_request c)
      | RESUME \<Rightarrow> orch_resume port (workflow_request c))"

text \<open>The loop over the claimed commands: each record commits before the next call, so an error
  leaves what was recorded. The counters are the commands recorded, with their counter.\<close>

fun settle ::
  "(workflow_command \<Rightarrow> 'o \<Rightarrow> decision \<times> 'o) \<Rightarrow> (nat \<Rightarrow> instant) \<Rightarrow> nat \<Rightarrow> workflow_command list
   \<Rightarrow> agent_db \<times> 'o \<Rightarrow> (agent_error, counter list) res \<times> (agent_db \<times> 'o)" where
  "settle ask clock n [] s = (Inr [], s)"
| "settle ask clock n (c # cs) (db, orc) =
     (let (decision, orc') = ask c orc in
      case persist (clock n) c (fst decision) db of
        Inl e \<Rightarrow> (Inl e, (db, orc'))
      | Inr (recorded, db') \<Rightarrow>
          (case settle ask clock (Suc n) cs (db', orc') of
             (Inl e, s') \<Rightarrow> (Inl e, s')
           | (Inr counters, s') \<Rightarrow>
               (Inr ((if recorded \<noteq> None then [snd decision] else []) @ counters), s')))"

definition dispatch_ask :: "'o orchestrator \<Rightarrow> workflow_command \<Rightarrow> 'o \<Rightarrow> decision \<times> 'o" where
  "dispatch_ask port c orc = (case call_orchestrator port c orc of
     (reply, orc') \<Rightarrow> (dispatch_decision c reply, orc'))"

definition reconcile_ask :: "'o orchestrator \<Rightarrow> workflow_command \<Rightarrow> 'o \<Rightarrow> decision \<times> 'o" where
  "reconcile_ask port c orc = (case orch_lookup port (wc_key c) orc of
     (reply, orc') \<Rightarrow> (reconcile_decision c reply, orc'))"

record workflow_result =
  wr_claimed :: nat
  wr_counters :: "counter list"

definition work ::
  "(workflow_command \<Rightarrow> 'o \<Rightarrow> decision \<times> 'o) \<Rightarrow> claim_mode \<Rightarrow> agent_env \<Rightarrow> nat \<Rightarrow> agent_db \<times> 'o
   \<Rightarrow> (agent_error, workflow_result) res \<times> (agent_db \<times> 'o)" where
  "work ask mode env limit s = (case s of (db, orc) \<Rightarrow>
     (case park (av_clock env 0) db of
        Inl e \<Rightarrow> (Inl e, s)
      | Inr db1 \<Rightarrow>
          (case claim (av_clock env 1) (av_new_id env 0) mode limit db1 of
             Inl e \<Rightarrow> (Inl e, (db1, orc))
           | Inr (claimed, db2) \<Rightarrow>
               (case settle ask (av_clock env) 2 claimed (db2, orc) of
                  (Inl e, s') \<Rightarrow> (Inl e, s')
                | (Inr counters, s') \<Rightarrow>
                    (Inr \<lparr>wr_claimed = length claimed, wr_counters = counters\<rparr>, s')))))"

definition dispatch_workflow_commands ::
  "'o orchestrator option \<Rightarrow> agent_env \<Rightarrow> nat \<Rightarrow> agent_db \<times> 'o
   \<Rightarrow> (agent_error, workflow_result) res \<times> (agent_db \<times> 'o)" where
  "dispatch_workflow_commands port env limit s =
     (if limit < 1 then (Inl (ValueError ''workflow dispatch limit must be positive''), s)
      else case port of
        None \<Rightarrow> (Inl (PortFailure ''workflow orchestrator is not configured''), s)
      | Some p \<Rightarrow> work (dispatch_ask p) DISPATCH env limit s)"

definition reconcile_workflow_commands ::
  "'o orchestrator option \<Rightarrow> agent_env \<Rightarrow> nat \<Rightarrow> agent_db \<times> 'o
   \<Rightarrow> (agent_error, workflow_result) res \<times> (agent_db \<times> 'o)" where
  "reconcile_workflow_commands port env limit s =
     (if limit < 1 then (Inl (ValueError ''workflow reconciliation limit must be positive''), s)
      else case port of
        None \<Rightarrow> (Inl (PortFailure ''workflow orchestrator is not configured''), s)
      | Some p \<Rightarrow> work (reconcile_ask p) RECONCILE env limit s)"

subsection \<open>The local orchestrator\<close>

record dev_temporal =
  dt_command_keys :: "string list"
  dt_lookup_keys :: "string list"
  dt_reject_keys :: "string list"
  dt_fail_after_accept :: bool
  dt_fail_before_call :: bool
  dt_lookup_unknown :: bool
  dt_lookup_never_observed :: bool
  dt_outcomes :: "(string, workflow_outcome) dict"

definition reply_of :: "dispatch_outcome option \<Rightarrow> dispatch_reply" where
  "reply_of x = (case x of None \<Rightarrow> DispatchRaised | Some outcome \<Rightarrow> Replied outcome)"

definition dev_dispatch :: "command_request \<Rightarrow> dev_temporal \<Rightarrow> dispatch_reply \<times> dev_temporal" where
  "dev_dispatch request t =
     (if dt_fail_before_call t then (PreCallFailure, t)
      else
        let key = rqs_key request;
            (existing, t') = (case map_of (dt_outcomes t) key of
               Some x \<Rightarrow> (x, t)
             | None \<Rightarrow>
                 let x = (if key \<in> set (dt_reject_keys t) then REJECTED else ACCEPTED)
                 in (x, t\<lparr>dt_command_keys := dt_command_keys t @ [key],
                          dt_outcomes := AList.update key x (dt_outcomes t)\<rparr>))
        in if existing = REJECTED
           then (reply_of (make_dispatch_outcome REJECTED None (Some ''DEV_DETERMINISTIC_REJECTION'')), t')
           else if dt_fail_after_accept t
           then (reply_of (make_dispatch_outcome ACKNOWLEDGEMENT_UNKNOWN None
                   (Some ''WORKFLOW_ACKNOWLEDGEMENT_UNKNOWN'')), t')
           else (case make_receipt key ACCEPTED of
                   None \<Rightarrow> (DispatchRaised, t')
                 | Some r \<Rightarrow> (reply_of (make_dispatch_outcome ACCEPTED (Some r) None), t')))"

definition dev_lookup :: "string \<Rightarrow> dev_temporal \<Rightarrow> lookup_result option \<times> dev_temporal" where
  "dev_lookup key t =
     (let t' = t\<lparr>dt_lookup_keys := dt_lookup_keys t @ [key]\<rparr>;
          outcome = map_of (dt_outcomes t) key
      in (if dt_lookup_never_observed t \<and> outcome = None then make_lookup_result NEVER_OBSERVED None None
          else if dt_lookup_unknown t \<or> outcome = None then make_lookup_result STILL_UNKNOWN None None
          else if outcome = Some REJECTED
          then make_lookup_result LOOKUP_REJECTED None (Some ''DEV_DETERMINISTIC_REJECTION'')
          else (case make_receipt key ACCEPTED of
                  None \<Rightarrow> None
                | Some r \<Rightarrow> make_lookup_result CONFIRMED (Some r) None), t'))"

definition dev_orchestrator :: "dev_temporal orchestrator" where
  "dev_orchestrator = \<lparr>orch_start = dev_dispatch, orch_cancel = dev_dispatch,
     orch_resume = dev_dispatch, orch_lookup = dev_lookup\<rparr>"

end
