(* ===== verification/Agent_Queue_Safety.thy ===== *)
theory Agent_Queue_Safety
  imports Agent_Workflow
begin

section \<open>The agent module: safety of the command queue\<close>

text \<open>
  Several workers dispatch and reconcile at once: the transactions of \<open>Agent_Workflow\<close> interleave
  in any order, and a worker may record its outcome arbitrarily late. The step relation keeps the
  tables and every command any claim ever handed out.
\<close>

definition held_for :: "string \<Rightarrow> workflow_command list \<Rightarrow> workflow_command list" where
  "held_for i held = filter (\<lambda>c. wc_id c = i \<and> wc_claim_mode c = Some DISPATCH) held"

type_synonym queue_state = "agent_db \<times> workflow_command list"

inductive queue_step :: "queue_state \<Rightarrow> queue_state \<Rightarrow> bool" where
  plan: "insert_workflow_command c db = Inr (c', db') \<Longrightarrow> wc_state c = PLANNED \<Longrightarrow> wc_attempts c = 0 \<Longrightarrow>
     \<forall>h \<in> set held. wc_id h \<noteq> wc_id c \<Longrightarrow> queue_step (db, held) (db', held)"
| parked: "park now db = Inr db' \<Longrightarrow> queue_step (db, held) (db', held)"
| claimed: "claim now token mode limit db = Inr (cs, db') \<Longrightarrow>
     queue_step (db, held) (db', held @ cs)"
| dispatched: "c \<in> set held \<Longrightarrow> wc_claim_mode c = Some DISPATCH \<Longrightarrow>
     persist now c (fst (dispatch_decision c reply)) db = Inr (r, db') \<Longrightarrow>
     queue_step (db, held) (db', held)"
| reconciled: "c \<in> set held \<Longrightarrow> wc_claim_mode c = Some RECONCILE \<Longrightarrow>
     persist now c (fst (reconcile_decision c answer)) db = Inr (r, db') \<Longrightarrow>
     queue_step (db, held) (db', held)"

text \<open>What may happen to one command.\<close>

definition progress :: "workflow_command \<Rightarrow> workflow_command \<Rightarrow> bool" where
  "progress c c' \<longleftrightarrow> wc_id c' = wc_id c \<and> wc_key c' = wc_key c \<and> wc_kind c' = wc_kind c
     \<and> wc_attempt_id c' = wc_attempt_id c \<and> wc_generation c' = wc_generation c
     \<and> wc_attempts c \<le> wc_attempts c'
     \<and> (wc_state c \<in> {DISPATCHED, COMMAND_FAILED} \<longrightarrow> c' = c)
     \<and> (wc_state c = UNKNOWN \<longrightarrow> wc_state c' \<noteq> PLANNED)"

lemma progress_refl [simp]: "progress c c"
  by (simp add: progress_def)

lemma progress_trans: "progress a b \<Longrightarrow> progress b c \<Longrightarrow> progress a c"
  by (cases "wc_state b") (auto simp: progress_def)

definition rows_progress :: "agent_db \<Rightarrow> agent_db \<Rightarrow> bool" where
  "rows_progress db db' \<longleftrightarrow> (\<forall>c \<in> set (ad_commands db). \<exists>c' \<in> set (ad_commands db'). progress c c')"

lemma rows_progress_trans: "rows_progress a b \<Longrightarrow> rows_progress b c \<Longrightarrow> rows_progress a c"
  unfolding rows_progress_def by (meson progress_trans)

lemma rows_progress_map:
  "ad_commands db' = map f (ad_commands db) \<Longrightarrow> (\<And>c. c \<in> set (ad_commands db) \<Longrightarrow> progress c (f c)) \<Longrightarrow>
   rows_progress db db'"
  by (force simp: rows_progress_def)

definition queue_inv :: "queue_state \<Rightarrow> bool" where
  "queue_inv s \<longleftrightarrow> distinct (map wc_id (ad_commands (fst s)))
     \<and> (\<forall>r \<in> set (ad_commands (fst s)). command_row_ok r)
     \<and> (\<forall>h \<in> set (snd s). command_claim_ok h)
     \<and> (\<forall>r \<in> set (ad_commands (fst s)). int (length (held_for (wc_id r) (snd s))) \<le> wc_attempts r)"

subsection \<open>Effects of the transactions on the rows\<close>

lemma make_command_Inr: "make_command c = Inr c' \<Longrightarrow> \<exists>v. c' = c\<lparr>wc_receipt := v\<rparr>"
  unfolding make_command_def by (auto simp: res_simps split: if_splits)

lemma claim_ok_receipt [simp]: "command_claim_ok (c\<lparr>wc_receipt := v\<rparr>) = command_claim_ok c"
  by (simp add: command_claim_ok_def split: option.split claim_mode.split)

lemma claimed_command_simps [simp]:
  "wc_id (claimed_command q c) = wc_id c" "wc_key (claimed_command q c) = wc_key c"
  "wc_kind (claimed_command q c) = wc_kind c" "wc_attempt_id (claimed_command q c) = wc_attempt_id c"
  "wc_generation (claimed_command q c) = wc_generation c"
  "wc_state (claimed_command q c) = wc_state c"
  "wc_claim_mode (claimed_command q c) = Some (cq_mode q)"
  by (simp_all add: claimed_command_def)

lemma claim_rows_effect:
  assumes "claim_rows q cs rows = Inr (claimed, rows')"
    and "distinct (map wc_id cs)" and "distinct (map wc_id rows)" and "set cs \<subseteq> set rows"
  shows "rows' = map (\<lambda>r. if r \<in> set cs then claimed_command q r else r) rows
    \<and> (\<forall>c \<in> set cs. command_row_ok (claimed_command q c))
    \<and> map wc_id claimed = map wc_id cs
    \<and> (\<forall>c \<in> set claimed. command_claim_ok c \<and> wc_claim_mode c = Some (cq_mode q))"
  using assms
proof (induction cs arbitrary: rows claimed)
  case Nil
  then show ?case by simp
next
  case (Cons c cs)
  let ?u = "claimed_command q c" and ?rows = "set_where (\<lambda>r. wc_id r = wc_id c) (\<lambda>_. claimed_command q c) rows"
  from Cons.prems(1) obtain parsed rest where ok: "command_row_ok ?u"
    and parsed: "make_command ?u = Inr parsed" and rest: "claim_rows q cs ?rows = Inr (rest, rows')"
    and claimed: "claimed = parsed # rest"
    by (auto simp: Let_def res_simps split: if_splits)
  have one: "wc_id r = wc_id c \<longleftrightarrow> r = c" if "r \<in> set rows" for r
    using that Cons.prems(3,4) same_key [of wc_id rows r c] by auto
  have rows: "?rows = map (\<lambda>r. if r = c then ?u else r) rows"
    using one by (simp add: set_where_def)
  have sub: "set cs \<subseteq> set ?rows"
    using Cons.prems(2,4) by (auto simp: rows)
  have ids: "map wc_id ?rows = map wc_id rows"
    by (auto simp: rows)
  from Cons.IH [OF rest] Cons.prems(2,3) sub ids have
    IH: "rows' = map (\<lambda>r. if r \<in> set cs then claimed_command q r else r) ?rows"
      "\<forall>c \<in> set cs. command_row_ok (claimed_command q c)" "map wc_id rest = map wc_id cs"
      "\<forall>c \<in> set rest. command_claim_ok c \<and> wc_claim_mode c = Some (cq_mode q)" by auto
  have "wc_id c \<notin> wc_id ` set cs" using Cons.prems(2) by simp
  then have "?u \<notin> set cs" "c \<notin> set cs" by (metis image_eqI claimed_command_simps(1), blast)
  then have "rows' = map (\<lambda>r. if r \<in> set (c # cs) then claimed_command q r else r) rows"
    unfolding IH(1) rows by auto
  moreover from make_command_Inr [OF parsed] ok have
    "wc_id parsed = wc_id c" "command_claim_ok parsed" "wc_claim_mode parsed = Some (cq_mode q)"
    by (auto simp: command_row_ok_def)
  ultimately show ?case using IH(2-4) ok claimed by auto
qed

lemma claim_effect:
  assumes "claim now token mode limit db = Inr (cs, db')" and "distinct (map wc_id (ad_commands db))"
  obtains sel q where "cq_mode q = mode"
    and "ad_commands db' = map (\<lambda>r. if r \<in> sel then claimed_command q r else r) (ad_commands db)"
    and "\<forall>r \<in> sel. r \<in> set (ad_commands db) \<and> claimable mode now r \<and> command_row_ok (claimed_command q r)"
    and "wc_id ` set cs = wc_id ` sel" and "distinct (map wc_id cs)"
    and "\<forall>c \<in> set cs. command_claim_ok c \<and> wc_claim_mode c = Some mode"
proof -
  define q where "q = \<lparr>cq_limit = limit, cq_now = now, cq_owner = claim_owner_name mode,
        cq_token = token, cq_until = now + claim_lease, cq_mode = mode\<rparr>"
  define sel where "sel = take limit (sort_key queue_order (filter (claimable mode now) (ad_commands db)))"
  from assms(1) obtain rows where rows: "claim_rows q sel (ad_commands db) = Inr (cs, rows)"
    and db': "db' = db\<lparr>ad_commands := rows\<rparr>"
    unfolding claim_def claim_workflow_commands_def Let_def q_def sel_def
    by (auto simp: res_simps split: if_splits)
  have "distinct (map wc_id (sort_key queue_order (filter (claimable mode now) (ad_commands db))))"
    using distinct_map_filter [OF assms(2), of "claimable mode now"] by (simp add: distinct_map)
  then have dist: "distinct (map wc_id sel)"
    unfolding sel_def take_map [symmetric] by (rule distinct_take)
  have mem: "\<forall>r \<in> set sel. r \<in> set (ad_commands db) \<and> claimable mode now r"
    by (auto simp: sel_def dest!: in_set_takeD)
  note eff = claim_rows_effect [OF rows dist assms(2)]
  show thesis
  proof (rule that [of q "set sel"])
    show "wc_id ` set cs = wc_id ` set sel"
      using eff mem by (metis list.set_map subsetI)
    show "distinct (map wc_id cs)" using eff mem dist by (metis subsetI)
  qed (use eff mem db' in \<open>auto simp: q_def\<close>)
qed

lemma claimed_progress: "claimable mode now r \<Longrightarrow> progress r (claimed_command q r)"
  by (cases mode) (auto simp: progress_def claimed_command_def)

lemma park_effect:
  "park now db = Inr db' \<Longrightarrow>
     ad_commands db' = map (\<lambda>c. if parkable c then park_command now c else c) (ad_commands db)
     \<and> (\<forall>c \<in> set (ad_commands db). parkable c \<longrightarrow> command_row_ok (park_command now c))"
  unfolding park_def park_expired_workflow_claims_def
  by (auto simp: list_ex_iff set_where_def split: if_splits)

lemma park_progress: "parkable c \<Longrightarrow> progress c (park_command now c)"
  by (auto simp: parkable_def park_command_def progress_def)

lemma persist_effect:
  assumes "persist now c what db = Inr (r, db')" and "distinct (map wc_id (ad_commands db))"
  shows "db' = db \<or> (\<exists>row m. row \<in> set (ad_commands db) \<and> wc_id row = wc_id c
     \<and> wc_state row = wc_state c \<and> wc_claim_token row = wc_claim_token c \<and> wc_claim_token c \<noteq> None
     \<and> dm_state m = fst what \<and> command_row_ok (dispatched_command m row)
     \<and> ad_commands db' = map (\<lambda>x. if x = row then dispatched_command m row else x) (ad_commands db))"
proof (cases "db' = db")
  case False
  let ?m = "\<lparr>dm_state = fst what, dm_receipt = fst (snd what), dm_error = snd (snd what), dm_now = now\<rparr>"
  from assms(1) obtain token where token: "wc_claim_token c = Some token"
    and rec: "record_workflow_command_dispatch (wc_id c) (wc_state c) token ?m db = Inr (r, db')"
    unfolding persist_def by (auto split: option.splits)
  from rec False obtain row where row: "row_by wc_id (wc_id c) (ad_commands db) = Some row"
    unfolding record_workflow_command_dispatch_def by (cases "row_by wc_id (wc_id c) (ad_commands db)") auto
  from rec False row have guards: "wc_state row = wc_state c" "wc_claim_token row = Some token"
    and ok: "command_row_ok (dispatched_command ?m row)"
    and db': "db' = db\<lparr>ad_commands := set_where (\<lambda>x. wc_id x = wc_id c)
        (\<lambda>_. dispatched_command ?m row) (ad_commands db)\<rparr>"
    unfolding record_workflow_command_dispatch_def
    by (simp_all add: rbind_Inr_iff split: if_splits) (elim exE conjE, erule sym)
  have mem: "row \<in> set (ad_commands db)" "wc_id row = wc_id c" using row_by_Some [OF row] by auto
  have "wc_id x = wc_id c \<longleftrightarrow> x = row" if "x \<in> set (ad_commands db)" for x
    using same_key [OF assms(2) that mem(1)] mem(2) by auto
  then have "ad_commands db' = map (\<lambda>x. if x = row then dispatched_command ?m row else x) (ad_commands db)"
    by (simp add: db' set_where_def)
  then show ?thesis using mem guards token ok by (intro disjI2 exI [of _ row] exI [of _ ?m]) simp
qed simp

lemma decision_states:
  "wc_claim_mode c = Some DISPATCH \<Longrightarrow> command_claim_ok c \<Longrightarrow> wc_state c = PLANNED"
  "fst (fst (reconcile_decision c answer)) = PLANNED \<Longrightarrow> wc_state c = PLANNED"
  by (auto simp: command_claim_ok_def reconcile_decision_def uncertain_decision_def uncertain_def Let_def
      split: option.splits lookup_outcome.splits if_splits)

lemma dispatched_command_simps [simp]:
  "wc_id (dispatched_command m c) = wc_id c" "wc_attempts (dispatched_command m c) = wc_attempts c"
  "wc_state (dispatched_command m c) = dm_state m"
  by (simp_all add: dispatched_command_def)

lemma settle_progress:
  assumes "wc_state row \<in> {PLANNED, UNKNOWN}" and "wc_state row = UNKNOWN \<Longrightarrow> dm_state m \<noteq> PLANNED"
  shows "progress row (dispatched_command m row)"
  using assms by (auto simp: progress_def) (simp_all add: dispatched_command_def)

subsection \<open>The invariant\<close>

lemma rows_ok_map:
  assumes "ad_commands db' = map f (ad_commands db)" and "\<And>c. c \<in> set (ad_commands db) \<Longrightarrow> wc_id (f c) = wc_id c"
    and "\<And>c. c \<in> set (ad_commands db) \<Longrightarrow> command_row_ok (f c)"
    and "distinct (map wc_id (ad_commands db))"
  shows "distinct (map wc_id (ad_commands db')) \<and> (\<forall>r \<in> set (ad_commands db'). command_row_ok r)"
proof -
  have "map wc_id (ad_commands db') = map wc_id (ad_commands db)" using assms(1,2) by simp
  then have "distinct (map wc_id (ad_commands db'))" using assms(4) by (simp only:)
  moreover have "\<forall>r \<in> set (ad_commands db'). command_row_ok r" using assms(1,3) by auto
  ultimately show ?thesis by blast
qed

text \<open>The steps that keep what was handed out: every row makes progress and keeps its budget.\<close>

lemma queue_inv_map:
  assumes inv: "queue_inv (db, held)" and rows: "ad_commands db' = map f (ad_commands db)"
    and f: "\<And>c. c \<in> set (ad_commands db) \<Longrightarrow> command_row_ok (f c) \<and> progress c (f c)"
  shows "queue_inv (db', held) \<and> rows_progress db db'"
proof -
  have ids: "wc_id (f c) = wc_id c" "wc_attempts c \<le> wc_attempts (f c)" if "c \<in> set (ad_commands db)" for c
    using f [OF that] by (simp_all add: progress_def)
  have "distinct (map wc_id (ad_commands db'))" "\<forall>r \<in> set (ad_commands db'). command_row_ok r"
    using rows_ok_map [OF rows] f ids inv by (auto simp: queue_inv_def)
  moreover have "int (length (held_for (wc_id r) held)) \<le> wc_attempts r" if "r \<in> set (ad_commands db')" for r
  proof -
    from that rows obtain x where x: "x \<in> set (ad_commands db)" "r = f x" by auto
    with inv have "int (length (held_for (wc_id x) held)) \<le> wc_attempts x" by (simp add: queue_inv_def)
    with ids [OF x(1)] show ?thesis by (simp add: x(2))
  qed
  moreover have "rows_progress db db'" using rows_progress_map [OF rows] f by blast
  ultimately show ?thesis using inv by (simp add: queue_inv_def)
qed

lemma held_for_append: "held_for i (h @ h') = held_for i h @ held_for i h'"
  by (simp add: held_for_def)

lemma held_for_once:
  "distinct (map wc_id cs) \<Longrightarrow> length (held_for i cs) \<le> 1"
  "i \<notin> wc_id ` set cs \<Longrightarrow> held_for i cs = []"
  "\<forall>c \<in> set cs. wc_claim_mode c = Some RECONCILE \<Longrightarrow> held_for i cs = []"
proof -
  show "distinct (map wc_id cs) \<Longrightarrow> length (held_for i cs) \<le> 1"
  proof (induction cs)
    case (Cons c cs)
    show ?case
    proof (cases "wc_id c = i")
      case True
      with Cons.prems have "\<forall>x \<in> set cs. wc_id x \<noteq> i" by (auto simp: image_iff)
      then have "held_for i cs = []" by (auto simp: held_for_def filter_empty_conv)
      then show ?thesis by (simp add: held_for_def)
    next
      case False
      with Cons show ?thesis by (simp add: held_for_def)
    qed
  qed (simp add: held_for_def)
qed (auto simp: held_for_def filter_empty_conv)

lemma claimed_step:
  assumes inv: "queue_inv (db, held)" and ok: "claim now token mode limit db = Inr (cs, db')"
  shows "queue_inv (db', held @ cs) \<and> rows_progress db db'"
proof -
  have dist: "distinct (map wc_id (ad_commands db))" using inv by (simp add: queue_inv_def)
  obtain sel q where q: "cq_mode q = mode"
    and rows: "ad_commands db' = map (\<lambda>r. if r \<in> sel then claimed_command q r else r) (ad_commands db)"
    and sel: "\<forall>r \<in> sel. r \<in> set (ad_commands db) \<and> claimable mode now r \<and> command_row_ok (claimed_command q r)"
    and ids: "wc_id ` set cs = wc_id ` sel" and once: "distinct (map wc_id cs)"
    and modes: "\<forall>c \<in> set cs. command_claim_ok c \<and> wc_claim_mode c = Some mode"
    by (rule claim_effect [OF ok dist])
  have base: "queue_inv (db', held) \<and> rows_progress db db'"
    using inv sel claimed_progress by (intro queue_inv_map [OF inv rows]) (auto simp: queue_inv_def)
  have "int (length (held_for (wc_id r) (held @ cs))) \<le> wc_attempts r" if r: "r \<in> set (ad_commands db')" for r
  proof -
    from r rows obtain x where x: "x \<in> set (ad_commands db)"
      and rx: "r = (if x \<in> sel then claimed_command q x else x)" by auto
    have old: "int (length (held_for (wc_id r) held)) \<le> wc_attempts x"
      using inv x rx by (auto simp: queue_inv_def split: if_splits)
    show ?thesis
    proof (cases "x \<in> sel \<and> mode = DISPATCH")
      case True
      then have "wc_attempts r = wc_attempts x + 1" by (simp add: rx claimed_command_def q)
      with old held_for_once(1) [OF once, of "wc_id r"] show ?thesis by (simp add: held_for_append)
    next
      case False
      have "held_for (wc_id r) cs = []"
      proof (cases "mode = RECONCILE")
        case True
        with modes show ?thesis by (intro held_for_once(3)) simp
      next
        case m: False
        with False have "x \<notin> sel" by (cases mode) auto
        then have "wc_id r \<notin> wc_id ` sel"
          using same_key [OF dist x] sel rx by (metis imageE)
        then show ?thesis by (intro held_for_once(2)) (simp add: ids)
      qed
      moreover have "wc_attempts x \<le> wc_attempts r" by (simp add: rx claimed_command_def)
      ultimately show ?thesis using old by (simp add: held_for_append)
    qed
  qed
  with base modes show ?thesis by (auto simp: queue_inv_def)
qed

lemma settle_step:
  assumes inv: "queue_inv (db, held)" and ok: "persist now c what db = Inr (r, db')"
    and keep: "wc_state c = UNKNOWN \<Longrightarrow> fst what \<noteq> PLANNED" and c: "c \<in> set held"
  shows "queue_inv (db', held) \<and> rows_progress db db'"
proof -
  have dist: "distinct (map wc_id (ad_commands db))" using inv by (simp add: queue_inv_def)
  from persist_effect [OF ok dist] show ?thesis
  proof (elim disjE exE conjE)
    assume "db' = db"
    with inv show ?thesis by (auto simp: rows_progress_def intro: progress_refl)
  next
    fix row m
    assume row: "row \<in> set (ad_commands db)" "wc_state row = wc_state c"
      "wc_claim_token row = wc_claim_token c" "wc_claim_token c \<noteq> None" and m: "dm_state m = fst what"
      "command_row_ok (dispatched_command m row)"
      and rows: "ad_commands db' = map (\<lambda>x. if x = row then dispatched_command m row else x) (ad_commands db)"
    have "command_row_ok row" using inv row(1) by (simp add: queue_inv_def)
    then have "wc_state row \<in> {PLANNED, UNKNOWN}"
      using row(3,4) by (auto simp: command_row_ok_def command_claim_ok_def split: option.splits claim_mode.splits)
    then have "progress row (dispatched_command m row)"
      using keep row(2) m(1) by (intro settle_progress) auto
    with m(2) inv show ?thesis
      by (intro queue_inv_map [OF inv rows]) (auto simp: queue_inv_def)
  qed
qed

lemma queue_step_inv:
  assumes "queue_step s s'" and "queue_inv s"
  shows "queue_inv s' \<and> rows_progress (fst s) (fst s')"
  using assms
proof (induction rule: queue_step.induct)
  case (plan c db c' db' held)
  let ?r = "c\<lparr>wc_receipt := map_option plain_json (wc_receipt c), wc_claim_owner := None,
            wc_claim_token := None, wc_claim_until := None, wc_claim_mode := None\<rparr>"
  from plan(1) have rows: "ad_commands db' = ad_commands db @ [?r]" and ok: "command_row_ok ?r"
    and new: "wc_id c \<notin> wc_id ` set (ad_commands db)"
    unfolding insert_workflow_command_def Let_def by (auto simp: res_simps)
  have "held_for (wc_id c) held = []" using plan(4) by (auto simp: held_for_def filter_empty_conv)
  with plan(3,5) rows ok new have "queue_inv (db', held)" by (auto simp: queue_inv_def)
  moreover have "rows_progress db db'" unfolding rows_progress_def rows by (auto intro: progress_refl)
  ultimately show ?case by simp
next
  case (parked now db db' held)
  note eff = park_effect [OF parked(1)]
  have "queue_inv (db', held) \<and> rows_progress db db'"
    by (rule queue_inv_map [OF parked(2) conjunct1 [OF eff]])
      (use eff parked(2) park_progress in \<open>auto simp: queue_inv_def\<close>)
  then show ?case by simp
next
  case (claimed now token mode limit db cs db' held)
  from claimed_step [OF claimed(2,1)] show ?case by simp
next
  case (dispatched c held now reply db r db')
  then have "wc_state c = PLANNED"
    using decision_states(1) by (auto simp: queue_inv_def)
  with settle_step [OF dispatched(4,3) _ dispatched(1)] show ?case by simp
next
  case (reconciled c held now answer db r db')
  from settle_step [OF reconciled(4,3) _ reconciled(1)] decision_states(2) show ?case by fastforce
qed

lemma queue_run_inv:
  assumes "queue_step\<^sup>*\<^sup>* s s'" and "queue_inv s"
  shows "queue_inv s' \<and> rows_progress (fst s) (fst s')"
  using assms
proof (induction rule: rtranclp_induct)
  case base
  then show ?case by (auto simp: rows_progress_def intro: progress_refl)
next
  case (step t u)
  with queue_step_inv rows_progress_trans show ?case by blast
qed

subsection \<open>Recording an outcome\<close>

lemma record_once:
  assumes "persist now c what db = Inr (Some r, db')"
  shows "persist now' c what' db' = Inr (None, db')"
proof -
  let ?m = "\<lparr>dm_state = fst what, dm_receipt = fst (snd what), dm_error = snd (snd what), dm_now = now\<rparr>"
  from assms obtain token where token: "wc_claim_token c = Some token"
    and rec: "record_workflow_command_dispatch (wc_id c) (wc_state c) token ?m db = Inr (Some r, db')"
    unfolding persist_def by (auto split: option.splits)
  from rec obtain row where row: "row_by wc_id (wc_id c) (ad_commands db) = Some row"
    unfolding record_workflow_command_dispatch_def by (auto split: option.splits)
  with rec have db': "ad_commands db' = set_where (\<lambda>x. wc_id x = wc_id c)
        (\<lambda>_. dispatched_command ?m row) (ad_commands db)"
    unfolding record_workflow_command_dispatch_def by (auto simp: rbind_Inr_iff split: if_splits)
  have id: "wc_id row = wc_id c" using row_by_Some [OF row] by simp
  have "row_by wc_id (wc_id c) (set_where (\<lambda>x. wc_id x = wc_id c) (\<lambda>_. dispatched_command ?m row) xs)
      = (if wc_id c \<in> wc_id ` set xs then Some (dispatched_command ?m row) else None)" for xs
    by (induction xs) (auto simp: set_where_def id)
  moreover have "wc_id c \<in> wc_id ` set (ad_commands db)"
    using row_by_Some [OF row] by (metis image_eqI)
  ultimately have "row_by wc_id (wc_id c) (ad_commands db') = Some (dispatched_command ?m row)"
    by (simp add: db')
  moreover have "wc_claim_token (dispatched_command ?m row) = None"
    by (simp add: dispatched_command_def)
  ultimately show ?thesis
    by (simp add: persist_def token record_workflow_command_dispatch_def)
qed

text \<open>What a decision may record of a command.\<close>

definition decision_ok :: "workflow_command \<Rightarrow> command_state \<times> pyval option \<times> string option \<Rightarrow> bool" where
  "decision_ok c d \<longleftrightarrow> (case d of (s, receipt, err) \<Rightarrow>
     (s = PLANNED \<and> receipt = None \<and> err \<in> {None, Some ''WORKFLOW_PRE_CALL_FAILURE''})
     \<or> (s = DISPATCHED \<and> receipt = Some (PyDict [(''commandKey'', PyStr (wc_key c)),
          (''outcome'', PyStr ''ACCEPTED'')]) \<and> err = None)
     \<or> (s = UNKNOWN \<and> receipt = None \<and> err \<in> {Some ''WORKFLOW_ACKNOWLEDGEMENT_UNKNOWN'',
          Some ''WORKFLOW_CLAIM_ATTEMPTS_EXHAUSTED''})
     \<or> (s = COMMAND_FAILED \<and> receipt = None \<and> err \<in> {Some ''DEV_DETERMINISTIC_REJECTION'',
          Some ''WORKFLOW_RECONCILIATION_REJECTED''}))"

lemma uncertain_ok: "decision_ok c (fst (uncertain_decision c k))"
  by (simp add: uncertain_decision_def uncertain_def decision_ok_def)

lemma receipt_json_Some:
  "receipt_json c r = Some v \<Longrightarrow>
     v = PyDict [(''commandKey'', PyStr (wc_key c)), (''outcome'', PyStr ''ACCEPTED'')]"
  unfolding receipt_json_def by (auto split: option.splits if_splits)

lemma dispatch_decision_ok: "decision_ok c (fst (dispatch_decision c reply))"
proof (cases reply)
  case (Replied outcome)
  then show ?thesis
    using uncertain_ok [of c Unknown] receipt_json_Some [of c "do_receipt outcome"]
    by (cases "do_outcome outcome"; cases "receipt_json c (do_receipt outcome)")
      (simp_all add: dispatch_decision_def, simp_all add: decision_ok_def)
qed (use uncertain_ok in \<open>simp_all add: dispatch_decision_def decision_ok_def\<close>)

lemma reconcile_decision_ok: "decision_ok c (fst (reconcile_decision c answer))"
proof -
  define x where "x = (case answer of None \<Rightarrow> \<lparr>lo_outcome = STILL_UNKNOWN, lo_receipt = None, lo_error = None\<rparr>
                     | Some x \<Rightarrow> x)"
  show ?thesis
    using uncertain_ok [of c] receipt_json_Some [of c "lo_receipt x"]
    unfolding reconcile_decision_def x_def [symmetric] Let_def
    by (cases "lo_outcome x"; cases "receipt_json c (lo_receipt x)")
      (simp_all, simp_all add: decision_ok_def)
qed

lemma recorded_row_ok:
  assumes "command_row_ok row" and "wc_created_at row \<le> now" and "decision_ok row (s, receipt, err)"
  shows "command_row_ok (dispatched_command
      \<lparr>dm_state = s, dm_receipt = receipt, dm_error = err, dm_now = now\<rparr> row)"
  using assms
  by (auto simp: command_row_ok_def dispatched_command_def command_claim_ok_def
      command_evidence_ok_def decision_ok_def json_object_def accepted_receipt_def mapping_items_def)

lemma recorded_row_parses:
  assumes "command_row_ok row" and "decision_ok row (s, receipt, err)"
  shows "\<exists>c. make_command (dispatched_command
      \<lparr>dm_state = s, dm_receipt = receipt, dm_error = err, dm_now = now\<rparr> row) = Inr c"
  using assms
  by (auto simp: command_row_ok_def dispatched_command_def make_command_def decision_ok_def
      freeze_evidence_def claim_complete_def require_def)

lemma persist_total:
  assumes row: "row_by wc_id (wc_id c) (ad_commands db) = Some row" and "command_row_ok row"
    and "wc_key row = wc_key c" and "wc_created_at row \<le> now" and "wc_claim_token c \<noteq> None"
    and "decision_ok c d"
  shows "\<exists>r db'. persist now c d db = Inr (r, db')"
proof -
  obtain s receipt err where d: "d = (s, receipt, err)" by (cases d)
  have ok: "decision_ok row (s, receipt, err)" using assms(3,6) by (simp add: d decision_ok_def)
  from recorded_row_ok [OF assms(2,4) ok] recorded_row_parses [OF assms(2) ok, of now] assms(1,5)
  show ?thesis
    by (auto simp: persist_def record_workflow_command_dispatch_def d)
qed

subsection \<open>Properties of the command queue\<close>

text \<open>
  Under any interleaving of workers the queue only moves forward. However planning, parking,
  claiming and recording transactions interleave, and however late a worker records, every
  command keeps its identity; a DISPATCHED or FAILED command never changes again; an UNKNOWN
  command, whose call may have been observed, never returns to PLANNED to be called again; and
  the number of its claims never decreases nor exceeds three.
\<close>

theorem queue_only_moves_forward:
  assumes "queue_step\<^sup>*\<^sup>* s s'" and "queue_inv s" and "c \<in> set (ad_commands (fst s))"
  shows "\<exists>c' \<in> set (ad_commands (fst s')). wc_id c' = wc_id c \<and> wc_key c' = wc_key c
    \<and> wc_kind c' = wc_kind c \<and> wc_generation c' = wc_generation c
    \<and> (wc_state c \<in> {DISPATCHED, COMMAND_FAILED} \<longrightarrow> c' = c)
    \<and> (wc_state c = UNKNOWN \<longrightarrow> wc_state c' \<noteq> PLANNED)
    \<and> wc_attempts c \<le> wc_attempts c' \<and> wc_attempts c' \<le> 3"
proof -
  from queue_run_inv [OF assms(1,2)] assms(3) obtain c' where
    "c' \<in> set (ad_commands (fst s'))" and "progress c c'" and "command_row_ok c'"
    by (auto simp: rows_progress_def queue_inv_def)
  then show ?thesis by (auto simp: progress_def command_row_ok_def intro!: bexI [of _ c'])
qed

text \<open>
  C25: no command is handed out for dispatch more than three times. From an empty queue, in every
  reachable state and for every command, the claims in dispatch mode that any worker ever received
  for it number at most its recorded attempts, hence at most three; so the orchestrator is asked
  to start, cancel or resume it at most three times.
\<close>

theorem dispatch_budget:
  assumes "queue_step\<^sup>*\<^sup>* (db, []) (db', held)" and "ad_commands db = []"
    and "r \<in> set (ad_commands db')"
  shows "int (length (filter (\<lambda>c. wc_id c = wc_id r \<and> wc_claim_mode c = Some DISPATCH) held))
      \<le> wc_attempts r \<and> wc_attempts r \<le> 3"
proof -
  have "queue_inv (db, [])" using assms(2) by (simp add: queue_inv_def)
  from queue_run_inv [OF assms(1) this] assms(3) show ?thesis
    by (auto simp: queue_inv_def held_for_def command_row_ok_def)
qed

text \<open>
  an outcome is recorded at most once per claim. Once a worker has recorded an outcome for a
  claimed command, any further attempt to record one under the same claim, at any time and with
  any outcome, changes nothing and reports that nothing was recorded.
\<close>

theorem outcome_recorded_once:
  assumes "persist now c what db = Inr (Some r, db')"
  shows "persist now' c what' db' = Inr (None, db')"
  by (rule record_once [OF assms])

text \<open>
  recording never violates the table's evidence constraints. For a claimed command whose row
  satisfies the constraints, whatever the orchestrator replies or the lookup answers, at a clock
  not before the command's creation, the record transaction succeeds.
\<close>

theorem recording_total:
  assumes "row_by wc_id (wc_id c) (ad_commands db) = Some row" and "command_row_ok row"
    and "wc_key row = wc_key c" and "wc_created_at row \<le> now" and "wc_claim_token c \<noteq> None"
  shows "(\<exists>r db'. persist now c (fst (dispatch_decision c reply)) db = Inr (r, db'))
    \<and> (\<exists>r db'. persist now c (fst (reconcile_decision c answer)) db = Inr (r, db'))"
  using persist_total [OF assms dispatch_decision_ok] persist_total [OF assms reconcile_decision_ok]
  by blast

subsection \<open>A concrete run\<close>

definition empty_agent_db :: agent_db where
  "empty_agent_db = \<lparr>ad_definitions = [], ad_runs = [], ad_attempts = [], ad_bindings = [],
     ad_events = [], ad_receipts = [], ad_checkpoints = [], ad_commands = [], ad_idempotency = [],
     ad_audit = []\<rparr>"

definition demo_command :: workflow_command where
  "demo_command = \<lparr>wc_id = ''c1'', wc_key = ''start:a:generation-1'', wc_kind = START,
     wc_attempt_id = ''a'', wc_generation = 1, wc_state = PLANNED, wc_attempts = 0,
     wc_receipt = None, wc_error = None, wc_created_at = 1, wc_updated_at = 1,
     wc_dispatched_at = None, wc_claim_owner = None, wc_claim_token = None, wc_claim_until = None,
     wc_claim_mode = None\<rparr>"

definition demo_claim :: workflow_command where
  "demo_claim = demo_command\<lparr>wc_attempts := 1, wc_updated_at := 2,
     wc_claim_owner := Some ''agent-workflow-dispatch'', wc_claim_token := Some ''t1'',
     wc_claim_until := Some 30000002, wc_claim_mode := Some DISPATCH\<rparr>"

definition demo_recorded :: workflow_command where
  "demo_recorded = demo_command\<lparr>wc_state := UNKNOWN, wc_attempts := 1, wc_updated_at := 3,
     wc_error := Some ''WORKFLOW_ACKNOWLEDGEMENT_UNKNOWN''\<rparr>"

definition demo_queue :: "workflow_command list \<Rightarrow> agent_db" where
  "demo_queue cs = empty_agent_db\<lparr>ad_commands := cs\<rparr>"

lemma demo_planned:
  "insert_workflow_command demo_command empty_agent_db = Inr (demo_command, demo_queue [demo_command])"
  by code_simp

lemma demo_claimed:
  "claim 2 ''t1'' DISPATCH 5 (demo_queue [demo_command]) = Inr ([demo_claim], demo_queue [demo_claim])"
  by code_simp

lemma demo_persist:
  "persist 3 demo_claim (fst (dispatch_decision demo_claim DispatchRaised)) (demo_queue [demo_claim])
     = Inr (Some demo_recorded, demo_queue [demo_recorded])"
  by code_simp

lemma demo_queue_run:
  "queue_step\<^sup>*\<^sup>* (empty_agent_db, []) (demo_queue [demo_recorded], [demo_claim])"
proof -
  have "queue_step (empty_agent_db, []) (demo_queue [demo_command], [])"
    by (rule plan [OF demo_planned]) (simp_all add: demo_command_def)
  moreover have "queue_step (demo_queue [demo_command], []) (demo_queue [demo_claim], [demo_claim])"
    using claimed [OF demo_claimed, of "[]"] by simp
  moreover have "queue_step (demo_queue [demo_claim], [demo_claim]) (demo_queue [demo_recorded], [demo_claim])"
    by (rule dispatched [OF _ _ demo_persist]) (simp_all add: demo_claim_def)
  ultimately show ?thesis by (meson converse_rtranclp_into_rtranclp rtranclp.rtrancl_refl)
qed

theorem dispatch_budget_witness:
  "int (length (filter (\<lambda>c. wc_id c = ''c1'' \<and> wc_claim_mode c = Some DISPATCH) [demo_claim])) \<le> 1"
  using dispatch_budget [OF demo_queue_run, of demo_recorded]
  by (simp add: empty_agent_db_def demo_queue_def demo_recorded_def demo_command_def)

theorem queue_only_moves_forward_witness:
  "\<exists>c' \<in> set (ad_commands (demo_queue [demo_recorded])). wc_id c' = ''c1'' \<and> wc_attempts c' \<le> 3
     \<and> wc_state c' \<noteq> PLANNED"
proof -
  have inv: "queue_inv (demo_queue [demo_recorded], [demo_claim])" by code_simp
  have "demo_recorded \<in> set (ad_commands (fst (demo_queue [demo_recorded], [demo_claim])))"
    by (simp add: demo_queue_def)
  from queue_only_moves_forward [OF rtranclp.rtrancl_refl inv this] show ?thesis
    by (auto simp: demo_recorded_def demo_command_def)
qed

theorem outcome_recorded_once_witness:
  "persist 9 demo_claim (DISPATCHED, None, None) (demo_queue [demo_recorded])
     = Inr (None, demo_queue [demo_recorded])"
  by (rule outcome_recorded_once [OF demo_persist])

theorem recording_total_witness:
  "\<exists>r db'. persist 3 demo_claim (fst (dispatch_decision demo_claim PreCallFailure)) (demo_queue [demo_claim])
     = Inr (r, db')"
proof -
  have row: "row_by wc_id (wc_id demo_claim) (ad_commands (demo_queue [demo_claim])) = Some demo_claim"
    by (simp add: demo_queue_def)
  have ok: "command_row_ok demo_claim" by code_simp
  have "wc_created_at demo_claim \<le> 3" "wc_claim_token demo_claim \<noteq> None"
    by (simp_all add: demo_claim_def demo_command_def)
  from recording_total [OF row ok refl this] show ?thesis by blast
qed

end
