(* ===== verification/Agent_Demo.thy ===== *)
theory Agent_Demo
  imports Agent_Steps Agent_Queue_Safety
begin

section \<open>The agent module: a concrete run\<close>

text \<open>
  One environment and a short history, evaluated: a definition is registered, a run started, its
  attempt provisioned, started and suspended for input, then resumed. The witnesses of the agent properties
  use these states.
\<close>

definition demo_platform :: platform_env where
  "demo_platform = \<lparr>uuid_str = Some, parse_datetime = (\<lambda>_. Some (100, True)),
     canonical_sha256 = (\<lambda>_. replicate 64 (CHR ''0''))\<rparr>"

definition demo_sealer :: sealer where
  "demo_sealer = \<lparr>seal = (\<lambda>_. ''sealed''), unseal = (\<lambda>_. None),
     request_fingerprint = (\<lambda>_ _ _ _. ''fingerprint'')\<rparr>"

definition demo_agent_env :: "string \<Rightarrow> instant \<Rightarrow> agent_env" where
  "demo_agent_env label now = \<lparr>av_platform = demo_platform, av_clock = (\<lambda>_. now),
     av_new_id = (\<lambda>n. label @ str_of_nat n), av_sealer = Some demo_sealer,
     av_sha256 = (\<lambda>_. ''digest''), av_current_request = Some ''request'',
     av_actor = dev_actor_resolver,
     av_resolve_context = (\<lambda>w q i. Inr \<lparr>rq_workspace_id = w, rq_requirement_id = q,
        rq_work_item_id = i, rq_assignment_id = ''assignment'', rq_goal_ref = ''goal''\<rparr>),
     av_protect_context = (\<lambda>w q i a. Inr \<lparr>rq_workspace_id = w, rq_requirement_id = q,
        rq_work_item_id = i, rq_assignment_id = a, rq_goal_ref = ''goal''\<rparr>),
     av_definition_active = dev_definition_active, av_binding_policy = dev_binding_policy\<rparr>"

definition demo_definition :: agent_definition where
  "demo_definition = \<lparr>df_id = ''def'', df_version = 1, df_name = ''agent/probe'',
     df_capabilities = [''agent.run.execute''], df_skills = [''writing-plans''],
     df_permissions = [''context.read''], df_input_schema = PyDict [(''type'', PyStr ''object'')],
     df_created_at = 0\<rparr>"

definition demo_register :: definition_command where
  "demo_register = \<lparr>dc_definition = demo_definition, dc_actor = ''employee-901'',
     dc_correlation_id = ''corr''\<rparr>"

definition demo_start :: start_command where
  "demo_start = \<lparr>sc_workspace_id = ''ws'', sc_requirement_id = ''rq'', sc_work_item_id = ''wi'',
     sc_definition_id = ''def'', sc_definition_version = 1, sc_goal = ''goal'',
     sc_actor = ''employee-901'', sc_idempotency_key = ''key-1'', sc_correlation_id = ''corr''\<rparr>"

definition demo_event_of :: "string \<Rightarrow> string \<Rightarrow> int \<Rightarrow> (string \<times> pyval) list \<Rightarrow> canonical_event" where
  "demo_event_of i kind n d = \<lparr>ev_id = i, ev_type = kind, ev_attempt_id = ''b3'',
     ev_generation = 1, ev_sequence = n, ev_correlation_id = ''corr'', ev_causation_id = None,
     ev_trace_id = ''trace'', ev_span_id = ''span'', ev_summary = ''worker'', ev_data = d\<rparr>"

definition demo_question :: "(string \<times> pyval) list" where
  "demo_question = [
     (''checkpoint'', PyDict [(''id'', PyStr ''cp''), (''artifact_id'', PyStr ''art''),
        (''artifact_version'', PyStr ''1''),
        (''content_sha256'', PyStr (''sha256:'' @ replicate 64 (CHR ''0''))),
        (''schema_version'', PyStr ''1''), (''adapter_version'', PyStr ''1''),
        (''classification'', PyStr ''INTERNAL'')]),
     (''waitingDeadline'', PyStr ''2030-01-01T00:00:00+00:00''),
     (''question'', PyDict [(''prompt'', PyStr ''which?'')])]"

text \<open>The results of the demo's handlers do not depend on the parsed response.\<close>

definition demo_codec_start :: "start_result result_codec" where
  "demo_codec_start = \<lparr>dump_result = (\<lambda>_. PyNone), parse_result = (\<lambda>_. Some \<lparr>
     sr_run = \<lparr>rn_id = [], rn_workspace_id = [], rn_context = None, rn_goal_ref = [], rn_created_by = [],
       rn_definition_id = [], rn_definition_version = 1, rn_latest_attempt_id = [], rn_state = ACTIVE,
       rn_revision = 1, rn_created_at = 0, rn_updated_at = 0\<rparr>,
     sr_attempt = demo_attempt QUEUED,
     sr_binding = dev_binding_policy [] demo_definition \<lparr>rq_workspace_id = [], rq_requirement_id = [],
       rq_work_item_id = [], rq_assignment_id = [], rq_goal_ref = []\<rparr>,
     sr_event = demo_event_of [] [] 1 [], sr_command = demo_command\<rparr>)\<rparr>"

definition demo_codec_control :: "control_result result_codec" where
  "demo_codec_control = \<lparr>dump_result = (\<lambda>_. PyNone),
     parse_result = (\<lambda>_. Some \<lparr>cr_attempt = demo_attempt QUEUED, cr_command = None\<rparr>)\<rparr>"

definition after :: "('e, 'a \<times> agent_db) res \<Rightarrow> agent_db" where
  "after m = (case m of Inl _ \<Rightarrow> empty_agent_db | Inr (_, db) \<Rightarrow> db)"

definition demo_db1 :: agent_db where
  "demo_db1 = after (register_definition (demo_agent_env ''a'' 1) demo_register empty_agent_db)"

text \<open>The state after the start, written out.\<close>

definition demo_db2 :: agent_db where
  "demo_db2 = \<lparr>ad_definitions = [\<lparr>df_id = ''def'', df_version = 1,
     df_name = ''agent/probe'', df_capabilities = [''agent.run.execute''],
     df_skills = [''writing-plans''], df_permissions = [''context.read''],
     df_input_schema = PyDict [(''type'', PyStr ''object'')], df_created_at = 1\<rparr>],
     ad_runs = [\<lparr>rr_id = ''b2'', rr_workspace_id = ''ws'', rr_goal_ref = ''goal'',
     rr_created_by = ''employee-901'', rr_definition_id = ''def'', rr_definition_version = 1,
     rr_latest_attempt_id = ''b3'', rr_state = ACTIVE, rr_revision = 1, rr_created_at = 2,
     rr_updated_at = 2, rr_requirement_id = Some ''rq'', rr_work_item_id = Some ''wi'',
     rr_assignment_id = Some ''assignment''\<rparr>], ad_attempts = [\<lparr>tr_id = ''b3'',
     tr_run_id = ''b2'', tr_number = 1, tr_state = QUEUED, tr_binding_id = ''b1'',
     tr_binding_digest = (replicate 64 (CHR ''0'')), tr_generation = 1,
     tr_fencing_token = ''fence:b3:generation:1'', tr_checkpoint_id = None,
     tr_event_sequence = 1, tr_waiting_deadline = None, tr_terminal_evidence = None,
     tr_revision = 3, tr_created_at = 2, tr_updated_at = 2\<rparr>],
     ad_bindings = [\<lparr>br_id = ''b1'', br_attempt_id = ''b3'', br_source = DEV_FAKE,
     br_digest = (replicate 64 (CHR ''0'')), br_snapshot = \<lparr>eb_id = ''b1'',
     eb_source = DEV_FAKE, eb_runtime_ref = ''DEV_FAKE:runtime:control-plane-v1'',
     eb_model_route_ref = ''DEV_FAKE:model-route:none'',
     eb_capability_bundle_ref = ''DEV_FAKE:capability-bundle:control-plane-v1'',
     eb_skill_refs = [''writing-plans''], eb_runtime_permissions = [''checkpoint.write'',
     ''context.read'', ''event.emit''],
     eb_context_policy_ref = ''DEV_FAKE:context-policy:requirement-read-v1'',
     eb_network_policy_ref = ''DEV_FAKE:network-policy:none'', eb_digest = (replicate 64
     (CHR ''0''))\<rparr>\<rparr>], ad_events = [\<lparr>ev_id = ''b4'',
     ev_type = ''ATTEMPT_QUEUED'', ev_attempt_id = ''b3'', ev_generation = 1, ev_sequence = 1,
     ev_correlation_id = ''corr'', ev_causation_id = None, ev_trace_id = ''agent-start:b2'',
     ev_span_id = ''agent-start:b3'',
     ev_summary = ''Attempt queued for restricted DEV control-plane execution'',
     ev_data = [(''bindingSource'', PyStr ''DEV_FAKE''), (''bindingDigest'', PyStr (replicate 64
     (CHR ''0'')))]\<rparr>], ad_receipts = [\<lparr>er_event_id = ''b4'',
     er_schema_version = 1, er_attempt = \<lparr>at_id = ''b3'', at_run_id = ''b2'',
     at_number = 1, at_state = QUEUED, at_binding_id = ''b1'', at_binding_digest = (replicate 64
     (CHR ''0'')), at_generation = 1, at_fencing_token = ''fence:b3:generation:1'',
     at_checkpoint = None, at_event_sequence = 1, at_waiting_deadline = None,
     at_terminal_evidence = None, at_revision = 3, at_created_at = 2, at_updated_at = 2\<rparr>,
     er_checkpoint = None\<rparr>], ad_checkpoints = [], ad_commands = [\<lparr>wc_id = ''b5'',
     wc_key = ''start:b3:generation-1'', wc_kind = START, wc_attempt_id = ''b3'',
     wc_generation = 1, wc_state = PLANNED, wc_attempts = 0, wc_receipt = None, wc_error = None,
     wc_created_at = 2, wc_updated_at = 2, wc_dispatched_at = None, wc_claim_owner = None,
     wc_claim_token = None, wc_claim_until = None, wc_claim_mode = None\<rparr>],
     ad_idempotency = [\<lparr>ir_id = ''b0'', ir_actor = ''workspace:ws:actor:employee-901'',
     ir_operation = ''agent.run.start'', ir_key = ''key-1'', ir_fingerprint = ''fingerprint'',
     ir_completed = True, ir_http_status = Some 202, ir_metadata = Some (PyDict [(''kind'',
     PyStr ''http-response''), (''schemaVersion'', PyInt 1)]), ir_sealed = Some ''sealed'',
     ir_created_at = 2, ir_updated_at = 2, ir_completed_at = Some 2\<rparr>],
     ad_audit = [\<lparr>ae_id = ''a0'', ae_occurred_at = 1, ae_actor = ''employee-901'',
     ae_actor_type = ''EMPLOYEE'', ae_action = ''agent.definition.register'',
     ae_target_type = ''agent_definition'', ae_target_id = ''def@1'', ae_result = ''SUCCESS'',
     ae_reason = Some ''definition=def@1'', ae_correlation_id = ''agent-correlation:digest'',
     ae_request_id = Some ''request'', ae_schema_version = 1\<rparr>, \<lparr>ae_id = ''b6'',
     ae_occurred_at = 2, ae_actor = ''employee-901'', ae_actor_type = ''EMPLOYEE'',
     ae_action = ''agent.run.start'', ae_target_type = ''agent_run'', ae_target_id = ''b2'',
     ae_result = ''QUEUED'', ae_reason = Some
     ''definition=def@1;bindingDigest=0000000000000000000000000000000000000000000000000000000000000000;bindingSource=DEV_FAKE;requestRef=digest;idempotencyRef=digest'',
     ae_correlation_id = ''agent-correlation:digest'', ae_request_id = Some ''request'',
     ae_schema_version = 1\<rparr>]\<rparr>"

definition demo_db3 :: agent_db where
  "demo_db3 = snd (accept_workflow_event (demo_agent_env ''c'' 3)
     (demo_event_of ''e2'' ''ATTEMPT_PROVISIONING'' 2 []) demo_db2)"

definition demo_db4 :: agent_db where
  "demo_db4 = snd (accept_workflow_event (demo_agent_env ''d'' 4)
     (demo_event_of ''e3'' ''ATTEMPT_RUNNING'' 3 []) demo_db3)"

definition succeeds :: "('e, 'a) res \<Rightarrow> bool" where
  "succeeds m = (case m of Inl _ \<Rightarrow> False | Inr _ \<Rightarrow> True)"

lemma after_succeeds: "succeeds m \<Longrightarrow> \<exists>out. m = Inr (out, after m)"
  by (auto simp: succeeds_def after_def split: sum.splits)

lemma demo_registered:
  "succeeds (register_definition (demo_agent_env ''a'' 1) demo_register empty_agent_db)"
  by code_simp

lemma demo_started:
  "after (start_run (demo_agent_env ''b'' 2) demo_codec_start demo_start demo_db1) = demo_db2"
  by code_simp

lemma demo_start_succeeds:
  "succeeds (start_run (demo_agent_env ''b'' 2) demo_codec_start demo_start demo_db1)"
proof (rule ccontr)
  assume "\<not> succeeds (start_run (demo_agent_env ''b'' 2) demo_codec_start demo_start demo_db1)"
  then have "after (start_run (demo_agent_env ''b'' 2) demo_codec_start demo_start demo_db1) = empty_agent_db"
    by (auto simp: succeeds_def after_def split: sum.splits)
  with demo_started show False by (simp add: demo_db2_def empty_agent_db_def)
qed

lemma demo_attempt_row:
  "map (\<lambda>a. (tr_id a, tr_run_id a, tr_generation a, tr_event_sequence a, tr_state a))
     (ad_attempts demo_db3) = [(''b3'', ''b2'', 1, 2, PROVISIONING)]"
  by code_simp

end
