(* ===== verification/Agent_Safety.thy ===== *)
theory Agent_Safety
  imports Agent_Demo
begin

section \<open>The agent module: reachable states\<close>

text \<open>
  The handlers of the agent module as one step relation, and what holds in every state reachable
  from empty tables. Handlers run one after another because each holds the locks of the rows it
  changes; the interleaving of queue workers is the subject of \<open>Agent_Queue_Safety\<close>.
\<close>

definition same_core :: "agent_db \<Rightarrow> agent_db \<Rightarrow> bool" where
  "same_core db db' \<longleftrightarrow> ad_runs db' = ad_runs db \<and> ad_attempts db' = ad_attempts db
     \<and> ad_events db' = ad_events db"

lemma same_core_inv: "same_core db db' \<Longrightarrow> agent_inv db' = agent_inv db"
  by (rule agent_inv_core) (simp_all add: same_core_def)

lemma same_core_refl [simp]: "same_core db db"
  by (simp add: same_core_def)

lemma same_core_trans: "same_core a b \<Longrightarrow> same_core b c \<Longrightarrow> same_core a c"
  by (simp add: same_core_def)

lemma park_core: "park now db = Inr db' \<Longrightarrow> same_core db db'"
  unfolding park_def park_expired_workflow_claims_def by (auto simp: same_core_def split: if_splits)

lemma claim_core: "claim now token mode limit db = Inr (cs, db') \<Longrightarrow> same_core db db'"
  unfolding claim_def claim_workflow_commands_def Let_def
  by (auto simp: same_core_def res_simps split: if_splits)

lemma persist_core: "persist now c what db = Inr (r, db') \<Longrightarrow> same_core db db'"
  unfolding persist_def record_workflow_command_dispatch_def
  by (auto simp: same_core_def res_simps split: option.splits if_splits)

lemma register_core: "register_definition env command db = Inr (d, db') \<Longrightarrow> same_core db db'"
  unfolding register_definition_def insert_definition_def Let_def
  by (auto simp: same_core_def res_simps append_agent_audit_def split: if_splits)

inductive agent_step :: "agent_db \<Rightarrow> agent_db \<Rightarrow> bool" where
  start: "start_run env K command db = Inr (out, db') \<Longrightarrow> new_ids_ok env \<Longrightarrow>
     fresh_event_id env db \<Longrightarrow> agent_step db db'"
| event: "db' = snd (accept_workflow_event env e db) \<Longrightarrow> agent_step db db'"
| cancel: "cancel_attempt env K' control db = Inr (out', db') \<Longrightarrow> agent_step db db'"
| resume: "resume_attempt env K' control db = Inr (out', db') \<Longrightarrow> agent_step db db'"
| register: "register_definition env defining db = Inr (d, db') \<Longrightarrow> agent_step db db'"
| parked: "park now db = Inr db' \<Longrightarrow> agent_step db db'"
| claimed: "claim now token mode limit db = Inr (cs, db') \<Longrightarrow> agent_step db db'"
| recorded: "persist now c what db = Inr (r, db') \<Longrightarrow> agent_step db db'"

lemma agent_step_inv: "agent_step db db' \<Longrightarrow> agent_inv db \<Longrightarrow> agent_inv db'"
proof (induction rule: agent_step.induct)
  case (start env K command db out db')
  then show ?case by (meson start_run_inv)
next
  case (event db' env e db)
  then show ?case by (simp add: accept_workflow_event_inv)
next
  case (cancel env K' control db out' db')
  then show ?case by (meson cancel_attempt_inv)
next
  case (resume env K' control db out' db')
  then show ?case by (meson resume_attempt_inv)
next
  case (register env defining db d db')
  then show ?case using register_core same_core_inv by blast
next
  case (parked now db db')
  then show ?case using park_core same_core_inv by blast
next
  case (claimed now token mode limit db cs db')
  then show ?case using claim_core same_core_inv by blast
next
  case (recorded now c what db r db')
  then show ?case using persist_core same_core_inv by blast
qed

definition agent_reachable :: "agent_db \<Rightarrow> bool" where
  "agent_reachable db \<longleftrightarrow> agent_step\<^sup>*\<^sup>* empty_agent_db db"

lemma agent_reachable_inv: "agent_reachable db \<Longrightarrow> agent_inv db"
  unfolding agent_reachable_def
proof (induction rule: rtranclp_induct)
  case base
  show ?case by (simp add: agent_inv_defs empty_agent_db_def)
next
  case (step db db')
  then show ?case by (blast intro: agent_step_inv)
qed

subsection \<open>Properties\<close>

text \<open>
  C7: the canonical event log of every attempt is gapless. In every reachable state the events
  stored for an attempt's current generation carry exactly the sequence numbers 1 up to the
  attempt's counter, those of each earlier generation 1 up to some number, none belongs to a later
  generation, and no two events share their position or their id.
\<close>

theorem event_log_gapless:
  assumes "agent_reachable db" and "a \<in> set (ad_attempts db)"
  shows "ev_sequence ` {e \<in> set (ad_events db). ev_attempt_id e = tr_id a
           \<and> ev_generation e = tr_generation a} = {1..tr_event_sequence a}
    \<and> (\<forall>g. 1 \<le> g \<and> g < tr_generation a \<longrightarrow>
         (\<exists>n. ev_sequence ` {e \<in> set (ad_events db). ev_attempt_id e = tr_id a
            \<and> ev_generation e = g} = {1..n}))
    \<and> (\<forall>e \<in> set (ad_events db). ev_attempt_id e = tr_id a \<longrightarrow> ev_generation e \<le> tr_generation a)
    \<and> distinct (map event_position (ad_events db)) \<and> distinct (map ev_id (ad_events db))"
proof -
  from assms(1) have inv: "agent_inv db" by (rule agent_reachable_inv)
  have "ev_generation e \<le> tr_generation a" if "e \<in> set (ad_events db)" "ev_attempt_id e = tr_id a" for e
    using inv that assms(2) same_key [of tr_id "ad_attempts db" _ a]
    by (fastforce simp: agent_inv_def events_inv_def keys_inv_def)
  with agent_inv_attempt(5,6) [OF inv assms(2)] inv show ?thesis
    by (simp add: sequences_def agent_inv_def keys_inv_def)
qed

text \<open>
  A run and its attempt never disagree. In every reachable state an attempt's run exists, has
  that attempt as its latest and no other, and is ACTIVE exactly while the attempt is not in a
  terminal state; a terminal attempt's run carries the matching terminal state.
\<close>

theorem run_matches_attempt:
  assumes "agent_reachable db" and "a \<in> set (ad_attempts db)"
  shows "\<exists>r. row_by rr_id (tr_run_id a) (ad_runs db) = Some r
    \<and> rr_latest_attempt_id r = tr_id a
    \<and> (\<forall>b \<in> set (ad_attempts db). tr_run_id b = tr_run_id a \<longrightarrow> b = a)
    \<and> (rr_state r = ACTIVE \<longleftrightarrow> tr_state a \<notin> {SUCCEEDED, FAILED, CANCELED, TIMED_OUT})
    \<and> (tr_state a = SUCCEEDED \<longrightarrow> rr_state r = RUN_SUCCEEDED)
    \<and> (tr_state a = FAILED \<longrightarrow> rr_state r = RUN_FAILED)
    \<and> (tr_state a = CANCELED \<longrightarrow> rr_state r = RUN_CANCELED)
    \<and> (tr_state a = TIMED_OUT \<longrightarrow> rr_state r = RUN_TIMED_OUT)"
proof -
  from assms(1) have inv: "agent_inv db" by (rule agent_reachable_inv)
  then obtain r where r: "r \<in> set (ad_runs db)" "rr_id r = tr_run_id a"
      "rr_latest_attempt_id r = tr_id a" "rr_state r = run_state_for (tr_state a)"
    using assms(2) unfolding agent_inv_def runs_inv_def by blast
  have "row_by rr_id (tr_run_id a) (ad_runs db) = Some r"
    using inv r by (intro row_by_unique) (simp_all add: agent_inv_def keys_inv_def)
  moreover have "row_by tr_id (tr_id a) (ad_attempts db) = Some a"
    using inv assms(2) by (intro row_by_unique) (simp_all add: agent_inv_def keys_inv_def)
  then have "\<forall>b \<in> set (ad_attempts db). tr_run_id b = tr_run_id a \<longrightarrow> b = a"
    using attempt_row_unique [OF inv] by blast
  moreover have "rr_state r = ACTIVE \<longleftrightarrow> tr_state a \<notin> {SUCCEEDED, FAILED, CANCELED, TIMED_OUT}"
    by (cases "tr_state a") (simp_all add: r(4) run_state_for_def)
  ultimately show ?thesis using r(3,4) by (auto simp: run_state_for_def)
qed

text \<open>
  Fencing tokens separate generations. In every reachable state an attempt's token is the one
  determined by its id and generation, the generation is at least one, and an attempt that waits
  for input has a stored checkpoint.
\<close>

theorem fencing_token_of_generation:
  assumes "agent_reachable db" and "a \<in> set (ad_attempts db)"
  shows "tr_fencing_token a
      = ''fence:'' @ tr_id a @ '':generation:'' @ str_of_int (tr_generation a)
    \<and> 1 \<le> tr_generation a
    \<and> (tr_state a = WAITING_INPUT \<longrightarrow> tr_checkpoint_id a \<noteq> None)"
  using agent_inv_attempt(1,3,4) [OF agent_reachable_inv [OF assms(1)] assms(2)]
  by (simp add: fence_for_def)

subsection \<open>Witnesses\<close>

lemma demo_reachable: "agent_reachable demo_db3"
proof -
  let ?r = "register_definition (demo_agent_env ''a'' 1) demo_register empty_agent_db"
  let ?s = "start_run (demo_agent_env ''b'' 2) demo_codec_start demo_start demo_db1"
  obtain d where "?r = Inr (d, demo_db1)"
    using after_succeeds [OF demo_registered] unfolding demo_db1_def by blast
  then have one: "agent_step empty_agent_db demo_db1" by (rule register)
  obtain out where "?s = Inr (out, demo_db2)"
    using after_succeeds [OF demo_start_succeeds] demo_started by auto
  moreover have "new_ids_ok (demo_agent_env ''b'' 2)"
    by (simp add: new_ids_ok_def demo_agent_env_def demo_platform_def)
  moreover have "fresh_event_id (demo_agent_env ''b'' 2) demo_db1" by code_simp
  ultimately have two: "agent_step demo_db1 demo_db2" by (rule start)
  have three: "agent_step demo_db2 demo_db3" unfolding demo_db3_def by (rule event) simp
  from one two three show ?thesis
    unfolding agent_reachable_def by (meson converse_rtranclp_into_rtranclp rtranclp.rtrancl_refl)
qed

definition demo_row :: attempt_row where
  "demo_row = hd (ad_attempts demo_db3)"

lemma demo_row_in: "demo_row \<in> set (ad_attempts demo_db3)"
  "tr_id demo_row = ''b3''" "tr_run_id demo_row = ''b2''" "tr_generation demo_row = 1"
  "tr_event_sequence demo_row = 2" "tr_state demo_row = PROVISIONING"
  using demo_attempt_row unfolding demo_row_def by (cases "ad_attempts demo_db3"; simp)+

theorem event_log_gapless_witness:
  "ev_sequence ` {e \<in> set (ad_events demo_db3). ev_attempt_id e = ''b3'' \<and> ev_generation e = 1} = {1..2}"
  using event_log_gapless [OF demo_reachable demo_row_in(1)] by (simp add: demo_row_in)

theorem run_matches_attempt_witness:
  "\<exists>r. row_by rr_id ''b2'' (ad_runs demo_db3) = Some r \<and> rr_state r = ACTIVE"
  using run_matches_attempt [OF demo_reachable demo_row_in(1)] by (auto simp: demo_row_in)

theorem fencing_token_of_generation_witness:
  "tr_fencing_token demo_row = ''fence:b3:generation:1''"
  using fencing_token_of_generation [OF demo_reachable demo_row_in(1)]
  by (simp add: demo_row_in str_of_int_def) code_simp

end
