(* ===== verification/Agent_Idempotency.thy ===== *)
theory Agent_Idempotency
  imports Agent_Demo "HOL-Library.Countable"
begin

section \<open>The agent module: concurrency and idempotency properties\<close>

text \<open>
  What the interpretations of the versioned store and of the idempotency store give the agent
  module: one winner among writers of the same revision, at-most-once execution of a command under
  a key, and refusal of the key for another request.
\<close>

subsection \<open>Optimistic concurrency\<close>

text \<open>
  among writers that read the same attempt revision exactly the first wins. Each further
  compare-and-set with that revision is refused and leaves the tables alone; the stored attempt is
  the winner's, one revision on.
\<close>

theorem attempt_cas_one_winner:
  assumes "row_by tr_id k (ad_attempts db) = Some r"
  shows "\<exists>w db'. race (\<lambda>m db. update_attempt k (tr_revision r) m db) (m # ms) db
      = (Some w # replicate (length ms) None, db')
    \<and> row_by tr_id k (ad_attempts db') = Some w
    \<and> w = mutate_attempt m r \<and> tr_revision w = tr_revision r + 1"
proof -
  obtain w db' where w: "race (\<lambda>m db. update_attempt k (tr_revision r) m db) (m # ms) db
      = (Some w # replicate (length ms) None, db')"
    "update_attempt k (tr_revision r) m db = Some (w, db')"
    "row_by tr_id k (ad_attempts db') = Some w" "tr_revision w = tr_revision r + 1"
    using attempt_store.race_one_winner [OF assms refl, of m ms] by blast
  from w(2) assms have "w = mutate_attempt m r"
    unfolding update_attempt_def by (auto simp: cas_row_def split: option.splits if_splits)
  with w show ?thesis by blast
qed

definition small_row :: attempt_row where
  "small_row = row_of_attempt (demo_attempt QUEUED)"

definition small_db :: agent_db where
  "small_db = \<lparr>ad_definitions = [], ad_runs = [], ad_attempts = [small_row], ad_bindings = [],
     ad_events = [], ad_receipts = [], ad_checkpoints = [], ad_commands = [], ad_idempotency = [],
     ad_audit = []\<rparr>"

definition small_mutation :: "attempt_state \<Rightarrow> attempt_mutation" where
  "small_mutation s = attempt_mutation_of (demo_attempt s) None 0 9"

theorem attempt_cas_one_winner_witness:
  "\<exists>w db'. race (\<lambda>m db. update_attempt ''at'' 1 m db)
      [small_mutation PROVISIONING, small_mutation CANCELING] small_db = ([Some w, None], db')
    \<and> tr_state w = PROVISIONING"
proof -
  have row: "row_by tr_id ''at'' (ad_attempts small_db) = Some small_row"
    by (simp add: small_db_def small_row_def demo_attempt_def)
  have "tr_revision small_row = 1" by (simp add: small_row_def row_of_attempt_def demo_attempt_def)
  with attempt_cas_one_winner [OF row, of "small_mutation PROVISIONING" "[small_mutation CANCELING]"]
  show ?thesis by (auto simp: small_mutation_def demo_attempt_def)
qed

subsection \<open>At most once\<close>

lemma idem_inv_cong: "ad_idempotency t' = ad_idempotency t \<Longrightarrow> idem_inv t' = idem_inv t"
  by (simp add: idem_inv_def)

lemma by_scope_cong: "ad_idempotency t' = ad_idempotency t \<Longrightarrow>
   idempotency_by_scope shared_repository a p k t' = idempotency_by_scope shared_repository a p k t"
  by (simp add: shared_repository_def bridge_by_scope_def agent_idempotency_by_scope_def)

text \<open>
  C9: an agent command runs at most once per idempotency key. Once it has succeeded, any further
  request with the same actor, operation and key returns the original result and leaves the tables
  as they are, whatever the command would now do; a request whose fingerprint differs is refused
  as a conflict. The seal has to open what it sealed, the result's JSON has to parse back, and the
  command must not write idempotency keys itself.
\<close>

theorem agent_command_at_most_once:
  assumes "idem_inv db" and "av_sealer env = Some S" and "sealer_ok S"
    and "\<forall>r. parse (dump r) = Some r"
    and "\<forall>t r t'. command t = Inr (r, t') \<longrightarrow> ad_idempotency t' = ad_idempotency t"
    and "execute_agent_command env i c1 c2 actor operation key path body dump parse command db = Inr (r, db')"
    and "av_sealer env' = Some S"
    and "nonblank_text (request_fingerprint S operation ''POST'' path' body')"
  shows "execute_agent_command env' i' c1' c2' actor operation key path' body' dump parse command' db'
    = (if request_fingerprint S operation ''POST'' path' body'
           = request_fingerprint S operation ''POST'' path body
       then Inr (r, db') else Inl AgentIdempotencyConflict)"
proof -
  let ?wrap = "\<lambda>c s. rbind (c s) (\<lambda>(result, s'). Inr (\<lparr>ip_status = 202, ip_body = dump result,
         ip_headers = [], ip_cookie = None, ip_is_problem = False\<rparr>, s'))"
  obtain S' q x where S': "av_sealer env = Some S'"
    and q: "q = \<lparr>iq_actor = actor, iq_operation = operation, iq_key = key,
        iq_fingerprint = request_fingerprint S' operation ''POST'' path body,
        iq_record_id = av_new_id env i, iq_claim_now = av_clock env c1,
        iq_complete_now = av_clock env c2\<rparr>"
    and ex: "execute_idempotent shared_repository S' q None (?wrap command) db = Inr (x, db')"
    and r: "parse (ip_body (ix_response x)) = Some r"
    by (rule execute_agent_command_Inr [OF assms(6)])
  from S' assms(2) have S: "S' = S" by simp
  have spares: "agent_keys.spares (?wrap command) (iq_actor q) (iq_operation q) (iq_key q)"
    unfolding agent_keys.spares_def
  proof (intro allI impI)
    fix s resp s'
    assume inv: "idem_inv s" and "?wrap command s = Inr (resp, s')"
    then obtain y where "command s = Inr (y, s')" by (auto simp: rbind_Inr_iff)
    with assms(5) have same: "ad_idempotency s' = ad_idempotency s" by blast
    show "idem_inv s' \<and> idempotency_by_scope shared_repository (iq_actor q) (iq_operation q) (iq_key q) s'
        = idempotency_by_scope shared_repository (iq_actor q) (iq_operation q) (iq_key q) s"
      using inv idem_inv_cong [OF same] by_scope_cong [OF same] by simp
  qed
  from agent_keys.execution_recorded [OF assms(1,3) spares ex [unfolded S]] obtain row where good: "idem_inv db'"
    and row: "idempotency_by_scope shared_repository actor operation key db' = Inr (Some row)"
      "ir_fingerprint row = request_fingerprint S operation ''POST'' path body"
    and rep: "replay S row = (Inr (ix_response x) :: (agent_error idem_error, idem_response) res)"
    by (auto simp: q S)
  define q' where "q' = \<lparr>iq_actor = actor, iq_operation = operation, iq_key = key,
        iq_fingerprint = request_fingerprint S operation ''POST'' path' body',
        iq_record_id = av_new_id env' i', iq_claim_now = av_clock env' c1',
        iq_complete_now = av_clock env' c2'\<rparr>"
  have row': "idempotency_by_scope shared_repository (iq_actor q') (iq_operation q') (iq_key q') db'
      = Inr (Some row)" using row(1) by (simp add: q'_def)
  have fp': "nonblank_text (iq_fingerprint q')" using assms(8) by (simp add: q'_def)
  show ?thesis
  proof (cases "iq_fingerprint q' = ir_fingerprint row")
    case True
    from agent_keys.recorded_request_replays [OF good fp' row' _ rep, of None "?wrap command'"] True
    obtain y where "execute_idempotent shared_repository S q' None (?wrap command') db' = Inr (y, db')"
      "ix_response y = ix_response x" by auto
    with True r row(2) show ?thesis
      by (simp add: execute_agent_command_def assms(7) q'_def [symmetric]) (simp add: q'_def)
  next
    case False
    from agent_keys.conflicting_request_rejected [OF good fp' row', of S None "?wrap command'"] False
    have "execute_idempotent shared_repository S q' None (?wrap command') db'
      = Inl (IdempotencyConflict ''Idempotency-Key is bound to a different request'')" by simp
    moreover have "\<not> contains ''in progress'' ''Idempotency-Key is bound to a different request''"
      by code_simp
    ultimately show ?thesis using False row(2)
      by (simp add: execute_agent_command_def assms(7) q'_def [symmetric]) (simp add: q'_def)
  qed
qed

text \<open>
  A sealer that opens what it seals: the response number \<open>n\<close> in an enumeration of all envelopes is
  sealed as the decimal \<open>n\<close>.
\<close>

instance pyval :: countable
  by countable_datatype

definition envelope_parts :: "idem_envelope \<Rightarrow> (string \<times> string \<times> string \<times> string) \<times>
    (int \<times> pyval \<times> (string \<times> string) list \<times> (bool \<times> string option) option \<times> bool)" where
  "envelope_parts e = ((ie_actor e, ie_operation e, ie_key e, ie_fingerprint e),
     (ip_status (ie_response e), ip_body (ie_response e), ip_headers (ie_response e),
      map_option (\<lambda>c. (ck_set c, ck_value c)) (ip_cookie (ie_response e)),
      ip_is_problem (ie_response e)))"

definition envelope_of_parts :: "(string \<times> string \<times> string \<times> string) \<times>
    (int \<times> pyval \<times> (string \<times> string) list \<times> (bool \<times> string option) option \<times> bool) \<Rightarrow> idem_envelope" where
  "envelope_of_parts = (\<lambda>((a, p, k, f), (st, b, h, c, pr)).
     \<lparr>ie_actor = a, ie_operation = p, ie_key = k, ie_fingerprint = f, ie_response =
       \<lparr>ip_status = st, ip_body = b, ip_headers = h,
        ip_cookie = map_option (\<lambda>(x, v). \<lparr>ck_set = x, ck_value = v\<rparr>) c, ip_is_problem = pr\<rparr>\<rparr>)"

lemma envelope_of_parts [simp]: "envelope_of_parts (envelope_parts e) = e"
  by (cases "ip_cookie (ie_response e)") (simp_all add: envelope_of_parts_def envelope_parts_def)

definition counting_sealer :: sealer where
  "counting_sealer = \<lparr>seal = (\<lambda>e. str_of_nat (to_nat (envelope_parts e))),
     unseal = (\<lambda>s. Some (envelope_of_parts (from_nat (nat_of_str s)))),
     request_fingerprint = (\<lambda>_ _ path _. ''sha256:'' @ path)\<rparr>"

lemma counting_sealer_ok: "sealer_ok counting_sealer"
  by (simp add: sealer_ok_def counting_sealer_def)

definition counting_env :: "instant \<Rightarrow> agent_env" where
  "counting_env now = (demo_agent_env ''k'' now)\<lparr>av_sealer := Some counting_sealer\<rparr>"

lemma counting_run:
  "\<exists>db'. execute_agent_command (counting_env 5) 0 0 0 ''actor'' ''op'' ''key'' ''/p'' PyNone PyInt
     (\<lambda>v. case v of PyInt i \<Rightarrow> Some i | _ \<Rightarrow> None) (\<lambda>s. Inr (7, s)) empty_agent_db = Inr (7, db')"
  by (simp add: execute_agent_command_def execute_idempotent_def counting_env_def counting_sealer_def
      demo_agent_env_def empty_agent_db_def shared_repository_def bridge_claim_def reserve_idempotency_def
      idem_row_ok_def nonblank_text_def bridge_by_scope_def agent_idempotency_by_scope_def idem_scope_def
      run_claimed_def bridge_complete_def agent_complete_idempotency_def completed_row_def
      set_where_def row_by_def Let_def require_def)

theorem agent_command_at_most_once_witness:
  "\<exists>db'. execute_agent_command (counting_env 5) 0 0 0 ''actor'' ''op'' ''key'' ''/p'' PyNone PyInt
       (\<lambda>v. case v of PyInt i \<Rightarrow> Some i | _ \<Rightarrow> None) (\<lambda>s. Inr (7, s)) empty_agent_db = Inr (7, db')
   \<and> execute_agent_command (counting_env 9) 3 0 1 ''actor'' ''op'' ''key'' ''/p'' PyNone PyInt
       (\<lambda>v. case v of PyInt i \<Rightarrow> Some i | _ \<Rightarrow> None) (\<lambda>s. Inr (8, s)) db' = Inr (7, db')
   \<and> execute_agent_command (counting_env 9) 3 0 1 ''actor'' ''op'' ''key'' ''/q'' PyNone PyInt
       (\<lambda>v. case v of PyInt i \<Rightarrow> Some i | _ \<Rightarrow> None) (\<lambda>s. Inr (8, s)) db' = Inl AgentIdempotencyConflict"
proof -
  obtain db' where run: "execute_agent_command (counting_env 5) 0 0 0 ''actor'' ''op'' ''key'' ''/p'' PyNone PyInt
     (\<lambda>v. case v of PyInt i \<Rightarrow> Some i | _ \<Rightarrow> None) (\<lambda>s. Inr (7, s)) empty_agent_db = Inr (7, db')"
    using counting_run by blast
  have inv: "idem_inv empty_agent_db" by (simp add: idem_inv_def empty_agent_db_def)
  have env: "av_sealer (counting_env n) = Some counting_sealer" for n by (simp add: counting_env_def)
  have fp: "nonblank_text (request_fingerprint counting_sealer ''op'' ''POST'' p PyNone)" for p
    by (simp add: counting_sealer_def nonblank_text_def)
  note once = agent_command_at_most_once [where i' = 3 and c1' = 0 and c2' = 1 and body' = PyNone
      and command' = "\<lambda>s. Inr (8, s)", OF inv env counting_sealer_ok _ _ run env fp]
  have dump: "\<forall>r. (case PyInt r of PyInt i \<Rightarrow> Some i | _ \<Rightarrow> None) = Some r" by simp
  have leaves: "\<forall>t r t'. Inr (7 :: int, t) = (Inr (r, t') :: (agent_error, int \<times> agent_db) res)
      \<longrightarrow> ad_idempotency t' = ad_idempotency t" by simp
  from run once [OF dump leaves, of 9 "''/p''"] once [OF dump leaves, of 9 "''/q''"]
  show ?thesis by (auto simp: counting_sealer_def)
qed

end
