(* ===== verification/Authz_Store.thy ===== *)
theory Authz_Store
  imports Interfaces Audit_Log
begin

section \<open>The authorization module: data and repository\<close>

text \<open>
  \<^verbatim>\<open>authorization/domain/models.py\<close>, \<^verbatim>\<open>authorization/adapters/sqlalchemy.py\<close> and the tables of
  \<^verbatim>\<open>migrations/authorization/0001\<close> to \<^verbatim>\<open>0004\<close>: grants, principal versions with their fence, the
  convergence work of security changes and the principals each work still holds. A table is a list
  of rows in insertion order; a statement that violates a constraint raises.
\<close>

datatype scope_type = PLATFORM | WORKSPACE
datatype grant_status = GRANT_ACTIVE | GRANT_REVOKED
datatype work_status = WORK_PENDING | WORK_COMPLETED | WORK_CANCELLED
datatype work_phase =
  SOURCE_REGISTERED | RECOMPUTE_PENDING | VERSION_PENDING | PHASE_DONE | PHASE_CANCELLED

datatype authz_error =
    InvalidGrant string
  | GrantNotFound string
  | StaleGrantVersion string
  | AuthorizationUnavailable string
  | AuthzValueError string
  | AuthzRuntimeError string
  | AuthzIntegrityError string
  | AuthzNoResultFound

record scope =
  sc_type :: scope_type
  sc_id :: "string option"

definition make_scope :: "scope_type \<Rightarrow> string option \<Rightarrow> (authz_error, scope) res" where
  "make_scope t i =
     rbind (case i of None \<Rightarrow> Inr None
        | Some v \<Rightarrow> if strip v = [] then Inl (AuthzValueError ''scope id must not be blank'')
                   else Inr (Some (strip v))) (\<lambda>i'.
     if t = PLATFORM \<and> i' \<noteq> None then Inl (AuthzValueError ''platform scope has no resource id'')
     else if t = WORKSPACE \<and> i' = None then Inl (AuthzValueError ''workspace scope requires an id'')
     else Inr \<lparr>sc_type = t, sc_id = i'\<rparr>)"

definition scope_ok :: "scope \<Rightarrow> bool" where
  "scope_ok s \<longleftrightarrow> (sc_type s = PLATFORM \<longleftrightarrow> sc_id s = None)"

lemma make_scope_ok: "make_scope t i = Inr s \<Longrightarrow> scope_ok s"
  by (cases t; cases i) (auto simp: make_scope_def scope_ok_def split: if_splits)

definition scope_type_value :: "scope_type \<Rightarrow> string" where
  "scope_type_value t = (case t of PLATFORM \<Rightarrow> ''PLATFORM'' | WORKSPACE \<Rightarrow> ''WORKSPACE'')"

record grant_row =
  gr_id :: string
  gr_principal :: string
  gr_capability :: string
  gr_scope_type :: scope_type
  gr_scope_id :: "string option"
  gr_source :: string
  gr_valid_from :: "instant option"
  gr_valid_to :: "instant option"
  gr_status :: grant_status
  gr_version :: int
  gr_created_at :: instant
  gr_updated_at :: instant
  gr_revoked_at :: "instant option"
  gr_revoked_by :: "string option"
  gr_revoke_reason :: "string option"

record principal_row =
  pv_account :: string
  pv_version :: int
  pv_fence :: int
  pv_dirty :: "int option"
  pv_reason :: "string option"
  pv_updated_at :: instant

record work_row =
  cw_id :: string
  cw_module :: string
  cw_actor :: string
  cw_operation :: string
  cw_key :: string
  cw_reason :: string
  cw_xid :: "string option"
  cw_claim_id :: "string option"
  cw_fingerprint :: "string option"
  cw_generations :: "(string, int) dict"
  cw_accounts :: "string list"
  cw_workspaces :: "string list"
  cw_recompute :: bool
  cw_status :: work_status
  cw_phase :: work_phase
  cw_created_at :: instant
  cw_updated_at :: instant
  cw_completed_at :: "instant option"
  cw_cancelled_at :: "instant option"

record held_row =
  hp_work :: string
  hp_account :: string
  hp_generation :: int
  hp_reason :: string
  hp_created_at :: instant

record authz_db =
  az_grants :: "grant_row list"
  az_principals :: "principal_row list"
  az_works :: "work_row list"
  az_held :: "held_row list"
  az_audit :: audit_log

subsection \<open>Constraints\<close>

definition nonblank_opt :: "string option \<Rightarrow> bool" where
  "nonblank_opt s = (case s of None \<Rightarrow> False | Some x \<Rightarrow> nonblank_text x)"

definition grant_row_ok :: "grant_row \<Rightarrow> bool" where
  "grant_row_ok g = (nonblank_text (gr_principal g) \<and> nonblank_text (gr_capability g)
     \<and> nonblank_text (gr_source g)
     \<and> (case gr_scope_type g of PLATFORM \<Rightarrow> gr_scope_id g = None
        | WORKSPACE \<Rightarrow> nonblank_opt (gr_scope_id g))
     \<and> (case (gr_valid_from g, gr_valid_to g) of (Some a, Some b) \<Rightarrow> a < b | _ \<Rightarrow> True)
     \<and> 1 \<le> gr_version g \<and> int4 (gr_version g) \<and> gr_created_at g \<le> gr_updated_at g
     \<and> (case gr_status g of
          GRANT_ACTIVE \<Rightarrow> gr_revoked_at g = None \<and> gr_revoked_by g = None
            \<and> gr_revoke_reason g = None
        | GRANT_REVOKED \<Rightarrow> gr_revoked_at g \<noteq> None \<and> nonblank_opt (gr_revoked_by g)
            \<and> nonblank_opt (gr_revoke_reason g)))"

definition principal_row_ok :: "principal_row \<Rightarrow> bool" where
  "principal_row_ok p = (nonblank_text (pv_account p) \<and> 1 \<le> pv_version p \<and> int8 (pv_version p)
     \<and> 0 \<le> pv_fence p \<and> int8 (pv_fence p)
     \<and> (case pv_dirty p of None \<Rightarrow> pv_reason p = None
        | Some g \<Rightarrow> 0 < g \<and> g \<le> pv_fence p \<and> nonblank_opt (pv_reason p)))"

definition xid_text :: "string \<Rightarrow> bool" where
  "xid_text s = (s \<noteq> [] \<and> list_all (\<lambda>c. CHR ''0'' \<le> c \<and> c \<le> CHR ''9'') s)"

definition work_state_ok :: "work_row \<Rightarrow> bool" where
  "work_state_ok w = (case cw_status w of
       WORK_PENDING \<Rightarrow> cw_phase w \<in> {SOURCE_REGISTERED, RECOMPUTE_PENDING, VERSION_PENDING}
         \<and> cw_completed_at w = None \<and> cw_cancelled_at w = None
     | WORK_COMPLETED \<Rightarrow> cw_phase w = PHASE_DONE \<and> cw_completed_at w \<noteq> None
         \<and> cw_cancelled_at w = None
     | WORK_CANCELLED \<Rightarrow> cw_phase w = PHASE_CANCELLED \<and> cw_completed_at w = None
         \<and> cw_cancelled_at w \<noteq> None)"

definition within_life :: "work_row \<Rightarrow> instant option \<Rightarrow> bool" where
  "within_life w t = (case t of None \<Rightarrow> True
     | Some x \<Rightarrow> cw_created_at w \<le> x \<and> x \<le> cw_updated_at w)"

definition work_row_ok :: "work_row \<Rightarrow> bool" where
  "work_row_ok w = (list_all nonblank_text [cw_module w, cw_actor w, cw_operation w, cw_key w, cw_reason w]
     \<and> (case cw_xid w of None \<Rightarrow> True | Some x \<Rightarrow> xid_text x)
     \<and> list_all (\<lambda>(a, g). 0 < g) (cw_generations w)
     \<and> list_all (\<lambda>a. a \<noteq> []) (cw_accounts w) \<and> list_all (\<lambda>a. a \<noteq> []) (cw_workspaces w)
     \<and> work_state_ok w
     \<and> cw_created_at w \<le> cw_updated_at w
     \<and> within_life w (cw_completed_at w) \<and> within_life w (cw_cancelled_at w)
     \<and> (case cw_claim_id w of None \<Rightarrow> cw_fingerprint w = None
        | Some _ \<Rightarrow> nonblank_opt (cw_fingerprint w)))"

definition held_row_ok :: "held_row \<Rightarrow> bool" where
  "held_row_ok h = (nonblank_text (hp_account h) \<and> 0 < hp_generation h \<and> int8 (hp_generation h)
     \<and> nonblank_text (hp_reason h))"

subsection \<open>Grants\<close>

definition insert_grant :: "grant_row \<Rightarrow> authz_db \<Rightarrow> (authz_error, grant_row \<times> authz_db) res" where
  "insert_grant g db =
     (if \<not> grant_row_ok g \<or> gr_id g \<in> gr_id ` set (az_grants db)
      then Inl (AuthzIntegrityError ''grant'')
      else Inr (g, db\<lparr>az_grants := az_grants db @ [g]\<rparr>))"

definition grant_by_id :: "string \<Rightarrow> authz_db \<Rightarrow> grant_row option" where
  "grant_by_id i db = row_by gr_id i (az_grants db)"

definition grant_in_force :: "instant \<Rightarrow> grant_row \<Rightarrow> bool" where
  "grant_in_force now g = (gr_status g = GRANT_ACTIVE
     \<and> (case gr_valid_from g of None \<Rightarrow> True | Some t \<Rightarrow> t \<le> now)
     \<and> (case gr_valid_to g of None \<Rightarrow> True | Some t \<Rightarrow> now < t))"

text \<open>\<open>ORDER BY capability, scope_type, scope_id, id\<close>: a NULL \<open>scope_id\<close> sorts last; no two scopes of
  one type mix NULL and text.\<close>

definition grant_order :: "grant_row \<Rightarrow> string \<times> string \<times> string \<times> string" where
  "grant_order g = (gr_capability g, scope_type_value (gr_scope_type g),
     (case gr_scope_id g of None \<Rightarrow> [] | Some i \<Rightarrow> i), gr_id g)"

definition repo_effective_grants ::
  "string \<Rightarrow> string option \<Rightarrow> scope option \<Rightarrow> instant \<Rightarrow> authz_db \<Rightarrow> grant_row list" where
  "repo_effective_grants who capability scope now db =
     sort_key grant_order (filter (\<lambda>g. gr_principal g = who \<and> grant_in_force now g
       \<and> (case capability of None \<Rightarrow> True | Some c \<Rightarrow> gr_capability g = c)
       \<and> (case scope of None \<Rightarrow> True
          | Some s \<Rightarrow> gr_scope_type g = sc_type s \<and> gr_scope_id g = sc_id s)) (az_grants db))"

definition revoked_row :: "string \<Rightarrow> string \<Rightarrow> instant \<Rightarrow> grant_row \<Rightarrow> grant_row" where
  "revoked_row actor reason now g = g\<lparr>gr_status := GRANT_REVOKED, gr_version := gr_version g + 1,
     gr_updated_at := now, gr_revoked_at := Some now, gr_revoked_by := Some actor,
     gr_revoke_reason := Some reason\<rparr>"

definition revoke_grant ::
  "string \<Rightarrow> int \<Rightarrow> string \<Rightarrow> string \<Rightarrow> instant \<Rightarrow> authz_db
   \<Rightarrow> (authz_error, grant_row option \<times> authz_db) res" where
  "revoke_grant i expected actor reason now db =
     (case grant_by_id i db of
        None \<Rightarrow> Inr (None, db)
      | Some g \<Rightarrow>
          if gr_status g \<noteq> GRANT_ACTIVE \<or> gr_version g \<noteq> expected then Inr (None, db)
          else if \<not> grant_row_ok (revoked_row actor reason now g)
          then Inl (AuthzIntegrityError ''grant'')
          else Inr (Some (revoked_row actor reason now g), db\<lparr>az_grants :=
             set_where (\<lambda>x. gr_id x = i) (revoked_row actor reason now) (az_grants db)\<rparr>))"

subsection \<open>Principal versions and the fence\<close>

definition principal_version :: "string \<Rightarrow> authz_db \<Rightarrow> principal_row option" where
  "principal_version a db = row_by pv_account a (az_principals db)"

text \<open>\<open>INSERT ... ON CONFLICT (account_id) DO UPDATE\<close>.\<close>

definition upsert_principal ::
  "principal_row \<Rightarrow> (principal_row \<Rightarrow> principal_row) \<Rightarrow> authz_db
   \<Rightarrow> (authz_error, principal_row \<times> authz_db) res" where
  "upsert_principal fresh change db =
     (case row_by pv_account (pv_account fresh) (az_principals db) of
        None \<Rightarrow>
          if principal_row_ok fresh
          then Inr (fresh, db\<lparr>az_principals := az_principals db @ [fresh]\<rparr>)
          else Inl (AuthzIntegrityError ''principal_version'')
      | Some p \<Rightarrow>
          if principal_row_ok fresh \<and> principal_row_ok (change p)
          then Inr (change p, db\<lparr>az_principals :=
                 set_where (\<lambda>x. pv_account x = pv_account fresh) change (az_principals db)\<rparr>)
          else Inl (AuthzIntegrityError ''principal_version''))"

definition bump_principal_version ::
  "string \<Rightarrow> instant \<Rightarrow> authz_db \<Rightarrow> (authz_error, principal_row \<times> authz_db) res" where
  "bump_principal_version a now =
     upsert_principal \<lparr>pv_account = a, pv_version = 2, pv_fence = 0, pv_dirty = None,
        pv_reason = None, pv_updated_at = now\<rparr>
      (\<lambda>p. p\<lparr>pv_version := pv_version p + 1, pv_updated_at := now\<rparr>)"

definition repo_mark_fence ::
  "string \<Rightarrow> string \<Rightarrow> instant \<Rightarrow> authz_db \<Rightarrow> (authz_error, int \<times> authz_db) res" where
  "repo_mark_fence a reason now db =
     rbind (upsert_principal \<lparr>pv_account = a, pv_version = 1, pv_fence = 1, pv_dirty = Some 1,
        pv_reason = Some reason, pv_updated_at = now\<rparr>
      (\<lambda>p. p\<lparr>pv_fence := pv_fence p + 1, pv_dirty := Some (pv_fence p + 1),
             pv_reason := Some reason, pv_updated_at := now\<rparr>) db)
       (\<lambda>(p, db'). Inr (the (pv_dirty p), db'))"

definition principal_ids :: "authz_db \<Rightarrow> string list" where
  "principal_ids db = sort (remdups (map pv_account (az_principals db) @ map gr_principal (az_grants db)))"

subsection \<open>Convergence work\<close>

definition work_by_source ::
  "string \<Rightarrow> string \<Rightarrow> string \<Rightarrow> string \<Rightarrow> string option \<Rightarrow> authz_db \<Rightarrow> work_row option" where
  "work_by_source source_module actor operation key claim_id db =
     (let found = filter (\<lambda>w. cw_module w = source_module \<and>
            (case claim_id of
               Some c \<Rightarrow> cw_claim_id w = Some c
             | None \<Rightarrow> cw_actor w = actor \<and> cw_operation w = operation \<and> cw_key w = key))
            (az_works db)
      in if found = [] then None
         else Some (last (sort_key (\<lambda>w. (cw_created_at w, cw_id w)) found)))"

definition work_by_id :: "string \<Rightarrow> authz_db \<Rightarrow> work_row option" where
  "work_by_id i db = row_by cw_id i (az_works db)"

definition claim_key :: "work_row \<Rightarrow> (string \<times> string) option" where
  "claim_key w = map_option (\<lambda>c. (cw_module w, c)) (cw_claim_id w)"

definition insert_convergence_work ::
  "work_row \<Rightarrow> authz_db \<Rightarrow> (authz_error, work_row \<times> authz_db) res" where
  "insert_convergence_work w db =
     (if \<not> work_row_ok w \<or> cw_id w \<in> cw_id ` set (az_works db)
         \<or> (claim_key w \<noteq> None \<and> claim_key w \<in> claim_key ` set (az_works db))
      then Inl (AuthzIntegrityError ''convergence_work'')
      else Inr (w, db\<lparr>az_works := az_works db @ [w]\<rparr>))"

definition held_key :: "held_row \<Rightarrow> string \<times> string" where
  "held_key h = (hp_work h, hp_account h)"

definition held_position :: "held_row \<Rightarrow> string \<times> int" where
  "held_position h = (hp_account h, hp_generation h)"

definition insert_pending_principal ::
  "held_row \<Rightarrow> authz_db \<Rightarrow> (authz_error, authz_db) res" where
  "insert_pending_principal h db =
     (if \<not> held_row_ok h \<or> held_key h \<in> held_key ` set (az_held db)
         \<or> held_position h \<in> held_position ` set (az_held db)
         \<or> hp_work h \<notin> cw_id ` set (az_works db)
      then Inl (AuthzIntegrityError ''convergence_principal_pending'')
      else Inr (db\<lparr>az_held := az_held db @ [h]\<rparr>))"

text \<open>\<open>UPDATE convergence_work ... WHERE id = :id AND status = 'PENDING'\<close>.\<close>

definition update_pending_work ::
  "string \<Rightarrow> (work_row \<Rightarrow> work_row) \<Rightarrow> authz_db \<Rightarrow> (authz_error, work_row option \<times> authz_db) res" where
  "update_pending_work i f db =
     (case work_by_id i db of
        None \<Rightarrow> Inr (None, db)
      | Some w \<Rightarrow>
          if cw_status w \<noteq> WORK_PENDING then Inr (None, db)
          else if \<not> work_row_ok (f w) then Inl (AuthzIntegrityError ''convergence_work'')
          else Inr (Some (f w), db\<lparr>az_works := set_where (\<lambda>x. cw_id x = i) f (az_works db)\<rparr>))"

definition update_convergence_effects ::
  "string \<Rightarrow> string list \<Rightarrow> string list \<Rightarrow> bool \<Rightarrow> instant \<Rightarrow> authz_db
   \<Rightarrow> (authz_error, work_row option \<times> authz_db) res" where
  "update_convergence_effects i accounts workspaces recompute now =
     update_pending_work i (\<lambda>w. w\<lparr>cw_accounts := accounts, cw_workspaces := workspaces,
       cw_recompute := recompute, cw_updated_at := now\<rparr>)"

definition update_convergence_phase ::
  "string \<Rightarrow> work_phase \<Rightarrow> instant \<Rightarrow> authz_db \<Rightarrow> (authz_error, authz_db) res" where
  "update_convergence_phase i phase now db =
     rbind (update_pending_work i (\<lambda>w. w\<lparr>cw_phase := phase, cw_updated_at := now\<rparr>) db)
       (\<lambda>(_, db'). Inr db')"

definition complete_convergence_work ::
  "string \<Rightarrow> instant \<Rightarrow> authz_db \<Rightarrow> (authz_error, authz_db) res" where
  "complete_convergence_work i now db =
     rbind (update_pending_work i (\<lambda>w. w\<lparr>cw_status := WORK_COMPLETED, cw_phase := PHASE_DONE,
         cw_completed_at := Some now, cw_updated_at := now\<rparr>) db) (\<lambda>(_, db'). Inr db')"

definition cancel_convergence_work ::
  "string \<Rightarrow> instant \<Rightarrow> authz_db \<Rightarrow> (authz_error, authz_db) res" where
  "cancel_convergence_work i now db =
     rbind (update_pending_work i (\<lambda>w. w\<lparr>cw_status := WORK_CANCELLED, cw_phase := PHASE_CANCELLED,
         cw_cancelled_at := Some now, cw_updated_at := now\<rparr>) db) (\<lambda>(_, db'). Inr db')"

text \<open>The rows still held for an account, newest generation first.\<close>

definition newest_held :: "string \<Rightarrow> held_row list \<Rightarrow> held_row option" where
  "newest_held a rows =
     (case sort_key (\<lambda>h. (- hp_generation h, hp_work h)) (filter (\<lambda>h. hp_account h = a) rows) of
        [] \<Rightarrow> None | h # _ \<Rightarrow> Some h)"

definition settled_principal ::
  "bool \<Rightarrow> held_row option \<Rightarrow> instant \<Rightarrow> principal_row \<Rightarrow> principal_row" where
  "settled_principal bump remaining now p =
     p\<lparr>pv_version := pv_version p + (if bump then 1 else 0),
       pv_dirty := map_option hp_generation remaining,
       pv_reason := map_option hp_reason remaining, pv_updated_at := now\<rparr>"

definition settle_pending_principal ::
  "string \<Rightarrow> string \<Rightarrow> bool \<Rightarrow> instant \<Rightarrow> authz_db
   \<Rightarrow> (authz_error, (int \<times> int) option \<times> authz_db) res" where
  "settle_pending_principal i a bump now db =
     (case principal_version a db of
        None \<Rightarrow> Inl AuthzNoResultFound
      | Some p \<Rightarrow>
          if (i, a) \<notin> held_key ` set (az_held db) then Inr (None, db)
          else
            let held = filter (\<lambda>h. held_key h \<noteq> (i, a)) (az_held db);
                change = settled_principal bump (newest_held a held) now
            in if \<not> principal_row_ok (change p) then Inl (AuthzIntegrityError ''principal_version'')
               else Inr (Some (pv_version p, pv_version (change p)), db\<lparr>az_held := held,
                 az_principals := set_where (\<lambda>x. pv_account x = a) change (az_principals db)\<rparr>))"

definition pending_convergence_for_account :: "string \<Rightarrow> authz_db \<Rightarrow> string list" where
  "pending_convergence_for_account a db =
     map cw_id (sort_key (\<lambda>w. (cw_created_at w, cw_id w))
       (filter (\<lambda>w. cw_status w = WORK_PENDING \<and> (cw_id w, a) \<in> held_key ` set (az_held db))
         (az_works db)))"

definition pending_convergence_work_ids :: "authz_db \<Rightarrow> string list" where
  "pending_convergence_work_ids db =
     map cw_id (sort_key (\<lambda>w. (cw_created_at w, cw_id w))
       (filter (\<lambda>w. cw_status w = WORK_PENDING) (az_works db)))"

definition convergence_status_for_claim :: "string \<Rightarrow> string \<Rightarrow> authz_db \<Rightarrow> work_status option" where
  "convergence_status_for_claim source_module claim_id db =
     map_option cw_status (row_by claim_key (Some (source_module, claim_id)) (az_works db))"

end
