(* ===== verification/Authz_Changes.thy ===== *)
theory Authz_Changes
  imports Authz_Store
begin

section \<open>Grants and security changes\<close>

text \<open>
  \<^verbatim>\<open>authorization/application/grants.py\<close> (\<open>grant\<close>, \<open>revoke\<close>, \<open>effective_grants\<close>) and
  \<^verbatim>\<open>authorization/application/orchestration.py\<close>: a security change raises a fence on every affected
  principal before its source transaction, and the work it leaves behind lowers the fence once the
  source is known to have committed or aborted. Each method that opens \<open>engine.begin()\<close> is one
  transaction over \<open>authz_db\<close>. The clock and the id source are functions of the order of use within
  a transaction; the status of a source transaction (\<open>pg_xact_status\<close>) and the membership recompute
  are parameters, the latter with the error it raises, if any.
\<close>

record authz_env =
  zv_clock :: "nat \<Rightarrow> instant"
  zv_new_id :: "nat \<Rightarrow> string"
  zv_request :: "string option"
  zv_xact_status :: "string \<Rightarrow> string"
  zv_recompute :: "(string list \<Rightarrow> string option) option"

definition starts_with :: "string \<Rightarrow> string \<Rightarrow> bool" where
  "starts_with pre s = (take (length pre) s = pre)"

definition ends_with :: "string \<Rightarrow> string \<Rightarrow> bool" where
  "ends_with suffix s = starts_with (rev suffix) (rev s)"

definition or_dash :: "string option \<Rightarrow> string" where
  "or_dash s = (case s of Some (c # cs) \<Rightarrow> c # cs | _ \<Rightarrow> ''-'')"

definition first_text :: "string option list \<Rightarrow> string \<Rightarrow> string" where
  "first_text xs dflt = (case filter (\<lambda>x. x \<noteq> None \<and> x \<noteq> Some []) xs of
     [] \<Rightarrow> dflt | x # _ \<Rightarrow> the x)"

text \<open>\<open>audit()\<close> of \<^verbatim>\<open>common.py\<close>; \<open>n\<close> is the position of its readings.\<close>

definition authz_audit ::
  "authz_env \<Rightarrow> nat \<Rightarrow> string \<Rightarrow> string \<Rightarrow> string \<Rightarrow> string \<Rightarrow> string \<Rightarrow> string \<Rightarrow> string option
   \<Rightarrow> authz_db \<Rightarrow> authz_db" where
  "authz_audit env n actor action target_type target_id result reason correlation_id db =
     db\<lparr>az_audit := record_in_transaction (zv_request env)
       \<lparr>ae_id = zv_new_id env (2 * n), ae_occurred_at = zv_clock env n, ae_actor = actor,
        ae_actor_type = (if actor = ''SYSTEM'' \<or> starts_with ''SYSTEM_'' actor
                         then ''SYSTEM'' else ''HUMAN''),
        ae_action = action, ae_target_type = target_type, ae_target_id = target_id,
        ae_result = result, ae_reason = Some reason,
        ae_correlation_id = first_text [correlation_id, zv_request env] (zv_new_id env (2 * n + 1)),
        ae_request_id = None, ae_schema_version = 1\<rparr> (az_audit db)\<rparr>"

subsection \<open>Grants\<close>

definition actor_of :: "string option \<Rightarrow> (authz_error, string) res" where
  "actor_of actor = (case actor of
       Some (c # cs) \<Rightarrow> Inr (c # cs)
     | _ \<Rightarrow> Inl (AuthzValueError ''authorization actor requires a stable account id''))"

definition scope_text :: "scope \<Rightarrow> string" where
  "scope_text s = scope_type_value (sc_type s) @ '':'' @ or_dash (sc_id s)"

definition grant ::
  "authz_env \<Rightarrow> string \<Rightarrow> string \<Rightarrow> scope \<Rightarrow> string option \<Rightarrow> string \<Rightarrow> string \<Rightarrow> instant option
   \<Rightarrow> instant option \<Rightarrow> string option \<Rightarrow> authz_db \<Rightarrow> (authz_error, grant_row \<times> authz_db) res" where
  "grant env principal_id capability scope actor reason source valid_from valid_to correlation_id db =
     (let who = strip principal_id; cap = strip capability; src = strip source; why = strip reason
      in if who = [] \<or> cap = [] \<or> src = [] \<or> why = []
         then Inl (InvalidGrant ''grant fields must not be blank'')
         else if (case (valid_from, valid_to) of (Some a, Some b) \<Rightarrow> b \<le> a | _ \<Rightarrow> False)
         then Inl (InvalidGrant ''grant validity must be a positive half-open interval'')
         else
           let now = zv_clock env 0;
               row = \<lparr>gr_id = zv_new_id env 0, gr_principal = who, gr_capability = cap,
                 gr_scope_type = sc_type scope, gr_scope_id = sc_id scope, gr_source = src,
                 gr_valid_from = valid_from, gr_valid_to = valid_to, gr_status = GRANT_ACTIVE,
                 gr_version = 1, gr_created_at = now, gr_updated_at = now, gr_revoked_at = None,
                 gr_revoked_by = None, gr_revoke_reason = None\<rparr>
           in rbind (insert_grant row db) (\<lambda>(created, db1).
              rbind (bump_principal_version who now db1) (\<lambda>(version, db2).
              rbind (actor_of actor) (\<lambda>by.
                Inr (created, authz_audit env 1 by ''authorization.grant.created'' ''GRANT''
                  (gr_id created) ''SUCCESS''
                  (why @ ''; principal='' @ who @ ''; capability='' @ cap @ ''; scope=''
                    @ scope_text scope @ ''; authorizationVersion='' @ str_of_int (pv_version version))
                  correlation_id db2)))))"

definition revoke ::
  "authz_env \<Rightarrow> string \<Rightarrow> int \<Rightarrow> string option \<Rightarrow> string \<Rightarrow> authz_db
   \<Rightarrow> (authz_error, grant_row \<times> authz_db) res" where
  "revoke env grant_id expected_version actor reason db =
     (let why = strip reason
      in if why = [] then Inl (InvalidGrant ''revoke reason must not be blank'')
         else case grant_by_id grant_id db of
           None \<Rightarrow> Inl (GrantNotFound grant_id)
         | Some row \<Rightarrow>
             if gr_version row \<noteq> expected_version \<or> gr_status row \<noteq> GRANT_ACTIVE
             then Inl (StaleGrantVersion grant_id)
             else rbind (actor_of actor) (\<lambda>by.
               let now = zv_clock env 0
               in rbind (revoke_grant grant_id expected_version by why now db) (\<lambda>(updated, db1).
                  case updated of
                    None \<Rightarrow> Inl (StaleGrantVersion grant_id)
                  | Some revoked \<Rightarrow>
                      rbind (bump_principal_version (gr_principal row) now db1) (\<lambda>(version, db2).
                        Inr (revoked, authz_audit env 1 by ''authorization.grant.revoked'' ''GRANT''
                          grant_id ''SUCCESS''
                          (why @ ''; principal='' @ gr_principal row @ ''; beforeVersion=''
                            @ str_of_int expected_version @ ''; afterVersion=''
                            @ str_of_int (gr_version revoked) @ ''; authorizationVersion=''
                            @ str_of_int (pv_version version)) None db2)))))"

subsection \<open>Beginning a security change\<close>

record change_source =
  cs_module :: string
  cs_actor :: string
  cs_operation :: string
  cs_key :: string
  cs_xid :: "string option"
  cs_fingerprint :: "string option"
  cs_claim_id :: "string option"

definition make_source :: "change_source \<Rightarrow> (authz_error, change_source) res" where
  "make_source s =
     (if strip (cs_module s) = [] \<or> strip (cs_actor s) = [] \<or> strip (cs_operation s) = []
         \<or> strip (cs_key s) = []
      then Inl (AuthzValueError ''security change source fields must not be blank'')
      else if (cs_fingerprint s = None) \<noteq> (cs_claim_id s = None)
      then Inl (AuthzValueError ''security change claim identity must be complete'')
      else if (case cs_fingerprint s of None \<Rightarrow> False | Some f \<Rightarrow> strip f = [])
      then Inl (AuthzValueError ''security change request fingerprint must not be blank'')
      else Inr s)"

record ticket =
  tk_id :: string
  tk_source :: change_source
  tk_generations :: "(string, int) dict"
  tk_reason :: string
  tk_status :: work_status
  tk_created :: bool

definition source_of_work :: "work_row \<Rightarrow> change_source" where
  "source_of_work w = \<lparr>cs_module = cw_module w, cs_actor = cw_actor w,
     cs_operation = cw_operation w, cs_key = cw_key w, cs_xid = cw_xid w,
     cs_fingerprint = cw_fingerprint w, cs_claim_id = cw_claim_id w\<rparr>"

definition ticket_of :: "work_row \<Rightarrow> bool \<Rightarrow> (authz_error, ticket) res" where
  "ticket_of w created =
     rbind (make_source (source_of_work w)) (\<lambda>s.
       Inr \<lparr>tk_id = cw_id w, tk_source = s, tk_generations = cw_generations w,
            tk_reason = cw_reason w, tk_status = cw_status w, tk_created = created\<rparr>)"

definition strings_of :: "string list \<Rightarrow> string list" where
  "strings_of values = sort (remdups (filter (\<lambda>v. v \<noteq> []) (map strip values)))"

fun mark_all ::
  "authz_env \<Rightarrow> string \<Rightarrow> nat \<Rightarrow> string list \<Rightarrow> authz_db
   \<Rightarrow> (authz_error, (string, int) dict \<times> authz_db) res" where
  "mark_all env reason n [] db = Inr ([], db)"
| "mark_all env reason n (a # as) db =
     rbind (repo_mark_fence a reason (zv_clock env n) db) (\<lambda>(g, db1).
     rbind (mark_all env reason (Suc n) as db1) (\<lambda>(gs, db2). Inr ((a, g) # gs, db2)))"

fun hold_all ::
  "string \<Rightarrow> string \<Rightarrow> instant \<Rightarrow> (string, int) dict \<Rightarrow> authz_db \<Rightarrow> (authz_error, authz_db) res" where
  "hold_all i reason now [] db = Inr db"
| "hold_all i reason now ((a, g) # gs) db =
     rbind (insert_pending_principal \<lparr>hp_work = i, hp_account = a, hp_generation = g,
         hp_reason = reason, hp_created_at = now\<rparr> db) (hold_all i reason now gs)"

text \<open>The four loose source fields of \<open>begin()\<close> come together or not at all.\<close>

definition change_source_of ::
  "authz_env \<Rightarrow> change_source option \<Rightarrow> change_source option \<Rightarrow> (authz_error, change_source) res" where
  "change_source_of env source loose =
     (case source of
        Some s \<Rightarrow> make_source s
      | None \<Rightarrow> make_source (case loose of Some s \<Rightarrow> s
          | None \<Rightarrow> \<lparr>cs_module = ''legacy'', cs_actor = ''SYSTEM'', cs_operation = ''security_change'',
                     cs_key = zv_new_id env 0, cs_xid = None, cs_fingerprint = None,
                     cs_claim_id = None\<rparr>))"

definition new_work ::
  "authz_env \<Rightarrow> change_source \<Rightarrow> string \<Rightarrow> (string, int) dict \<Rightarrow> string list \<Rightarrow> string list \<Rightarrow> bool
   \<Rightarrow> instant \<Rightarrow> work_row" where
  "new_work env s reason generations accounts workspaces recompute now =
     \<lparr>cw_id = zv_new_id env 1, cw_module = cs_module s, cw_actor = cs_actor s,
      cw_operation = cs_operation s, cw_key = cs_key s, cw_reason = reason, cw_xid = cs_xid s,
      cw_claim_id = cs_claim_id s, cw_fingerprint = cs_fingerprint s,
      cw_generations = generations, cw_accounts = accounts, cw_workspaces = workspaces,
      cw_recompute = recompute, cw_status = WORK_PENDING, cw_phase = SOURCE_REGISTERED,
      cw_created_at = now, cw_updated_at = now, cw_completed_at = None, cw_cancelled_at = None\<rparr>"

definition begin_change ::
  "authz_env \<Rightarrow> string \<Rightarrow> change_source option \<Rightarrow> change_source option \<Rightarrow> string list option
   \<Rightarrow> string list \<Rightarrow> string list \<Rightarrow> bool \<Rightarrow> authz_db \<Rightarrow> (authz_error, ticket \<times> authz_db) res" where
  "begin_change env reason source loose account_ids accounts workspaces recompute db =
     (let why = strip reason
      in if why = [] then Inl (AuthzValueError ''security change reason must not be blank'')
         else rbind (change_source_of env source loose) (\<lambda>s.
           case work_by_source (cs_module s) (cs_actor s) (cs_operation s) (cs_key s)
                  (cs_claim_id s) db of
             Some existing \<Rightarrow> rbind (ticket_of existing False) (\<lambda>t. Inr (t, db))
           | None \<Rightarrow>
               let principals = (case account_ids of Some xs \<Rightarrow> strings_of xs
                                                   | None \<Rightarrow> principal_ids db)
               in rbind (mark_all env why 0 principals db) (\<lambda>(generations, db1).
                  let now = zv_clock env (length principals)
                  in rbind (insert_convergence_work (new_work env s why generations
                       (strings_of accounts) (strings_of workspaces) recompute now) db1)
                     (\<lambda>(row, db2). rbind (hold_all (cw_id row) why now generations db2)
                     (\<lambda>db3. rbind (ticket_of row True) (\<lambda>t. Inr (t, db3)))))))"

subsection \<open>Reconciling, completing and cancelling a change\<close>

fun settle_all ::
  "string \<Rightarrow> bool \<Rightarrow> instant \<Rightarrow> string list \<Rightarrow> authz_db
   \<Rightarrow> (authz_error, (string \<times> int \<times> int) list \<times> authz_db) res" where
  "settle_all i bump now [] db = Inr ([], db)"
| "settle_all i bump now (a # as) db =
     rbind (settle_pending_principal i a bump now db) (\<lambda>(settled, db1).
     rbind (settle_all i bump now as db1) (\<lambda>(rest, db2).
       Inr ((case settled of None \<Rightarrow> rest | Some (b, c) \<Rightarrow> (a, b, c) # rest), db2)))"

definition sorted_accounts :: "work_row \<Rightarrow> string list" where
  "sorted_accounts w = sort (map fst (cw_generations w))"

definition converged_correlation :: "authz_env \<Rightarrow> work_row \<Rightarrow> string option" where
  "converged_correlation env w =
     (if cw_module w = ''identity'' \<and> starts_with ''SYSTEM_'' (cw_actor w)
         \<and> ends_with ''_cli'' (cw_operation w)
      then Some (''cli-'' @ take 32 (cw_key w)) else zv_request env)"

text \<open>One audit entry per settled principal. The code writes it right after the settlement; the
  audit table is separate, so writing the entries after the loop gives the same state.\<close>

fun audit_converged ::
  "authz_env \<Rightarrow> nat \<Rightarrow> work_row \<Rightarrow> (string \<times> int \<times> int) list \<Rightarrow> authz_db \<Rightarrow> authz_db" where
  "audit_converged env n w [] db = db"
| "audit_converged env n w ((a, before, after) # rest) db =
     audit_converged env (Suc n) w rest
       (authz_audit env n (cw_actor w) (''authorization.'' @ cw_module w @ ''.converged'')
         ''authorization_principal'' a ''SUCCESS''
         (''sourceOperation='' @ cw_operation w @ ''; beforeAuthorizationVersion='' @ str_of_int before
           @ ''; afterAuthorizationVersion='' @ str_of_int after @ ''; authorizationVersion=''
           @ str_of_int after) (converged_correlation env w) db)"

record effects_update =
  eu_accounts :: "string list option"
  eu_workspaces :: "string list option"
  eu_recompute :: "bool option"

definition no_effects :: effects_update where
  "no_effects = \<lparr>eu_accounts = None, eu_workspaces = None, eu_recompute = None\<rparr>"

definition updated_effects ::
  "authz_env \<Rightarrow> effects_update \<Rightarrow> work_row \<Rightarrow> authz_db
   \<Rightarrow> (authz_error, work_row option \<times> authz_db) res" where
  "updated_effects env u w db =
     (if u = no_effects then Inr (Some w, db)
      else update_convergence_effects (cw_id w)
        (case eu_accounts u of Some xs \<Rightarrow> strings_of xs | None \<Rightarrow> cw_accounts w)
        (case eu_workspaces u of Some xs \<Rightarrow> strings_of xs | None \<Rightarrow> cw_workspaces w)
        (case eu_recompute u of Some b \<Rightarrow> b | None \<Rightarrow> cw_recompute w) (zv_clock env 0) db)"

definition run_recompute ::
  "authz_env \<Rightarrow> work_row \<Rightarrow> authz_db \<Rightarrow> (authz_error, authz_db) res" where
  "run_recompute env w db =
     (if \<not> cw_recompute w then Inr db
      else rbind (update_convergence_phase (cw_id w) RECOMPUTE_PENDING (zv_clock env 1) db) (\<lambda>db1.
        case zv_recompute env of
          None \<Rightarrow> Inl (AuthzRuntimeError ''membership recompute unavailable'')
        | Some f \<Rightarrow> (case f (cw_accounts w) of Some e \<Rightarrow> Inl (AuthzRuntimeError e)
                                           | None \<Rightarrow> Inr db1)))"

definition converge_work ::
  "authz_env \<Rightarrow> effects_update \<Rightarrow> work_row \<Rightarrow> authz_db \<Rightarrow> (authz_error, string list \<times> authz_db) res" where
  "converge_work env u w0 db =
     rbind (updated_effects env u w0 db) (\<lambda>(found, db1).
       case found of
         None \<Rightarrow> Inr ([], db1)
       | Some w \<Rightarrow>
           rbind (run_recompute env w db1) (\<lambda>db2.
           rbind (update_convergence_phase (cw_id w) VERSION_PENDING (zv_clock env 2) db2) (\<lambda>db3.
           let now = zv_clock env 3
           in rbind (settle_all (cw_id w) True now (sorted_accounts w) db3) (\<lambda>(settled, db4).
              rbind (complete_convergence_work (cw_id w) now (audit_converged env 4 w settled db4))
                (\<lambda>db5. Inr (map fst settled, db5))))))"

definition abandon_work ::
  "string \<Rightarrow> instant \<Rightarrow> work_row \<Rightarrow> authz_db \<Rightarrow> (authz_error, string list \<times> authz_db) res" where
  "abandon_work i now w db =
     rbind (settle_all i False now (sorted_accounts w) db) (\<lambda>(settled, db1).
     rbind (cancel_convergence_work i now db1) (\<lambda>db2. Inr (map fst settled, db2)))"

definition reconcile_work ::
  "authz_env \<Rightarrow> string \<Rightarrow> effects_update \<Rightarrow> authz_db \<Rightarrow> (authz_error, string list \<times> authz_db) res" where
  "reconcile_work env i u db =
     (case work_by_id i db of
        None \<Rightarrow> Inr ([], db)
      | Some w \<Rightarrow>
          if cw_status w \<noteq> WORK_PENDING then Inr ([], db)
          else (case cw_xid w of
             None \<Rightarrow> if cw_module w \<noteq> ''legacy'' then Inr ([], db) else converge_work env u w db
           | Some x \<Rightarrow>
               (let status = zv_xact_status env x
                in if status = ''in progress'' then Inr ([], db)
                   else if status = ''aborted''
                   then rbind (abandon_work i (zv_clock env 0) w db) (\<lambda>(_, db'). Inr ([], db'))
                   else if status \<noteq> ''committed''
                   then Inl (AuthzRuntimeError ''source transaction status is unknown'')
                   else converge_work env u w db)))"

definition or_no_change :: "'a list \<Rightarrow> 'a list option" where
  "or_no_change xs = (if xs = [] then None else Some xs)"

definition complete_change ::
  "authz_env \<Rightarrow> ticket \<Rightarrow> string list \<Rightarrow> string list \<Rightarrow> bool \<Rightarrow> authz_db
   \<Rightarrow> (authz_error, string list \<times> authz_db) res" where
  "complete_change env t accounts workspaces recompute db =
     (if \<not> tk_created t \<or> tk_status t = WORK_COMPLETED \<or> tk_status t = WORK_CANCELLED
      then Inr ([], db)
      else reconcile_work env (tk_id t) \<lparr>eu_accounts = or_no_change accounts,
        eu_workspaces = or_no_change workspaces,
        eu_recompute = (if recompute then Some True else None)\<rparr> db)"

definition cancel_change ::
  "authz_env \<Rightarrow> ticket \<Rightarrow> authz_db \<Rightarrow> (authz_error, string list \<times> authz_db) res" where
  "cancel_change env t db =
     (if \<not> tk_created t then Inr ([], db)
      else case work_by_id (tk_id t) db of
        None \<Rightarrow> Inr ([], db)
      | Some w \<Rightarrow>
          if cw_status w \<noteq> WORK_PENDING then Inr ([], db)
          else abandon_work (tk_id t) (zv_clock env 0) w db)"

text \<open>\<open>reconcile_for_account\<close>: one transaction per work; the first that raises ends the loop.
  The \<open>n\<close>-th transaction has its own readings \<open>envs n\<close>.\<close>

fun reconcile_each ::
  "(nat \<Rightarrow> authz_env) \<Rightarrow> nat \<Rightarrow> string list \<Rightarrow> authz_db \<Rightarrow> bool \<times> authz_db" where
  "reconcile_each envs n [] db = (True, db)"
| "reconcile_each envs n (i # is) db =
     (case reconcile_work (envs n) i no_effects db of
        Inl _ \<Rightarrow> (False, db)
      | Inr (_, db') \<Rightarrow> reconcile_each envs (Suc n) is db')"

definition reconcile_for_account ::
  "(nat \<Rightarrow> authz_env) \<Rightarrow> string \<Rightarrow> authz_db \<Rightarrow> bool \<times> authz_db" where
  "reconcile_for_account envs a db =
     (case reconcile_each envs 0 (pending_convergence_for_account a db) db of
        (False, db') \<Rightarrow> (False, db')
      | (True, db') \<Rightarrow>
          ((case principal_version a db' of None \<Rightarrow> False | Some p \<Rightarrow> pv_dirty p = None), db'))"

fun reconcile_list ::
  "(nat \<Rightarrow> authz_env) \<Rightarrow> nat \<Rightarrow> string list \<Rightarrow> authz_db \<Rightarrow> bool \<times> authz_db" where
  "reconcile_list envs n [] db = (True, db)"
| "reconcile_list envs n (i # is) db =
     (case reconcile_work (envs n) i no_effects db of
        Inl _ \<Rightarrow> (False, snd (reconcile_list envs (Suc n) is db))
      | Inr (_, db') \<Rightarrow> reconcile_list envs (Suc n) is db')"

definition reconcile_pending :: "(nat \<Rightarrow> authz_env) \<Rightarrow> authz_db \<Rightarrow> bool \<times> authz_db" where
  "reconcile_pending envs db =
     (case reconcile_list envs 0 (pending_convergence_work_ids db) db of
        (done_all, db') \<Rightarrow> (done_all \<and> pending_convergence_work_ids db' = [], db'))"

definition claim_converged :: "string \<Rightarrow> string \<Rightarrow> authz_db \<Rightarrow> bool" where
  "claim_converged source_module claim_id db =
     (convergence_status_for_claim source_module claim_id db = Some WORK_COMPLETED)"

definition identity_change ::
  "authz_env \<Rightarrow> string \<Rightarrow> string option \<Rightarrow> string option \<Rightarrow> string option \<Rightarrow> string option
   \<Rightarrow> string option \<Rightarrow> string option \<Rightarrow> authz_db \<Rightarrow> (authz_error, ticket \<times> authz_db) res" where
  "identity_change env a actor operation key xid fingerprint claim_id =
     begin_change env ''identity security fact changed''
       (Some \<lparr>cs_module = ''identity'', cs_actor = first_text [actor] a,
          cs_operation = first_text [operation] ''identity_security_change'',
          cs_key = first_text [key] (zv_new_id env 0), cs_xid = xid,
          cs_fingerprint = fingerprint, cs_claim_id = claim_id\<rparr>)
       None (Some [a]) [a] [] True"

end
