(* ===== verification/Authz_Decisions.thy ===== *)
theory Authz_Decisions
  imports Authz_Changes
begin

section \<open>Authorization decisions\<close>

text \<open>
  \<^verbatim>\<open>authorization/application/decisions.py\<close>: \<open>authorize\<close>, \<open>resolve_principal\<close> and
  \<open>principal_has_capability\<close>. The session and membership ports and the reads of the repository may
  raise; each read has its place in \<open>read_point\<close>. An early \<open>return\<close> is an \<open>Inl\<close> of the
  sequencing \<open>rbind\<close>, holding the call's outcome.
\<close>

record session =
  sn_kind :: string
  sn_account :: string
  sn_employee_no :: string
  sn_display_name :: string
  sn_super_admin :: bool

datatype decision_code = ALLOW | UNAUTHENTICATED | DENIED | UNAVAILABLE

record scoped_capability =
  sp_capability :: string
  sp_scope :: scope

record authorization_principal =
  ap_account :: string
  ap_employee :: string
  ap_name :: string
  ap_super_admin :: bool
  ap_version :: int
  ap_capabilities :: "scoped_capability list"

record authorization_decision =
  dn_allowed :: bool
  dn_code :: decision_code
  dn_principal :: "authorization_principal option"

datatype read_point = VersionRead | VersionReread | GrantRead | CapabilityRead | AuditWrite

record decision_env =
  dv_env :: authz_env
  dv_validate :: "string \<Rightarrow> session option answer"
  dv_member :: "string \<Rightarrow> string \<Rightarrow> bool answer"
  dv_reconcile :: "(string \<Rightarrow> authz_db \<Rightarrow> bool answer \<times> authz_db) option"
  dv_raises :: "read_point \<Rightarrow> bool"

definition reserved_capabilities :: "string list" where
  "reserved_capabilities =
     [''platform.configuration.manage'', ''platform.super_admin.manage'', ''platform.model.manage'']"

definition super_admin_capabilities :: "string list" where
  "super_admin_capabilities =
     [''platform.home.read'', ''platform.admin.access'', ''audit.read'', ''identity.account.manage'',
      ''platform.organization.read'', ''platform.organization.manage'', ''platform.workspace.read'',
      ''platform.workspace.manage'', ''platform.authorization.manage'',
      ''platform.configuration.manage'', ''platform.super_admin.manage'', ''platform.model.read'',
      ''agent.definition.read'', ''platform.model.manage'']"

definition is_super_admin_platform_capability :: "string \<Rightarrow> scope \<Rightarrow> bool \<Rightarrow> bool" where
  "is_super_admin_platform_capability capability scope is_super_admin =
     (is_super_admin \<and> sc_type scope = PLATFORM \<and> capability \<in> set super_admin_capabilities)"

definition platform_scope :: scope where
  "platform_scope = \<lparr>sc_type = PLATFORM, sc_id = None\<rparr>"

subsection \<open>Outcomes\<close>

type_synonym outcome = "(authz_error, authorization_decision \<times> authz_db) res"

definition refusal :: "decision_code \<Rightarrow> authorization_decision" where
  "refusal code = \<lparr>dn_allowed = False, dn_code = code, dn_principal = None\<rparr>"

definition decision_audit ::
  "decision_env \<Rightarrow> string \<Rightarrow> string \<Rightarrow> scope \<Rightarrow> string \<Rightarrow> int option \<Rightarrow> string
   \<Rightarrow> authz_db \<Rightarrow> (authz_error, authz_db) res" where
  "decision_audit d actor capability scope result version reason db =
     (if dv_raises d AuditWrite then Inl (AuthzRuntimeError ''audit'')
      else Inr (authz_audit (dv_env d) 2 actor ''authorization.decision''
        (scope_type_value (sc_type scope)) (first_text [sc_id scope] ''PLATFORM'') result
        (''capability='' @ capability @ ''; scope='' @ scope_text scope @ ''; authorizationVersion=''
          @ (case version of Some v \<Rightarrow> if v = 0 then ''unknown'' else str_of_int v
                           | None \<Rightarrow> ''unknown'')
          @ ''; reason='' @ reason) None db))"

definition denial ::
  "decision_env \<Rightarrow> string \<Rightarrow> string \<Rightarrow> scope \<Rightarrow> decision_code \<Rightarrow> int option \<Rightarrow> string
   \<Rightarrow> authz_db \<Rightarrow> outcome" where
  "denial d actor capability scope code version reason db =
     rbind (decision_audit d actor capability scope
        (if code = UNAVAILABLE then ''UNAVAILABLE'' else ''DENY'') version reason db)
      (\<lambda>db'. Inr (refusal code, db'))"

definition unavailable ::
  "decision_env \<Rightarrow> string \<Rightarrow> string \<Rightarrow> scope \<Rightarrow> int option \<Rightarrow> string \<Rightarrow> authz_db \<Rightarrow> outcome" where
  "unavailable d actor capability scope version reason db =
     (case denial d actor capability scope UNAVAILABLE version reason db of
        Inl _ \<Rightarrow> Inr (refusal UNAVAILABLE, db) | Inr out \<Rightarrow> Inr out)"

definition returned :: "(outcome, outcome) res \<Rightarrow> outcome" where
  "returned m = (case m of Inl out \<Rightarrow> out | Inr out \<Rightarrow> out)"

lemma returned_simps [simp]: "returned (Inl out) = out" "returned (Inr out) = out"
  by (simp_all add: returned_def)

subsection \<open>The effective capabilities of a principal\<close>

definition add_capability ::
  "scoped_capability \<Rightarrow> scoped_capability list \<Rightarrow> scoped_capability list" where
  "add_capability item values = (if item \<in> set values then values else values @ [item])"

fun granted_capabilities ::
  "(string \<Rightarrow> bool answer) \<Rightarrow> grant_row list \<Rightarrow> scoped_capability list
   \<Rightarrow> scoped_capability list answer" where
  "granted_capabilities member [] values = Answer values"
| "granted_capabilities member (g # gs) values =
     (case make_scope (gr_scope_type g) (gr_scope_id g) of
        Inl _ \<Rightarrow> Raised
      | Inr s \<Rightarrow>
          if gr_capability g \<in> set reserved_capabilities
          then granted_capabilities member gs values
          else
            let item = \<lparr>sp_capability = gr_capability g, sp_scope = s\<rparr>
            in (case sc_id s of
                  None \<Rightarrow> granted_capabilities member gs (add_capability item values)
                | Some w \<Rightarrow>
                    (case member w of
                       Raised \<Rightarrow> Raised
                     | Answer m \<Rightarrow> granted_capabilities member gs
                         (if m then add_capability item values else values))))"

definition principal_capabilities ::
  "decision_env \<Rightarrow> string \<Rightarrow> bool \<Rightarrow> authz_db \<Rightarrow> scoped_capability list answer" where
  "principal_capabilities d account is_super_admin db =
     (if dv_raises d CapabilityRead then Raised
      else case granted_capabilities (\<lambda>w. dv_member d w account)
             (repo_effective_grants account None None (zv_clock (dv_env d) 1) db) [] of
             Raised \<Rightarrow> Raised
           | Answer values \<Rightarrow>
               Answer (if is_super_admin
                 then fold (\<lambda>c. add_capability \<lparr>sp_capability = c, sp_scope = platform_scope\<rparr>)
                        (sort super_admin_capabilities) values
                 else values))"

subsection \<open>The current principal\<close>

definition checked_session ::
  "decision_env \<Rightarrow> string \<Rightarrow> string \<Rightarrow> scope \<Rightarrow> authz_db \<Rightarrow> (outcome, session) res" where
  "checked_session d token capability scope db =
     (case dv_validate d token of
        Raised \<Rightarrow> Inl (unavailable d ''SYSTEM'' capability scope None
          ''identity projection unavailable'' db)
      | Answer None \<Rightarrow> Inl (Inr (refusal UNAUTHENTICATED, db))
      | Answer (Some s) \<Rightarrow>
          if sn_kind s \<noteq> ''FULL'' then Inl (Inr (refusal UNAUTHENTICATED, db)) else Inr s)"

definition checked_version ::
  "decision_env \<Rightarrow> string \<Rightarrow> string \<Rightarrow> scope \<Rightarrow> authz_db \<Rightarrow> (outcome, principal_row) res" where
  "checked_version d account capability scope db =
     (if dv_raises d VersionRead
      then Inl (unavailable d account capability scope None ''authorization version unavailable'' db)
      else case principal_version account db of
        None \<Rightarrow> Inl (unavailable d account capability scope None ''authorization version unknown'' db)
      | Some p \<Rightarrow> Inr p)"

definition reconciled_version ::
  "decision_env \<Rightarrow> string \<Rightarrow> principal_row \<Rightarrow> authz_db \<Rightarrow> principal_row \<times> authz_db" where
  "reconciled_version d account p db =
     (if pv_dirty p = None then (p, db)
      else case dv_reconcile d of
        None \<Rightarrow> (p, db)
      | Some f \<Rightarrow>
          (case f account db of
             (Answer True, db') \<Rightarrow>
               if dv_raises d VersionReread then (p, db')
               else (case principal_version account db' of None \<Rightarrow> (p, db') | Some p' \<Rightarrow> (p', db'))
           | (_, db') \<Rightarrow> (p, db')))"

definition current_principal ::
  "decision_env \<Rightarrow> string \<Rightarrow> string \<Rightarrow> scope \<Rightarrow> authz_db
   \<Rightarrow> (outcome, session \<times> principal_row \<times> authz_db) res" where
  "current_principal d token capability scope db =
     rbind (checked_session d token capability scope db) (\<lambda>s.
     rbind (checked_version d (sn_account s) capability scope db) (\<lambda>p0.
       (case reconciled_version d (sn_account s) p0 db of
          (p, db') \<Rightarrow>
            if pv_dirty p \<noteq> None
            then Inl (unavailable d (sn_account s) capability scope (Some (pv_version p))
                   ''authorization convergence pending'' db')
            else Inr (s, p, db'))))"

definition allow_session ::
  "decision_env \<Rightarrow> session \<Rightarrow> bool \<Rightarrow> principal_row \<Rightarrow> string \<Rightarrow> scope \<Rightarrow> authz_db \<Rightarrow> outcome" where
  "allow_session d s is_super_admin p capability scope db =
     (case principal_capabilities d (sn_account s) is_super_admin db of
        Raised \<Rightarrow> unavailable d (sn_account s) capability scope (Some (pv_version p))
          ''effective capability projection unavailable'' db
      | Answer caps \<Rightarrow>
          Inr (\<lparr>dn_allowed = True, dn_code = ALLOW, dn_principal = Some
            \<lparr>ap_account = sn_account s, ap_employee = sn_employee_no s, ap_name = sn_display_name s,
             ap_super_admin = is_super_admin, ap_version = pv_version p, ap_capabilities = caps\<rparr>\<rparr>, db))"

definition checked_grant ::
  "decision_env \<Rightarrow> string \<Rightarrow> int \<Rightarrow> string \<Rightarrow> scope \<Rightarrow> authz_db \<Rightarrow> (outcome, unit) res" where
  "checked_grant d account version capability scope db =
     (if dv_raises d GrantRead
      then Inl (unavailable d account capability scope (Some version) ''exact grant unavailable'' db)
      else if repo_effective_grants account (Some capability) (Some scope)
                (zv_clock (dv_env d) 0) db = []
      then Inl (denial d account capability scope DENIED (Some version)
             ''grant missing or inactive'' db)
      else Inr ())"

definition checked_membership ::
  "decision_env \<Rightarrow> string \<Rightarrow> int \<Rightarrow> string \<Rightarrow> scope \<Rightarrow> authz_db \<Rightarrow> (outcome, unit) res" where
  "checked_membership d account version capability scope db =
     (if sc_type scope = PLATFORM then Inr ()
      else case sc_id scope of
        None \<Rightarrow> Inl (Inl (AuthzRuntimeError ''AssertionError''))
      | Some w \<Rightarrow>
          (case dv_member d w account of
             Raised \<Rightarrow> Inl (unavailable d account capability scope (Some version)
               ''workspace membership unavailable'' db)
           | Answer False \<Rightarrow> Inl (denial d account capability scope DENIED (Some version)
               ''workspace membership missing'' db)
           | Answer True \<Rightarrow> Inr ()))"

definition authorize ::
  "decision_env \<Rightarrow> string \<Rightarrow> string \<Rightarrow> scope \<Rightarrow> authz_db \<Rightarrow> outcome" where
  "authorize d token capability scope db =
     returned (rbind (current_principal d token capability scope db) (\<lambda>(s, p, db').
       if is_super_admin_platform_capability capability scope (sn_super_admin s)
       then Inr (allow_session d s True p capability scope db')
       else if capability \<in> set reserved_capabilities
       then Inr (denial d (sn_account s) capability scope DENIED (Some (pv_version p))
              ''reserved capability requires current Super Admin fact'' db')
       else rbind (checked_grant d (sn_account s) (pv_version p) capability scope db') (\<lambda>_.
            rbind (checked_membership d (sn_account s) (pv_version p) capability scope db') (\<lambda>_.
              Inr (allow_session d s (sn_super_admin s) p capability scope db')))))"

definition resolve_principal :: "decision_env \<Rightarrow> string \<Rightarrow> authz_db \<Rightarrow> outcome" where
  "resolve_principal d token db =
     returned (rbind (current_principal d token ''authorization.principal.resolve'' platform_scope db)
       (\<lambda>(s, p, db'). Inr (allow_session d s (sn_super_admin s) p
          ''authorization.principal.resolve'' platform_scope db')))"

subsection \<open>A principal resolved earlier\<close>

definition member_for ::
  "decision_env \<Rightarrow> bool \<Rightarrow> string \<Rightarrow> scope \<Rightarrow> (authz_error, bool) res" where
  "member_for d has_dependencies account scope =
     (if sc_type scope = PLATFORM then Inr True
      else case (has_dependencies, sc_id scope) of
        (True, Some w) \<Rightarrow> (case dv_member d w account of
            Raised \<Rightarrow> Inl (AuthorizationUnavailable ''workspace membership unavailable'')
          | Answer m \<Rightarrow> Inr m)
      | _ \<Rightarrow> Inl (AuthorizationUnavailable ''workspace membership unavailable''))"

definition principal_has_capability ::
  "decision_env \<Rightarrow> bool \<Rightarrow> authorization_principal \<Rightarrow> string \<Rightarrow> scope \<Rightarrow> authz_db
   \<Rightarrow> (authz_error, bool \<times> authz_db) res" where
  "principal_has_capability d has_dependencies principal_of capability scope db =
     (let account = ap_account principal_of in
      if dv_raises d VersionRead
      then Inl (AuthorizationUnavailable ''authorization version unavailable'')
      else case principal_version account db of
        None \<Rightarrow> Inl (AuthorizationUnavailable ''authorization version unknown'')
      | Some p \<Rightarrow>
          if pv_dirty p \<noteq> None \<or> pv_version p \<noteq> ap_version principal_of
          then Inl (AuthorizationUnavailable ''authorization principal changed'')
          else if is_super_admin_platform_capability capability scope (ap_super_admin principal_of)
          then Inr (True, db)
          else if capability \<in> set reserved_capabilities
          then rbind (decision_audit d account capability scope ''DENY''
                 (Some (ap_version principal_of))
                 ''reserved capability requires current Super Admin fact'' db)
               (\<lambda>db'. Inr (False, db'))
          else if dv_raises d GrantRead
          then Inl (AuthorizationUnavailable ''exact grant unavailable'')
          else
            let matching = repo_effective_grants account (Some capability) (Some scope)
                  (zv_clock (dv_env d) 0) db
            in rbind (if matching = [] then Inr False
                      else member_for d has_dependencies account scope) (\<lambda>granted.
                 if granted then Inr (True, db)
                 else rbind (decision_audit d account capability scope ''DENY''
                        (Some (ap_version principal_of))
                        ''grant missing, inactive, or outside current membership'' db)
                      (\<lambda>db'. Inr (False, db'))))"

end
