(* ===== verification/Authz_Fence.thy ===== *)
theory Authz_Fence
  imports Authz_Decisions
begin

section \<open>The fence of a security change\<close>

text \<open>
  The invariant of the authorization tables: a principal is dirty exactly while a pending security
  change still holds it, and its dirty generation is the newest such change's. Every transaction
  keeps it, under any interleaving.
\<close>

subsection \<open>The newest open generation\<close>

definition open_generations :: "string \<Rightarrow> held_row list \<Rightarrow> int set" where
  "open_generations a rows = hp_generation ` {h \<in> set rows. hp_account h = a}"

definition top_generation :: "string \<Rightarrow> held_row list \<Rightarrow> int option" where
  "top_generation a rows =
     (if open_generations a rows = {} then None else Some (Max (open_generations a rows)))"

lemma finite_open [simp]: "finite (open_generations a rows)"
  by (simp add: open_generations_def)

lemma open_empty_iff: "open_generations a rows = {} \<longleftrightarrow> (\<forall>h \<in> set rows. hp_account h \<noteq> a)"
  by (auto simp: open_generations_def)

lemma newest_held_top: "map_option hp_generation (newest_held a rows) = top_generation a rows"
proof -
  let ?rs = "filter (\<lambda>h. hp_account h = a) rows"
  let ?k = "\<lambda>h. (- hp_generation h, hp_work h)"
  have G: "open_generations a rows = hp_generation ` set ?rs" by (simp add: open_generations_def)
  show ?thesis
  proof (cases "sort_key ?k ?rs")
    case Nil
    then have "set ?rs = {}" by (metis set_sort list.set(1))
    with G Nil show ?thesis by (simp add: newest_held_def top_generation_def)
  next
    case (Cons h hs)
    then have h: "h \<in> set ?rs" by (metis list.set_intros(1) set_sort)
    have "sorted (map ?k (h # hs))" using sorted_sort_key [of ?k ?rs] Cons by simp
    then have "\<forall>x \<in> set hs. hp_generation x \<le> hp_generation h" by (fastforce simp: less_eq_prod_def)
    moreover have "set ?rs = insert h (set hs)" by (metis Cons list.simps(15) set_sort)
    ultimately have "Max (hp_generation ` set ?rs) = hp_generation h" by (intro Max_eqI) auto
    with G h Cons show ?thesis by (auto simp: newest_held_def top_generation_def)
  qed
qed

lemma newest_held_in: "newest_held a rows = Some h \<Longrightarrow> h \<in> set rows \<and> hp_account h = a"
proof -
  let ?k = "\<lambda>h. (- hp_generation h, hp_work h)" and ?rs = "filter (\<lambda>h. hp_account h = a) rows"
  assume "newest_held a rows = Some h"
  then obtain hs where "sort_key ?k ?rs = h # hs" by (auto simp: newest_held_def split: list.splits)
  then have "h \<in> set ?rs" by (metis list.set_intros(1) set_sort)
  then show ?thesis by simp
qed

lemma top_generation_append:
  assumes "\<forall>h \<in> set rows. hp_account h = a \<longrightarrow> hp_generation h < g"
  shows "top_generation a (rows @ [h']) =
    (if hp_account h' = a then (if hp_generation h' = g then Some g else top_generation a (rows @ [h']))
     else top_generation a rows)"
proof -
  have "Max (insert g (open_generations a rows)) = g" if "open_generations a rows \<noteq> {}"
    using assms that by (subst Max_insert) (auto simp: open_generations_def intro!: max_absorb1)
  moreover have "open_generations a (rows @ [h']) =
      (if hp_account h' = a then insert (hp_generation h') (open_generations a rows)
       else open_generations a rows)"
    by (auto simp: open_generations_def)
  ultimately show ?thesis by (cases "open_generations a rows = {}") (auto simp: top_generation_def)
qed

subsection \<open>The invariant\<close>

definition fence_inv :: "authz_db \<Rightarrow> bool" where
  "fence_inv db \<longleftrightarrow>
     (\<forall>a p. principal_version a db = Some p \<longrightarrow>
        principal_row_ok p \<and> pv_dirty p = top_generation a (az_held db))
   \<and> (\<forall>h \<in> set (az_held db). held_row_ok h
        \<and> (\<exists>p. principal_version (hp_account h) db = Some p \<and> hp_generation h \<le> pv_fence p))"

definition work_inv :: "authz_db \<Rightarrow> bool" where
  "work_inv db \<longleftrightarrow> distinct (map held_key (az_held db))
   \<and> (\<forall>h \<in> set (az_held db). \<exists>w. work_by_id (hp_work h) db = Some w \<and> cw_status w = WORK_PENDING
        \<and> hp_account h \<in> fst ` set (cw_generations w))
   \<and> (\<forall>i w. work_by_id i db = Some w \<longrightarrow> work_row_ok w
        \<and> distinct (map fst (cw_generations w))
        \<and> (cw_status w = WORK_PENDING \<longrightarrow>
             (\<forall>a \<in> fst ` set (cw_generations w). (i, a) \<in> held_key ` set (az_held db))))"

lemma fence_inv_cong:
  "az_principals db' = az_principals db \<Longrightarrow> az_held db' = az_held db \<Longrightarrow> fence_inv db' = fence_inv db"
  by (simp add: fence_inv_def principal_version_def)

lemma work_inv_cong:
  "az_works db' = az_works db \<Longrightarrow> az_held db' = az_held db \<Longrightarrow> work_inv db' = work_inv db"
  by (simp add: work_inv_def work_by_id_def)

lemma authz_audit_simps [simp]:
  "az_grants (authz_audit env n a b c d e f g db) = az_grants db"
  "az_principals (authz_audit env n a b c d e f g db) = az_principals db"
  "az_works (authz_audit env n a b c d e f g db) = az_works db"
  "az_held (authz_audit env n a b c d e f g db) = az_held db"
  by (simp_all add: authz_audit_def)

lemma principal_version_audit [simp]:
  "principal_version x (authz_audit env n a b c d e f g db) = principal_version x db"
  by (simp add: principal_version_def)

lemma work_by_id_audit [simp]:
  "work_by_id x (authz_audit env n a b c d e f g db) = work_by_id x db"
  by (simp add: work_by_id_def)

subsection \<open>Principal rows\<close>

lemma upsert_principal_Inr:
  assumes "upsert_principal fresh change db = Inr (p, db')" and "\<And>q. pv_account (change q) = pv_account q"
  shows "p = (case principal_version (pv_account fresh) db of None \<Rightarrow> fresh | Some q \<Rightarrow> change q)
    \<and> principal_row_ok p
    \<and> (\<forall>b. principal_version b db' = (if b = pv_account fresh then Some p else principal_version b db))
    \<and> az_held db' = az_held db \<and> az_works db' = az_works db \<and> az_grants db' = az_grants db
    \<and> az_audit db' = az_audit db"
proof (cases "row_by pv_account (pv_account fresh) (az_principals db)")
  case None
  with assms(1) show ?thesis
    by (auto simp: upsert_principal_def principal_version_def row_by_append split: if_splits option.splits)
next
  case (Some q)
  have "row_by pv_account b (set_where (\<lambda>x. pv_account x = pv_account fresh) change (az_principals db))
      = (if b = pv_account fresh then Some (change q) else row_by pv_account b (az_principals db))" for b
  proof -
    have "row_by pv_account b (set_where (\<lambda>x. pv_account x = pv_account fresh) change (az_principals db))
      = map_option (\<lambda>x. if pv_account x = pv_account fresh then change x else x)
          (row_by pv_account b (az_principals db))"
      by (rule row_by_set_where) (rule assms(2))
    with Some show ?thesis
      by (cases "row_by pv_account b (az_principals db)") (auto dest: row_by_Some)
  qed
  with assms(1) Some show ?thesis
    by (auto simp: upsert_principal_def principal_version_def split: if_splits)
qed

lemma principal_version_account: "principal_version a db = Some p \<Longrightarrow> pv_account p = a"
  by (auto simp: principal_version_def dest: row_by_Some)

lemma bump_principal_version_Inr:
  assumes "bump_principal_version a now db = Inr (p, db')"
  shows "pv_version p = (case principal_version a db of None \<Rightarrow> 2 | Some q \<Rightarrow> pv_version q + 1)
    \<and> pv_dirty p = (case principal_version a db of None \<Rightarrow> None | Some q \<Rightarrow> pv_dirty q)
    \<and> pv_fence p = (case principal_version a db of None \<Rightarrow> 0 | Some q \<Rightarrow> pv_fence q)
    \<and> principal_row_ok p
    \<and> (\<forall>b. principal_version b db' = (if b = a then Some p else principal_version b db))
    \<and> az_held db' = az_held db \<and> az_works db' = az_works db \<and> az_grants db' = az_grants db"
  using upsert_principal_Inr [OF assms [unfolded bump_principal_version_def]]
  by (auto split: option.splits)

lemma repo_mark_fence_Inr:
  assumes "repo_mark_fence a reason now db = Inr (g, db')"
  shows "\<exists>p. (\<forall>b. principal_version b db' = (if b = a then Some p else principal_version b db))
    \<and> principal_row_ok p \<and> pv_dirty p = Some g \<and> pv_fence p = g
    \<and> g = (case principal_version a db of None \<Rightarrow> 1 | Some q \<Rightarrow> pv_fence q + 1)
    \<and> pv_version p = (case principal_version a db of None \<Rightarrow> 1 | Some q \<Rightarrow> pv_version q)
    \<and> az_held db' = az_held db \<and> az_works db' = az_works db \<and> az_grants db' = az_grants db"
proof -
  from assms obtain p where "upsert_principal \<lparr>pv_account = a, pv_version = 1, pv_fence = 1,
        pv_dirty = Some 1, pv_reason = Some reason, pv_updated_at = now\<rparr>
      (\<lambda>p. p\<lparr>pv_fence := pv_fence p + 1, pv_dirty := Some (pv_fence p + 1),
             pv_reason := Some reason, pv_updated_at := now\<rparr>) db = Inr (p, db')"
    and "g = the (pv_dirty p)"
    unfolding repo_mark_fence_def by (auto simp: res_simps)
  from upsert_principal_Inr [OF this(1)] this(2) show ?thesis
    by (intro exI [of _ p]) (auto split: option.splits)
qed

subsection \<open>Settling\<close>

text \<open>What settling the accounts \<open>A\<close> of work \<open>i\<close> changes.\<close>

definition released :: "bool \<Rightarrow> string \<Rightarrow> string set \<Rightarrow> authz_db \<Rightarrow> authz_db \<Rightarrow> bool" where
  "released bump i A db db' \<longleftrightarrow>
     az_held db' = filter (\<lambda>h. \<not> (hp_work h = i \<and> hp_account h \<in> A)) (az_held db)
   \<and> (\<forall>a. principal_version a db = None \<longrightarrow> principal_version a db' = None)
   \<and> (\<forall>a p. principal_version a db = Some p \<longrightarrow> (\<exists>p'. principal_version a db' = Some p'
        \<and> pv_fence p' = pv_fence p \<and> pv_version p' = pv_version p
            + (if bump \<and> a \<in> A \<and> (i, a) \<in> held_key ` set (az_held db) then 1 else 0)))"

definition settled :: "bool \<Rightarrow> string \<Rightarrow> string set \<Rightarrow> authz_db \<Rightarrow> authz_db \<Rightarrow> bool" where
  "settled bump i A db db' \<longleftrightarrow> released bump i A db db'
     \<and> az_works db' = az_works db \<and> az_grants db' = az_grants db"

lemmas settled_defs = settled_def released_def

lemma settled_none: "settled bump i {} db db"
  by (simp add: settled_defs)

lemma settled_trans:
  assumes "settled bump i A db db1" and "settled bump i B db1 db2" and "A \<inter> B = {}"
  shows "settled bump i (A \<union> B) db db2"
proof -
  have held: "az_held db2 = filter (\<lambda>h. \<not> (hp_work h = i \<and> hp_account h \<in> A \<union> B)) (az_held db)"
    using assms(1,2) by (auto simp: settled_defs intro!: filter_cong)
  have keys: "(i, a) \<in> held_key ` set (az_held db1) \<longleftrightarrow> (i, a) \<in> held_key ` set (az_held db)"
    if "a \<notin> A" for a
    using assms(1) that by (auto simp: settled_defs held_key_def image_iff)
  have "\<exists>p'. principal_version a db2 = Some p' \<and> pv_fence p' = pv_fence p \<and> pv_version p' = pv_version p
      + (if bump \<and> a \<in> A \<union> B \<and> (i, a) \<in> held_key ` set (az_held db) then 1 else 0)"
    if p: "principal_version a db = Some p" for a p
  proof -
    obtain p1 where p1: "principal_version a db1 = Some p1" "pv_fence p1 = pv_fence p"
      "pv_version p1 = pv_version p
        + (if bump \<and> a \<in> A \<and> (i, a) \<in> held_key ` set (az_held db) then 1 else 0)"
      using assms(1) p unfolding settled_defs by blast
    obtain p2 where p2: "principal_version a db2 = Some p2" "pv_fence p2 = pv_fence p1"
      "pv_version p2 = pv_version p1
        + (if bump \<and> a \<in> B \<and> (i, a) \<in> held_key ` set (az_held db1) then 1 else 0)"
      using assms(2) p1(1) unfolding settled_defs by blast
    have "a \<in> B \<Longrightarrow> a \<notin> A" using assms(3) by blast
    with p1 p2 keys [of a] show ?thesis by (cases "a \<in> A") auto
  qed
  with held assms(1,2) show ?thesis unfolding settled_defs by simp
qed

lemma settle_pending_principal_Inr:
  assumes inv: "fence_inv db" and ok: "settle_pending_principal i a bump now db = Inr (out, db')"
  shows "settled bump i {a} db db' \<and> fence_inv db' \<and> az_audit db' = az_audit db
    \<and> (out \<noteq> None \<longleftrightarrow> (i, a) \<in> held_key ` set (az_held db))"
proof -
  obtain p where p: "principal_version a db = Some p"
    using ok by (auto simp: settle_pending_principal_def split: option.splits)
  show ?thesis
  proof (cases "(i, a) \<in> held_key ` set (az_held db)")
    case False
    then have "filter (\<lambda>h. \<not> (hp_work h = i \<and> hp_account h \<in> {a})) (az_held db) = az_held db"
      by (auto simp: held_key_def filter_id_conv image_iff)
    with False ok p inv show ?thesis
      by (auto simp: settle_pending_principal_def settled_defs)
  next
    case True
    define held where "held = filter (\<lambda>h. held_key h \<noteq> (i, a)) (az_held db)"
    define change where "change = settled_principal bump (newest_held a held) now"
    have pok: "principal_row_ok (change p)"
      and db': "db' = db\<lparr>az_held := held,
          az_principals := set_where (\<lambda>x. pv_account x = a) change (az_principals db)\<rparr>"
      and out: "out \<noteq> None"
      using ok p True unfolding settle_pending_principal_def held_def change_def Let_def
      by (auto split: if_splits)
    have pv: "principal_version b db' = (if b = a then Some (change p) else principal_version b db)" for b
    proof -
      have "row_by pv_account b (set_where (\<lambda>x. pv_account x = a) change (az_principals db))
        = map_option (\<lambda>x. if pv_account x = a then change x else x) (row_by pv_account b (az_principals db))"
        by (rule row_by_set_where) (simp add: change_def settled_principal_def)
      with p show ?thesis
        by (cases "row_by pv_account b (az_principals db)")
          (auto simp: db' principal_version_def dest: row_by_Some)
    qed
    have filt: "az_held db' = filter (\<lambda>h. \<not> (hp_work h = i \<and> hp_account h \<in> {a})) (az_held db)"
      by (auto simp: db' held_def held_key_def intro!: filter_cong)
    have rest: "az_works db' = az_works db" "az_grants db' = az_grants db" by (simp_all add: db')
    have other: "top_generation b held = top_generation b (az_held db)" if "b \<noteq> a" for b
      using that by (auto simp: held_def top_generation_def open_generations_def held_key_def
          intro!: arg_cong [of _ _ Max])
    have dirty: "pv_dirty (change p) = top_generation a held"
      by (simp add: change_def settled_principal_def newest_held_top)
    have "settled bump i {a} db db'"
      unfolding settled_defs pv using filt rest True p by (auto simp: change_def settled_principal_def)
    moreover have "fence_inv db'"
    proof -
      have h': "az_held db' = held" by (simp add: db')
      have sub: "set held \<subseteq> set (az_held db)" by (auto simp: held_def)
      have fence: "pv_fence (change p) = pv_fence p" by (simp add: change_def settled_principal_def)
      show ?thesis
        unfolding fence_inv_def pv h'
        using inv pok dirty other p sub fence unfolding fence_inv_def
        by (auto split: if_splits) fastforce
    qed
    ultimately show ?thesis using True out by (simp add: db')
  qed
qed

lemma settle_all_Inr:
  assumes "fence_inv db" and "settle_all i bump now as db = Inr (out, db')" and "distinct as"
  shows "settled bump i (set as) db db' \<and> fence_inv db' \<and> az_audit db' = az_audit db
    \<and> map fst out = filter (\<lambda>a. (i, a) \<in> held_key ` set (az_held db)) as"
  using assms
proof (induction as arbitrary: db out)
  case Nil
  then show ?case by (simp add: settled_none)
next
  case (Cons a as)
  from Cons.prems(2) obtain x db1 rest where
    one: "settle_pending_principal i a bump now db = Inr (x, db1)"
    and more: "settle_all i bump now as db1 = Inr (rest, db')"
    and out: "out = (case x of None \<Rightarrow> rest | Some (b, c) \<Rightarrow> (a, b, c) # rest)"
    by (auto simp: res_simps)
  have s1: "settled bump i {a} db db1" "fence_inv db1" "az_audit db1 = az_audit db"
    "x \<noteq> None \<longleftrightarrow> (i, a) \<in> held_key ` set (az_held db)"
    using settle_pending_principal_Inr [OF Cons.prems(1) one] by blast+
  have s2: "settled bump i (set as) db1 db'" "fence_inv db'" "az_audit db' = az_audit db1"
    "map fst rest = filter (\<lambda>b. (i, b) \<in> held_key ` set (az_held db1)) as"
    using Cons.IH [OF s1(2) more] Cons.prems(3) by auto
  have "settled bump i ({a} \<union> set as) db db'"
    by (rule settled_trans [OF s1(1) s2(1)]) (use Cons.prems(3) in auto)
  moreover have "(i, b) \<in> held_key ` set (az_held db1) \<longleftrightarrow> (i, b) \<in> held_key ` set (az_held db)"
    if "b \<in> set as" for b
    using s1(1) that Cons.prems(3) by (auto simp: settled_defs held_key_def image_iff)
  then have "map fst rest = filter (\<lambda>b. (i, b) \<in> held_key ` set (az_held db)) as"
    unfolding s2(4) by (intro filter_cong) auto
  ultimately show ?case using s1(3,4) s2(2,3) out by (auto split: option.splits)
qed

subsection \<open>Works\<close>

lemma update_pending_work_Inr:
  assumes "update_pending_work i f db = Inr (out, db')" and "\<And>w. cw_id (f w) = cw_id w"
  shows "(out = None \<longrightarrow> db' = db \<and> (\<forall>w. work_by_id i db = Some w \<longrightarrow> cw_status w \<noteq> WORK_PENDING))
    \<and> (\<forall>w'. out = Some w' \<longrightarrow> (\<exists>w. work_by_id i db = Some w \<and> cw_status w = WORK_PENDING \<and> w' = f w
         \<and> work_row_ok w'
         \<and> (\<forall>j. work_by_id j db' = (if j = i then Some w' else work_by_id j db))))
    \<and> az_held db' = az_held db \<and> az_principals db' = az_principals db \<and> az_grants db' = az_grants db
    \<and> az_audit db' = az_audit db"
proof (cases "work_by_id i db")
  case None
  with assms(1) show ?thesis by (auto simp: update_pending_work_def)
next
  case (Some w)
  have "row_by cw_id j (set_where (\<lambda>x. cw_id x = i) f (az_works db))
      = (if j = i then Some (f w) else row_by cw_id j (az_works db))" for j
  proof -
    have "row_by cw_id j (set_where (\<lambda>x. cw_id x = i) f (az_works db))
      = map_option (\<lambda>x. if cw_id x = i then f x else x) (row_by cw_id j (az_works db))"
      by (rule row_by_set_where) (rule assms(2))
    with Some show ?thesis
      by (cases "row_by cw_id j (az_works db)") (auto simp: work_by_id_def dest: row_by_Some)
  qed
  then have view: "work_by_id j (db\<lparr>az_works := set_where (\<lambda>x. cw_id x = i) f (az_works db)\<rparr>)
      = (if j = i then Some (f w) else work_by_id j db)" for j
    by (simp add: work_by_id_def)
  with assms(1) Some show ?thesis
    by (auto simp: update_pending_work_def split: if_splits)
qed

end
