(* ===== verification/Authz_Steps.thy ===== *)
theory Authz_Steps
  imports Authz_Fence
begin

section \<open>The transactions of the authorization module\<close>

text \<open>
  What each transaction of \<open>Authz_Changes\<close> does to the tables, that it keeps the invariant, and the
  step relation that interleaves them.
\<close>

subsection \<open>Beginning a change\<close>

definition marked :: "(string, int) dict \<Rightarrow> authz_db \<Rightarrow> authz_db \<Rightarrow> bool" where
  "marked gs db db' \<longleftrightarrow>
     (\<forall>b. b \<notin> fst ` set gs \<longrightarrow> principal_version b db' = principal_version b db)
   \<and> (\<forall>(a, g) \<in> set gs. \<exists>p'. principal_version a db' = Some p' \<and> principal_row_ok p'
        \<and> pv_dirty p' = Some g \<and> pv_fence p' = g
        \<and> g = (case principal_version a db of None \<Rightarrow> 1 | Some q \<Rightarrow> pv_fence q + 1)
        \<and> pv_version p' = (case principal_version a db of None \<Rightarrow> 1 | Some q \<Rightarrow> pv_version q))
   \<and> az_held db' = az_held db \<and> az_works db' = az_works db \<and> az_grants db' = az_grants db"

lemma mark_all_Inr:
  assumes "mark_all env reason n as db = Inr (gs, db')" and "distinct as"
  shows "map fst gs = as \<and> marked gs db db'"
  using assms
proof (induction as arbitrary: n db gs)
  case Nil
  then show ?case by (simp add: marked_def)
next
  case (Cons a as)
  from Cons.prems(1) obtain g db1 gs' where
    one: "repo_mark_fence a reason (zv_clock env n) db = Inr (g, db1)"
    and more: "mark_all env reason (Suc n) as db1 = Inr (gs', db')" and gs: "gs = (a, g) # gs'"
    by (auto simp: res_simps)
  from repo_mark_fence_Inr [OF one] obtain p where
    p: "\<And>b. principal_version b db1 = (if b = a then Some p else principal_version b db)"
      "principal_row_ok p" "pv_dirty p = Some g" "pv_fence p = g"
      "g = (case principal_version a db of None \<Rightarrow> 1 | Some q \<Rightarrow> pv_fence q + 1)"
      "pv_version p = (case principal_version a db of None \<Rightarrow> 1 | Some q \<Rightarrow> pv_version q)"
    and same: "az_held db1 = az_held db" "az_works db1 = az_works db" "az_grants db1 = az_grants db"
    by blast
  have IH: "map fst gs' = as" "marked gs' db1 db'" using Cons.IH [OF more] Cons.prems(2) by simp_all
  have fresh: "a \<notin> fst ` set gs'" using IH(1) Cons.prems(2) by force
  then have "principal_version a db' = Some p" using IH(2) p(1) by (simp add: marked_def)
  moreover have "principal_version b db1 = principal_version b db" if "(b, h) \<in> set gs'" for b h
    using that fresh p(1) by force
  moreover have "principal_version b db' = principal_version b db" if "b \<notin> fst ` set gs" for b
    using that IH(2) p(1) by (simp add: marked_def gs)
  ultimately have "marked gs db db'"
    using IH(2) p(2-6) same unfolding marked_def gs by (auto split: prod.splits) fastforce
  with IH(1) show ?case by (simp add: gs)
qed

definition held_rows :: "string \<Rightarrow> string \<Rightarrow> instant \<Rightarrow> (string, int) dict \<Rightarrow> held_row list" where
  "held_rows i reason now gs = map (\<lambda>(a, g). \<lparr>hp_work = i, hp_account = a, hp_generation = g,
     hp_reason = reason, hp_created_at = now\<rparr>) gs"

lemma held_rows_simps [simp]:
  "held_rows i r now [] = []"
  "held_rows i r now ((a, g) # gs) = \<lparr>hp_work = i, hp_account = a, hp_generation = g,
     hp_reason = r, hp_created_at = now\<rparr> # held_rows i r now gs"
  by (simp_all add: held_rows_def)

lemma set_held_rows: "h \<in> set (held_rows i r now gs) \<longleftrightarrow> hp_work h = i \<and> hp_reason h = r
   \<and> hp_created_at h = now \<and> (hp_account h, hp_generation h) \<in> set gs"
  by (cases h) (force simp: held_rows_def)

lemma hold_all_Inr:
  "hold_all i reason now gs db = Inr db' \<Longrightarrow>
     az_held db' = az_held db @ held_rows i reason now gs \<and> list_all held_row_ok (held_rows i reason now gs)
   \<and> az_principals db' = az_principals db \<and> az_works db' = az_works db \<and> az_grants db' = az_grants db
   \<and> az_audit db' = az_audit db
   \<and> (distinct (map held_key (az_held db)) \<longrightarrow> distinct (map held_key (az_held db')))"
proof (induction gs arbitrary: db)
  case (Cons x gs)
  obtain a g where x: "x = (a, g)" by force
  define h where "h = \<lparr>hp_work = i, hp_account = a, hp_generation = g, hp_reason = reason,
      hp_created_at = now\<rparr>"
  from Cons.prems obtain db1 where one: "insert_pending_principal h db = Inr db1"
    and more: "hold_all i reason now gs db1 = Inr db'"
    by (auto simp: x h_def res_simps)
  from one have "held_row_ok h" "held_key h \<notin> held_key ` set (az_held db)"
    "db1 = db\<lparr>az_held := az_held db @ [h]\<rparr>"
    by (auto simp: insert_pending_principal_def split: if_splits)
  then have "distinct (map held_key (az_held db)) \<longrightarrow> distinct (map held_key (az_held db1))" by simp
  then have dist: "distinct (map held_key (az_held db)) \<longrightarrow> distinct (map held_key (az_held db'))"
    using Cons.IH [OF more] by iprover
  have "az_held db' = az_held db @ h # held_rows i reason now gs"
    and "list_all held_row_ok (h # held_rows i reason now gs)"
    and "az_principals db' = az_principals db" and "az_works db' = az_works db"
    and "az_grants db' = az_grants db" and "az_audit db' = az_audit db"
    using Cons.IH [OF more] \<open>held_row_ok h\<close> \<open>db1 = _\<close> by simp_all
  with dist show ?case unfolding x held_rows_simps h_def by blast
qed simp

lemma open_generations_append:
  "open_generations a (xs @ ys) = open_generations a xs \<union> open_generations a ys"
  by (auto simp: open_generations_def)

lemma open_generations_simps [simp]:
  "open_generations a [] = {}"
  "open_generations a (h # rows) = (if hp_account h = a then insert (hp_generation h) (open_generations a rows)
     else open_generations a rows)"
  by (auto simp: open_generations_def)

lemma open_held_rows: "open_generations a (held_rows i r now gs) = {g. (a, g) \<in> set gs}"
proof (induction gs)
  case (Cons x gs)
  show ?case by (cases x) (simp add: Cons.IH, blast)
qed simp

lemma top_generation_held:
  assumes "distinct (map fst gs)" and "(a, g) \<in> set gs" and "\<forall>x \<in> open_generations a rows. x < g"
  shows "top_generation a (rows @ held_rows i r now gs) = Some g"
proof -
  have "g' = g" if "(a, g') \<in> set gs" for g'
    using map_of_is_SomeI [OF assms(1,2)] map_of_is_SomeI [OF assms(1) that] by simp
  with assms(2) have "{x. (a, x) \<in> set gs} = {g}" by blast
  then have "open_generations a (rows @ held_rows i r now gs) = insert g (open_generations a rows)"
    by (simp add: open_generations_append open_held_rows)
  moreover have "Max (insert g (open_generations a rows)) = g"
    using assms(3) by (intro Max_eqI) (auto simp: less_imp_le)
  ultimately show ?thesis by (simp add: top_generation_def)
qed

lemma top_generation_other:
  "a \<notin> fst ` set gs \<Longrightarrow> top_generation a (rows @ held_rows i r now gs) = top_generation a rows"
proof -
  assume "a \<notin> fst ` set gs"
  then have "{g. (a, g) \<in> set gs} = {}" by force
  then show ?thesis by (simp add: top_generation_def open_generations_append open_held_rows)
qed

text \<open>What a newly created change leaves behind.\<close>

definition begun :: "ticket \<Rightarrow> work_row \<Rightarrow> authz_db \<Rightarrow> authz_db \<Rightarrow> bool" where
  "begun t w db db' \<longleftrightarrow>
     tk_created t \<and> tk_id t = cw_id w \<and> tk_generations t = cw_generations w \<and> tk_status t = WORK_PENDING
   \<and> cw_status w = WORK_PENDING \<and> work_row_ok w \<and> distinct (map fst (cw_generations w))
   \<and> cw_id w \<notin> cw_id ` set (az_works db)
   \<and> (\<exists>db1. marked (cw_generations w) db db1 \<and> (\<forall>b. principal_version b db' = principal_version b db1))
   \<and> az_works db' = az_works db @ [w] \<and> az_grants db' = az_grants db
   \<and> az_held db' = az_held db @ held_rows (cw_id w) (cw_reason w) (cw_created_at w) (cw_generations w)
   \<and> list_all held_row_ok (held_rows (cw_id w) (cw_reason w) (cw_created_at w) (cw_generations w))"

lemma distinct_strings_of [simp]: "distinct (strings_of xs)"
  by (simp add: strings_of_def)

lemma distinct_principal_ids [simp]: "distinct (principal_ids db)"
  by (simp add: principal_ids_def)

lemma ticket_of_Inr:
  "ticket_of w c = Inr t \<Longrightarrow> tk_id t = cw_id w \<and> tk_generations t = cw_generations w
     \<and> tk_status t = cw_status w \<and> tk_created t = c"
  by (auto simp: ticket_of_def res_simps)

lemma sort_key_last_in: "xs \<noteq> [] \<Longrightarrow> last (sort_key k xs) \<in> set xs"
  by (metis last_in_set set_empty set_sort)

lemma work_by_source_in: "work_by_source m a p k c db = Some w \<Longrightarrow> w \<in> set (az_works db)"
  unfolding work_by_source_def Let_def
  by (auto split: if_splits dest!: sort_key_last_in [where k = "\<lambda>w. (cw_created_at w, cw_id w)"])

lemma begin_change_Inr:
  assumes "begin_change env reason source loose ids accounts workspaces recompute db = Inr (t, db')"
  obtains (existing) w where "db' = db" and "\<not> tk_created t" and "w \<in> set (az_works db)"
      and "tk_id t = cw_id w" and "tk_status t = cw_status w" and "tk_generations t = cw_generations w"
    | (created) w where "begun t w db db'"
        and "\<forall>xs. ids = Some xs \<longrightarrow> map fst (cw_generations w) = strings_of xs"
        and "change_source_of env source loose = Inr (source_of_work w)" and "ticket_of w True = Inr t"
        and "work_by_source (cw_module w) (cw_actor w) (cw_operation w) (cw_key w) (cw_claim_id w) db = None"
        and "map fst (cw_generations w) = (case ids of Some xs \<Rightarrow> strings_of xs | None \<Rightarrow> principal_ids db)"
proof -
  let ?body = "\<lambda>s. case work_by_source (cs_module s) (cs_actor s) (cs_operation s) (cs_key s)
                  (cs_claim_id s) db of
             Some existing \<Rightarrow> rbind (ticket_of existing False) (\<lambda>t. Inr (t, db))
           | None \<Rightarrow>
               let principals = (case ids of Some xs \<Rightarrow> strings_of xs | None \<Rightarrow> principal_ids db)
               in rbind (mark_all env (strip reason) 0 principals db) (\<lambda>(generations, db1).
                  let now = zv_clock env (length principals)
                  in rbind (insert_convergence_work (new_work env s (strip reason) generations
                       (strings_of accounts) (strings_of workspaces) recompute now) db1)
                     (\<lambda>(row, db2). rbind (hold_all (cw_id row) (strip reason) now generations db2)
                     (\<lambda>db3. rbind (ticket_of row True) (\<lambda>t. Inr (t, db3)))))"
  from assms have "rbind (change_source_of env source loose) ?body = Inr (t, db')"
    unfolding begin_change_def Let_def by (simp split: if_splits)
  then obtain s where src: "change_source_of env source loose = Inr s" and s: "?body s = Inr (t, db')"
    by (rule rbind_InrE)
  show thesis
  proof (cases "work_by_source (cs_module s) (cs_actor s) (cs_operation s) (cs_key s) (cs_claim_id s) db")
    case (Some w)
    with s have "ticket_of w False = Inr t" and "db' = db" by (auto simp: rbind_Inr_iff)
    moreover from Some have "w \<in> set (az_works db)" by (rule work_by_source_in)
    ultimately show thesis using ticket_of_Inr existing by metis
  next
    case None
    define ps where "ps = (case ids of Some xs \<Rightarrow> strings_of xs | None \<Rightarrow> principal_ids db)"
    define later where "later = zv_clock env (length ps)"
    define work where "work = (\<lambda>gs. new_work env s (strip reason) gs (strings_of accounts)
            (strings_of workspaces) recompute later)"
    from s None have all: "rbind (mark_all env (strip reason) 0 ps db) (\<lambda>(gs, db1).
        rbind (insert_convergence_work (work gs) db1) (\<lambda>(row, db2).
        rbind (hold_all (cw_id row) (strip reason) later gs db2) (\<lambda>db3.
        rbind (ticket_of row True) (\<lambda>t. Inr (t, db3))))) = Inr (t, db')"
      unfolding ps_def later_def work_def Let_def by simp
    obtain gs db1 where mark: "mark_all env (strip reason) 0 ps db = Inr (gs, db1)"
      and all1: "rbind (insert_convergence_work (work gs) db1) (\<lambda>(row, db2).
        rbind (hold_all (cw_id row) (strip reason) later gs db2) (\<lambda>db3.
        rbind (ticket_of row True) (\<lambda>t. Inr (t, db3)))) = Inr (t, db')"
      using all by (rule rbind_pairE)
    obtain row db2 where ins: "insert_convergence_work (work gs) db1 = Inr (row, db2)"
      and all2: "rbind (hold_all (cw_id row) (strip reason) later gs db2) (\<lambda>db3.
        rbind (ticket_of row True) (\<lambda>t. Inr (t, db3))) = Inr (t, db')"
      using all1 by (rule rbind_pairE)
    obtain db3 where hold3: "hold_all (cw_id row) (strip reason) later gs db2 = Inr db3"
      and all3: "rbind (ticket_of row True) (\<lambda>t. Inr (t, db3)) = Inr (t, db')"
      using all2 by (rule rbind_InrE)
    then have hold: "hold_all (cw_id row) (strip reason) later gs db2 = Inr db'"
      and tick: "ticket_of row True = Inr t"
      by (auto simp: rbind_Inr_iff)
    have "distinct ps" by (simp add: ps_def split: option.splits)
    from mark_all_Inr [OF mark this] have gs: "map fst gs = ps" "marked gs db db1" by blast+
    have row: "row = work gs" "work_row_ok row"
        "cw_id row \<notin> cw_id ` set (az_works db1)" "db2 = db1\<lparr>az_works := az_works db1 @ [row]\<rparr>"
      using ins by (auto simp: insert_convergence_work_def split: if_splits)
    have new: "cw_status row = WORK_PENDING" "cw_reason row = strip reason"
      "cw_created_at row = later" "cw_generations row = gs"
      by (simp_all add: row(1) work_def new_work_def)
    note h = hold_all_Inr [OF hold]
    have "principal_version b db' = principal_version b db1" for b
      using h row(4) by (simp add: principal_version_def)
    then have "begun t row db db'"
      using ticket_of_Inr [OF tick] gs \<open>distinct ps\<close> row(2-4) h new
      by (auto simp: begun_def marked_def)
    moreover have "\<forall>xs. ids = Some xs \<longrightarrow> map fst (cw_generations row) = strings_of xs"
      using gs(1) new by (simp add: ps_def)
    moreover have "source_of_work row = s" by (simp add: row(1) work_def new_work_def source_of_work_def)
    then have "change_source_of env source loose = Inr (source_of_work row)" using src by simp
    moreover have "work_by_source (cw_module row) (cw_actor row) (cw_operation row) (cw_key row)
        (cw_claim_id row) db = None"
      using None by (simp add: row(1) work_def new_work_def)
    moreover have "map fst (cw_generations row)
        = (case ids of Some xs \<Rightarrow> strings_of xs | None \<Rightarrow> principal_ids db)"
      using gs(1) new by (simp add: ps_def)
    ultimately show thesis using tick by (intro created)
  qed
qed

lemma work_by_id_append:
  assumes "az_works db' = az_works db @ [w]" and "cw_id w \<notin> cw_id ` set (az_works db)"
  shows "work_by_id j db' = (if j = cw_id w then Some w else work_by_id j db)"
  using assms by (auto simp: work_by_id_def row_by_append split: option.splits dest: row_by_Some)

text \<open>The principals after a change has begun.\<close>

lemma begun_principal:
  assumes "begun t w db db'"
  shows "b \<notin> fst ` set (cw_generations w) \<Longrightarrow> principal_version b db' = principal_version b db"
    and "(a, g) \<in> set (cw_generations w) \<Longrightarrow> \<exists>p'. principal_version a db' = Some p' \<and> principal_row_ok p'
        \<and> pv_dirty p' = Some g \<and> pv_fence p' = g
        \<and> g = (case principal_version a db of None \<Rightarrow> 1 | Some q \<Rightarrow> pv_fence q + 1)
        \<and> pv_version p' = (case principal_version a db of None \<Rightarrow> 1 | Some q \<Rightarrow> pv_version q)"
proof -
  obtain db1 where m: "marked (cw_generations w) db db1"
    and same: "\<And>b. principal_version b db' = principal_version b db1"
    using assms unfolding begun_def by blast
  show "b \<notin> fst ` set (cw_generations w) \<Longrightarrow> principal_version b db' = principal_version b db"
    using m same by (simp add: marked_def)
  show "\<exists>p'. principal_version a db' = Some p' \<and> principal_row_ok p'
        \<and> pv_dirty p' = Some g \<and> pv_fence p' = g
        \<and> g = (case principal_version a db of None \<Rightarrow> 1 | Some q \<Rightarrow> pv_fence q + 1)
        \<and> pv_version p' = (case principal_version a db of None \<Rightarrow> 1 | Some q \<Rightarrow> pv_version q)"
    if "(a, g) \<in> set (cw_generations w)"
    using m same that unfolding marked_def by fastforce
qed

lemma open_generation_bound:
  assumes "fence_inv db" and "g \<in> open_generations a (az_held db)"
  shows "\<exists>p. principal_version a db = Some p \<and> g \<le> pv_fence p"
  using assms unfolding fence_inv_def open_generations_def by blast

lemma begun_fence_inv:
  assumes "fence_inv db" and "begun t w db db'"
  shows "fence_inv db'"
proof -
  let ?gs = "cw_generations w"
  have held: "az_held db' = az_held db @ held_rows (cw_id w) (cw_reason w) (cw_created_at w) ?gs"
    and ok: "list_all held_row_ok (held_rows (cw_id w) (cw_reason w) (cw_created_at w) ?gs)"
    and dist: "distinct (map fst ?gs)"
    using assms(2) unfolding begun_def by blast+
  have row: "principal_row_ok p \<and> pv_dirty p = top_generation a (az_held db')"
    if p: "principal_version a db' = Some p" for a p
  proof (cases "a \<in> fst ` set ?gs")
    case False
    then show ?thesis
      using begun_principal(1) [OF assms(2) False] p assms(1) top_generation_other [OF False]
      by (simp add: held fence_inv_def)
  next
    case True
    then obtain g where g: "(a, g) \<in> set ?gs" by force
    from begun_principal(2) [OF assms(2) g] p have p': "principal_row_ok p" "pv_dirty p = Some g"
      "g = (case principal_version a db of None \<Rightarrow> 1 | Some q \<Rightarrow> pv_fence q + 1)" by auto
    have "\<forall>x \<in> open_generations a (az_held db). x < g"
      using open_generation_bound [OF assms(1)] p'(3) by fastforce
    from top_generation_held [OF dist g this] p' show ?thesis by (simp add: held)
  qed
  have "held_row_ok h \<and> (\<exists>p. principal_version (hp_account h) db' = Some p \<and> hp_generation h \<le> pv_fence p)"
    if h: "h \<in> set (az_held db')" for h
  proof (cases "h \<in> set (az_held db)")
    case True
    with assms(1) obtain p where p: "held_row_ok h" "principal_version (hp_account h) db = Some p"
      "hp_generation h \<le> pv_fence p" unfolding fence_inv_def by blast
    show ?thesis
    proof (cases "hp_account h \<in> fst ` set ?gs")
      case False
      with p begun_principal(1) [OF assms(2) False] show ?thesis by simp
    next
      case True
      then obtain g where "(hp_account h, g) \<in> set ?gs" by force
      from begun_principal(2) [OF assms(2) this] p show ?thesis by auto
    qed
  next
    case False
    with h have "h \<in> set (held_rows (cw_id w) (cw_reason w) (cw_created_at w) ?gs)" by (simp add: held)
    with ok begun_principal(2) [OF assms(2)] show ?thesis
      by (fastforce simp: set_held_rows list_all_iff)
  qed
  with row show ?thesis unfolding fence_inv_def by blast
qed

lemma held_key_rows: "held_key ` set (held_rows i r n gs) = Pair i ` fst ` set gs"
  by (simp add: held_rows_def held_key_def image_image case_prod_beta)

lemma begun_work_inv:
  assumes "work_inv db" and "begun t w db db'"
  shows "work_inv db'"
proof -
  let ?new = "held_rows (cw_id w) (cw_reason w) (cw_created_at w) (cw_generations w)"
  have held: "az_held db' = az_held db @ ?new" and dist: "distinct (map fst (cw_generations w))"
    and fresh: "cw_id w \<notin> cw_id ` set (az_works db)" and w: "cw_status w = WORK_PENDING" "work_row_ok w"
    and app: "az_works db' = az_works db @ [w]"
    using assms(2) unfolding begun_def by blast+
  note view = work_by_id_append [OF app fresh]
  have none: "work_by_id (cw_id w) db = None" using fresh by (simp add: work_by_id_def)
  have old: "hp_work h \<noteq> cw_id w" if "h \<in> set (az_held db)" for h
    using assms(1) that none unfolding work_inv_def by fastforce
  have "map held_key ?new = map (\<lambda>a. (cw_id w, a)) (map fst (cw_generations w))"
    by (auto simp: held_rows_def held_key_def)
  then have "distinct (map held_key ?new)"
    using dist by (simp add: distinct_map inj_on_def)
  moreover have "held_key ` set (az_held db) \<inter> held_key ` set ?new = {}"
    using old by (auto simp: held_key_def set_held_rows)
  ultimately have "distinct (map held_key (az_held db'))"
    using assms(1) by (simp add: held work_inv_def)
  moreover have "\<exists>w'. work_by_id (hp_work h) db' = Some w' \<and> cw_status w' = WORK_PENDING
      \<and> hp_account h \<in> fst ` set (cw_generations w')" if "h \<in> set (az_held db')" for h
  proof (cases "h \<in> set (az_held db)")
    case True
    with assms(1) old [OF True] show ?thesis unfolding view work_inv_def by simp
  next
    case False
    with that have "h \<in> set ?new" by (simp add: held)
    then show ?thesis using w unfolding view by (force simp: set_held_rows)
  qed
  moreover have "work_row_ok w' \<and> distinct (map fst (cw_generations w')) \<and> (cw_status w' = WORK_PENDING \<longrightarrow>
      (\<forall>a \<in> fst ` set (cw_generations w'). (i, a) \<in> held_key ` set (az_held db')))"
    if i: "work_by_id i db' = Some w'" for i w'
  proof (cases "i = cw_id w")
    case True
    with i w dist show ?thesis by (simp add: view held image_Un held_key_rows)
  next
    case False
    with i have "work_by_id i db = Some w'" by (simp add: view)
    with assms(1) show ?thesis unfolding work_inv_def by (simp add: held image_Un)
  qed
  ultimately show ?thesis unfolding work_inv_def by blast
qed

subsection \<open>Closing a change\<close>

text \<open>The work \<open>i\<close> has been settled and closed in state \<open>st\<close>.\<close>

definition closed :: "bool \<Rightarrow> work_status \<Rightarrow> string \<Rightarrow> work_row \<Rightarrow> authz_db \<Rightarrow> authz_db \<Rightarrow> bool" where
  "closed bump st i w db db' \<longleftrightarrow>
     released bump i (fst ` set (cw_generations w)) db db' \<and> az_grants db' = az_grants db
   \<and> (\<exists>w'. cw_status w' = st \<and> cw_generations w' = cw_generations w \<and> work_row_ok w'
        \<and> (\<forall>j. work_by_id j db' = (if j = i then Some w' else work_by_id j db)))"

lemma released_cong:
  assumes "released bump i A db db1" and "az_held db' = az_held db1"
    and "az_principals db' = az_principals db1"
  shows "released bump i A db db'"
  using assms by (simp add: released_def principal_version_def)

text \<open>An update of a pending work succeeds on its row.\<close>

lemma update_pending:
  assumes "update_pending_work i f db = Inr (out, db')" and "work_by_id i db = Some w"
    and "cw_status w = WORK_PENDING" and "\<And>v. cw_id (f v) = cw_id v"
  shows "out = Some (f w)" and "work_row_ok (f w)"
    and "work_by_id j db' = (if j = i then Some (f w) else work_by_id j db)"
    and "az_held db' = az_held db" and "az_principals db' = az_principals db"
    and "az_grants db' = az_grants db" and "az_audit db' = az_audit db"
proof -
  note up = update_pending_work_Inr [OF assms(1,4)]
  from up assms(2,3) have "out \<noteq> None" by auto
  then obtain w' where "out = Some w'" by blast
  with up assms(2) show "out = Some (f w)" "work_row_ok (f w)"
    "work_by_id j db' = (if j = i then Some (f w) else work_by_id j db)" by auto
  show "az_held db' = az_held db" "az_principals db' = az_principals db" "az_grants db' = az_grants db"
    "az_audit db' = az_audit db" using up by blast+
qed

lemma distinct_sorted_accounts: "distinct (map fst (cw_generations w)) \<Longrightarrow> distinct (sorted_accounts w)"
  by (simp add: sorted_accounts_def)

lemma set_sorted_accounts [simp]: "set (sorted_accounts w) = fst ` set (cw_generations w)"
  by (simp add: sorted_accounts_def)

lemma work_by_id_cong: "az_works db' = az_works db \<Longrightarrow> work_by_id i db' = work_by_id i db"
  by (simp add: work_by_id_def)

lemma principal_version_cong:
  "az_principals db' = az_principals db \<Longrightarrow> principal_version a db' = principal_version a db"
  by (simp add: principal_version_def)

lemma abandon_work_Inr:
  assumes inv: "fence_inv db" and w: "work_by_id i db = Some w" "cw_status w = WORK_PENDING"
    and dist: "distinct (map fst (cw_generations w))"
    and ok: "abandon_work i now w db = Inr (out, db')"
  shows "closed False WORK_CANCELLED i w db db' \<and> fence_inv db'"
proof -
  obtain settled_list db1 where s: "settle_all i False now (sorted_accounts w) db = Inr (settled_list, db1)"
    and c: "rbind (cancel_convergence_work i now db1) (\<lambda>db2. Inr (map fst settled_list, db2)) = Inr (out, db')"
    using ok unfolding abandon_work_def by (rule rbind_pairE)
  from settle_all_Inr [OF inv s distinct_sorted_accounts [OF dist]]
  have st: "settled False i (fst ` set (cw_generations w)) db db1" "fence_inv db1" by simp_all
  from c have "cancel_convergence_work i now db1 = Inr db'" by (auto simp: rbind_Inr_iff)
  then obtain x where u: "update_pending_work i (\<lambda>w. w\<lparr>cw_status := WORK_CANCELLED,
        cw_phase := PHASE_CANCELLED, cw_cancelled_at := Some now, cw_updated_at := now\<rparr>) db1 = Inr (x, db')"
    unfolding cancel_convergence_work_def by (rule rbind_pairE) simp
  have w1: "work_by_id j db1 = work_by_id j db" for j
    using st(1) by (simp add: settled_def work_by_id_def)
  have w1i: "work_by_id i db1 = Some w" by (simp add: w1 w)
  have same: "az_principals db' = az_principals db1" "az_held db' = az_held db1" "az_grants db' = az_grants db1"
    by (simp_all add: update_pending [OF u w1i w(2)])
  let ?w' = "w\<lparr>cw_status := WORK_CANCELLED, cw_phase := PHASE_CANCELLED,
        cw_cancelled_at := Some now, cw_updated_at := now\<rparr>"
  have "work_row_ok ?w'" by (rule update_pending(2) [OF u w1i w(2)]) simp
  moreover have "work_by_id j db' = (if j = i then Some ?w' else work_by_id j db)" for j
    using update_pending(3) [OF u w1i w(2), of j] w1 by simp
  ultimately have fin: "cw_status ?w' = WORK_CANCELLED \<and> cw_generations ?w' = cw_generations w \<and> work_row_ok ?w'
      \<and> (\<forall>j. work_by_id j db' = (if j = i then Some ?w' else work_by_id j db))" by simp
  from st(1) have "released False i (fst ` set (cw_generations w)) db db1" "az_grants db1 = az_grants db"
    unfolding settled_def by blast+
  with same have "released False i (fst ` set (cw_generations w)) db db'" "az_grants db' = az_grants db"
    by (simp_all add: released_cong [OF _ same(2,1)])
  moreover have "fence_inv db'" using st(2) fence_inv_cong [OF same(1,2)] by blast
  ultimately show ?thesis using fin unfolding closed_def by blast
qed

text \<open>An update of the work's other columns before it is settled.\<close>

definition prepared :: "string \<Rightarrow> work_row \<Rightarrow> authz_db \<Rightarrow> authz_db \<Rightarrow> bool" where
  "prepared i w db db' \<longleftrightarrow> az_held db' = az_held db \<and> az_principals db' = az_principals db
     \<and> az_grants db' = az_grants db
     \<and> (\<exists>w'. cw_status w' = WORK_PENDING \<and> cw_generations w' = cw_generations w
          \<and> (\<forall>j. work_by_id j db' = (if j = i then Some w' else work_by_id j db)))"

lemma prepared_refl: "work_by_id i db = Some w \<Longrightarrow> cw_status w = WORK_PENDING \<Longrightarrow> prepared i w db db"
  by (auto simp: prepared_def)

lemma prepared_trans: "prepared i w db db1 \<Longrightarrow> prepared i w db1 db2 \<Longrightarrow> prepared i w db db2"
  by (auto simp: prepared_def)

lemma prepared_update:
  assumes "update_pending_work i f db = Inr (out, db')" and "work_by_id i db = Some w"
    and "cw_status w = WORK_PENDING"
    and "\<And>v. cw_id (f v) = cw_id v" and "\<And>v. cw_status (f v) = cw_status v"
    and "\<And>v. cw_generations (f v) = cw_generations v"
  shows "prepared i w db db'" and "out = Some (f w)" and "work_by_id i db' = Some (f w)"
proof -
  note up = update_pending [OF assms(1-4)]
  show "out = Some (f w)" "work_by_id i db' = Some (f w)" by (simp_all add: up)
  show "prepared i w db db'" unfolding prepared_def
    using assms(3,5,6) by (auto simp: up)
qed

lemma prepared_phase:
  assumes "update_convergence_phase i phase now db = Inr db'" and "work_by_id i db = Some w"
    and "cw_status w = WORK_PENDING"
  shows "prepared i w db db'"
proof -
  obtain x where u: "update_pending_work i (\<lambda>w. w\<lparr>cw_phase := phase, cw_updated_at := now\<rparr>) db = Inr (x, db')"
    using assms(1) unfolding update_convergence_phase_def by (rule rbind_pairE) simp
  show ?thesis by (rule prepared_update(1) [OF u assms(2,3)]) simp_all
qed

lemma closed_prepared:
  assumes "prepared i w db db1" and "closed bump st i w' db1 db'" and "cw_generations w' = cw_generations w"
  shows "closed bump st i w db db'"
proof -
  have pv: "principal_version a db1 = principal_version a db" for a
    using assms(1) by (simp add: prepared_def principal_version_def)
  have "released bump i (fst ` set (cw_generations w)) db db'"
    using assms pv by (simp add: closed_def released_def prepared_def)
  with assms show ?thesis unfolding closed_def prepared_def by auto
qed

lemma audit_converged_simps [simp]:
  "az_grants (audit_converged env n w xs db) = az_grants db"
  "az_principals (audit_converged env n w xs db) = az_principals db"
  "az_works (audit_converged env n w xs db) = az_works db"
  "az_held (audit_converged env n w xs db) = az_held db"
  by (induction env n w xs db rule: audit_converged.induct) simp_all

lemma updated_effects_Inr:
  assumes "updated_effects env u w db = Inr (out, db')" and "work_by_id (cw_id w) db = Some w"
    and "cw_status w = WORK_PENDING"
  shows "prepared (cw_id w) w db db' \<and> (\<exists>w'. out = Some w' \<and> work_by_id (cw_id w) db' = Some w'
    \<and> cw_id w' = cw_id w \<and> cw_status w' = WORK_PENDING \<and> cw_generations w' = cw_generations w)"
proof (cases "u = no_effects")
  case True
  with assms(1) have "out = Some w" "db' = db" by (simp_all add: updated_effects_def)
  with assms(2,3) prepared_refl show ?thesis by simp
next
  case False
  define f where "f = (\<lambda>w. w\<lparr>cw_accounts := (case eu_accounts u of Some xs \<Rightarrow> strings_of xs | None \<Rightarrow> cw_accounts w),
      cw_workspaces := (case eu_workspaces u of Some xs \<Rightarrow> strings_of xs | None \<Rightarrow> cw_workspaces w),
      cw_recompute := (case eu_recompute u of Some b \<Rightarrow> b | None \<Rightarrow> cw_recompute w),
      cw_updated_at := zv_clock env 0\<rparr> :: work_row)"
  define g where "g = (\<lambda>v. v\<lparr>cw_accounts := (case eu_accounts u of Some xs \<Rightarrow> strings_of xs | None \<Rightarrow> cw_accounts w),
      cw_workspaces := (case eu_workspaces u of Some xs \<Rightarrow> strings_of xs | None \<Rightarrow> cw_workspaces w),
      cw_recompute := (case eu_recompute u of Some b \<Rightarrow> b | None \<Rightarrow> cw_recompute w),
      cw_updated_at := zv_clock env 0\<rparr> :: work_row)"
  have g: "cw_id (g v) = cw_id v" "cw_status (g v) = cw_status v" "cw_generations (g v) = cw_generations v" for v
    by (simp_all add: g_def)
  have "update_pending_work (cw_id w) g db = Inr (out, db')"
    using assms(1) False unfolding updated_effects_def update_convergence_effects_def g_def by simp
  from prepared_update [OF this assms(2,3) g] show ?thesis
    using assms(3) g by simp
qed

lemma run_recompute_Inr:
  assumes "run_recompute env w db = Inr db'" and "work_by_id (cw_id w) db = Some w"
    and "cw_status w = WORK_PENDING"
  shows "prepared (cw_id w) w db db'"
proof (cases "cw_recompute w")
  case False
  with assms prepared_refl show ?thesis by (simp add: run_recompute_def)
next
  case True
  let ?rest = "\<lambda>db1. case zv_recompute env of
          None \<Rightarrow> Inl (AuthzRuntimeError ''membership recompute unavailable'')
        | Some f \<Rightarrow> (case f (cw_accounts w) of Some e \<Rightarrow> Inl (AuthzRuntimeError e) | None \<Rightarrow> Inr db1)"
  from assms(1) True have "rbind (update_convergence_phase (cw_id w) RECOMPUTE_PENDING (zv_clock env 1) db) ?rest
      = Inr db'" by (simp add: run_recompute_def)
  then obtain db1 where one: "update_convergence_phase (cw_id w) RECOMPUTE_PENDING (zv_clock env 1) db = Inr db1"
    and "?rest db1 = Inr db'" by (rule rbind_InrE)
  then have "db' = db1" by (auto split: option.splits)
  with prepared_phase [OF one assms(2,3)] show ?thesis by simp
qed

lemma prepared_work:
  assumes "prepared i w db db'"
  obtains w' where "work_by_id i db' = Some w'" and "cw_status w' = WORK_PENDING"
    and "cw_generations w' = cw_generations w"
  using assms unfolding prepared_def by fastforce

lemma prepared_fence_inv: "prepared i w db db' \<Longrightarrow> fence_inv db' = fence_inv db"
  by (rule fence_inv_cong) (simp_all add: prepared_def)

lemma prepared_gens: "cw_generations w' = cw_generations w \<Longrightarrow> prepared i w' db db' = prepared i w db db'"
  by (simp add: prepared_def)

lemma settle_and_complete:
  assumes inv: "fence_inv db" and w: "work_by_id i db = Some w" "cw_status w = WORK_PENDING"
    and dist: "distinct as" and as: "set as = fst ` set (cw_generations w)"
    and s: "settle_all i True now as db = Inr (out, db1)"
    and a: "az_grants db2 = az_grants db1" "az_principals db2 = az_principals db1"
      "az_works db2 = az_works db1" "az_held db2 = az_held db1"
    and c: "complete_convergence_work i now db2 = Inr db'"
  shows "closed True WORK_COMPLETED i w db db' \<and> fence_inv db'"
proof -
  from settle_all_Inr [OF inv s dist]
  have st: "released True i (fst ` set (cw_generations w)) db db1" "az_works db1 = az_works db"
      "az_grants db1 = az_grants db" "fence_inv db1" by (simp_all add: as settled_def)
  obtain x where u: "update_pending_work i (\<lambda>w. w\<lparr>cw_status := WORK_COMPLETED, cw_phase := PHASE_DONE,
         cw_completed_at := Some now, cw_updated_at := now\<rparr>) db2 = Inr (x, db')"
    using c unfolding complete_convergence_work_def by (rule rbind_pairE) simp
  have w2: "work_by_id j db2 = work_by_id j db" for j by (simp add: work_by_id_def a st)
  then have w2i: "work_by_id i db2 = Some w" by (simp add: w)
  have same: "az_principals db' = az_principals db2" "az_held db' = az_held db2" "az_grants db' = az_grants db2"
    by (simp_all add: update_pending [OF u w2i w(2)])
  let ?w' = "w\<lparr>cw_status := WORK_COMPLETED, cw_phase := PHASE_DONE,
        cw_completed_at := Some now, cw_updated_at := now\<rparr>"
  have "work_row_ok ?w'" by (rule update_pending(2) [OF u w2i w(2)]) simp
  moreover have "work_by_id j db' = (if j = i then Some ?w' else work_by_id j db)" for j
    using update_pending(3) [OF u w2i w(2), of j] w2 by simp
  ultimately have "cw_status ?w' = WORK_COMPLETED \<and> cw_generations ?w' = cw_generations w \<and> work_row_ok ?w'
      \<and> (\<forall>j. work_by_id j db' = (if j = i then Some ?w' else work_by_id j db))" by simp
  moreover have "released True i (fst ` set (cw_generations w)) db db'" "az_grants db' = az_grants db"
    using st(1,3) same a by (simp_all add: released_cong [OF st(1)])
  moreover have "fence_inv db'" using st(4) fence_inv_cong [of db' db1] same a by simp
  ultimately show ?thesis unfolding closed_def by blast
qed

lemma converge_work_Inr:
  assumes inv: "fence_inv db" and w: "work_by_id (cw_id w) db = Some w" "cw_status w = WORK_PENDING"
    and dist: "distinct (map fst (cw_generations w))"
    and ok: "converge_work env u w db = Inr (out, db')"
  shows "closed True WORK_COMPLETED (cw_id w) w db db' \<and> fence_inv db'"
proof -
  let ?i = "cw_id w"
  let ?tail = "\<lambda>w1 db3. rbind (settle_all (cw_id w1) True (zv_clock env 3) (sorted_accounts w1) db3) (\<lambda>(settled, db4).
              rbind (complete_convergence_work (cw_id w1) (zv_clock env 3) (audit_converged env 4 w1 settled db4))
                (\<lambda>db5. Inr (map fst settled, db5)))"
  let ?more = "\<lambda>found db1. case found of
         None \<Rightarrow> Inr ([], db1)
       | Some w1 \<Rightarrow> rbind (run_recompute env w1 db1) (\<lambda>db2.
           rbind (update_convergence_phase (cw_id w1) VERSION_PENDING (zv_clock env 2) db2) (?tail w1))"
  from ok have "rbind (updated_effects env u w db) (\<lambda>(found, db1). ?more found db1) = Inr (out, db')"
    unfolding converge_work_def Let_def .
  then obtain found db1 where e: "updated_effects env u w db = Inr (found, db1)"
    and rest: "?more found db1 = Inr (out, db')" by (rule rbind_pairE)
  from updated_effects_Inr [OF e w] obtain w1 where p1: "prepared ?i w db db1"
    and w1: "found = Some w1" "work_by_id ?i db1 = Some w1" "cw_id w1 = ?i" "cw_status w1 = WORK_PENDING"
      "cw_generations w1 = cw_generations w" by blast
  from rest w1(1) have "rbind (run_recompute env w1 db1) (\<lambda>db2.
           rbind (update_convergence_phase (cw_id w1) VERSION_PENDING (zv_clock env 2) db2) (?tail w1)) = Inr (out, db')"
    by simp
  then obtain db2 where r: "run_recompute env w1 db1 = Inr db2"
    and rest2: "rbind (update_convergence_phase (cw_id w1) VERSION_PENDING (zv_clock env 2) db2) (?tail w1) = Inr (out, db')"
    by (rule rbind_InrE)
  from rest2 obtain db3 where ph: "update_convergence_phase (cw_id w1) VERSION_PENDING (zv_clock env 2) db2 = Inr db3"
    and rest3: "?tail w1 db3 = Inr (out, db')" by (rule rbind_InrE)
  from rest3 obtain settled_list db4 where s: "settle_all (cw_id w1) True (zv_clock env 3) (sorted_accounts w1) db3
      = Inr (settled_list, db4)"
    and rest4: "rbind (complete_convergence_work (cw_id w1) (zv_clock env 3) (audit_converged env 4 w1 settled_list db4))
                (\<lambda>db5. Inr (map fst settled_list, db5)) = Inr (out, db')" by (rule rbind_pairE)
  from rest4 obtain db5 where c: "complete_convergence_work (cw_id w1) (zv_clock env 3)
      (audit_converged env 4 w1 settled_list db4) = Inr db5" and "db5 = db'" by (auto elim!: rbind_InrE)
  have p2: "prepared ?i w db1 db2"
    using run_recompute_Inr [OF r] w1 prepared_gens [OF w1(5)] by simp
  from prepared_work [OF p2] obtain w2 where w2: "work_by_id ?i db2 = Some w2" "cw_status w2 = WORK_PENDING"
    "cw_generations w2 = cw_generations w" .
  have p3: "prepared ?i w db2 db3"
    using prepared_phase [OF ph] w1(3) w2(1,2) prepared_gens [OF w2(3)] by simp
  from prepared_work [OF p3] obtain w3 where w3: "work_by_id ?i db3 = Some w3" "cw_status w3 = WORK_PENDING"
    "cw_generations w3 = cw_generations w" .
  have p: "prepared ?i w db db3" using prepared_trans [OF prepared_trans [OF p1 p2] p3] .
  have inv3: "fence_inv db3" using inv prepared_fence_inv [OF p] by simp
  have "closed True WORK_COMPLETED ?i w3 db3 db' \<and> fence_inv db'"
    by (rule settle_and_complete [OF inv3 w3(1,2) _ _ s [unfolded w1(3)] _ _ _ _
        c [unfolded w1(3) \<open>db5 = db'\<close>]])
      (use dist w1(5) w3(3) in \<open>simp_all add: distinct_sorted_accounts\<close>)
  with closed_prepared [OF p _ w3(3)] show ?thesis by blast
qed

lemma closed_work_inv:
  assumes inv: "work_inv db" and w: "work_by_id i db = Some w" "cw_status w = WORK_PENDING"
    and c: "closed bump st i w db db'" and st: "st \<noteq> WORK_PENDING"
  shows "work_inv db'"
proof -
  have held: "az_held db' = filter (\<lambda>h. \<not> (hp_work h = i \<and> hp_account h \<in> fst ` set (cw_generations w))) (az_held db)"
    using c unfolding closed_def released_def by blast
  obtain w' where w': "cw_status w' = st" "cw_generations w' = cw_generations w" "work_row_ok w'"
    and view: "\<And>j. work_by_id j db' = (if j = i then Some w' else work_by_id j db)"
    using c unfolding closed_def by blast
  have others: "hp_work h \<noteq> i" if "h \<in> set (az_held db')" for h
  proof
    assume "hp_work h = i"
    moreover from that have "h \<in> set (az_held db)" by (simp add: held)
    ultimately have "hp_account h \<in> fst ` set (cw_generations w)"
      using inv w(1) unfolding work_inv_def by fastforce
    with that \<open>hp_work h = i\<close> show False by (simp add: held)
  qed
  have "distinct (map held_key (az_held db'))"
    using inv by (simp add: work_inv_def held distinct_map_filter)
  moreover have "\<exists>v. work_by_id (hp_work h) db' = Some v \<and> cw_status v = WORK_PENDING
      \<and> hp_account h \<in> fst ` set (cw_generations v)" if h: "h \<in> set (az_held db')" for h
  proof -
    from h have "h \<in> set (az_held db)" by (simp add: held)
    with inv others [OF h] show ?thesis unfolding view work_inv_def by simp
  qed
  moreover have "work_row_ok v \<and> distinct (map fst (cw_generations v)) \<and> (cw_status v = WORK_PENDING \<longrightarrow>
      (\<forall>a \<in> fst ` set (cw_generations v). (j, a) \<in> held_key ` set (az_held db')))"
    if j: "work_by_id j db' = Some v" for j v
  proof (cases "j = i")
    case True
    with j w' st inv w(1) show ?thesis unfolding view work_inv_def by auto
  next
    case False
    with j have "work_by_id j db = Some v" by (simp add: view)
    moreover have "(j, a) \<in> held_key ` set (az_held db')" if "(j, a) \<in> held_key ` set (az_held db)" for a
      using that False unfolding held held_key_def by auto
    ultimately show ?thesis using inv unfolding work_inv_def by blast
  qed
  ultimately show ?thesis unfolding work_inv_def by blast
qed

text \<open>What \<open>_reconcile_work\<close> can do.\<close>

lemma reconcile_work_cases:
  assumes inv: "fence_inv db" "work_inv db" and ok: "reconcile_work env i u db = Inr (out, db')"
  obtains (unchanged) "db' = db"
    | (completed) w where "work_by_id i db = Some w" and "cw_status w = WORK_PENDING"
        and "closed True WORK_COMPLETED i w db db'" and "fence_inv db'"
    | (cancelled) w where "work_by_id i db = Some w" and "cw_status w = WORK_PENDING"
        and "closed False WORK_CANCELLED i w db db'" and "fence_inv db'"
proof (cases "work_by_id i db")
  case None
  with ok unchanged show thesis by (simp add: reconcile_work_def)
next
  case (Some w)
  have id: "cw_id w = i" using Some by (auto simp: work_by_id_def dest: row_by_Some)
  have dist: "distinct (map fst (cw_generations w))" using inv(2) Some unfolding work_inv_def by blast
  show thesis
  proof (cases "cw_status w = WORK_PENDING")
    case False
    with ok Some unchanged show thesis by (simp add: reconcile_work_def)
  next
    case True
    have conv: thesis if "converge_work env u w db = Inr (out, db')"
      using converge_work_Inr [OF inv(1) _ True dist that] Some id completed [OF Some True] by simp
    show thesis
    proof (cases "cw_xid w")
      case None
      with ok Some True conv unchanged show thesis
        by (auto simp: reconcile_work_def split: if_splits)
    next
      case xid: (Some x)
      show thesis
      proof (cases "zv_xact_status env x = ''aborted''")
        case aborted: True
        with ok Some True xid obtain o1 where "abandon_work i (zv_clock env 0) w db = Inr (o1, db')"
          by (auto simp: reconcile_work_def res_simps)
        from abandon_work_Inr [OF inv(1) Some True dist this] show thesis
          using cancelled [OF Some True] by blast
      next
        case False
        with ok Some True xid conv unchanged show thesis
          by (auto simp: reconcile_work_def Let_def split: if_splits)
      qed
    qed
  qed
qed

lemma cancel_change_cases:
  assumes inv: "fence_inv db" "work_inv db" and ok: "cancel_change env t db = Inr (out, db')"
  obtains (unchanged) "db' = db"
    | (cancelled) w where "work_by_id (tk_id t) db = Some w" and "cw_status w = WORK_PENDING"
        and "closed False WORK_CANCELLED (tk_id t) w db db'" and "fence_inv db'"
proof (cases "work_by_id (tk_id t) db")
  case None
  with ok unchanged show thesis by (simp add: cancel_change_def split: if_splits)
next
  case (Some w)
  show thesis
  proof (cases "tk_created t \<and> cw_status w = WORK_PENDING")
    case False
    with ok Some unchanged show thesis by (auto simp: cancel_change_def split: if_splits)
  next
    case True
    with ok Some have "abandon_work (tk_id t) (zv_clock env 0) w db = Inr (out, db')"
      by (simp add: cancel_change_def)
    from abandon_work_Inr [OF inv(1) Some _ _ this] inv(2) Some True show thesis
      using cancelled unfolding work_inv_def by blast
  qed
qed

subsection \<open>Grants\<close>

text \<open>A grant or a revocation raises the principal's version and touches no fence.\<close>

definition bumped :: "string \<Rightarrow> authz_db \<Rightarrow> authz_db \<Rightarrow> bool" where
  "bumped a db db' \<longleftrightarrow> az_held db' = az_held db \<and> az_works db' = az_works db
   \<and> (\<forall>b. b \<noteq> a \<longrightarrow> principal_version b db' = principal_version b db)
   \<and> (\<exists>p'. principal_version a db' = Some p' \<and> principal_row_ok p'
        \<and> pv_version p' = (case principal_version a db of None \<Rightarrow> 2 | Some q \<Rightarrow> pv_version q + 1)
        \<and> pv_dirty p' = (case principal_version a db of None \<Rightarrow> None | Some q \<Rightarrow> pv_dirty q)
        \<and> pv_fence p' = (case principal_version a db of None \<Rightarrow> 0 | Some q \<Rightarrow> pv_fence q))"

lemma bumped_of_bump:
  assumes "bump_principal_version a now db1 = Inr (p, db2)" and "az_principals db1 = az_principals db"
    and "az_held db1 = az_held db" and "az_works db1 = az_works db"
    and "az_principals db' = az_principals db2" and "az_held db' = az_held db2" and "az_works db' = az_works db2"
  shows "bumped a db db'"
  using bump_principal_version_Inr [OF assms(1)] assms(2-7)
  by (simp add: bumped_def principal_version_def)

lemma grant_Inr:
  assumes "grant env who cap s actor reason source f t c db = Inr (g, db')"
  shows "bumped (strip who) db db' \<and> az_grants db' = az_grants db @ [g]
    \<and> gr_principal g = strip who \<and> gr_capability g = strip cap \<and> gr_scope_type g = sc_type s
    \<and> gr_scope_id g = sc_id s \<and> gr_status g = GRANT_ACTIVE \<and> gr_valid_from g = f \<and> gr_valid_to g = t
    \<and> grant_row_ok g \<and> gr_id g \<notin> gr_id ` set (az_grants db)"
proof -
  define row where "row = \<lparr>gr_id = zv_new_id env 0, gr_principal = strip who, gr_capability = strip cap,
                 gr_scope_type = sc_type s, gr_scope_id = sc_id s, gr_source = strip source,
                 gr_valid_from = f, gr_valid_to = t, gr_status = GRANT_ACTIVE,
                 gr_version = 1, gr_created_at = zv_clock env 0, gr_updated_at = zv_clock env 0,
                 gr_revoked_at = None, gr_revoked_by = None, gr_revoke_reason = None\<rparr>"
  let ?log = "\<lambda>created version by db2. (Inr :: _ \<Rightarrow> (authz_error, grant_row \<times> authz_db) res) (created, authz_audit env 1 by ''authorization.grant.created'' ''GRANT''
                  (gr_id created) ''SUCCESS''
                  (strip reason @ ''; principal='' @ strip who @ ''; capability='' @ strip cap @ ''; scope=''
                    @ scope_text s @ ''; authorizationVersion='' @ str_of_int (pv_version version))
                  c db2)"
  from assms have "rbind (insert_grant row db) (\<lambda>(created, db1).
              rbind (bump_principal_version (strip who) (zv_clock env 0) db1) (\<lambda>(version, db2).
              rbind (actor_of actor) (\<lambda>by. ?log created version by db2))) = Inr (g, db')"
    unfolding grant_def Let_def row_def by (simp split: if_splits)
  then obtain created db1 where i: "insert_grant row db = Inr (created, db1)"
    and r1: "rbind (bump_principal_version (strip who) (zv_clock env 0) db1) (\<lambda>(version, db2).
              rbind (actor_of actor) (\<lambda>by. ?log created version by db2)) = Inr (g, db')"
    by (rule rbind_pairE)
  from r1 obtain version db2 where b: "bump_principal_version (strip who) (zv_clock env 0) db1 = Inr (version, db2)"
    and r2: "rbind (actor_of actor) (\<lambda>by. ?log created version by db2) = Inr (g, db')"
    by (rule rbind_pairE)
  from r2 obtain by' where l: "?log created version by' db2 = Inr (g, db')" by (rule rbind_InrE)
  from i have c: "created = row" "db1 = db\<lparr>az_grants := az_grants db @ [row]\<rparr>" "grant_row_ok row"
      "gr_id row \<notin> gr_id ` set (az_grants db)"
    by (auto simp: insert_grant_def split: if_splits)
  from l c(1) have g: "g = row" and same: "az_principals db' = az_principals db2" "az_held db' = az_held db2"
      "az_works db' = az_works db2" "az_grants db' = az_grants db2" by auto
  have "az_grants db2 = az_grants db1" using bump_principal_version_Inr [OF b] by blast
  with bumped_of_bump [OF b _ _ _ same(1-3)] c g same(4) show ?thesis by (simp add: row_def)
qed

lemma revoke_Inr:
  assumes "revoke env i n actor reason db = Inr (g', db')"
  shows "\<exists>g by' why now. grant_by_id i db = Some g \<and> gr_status g = GRANT_ACTIVE \<and> gr_version g = n
    \<and> g' = revoked_row by' why now g \<and> bumped (gr_principal g) db db'
    \<and> az_grants db' = set_where (\<lambda>x. gr_id x = i) (revoked_row by' why now) (az_grants db)"
proof -
  from assms obtain g where g: "grant_by_id i db = Some g" "gr_version g = n" "gr_status g = GRANT_ACTIVE"
    by (auto simp: revoke_def Let_def split: if_splits option.splits)
  let ?log = "\<lambda>by revoked version db2. (Inr :: _ \<Rightarrow> (authz_error, grant_row \<times> authz_db) res) (revoked, authz_audit env 1 by ''authorization.grant.revoked'' ''GRANT''
                          i ''SUCCESS''
                          (strip reason @ ''; principal='' @ gr_principal g @ ''; beforeVersion=''
                            @ str_of_int n @ ''; afterVersion=''
                            @ str_of_int (gr_version revoked) @ ''; authorizationVersion=''
                            @ str_of_int (pv_version version)) None db2)"
  let ?upd = "\<lambda>by updated db1. case updated of
                    None \<Rightarrow> Inl (StaleGrantVersion i)
                  | Some revoked \<Rightarrow>
                      rbind (bump_principal_version (gr_principal g) (zv_clock env 0) db1)
                        (\<lambda>(version, db2). ?log by revoked version db2)"
  from assms g have "rbind (actor_of actor) (\<lambda>by.
      rbind (revoke_grant i n by (strip reason) (zv_clock env 0) db) (\<lambda>(updated, db1). ?upd by updated db1))
      = Inr (g', db')"
    unfolding revoke_def Let_def by (simp split: if_splits)
  then obtain by' where "rbind (revoke_grant i n by' (strip reason) (zv_clock env 0) db)
      (\<lambda>(updated, db1). ?upd by' updated db1) = Inr (g', db')" by (rule rbind_InrE)
  then obtain updated db1 where r: "revoke_grant i n by' (strip reason) (zv_clock env 0) db = Inr (updated, db1)"
    and u: "?upd by' updated db1 = Inr (g', db')" by (rule rbind_pairE)
  define row where "row = revoked_row by' (strip reason) (zv_clock env 0)"
  from r g have up: "updated = Some (row g)"
      "db1 = db\<lparr>az_grants := set_where (\<lambda>x. gr_id x = i) row (az_grants db)\<rparr>"
    by (auto simp: revoke_grant_def row_def split: if_splits)
  from u up(1) have "rbind (bump_principal_version (gr_principal g) (zv_clock env 0) db1)
      (\<lambda>(version, db2). ?log by' (row g) version db2) = Inr (g', db')" by simp
  then obtain version db2 where b: "bump_principal_version (gr_principal g) (zv_clock env 0) db1 = Inr (version, db2)"
    and l: "?log by' (row g) version db2 = Inr (g', db')" by (rule rbind_pairE)
  from l have g': "g' = row g" and same: "az_principals db' = az_principals db2" "az_held db' = az_held db2"
      "az_works db' = az_works db2" "az_grants db' = az_grants db2" by auto
  have "az_grants db2 = az_grants db1" using bump_principal_version_Inr [OF b] by blast
  with bumped_of_bump [OF b _ _ _ same(1-3)] up(2) same(4) g g' show ?thesis unfolding row_def by auto
qed

lemma bumped_inv:
  assumes "bumped a db db'" and "fence_inv db" and "work_inv db"
  shows "fence_inv db' \<and> work_inv db'"
proof
  show "work_inv db'" using assms work_inv_cong [of db' db] by (simp add: bumped_def)
  obtain p' where p': "principal_version a db' = Some p'" "principal_row_ok p'"
    "pv_dirty p' = (case principal_version a db of None \<Rightarrow> None | Some q \<Rightarrow> pv_dirty q)"
    "pv_fence p' = (case principal_version a db of None \<Rightarrow> 0 | Some q \<Rightarrow> pv_fence q)"
    and same: "az_held db' = az_held db" "\<And>b. b \<noteq> a \<Longrightarrow> principal_version b db' = principal_version b db"
    using assms(1) unfolding bumped_def by blast
  have "principal_row_ok p \<and> pv_dirty p = top_generation b (az_held db')"
    if b: "principal_version b db' = Some p" for b p
  proof (cases "b = a")
    case False
    with b same assms(2) show ?thesis by (simp add: fence_inv_def)
  next
    case True
    with b p' have p: "p = p'" by simp
    show ?thesis
    proof (cases "principal_version a db")
      case None
      then have "open_generations a (az_held db) = {}"
        using open_generation_bound [OF assms(2)] by fastforce
      with None p' p True same show ?thesis by (simp add: top_generation_def)
    next
      case (Some q)
      with assms(2) p' p True same show ?thesis by (simp add: fence_inv_def)
    qed
  qed
  moreover have "held_row_ok h \<and> (\<exists>p. principal_version (hp_account h) db' = Some p \<and> hp_generation h \<le> pv_fence p)"
    if h: "h \<in> set (az_held db')" for h
  proof -
    from h assms(2) obtain p where p: "held_row_ok h" "principal_version (hp_account h) db = Some p"
      "hp_generation h \<le> pv_fence p" unfolding fence_inv_def same by blast
    with p' same show ?thesis by (cases "hp_account h = a") auto
  qed
  ultimately show "fence_inv db'" unfolding fence_inv_def by blast
qed

end
