(* ===== verification/Authz_Safety.thy ===== *)
theory Authz_Safety
  imports Authz_Steps
begin

section \<open>The authorization module: properties\<close>

text \<open>
  Every interleaving of the module's transactions as a step relation, the specification of the
  fence it refines, and the properties of security changes and decisions.
\<close>

subsection \<open>Interleaved transactions\<close>

inductive authz_step :: "authz_db \<Rightarrow> authz_db \<Rightarrow> bool" where
  grant_step: "authz_step db db'"
    if "grant env who cap s actor reason source f t c db = Inr (g, db')"
| revoke_step: "authz_step db db'"
    if "revoke env i n actor reason db = Inr (g, db')"
| begin_step: "authz_step db db'"
    if "begin_change env reason source loose ids accounts workspaces recompute db = Inr (t, db')"
| reconcile_step: "authz_step db db'"
    if "reconcile_work env i u db = Inr (out, db')"
| cancel_step: "authz_step db db'"
    if "cancel_change env t db = Inr (out, db')"

definition authz_inv :: "authz_db \<Rightarrow> bool" where
  "authz_inv db \<longleftrightarrow> fence_inv db \<and> work_inv db"

definition empty_authz_db :: authz_db where
  "empty_authz_db = \<lparr>az_grants = [], az_principals = [], az_works = [], az_held = [], az_audit = []\<rparr>"

definition authz_reachable :: "authz_db \<Rightarrow> bool" where
  "authz_reachable db \<longleftrightarrow> authz_step\<^sup>*\<^sup>* empty_authz_db db"

lemma empty_authz_inv: "authz_inv empty_authz_db"
  by (simp add: authz_inv_def fence_inv_def work_inv_def empty_authz_db_def principal_version_def
      work_by_id_def)

lemma authz_step_cases:
  assumes "authz_step db db'" and "authz_inv db"
  obtains (unchanged) "db' = db"
    | (bumped) a where "bumped a db db'" and "authz_inv db'"
    | (begun) t w where "begun t w db db'" and "authz_inv db'"
    | (completed) i w where "work_by_id i db = Some w" and "cw_status w = WORK_PENDING"
        and "closed True WORK_COMPLETED i w db db'" and "authz_inv db'"
    | (cancelled) i w where "work_by_id i db = Some w" and "cw_status w = WORK_PENDING"
        and "closed False WORK_CANCELLED i w db db'" and "authz_inv db'"
  using assms(1)
proof cases
  case (grant_step env who cap s actor reason source f t c g)
  with grant_Inr bumped assms(2) bumped_inv show thesis unfolding authz_inv_def by blast
next
  case (revoke_step env i n actor reason g)
  with revoke_Inr bumped assms(2) bumped_inv show thesis unfolding authz_inv_def by blast
next
  case (begin_step env reason source loose ids accounts workspaces recompute t)
  then show thesis
  proof (cases rule: begin_change_Inr)
    case (existing w)
    with unchanged show thesis by blast
  next
    case (created w)
    with begun assms(2) begun_fence_inv begun_work_inv show thesis unfolding authz_inv_def by blast
  qed
next
  case (reconcile_step env i u out)
  have inv: "fence_inv db" "work_inv db" using assms(2) unfolding authz_inv_def by blast+
  from inv reconcile_step show thesis
  proof (cases rule: reconcile_work_cases)
    case (completed w)
    then have "authz_inv db'" using closed_work_inv inv(2) unfolding authz_inv_def by fastforce
    with completed that(4) show thesis by blast
  next
    case (cancelled w)
    then have "authz_inv db'" using closed_work_inv inv(2) unfolding authz_inv_def by fastforce
    with cancelled that(5) show thesis by blast
  qed (use unchanged in blast)
next
  case (cancel_step env t out)
  have inv: "fence_inv db" "work_inv db" using assms(2) unfolding authz_inv_def by blast+
  from inv cancel_step show thesis
  proof (cases rule: cancel_change_cases)
    case (cancelled w)
    then have "authz_inv db'" using closed_work_inv inv(2) unfolding authz_inv_def by fastforce
    with cancelled that(5) show thesis by blast
  qed (use unchanged in blast)
qed

lemma authz_step_inv: "authz_inv db \<Longrightarrow> authz_step db db' \<Longrightarrow> authz_inv db'"
  by (rule authz_step_cases) auto

subsection \<open>The fence as a specification\<close>

text \<open>
  The specification knows only the open changes and the accounts each of them fences: a change opens
  under a fresh name, and an open change closes.
\<close>

inductive fence_spec_step :: "(string \<rightharpoonup> string set) \<Rightarrow> (string \<rightharpoonup> string set) \<Rightarrow> bool" where
  opened: "fence_spec_step f (f(i \<mapsto> A))" if "f i = None"
| closed: "fence_spec_step f (f(i := None))" if "f i \<noteq> None"

definition open_changes :: "authz_db \<Rightarrow> (string \<rightharpoonup> string set)" where
  "open_changes db i = (case work_by_id i db of None \<Rightarrow> None
     | Some w \<Rightarrow> if cw_status w = WORK_PENDING then Some (fst ` set (cw_generations w)) else None)"

lemma open_changes_Some:
  "open_changes db i = Some A \<longleftrightarrow> (\<exists>w. work_by_id i db = Some w \<and> cw_status w = WORK_PENDING
     \<and> A = fst ` set (cw_generations w))"
  by (auto simp: open_changes_def split: option.splits)

lemma closed_open_changes:
  assumes "closed b st i w db db'" and "st \<noteq> WORK_PENDING"
  shows "open_changes db' = (open_changes db)(i := None)"
proof -
  obtain w' where "cw_status w' = st" and view: "\<And>j. work_by_id j db' = (if j = i then Some w' else work_by_id j db)"
    using assms(1) unfolding closed_def by blast
  with assms(2) show ?thesis by (simp add: fun_eq_iff open_changes_def)
qed

interpretation fence: simulation authz_inv open_changes authz_step fence_spec_step
proof
  show "authz_inv db'" if "authz_inv db" "authz_step db db'" for db db'
    using that by (rule authz_step_inv)
  show "open_changes db' = open_changes db \<or> fence_spec_step (open_changes db) (open_changes db')"
    if inv: "authz_inv db" and step: "authz_step db db'" for db db'
    using step inv
  proof (cases rule: authz_step_cases)
    case (bumped a)
    then show ?thesis by (simp add: bumped_def open_changes_def work_by_id_def fun_eq_iff)
  next
    case (begun t w)
    then have app: "az_works db' = az_works db @ [w]" and new: "cw_id w \<notin> cw_id ` set (az_works db)"
      and w: "cw_status w = WORK_PENDING" unfolding begun_def by blast+
    have "open_changes db' = (open_changes db)(cw_id w \<mapsto> fst ` set (cw_generations w))"
      using w by (auto simp: open_changes_def work_by_id_append [OF app new])
    moreover have "open_changes db (cw_id w) = None" using new by (simp add: open_changes_def work_by_id_def)
    ultimately show ?thesis by (metis opened)
  next
    case (completed i w)
    then have "open_changes db i \<noteq> None" by (simp add: open_changes_def)
    with closed_open_changes [OF completed(3)] show ?thesis by (metis closed work_status.distinct(1))
  next
    case (cancelled i w)
    then have "open_changes db i \<noteq> None" by (simp add: open_changes_def)
    with closed_open_changes [OF cancelled(3)] show ?thesis by (metis closed work_status.distinct(3))
  qed simp
qed

lemma reachable_inv: "authz_reachable db \<Longrightarrow> authz_inv db"
  unfolding authz_reachable_def using fence.run_inv empty_authz_inv by blast

lemma dirty_iff_open:
  assumes "authz_inv db" and "principal_version a db = Some p"
  shows "pv_dirty p \<noteq> None \<longleftrightarrow> (\<exists>i A. open_changes db i = Some A \<and> a \<in> A)"
proof -
  from assms have "pv_dirty p \<noteq> None \<longleftrightarrow> (\<exists>h \<in> set (az_held db). hp_account h = a)"
    by (auto simp: authz_inv_def fence_inv_def top_generation_def open_generations_def)
  also have "\<dots> \<longleftrightarrow> (\<exists>i A. open_changes db i = Some A \<and> a \<in> A)"
  proof
    assume "\<exists>h \<in> set (az_held db). hp_account h = a"
    then obtain h w where "h \<in> set (az_held db)" "hp_account h = a" "work_by_id (hp_work h) db = Some w"
      "cw_status w = WORK_PENDING" "a \<in> fst ` set (cw_generations w)"
      using assms(1) unfolding authz_inv_def work_inv_def by blast
    then show "\<exists>i A. open_changes db i = Some A \<and> a \<in> A"
      by (auto simp: open_changes_Some)
  next
    assume "\<exists>i A. open_changes db i = Some A \<and> a \<in> A"
    then obtain i w where "work_by_id i db = Some w" "cw_status w = WORK_PENDING"
      "a \<in> fst ` set (cw_generations w)"
      by (auto simp: open_changes_Some)
    then have "(i, a) \<in> held_key ` set (az_held db)"
      using assms(1) unfolding authz_inv_def work_inv_def by blast
    then show "\<exists>h \<in> set (az_held db). hp_account h = a" by (auto simp: held_key_def)
  qed
  finally show ?thesis .
qed






lemma pending_open: "work_by_id i db = Some w \<Longrightarrow> cw_status w = WORK_PENDING \<Longrightarrow> open_changes db i \<noteq> None"
  by (simp add: open_changes_def)




subsection \<open>A principal resolved before a change\<close>

text \<open>What remains true of an account that a change fenced at version \<open>v\<close>.\<close>

definition guarded :: "string \<Rightarrow> string \<Rightarrow> int \<Rightarrow> authz_db \<Rightarrow> bool" where
  "guarded i a v db \<longleftrightarrow> (\<exists>w p. work_by_id i db = Some w \<and> a \<in> fst ` set (cw_generations w)
     \<and> principal_version a db = Some p \<and> v \<le> pv_version p
     \<and> (cw_status w = WORK_COMPLETED \<longrightarrow> v < pv_version p))"

lemma released_version:
  assumes "released b i A db db'" and "principal_version a db = Some p"
  shows "\<exists>p'. principal_version a db' = Some p' \<and> pv_version p' = pv_version p
    + (if b \<and> a \<in> A \<and> (i, a) \<in> held_key ` set (az_held db) then 1 else 0)"
  using assms unfolding released_def by blast

lemma guarded_closed:
  assumes g: "guarded i a v db" and inv: "authz_inv db"
    and w: "work_by_id j db = Some w" "cw_status w = WORK_PENDING" and c: "closed b st j w db db'"
    and st: "b \<and> st = WORK_COMPLETED \<or> st = WORK_CANCELLED"
  shows "guarded i a v db'"
proof -
  obtain w0 p where g': "work_by_id i db = Some w0" "a \<in> fst ` set (cw_generations w0)"
    "principal_version a db = Some p" "v \<le> pv_version p" "cw_status w0 = WORK_COMPLETED \<longrightarrow> v < pv_version p"
    using g unfolding guarded_def by blast
  obtain w' where w': "cw_status w' = st" "cw_generations w' = cw_generations w"
    and view: "\<And>k. work_by_id k db' = (if k = j then Some w' else work_by_id k db)"
    and rel: "released b j (fst ` set (cw_generations w)) db db'"
    using c unfolding closed_def by blast
  obtain p' where p': "principal_version a db' = Some p'" "pv_version p' = pv_version p
      + (if b \<and> a \<in> fst ` set (cw_generations w) \<and> (j, a) \<in> held_key ` set (az_held db) then 1 else 0)"
    using released_version [OF rel g'(3)] by blast
  show ?thesis
  proof (cases "i = j")
    case False
    with g' p' view show ?thesis unfolding guarded_def by fastforce
  next
    case True
    with g'(1) w have [simp]: "w0 = w" by simp
    have all: "\<forall>b \<in> fst ` set (cw_generations w). (j, b) \<in> held_key ` set (az_held db)"
      using inv w unfolding authz_inv_def work_inv_def by blast
    have mem: "a \<in> fst ` set (cw_generations w)" using g'(2) by simp
    have "(j, a) \<in> held_key ` set (az_held db)" by (rule bspec [OF all mem])
    then have "st = WORK_COMPLETED \<longrightarrow> v < pv_version p'" using p' g' st by auto
    then show ?thesis using True g' p' view w' unfolding guarded_def by auto
  qed
qed

lemma guarded_step:
  assumes "authz_step db db'" and "authz_inv db" and "guarded i a v db"
  shows "guarded i a v db'"
proof -
  obtain w p where g: "work_by_id i db = Some w" "a \<in> fst ` set (cw_generations w)"
    "principal_version a db = Some p" "v \<le> pv_version p" "cw_status w = WORK_COMPLETED \<longrightarrow> v < pv_version p"
    using assms(3) unfolding guarded_def by blast
  from assms(1,2) show ?thesis
  proof (cases rule: authz_step_cases)
    case unchanged
    with assms(3) show ?thesis by simp
  next
    case (bumped b)
    then have works: "work_by_id i db' = work_by_id i db" by (simp add: bumped_def work_by_id_def)
    have "\<exists>p'. principal_version a db' = Some p' \<and> pv_version p \<le> pv_version p'"
      using bumped(1) g(3) by (cases "b = a") (auto simp: bumped_def)
    then obtain p' where "principal_version a db' = Some p'" "pv_version p \<le> pv_version p'" by blast
    with g show ?thesis unfolding guarded_def works by force
  next
    case (begun t w1)
    then have app: "az_works db' = az_works db @ [w1]" and new: "cw_id w1 \<notin> cw_id ` set (az_works db)"
      unfolding begun_def by blast+
    have "i \<noteq> cw_id w1" using g(1) new by (auto simp: work_by_id_def dest: row_by_Some)
    then have works: "work_by_id i db' = work_by_id i db" by (simp add: work_by_id_append [OF app new])
    have "\<exists>p'. principal_version a db' = Some p' \<and> pv_version p' = pv_version p"
    proof (cases "a \<in> fst ` set (cw_generations w1)")
      case False
      with begun_principal(1) [OF begun(1) False] g(3) show ?thesis by simp
    next
      case True
      then obtain n where "(a, n) \<in> set (cw_generations w1)" by force
      from begun_principal(2) [OF begun(1) this] g(3) show ?thesis by auto
    qed
    with g show ?thesis unfolding guarded_def works by force
  next
    case (completed j w1)
    with guarded_closed [OF assms(3,2)] show ?thesis by blast
  next
    case (cancelled j w1)
    with guarded_closed [OF assms(3,2)] show ?thesis by blast
  qed
qed

lemma guarded_run:
  "authz_step\<^sup>*\<^sup>* db db' \<Longrightarrow> authz_inv db \<Longrightarrow> guarded i a v db \<Longrightarrow> guarded i a v db'"
proof (induction rule: rtranclp_induct)
  case (step t u)
  with fence.run_inv have "authz_inv t" by blast
  with step show ?case by (blast intro: guarded_step)
qed

lemma fenced_or_newer:
  assumes "authz_inv db" and "guarded i a v db" and "work_by_id i db = Some w"
    and "cw_status w \<noteq> WORK_CANCELLED"
  shows "\<exists>p. principal_version a db = Some p \<and> (pv_dirty p \<noteq> None \<or> v < pv_version p)"
proof -
  obtain p where p: "a \<in> fst ` set (cw_generations w)" "principal_version a db = Some p"
    "cw_status w = WORK_COMPLETED \<longrightarrow> v < pv_version p"
    using assms(2,3) unfolding guarded_def by auto
  show ?thesis
  proof (cases "cw_status w")
    case WORK_PENDING
    with p assms(3) have "\<exists>i A. open_changes db i = Some A \<and> a \<in> A" by (auto simp: open_changes_Some)
    with dirty_iff_open [OF assms(1) p(2)] p(2) show ?thesis by blast
  qed (use p assms(4) in auto)
qed

text \<open>
  C12: a security change invalidates every principal resolved before it. Let a principal be current
  (its version is the stored one) when a change that covers its account begins. Then, whatever
  transactions follow in any order, as long as the change is pending and after it has completed, the
  principal is refused as unavailable, for every capability and scope, Super Admin or not; only a
  cancelled change may let it pass again.
\<close>

theorem changed_principal_rejected:
  assumes "authz_reachable db"
    and "principal_version (ap_account ap) db = Some p" and "pv_version p = ap_version ap"
    and "begin_change env reason source loose ids accounts workspaces recompute db = Inr (t, db1)"
    and "tk_created t" and "ap_account ap \<in> fst ` set (tk_generations t)"
    and "authz_step\<^sup>*\<^sup>* db1 db2"
    and "work_by_id (tk_id t) db2 = Some w" and "cw_status w \<noteq> WORK_CANCELLED"
  shows "\<exists>why. principal_has_capability d deps ap capability scope db2 = Inl (AuthorizationUnavailable why)"
proof -
  let ?a = "ap_account ap"
  obtain w1 where b: "begun t w1 db db1"
    using begin_change_Inr [OF assms(4)] assms(5) by metis
  then have app: "az_works db1 = az_works db @ [w1]" and new: "cw_id w1 \<notin> cw_id ` set (az_works db)"
    and t: "tk_id t = cw_id w1" "tk_generations t = cw_generations w1" "cw_status w1 = WORK_PENDING"
    unfolding begun_def by blast+
  have inv1: "authz_inv db1"
    by (rule authz_step_inv [OF reachable_inv [OF assms(1)] begin_step [OF assms(4)]])
  from assms(6) t obtain n where "(?a, n) \<in> set (cw_generations w1)" by auto
  from begun_principal(2) [OF b this] assms(2) obtain p1 where
    "principal_version ?a db1 = Some p1" "pv_version p1 = pv_version p" by auto
  with assms(3,6) t have "guarded (tk_id t) ?a (ap_version ap) db1"
    unfolding guarded_def by (auto simp: work_by_id_append [OF app new])
  from fenced_or_newer [OF _ guarded_run [OF assms(7) inv1 this] assms(8,9)]
    fence.run_inv [OF assms(7) inv1]
  obtain p2 where p2: "principal_version ?a db2 = Some p2" "pv_dirty p2 \<noteq> None \<or> ap_version ap < pv_version p2"
    by blast
  show ?thesis
  proof (cases "dv_raises d VersionRead")
    case True
    then show ?thesis by (simp add: principal_has_capability_def)
  next
    case False
    have "pv_dirty p2 \<noteq> None \<or> pv_version p2 \<noteq> ap_version ap" using p2(2) by auto
    with False p2(1) show ?thesis by (simp add: principal_has_capability_def)
  qed
qed

subsection \<open>Convergence\<close>

lemma settle_possible:
  assumes inv: "fence_inv db" and p: "principal_version a db = Some p" "pv_version p < 9223372036854775807"
  shows "\<exists>out db'. settle_pending_principal i a bump now db = Inr (out, db')"
proof (cases "(i, a) \<in> held_key ` set (az_held db)")
  case False
  with p show ?thesis by (simp add: settle_pending_principal_def)
next
  case True
  define held where "held = filter (\<lambda>h. held_key h \<noteq> (i, a)) (az_held db)"
  have pok: "principal_row_ok p" using inv p unfolding fence_inv_def by blast
  have newest: "held_row_ok h \<and> hp_generation h \<le> pv_fence p" if "newest_held a held = Some h" for h
  proof -
    from newest_held_in [OF that] have "h \<in> set (az_held db)" "hp_account h = a"
      by (auto simp: held_def)
    with inv p(1) show ?thesis unfolding fence_inv_def by fastforce
  qed
  have "principal_row_ok (settled_principal bump (newest_held a held) now p)"
    using pok p(2) newest
    by (cases "newest_held a held")
      (auto simp: principal_row_ok_def settled_principal_def held_row_ok_def nonblank_opt_def int8_def)
  with True p(1) show ?thesis
    by (simp add: settle_pending_principal_def Let_def held_def [symmetric])
qed

lemma settle_all_possible:
  assumes "fence_inv db" and "distinct as"
    and "\<forall>a \<in> set as. \<exists>p. principal_version a db = Some p \<and> pv_version p < 9223372036854775807"
  shows "\<exists>out db'. settle_all i bump now as db = Inr (out, db')"
  using assms
proof (induction as arbitrary: db)
  case (Cons a as)
  from Cons.prems(3) obtain p where "principal_version a db = Some p" "pv_version p < 9223372036854775807"
    by auto
  from settle_possible [OF Cons.prems(1) this] obtain x db1 where
    one: "settle_pending_principal i a bump now db = Inr (x, db1)" by blast
  from settle_pending_principal_Inr [OF Cons.prems(1) one]
  have inv1: "fence_inv db1" and rel: "released bump i {a} db db1" by (simp_all add: settled_def)
  have "\<exists>p. principal_version b db1 = Some p \<and> pv_version p < 9223372036854775807" if "b \<in> set as" for b
  proof -
    from that Cons.prems(2,3) obtain q where "b \<noteq> a" "principal_version b db = Some q"
      "pv_version q < 9223372036854775807" by auto
    with released_version [OF rel] show ?thesis by fastforce
  qed
  with Cons.IH [OF inv1] Cons.prems(2) obtain out db' where "settle_all i bump now as db1 = Inr (out, db')"
    by auto
  with one show ?case by simp
qed simp

text \<open>The update of a pending work's columns goes through while the clock is past its creation.\<close>

definition phased :: "work_phase \<Rightarrow> instant \<Rightarrow> work_row \<Rightarrow> work_row" where
  "phased ph now w = w\<lparr>cw_phase := ph, cw_updated_at := now\<rparr>"

lemma phased_simps [simp]:
  "cw_id (phased ph now w) = cw_id w" "cw_status (phased ph now w) = cw_status w"
  "cw_generations (phased ph now w) = cw_generations w"
  "cw_created_at (phased ph now w) = cw_created_at w"
  by (simp_all add: phased_def)

lemma phase_possible:
  assumes w: "work_by_id i db = Some w" "cw_status w = WORK_PENDING" "work_row_ok w"
    and "cw_created_at w \<le> now" and "ph \<in> {RECOMPUTE_PENDING, VERSION_PENDING}"
  shows "\<exists>db'. update_convergence_phase i ph now db = Inr db' \<and> prepared i w db db'
    \<and> work_by_id i db' = Some (phased ph now w) \<and> work_row_ok (phased ph now w)"
proof -
  have ok: "work_row_ok (phased ph now w)"
    using assms by (auto simp: phased_def work_row_ok_def work_state_ok_def within_life_def split: option.splits)
  define db' where "db' = db\<lparr>az_works := set_where (\<lambda>x. cw_id x = i) (phased ph now) (az_works db)\<rparr>"
  have u: "update_pending_work i (phased ph now) db = Inr (Some (phased ph now w), db')"
    using w ok by (simp add: update_pending_work_def db'_def)
  then have "update_convergence_phase i ph now db = Inr db'"
    by (simp add: update_convergence_phase_def phased_def [abs_def])
  moreover have "prepared i w db db'" "work_by_id i db' = Some (phased ph now w)"
    using prepared_update [OF u w(1,2)] by simp_all
  ultimately show ?thesis using ok by blast
qed

lemma complete_possible:
  assumes w: "work_by_id i db = Some w" "cw_status w = WORK_PENDING" "work_row_ok w"
    and "cw_created_at w \<le> now"
  shows "\<exists>db'. complete_convergence_work i now db = Inr db'"
proof -
  have "work_row_ok (w\<lparr>cw_status := WORK_COMPLETED, cw_phase := PHASE_DONE,
      cw_completed_at := Some now, cw_updated_at := now\<rparr>)"
    using assms by (auto simp: work_row_ok_def work_state_ok_def within_life_def split: option.splits)
  with w show ?thesis by (simp add: complete_convergence_work_def update_pending_work_def)
qed

lemma recompute_possible:
  assumes w: "work_by_id (cw_id w) db = Some w" "cw_status w = WORK_PENDING" "work_row_ok w"
    and "cw_created_at w \<le> zv_clock env 1"
    and "cw_recompute w \<longrightarrow> (\<exists>f. zv_recompute env = Some f \<and> f (cw_accounts w) = None)"
  shows "\<exists>db' w'. run_recompute env w db = Inr db' \<and> work_by_id (cw_id w) db' = Some w'
    \<and> cw_status w' = WORK_PENDING \<and> work_row_ok w' \<and> cw_created_at w' = cw_created_at w"
proof (cases "cw_recompute w")
  case True
  with phase_possible [OF w assms(4), of RECOMPUTE_PENDING] obtain db' where
    "update_convergence_phase (cw_id w) RECOMPUTE_PENDING (zv_clock env 1) db = Inr db'"
    "work_by_id (cw_id w) db' = Some (phased RECOMPUTE_PENDING (zv_clock env 1) w)"
    "work_row_ok (phased RECOMPUTE_PENDING (zv_clock env 1) w)" by blast
  with True assms(2,5) show ?thesis by (auto simp: run_recompute_def)
qed (use w in \<open>simp add: run_recompute_def\<close>)

lemma converge_possible:
  assumes inv: "fence_inv db" and w: "work_by_id (cw_id w) db = Some w" "cw_status w = WORK_PENDING"
    "work_row_ok w" and dist: "distinct (map fst (cw_generations w))"
    and rc: "cw_recompute w \<longrightarrow> (\<exists>f. zv_recompute env = Some f \<and> f (cw_accounts w) = None)"
    and clock: "\<forall>n. cw_created_at w \<le> zv_clock env n"
    and known: "\<And>a. a \<in> fst ` set (cw_generations w) \<Longrightarrow>
      \<exists>p. principal_version a db = Some p \<and> pv_version p < 9223372036854775807"
  shows "\<exists>out db'. converge_work env no_effects w db = Inr (out, db')"
proof -
  let ?i = "cw_id w"
  from recompute_possible [OF w _ rc] clock obtain db1 w1 where r: "run_recompute env w db = Inr db1"
    and w1: "work_by_id ?i db1 = Some w1" "cw_status w1 = WORK_PENDING" "work_row_ok w1"
      "cw_created_at w1 = cw_created_at w" by blast
  have p1: "prepared ?i w db db1" by (rule run_recompute_Inr [OF r w(1,2)])
  then have g1: "cw_generations w1 = cw_generations w" using w1(1) by (auto simp: prepared_def)
  from phase_possible [OF w1(1-3), of "zv_clock env 2" VERSION_PENDING] clock w1(4) obtain db2 w2 where
    ph: "update_convergence_phase ?i VERSION_PENDING (zv_clock env 2) db1 = Inr db2"
    and w2: "work_by_id ?i db2 = Some w2" "cw_status w2 = WORK_PENDING" "work_row_ok w2"
      "cw_created_at w2 = cw_created_at w" and p2: "prepared ?i w db1 db2"
    using prepared_gens [OF g1] w1(2,4) by auto
  have p: "prepared ?i w db db2" by (rule prepared_trans [OF p1 p2])
  have inv2: "fence_inv db2" using prepared_fence_inv [OF p] inv by simp
  have "principal_version a db2 = principal_version a db" for a
    using p by (simp add: prepared_def principal_version_def)
  with known have "\<forall>a \<in> set (sorted_accounts w). \<exists>p. principal_version a db2 = Some p
      \<and> pv_version p < 9223372036854775807" by simp
  with settle_all_possible [OF inv2 distinct_sorted_accounts [OF dist]] obtain out db3 where
    s: "settle_all ?i True (zv_clock env 3) (sorted_accounts w) db2 = Inr (out, db3)" by blast
  have "az_works db3 = az_works db2"
    using settle_all_Inr [OF inv2 s distinct_sorted_accounts [OF dist]] by (simp add: settled_def)
  then have "work_by_id ?i (audit_converged env 4 w out db3) = Some w2" using w2(1) by (simp add: work_by_id_def)
  from complete_possible [OF this w2(2,3), of "zv_clock env 3"] clock w2(4) obtain db4 where
    "complete_convergence_work ?i (zv_clock env 3) (audit_converged env 4 w out db3) = Inr db4" by auto
  with r ph s show ?thesis by (simp add: converge_work_def updated_effects_def Let_def)
qed

lemma held_row_of:
  assumes "fence_inv db" and "(i, a) \<in> held_key ` set (az_held db)"
  shows "\<exists>p. principal_version a db = Some p"
proof -
  from assms(2) obtain h where "h \<in> set (az_held db)" "hp_account h = a" by (auto simp: held_key_def)
  with assms(1) show ?thesis unfolding fence_inv_def by blast
qed

text \<open>A closed work holds nothing any more.\<close>

lemma closed_holds_nothing:
  assumes "work_inv db" and "work_by_id i db = Some w" and "closed b st i w db db'"
    and "h \<in> set (az_held db')"
  shows "hp_work h \<noteq> i"
proof
  assume i: "hp_work h = i"
  have "h \<in> set (az_held db)" and out: "hp_account h \<notin> fst ` set (cw_generations w)"
    using assms(3,4) i by (auto simp: closed_def released_def)
  then obtain v where "work_by_id (hp_work h) db = Some v" "hp_account h \<in> fst ` set (cw_generations v)"
    using assms(1) unfolding work_inv_def by blast
  with out i assms(2) show False by simp
qed

text \<open>
  C31: a committed change converges. If the source transaction of a pending change has committed, the
  membership recompute (when the change asks for one) returns, the clock does not run before the
  change's creation and no version is at the end of its range, then reconciling the change succeeds:
  it is COMPLETED, holds no principal any more, and every principal it covered has its version
  raised by exactly one.
\<close>

theorem committed_change_converges:
  assumes reach: "authz_reachable db" and w: "work_by_id i db = Some w" "cw_status w = WORK_PENDING"
    and x: "cw_xid w = Some x" "zv_xact_status env x = ''committed''"
    and rc: "cw_recompute w \<longrightarrow> (\<exists>f. zv_recompute env = Some f \<and> f (cw_accounts w) = None)"
    and clock: "\<forall>n. cw_created_at w \<le> zv_clock env n"
    and room: "\<forall>a p. principal_version a db = Some p \<longrightarrow> pv_version p < 9223372036854775807"
  shows "\<exists>out db' w'. reconcile_work env i no_effects db = Inr (out, db')
    \<and> work_by_id i db' = Some w' \<and> cw_status w' = WORK_COMPLETED
    \<and> (\<forall>h \<in> set (az_held db'). hp_work h \<noteq> i)
    \<and> (\<forall>a \<in> fst ` set (cw_generations w). \<exists>p p'. principal_version a db = Some p
         \<and> principal_version a db' = Some p' \<and> pv_version p' = pv_version p + 1)"
proof -
  have inv: "fence_inv db" "work_inv db" using reachable_inv [OF reach] unfolding authz_inv_def by blast+
  have id: "cw_id w = i" using w(1) by (auto simp: work_by_id_def dest: row_by_Some)
  have wok: "work_row_ok w" "distinct (map fst (cw_generations w))"
    and held: "\<And>a. a \<in> fst ` set (cw_generations w) \<Longrightarrow> (i, a) \<in> held_key ` set (az_held db)"
    using inv(2) w unfolding work_inv_def by blast+
  have wi: "work_by_id (cw_id w) db = Some w" using w(1) id by simp
  have "\<exists>p. principal_version a db = Some p \<and> pv_version p < 9223372036854775807"
    if "a \<in> fst ` set (cw_generations w)" for a
    using held_row_of [OF inv(1) held [OF that]] room by blast
  with converge_possible [OF inv(1) wi w(2) wok rc clock] obtain out db' where
    c: "converge_work env no_effects w db = Inr (out, db')" by blast
  have run: "reconcile_work env i no_effects db = Inr (out, db')"
    using w x c by (simp add: reconcile_work_def)
  have cl: "closed True WORK_COMPLETED i w db db'"
    using converge_work_Inr [OF inv(1) wi w(2) wok(2) c] id by simp
  then obtain w' where w': "cw_status w' = WORK_COMPLETED" "work_by_id i db' = Some w'"
    and rel: "released True i (fst ` set (cw_generations w)) db db'" unfolding closed_def by auto
  have "\<exists>p p'. principal_version a db = Some p \<and> principal_version a db' = Some p'
      \<and> pv_version p' = pv_version p + 1" if a: "a \<in> fst ` set (cw_generations w)" for a
  proof -
    obtain p where p: "principal_version a db = Some p" using held_row_of [OF inv(1) held [OF a]] by blast
    from released_version [OF rel p] a held [OF a] p show ?thesis by auto
  qed
  with run w' closed_holds_nothing [OF inv(2) w(1) cl] show ?thesis by blast
qed

subsection \<open>One change per source\<close>

lemma work_by_source_new:
  assumes "work_by_source (cw_module w) (cw_actor w) (cw_operation w) (cw_key w) (cw_claim_id w) db = None"
    and "az_works db' = az_works db @ [w]"
  shows "work_by_source (cw_module w) (cw_actor w) (cw_operation w) (cw_key w) (cw_claim_id w) db' = Some w"
proof -
  let ?match = "\<lambda>v. cw_module v = cw_module w \<and> (case cw_claim_id w of Some c \<Rightarrow> cw_claim_id v = Some c
      | None \<Rightarrow> cw_actor v = cw_actor w \<and> cw_operation v = cw_operation w \<and> cw_key v = cw_key w)"
  have "filter ?match (az_works db) = []"
    using assms(1) unfolding work_by_source_def Let_def by (simp split: if_splits)
  moreover have "?match w" by (simp split: option.split)
  ultimately have "filter ?match (az_works db') = [w]" by (simp add: assms(2))
  then show ?thesis by (simp add: work_by_source_def)
qed

lemma make_source_id: "make_source s = Inr s' \<Longrightarrow> s' = s"
  by (simp add: make_source_def split: if_splits)

text \<open>
  a security change begins once per source. After a change has been created for a source, beginning
  it again for that source, with whatever reason, accounts and effects, returns the same work's ticket,
  marked as not created, and changes nothing: the fence is raised once.
\<close>

theorem change_begins_once:
  assumes "begin_change env reason (Some s) loose ids accounts workspaces recompute db = Inr (t, db1)"
    and "tk_created t" and "strip reason' \<noteq> []"
  shows "begin_change env' reason' (Some s) loose' ids' accounts' workspaces' recompute' db1
    = Inr (t\<lparr>tk_created := False\<rparr>, db1)"
  using assms(1)
proof (cases rule: begin_change_Inr)
  case (existing w)
  with assms(2) show ?thesis by simp
next
  case (created w)
  from created(3) make_source_id have s: "make_source s = Inr s" "s = source_of_work w"
    by (auto simp: change_source_of_def)
  have app: "az_works db1 = az_works db @ [w]" using created(1) unfolding begun_def by blast
  have found: "work_by_source (cs_module s) (cs_actor s) (cs_operation s) (cs_key s) (cs_claim_id s) db1 = Some w"
    using work_by_source_new [OF created(5) app] by (simp add: s(2) source_of_work_def)
  have "ticket_of w False = Inr (t\<lparr>tk_created := False\<rparr>)"
    using created(4) unfolding ticket_of_def by (auto simp: res_simps)
  with found s(1) assms(3) show ?thesis by (simp add: begin_change_def change_source_of_def)
qed

subsection \<open>A concrete change\<close>

definition demo_authz_env :: "string \<Rightarrow> instant \<Rightarrow> authz_env" where
  "demo_authz_env label now = \<lparr>zv_clock = (\<lambda>_. now), zv_new_id = (\<lambda>n. label @ str_of_nat n),
     zv_request = None, zv_xact_status = (\<lambda>_. ''committed''), zv_recompute = Some (\<lambda>_. None)\<rparr>"

definition authz_after :: "('e, 'a \<times> authz_db) res \<Rightarrow> authz_db" where
  "authz_after m = (case m of Inl _ \<Rightarrow> empty_authz_db | Inr (_, db) \<Rightarrow> db)"

definition demo_grant :: "(authz_error, grant_row \<times> authz_db) res" where
  "demo_grant = grant (demo_authz_env ''g'' 1) ''ann'' ''audit.read'' platform_scope (Some ''root'')
     ''on duty'' ''MANUAL'' None None None empty_authz_db"

definition demo_az1 :: authz_db where
  "demo_az1 = authz_after demo_grant"

definition demo_source :: change_source where
  "demo_source = \<lparr>cs_module = ''identity'', cs_actor = ''root'', cs_operation = ''disable'',
     cs_key = ''k1'', cs_xid = Some ''77'', cs_fingerprint = None, cs_claim_id = None\<rparr>"

definition demo_begin :: "(authz_error, ticket \<times> authz_db) res" where
  "demo_begin = begin_change (demo_authz_env ''w'' 2) ''account changed'' (Some demo_source) None
     (Some [''ann'']) [''ann''] [] True demo_az1"

definition demo_ticket :: ticket where
  "demo_ticket = \<lparr>tk_id = ''w1'', tk_source = demo_source, tk_generations = [(''ann'', 1)],
     tk_reason = ''account changed'', tk_status = WORK_PENDING, tk_created = True\<rparr>"

definition demo_az2 :: authz_db where
  "demo_az2 = authz_after demo_begin"

lemma authz_after_Inr:
  "(case m of Inr _ \<Rightarrow> True | Inl _ \<Rightarrow> False) \<Longrightarrow> \<exists>g. m = Inr (g, authz_after m)"
  by (cases m) (auto simp: authz_after_def)

lemma authz_after_eq:
  "(case m of Inr (t, _) \<Rightarrow> t = x | Inl _ \<Rightarrow> False) \<Longrightarrow> m = Inr (x, authz_after m)"
  by (cases m) (auto simp: authz_after_def)

lemma demo_grant_ok: "\<exists>g. demo_grant = Inr (g, demo_az1)"
  unfolding demo_az1_def by (rule authz_after_Inr) code_simp

lemma demo_begin_ok: "demo_begin = Inr (demo_ticket, demo_az2)"
  unfolding demo_az2_def by (rule authz_after_eq) code_simp

lemma demo_reachable1: "authz_reachable demo_az1"
  unfolding authz_reachable_def using demo_grant_ok grant_step unfolding demo_grant_def by blast

lemma demo_reachable2: "authz_reachable demo_az2"
proof -
  have "authz_step demo_az1 demo_az2" using demo_begin_ok unfolding demo_begin_def by (rule begin_step)
  with demo_reachable1 show ?thesis unfolding authz_reachable_def by (rule rtranclp.rtrancl_into_rtrancl)
qed


definition demo_principal :: authorization_principal where
  "demo_principal = \<lparr>ap_account = ''ann'', ap_employee = ''e1'', ap_name = ''Ann'', ap_super_admin = True,
     ap_version = 2, ap_capabilities = []\<rparr>"

definition demo_decisions :: decision_env where
  "demo_decisions = \<lparr>dv_env = demo_authz_env ''d'' 3,
     dv_validate = (\<lambda>_. Answer (Some \<lparr>sn_kind = ''FULL'', sn_account = ''ann'', sn_employee_no = ''e1'',
        sn_display_name = ''Ann'', sn_super_admin = True\<rparr>)),
     dv_member = (\<lambda>_ _. Answer True), dv_reconcile = None, dv_raises = (\<lambda>_. False)\<rparr>"

theorem changed_principal_rejected_witness:
  "\<exists>why. principal_has_capability demo_decisions True demo_principal ''audit.read'' platform_scope demo_az2
    = Inl (AuthorizationUnavailable why)"
proof -
  have row: "case principal_version ''ann'' demo_az1 of Some p \<Rightarrow> pv_version p = 2 | None \<Rightarrow> False"
    and work: "case work_by_id ''w1'' demo_az2 of Some w \<Rightarrow> cw_status w = WORK_PENDING | None \<Rightarrow> False"
    by code_simp+
  obtain p where p: "principal_version (ap_account demo_principal) demo_az1 = Some p"
      "pv_version p = ap_version demo_principal"
    using row by (auto simp: demo_principal_def split: option.splits)
  obtain w where w: "work_by_id (tk_id demo_ticket) demo_az2 = Some w" "cw_status w = WORK_PENDING"
    using work by (auto simp: demo_ticket_def split: option.splits)
  show ?thesis
    by (rule changed_principal_rejected [OF demo_reachable1 p demo_begin_ok [unfolded demo_begin_def] _ _
        rtranclp.rtrancl_refl w(1)])
      (simp_all add: demo_ticket_def demo_principal_def w(2))
qed

theorem committed_change_converges_witness:
  "\<exists>out db' w'. reconcile_work (demo_authz_env ''r'' 4) ''w1'' no_effects demo_az2 = Inr (out, db')
    \<and> work_by_id ''w1'' db' = Some w' \<and> cw_status w' = WORK_COMPLETED"
proof -
  have work: "case work_by_id ''w1'' demo_az2 of Some w \<Rightarrow> cw_status w = WORK_PENDING
      \<and> cw_xid w = Some ''77'' \<and> cw_created_at w = 2 | None \<Rightarrow> False"
    and rows: "list_all (\<lambda>p. pv_version p = 2) (az_principals demo_az2)"
    by code_simp+
  obtain w where w: "work_by_id ''w1'' demo_az2 = Some w" "cw_status w = WORK_PENDING"
      "cw_xid w = Some ''77''" "cw_created_at w = 2"
    using work by (auto split: option.splits)
  have room: "pv_version p < 9223372036854775807" if "principal_version a demo_az2 = Some p" for a p
    using rows row_by_Some [OF that [unfolded principal_version_def]] by (auto simp: list_all_iff)
  from committed_change_converges [OF demo_reachable2 w(1-3), of "demo_authz_env ''r'' 4"] room w(4)
  show ?thesis by (auto simp: demo_authz_env_def)
qed

theorem change_begins_once_witness:
  "begin_change (demo_authz_env ''z'' 9) ''again'' (Some demo_source) None None [] [] False demo_az2
    = Inr (demo_ticket\<lparr>tk_created := False\<rparr>, demo_az2)"
proof -
  have "strip ''again'' \<noteq> []" by code_simp
  with change_begins_once [OF demo_begin_ok [unfolded demo_begin_def]] show ?thesis
    by (simp add: demo_ticket_def)
qed

end
