(* ===== verification/Authz_Decision_Safety.thy ===== *)
theory Authz_Decision_Safety
  imports Authz_Safety
begin

section \<open>Authorization decisions: properties\<close>

text \<open>
  Who is allowed what, as a specification (\<open>entitled\<close>), and that \<open>authorize\<close> grants nothing else:
  whatever fails on the way, the answer is no.
\<close>

definition entitled :: "decision_env \<Rightarrow> session \<Rightarrow> string \<Rightarrow> scope \<Rightarrow> authz_db \<Rightarrow> bool" where
  "entitled d s capability scope db \<longleftrightarrow>
     is_super_admin_platform_capability capability scope (sn_super_admin s)
   \<or> (capability \<notin> set reserved_capabilities
      \<and> (\<exists>g \<in> set (az_grants db). gr_principal g = sn_account s \<and> gr_capability g = capability
           \<and> gr_scope_type g = sc_type scope \<and> gr_scope_id g = sc_id scope
           \<and> grant_in_force (zv_clock (dv_env d) 0) g)
      \<and> (sc_type scope = WORKSPACE \<longrightarrow>
           (\<exists>w. sc_id scope = Some w \<and> dv_member d w (sn_account s) = Answer True)))"

lemma effective_empty_iff:
  "repo_effective_grants who (Some c) (Some s) now db = [] \<longleftrightarrow>
     \<not> (\<exists>g \<in> set (az_grants db). gr_principal g = who \<and> gr_capability g = c
          \<and> gr_scope_type g = sc_type s \<and> gr_scope_id g = sc_id s \<and> grant_in_force now g)"
proof -
  have "repo_effective_grants who (Some c) (Some s) now db = [] \<longleftrightarrow>
      set (repo_effective_grants who (Some c) (Some s) now db) = {}" by simp
  then show ?thesis by (auto simp: repo_effective_grants_def)
qed

subsection \<open>Refusals\<close>

lemma denial_refused: "denial d a c s code v r db = Inr (dec, db') \<Longrightarrow> dec = refusal code"
  by (auto simp: denial_def res_simps)

lemma unavailable_refused: "unavailable d a c s v r db = Inr (dec, db') \<Longrightarrow> dec = refusal UNAVAILABLE"
  by (auto simp: unavailable_def split: sum.splits dest: denial_refused)

lemma refusal_simps [simp]: "\<not> dn_allowed (refusal code)" "dn_code (refusal code) = code"
  by (simp_all add: refusal_def)

text \<open>Early returns never allow.\<close>

lemma checked_session_refused:
  "checked_session d token c s db = Inl (Inr (dec, db')) \<Longrightarrow> \<not> dn_allowed dec"
  by (auto simp: checked_session_def dest!: unavailable_refused split: answer.splits option.splits if_splits)

lemma checked_version_refused:
  "checked_version d a c s db = Inl (Inr (dec, db')) \<Longrightarrow> \<not> dn_allowed dec"
  by (auto simp: checked_version_def dest!: unavailable_refused split: option.splits if_splits)

lemma checked_grant_refused:
  "checked_grant d a v c s db = Inl (Inr (dec, db')) \<Longrightarrow> \<not> dn_allowed dec"
  by (auto simp: checked_grant_def dest!: unavailable_refused denial_refused split: if_splits)

lemma checked_membership_refused:
  "checked_membership d a v c s db = Inl (Inr (dec, db')) \<Longrightarrow> \<not> dn_allowed dec"
  by (auto simp: checked_membership_def dest!: unavailable_refused denial_refused
      split: option.splits answer.splits bool.splits if_splits)

lemma current_principal_refused:
  assumes "current_principal d token c s db = Inl (Inr (dec, db'))"
  shows "\<not> dn_allowed dec"
proof (cases "checked_session d token c s db")
  case (Inl out)
  with assms have "out = Inr (dec, db')" by (simp add: current_principal_def)
  with Inl checked_session_refused show ?thesis by blast
next
  case (Inr sn)
  show ?thesis
  proof (cases "checked_version d (sn_account sn) c s db")
    case (Inl out)
    with Inr assms have "out = Inr (dec, db')" by (simp add: current_principal_def)
    with Inl checked_version_refused show ?thesis by blast
  next
    case v: (Inr p)
    obtain q db1 where q: "reconciled_version d (sn_account sn) p db = (q, db1)" by force
    with Inr v assms have "unavailable d (sn_account sn) c s (Some (pv_version q))
        ''authorization convergence pending'' db1 = Inr (dec, db')"
      by (simp add: current_principal_def split: if_splits)
    then show ?thesis using unavailable_refused by fastforce
  qed
qed

lemma current_principal_Inr:
  assumes "current_principal d token c s db = Inr (sn, p, db')"
  shows "dv_validate d token = Answer (Some sn) \<and> sn_kind sn = ''FULL'' \<and> pv_dirty p = None
    \<and> principal_version (sn_account sn) db' = Some p"
proof -
  from assms obtain p0 where cs: "checked_session d token c s db = Inr sn"
    and cv: "checked_version d (sn_account sn) c s db = Inr p0"
    and tail: "(case reconciled_version d (sn_account sn) p0 db of (q, db1) \<Rightarrow>
        if pv_dirty q \<noteq> None
        then Inl (unavailable d (sn_account sn) c s (Some (pv_version q))
               ''authorization convergence pending'' db1)
        else Inr (sn, q, db1)) = Inr (sn, p, db')"
    unfolding current_principal_def by (auto elim!: rbind_InrE split: prod.splits if_splits)
  obtain q db1 where q: "reconciled_version d (sn_account sn) p0 db = (q, db1)" by force
  with tail have rv: "reconciled_version d (sn_account sn) p0 db = (p, db')" and clean: "pv_dirty p = None"
    by (auto split: if_splits)
  from cs have "dv_validate d token = Answer (Some sn)" "sn_kind sn = ''FULL''"
    by (auto simp: checked_session_def split: answer.splits option.splits if_splits)
  moreover have "principal_version (sn_account sn) db = Some p0"
    using cv by (auto simp: checked_version_def split: option.splits if_splits)
  then have "principal_version (sn_account sn) db' = Some p"
    using rv clean unfolding reconciled_version_def
    by (auto split: if_splits option.splits prod.splits answer.splits bool.splits)
  ultimately show ?thesis using clean by blast
qed

lemma allow_session_allowed:
  assumes "allow_session d sn b p c s db = Inr (dec, db')" and "dn_allowed dec"
  shows "db' = db \<and> dn_code dec = ALLOW \<and> (\<exists>ap. dn_principal dec = Some ap \<and> ap_account ap = sn_account sn
    \<and> ap_version ap = pv_version p \<and> ap_super_admin ap = b)"
proof (cases "principal_capabilities d (sn_account sn) b db")
  case Raised
  with assms(1) have "unavailable d (sn_account sn) c s (Some (pv_version p))
      ''effective capability projection unavailable'' db = Inr (dec, db')" by (simp add: allow_session_def)
  with assms(2) unavailable_refused show ?thesis by fastforce
next
  case (Answer caps)
  with assms(1) show ?thesis by (auto simp: allow_session_def)
qed

text \<open>
  C18: authorization fails closed. Whatever the session port, the membership port, the reconciler, the
  database reads and the audit do, an answer that allows means: the token belongs to a FULL session,
  the account's authorization row in the resulting state is not fenced, the session is entitled there
  (a Super Admin platform capability, or an unreserved capability with a grant in force for exactly
  this scope and, in a workspace, current membership), and the principal carries that row's version.
\<close>

theorem authorize_fails_closed:
  assumes "authorize d token capability scope db = Inr (dec, db')" and "dn_allowed dec"
  shows "\<exists>s p ap. dv_validate d token = Answer (Some s) \<and> sn_kind s = ''FULL''
    \<and> principal_version (sn_account s) db' = Some p \<and> pv_dirty p = None
    \<and> entitled d s capability scope db'
    \<and> dn_code dec = ALLOW \<and> dn_principal dec = Some ap \<and> ap_account ap = sn_account s
    \<and> ap_version ap = pv_version p"
proof (cases "current_principal d token capability scope db")
  case (Inl out)
  with assms current_principal_refused show ?thesis by (auto simp: authorize_def)
next
  case (Inr triple)
  then obtain s p db1 where cp: "current_principal d token capability scope db = Inr (s, p, db1)"
    by (cases triple) auto
  note cur = current_principal_Inr [OF cp]
  let ?super = "is_super_admin_platform_capability capability scope (sn_super_admin s)"
  have "\<exists>b. allow_session d s b p capability scope db1 = Inr (dec, db') \<and> entitled d s capability scope db1"
  proof (cases "?super \<or> capability \<in> set reserved_capabilities")
    case True
    with assms cp denial_refused show ?thesis
      by (fastforce simp: authorize_def entitled_def split: if_splits)
  next
    case False
    show ?thesis
    proof (cases "checked_grant d (sn_account s) (pv_version p) capability scope db1")
      case (Inl out)
      with assms cp False checked_grant_refused show ?thesis by (auto simp: authorize_def)
    next
      case g: (Inr u)
      show ?thesis
      proof (cases "checked_membership d (sn_account s) (pv_version p) capability scope db1")
        case (Inl out)
        with assms cp False g checked_membership_refused show ?thesis by (auto simp: authorize_def)
      next
        case m: (Inr u')
        have "allow_session d s (sn_super_admin s) p capability scope db1 = Inr (dec, db')"
          using assms(1) cp False g m by (simp add: authorize_def)
        moreover have "repo_effective_grants (sn_account s) (Some capability) (Some scope)
            (zv_clock (dv_env d) 0) db1 \<noteq> []"
          using g by (simp add: checked_grant_def split: if_splits)
        moreover have "sc_type scope = WORKSPACE \<longrightarrow>
            (\<exists>w. sc_id scope = Some w \<and> dv_member d w (sn_account s) = Answer True)"
          using m by (auto simp: checked_membership_def split: if_splits option.splits answer.splits bool.splits)
        ultimately show ?thesis using False unfolding entitled_def effective_empty_iff by blast
      qed
    qed
  qed
  then obtain b where al: "allow_session d s b p capability scope db1 = Inr (dec, db')"
    and ent: "entitled d s capability scope db1" by blast
  from allow_session_allowed [OF al assms(2)] cur ent show ?thesis by blast
qed

text \<open>
  C32: when nothing fails, the decision is exactly the entitlement. For a FULL session with an unfenced
  authorization row, with every read, port and audit working, \<open>authorize\<close> answers, allows exactly what
  the session is entitled to, and otherwise says DENIED.
\<close>

theorem authorize_decides:
  assumes "dv_validate d token = Answer (Some s)" and "sn_kind s = ''FULL''"
    and "principal_version (sn_account s) db = Some p" and "pv_dirty p = None"
    and "\<And>r. \<not> dv_raises d r" and "\<And>w. dv_member d w (sn_account s) \<noteq> Raised"
    and "scope_ok scope" and "\<And>b. principal_capabilities d (sn_account s) b db \<noteq> Raised"
  shows "\<exists>dec db'. authorize d token capability scope db = Inr (dec, db')
    \<and> (dn_allowed dec \<longleftrightarrow> entitled d s capability scope db)
    \<and> (\<not> entitled d s capability scope db \<longrightarrow> dn_code dec = DENIED)"
proof -
  have cp: "current_principal d token capability scope db = Inr (s, p, db)"
    using assms(1-5) by (simp add: current_principal_def checked_session_def checked_version_def
        reconciled_version_def)
  have allow: "\<exists>dec. allow_session d s b p capability scope db = Inr (dec, db) \<and> dn_allowed dec" for b
    using assms(8) [of b] by (auto simp: allow_session_def split: answer.splits)
  have deny: "\<exists>db'. denial d a c sc DENIED v r db = Inr (refusal DENIED, db')" for a c sc v r
    using assms(5) by (simp add: denial_def decision_audit_def)
  consider (super) "is_super_admin_platform_capability capability scope (sn_super_admin s)"
    | (reserved) "\<not> is_super_admin_platform_capability capability scope (sn_super_admin s)"
        "capability \<in> set reserved_capabilities"
    | (ordinary) "\<not> is_super_admin_platform_capability capability scope (sn_super_admin s)"
        "capability \<notin> set reserved_capabilities" by blast
  then show ?thesis
  proof cases
    case super
    with cp allow [of True] show ?thesis by (auto simp: authorize_def entitled_def)
  next
    case reserved
    with cp deny show ?thesis by (fastforce simp: authorize_def entitled_def)
  next
    case ordinary
    let ?granted = "repo_effective_grants (sn_account s) (Some capability) (Some scope)
            (zv_clock (dv_env d) 0) db \<noteq> []"
    let ?member = "sc_type scope = WORKSPACE \<longrightarrow>
            (\<exists>w. sc_id scope = Some w \<and> dv_member d w (sn_account s) = Answer True)"
    have ent: "entitled d s capability scope db \<longleftrightarrow> ?granted \<and> ?member"
      using ordinary unfolding entitled_def effective_empty_iff by blast
    show ?thesis
    proof (cases ?granted)
      case False
      with cp ordinary deny ent show ?thesis
        using assms(5) by (fastforce simp: authorize_def checked_grant_def)
    next
      case True
      then have g: "checked_grant d (sn_account s) (pv_version p) capability scope db = Inr ()"
        using assms(5) by (simp add: checked_grant_def)
      show ?thesis
      proof (cases ?member)
        case member: True
        then have "checked_membership d (sn_account s) (pv_version p) capability scope db = Inr ()"
          by (cases "sc_type scope") (auto simp: checked_membership_def)
        with cp ordinary g allow [of "sn_super_admin s"] ent True member show ?thesis
          by (auto simp: authorize_def)
      next
        case no: False
        then obtain w where w: "sc_type scope = WORKSPACE" "sc_id scope = Some w"
          using assms(7) by (auto simp: scope_ok_def)
        with no assms(6) [of w] have "dv_member d w (sn_account s) = Answer False"
          by (cases "dv_member d w (sn_account s)") auto
        with w have "checked_membership d (sn_account s) (pv_version p) capability scope db
          = Inl (denial d (sn_account s) capability scope DENIED (Some (pv_version p))
               ''workspace membership missing'' db)" by (simp add: checked_membership_def)
        with cp ordinary g deny ent no show ?thesis by (fastforce simp: authorize_def)
      qed
    qed
  qed
qed

subsection \<open>A concrete decision\<close>

definition demo_session :: session where
  "demo_session = \<lparr>sn_kind = ''FULL'', sn_account = ''ann'', sn_employee_no = ''e1'',
     sn_display_name = ''Ann'', sn_super_admin = False\<rparr>"

definition demo_deciding :: decision_env where
  "demo_deciding = demo_decisions\<lparr>dv_validate := (\<lambda>_. Answer (Some demo_session))\<rparr>"

definition demo_allowed :: authorization_decision where
  "demo_allowed = \<lparr>dn_allowed = True, dn_code = ALLOW, dn_principal = Some
     \<lparr>ap_account = ''ann'', ap_employee = ''e1'', ap_name = ''Ann'', ap_super_admin = False,
      ap_version = 2, ap_capabilities = [\<lparr>sp_capability = ''audit.read'', sp_scope = platform_scope\<rparr>]\<rparr>\<rparr>"

lemma demo_authorized:
  "authorize demo_deciding ''t'' ''audit.read'' platform_scope demo_az1 = Inr (demo_allowed, demo_az1)"
  by code_simp

theorem authorize_fails_closed_witness:
  "entitled demo_deciding demo_session ''audit.read'' platform_scope demo_az1"
proof -
  have allowed: "dn_allowed demo_allowed" by (simp add: demo_allowed_def)
  from authorize_fails_closed [OF demo_authorized allowed]
  obtain s where s: "dv_validate demo_deciding ''t'' = Answer (Some s)"
    and ent: "entitled demo_deciding s ''audit.read'' platform_scope demo_az1" by blast
  from s have "s = demo_session" by (simp add: demo_deciding_def)
  with ent show ?thesis by simp
qed

theorem authorize_decides_witness:
  "\<exists>dec db'. authorize demo_deciding ''t'' ''configuration.write'' platform_scope demo_az1 = Inr (dec, db')
     \<and> (dn_allowed dec \<longleftrightarrow> entitled demo_deciding demo_session ''configuration.write'' platform_scope demo_az1)"
proof -
  have row: "case principal_version (sn_account demo_session) demo_az1 of
      Some p \<Rightarrow> pv_dirty p = None | None \<Rightarrow> False"
    and caps: "principal_capabilities demo_deciding (sn_account demo_session) True demo_az1 \<noteq> Raised"
      "principal_capabilities demo_deciding (sn_account demo_session) False demo_az1 \<noteq> Raised"
    by code_simp+
  obtain p where p: "principal_version (sn_account demo_session) demo_az1 = Some p" "pv_dirty p = None"
    using row by (auto split: option.splits)
  have both: "principal_capabilities demo_deciding (sn_account demo_session) b demo_az1 \<noteq> Raised" for b
    using caps by (cases b) simp_all
  have "dv_validate demo_deciding ''t'' = Answer (Some demo_session)" "sn_kind demo_session = ''FULL''"
      "\<not> dv_raises demo_deciding r" "dv_member demo_deciding w (sn_account demo_session) \<noteq> Raised"
      "scope_ok platform_scope" for r w
    by (simp_all add: demo_deciding_def demo_decisions_def demo_session_def platform_scope_def scope_ok_def)
  from authorize_decides [OF this(1,2) p this(3,4,5) both] show ?thesis by blast
qed

end
