(* ===== verification/Requirement_Domain.thy ===== *)
theory Requirement_Domain
  imports Idempotency Audit_Log
begin

section \<open>The requirement module: domain\<close>

text \<open>
  \<^verbatim>\<open>requirement/domain\<close>: the states of requirements, work items, gates and outbox messages, the
  transition table (\<^verbatim>\<open>transitions.py\<close>), the human work transitions (\<^verbatim>\<open>delivery.py\<close>) and the rows of
  the module's tables as its data transfer objects name them (\<^verbatim>\<open>models.py\<close>). SHA-256 over canonical
  JSON (\<^verbatim>\<open>hashlib\<close> and \<^verbatim>\<open>json\<close>) is the parameter \<open>digest\<close> of what uses it.
\<close>

datatype requirement_type = FEAT | FIX | REFACTOR | CHORE

datatype requirement_state =
    CREATED | PREPARING | AWAITING_CONFIRMATION | READY | IN_PROGRESS | VERIFYING
  | AWAITING_ACCEPTANCE | AWAITING_MERGE | COMPLETED | CANCELED

datatype assignment_state = UNASSIGNED | ASSIGNED
datatype repository_state = WAITING_REPOSITORY | BLOCKED | BOUND

datatype binding_blocked_reason =
    CONNECTOR_UNAVAILABLE | REPOSITORY_NOT_FOUND | ACCESS_DENIED | POLICY_DENIED | BINDING_CONFLICT
  | OWNER_UNASSIGNED | OWNER_INELIGIBLE | REPOSITORY_NOT_AUTHORIZED | RECONCILIATION_PENDING

datatype work_item_state =
    ITEM_DRAFT | ITEM_READY | ITEM_IN_PROGRESS | ITEM_VERIFYING | ITEM_AWAITING_MERGE
  | ITEM_COMPLETED | ITEM_CANCELED

datatype integration_state =
    NOT_STARTED | IMPLEMENTING | MR_PENDING | MR_OPEN | MERGE_PENDING | INTEGRATED
  | INTEGRATION_BLOCKED | INTEGRATION_RECONCILING

datatype gate_state = GATE_OPEN | GATE_DECIDED
datatype decision_outcome = APPROVED | CHANGES_REQUESTED | REJECTED
datatype outbox_state = MSG_PENDING | MSG_PUBLISHED | MSG_FAILED

text \<open>The exceptions of \<^verbatim>\<open>transitions.py\<close> and \<^verbatim>\<open>application/delivery.py\<close>, subclasses of \<open>RequirementError\<close>;
  then those that are not: a missing actor, a constraint of the database.\<close>

datatype requirement_error =
    InvalidRequirementTransition string
  | InvalidRequirementInput string
  | RequirementNotFound string
  | StaleRequirementRevision string
  | RepositoryBindingRequestMissing string
  | RepositoryBindingMessageInvalid string
  | WorkItemNotFound string
  | StaleWorkItemRevision string
  | WorkItemAssigneeIneligible string
  | WorkItemAssignmentConflict string
  | RepositoryBindingConflict string
  | RequirementDependencyUnavailable string
  | ArtifactUnavailable string
  | SddArtifactNotFound string
  | SddBaselineNotFound string
  | StaleBaselineSubject string
  | GateNotFound string
  | GateAlreadyDecided string
  | GateReviewerMismatch string
  | GateReviewerIneligible string
  | StaleGateRevision string
  | GateAssignmentConflict string
  | WorkItemActorDenied string
  | WorkItemDeliveryConflict string
  | ActorWithoutIdentifier
  | PortError string
  | ConstraintViolated string
  | ResponseInvalid

definition error_name :: "requirement_error \<Rightarrow> string option" where
  "error_name e = (case e of
     InvalidRequirementTransition _ \<Rightarrow> Some ''INVALIDREQUIREMENTTRANSITION''
   | InvalidRequirementInput _ \<Rightarrow> Some ''INVALIDREQUIREMENTINPUT''
   | RequirementNotFound _ \<Rightarrow> Some ''REQUIREMENTNOTFOUND''
   | StaleRequirementRevision _ \<Rightarrow> Some ''STALEREQUIREMENTREVISION''
   | RepositoryBindingRequestMissing _ \<Rightarrow> Some ''REPOSITORYBINDINGREQUESTMISSING''
   | RepositoryBindingMessageInvalid _ \<Rightarrow> Some ''REPOSITORYBINDINGMESSAGEINVALID''
   | WorkItemNotFound _ \<Rightarrow> Some ''WORKITEMNOTFOUND''
   | StaleWorkItemRevision _ \<Rightarrow> Some ''STALEWORKITEMREVISION''
   | WorkItemAssigneeIneligible _ \<Rightarrow> Some ''WORKITEMASSIGNEEINELIGIBLE''
   | WorkItemAssignmentConflict _ \<Rightarrow> Some ''WORKITEMASSIGNMENTCONFLICT''
   | RepositoryBindingConflict _ \<Rightarrow> Some ''REPOSITORYBINDINGCONFLICT''
   | RequirementDependencyUnavailable _ \<Rightarrow> Some ''REQUIREMENTDEPENDENCYUNAVAILABLE''
   | ArtifactUnavailable _ \<Rightarrow> Some ''ARTIFACTUNAVAILABLE''
   | SddArtifactNotFound _ \<Rightarrow> Some ''SDDARTIFACTNOTFOUND''
   | SddBaselineNotFound _ \<Rightarrow> Some ''SDDBASELINENOTFOUND''
   | StaleBaselineSubject _ \<Rightarrow> Some ''STALEBASELINESUBJECT''
   | GateNotFound _ \<Rightarrow> Some ''GATENOTFOUND''
   | GateAlreadyDecided _ \<Rightarrow> Some ''GATEALREADYDECIDED''
   | GateReviewerMismatch _ \<Rightarrow> Some ''GATEREVIEWERMISMATCH''
   | GateReviewerIneligible _ \<Rightarrow> Some ''GATEREVIEWERINELIGIBLE''
   | StaleGateRevision _ \<Rightarrow> Some ''STALEGATEREVISION''
   | GateAssignmentConflict _ \<Rightarrow> Some ''GATEASSIGNMENTCONFLICT''
   | WorkItemActorDenied _ \<Rightarrow> Some ''WORKITEMACTORDENIED''
   | WorkItemDeliveryConflict _ \<Rightarrow> Some ''WORKITEMDELIVERYCONFLICT''
   | _ \<Rightarrow> None)"

subsection \<open>Transitions\<close>

definition first_batch_transitions :: "requirement_state \<Rightarrow> requirement_state list" where
  "first_batch_transitions s = (case s of
     CREATED \<Rightarrow> [PREPARING, CANCELED]
   | PREPARING \<Rightarrow> [AWAITING_CONFIRMATION, CANCELED]
   | AWAITING_CONFIRMATION \<Rightarrow> [READY, PREPARING, CANCELED]
   | READY \<Rightarrow> [IN_PROGRESS, CANCELED]
   | IN_PROGRESS \<Rightarrow> [VERIFYING, CANCELED]
   | VERIFYING \<Rightarrow> [AWAITING_ACCEPTANCE, CANCELED]
   | AWAITING_ACCEPTANCE \<Rightarrow> [AWAITING_MERGE, IN_PROGRESS, VERIFYING, CANCELED]
   | AWAITING_MERGE \<Rightarrow> [COMPLETED, IN_PROGRESS, VERIFYING, CANCELED]
   | COMPLETED \<Rightarrow> []
   | CANCELED \<Rightarrow> [])"

definition requirement_state_value :: "requirement_state \<Rightarrow> string" where
  "requirement_state_value s = (case s of CREATED \<Rightarrow> ''CREATED'' | PREPARING \<Rightarrow> ''PREPARING''
     | AWAITING_CONFIRMATION \<Rightarrow> ''AWAITING_CONFIRMATION'' | READY \<Rightarrow> ''READY''
     | IN_PROGRESS \<Rightarrow> ''IN_PROGRESS'' | VERIFYING \<Rightarrow> ''VERIFYING''
     | AWAITING_ACCEPTANCE \<Rightarrow> ''AWAITING_ACCEPTANCE'' | AWAITING_MERGE \<Rightarrow> ''AWAITING_MERGE''
     | COMPLETED \<Rightarrow> ''COMPLETED'' | CANCELED \<Rightarrow> ''CANCELED'')"

definition work_item_state_value :: "work_item_state \<Rightarrow> string" where
  "work_item_state_value s = (case s of ITEM_DRAFT \<Rightarrow> ''DRAFT'' | ITEM_READY \<Rightarrow> ''READY''
     | ITEM_IN_PROGRESS \<Rightarrow> ''IN_PROGRESS'' | ITEM_VERIFYING \<Rightarrow> ''VERIFYING''
     | ITEM_AWAITING_MERGE \<Rightarrow> ''AWAITING_MERGE'' | ITEM_COMPLETED \<Rightarrow> ''COMPLETED''
     | ITEM_CANCELED \<Rightarrow> ''CANCELED'')"

definition transition_requirement ::
  "requirement_state \<Rightarrow> requirement_state \<Rightarrow> (requirement_error, requirement_state) res" where
  "transition_requirement current target =
     (if target \<in> set (first_batch_transitions current) then Inr target
      else Inl (InvalidRequirementTransition
        (requirement_state_value current @ ''->'' @ requirement_state_value target)))"

definition derive_work_item_state ::
  "requirement_state \<Rightarrow> assignment_state \<Rightarrow> repository_state \<Rightarrow> work_item_state" where
  "derive_work_item_state requirement assignment repository =
     (if requirement = READY \<and> assignment = ASSIGNED \<and> repository = BOUND then ITEM_READY
      else ITEM_DRAFT)"

definition transition_human_work_started ::
  "requirement_state \<Rightarrow> work_item_state
   \<Rightarrow> (requirement_error, requirement_state \<times> work_item_state) res" where
  "transition_human_work_started requirement work_item =
     (if requirement \<notin> {READY, IN_PROGRESS} \<or> work_item \<noteq> ITEM_READY
      then Inl (InvalidRequirementTransition (requirement_state_value requirement @ ''/''
        @ work_item_state_value work_item @ ''->IN_PROGRESS''))
      else Inr (IN_PROGRESS, ITEM_IN_PROGRESS))"

definition transition_integration_mr_ready :: "work_item_state list \<Rightarrow> requirement_state" where
  "transition_integration_mr_ready required =
     (if list_all (\<lambda>s. s \<in> {ITEM_VERIFYING, ITEM_COMPLETED}) required then VERIFYING
      else IN_PROGRESS)"

text \<open>A requirement moves through the table one step at a time, and the two last states end it.\<close>

interpretation requirement_cycle:
  lifecycle first_batch_transitions "\<lambda>s. s" transition_requirement
  by unfold_locales (auto simp: transition_requirement_def split: if_splits)

subsection \<open>Text\<close>

definition normalized_text :: "string \<Rightarrow> string \<Rightarrow> (requirement_error, string) res" where
  "normalized_text value field =
     (if strip value = [] then Inl (InvalidRequirementInput (field @ '' is required''))
      else Inr (strip value))"

definition is_canonical_sha256 :: "string \<Rightarrow> bool" where
  "is_canonical_sha256 value =
     (take 7 value = ''sha256:'' \<and> length value = 71
      \<and> list_all (\<lambda>c. c \<in> set ''0123456789abcdef'') (drop 7 value))"

definition type_value :: "requirement_type \<Rightarrow> string" where
  "type_value t = (case t of FEAT \<Rightarrow> ''feat'' | FIX \<Rightarrow> ''fix'' | REFACTOR \<Rightarrow> ''refactor'' | CHORE \<Rightarrow> ''chore'')"

definition outcome_value :: "decision_outcome \<Rightarrow> string" where
  "outcome_value d = (case d of APPROVED \<Rightarrow> ''APPROVED'' | CHANGES_REQUESTED \<Rightarrow> ''CHANGES_REQUESTED''
     | REJECTED \<Rightarrow> ''REJECTED'')"

definition assignment_value :: "assignment_state \<Rightarrow> string" where
  "assignment_value a = (case a of ASSIGNED \<Rightarrow> ''ASSIGNED'' | UNASSIGNED \<Rightarrow> ''UNASSIGNED'')"

definition blocked_reason_value :: "binding_blocked_reason \<Rightarrow> string" where
  "blocked_reason_value r = (case r of
     CONNECTOR_UNAVAILABLE \<Rightarrow> ''CONNECTOR_UNAVAILABLE'' | REPOSITORY_NOT_FOUND \<Rightarrow> ''REPOSITORY_NOT_FOUND''
   | ACCESS_DENIED \<Rightarrow> ''ACCESS_DENIED'' | POLICY_DENIED \<Rightarrow> ''POLICY_DENIED''
   | BINDING_CONFLICT \<Rightarrow> ''BINDING_CONFLICT'' | OWNER_UNASSIGNED \<Rightarrow> ''OWNER_UNASSIGNED''
   | OWNER_INELIGIBLE \<Rightarrow> ''OWNER_INELIGIBLE''
   | REPOSITORY_NOT_AUTHORIZED \<Rightarrow> ''REPOSITORY_NOT_AUTHORIZED''
   | RECONCILIATION_PENDING \<Rightarrow> ''RECONCILIATION_PENDING'')"

subsection \<open>Rows\<close>

record requirement_row =
  rq_id :: string
  rq_workspace_id :: string
  rq_type :: requirement_type
  rq_title :: string
  rq_description :: string
  rq_criteria :: "string list"
  rq_criteria_version :: int
  rq_criteria_hash :: string
  rq_created_by :: string
  rq_initial_repository :: string
  rq_route_version :: int
  rq_route_hash :: string
  rq_route :: pyval
  rq_state :: requirement_state
  rq_version :: int
  rq_set_version :: int
  rq_set_hash :: string
  rq_baseline :: "string option"
  rq_revision :: int
  rq_created_at :: instant
  rq_updated_at :: instant

record work_item_row =
  wi_id :: string
  wi_requirement :: string
  wi_created_by :: string
  wi_owner :: "string option"
  wi_executor :: "string option"
  wi_capabilities :: "string list"
  wi_assignment :: assignment_state
  wi_repository_state :: repository_state
  wi_state :: work_item_state
  wi_repository :: string
  wi_base_commit :: "string option"
  wi_branch :: "string option"
  wi_blocked_reason :: "binding_blocked_reason option"
  wi_blocked_at :: "instant option"
  wi_integration :: integration_state
  wi_binding :: "string option"
  wi_integration_reason :: "string option"
  wi_integration_at :: "instant option"
  wi_revision :: int
  wi_created_at :: instant
  wi_updated_at :: instant

record assignment_row =
  wa_id :: string
  wa_work_item :: string
  wa_assignee :: string
  wa_assigned_by :: string
  wa_reason :: string
  wa_revision :: int
  wa_assigned_at :: instant
  wa_superseded_at :: "instant option"

record artifact_row =
  sa_id :: string
  sa_version :: int
  sa_requirement :: string
  sa_sha256 :: string
  sa_content :: string
  sa_created_by :: string
  sa_created_at :: instant

record baseline_row =
  sb_id :: string
  sb_requirement :: string
  sb_requirement_version :: int
  sb_artifact :: string
  sb_artifact_version :: string
  sb_artifact_hash :: string
  sb_route_version :: int
  sb_route_hash :: string
  sb_created_by :: string
  sb_created_at :: instant

record gate_row =
  gt_id :: string
  gt_requirement :: string
  gt_requirement_version :: int
  gt_baseline :: string
  gt_artifact :: string
  gt_artifact_version :: string
  gt_artifact_hash :: string
  gt_route_version :: int
  gt_route_hash :: string
  gt_policy_code :: string
  gt_policy_version :: int
  gt_policy_hash :: string
  gt_state :: gate_state
  gt_revision :: int
  gt_created_at :: instant
  gt_decided_at :: "instant option"

record gate_assignment_row =
  ga_id :: string
  ga_gate :: string
  ga_default :: string
  ga_current :: string
  ga_revision :: int
  ga_assigned_at :: instant
  ga_superseded_at :: "instant option"

record decision_row =
  de_id :: string
  de_gate :: string
  de_assignment :: string
  de_reviewer :: string
  de_outcome :: decision_outcome
  de_reason :: string
  de_subject_revision :: int
  de_decided_at :: instant

record outbox_row =
  ob_id :: string
  ob_topic :: string
  ob_aggregate_type :: string
  ob_aggregate :: string
  ob_version :: int
  ob_payload :: pyval
  ob_state :: outbox_state
  ob_attempts :: int
  ob_available_at :: instant
  ob_created_at :: instant
  ob_published_at :: "instant option"
  ob_error :: "string option"

record requirement_db =
  rd_requirements :: "requirement_row list"
  rd_items :: "work_item_row list"
  rd_assignments :: "assignment_row list"
  rd_artifacts :: "artifact_row list"
  rd_baselines :: "baseline_row list"
  rd_gates :: "gate_row list"
  rd_gate_assignments :: "gate_assignment_row list"
  rd_decisions :: "decision_row list"
  rd_outbox :: "outbox_row list"
  rd_keys :: "idem_row list"
  rd_audit :: audit_log

end
