(* ===== verification/Requirement_Store.thy ===== *)
theory Requirement_Store
  imports Requirement_Domain
begin

section \<open>The requirement module: repository\<close>

text \<open>
  \<^verbatim>\<open>requirement/adapters/sqlalchemy.py\<close> over the tables of \<^verbatim>\<open>migrations/requirement/0001\<close> to \<^verbatim>\<open>0006\<close>:
  every statement the planning, baseline and delivery commands issue. A statement that violates a
  constraint raises \<open>ConstraintViolated\<close>; an UPDATE whose WHERE selects nothing returns no row.
\<close>

subsection \<open>Constraints\<close>

definition requirement_row_ok :: "requirement_row \<Rightarrow> bool" where
  "requirement_row_ok r = (nonblank_text (rq_title r) \<and> nonblank_text (rq_description r)
     \<and> nonblank_text (rq_created_by r) \<and> nonblank_text (rq_initial_repository r)
     \<and> 1 \<le> rq_route_version r \<and> int4 (rq_route_version r) \<and> rq_route_hash r \<noteq> []
     \<and> 1 \<le> rq_criteria_version r \<and> is_canonical_sha256 (rq_criteria_hash r)
     \<and> 1 \<le> rq_version r \<and> int4 (rq_version r) \<and> 1 \<le> rq_set_version r \<and> int4 (rq_set_version r)
     \<and> 1 \<le> rq_revision r \<and> int4 (rq_revision r) \<and> rq_set_hash r \<noteq> []
     \<and> rq_created_at r \<le> rq_updated_at r)"

definition item_binding_ok :: "work_item_row \<Rightarrow> bool" where
  "item_binding_ok w = (case wi_repository_state w of
       WAITING_REPOSITORY \<Rightarrow> wi_base_commit w = None \<and> wi_branch w = None
         \<and> wi_blocked_reason w = None \<and> wi_blocked_at w = None
     | BLOCKED \<Rightarrow> wi_base_commit w = None \<and> wi_branch w = None
         \<and> wi_blocked_reason w \<noteq> None \<and> wi_blocked_at w \<noteq> None
     | BOUND \<Rightarrow> (case wi_base_commit w of None \<Rightarrow> True | Some c \<Rightarrow> nonblank_text c)
         \<and> (case wi_branch w of None \<Rightarrow> True | Some b \<Rightarrow> nonblank_text b)
         \<and> wi_blocked_reason w = None \<and> wi_blocked_at w = None)"

definition work_item_row_ok :: "work_item_row \<Rightarrow> bool" where
  "work_item_row_ok w = (nonblank_text (wi_created_by w) \<and> nonblank_text (wi_repository w)
     \<and> (case wi_assignment w of
          UNASSIGNED \<Rightarrow> wi_owner w = None \<and> wi_executor w = None
        | ASSIGNED \<Rightarrow> (case wi_owner w of None \<Rightarrow> True
            | Some o' \<Rightarrow> nonblank_text o' \<and> (wi_executor w = None \<or> wi_executor w = Some o')))
     \<and> item_binding_ok w
     \<and> (wi_state w \<in> {ITEM_DRAFT, ITEM_CANCELED}
        \<or> wi_assignment w = ASSIGNED \<and> wi_repository_state w = BOUND)
     \<and> (case wi_integration w of
          NOT_STARTED \<Rightarrow> wi_binding w = None | IMPLEMENTING \<Rightarrow> wi_binding w = None
        | MR_PENDING \<Rightarrow> wi_binding w = None
        | MR_OPEN \<Rightarrow> wi_binding w \<noteq> None | MERGE_PENDING \<Rightarrow> wi_binding w \<noteq> None
        | INTEGRATED \<Rightarrow> wi_binding w \<noteq> None | _ \<Rightarrow> True)
     \<and> (wi_integration w = INTEGRATION_BLOCKED \<longleftrightarrow> wi_integration_reason w \<noteq> None)
     \<and> 1 \<le> wi_revision w \<and> int4 (wi_revision w) \<and> wi_created_at w \<le> wi_updated_at w)"

definition assignment_row_ok :: "assignment_row \<Rightarrow> bool" where
  "assignment_row_ok a = (nonblank_text (wa_assignee a) \<and> nonblank_text (wa_assigned_by a)
     \<and> nonblank_text (wa_reason a) \<and> 1 \<le> wa_revision a \<and> int4 (wa_revision a)
     \<and> (case wa_superseded_at a of None \<Rightarrow> True | Some t \<Rightarrow> wa_assigned_at a \<le> t))"

text \<open>UTF-8 encodes the code points below 128 in one byte and those below 256 in two.\<close>

definition utf8_length :: "string \<Rightarrow> nat" where
  "utf8_length s = sum_list (map (\<lambda>c. if (of_char c :: nat) < 128 then 1 else 2) s)"

definition artifact_row_ok :: "artifact_row \<Rightarrow> bool" where
  "artifact_row_ok a = (1 \<le> sa_version a \<and> int4 (sa_version a) \<and> is_canonical_sha256 (sa_sha256 a)
     \<and> sa_content a \<noteq> [] \<and> utf8_length (sa_content a) \<le> 200000 \<and> nonblank_text (sa_created_by a))"

definition baseline_row_ok :: "baseline_row \<Rightarrow> bool" where
  "baseline_row_ok b = (1 \<le> sb_requirement_version b \<and> 1 \<le> sb_route_version b \<and> sb_artifact b \<noteq> []
     \<and> sb_artifact_version b \<noteq> [] \<and> sb_artifact_hash b \<noteq> [] \<and> sb_route_hash b \<noteq> []
     \<and> sb_created_by b \<noteq> [])"

definition gate_row_ok :: "gate_row \<Rightarrow> bool" where
  "gate_row_ok g = (1 \<le> gt_requirement_version g \<and> 1 \<le> gt_route_version g \<and> 1 \<le> gt_policy_version g
     \<and> int4 (gt_policy_version g) \<and> 1 \<le> gt_revision g \<and> int4 (gt_revision g)
     \<and> gt_artifact g \<noteq> [] \<and> gt_artifact_version g \<noteq> [] \<and> gt_artifact_hash g \<noteq> []
     \<and> gt_route_hash g \<noteq> [] \<and> nonblank_text (gt_policy_code g) \<and> is_canonical_sha256 (gt_policy_hash g)
     \<and> (gt_state g = GATE_OPEN \<longleftrightarrow> gt_decided_at g = None))"

definition gate_assignment_row_ok :: "gate_assignment_row \<Rightarrow> bool" where
  "gate_assignment_row_ok a = (ga_default a \<noteq> [] \<and> ga_current a \<noteq> [] \<and> 1 \<le> ga_revision a
     \<and> int4 (ga_revision a)
     \<and> (case ga_superseded_at a of None \<Rightarrow> True | Some t \<Rightarrow> ga_assigned_at a \<le> t))"

definition decision_row_ok :: "decision_row \<Rightarrow> bool" where
  "decision_row_ok d = (de_reviewer d \<noteq> [] \<and> nonblank_text (de_reason d) \<and> 1 \<le> de_subject_revision d)"

definition outbox_row_ok :: "outbox_row \<Rightarrow> bool" where
  "outbox_row_ok m = (ob_topic m \<noteq> [] \<and> ob_aggregate_type m \<noteq> [] \<and> 1 \<le> ob_version m
     \<and> int4 (ob_version m) \<and> 0 \<le> ob_attempts m \<and> int4 (ob_attempts m)
     \<and> (ob_state m = MSG_PUBLISHED \<longleftrightarrow> ob_published_at m \<noteq> None))"

subsection \<open>Statements on one table\<close>

text \<open>\<open>INSERT\<close> of a row with its constraints \<open>ok\<close>, and \<open>UPDATE ... WHERE id = k AND p RETURNING *\<close>.\<close>

definition insert_row ::
  "string \<Rightarrow> ('r \<Rightarrow> 'k) \<Rightarrow> ('r \<Rightarrow> bool) \<Rightarrow> 'r \<Rightarrow> 'r list \<Rightarrow> (requirement_error, 'r list) res" where
  "insert_row table key ok r rows =
     (if \<not> ok r \<or> key r \<in> key ` set rows then Inl (ConstraintViolated table) else Inr (rows @ [r]))"

definition update_row ::
  "string \<Rightarrow> ('r \<Rightarrow> 'k) \<Rightarrow> ('r \<Rightarrow> bool) \<Rightarrow> 'k \<Rightarrow> ('r \<Rightarrow> bool) \<Rightarrow> ('r \<Rightarrow> 'r) \<Rightarrow> 'r list
   \<Rightarrow> (requirement_error, 'r option \<times> 'r list) res" where
  "update_row table key ok k p f rows =
     (case row_by key k rows of
        None \<Rightarrow> Inr (None, rows)
      | Some r \<Rightarrow>
          if \<not> p r then Inr (None, rows)
          else if \<not> ok (f r) then Inl (ConstraintViolated table)
          else Inr (Some (f r), set_where (\<lambda>x. key x = k) f rows))"

lemma inserted_row_Inr [res_simps]:
  "insert_row table key ok r rows = Inr rows' \<longleftrightarrow> ok r \<and> key r \<notin> key ` set rows \<and> rows' = rows @ [r]"
  by (auto simp: insert_row_def)

lemma update_row_Some:
  assumes "update_row table key ok k p f rows = Inr (Some r', rows')"
  shows "\<exists>r. row_by key k rows = Some r \<and> p r \<and> ok (f r) \<and> r' = f r
    \<and> rows' = set_where (\<lambda>x. key x = k) f rows"
  using assms by (auto simp: update_row_def split: option.splits if_splits)

lemma update_row_None:
  "update_row table key ok k p f rows = Inr (None, rows') \<Longrightarrow> rows' = rows"
  by (auto simp: update_row_def split: option.splits if_splits)

subsection \<open>Requirements\<close>

definition requirement_by_id :: "string \<Rightarrow> requirement_db \<Rightarrow> requirement_row option" where
  "requirement_by_id i db = row_by rq_id i (rd_requirements db)"

definition insert_requirement ::
  "requirement_row \<Rightarrow> requirement_db \<Rightarrow> (requirement_error, requirement_db) res" where
  "insert_requirement r db =
     rbind (insert_row ''requirement'' rq_id requirement_row_ok r (rd_requirements db))
       (\<lambda>rows. Inr (db\<lparr>rd_requirements := rows\<rparr>))"

definition write_requirement ::
  "string \<Rightarrow> (requirement_row \<Rightarrow> bool) \<Rightarrow> (requirement_row \<Rightarrow> requirement_row) \<Rightarrow> requirement_db
   \<Rightarrow> (requirement_error, requirement_row option \<times> requirement_db) res" where
  "write_requirement i p f db =
     rbind (update_row ''requirement'' rq_id requirement_row_ok i p f (rd_requirements db))
       (\<lambda>(r, rows). Inr (r, db\<lparr>rd_requirements := rows\<rparr>))"

definition update_requirement_state ::
  "string \<Rightarrow> int \<Rightarrow> requirement_state \<Rightarrow> instant \<Rightarrow> requirement_db
   \<Rightarrow> (requirement_error, requirement_row option \<times> requirement_db) res" where
  "update_requirement_state i expected state now =
     write_requirement i (\<lambda>r. rq_revision r = expected)
       (\<lambda>r. r\<lparr>rq_state := state, rq_revision := rq_revision r + 1, rq_updated_at := now\<rparr>)"

definition update_requirement_plan ::
  "string \<Rightarrow> int \<Rightarrow> string \<Rightarrow> instant \<Rightarrow> requirement_db
   \<Rightarrow> (requirement_error, requirement_row option \<times> requirement_db) res" where
  "update_requirement_plan i expected set_hash now =
     write_requirement i (\<lambda>r. rq_revision r = expected \<and> rq_state r = PREPARING)
       (\<lambda>r. r\<lparr>rq_version := rq_version r + 1, rq_set_version := rq_set_version r + 1,
              rq_set_hash := set_hash, rq_baseline := None, rq_revision := rq_revision r + 1,
              rq_updated_at := now\<rparr>)"

definition set_current_sdd_baseline ::
  "string \<Rightarrow> string \<Rightarrow> int \<Rightarrow> instant \<Rightarrow> requirement_db
   \<Rightarrow> (requirement_error, requirement_row option \<times> requirement_db) res" where
  "set_current_sdd_baseline i baseline_id expected now =
     write_requirement i (\<lambda>r. rq_revision r = expected)
       (\<lambda>r. r\<lparr>rq_baseline := Some baseline_id, rq_revision := rq_revision r + 1,
              rq_updated_at := now\<rparr>)"

subsection \<open>Work items and their assignments\<close>

definition work_item_by_id :: "string \<Rightarrow> requirement_db \<Rightarrow> work_item_row option" where
  "work_item_by_id i db = row_by wi_id i (rd_items db)"

definition work_items :: "string \<Rightarrow> requirement_db \<Rightarrow> work_item_row list" where
  "work_items i db = sort_key (\<lambda>w. (wi_created_at w, wi_id w))
     (filter (\<lambda>w. wi_requirement w = i) (rd_items db))"

definition insert_work_item ::
  "work_item_row \<Rightarrow> requirement_db \<Rightarrow> (requirement_error, requirement_db) res" where
  "insert_work_item w db =
     (if wi_requirement w \<notin> rq_id ` set (rd_requirements db) then Inl (ConstraintViolated ''work_item'')
      else rbind (insert_row ''work_item'' wi_id work_item_row_ok w (rd_items db))
        (\<lambda>rows. Inr (db\<lparr>rd_items := rows\<rparr>)))"

definition write_work_item ::
  "string \<Rightarrow> (work_item_row \<Rightarrow> bool) \<Rightarrow> (work_item_row \<Rightarrow> work_item_row) \<Rightarrow> requirement_db
   \<Rightarrow> (requirement_error, work_item_row option \<times> requirement_db) res" where
  "write_work_item i p f db =
     rbind (update_row ''work_item'' wi_id work_item_row_ok i p f (rd_items db))
       (\<lambda>(w, rows). Inr (w, db\<lparr>rd_items := rows\<rparr>))"

definition assign_work_item_projection ::
  "string \<Rightarrow> int \<Rightarrow> string \<Rightarrow> repository_state \<Rightarrow> binding_blocked_reason option \<Rightarrow> instant option
   \<Rightarrow> instant \<Rightarrow> requirement_db \<Rightarrow> (requirement_error, work_item_row option \<times> requirement_db) res" where
  "assign_work_item_projection i expected owner repository reason blocked_at now =
     write_work_item i (\<lambda>w. wi_revision w = expected \<and> wi_integration w = NOT_STARTED)
       (\<lambda>w. w\<lparr>wi_owner := Some owner, wi_executor := Some owner, wi_assignment := ASSIGNED,
              wi_repository_state := repository, wi_blocked_reason := reason,
              wi_blocked_at := blocked_at, wi_revision := wi_revision w + 1, wi_updated_at := now\<rparr>)"

definition bind_work_item ::
  "string \<Rightarrow> int \<Rightarrow> string \<Rightarrow> string \<Rightarrow> work_item_state \<Rightarrow> instant \<Rightarrow> requirement_db
   \<Rightarrow> (requirement_error, work_item_row option \<times> requirement_db) res" where
  "bind_work_item i expected sha branch state now =
     write_work_item i (\<lambda>w. wi_revision w = expected \<and> wi_repository_state w \<in> {WAITING_REPOSITORY, BLOCKED})
       (\<lambda>w. w\<lparr>wi_repository_state := BOUND, wi_base_commit := Some sha, wi_branch := Some branch,
              wi_state := state, wi_blocked_reason := None, wi_blocked_at := None,
              wi_revision := wi_revision w + 1, wi_updated_at := now\<rparr>)"

definition block_work_item ::
  "string \<Rightarrow> int \<Rightarrow> binding_blocked_reason \<Rightarrow> instant \<Rightarrow> requirement_db
   \<Rightarrow> (requirement_error, work_item_row option \<times> requirement_db) res" where
  "block_work_item i expected reason now =
     write_work_item i (\<lambda>w. wi_revision w = expected \<and> wi_repository_state w \<in> {WAITING_REPOSITORY, BLOCKED})
       (\<lambda>w. w\<lparr>wi_repository_state := BLOCKED, wi_base_commit := None, wi_branch := None,
              wi_state := ITEM_DRAFT, wi_blocked_reason := Some reason, wi_blocked_at := Some now,
              wi_revision := wi_revision w + 1, wi_updated_at := now\<rparr>)"

definition update_work_item_delivery ::
  "string \<Rightarrow> int \<Rightarrow> work_item_state \<Rightarrow> integration_state \<Rightarrow> string option \<Rightarrow> string option \<Rightarrow> instant
   \<Rightarrow> requirement_db \<Rightarrow> (requirement_error, work_item_row option \<times> requirement_db) res" where
  "update_work_item_delivery i expected state delivery binding_id reason now =
     write_work_item i (\<lambda>w. wi_revision w = expected)
       (\<lambda>w. w\<lparr>wi_state := state, wi_integration := delivery, wi_binding := binding_id,
              wi_integration_reason := reason, wi_integration_at := Some now,
              wi_revision := wi_revision w + 1, wi_updated_at := now\<rparr>)"

text \<open>One UPDATE over the planned items of a requirement: those whose state differs from the target.\<close>

definition planned_target :: "requirement_state \<Rightarrow> work_item_row \<Rightarrow> work_item_state" where
  "planned_target state w =
     (if state = READY \<and> wi_assignment w = ASSIGNED \<and> wi_repository_state w = BOUND then ITEM_READY
      else if state = CANCELED then ITEM_CANCELED else ITEM_DRAFT)"

definition reconciled_item :: "requirement_state \<Rightarrow> instant \<Rightarrow> work_item_row \<Rightarrow> work_item_row" where
  "reconciled_item state now w =
     w\<lparr>wi_state := planned_target state w, wi_revision := wi_revision w + 1, wi_updated_at := now\<rparr>"

definition planned_stale :: "string \<Rightarrow> requirement_state \<Rightarrow> work_item_row \<Rightarrow> bool" where
  "planned_stale i state w \<longleftrightarrow>
     wi_requirement w = i \<and> wi_integration w = NOT_STARTED \<and> wi_state w \<noteq> planned_target state w"

definition reconcile_planned_work_item_states ::
  "string \<Rightarrow> requirement_state \<Rightarrow> instant \<Rightarrow> requirement_db \<Rightarrow> (requirement_error, requirement_db) res" where
  "reconcile_planned_work_item_states i state now db =
     (if list_all (\<lambda>w. planned_stale i state w \<longrightarrow> work_item_row_ok (reconciled_item state now w)) (rd_items db)
      then Inr (db\<lparr>rd_items := set_where (planned_stale i state) (reconciled_item state now) (rd_items db)\<rparr>)
      else Inl (ConstraintViolated ''work_item''))"

definition assignment_position :: "assignment_row \<Rightarrow> string \<times> int" where
  "assignment_position a = (wa_work_item a, wa_revision a)"

definition current_work_item_assignment :: "string \<Rightarrow> requirement_db \<Rightarrow> assignment_row option" where
  "current_work_item_assignment i db =
     List.find (\<lambda>a. wa_work_item a = i \<and> wa_superseded_at a = None) (rd_assignments db)"

definition insert_work_item_assignment ::
  "assignment_row \<Rightarrow> requirement_db \<Rightarrow> (requirement_error, requirement_db) res" where
  "insert_work_item_assignment a db =
     (if wa_work_item a \<notin> wi_id ` set (rd_items db)
         \<or> assignment_position a \<in> assignment_position ` set (rd_assignments db)
         \<or> wa_superseded_at a = None \<and> current_work_item_assignment (wa_work_item a) db \<noteq> None
      then Inl (ConstraintViolated ''work_item_assignment'')
      else rbind (insert_row ''work_item_assignment'' wa_id assignment_row_ok a (rd_assignments db))
        (\<lambda>rows. Inr (db\<lparr>rd_assignments := rows\<rparr>)))"

definition supersede_work_item_assignment ::
  "string \<Rightarrow> int \<Rightarrow> instant \<Rightarrow> requirement_db
   \<Rightarrow> (requirement_error, assignment_row option \<times> requirement_db) res" where
  "supersede_work_item_assignment i expected now db =
     rbind (update_row ''work_item_assignment'' wa_id assignment_row_ok i
         (\<lambda>a. wa_revision a = expected \<and> wa_superseded_at a = None)
         (\<lambda>a. a\<lparr>wa_superseded_at := Some now\<rparr>) (rd_assignments db))
       (\<lambda>(a, rows). Inr (a, db\<lparr>rd_assignments := rows\<rparr>))"

subsection \<open>Artifacts and baselines\<close>

definition artifact_key :: "artifact_row \<Rightarrow> string \<times> int" where
  "artifact_key a = (sa_id a, sa_version a)"

definition insert_sdd_artifact_version ::
  "artifact_row \<Rightarrow> requirement_db \<Rightarrow> (requirement_error, requirement_db) res" where
  "insert_sdd_artifact_version a db =
     (if sa_requirement a \<notin> rq_id ` set (rd_requirements db)
      then Inl (ConstraintViolated ''sdd_artifact_version'')
      else rbind (insert_row ''sdd_artifact_version'' artifact_key artifact_row_ok a (rd_artifacts db))
        (\<lambda>rows. Inr (db\<lparr>rd_artifacts := rows\<rparr>)))"

definition latest_sdd_artifact_version :: "string \<Rightarrow> string \<Rightarrow> requirement_db \<Rightarrow> artifact_row option" where
  "latest_sdd_artifact_version i artifact_id db =
     (case sort_key (\<lambda>a. - sa_version a)
         (filter (\<lambda>a. sa_requirement a = i \<and> sa_id a = artifact_id) (rd_artifacts db)) of
        [] \<Rightarrow> None | a # _ \<Rightarrow> Some a)"

definition sdd_artifact_version :: "string \<Rightarrow> string \<Rightarrow> int \<Rightarrow> requirement_db \<Rightarrow> artifact_row option" where
  "sdd_artifact_version i artifact_id version db =
     List.find (\<lambda>a. sa_requirement a = i \<and> sa_id a = artifact_id \<and> sa_version a = version)
       (rd_artifacts db)"

definition baseline_artifact :: "baseline_row \<Rightarrow> string \<times> string \<times> string \<times> string" where
  "baseline_artifact b = (sb_requirement b, sb_artifact b, sb_artifact_version b, sb_artifact_hash b)"

definition insert_sdd_baseline ::
  "baseline_row \<Rightarrow> requirement_db \<Rightarrow> (requirement_error, requirement_db) res" where
  "insert_sdd_baseline b db =
     (if sb_requirement b \<notin> rq_id ` set (rd_requirements db)
         \<or> baseline_artifact b \<in> baseline_artifact ` set (rd_baselines db)
      then Inl (ConstraintViolated ''sdd_baseline'')
      else rbind (insert_row ''sdd_baseline'' sb_id baseline_row_ok b (rd_baselines db))
        (\<lambda>rows. Inr (db\<lparr>rd_baselines := rows\<rparr>)))"

definition sdd_baseline_by_id :: "string \<Rightarrow> requirement_db \<Rightarrow> baseline_row option" where
  "sdd_baseline_by_id i db = row_by sb_id i (rd_baselines db)"

definition sdd_baseline_by_artifact ::
  "string \<Rightarrow> string \<Rightarrow> string \<Rightarrow> requirement_db \<Rightarrow> baseline_row option" where
  "sdd_baseline_by_artifact i artifact_id artifact_version db =
     (case sort_key (\<lambda>b. (sb_created_at b, sb_id b))
         (filter (\<lambda>b. sb_requirement b = i \<and> sb_artifact b = artifact_id
                    \<and> sb_artifact_version b = artifact_version) (rd_baselines db)) of
        [] \<Rightarrow> None | b # _ \<Rightarrow> Some b)"

subsection \<open>Gates\<close>

text \<open>The foreign key of a gate names the whole subject of its baseline.\<close>

definition gate_subject ::
  "gate_row \<Rightarrow> string \<times> string \<times> int \<times> string \<times> string \<times> string \<times> int \<times> string" where
  "gate_subject g = (gt_baseline g, gt_requirement g, gt_requirement_version g, gt_artifact g,
     gt_artifact_version g, gt_artifact_hash g, gt_route_version g, gt_route_hash g)"

definition baseline_subject ::
  "baseline_row \<Rightarrow> string \<times> string \<times> int \<times> string \<times> string \<times> string \<times> int \<times> string" where
  "baseline_subject b = (sb_id b, sb_requirement b, sb_requirement_version b, sb_artifact b,
     sb_artifact_version b, sb_artifact_hash b, sb_route_version b, sb_route_hash b)"

definition insert_gate :: "gate_row \<Rightarrow> requirement_db \<Rightarrow> (requirement_error, requirement_db) res" where
  "insert_gate g db =
     (if gt_requirement g \<notin> rq_id ` set (rd_requirements db)
         \<or> gate_subject g \<notin> baseline_subject ` set (rd_baselines db)
      then Inl (ConstraintViolated ''gate_instance'')
      else rbind (insert_row ''gate_instance'' gt_id gate_row_ok g (rd_gates db))
        (\<lambda>rows. Inr (db\<lparr>rd_gates := rows\<rparr>)))"

definition gate_by_id :: "string \<Rightarrow> requirement_db \<Rightarrow> gate_row option" where
  "gate_by_id i db = row_by gt_id i (rd_gates db)"

definition gate_by_baseline_id :: "string \<Rightarrow> requirement_db \<Rightarrow> gate_row option" where
  "gate_by_baseline_id i db =
     (case sort_key (\<lambda>g. (gt_created_at g, gt_id g)) (filter (\<lambda>g. gt_baseline g = i) (rd_gates db)) of
        [] \<Rightarrow> None | g # _ \<Rightarrow> Some g)"

definition write_gate ::
  "string \<Rightarrow> (gate_row \<Rightarrow> bool) \<Rightarrow> (gate_row \<Rightarrow> gate_row) \<Rightarrow> requirement_db
   \<Rightarrow> (requirement_error, gate_row option \<times> requirement_db) res" where
  "write_gate i p f db =
     rbind (update_row ''gate_instance'' gt_id gate_row_ok i p f (rd_gates db))
       (\<lambda>(g, rows). Inr (g, db\<lparr>rd_gates := rows\<rparr>))"

definition reassign_gate ::
  "string \<Rightarrow> int \<Rightarrow> requirement_db \<Rightarrow> (requirement_error, gate_row option \<times> requirement_db) res" where
  "reassign_gate i expected =
     write_gate i (\<lambda>g. gt_revision g = expected \<and> gt_state g = GATE_OPEN)
       (\<lambda>g. g\<lparr>gt_revision := gt_revision g + 1\<rparr>)"

definition close_gate ::
  "string \<Rightarrow> int \<Rightarrow> instant \<Rightarrow> requirement_db
   \<Rightarrow> (requirement_error, gate_row option \<times> requirement_db) res" where
  "close_gate i expected now =
     write_gate i (\<lambda>g. gt_revision g = expected \<and> gt_state g = GATE_OPEN)
       (\<lambda>g. g\<lparr>gt_state := GATE_DECIDED, gt_revision := gt_revision g + 1, gt_decided_at := Some now\<rparr>)"

definition gate_assignment_position :: "gate_assignment_row \<Rightarrow> string \<times> int" where
  "gate_assignment_position a = (ga_gate a, ga_revision a)"

definition current_gate_assignment :: "string \<Rightarrow> requirement_db \<Rightarrow> gate_assignment_row option" where
  "current_gate_assignment i db =
     List.find (\<lambda>a. ga_gate a = i \<and> ga_superseded_at a = None) (rd_gate_assignments db)"

definition insert_gate_assignment ::
  "gate_assignment_row \<Rightarrow> requirement_db \<Rightarrow> (requirement_error, requirement_db) res" where
  "insert_gate_assignment a db =
     (if ga_gate a \<notin> gt_id ` set (rd_gates db)
         \<or> gate_assignment_position a \<in> gate_assignment_position ` set (rd_gate_assignments db)
         \<or> ga_superseded_at a = None \<and> current_gate_assignment (ga_gate a) db \<noteq> None
      then Inl (ConstraintViolated ''gate_assignment'')
      else rbind (insert_row ''gate_assignment'' ga_id gate_assignment_row_ok a (rd_gate_assignments db))
        (\<lambda>rows. Inr (db\<lparr>rd_gate_assignments := rows\<rparr>)))"

definition supersede_gate_assignment ::
  "string \<Rightarrow> int \<Rightarrow> instant \<Rightarrow> requirement_db
   \<Rightarrow> (requirement_error, gate_assignment_row option \<times> requirement_db) res" where
  "supersede_gate_assignment i expected now db =
     rbind (update_row ''gate_assignment'' ga_id gate_assignment_row_ok i
         (\<lambda>a. ga_revision a = expected \<and> ga_superseded_at a = None)
         (\<lambda>a. a\<lparr>ga_superseded_at := Some now\<rparr>) (rd_gate_assignments db))
       (\<lambda>(a, rows). Inr (a, db\<lparr>rd_gate_assignments := rows\<rparr>))"

definition insert_decision ::
  "decision_row \<Rightarrow> requirement_db \<Rightarrow> (requirement_error, requirement_db) res" where
  "insert_decision d db =
     (if de_gate d \<notin> gt_id ` set (rd_gates db)
         \<or> (de_assignment d, de_gate d) \<notin> (\<lambda>a. (ga_id a, ga_gate a)) ` set (rd_gate_assignments db)
         \<or> de_gate d \<in> de_gate ` set (rd_decisions db)
      then Inl (ConstraintViolated ''decision'')
      else rbind (insert_row ''decision'' de_id decision_row_ok d (rd_decisions db))
        (\<lambda>rows. Inr (db\<lparr>rd_decisions := rows\<rparr>)))"

definition decision_by_gate_id :: "string \<Rightarrow> requirement_db \<Rightarrow> decision_row option" where
  "decision_by_gate_id i db = row_by de_gate i (rd_decisions db)"

subsection \<open>The outbox\<close>

definition insert_outbox :: "outbox_row \<Rightarrow> requirement_db \<Rightarrow> (requirement_error, requirement_db) res" where
  "insert_outbox m db =
     rbind (insert_row ''outbox_message'' ob_id outbox_row_ok m (rd_outbox db))
       (\<lambda>rows. Inr (db\<lparr>rd_outbox := rows\<rparr>))"

definition new_message ::
  "string \<Rightarrow> string \<Rightarrow> string \<Rightarrow> int \<Rightarrow> pyval \<Rightarrow> instant \<Rightarrow> outbox_row" where
  "new_message i topic aggregate version payload now = \<lparr>ob_id = i, ob_topic = topic,
     ob_aggregate_type = ''REQUIREMENT'', ob_aggregate = aggregate, ob_version = version,
     ob_payload = payload, ob_state = MSG_PENDING, ob_attempts = 0, ob_available_at = now,
     ob_created_at = now, ob_published_at = None, ob_error = None\<rparr>"

definition outbox_by_id :: "string \<Rightarrow> requirement_db \<Rightarrow> outbox_row option" where
  "outbox_by_id i db = row_by ob_id i (rd_outbox db)"

definition outbox_by_aggregate :: "string \<Rightarrow> int \<Rightarrow> requirement_db \<Rightarrow> outbox_row list" where
  "outbox_by_aggregate i version db = sort_key (\<lambda>m. (ob_created_at m, ob_id m))
     (filter (\<lambda>m. ob_aggregate m = i \<and> ob_version m = version) (rd_outbox db))"

definition write_outbox ::
  "string \<Rightarrow> (outbox_row \<Rightarrow> outbox_row) \<Rightarrow> requirement_db
   \<Rightarrow> (requirement_error, outbox_row option \<times> requirement_db) res" where
  "write_outbox i f db =
     rbind (update_row ''outbox_message'' ob_id outbox_row_ok i
         (\<lambda>m. ob_state m \<in> {MSG_PENDING, MSG_FAILED}) f (rd_outbox db))
       (\<lambda>(m, rows). Inr (m, db\<lparr>rd_outbox := rows\<rparr>))"

definition publish_outbox ::
  "string \<Rightarrow> instant \<Rightarrow> requirement_db \<Rightarrow> (requirement_error, outbox_row option \<times> requirement_db) res" where
  "publish_outbox i now =
     write_outbox i (\<lambda>m. m\<lparr>ob_state := MSG_PUBLISHED, ob_published_at := Some now, ob_error := None\<rparr>)"

definition release_outbox ::
  "string \<Rightarrow> string \<Rightarrow> instant \<Rightarrow> requirement_db
   \<Rightarrow> (requirement_error, outbox_row option \<times> requirement_db) res" where
  "release_outbox i error_code available_at =
     write_outbox i (\<lambda>m. m\<lparr>ob_state := MSG_FAILED, ob_error := Some error_code,
       ob_available_at := available_at, ob_published_at := None\<rparr>)"

text \<open>The candidates in the order of availability, at most \<open>limit\<close>; the leased rows come back in the
  order of the table.\<close>

definition claim_candidates :: "string \<Rightarrow> nat \<Rightarrow> instant \<Rightarrow> requirement_db \<Rightarrow> string list" where
  "claim_candidates topic limit available_before db =
     take limit (map ob_id (sort_key (\<lambda>m. (ob_available_at m, ob_id m))
       (filter (\<lambda>m. ob_topic m = topic \<and> ob_state m \<in> {MSG_PENDING, MSG_FAILED}
                  \<and> ob_available_at m \<le> available_before) (rd_outbox db))))"

definition leased_message :: "instant \<Rightarrow> outbox_row \<Rightarrow> outbox_row" where
  "leased_message lease_until m = m\<lparr>ob_attempts := ob_attempts m + 1, ob_available_at := lease_until\<rparr>"

definition claim_binding_requests ::
  "nat \<Rightarrow> instant \<Rightarrow> instant \<Rightarrow> requirement_db \<Rightarrow> (requirement_error, outbox_row list \<times> requirement_db) res" where
  "claim_binding_requests limit available_before lease_until db =
     (let chosen = claim_candidates ''requirement.repository-binding.requested'' limit available_before db;
          pick = (\<lambda>m. ob_id m \<in> set chosen)
      in if list_all (\<lambda>m. pick m \<longrightarrow> outbox_row_ok (leased_message lease_until m)) (rd_outbox db)
         then Inr (map (leased_message lease_until) (filter pick (rd_outbox db)),
                db\<lparr>rd_outbox := set_where pick (leased_message lease_until) (rd_outbox db)\<rparr>)
         else Inl (ConstraintViolated ''outbox_message''))"

subsection \<open>Idempotency keys\<close>

definition requirement_keys :: "(requirement_db, requirement_error) idem_repository" where
  "requirement_keys = table_repository rd_keys (\<lambda>rows db. db\<lparr>rd_keys := rows\<rparr>)
     (ConstraintViolated ''idempotency_record'')"

interpretation requirement_idempotency:
  idempotency_store requirement_keys "\<lambda>db. keys_inv (rd_keys db)" "\<lambda>fp. fp \<noteq> []"
  unfolding requirement_keys_def by (rule table_idempotency_store) simp_all

end
