(* ===== verification/Requirement_Planning.thy ===== *)
theory Requirement_Planning
  imports Requirement_Store
begin

section \<open>The requirement module: creating and planning\<close>

text \<open>
  \<^verbatim>\<open>requirement/application/common.py\<close>, the creation and repository binding commands of
  \<^verbatim>\<open>commands.py\<close>, \<^verbatim>\<open>planning.py\<close> and \<^verbatim>\<open>artifacts.py\<close>: the bodies that run inside a transaction,
  before the idempotency layer wraps them. The readings of the clock and of the id source are
  numbered by their place in a command; the route, assignment, artifact, gate policy and reviewer
  ports are parameters, each with the error it may raise. SHA-256 over canonical JSON and over UTF-8
  text are parameters too.
\<close>

record route_snapshot =
  rs_version :: int
  rs_hash :: string
  rs_capabilities :: "string list"
  rs_steps :: "string list"

record artifact_snapshot =
  as_id :: string
  as_version :: string
  as_sha256 :: string
  as_available :: bool
  as_trusted :: bool
  as_media_type :: string

record gate_policy_snapshot =
  gp_version :: int
  gp_reviewer :: string
  gp_code :: string
  gp_hash :: string

record requirement_env =
  rv_clock :: "nat \<Rightarrow> instant"
  rv_new_id :: "nat \<Rightarrow> string"
  rv_request :: "string option"
  rv_digest :: "pyval \<Rightarrow> string"
  rv_set_digest :: "string list \<Rightarrow> string"
  rv_text_digest :: "string \<Rightarrow> string"
  rv_uuid :: "string \<Rightarrow> string option"
  rv_route :: "requirement_type \<Rightarrow> (requirement_error, route_snapshot) res"
  rv_can_assign :: "string \<Rightarrow> string \<Rightarrow> string \<Rightarrow> string list \<Rightarrow> (requirement_error, bool) res"
  rv_can_auto_assign :: "string \<Rightarrow> string \<Rightarrow> string \<Rightarrow> string list \<Rightarrow> (requirement_error, bool) res"
  rv_artifacts :: "(string \<Rightarrow> string \<Rightarrow> string \<Rightarrow> (requirement_error, artifact_snapshot) res) option"
  rv_gate_policies :: "(string \<Rightarrow> (requirement_error, gate_policy_snapshot) res) option"
  rv_can_decide :: "(string \<Rightarrow> string \<Rightarrow> (requirement_error, bool) res) option"

text \<open>An actor carries an account id, an employee id, or neither.\<close>

type_synonym requirement_actor = "string option \<times> string option"

definition rq_actor_id :: "requirement_actor \<Rightarrow> (requirement_error, string) res" where
  "rq_actor_id actor = (case actor of
       (Some (c # cs), _) \<Rightarrow> Inr (c # cs)
     | (_, Some (c # cs)) \<Rightarrow> Inr (c # cs)
     | _ \<Rightarrow> Inl ActorWithoutIdentifier)"

definition validated_correlation_id :: "string \<Rightarrow> (requirement_error, string) res" where
  "validated_correlation_id value =
     (if strip value = [] then Inl (InvalidRequirementInput ''correlation ID is invalid'') else Inr value)"

text \<open>\<open>audit()\<close>: the \<open>c\<close>-th reading of the clock, the ids from the \<open>i\<close>-th on.\<close>

definition rq_audit ::
  "requirement_env \<Rightarrow> nat \<Rightarrow> nat \<Rightarrow> string \<Rightarrow> string \<Rightarrow> string \<Rightarrow> string \<Rightarrow> string \<Rightarrow> string option
   \<Rightarrow> requirement_db \<Rightarrow> (requirement_error, requirement_db) res" where
  "rq_audit env c i actor action target_type target_id reason correlation_id db =
     rbind (case correlation_id of
         None \<Rightarrow> Inr (case rv_request env of Some (x # xs) \<Rightarrow> x # xs | _ \<Rightarrow> rv_new_id env i)
       | Some v \<Rightarrow> validated_correlation_id v) (\<lambda>correlation.
       Inr (db\<lparr>rd_audit := record_in_transaction (rv_request env)
         \<lparr>ae_id = rv_new_id env (i + 1), ae_occurred_at = rv_clock env c, ae_actor = actor,
          ae_actor_type = (if actor = ''SYSTEM'' then ''SYSTEM'' else ''HUMAN''), ae_action = action,
          ae_target_type = target_type, ae_target_id = target_id, ae_result = ''SUCCESS'',
          ae_reason = Some reason, ae_correlation_id = correlation, ae_request_id = None,
          ae_schema_version = 1\<rparr> (rd_audit db)\<rparr>))"

text \<open>The frozen route of a requirement: its subject and its hash have to be the recorded ones.\<close>

definition json_get :: "string \<Rightarrow> pyval \<Rightarrow> pyval" where
  "json_get k v = (case v of PyDict kvs \<Rightarrow> (case map_of kvs k of None \<Rightarrow> PyNone | Some x \<Rightarrow> x) | _ \<Rightarrow> PyNone)"

definition validate_frozen_route_snapshot ::
  "requirement_env \<Rightarrow> requirement_row \<Rightarrow> (requirement_error, pyval) res" where
  "validate_frozen_route_snapshot env r =
     (case rq_route r of
        PyDict kvs \<Rightarrow>
          if json_get ''version'' (rq_route r) \<noteq> PyInt (rq_route_version r)
             \<or> json_get ''requirementType'' (rq_route r) \<noteq> PyStr (type_value (rq_type r))
          then Inl (RequirementDependencyUnavailable ''Frozen Route Snapshot subject is invalid'')
          else if rv_digest env (rq_route r) \<noteq> rq_route_hash r
          then Inl (RequirementDependencyUnavailable ''Frozen Route Snapshot hash is invalid'')
          else Inr (rq_route r)
      | _ \<Rightarrow> Inl (RequirementDependencyUnavailable ''Frozen Route Snapshot is invalid''))"

text \<open>A row that has to be there, and the row an optimistic write returns or not.\<close>

definition found :: "requirement_error \<Rightarrow> 'a option \<Rightarrow> (requirement_error, 'a) res" where
  "found e x = of_option e x"

definition written ::
  "requirement_error \<Rightarrow> (requirement_error, 'r option \<times> requirement_db) res
   \<Rightarrow> (requirement_error, 'r \<times> requirement_db) res" where
  "written e m = rbind m (\<lambda>(r, db). case r of None \<Rightarrow> Inl e | Some x \<Rightarrow> Inr (x, db))"

lemma written_Inr [res_simps]: "written e m = Inr (x, db) \<longleftrightarrow> m = Inr (Some x, db)"
  by (auto simp: written_def res_simps split: option.splits)

subsection \<open>create_requirement\<close>

definition required_work_item_set_hash :: "requirement_env \<Rightarrow> string list \<Rightarrow> string" where
  "required_work_item_set_hash env ids = rv_set_digest env (sort ids)"

definition acceptance_criteria_hash :: "requirement_env \<Rightarrow> string list \<Rightarrow> string" where
  "acceptance_criteria_hash env criteria =
     rv_digest env (PyDict [(''acceptanceCriteria'', PyList (map PyStr criteria))])"

definition frozen_route :: "requirement_type \<Rightarrow> route_snapshot \<Rightarrow> pyval" where
  "frozen_route t route = PyDict [(''requirementType'', PyStr (type_value t)),
     (''requiredCapabilities'', PyList (map PyStr (rs_capabilities route))),
     (''steps'', PyList (map PyStr (rs_steps route))), (''version'', PyInt (rs_version route))]"

definition new_requirement ::
  "requirement_env \<Rightarrow> string \<Rightarrow> requirement_type \<Rightarrow> string \<Rightarrow> string \<Rightarrow> string list \<Rightarrow> string
   \<Rightarrow> string \<Rightarrow> route_snapshot \<Rightarrow> requirement_row" where
  "new_requirement env workspace t title description criteria repository actor route =
     \<lparr>rq_id = rv_new_id env 0, rq_workspace_id = workspace, rq_type = t, rq_title = title,
      rq_description = description, rq_criteria = criteria, rq_criteria_version = 1,
      rq_criteria_hash = acceptance_criteria_hash env criteria, rq_created_by = actor,
      rq_initial_repository = repository, rq_route_version = rs_version route,
      rq_route_hash = rs_hash route, rq_route = frozen_route t route, rq_state = CREATED,
      rq_version = 1, rq_set_version = 1,
      rq_set_hash = required_work_item_set_hash env [rv_new_id env 1], rq_baseline = None,
      rq_revision = 1, rq_created_at = rv_clock env 0, rq_updated_at = rv_clock env 0\<rparr>"

definition new_work_item ::
  "string \<Rightarrow> string \<Rightarrow> string \<Rightarrow> bool \<Rightarrow> string list \<Rightarrow> string \<Rightarrow> instant \<Rightarrow> work_item_row" where
  "new_work_item i requirement actor assigned capabilities repository now =
     \<lparr>wi_id = i, wi_requirement = requirement, wi_created_by = actor,
      wi_owner = (if assigned then Some actor else None),
      wi_executor = (if assigned then Some actor else None), wi_capabilities = capabilities,
      wi_assignment = (if assigned then ASSIGNED else UNASSIGNED),
      wi_repository_state = WAITING_REPOSITORY, wi_state = ITEM_DRAFT, wi_repository = repository,
      wi_base_commit = None, wi_branch = None, wi_blocked_reason = None, wi_blocked_at = None,
      wi_integration = NOT_STARTED, wi_binding = None, wi_integration_reason = None,
      wi_integration_at = None, wi_revision = 1, wi_created_at = now, wi_updated_at = now\<rparr>"

definition self_assignment :: "string \<Rightarrow> string \<Rightarrow> string \<Rightarrow> instant \<Rightarrow> assignment_row" where
  "self_assignment i actor reason now = \<lparr>wa_id = i, wa_work_item = i, wa_assignee = actor,
     wa_assigned_by = actor, wa_reason = reason, wa_revision = 1, wa_assigned_at = now,
     wa_superseded_at = None\<rparr>"

definition insert_self_assignment ::
  "bool \<Rightarrow> string \<Rightarrow> string \<Rightarrow> string \<Rightarrow> instant \<Rightarrow> requirement_db
   \<Rightarrow> (requirement_error, assignment_row option \<times> requirement_db) res" where
  "insert_self_assignment assigned i actor reason now db =
     (if assigned
      then rbind (insert_work_item_assignment (self_assignment i actor reason now) db)
        (\<lambda>db'. Inr (Some (self_assignment i actor reason now), db'))
      else Inr (None, db))"

definition binding_topic :: string where
  "binding_topic = ''requirement.repository-binding.requested''"

definition binding_payload :: "string \<Rightarrow> string \<Rightarrow> pyval" where
  "binding_payload work_item repository =
     PyDict [(''workItemId'', PyStr work_item), (''repositoryId'', PyStr repository)]"

definition create_requirement_once ::
  "requirement_env \<Rightarrow> string \<Rightarrow> requirement_type \<Rightarrow> string \<Rightarrow> string \<Rightarrow> string list \<Rightarrow> string
   \<Rightarrow> requirement_actor \<Rightarrow> requirement_db
   \<Rightarrow> (requirement_error, (requirement_row \<times> work_item_row) \<times> requirement_db) res" where
  "create_requirement_once env workspace t title description criteria repository actor db =
     rbind (normalized_text title ''title'') (\<lambda>title'.
     rbind (normalized_text description ''description'') (\<lambda>description'.
     rbind (collect (\<lambda>v. normalized_text v ''acceptance criterion'') criteria) (\<lambda>criteria'.
     if criteria' = [] then Inl (InvalidRequirementInput ''acceptance criteria are required'')
     else
     rbind (rq_actor_id actor) (\<lambda>who.
     rbind (rv_route env t) (\<lambda>route.
     rbind (rv_can_auto_assign env who workspace repository (rs_capabilities route)) (\<lambda>assigned.
     let r = new_requirement env workspace t title' description' criteria' repository who route;
         now = rv_clock env 0;
         w = new_work_item (rv_new_id env 1) (rq_id r) who assigned (rs_capabilities route)
               repository now
     in
     rbind (insert_requirement r db) (\<lambda>db1.
     rbind (insert_work_item w db1) (\<lambda>db2.
     rbind (insert_self_assignment assigned (wi_id w) who ''V0.4_INITIAL_ASSIGNMENT'' now db2) (\<lambda>(_, db3).
     rbind (insert_outbox (new_message (rv_new_id env 2) binding_topic (rq_id r) 1
              (binding_payload (wi_id w) repository) now) db3) (\<lambda>db4.
     rbind (rq_audit env 1 3 who ''requirement.created'' ''REQUIREMENT'' (rq_id r)
              ''Requirement and initial binding request created; version=1'' None db4) (\<lambda>db5.
     rbind (rq_audit env 2 5 who ''requirement.work_item.initialized'' ''WORK_ITEM'' (wi_id w)
              (''assignment='' @ assignment_value (wi_assignment w) @ ''; repository=WAITING_REPOSITORY'')
              None db5) (\<lambda>db6.
       Inr ((r, w), db6)))))))))))))"

subsection \<open>Repository binding requests\<close>

record binding_request =
  br_message :: string
  br_requirement :: string
  br_version :: int
  br_work_item :: string
  br_repository :: string
  br_attempts :: int

definition payload_text :: "string \<Rightarrow> pyval \<Rightarrow> string option" where
  "payload_text k payload = (case json_get k payload of
       PyStr s \<Rightarrow> if strip s = [] then None else Some s | _ \<Rightarrow> None)"

definition binding_request_of :: "outbox_row \<Rightarrow> (requirement_error, binding_request) res" where
  "binding_request_of m =
     (case (ob_payload m, payload_text ''workItemId'' (ob_payload m), payload_text ''repositoryId'' (ob_payload m)) of
        (PyDict kvs, Some w, Some repository) \<Rightarrow>
          if ob_aggregate_type m \<noteq> ''REQUIREMENT'' \<or> set (map fst kvs) \<noteq> {''workItemId'', ''repositoryId''}
          then Inl (RepositoryBindingMessageInvalid (ob_id m))
          else Inr \<lparr>br_message = ob_id m, br_requirement = ob_aggregate m, br_version = ob_version m,
            br_work_item = w, br_repository = repository, br_attempts = ob_attempts m\<rparr>
      | _ \<Rightarrow> Inl (RepositoryBindingMessageInvalid (ob_id m)))"

definition claim_repository_binding_requests ::
  "nat \<Rightarrow> instant \<Rightarrow> instant \<Rightarrow> requirement_db
   \<Rightarrow> (requirement_error, binding_request list \<times> requirement_db) res" where
  "claim_repository_binding_requests limit available_before lease_until db =
     rbind (claim_binding_requests limit available_before lease_until db) (\<lambda>(rows, db').
     rbind (collect binding_request_of rows) (\<lambda>messages. Inr (messages, db')))"

definition binding_message ::
  "string \<Rightarrow> requirement_db \<Rightarrow> (requirement_error, outbox_row) res" where
  "binding_message i db =
     (case outbox_by_id i db of
        None \<Rightarrow> Inl (RepositoryBindingRequestMissing i)
      | Some m \<Rightarrow> if ob_topic m \<noteq> binding_topic then Inl (RepositoryBindingRequestMissing i) else Inr m)"

definition acknowledge_repository_binding_request ::
  "requirement_env \<Rightarrow> string \<Rightarrow> string \<Rightarrow> requirement_db
   \<Rightarrow> (requirement_error, requirement_row \<times> requirement_db) res" where
  "acknowledge_repository_binding_request env message_id consumer db =
     (if consumer \<noteq> ''SOURCE_CONTROL''
      then Inl (InvalidRequirementInput ''repository binding consumer is invalid'')
      else
      rbind (binding_message message_id db) (\<lambda>m.
      rbind (found (RequirementNotFound (ob_aggregate m)) (requirement_by_id (ob_aggregate m) db)) (\<lambda>r.
      rbind (if ob_state m \<noteq> MSG_PUBLISHED
             then rbind (written (RepositoryBindingRequestMissing message_id)
                    (publish_outbox message_id (rv_clock env 0) db)) (\<lambda>(_, db1). Inr db1)
             else Inr db) (\<lambda>db1.
      if rq_state r \<noteq> CREATED then Inr (r, db1)
      else
      rbind (written (StaleRequirementRevision (rq_id r))
              (update_requirement_state (rq_id r) (rq_revision r) PREPARING (rv_clock env 1) db1))
        (\<lambda>(updated, db2).
      rbind (rq_audit env 2 0 ''SYSTEM'' ''requirement.repository_binding.request_acknowledged''
               ''REQUIREMENT'' (rq_id r) (''consumer='' @ consumer @ ''; messageId='' @ message_id) None db2)
        (\<lambda>db3. Inr (updated, db3)))))))"

definition binding_release_error_codes :: "string list" where
  "binding_release_error_codes =
     [''BINDING_REQUEST_CONFLICT'', ''BINDING_REQUEST_INVALID'', ''SOURCE_CONTROL_UNAVAILABLE'']"

definition release_repository_binding_request ::
  "string \<Rightarrow> string \<Rightarrow> instant \<Rightarrow> requirement_db \<Rightarrow> (requirement_error, requirement_db) res" where
  "release_repository_binding_request message_id error_code available_at db =
     (if error_code \<notin> set binding_release_error_codes
      then Inl (InvalidRequirementInput ''repository binding release error code is invalid'')
      else
      rbind (binding_message message_id db) (\<lambda>m.
      if ob_state m = MSG_PUBLISHED then Inr db
      else rbind (written (RepositoryBindingRequestMissing message_id)
             (release_outbox message_id error_code available_at db)) (\<lambda>(_, db'). Inr db')))"

definition at_revision_requirement ::
  "string \<Rightarrow> int \<Rightarrow> requirement_db \<Rightarrow> (requirement_error, requirement_row) res" where
  "at_revision_requirement i expected db =
     rbind (found (RequirementNotFound i) (requirement_by_id i db)) (\<lambda>r.
     if rq_revision r \<noteq> expected then Inl (StaleRequirementRevision i) else Inr r)"

definition start_requirement_preparation_once ::
  "requirement_env \<Rightarrow> string \<Rightarrow> int \<Rightarrow> requirement_actor \<Rightarrow> requirement_db
   \<Rightarrow> (requirement_error, requirement_row \<times> requirement_db) res" where
  "start_requirement_preparation_once env i expected actor db =
     rbind (at_revision_requirement i expected db) (\<lambda>r.
     if \<not> list_ex (\<lambda>m. ob_topic m = binding_topic) (outbox_by_aggregate i (rq_version r) db)
     then Inl (RepositoryBindingRequestMissing i)
     else
     rbind (transition_requirement (rq_state r) PREPARING) (\<lambda>target.
     rbind (written (StaleRequirementRevision i)
              (update_requirement_state i expected target (rv_clock env 0) db)) (\<lambda>(updated, db1).
     rbind (rq_actor_id actor) (\<lambda>who.
     rbind (rq_audit env 1 0 who ''requirement.preparation.started'' ''REQUIREMENT'' i
              (''binding request durable; revision='' @ str_of_int (rq_revision updated)) None db1)
       (\<lambda>db2. Inr (updated, db2))))))"

subsection \<open>Recording a binding or its block\<close>

definition record_repository_binding_once ::
  "requirement_env \<Rightarrow> string \<Rightarrow> string \<Rightarrow> string \<Rightarrow> string \<Rightarrow> int \<Rightarrow> requirement_actor \<Rightarrow> string
   \<Rightarrow> requirement_db \<Rightarrow> (requirement_error, work_item_row \<times> requirement_db) res" where
  "record_repository_binding_once env i repository base_commit branch expected actor correlation_id db =
     rbind (found (WorkItemNotFound i) (work_item_by_id i db)) (\<lambda>w.
     if wi_repository w \<noteq> repository
     then Inl (RepositoryBindingConflict ''Repository binding targets a different repository'')
     else
     rbind (normalized_text base_commit ''base commit SHA'') (\<lambda>sha.
     rbind (normalized_text branch ''task branch'') (\<lambda>branch'.
     if wi_repository_state w = BOUND
     then if wi_base_commit w = Some sha \<and> wi_branch w = Some branch' then Inr (w, db)
          else Inl (RepositoryBindingConflict ''WorkItem already has a different repository binding'')
     else if wi_revision w \<noteq> expected then Inl (StaleWorkItemRevision i)
     else
     rbind (found (RequirementNotFound (wi_requirement w)) (requirement_by_id (wi_requirement w) db)) (\<lambda>r.
     rbind (written (StaleWorkItemRevision i)
              (bind_work_item i expected sha branch'
                 (derive_work_item_state (rq_state r) (wi_assignment w) BOUND) (rv_clock env 0) db))
       (\<lambda>(updated, db1).
     rbind (rq_actor_id actor) (\<lambda>who.
     rbind (rq_audit env 1 0 who ''requirement.repository_binding.recorded'' ''WORK_ITEM'' i
              (''repository='' @ repository @ ''; revision='' @ str_of_int (wi_revision updated))
              (Some correlation_id) db1) (\<lambda>db2. Inr (updated, db2))))))))"

definition record_repository_binding_blocked_once ::
  "requirement_env \<Rightarrow> string \<Rightarrow> string \<Rightarrow> binding_blocked_reason \<Rightarrow> int \<Rightarrow> requirement_actor \<Rightarrow> string
   \<Rightarrow> requirement_db \<Rightarrow> (requirement_error, work_item_row \<times> requirement_db) res" where
  "record_repository_binding_blocked_once env i repository reason expected actor correlation_id db =
     rbind (found (WorkItemNotFound i) (work_item_by_id i db)) (\<lambda>w.
     if wi_repository w \<noteq> repository
     then Inl (RepositoryBindingConflict ''Repository block targets a different repository'')
     else if wi_repository_state w = BOUND
     then Inl (RepositoryBindingConflict ''A bound WorkItem cannot become repository-blocked'')
     else if wi_repository_state w = BLOCKED \<and> wi_blocked_reason w = Some reason then Inr (w, db)
     else if wi_revision w \<noteq> expected then Inl (StaleWorkItemRevision i)
     else
     rbind (written (StaleWorkItemRevision i)
              (block_work_item i expected reason (rv_clock env 0) db)) (\<lambda>(updated, db1).
     rbind (rq_actor_id actor) (\<lambda>who.
     rbind (rq_audit env 1 0 who ''requirement.repository_binding.blocked'' ''WORK_ITEM'' i
              (''repository='' @ repository @ ''; reasonCode='' @ blocked_reason_value reason
                @ ''; revision='' @ str_of_int (wi_revision updated)) (Some correlation_id) db1)
       (\<lambda>db2. Inr (updated, db2)))))"

subsection \<open>add_work_item and assign_work_item\<close>

fun text_list :: "pyval list \<Rightarrow> string list option" where
  "text_list [] = Some []"
| "text_list (PyStr s # vs) = (if strip s = [] then None else map_option ((#) s) (text_list vs))"
| "text_list (_ # vs) = None"

definition route_capabilities ::
  "requirement_env \<Rightarrow> requirement_row \<Rightarrow> (requirement_error, string list) res" where
  "route_capabilities env r =
     rbind (validate_frozen_route_snapshot env r) (\<lambda>route.
       case json_get ''requiredCapabilities'' route of
         PyList (v # vs) \<Rightarrow> of_option (RequirementDependencyUnavailable ''Frozen Route Snapshot is invalid'')
             (text_list (v # vs))
       | _ \<Rightarrow> Inl (RequirementDependencyUnavailable ''Frozen Route Snapshot is invalid''))"

definition add_work_item_once ::
  "requirement_env \<Rightarrow> string \<Rightarrow> string \<Rightarrow> int \<Rightarrow> requirement_actor \<Rightarrow> requirement_db
   \<Rightarrow> (requirement_error, (requirement_row \<times> work_item_row \<times> assignment_row option) \<times> requirement_db) res" where
  "add_work_item_once env i repository expected actor db =
     rbind (at_revision_requirement i expected db) (\<lambda>r.
     if rq_state r \<noteq> PREPARING
     then Inl (WorkItemAssignmentConflict ''WorkItems can only be added while preparing'')
     else
     rbind (normalized_text repository ''repository ID'') (\<lambda>repository'.
     rbind (rq_actor_id actor) (\<lambda>who.
     rbind (route_capabilities env r) (\<lambda>capabilities.
     let assigned = (case rv_can_auto_assign env who (rq_workspace_id r) repository' capabilities of
           Inl _ \<Rightarrow> False | Inr b \<Rightarrow> b);
         now = rv_clock env 0;
         w = new_work_item (rv_new_id env 0) i who assigned capabilities repository' now
     in
     rbind (insert_work_item w db) (\<lambda>db1.
     rbind (insert_self_assignment assigned (wi_id w) who ''V0.4_AUTO_ASSIGNMENT'' now db1)
       (\<lambda>(assignment, db2).
     rbind (written (StaleRequirementRevision i)
              (update_requirement_plan i expected
                 (required_work_item_set_hash env (map wi_id (work_items i db2))) now db2))
       (\<lambda>(updated, db3).
     rbind (insert_outbox (new_message (rv_new_id env 1) binding_topic i (rq_version updated)
              (binding_payload (wi_id w) repository') now) db3) (\<lambda>db4.
     rbind (rq_audit env 1 2 who ''requirement.work_item.added'' ''WORK_ITEM'' (wi_id w)
              (''assignment='' @ assignment_value (wi_assignment w) @ ''; requiredWorkItemSetVersion=''
                @ str_of_int (rq_set_version updated)) None db4)
       (\<lambda>db5. Inr ((updated, w, assignment), db5))))))))))"

definition owner_binding_blocks :: "binding_blocked_reason list" where
  "owner_binding_blocks = [OWNER_UNASSIGNED, OWNER_INELIGIBLE]"

definition owner_blocked :: "work_item_row \<Rightarrow> bool" where
  "owner_blocked w = (case wi_blocked_reason w of None \<Rightarrow> False | Some b \<Rightarrow> b \<in> set owner_binding_blocks)"

definition superseded_current ::
  "string \<Rightarrow> assignment_row option \<Rightarrow> instant \<Rightarrow> requirement_db \<Rightarrow> (requirement_error, requirement_db) res" where
  "superseded_current i current now db =
     (case current of None \<Rightarrow> Inr db
      | Some a \<Rightarrow> rbind (written (StaleWorkItemRevision i)
            (supersede_work_item_assignment (wa_id a) (wa_revision a) now db)) (\<lambda>(_, db'). Inr db'))"

definition assign_work_item_once ::
  "requirement_env \<Rightarrow> string \<Rightarrow> string \<Rightarrow> string \<Rightarrow> string \<Rightarrow> int \<Rightarrow> requirement_actor \<Rightarrow> requirement_db
   \<Rightarrow> (requirement_error, (work_item_row \<times> assignment_row) \<times> requirement_db) res" where
  "assign_work_item_once env i item owner reason expected actor db =
     rbind (found (RequirementNotFound i) (requirement_by_id i db)) (\<lambda>r.
     if rq_state r \<noteq> PREPARING
     then Inl (WorkItemAssignmentConflict ''WorkItems can only be assigned while preparing'')
     else case work_item_by_id item db of None \<Rightarrow> Inl (WorkItemNotFound item) | Some w \<Rightarrow>
     if wi_requirement w \<noteq> i then Inl (WorkItemNotFound item)
     else if wi_revision w \<noteq> expected then Inl (StaleWorkItemRevision item)
     else if wi_integration w \<noteq> NOT_STARTED
     then Inl (WorkItemAssignmentConflict ''Started WorkItem responsibility is immutable'')
     else
     rbind (rq_actor_id actor) (\<lambda>who.
     rbind (normalized_text owner ''human owner ID'') (\<lambda>candidate.
     rbind (normalized_text reason ''assignment reason'') (\<lambda>why.
     case rv_can_assign env candidate (rq_workspace_id r) (wi_repository w) (wi_capabilities w) of
       Inl _ \<Rightarrow> Inl (RequirementDependencyUnavailable ''Assignment eligibility failed closed'')
     | Inr eligible \<Rightarrow>
     if \<not> eligible then Inl (WorkItemAssigneeIneligible candidate)
     else
     let current = current_work_item_assignment item db;
         revision = (case current of None \<Rightarrow> 1 | Some a \<Rightarrow> wa_revision a + 1);
         blocked = owner_blocked w;
         now = rv_clock env 0
     in
     if map_option wa_assignee current = Some candidate
     then Inl (WorkItemAssignmentConflict ''Candidate is already the current assignee'')
     else
     rbind (superseded_current item current now db) (\<lambda>db1.
     rbind (written (StaleWorkItemRevision item)
              (assign_work_item_projection item expected candidate
                 (if blocked then WAITING_REPOSITORY else wi_repository_state w)
                 (if blocked then None else wi_blocked_reason w)
                 (if blocked then None else wi_blocked_at w) now db1)) (\<lambda>(updated, db2).
     let a = \<lparr>wa_id = rv_new_id env 0, wa_work_item = item, wa_assignee = candidate,
           wa_assigned_by = who, wa_reason = why, wa_revision = revision, wa_assigned_at = now,
           wa_superseded_at = None\<rparr>
     in
     rbind (insert_work_item_assignment a db2) (\<lambda>db3.
     rbind (if wi_repository_state w \<noteq> BOUND \<and> (wi_assignment w = UNASSIGNED \<or> blocked)
            then insert_outbox (new_message (rv_new_id env 1) binding_topic i (rq_version r)
                   (binding_payload item (wi_repository w)) now) db3
            else Inr db3) (\<lambda>db4.
     rbind (rq_audit env 1 2 who ''requirement.work_item.assigned'' ''WORK_ITEM'' item
              (''assignee='' @ candidate @ ''; assignmentRevision='' @ str_of_int revision
                @ ''; workItemRevision='' @ str_of_int (wi_revision updated)) None db4)
       (\<lambda>db5. Inr ((updated, a), db5))))))))))"

subsection \<open>create_sdd_artifact\<close>

text \<open>\<open>content.replace("\r\n", "\n").replace("\r", "\n")\<close>.\<close>

fun unix_lines :: "string \<Rightarrow> string" where
  "unix_lines [] = []"
| "unix_lines (c # d # cs) =
     (if c = CHR 0x0D \<and> d = CHR 0x0A then CHR 0x0A # unix_lines cs
      else (if c = CHR 0x0D then CHR 0x0A else c) # unix_lines (d # cs))"
| "unix_lines [c] = [if c = CHR 0x0D then CHR 0x0A else c]"

definition normalize_sdd_markdown :: "string \<Rightarrow> (requirement_error, string) res" where
  "normalize_sdd_markdown content =
     (let normalized = unix_lines content
      in if strip normalized = [] then Inl (InvalidRequirementInput ''SDD Markdown content is required'')
         else if 200000 < utf8_length normalized
         then Inl (InvalidRequirementInput ''SDD Markdown content exceeds 200000 bytes'')
         else Inr normalized)"

definition artifact_position ::
  "requirement_env \<Rightarrow> string \<Rightarrow> string option \<Rightarrow> requirement_db \<Rightarrow> (requirement_error, string \<times> int) res" where
  "artifact_position env i artifact_id db =
     (case artifact_id of
        None \<Rightarrow> Inr (rv_new_id env 0, 1)
      | Some raw \<Rightarrow>
          rbind (of_option (InvalidRequirementInput ''artifact ID is invalid'') (rv_uuid env raw)) (\<lambda>stable.
            case latest_sdd_artifact_version i stable db of
              None \<Rightarrow> Inl (SddArtifactNotFound stable)
            | Some latest \<Rightarrow> Inr (stable, sa_version latest + 1)))"

definition create_sdd_artifact_once ::
  "requirement_env \<Rightarrow> string \<Rightarrow> string option \<Rightarrow> string \<Rightarrow> int \<Rightarrow> requirement_actor \<Rightarrow> requirement_db
   \<Rightarrow> (requirement_error, (requirement_row \<times> artifact_row) \<times> requirement_db) res" where
  "create_sdd_artifact_once env i artifact_id content expected actor db =
     rbind (at_revision_requirement i expected db) (\<lambda>r.
     if rq_state r \<noteq> PREPARING
     then Inl (StaleBaselineSubject ''Requirement is not preparing an SDD Artifact'')
     else
     rbind (normalize_sdd_markdown content) (\<lambda>normalized.
     rbind (rq_actor_id actor) (\<lambda>who.
     rbind (artifact_position env i artifact_id db) (\<lambda>(stable, version).
     let now = rv_clock env 0; digest = rv_text_digest env normalized;
         a = \<lparr>sa_id = stable, sa_version = version, sa_requirement = i, sa_sha256 = digest,
           sa_content = normalized, sa_created_by = who, sa_created_at = now\<rparr>
     in
     rbind (insert_sdd_artifact_version a db) (\<lambda>db1.
     rbind (written (StaleRequirementRevision i) (update_requirement_state i expected PREPARING now db1))
       (\<lambda>(updated, db2).
     rbind (rq_audit env 1 1 who ''requirement.sdd_artifact.created'' ''SDD_ARTIFACT_VERSION''
              (stable @ ''@'' @ str_of_int version)
              (''sha256='' @ digest @ ''; requirementRevision='' @ str_of_int (rq_revision updated))
              None db2) (\<lambda>db3. Inr ((updated, a), db3))))))))"

definition get_sdd_artifact ::
  "requirement_env \<Rightarrow> string \<Rightarrow> string \<Rightarrow> int \<Rightarrow> requirement_db \<Rightarrow> (requirement_error, artifact_row) res" where
  "get_sdd_artifact env i artifact_id version db =
     rbind (found (RequirementNotFound i) (requirement_by_id i db)) (\<lambda>_.
     rbind (of_option (InvalidRequirementInput ''artifact ID is invalid'') (rv_uuid env artifact_id)) (\<lambda>stable.
     found (SddArtifactNotFound (artifact_id @ ''@'' @ str_of_int version))
       (sdd_artifact_version i stable version db)))"

end
