(* ===== verification/Requirement_Gates.thy ===== *)
theory Requirement_Gates
  imports Requirement_Planning
begin

section \<open>The requirement module: baselines, gates and starting work\<close>

text \<open>
  The rest of \<^verbatim>\<open>requirement/application/commands.py\<close> (registering an SDD baseline, submitting it to
  its gate, reassigning the gate's reviewer, deciding) and the bodies of \<^verbatim>\<open>application/delivery.py\<close>
  (starting a work item, requesting its integration merge request and merge).
\<close>

text \<open>An optional port that fails closed: its own denials pass, any other failure is a denial.\<close>

definition guarded_port ::
  "string \<Rightarrow> string \<Rightarrow> (requirement_error, 'a) res option \<Rightarrow> (requirement_error, 'a) res" where
  "guarded_port missing failed answer_of_port =
     (case answer_of_port of
        None \<Rightarrow> Inl (RequirementDependencyUnavailable missing)
      | Some (Inr x) \<Rightarrow> Inr x
      | Some (Inl e) \<Rightarrow>
          if error_name e \<noteq> None then Inl e else Inl (RequirementDependencyUnavailable failed))"

lemma guarded_port_Inr [res_simps]: "guarded_port m f p = Inr x \<longleftrightarrow> p = Some (Inr x)"
  by (auto simp: guarded_port_def split: option.splits sum.splits)

subsection \<open>register_sdd_baseline\<close>

definition checked_artifact ::
  "requirement_env \<Rightarrow> string \<Rightarrow> string \<Rightarrow> string \<Rightarrow> (requirement_error, artifact_snapshot) res" where
  "checked_artifact env i artifact version =
     (if rv_artifacts env = None
      then Inl (RequirementDependencyUnavailable ''Artifact service is unavailable'')
      else
      rbind (normalized_text artifact ''artifact id'') (\<lambda>artifact'.
      rbind (normalized_text version ''artifact version'') (\<lambda>version'.
      rbind (guarded_port ''Artifact service is unavailable'' ''Artifact service failed closed''
               (map_option (\<lambda>f. f i artifact' version') (rv_artifacts env))) (\<lambda>s.
        if \<not> as_available s \<or> \<not> as_trusted s \<or> as_media_type s \<noteq> ''text/markdown; charset=utf-8''
           \<or> as_id s \<noteq> artifact' \<or> as_version s \<noteq> version' \<or> \<not> is_canonical_sha256 (as_sha256 s)
        then Inl (ArtifactUnavailable artifact')
        else Inr s))))"

definition new_baseline ::
  "string \<Rightarrow> requirement_row \<Rightarrow> artifact_snapshot \<Rightarrow> string \<Rightarrow> instant \<Rightarrow> baseline_row" where
  "new_baseline i r s who now = \<lparr>sb_id = i, sb_requirement = rq_id r,
     sb_requirement_version = rq_version r, sb_artifact = as_id s, sb_artifact_version = as_version s,
     sb_artifact_hash = as_sha256 s, sb_route_version = rq_route_version r,
     sb_route_hash = rq_route_hash r, sb_created_by = who, sb_created_at = now\<rparr>"

definition register_sdd_baseline_once ::
  "requirement_env \<Rightarrow> string \<Rightarrow> string \<Rightarrow> string \<Rightarrow> int \<Rightarrow> requirement_actor \<Rightarrow> requirement_db
   \<Rightarrow> (requirement_error, (requirement_row \<times> baseline_row) \<times> requirement_db) res" where
  "register_sdd_baseline_once env i artifact version expected actor db =
     rbind (at_revision_requirement i expected db) (\<lambda>r.
     if rq_state r \<noteq> PREPARING
     then Inl (StaleBaselineSubject ''Requirement is not preparing an SDD baseline'')
     else
     rbind (validate_frozen_route_snapshot env r) (\<lambda>_.
     rbind (checked_artifact env i artifact version) (\<lambda>s.
     case sdd_baseline_by_artifact i (as_id s) (as_version s) db of
       Some existing \<Rightarrow>
         if sb_artifact_hash existing \<noteq> as_sha256 s
         then Inl (ArtifactUnavailable ''Artifact identity is not immutable'')
         else if rq_baseline r \<noteq> Some (sb_id existing) \<or> gate_by_baseline_id (sb_id existing) db \<noteq> None
         then Inl (StaleBaselineSubject ''A used Artifact version cannot become current again'')
         else Inr ((r, existing), db)
     | None \<Rightarrow>
         rbind (rq_actor_id actor) (\<lambda>who.
         let b = new_baseline (rv_new_id env 0) r s who (rv_clock env 0) in
         rbind (insert_sdd_baseline b db) (\<lambda>db1.
         rbind (written (StaleRequirementRevision i)
                  (set_current_sdd_baseline i (sb_id b) expected (rv_clock env 1) db1)) (\<lambda>(updated, db2).
         rbind (rq_audit env 2 1 who ''requirement.sdd_baseline.registered'' ''SDD_BASELINE'' (sb_id b)
                  (''requirementVersion='' @ str_of_int (rq_version r) @ ''; artifact='' @ as_id s @ ''@''
                    @ as_version s @ ''; revision='' @ str_of_int (rq_revision updated)) None db2)
           (\<lambda>db3. Inr ((updated, b), db3))))))))"

subsection \<open>submit_baseline_confirmation\<close>

definition checked_policy ::
  "requirement_env \<Rightarrow> string \<Rightarrow> (requirement_error, gate_policy_snapshot) res" where
  "checked_policy env workspace =
     rbind (guarded_port ''Gate policy service is unavailable'' ''Gate policy service failed closed''
              (map_option (\<lambda>f. f workspace) (rv_gate_policies env))) (\<lambda>p.
       if gp_version p < 1 \<or> strip (gp_reviewer p) = [] \<or> strip (gp_code p) = []
          \<or> \<not> is_canonical_sha256 (gp_hash p)
       then Inl (RequirementDependencyUnavailable ''Gate policy snapshot is invalid'')
       else Inr p)"

definition new_gate :: "string \<Rightarrow> baseline_row \<Rightarrow> gate_policy_snapshot \<Rightarrow> instant \<Rightarrow> gate_row" where
  "new_gate i b p now = \<lparr>gt_id = i, gt_requirement = sb_requirement b,
     gt_requirement_version = sb_requirement_version b, gt_baseline = sb_id b,
     gt_artifact = sb_artifact b, gt_artifact_version = sb_artifact_version b,
     gt_artifact_hash = sb_artifact_hash b, gt_route_version = sb_route_version b,
     gt_route_hash = sb_route_hash b, gt_policy_code = gp_code p, gt_policy_version = gp_version p,
     gt_policy_hash = gp_hash p, gt_state = GATE_OPEN, gt_revision = 1, gt_created_at = now,
     gt_decided_at = None\<rparr>"

definition baseline_current :: "requirement_row \<Rightarrow> baseline_row \<Rightarrow> bool" where
  "baseline_current r b \<longleftrightarrow> sb_requirement b = rq_id r \<and> sb_requirement_version b = rq_version r
     \<and> sb_route_version b = rq_route_version r \<and> sb_route_hash b = rq_route_hash r"

definition submit_baseline_confirmation_once ::
  "requirement_env \<Rightarrow> string \<Rightarrow> string \<Rightarrow> int \<Rightarrow> requirement_actor \<Rightarrow> requirement_db
   \<Rightarrow> (requirement_error, (requirement_row \<times> gate_row \<times> gate_assignment_row) \<times> requirement_db) res" where
  "submit_baseline_confirmation_once env i baseline expected actor db =
     rbind (at_revision_requirement i expected db) (\<lambda>r.
     rbind (found (SddBaselineNotFound baseline) (sdd_baseline_by_id baseline db)) (\<lambda>b.
     if rq_baseline r \<noteq> Some baseline
     then Inl (StaleBaselineSubject ''Only the current SDD baseline can be submitted'')
     else if \<not> baseline_current r b then Inl (StaleBaselineSubject baseline)
     else if gate_by_baseline_id baseline db \<noteq> None
     then Inl (StaleBaselineSubject ''An SDD baseline cannot be submitted twice'')
     else
     rbind (transition_requirement (rq_state r) AWAITING_CONFIRMATION) (\<lambda>target.
     rbind (checked_policy env (rq_workspace_id r)) (\<lambda>p.
     let now = rv_clock env 0; g = new_gate (rv_new_id env 0) b p now;
         a = \<lparr>ga_id = rv_new_id env 1, ga_gate = gt_id g, ga_default = gp_reviewer p,
           ga_current = gp_reviewer p, ga_revision = 1, ga_assigned_at = now, ga_superseded_at = None\<rparr>
     in
     rbind (insert_gate g db) (\<lambda>db1.
     rbind (insert_gate_assignment a db1) (\<lambda>db2.
     rbind (written (StaleRequirementRevision i) (update_requirement_state i expected target now db2))
       (\<lambda>(updated, db3).
     rbind (rq_actor_id actor) (\<lambda>who.
     rbind (rq_audit env 1 2 who ''requirement.baseline_confirmation.submitted'' ''GATE_INSTANCE'' (gt_id g)
              (''policyVersion='' @ str_of_int (gp_version p) @ ''; reviewer='' @ gp_reviewer p
                @ ''; requirementRevision='' @ str_of_int (rq_revision updated)) None db3)
       (\<lambda>db4. Inr ((updated, g, a), db4))))))))))"

subsection \<open>reassign_baseline_gate\<close>

text \<open>The gate of a requirement, however it is asked for.\<close>

definition gate_of ::
  "string \<Rightarrow> string \<Rightarrow> requirement_db \<Rightarrow> (requirement_error, gate_row) res" where
  "gate_of i gate db =
     (case gate_by_id gate db of
        None \<Rightarrow> Inl (GateNotFound gate)
      | Some g \<Rightarrow> if gt_requirement g \<noteq> i then Inl (GateNotFound gate) else Inr g)"

definition reviewer_eligible ::
  "requirement_env \<Rightarrow> string \<Rightarrow> requirement_row \<Rightarrow> (requirement_error, unit) res" where
  "reviewer_eligible env who r =
     rbind (guarded_port ''Reviewer eligibility service is unavailable'' ''Reviewer guard failed closed''
              (map_option (\<lambda>f. f who (rq_workspace_id r)) (rv_can_decide env))) (\<lambda>eligible.
       if \<not> eligible then Inl (GateReviewerIneligible who) else Inr ())"

definition reassign_baseline_gate_once ::
  "requirement_env \<Rightarrow> string \<Rightarrow> string \<Rightarrow> string \<Rightarrow> string \<Rightarrow> int \<Rightarrow> requirement_actor \<Rightarrow> requirement_db
   \<Rightarrow> (requirement_error, (gate_row \<times> gate_assignment_row) \<times> requirement_db) res" where
  "reassign_baseline_gate_once env i gate reviewer reason expected actor db =
     rbind (found (RequirementNotFound i) (requirement_by_id i db)) (\<lambda>r.
     rbind (gate_of i gate db) (\<lambda>g.
     if gt_revision g \<noteq> expected then Inl (StaleGateRevision gate)
     else if gt_state g \<noteq> GATE_OPEN then Inl (GateAlreadyDecided gate)
     else
     rbind (validate_frozen_route_snapshot env r) (\<lambda>_.
     rbind (found (RequirementDependencyUnavailable ''Gate has no current reviewer assignment'')
              (current_gate_assignment gate db)) (\<lambda>current.
     rbind (rq_actor_id actor) (\<lambda>who.
     if ga_default current \<noteq> who then Inl (GateReviewerMismatch who)
     else
     rbind (normalized_text reviewer ''reviewer id'') (\<lambda>candidate.
     rbind (normalized_text reason ''reassignment reason'') (\<lambda>why.
     if ga_current current = candidate
     then Inl (GateAssignmentConflict ''Candidate is already the current reviewer'')
     else
     rbind (reviewer_eligible env candidate r) (\<lambda>_.
     let now = rv_clock env 0;
         a = \<lparr>ga_id = rv_new_id env 0, ga_gate = gate, ga_default = ga_default current,
           ga_current = candidate, ga_revision = ga_revision current + 1, ga_assigned_at = now,
           ga_superseded_at = None\<rparr>
     in
     rbind (written (StaleGateRevision gate)
              (supersede_gate_assignment (ga_id current) (ga_revision current) now db)) (\<lambda>(_, db1).
     rbind (insert_gate_assignment a db1) (\<lambda>db2.
     rbind (written (StaleGateRevision gate) (reassign_gate gate expected db2)) (\<lambda>(updated, db3).
     rbind (rq_audit env 1 1 who ''requirement.baseline_gate.reassigned'' ''GATE_INSTANCE'' gate
              (''reviewer='' @ candidate @ ''; assignmentRevision='' @ str_of_int (ga_revision a)
                @ ''; gateRevision='' @ str_of_int (gt_revision updated) @ ''; reason='' @ why) None db3)
       (\<lambda>db4. Inr ((updated, a), db4)))))))))))))"

subsection \<open>decide_baseline\<close>

definition decision_target :: "decision_outcome \<Rightarrow> requirement_state" where
  "decision_target d = (case d of APPROVED \<Rightarrow> READY | CHANGES_REQUESTED \<Rightarrow> PREPARING | REJECTED \<Rightarrow> CANCELED)"

definition gate_subject_current :: "requirement_row \<Rightarrow> gate_row \<Rightarrow> baseline_row option \<Rightarrow> bool" where
  "gate_subject_current r g baseline \<longleftrightarrow>
     rq_baseline r = Some (gt_baseline g)
     \<and> (case baseline of None \<Rightarrow> False
        | Some b \<Rightarrow> sb_id b = gt_baseline g \<and> sb_requirement b = rq_id r
            \<and> sb_requirement_version b = gt_requirement_version g \<and> sb_artifact b = gt_artifact g
            \<and> sb_artifact_version b = gt_artifact_version g \<and> sb_artifact_hash b = gt_artifact_hash g
            \<and> sb_route_version b = gt_route_version g \<and> sb_route_hash b = gt_route_hash g)
     \<and> gt_requirement_version g = rq_version r \<and> gt_route_version g = rq_route_version r
     \<and> gt_route_hash g = rq_route_hash r"

definition decide_baseline_once ::
  "requirement_env \<Rightarrow> string \<Rightarrow> string \<Rightarrow> decision_outcome \<Rightarrow> string \<Rightarrow> int \<Rightarrow> requirement_actor
   \<Rightarrow> requirement_db
   \<Rightarrow> (requirement_error, (requirement_row \<times> gate_row \<times> decision_row) \<times> requirement_db) res" where
  "decide_baseline_once env i gate outcome reason expected actor db =
     rbind (at_revision_requirement i expected db) (\<lambda>r.
     rbind (gate_of i gate db) (\<lambda>g.
     if gt_state g \<noteq> GATE_OPEN then Inl (GateAlreadyDecided gate)
     else if (case validate_frozen_route_snapshot env r of Inl _ \<Rightarrow> True | Inr _ \<Rightarrow> False)
     then Inl (StaleBaselineSubject gate)
     else if \<not> gate_subject_current r g (sdd_baseline_by_id (gt_baseline g) db)
     then Inl (StaleBaselineSubject gate)
     else
     rbind (found (RequirementDependencyUnavailable ''Gate has no current reviewer assignment'')
              (current_gate_assignment gate db)) (\<lambda>a.
     rbind (rq_actor_id actor) (\<lambda>who.
     if ga_current a \<noteq> who then Inl (GateReviewerMismatch who)
     else
     rbind (reviewer_eligible env who r) (\<lambda>_.
     rbind (normalized_text reason ''decision reason'') (\<lambda>why.
     rbind (transition_requirement (rq_state r) (decision_target outcome)) (\<lambda>target.
     let now = rv_clock env 0;
         d = \<lparr>de_id = rv_new_id env 0, de_gate = gate, de_assignment = ga_id a, de_reviewer = who,
           de_outcome = outcome, de_reason = why, de_subject_revision = gt_revision g,
           de_decided_at = now\<rparr>
     in
     rbind (insert_decision d db) (\<lambda>db1.
     rbind (written (GateAlreadyDecided gate) (close_gate gate (gt_revision g) now db1)) (\<lambda>(closed, db2).
     rbind (written (StaleRequirementRevision i) (update_requirement_state i expected target now db2))
       (\<lambda>(updated, db3).
     rbind (reconcile_planned_work_item_states i target now db3) (\<lambda>db4.
     rbind (rq_audit env 1 1 who ''requirement.baseline_confirmation.decided'' ''GATE_INSTANCE'' gate
              (''outcome='' @ outcome_value outcome @ ''; assignmentRevision='' @ str_of_int (ga_revision a)
                @ ''; requirementRevision='' @ str_of_int (rq_revision updated)) None db4)
       (\<lambda>db5. Inr ((updated, closed, d), db5)))))))))))))"

subsection \<open>Starting a work item and requesting its integration\<close>

definition locked_subject ::
  "string \<Rightarrow> string \<Rightarrow> requirement_db \<Rightarrow> (requirement_error, requirement_row \<times> work_item_row) res" where
  "locked_subject i item db =
     rbind (found (RequirementNotFound i) (requirement_by_id i db)) (\<lambda>r.
     case work_item_by_id item db of
       None \<Rightarrow> Inl (WorkItemNotFound item)
     | Some w \<Rightarrow> if wi_requirement w \<noteq> i then Inl (WorkItemNotFound item) else Inr (r, w))"

definition validate_human_subject ::
  "work_item_row \<Rightarrow> string \<Rightarrow> bool \<Rightarrow> (requirement_error, unit) res" where
  "validate_human_subject w who owner_required =
     (if wi_assignment w \<noteq> ASSIGNED \<or> wi_owner w = None \<or> wi_owner w = Some []
      then Inl (WorkItemActorDenied ''WorkItem has no eligible human owner'')
      else if owner_required \<and> wi_owner w \<noteq> Some who
      then Inl (WorkItemActorDenied ''Actor is not the current WorkItem owner'')
      else if wi_repository_state w \<noteq> BOUND
      then Inl (WorkItemDeliveryConflict ''WorkItem repository is not bound'')
      else Inr ())"

definition update_delivery ::
  "work_item_row \<Rightarrow> work_item_state \<Rightarrow> integration_state \<Rightarrow> string option \<Rightarrow> instant \<Rightarrow> requirement_db
   \<Rightarrow> (requirement_error, work_item_row \<times> requirement_db) res" where
  "update_delivery w state delivery binding_id now db =
     written (StaleWorkItemRevision (wi_id w))
       (update_work_item_delivery (wi_id w) (wi_revision w) state delivery binding_id None now db)"

definition update_requirement ::
  "requirement_row \<Rightarrow> requirement_state \<Rightarrow> instant \<Rightarrow> requirement_db
   \<Rightarrow> (requirement_error, requirement_row \<times> requirement_db) res" where
  "update_requirement r state now db =
     written (StaleRequirementRevision (rq_id r))
       (update_requirement_state (rq_id r) (rq_revision r) state now db)"

definition delivery_audit_reason :: "string \<Rightarrow> requirement_row \<Rightarrow> work_item_row \<Rightarrow> string" where
  "delivery_audit_reason subject r w = subject @ ''; requirementRevision='' @ str_of_int (rq_revision r)
     @ ''; workItemRevision='' @ str_of_int (wi_revision w)"

text \<open>\<open>start_work_item\<close>'s \<open>command\<close>, over the locked rows.\<close>

definition start_work_item_once ::
  "requirement_env \<Rightarrow> string \<Rightarrow> requirement_row \<Rightarrow> work_item_row \<Rightarrow> requirement_db
   \<Rightarrow> (requirement_error, (requirement_row \<times> work_item_row \<times> string option) \<times> requirement_db) res" where
  "start_work_item_once env who r w db =
     rbind (transition_human_work_started (rq_state r) (wi_state w)) (\<lambda>(target, item_target).
     if wi_integration w \<noteq> NOT_STARTED
     then Inl (WorkItemDeliveryConflict ''WorkItem integration delivery already started'')
     else
     let now = rv_clock env 0 in
     rbind (update_delivery w item_target IMPLEMENTING None now db) (\<lambda>(w', db1).
     rbind (update_requirement r target now db1) (\<lambda>(r', db2).
     rbind (rq_audit env 1 0 who ''requirement.work_item.started'' ''WORK_ITEM'' (wi_id w)
              (delivery_audit_reason (''requirement='' @ rq_id r) r' w') None db2)
       (\<lambda>db3. Inr ((r', w', None), db3)))))"

definition merge_topic :: string where
  "merge_topic = ''requirement.integration-merge.requested''"

definition merge_request_topic :: string where
  "merge_request_topic = ''requirement.integration-merge-request.requested''"

definition delivery_payload ::
  "bool \<Rightarrow> requirement_row \<Rightarrow> work_item_row \<Rightarrow> string option \<Rightarrow> string \<Rightarrow> pyval" where
  "delivery_payload request_merge r w binding_id who = PyDict
     ([(''kind'', PyStr (if request_merge then ''MERGE_MR'' else ''CREATE_MR'')),
       (''requirementId'', PyStr (rq_id r)), (''requirementRevision'', PyInt (rq_revision r)),
       (''workItemId'', PyStr (wi_id w)), (''workItemRevision'', PyInt (wi_revision w))]
      @ (if request_merge
         then [(''integrationMergeRequestBindingId'',
                case binding_id of None \<Rightarrow> PyNone | Some b \<Rightarrow> PyStr b)] else [])
      @ [(''repositoryId'', PyStr (wi_repository w)), (''actorId'', PyStr who)])"

definition request_delivery_once ::
  "requirement_env \<Rightarrow> bool \<Rightarrow> string \<Rightarrow> requirement_row \<Rightarrow> work_item_row \<Rightarrow> requirement_db
   \<Rightarrow> (requirement_error, (requirement_row \<times> work_item_row \<times> string option) \<times> requirement_db) res" where
  "request_delivery_once env request_merge who r w db =
     (let state = (if request_merge then VERIFYING else IN_PROGRESS);
          item_state = (if request_merge then ITEM_VERIFYING else ITEM_IN_PROGRESS);
          topic = (if request_merge then merge_topic else merge_request_topic);
          now = rv_clock env 0
      in
      if rq_state r \<noteq> state \<or> wi_state w \<noteq> item_state
         \<or> wi_integration w \<noteq> (if request_merge then MR_OPEN else IMPLEMENTING)
      then Inl (WorkItemDeliveryConflict ''WorkItem is not ready for the delivery request'')
      else if request_merge \<and> wi_binding w = None
      then Inl (WorkItemDeliveryConflict ''Integration merge request binding is missing'')
      else
      rbind (update_delivery w item_state (if request_merge then MERGE_PENDING else MR_PENDING)
               (wi_binding w) now db) (\<lambda>(w', db1).
      rbind (update_requirement r state now db1) (\<lambda>(r', db2).
      rbind (insert_outbox (new_message (rv_new_id env 0) topic (rq_id r) (rq_revision r')
               (delivery_payload request_merge r' w' (wi_binding w) who) now) db2) (\<lambda>db3.
      rbind (rq_audit env 1 1 who
               (if request_merge then ''requirement.integration_merge.requested''
                else ''requirement.integration_merge_request.requested'') ''WORK_ITEM'' (wi_id w)
               (delivery_audit_reason (''requirement='' @ rq_id r @ ''; repository='' @ wi_repository w') r' w')
               None db3) (\<lambda>db4. Inr ((r', w', Some topic), db4))))))"

end
