(* ===== verification/Requirement_Commands.thy ===== *)
theory Requirement_Commands
  imports Requirement_Gates
begin

section \<open>The requirement module: the public commands\<close>

text \<open>
  What \<^verbatim>\<open>requirement/application/commands.py\<close>, \<^verbatim>\<open>planning.py\<close>, \<^verbatim>\<open>artifacts.py\<close> and
  \<^verbatim>\<open>delivery.py\<close> export: each command fingerprints its request, runs its body under an idempotency
  key and rebuilds its result from the response, so that a repeated request gets the recorded
  answer. A denial leaves a row in a second audit log that no rollback reaches, given here beside
  the result. \<open>model_dump\<close> and \<open>model_validate\<close> are pydantic's: the parameter \<open>dto_codec\<close>.
\<close>

record 'a dto_codec =
  dto_dump :: "'a \<Rightarrow> pyval"
  dto_validate :: "pyval \<Rightarrow> 'a option"

definition dto_codec_ok :: "'a dto_codec \<Rightarrow> bool" where
  "dto_codec_ok K \<longleftrightarrow> (\<forall>x. dto_validate K (dto_dump K x) = Some x)"

type_synonym 'a command_result = "(requirement_error idem_error, 'a \<times> requirement_db) res"

definition keyed_request ::
  "requirement_env \<Rightarrow> sealer \<Rightarrow> string \<Rightarrow> string \<Rightarrow> string \<Rightarrow> pyval \<Rightarrow> string \<Rightarrow> idem_request" where
  "keyed_request env S who operation path body key = \<lparr>iq_actor = who, iq_operation = operation,
     iq_key = key, iq_fingerprint = request_fingerprint S operation ''COMMAND'' path body,
     iq_record_id = rv_new_id env 90, iq_claim_now = rv_clock env 90, iq_complete_now = rv_clock env 91\<rparr>"

definition json_response :: "int \<Rightarrow> pyval \<Rightarrow> idem_response" where
  "json_response status body = \<lparr>ip_status = status, ip_body = body, ip_headers = [], ip_cookie = None,
     ip_is_problem = False\<rparr>"

definition responding ::
  "'a dto_codec \<Rightarrow> int \<Rightarrow> (requirement_db \<Rightarrow> (requirement_error, 'a \<times> requirement_db) res)
   \<Rightarrow> requirement_db \<Rightarrow> (requirement_error, idem_response \<times> requirement_db) res" where
  "responding K status once db =
     rbind (once db) (\<lambda>(x, db'). Inr (json_response status (dto_dump K x), db'))"

definition validated_result ::
  "'a dto_codec \<Rightarrow> idem_execution \<times> requirement_db \<Rightarrow> 'a command_result" where
  "validated_result K out =
     (case dto_validate K (ip_body (ix_response (fst out))) of
        None \<Rightarrow> Inl (CommandError ResponseInvalid)
      | Some x \<Rightarrow> Inr (x, snd out))"

definition execute_command ::
  "requirement_env \<Rightarrow> sealer \<Rightarrow> 'a dto_codec \<Rightarrow> requirement_actor \<Rightarrow> string \<Rightarrow> string \<Rightarrow> pyval \<Rightarrow> string
   \<Rightarrow> int \<Rightarrow> (requirement_db \<Rightarrow> (requirement_error, 'a \<times> requirement_db) res) \<Rightarrow> requirement_db
   \<Rightarrow> 'a command_result" where
  "execute_command env S K actor operation path body key status once db =
     rbind (lift_command (rq_actor_id actor)) (\<lambda>who.
     rbind (execute_idempotent requirement_keys S (keyed_request env S who operation path body key)
              None (responding K status once) db) (validated_result K))"

subsection \<open>Denials\<close>

definition denial_entry ::
  "requirement_env \<Rightarrow> string \<Rightarrow> string \<Rightarrow> string \<Rightarrow> string \<Rightarrow> string \<Rightarrow> audit_envelope" where
  "denial_entry env who action target_type target_id name = \<lparr>ae_id = rv_new_id env 95,
     ae_occurred_at = rv_clock env 95, ae_actor = who, ae_actor_type = ''HUMAN'',
     ae_action = action @ ''_denied'', ae_target_type = target_type, ae_target_id = target_id,
     ae_result = ''DENIED'', ae_reason = Some (''reasonCode='' @ name),
     ae_correlation_id = (case rv_request env of Some (x # xs) \<Rightarrow> x # xs | _ \<Rightarrow> rv_new_id env 96),
     ae_request_id = rv_request env, ae_schema_version = 1\<rparr>"

text \<open>A \<open>RequirementError\<close> of the body, or a conflict on the key; nothing else is a denial.\<close>

definition denied_name :: "requirement_error idem_error \<Rightarrow> string option" where
  "denied_name e = (case e of
     CommandError c \<Rightarrow> error_name c
   | IdempotencyConflict _ \<Rightarrow> Some ''IDEMPOTENCYCONFLICT''
   | IdempotencyReplayUnavailable _ \<Rightarrow> None)"

definition audited_command ::
  "requirement_env \<Rightarrow> requirement_actor \<Rightarrow> string \<Rightarrow> string \<Rightarrow> string \<Rightarrow> 'a command_result
   \<Rightarrow> 'a command_result \<times> audit_log" where
  "audited_command env actor action target_type target_id m =
     (m, (case (rq_actor_id actor, m) of
            (Inr who, Inl e) \<Rightarrow> (case denied_name e of None \<Rightarrow> []
               | Some name \<Rightarrow> [denial_entry env who action target_type target_id name])
          | _ \<Rightarrow> []))"

subsection \<open>Commands\<close>

definition create_requirement ::
  "requirement_env \<Rightarrow> sealer \<Rightarrow> (requirement_row \<times> work_item_row) dto_codec \<Rightarrow> string
   \<Rightarrow> requirement_type \<Rightarrow> string \<Rightarrow> string \<Rightarrow> string list \<Rightarrow> string \<Rightarrow> requirement_actor \<Rightarrow> string
   \<Rightarrow> requirement_db \<Rightarrow> (requirement_row \<times> work_item_row) command_result" where
  "create_requirement env S K workspace t title description criteria repository actor key =
     execute_command env S K actor ''requirement_create'' ''requirement.create''
       (PyDict [(''workspaceId'', PyStr workspace), (''type'', PyStr (type_value t)),
          (''title'', PyStr title), (''description'', PyStr description),
          (''acceptanceCriteria'', PyList (map PyStr criteria)),
          (''initialRepositoryId'', PyStr repository)]) key 201
       (create_requirement_once env workspace t title description criteria repository actor)"

definition start_requirement_preparation ::
  "requirement_env \<Rightarrow> sealer \<Rightarrow> requirement_row dto_codec \<Rightarrow> string \<Rightarrow> int \<Rightarrow> requirement_actor \<Rightarrow> string
   \<Rightarrow> requirement_db \<Rightarrow> requirement_row command_result" where
  "start_requirement_preparation env S K i expected actor key =
     execute_command env S K actor ''requirement_start_preparation'' ''requirement.start-preparation''
       (PyDict [(''requirementId'', PyStr i), (''expectedRevision'', PyInt expected)]) key 200
       (start_requirement_preparation_once env i expected actor)"

definition record_repository_binding ::
  "requirement_env \<Rightarrow> sealer \<Rightarrow> work_item_row dto_codec \<Rightarrow> string \<Rightarrow> string \<Rightarrow> string \<Rightarrow> string \<Rightarrow> int
   \<Rightarrow> requirement_actor \<Rightarrow> string \<Rightarrow> string \<Rightarrow> requirement_db \<Rightarrow> work_item_row command_result" where
  "record_repository_binding env S K item repository base_commit branch expected actor key correlation_id db =
     rbind (lift_command (rq_actor_id actor)) (\<lambda>_.
     rbind (lift_command (validated_correlation_id correlation_id)) (\<lambda>correlation.
       execute_command env S K actor ''requirement_record_repository_binding''
         ''requirement.record-repository-binding''
         (PyDict [(''workItemId'', PyStr item), (''repositoryId'', PyStr repository),
            (''baseCommitSha'', PyStr base_commit), (''taskBranch'', PyStr branch),
            (''expectedRevision'', PyInt expected)]) key 200
         (record_repository_binding_once env item repository base_commit branch expected actor correlation) db))"

definition record_repository_binding_blocked ::
  "requirement_env \<Rightarrow> sealer \<Rightarrow> work_item_row dto_codec \<Rightarrow> string \<Rightarrow> string \<Rightarrow> binding_blocked_reason \<Rightarrow> int
   \<Rightarrow> requirement_actor \<Rightarrow> string \<Rightarrow> string \<Rightarrow> requirement_db \<Rightarrow> work_item_row command_result" where
  "record_repository_binding_blocked env S K item repository reason expected actor key correlation_id db =
     rbind (lift_command (rq_actor_id actor)) (\<lambda>_.
     rbind (lift_command (validated_correlation_id correlation_id)) (\<lambda>correlation.
       execute_command env S K actor ''requirement_record_repository_binding_blocked''
         ''requirement.record-repository-binding-blocked''
         (PyDict [(''workItemId'', PyStr item), (''repositoryId'', PyStr repository),
            (''reasonCode'', PyStr (blocked_reason_value reason)), (''expectedRevision'', PyInt expected)])
         key 200
         (record_repository_binding_blocked_once env item repository reason expected actor correlation) db))"

definition register_sdd_baseline ::
  "requirement_env \<Rightarrow> sealer \<Rightarrow> (requirement_row \<times> baseline_row) dto_codec \<Rightarrow> string \<Rightarrow> string \<Rightarrow> string
   \<Rightarrow> int \<Rightarrow> requirement_actor \<Rightarrow> string \<Rightarrow> requirement_db
   \<Rightarrow> (requirement_row \<times> baseline_row) command_result \<times> audit_log" where
  "register_sdd_baseline env S K i artifact version expected actor key db =
     audited_command env actor ''requirement.sdd_baseline.register'' ''REQUIREMENT'' i
       (execute_command env S K actor ''requirement_register_sdd_baseline'' ''requirement.register-sdd-baseline''
         (PyDict [(''requirementId'', PyStr i), (''artifactId'', PyStr artifact),
            (''artifactVersion'', PyStr version), (''expectedRevision'', PyInt expected)]) key 201
         (register_sdd_baseline_once env i artifact version expected actor) db)"

definition submit_baseline_confirmation ::
  "requirement_env \<Rightarrow> sealer \<Rightarrow> (requirement_row \<times> gate_row \<times> gate_assignment_row) dto_codec \<Rightarrow> string
   \<Rightarrow> string \<Rightarrow> int \<Rightarrow> requirement_actor \<Rightarrow> string \<Rightarrow> requirement_db
   \<Rightarrow> (requirement_row \<times> gate_row \<times> gate_assignment_row) command_result \<times> audit_log" where
  "submit_baseline_confirmation env S K i baseline expected actor key db =
     audited_command env actor ''requirement.baseline_confirmation.submit'' ''REQUIREMENT'' i
       (execute_command env S K actor ''requirement_submit_baseline_confirmation''
         ''requirement.submit-baseline-confirmation''
         (PyDict [(''requirementId'', PyStr i), (''sddBaselineId'', PyStr baseline),
            (''expectedRevision'', PyInt expected)]) key 201
         (submit_baseline_confirmation_once env i baseline expected actor) db)"

definition reassign_baseline_gate ::
  "requirement_env \<Rightarrow> sealer \<Rightarrow> (gate_row \<times> gate_assignment_row) dto_codec \<Rightarrow> string \<Rightarrow> string \<Rightarrow> string
   \<Rightarrow> string \<Rightarrow> int \<Rightarrow> requirement_actor \<Rightarrow> string \<Rightarrow> requirement_db
   \<Rightarrow> (gate_row \<times> gate_assignment_row) command_result \<times> audit_log" where
  "reassign_baseline_gate env S K i gate reviewer reason expected actor key db =
     audited_command env actor ''requirement.baseline_gate.reassign'' ''GATE_INSTANCE'' gate
       (execute_command env S K actor ''requirement_reassign_baseline_gate''
         ''requirement.reassign-baseline-gate''
         (PyDict [(''requirementId'', PyStr i), (''gateId'', PyStr gate), (''reviewerId'', PyStr reviewer),
            (''reason'', PyStr reason), (''expectedGateRevision'', PyInt expected)]) key 200
         (reassign_baseline_gate_once env i gate reviewer reason expected actor) db)"

definition decide_baseline ::
  "requirement_env \<Rightarrow> sealer \<Rightarrow> (requirement_row \<times> gate_row \<times> decision_row) dto_codec \<Rightarrow> string
   \<Rightarrow> string \<Rightarrow> decision_outcome \<Rightarrow> string \<Rightarrow> int \<Rightarrow> requirement_actor \<Rightarrow> string \<Rightarrow> requirement_db
   \<Rightarrow> (requirement_row \<times> gate_row \<times> decision_row) command_result \<times> audit_log" where
  "decide_baseline env S K i gate outcome reason expected actor key db =
     audited_command env actor ''requirement.baseline_confirmation.decide'' ''GATE_INSTANCE'' gate
       (execute_command env S K actor ''requirement_decide_baseline'' ''requirement.decide-baseline''
         (PyDict [(''requirementId'', PyStr i), (''gateId'', PyStr gate),
            (''outcome'', PyStr (outcome_value outcome)), (''reason'', PyStr reason),
            (''expectedRevision'', PyInt expected)]) key 200
         (decide_baseline_once env i gate outcome reason expected actor) db)"

definition add_work_item ::
  "requirement_env \<Rightarrow> sealer \<Rightarrow> (requirement_row \<times> work_item_row \<times> assignment_row option) dto_codec
   \<Rightarrow> string \<Rightarrow> string \<Rightarrow> int \<Rightarrow> requirement_actor \<Rightarrow> string \<Rightarrow> requirement_db
   \<Rightarrow> (requirement_row \<times> work_item_row \<times> assignment_row option) command_result \<times> audit_log" where
  "add_work_item env S K i repository expected actor key db =
     audited_command env actor ''requirement.work_item.add'' ''REQUIREMENT'' i
       (execute_command env S K actor ''requirement_add_work_item'' ''requirement.add-work-item''
         (PyDict [(''requirementId'', PyStr i), (''repositoryId'', PyStr repository),
            (''expectedRevision'', PyInt expected)]) key 201
         (add_work_item_once env i repository expected actor) db)"

definition assign_work_item ::
  "requirement_env \<Rightarrow> sealer \<Rightarrow> (work_item_row \<times> assignment_row) dto_codec \<Rightarrow> string \<Rightarrow> string \<Rightarrow> string
   \<Rightarrow> string \<Rightarrow> int \<Rightarrow> requirement_actor \<Rightarrow> string \<Rightarrow> requirement_db
   \<Rightarrow> (work_item_row \<times> assignment_row) command_result \<times> audit_log" where
  "assign_work_item env S K i item owner reason expected actor key db =
     audited_command env actor ''requirement.work_item.assign'' ''WORK_ITEM'' item
       (execute_command env S K actor ''requirement_assign_work_item'' ''requirement.assign-work-item''
         (PyDict [(''requirementId'', PyStr i), (''workItemId'', PyStr item),
            (''humanOwnerId'', PyStr owner), (''reason'', PyStr reason),
            (''expectedRevision'', PyInt expected)]) key 200
         (assign_work_item_once env i item owner reason expected actor) db)"

definition create_sdd_artifact ::
  "requirement_env \<Rightarrow> sealer \<Rightarrow> (requirement_row \<times> artifact_row) dto_codec \<Rightarrow> string \<Rightarrow> string option
   \<Rightarrow> string \<Rightarrow> int \<Rightarrow> requirement_actor \<Rightarrow> string \<Rightarrow> requirement_db
   \<Rightarrow> (requirement_row \<times> artifact_row) command_result \<times> audit_log" where
  "create_sdd_artifact env S K i artifact content expected actor key db =
     audited_command env actor ''requirement.sdd_artifact.create'' ''REQUIREMENT'' i
       (execute_command env S K actor ''requirement_create_sdd_artifact'' ''requirement.create-sdd-artifact''
         (PyDict [(''requirementId'', PyStr i),
            (''artifactId'', case artifact of None \<Rightarrow> PyNone | Some a \<Rightarrow> PyStr a),
            (''content'', PyStr content), (''expectedRevision'', PyInt expected)]) key 201
         (create_sdd_artifact_once env i artifact content expected actor) db)"

text \<open>\<open>_execute_locked\<close>: the subject is locked and validated before the key is claimed, and the
  expected revision counts only for a key that is new.\<close>

definition execute_locked ::
  "requirement_env \<Rightarrow> sealer \<Rightarrow> 'a dto_codec \<Rightarrow> string \<Rightarrow> string \<Rightarrow> int \<Rightarrow> string \<Rightarrow> string \<Rightarrow> int
   \<Rightarrow> requirement_actor \<Rightarrow> string \<Rightarrow> bool
   \<Rightarrow> (requirement_row \<Rightarrow> work_item_row \<Rightarrow> string \<Rightarrow> requirement_db \<Rightarrow> (requirement_error, 'a \<times> requirement_db) res)
   \<Rightarrow> requirement_db \<Rightarrow> 'a command_result \<times> audit_log" where
  "execute_locked env S K operation path status i item expected actor key owner_required command db =
     (case rbind (rq_actor_id actor) (\<lambda>who. rbind (locked_subject i item db) (\<lambda>(r, w). Inr (who, r, w))) of
        Inl e \<Rightarrow> (Inl (CommandError e), [])
      | Inr (who, r, w) \<Rightarrow>
          audited_command env actor operation ''WORK_ITEM'' item
            (rbind (lift_command (validate_human_subject w who owner_required)) (\<lambda>_.
             if row_by key_scope (who, operation, key) (rd_keys db) = None \<and> rq_revision r \<noteq> expected
             then Inl (CommandError (StaleRequirementRevision i))
             else execute_command env S K actor operation path
               (PyDict [(''requirementId'', PyStr i), (''workItemId'', PyStr item),
                  (''expectedRevision'', PyInt expected)]) key status (command r w who) db)))"

type_synonym delivery_result = "requirement_row \<times> work_item_row \<times> string option"

definition start_work_item ::
  "requirement_env \<Rightarrow> sealer \<Rightarrow> delivery_result dto_codec \<Rightarrow> string \<Rightarrow> string \<Rightarrow> int \<Rightarrow> requirement_actor
   \<Rightarrow> string \<Rightarrow> requirement_db \<Rightarrow> delivery_result command_result \<times> audit_log" where
  "start_work_item env S K i item expected actor key =
     execute_locked env S K ''requirement_start_work_item'' ''requirement.start-work-item'' 200 i item
       expected actor key True (\<lambda>r w who. start_work_item_once env who r w)"

definition request_delivery ::
  "requirement_env \<Rightarrow> sealer \<Rightarrow> delivery_result dto_codec \<Rightarrow> bool \<Rightarrow> string \<Rightarrow> string \<Rightarrow> int
   \<Rightarrow> requirement_actor \<Rightarrow> string \<Rightarrow> requirement_db \<Rightarrow> delivery_result command_result \<times> audit_log" where
  "request_delivery env S K request_merge i item expected actor key =
     execute_locked env S K
       (if request_merge then ''requirement_request_integration_merge''
        else ''requirement_request_integration_merge_request'')
       (if request_merge then ''requirement.request-integration-merge''
        else ''requirement.request-integration-merge-request'') 202 i item expected actor key
       (\<not> request_merge) (\<lambda>r w who. request_delivery_once env request_merge who r w)"

definition request_integration_merge_request ::
  "requirement_env \<Rightarrow> sealer \<Rightarrow> delivery_result dto_codec \<Rightarrow> string \<Rightarrow> string \<Rightarrow> int
   \<Rightarrow> requirement_actor \<Rightarrow> string \<Rightarrow> requirement_db \<Rightarrow> delivery_result command_result \<times> audit_log" where
  "request_integration_merge_request env S K = request_delivery env S K False"

definition request_integration_merge ::
  "requirement_env \<Rightarrow> sealer \<Rightarrow> delivery_result dto_codec \<Rightarrow> string \<Rightarrow> string \<Rightarrow> int
   \<Rightarrow> requirement_actor \<Rightarrow> string \<Rightarrow> requirement_db \<Rightarrow> delivery_result command_result \<times> audit_log" where
  "request_integration_merge env S K = request_delivery env S K True"

end
