(* ===== verification/Requirement_Invariant.thy ===== *)
theory Requirement_Invariant
  imports Requirement_Commands
begin

section \<open>The requirement module: invariants of the tables\<close>

text \<open>
  What every command keeps: identifiers are unique and references resolve, a baseline has at most one
  gate, the gate on the current baseline of a requirement that waits for confirmation is open (other
  gates may be open too: preparation may start again and leave one behind), a decided gate has one
  decision by the reviewer in office, a requirement past confirmation has an approved gate on its
  baseline, and planned work items are READY exactly when the plan says so. The invariant is stated
  over the five tables it depends on; a lemma per kind of change shows that it is kept.
\<close>

definition past_confirmation :: "requirement_state \<Rightarrow> bool" where
  "past_confirmation s \<longleftrightarrow>
     s \<in> {READY, IN_PROGRESS, VERIFYING, AWAITING_ACCEPTANCE, AWAITING_MERGE, COMPLETED}"

definition before_confirmation :: "requirement_state \<Rightarrow> bool" where
  "before_confirmation s \<longleftrightarrow> s \<in> {CREATED, PREPARING}"

definition ids_ok ::
  "requirement_row list \<Rightarrow> work_item_row list \<Rightarrow> gate_row list \<Rightarrow> gate_assignment_row list \<Rightarrow> bool" where
  "ids_ok rs ws gs as \<longleftrightarrow> distinct (map rq_id rs) \<and> distinct (map wi_id ws) \<and> distinct (map gt_id gs)
     \<and> distinct (map ga_id as)
     \<and> wi_requirement ` set ws \<subseteq> rq_id ` set rs \<and> gt_requirement ` set gs \<subseteq> rq_id ` set rs
     \<and> ga_gate ` set as \<subseteq> gt_id ` set gs"

definition gates_ok :: "requirement_row list \<Rightarrow> gate_row list \<Rightarrow> bool" where
  "gates_ok rs gs \<longleftrightarrow> distinct (map gt_baseline gs)
     \<and> (\<forall>r \<in> set rs. rq_state r = AWAITING_CONFIRMATION \<longrightarrow>
          (\<exists>g \<in> set gs. gt_requirement g = rq_id r \<and> gt_state g = GATE_OPEN
             \<and> rq_baseline r = Some (gt_baseline g)))"

definition decisions_ok :: "gate_row list \<Rightarrow> gate_assignment_row list \<Rightarrow> decision_row list \<Rightarrow> bool" where
  "decisions_ok gs as ds \<longleftrightarrow> distinct (map de_gate ds) \<and> de_gate ` set ds \<subseteq> gt_id ` set gs
     \<and> (\<forall>g \<in> set gs. gt_state g = GATE_DECIDED \<longleftrightarrow> gt_id g \<in> de_gate ` set ds)
     \<and> (\<forall>d \<in> set ds. \<exists>a \<in> set as. ga_id a = de_assignment d \<and> ga_gate a = de_gate d
          \<and> ga_superseded_at a = None \<and> ga_current a = de_reviewer d)"

definition approved :: "gate_row list \<Rightarrow> decision_row list \<Rightarrow> requirement_row \<Rightarrow> bool" where
  "approved gs ds r \<longleftrightarrow> (\<exists>g \<in> set gs. \<exists>d \<in> set ds. gt_requirement g = rq_id r
     \<and> rq_baseline r = Some (gt_baseline g) \<and> de_gate d = gt_id g \<and> de_outcome d = APPROVED)"

definition approvals_ok :: "requirement_row list \<Rightarrow> gate_row list \<Rightarrow> decision_row list \<Rightarrow> bool" where
  "approvals_ok rs gs ds \<longleftrightarrow> (\<forall>r \<in> set rs. past_confirmation (rq_state r) \<longrightarrow> approved gs ds r)"

definition item_ok :: "requirement_state \<Rightarrow> work_item_row \<Rightarrow> bool" where
  "item_ok s w \<longleftrightarrow>
     (wi_state w = ITEM_READY \<longrightarrow> past_confirmation s \<and> wi_integration w = NOT_STARTED
        \<and> wi_assignment w = ASSIGNED \<and> wi_repository_state w = BOUND)
   \<and> (s = READY \<and> wi_integration w = NOT_STARTED \<and> wi_assignment w = ASSIGNED
        \<and> wi_repository_state w = BOUND \<longrightarrow> wi_state w = ITEM_READY)
   \<and> (wi_integration w \<noteq> NOT_STARTED \<longrightarrow> past_confirmation s \<and> wi_repository_state w = BOUND)"

lemma past_simps [simp]:
  "past_confirmation READY" "past_confirmation IN_PROGRESS" "past_confirmation VERIFYING"
  "\<not> past_confirmation CREATED" "\<not> past_confirmation PREPARING"
  "\<not> past_confirmation AWAITING_CONFIRMATION" "\<not> past_confirmation CANCELED"
  by (simp_all add: past_confirmation_def)

lemma before_not_past:
  "before_confirmation s \<Longrightarrow> \<not> past_confirmation s \<and> s \<noteq> READY \<and> s \<noteq> AWAITING_CONFIRMATION"
  by (auto simp: before_confirmation_def)

lemma item_ok_moved:
  assumes "item_ok s w" and "\<not> past_confirmation s" and "\<not> past_confirmation s'"
  shows "item_ok s' w"
proof -
  have "s' \<noteq> READY" using assms(3) by auto
  with assms show ?thesis by (simp add: item_ok_def)
qed

lemma item_ok_past:
  assumes "item_ok s w" and "past_confirmation s'" and "s' \<noteq> READY"
  shows "item_ok s' w"
  using assms unfolding item_ok_def by blast

definition items_ok :: "requirement_row list \<Rightarrow> work_item_row list \<Rightarrow> bool" where
  "items_ok rs ws \<longleftrightarrow>
     (\<forall>w \<in> set ws. \<forall>r \<in> set rs. rq_id r = wi_requirement w \<longrightarrow> item_ok (rq_state r) w)"

definition plan_inv ::
  "requirement_row list \<Rightarrow> work_item_row list \<Rightarrow> gate_row list \<Rightarrow> gate_assignment_row list
   \<Rightarrow> decision_row list \<Rightarrow> bool" where
  "plan_inv rs ws gs as ds \<longleftrightarrow> ids_ok rs ws gs as \<and> gates_ok rs gs \<and> decisions_ok gs as ds
     \<and> approvals_ok rs gs ds \<and> items_ok rs ws"

definition requirement_inv :: "requirement_db \<Rightarrow> bool" where
  "requirement_inv db \<longleftrightarrow>
     plan_inv (rd_requirements db) (rd_items db) (rd_gates db) (rd_gate_assignments db) (rd_decisions db)"

text \<open>Rows of an updated table: the row updated, or another one.\<close>

lemma set_where_key:
  assumes "distinct (map key rows)" and "r \<in> set rows" and "x \<in> set (set_where (\<lambda>y. key y = key r) f rows)"
  shows "x = f r \<or> x \<in> set rows \<and> key x \<noteq> key r"
  using assms by (auto simp: set_set_where distinct_map dest: inj_onD)

lemma set_where_image:
  assumes "\<And>y. h (f y) = h y"
  shows "h ` set (set_where p f rows) = h ` set rows"
proof -
  have "map h (set_where p f rows) = map h rows" by (rule set_where_keys) (rule assms)
  then have "set (map h (set_where p f rows)) = set (map h rows)" by (rule arg_cong)
  then show ?thesis unfolding set_map .
qed

subsection \<open>Kinds of change\<close>

lemma plan_new_requirement:
  assumes inv: "plan_inv rs ws gs as ds" and fresh: "rq_id r \<notin> rq_id ` set rs"
    and w: "wi_id w \<notin> wi_id ` set ws" "wi_requirement w = rq_id r" "wi_state w = ITEM_DRAFT"
      "wi_integration w = NOT_STARTED"
    and r: "rq_state r = CREATED"
  shows "plan_inv (rs @ [r]) (ws @ [w]) gs as ds"
proof -
  from inv have ids: "ids_ok rs ws gs as" and gates: "gates_ok rs gs" and dec: "decisions_ok gs as ds"
    and app: "approvals_ok rs gs ds" and items: "items_ok rs ws" by (simp_all add: plan_inv_def)
  have "ids_ok (rs @ [r]) (ws @ [w]) gs as" using ids fresh w by (auto simp: ids_ok_def)
  moreover have "gates_ok (rs @ [r]) gs" using gates r by (simp add: gates_ok_def)
  moreover have "approvals_ok (rs @ [r]) gs ds"
    using app r by (simp add: approvals_ok_def past_confirmation_def)
  moreover have other: "wi_requirement v \<noteq> rq_id r" if "v \<in> set ws" for v
    using ids fresh imageI [OF that, of wi_requirement] unfolding ids_ok_def by auto
  have fresh_id: "rq_id q \<noteq> rq_id r" if "q \<in> set rs" for q
    using fresh imageI [OF that, of rq_id] by auto
  have "items_ok (rs @ [r]) (ws @ [w])"
    unfolding items_ok_def
  proof (intro ballI impI)
    fix v q assume v: "v \<in> set (ws @ [w])" and q: "q \<in> set (rs @ [r])" and id: "rq_id q = wi_requirement v"
    show "item_ok (rq_state q) v"
    proof (cases "v = w")
      case True
      with id w(2) q fresh_id have "q = r" by auto
      with True w r show ?thesis by (simp add: item_ok_def)
    next
      case False
      with v have "v \<in> set ws" by simp
      with id q other [OF this] have "q \<in> set rs" by auto
      with \<open>v \<in> set ws\<close> items id show ?thesis by (simp add: items_ok_def)
    qed
  qed
  ultimately show ?thesis using dec by (simp add: plan_inv_def)
qed

lemma plan_new_item:
  assumes inv: "plan_inv rs ws gs as ds" and r: "r \<in> set rs" "before_confirmation (rq_state r)"
    and w: "wi_id w \<notin> wi_id ` set ws" "wi_requirement w = rq_id r" "wi_state w = ITEM_DRAFT"
      "wi_integration w = NOT_STARTED"
  shows "plan_inv rs (ws @ [w]) gs as ds"
proof -
  from inv have ids: "ids_ok rs ws gs as" and items: "items_ok rs ws" by (simp_all add: plan_inv_def)
  have "ids_ok rs (ws @ [w]) gs as" using ids r w by (auto simp: ids_ok_def)
  moreover have same: "q = r" if "q \<in> set rs" "rq_id q = rq_id r" for q
    using ids r that by (auto simp: ids_ok_def distinct_map dest: inj_onD)
  have "items_ok rs (ws @ [w])"
    unfolding items_ok_def
  proof (intro ballI impI)
    fix v q assume v: "v \<in> set (ws @ [w])" and q: "q \<in> set rs" and id: "rq_id q = wi_requirement v"
    show "item_ok (rq_state q) v"
    proof (cases "v = w")
      case True
      with id w(2) q same have "q = r" by simp
      with True w r before_not_past show ?thesis by (simp add: item_ok_def)
    next
      case False
      with v items q id show ?thesis by (simp add: items_ok_def)
    qed
  qed
  ultimately show ?thesis using inv by (simp add: plan_inv_def)
qed

text \<open>A requirement that is (again) before its confirmation, keeps its state and baseline, or moves on
  after its confirmation.\<close>

lemma plan_update_requirement:
  assumes inv: "plan_inv rs ws gs as ds" and r: "r \<in> set rs" and key: "\<And>x. rq_id (f x) = rq_id x"
    and change: "\<not> past_confirmation (rq_state r) \<and> before_confirmation (rq_state (f r))
      \<or> rq_baseline (f r) = rq_baseline r \<and> (rq_state (f r) = rq_state r
          \<or> past_confirmation (rq_state r) \<and> past_confirmation (rq_state (f r)) \<and> rq_state (f r) \<noteq> READY)"
  shows "plan_inv (set_where (\<lambda>x. rq_id x = rq_id r) f rs) ws gs as ds"
proof -
  let ?rs = "set_where (\<lambda>x. rq_id x = rq_id r) f rs"
  from inv have ids: "ids_ok rs ws gs as" and gates: "gates_ok rs gs"
    and app: "approvals_ok rs gs ds" and items: "items_ok rs ws" by (simp_all add: plan_inv_def)
  have dist: "distinct (map rq_id rs)" using ids by (simp add: ids_ok_def)
  have rows: "x = f r \<or> x \<in> set rs \<and> rq_id x \<noteq> rq_id r" if "x \<in> set ?rs" for x
    using set_where_key [OF dist r that] .
  have keys: "rq_id ` set ?rs = rq_id ` set rs" "map rq_id ?rs = map rq_id rs"
    using key by (simp_all add: set_where_image)
  have "ids_ok ?rs ws gs as" using ids keys by (simp add: ids_ok_def)
  moreover have "gates_ok ?rs gs"
    unfolding gates_ok_def
  proof (intro conjI ballI impI)
    show "distinct (map gt_baseline gs)" using gates by (simp add: gates_ok_def)
    fix x assume "x \<in> set ?rs" and waits: "rq_state x = AWAITING_CONFIRMATION"
    from rows [OF this(1)] show "\<exists>g \<in> set gs. gt_requirement g = rq_id x \<and> gt_state g = GATE_OPEN
        \<and> rq_baseline x = Some (gt_baseline g)"
    proof
      assume f: "x = f r"
      with waits change before_not_past
      have "rq_state r = AWAITING_CONFIRMATION" "rq_baseline (f r) = rq_baseline r"
        by (metis past_simps(6))+
      with gates r f key show ?thesis by (simp add: gates_ok_def)
    next
      assume "x \<in> set rs \<and> rq_id x \<noteq> rq_id r"
      with gates waits show ?thesis by (simp add: gates_ok_def)
    qed
  qed
  moreover have "approvals_ok ?rs gs ds"
    unfolding approvals_ok_def
  proof (intro ballI impI)
    fix x assume x: "x \<in> set ?rs" and past: "past_confirmation (rq_state x)"
    from rows [OF x] show "approved gs ds x"
    proof
      assume f: "x = f r"
      with past change before_not_past have "past_confirmation (rq_state r) \<and> rq_baseline (f r) = rq_baseline r"
        by metis
      with app r f key show ?thesis by (simp add: approvals_ok_def approved_def)
    next
      assume "x \<in> set rs \<and> rq_id x \<noteq> rq_id r"
      with app past show ?thesis by (simp add: approvals_ok_def)
    qed
  qed
  moreover have "items_ok ?rs ws"
    unfolding items_ok_def
  proof (intro ballI impI)
    fix w x assume w: "w \<in> set ws" and x: "x \<in> set ?rs" and id: "rq_id x = wi_requirement w"
    from rows [OF x] show "item_ok (rq_state x) w"
    proof
      assume f: "x = f r"
      with items r w id key have "item_ok (rq_state r) w" by (simp add: items_ok_def)
      with change f item_ok_moved item_ok_past before_not_past show ?thesis by metis
    next
      assume "x \<in> set rs \<and> rq_id x \<noteq> rq_id r"
      with items w id show ?thesis by (simp add: items_ok_def)
    qed
  qed
  ultimately show ?thesis using inv by (simp add: plan_inv_def)
qed

lemma plan_update_item:
  assumes inv: "plan_inv rs ws gs as ds" and w: "w \<in> set ws"
    and key: "\<And>x. wi_id (f x) = wi_id x" "\<And>x. wi_requirement (f x) = wi_requirement x"
    and ok: "\<And>r. r \<in> set rs \<Longrightarrow> rq_id r = wi_requirement w \<Longrightarrow> item_ok (rq_state r) w \<Longrightarrow>
      item_ok (rq_state r) (f w)"
  shows "plan_inv rs (set_where (\<lambda>x. wi_id x = wi_id w) f ws) gs as ds"
proof -
  let ?ws = "set_where (\<lambda>x. wi_id x = wi_id w) f ws"
  from inv have ids: "ids_ok rs ws gs as" and items: "items_ok rs ws" by (simp_all add: plan_inv_def)
  have keys: "wi_requirement ` set ?ws = wi_requirement ` set ws" "map wi_id ?ws = map wi_id ws"
    using key by (simp_all add: set_where_image)
  have "ids_ok rs ?ws gs as" using ids keys by (simp add: ids_ok_def)
  moreover have "items_ok rs ?ws"
    unfolding items_ok_def
  proof (intro ballI impI)
    fix v r assume v: "v \<in> set ?ws" and r: "r \<in> set rs" and id: "rq_id r = wi_requirement v"
    have "v = f w \<or> v \<in> set ws \<and> wi_id v \<noteq> wi_id w"
      using set_where_key [OF _ w v] ids by (simp add: ids_ok_def)
    then show "item_ok (rq_state r) v"
    proof
      assume v: "v = f w"
      with id key have at: "rq_id r = wi_requirement w" by simp
      with items w r have "item_ok (rq_state r) w" by (simp add: items_ok_def)
      from ok [OF r at this] v show ?thesis by simp
    next
      assume "v \<in> set ws \<and> wi_id v \<noteq> wi_id w"
      with items r id show ?thesis by (simp add: items_ok_def)
    qed
  qed
  ultimately show ?thesis using inv by (simp add: plan_inv_def)
qed

lemma plan_submit:
  assumes inv: "plan_inv rs ws gs as ds" and r: "r \<in> set rs" and key: "\<And>x. rq_id (f x) = rq_id x"
    and state: "rq_state r = PREPARING" "rq_state (f r) = AWAITING_CONFIRMATION"
    and g: "gt_id g \<notin> gt_id ` set gs" "gt_requirement g = rq_id r" "gt_state g = GATE_OPEN"
      "rq_baseline (f r) = Some (gt_baseline g)" "gt_baseline g \<notin> gt_baseline ` set gs"
    and a: "ga_id a \<notin> ga_id ` set as" "ga_gate a = gt_id g"
    and at: "i = rq_id r"
  shows "plan_inv (set_where (\<lambda>x. rq_id x = i) f rs) ws (gs @ [g]) (as @ [a]) ds"
proof -
  let ?rs = "set_where (\<lambda>x. rq_id x = rq_id r) f rs"
  from inv have ids: "ids_ok rs ws gs as" and gates: "gates_ok rs gs" and dec: "decisions_ok gs as ds"
    and app: "approvals_ok rs gs ds" and items: "items_ok rs ws" by (simp_all add: plan_inv_def)
  have dist: "distinct (map rq_id rs)" using ids by (simp add: ids_ok_def)
  have rows: "x = f r \<or> x \<in> set rs \<and> rq_id x \<noteq> rq_id r" if "x \<in> set ?rs" for x
    using set_where_key [OF dist r that] .
  have keys: "rq_id ` set ?rs = rq_id ` set rs" "map rq_id ?rs = map rq_id rs"
    using key by (simp_all add: set_where_image)
  have "ids_ok ?rs ws (gs @ [g]) (as @ [a])" using ids keys g a r by (auto simp: ids_ok_def)
  moreover have "gates_ok ?rs (gs @ [g])"
    unfolding gates_ok_def
  proof (intro conjI ballI impI)
    show "distinct (map gt_baseline (gs @ [g]))" using gates g(5) by (simp add: gates_ok_def)
    fix x assume "x \<in> set ?rs" and waits: "rq_state x = AWAITING_CONFIRMATION"
    from rows [OF this(1)] show "\<exists>h \<in> set (gs @ [g]). gt_requirement h = rq_id x
        \<and> gt_state h = GATE_OPEN \<and> rq_baseline x = Some (gt_baseline h)"
    proof
      assume "x = f r"
      with g key show ?thesis by (intro bexI [of _ g]) simp_all
    next
      assume "x \<in> set rs \<and> rq_id x \<noteq> rq_id r"
      with gates waits show ?thesis by (auto simp: gates_ok_def)
    qed
  qed
  moreover have "gt_id g \<notin> de_gate ` set ds" using dec g(1) by (auto simp: decisions_ok_def)
  then have "decisions_ok (gs @ [g]) (as @ [a]) ds"
    using dec g(3) by (auto simp: decisions_ok_def)
  moreover have "approvals_ok ?rs (gs @ [g]) ds"
    unfolding approvals_ok_def
  proof (intro ballI impI)
    fix x assume x: "x \<in> set ?rs" and past: "past_confirmation (rq_state x)"
    with rows [OF x] state have "x \<in> set rs" by auto
    with app past show "approved (gs @ [g]) ds x" by (auto simp: approvals_ok_def approved_def)
  qed
  moreover have "items_ok ?rs ws"
    unfolding items_ok_def
  proof (intro ballI impI)
    fix w x assume w: "w \<in> set ws" and x: "x \<in> set ?rs" and id: "rq_id x = wi_requirement w"
    from rows [OF x] show "item_ok (rq_state x) w"
    proof
      assume f: "x = f r"
      with items r w id key have "item_ok (rq_state r) w" by (simp add: items_ok_def)
      then show ?thesis unfolding f by (rule item_ok_moved) (simp_all add: state)
    next
      assume "x \<in> set rs \<and> rq_id x \<noteq> rq_id r"
      with items w id show ?thesis by (simp add: items_ok_def)
    qed
  qed
  ultimately show ?thesis by (simp add: plan_inv_def at)
qed


lemma plan_reassign:
  assumes inv: "plan_inv rs ws gs as ds" and g: "g \<in> set gs" "gt_state g = GATE_OPEN"
    and f: "\<And>x. gt_id (f x) = gt_id x" "\<And>x. gt_requirement (f x) = gt_requirement x"
      "\<And>x. gt_state (f x) = gt_state x" "\<And>x. gt_baseline (f x) = gt_baseline x"
    and c: "c \<in> set as" "ga_gate c = gt_id g"
    and h: "\<And>x. ga_id (h x) = ga_id x" "\<And>x. ga_gate (h x) = ga_gate x"
    and a: "ga_id a \<notin> ga_id ` set as" "ga_gate a = gt_id g"
    and at: "j = gt_id g" "k = ga_id c"
  shows "plan_inv rs ws (set_where (\<lambda>x. gt_id x = j) f gs)
    (set_where (\<lambda>x. ga_id x = k) h as @ [a]) ds"
proof -
  let ?gs = "set_where (\<lambda>x. gt_id x = gt_id g) f gs" and ?as = "set_where (\<lambda>x. ga_id x = ga_id c) h as"
  from inv have ids: "ids_ok rs ws gs as" and gates: "gates_ok rs gs" and dec: "decisions_ok gs as ds"
    and app: "approvals_ok rs gs ds" by (simp_all add: plan_inv_def)
  have gkeys: "gt_id ` set ?gs = gt_id ` set gs" "map gt_id ?gs = map gt_id gs"
      "gt_requirement ` set ?gs = gt_requirement ` set gs"
    using f by (simp_all add: set_where_image)
  have akeys: "ga_id ` set ?as = ga_id ` set as" "map ga_id ?as = map ga_id as"
      "ga_gate ` set ?as = ga_gate ` set as"
    using h by (simp_all add: set_where_image)
  have "ids_ok rs ws ?gs (?as @ [a])" using ids gkeys akeys a g(1) by (auto simp: ids_ok_def)
  moreover have baselines: "map gt_baseline ?gs = map gt_baseline gs" by (rule set_where_keys) (rule f(4))
  have "gates_ok rs ?gs"
    unfolding gates_ok_def
  proof (intro conjI ballI impI)
    show "distinct (map gt_baseline ?gs)" using gates unfolding baselines by (simp add: gates_ok_def)
    fix r assume "r \<in> set rs" "rq_state r = AWAITING_CONFIRMATION"
    with gates obtain k where k: "k \<in> set gs" "gt_requirement k = rq_id r" "gt_state k = GATE_OPEN"
      "rq_baseline r = Some (gt_baseline k)" by (auto simp: gates_ok_def)
    let ?k = "if gt_id k = gt_id g then f k else k"
    from k(1) have "?k \<in> set ?gs" by (auto simp: set_set_where)
    with k f show "\<exists>h \<in> set ?gs. gt_requirement h = rq_id r \<and> gt_state h = GATE_OPEN
        \<and> rq_baseline r = Some (gt_baseline h)" by (intro bexI [of _ ?k]) auto
  qed
  moreover have undecided: "gt_id g \<notin> de_gate ` set ds" using dec g by (auto simp: decisions_ok_def)
  have "decisions_ok ?gs (?as @ [a]) ds"
    unfolding decisions_ok_def
  proof (intro conjI ballI)
    fix x assume x: "x \<in> set ?gs"
    then obtain y where y: "y \<in> set gs" "gt_id x = gt_id y" "gt_state x = gt_state y"
      using f by (auto simp: set_set_where split: if_splits)
    with dec show "(gt_state x = GATE_DECIDED) = (gt_id x \<in> de_gate ` set ds)"
      by (simp add: decisions_ok_def)
  next
    fix d assume d: "d \<in> set ds"
    with dec obtain y where y: "y \<in> set as" "ga_id y = de_assignment d" "ga_gate y = de_gate d"
        "ga_superseded_at y = None" "ga_current y = de_reviewer d" by (auto simp: decisions_ok_def)
    have "ga_id y \<noteq> ga_id c"
    proof
      assume "ga_id y = ga_id c"
      moreover have "inj_on ga_id (set as)" using ids by (simp add: ids_ok_def distinct_map)
      ultimately have "y = c" using y(1) c(1) by (simp add: inj_on_eq_iff)
      with c(2) y(3) have "gt_id g = de_gate d" by simp
      with undecided d show False by auto
    qed
    with y(1) have "y \<in> set ?as" by (auto simp: set_set_where image_iff)
    with y show "\<exists>y \<in> set (?as @ [a]). ga_id y = de_assignment d \<and> ga_gate y = de_gate d
        \<and> ga_superseded_at y = None \<and> ga_current y = de_reviewer d" by auto
  qed (use dec gkeys in \<open>simp_all add: decisions_ok_def\<close>)
  moreover have "approvals_ok rs ?gs ds"
    unfolding approvals_ok_def
  proof (intro ballI impI)
    fix r assume "r \<in> set rs" "past_confirmation (rq_state r)"
    with app obtain x d where x: "x \<in> set gs" "d \<in> set ds" "gt_requirement x = rq_id r"
        "rq_baseline r = Some (gt_baseline x)" "de_gate d = gt_id x" "de_outcome d = APPROVED"
      by (auto simp: approvals_ok_def approved_def)
    from x(1) have "(if gt_id x = gt_id g then f x else x) \<in> set ?gs" by (auto simp: set_set_where)
    with x f show "approved ?gs ds r"
      unfolding approved_def by (intro bexI [of _ "if gt_id x = gt_id g then f x else x"] bexI [of _ d]) auto
  qed
  ultimately show ?thesis using inv by (simp add: plan_inv_def at)
qed


text \<open>The items of a requirement whose gate is decided: not one is READY or started before, and
  afterwards each planned one has the target's state.\<close>

lemma reconciled_item_ok:
  assumes "item_ok s w" and "\<not> past_confirmation s" and "t \<in> {READY, PREPARING, CANCELED}"
    and "wi_requirement w = i"
  shows "item_ok t (if planned_stale i t w then reconciled_item t now w else w)"
proof -
  have idle: "wi_integration w = NOT_STARTED" "wi_state w \<noteq> ITEM_READY"
    using assms(1,2) unfolding item_ok_def by blast+
  have target: "planned_target t w = ITEM_READY \<longleftrightarrow>
      t = READY \<and> wi_assignment w = ASSIGNED \<and> wi_repository_state w = BOUND"
    by (simp add: planned_target_def)
  have "item_ok t v" if "wi_integration v = NOT_STARTED" "wi_state v = planned_target t w"
      "wi_assignment v = wi_assignment w" "wi_repository_state v = wi_repository_state w" for v
    using that target unfolding item_ok_def by auto
  with idle assms(4) show ?thesis by (simp add: planned_stale_def reconciled_item_def)
qed

lemma plan_decide:
  assumes inv: "plan_inv rs ws gs as ds" and r: "r \<in> set rs" "\<not> past_confirmation (rq_state r)"
    and f: "\<And>x. rq_id (f x) = rq_id x" "\<And>x. rq_baseline (f x) = rq_baseline x"
      "rq_state (f r) = decision_target (de_outcome d)"
    and g: "g \<in> set gs" "gt_requirement g = rq_id r" "gt_state g = GATE_OPEN"
      "rq_baseline r = Some (gt_baseline g)"
    and h: "\<And>x. gt_id (h x) = gt_id x" "\<And>x. gt_requirement (h x) = gt_requirement x"
      "\<And>x. gt_baseline (h x) = gt_baseline x" "\<And>x. gt_state (h x) = GATE_DECIDED"
    and a: "a \<in> set as" "ga_gate a = gt_id g" "ga_superseded_at a = None"
    and d: "de_gate d = gt_id g" "de_assignment d = ga_id a" "de_reviewer d = ga_current a"
    and at: "i = rq_id r" "j = gt_id g" "t = rq_state (f r)"
  shows "plan_inv (set_where (\<lambda>x. rq_id x = i) f rs)
    (set_where (planned_stale (i) (t)) (reconciled_item (t) now) ws)
    (set_where (\<lambda>x. gt_id x = j) h gs) as (ds @ [d])"
proof -
  let ?t = "rq_state (f r)"
  let ?rs = "set_where (\<lambda>x. rq_id x = rq_id r) f rs" and ?gs = "set_where (\<lambda>x. gt_id x = gt_id g) h gs"
  let ?ws = "set_where (planned_stale (rq_id r) ?t) (reconciled_item ?t now) ws"
  from inv have ids: "ids_ok rs ws gs as" and gates: "gates_ok rs gs" and dec: "decisions_ok gs as ds"
    and app: "approvals_ok rs gs ds" and items: "items_ok rs ws" by (simp_all add: plan_inv_def)
  have dist: "distinct (map rq_id rs)" "distinct (map gt_id gs)" using ids by (simp_all add: ids_ok_def)
  have target: "?t \<in> {READY, PREPARING, CANCELED}" "?t = READY \<longleftrightarrow> de_outcome d = APPROVED"
    using f(3) by (cases "de_outcome d"; simp add: decision_target_def)+
  have rows: "x = f r \<or> x \<in> set rs \<and> rq_id x \<noteq> rq_id r" if "x \<in> set ?rs" for x
    using set_where_key [OF dist(1) r(1) that] .
  have grows: "x = h g \<or> x \<in> set gs \<and> gt_id x \<noteq> gt_id g" if "x \<in> set ?gs" for x
    using set_where_key [OF dist(2) g(1) that] .
  have hg: "h g \<in> set ?gs" using g(1) by (auto simp: set_set_where)
  have kept: "x \<in> set ?gs" if "x \<in> set gs" "gt_id x \<noteq> gt_id g" for x
    using that by (auto simp: set_set_where image_iff)
  have rkeys: "rq_id ` set ?rs = rq_id ` set rs" "map rq_id ?rs = map rq_id rs"
    using f(1) by (simp_all add: set_where_image)
  have gkeys: "gt_id ` set ?gs = gt_id ` set gs" "map gt_id ?gs = map gt_id gs"
      "gt_requirement ` set ?gs = gt_requirement ` set gs"
    using h by (simp_all add: set_where_image)
  have wkeys: "map wi_id ?ws = map wi_id ws" "wi_requirement ` set ?ws = wi_requirement ` set ws"
    by (simp_all add: set_where_image reconciled_item_def)
  have "ids_ok ?rs ?ws ?gs as" using ids rkeys gkeys wkeys by (simp add: ids_ok_def)
  moreover have baselines: "map gt_baseline ?gs = map gt_baseline gs" by (rule set_where_keys) (rule h(3))
  have "gates_ok ?rs ?gs"
    unfolding gates_ok_def
  proof (intro conjI ballI impI)
    show "distinct (map gt_baseline ?gs)" using gates unfolding baselines by (simp add: gates_ok_def)
    fix x assume "x \<in> set ?rs" and waits: "rq_state x = AWAITING_CONFIRMATION"
    with rows [of x] target have x: "x \<in> set rs" "rq_id x \<noteq> rq_id r" by auto
    with gates waits obtain k where k: "k \<in> set gs" "gt_requirement k = rq_id x" "gt_state k = GATE_OPEN"
      "rq_baseline x = Some (gt_baseline k)" by (auto simp: gates_ok_def)
    have "gt_id k \<noteq> gt_id g"
    proof
      assume "gt_id k = gt_id g"
      then have "k = g" using k(1) g(1) dist(2) by (auto simp: distinct_map dest: inj_onD)
      with k(2) g(2) x(2) show False by simp
    qed
    with k kept show "\<exists>y \<in> set ?gs. gt_requirement y = rq_id x \<and> gt_state y = GATE_OPEN
        \<and> rq_baseline x = Some (gt_baseline y)" by (intro bexI [of _ k]) simp_all
  qed
  moreover have undecided: "gt_id g \<notin> de_gate ` set ds" using dec g by (auto simp: decisions_ok_def)
  have "decisions_ok ?gs as (ds @ [d])"
    unfolding decisions_ok_def
  proof (intro conjI ballI)
    fix x assume "x \<in> set ?gs"
    from grows [OF this] show "(gt_state x = GATE_DECIDED) = (gt_id x \<in> de_gate ` set (ds @ [d]))"
    proof
      assume "x = h g"
      then show ?thesis using h d by simp
    next
      assume x: "x \<in> set gs \<and> gt_id x \<noteq> gt_id g"
      then show ?thesis using dec d by (simp add: decisions_ok_def)
    qed
  next
    fix e assume "e \<in> set (ds @ [d])"
    then consider "e = d" | "e \<in> set ds" by auto
    then show "\<exists>y \<in> set as. ga_id y = de_assignment e \<and> ga_gate y = de_gate e
        \<and> ga_superseded_at y = None \<and> ga_current y = de_reviewer e"
    proof cases
      case 1
      with a d show ?thesis by (intro bexI [of _ a]) simp_all
    next
      case 2
      with dec show ?thesis by (simp add: decisions_ok_def)
    qed
  next
    show "distinct (map de_gate (ds @ [d]))" using dec undecided d by (simp add: decisions_ok_def)
    show "de_gate ` set (ds @ [d]) \<subseteq> gt_id ` set ?gs"
      using dec gkeys d g(1) by (simp add: decisions_ok_def)
  qed
  moreover have "approvals_ok ?rs ?gs (ds @ [d])"
    unfolding approvals_ok_def
  proof (intro ballI impI)
    fix x assume x: "x \<in> set ?rs" and past: "past_confirmation (rq_state x)"
    from rows [OF x] show "approved ?gs (ds @ [d]) x"
    proof
      assume xf: "x = f r"
      with past target have "de_outcome d = APPROVED" by auto
      with xf f g h d hg show ?thesis
        unfolding approved_def by (intro bexI [of _ "h g"] bexI [of _ d]) simp_all
    next
      assume "x \<in> set rs \<and> rq_id x \<noteq> rq_id r"
      with app past obtain k e where k: "k \<in> set gs" "e \<in> set ds" "gt_requirement k = rq_id x"
          "rq_baseline x = Some (gt_baseline k)" "de_gate e = gt_id k" "de_outcome e = APPROVED"
        by (auto simp: approvals_ok_def approved_def)
      have "gt_id k \<noteq> gt_id g" using k(2,5) undecided by force
      with kept k show ?thesis unfolding approved_def by auto
    qed
  qed
  moreover have "items_ok ?rs ?ws"
    unfolding items_ok_def
  proof (intro ballI impI)
    fix v x assume v: "v \<in> set ?ws" and x: "x \<in> set ?rs" and id: "rq_id x = wi_requirement v"
    from v obtain w where w: "w \<in> set ws"
        "v = (if planned_stale (rq_id r) ?t w then reconciled_item ?t now w else w)"
      by (auto simp: set_set_where)
    then have wv: "wi_requirement v = wi_requirement w" by (simp add: reconciled_item_def)
    from rows [OF x] show "item_ok (rq_state x) v"
    proof
      assume xf: "x = f r"
      with id wv f(1) have at: "rq_id r = wi_requirement w" by simp
      with items r(1) w(1) have "item_ok (rq_state r) w" by (simp add: items_ok_def)
      from reconciled_item_ok [OF this _ target(1) at [symmetric]] r(2) xf w(2) show ?thesis by simp
    next
      assume old: "x \<in> set rs \<and> rq_id x \<noteq> rq_id r"
      with id wv have "v = w" using w(2) by (simp add: planned_stale_def)
      with items old w(1) id show ?thesis by (simp add: items_ok_def)
    qed
  qed
  ultimately show ?thesis by (simp add: plan_inv_def at)
qed

end
