(* ===== verification/Requirement_Steps.thy ===== *)
theory Requirement_Steps
  imports Requirement_Invariant
begin

section \<open>The requirement module: every command keeps the invariant\<close>

text \<open>
  What each statement changes, then, command by command, that \<open>requirement_inv\<close> is kept. A command is
  taken apart along its \<open>rbind\<close> chain with \<open>res_elims\<close>; its writes are then rewritten by their effect.
\<close>

lemma if_InlE:
  assumes "(if b then Inl e else m) = Inr y"
  obtains "\<not> b" and "m = Inr y"
  using assms by (cases b) auto

lemma option_InlE:
  assumes "(case x of None \<Rightarrow> Inl e | Some z \<Rightarrow> f z) = Inr y"
  obtains z where "x = Some z" and "f z = Inr y"
  using assms by (cases x) auto

lemma letE:
  assumes "(let x = a in f x) = Inr y"
  obtains "f a = Inr y"
  using assms by (simp add: Let_def)

lemma branchE:
  assumes "(if b then m else n) = Inr y"
  obtains "b" and "m = Inr y" | "\<not> b" and "n = Inr y"
  using assms by (cases b) auto

lemma sum_InlE:
  assumes "(case m of Inl x \<Rightarrow> Inl (e x) | Inr z \<Rightarrow> f z) = Inr y"
  obtains z where "m = Inr z" and "f z = Inr y"
  using assms by (cases m) auto

lemma option_branchE:
  assumes "(case x of None \<Rightarrow> m | Some z \<Rightarrow> f z) = Inr y"
  obtains "x = None" and "m = Inr y" | z where "x = Some z" and "f z = Inr y"
  using assms by (cases x) auto

lemmas res_elims = rbind_pairE rbind_InrE if_InlE option_InlE sum_InlE letE branchE option_branchE

subsection \<open>Effects of the statements\<close>

named_theorems rq_effects "what a statement of the requirement repository changes"

lemma audit_effect [rq_effects]:
  "rq_audit env c i actor action tt ti reason corr db = Inr db' \<Longrightarrow> \<exists>l. db' = db\<lparr>rd_audit := l\<rparr>"
  unfolding rq_audit_def by (elim rbind_InrE) auto

lemma outbox_effect [rq_effects]: "insert_outbox m db = Inr db' \<Longrightarrow> \<exists>l. db' = db\<lparr>rd_outbox := l\<rparr>"
  unfolding insert_outbox_def by (elim rbind_InrE) auto

lemma write_outbox_effect: "written e (write_outbox i f db) = Inr (x, db') \<Longrightarrow> \<exists>l. db' = db\<lparr>rd_outbox := l\<rparr>"
  unfolding written_Inr write_outbox_def by (elim rbind_pairE) auto

lemma message_effects [rq_effects]:
  "written e (publish_outbox i now db) = Inr (x, db') \<Longrightarrow> \<exists>l. db' = db\<lparr>rd_outbox := l\<rparr>"
  "written e (release_outbox i c t db) = Inr (x, db') \<Longrightarrow> \<exists>l. db' = db\<lparr>rd_outbox := l\<rparr>"
  unfolding publish_outbox_def release_outbox_def by (erule write_outbox_effect)+

lemma insert_requirement_effect [rq_effects]:
  "insert_requirement r db = Inr db' \<Longrightarrow> rq_id r \<notin> rq_id ` set (rd_requirements db)
    \<and> db' = db\<lparr>rd_requirements := rd_requirements db @ [r]\<rparr>"
  unfolding insert_requirement_def by (elim rbind_InrE) (simp add: inserted_row_Inr)

lemma insert_item_effect [rq_effects]:
  "insert_work_item w db = Inr db' \<Longrightarrow> wi_id w \<notin> wi_id ` set (rd_items db)
    \<and> db' = db\<lparr>rd_items := rd_items db @ [w]\<rparr>"
  unfolding insert_work_item_def by (elim if_InlE rbind_InrE) (simp add: inserted_row_Inr)

lemma insert_assignment_effect [rq_effects]:
  "insert_work_item_assignment a db = Inr db' \<Longrightarrow> \<exists>l. db' = db\<lparr>rd_assignments := l\<rparr>"
  unfolding insert_work_item_assignment_def by (elim if_InlE rbind_InrE) auto

lemma self_assignment_effect [rq_effects]:
  assumes "insert_self_assignment b i who y now db = Inr (z, db')"
  shows "\<exists>l. db' = db\<lparr>rd_assignments := l\<rparr>"
proof (cases b)
  case True
  with assms show ?thesis unfolding insert_self_assignment_def
    by (auto elim!: rbind_InrE dest!: insert_assignment_effect)
next
  case False
  with assms have "db' = db\<lparr>rd_assignments := rd_assignments db\<rparr>" by (simp add: insert_self_assignment_def)
  then show ?thesis ..
qed

lemma superseded_current_effect [rq_effects]:
  assumes "superseded_current i current now db = Inr db'"
  shows "\<exists>l. db' = db\<lparr>rd_assignments := l\<rparr>"
proof (cases current)
  case None
  with assms have "db' = db\<lparr>rd_assignments := rd_assignments db\<rparr>" by (simp add: superseded_current_def)
  then show ?thesis ..
next
  case (Some a)
  with assms show ?thesis unfolding superseded_current_def supersede_work_item_assignment_def
    by (auto elim!: rbind_pairE simp: written_Inr)
qed

lemma insert_artifact_effect [rq_effects]:
  "insert_sdd_artifact_version a db = Inr db' \<Longrightarrow> \<exists>l. db' = db\<lparr>rd_artifacts := l\<rparr>"
  unfolding insert_sdd_artifact_version_def by (elim if_InlE rbind_InrE) auto

lemma insert_baseline_effect [rq_effects]:
  "insert_sdd_baseline b db = Inr db' \<Longrightarrow> \<exists>l. db' = db\<lparr>rd_baselines := l\<rparr>"
  unfolding insert_sdd_baseline_def by (elim if_InlE rbind_InrE) auto

lemma insert_gate_effect [rq_effects]:
  "insert_gate g db = Inr db' \<Longrightarrow> gt_id g \<notin> gt_id ` set (rd_gates db)
    \<and> db' = db\<lparr>rd_gates := rd_gates db @ [g]\<rparr>"
  unfolding insert_gate_def by (elim if_InlE rbind_InrE) (simp add: inserted_row_Inr)

lemma insert_gate_assignment_effect [rq_effects]:
  "insert_gate_assignment a db = Inr db' \<Longrightarrow> ga_id a \<notin> ga_id ` set (rd_gate_assignments db)
    \<and> db' = db\<lparr>rd_gate_assignments := rd_gate_assignments db @ [a]\<rparr>"
  unfolding insert_gate_assignment_def by (elim if_InlE rbind_InrE) (simp add: inserted_row_Inr)

lemma insert_decision_effect [rq_effects]:
  "insert_decision d db = Inr db' \<Longrightarrow> de_gate d \<notin> de_gate ` set (rd_decisions db)
    \<and> db' = db\<lparr>rd_decisions := rd_decisions db @ [d]\<rparr>"
  unfolding insert_decision_def by (elim if_InlE rbind_InrE) (simp add: inserted_row_Inr)

lemma write_requirement_effect:
  assumes "written e (write_requirement i p f db) = Inr (x, db')"
  shows "\<exists>r. requirement_by_id i db = Some r \<and> p r \<and> x = f r
    \<and> db' = db\<lparr>rd_requirements := set_where (\<lambda>y. rq_id y = i) f (rd_requirements db)\<rparr>"
  using assms unfolding written_Inr write_requirement_def requirement_by_id_def
  by (elim rbind_pairE) (auto dest!: update_row_Some)

lemma write_item_effect:
  assumes "written e (write_work_item i p f db) = Inr (x, db')"
  shows "\<exists>w. work_item_by_id i db = Some w \<and> p w \<and> x = f w
    \<and> db' = db\<lparr>rd_items := set_where (\<lambda>y. wi_id y = i) f (rd_items db)\<rparr>"
  using assms unfolding written_Inr write_work_item_def work_item_by_id_def
  by (elim rbind_pairE) (auto dest!: update_row_Some)

lemma write_gate_effect:
  assumes "written e (write_gate i p f db) = Inr (x, db')"
  shows "\<exists>g. gate_by_id i db = Some g \<and> p g \<and> x = f g
    \<and> db' = db\<lparr>rd_gates := set_where (\<lambda>y. gt_id y = i) f (rd_gates db)\<rparr>"
  using assms unfolding written_Inr write_gate_def gate_by_id_def
  by (elim rbind_pairE) (auto dest!: update_row_Some)

lemma supersede_gate_effect:
  assumes "written e (supersede_gate_assignment i n now db) = Inr (x, db')"
  shows "db' = db\<lparr>rd_gate_assignments :=
    set_where (\<lambda>y. ga_id y = i) (\<lambda>a. a\<lparr>ga_superseded_at := Some now\<rparr>) (rd_gate_assignments db)\<rparr>"
  using assms unfolding written_Inr supersede_gate_assignment_def
  by (elim rbind_pairE) (auto dest!: update_row_Some)

lemma requirement_found: "requirement_by_id i db = Some r \<Longrightarrow> r \<in> set (rd_requirements db) \<and> rq_id r = i"
  unfolding requirement_by_id_def by (rule row_by_Some)

lemma item_found: "work_item_by_id i db = Some w \<Longrightarrow> w \<in> set (rd_items db) \<and> wi_id w = i"
  unfolding work_item_by_id_def by (rule row_by_Some)

lemma gate_found: "gate_by_id i db = Some g \<Longrightarrow> g \<in> set (rd_gates db) \<and> gt_id g = i"
  unfolding gate_by_id_def by (rule row_by_Some)

lemma found_Inr [res_simps]: "found e x = Inr y \<longleftrightarrow> x = Some y"
  by (simp add: found_def of_option_Inr_iff)

lemma gate_assignment_found:
  "current_gate_assignment i db = Some a \<Longrightarrow>
    a \<in> set (rd_gate_assignments db) \<and> ga_gate a = i \<and> ga_superseded_at a = None"
  by (auto simp: current_gate_assignment_def find_Some_iff)

lemma baseline_found: "sdd_baseline_by_id i db = Some b \<Longrightarrow> b \<in> set (rd_baselines db) \<and> sb_id b = i"
  unfolding sdd_baseline_by_id_def by (rule row_by_Some)

lemma ungated_baseline: "gate_by_baseline_id b db = None \<Longrightarrow> b \<notin> gt_baseline ` set (rd_gates db)"
proof
  assume none: "gate_by_baseline_id b db = None" and "b \<in> gt_baseline ` set (rd_gates db)"
  then have "filter (\<lambda>g. gt_baseline g = b) (rd_gates db) \<noteq> []" by (auto simp: filter_empty_conv)
  then have "sort_key (\<lambda>g. (gt_created_at g, gt_id g)) (filter (\<lambda>g. gt_baseline g = b) (rd_gates db)) \<noteq> []"
    by (metis length_0_conv length_sort)
  with none show False by (simp add: gate_by_baseline_id_def split: list.splits)
qed

lemma at_revision_Inr:
  "at_revision_requirement i n db = Inr r \<Longrightarrow> requirement_by_id i db = Some r \<and> rq_revision r = n"
  unfolding at_revision_requirement_def by (elim rbind_InrE if_InlE) (simp add: found_Inr)

lemma gate_of_Inr: "gate_of i k db = Inr g \<Longrightarrow> gate_by_id k db = Some g \<and> gt_requirement g = i"
  unfolding gate_of_def by (elim option_InlE if_InlE) simp

subsection \<open>The invariant under single writes\<close>

text \<open>Whatever leaves the five tables alone.\<close>

lemma requirement_inv_frame [simp]:
  "requirement_inv (db\<lparr>rd_audit := l\<rparr>) = requirement_inv db"
  "requirement_inv (db\<lparr>rd_outbox := m\<rparr>) = requirement_inv db"
  "requirement_inv (db\<lparr>rd_assignments := a\<rparr>) = requirement_inv db"
  "requirement_inv (db\<lparr>rd_artifacts := b\<rparr>) = requirement_inv db"
  "requirement_inv (db\<lparr>rd_baselines := c\<rparr>) = requirement_inv db"
  "requirement_inv (db\<lparr>rd_keys := d\<rparr>) = requirement_inv db"
  by (simp_all add: requirement_inv_def)

lemma requirement_by_id_frame [simp]:
  "requirement_by_id i (db\<lparr>rd_audit := l\<rparr>) = requirement_by_id i db"
  "requirement_by_id i (db\<lparr>rd_outbox := m\<rparr>) = requirement_by_id i db"
  "requirement_by_id i (db\<lparr>rd_assignments := a\<rparr>) = requirement_by_id i db"
  "requirement_by_id i (db\<lparr>rd_artifacts := b\<rparr>) = requirement_by_id i db"
  "requirement_by_id i (db\<lparr>rd_baselines := c\<rparr>) = requirement_by_id i db"
  "requirement_by_id i (db\<lparr>rd_keys := d\<rparr>) = requirement_by_id i db"
  "requirement_by_id i (db\<lparr>rd_items := w\<rparr>) = requirement_by_id i db"
  "requirement_by_id i (db\<lparr>rd_gates := g\<rparr>) = requirement_by_id i db"
  "requirement_by_id i (db\<lparr>rd_gate_assignments := ga\<rparr>) = requirement_by_id i db"
  "requirement_by_id i (db\<lparr>rd_decisions := de\<rparr>) = requirement_by_id i db"
  by (simp_all add: requirement_by_id_def)

lemma work_item_by_id_frame [simp]:
  "work_item_by_id i (db\<lparr>rd_assignments := a\<rparr>) = work_item_by_id i db"
  "work_item_by_id i (db\<lparr>rd_keys := d\<rparr>) = work_item_by_id i db"
  by (simp_all add: work_item_by_id_def)

lemma gate_by_id_frame [simp]:
  "gate_by_id i (db\<lparr>rd_decisions := de\<rparr>) = gate_by_id i db"
  "gate_by_id i (db\<lparr>rd_gate_assignments := ga\<rparr>) = gate_by_id i db"
  by (simp_all add: gate_by_id_def)

lemma write_requirement_inv:
  assumes inv: "requirement_inv db" and w: "written e (write_requirement i p f db) = Inr (x, db')"
    and key: "\<And>y. rq_id (f y) = rq_id y"
    and change: "\<And>r. requirement_by_id i db = Some r \<Longrightarrow> p r \<Longrightarrow>
        \<not> past_confirmation (rq_state r) \<and> before_confirmation (rq_state (f r))
      \<or> rq_baseline (f r) = rq_baseline r \<and> (rq_state (f r) = rq_state r
          \<or> past_confirmation (rq_state r) \<and> past_confirmation (rq_state (f r)) \<and> rq_state (f r) \<noteq> READY)"
  shows "requirement_inv db'"
proof -
  from write_requirement_effect [OF w] obtain r where r: "requirement_by_id i db = Some r" "p r"
    and db': "db' = db\<lparr>rd_requirements := set_where (\<lambda>y. rq_id y = i) f (rd_requirements db)\<rparr>" by blast
  from requirement_found [OF r(1)] have mem: "r \<in> set (rd_requirements db)" and i: "i = rq_id r" by simp_all
  from plan_update_requirement [OF inv [unfolded requirement_inv_def] mem key change [OF r]]
  show ?thesis by (simp add: requirement_inv_def db' i)
qed

lemma write_item_inv:
  assumes inv: "requirement_inv db" and w: "written e (write_work_item i p f db) = Inr (x, db')"
    and key: "\<And>y. wi_id (f y) = wi_id y" "\<And>y. wi_requirement (f y) = wi_requirement y"
    and ok: "\<And>v r. work_item_by_id i db = Some v \<Longrightarrow> p v \<Longrightarrow> requirement_by_id (wi_requirement v) db = Some r \<Longrightarrow>
      item_ok (rq_state r) v \<Longrightarrow> item_ok (rq_state r) (f v)"
  shows "requirement_inv db'"
proof -
  from write_item_effect [OF w] obtain v where v: "work_item_by_id i db = Some v" "p v"
    and db': "db' = db\<lparr>rd_items := set_where (\<lambda>y. wi_id y = i) f (rd_items db)\<rparr>" by blast
  from item_found [OF v(1)] have mem: "v \<in> set (rd_items db)" and i: "i = wi_id v" by simp_all
  have at: "requirement_by_id (wi_requirement v) db = Some r"
    if "r \<in> set (rd_requirements db)" "rq_id r = wi_requirement v" for r
    using that inv row_by_distinct [of rq_id "rd_requirements db" r]
    by (simp add: requirement_inv_def plan_inv_def ids_ok_def requirement_by_id_def)
  from plan_update_item [OF inv [unfolded requirement_inv_def] mem key, OF ok [OF v at]]
  show ?thesis by (simp add: requirement_inv_def db' i)
qed

lemma item_ok_here:
  assumes "requirement_inv db" and "work_item_by_id i db = Some w"
    and "requirement_by_id (wi_requirement w) db = Some r"
  shows "item_ok (rq_state r) w"
  using assms item_found requirement_found
  by (auto simp: requirement_inv_def plan_inv_def items_ok_def)


subsection \<open>Creating and planning\<close>

lemma create_inv:
  assumes "requirement_inv db"
    and "create_requirement_once env workspace t title description criteria repository actor db = Inr (x, db')"
  shows "requirement_inv db'"
  using assms(2) unfolding create_requirement_once_def
  apply (elim res_elims)
  apply (drule insert_requirement_effect insert_item_effect self_assignment_effect outbox_effect audit_effect)+
  using assms(1)
  apply (clarsimp simp: requirement_inv_def)
  apply (rule plan_new_requirement)
  apply (simp_all add: new_requirement_def new_work_item_def)
  done

lemma claim_inv:
  assumes "requirement_inv db" and "claim_repository_binding_requests limit before lease db = Inr (x, db')"
  shows "requirement_inv db'"
  using assms unfolding claim_repository_binding_requests_def claim_binding_requests_def Let_def
  by (elim res_elims) (auto split: if_splits)

lemma release_inv:
  assumes "requirement_inv db" and "release_repository_binding_request i c t db = Inr db'"
  shows "requirement_inv db'"
  using assms(2) unfolding release_repository_binding_request_def
  by (elim res_elims) (use assms(1) in \<open>auto dest!: message_effects\<close>)

text \<open>A state update is kept when it restarts or continues the preparation, changes nothing, or moves on.\<close>

lemma update_state_inv:
  assumes inv: "requirement_inv db" and w: "written e (update_requirement_state i n t now db) = Inr (x, db')"
    and change: "\<And>r. requirement_by_id i db = Some r \<Longrightarrow> \<not> past_confirmation (rq_state r) \<and> before_confirmation t
      \<or> t = rq_state r \<or> past_confirmation (rq_state r) \<and> past_confirmation t \<and> t \<noteq> READY"
  shows "requirement_inv db'"
  by (rule write_requirement_inv [OF inv w [unfolded update_requirement_state_def]]) (use change in auto)

lemma to_preparing:
  "transition_requirement s PREPARING = Inr t \<Longrightarrow> \<not> past_confirmation s \<and> before_confirmation t"
  by (cases s) (simp_all add: transition_requirement_def before_confirmation_def past_confirmation_def
    first_batch_transitions_def split: if_splits)

lemma preparing_before [simp]: "before_confirmation PREPARING" "before_confirmation CREATED"
  by (simp_all add: before_confirmation_def)

lemma acknowledge_inv:
  assumes inv: "requirement_inv db" and "acknowledge_repository_binding_request env i c db = Inr (x, db')"
  shows "requirement_inv db'"
proof -
  have restart: "requirement_inv db2"
    if "written e (update_requirement_state (rq_id r) n PREPARING now db1) = Inr (y, db2)"
      "requirement_by_id j db1 = Some r" "rq_state r = CREATED" "requirement_inv db1"
    for e r n now db1 y db2 j
    by (rule update_state_inv [OF that(4,1)]) (use that requirement_found [OF that(2)] in simp)
  from assms(2) show ?thesis
    unfolding acknowledge_repository_binding_request_def
    apply (elim res_elims)
    subgoal using inv by (auto dest!: message_effects)
    subgoal by (drule message_effects audit_effect)+ (clarsimp simp: found_Inr, erule restart, use inv in simp_all)
    subgoal using inv by simp
    subgoal by (drule audit_effect)+ (clarsimp simp: found_Inr, erule restart, use inv in simp_all)
    done
qed

lemma start_preparation_inv:
  assumes inv: "requirement_inv db" and "start_requirement_preparation_once env i n actor db = Inr (x, db')"
  shows "requirement_inv db'"
  using assms(2) unfolding start_requirement_preparation_once_def
  apply (elim res_elims)
  apply (drule audit_effect at_revision_Inr to_preparing)+
  apply clarsimp
  apply (erule update_state_inv [OF inv])
  apply simp
  done

lemma bind_inv:
  assumes inv: "requirement_inv db"
    and "record_repository_binding_once env i repo sha branch n actor corr db = Inr (x, db')"
  shows "requirement_inv db'"
  using assms(2) unfolding record_repository_binding_once_def
  apply (elim res_elims)
  subgoal using inv by simp
  subgoal using inv by (simp split: if_splits)
  apply (drule audit_effect)+
  apply (clarsimp simp: found_Inr)
  unfolding bind_work_item_def
  apply (erule write_item_inv [OF inv])
    apply (auto simp: item_ok_def derive_work_item_state_def)
  done

lemma block_inv:
  assumes inv: "requirement_inv db"
    and "record_repository_binding_blocked_once env i repo why n actor corr db = Inr (x, db')"
  shows "requirement_inv db'"
  using assms(2) unfolding record_repository_binding_blocked_once_def
  apply (elim res_elims)
  subgoal using inv by simp
  apply (drule audit_effect)+
  apply (clarsimp simp: found_Inr)
  unfolding block_work_item_def
  apply (erule write_item_inv [OF inv])
    apply (auto simp: item_ok_def)
  done

lemma add_inv:
  assumes inv: "requirement_inv db" and "add_work_item_once env i repo n actor db = Inr (x, db')"
  shows "requirement_inv db'"
  using assms(2) unfolding add_work_item_once_def
  apply (elim res_elims)
  apply (drule audit_effect outbox_effect insert_item_effect self_assignment_effect at_revision_Inr)+
  apply clarsimp
  unfolding update_requirement_plan_def
  apply (erule write_requirement_inv [rotated])
    apply simp
   apply simp
  apply (drule requirement_found)
  using inv apply (clarsimp simp: requirement_inv_def)
  apply (erule plan_new_item)
       apply (simp_all add: new_work_item_def)
  done

lemma create_artifact_inv:
  assumes inv: "requirement_inv db" and "create_sdd_artifact_once env i a c n actor db = Inr (x, db')"
  shows "requirement_inv db'"
  using assms(2) unfolding create_sdd_artifact_once_def
  apply (elim res_elims)
  apply (drule audit_effect insert_artifact_effect at_revision_Inr)+
  apply clarsimp
  apply (erule update_state_inv [rotated])
   apply simp_all
  using inv by simp

lemma assign_inv:
  assumes inv: "requirement_inv db"
    and "assign_work_item_once env i item owner reason n actor db = Inr (x, db')"
  shows "requirement_inv db'"
proof -
  have outbox: "\<exists>l. db2 = db1\<lparr>rd_outbox := l\<rparr>" if "(if b then insert_outbox m db1 else Inr db1) = Inr db2"
    for b m db1 db2 using that by (cases b) (auto dest!: outbox_effect intro: exI [of _ "rd_outbox db1"])
  from assms(2) show ?thesis
    unfolding assign_work_item_once_def
    apply (elim rbind_pairE rbind_InrE if_InlE option_InlE sum_InlE letE)
    apply (drule audit_effect insert_assignment_effect superseded_current_effect outbox)+
    apply (clarsimp simp: found_Inr)
    unfolding assign_work_item_projection_def
    apply (erule write_item_inv [rotated])
       apply simp_all
     apply (auto simp: item_ok_def) [1]
    apply (rule inv)
    done
qed

subsection \<open>Baselines and gates\<close>

lemma register_inv:
  assumes inv: "requirement_inv db"
    and "register_sdd_baseline_once env i artifact version n actor db = Inr (x, db')"
  shows "requirement_inv db'"
  using assms(2) unfolding register_sdd_baseline_once_def
  apply (elim res_elims)
  subgoal
    apply (drule audit_effect insert_baseline_effect at_revision_Inr)+
    apply clarsimp
    unfolding set_current_sdd_baseline_def
    apply (erule write_requirement_inv [rotated])
      apply simp_all
    apply (rule inv)
    done
  subgoal using inv by simp
  done

lemma to_confirmation:
  "transition_requirement s AWAITING_CONFIRMATION = Inr t \<Longrightarrow> s = PREPARING \<and> t = AWAITING_CONFIRMATION"
  by (cases s) (simp_all add: transition_requirement_def first_batch_transitions_def split: if_splits)

lemma submit_inv:
  assumes inv: "requirement_inv db"
    and "submit_baseline_confirmation_once env i baseline n actor db = Inr (x, db')"
  shows "requirement_inv db'"
  using assms(2) unfolding submit_baseline_confirmation_once_def update_requirement_state_def
  apply (elim res_elims)
  apply (drule audit_effect insert_gate_effect insert_gate_assignment_effect write_requirement_effect
    at_revision_Inr to_confirmation)+
  apply (clarsimp simp: found_Inr)
  apply (drule ungated_baseline requirement_found baseline_found)+
  using inv apply (clarsimp simp: requirement_inv_def baseline_current_def)
  apply (rule plan_submit)
            apply assumption+
            apply (simp_all add: new_gate_def)
  done

text \<open>The open gate on the current baseline of a requirement: it is not past its confirmation.\<close>

lemma open_gate_not_past:
  assumes inv: "plan_inv rs ws gs as ds" and r: "r \<in> set rs" and g: "g \<in> set gs" "gt_state g = GATE_OPEN"
    "rq_baseline r = Some (gt_baseline g)"
  shows "\<not> past_confirmation (rq_state r)"
proof
  assume "past_confirmation (rq_state r)"
  with inv r obtain k d where k: "k \<in> set gs" "d \<in> set ds" "rq_baseline r = Some (gt_baseline k)"
    "de_gate d = gt_id k" by (auto simp: plan_inv_def approvals_ok_def approved_def)
  have "inj_on gt_baseline (set gs)" using inv by (simp add: plan_inv_def gates_ok_def distinct_map)
  with k g have "k = g" by (simp add: inj_on_eq_iff)
  have "gt_id g \<notin> de_gate ` set ds" using inv g(1,2) by (auto simp: plan_inv_def decisions_ok_def)
  with imageI [OF k(2), of de_gate] k(4) \<open>k = g\<close> show False by simp
qed

lemma reassign_inv:
  assumes inv: "requirement_inv db"
    and "reassign_baseline_gate_once env i gate reviewer reason n actor db = Inr (x, db')"
  shows "requirement_inv db'"
  using assms(2) unfolding reassign_baseline_gate_once_def reassign_gate_def
  apply (elim res_elims)
  apply (drule audit_effect supersede_gate_effect insert_gate_assignment_effect write_gate_effect gate_of_Inr)+
  apply (clarsimp simp: found_Inr)
  apply (drule gate_found gate_assignment_found requirement_found)+
  using inv apply (clarsimp simp: requirement_inv_def)
  apply (rule plan_reassign)
                 apply assumption+
                 apply (simp_all add: set_where_image)
  done

lemma reconcile_effect [rq_effects]:
  "reconcile_planned_work_item_states i t now db = Inr db' \<Longrightarrow>
    db' = db\<lparr>rd_items := set_where (planned_stale i t) (reconciled_item t now) (rd_items db)\<rparr>"
  by (simp add: reconcile_planned_work_item_states_def split: if_splits)

lemma to_decided:
  "transition_requirement s (decision_target outcome) = Inr t \<Longrightarrow> t = decision_target outcome"
  by (simp add: transition_requirement_def split: if_splits)

lemma decide_inv:
  assumes inv: "requirement_inv db"
    and "decide_baseline_once env i gate outcome reason n actor db = Inr (x, db')"
  shows "requirement_inv db'"
  using assms(2) unfolding decide_baseline_once_def close_gate_def update_requirement_state_def
  apply (elim res_elims)
  apply (drule audit_effect insert_decision_effect write_gate_effect write_requirement_effect gate_of_Inr
    at_revision_Inr reconcile_effect to_decided)+
  apply (clarsimp simp: found_Inr gate_subject_current_def)
  apply (drule gate_found gate_assignment_found requirement_found)+
  using inv apply (clarsimp simp: requirement_inv_def)
  apply (rename_tac r g a why l)
  apply (frule_tac r = r in open_gate_not_past)
      apply assumption+
  apply (rule_tac r = r and g = g and a = a in plan_decide)
                     apply assumption+
                    apply simp_all
  done

subsection \<open>Starting work and delivering it\<close>

lemma locked_Inr:
  "locked_subject i item db = Inr (r, w) \<Longrightarrow> requirement_by_id i db = Some r \<and> rq_id r = i
    \<and> work_item_by_id item db = Some w \<and> wi_id w = item \<and> wi_requirement w = i"
  unfolding locked_subject_def
  by (elim res_elims) (auto simp: found_Inr dest: item_found requirement_found)

lemma bound_subject: "validate_human_subject w who b = Inr u \<Longrightarrow> wi_repository_state w = BOUND"
  by (simp add: validate_human_subject_def split: if_splits)

lemma delivered_inv:
  assumes inv: "requirement_inv db" and sub: "locked_subject i item db = Inr (r, w)"
    and w: "wi_repository_state w = BOUND" and past: "past_confirmation (rq_state r)"
    and step: "update_delivery w st d b now db = Inr (w', db1)" "update_requirement r t now db1 = Inr (r', db2)"
    and new: "st \<noteq> ITEM_READY" "d \<noteq> NOT_STARTED" "past_confirmation t" "t \<noteq> READY"
  shows "requirement_inv db2"
proof -
  note found = locked_Inr [OF sub]
  note item = step(1) [unfolded update_delivery_def update_work_item_delivery_def]
  have "requirement_inv db1"
  proof (rule write_item_inv [OF inv item])
    fix v q assume "work_item_by_id (wi_id w) db = Some v" "requirement_by_id (wi_requirement v) db = Some q"
    with found have "v = w" "q = r" by simp_all
    with w past new(1,2) show "item_ok (rq_state q) (v\<lparr>wi_state := st, wi_integration := d,
        wi_binding := b, wi_integration_reason := None, wi_integration_at := Some now,
        wi_revision := wi_revision v + 1, wi_updated_at := now\<rparr>)" by (simp add: item_ok_def)
  qed simp_all
  moreover from write_item_effect [OF item] obtain l where l: "db1 = db\<lparr>rd_items := l\<rparr>" by blast
  ultimately show ?thesis
  proof (intro update_state_inv [OF _ step(2) [unfolded update_requirement_def]])
    fix q assume "requirement_by_id (rq_id r) db1 = Some q"
    with found l have "q = r" by simp
    with past new(3,4) show "\<not> past_confirmation (rq_state q) \<and> before_confirmation t \<or> t = rq_state q
        \<or> past_confirmation (rq_state q) \<and> past_confirmation t \<and> t \<noteq> READY" by simp
  qed
qed

lemma start_work_inv:
  assumes inv: "requirement_inv db" and sub: "locked_subject i item db = Inr (r, w)"
    and bound: "validate_human_subject w who b = Inr u"
    and "start_work_item_once env who r w db = Inr (x, db')"
  shows "requirement_inv db'"
  using assms(4) unfolding start_work_item_once_def
  apply (elim res_elims)
  apply (drule audit_effect)
  apply (clarsimp simp: transition_human_work_started_def split: if_splits)
  apply (drule (1) delivered_inv [OF inv sub bound_subject [OF bound], rotated])
  apply auto
  done

lemma request_delivery_inv:
  assumes inv: "requirement_inv db" and sub: "locked_subject i item db = Inr (r, w)"
    and bound: "validate_human_subject w who b = Inr u"
    and "request_delivery_once env m who r w db = Inr (x, db')"
  shows "requirement_inv db'"
  using assms(4) unfolding request_delivery_once_def Let_def
  apply (elim rbind_pairE rbind_InrE if_InlE)
  apply (drule audit_effect outbox_effect)+
  apply clarsimp
  apply (drule (1) delivered_inv [OF inv sub bound_subject [OF bound], rotated])
       apply (cases m; simp)+
  done

end
