(* ===== verification/Requirement_Demo.thy ===== *)
theory Requirement_Demo
  imports Requirement_Steps
begin

section \<open>The requirement module: a requirement from creation to work\<close>

text \<open>
  A small run of the module's commands on an empty database, the concrete input of the witnesses:
  \<open>anna\<close> creates a requirement with one work item, source control takes the request and records the
  binding, the SDD baseline is registered and submitted, \<open>rita\<close> approves it and \<open>anna\<close> starts the item.
\<close>

definition empty_requirement_db :: requirement_db where
  "empty_requirement_db = \<lparr>rd_requirements = [], rd_items = [], rd_assignments = [], rd_artifacts = [],
     rd_baselines = [], rd_gates = [], rd_gate_assignments = [], rd_decisions = [], rd_outbox = [],
     rd_keys = [], rd_audit = []\<rparr>"

definition demo_digest :: string where
  "demo_digest = ''sha256:'' @ replicate 64 CHR ''0''"

definition demo_rv :: "string \<Rightarrow> instant \<Rightarrow> requirement_env" where
  "demo_rv tag now = \<lparr>rv_clock = (\<lambda>_. now), rv_new_id = (\<lambda>n. tag @ replicate n CHR ''i''),
     rv_request = Some ''q'', rv_digest = (\<lambda>_. demo_digest), rv_set_digest = (\<lambda>_. demo_digest),
     rv_text_digest = (\<lambda>_. demo_digest), rv_uuid = Some,
     rv_route = (\<lambda>_. Inr \<lparr>rs_version = 1, rs_hash = demo_digest, rs_capabilities = [''code''],
       rs_steps = [''build'']\<rparr>),
     rv_can_assign = (\<lambda>_ _ _ _. Inr True), rv_can_auto_assign = (\<lambda>_ _ _ _. Inr True),
     rv_artifacts = Some (\<lambda>_ a v. Inr \<lparr>as_id = a, as_version = v, as_sha256 = demo_digest,
       as_available = True, as_trusted = True, as_media_type = ''text/markdown; charset=utf-8''\<rparr>),
     rv_gate_policies = Some (\<lambda>_. Inr \<lparr>gp_version = 1, gp_reviewer = ''rita'', gp_code = ''SDD'',
       gp_hash = demo_digest\<rparr>),
     rv_can_decide = Some (\<lambda>_ _. Inr True)\<rparr>"

definition demo_rq_sealer :: sealer where
  "demo_rq_sealer = \<lparr>seal = (\<lambda>_. ''s''), unseal = (\<lambda>_. None), request_fingerprint = (\<lambda>_ _ _ _. ''f'')\<rparr>"

definition anna :: requirement_actor where
  "anna = (Some ''anna'', None)"

definition rita :: requirement_actor where
  "rita = (None, Some ''rita'')"

text \<open>A codec whose validation returns one value, and values to return.\<close>

definition demo_dto :: "'a \<Rightarrow> 'a dto_codec" where
  "demo_dto x = \<lparr>dto_dump = (\<lambda>_. PyNone), dto_validate = (\<lambda>_. Some x)\<rparr>"

definition some_requirement :: requirement_row where
  "some_requirement = new_requirement (demo_rv [] 0) ''ws'' FEAT ''title'' ''text'' [''done''] ''repo'' ''anna''
     \<lparr>rs_version = 1, rs_hash = demo_digest, rs_capabilities = [], rs_steps = []\<rparr>"

definition some_item :: work_item_row where
  "some_item = new_work_item ''w'' ''a'' ''anna'' True [] ''repo'' 0"

definition some_baseline :: baseline_row where
  "some_baseline = new_baseline ''b'' some_requirement \<lparr>as_id = ''doc'', as_version = ''1'', as_sha256 = demo_digest,
     as_available = True, as_trusted = True, as_media_type = []\<rparr> ''anna'' 0"

definition some_gate :: gate_row where
  "some_gate = new_gate ''g'' some_baseline \<lparr>gp_version = 1, gp_reviewer = ''rita'', gp_code = ''SDD'',
     gp_hash = demo_digest\<rparr> 0"

definition some_office :: gate_assignment_row where
  "some_office = \<lparr>ga_id = ''o'', ga_gate = ''g'', ga_default = ''rita'', ga_current = ''rita'', ga_revision = 1,
     ga_assigned_at = 0, ga_superseded_at = None\<rparr>"

definition some_decision :: decision_row where
  "some_decision = \<lparr>de_id = ''d'', de_gate = ''g'', de_assignment = ''o'', de_reviewer = ''rita'',
     de_outcome = APPROVED, de_reason = ''fine'', de_subject_revision = 1, de_decided_at = 0\<rparr>"

text \<open>Commands as functions on the database, and runs of them.\<close>

definition state_after :: "('e, 'a \<times> requirement_db) res \<Rightarrow> requirement_db option" where
  "state_after m = (case m of Inl _ \<Rightarrow> None | Inr (_, db) \<Rightarrow> Some db)"

lemma state_after_Some: "state_after m = Some db \<Longrightarrow> \<exists>x. m = Inr (x, db)"
  by (auto simp: state_after_def split: sum.splits)

fun run :: "(requirement_db \<Rightarrow> requirement_db option) list \<Rightarrow> requirement_db \<Rightarrow> requirement_db option" where
  "run [] db = Some db"
| "run (c # cs) db = (case c db of None \<Rightarrow> None | Some db' \<Rightarrow> run cs db')"

definition demo_create :: "requirement_db \<Rightarrow> requirement_db option" where
  "demo_create db = state_after (create_requirement (demo_rv ''a'' 1) demo_rq_sealer
     (demo_dto (some_requirement, some_item))
     ''ws'' FEAT ''title'' ''text'' [''done''] ''repo'' anna ''k1'' db)"

definition demo_acknowledge :: "requirement_db \<Rightarrow> requirement_db option" where
  "demo_acknowledge db = state_after
     (acknowledge_repository_binding_request (demo_rv ''b'' 2) ''aii'' ''SOURCE_CONTROL'' db)"

definition demo_bind :: "requirement_db \<Rightarrow> requirement_db option" where
  "demo_bind db = state_after (record_repository_binding (demo_rv ''c'' 3) demo_rq_sealer (demo_dto some_item)
     ''ai'' ''repo'' ''c0ffee'' ''task'' 1 anna ''k2'' ''q'' db)"

definition demo_register :: "requirement_db \<Rightarrow> requirement_db option" where
  "demo_register db = state_after (fst (register_sdd_baseline (demo_rv ''d'' 4) demo_rq_sealer
     (demo_dto (some_requirement, some_baseline)) ''a'' ''doc'' ''1'' 2 anna ''k3'' db))"

definition demo_submit :: "requirement_db \<Rightarrow> requirement_db option" where
  "demo_submit db = state_after (fst (submit_baseline_confirmation (demo_rv ''e'' 5) demo_rq_sealer
     (demo_dto (some_requirement, some_gate, some_office)) ''a'' ''d'' 3 anna ''k4'' db))"

definition demo_decide :: "requirement_db \<Rightarrow> requirement_db option" where
  "demo_decide db = state_after (fst (decide_baseline (demo_rv ''f'' 6) demo_rq_sealer
     (demo_dto (some_requirement, some_gate, some_decision)) ''a'' ''e'' APPROVED ''fine'' 4 rita ''k5'' db))"

definition demo_start :: "requirement_db \<Rightarrow> requirement_db option" where
  "demo_start db = state_after (fst (start_work_item (demo_rv ''g'' 7) demo_rq_sealer
     (demo_dto (some_requirement, some_item, None)) ''a'' ''ai'' 5 anna ''k6'' db))"

text \<open>Preparation restarted while the gate is open.\<close>

definition demo_restart :: "requirement_db \<Rightarrow> requirement_db option" where
  "demo_restart db = state_after (start_requirement_preparation_once (demo_rv ''h'' 6) ''a'' 4 anna db)"

text \<open>The body of the decision alone.\<close>

definition demo_decide_once :: "requirement_db \<Rightarrow> requirement_db option" where
  "demo_decide_once db = state_after
     (decide_baseline_once (demo_rv ''f'' 6) ''a'' ''e'' APPROVED ''fine'' 4 rita db)"

definition states :: "requirement_db \<Rightarrow>
    requirement_state list \<times> (work_item_state \<times> integration_state) list \<times> gate_state list" where
  "states db = (map rq_state (rd_requirements db), map (\<lambda>w. (wi_state w, wi_integration w)) (rd_items db),
     map gt_state (rd_gates db))"

definition demo_report :: "requirement_db \<Rightarrow> bool" where
  "demo_report db = (states db = ([AWAITING_CONFIRMATION], [(ITEM_DRAFT, NOT_STARTED)], [GATE_OPEN])
     \<and> (case demo_decide db of None \<Rightarrow> False
        | Some db1 \<Rightarrow> states db1 = ([READY], [(ITEM_READY, NOT_STARTED)], [GATE_DECIDED])
            \<and> demo_decide_once db \<noteq> None
            \<and> (case demo_start db1 of None \<Rightarrow> False
               | Some db2 \<Rightarrow> states db2 = ([IN_PROGRESS], [(ITEM_IN_PROGRESS, IMPLEMENTING)], [GATE_DECIDED])))
     \<and> (case demo_restart db of None \<Rightarrow> False
        | Some db1 \<Rightarrow> states db1 = ([PREPARING], [(ITEM_DRAFT, NOT_STARTED)], [GATE_OPEN])))"

lemma demo_run: "case run [demo_create, demo_acknowledge, demo_bind, demo_register, demo_submit] empty_requirement_db
     of None \<Rightarrow> False | Some db \<Rightarrow> demo_report db"
  by code_simp

end
