(* ===== verification/Requirement_Safety.thy ===== *)
theory Requirement_Safety
  imports Requirement_Demo
begin

section \<open>The requirement module: what holds in every reachable state\<close>

text \<open>
  The transactions of the module's interface as a relation, its refinement into the bodies of the
  commands and the writes of the idempotency layer, and what the invariant of the tables gives for
  every state the interface reaches: no work without an approval by the reviewer in office, planned
  items READY exactly by the plan, one open gate while a confirmation is awaited.
\<close>

subsection \<open>Steps\<close>

lemma execute_command_leads:
  assumes "execute_command env S K actor operation path body key status once db = Inr (x, db')"
    and "P db" and "\<And>t l. P t \<Longrightarrow> P (t\<lparr>rd_keys := l\<rparr>)" and "\<And>t l. Q t \<Longrightarrow> Q (t\<lparr>rd_keys := l\<rparr>)"
    and "\<And>t y t'. P t \<Longrightarrow> once t = Inr (y, t') \<Longrightarrow> Q t'" and "P db' \<Longrightarrow> Q db'"
  shows "Q db'"
proof -
  from assms(1) obtain q y where ex: "execute_idempotent requirement_keys S q None (responding K status once) db
      = Inr (y, db')"
    unfolding execute_command_def validated_result_def
    by (elim rbind_InrE) (auto split: option.splits)
  show ?thesis
  proof (rule execute_preserves [where P = P and Q = Q, OF ex assms(2)])
    fix i a p k fp now t c t'
    assume "claim_idempotency requirement_keys i a p k fp now t = Inr (c, t')" and "P t"
    then show "P t'" using assms(3) by (auto simp: requirement_keys_def table_repository_def elim!: rbind_pairE)
  next
    fix i st md sealed now t c t'
    assume "complete_idempotency requirement_keys i st md sealed now t = Inr (c, t')" and "Q t"
    then show "Q t'" using assms(4) by (auto simp: requirement_keys_def table_repository_def elim!: rbind_pairE)
  next
    fix t resp t' assume "responding K status once t = Inr (resp, t')" and "P t"
    then show "Q t'" using assms(5) by (auto simp: responding_def elim!: rbind_pairE)
  next
    assume "P db'" then show "Q db'" by (rule assms(6))
  qed
qed

lemmas execute_command_keeps = execute_command_leads [where P = P and Q = P for P, OF _ _ _ _ _ _, simplified]

lemma audited_result [simp]: "fst (audited_command env actor action tt ti m) = m"
  by (simp add: audited_command_def)

lemma execute_locked_leads:
  assumes "fst (execute_locked env S K operation path status i item n actor key b command db) = Inr (x, db')"
    and "P db" and "\<And>t l. P t \<Longrightarrow> P (t\<lparr>rd_keys := l\<rparr>)" and "\<And>t l. Q t \<Longrightarrow> Q (t\<lparr>rd_keys := l\<rparr>)"
    and "\<And>r w who u t y t'. P t \<Longrightarrow> locked_subject i item t = Inr (r, w) \<Longrightarrow>
      validate_human_subject w who b = Inr u \<Longrightarrow> command r w who t = Inr (y, t') \<Longrightarrow> Q t'"
    and "P db' \<Longrightarrow> Q db'"
  shows "Q db'"
proof -
  obtain who r w u where sub: "locked_subject i item db = Inr (r, w)"
    and bound: "validate_human_subject w who b = Inr u"
    and ex: "execute_command env S K actor operation path
               (PyDict [(''requirementId'', PyStr i), (''workItemId'', PyStr item),
                  (''expectedRevision'', PyInt n)]) key status (command r w who) db = Inr (x, db')"
    using assms(1) unfolding execute_locked_def lift_command_def
    by (auto simp: res_simps split: sum.splits if_splits prod.splits)
  have same: "locked_subject i item (t\<lparr>rd_keys := l\<rparr>) = locked_subject i item t" for t l
    by (simp add: locked_subject_def)
  show ?thesis
    by (rule execute_command_leads [where P = "\<lambda>t. P t \<and> locked_subject i item t = Inr (r, w)" and Q = Q, OF ex])
      (use assms(2-6) sub bound in \<open>auto simp: same\<close>)
qed

text \<open>One step: the body of a command, a delivery operation of the outbox, or a write of the idempotency
  layer. \<close>

inductive requirement_step :: "requirement_db \<Rightarrow> requirement_db \<Rightarrow> bool" where
  created: "create_requirement_once env workspace t title description criteria repository actor db = Inr (x, db') \<Longrightarrow>
    requirement_step db db'"
| claimed: "claim_repository_binding_requests limit before lease db = Inr (y, db') \<Longrightarrow>
    requirement_step db db'"
| acknowledged: "acknowledge_repository_binding_request env m c db = Inr (r, db') \<Longrightarrow>
    requirement_step db db'"
| released: "release_repository_binding_request m c until db = Inr db' \<Longrightarrow>
    requirement_step db db'"
| prepared: "start_requirement_preparation_once env i n actor db = Inr (r, db') \<Longrightarrow>
    requirement_step db db'"
| bound: "record_repository_binding_once env i repository sha branch n actor corr db = Inr (w, db') \<Longrightarrow>
    requirement_step db db'"
| blocked: "record_repository_binding_blocked_once env i repository why n actor corr db = Inr (w, db') \<Longrightarrow>
    requirement_step db db'"
| added: "add_work_item_once env i repository n actor db = Inr (z, db') \<Longrightarrow>
    requirement_step db db'"
| assigned: "assign_work_item_once env i item owner reason n actor db = Inr (v, db') \<Longrightarrow>
    requirement_step db db'"
| written_up: "create_sdd_artifact_once env i artifact content n actor db = Inr (av, db') \<Longrightarrow>
    requirement_step db db'"
| registered: "register_sdd_baseline_once env i art version n actor db = Inr (b, db') \<Longrightarrow>
    requirement_step db db'"
| submitted: "submit_baseline_confirmation_once env i baseline n actor db = Inr (g, db') \<Longrightarrow>
    requirement_step db db'"
| reassigned: "reassign_baseline_gate_once env i gate reviewer reason n actor db = Inr (ga, db') \<Longrightarrow>
    requirement_step db db'"
| decided: "decide_baseline_once env i gate outcome reason n actor db = Inr (d, db') \<Longrightarrow>
    requirement_step db db'"
| started: "locked_subject i item db = Inr (r, w) \<Longrightarrow> validate_human_subject w who True = Inr u \<Longrightarrow>
    start_work_item_once env who r w db = Inr (s, db') \<Longrightarrow> requirement_step db db'"
| requested: "locked_subject i item db = Inr (r, w) \<Longrightarrow> validate_human_subject w who b = Inr u \<Longrightarrow>
    request_delivery_once env m who r w db = Inr (s, db') \<Longrightarrow> requirement_step db db'"
| keyed: "requirement_step db (db\<lparr>rd_keys := keys\<rparr>)"

lemma requirement_step_inv:
  assumes "requirement_step db db'" and "requirement_inv db"
  shows "requirement_inv db'"
  using assms
  by (induction rule: requirement_step.induct)
    ((rule create_inv claim_inv acknowledge_inv release_inv start_preparation_inv bind_inv block_inv add_inv assign_inv create_artifact_inv register_inv submit_inv reassign_inv decide_inv start_work_inv
      request_delivery_inv; assumption) | simp)+

text \<open>The transactions of the module's interface, each with what it returns.\<close>

inductive requirement_command :: "requirement_db \<Rightarrow> requirement_db \<Rightarrow> bool" where
  create: "create_requirement env S Kc workspace t title description criteria repository actor key db = Inr (c, db') \<Longrightarrow>
    requirement_command db db'"
| claim: "claim_repository_binding_requests limit before lease db = Inr (y, db') \<Longrightarrow>
    requirement_command db db'"
| acknowledge: "acknowledge_repository_binding_request env m consumer db = Inr (r, db') \<Longrightarrow>
    requirement_command db db'"
| release: "release_repository_binding_request m code until db = Inr db' \<Longrightarrow>
    requirement_command db db'"
| prepare: "start_requirement_preparation env S Kr i n actor key db = Inr (r, db') \<Longrightarrow>
    requirement_command db db'"
| bind: "record_repository_binding env S Kw i repository sha branch n actor key corr db = Inr (w, db') \<Longrightarrow>
    requirement_command db db'"
| block: "record_repository_binding_blocked env S Kw i repository why n actor key corr db = Inr (w, db') \<Longrightarrow>
    requirement_command db db'"
| register: "fst (register_sdd_baseline env S Kb i art version n actor key db) = Inr (b, db') \<Longrightarrow>
    requirement_command db db'"
| submit: "fst (submit_baseline_confirmation env S Kg i baseline n actor key db) = Inr (g, db') \<Longrightarrow>
    requirement_command db db'"
| reassign: "fst (reassign_baseline_gate env S Ka i gate reviewer reason n actor key db) = Inr (ga, db') \<Longrightarrow>
    requirement_command db db'"
| decide: "fst (decide_baseline env S Kd i gate outcome reason n actor key db) = Inr (d, db') \<Longrightarrow>
    requirement_command db db'"
| add: "fst (add_work_item env S Kz i repository n actor key db) = Inr (z, db') \<Longrightarrow>
    requirement_command db db'"
| assign: "fst (assign_work_item env S Kv i item owner reason n actor key db) = Inr (v, db') \<Longrightarrow>
    requirement_command db db'"
| write_up: "fst (create_sdd_artifact env S Kf i artifact content n actor key db) = Inr (f, db') \<Longrightarrow>
    requirement_command db db'"
| start: "fst (start_work_item env S Ks i item n actor key db) = Inr (s, db') \<Longrightarrow>
    requirement_command db db'"
| request_mr: "fst (request_integration_merge_request env S Ks i item n actor key db) = Inr (s, db') \<Longrightarrow>
    requirement_command db db'"
| request_merge: "fst (request_integration_merge env S Ks i item n actor key db) = Inr (s, db') \<Longrightarrow>
    requirement_command db db'"

lemma command_steps:
  assumes "execute_command env S K actor operation path body key status once db = Inr (x, db')"
    and "\<And>t y t'. once t = Inr (y, t') \<Longrightarrow> requirement_step t t'"
  shows "requirement_step\<^sup>*\<^sup>* db db'"
  by (rule execute_command_keeps [where P = "requirement_step\<^sup>*\<^sup>* db", OF assms(1)])
    (auto intro: rtranclp.rtrancl_into_rtrancl keyed assms(2))

lemma locked_steps:
  assumes "fst (execute_locked env S K operation path status i item n actor key b command db) = Inr (x, db')"
    and "\<And>t r w who u y t'. locked_subject i item t = Inr (r, w) \<Longrightarrow>
      validate_human_subject w who b = Inr u \<Longrightarrow> command r w who t = Inr (y, t') \<Longrightarrow> requirement_step t t'"
  shows "requirement_step\<^sup>*\<^sup>* db db'"
  by (rule execute_locked_leads [where P = "requirement_step\<^sup>*\<^sup>* db" and Q = "requirement_step\<^sup>*\<^sup>* db", OF assms(1)])
    (auto intro: rtranclp.rtrancl_into_rtrancl keyed assms(2))

lemma requirement_command_refines:
  assumes "requirement_command db db'"
  shows "requirement_step\<^sup>*\<^sup>* db db'"
  using assms
proof cases
  case create
  then show ?thesis unfolding create_requirement_def
    by (rule command_steps) (rule created)
next
  case claim
  then show ?thesis by (blast intro: claimed)
next
  case acknowledge
  then show ?thesis by (blast intro: acknowledged)
next
  case release
  then show ?thesis by (blast intro: released)
next
  case prepare
  then show ?thesis unfolding start_requirement_preparation_def
    by (rule command_steps) (rule prepared)
next
  case bind
  then show ?thesis unfolding record_repository_binding_def
    by (elim rbind_InrE) (erule command_steps, rule bound)
next
  case block
  then show ?thesis unfolding record_repository_binding_blocked_def
    by (elim rbind_InrE) (erule command_steps, rule blocked)
next
  case register
  then show ?thesis unfolding register_sdd_baseline_def audited_result
    by (rule command_steps) (rule registered)
next
  case submit
  then show ?thesis unfolding submit_baseline_confirmation_def audited_result
    by (rule command_steps) (rule submitted)
next
  case reassign
  then show ?thesis unfolding reassign_baseline_gate_def audited_result
    by (rule command_steps) (rule reassigned)
next
  case decide
  then show ?thesis unfolding decide_baseline_def audited_result
    by (rule command_steps) (rule decided)
next
  case add
  then show ?thesis unfolding add_work_item_def audited_result
    by (rule command_steps) (rule added)
next
  case assign
  then show ?thesis unfolding assign_work_item_def audited_result
    by (rule command_steps) (rule assigned)
next
  case write_up
  then show ?thesis unfolding create_sdd_artifact_def audited_result
    by (rule command_steps) (rule written_up)
next
  case start
  then show ?thesis unfolding start_work_item_def
    by (rule locked_steps) (rule started)
next
  case request_mr
  then show ?thesis unfolding request_integration_merge_request_def request_delivery_def
    by (rule locked_steps) (rule requested)
next
  case request_merge
  then show ?thesis unfolding request_integration_merge_def request_delivery_def
    by (rule locked_steps) (rule requested)
qed

text \<open>Every state the interface reaches from an empty database satisfies the invariant.\<close>

lemma empty_requirement_inv: "requirement_inv empty_requirement_db"
  by (simp add: requirement_inv_def plan_inv_def ids_ok_def gates_ok_def decisions_ok_def approvals_ok_def
      items_ok_def empty_requirement_db_def)

lemma steps_inv: "requirement_step\<^sup>*\<^sup>* db db' \<Longrightarrow> requirement_inv db \<Longrightarrow> requirement_inv db'"
  by (induction rule: rtranclp_induct) (auto intro: requirement_step_inv)

definition requirement_reachable :: "requirement_db \<Rightarrow> bool" where
  "requirement_reachable db \<longleftrightarrow> requirement_command\<^sup>*\<^sup>* empty_requirement_db db"

lemma requirement_reachable_inv: "requirement_reachable db \<Longrightarrow> requirement_inv db"
  unfolding requirement_reachable_def
  by (induction rule: rtranclp_induct)
    (auto intro: empty_requirement_inv steps_inv requirement_command_refines)

lemma reachable_next: "requirement_reachable db \<Longrightarrow> requirement_command db db' \<Longrightarrow> requirement_reachable db'"
  unfolding requirement_reachable_def by (rule rtranclp.rtrancl_into_rtrancl)

lemma run_reachable:
  assumes "\<forall>c \<in> set cs. \<forall>t t'. c t = Some t' \<longrightarrow> requirement_command t t'"
    and "run cs db = Some db'" and "requirement_reachable db"
  shows "requirement_reachable db'"
  using assms
proof (induction cs arbitrary: db)
  case (Cons c cs)
  then obtain db1 where db1: "c db = Some db1" "run cs db1 = Some db'" by (auto split: option.splits)
  with Cons.prems(1,3) have "requirement_reachable db1" by (auto intro: reachable_next)
  with db1 Cons.IH [of db1] Cons.prems(1) show ?case by simp
qed simp

lemma demo_commands:
  "demo_create t = Some t' \<Longrightarrow> requirement_command t t'"
  "demo_acknowledge t = Some t' \<Longrightarrow> requirement_command t t'"
  "demo_bind t = Some t' \<Longrightarrow> requirement_command t t'"
  "demo_register t = Some t' \<Longrightarrow> requirement_command t t'"
  "demo_submit t = Some t' \<Longrightarrow> requirement_command t t'"
  "demo_decide t = Some t' \<Longrightarrow> requirement_command t t'"
  "demo_start t = Some t' \<Longrightarrow> requirement_command t t'"
  unfolding demo_create_def demo_acknowledge_def demo_bind_def demo_register_def demo_submit_def
    demo_decide_def demo_start_def
  by (auto dest!: state_after_Some intro: requirement_command.intros)

text \<open>The run of \<open>Requirement_Demo\<close> and its states.\<close>

lemma demo_reached:
  obtains db db1 db2 db3 where "requirement_reachable db" "requirement_reachable db1"
    "requirement_reachable db2" "demo_decide_once db \<noteq> None"
    "demo_decide db = Some db1" "demo_start db1 = Some db2" "demo_restart db = Some db3"
    "states db = ([AWAITING_CONFIRMATION], [(ITEM_DRAFT, NOT_STARTED)], [GATE_OPEN])"
    "states db1 = ([READY], [(ITEM_READY, NOT_STARTED)], [GATE_DECIDED])"
    "states db2 = ([IN_PROGRESS], [(ITEM_IN_PROGRESS, IMPLEMENTING)], [GATE_DECIDED])"
    "states db3 = ([PREPARING], [(ITEM_DRAFT, NOT_STARTED)], [GATE_OPEN])"
proof -
  obtain db where run: "run [demo_create, demo_acknowledge, demo_bind, demo_register, demo_submit]
      empty_requirement_db = Some db" and report: "demo_report db"
    using demo_run by (auto split: option.splits)
  have "requirement_reachable db"
    by (rule run_reachable [OF _ run]) (simp_all add: demo_commands requirement_reachable_def)
  moreover from report have "demo_decide_once db \<noteq> None"
    unfolding demo_report_def by (auto split: option.splits)
  moreover from report obtain db1 db2 db3 where "demo_decide db = Some db1" "demo_start db1 = Some db2"
      "demo_restart db = Some db3"
    "states db = ([AWAITING_CONFIRMATION], [(ITEM_DRAFT, NOT_STARTED)], [GATE_OPEN])"
    "states db1 = ([READY], [(ITEM_READY, NOT_STARTED)], [GATE_DECIDED])"
    "states db2 = ([IN_PROGRESS], [(ITEM_IN_PROGRESS, IMPLEMENTING)], [GATE_DECIDED])"
    "states db3 = ([PREPARING], [(ITEM_DRAFT, NOT_STARTED)], [GATE_OPEN])"
    unfolding demo_report_def by (auto split: option.splits)
  ultimately show ?thesis
    using that reachable_next demo_commands(6-7) by metis
qed

text \<open>Everything a decision reads and writes.\<close>

lemma decide_once_Inr:
  assumes "decide_baseline_once env i gate outcome reason n actor db = Inr ((r', g', d), db')"
  obtains r g a why where "requirement_by_id i db = Some r" "rq_revision r = n" "gate_by_id gate db = Some g"
    "gt_requirement g = i" "gt_state g = GATE_OPEN" "rq_baseline r = Some (gt_baseline g)"
    "current_gate_assignment gate db = Some a" "rq_actor_id actor = Inr (ga_current a)"
    "transition_requirement (rq_state r) (decision_target outcome) = Inr (decision_target outcome)"
    "r' = r\<lparr>rq_state := decision_target outcome, rq_revision := rq_revision r + 1,
       rq_updated_at := rv_clock env 0\<rparr>"
    "g' = g\<lparr>gt_state := GATE_DECIDED, gt_revision := gt_revision g + 1, gt_decided_at := Some (rv_clock env 0)\<rparr>"
    "d = \<lparr>de_id = rv_new_id env 0, de_gate = gate, de_assignment = ga_id a, de_reviewer = ga_current a,
       de_outcome = outcome, de_reason = why, de_subject_revision = gt_revision g, de_decided_at = rv_clock env 0\<rparr>"
    "gate \<notin> de_gate ` set (rd_decisions db)" "rd_decisions db' = rd_decisions db @ [d]"
    "rd_gates db' = set_where (\<lambda>y. gt_id y = gate) (\<lambda>g. g\<lparr>gt_state := GATE_DECIDED,
       gt_revision := gt_revision g + 1, gt_decided_at := Some (rv_clock env 0)\<rparr>) (rd_gates db)"
    "rd_requirements db' = set_where (\<lambda>y. rq_id y = i) (\<lambda>r. r\<lparr>rq_state := decision_target outcome,
       rq_revision := rq_revision r + 1, rq_updated_at := rv_clock env 0\<rparr>) (rd_requirements db)"
    "rd_items db' = set_where (planned_stale i (decision_target outcome))
       (reconciled_item (decision_target outcome) (rv_clock env 0)) (rd_items db)"
  using assms unfolding decide_baseline_once_def close_gate_def update_requirement_state_def
  apply (elim res_elims)
  apply (frule to_decided)
  apply (drule audit_effect insert_decision_effect write_gate_effect write_requirement_effect gate_of_Inr
    at_revision_Inr reconcile_effect)+
  apply (clarsimp simp: found_Inr gate_subject_current_def)
  done

lemma prepare_once_Inr:
  assumes "start_requirement_preparation_once env i n actor db = Inr (r', db')"
    and "requirement_by_id i db = Some r"
  shows "r' = r\<lparr>rq_state := PREPARING, rq_revision := rq_revision r + 1, rq_updated_at := rv_clock env 0\<rparr>
    \<and> rd_gates db' = rd_gates db \<and> requirement_by_id i db' = Some r'"
  using assms unfolding start_requirement_preparation_once_def update_requirement_state_def
  apply (elim res_elims)
  apply (drule audit_effect write_requirement_effect at_revision_Inr)+
  apply (clarsimp simp: transition_requirement_def split: if_splits)
  apply (auto simp: requirement_by_id_def row_by_set_where dest: row_by_Some)
  done

lemma decided_in_office:
  "decisions_ok gs as ds \<Longrightarrow> d \<in> set ds \<Longrightarrow> \<exists>a \<in> set as. ga_id a = de_assignment d \<and> ga_gate a = de_gate d
     \<and> ga_superseded_at a = None \<and> ga_current a = de_reviewer d"
  by (simp add: decisions_ok_def)

subsection \<open>Properties\<close>

text \<open>
  C1: no work without an approval. In every state the interface reaches, a work item whose integration
  has begun belongs to a requirement whose current baseline passed its gate: the gate is decided, its
  decision is an approval, and the one who decided is the reviewer in office.
\<close>

theorem no_work_without_approval:
  assumes "requirement_reachable db" and "w \<in> set (rd_items db)" and "wi_integration w \<noteq> NOT_STARTED"
  shows "\<exists>r \<in> set (rd_requirements db). \<exists>g \<in> set (rd_gates db). \<exists>d \<in> set (rd_decisions db).
      \<exists>a \<in> set (rd_gate_assignments db). rq_id r = wi_requirement w \<and> gt_requirement g = rq_id r
    \<and> rq_baseline r = Some (gt_baseline g) \<and> gt_state g = GATE_DECIDED \<and> de_gate d = gt_id g
    \<and> de_outcome d = APPROVED \<and> ga_id a = de_assignment d \<and> ga_gate a = gt_id g
    \<and> ga_superseded_at a = None \<and> ga_current a = de_reviewer d"
proof -
  note inv = requirement_reachable_inv [OF assms(1), unfolded requirement_inv_def plan_inv_def]
  from inv assms(2) obtain r where r: "r \<in> set (rd_requirements db)" "rq_id r = wi_requirement w"
    by (auto simp: ids_ok_def)
  with inv assms(2) have "item_ok (rq_state r) w" by (simp add: items_ok_def)
  with assms(3) have "past_confirmation (rq_state r)" unfolding item_ok_def by blast
  with inv r(1) have "approved (rd_gates db) (rd_decisions db) r" by (simp add: approvals_ok_def)
  then obtain g d where g: "g \<in> set (rd_gates db)" "d \<in> set (rd_decisions db)"
      "gt_requirement g = rq_id r" "rq_baseline r = Some (gt_baseline g)" "de_gate d = gt_id g"
      "de_outcome d = APPROVED" unfolding approved_def by blast
  from inv have dec: "decisions_ok (rd_gates db) (rd_gate_assignments db) (rd_decisions db)" by (elim conjE)
  from decided_in_office [OF this g(2)] obtain a where "a \<in> set (rd_gate_assignments db)"
    "ga_id a = de_assignment d" "ga_gate a = gt_id g" "ga_superseded_at a = None"
    "ga_current a = de_reviewer d" unfolding g(5) by blast
  moreover have "gt_state g = GATE_DECIDED" using dec g imageI [OF g(2), of de_gate]
    by (simp add: decisions_ok_def)
  ultimately show ?thesis using r g by blast
qed

theorem no_work_without_approval_witness:
  "\<exists>db w g. requirement_reachable db \<and> w \<in> set (rd_items db) \<and> wi_integration w = IMPLEMENTING
     \<and> g \<in> set (rd_gates db) \<and> gt_requirement g = wi_requirement w \<and> gt_state g = GATE_DECIDED"
proof -
  obtain db where db: "requirement_reachable db"
    "states db = ([IN_PROGRESS], [(ITEM_IN_PROGRESS, IMPLEMENTING)], [GATE_DECIDED])"
    by (rule demo_reached)
  then obtain w where w: "w \<in> set (rd_items db)" "wi_integration w = IMPLEMENTING"
    by (auto simp: states_def)
  then have "wi_integration w \<noteq> NOT_STARTED" by simp
  from no_work_without_approval [OF db(1) w(1) this] db(1) w show ?thesis by force
qed

text \<open>
  C2: planned work follows the plan. In every state the interface reaches, a work item is READY only
  when its requirement is past its confirmation, nothing of its integration has begun and it is
  assigned and bound; and while the requirement is READY each assigned and bound item that has not
  begun is READY.
\<close>

theorem ready_items_follow_the_plan:
  assumes "requirement_reachable db" and "w \<in> set (rd_items db)" and "r \<in> set (rd_requirements db)"
    and "rq_id r = wi_requirement w"
  shows "(wi_state w = ITEM_READY \<longrightarrow> past_confirmation (rq_state r) \<and> wi_integration w = NOT_STARTED
      \<and> wi_assignment w = ASSIGNED \<and> wi_repository_state w = BOUND)
    \<and> (rq_state r = READY \<and> wi_integration w = NOT_STARTED \<longrightarrow>
        (wi_state w = ITEM_READY \<longleftrightarrow> wi_assignment w = ASSIGNED \<and> wi_repository_state w = BOUND))"
proof -
  have "item_ok (rq_state r) w"
    using requirement_reachable_inv [OF assms(1)] assms(2-4) by (auto simp: requirement_inv_def plan_inv_def items_ok_def)
  then show ?thesis unfolding item_ok_def by blast
qed

theorem ready_items_follow_the_plan_witness:
  "\<exists>db w r. requirement_reachable db \<and> w \<in> set (rd_items db) \<and> r \<in> set (rd_requirements db)
     \<and> rq_id r = wi_requirement w \<and> rq_state r = READY \<and> wi_assignment w = ASSIGNED
     \<and> wi_repository_state w = BOUND"
proof -
  obtain db where db: "requirement_reachable db"
    "states db = ([READY], [(ITEM_READY, NOT_STARTED)], [GATE_DECIDED])"
    by (rule demo_reached)
  then obtain w r where w: "rd_items db = [w]" "rd_requirements db = [r]" "wi_state w = ITEM_READY"
      "rq_state r = READY" by (auto simp: states_def)
  then have "rq_id r = wi_requirement w"
    using requirement_reachable_inv [OF db(1)] by (simp add: requirement_inv_def plan_inv_def ids_ok_def)
  with ready_items_follow_the_plan [OF db(1), of w r] db(1) w show ?thesis by auto
qed

text \<open>
  C21: a requirement that awaits confirmation has exactly one open gate on its current baseline, in
  every state the interface reaches.
\<close>

theorem awaited_gate_open:
  assumes "requirement_reachable db" and "r \<in> set (rd_requirements db)"
    and "rq_state r = AWAITING_CONFIRMATION"
  shows "\<exists>!g. g \<in> set (rd_gates db) \<and> gt_requirement g = rq_id r \<and> gt_state g = GATE_OPEN
    \<and> rq_baseline r = Some (gt_baseline g)"
proof -
  have gates: "gates_ok (rd_requirements db) (rd_gates db)"
    using requirement_reachable_inv [OF assms(1)] by (simp add: requirement_inv_def plan_inv_def)
  then have "inj_on gt_baseline (set (rd_gates db))" by (simp add: gates_ok_def distinct_map)
  with gates assms(2,3) show ?thesis unfolding gates_ok_def by (auto dest: inj_onD)
qed

theorem awaited_gate_open_witness:
  "\<exists>db r. requirement_reachable db \<and> r \<in> set (rd_requirements db) \<and> rq_state r = AWAITING_CONFIRMATION
     \<and> (\<exists>g \<in> set (rd_gates db). rq_baseline r = Some (gt_baseline g))"
proof -
  obtain db where db: "requirement_reachable db"
    "states db = ([AWAITING_CONFIRMATION], [(ITEM_DRAFT, NOT_STARTED)], [GATE_OPEN])"
    by (rule demo_reached)
  then obtain r where r: "r \<in> set (rd_requirements db)" "rq_state r = AWAITING_CONFIRMATION"
    by (auto simp: states_def)
  from awaited_gate_open [OF db(1) r] db(1) r show ?thesis by auto
qed

text \<open>
  C23: preparation restarts behind an open gate. The command that starts the preparation is not limited
  to requirements just created: on one that awaits confirmation it returns to PREPARING and leaves its
  gate open. The baseline can then neither be approved at that gate nor be submitted again.
\<close>

theorem restart_strands_gate:
  assumes "requirement_reachable db" and "requirement_by_id i db = Some r"
    and "rq_state r = AWAITING_CONFIRMATION"
    and "start_requirement_preparation_once env i n actor db = Inr (r', db')"
  shows "rq_state r' = PREPARING \<and> requirement_by_id i db' = Some r' \<and>
    (\<exists>g \<in> set (rd_gates db'). gt_requirement g = i \<and> gt_state g = GATE_OPEN
       \<and> rq_baseline r' = Some (gt_baseline g)
       \<and> (\<forall>env' why m who. \<exists>e. decide_baseline_once env' i (gt_id g) APPROVED why m who db' = Inl e)
       \<and> (\<forall>env' m who. \<exists>e. submit_baseline_confirmation_once env' i (gt_baseline g) m who db' = Inl e))"
proof -
  have start: "r' = r\<lparr>rq_state := PREPARING, rq_revision := rq_revision r + 1,
      rq_updated_at := rv_clock env 0\<rparr>" "rd_gates db' = rd_gates db"
    "requirement_by_id i db' = Some r'"
    using prepare_once_Inr [OF assms(4,2)] by simp_all
  from requirement_found [OF assms(2)] have r: "r \<in> set (rd_requirements db)" "rq_id r = i" by simp_all
  from awaited_gate_open [OF assms(1) r(1) assms(3)] obtain g where g: "g \<in> set (rd_gates db)"
    "gt_requirement g = i" "gt_state g = GATE_OPEN" "rq_baseline r = Some (gt_baseline g)" using r(2) by blast
  have "\<exists>e. decide_baseline_once env' i (gt_id g) APPROVED why m who db' = Inl e" for env' why m who
  proof (cases "decide_baseline_once env' i (gt_id g) APPROVED why m who db'")
    case (Inr x)
    obtain r1 g1 d1 db1 where "x = ((r1, g1, d1), db1)" by (metis surj_pair)
    with Inr obtain q where "requirement_by_id i db' = Some q"
      "transition_requirement (rq_state q) (decision_target APPROVED) = Inr (decision_target APPROVED)"
      by (auto elim: decide_once_Inr)
    with start show ?thesis
      by (simp add: transition_requirement_def first_batch_transitions_def decision_target_def)
  qed blast
  moreover have "\<exists>e. submit_baseline_confirmation_once env' i (gt_baseline g) m who db' = Inl e" for env' m who
  proof (cases "submit_baseline_confirmation_once env' i (gt_baseline g) m who db'")
    case (Inr x)
    then have "gate_by_baseline_id (gt_baseline g) db' = None"
      unfolding submit_baseline_confirmation_once_def by (cases x) (elim res_elims, simp)
    from ungated_baseline [OF this] g(1) start(2) have False by simp
    then show ?thesis ..
  qed blast
  ultimately show ?thesis using start g by auto
qed

theorem restart_strands_gate_witness:
  "\<exists>db (r :: requirement_row) r' db' g. requirement_reachable db \<and> rq_state r = AWAITING_CONFIRMATION
     \<and> start_requirement_preparation_once (demo_rv ''h'' 6) ''a'' 4 anna db = Inr (r', db')
     \<and> rq_state r' = PREPARING \<and> g \<in> set (rd_gates db') \<and> gt_state g = GATE_OPEN"
proof -
  obtain db db3 where db: "requirement_reachable db" "demo_restart db = Some db3"
    "states db = ([AWAITING_CONFIRMATION], [(ITEM_DRAFT, NOT_STARTED)], [GATE_OPEN])"
    by (rule demo_reached)
  from db(2) obtain r' where step: "start_requirement_preparation_once (demo_rv ''h'' 6) ''a'' 4 anna db
      = Inr (r', db3)" unfolding demo_restart_def by (auto dest: state_after_Some)
  then obtain r where r: "requirement_by_id ''a'' db = Some r"
    unfolding start_requirement_preparation_once_def by (elim res_elims) (auto dest: at_revision_Inr)
  with db(3) have "rq_state r = AWAITING_CONFIRMATION"
    by (auto simp: states_def dest!: requirement_found)
  moreover from restart_strands_gate [OF db(1) r this step] obtain g where "rq_state r' = PREPARING"
    "g \<in> set (rd_gates db3)" "gt_state g = GATE_OPEN" by blast
  ultimately show ?thesis using db(1) step by (intro exI conjI) assumption+
qed

end
