(* ===== verification/Requirement_History.thy ===== *)
theory Requirement_History
  imports Requirement_Safety
begin

section \<open>The requirement module: the history of a requirement\<close>

text \<open>
  Every command writes the row of a requirement at most once: its state moves along the transition
  table or stays, its revision goes up by one, and the terms it was created with never change. Then
  what recording a repository binding does, early or late, that a released binding request is
  claimed again, and all that a decision writes: decisions are only ever appended, so a gate that has
  one keeps it.
\<close>

definition requirement_terms :: "requirement_row \<Rightarrow> (string \<times> string \<times> requirement_type) \<times>
    (string \<times> string \<times> string list \<times> int \<times> string) \<times> (string \<times> string) \<times> int \<times> string \<times> pyval" where
  "requirement_terms r = ((rq_id r, rq_workspace_id r, rq_type r),
     (rq_title r, rq_description r, rq_criteria r, rq_criteria_version r, rq_criteria_hash r),
     (rq_created_by r, rq_initial_repository r), rq_route_version r, rq_route_hash r, rq_route r)"

definition requirement_moved :: "requirement_row \<Rightarrow> requirement_row \<Rightarrow> bool" where
  "requirement_moved r r' \<longleftrightarrow> rq_revision r' = rq_revision r + 1
     \<and> requirement_terms r' = requirement_terms r
     \<and> (rq_state r' = rq_state r \<or> rq_state r' \<in> set (first_batch_transitions (rq_state r)))"

definition rows_moved :: "requirement_row list \<Rightarrow> requirement_row list \<Rightarrow> bool" where
  "rows_moved rs rs' \<longleftrightarrow> rs' = rs \<or> (\<exists>r. rs' = rs @ [r])
     \<or> (\<exists>i f. rs' = set_where (\<lambda>y. rq_id y = i) f rs
          \<and> (\<forall>r. row_by rq_id i rs = Some r \<longrightarrow> requirement_moved r (f r)))"

lemma rows_kept [simp]: "rows_moved rs rs" "rows_moved rs (rs @ [r])"
  by (auto simp: rows_moved_def)

lemma rows_moved_row:
  assumes "rows_moved rs rs'" and "distinct (map rq_id rs)" and "r \<in> set rs"
  shows "\<exists>r' \<in> set rs'. r' = r \<or> requirement_moved r r'"
  using assms(1) unfolding rows_moved_def
proof (elim disjE exE conjE)
  fix i f assume rs': "rs' = set_where (\<lambda>y. rq_id y = i) f rs"
    and moved: "\<forall>r. row_by rq_id i rs = Some r \<longrightarrow> requirement_moved r (f r)"
  show ?thesis
  proof (cases "rq_id r = i")
    case True
    with assms(2,3) have "row_by rq_id i rs = Some r" by (auto intro: row_by_distinct)
    with moved have "requirement_moved r (f r)" by simp
    moreover have "f r \<in> set rs'" using assms(3) True by (auto simp: rs' set_set_where)
    ultimately show ?thesis by blast
  next
    case False
    with assms(3) have "r \<in> set rs'" by (auto simp: rs' set_set_where image_iff)
    then show ?thesis by blast
  qed
qed (use assms(3) in auto)

lemma write_moves:
  assumes "written e (write_requirement i p f db) = Inr (x, db')"
    and "\<And>r. requirement_by_id i db = Some r \<Longrightarrow> p r \<Longrightarrow> requirement_moved r (f r)"
  shows "rows_moved (rd_requirements db) (rd_requirements db')"
proof -
  from write_requirement_effect [OF assms(1)] obtain r where r: "requirement_by_id i db = Some r" "p r"
    and db': "db' = db\<lparr>rd_requirements := set_where (\<lambda>y. rq_id y = i) f (rd_requirements db)\<rparr>" by blast
  from r assms(2) show ?thesis unfolding rows_moved_def requirement_by_id_def db'
    by (intro disjI2 exI [of _ i] exI [of _ f]) simp
qed

lemma state_moves:
  assumes "written e (update_requirement_state i n t now db) = Inr (x, db')"
    and "\<And>r. requirement_by_id i db = Some r \<Longrightarrow> t = rq_state r \<or> t \<in> set (first_batch_transitions (rq_state r))"
  shows "rows_moved (rd_requirements db) (rd_requirements db')"
  using assms(1) unfolding update_requirement_state_def
  by (rule write_moves) (use assms(2) in \<open>auto simp: requirement_moved_def requirement_terms_def\<close>)

lemma transition_listed: "transition_requirement s t = Inr u \<Longrightarrow> u = t \<and> t \<in> set (first_batch_transitions s)"
  by (simp add: transition_requirement_def split: if_splits)

lemma create_moves:
  assumes "create_requirement_once env workspace t title description criteria repository actor db = Inr (x, db')"
  shows "rows_moved (rd_requirements db) (rd_requirements db')"
  using assms unfolding create_requirement_once_def
  apply (elim res_elims)
  apply (drule insert_requirement_effect insert_item_effect self_assignment_effect outbox_effect audit_effect)+
  apply clarsimp
  done

lemma claim_moves:
  assumes "claim_repository_binding_requests limit before lease db = Inr (x, db')"
  shows "rows_moved (rd_requirements db) (rd_requirements db')"
  using assms unfolding claim_repository_binding_requests_def claim_binding_requests_def Let_def
  by (elim res_elims) (auto split: if_splits)

lemma release_moves:
  assumes "release_repository_binding_request i c t db = Inr db'"
  shows "rows_moved (rd_requirements db) (rd_requirements db')"
  using assms unfolding release_repository_binding_request_def
  by (elim res_elims) (auto dest!: message_effects)

lemma acknowledge_moves:
  assumes "acknowledge_repository_binding_request env i c db = Inr (x, db')"
  shows "rows_moved (rd_requirements db) (rd_requirements db')"
proof -
  have restart: "rows_moved (rd_requirements db1) (rd_requirements db2)"
    if "written e (update_requirement_state (rq_id r) n PREPARING now db1) = Inr (y, db2)"
      "requirement_by_id j db1 = Some r" "rq_state r = CREATED"
    for e r n now db1 y db2 j
    by (rule state_moves [OF that(1)]) (use that requirement_found [OF that(2)] in \<open>simp add: first_batch_transitions_def\<close>)
  from assms show ?thesis
    unfolding acknowledge_repository_binding_request_def
    apply (elim res_elims)
    subgoal by (auto dest!: message_effects)
    subgoal by (drule message_effects audit_effect)+ (clarsimp simp: found_Inr, drule restart, simp_all)
    subgoal by simp
    subgoal by (drule audit_effect)+ (clarsimp simp: found_Inr, drule restart, simp_all)
    done
qed

lemma start_preparation_moves:
  assumes "start_requirement_preparation_once env i n actor db = Inr (x, db')"
  shows "rows_moved (rd_requirements db) (rd_requirements db')"
  using assms unfolding start_requirement_preparation_once_def
  apply (elim res_elims)
  apply (drule audit_effect at_revision_Inr transition_listed)+
  apply clarsimp
  apply (erule state_moves)
  apply simp
  done

lemma item_write_moves:
  "written e (write_work_item i p f db) = Inr (x, db') \<Longrightarrow> rd_requirements db' = rd_requirements db"
  by (drule write_item_effect) auto

lemma binding_moves:
  "record_repository_binding_once env i repo sha branch n actor corr db = Inr (x, db') \<Longrightarrow>
    rows_moved (rd_requirements db) (rd_requirements db')"
  "record_repository_binding_blocked_once env i repo why n actor corr db = Inr (y, db') \<Longrightarrow>
    rows_moved (rd_requirements db) (rd_requirements db')"
  unfolding record_repository_binding_once_def record_repository_binding_blocked_once_def
    bind_work_item_def block_work_item_def
  by (elim res_elims; auto dest!: audit_effect item_write_moves split: if_splits)+

lemma add_moves:
  assumes "add_work_item_once env i repo n actor db = Inr (x, db')"
  shows "rows_moved (rd_requirements db) (rd_requirements db')"
  using assms unfolding add_work_item_once_def update_requirement_plan_def
  apply (elim res_elims)
  apply (drule audit_effect outbox_effect insert_item_effect self_assignment_effect at_revision_Inr)+
  apply clarsimp
  apply (drule write_moves)
   apply (simp_all add: requirement_moved_def requirement_terms_def)
  done

lemma assign_moves:
  assumes "assign_work_item_once env i item owner reason n actor db = Inr (x, db')"
  shows "rows_moved (rd_requirements db) (rd_requirements db')"
proof -
  have outbox: "\<exists>l. db2 = db1\<lparr>rd_outbox := l\<rparr>" if "(if b then insert_outbox m db1 else Inr db1) = Inr db2"
    for b m db1 db2 using that by (cases b) (auto dest!: outbox_effect intro: exI [of _ "rd_outbox db1"])
  from assms show ?thesis
    unfolding assign_work_item_once_def assign_work_item_projection_def
    apply (elim rbind_pairE rbind_InrE if_InlE option_InlE sum_InlE letE)
    apply (drule audit_effect insert_assignment_effect superseded_current_effect outbox item_write_moves)+
    apply clarsimp
    done
qed

lemma create_artifact_moves:
  assumes "create_sdd_artifact_once env i a c n actor db = Inr (x, db')"
  shows "rows_moved (rd_requirements db) (rd_requirements db')"
  using assms unfolding create_sdd_artifact_once_def
  apply (elim res_elims)
  apply (drule audit_effect insert_artifact_effect at_revision_Inr)+
  apply clarsimp
  apply (drule state_moves)
   apply simp_all
  done

lemma register_moves:
  assumes "register_sdd_baseline_once env i artifact version n actor db = Inr (x, db')"
  shows "rows_moved (rd_requirements db) (rd_requirements db')"
  using assms unfolding register_sdd_baseline_once_def set_current_sdd_baseline_def
  apply (elim res_elims)
  subgoal
    apply (drule audit_effect insert_baseline_effect at_revision_Inr)+
    apply clarsimp
    apply (drule write_moves)
     apply (simp_all add: requirement_moved_def requirement_terms_def)
    done
  subgoal by simp
  done

lemma submit_moves:
  assumes "submit_baseline_confirmation_once env i baseline n actor db = Inr (x, db')"
  shows "rows_moved (rd_requirements db) (rd_requirements db')"
  using assms unfolding submit_baseline_confirmation_once_def
  apply (elim res_elims)
  apply (drule audit_effect insert_gate_effect insert_gate_assignment_effect at_revision_Inr transition_listed)+
  apply clarsimp
  apply (drule state_moves)
   apply simp_all
  done

lemma reassign_moves:
  assumes "reassign_baseline_gate_once env i gate reviewer reason n actor db = Inr (x, db')"
  shows "rows_moved (rd_requirements db) (rd_requirements db')"
  using assms unfolding reassign_baseline_gate_once_def reassign_gate_def
  apply (elim res_elims)
  apply (drule audit_effect supersede_gate_effect insert_gate_assignment_effect write_gate_effect)+
  apply clarsimp
  done

lemma decide_moves:
  assumes "decide_baseline_once env i gate outcome reason n actor db = Inr (x, db')"
  shows "rows_moved (rd_requirements db) (rd_requirements db')"
  using assms unfolding decide_baseline_once_def close_gate_def
  apply (elim res_elims)
  apply (drule audit_effect insert_decision_effect write_gate_effect at_revision_Inr
    reconcile_effect transition_listed)+
  apply clarsimp
  apply (drule state_moves)
   apply simp_all
  done

lemma delivered_moves:
  assumes "update_delivery w st d b now db = Inr (w', db1)" and "update_requirement r t now db1 = Inr (r', db2)"
    and "locked_subject i item db = Inr (r, w)"
    and "t = rq_state r \<or> t \<in> set (first_batch_transitions (rq_state r))"
  shows "rows_moved (rd_requirements db) (rd_requirements db2)"
proof -
  from assms(1) have same: "rd_requirements db1 = rd_requirements db"
    unfolding update_delivery_def update_work_item_delivery_def by (rule item_write_moves)
  then have at: "requirement_by_id (rq_id r) db1 = Some r"
    using locked_Inr [OF assms(3)] by (simp add: requirement_by_id_def)
  show ?thesis unfolding same [symmetric]
    by (rule state_moves [OF assms(2) [unfolded update_requirement_def]]) (use at assms(4) in simp)
qed

lemma start_work_moves:
  assumes "locked_subject i item db = Inr (r, w)" and "start_work_item_once env who r w db = Inr (x, db')"
  shows "rows_moved (rd_requirements db) (rd_requirements db')"
  using assms(2) unfolding start_work_item_once_def
  apply (elim res_elims)
  apply (drule audit_effect)
  apply (clarsimp simp: transition_human_work_started_def split: if_splits)
  apply (drule (1) delivered_moves [OF _ _ assms(1)])
   apply (auto simp: first_batch_transitions_def)
  done

lemma request_delivery_moves:
  assumes "locked_subject i item db = Inr (r, w)" and "request_delivery_once env m who r w db = Inr (x, db')"
  shows "rows_moved (rd_requirements db) (rd_requirements db')"
  using assms(2) unfolding request_delivery_once_def Let_def
  apply (elim rbind_pairE rbind_InrE if_InlE)
  apply (drule audit_effect outbox_effect)+
  apply clarsimp
  apply (drule (1) delivered_moves [OF _ _ assms(1)])
   apply simp_all
  done

lemma requirement_step_moves:
  assumes "requirement_step db db'"
  shows "rows_moved (rd_requirements db) (rd_requirements db')"
  using assms
  by (induction rule: requirement_step.induct)
    ((rule create_moves claim_moves acknowledge_moves release_moves start_preparation_moves
      binding_moves add_moves assign_moves create_artifact_moves register_moves submit_moves
      reassign_moves decide_moves start_work_moves request_delivery_moves; assumption) | simp)+

lemma steps_move_row:
  assumes "requirement_step\<^sup>*\<^sup>* db db'" and "requirement_inv db" and "r \<in> set (rd_requirements db)"
  shows "requirement_inv db' \<and> (\<exists>r' \<in> set (rd_requirements db'). requirement_moved\<^sup>*\<^sup>* r r')"
  using assms
proof (induction rule: rtranclp_induct)
  case (step t t')
  then obtain q where inv: "requirement_inv t" and q: "q \<in> set (rd_requirements t)" "requirement_moved\<^sup>*\<^sup>* r q"
    by blast
  from inv have "distinct (map rq_id (rd_requirements t))"
    by (simp add: requirement_inv_def plan_inv_def ids_ok_def)
  from rows_moved_row [OF requirement_step_moves [OF step(2)] this q(1)]
  obtain q' where "q' \<in> set (rd_requirements t')" "q' = q \<or> requirement_moved q q'" by blast
  with q(2) requirement_step_inv [OF step(2) inv] show ?case
    by (auto intro: rtranclp.rtrancl_into_rtrancl)
qed auto

lemma commands_refine: "requirement_command\<^sup>*\<^sup>* db db' \<Longrightarrow> requirement_step\<^sup>*\<^sup>* db db'"
  by (induction rule: rtranclp_induct) (auto dest: requirement_command_refines intro: rtranclp_trans)

lemma moved_chain:
  assumes "requirement_moved\<^sup>*\<^sup>* r r'"
  shows "requirement_terms r' = requirement_terms r \<and> rq_revision r \<le> rq_revision r'
    \<and> (rq_revision r' = rq_revision r \<longrightarrow> r' = r)
    \<and> (rq_state r, rq_state r') \<in> {(s, t). t \<in> set (first_batch_transitions s)}\<^sup>*"
  using assms
proof (induction rule: rtranclp_induct)
  case (step y z)
  then show ?case
    by (auto simp: requirement_moved_def intro: rtrancl.rtrancl_into_rtrancl)
qed simp

text \<open>
  C19: the history of a requirement. Whatever commands run, a requirement stays in the table with the
  terms it was created with, its state follows the transition table, its revision never falls, and a
  row read again at the same revision is the same row.
\<close>

theorem requirement_history:
  assumes "requirement_reachable db" and "requirement_command\<^sup>*\<^sup>* db db'" and "r \<in> set (rd_requirements db)"
  shows "\<exists>r' \<in> set (rd_requirements db'). requirement_terms r' = requirement_terms r
    \<and> rq_revision r \<le> rq_revision r' \<and> (rq_revision r' = rq_revision r \<longrightarrow> r' = r)
    \<and> (rq_state r, rq_state r') \<in> {(s, t). t \<in> set (first_batch_transitions s)}\<^sup>*"
  using steps_move_row [OF commands_refine [OF assms(2)] requirement_reachable_inv [OF assms(1)] assms(3)] moved_chain
  by blast

theorem requirement_history_witness:
  "\<exists>db db' r r'. requirement_reachable db \<and> requirement_command\<^sup>*\<^sup>* db db'
     \<and> r \<in> set (rd_requirements db) \<and> rq_state r = AWAITING_CONFIRMATION
     \<and> r' \<in> set (rd_requirements db') \<and> rq_state r' = IN_PROGRESS
     \<and> requirement_terms r' = requirement_terms r"
proof -
  obtain db db1 db2 where db: "requirement_reachable db" "demo_decide db = Some db1" "demo_start db1 = Some db2"
    "states db = ([AWAITING_CONFIRMATION], [(ITEM_DRAFT, NOT_STARTED)], [GATE_OPEN])"
    "states db2 = ([IN_PROGRESS], [(ITEM_IN_PROGRESS, IMPLEMENTING)], [GATE_DECIDED])"
    by (rule demo_reached)
  have run: "requirement_command\<^sup>*\<^sup>* db db2"
    using demo_commands(6) [OF db(2)] demo_commands(7) [OF db(3)] by simp
  from db(4) obtain r where r: "r \<in> set (rd_requirements db)" "rq_state r = AWAITING_CONFIRMATION"
    by (auto simp: states_def)
  from requirement_history [OF db(1) run r(1)] obtain r' where r': "r' \<in> set (rd_requirements db2)"
    "requirement_terms r' = requirement_terms r" by blast
  from db(5) r'(1) have "rq_state r' = IN_PROGRESS" by (auto simp: states_def)
  with db(1) run r r' show ?thesis by (intro exI conjI) assumption+
qed

subsection \<open>Decisions\<close>

text \<open>The audit entry of a decision.\<close>

definition decision_entry ::
  "requirement_env \<Rightarrow> string \<Rightarrow> string \<Rightarrow> decision_outcome \<Rightarrow> int \<Rightarrow> int \<Rightarrow> audit_envelope" where
  "decision_entry env who gate outcome office revision =
     \<lparr>ae_id = rv_new_id env 2, ae_occurred_at = rv_clock env 1, ae_actor = who,
      ae_actor_type = (if who = ''SYSTEM'' then ''SYSTEM'' else ''HUMAN''),
      ae_action = ''requirement.baseline_confirmation.decided'', ae_target_type = ''GATE_INSTANCE'',
      ae_target_id = gate, ae_result = ''SUCCESS'',
      ae_reason = Some (''outcome='' @ outcome_value outcome @ ''; assignmentRevision='' @ str_of_int office
        @ ''; requirementRevision='' @ str_of_int revision),
      ae_correlation_id = (case rv_request env of Some (c # cs) \<Rightarrow> c # cs | _ \<Rightarrow> rv_new_id env 1),
      ae_request_id = None, ae_schema_version = 1\<rparr>"

lemma decision_audited:
  assumes "rq_audit env 1 1 who ''requirement.baseline_confirmation.decided'' ''GATE_INSTANCE'' gate
      (''outcome='' @ outcome_value outcome @ ''; assignmentRevision='' @ str_of_int office
        @ ''; requirementRevision='' @ str_of_int revision) None db = Inr db'"
  shows "db' = db\<lparr>rd_audit := record_in_transaction (rv_request env)
    (decision_entry env who gate outcome office revision) (rd_audit db)\<rparr>"
proof -
  have entry: "rq_audit env 1 1 who act tt ti why None db = Inr (db\<lparr>rd_audit := record_in_transaction
      (rv_request env) \<lparr>ae_id = rv_new_id env (1 + 1), ae_occurred_at = rv_clock env 1, ae_actor = who,
        ae_actor_type = (if who = ''SYSTEM'' then ''SYSTEM'' else ''HUMAN''), ae_action = act,
        ae_target_type = tt, ae_target_id = ti, ae_result = ''SUCCESS'', ae_reason = Some why,
        ae_correlation_id = (case rv_request env of Some (x # xs) \<Rightarrow> x # xs | _ \<Rightarrow> rv_new_id env 1),
        ae_request_id = None, ae_schema_version = 1\<rparr> (rd_audit db)\<rparr>)" for act tt ti why
    unfolding rq_audit_def option.case rbind_simps ..
  show ?thesis using assms unfolding entry decision_entry_def one_add_one by (rule sum.inject(2) [THEN iffD1, symmetric])
qed

lemma decide_once_writes:
  assumes "decide_baseline_once env i gate outcome reason n actor db = Inr ((r', g', d), db')"
  obtains r g a why where "requirement_by_id i db = Some r" "rq_revision r = n" "gate_by_id gate db = Some g"
    "gt_requirement g = i" "gt_state g = GATE_OPEN" "rq_baseline r = Some (gt_baseline g)"
    "current_gate_assignment gate db = Some a" "rq_actor_id actor = Inr (ga_current a)"
    "normalized_text reason ''decision reason'' = Inr why"
    "r' = r\<lparr>rq_state := decision_target outcome, rq_revision := n + 1, rq_updated_at := rv_clock env 0\<rparr>"
    "g' = g\<lparr>gt_state := GATE_DECIDED, gt_revision := gt_revision g + 1, gt_decided_at := Some (rv_clock env 0)\<rparr>"
    "d = \<lparr>de_id = rv_new_id env 0, de_gate = gate, de_assignment = ga_id a, de_reviewer = ga_current a,
       de_outcome = outcome, de_reason = why, de_subject_revision = gt_revision g, de_decided_at = rv_clock env 0\<rparr>"
    "gate \<notin> de_gate ` set (rd_decisions db)"
    "db' = db\<lparr>rd_requirements := set_where (\<lambda>y. rq_id y = i) (\<lambda>r. r\<lparr>rq_state := decision_target outcome,
         rq_revision := rq_revision r + 1, rq_updated_at := rv_clock env 0\<rparr>) (rd_requirements db),
       rd_items := set_where (planned_stale i (decision_target outcome))
         (reconciled_item (decision_target outcome) (rv_clock env 0)) (rd_items db),
       rd_gates := set_where (\<lambda>y. gt_id y = gate) (\<lambda>g. g\<lparr>gt_state := GATE_DECIDED,
         gt_revision := gt_revision g + 1, gt_decided_at := Some (rv_clock env 0)\<rparr>) (rd_gates db),
       rd_decisions := rd_decisions db @ [d],
       rd_audit := record_in_transaction (rv_request env) (decision_entry env (ga_current a) gate outcome
         (ga_revision a) (n + 1)) (rd_audit db)\<rparr>"
  using assms unfolding decide_baseline_once_def close_gate_def update_requirement_state_def
  apply (elim res_elims)
  apply (frule to_decided)
  apply (drule decision_audited insert_decision_effect write_gate_effect write_requirement_effect gate_of_Inr
    at_revision_Inr reconcile_effect)+
  apply (clarsimp simp: found_Inr gate_subject_current_def)
  done

text \<open>Decisions are only added.\<close>

named_theorems decision_frames "statements that leave the decisions alone"

lemma effect_frames [decision_frames]:
  "rq_audit env c k actor action tt ti reason corr db = Inr db' \<Longrightarrow> rd_decisions db' = rd_decisions db"
  "insert_outbox m db = Inr db' \<Longrightarrow> rd_decisions db' = rd_decisions db"
  "insert_requirement r db = Inr db' \<Longrightarrow> rd_decisions db' = rd_decisions db"
  "insert_work_item w db = Inr db' \<Longrightarrow> rd_decisions db' = rd_decisions db"
  "insert_work_item_assignment a db = Inr db' \<Longrightarrow> rd_decisions db' = rd_decisions db"
  "insert_self_assignment b i who self at db = Inr (z, db') \<Longrightarrow> rd_decisions db' = rd_decisions db"
  "superseded_current i current at db = Inr db' \<Longrightarrow> rd_decisions db' = rd_decisions db"
  "insert_sdd_artifact_version v db = Inr db' \<Longrightarrow> rd_decisions db' = rd_decisions db"
  "insert_sdd_baseline bl db = Inr db' \<Longrightarrow> rd_decisions db' = rd_decisions db"
  "insert_gate g db = Inr db' \<Longrightarrow> rd_decisions db' = rd_decisions db"
  "insert_gate_assignment ga db = Inr db' \<Longrightarrow> rd_decisions db' = rd_decisions db"
  "written er (publish_outbox i at db) = Inr (mo, db') \<Longrightarrow> rd_decisions db' = rd_decisions db"
  "written er (release_outbox i cc at db) = Inr (mo, db') \<Longrightarrow> rd_decisions db' = rd_decisions db"
  "written er (supersede_gate_assignment i n at db) = Inr (gx, db') \<Longrightarrow> rd_decisions db' = rd_decisions db"
  by (drule rq_effects; auto)+ (drule supersede_gate_effect, simp)

lemma write_frames [decision_frames]:
  "written er (write_requirement i p f db) = Inr (x, db') \<Longrightarrow> rd_decisions db' = rd_decisions db"
  "written er (write_work_item i q h db) = Inr (y, db') \<Longrightarrow> rd_decisions db' = rd_decisions db"
  "written er (write_gate i r k db) = Inr (z, db') \<Longrightarrow> rd_decisions db' = rd_decisions db"
  by (drule write_requirement_effect, auto) (drule write_item_effect, auto, drule write_gate_effect, auto)

lemmas written_defs = update_requirement_state_def update_requirement_plan_def set_current_sdd_baseline_def
  bind_work_item_def block_work_item_def assign_work_item_projection_def update_work_item_delivery_def
  reassign_gate_def update_delivery_def update_requirement_def

lemma outbox_frame [decision_frames]:
  "(if b then insert_outbox m db else Inr db) = Inr db' \<Longrightarrow> rd_decisions db' = rd_decisions db"
  by (cases b) (auto dest: effect_frames(2))

text \<open>What a step may do to the decisions.\<close>

lemma created_undecided:
  assumes "create_requirement_once env workspace t title description criteria repository actor db = Inr (x, db')"
  shows "rd_decisions db' = rd_decisions db"
  using assms unfolding create_requirement_once_def written_defs
  by (elim res_elims) ((drule decision_frames)+, simp | simp)+

lemma prepared_undecided:
  assumes "start_requirement_preparation_once env i n actor db = Inr (x, db')"
  shows "rd_decisions db' = rd_decisions db"
  using assms unfolding start_requirement_preparation_once_def written_defs
  by (elim res_elims) ((drule decision_frames)+, simp | simp)+

lemma bound_undecided:
  assumes "record_repository_binding_once env i repository sha branch n actor corr db = Inr (x, db')"
  shows "rd_decisions db' = rd_decisions db"
  using assms unfolding record_repository_binding_once_def written_defs
  by (elim res_elims) ((drule decision_frames)+, simp | simp)+

lemma blocked_undecided:
  assumes "record_repository_binding_blocked_once env i repository why n actor corr db = Inr (x, db')"
  shows "rd_decisions db' = rd_decisions db"
  using assms unfolding record_repository_binding_blocked_once_def written_defs
  by (elim res_elims) ((drule decision_frames)+, simp | simp)+

lemma added_undecided:
  assumes "add_work_item_once env i repository n actor db = Inr (x, db')"
  shows "rd_decisions db' = rd_decisions db"
  using assms unfolding add_work_item_once_def written_defs
  by (elim res_elims) ((drule decision_frames)+, simp | simp)+

lemma written_undecided:
  assumes "create_sdd_artifact_once env i artifact content n actor db = Inr (x, db')"
  shows "rd_decisions db' = rd_decisions db"
  using assms unfolding create_sdd_artifact_once_def written_defs
  by (elim res_elims) ((drule decision_frames)+, simp | simp)+

lemma registered_undecided:
  assumes "register_sdd_baseline_once env i art version n actor db = Inr (x, db')"
  shows "rd_decisions db' = rd_decisions db"
  using assms unfolding register_sdd_baseline_once_def written_defs
  by (elim res_elims) ((drule decision_frames)+, simp | simp)+

lemma submitted_undecided:
  assumes "submit_baseline_confirmation_once env i baseline n actor db = Inr (x, db')"
  shows "rd_decisions db' = rd_decisions db"
  using assms unfolding submit_baseline_confirmation_once_def written_defs
  by (elim res_elims) ((drule decision_frames)+, simp | simp)+

lemma reassigned_undecided:
  assumes "reassign_baseline_gate_once env i gate reviewer reason n actor db = Inr (x, db')"
  shows "rd_decisions db' = rd_decisions db"
  using assms unfolding reassign_baseline_gate_once_def written_defs
  by (elim res_elims) ((drule decision_frames)+, simp | simp)+

lemma claimed_undecided:
  assumes "claim_repository_binding_requests limit before lease db = Inr (x, db')"
  shows "rd_decisions db' = rd_decisions db"
  using assms unfolding claim_repository_binding_requests_def claim_binding_requests_def Let_def
  by (elim res_elims) (auto split: if_splits)

lemma released_undecided:
  assumes "release_repository_binding_request i c until db = Inr db'"
  shows "rd_decisions db' = rd_decisions db"
  using assms unfolding release_repository_binding_request_def
  by (elim res_elims) ((drule decision_frames)+, simp | simp)+

lemma acknowledged_undecided:
  assumes "acknowledge_repository_binding_request env i c db = Inr (x, db')"
  shows "rd_decisions db' = rd_decisions db"
  using assms unfolding acknowledge_repository_binding_request_def written_defs
  by (elim res_elims) ((drule decision_frames)+, simp | simp)+

lemma assigned_undecided:
  assumes "assign_work_item_once env i item owner reason n actor db = Inr (x, db')"
  shows "rd_decisions db' = rd_decisions db"
  using assms unfolding assign_work_item_once_def written_defs
  by (elim rbind_pairE rbind_InrE if_InlE option_InlE sum_InlE letE) ((drule decision_frames)+, simp | simp)+

lemma started_undecided:
  assumes "start_work_item_once env who r w db = Inr (x, db')"
  shows "rd_decisions db' = rd_decisions db"
  using assms unfolding start_work_item_once_def written_defs
  by (elim res_elims) ((drule decision_frames)+, simp | simp)+

lemma requested_undecided:
  assumes "request_delivery_once env m who r w db = Inr (x, db')"
  shows "rd_decisions db' = rd_decisions db"
  using assms unfolding request_delivery_once_def written_defs Let_def
  by (elim rbind_pairE rbind_InrE if_InlE) ((drule decision_frames)+, simp | simp)+

lemma decisions_added:
  assumes "requirement_step db db'"
  shows "set (rd_decisions db) \<subseteq> set (rd_decisions db')"
  using assms
proof (induction rule: requirement_step.induct)
  case (decided env i gate outcome reason n actor db d db')
  then show ?case by (cases d) (auto elim: decide_once_writes)
qed (force dest: created_undecided claimed_undecided acknowledged_undecided released_undecided
    prepared_undecided bound_undecided blocked_undecided added_undecided assigned_undecided
    written_undecided registered_undecided submitted_undecided reassigned_undecided
    started_undecided requested_undecided)+

lemma decision_kept:
  assumes "requirement_command\<^sup>*\<^sup>* db db'" and "d \<in> set (rd_decisions db)"
  shows "d \<in> set (rd_decisions db')"
  using commands_refine [OF assms(1)] assms(2)
  by (induction rule: rtranclp_induct) (auto dest: decisions_added)

text \<open>
  C22: what a decision does, in full. A decision that returns found its gate open on the requirement's
  current baseline and was taken, for a stated reason, by the reviewer in office. It appends the
  decision with that assignment and the gate's revision; closes the gate; moves the requirement to
  READY, PREPARING or CANCELED by its outcome, one revision on; brings every item of the requirement
  whose integration has not begun to the state the plan gives it (READY when the requirement is READY
  and the item assigned and bound, CANCELED with it, else DRAFT) and touches no other item; writes one
  audit entry; and changes nothing else. No later command decides the gate again.
\<close>

theorem decision_decides:
  assumes "decide_baseline_once env i gate outcome reason n actor db = Inr ((r', g', d), db')"
  shows "(\<exists>r g a why.
      requirement_by_id i db = Some r \<and> rq_revision r = n \<and> rq_baseline r = Some (gt_baseline g)
      \<and> gate_by_id gate db = Some g \<and> gt_state g = GATE_OPEN
      \<and> current_gate_assignment gate db = Some a \<and> rq_actor_id actor = Inr (ga_current a)
      \<and> normalized_text reason ''decision reason'' = Inr why
      \<and> r' = r\<lparr>rq_state := (case outcome of APPROVED \<Rightarrow> READY | CHANGES_REQUESTED \<Rightarrow> PREPARING
            | REJECTED \<Rightarrow> CANCELED), rq_revision := n + 1, rq_updated_at := rv_clock env 0\<rparr>
      \<and> g' = g\<lparr>gt_state := GATE_DECIDED, gt_revision := gt_revision g + 1,
            gt_decided_at := Some (rv_clock env 0)\<rparr>
      \<and> d = \<lparr>de_id = rv_new_id env 0, de_gate = gate, de_assignment = ga_id a,
            de_reviewer = ga_current a, de_outcome = outcome, de_reason = why,
            de_subject_revision = gt_revision g, de_decided_at = rv_clock env 0\<rparr>
      \<and> db' = db\<lparr>
            rd_requirements := map (\<lambda>q. if rq_id q = i then q\<lparr>rq_state := rq_state r',
              rq_revision := rq_revision q + 1, rq_updated_at := rv_clock env 0\<rparr> else q) (rd_requirements db),
            rd_items := map (\<lambda>w. if wi_requirement w = i \<and> wi_integration w = NOT_STARTED
                \<and> wi_state w \<noteq> planned_target (rq_state r') w
              then w\<lparr>wi_state := planned_target (rq_state r') w, wi_revision := wi_revision w + 1,
                wi_updated_at := rv_clock env 0\<rparr> else w) (rd_items db),
            rd_gates := map (\<lambda>x. if gt_id x = gate then x\<lparr>gt_state := GATE_DECIDED,
              gt_revision := gt_revision x + 1, gt_decided_at := Some (rv_clock env 0)\<rparr> else x) (rd_gates db),
            rd_decisions := rd_decisions db @ [d],
            rd_audit := record_in_transaction (rv_request env)
              (decision_entry env (ga_current a) gate outcome (ga_revision a) (n + 1)) (rd_audit db)\<rparr>)
    \<and> requirement_by_id i db' = Some r' \<and> gate_by_id gate db' = Some g'
    \<and> decision_by_gate_id gate db' = Some d
    \<and> (\<forall>db'' env' i' outcome' reason' n' actor' x. requirement_command\<^sup>*\<^sup>* db' db'' \<longrightarrow>
        decide_baseline_once env' i' gate outcome' reason' n' actor' db'' \<noteq> Inr x)"
proof -
  obtain r g a why where before: "requirement_by_id i db = Some r" "rq_revision r = n"
      "gate_by_id gate db = Some g" "gt_state g = GATE_OPEN" "rq_baseline r = Some (gt_baseline g)"
      "current_gate_assignment gate db = Some a" "rq_actor_id actor = Inr (ga_current a)"
      "normalized_text reason ''decision reason'' = Inr why"
    and r': "r' = r\<lparr>rq_state := decision_target outcome, rq_revision := n + 1, rq_updated_at := rv_clock env 0\<rparr>"
    and g': "g' = g\<lparr>gt_state := GATE_DECIDED, gt_revision := gt_revision g + 1,
        gt_decided_at := Some (rv_clock env 0)\<rparr>"
    and d: "d = \<lparr>de_id = rv_new_id env 0, de_gate = gate, de_assignment = ga_id a,
        de_reviewer = ga_current a, de_outcome = outcome, de_reason = why,
        de_subject_revision = gt_revision g, de_decided_at = rv_clock env 0\<rparr>"
      "gate \<notin> de_gate ` set (rd_decisions db)"
    and db': "db' = db\<lparr>rd_requirements := set_where (\<lambda>y. rq_id y = i) (\<lambda>r. r\<lparr>rq_state := decision_target outcome,
         rq_revision := rq_revision r + 1, rq_updated_at := rv_clock env 0\<rparr>) (rd_requirements db),
       rd_items := set_where (planned_stale i (decision_target outcome))
         (reconciled_item (decision_target outcome) (rv_clock env 0)) (rd_items db),
       rd_gates := set_where (\<lambda>y. gt_id y = gate) (\<lambda>g. g\<lparr>gt_state := GATE_DECIDED,
         gt_revision := gt_revision g + 1, gt_decided_at := Some (rv_clock env 0)\<rparr>) (rd_gates db),
       rd_decisions := rd_decisions db @ [d],
       rd_audit := record_in_transaction (rv_request env) (decision_entry env (ga_current a) gate outcome
         (ga_revision a) (n + 1)) (rd_audit db)\<rparr>"
    by (rule decide_once_writes [OF assms])
  have "requirement_by_id i db' = Some r'" "gate_by_id gate db' = Some g'"
    using before(1-3) requirement_found [OF before(1)] gate_found [OF before(3)]
    by (simp_all add: requirement_by_id_def gate_by_id_def db' row_by_set_where r' g')
  moreover have "decision_by_gate_id gate db' = Some d"
    using d by (simp add: decision_by_gate_id_def db' row_by_append row_by_None)
  moreover have "decide_baseline_once env' i' gate outcome' reason' n' actor' db'' \<noteq> Inr x"
    if "requirement_command\<^sup>*\<^sup>* db' db''" for db'' env' i' outcome' reason' n' actor' x
  proof
    assume again: "decide_baseline_once env' i' gate outcome' reason' n' actor' db'' = Inr x"
    have "d \<in> set (rd_decisions db'')" using decision_kept [OF that] by (simp add: db')
    moreover obtain r1 g1 d1 s where "x = ((r1, g1, d1), s)" by (metis prod.exhaust)
    with again have "gate \<notin> de_gate ` set (rd_decisions db'')" by (auto elim: decide_once_writes)
    ultimately show False using d(1) by force
  qed
  ultimately show ?thesis using before r' g' d(1) db'
    by (auto simp: set_where_def planned_stale_def reconciled_item_def decision_target_def)
qed

theorem decision_decides_witness:
  "\<exists>db r' g' d db'. decide_baseline_once (demo_rv ''f'' 6) ''a'' ''e'' APPROVED ''fine'' 4 rita db
       = Inr ((r', g', d), db')
     \<and> rq_state r' = READY \<and> de_reviewer d = ''rita'' \<and> rd_decisions db' = rd_decisions db @ [d]
     \<and> (\<forall>x. decide_baseline_once (demo_rv ''i'' 8) ''a'' ''e'' REJECTED ''no'' 5 rita db' \<noteq> Inr x)"
proof -
  obtain db where "demo_decide_once db \<noteq> None" by (rule demo_reached)
  then obtain r' g' d db' where step: "decide_baseline_once (demo_rv ''f'' 6) ''a'' ''e'' APPROVED ''fine'' 4 rita db
      = Inr ((r', g', d), db')" unfolding demo_decide_once_def by (auto dest: state_after_Some)
  have rita: "rq_actor_id rita = Inr ''rita''" by (simp add: rq_actor_id_def rita_def)
  note decided = decision_decides [OF step]
  obtain a :: gate_assignment_row where a: "rq_actor_id rita = Inr (ga_current a)" "de_reviewer d = ga_current a"
      "rq_state r' = READY" "rd_decisions db' = rd_decisions db @ [d]"
    using decided by (elim conjE exE) simp
  moreover have "\<forall>x. decide_baseline_once (demo_rv ''i'' 8) ''a'' ''e'' REJECTED ''no'' 5 rita db' \<noteq> Inr x"
    using decided by blast
  moreover have "de_reviewer d = ''rita''" using a(1,2) rita by simp
  ultimately show ?thesis using step by blast
qed


subsection \<open>Binding a repository late\<close>

text \<open>
  C35: what recording a binding does. It binds the item at the next revision and derives its state from
  the requirement's: READY for an assigned item of a requirement that is READY, and DRAFT in every other
  state of the requirement. An item bound once its requirement is IN_PROGRESS therefore stays where it
  cannot be started, and one of a CANCELED requirement becomes a DRAFT again.
\<close>

theorem binding_derives_state:
  assumes "record_repository_binding_once env i repository sha branch n actor corr db = Inr (w', db')"
    and "work_item_by_id i db = Some w" and "wi_repository_state w \<noteq> BOUND"
    and "requirement_by_id (wi_requirement w) db = Some r"
  shows "wi_repository_state w' = BOUND \<and> wi_revision w' = n + 1 \<and> work_item_by_id i db' = Some w'
    \<and> (wi_state w' = ITEM_READY \<longleftrightarrow> rq_state r = READY \<and> wi_assignment w = ASSIGNED)
    \<and> (rq_state r \<noteq> READY \<longrightarrow> wi_state w' = ITEM_DRAFT
         \<and> (\<exists>e. start_work_item_once env' who r w' db' = Inl e))"
proof -
  have w': "w' = w\<lparr>wi_repository_state := BOUND, wi_base_commit := wi_base_commit w', wi_branch := wi_branch w',
      wi_state := derive_work_item_state (rq_state r) (wi_assignment w) BOUND, wi_blocked_reason := None,
      wi_blocked_at := None, wi_revision := wi_revision w + 1, wi_updated_at := rv_clock env 0\<rparr>
    \<and> wi_revision w = n \<and> work_item_by_id i db' = Some w'"
    using assms unfolding record_repository_binding_once_def bind_work_item_def
    apply (elim res_elims)
      apply (simp_all add: found_Inr)
    apply (drule audit_effect write_item_effect)+
    apply clarsimp
    apply (auto simp: work_item_by_id_def row_by_set_where dest: row_by_Some)
    done
  have state: "wi_state w' = derive_work_item_state (rq_state r) (wi_assignment w) BOUND"
    "wi_repository_state w' = BOUND" "wi_revision w' = wi_revision w + 1"
    by (subst w', simp)+
  show ?thesis
    using w' state by (auto simp: derive_work_item_state_def start_work_item_once_def
      transition_human_work_started_def)
qed

definition late_row :: requirement_row where
  "late_row = some_requirement\<lparr>rq_id := ''a'', rq_state := IN_PROGRESS\<rparr>"

definition late_db :: requirement_db where
  "late_db = empty_requirement_db\<lparr>rd_requirements := [late_row], rd_items := [some_item]\<rparr>"

lemma late_binding_returns:
  "state_after (record_repository_binding_once (demo_rv ''c'' 3) ''w'' ''repo'' ''c0ffee'' ''task'' 1 anna ''q'' late_db)
    \<noteq> None"
  by code_simp

theorem binding_derives_state_witness:
  "\<exists>w' db' e. record_repository_binding_once (demo_rv ''c'' 3) ''w'' ''repo'' ''c0ffee'' ''task'' 1 anna ''q'' late_db
       = Inr (w', db')
     \<and> wi_repository_state w' = BOUND \<and> wi_state w' = ITEM_DRAFT
     \<and> start_work_item_once (demo_rv ''d'' 4) ''anna'' late_row w' db' = Inl e"
proof -
  obtain w' db' where step: "record_repository_binding_once (demo_rv ''c'' 3) ''w'' ''repo'' ''c0ffee'' ''task'' 1
      anna ''q'' late_db = Inr (w', db')"
    using late_binding_returns by (auto dest: state_after_Some)
  have rows: "work_item_by_id ''w'' late_db = Some some_item" "wi_repository_state some_item \<noteq> BOUND"
    "requirement_by_id (wi_requirement some_item) late_db = Some late_row" "rq_state late_row \<noteq> READY"
    by code_simp+
  from binding_derives_state [OF step rows(1-3), of "demo_rv ''d'' 4" "''anna''"] rows(4) step
  show ?thesis by blast
qed

subsection \<open>Binding requests\<close>

text \<open>Messages as the module writes them, with room for another attempt.\<close>

definition message_ok :: "outbox_row \<Rightarrow> bool" where
  "message_ok m \<longleftrightarrow> outbox_row_ok m \<and> int4 (ob_attempts m + 1)
     \<and> (ob_topic m = binding_topic \<longrightarrow> (\<exists>b. binding_request_of m = Inr b))"

lemma request_shape:
  assumes "binding_request_of m = Inr b"
  shows "binding_request_of (m\<lparr>ob_attempts := n, ob_available_at := t\<rparr>) = Inr (b\<lparr>br_attempts := n\<rparr>)"
    and "br_message b = ob_id m"
proof -
  obtain kvs w r where parts: "ob_payload m = PyDict kvs" "payload_text ''workItemId'' (ob_payload m) = Some w"
    "payload_text ''repositoryId'' (ob_payload m) = Some r"
    using assms unfolding binding_request_of_def by (simp split: pyval.splits option.splits)
  then have shape: "b = \<lparr>br_message = ob_id m, br_requirement = ob_aggregate m, br_version = ob_version m,
      br_work_item = w, br_repository = r, br_attempts = ob_attempts m\<rparr>"
    "\<not> (ob_aggregate_type m \<noteq> ''REQUIREMENT'' \<or> set (map fst kvs) \<noteq> {''workItemId'', ''repositoryId''})"
    using assms unfolding binding_request_of_def by (simp_all split: if_splits)
  from shape(2) parts show "binding_request_of (m\<lparr>ob_attempts := n, ob_available_at := t\<rparr>)
      = Inr (b\<lparr>br_attempts := n\<rparr>)"
    unfolding binding_request_of_def shape(1) by simp
  show "br_message b = ob_id m" by (simp add: shape(1))
qed

lemma leased_request:
  "binding_request_of m = Inr b \<Longrightarrow>
    binding_request_of (leased_message t m) = Inr (b\<lparr>br_attempts := ob_attempts m + 1\<rparr>) \<and> br_message b = ob_id m"
  using request_shape [of m b] by (simp add: leased_message_def)

lemma claim_returns:
  assumes dist: "distinct (map ob_id (rd_outbox db))" and ok: "\<forall>m \<in> set (rd_outbox db). message_ok m"
    and limit: "length (rd_outbox db) \<le> limit"
    and m: "m \<in> set (rd_outbox db)" "ob_topic m = binding_topic" "ob_state m \<in> {MSG_PENDING, MSG_FAILED}"
      "ob_available_at m \<le> before"
  shows "\<exists>bs db'. claim_repository_binding_requests limit before lease db = Inr (bs, db')
    \<and> (\<exists>b \<in> set bs. br_message b = ob_id m \<and> br_attempts b = ob_attempts m + 1)"
proof -
  let ?P = "\<lambda>m. ob_topic m = binding_topic \<and> ob_state m \<in> {MSG_PENDING, MSG_FAILED} \<and> ob_available_at m \<le> before"
  define chosen where "chosen = claim_candidates binding_topic limit before db"
  have "length (filter ?P (rd_outbox db)) \<le> limit" using limit length_filter_le le_trans by blast
  then have chosen: "set chosen = ob_id ` {m \<in> set (rd_outbox db). ?P m}"
    by (simp add: chosen_def claim_candidates_def)
  have pick: "ob_id x \<in> set chosen \<longleftrightarrow> ?P x" if "x \<in> set (rd_outbox db)" for x
  proof
    assume "ob_id x \<in> set chosen"
    then obtain y where y: "y \<in> set (rd_outbox db)" "?P y" "ob_id x = ob_id y" unfolding chosen by blast
    have "inj_on ob_id (set (rd_outbox db))" using dist by (simp add: distinct_map)
    from inj_onD [OF this y(3) that y(1)] have "x = y" .
    with y show "?P x" by simp
  qed (use that in \<open>auto simp: chosen\<close>)
  define rows where "rows = filter (\<lambda>m. ob_id m \<in> set chosen) (rd_outbox db)"
  have ready: "list_all (\<lambda>m. ob_id m \<in> set chosen \<longrightarrow> outbox_row_ok (leased_message lease m)) (rd_outbox db)"
    using ok by (auto simp: list_all_iff message_ok_def outbox_row_ok_def leased_message_def)
  have each: "\<exists>b. binding_request_of (leased_message lease x) = Inr b" if "x \<in> set rows" for x
    using that ok pick leased_request by (auto simp: rows_def message_ok_def)
  have "\<exists>bs. collect binding_request_of (map (leased_message lease) xs) = Inr bs
      \<and> (\<forall>x \<in> set xs. \<forall>b. binding_request_of (leased_message lease x) = Inr b \<longrightarrow> b \<in> set bs)"
    if "\<forall>x \<in> set xs. \<exists>b. binding_request_of (leased_message lease x) = Inr b" for xs
    using that by (induction xs) auto
  with each obtain bs where bs: "collect binding_request_of (map (leased_message lease) rows) = Inr bs"
    "\<forall>x \<in> set rows. \<forall>b. binding_request_of (leased_message lease x) = Inr b \<longrightarrow> b \<in> set bs" by metis
  have claimed: "\<exists>db'. claim_repository_binding_requests limit before lease db = Inr (bs, db')"
    using ready bs(1) unfolding claim_repository_binding_requests_def claim_binding_requests_def
    by (simp add: chosen_def binding_topic_def rows_def Let_def)
  from ok m(1,2) obtain b where b: "binding_request_of m = Inr b" by (auto simp: message_ok_def)
  have "m \<in> set rows" using m pick by (simp add: rows_def)
  with bs(2) leased_request [OF b] have "b\<lparr>br_attempts := ob_attempts m + 1\<rparr> \<in> set bs" by simp
  then have "\<exists>b \<in> set bs. br_message b = ob_id m \<and> br_attempts b = ob_attempts m + 1"
    by (rule rev_bexI) (simp add: leased_request [OF b])
  with claimed show ?thesis by blast
qed

text \<open>
  a released binding request comes back. When source control gives a request back that is not yet
  taken, with an error code and a time to retry, a claim at that time or later whose limit covers the
  table returns, and the request is among what it returns, one attempt on.
\<close>

theorem released_request_returns:
  assumes "release_repository_binding_request i code retry db = Inr db'"
    and "outbox_by_id i db = Some m" and "ob_state m \<noteq> MSG_PUBLISHED"
    and "distinct (map ob_id (rd_outbox db))" and "\<forall>m \<in> set (rd_outbox db). message_ok m"
    and "length (rd_outbox db) \<le> limit" and "retry \<le> before"
  shows "\<exists>bs db''. claim_repository_binding_requests limit before lease db' = Inr (bs, db'')
    \<and> (\<exists>b \<in> set bs. br_message b = i \<and> br_attempts b = ob_attempts m + 1)"
proof -
  let ?f = "\<lambda>m. m\<lparr>ob_state := MSG_FAILED, ob_error := Some code, ob_available_at := retry, ob_published_at := None\<rparr>"
  have step: "ob_topic m = binding_topic \<and> outbox_row_ok (?f m)
      \<and> rd_outbox db' = set_where (\<lambda>x. ob_id x = i) ?f (rd_outbox db)"
    using assms(1-3) unfolding release_repository_binding_request_def binding_message_def
      release_outbox_def write_outbox_def outbox_by_id_def
    apply (elim res_elims)
     apply simp
    apply (clarsimp simp: written_Inr)
    apply (elim rbind_pairE)
    apply (auto dest!: update_row_Some)
    done
  from assms(2) have m: "m \<in> set (rd_outbox db)" "ob_id m = i"
    using row_by_Some [of ob_id i "rd_outbox db" m] by (simp_all add: outbox_by_id_def)
  have fm: "?f m \<in> set (rd_outbox db')" using m step by (auto simp: set_set_where)
  have "map ob_id (rd_outbox db') = map ob_id (rd_outbox db)" using step by (simp add: set_where_keys)
  with assms(4) have dist: "distinct (map ob_id (rd_outbox db'))" by simp
  have req: "binding_request_of (?f x) = binding_request_of x" for x
    by (simp add: binding_request_of_def split: pyval.split option.split)
  have ok: "\<forall>x \<in> set (rd_outbox db'). message_ok x"
  proof
    fix x assume "x \<in> set (rd_outbox db')"
    with step consider y where "y \<in> set (rd_outbox db)" "ob_id y = i" "x = ?f y" | "x \<in> set (rd_outbox db)"
      by (auto simp: set_set_where split: if_splits)
    then show "message_ok x"
    proof cases
      case 1
      have "inj_on ob_id (set (rd_outbox db))" using assms(4) by (simp add: distinct_map)
      from inj_onD [OF this _ 1(1) m(1)] 1(2) m(2) have "y = m" by simp
      with 1 step assms(5) m(1) req [of m] show ?thesis by (simp add: message_ok_def)
    next
      case 2
      with assms(5) show ?thesis by simp
    qed
  qed
  have "length (rd_outbox db') \<le> limit" using step assms(6) by (simp add: set_where_def)
  from claim_returns [OF dist ok this fm] step assms(7) m(2) show ?thesis by simp
qed

definition waiting_message :: outbox_row where
  "waiting_message = new_message ''m'' binding_topic ''a'' 1 (binding_payload ''w'' ''repo'') 1"

definition waiting_db :: requirement_db where
  "waiting_db = empty_requirement_db\<lparr>rd_outbox := [waiting_message]\<rparr>"

lemma waiting_ok: "message_ok waiting_message"
proof -
  have "outbox_row_ok waiting_message \<and> int4 (ob_attempts waiting_message + 1)
      \<and> \<not> isl (binding_request_of waiting_message)" by code_simp
  then show ?thesis by (cases "binding_request_of waiting_message") (simp_all add: message_ok_def)
qed

theorem released_request_returns_witness:
  "\<exists>db' bs db''. release_repository_binding_request ''m'' ''SOURCE_CONTROL_UNAVAILABLE'' 9 waiting_db = Inr db'
     \<and> claim_repository_binding_requests 1 12 20 db' = Inr (bs, db'') \<and> (\<exists>b \<in> set bs. br_message b = ''m'')"
proof -
  have "\<not> isl (release_repository_binding_request ''m'' ''SOURCE_CONTROL_UNAVAILABLE'' 9 waiting_db)"
    by code_simp
  then obtain db' where step: "release_repository_binding_request ''m'' ''SOURCE_CONTROL_UNAVAILABLE'' 9 waiting_db
      = Inr db'" by (metis isl_def sum.exhaust_sel sum.collapse(2))
  have row: "outbox_by_id ''m'' waiting_db = Some waiting_message" "ob_state waiting_message \<noteq> MSG_PUBLISHED"
    by code_simp+
  have table: "distinct (map ob_id (rd_outbox waiting_db))" "\<forall>m \<in> set (rd_outbox waiting_db). message_ok m"
    "length (rd_outbox waiting_db) \<le> 1" using waiting_ok by (simp_all add: waiting_db_def)
  from released_request_returns [OF step row table, of 12 20] step show ?thesis by auto
qed

end
