(* ===== verification/Workers.thy ===== *)
theory Workers
  imports Interfaces
begin

section \<open>Workers that interleave at transaction boundaries\<close>

text \<open>
  A handler that talks to another system alternates short database transactions with calls of
  that system; between two of them any other worker may run, and the process may die. A
  \<open>worker\<close> is such a handler as a tree: \<open>Done\<close> its outcome, \<open>Txn\<close> one transaction (it
  reads the clock and the id source, \<open>'t\<close>, and the database, \<open>'s\<close>), \<open>Ask\<close> one call with
  every answer it may get. A pool of workers over one database steps one worker at a time, starts
  handlers and loses workers (\<open>pool_step\<close>). The locale \<open>rely_guarantee\<close> is the interface
  under which a handler is verified alone: an invariant of the database, a relation that every
  transaction guarantees and may rely on, and a condition on each call it makes.
\<close>

datatype ('t, 's, 'q, 'a, 'r) worker =
    Done 'r
  | Txn "'t \<Rightarrow> 's \<Rightarrow> 's \<times> ('t, 's, 'q, 'a, 'r) worker"
  | Ask 'q "'a \<Rightarrow> ('t, 's, 'q, 'a, 'r) worker"

primrec and_then ::
  "('t, 's, 'q, 'a, 'r) worker \<Rightarrow> ('r \<Rightarrow> ('t, 's, 'q, 'a, 'o) worker)
   \<Rightarrow> ('t, 's, 'q, 'a, 'o) worker" where
  "and_then (Done r) f = f r"
| "and_then (Txn k) f = Txn (\<lambda>t s. map_prod id (\<lambda>w. and_then w f) (k t s))"
| "and_then (Ask q k) f = Ask q (\<lambda>a. and_then (k a) f)"

text \<open>Sequencing of results: an exception skips the rest; \<open>attempt\<close> is try, except and else.\<close>

definition wbind ::
  "('t, 's, 'q, 'a, ('e, 'x) res) worker \<Rightarrow> ('x \<Rightarrow> ('t, 's, 'q, 'a, ('e, 'y) res) worker)
   \<Rightarrow> ('t, 's, 'q, 'a, ('e, 'y) res) worker" where
  "wbind w f = and_then w (\<lambda>r. case r of Inl e \<Rightarrow> Done (Inl e) | Inr x \<Rightarrow> f x)"

definition attempt ::
  "('t, 's, 'q, 'a, ('e, 'x) res) worker \<Rightarrow> ('e \<Rightarrow> ('t, 's, 'q, 'a, 'o) worker)
   \<Rightarrow> ('x \<Rightarrow> ('t, 's, 'q, 'a, 'o) worker) \<Rightarrow> ('t, 's, 'q, 'a, 'o) worker" where
  "attempt w bad good = and_then w (\<lambda>r. case r of Inl e \<Rightarrow> bad e | Inr x \<Rightarrow> good x)"

definition give :: "'x \<Rightarrow> ('t, 's, 'q, 'a, ('e, 'x) res) worker" where
  "give x = Done (Inr x)"

definition throw :: "'e \<Rightarrow> ('t, 's, 'q, 'a, ('e, 'x) res) worker" where
  "throw e = Done (Inl e)"

text \<open>\<open>with engine.begin() as db\<close>: an exception rolls back; \<open>with engine.connect()\<close> only reads.\<close>

definition transact ::
  "('t \<Rightarrow> 's \<Rightarrow> ('e, 'x \<times> 's) res) \<Rightarrow> ('t, 's, 'q, 'a, ('e, 'x) res) worker" where
  "transact body = Txn (\<lambda>t s. case body t s of
     Inl e \<Rightarrow> (s, throw e) | Inr (x, s') \<Rightarrow> (s', give x))"

definition observe :: "('t \<Rightarrow> 's \<Rightarrow> ('e, 'x) res) \<Rightarrow> ('t, 's, 'q, 'a, ('e, 'x) res) worker" where
  "observe f = Txn (\<lambda>t s. (s, Done (f t s)))"

definition call :: "'q \<Rightarrow> ('a \<Rightarrow> 'r) \<Rightarrow> ('t, 's, 'q, 'a, 'r) worker" where
  "call q decode = Ask q (\<lambda>a. Done (decode a))"

text \<open>A loop \<open>[body x for x in xs]\<close>.\<close>

fun each_task ::
  "('x \<Rightarrow> ('t, 's, 'q, 'a, ('e, 'y) res) worker) \<Rightarrow> 'x list
   \<Rightarrow> ('t, 's, 'q, 'a, ('e, 'y list) res) worker" where
  "each_task f [] = give []"
| "each_task f (x # xs) = wbind (f x) (\<lambda>y. wbind (each_task f xs) (\<lambda>ys. give (y # ys)))"

subsection \<open>A pool of workers\<close>

type_synonym ('t, 's, 'q, 'a, 'r) pool = "'s \<times> ('t, 's, 'q, 'a, 'r) worker list"

inductive pool_step ::
  "('t, 's, 'q, 'a, 'r) worker set \<Rightarrow> ('t, 's, 'q, 'a, 'r) pool \<Rightarrow> ('t, 's, 'q, 'a, 'r) pool \<Rightarrow> bool"
  for handlers where
  start: "w \<in> handlers \<Longrightarrow> pool_step handlers (s, ws) (s, ws @ [w])"
| commit: "i < length ws \<Longrightarrow> ws ! i = Txn k \<Longrightarrow> k t s = (s', w) \<Longrightarrow>
    pool_step handlers (s, ws) (s', ws[i := w])"
| answer: "i < length ws \<Longrightarrow> ws ! i = Ask q k \<Longrightarrow> pool_step handlers (s, ws) (s, ws[i := k a])"
| crash: "pool_step handlers (s, us @ w # vs) (s, us @ vs)"

inductive_cases pool_stepE: "pool_step handlers p p'"

text \<open>One worker alone, for as many steps as given, with the readings and answers of each step.\<close>

fun advance ::
  "nat \<Rightarrow> (nat \<Rightarrow> 't) \<Rightarrow> (nat \<Rightarrow> 'q \<Rightarrow> 'a) \<Rightarrow> 's \<times> ('t, 's, 'q, 'a, 'r) worker
   \<Rightarrow> 's \<times> ('t, 's, 'q, 'a, 'r) worker" where
  "advance 0 ts as (s, w) = (s, w)"
| "advance (Suc n) ts as (s, Done r) = (s, Done r)"
| "advance (Suc n) ts as (s, Txn k) = advance n ts as (k (ts n) s)"
| "advance (Suc n) ts as (s, Ask q k) = advance n ts as (s, k (as n q))"

lemma advance_steps:
  assumes "i < length ws"
  shows "advance n ts as (s, ws ! i) = (s', w) \<Longrightarrow>
    (pool_step handlers)\<^sup>*\<^sup>* (s, ws) (s', ws[i := w])"
  using assms
proof (induction n arbitrary: s ws)
  case (Suc n)
  show ?case
  proof (cases "ws ! i")
    case (Done r)
    with Suc.prems show ?thesis by auto
  next
    case (Txn k)
    obtain s1 w1 where k: "k (ts n) s = (s1, w1)" by fastforce
    with Suc.IH [of s1 "ws[i := w1]"] Suc.prems Txn
    have "(pool_step handlers)\<^sup>*\<^sup>* (s1, ws[i := w1]) (s', ws[i := w])" by simp
    with commit [OF Suc.prems(2) Txn k] show ?thesis by (rule converse_rtranclp_into_rtranclp)
  next
    case (Ask q k)
    with Suc.IH [of s "ws[i := k (as n q)]"] Suc.prems
    have "(pool_step handlers)\<^sup>*\<^sup>* (s, ws[i := k (as n q)]) (s', ws[i := w])" by simp
    with answer [OF Suc.prems(2) Ask] show ?thesis by (rule converse_rtranclp_into_rtranclp)
  qed
qed auto

lemma started_runs:
  assumes "w \<in> handlers" and "advance n ts as (s, w) = (s', w')"
  shows "(pool_step handlers)\<^sup>*\<^sup>* (s, ws) (s', ws @ [w'])"
proof -
  have "(pool_step handlers)\<^sup>*\<^sup>* (s, ws @ [w]) (s', (ws @ [w])[length ws := w'])"
    by (rule advance_steps) (use assms(2) in simp_all)
  then have "(pool_step handlers)\<^sup>*\<^sup>* (s, ws @ [w]) (s', ws @ [w'])" by simp
  with start [OF assms(1)] show ?thesis by (rule converse_rtranclp_into_rtranclp)
qed

subsection \<open>Rely and guarantee\<close>

inductive sat ::
  "('s \<Rightarrow> bool) \<Rightarrow> ('s \<Rightarrow> 's \<Rightarrow> bool) \<Rightarrow> ('s \<Rightarrow> 's \<Rightarrow> bool) \<Rightarrow> ('s \<Rightarrow> 'q \<Rightarrow> bool) \<Rightarrow> ('s \<Rightarrow> 'r \<Rightarrow> bool)
   \<Rightarrow> 's \<Rightarrow> ('t, 's, 'q, 'a, 'r) worker \<Rightarrow> bool"
  for I rely guar asks post where
  sat_Done: "(\<And>s'. rely s s' \<Longrightarrow> I s' \<Longrightarrow> post s' r) \<Longrightarrow> sat I rely guar asks post s (Done r)"
| sat_Txn: "(\<And>t s' s'' w. rely s s' \<Longrightarrow> I s' \<Longrightarrow> k t s' = (s'', w) \<Longrightarrow>
      I s'' \<and> guar s' s'' \<and> sat I rely guar asks post s'' w) \<Longrightarrow>
    sat I rely guar asks post s (Txn k)"
| sat_Ask: "(\<And>s'. rely s s' \<Longrightarrow> I s' \<Longrightarrow> asks s' q) \<Longrightarrow>
    (\<And>a. sat I rely guar asks post s (k a)) \<Longrightarrow> sat I rely guar asks post s (Ask q k)"

inductive_cases sat_AskE: "sat I rely guar asks post s (Ask q k)"
inductive_cases sat_TxnE: "sat I rely guar asks post s (Txn k)"

locale rely_guarantee =
  fixes inv :: "'s \<Rightarrow> bool"
    and rely :: "'s \<Rightarrow> 's \<Rightarrow> bool"
    and guar :: "'s \<Rightarrow> 's \<Rightarrow> bool"
    and asks :: "'s \<Rightarrow> 'q \<Rightarrow> bool"
  assumes rely_refl: "rely s s"
    and rely_trans: "rely s s' \<Longrightarrow> rely s' s'' \<Longrightarrow> rely s s''"
    and guar_refl: "guar s s"
    and guar_rely: "guar s s' \<Longrightarrow> rely s s'"
begin

lemma sat_later:
  assumes "sat inv rely guar asks post s w" and "rely s s'"
  shows "sat inv rely guar asks post s' w"
  using assms
proof (induction arbitrary: s')
  case (sat_Done s r)
  then show ?case by (blast intro: sat.sat_Done rely_trans)
next
  case (sat_Txn s k)
  show ?case
  proof (rule sat.sat_Txn)
    fix t s1 s2 w
    assume "rely s' s1" and "inv s1" and "k t s1 = (s2, w)"
    with sat_Txn rely_trans rely_refl show "inv s2 \<and> guar s1 s2 \<and> sat inv rely guar asks post s2 w"
      by blast
  qed
next
  case (sat_Ask s q k)
  then show ?case by (blast intro: sat.sat_Ask rely_trans)
qed

lemma sat_weaken:
  assumes "sat inv rely guar asks post s w" and "\<And>s' r. inv s' \<Longrightarrow> post s' r \<Longrightarrow> post' s' r"
  shows "sat inv rely guar asks post' s w"
  using assms
proof (induction)
  case (sat_Done s r)
  then show ?case by (blast intro: sat.sat_Done)
next
  case (sat_Txn s k)
  then show ?case by (intro sat.sat_Txn) blast
next
  case (sat_Ask s q k)
  then show ?case by (intro sat.sat_Ask) auto
qed

lemma sat_and_then:
  assumes "sat inv rely guar asks mid s w"
    and "\<And>s' r. rely s s' \<Longrightarrow> inv s' \<Longrightarrow> mid s' r \<Longrightarrow> sat inv rely guar asks post s' (f r)"
    and "inv s"
  shows "sat inv rely guar asks post s (and_then w f)"
  using assms
proof (induction)
  case (sat_Done s r)
  then show ?case using rely_refl by simp
next
  case (sat_Txn s k)
  show ?case unfolding and_then.simps
  proof (rule sat.sat_Txn)
    fix t s1 s2 w2
    assume s1: "rely s s1" "inv s1" and eq: "map_prod id (\<lambda>w. and_then w f) (k t s1) = (s2, w2)"
    obtain w1 where k: "k t s1 = (s2, w1)" and w2: "w2 = and_then w1 f"
      using eq by (cases "k t s1") auto
    from sat_Txn.IH [OF s1 k] have s2: "inv s2" "guar s1 s2" by blast+
    have "sat inv rely guar asks post s' (f r)" if "rely s2 s'" "inv s'" "mid s' r" for s' r
      using sat_Txn.prems(1) that s1(1) guar_rely [OF s2(2)] rely_trans by blast
    with sat_Txn.IH [OF s1 k] s2(1) w2
    show "inv s2 \<and> guar s1 s2 \<and> sat inv rely guar asks post s2 w2" by blast
  qed
next
  case (sat_Ask s q k)
  then show ?case unfolding and_then.simps by (intro sat.sat_Ask) blast+
qed

lemma sat_wbind:
  assumes "sat inv rely guar asks mid s w" and "inv s"
    and "\<And>s' x. rely s s' \<Longrightarrow> inv s' \<Longrightarrow> mid s' (Inr x) \<Longrightarrow> sat inv rely guar asks post s' (f x)"
    and "\<And>s' e. inv s' \<Longrightarrow> post s' (Inl e)"
  shows "sat inv rely guar asks post s (wbind w f)"
  unfolding wbind_def
  by (rule sat_and_then [OF assms(1)]) (auto split: sum.split intro: assms sat.sat_Done)

lemma sat_attempt:
  assumes "sat inv rely guar asks mid s w" and "inv s"
    and "\<And>s' x. rely s s' \<Longrightarrow> inv s' \<Longrightarrow> mid s' (Inr x) \<Longrightarrow> sat inv rely guar asks post s' (good x)"
    and "\<And>s' e. rely s s' \<Longrightarrow> inv s' \<Longrightarrow> mid s' (Inl e) \<Longrightarrow> sat inv rely guar asks post s' (bad e)"
  shows "sat inv rely guar asks post s (attempt w bad good)"
  unfolding attempt_def
  by (rule sat_and_then [OF assms(1)]) (auto split: sum.split intro: assms)

lemma sat_transact:
  assumes "\<And>t s1 x s2. rely s s1 \<Longrightarrow> inv s1 \<Longrightarrow> body t s1 = Inr (x, s2) \<Longrightarrow>
      inv s2 \<and> guar s1 s2 \<and> (\<forall>s3. rely s2 s3 \<longrightarrow> inv s3 \<longrightarrow> post s3 (Inr x))"
    and "\<And>s1 e. inv s1 \<Longrightarrow> post s1 (Inl e)"
  shows "sat inv rely guar asks post s (transact body)"
  unfolding transact_def
  by (rule sat.sat_Txn)
    (auto split: sum.splits prod.splits simp: throw_def give_def guar_refl dest!: assms(1)
      intro!: sat.sat_Done assms(2))

lemma sat_observe:
  assumes "\<And>t s1 s2. rely s s1 \<Longrightarrow> inv s1 \<Longrightarrow> rely s1 s2 \<Longrightarrow> inv s2 \<Longrightarrow> post s2 (f t s1)"
  shows "sat inv rely guar asks post s (observe f)"
  unfolding observe_def by (rule sat.sat_Txn) (auto simp: guar_refl guar_rely intro!: sat.sat_Done assms)

lemma sat_call:
  assumes "\<And>s1. rely s s1 \<Longrightarrow> inv s1 \<Longrightarrow> asks s1 q"
    and "\<And>s1 a. rely s s1 \<Longrightarrow> inv s1 \<Longrightarrow> post s1 (decode a)"
  shows "sat inv rely guar asks post s (call q decode)"
  unfolding call_def by (rule sat.sat_Ask) (auto intro!: sat.sat_Done assms)

lemma sat_give: "(\<And>s'. rely s s' \<Longrightarrow> inv s' \<Longrightarrow> post s' (Inr x)) \<Longrightarrow> sat inv rely guar asks post s (give x)"
  unfolding give_def by (rule sat.sat_Done)

lemma sat_throw: "(\<And>s'. rely s s' \<Longrightarrow> inv s' \<Longrightarrow> post s' (Inl e)) \<Longrightarrow> sat inv rely guar asks post s (throw e)"
  unfolding throw_def by (rule sat.sat_Done)

lemma sat_each:
  assumes "\<And>s' x. rely s s' \<Longrightarrow> inv s' \<Longrightarrow> x \<in> set xs \<Longrightarrow> sat inv rely guar asks (\<lambda>_ _. True) s' (f x)"
    and "inv s"
  shows "sat inv rely guar asks (\<lambda>_ _. True) s (each_task f xs)"
  using assms
proof (induction xs arbitrary: s)
  case Nil
  then show ?case by (simp add: sat_give)
next
  case (Cons x xs)
  have "sat inv rely guar asks (\<lambda>_ _. True) s' (each_task f xs)" if s': "rely s s'" "inv s'" for s'
  proof (rule Cons.IH)
    fix s2 y
    assume "rely s' s2" and "inv s2" and "y \<in> set xs"
    with Cons.prems(1) rely_trans [OF s'(1)] show "sat inv rely guar asks (\<lambda>_ _. True) s2 (f y)"
      by simp
  qed (rule s'(2))
  with Cons.prems rely_refl show ?case unfolding each_task.simps
    by (intro sat_wbind [where mid = "\<lambda>_ _. True"] sat_give) (auto intro: rely_trans)
qed

text \<open>Soundness: a pool whose handlers keep the contract keeps it under every interleaving.\<close>

definition pool_ok :: "('t, 's, 'q, 'a, 'r) pool \<Rightarrow> bool" where
  "pool_ok p \<longleftrightarrow> inv (fst p) \<and> (\<forall>w \<in> set (snd p). sat inv rely guar asks (\<lambda>_ _. True) (fst p) w)"

lemma pool_step_ok:
  assumes handlers: "\<And>s w. inv s \<Longrightarrow> w \<in> handlers \<Longrightarrow> sat inv rely guar asks (\<lambda>_ _. True) s w"
    and "pool_step handlers p p'" and "pool_ok p"
  shows "pool_ok p' \<and> guar (fst p) (fst p')"
  using assms(2,3)
proof (cases rule: pool_step.cases)
  case (start w s ws)
  with assms(3) handlers [of s w] guar_refl show ?thesis by (auto simp: pool_ok_def)
next
  case (commit i ws k t s s' w)
  from commit(3,4) have "Txn k \<in> set ws" by (metis nth_mem)
  with commit assms(3) have "sat inv rely guar asks (\<lambda>_ _. True) s (Txn k)" and "inv s"
    by (auto simp: pool_ok_def)
  then have w: "inv s'" "guar s s'" "sat inv rely guar asks (\<lambda>_ _. True) s' w"
    using commit(5) rely_refl by (blast elim: sat_TxnE)+
  have "sat inv rely guar asks (\<lambda>_ _. True) s' v" if "v \<in> set ws" for v
    using that assms(3) commit(1) guar_rely [OF w(2)] by (auto simp: pool_ok_def intro: sat_later)
  with w commit(1,2) show ?thesis
    by (auto simp: pool_ok_def dest!: subsetD [OF set_update_subset_insert])
next
  case (answer i ws q k s a)
  from answer(3,4) have "Ask q k \<in> set ws" by (metis nth_mem)
  with answer(1) assms(3) have "sat inv rely guar asks (\<lambda>_ _. True) s (k a)"
    by (auto simp: pool_ok_def elim!: sat_AskE)
  with answer(1,2) assms(3) guar_refl show ?thesis
    by (auto simp: pool_ok_def dest!: subsetD [OF set_update_subset_insert])
next
  case (crash s us w vs)
  with assms(3) guar_refl show ?thesis by (auto simp: pool_ok_def)
qed

lemma pool_run_ok:
  assumes handlers: "\<And>s w. inv s \<Longrightarrow> w \<in> handlers \<Longrightarrow> sat inv rely guar asks (\<lambda>_ _. True) s w"
    and "(pool_step handlers)\<^sup>*\<^sup>* p p'" and "pool_ok p"
  shows "pool_ok p' \<and> rely (fst p) (fst p')"
  using assms(2)
proof (induction rule: rtranclp_induct)
  case base
  with assms(3) rely_refl show ?case by blast
next
  case (step q r)
  with pool_step_ok [OF handlers step(2)] rely_trans guar_rely show ?case by blast
qed

lemma pool_asks:
  assumes "pool_ok (s, ws)" and "Ask q k \<in> set ws"
  shows "asks s q"
  using assms rely_refl by (auto simp: pool_ok_def elim!: sat_AskE)

lemma pool_ok_empty: "inv s \<Longrightarrow> pool_ok (s, [])"
  by (simp add: pool_ok_def)

end

end
