(* ===== verification/Source_Domain.thy ===== *)
theory Source_Domain
  imports Workers Audit_Log Platform_Json
begin

section \<open>The source control module: domain\<close>

text \<open>
  \<^verbatim>\<open>source_control/domain/models.py\<close>, \<^verbatim>\<open>transitions.py\<close>, \<^verbatim>\<open>naming.py\<close>, \<^verbatim>\<open>reasons.py\<close> and
  \<^verbatim>\<open>integration.py\<close> as far as the task branch needs them, the reconcile schedule of
  \<^verbatim>\<open>adapters/policy.py\<close> and the data of the ports. Identifiers are strings; UUID columns are read
  back as they were written. Unicode's NFKC is the parameter \<open>nfkc\<close> (its table is not code);
  lower-casing and \<open>isalnum\<close> are written out on HOL's characters, the code points below 256.
\<close>

subsection \<open>States, operations, reasons\<close>

datatype effect_state =
  EFFECT_PLANNED | IN_FLIGHT | EFFECT_UNKNOWN | RECONCILIATION | EFFECT_SUCCEEDED | EFFECT_BLOCKED

datatype effect_operation =
  CREATE_TASK_BRANCH | CREATE_INTEGRATION_MR | MERGE_INTEGRATION_MR | CREATE_FORMAL_MR | MERGE_FORMAL_MR

datatype inbox_state = RECEIVED | PROCESSING | PROCESSED | FAILED

datatype webhook_state =
  HOOK_RECEIVED | HOOK_PROCESSING | HOOK_PROCESSED | HOOK_IGNORED | HOOK_FAILED

datatype repository_status = AUTHORIZED | REMOVED

datatype callback_state = CALLBACK_PENDING | CALLBACK_ACKED | CALLBACK_FAILED

datatype effect_payload =
    TaskBranchPayload
  | CreateIntegrationPayload string string
  | MergeIntegrationPayload string string
  | CreateFormalPayload string string string
  | MergeFormalPayload string string string string

datatype source_control_reason =
    ACCESS_DENIED | BINDING_CONFLICT | BRANCH_BINDING_MISSING | CONNECTOR_UNAVAILABLE
  | EVIDENCE_STALE | EVIDENCE_UNAVAILABLE | EXTERNAL_MERGE_DRIFT | EXTERNAL_RESULT_UNKNOWN
  | FORMAL_DELIVERY_CONFLICT | HEAD_SHA_CHANGED | MERGE_ACTOR_INELIGIBLE | MERGE_CONFLICT
  | MR_CHECKS_BLOCKED | MR_CLOSED | MR_CONFLICT | NO_DELIVERY_COMMIT | OWNER_INELIGIBLE
  | OWNER_MISMATCH | OWNER_UNASSIGNED | PROJECT_PROFILE_UNSUPPORTED | PROVIDER_UNAVAILABLE
  | RECONCILIATION_PENDING | REPOSITORY_NOT_AUTHORIZED | REPOSITORY_NOT_FOUND | REPOSITORY_REMOVED
  | SOURCE_BRANCH_MISSING_AFTER_INTEGRATION | TARGET_BRANCH_NOT_FOUND | TARGET_BRANCH_NOT_PROTECTED

definition reason_table :: "(string \<times> source_control_reason) list" where
  "reason_table = [
     (''ACCESS_DENIED'', ACCESS_DENIED), (''BINDING_CONFLICT'', BINDING_CONFLICT),
     (''BRANCH_BINDING_MISSING'', BRANCH_BINDING_MISSING),
     (''CONNECTOR_UNAVAILABLE'', CONNECTOR_UNAVAILABLE), (''EVIDENCE_STALE'', EVIDENCE_STALE),
     (''EVIDENCE_UNAVAILABLE'', EVIDENCE_UNAVAILABLE),
     (''EXTERNAL_MERGE_DRIFT'', EXTERNAL_MERGE_DRIFT),
     (''EXTERNAL_RESULT_UNKNOWN'', EXTERNAL_RESULT_UNKNOWN),
     (''FORMAL_DELIVERY_CONFLICT'', FORMAL_DELIVERY_CONFLICT),
     (''HEAD_SHA_CHANGED'', HEAD_SHA_CHANGED), (''MERGE_ACTOR_INELIGIBLE'', MERGE_ACTOR_INELIGIBLE),
     (''MERGE_CONFLICT'', MERGE_CONFLICT), (''MR_CHECKS_BLOCKED'', MR_CHECKS_BLOCKED),
     (''MR_CLOSED'', MR_CLOSED), (''MR_CONFLICT'', MR_CONFLICT),
     (''NO_DELIVERY_COMMIT'', NO_DELIVERY_COMMIT), (''OWNER_INELIGIBLE'', OWNER_INELIGIBLE),
     (''OWNER_MISMATCH'', OWNER_MISMATCH), (''OWNER_UNASSIGNED'', OWNER_UNASSIGNED),
     (''PROJECT_PROFILE_UNSUPPORTED'', PROJECT_PROFILE_UNSUPPORTED),
     (''PROVIDER_UNAVAILABLE'', PROVIDER_UNAVAILABLE),
     (''RECONCILIATION_PENDING'', RECONCILIATION_PENDING),
     (''REPOSITORY_NOT_AUTHORIZED'', REPOSITORY_NOT_AUTHORIZED),
     (''REPOSITORY_NOT_FOUND'', REPOSITORY_NOT_FOUND), (''REPOSITORY_REMOVED'', REPOSITORY_REMOVED),
     (''SOURCE_BRANCH_MISSING_AFTER_INTEGRATION'', SOURCE_BRANCH_MISSING_AFTER_INTEGRATION),
     (''TARGET_BRANCH_NOT_FOUND'', TARGET_BRANCH_NOT_FOUND),
     (''TARGET_BRANCH_NOT_PROTECTED'', TARGET_BRANCH_NOT_PROTECTED)]"

definition reason_value :: "source_control_reason \<Rightarrow> string" where
  "reason_value r = (case row_by snd r reason_table of None \<Rightarrow> [] | Some (v, _) \<Rightarrow> v)"

datatype source_error =
    InvalidEffectTransition | RepositoryNotFound | RepositoryRemoved | RepositoryWorkspaceConflict
  | StaleRepositoryRevision | InvalidRepositorySecretReference | BindingRequestMessageConflict
  | RequirementCallbackUnavailable | SourceControlDependencyUnavailable | InvalidBranchName
  | WebhookSignatureInvalid | WebhookReplayRejected | WebhookPayloadInvalid | WebhookIdConflict
  | GitLabAccessDenied | GitLabDefaultBranchNotFound | GitLabBranchNotFound
  | GitLabBranchAlreadyExists | GitLabProviderUnavailable | GitLabResultUnknown | GitLabBranchConflict
  | InboxClaimLost | IntegrityError string | ValidationError | SubscriptOfNone | IncompleteBranchEffect
  | UnexpectedError

definition stored_reason :: "string option \<Rightarrow> (source_error, source_control_reason option) res" where
  "stored_reason value = (case value of
     None \<Rightarrow> Inr None
   | Some v \<Rightarrow> (case map_of reason_table v of
       None \<Rightarrow> Inl SourceControlDependencyUnavailable | Some r \<Rightarrow> Inr (Some r)))"

lemma reason_roundtrip [simp]: "stored_reason (Some (reason_value r)) = Inr (Some r)"
  by (induction r) code_simp+

subsection \<open>The effect's transition table\<close>

fun effect_transitions :: "effect_state \<Rightarrow> effect_state list" where
  "effect_transitions EFFECT_PLANNED = [IN_FLIGHT, EFFECT_BLOCKED]"
| "effect_transitions IN_FLIGHT = [EFFECT_SUCCEEDED, EFFECT_BLOCKED, EFFECT_UNKNOWN, RECONCILIATION]"
| "effect_transitions EFFECT_UNKNOWN = [RECONCILIATION]"
| "effect_transitions RECONCILIATION =
     [RECONCILIATION, EFFECT_SUCCEEDED, EFFECT_BLOCKED, EFFECT_UNKNOWN, IN_FLIGHT]"
| "effect_transitions EFFECT_SUCCEEDED = []"
| "effect_transitions EFFECT_BLOCKED = []"

definition transition_effect ::
  "effect_state \<Rightarrow> effect_state \<Rightarrow> (source_error, effect_state) res" where
  "transition_effect current target =
     (if target \<notin> set (effect_transitions current) then Inl InvalidEffectTransition else Inr target)"

subsection \<open>Branch names\<close>

definition lower_char :: "char \<Rightarrow> char" where
  "lower_char c = (let n = (of_char c :: nat) in
     if (65 \<le> n \<and> n \<le> 90) \<or> (192 \<le> n \<and> n \<le> 222 \<and> n \<noteq> 215) then char_of (n + 32) else c)"

definition lower :: "string \<Rightarrow> string" where
  "lower s = map lower_char s"

definition is_alnum :: "char \<Rightarrow> bool" where
  "is_alnum c = (let n = (of_char c :: nat) in
     (48 \<le> n \<and> n \<le> 57) \<or> (65 \<le> n \<and> n \<le> 90) \<or> (97 \<le> n \<and> n \<le> 122)
     \<or> n \<in> {170, 178, 179, 181, 185, 186, 188, 189, 190}
     \<or> (192 \<le> n \<and> n \<le> 255 \<and> n \<noteq> 215 \<and> n \<noteq> 247))"

definition requirement_types :: "string list" where
  "requirement_types = [''feat'', ''fix'', ''refactor'', ''chore'']"

definition max_slug_code_points :: nat where
  "max_slug_code_points = 48"

fun slug_characters :: "string \<Rightarrow> bool \<Rightarrow> string \<Rightarrow> string" where
  "slug_characters acc separator_pending [] = acc"
| "slug_characters acc separator_pending (c # cs) =
     (if is_alnum c
      then slug_characters ((if separator_pending \<and> acc \<noteq> [] then acc @ ''-'' else acc) @ [c]) False cs
      else slug_characters acc True cs)"

definition strip_dashes :: "string \<Rightarrow> string" where
  "strip_dashes s =
     rev (dropWhile (\<lambda>c. c = CHR ''-'') (rev (dropWhile (\<lambda>c. c = CHR ''-'') s)))"

definition build_task_branch_name ::
  "(string \<Rightarrow> string) \<Rightarrow> string \<Rightarrow> int \<Rightarrow> string \<Rightarrow> (source_error, string) res" where
  "build_task_branch_name nfkc requirement_type number title =
     (let normalized_type = lower (strip requirement_type)
      in if normalized_type \<notin> set requirement_types then Inl InvalidBranchName
         else if number \<le> 0 then Inl InvalidBranchName
         else
           let slug = strip_dashes (take max_slug_code_points
                 (slug_characters [] False (lower (nfkc title))));
               slug = (if slug = [] then normalized_type else slug)
           in Inr (normalized_type @ ''/wi-'' @ str_of_int number @ ''-'' @ slug))"

subsection \<open>The reconcile schedule\<close>

record policy_settings =
  ps_base_delay :: int
  ps_max_delay :: int
  ps_replay_window :: int

definition settings_ok :: "policy_settings \<Rightarrow> bool" where
  "settings_ok p = (1 \<le> ps_base_delay p \<and> ps_base_delay p \<le> 300 \<and> 1 \<le> ps_max_delay p
     \<and> ps_max_delay p \<le> 3600 \<and> 30 \<le> ps_replay_window p \<and> ps_replay_window p \<le> 900
     \<and> ps_base_delay p \<le> ps_max_delay p)"

fun doubled_delay :: "int \<Rightarrow> int \<Rightarrow> nat \<Rightarrow> int" where
  "doubled_delay delay maximum 0 = delay"
| "doubled_delay delay maximum (Suc remaining) =
     (if delay < maximum then doubled_delay (min (delay * 2) maximum) maximum remaining else delay)"

text \<open>Instants and durations count microseconds, as \<open>timedelta\<close> does.\<close>

definition seconds :: "int \<Rightarrow> duration" where
  "seconds n = n * 1000000"

definition next_reconcile_at :: "policy_settings \<Rightarrow> instant \<Rightarrow> int \<Rightarrow> instant" where
  "next_reconcile_at p now attempts =
     now + seconds (doubled_delay (ps_base_delay p) (ps_max_delay p) (nat (max attempts 1 - 1)))"

subsection \<open>Rows\<close>

record repository_row =
  rp_id :: string
  rp_workspace :: string
  rp_provider :: string
  rp_project :: string
  rp_path :: string
  rp_default_branch :: string
  rp_connection :: string
  rp_credential :: string
  rp_webhook_secret :: "string option"
  rp_status :: repository_status
  rp_revision :: int
  rp_created_at :: instant
  rp_updated_at :: instant

record inbox_row =
  ib_message :: string
  ib_payload_hash :: string
  ib_requirement :: string
  ib_requirement_version :: int
  ib_work_item :: string
  ib_repository :: string
  ib_state :: inbox_state
  ib_attempts :: int
  ib_available_at :: instant
  ib_error :: "string option"
  ib_received_at :: instant
  ib_updated_at :: instant
  ib_processed_at :: "instant option"

record effect_row =
  ef_id :: string
  ef_key :: string
  ef_operation :: effect_operation
  ef_subject :: string
  ef_payload :: effect_payload
  ef_work_item :: string
  ef_requirement :: string
  ef_repository :: string
  ef_number :: "int option"
  ef_branch :: "string option"
  ef_base :: "string option"
  ef_fingerprint :: string
  ef_attempts :: int
  ef_next_reconcile :: "instant option"
  ef_state :: effect_state
  ef_error :: "string option"
  ef_callback :: callback_state
  ef_created_at :: instant
  ef_updated_at :: instant
  ef_completed_at :: "instant option"

record branch_binding_row =
  bd_id :: string
  bd_work_item :: string
  bd_requirement :: string
  bd_workspace :: string
  bd_repository :: string
  bd_number :: int
  bd_base :: string
  bd_branch :: string
  bd_effect :: string
  bd_created_at :: instant

record webhook_summary =
  ws_event_type :: string
  ws_object_kind :: "string option"
  ws_project :: string
  ws_ref :: "string option"
  ws_before :: "string option"
  ws_after :: "string option"
  ws_checkout :: "string option"
  ws_mr_iid :: "int option"
  ws_mr_action :: "string option"
  ws_source_branch :: "string option"
  ws_target_branch :: "string option"
  ws_mr_state :: "string option"
  ws_old_head :: "string option"
  ws_head :: "string option"

record webhook_row =
  wh_id :: string
  wh_repository :: string
  wh_webhook :: string
  wh_timestamp :: instant
  wh_digest :: string
  wh_event_uuid :: "string option"
  wh_summary :: webhook_summary
  wh_state :: webhook_state
  wh_error :: "string option"
  wh_received_at :: instant
  wh_updated_at :: instant
  wh_processed_at :: "instant option"

subsection \<open>Validated effects\<close>

definition lower_hex :: "char \<Rightarrow> bool" where
  "lower_hex c = (c \<in> set ''0123456789abcdef'')"

definition exact_head_sha :: "string \<Rightarrow> bool" where
  "exact_head_sha s = (length s = 40 \<and> list_all lower_hex s)"

fun payload_ok :: "effect_payload \<Rightarrow> bool" where
  "payload_ok TaskBranchPayload = True"
| "payload_ok (CreateIntegrationPayload b h) = (\<not> blank b \<and> exact_head_sha h)"
| "payload_ok (MergeIntegrationPayload b h) = (\<not> blank b \<and> exact_head_sha h)"
| "payload_ok (CreateFormalPayload a b h) = (\<not> blank a \<and> \<not> blank b \<and> exact_head_sha h)"
| "payload_ok (MergeFormalPayload a b h r) =
     (\<not> blank a \<and> \<not> blank b \<and> exact_head_sha h \<and> \<not> blank r)"

fun split_on :: "char \<Rightarrow> string \<Rightarrow> string list" where
  "split_on d [] = [[]]"
| "split_on d (c # cs) =
     (if c = d then [] # split_on d cs
      else case split_on d cs of [] \<Rightarrow> [[c]] | w # ws \<Rightarrow> (c # w) # ws)"

definition no_branch_values :: "effect_row \<Rightarrow> bool" where
  "no_branch_values e = (ef_number e = None \<and> ef_branch e = None \<and> ef_base e = None)"

definition operation_shape_ok :: "effect_row \<Rightarrow> bool" where
  "operation_shape_ok e = (case ef_operation e of
     CREATE_TASK_BRANCH \<Rightarrow>
       ef_number e \<noteq> None \<and> ef_branch e \<noteq> None \<and> ef_base e \<noteq> None
       \<and> ef_subject e = ''work-item:'' @ ef_work_item e \<and> ef_payload e = TaskBranchPayload
   | CREATE_INTEGRATION_MR \<Rightarrow> no_branch_values e \<and> (case ef_payload e of
       CreateIntegrationPayload b h \<Rightarrow>
         ef_subject e = ''integration-work-item:'' @ ef_work_item e @ '':'' @ h
     | _ \<Rightarrow> False)
   | MERGE_INTEGRATION_MR \<Rightarrow> no_branch_values e \<and> (case ef_payload e of
       MergeIntegrationPayload b h \<Rightarrow> (case split_on (CHR '':'') (ef_subject e) of
           [m, i, s] \<Rightarrow> m = ''mr'' \<and> i \<noteq> [] \<and> exact_head_sha s \<and> i = b \<and> s = h
         | _ \<Rightarrow> False)
     | _ \<Rightarrow> False)
   | CREATE_FORMAL_MR \<Rightarrow> no_branch_values e \<and> (case ef_payload e of
       CreateFormalPayload a b h \<Rightarrow> ef_subject e =
         ''formal-work-item:'' @ ef_work_item e @ '':'' @ h @ '':'' @ ef_fingerprint e
     | _ \<Rightarrow> False)
   | MERGE_FORMAL_MR \<Rightarrow> no_branch_values e \<and> (case ef_payload e of
       MergeFormalPayload a b h r \<Rightarrow>
         ef_subject e = ''formal-mr:'' @ b @ '':'' @ h @ '':'' @ ef_fingerprint e
     | _ \<Rightarrow> False))"

text \<open>\<open>_effect_dto\<close>: text fields are stripped and must not be blank, counts must be in range.\<close>

fun strip_payload :: "effect_payload \<Rightarrow> effect_payload" where
  "strip_payload TaskBranchPayload = TaskBranchPayload"
| "strip_payload (CreateIntegrationPayload b h) = CreateIntegrationPayload (strip b) h"
| "strip_payload (MergeIntegrationPayload b h) = MergeIntegrationPayload (strip b) h"
| "strip_payload (CreateFormalPayload a b h) = CreateFormalPayload (strip a) (strip b) h"
| "strip_payload (MergeFormalPayload a b h r) =
     MergeFormalPayload (strip a) (strip b) h (strip r)"

definition stripped_effect :: "effect_row \<Rightarrow> effect_row" where
  "stripped_effect e = e\<lparr>ef_key := strip (ef_key e), ef_subject := strip (ef_subject e),
     ef_payload := strip_payload (ef_payload e), ef_repository := strip (ef_repository e),
     ef_branch := map_option strip (ef_branch e), ef_base := map_option strip (ef_base e),
     ef_fingerprint := strip (ef_fingerprint e)\<rparr>"

definition optional_text_ok :: "string option \<Rightarrow> bool" where
  "optional_text_ok v = (case v of None \<Rightarrow> True | Some s \<Rightarrow> \<not> blank s)"

definition effect_dto :: "effect_row \<Rightarrow> (source_error, effect_row) res" where
  "effect_dto e = rbind (stored_reason (ef_error e)) (\<lambda>_.
     if blank (ef_key e) \<or> blank (ef_subject e) \<or> blank (ef_fingerprint e) \<or> blank (ef_repository e)
        \<or> \<not> payload_ok (ef_payload e)
        \<or> \<not> optional_text_ok (ef_branch e) \<or> \<not> optional_text_ok (ef_base e)
        \<or> (case ef_number e of None \<Rightarrow> False | Some n \<Rightarrow> n < 1) \<or> ef_attempts e < 0
        \<or> \<not> operation_shape_ok (stripped_effect e)
     then Inl ValidationError else Inr (stripped_effect e))"

definition branch_effect_coordinates ::
  "effect_row \<Rightarrow> (source_error, int \<times> string \<times> string) res" where
  "branch_effect_coordinates e =
     (case (ef_operation e, ef_number e, ef_branch e, ef_base e) of
        (CREATE_TASK_BRANCH, Some n, Some b, Some c) \<Rightarrow> Inr (n, b, c)
      | _ \<Rightarrow> Inl IncompleteBranchEffect)"

subsection \<open>Data of the ports\<close>

record repository_profile =
  pf_repository :: string
  pf_project :: string
  pf_path :: string
  pf_connection :: string
  pf_default_branch :: string
  pf_credential :: string

record branch_snapshot =
  bs_name :: string
  bs_commit :: string

record binding_context =
  bc_requirement :: string
  bc_type :: string
  bc_title :: string
  bc_workspace :: string
  bc_work_item :: string
  bc_revision :: int
  bc_repository :: string
  bc_assigned :: bool
  bc_owner :: "string option"
  bc_capabilities :: "string list"

record binding_envelope =
  en_message :: string
  en_requirement :: string
  en_requirement_version :: int
  en_work_item :: string
  en_repository :: string

record actor_context =
  ax_actor :: string
  ax_workspace :: string
  ax_capabilities :: "string list"

record ready_result =
  rr_work_item :: string
  rr_repository :: string
  rr_base :: string
  rr_branch :: string
  rr_revision :: int
  rr_key :: string
  rr_correlation :: string

record blocked_result =
  br_work_item :: string
  br_repository :: string
  br_reason :: source_control_reason
  br_revision :: int
  br_key :: string
  br_correlation :: string

text \<open>Calls of other systems and what they may answer. A port that raises answers \<open>PortRaised\<close>.\<close>

datatype source_query =
    HttpGet string string
  | HttpPostBranch string string string string
  | ClaimRequests int instant
  | AcknowledgeRequest string
  | ReleaseRequest string string instant
  | BindingContext string
  | RecordReady ready_result
  | RecordBlocked blocked_result
  | EvaluateActor actor_context

datatype source_answer =
    PortRaised
  | HttpReply int "pyval option"
  | Claimed "binding_envelope list"
  | ContextIs binding_context
  | ActorFacts bool string string "string list"
  | Acknowledged

end
