(* ===== verification/Source_Store.thy ===== *)
theory Source_Store
  imports Source_Domain
begin

section \<open>The source control module: repository\<close>

text \<open>
  \<^verbatim>\<open>source_control/adapters/sqlalchemy.py\<close> over the tables of
  \<^verbatim>\<open>migrations/source_control/0001\<close> to \<^verbatim>\<open>0008\<close>: every statement of the repository port, with the
  constraints of the tables. A violated constraint raises \<open>IntegrityError\<close>; an UPDATE whose WHERE
  selects nothing returns no row. Statements run inside a transaction of a worker, so
  \<open>FOR UPDATE\<close> and \<open>SKIP LOCKED\<close> have nothing to wait for or to skip. The rows an
  UPDATE returns come in the order in which its subquery selected them.
\<close>

record mr_binding_row =
  mb_id :: string
  mb_kind :: string
  mb_work_item :: string
  mb_requirement :: string
  mb_workspace :: string
  mb_repository :: string
  mb_branch_binding :: string
  mb_project :: string
  mb_iid :: int
  mb_source_branch :: string
  mb_target_branch :: string
  mb_create_effect :: string
  mb_head :: string
  mb_origin :: string
  mb_created_at :: instant
  mb_superseded_at :: "instant option"

record source_db =
  sd_repositories :: "repository_row list"
  sd_inbox :: "inbox_row list"
  sd_effects :: "effect_row list"
  sd_bindings :: "branch_binding_row list"
  sd_mr_bindings :: "mr_binding_row list"
  sd_webhooks :: "webhook_row list"
  sd_sequence :: int
  sd_audit :: audit_log

definition empty_source_db :: source_db where
  "empty_source_db = \<lparr>sd_repositories = [], sd_inbox = [], sd_effects = [], sd_bindings = [],
     sd_mr_bindings = [], sd_webhooks = [], sd_sequence = 1, sd_audit = []\<rparr>"

text \<open>One transaction's readings of the clock and the id source, by order of use; and how many
  values of the sequence were drawn by transactions that rolled back since its last committed use.\<close>

record source_tx =
  st_clock :: "nat \<Rightarrow> instant"
  st_id :: "nat \<Rightarrow> string"
  st_skipped :: nat
  st_request :: "string option"

subsection \<open>Statements\<close>

definition add_row ::
  "string \<Rightarrow> bool \<Rightarrow> ('r \<Rightarrow> bool) \<Rightarrow> 'r \<Rightarrow> 'r list \<Rightarrow> (source_error, 'r list) res" where
  "add_row table ok clash r rows =
     (if \<not> ok \<or> list_ex clash rows then Inl (IntegrityError table) else Inr (rows @ [r]))"

definition update_rows ::
  "string \<Rightarrow> ('r \<Rightarrow> bool) \<Rightarrow> ('r \<Rightarrow> bool) \<Rightarrow> ('r \<Rightarrow> 'r) \<Rightarrow> 'r list \<Rightarrow> (source_error, 'r list) res" where
  "update_rows table ok p f rows =
     (if list_ex (\<lambda>r. p r \<and> \<not> ok (f r)) rows then Inl (IntegrityError table)
      else Inr (set_where p f rows))"

lemma add_row_Inr: "add_row table ok clash r rows = Inr rows' \<longleftrightarrow>
    ok \<and> (\<forall>x \<in> set rows. \<not> clash x) \<and> rows' = rows @ [r]"
  by (auto simp: add_row_def list_ex_iff)

lemma update_rows_Inr: "update_rows table ok p f rows = Inr rows' \<longleftrightarrow>
    (\<forall>r \<in> set rows. p r \<longrightarrow> ok (f r)) \<and> rows' = set_where p f rows"
  by (auto simp: update_rows_def list_ex_iff)

definition has_repository :: "string \<Rightarrow> source_db \<Rightarrow> bool" where
  "has_repository i db = list_ex (\<lambda>r. rp_id r = i) (sd_repositories db)"

subsection \<open>Authorized repositories\<close>

definition reference_char :: "char \<Rightarrow> bool" where
  "reference_char c = (let n = (of_char c :: nat) in
     (48 \<le> n \<and> n \<le> 57) \<or> (65 \<le> n \<and> n \<le> 90) \<or> (97 \<le> n \<and> n \<le> 122))"

definition secret_name_ok :: "string \<Rightarrow> bool" where
  "secret_name_ok s = (case s of [] \<Rightarrow> False
     | c # cs \<Rightarrow> reference_char c \<and> length cs \<le> 254
         \<and> list_all (\<lambda>x. reference_char x \<or> x \<in> set ''._/-'') cs)"

definition secret_reference_ok :: "string \<Rightarrow> bool" where
  "secret_reference_ok s =
     ((take 8 s = ''openbao:'' \<and> secret_name_ok (drop 8 s))
      \<or> (take 11 s = ''secret-ref:'' \<and> secret_name_ok (drop 11 s)))"

definition repository_row_ok :: "repository_row \<Rightarrow> bool" where
  "repository_row_ok r = (rp_provider r = ''GITLAB'' \<and> rp_default_branch r = ''main''
     \<and> nonblank_text (rp_project r) \<and> nonblank_text (rp_path r) \<and> nonblank_text (rp_connection r)
     \<and> secret_reference_ok (rp_credential r)
     \<and> (case rp_webhook_secret r of None \<Rightarrow> True | Some s \<Rightarrow> secret_reference_ok s)
     \<and> 1 \<le> rp_revision r \<and> int4 (rp_revision r) \<and> rp_created_at r \<le> rp_updated_at r)"

definition insert_workspace_repository ::
  "repository_row \<Rightarrow> source_db \<Rightarrow> (source_error, repository_row \<times> source_db) res" where
  "insert_workspace_repository r db =
     rbind (add_row ''workspace_repository'' (repository_row_ok r)
       (\<lambda>x. rp_id x = rp_id r \<or> (rp_provider x = rp_provider r \<and> rp_project x = rp_project r))
       r (sd_repositories db)) (\<lambda>rows. Inr (r, db\<lparr>sd_repositories := rows\<rparr>))"

definition workspace_repository :: "string \<Rightarrow> source_db \<Rightarrow> repository_row option" where
  "workspace_repository i db = row_by rp_id i (sd_repositories db)"

definition authorized_repositories :: "string \<Rightarrow> source_db \<Rightarrow> repository_row list" where
  "authorized_repositories workspace db = sort_key (\<lambda>r. (rp_path r, rp_id r))
     (filter (\<lambda>r. rp_workspace r = workspace \<and> rp_status r = AUTHORIZED) (sd_repositories db))"

definition authorized_repository_runtime_references :: "source_db \<Rightarrow> repository_row list" where
  "authorized_repository_runtime_references db =
     sort_key rp_id (filter (\<lambda>r. rp_status r = AUTHORIZED) (sd_repositories db))"

definition removed_repository :: "instant \<Rightarrow> repository_row \<Rightarrow> repository_row" where
  "removed_repository now r =
     r\<lparr>rp_status := REMOVED, rp_revision := rp_revision r + 1, rp_updated_at := now\<rparr>"

definition repository_remove ::
  "string \<Rightarrow> int \<Rightarrow> instant \<Rightarrow> source_db \<Rightarrow> (source_error, repository_row option \<times> source_db) res" where
  "repository_remove i expected_revision now db =
     (let p = (\<lambda>r. rp_id r = i \<and> rp_revision r = expected_revision \<and> rp_status r = AUTHORIZED)
      in rbind (update_rows ''workspace_repository'' repository_row_ok p (removed_repository now)
           (sd_repositories db)) (\<lambda>rows.
         Inr (map_option (removed_repository now) (List.find p (sd_repositories db)),
              db\<lparr>sd_repositories := rows\<rparr>)))"

subsection \<open>The inbox of binding requests\<close>

definition inbox_row_ok :: "inbox_row \<Rightarrow> bool" where
  "inbox_row_ok r = (nonblank_text (ib_payload_hash r) \<and> 1 \<le> ib_requirement_version r
     \<and> int4 (ib_requirement_version r) \<and> 0 \<le> ib_attempts r \<and> int4 (ib_attempts r)
     \<and> (ib_state r = PROCESSED \<longleftrightarrow> ib_processed_at r \<noteq> None)
     \<and> ib_received_at r \<le> ib_updated_at r
     \<and> (case ib_processed_at r of None \<Rightarrow> True
        | Some t \<Rightarrow> ib_received_at r \<le> t \<and> t \<le> ib_updated_at r))"

definition insert_binding_request ::
  "inbox_row \<Rightarrow> source_db \<Rightarrow> (source_error, inbox_row option \<times> source_db) res" where
  "insert_binding_request r db =
     (if list_ex (\<lambda>x. ib_message x = ib_message r) (sd_inbox db) then Inr (None, db)
      else rbind (add_row ''binding_request_inbox''
          (inbox_row_ok r \<and> has_repository (ib_repository r) db) (\<lambda>x. False) r (sd_inbox db))
        (\<lambda>rows. Inr (Some r, db\<lparr>sd_inbox := rows\<rparr>)))"

definition inbox_request :: "string \<Rightarrow> source_db \<Rightarrow> inbox_row option" where
  "inbox_request m db = row_by ib_message m (sd_inbox db)"

definition claimed_request :: "instant \<Rightarrow> instant \<Rightarrow> inbox_row \<Rightarrow> inbox_row" where
  "claimed_request now lease_until r = r\<lparr>ib_state := PROCESSING, ib_attempts := ib_attempts r + 1,
     ib_available_at := lease_until, ib_updated_at := now, ib_error := None\<rparr>"

definition request_claimable :: "instant \<Rightarrow> inbox_row \<Rightarrow> bool" where
  "request_claimable now r = (ib_state r = RECEIVED \<or> ib_state r = FAILED
     \<or> (ib_state r = PROCESSING \<and> ib_available_at r \<le> now))"

definition claim_binding_request ::
  "string \<Rightarrow> instant \<Rightarrow> instant \<Rightarrow> source_db
   \<Rightarrow> (source_error, inbox_row option \<times> source_db) res" where
  "claim_binding_request m now lease_until db =
     (let p = (\<lambda>r. ib_message r = m \<and> request_claimable now r)
      in rbind (update_rows ''binding_request_inbox'' inbox_row_ok p (claimed_request now lease_until)
           (sd_inbox db)) (\<lambda>rows.
         Inr (map_option (claimed_request now lease_until) (List.find p (sd_inbox db)),
              db\<lparr>sd_inbox := rows\<rparr>)))"

definition pending_binding_request_ids :: "nat \<Rightarrow> instant \<Rightarrow> source_db \<Rightarrow> string list" where
  "pending_binding_request_ids limit now db = map ib_message (take limit
     (sort_key (\<lambda>r. (ib_available_at r, ib_message r))
       (filter (\<lambda>r. request_claimable now r \<and> ib_available_at r \<le> now) (sd_inbox db))))"

definition completed_request :: "instant \<Rightarrow> inbox_row \<Rightarrow> inbox_row" where
  "completed_request now r = r\<lparr>ib_state := PROCESSED, ib_processed_at := Some now,
     ib_updated_at := now, ib_error := None\<rparr>"

definition complete_binding_request ::
  "string \<Rightarrow> instant \<Rightarrow> source_db \<Rightarrow> (source_error, source_db) res" where
  "complete_binding_request m now db =
     rbind (update_rows ''binding_request_inbox'' inbox_row_ok
         (\<lambda>r. ib_message r = m \<and> ib_state r \<noteq> PROCESSED) (completed_request now) (sd_inbox db))
       (\<lambda>rows. Inr (db\<lparr>sd_inbox := rows\<rparr>))"

subsection \<open>Effects\<close>

definition branch_effect :: "effect_row \<Rightarrow> bool" where
  "branch_effect e = (ef_operation e = CREATE_TASK_BRANCH)"

definition terminal_effect :: "effect_row \<Rightarrow> bool" where
  "terminal_effect e = (ef_state e = EFFECT_SUCCEEDED \<or> ef_state e = EFFECT_BLOCKED)"

definition effect_shape_row_ok :: "effect_row \<Rightarrow> bool" where
  "effect_shape_row_ok e = (case ef_operation e of
     CREATE_TASK_BRANCH \<Rightarrow> ef_subject e = ''work-item:'' @ ef_work_item e
       \<and> (case ef_number e of None \<Rightarrow> False | Some n \<Rightarrow> 1 \<le> n \<and> int8 n)
       \<and> (case ef_branch e of None \<Rightarrow> False | Some b \<Rightarrow> nonblank_text b)
       \<and> (case ef_base e of None \<Rightarrow> False | Some b \<Rightarrow> nonblank_text b)
       \<and> ef_payload e = TaskBranchPayload
   | CREATE_INTEGRATION_MR \<Rightarrow> no_branch_values e \<and> (case ef_payload e of
       CreateIntegrationPayload b h \<Rightarrow> nonblank_text b \<and> exact_head_sha h
         \<and> ef_subject e = ''integration-work-item:'' @ ef_work_item e @ '':'' @ h
     | _ \<Rightarrow> False)
   | MERGE_INTEGRATION_MR \<Rightarrow> no_branch_values e \<and> (case ef_payload e of
       MergeIntegrationPayload b h \<Rightarrow> nonblank_text b \<and> exact_head_sha h
         \<and> ef_subject e = ''mr:'' @ b @ '':'' @ h
     | _ \<Rightarrow> False)
   | CREATE_FORMAL_MR \<Rightarrow> no_branch_values e \<and> (case ef_payload e of
       CreateFormalPayload a b h \<Rightarrow> nonblank_text a \<and> nonblank_text b \<and> exact_head_sha h
         \<and> ef_subject e =
             ''formal-work-item:'' @ ef_work_item e @ '':'' @ h @ '':'' @ ef_fingerprint e
     | _ \<Rightarrow> False)
   | MERGE_FORMAL_MR \<Rightarrow> no_branch_values e \<and> (case ef_payload e of
       MergeFormalPayload a b h r \<Rightarrow> nonblank_text a \<and> nonblank_text b \<and> exact_head_sha h
         \<and> nonblank_text r \<and> ef_subject e = ''formal-mr:'' @ b @ '':'' @ h @ '':'' @ ef_fingerprint e
     | _ \<Rightarrow> False))"

definition effect_row_ok :: "effect_row \<Rightarrow> bool" where
  "effect_row_ok e = (nonblank_text (ef_key e) \<and> nonblank_text (ef_subject e)
     \<and> nonblank_text (ef_fingerprint e) \<and> effect_shape_row_ok e
     \<and> 0 \<le> ef_attempts e \<and> int4 (ef_attempts e)
     \<and> (terminal_effect e \<longleftrightarrow> ef_completed_at e \<noteq> None)
     \<and> ef_created_at e \<le> ef_updated_at e
     \<and> (case ef_completed_at e of None \<Rightarrow> True
        | Some t \<Rightarrow> ef_created_at e \<le> t \<and> t \<le> ef_updated_at e))"

definition next_work_item_number :: "source_tx \<Rightarrow> source_db \<Rightarrow> int \<times> source_db" where
  "next_work_item_number tx db = (let n = sd_sequence db + int (st_skipped tx)
     in (n, db\<lparr>sd_sequence := n + 1\<rparr>))"

definition effect_clash :: "effect_row \<Rightarrow> effect_row \<Rightarrow> bool" where
  "effect_clash e x = (ef_id x = ef_id e \<or> ef_key x = ef_key e
     \<or> (ef_operation x = ef_operation e \<and> ef_subject x = ef_subject e)
     \<or> (branch_effect x \<and> branch_effect e \<and> ef_number x = ef_number e))"

definition insert_effect ::
  "effect_row \<Rightarrow> source_db \<Rightarrow> (source_error, effect_row \<times> source_db) res" where
  "insert_effect e db =
     rbind (add_row ''source_control_effect'' (effect_row_ok e \<and> has_repository (ef_repository e) db)
       (effect_clash e) e (sd_effects db)) (\<lambda>rows. Inr (e, db\<lparr>sd_effects := rows\<rparr>))"

definition effect_by_work_item :: "string \<Rightarrow> source_db \<Rightarrow> effect_row option" where
  "effect_by_work_item w db =
     List.find (\<lambda>e. branch_effect e \<and> ef_work_item e = w) (sd_effects db)"

definition effect_by_id :: "string \<Rightarrow> source_db \<Rightarrow> effect_row option" where
  "effect_by_id i db = List.find (\<lambda>e. branch_effect e \<and> ef_id e = i) (sd_effects db)"

text \<open>The columns an UPDATE of an effect sets; a field \<open>None\<close> is a column it does not name.\<close>

record effect_change =
  ec_state :: "effect_state option"
  ec_attempts :: "int option"
  ec_next :: "instant option option"
  ec_error :: "string option option"
  ec_callback :: "callback_state option"
  ec_completed :: "instant option option"
  ec_updated :: instant

definition or_else :: "'v option \<Rightarrow> 'v \<Rightarrow> 'v" where
  "or_else new old = (case new of None \<Rightarrow> old | Some v \<Rightarrow> v)"

definition changed_effect :: "effect_change \<Rightarrow> effect_row \<Rightarrow> effect_row" where
  "changed_effect c e = e\<lparr>ef_state := or_else (ec_state c) (ef_state e),
     ef_attempts := or_else (ec_attempts c) (ef_attempts e),
     ef_next_reconcile := or_else (ec_next c) (ef_next_reconcile e),
     ef_error := or_else (ec_error c) (ef_error e),
     ef_callback := or_else (ec_callback c) (ef_callback e),
     ef_completed_at := or_else (ec_completed c) (ef_completed_at e),
     ef_updated_at := ec_updated c\<rparr>"

definition effect_guard ::
  "string \<Rightarrow> effect_state \<Rightarrow> int option \<Rightarrow> effect_row \<Rightarrow> bool" where
  "effect_guard i expected_state expected_attempts e =
     (branch_effect e \<and> ef_id e = i \<and> ef_state e = expected_state
      \<and> (case expected_attempts of None \<Rightarrow> True | Some n \<Rightarrow> ef_attempts e = n))"

definition write_effect ::
  "string \<Rightarrow> effect_state \<Rightarrow> int option \<Rightarrow> effect_change \<Rightarrow> source_db
   \<Rightarrow> (source_error, effect_row option \<times> source_db) res" where
  "write_effect i expected_state expected_attempts c db =
     (let p = effect_guard i expected_state expected_attempts
      in rbind (update_rows ''source_control_effect'' effect_row_ok p (changed_effect c)
           (sd_effects db)) (\<lambda>rows.
         Inr (map_option (changed_effect c) (List.find p (sd_effects db)), db\<lparr>sd_effects := rows\<rparr>)))"

definition reconcile_due :: "instant \<Rightarrow> effect_row \<Rightarrow> bool" where
  "reconcile_due now e = (branch_effect e \<and> ef_state e \<in> {EFFECT_UNKNOWN, IN_FLIGHT, RECONCILIATION}
     \<and> (case ef_next_reconcile e of None \<Rightarrow> False | Some t \<Rightarrow> t \<le> now))"

definition reconcile_order :: "effect_row \<Rightarrow> int \<times> string" where
  "reconcile_order e = (case ef_next_reconcile e of None \<Rightarrow> 0 | Some t \<Rightarrow> t, ef_id e)"

definition reconciling_effect :: "instant \<Rightarrow> instant \<Rightarrow> effect_row \<Rightarrow> effect_row" where
  "reconciling_effect now lease_until e = e\<lparr>ef_state := RECONCILIATION,
     ef_attempts := ef_attempts e + 1, ef_next_reconcile := Some lease_until, ef_updated_at := now\<rparr>"

definition claim_unknown_effects ::
  "nat \<Rightarrow> instant \<Rightarrow> instant \<Rightarrow> source_db \<Rightarrow> (source_error, effect_row list \<times> source_db) res" where
  "claim_unknown_effects limit now lease_until db =
     (let candidates = take limit (sort_key reconcile_order (filter (reconcile_due now) (sd_effects db)))
      in rbind (update_rows ''source_control_effect'' effect_row_ok
           (\<lambda>e. ef_id e \<in> ef_id ` set candidates) (reconciling_effect now lease_until)
           (sd_effects db)) (\<lambda>rows.
         Inr (map (reconciling_effect now lease_until) candidates, db\<lparr>sd_effects := rows\<rparr>)))"

definition pending_callback_effects :: "nat \<Rightarrow> source_db \<Rightarrow> effect_row list" where
  "pending_callback_effects limit db = take limit (sort_key (\<lambda>e. (ef_updated_at e, ef_id e))
     (filter (\<lambda>e. branch_effect e \<and> terminal_effect e \<and> ef_callback e \<noteq> CALLBACK_ACKED)
       (sd_effects db)))"

subsection \<open>Branch bindings\<close>

definition binding_row_ok :: "branch_binding_row \<Rightarrow> bool" where
  "binding_row_ok b = (1 \<le> bd_number b \<and> int8 (bd_number b)
     \<and> nonblank_text (bd_base b) \<and> nonblank_text (bd_branch b))"

definition binding_clash :: "branch_binding_row \<Rightarrow> branch_binding_row \<Rightarrow> bool" where
  "binding_clash b x = (bd_id x = bd_id b \<or> bd_work_item x = bd_work_item b
     \<or> (bd_repository x = bd_repository b \<and> bd_branch x = bd_branch b) \<or> bd_effect x = bd_effect b)"

definition insert_branch_binding ::
  "branch_binding_row \<Rightarrow> source_db \<Rightarrow> (source_error, branch_binding_row \<times> source_db) res" where
  "insert_branch_binding b db =
     rbind (add_row ''repository_branch_binding''
       (binding_row_ok b \<and> has_repository (bd_repository b) db
        \<and> list_ex (\<lambda>e. ef_id e = bd_effect b) (sd_effects db))
       (binding_clash b) b (sd_bindings db)) (\<lambda>rows. Inr (b, db\<lparr>sd_bindings := rows\<rparr>))"

definition binding_by_work_item :: "string \<Rightarrow> source_db \<Rightarrow> branch_binding_row option" where
  "binding_by_work_item w db = row_by bd_work_item w (sd_bindings db)"

subsection \<open>Webhooks\<close>

definition webhook_summary_ok :: "webhook_summary \<Rightarrow> bool" where
  "webhook_summary_ok s =
     ((ws_mr_iid s = None \<and> ws_mr_action s = None \<and> ws_source_branch s = None
       \<and> ws_target_branch s = None \<and> ws_mr_state s = None \<and> ws_old_head s = None \<and> ws_head s = None)
      \<or> (case (ws_mr_iid s, ws_mr_action s, ws_source_branch s, ws_target_branch s, ws_mr_state s,
              ws_head s) of
           (Some i, Some a, Some b, Some t, Some m, Some h) \<Rightarrow> 1 \<le> i \<and> int8 i
             \<and> a \<in> {''open'', ''update'', ''merge'', ''close'', ''reopen''}
             \<and> m \<in> {''opened'', ''merged'', ''closed'', ''locked''}
             \<and> nonblank_text b \<and> nonblank_text t \<and> exact_head_sha h
             \<and> (case ws_old_head s of None \<Rightarrow> True | Some x \<Rightarrow> exact_head_sha x)
         | _ \<Rightarrow> False))"

definition webhook_row_ok :: "webhook_row \<Rightarrow> bool" where
  "webhook_row_ok r = (nonblank_text (wh_webhook r) \<and> nonblank_text (wh_digest r)
     \<and> nonblank_text (ws_event_type (wh_summary r)) \<and> nonblank_text (ws_project (wh_summary r))
     \<and> webhook_summary_ok (wh_summary r)
     \<and> (wh_state r \<in> {HOOK_PROCESSED, HOOK_IGNORED} \<longleftrightarrow> wh_processed_at r \<noteq> None)
     \<and> wh_received_at r \<le> wh_updated_at r
     \<and> (case wh_processed_at r of None \<Rightarrow> True
        | Some t \<Rightarrow> wh_received_at r \<le> t \<and> t \<le> wh_updated_at r))"

definition accept_webhook ::
  "webhook_row \<Rightarrow> source_db \<Rightarrow> (source_error, webhook_row option \<times> source_db) res" where
  "accept_webhook r db =
     (if list_ex (\<lambda>x. wh_repository x = wh_repository r \<and> wh_webhook x = wh_webhook r)
           (sd_webhooks db) then Inr (None, db)
      else rbind (add_row ''webhook_inbox'' (webhook_row_ok r \<and> has_repository (wh_repository r) db)
          (\<lambda>x. wh_id x = wh_id r) r (sd_webhooks db))
        (\<lambda>rows. Inr (Some r, db\<lparr>sd_webhooks := rows\<rparr>)))"

definition webhook_by_message :: "string \<Rightarrow> string \<Rightarrow> source_db \<Rightarrow> webhook_row option" where
  "webhook_by_message repository webhook db = List.find
     (\<lambda>r. wh_repository r = repository \<and> wh_webhook r = webhook) (sd_webhooks db)"

definition webhook_by_id :: "string \<Rightarrow> source_db \<Rightarrow> webhook_row option" where
  "webhook_by_id i db = row_by wh_id i (sd_webhooks db)"

definition pending_webhook_ids :: "nat \<Rightarrow> source_db \<Rightarrow> string list" where
  "pending_webhook_ids limit db = map wh_id (take limit
     (sort_key (\<lambda>r. (wh_received_at r, wh_id r))
       (filter (\<lambda>r. wh_state r = HOOK_RECEIVED) (sd_webhooks db))))"

definition due_effect :: "instant \<Rightarrow> effect_row \<Rightarrow> effect_row" where
  "due_effect now e = e\<lparr>ef_next_reconcile := Some now, ef_updated_at := now\<rparr>"

definition make_due ::
  "(effect_row \<Rightarrow> bool) \<Rightarrow> instant \<Rightarrow> source_db \<Rightarrow> (source_error, nat \<times> source_db) res" where
  "make_due p now db =
     rbind (update_rows ''source_control_effect'' effect_row_ok p (due_effect now) (sd_effects db))
       (\<lambda>rows. Inr (length (filter p (sd_effects db)), db\<lparr>sd_effects := rows\<rparr>))"

definition make_unknown_effect_due ::
  "string \<Rightarrow> string \<Rightarrow> instant \<Rightarrow> source_db \<Rightarrow> (source_error, nat \<times> source_db) res" where
  "make_unknown_effect_due repository branch now db =
     make_due (\<lambda>e. branch_effect e \<and> ef_repository e = repository \<and> ef_branch e = Some branch
       \<and> ef_state e = EFFECT_UNKNOWN) now db"

text \<open>The effects a merge request event concerns: by its binding, or before one exists by branch.\<close>

definition integration_effect_matches ::
  "string \<Rightarrow> string \<Rightarrow> int \<Rightarrow> string \<Rightarrow> string \<Rightarrow> source_db \<Rightarrow> effect_row \<Rightarrow> bool" where
  "integration_effect_matches repository project iid source target db e =
     (let bound = filter (\<lambda>b. mb_repository b = repository \<and> mb_iid b = iid) (sd_mr_bindings db)
      in ef_repository e = repository \<and> ef_state e = EFFECT_UNKNOWN
         \<and> (case (ef_operation e, ef_payload e) of
              (MERGE_INTEGRATION_MR, MergeIntegrationPayload b h) \<Rightarrow>
                list_ex (\<lambda>x. mb_id x = b \<and> mb_project x = project \<and> mb_source_branch x = source
                  \<and> mb_target_branch x = target) bound
            | (CREATE_INTEGRATION_MR, CreateIntegrationPayload b h) \<Rightarrow>
                bound = [] \<and> target = ''dev''
                \<and> list_ex (\<lambda>x. bd_id x = b \<and> bd_repository x = repository \<and> bd_branch x = source)
                    (sd_bindings db)
            | _ \<Rightarrow> False))"

definition make_integration_effect_due ::
  "string \<Rightarrow> string \<Rightarrow> int \<Rightarrow> string \<Rightarrow> string \<Rightarrow> instant \<Rightarrow> source_db
   \<Rightarrow> (source_error, nat \<times> source_db) res" where
  "make_integration_effect_due repository project iid source target now db =
     make_due (integration_effect_matches repository project iid source target db) now db"

definition processed_webhook :: "instant \<Rightarrow> webhook_row \<Rightarrow> webhook_row" where
  "processed_webhook now r = r\<lparr>wh_state := HOOK_PROCESSED, wh_processed_at := Some now,
     wh_updated_at := now, wh_error := None\<rparr>"

definition complete_webhook :: "string \<Rightarrow> instant \<Rightarrow> source_db \<Rightarrow> (source_error, source_db) res" where
  "complete_webhook i now db =
     rbind (update_rows ''webhook_inbox'' webhook_row_ok
         (\<lambda>r. wh_id r = i \<and> wh_state r = HOOK_RECEIVED) (processed_webhook now) (sd_webhooks db))
       (\<lambda>rows. Inr (db\<lparr>sd_webhooks := rows\<rparr>))"

subsection \<open>Audit\<close>

text \<open>\<open>append_lifecycle_audit\<close>: the envelope's id and instant are the transaction's readings.\<close>

record lifecycle_fact =
  lf_action :: string
  lf_target_type :: string
  lf_target_id :: string
  lf_result :: string
  lf_reason :: "string option"
  lf_correlation :: "string option"

definition append_lifecycle_audit ::
  "source_tx \<Rightarrow> nat \<Rightarrow> nat \<Rightarrow> lifecycle_fact \<Rightarrow> source_db \<Rightarrow> source_db" where
  "append_lifecycle_audit tx i c f db = db\<lparr>sd_audit := append_in_transaction (st_request tx)
     \<lparr>ae_id = st_id tx i, ae_occurred_at = st_clock tx c, ae_actor = ''SYSTEM:SOURCE_CONTROL'',
      ae_actor_type = ''SYSTEM'', ae_action = lf_action f, ae_target_type = lf_target_type f,
      ae_target_id = lf_target_id f, ae_result = lf_result f, ae_reason = lf_reason f,
      ae_correlation_id = (case lf_correlation f of
          Some (x # xs) \<Rightarrow> x # xs
        | _ \<Rightarrow> ''source-control:'' @ lf_target_type f @ '':'' @ lf_target_id f),
      ae_request_id = None, ae_schema_version = 1\<rparr> (sd_audit db)\<rparr>"

definition lifecycle_success :: "string \<Rightarrow> string \<Rightarrow> string \<Rightarrow> string \<Rightarrow> lifecycle_fact" where
  "lifecycle_success action target_type target_id correlation =
     \<lparr>lf_action = action, lf_target_type = target_type, lf_target_id = target_id,
      lf_result = ''SUCCESS'', lf_reason = None, lf_correlation = Some correlation\<rparr>"

lemma append_lifecycle_audit_simps [simp]:
  "sd_repositories (append_lifecycle_audit tx i c f db) = sd_repositories db"
  "sd_inbox (append_lifecycle_audit tx i c f db) = sd_inbox db"
  "sd_effects (append_lifecycle_audit tx i c f db) = sd_effects db"
  "sd_bindings (append_lifecycle_audit tx i c f db) = sd_bindings db"
  "sd_mr_bindings (append_lifecycle_audit tx i c f db) = sd_mr_bindings db"
  "sd_webhooks (append_lifecycle_audit tx i c f db) = sd_webhooks db"
  "sd_sequence (append_lifecycle_audit tx i c f db) = sd_sequence db"
  by (simp_all add: append_lifecycle_audit_def)

end
