(* ===== verification/Source_Gateway.thy ===== *)
theory Source_Gateway
  imports Source_Store
begin

section \<open>The source control module: GitLab, Requirement and eligibility adapters\<close>

text \<open>
  \<^verbatim>\<open>source_control/adapters/gitlab.py\<close> (the REST client; a reply is a status and the decoded JSON
  body, if it is JSON), \<^verbatim>\<open>create_and_verify_branch\<close> of \<^verbatim>\<open>ports/gitlab.py\<close>, the exception
  mapping of \<^verbatim>\<open>adapters/requirement.py\<close> and the check of \<^verbatim>\<open>adapters/eligibility.py\<close>. A call that
  raises answers \<open>PortRaised\<close>; what an adapter does with it is its code.
\<close>

type_synonym 'x source_task =
  "(source_tx, source_db, source_query, source_answer, (source_error, 'x) res) worker"

record source_deps =
  dp_requirement :: bool
  dp_eligibility :: bool
  dp_gitlab :: bool
  dp_policy :: "policy_settings option"
  dp_connection :: string
  dp_secret :: "string \<Rightarrow> string option"
  dp_nfkc :: "string \<Rightarrow> string"

subsection \<open>The REST client\<close>

definition hex_digit :: "nat \<Rightarrow> char" where
  "hex_digit n = (if n < 10 then char_of (48 + n) else char_of (55 + n))"

definition percent :: "nat \<Rightarrow> string" where
  "percent b = [CHR ''%'', hex_digit (b div 16), hex_digit (b mod 16)]"

definition quote_char :: "char \<Rightarrow> string" where
  "quote_char c = (let n = (of_char c :: nat) in
     if (48 \<le> n \<and> n \<le> 57) \<or> (65 \<le> n \<and> n \<le> 90) \<or> (97 \<le> n \<and> n \<le> 122) \<or> c \<in> set ''_.-~'' then [c]
     else if n < 128 then percent n
     else percent (192 + n div 64) @ percent (128 + n mod 64))"

definition quote :: "string \<Rightarrow> string" where
  "quote s = concat (map quote_char s)"

definition request_token :: "source_deps \<Rightarrow> repository_profile \<Rightarrow> (source_error, string) res" where
  "request_token d p =
     (if pf_connection p \<noteq> dp_connection d then Inl GitLabAccessDenied
      else of_option SourceControlDependencyUnavailable (dp_secret d (pf_credential p)))"

definition project_reply :: "repository_profile \<Rightarrow> source_answer \<Rightarrow> (source_error, unit) res" where
  "project_reply p a = (case a of
     HttpReply status body \<Rightarrow>
       if status \<in> {401, 403, 404} then Inl GitLabAccessDenied
       else if status \<noteq> 200 then Inl GitLabProviderUnavailable
       else (case body of
         Some (PyDict kvs) \<Rightarrow> (case map_of kvs ''path_with_namespace'' of
             None \<Rightarrow> Inl GitLabProviderUnavailable
           | Some v \<Rightarrow> if v = PyStr (pf_path p) then Inr () else Inl GitLabAccessDenied)
       | _ \<Rightarrow> Inl GitLabProviderUnavailable)
   | _ \<Rightarrow> Inl GitLabProviderUnavailable)"

definition validate_repository :: "source_deps \<Rightarrow> repository_profile \<Rightarrow> unit source_task" where
  "validate_repository d p = (case request_token d p of
     Inl e \<Rightarrow> throw e
   | Inr token \<Rightarrow> call (HttpGet (''/projects/'' @ quote (pf_project p)) token) (project_reply p))"

definition full_commit_sha :: "string \<Rightarrow> bool" where
  "full_commit_sha s = (40 \<le> length s \<and> length s \<le> 64
     \<and> list_all (\<lambda>c. c \<in> set ''0123456789abcdefABCDEF'') s)"

definition decode_branch :: "pyval option \<Rightarrow> (source_error, branch_snapshot) res" where
  "decode_branch body = (case body of
     Some (PyDict kvs) \<Rightarrow> (case (map_of kvs ''name'', map_of kvs ''commit'') of
         (Some (PyStr name), Some (PyDict commit)) \<Rightarrow> (case map_of commit ''id'' of
             Some (PyStr sha) \<Rightarrow>
               if name = [] \<or> \<not> full_commit_sha sha then Inl GitLabProviderUnavailable
               else Inr \<lparr>bs_name = name, bs_commit = lower sha\<rparr>
           | _ \<Rightarrow> Inl GitLabProviderUnavailable)
       | _ \<Rightarrow> Inl GitLabProviderUnavailable)
   | _ \<Rightarrow> Inl GitLabProviderUnavailable)"

definition branch_reply ::
  "repository_profile \<Rightarrow> string \<Rightarrow> source_answer \<Rightarrow> (source_error, branch_snapshot) res" where
  "branch_reply p name a = (case a of
     HttpReply status body \<Rightarrow>
       if status \<in> {401, 403} then Inl GitLabAccessDenied
       else if status = 404 then Inl (if name = pf_default_branch p then GitLabDefaultBranchNotFound
                                      else GitLabBranchNotFound)
       else if status \<noteq> 200 then Inl GitLabProviderUnavailable
       else decode_branch body
   | _ \<Rightarrow> Inl GitLabProviderUnavailable)"

definition get_branch :: "source_deps \<Rightarrow> repository_profile \<Rightarrow> string \<Rightarrow> branch_snapshot source_task" where
  "get_branch d p name = (case request_token d p of
     Inl e \<Rightarrow> throw e
   | Inr token \<Rightarrow> call (HttpGet (''/projects/'' @ quote (pf_project p) @ ''/repository/branches/''
       @ quote name) token) (branch_reply p name))"

definition creation_reply :: "source_answer \<Rightarrow> (source_error, branch_snapshot) res" where
  "creation_reply a = (case a of
     HttpReply status body \<Rightarrow>
       if status \<in> {401, 403} then Inl GitLabAccessDenied
       else if status = 409 then Inl GitLabBranchAlreadyExists
       else if status \<noteq> 201 then Inl (if 500 \<le> status then GitLabResultUnknown
                                       else GitLabProviderUnavailable)
       else (case decode_branch body of
         Inl GitLabProviderUnavailable \<Rightarrow> Inl GitLabResultUnknown | r \<Rightarrow> r)
   | _ \<Rightarrow> Inl GitLabResultUnknown)"

definition create_branch ::
  "source_deps \<Rightarrow> repository_profile \<Rightarrow> string \<Rightarrow> string \<Rightarrow> branch_snapshot source_task" where
  "create_branch d p name ref_sha =
     (if \<not> full_commit_sha ref_sha then throw GitLabResultUnknown
      else case request_token d p of
        Inl e \<Rightarrow> throw e
      | Inr token \<Rightarrow> call (HttpPostBranch (''/projects/'' @ quote (pf_project p)
          @ ''/repository/branches'') name ref_sha token) creation_reply)"

definition verify_branch ::
  "source_deps \<Rightarrow> repository_profile \<Rightarrow> string \<Rightarrow> string \<Rightarrow> branch_snapshot source_task" where
  "verify_branch d p name base_commit_sha =
     attempt (get_branch d p name)
       (\<lambda>e. throw (if e \<in> {GitLabAccessDenied, GitLabBranchNotFound, GitLabProviderUnavailable}
                   then GitLabResultUnknown else e))
       (\<lambda>snapshot. if bs_commit snapshot \<noteq> base_commit_sha then throw GitLabBranchConflict
                   else give snapshot)"

definition create_and_verify_branch ::
  "source_deps \<Rightarrow> repository_profile \<Rightarrow> string \<Rightarrow> string \<Rightarrow> branch_snapshot source_task" where
  "create_and_verify_branch d p name base_commit_sha =
     attempt (create_branch d p name base_commit_sha)
       (\<lambda>e. if e = GitLabBranchAlreadyExists \<or> e = GitLabResultUnknown
            then verify_branch d p name base_commit_sha else throw e)
       (\<lambda>_. verify_branch d p name base_commit_sha)"

subsection \<open>The other ports\<close>

definition get_binding_context :: "string \<Rightarrow> binding_context source_task" where
  "get_binding_context w = call (BindingContext w)
     (\<lambda>a. case a of ContextIs c \<Rightarrow> Inr c | _ \<Rightarrow> Inl RequirementCallbackUnavailable)"

definition acknowledged :: "source_answer \<Rightarrow> (source_error, unit) res" where
  "acknowledged a = (case a of Acknowledged \<Rightarrow> Inr () | _ \<Rightarrow> Inl RequirementCallbackUnavailable)"

definition record_ready :: "ready_result \<Rightarrow> unit source_task" where
  "record_ready r = call (RecordReady r) acknowledged"

definition record_blocked :: "blocked_result \<Rightarrow> unit source_task" where
  "record_blocked r = call (RecordBlocked r) acknowledged"

definition claim_requests :: "int \<Rightarrow> instant \<Rightarrow> binding_envelope list source_task" where
  "claim_requests limit lease_until = call (ClaimRequests limit lease_until)
     (\<lambda>a. case a of Claimed es \<Rightarrow> Inr es | _ \<Rightarrow> Inl RequirementCallbackUnavailable)"

definition acknowledge_request :: "string \<Rightarrow> unit source_task" where
  "acknowledge_request m = call (AcknowledgeRequest m) acknowledged"

definition release_request :: "string \<Rightarrow> string \<Rightarrow> instant \<Rightarrow> unit source_task" where
  "release_request m error_code retry_at = call (ReleaseRequest m error_code retry_at) acknowledged"

definition evaluate_actor ::
  "actor_context \<Rightarrow> (bool \<times> source_control_reason option) source_task" where
  "evaluate_actor x = call (EvaluateActor x) (\<lambda>a. case a of
     ActorFacts eligible actor workspace capabilities \<Rightarrow>
       (let ok = eligible \<and> actor = ax_actor x \<and> workspace = ax_workspace x
              \<and> capabilities = ax_capabilities x
        in Inr (ok, if ok then None else Some OWNER_INELIGIBLE))
   | _ \<Rightarrow> Inr (False, Some OWNER_INELIGIBLE))"

definition actor_eligibility_context :: "binding_context \<Rightarrow> string \<Rightarrow> actor_context" where
  "actor_eligibility_context c actor = \<lparr>ax_actor = actor, ax_workspace = bc_workspace c,
     ax_capabilities = bc_capabilities c\<rparr>"

end
