(* ===== verification/Source_Saga.thy ===== *)
theory Source_Saga
  imports Source_Gateway
begin

section \<open>The source control module: the task branch saga\<close>

text \<open>
  \<^verbatim>\<open>source_control/application/saga.py\<close> and the commands and relay before it
  (\<^verbatim>\<open>commands.py\<close>, \<^verbatim>\<open>relay.py\<close>): a workspace authorizes repositories, the relay accepts
  binding requests into the inbox, and \<open>process_binding_request\<close> claims one, plans the effect,
  marks it in flight, creates the branch at GitLab and records the result, each in a transaction
  of its own. Every \<open>with engine.begin()\<close> is one \<open>transact\<close>, every \<open>with engine.connect()\<close> one
  \<open>observe\<close>, and every call of another system one \<open>Ask\<close>.
\<close>

subsection \<open>Authorizing repositories\<close>

definition audit_repository_change ::
  "source_tx \<Rightarrow> nat \<Rightarrow> nat \<Rightarrow> string \<Rightarrow> string \<Rightarrow> string \<Rightarrow> source_db \<Rightarrow> source_db" where
  "audit_repository_change tx i c actor action repository db =
     db\<lparr>sd_audit := append_in_transaction (st_request tx)
     \<lparr>ae_id = st_id tx i, ae_occurred_at = st_clock tx c, ae_actor = actor,
      ae_actor_type = (if take 6 actor = ''SYSTEM'' then ''SYSTEM'' else ''HUMAN''),
      ae_action = action, ae_target_type = ''workspace_repository'', ae_target_id = repository,
      ae_result = ''SUCCESS'', ae_reason = None,
      ae_correlation_id = ''source-control:'' @ repository,
      ae_request_id = None, ae_schema_version = 1\<rparr> (sd_audit db)\<rparr>"

definition validate_secret_reference :: "string \<Rightarrow> (source_error, unit) res" where
  "validate_secret_reference v =
     (if \<not> secret_reference_ok v then Inl InvalidRepositorySecretReference else Inr ())"

record registration =
  rg_repository :: string
  rg_workspace :: string
  rg_project :: string
  rg_path :: string
  rg_connection :: string
  rg_credential :: string
  rg_webhook_secret :: "string option"

definition registration_matches :: "registration \<Rightarrow> repository_row \<Rightarrow> bool" where
  "registration_matches g r = (rp_workspace r = rg_workspace g \<and> rp_provider r = ''GITLAB''
     \<and> rp_project r = rg_project g \<and> rp_path r = rg_path g \<and> rp_default_branch r = ''main''
     \<and> rp_connection r = rg_connection g \<and> rp_credential r = rg_credential g
     \<and> rp_webhook_secret r = rg_webhook_secret g)"

definition register_workspace_repository ::
  "registration \<Rightarrow> string \<Rightarrow> source_tx \<Rightarrow> source_db
   \<Rightarrow> (source_error, repository_row \<times> source_db) res" where
  "register_workspace_repository g actor tx db =
     rbind (validate_secret_reference (rg_credential g)) (\<lambda>_.
     rbind (case rg_webhook_secret g of None \<Rightarrow> Inr () | Some s \<Rightarrow> validate_secret_reference s) (\<lambda>_.
     case workspace_repository (rg_repository g) db of
       Some existing \<Rightarrow>
         if \<not> registration_matches g existing then Inl RepositoryWorkspaceConflict
         else if rp_status existing = REMOVED then Inl RepositoryRemoved
         else Inr (existing, db)
     | None \<Rightarrow>
         let now = st_clock tx 0
         in rbind (insert_workspace_repository \<lparr>rp_id = rg_repository g, rp_workspace = rg_workspace g,
              rp_provider = ''GITLAB'', rp_project = rg_project g, rp_path = rg_path g,
              rp_default_branch = ''main'', rp_connection = rg_connection g,
              rp_credential = rg_credential g, rp_webhook_secret = rg_webhook_secret g,
              rp_status = AUTHORIZED, rp_revision = 1, rp_created_at = now, rp_updated_at = now\<rparr> db)
            (\<lambda>(inserted, db1). Inr (inserted, audit_repository_change tx 0 1 actor
              ''source_control.repository.registered'' (rg_repository g) db1))))"

definition remove_workspace_repository ::
  "string \<Rightarrow> int \<Rightarrow> string \<Rightarrow> source_tx \<Rightarrow> source_db
   \<Rightarrow> (source_error, repository_row \<times> source_db) res" where
  "remove_workspace_repository repository expected_revision actor tx db =
     (case workspace_repository repository db of
        None \<Rightarrow> Inl RepositoryNotFound
      | Some existing \<Rightarrow>
          if rp_status existing = REMOVED then Inl RepositoryRemoved
          else rbind (repository_remove repository expected_revision (st_clock tx 0) db)
            (\<lambda>(removed, db1). case removed of
               None \<Rightarrow> Inl StaleRepositoryRevision
             | Some r \<Rightarrow> Inr (r, audit_repository_change tx 0 1 actor
                 ''source_control.repository.removed'' repository db1)))"

definition list_authorized_repositories :: "string \<Rightarrow> source_db \<Rightarrow> repository_row list" where
  "list_authorized_repositories workspace db = authorized_repositories workspace db"

subsection \<open>The relay\<close>

text \<open>\<open>digest\<close> stands for SHA-256 over the canonical JSON of the envelope's fields.\<close>

type_synonym envelope_digest = "binding_envelope \<Rightarrow> string"

definition accept_binding_request ::
  "envelope_digest \<Rightarrow> binding_envelope \<Rightarrow> instant \<Rightarrow> source_db
   \<Rightarrow> (source_error, inbox_row \<times> source_db) res" where
  "accept_binding_request digest envelope now db =
     (let payload_hash = digest envelope
      in case inbox_request (en_message envelope) db of
        Some existing \<Rightarrow>
          if ib_payload_hash existing \<noteq> payload_hash then Inl BindingRequestMessageConflict
          else Inr (existing, db)
      | None \<Rightarrow> (case workspace_repository (en_repository envelope) db of
          None \<Rightarrow> Inl RepositoryNotFound
        | Some repository \<Rightarrow>
            if rp_status repository \<noteq> AUTHORIZED then Inl RepositoryRemoved
            else rbind (insert_binding_request \<lparr>ib_message = en_message envelope,
                ib_payload_hash = payload_hash, ib_requirement = en_requirement envelope,
                ib_requirement_version = en_requirement_version envelope,
                ib_work_item = en_work_item envelope, ib_repository = en_repository envelope,
                ib_state = RECEIVED, ib_attempts = 0, ib_available_at = now, ib_error = None,
                ib_received_at = now, ib_updated_at = now, ib_processed_at = None\<rparr> db)
              (\<lambda>(inserted, db1). case inserted of
                 Some r \<Rightarrow> Inr (r, db1)
               | None \<Rightarrow> (case inbox_request (en_message envelope) db1 of
                   Some existing \<Rightarrow>
                     if ib_payload_hash existing \<noteq> payload_hash
                     then Inl BindingRequestMessageConflict else Inr (existing, db1)
                 | None \<Rightarrow> Inl BindingRequestMessageConflict))))"

definition accept_envelope ::
  "envelope_digest \<Rightarrow> binding_envelope \<Rightarrow> instant \<Rightarrow> source_tx \<Rightarrow> source_db
   \<Rightarrow> (source_error, unit \<times> source_db) res" where
  "accept_envelope digest envelope now tx db =
     (let was_known = inbox_request (en_message envelope) db \<noteq> None
      in rbind (accept_binding_request digest envelope now db) (\<lambda>(accepted, db1).
           Inr ((), if was_known then db1
             else append_lifecycle_audit tx 0 0 (lifecycle_success
               ''source_control.binding_request.accepted'' ''binding_request_inbox''
               (ib_message accepted) (''source-control:work-item:'' @ en_work_item envelope)) db1)))"

text \<open>The outcome of one envelope: accepted, or released back to the Requirement module.\<close>

definition relay_envelope ::
  "envelope_digest \<Rightarrow> instant \<Rightarrow> binding_envelope \<Rightarrow> bool source_task" where
  "relay_envelope digest now envelope =
     attempt (transact (accept_envelope digest envelope now))
       (\<lambda>e. if e = BindingRequestMessageConflict
            then wbind (release_request (en_message envelope) ''BINDING_REQUEST_CONFLICT'' now)
                   (\<lambda>_. give False)
            else if e = RepositoryNotFound \<or> e = RepositoryRemoved
            then wbind (release_request (en_message envelope) ''SOURCE_CONTROL_UNAVAILABLE''
                   (now + seconds 300)) (\<lambda>_. give False)
            else throw e)
       (\<lambda>_. wbind (acknowledge_request (en_message envelope)) (\<lambda>_. give True))"

definition relay_binding_requests ::
  "source_deps \<Rightarrow> envelope_digest \<Rightarrow> int \<Rightarrow> (nat \<times> nat \<times> nat) source_task" where
  "relay_binding_requests d digest limit =
     (if \<not> dp_requirement d then throw RequirementCallbackUnavailable
      else wbind (observe (\<lambda>tx db. Inr (st_clock tx 0))) (\<lambda>now.
        wbind (claim_requests limit (now + seconds 30)) (\<lambda>messages.
          wbind (each_task (relay_envelope digest now) messages) (\<lambda>outcomes.
            give (length messages, length (filter id outcomes),
                  length (filter (\<lambda>b. \<not> b) outcomes))))))"

subsection \<open>Results and callbacks\<close>

record process_result =
  pr_effect :: "effect_row option"
  pr_binding :: "branch_binding_row option"
  pr_blocked :: "string option"

definition binding_dto :: "branch_binding_row \<Rightarrow> (source_error, branch_binding_row) res" where
  "binding_dto b =
     (if blank (bd_repository b) \<or> blank (bd_base b) \<or> blank (bd_branch b) \<or> bd_number b < 1
      then Inl ValidationError
      else Inr (b\<lparr>bd_repository := strip (bd_repository b), bd_base := strip (bd_base b),
        bd_branch := strip (bd_branch b)\<rparr>))"

definition profile_of :: "repository_row \<Rightarrow> repository_profile" where
  "profile_of r = \<lparr>pf_repository = rp_id r, pf_project = rp_project r, pf_path = rp_path r,
     pf_connection = rp_connection r, pf_default_branch = rp_default_branch r,
     pf_credential = rp_credential r\<rparr>"

definition row_dto :: "effect_row option \<Rightarrow> (source_error, effect_row) res" where
  "row_dto r = (case r of None \<Rightarrow> Inl SubscriptOfNone | Some e \<Rightarrow> effect_dto e)"

definition optional_binding_dto ::
  "branch_binding_row option \<Rightarrow> (source_error, branch_binding_row option) res" where
  "optional_binding_dto r = (case r of None \<Rightarrow> Inr None
     | Some b \<Rightarrow> rbind (binding_dto b) (\<lambda>x. Inr (Some x)))"

definition existing_effect_result ::
  "string \<Rightarrow> source_db \<Rightarrow> (source_error, process_result) res" where
  "existing_effect_result i db = (case effect_by_id i db of
     None \<Rightarrow> Inl RequirementCallbackUnavailable
   | Some row \<Rightarrow> rbind (effect_dto row) (\<lambda>e.
       rbind (optional_binding_dto (binding_by_work_item (ef_work_item row) db)) (\<lambda>b.
         Inr \<lparr>pr_effect = Some e, pr_binding = b, pr_blocked = ef_error e\<rparr>)))"

definition no_change :: "instant \<Rightarrow> effect_change" where
  "no_change now = \<lparr>ec_state = None, ec_attempts = None, ec_next = None, ec_error = None,
     ec_callback = None, ec_completed = None, ec_updated = now\<rparr>"

definition effect_correlation :: "string \<Rightarrow> string" where
  "effect_correlation i = ''source-control:effect:'' @ i"

definition work_item_correlation :: "string \<Rightarrow> string" where
  "work_item_correlation w = ''source-control:work-item:'' @ w"

definition effect_fact ::
  "string \<Rightarrow> string \<Rightarrow> string \<Rightarrow> source_control_reason option \<Rightarrow> lifecycle_fact" where
  "effect_fact action i result reason = \<lparr>lf_action = action, lf_target_type = ''source_control_effect'',
     lf_target_id = i, lf_result = result, lf_reason = map_option reason_value reason,
     lf_correlation = Some (effect_correlation i)\<rparr>"

definition callback_fact :: "string \<Rightarrow> callback_state \<Rightarrow> lifecycle_fact" where
  "callback_fact i callback =
     \<lparr>lf_action = (if callback = CALLBACK_ACKED then ''source_control.requirement_callback.acked''
        else ''source_control.requirement_callback.failed''),
      lf_target_type = ''source_control_effect'', lf_target_id = i,
      lf_result = (if callback = CALLBACK_ACKED then ''SUCCESS'' else ''FAILURE''),
      lf_reason = (if callback = CALLBACK_ACKED then None else Some ''REQUIREMENT_CALLBACK_UNAVAILABLE''),
      lf_correlation = Some (effect_correlation i)\<rparr>"

definition write_callback_state ::
  "string \<Rightarrow> effect_state \<Rightarrow> callback_state \<Rightarrow> source_tx \<Rightarrow> source_db
   \<Rightarrow> (source_error, effect_row option \<times> source_db) res" where
  "write_callback_state i expected_state callback tx db =
     rbind (write_effect i expected_state None
         ((no_change (st_clock tx 0))\<lparr>ec_callback := Some callback\<rparr>) db) (\<lambda>(updated, db1).
       Inr (updated, if updated = None then db1
         else append_lifecycle_audit tx 0 1 (callback_fact i callback) db1))"

definition set_callback_state ::
  "string \<Rightarrow> effect_state \<Rightarrow> callback_state \<Rightarrow> effect_row source_task" where
  "set_callback_state i expected_state callback =
     wbind (transact (write_callback_state i expected_state callback))
       (\<lambda>updated. Done (row_dto updated))"

definition acked_or_failed ::
  "unit source_task \<Rightarrow> (callback_state \<Rightarrow> 'x source_task) \<Rightarrow> 'x source_task" where
  "acked_or_failed w f = attempt w
     (\<lambda>e. if e = RequirementCallbackUnavailable then f CALLBACK_FAILED else throw e)
     (\<lambda>_. f CALLBACK_ACKED)"

definition blocked_key :: "string \<Rightarrow> source_control_reason \<Rightarrow> string" where
  "blocked_key i reason = ''source-control:binding-blocked:'' @ i @ '':'' @ reason_value reason"

definition tell_blocked ::
  "source_deps \<Rightarrow> binding_context \<Rightarrow> source_control_reason \<Rightarrow> string \<Rightarrow> string \<Rightarrow> unit source_task" where
  "tell_blocked d c reason key correlation =
     (if \<not> dp_requirement d then throw RequirementCallbackUnavailable
      else record_blocked \<lparr>br_work_item = bc_work_item c, br_repository = bc_repository c,
        br_reason = reason, br_revision = bc_revision c, br_key = key, br_correlation = correlation\<rparr>)"

definition record_preflight_block ::
  "binding_context \<Rightarrow> string \<Rightarrow> source_control_reason \<Rightarrow> source_tx \<Rightarrow> source_db
   \<Rightarrow> (source_error, unit \<times> source_db) res" where
  "record_preflight_block c message reason tx db =
     rbind (complete_binding_request message (st_clock tx 0) db) (\<lambda>db1.
       Inr ((), append_lifecycle_audit tx 0 1
         \<lparr>lf_action = ''source_control.binding.blocked'', lf_target_type = ''binding_request_inbox'',
          lf_target_id = message, lf_result = ''DENIED'', lf_reason = Some (reason_value reason),
          lf_correlation = Some (work_item_correlation (bc_work_item c))\<rparr> db1))"

definition complete_preflight_block ::
  "source_deps \<Rightarrow> binding_context \<Rightarrow> string \<Rightarrow> source_control_reason \<Rightarrow> process_result source_task" where
  "complete_preflight_block d c message reason =
     wbind (tell_blocked d c reason (''source-control:block:'' @ message @ '':'' @ reason_value reason)
         (work_item_correlation (bc_work_item c))) (\<lambda>_.
     wbind (transact (record_preflight_block c message reason)) (\<lambda>_.
     give \<lparr>pr_effect = None, pr_binding = None, pr_blocked = Some (reason_value reason)\<rparr>))"

text \<open>A transaction that closes the attempt of an effect; \<open>Inl\<close> is what it finds when another
  worker has moved the effect.\<close>

definition close_effect ::
  "effect_state \<Rightarrow> effect_row \<Rightarrow> (source_tx \<Rightarrow> effect_change)
   \<Rightarrow> (source_db \<Rightarrow> (source_error, 'y) res)
   \<Rightarrow> (source_tx \<Rightarrow> effect_row \<Rightarrow> source_db \<Rightarrow> (source_error, 'x \<times> source_db) res)
   \<Rightarrow> source_tx \<Rightarrow> source_db \<Rightarrow> (source_error, ('y + 'x) \<times> source_db) res" where
  "close_effect st effect change found facts tx db =
     rbind (write_effect (ef_id effect) st (Some (ef_attempts effect)) (change tx) db)
       (\<lambda>(row, db1). case row of
          None \<Rightarrow> rbind (found db1) (\<lambda>r. Inr (Inl r, db1))
        | Some e \<Rightarrow> rbind (facts tx e db1) (\<lambda>(x, db2). Inr (Inr x, db2)))"

definition close_in_flight ::
  "effect_row \<Rightarrow> (source_tx \<Rightarrow> effect_change)
   \<Rightarrow> (source_tx \<Rightarrow> effect_row \<Rightarrow> source_db \<Rightarrow> (source_error, 'x \<times> source_db) res)
   \<Rightarrow> (process_result + 'x) source_task" where
  "close_in_flight effect change facts =
     transact (close_effect IN_FLIGHT effect change (existing_effect_result (ef_id effect)) facts)"

definition blocked_change :: "source_control_reason \<Rightarrow> instant \<Rightarrow> effect_change" where
  "blocked_change reason now = (no_change now)\<lparr>ec_state := Some EFFECT_BLOCKED,
     ec_error := Some (Some (reason_value reason)), ec_next := Some None,
     ec_completed := Some (Some now)\<rparr>"

definition blocked_facts ::
  "effect_row \<Rightarrow> string \<Rightarrow> source_control_reason \<Rightarrow> source_tx \<Rightarrow> effect_row \<Rightarrow> source_db
   \<Rightarrow> (source_error, unit \<times> source_db) res" where
  "blocked_facts effect message reason tx row db =
     rbind (complete_binding_request message (st_clock tx 0) db) (\<lambda>db1.
       Inr ((), append_lifecycle_audit tx 0 1 (effect_fact ''source_control.effect.blocked''
         (ef_id effect) ''DENIED'' (Some reason)) db1))"

definition complete_effect_block ::
  "source_deps \<Rightarrow> effect_row \<Rightarrow> binding_context \<Rightarrow> string \<Rightarrow> source_control_reason
   \<Rightarrow> process_result source_task" where
  "complete_effect_block d effect c message reason =
     wbind (close_in_flight effect (\<lambda>tx. blocked_change reason (st_clock tx 0))
         (blocked_facts effect message reason))
       (\<lambda>closed. case closed of
          Inl result \<Rightarrow> give result
        | Inr _ \<Rightarrow> acked_or_failed
            (tell_blocked d c reason (blocked_key (ef_id effect) reason)
              (effect_correlation (ef_id effect)))
            (\<lambda>callback. wbind (set_callback_state (ef_id effect) EFFECT_BLOCKED callback) (\<lambda>blocked.
              give \<lparr>pr_effect = Some blocked, pr_binding = None,
                    pr_blocked = Some (reason_value reason)\<rparr>)))"

definition ready_of :: "string \<Rightarrow> branch_binding_row \<Rightarrow> binding_context \<Rightarrow> ready_result" where
  "ready_of i b c = \<lparr>rr_work_item = bd_work_item b, rr_repository = bd_repository b,
     rr_base = bd_base b, rr_branch = bd_branch b, rr_revision = bc_revision c,
     rr_key = ''source-control:binding-ready:'' @ i, rr_correlation = effect_correlation i\<rparr>"

definition replay_existing_binding ::
  "source_deps \<Rightarrow> branch_binding_row \<Rightarrow> effect_row \<Rightarrow> binding_context \<Rightarrow> process_result source_task" where
  "replay_existing_binding d b effect c =
     (if \<not> dp_requirement d then throw RequirementCallbackUnavailable
      else acked_or_failed (record_ready (ready_of (ef_id effect) b c)) (\<lambda>callback.
        wbind (set_callback_state (ef_id effect) EFFECT_SUCCEEDED callback) (\<lambda>e.
          give \<lparr>pr_effect = Some e, pr_binding = Some b, pr_blocked = None\<rparr>)))"

definition get_repository_branch_binding :: "string \<Rightarrow> branch_binding_row option source_task" where
  "get_repository_branch_binding w =
     observe (\<lambda>tx db. optional_binding_dto (binding_by_work_item w db))"

subsection \<open>Processing a binding request\<close>

text \<open>Planning: the first worker inserts the effect; a concurrent insert is found by re-reading.\<close>

definition planned_effect ::
  "source_deps \<Rightarrow> binding_context \<Rightarrow> inbox_row \<Rightarrow> branch_snapshot \<Rightarrow> source_tx \<Rightarrow> source_db
   \<Rightarrow> (source_error, effect_row \<times> source_db) res" where
  "planned_effect d c inbox base tx db =
     (case effect_by_work_item (bc_work_item c) db of
        Some row \<Rightarrow> Inr (row, db)
      | None \<Rightarrow>
          let (number, db1) = next_work_item_number tx db
          in rbind (build_task_branch_name (dp_nfkc d) (bc_type c) number (bc_title c)) (\<lambda>branch.
             rbind (insert_effect \<lparr>ef_id = st_id tx 0,
                 ef_key = ''source-control:create-task-branch:'' @ bc_work_item c,
                 ef_operation = CREATE_TASK_BRANCH, ef_subject = ''work-item:'' @ bc_work_item c,
                 ef_payload = TaskBranchPayload, ef_work_item = bc_work_item c,
                 ef_requirement = bc_requirement c, ef_repository = bc_repository c,
                 ef_number = Some number, ef_branch = Some branch, ef_base = Some (bs_commit base),
                 ef_fingerprint = ib_payload_hash inbox, ef_attempts = 0, ef_next_reconcile = None,
                 ef_state = EFFECT_PLANNED, ef_error = None, ef_callback = CALLBACK_PENDING,
                 ef_created_at = st_clock tx 0, ef_updated_at = st_clock tx 0,
                 ef_completed_at = None\<rparr> db1) (\<lambda>(row, db2).
             Inr (row, append_lifecycle_audit tx 1 1 (lifecycle_success ''source_control.effect.planned''
               ''source_control_effect'' (ef_id row) (work_item_correlation (bc_work_item c))) db2))))"

definition plan_effect ::
  "source_deps \<Rightarrow> binding_context \<Rightarrow> inbox_row \<Rightarrow> branch_snapshot \<Rightarrow> effect_row source_task" where
  "plan_effect d c inbox base =
     attempt (transact (planned_effect d c inbox base))
       (\<lambda>e. case e of
          IntegrityError _ \<Rightarrow> observe (\<lambda>tx db. of_option e (effect_by_work_item (bc_work_item c) db))
        | _ \<Rightarrow> throw e)
       give"

definition in_flight_change :: "effect_row \<Rightarrow> instant \<Rightarrow> effect_change" where
  "in_flight_change e now = (no_change now)\<lparr>ec_state := Some IN_FLIGHT,
     ec_attempts := Some (ef_attempts e + 1), ec_next := Some (Some (now + seconds 120))\<rparr>"

definition write_in_flight ::
  "effect_row \<Rightarrow> source_tx \<Rightarrow> source_db \<Rightarrow> (source_error, effect_row option \<times> source_db) res" where
  "write_in_flight e tx db =
     rbind (write_effect (ef_id e) EFFECT_PLANNED None (in_flight_change e (st_clock tx 0)) db)
       (\<lambda>(row, db1). Inr (row, if row = None then db1
          else append_lifecycle_audit tx 0 1 (effect_fact ''source_control.effect.in_flight''
            (ef_id e) ''SUCCESS'' None) db1))"

definition unknown_change :: "policy_settings \<Rightarrow> effect_row \<Rightarrow> instant \<Rightarrow> instant \<Rightarrow> effect_change" where
  "unknown_change p e now updated = (no_change updated)\<lparr>ec_state := Some EFFECT_UNKNOWN,
     ec_error := Some (Some (reason_value EXTERNAL_RESULT_UNKNOWN)),
     ec_next := Some (Some (next_reconcile_at p now (ef_attempts e)))\<rparr>"

definition unknown_facts ::
  "effect_row \<Rightarrow> string \<Rightarrow> source_tx \<Rightarrow> effect_row \<Rightarrow> source_db
   \<Rightarrow> (source_error, effect_row \<times> source_db) res" where
  "unknown_facts effect message tx row db =
     rbind (complete_binding_request message (st_clock tx 2) db) (\<lambda>db1.
       Inr (row, append_lifecycle_audit tx 0 3 (effect_fact ''source_control.effect.unknown''
         (ef_id effect) ''UNKNOWN'' (Some EXTERNAL_RESULT_UNKNOWN)) db1))"

definition record_unknown ::
  "source_deps \<Rightarrow> policy_settings \<Rightarrow> effect_row \<Rightarrow> binding_context \<Rightarrow> string
   \<Rightarrow> process_result source_task" where
  "record_unknown d p effect c message =
     wbind (close_in_flight effect (\<lambda>tx. unknown_change p effect (st_clock tx 0) (st_clock tx 1))
         (unknown_facts effect message))
       (\<lambda>closed. case closed of
          Inl result \<Rightarrow> give result
        | Inr row \<Rightarrow> wbind (Done (effect_dto row)) (\<lambda>unknown. acked_or_failed
            (tell_blocked d c RECONCILIATION_PENDING
              (blocked_key (ef_id unknown) EXTERNAL_RESULT_UNKNOWN)
              (effect_correlation (ef_id unknown)))
            (\<lambda>callback. wbind (set_callback_state (ef_id unknown) EFFECT_UNKNOWN callback) (\<lambda>e.
              give \<lparr>pr_effect = Some e, pr_binding = None,
                    pr_blocked = Some (reason_value RECONCILIATION_PENDING)\<rparr>))))"

definition succeeded_change :: "instant \<Rightarrow> effect_change" where
  "succeeded_change now = (no_change now)\<lparr>ec_state := Some EFFECT_SUCCEEDED,
     ec_next := Some None, ec_completed := Some (Some now)\<rparr>"

definition success_facts ::
  "effect_row \<Rightarrow> binding_context \<Rightarrow> string \<Rightarrow> int \<Rightarrow> string \<Rightarrow> branch_snapshot \<Rightarrow> instant \<Rightarrow> source_tx
   \<Rightarrow> effect_row \<Rightarrow> source_db \<Rightarrow> (source_error, (effect_row \<times> branch_binding_row) \<times> source_db) res" where
  "success_facts effect c message number branch verified completed_at tx row db =
     rbind (insert_branch_binding \<lparr>bd_id = st_id tx 0, bd_work_item = bc_work_item c,
         bd_requirement = bc_requirement c, bd_workspace = bc_workspace c,
         bd_repository = bc_repository c, bd_number = number,
         bd_base = bs_commit verified, bd_branch = branch, bd_effect = ef_id effect,
         bd_created_at = completed_at\<rparr> db) (\<lambda>(binding, db1).
     rbind (complete_binding_request message completed_at db1) (\<lambda>db2.
       Inr ((row, binding),
         append_lifecycle_audit tx 2 1 (effect_fact ''source_control.effect.succeeded''
           (ef_id effect) ''SUCCESS'' None)
         (append_lifecycle_audit tx 1 0 (lifecycle_success ''source_control.binding.created''
           ''repository_branch_binding'' (bd_id binding) (effect_correlation (ef_id effect))) db2))))"

definition record_success ::
  "source_deps \<Rightarrow> effect_row \<Rightarrow> binding_context \<Rightarrow> string \<Rightarrow> int \<Rightarrow> string \<Rightarrow> branch_snapshot
   \<Rightarrow> process_result source_task" where
  "record_success d effect c message number branch verified =
     wbind (observe (\<lambda>tx db. Inr (st_clock tx 0))) (\<lambda>completed_at.
     wbind (close_in_flight effect (\<lambda>tx. succeeded_change completed_at)
         (success_facts effect c message number branch verified completed_at))
       (\<lambda>closed. case closed of
          Inl result \<Rightarrow> give result
        | Inr (row, binding) \<Rightarrow> wbind (Done (binding_dto binding)) (\<lambda>b.
            wbind (Done (effect_dto row)) (\<lambda>e. replay_existing_binding d b e c))))"

definition create_task_branch ::
  "source_deps \<Rightarrow> policy_settings \<Rightarrow> effect_row \<Rightarrow> binding_context \<Rightarrow> repository_profile \<Rightarrow> string
   \<Rightarrow> process_result source_task" where
  "create_task_branch d p effect c profile message =
     wbind (Done (branch_effect_coordinates effect)) (\<lambda>(number, branch, base).
     attempt (create_and_verify_branch d profile branch base)
       (\<lambda>e. if e = GitLabResultUnknown then record_unknown d p effect c message
            else if e = GitLabAccessDenied then complete_effect_block d effect c message ACCESS_DENIED
            else if e = GitLabProviderUnavailable
            then complete_effect_block d effect c message CONNECTOR_UNAVAILABLE
            else if e = GitLabBranchConflict
            then complete_effect_block d effect c message BINDING_CONFLICT
            else throw e)
       (\<lambda>verified. record_success d effect c message number branch verified))"

definition run_planned_effect ::
  "source_deps \<Rightarrow> policy_settings \<Rightarrow> effect_row \<Rightarrow> binding_context \<Rightarrow> repository_profile \<Rightarrow> string
   \<Rightarrow> process_result source_task" where
  "run_planned_effect d p effect c profile message =
     (if ef_state effect \<noteq> EFFECT_PLANNED
      then give \<lparr>pr_effect = Some effect, pr_binding = None, pr_blocked = None\<rparr>
      else wbind (transact (write_in_flight effect)) (\<lambda>in_flight_row. case in_flight_row of
          None \<Rightarrow> wbind (observe (\<lambda>tx db. row_dto (effect_by_work_item (bc_work_item c) db)))
            (\<lambda>e. give \<lparr>pr_effect = Some e, pr_binding = None, pr_blocked = None\<rparr>)
        | Some row \<Rightarrow> wbind (Done (effect_dto row)) (\<lambda>e.
            create_task_branch d p e c profile message)))"

definition preflight_gitlab ::
  "source_deps \<Rightarrow> repository_profile \<Rightarrow> branch_snapshot source_task" where
  "preflight_gitlab d profile = wbind (validate_repository d profile)
     (\<lambda>_. get_branch d profile (pf_default_branch profile))"

definition execute_binding_request ::
  "source_deps \<Rightarrow> policy_settings \<Rightarrow> binding_context \<Rightarrow> inbox_row \<Rightarrow> string
   \<Rightarrow> process_result source_task" where
  "execute_binding_request d p c inbox message =
     (case bc_owner c of
        None \<Rightarrow> complete_preflight_block d c message OWNER_UNASSIGNED
      | Some owner \<Rightarrow>
          if \<not> bc_assigned c then complete_preflight_block d c message OWNER_UNASSIGNED
          else wbind (evaluate_actor (actor_eligibility_context c owner)) (\<lambda>(eligible, reason).
            if \<not> eligible
            then complete_preflight_block d c message (or_else reason OWNER_INELIGIBLE)
            else wbind (observe (\<lambda>tx db. Inr (workspace_repository (bc_repository c) db)))
              (\<lambda>repository. case repository of
                 None \<Rightarrow> complete_preflight_block d c message REPOSITORY_NOT_AUTHORIZED
               | Some r \<Rightarrow>
                   if rp_status r \<noteq> AUTHORIZED \<or> rp_workspace r \<noteq> bc_workspace c
                      \<or> ib_repository inbox \<noteq> bc_repository c
                   then complete_preflight_block d c message REPOSITORY_NOT_AUTHORIZED
                   else
                     let profile = profile_of r
                     in attempt (preflight_gitlab d profile)
                       (\<lambda>e. if e = GitLabAccessDenied
                            then complete_preflight_block d c message ACCESS_DENIED
                            else if e = GitLabDefaultBranchNotFound
                            then complete_preflight_block d c message REPOSITORY_NOT_FOUND
                            else if e = GitLabProviderUnavailable
                            then complete_preflight_block d c message CONNECTOR_UNAVAILABLE
                            else throw e)
                       (\<lambda>base. wbind (plan_effect d c inbox base) (\<lambda>row.
                         wbind (Done (effect_dto row)) (\<lambda>effect.
                           run_planned_effect d p effect c profile message))))))"

definition claim_message ::
  "string \<Rightarrow> source_tx \<Rightarrow> source_db
   \<Rightarrow> (source_error, (inbox_row option \<times> inbox_row option) \<times> source_db) res" where
  "claim_message message tx db =
     (let now = st_clock tx 0
      in rbind (claim_binding_request message now (now + seconds 120) db) (\<lambda>(claimed, db1).
           Inr ((claimed, if claimed = None then inbox_request message db1 else claimed), db1)))"

definition settle_message :: "string \<Rightarrow> source_tx \<Rightarrow> source_db \<Rightarrow> (source_error, unit \<times> source_db) res" where
  "settle_message message tx db =
     rbind (complete_binding_request message (st_clock tx 0) db) (\<lambda>db1. Inr ((), db1))"

definition complete_settled ::
  "inbox_row option \<Rightarrow> effect_row option \<Rightarrow> string \<Rightarrow> unit source_task" where
  "complete_settled claimed effect message =
     (if claimed \<noteq> None \<and> (case effect of None \<Rightarrow> False | Some e \<Rightarrow> ef_state e \<noteq> EFFECT_PLANNED)
      then transact (settle_message message)
      else give ())"

text \<open>After the claim: an existing binding is reported again, a lost claim answers with what is
  there, and the owner of the claim carries the request out.\<close>

definition replay_or_execute ::
  "source_deps \<Rightarrow> policy_settings \<Rightarrow> binding_context \<Rightarrow> inbox_row option \<Rightarrow> inbox_row \<Rightarrow> string
   \<Rightarrow> branch_binding_row option \<times> effect_row option \<Rightarrow> process_result source_task" where
  "replay_or_execute d p c claimed inbox message found = (case found of
     (Some b, Some e) \<Rightarrow> wbind (Done (binding_dto b)) (\<lambda>b'.
       wbind (Done (effect_dto e)) (\<lambda>e'. replay_existing_binding d b' e' c))
   | (_, effect) \<Rightarrow>
       if claimed = None
       then (case effect of
           Some e \<Rightarrow> wbind (Done (effect_dto e)) (\<lambda>e'.
             give \<lparr>pr_effect = Some e', pr_binding = None, pr_blocked = ef_error e'\<rparr>)
         | None \<Rightarrow> throw RequirementCallbackUnavailable)
       else execute_binding_request d p c inbox message)"

definition process_claimed ::
  "source_deps \<Rightarrow> policy_settings \<Rightarrow> inbox_row option \<Rightarrow> inbox_row \<Rightarrow> string
   \<Rightarrow> process_result source_task" where
  "process_claimed d p claimed inbox message =
     wbind (get_binding_context (ib_work_item inbox)) (\<lambda>c.
     wbind (observe (\<lambda>tx db. Inr (binding_by_work_item (bc_work_item c) db,
         effect_by_work_item (bc_work_item c) db))) (\<lambda>found.
     wbind (complete_settled claimed (snd found) message)
       (\<lambda>_. replay_or_execute d p c claimed inbox message found)))"

definition process_binding_request ::
  "source_deps \<Rightarrow> bool \<Rightarrow> string \<Rightarrow> process_result source_task" where
  "process_binding_request d claim_required message =
     (case dp_policy d of
        None \<Rightarrow> throw RequirementCallbackUnavailable
      | Some p \<Rightarrow>
          if \<not> dp_requirement d \<or> \<not> dp_eligibility d \<or> \<not> dp_gitlab d
          then throw RequirementCallbackUnavailable
          else wbind (transact (claim_message message)) (\<lambda>(claimed, found). case found of
              None \<Rightarrow> throw RequirementCallbackUnavailable
            | Some inbox \<Rightarrow>
                if claimed = None \<and> claim_required then throw InboxClaimLost
                else process_claimed d p claimed inbox message))"

end
