(* ===== verification/Source_Reconcile.thy ===== *)
theory Source_Reconcile
  imports Source_Saga
begin

section \<open>The source control module: reconciliation, webhooks, batches\<close>

text \<open>
  \<^verbatim>\<open>source_control/application/reconciliation.py\<close> (an effect whose result is unknown is claimed
  again, observed at GitLab and closed or returned), \<^verbatim>\<open>webhooks.py\<close> with
  \<^verbatim>\<open>_webhook_summary.py\<close> (signed events accepted into an inbox) and the lane scheduling of
  \<^verbatim>\<open>batches.py\<close>. HMAC, Base64, SHA-256 and the JSON decoder are the library's: the parameter
  \<open>webhook_crypto\<close>.
\<close>

subsection \<open>Reconciling one effect\<close>

definition safe_blocked_reason :: "source_control_reason \<Rightarrow> source_control_reason" where
  "safe_blocked_reason r =
     (if r \<in> {ACCESS_DENIED, BINDING_CONFLICT, OWNER_UNASSIGNED, OWNER_INELIGIBLE,
              REPOSITORY_NOT_AUTHORIZED} then r
      else if r = REPOSITORY_REMOVED then REPOSITORY_NOT_AUTHORIZED
      else CONNECTOR_UNAVAILABLE)"

definition terminal_call ::
  "effect_row \<Rightarrow> binding_context \<Rightarrow> branch_binding_row option \<Rightarrow> unit source_task option" where
  "terminal_call effect c binding =
     (case (ef_state effect, binding) of
        (EFFECT_SUCCEEDED, Some b) \<Rightarrow> Some (record_ready (ready_of (ef_id effect) b c))
      | (EFFECT_BLOCKED, _) \<Rightarrow> Some (wbind (Done (stored_reason (ef_error effect))) (\<lambda>reason.
          case reason of
            None \<Rightarrow> throw RequirementCallbackUnavailable
          | Some r \<Rightarrow> record_blocked \<lparr>br_work_item = ef_work_item effect,
              br_repository = ef_repository effect, br_reason = safe_blocked_reason r,
              br_revision = bc_revision c, br_key = blocked_key (ef_id effect) r,
              br_correlation = effect_correlation (ef_id effect)\<rparr>))
      | _ \<Rightarrow> None)"

definition deliver_terminal_callback ::
  "source_deps \<Rightarrow> effect_row \<Rightarrow> binding_context \<Rightarrow> branch_binding_row option \<Rightarrow> effect_row source_task" where
  "deliver_terminal_callback d effect c binding =
     (if \<not> dp_requirement d then set_callback_state (ef_id effect) (ef_state effect) CALLBACK_FAILED
      else case terminal_call effect c binding of
        None \<Rightarrow> give effect
      | Some w \<Rightarrow> acked_or_failed w (set_callback_state (ef_id effect) (ef_state effect)))"

definition close_reconciled ::
  "effect_row \<Rightarrow> (source_tx \<Rightarrow> effect_change)
   \<Rightarrow> (source_db \<Rightarrow> (source_error, 'y) res)
   \<Rightarrow> (source_tx \<Rightarrow> effect_row \<Rightarrow> source_db \<Rightarrow> (source_error, 'x \<times> source_db) res)
   \<Rightarrow> ('y + 'x) source_task" where
  "close_reconciled effect change found facts =
     transact (close_effect RECONCILIATION effect change found facts)"

definition current_effect :: "string \<Rightarrow> source_db \<Rightarrow> (source_error, effect_row) res" where
  "current_effect i db = row_dto (effect_by_id i db)"

definition reconciled_success :: "instant \<Rightarrow> effect_change" where
  "reconciled_success now = (succeeded_change now)\<lparr>ec_error := Some None,
     ec_callback := Some CALLBACK_PENDING\<rparr>"

definition reconciled_block :: "source_control_reason \<Rightarrow> instant \<Rightarrow> effect_change" where
  "reconciled_block reason now = (blocked_change reason now)\<lparr>ec_callback := Some CALLBACK_PENDING\<rparr>"

definition current_binding_result ::
  "effect_row \<Rightarrow> source_db \<Rightarrow> (source_error, effect_row \<times> branch_binding_row option) res" where
  "current_binding_result effect db = rbind (current_effect (ef_id effect) db) (\<lambda>e.
     rbind (optional_binding_dto (binding_by_work_item (ef_work_item effect) db)) (\<lambda>b. Inr (e, b)))"

definition bind_reconciled ::
  "effect_row \<Rightarrow> binding_context \<Rightarrow> int \<Rightarrow> string \<Rightarrow> string \<Rightarrow> instant \<Rightarrow> source_tx \<Rightarrow> effect_row
   \<Rightarrow> source_db \<Rightarrow> (source_error, (effect_row \<times> branch_binding_row) \<times> source_db) res" where
  "bind_reconciled effect c number branch base now tx row db =
     (case binding_by_work_item (ef_work_item effect) db of
        Some existing \<Rightarrow> Inr ((row, existing), append_lifecycle_audit tx 0 0
          (effect_fact ''source_control.effect.succeeded'' (ef_id effect) ''SUCCESS'' None) db)
      | None \<Rightarrow> rbind (insert_branch_binding \<lparr>bd_id = st_id tx 0, bd_work_item = ef_work_item effect,
            bd_requirement = ef_requirement effect, bd_workspace = bc_workspace c,
            bd_repository = ef_repository effect, bd_number = number, bd_base = base,
            bd_branch = branch, bd_effect = ef_id effect, bd_created_at = now\<rparr> db) (\<lambda>(b, db1).
          Inr ((row, b), append_lifecycle_audit tx 2 1
            (effect_fact ''source_control.effect.succeeded'' (ef_id effect) ''SUCCESS'' None)
            (append_lifecycle_audit tx 1 0 (lifecycle_success ''source_control.binding.created''
              ''repository_branch_binding'' (bd_id b) (effect_correlation (ef_id effect))) db1))))"

definition complete_success ::
  "effect_row \<Rightarrow> binding_context
   \<Rightarrow> ((effect_row \<times> branch_binding_row option) + (effect_row \<times> branch_binding_row)) source_task" where
  "complete_success effect c =
     wbind (Done (branch_effect_coordinates effect)) (\<lambda>(number, branch, base).
     wbind (observe (\<lambda>tx db. Inr (st_clock tx 0))) (\<lambda>now.
     wbind (close_reconciled effect (\<lambda>tx. reconciled_success now) (current_binding_result effect)
         (bind_reconciled effect c number branch base now)) (\<lambda>closed. case closed of
        Inl other \<Rightarrow> give (Inl other)
      | Inr (row, b) \<Rightarrow> wbind (Done (effect_dto row)) (\<lambda>e.
          wbind (Done (binding_dto b)) (\<lambda>b'. give (Inr (e, b')))))))"

definition reconciled_fact ::
  "string \<Rightarrow> effect_row \<Rightarrow> string \<Rightarrow> source_control_reason \<Rightarrow> source_tx \<Rightarrow> effect_row \<Rightarrow> source_db
   \<Rightarrow> (source_error, effect_row \<times> source_db) res" where
  "reconciled_fact action effect outcome reason tx row db =
     Inr (row, append_lifecycle_audit tx 0 0 (effect_fact action (ef_id effect) outcome (Some reason)) db)"

definition complete_block ::
  "effect_row \<Rightarrow> source_control_reason \<Rightarrow> (effect_row + effect_row) source_task" where
  "complete_block effect reason =
     wbind (observe (\<lambda>tx db. Inr (st_clock tx 0))) (\<lambda>now.
     wbind (close_reconciled effect (\<lambda>tx. reconciled_block reason now) (current_effect (ef_id effect))
         (reconciled_fact ''source_control.effect.blocked'' effect ''DENIED'' reason))
       (\<lambda>closed. case closed of
          Inl other \<Rightarrow> give (Inl other)
        | Inr row \<Rightarrow> wbind (Done (effect_dto row)) (\<lambda>e. give (Inr e))))"

definition return_unknown :: "source_deps \<Rightarrow> effect_row \<Rightarrow> effect_row source_task" where
  "return_unknown d effect = (case dp_policy d of
     None \<Rightarrow> throw RequirementCallbackUnavailable
   | Some p \<Rightarrow> wbind (observe (\<lambda>tx db. Inr (st_clock tx 0))) (\<lambda>now.
       wbind (close_reconciled effect (\<lambda>tx. unknown_change p effect now now)
           (current_effect (ef_id effect))
           (reconciled_fact ''source_control.effect.unknown'' effect ''UNKNOWN''
             EXTERNAL_RESULT_UNKNOWN))
         (\<lambda>closed. case closed of
            Inl other \<Rightarrow> give other
          | Inr row \<Rightarrow> wbind (Done (effect_dto row)) give)))"

definition block_and_deliver ::
  "source_deps \<Rightarrow> effect_row \<Rightarrow> binding_context \<Rightarrow> source_control_reason \<Rightarrow> effect_row source_task" where
  "block_and_deliver d effect c reason =
     wbind (complete_block effect reason) (\<lambda>blocked. case blocked of
       Inl other \<Rightarrow> give other
     | Inr e \<Rightarrow> deliver_terminal_callback d e c None)"

definition succeed_and_deliver ::
  "source_deps \<Rightarrow> effect_row \<Rightarrow> binding_context \<Rightarrow> effect_row source_task" where
  "succeed_and_deliver d effect c =
     wbind (complete_success effect c) (\<lambda>done. case done of
       Inl (other, _) \<Rightarrow> give other
     | Inr (e, b) \<Rightarrow> deliver_terminal_callback d e c (Some b))"

text \<open>What GitLab shows of the effect's branch: the branch, a conflict, or nothing certain.\<close>

definition observe_branch ::
  "source_deps \<Rightarrow> repository_profile \<Rightarrow> string \<Rightarrow> string \<Rightarrow> branch_snapshot option source_task" where
  "observe_branch d profile branch base =
     attempt (wbind (validate_repository d profile) (\<lambda>_. get_branch d profile branch))
       (\<lambda>e. if e = GitLabBranchNotFound
            then attempt (create_and_verify_branch d profile branch base)
              (\<lambda>e. if e = GitLabBranchConflict then give None else throw e)
              (\<lambda>s. give (Some s))
            else throw e)
       (\<lambda>s. give (Some s))"

definition reconcile_observed ::
  "source_deps \<Rightarrow> effect_row \<Rightarrow> binding_context \<Rightarrow> repository_profile \<Rightarrow> string \<Rightarrow> string
   \<Rightarrow> effect_row source_task" where
  "reconcile_observed d effect c profile branch base =
     attempt (observe_branch d profile branch base)
       (\<lambda>e. if e = GitLabProviderUnavailable \<or> e = GitLabResultUnknown then return_unknown d effect
            else if e = GitLabAccessDenied then block_and_deliver d effect c ACCESS_DENIED
            else throw e)
       (\<lambda>observed. case observed of
          None \<Rightarrow> block_and_deliver d effect c BINDING_CONFLICT
        | Some s \<Rightarrow> if bs_commit s = base then succeed_and_deliver d effect c
                    else block_and_deliver d effect c BINDING_CONFLICT)"

text \<open>The rest of \<open>_reconcile_effect\<close> once the owner is eligible: the repository is read again.\<close>

definition reconcile_repository ::
  "source_deps \<Rightarrow> effect_row \<Rightarrow> binding_context \<Rightarrow> string \<Rightarrow> string \<Rightarrow> effect_row source_task" where
  "reconcile_repository d effect c branch base =
     wbind (observe (\<lambda>tx db. Inr (workspace_repository (ef_repository effect) db)))
       (\<lambda>repository. case repository of
          None \<Rightarrow> block_and_deliver d effect c REPOSITORY_REMOVED
        | Some r \<Rightarrow>
            if rp_status r \<noteq> AUTHORIZED \<or> rp_workspace r \<noteq> bc_workspace c
               \<or> bc_repository c \<noteq> ef_repository effect
            then block_and_deliver d effect c REPOSITORY_REMOVED
            else reconcile_observed d effect c (profile_of r) branch base)"

definition reconcile_effect :: "source_deps \<Rightarrow> effect_row \<Rightarrow> effect_row source_task" where
  "reconcile_effect d effect =
     wbind (Done (branch_effect_coordinates effect)) (\<lambda>(number, branch, base).
     if \<not> dp_requirement d \<or> \<not> dp_eligibility d \<or> \<not> dp_gitlab d then return_unknown d effect
     else wbind (get_binding_context (ef_work_item effect)) (\<lambda>c. case bc_owner c of
         None \<Rightarrow> block_and_deliver d effect c OWNER_UNASSIGNED
       | Some owner \<Rightarrow>
           if \<not> bc_assigned c then block_and_deliver d effect c OWNER_UNASSIGNED
           else wbind (evaluate_actor (actor_eligibility_context c owner)) (\<lambda>(eligible, reason).
             if \<not> eligible then block_and_deliver d effect c (or_else reason OWNER_INELIGIBLE)
             else reconcile_repository d effect c branch base)))"

subsection \<open>The due effects\<close>

fun audit_claims :: "source_tx \<Rightarrow> nat \<Rightarrow> effect_row list \<Rightarrow> source_db \<Rightarrow> source_db" where
  "audit_claims tx n [] db = db"
| "audit_claims tx n (e # es) db = audit_claims tx (Suc n) es (append_lifecycle_audit tx n n
     (effect_fact ''source_control.reconciliation.started'' (ef_id e) ''SUCCESS'' None) db)"

definition claim_due_effects ::
  "nat \<Rightarrow> instant \<Rightarrow> source_tx \<Rightarrow> source_db \<Rightarrow> (source_error, effect_row list \<times> source_db) res" where
  "claim_due_effects limit now tx db =
     rbind (claim_unknown_effects limit now (now + seconds 120) db) (\<lambda>(rows, db1).
       Inr (rows, audit_claims tx 0 rows db1))"

definition replay_callback :: "source_deps \<Rightarrow> effect_row \<Rightarrow> effect_row source_task" where
  "replay_callback d pending =
     wbind (get_binding_context (ef_work_item pending)) (\<lambda>c.
     wbind (observe (\<lambda>tx db. optional_binding_dto (binding_by_work_item (ef_work_item pending) db)))
       (\<lambda>b. deliver_terminal_callback d pending c b))"

text \<open>The loop over pending callbacks: validates each row, skips processed ones, stops at the quota.\<close>

fun replay_callbacks ::
  "source_deps \<Rightarrow> string list \<Rightarrow> nat \<Rightarrow> effect_row list \<Rightarrow> effect_row list source_task" where
  "replay_callbacks d processed remaining [] = give []"
| "replay_callbacks d processed 0 (row # rows) = give []"
| "replay_callbacks d processed (Suc remaining) (row # rows) =
     wbind (Done (effect_dto row)) (\<lambda>pending.
       if ef_id pending \<in> set processed \<or> \<not> dp_requirement d
       then replay_callbacks d processed (Suc remaining) rows
       else wbind (replay_callback d pending) (\<lambda>e.
         wbind (replay_callbacks d processed remaining rows) (\<lambda>es. give (e # es))))"

definition reconcile_due_effects :: "source_deps \<Rightarrow> nat \<Rightarrow> effect_row list source_task" where
  "reconcile_due_effects d limit =
     wbind (observe (\<lambda>tx db. Inr (st_clock tx 0))) (\<lambda>now.
     wbind (transact (claim_due_effects limit now)) (\<lambda>claimed.
     wbind (each_task (\<lambda>row. wbind (Done (effect_dto row)) (reconcile_effect d)) claimed) (\<lambda>effects.
       let processed = map ef_id effects; remaining = limit - length effects
       in if remaining = 0 then give effects
          else wbind (observe (\<lambda>tx db. Inr (pending_callback_effects
                 (remaining + card (set processed)) db))) (\<lambda>pending.
               wbind (replay_callbacks d processed remaining pending) (\<lambda>replayed.
                 give (effects @ replayed))))))"

end
