(* ===== verification/Source_Invariant.thy ===== *)
theory Source_Invariant
  imports Source_Reconcile
begin

section \<open>The source control module: invariant and guarantee\<close>

text \<open>
  What holds of the source control tables between any two transactions (\<open>source_inv\<close>): an effect
  that is not finished and has left PLANNED carries the instant at which it is claimed again, a
  blocked effect its reason, and a branch binding exists exactly for the succeeded effects, with
  their work item, number, branch and base commit. And what every transaction guarantees the
  other workers (\<open>source_guar\<close>): effects keep their identity and move by the domain's table, one
  attempt per claim; bindings are only added. The lemmas of the second half state the effect
  of each statement on both.
\<close>

definition known_reason :: "effect_row \<Rightarrow> bool" where
  "known_reason e = (\<not> isl (stored_reason (ef_error e)))"

definition effect_ok :: "effect_row \<Rightarrow> bool" where
  "effect_ok e = (effect_row_ok e \<and> known_reason e
     \<and> (ef_state e \<in> {IN_FLIGHT, EFFECT_UNKNOWN, RECONCILIATION} \<longrightarrow> ef_next_reconcile e \<noteq> None)
     \<and> (ef_state e = EFFECT_PLANNED \<longrightarrow> ef_attempts e = 0)
     \<and> (ef_state e = EFFECT_BLOCKED \<longrightarrow> ef_error e \<noteq> None))"

definition coordinates :: "effect_row \<Rightarrow> int option \<times> string option \<times> string option" where
  "coordinates e = (ef_number e, map_option strip (ef_branch e), map_option strip (ef_base e))"

definition identity :: "effect_row \<Rightarrow>
    (string \<times> effect_operation \<times> string) \<times> (int option \<times> string option \<times> string option)" where
  "identity e = ((ef_id e, ef_operation e, ef_work_item e), coordinates e)"

definition binds :: "branch_binding_row \<Rightarrow> effect_row \<Rightarrow> bool" where
  "binds b e = (ef_id e = bd_effect b \<and> branch_effect e \<and> ef_work_item e = bd_work_item b
     \<and> coordinates e = (Some (bd_number b), Some (strip (bd_branch b)), Some (strip (bd_base b))))"

definition source_inv :: "source_db \<Rightarrow> bool" where
  "source_inv db = (distinct (map ef_id (sd_effects db))
     \<and> inj_on ef_work_item {e \<in> set (sd_effects db). branch_effect e}
     \<and> (\<forall>e \<in> set (sd_effects db). effect_ok e)
     \<and> distinct (map bd_effect (sd_bindings db)) \<and> distinct (map bd_work_item (sd_bindings db))
     \<and> (\<forall>b \<in> set (sd_bindings db). \<exists>e \<in> set (sd_effects db).
          binds b e \<and> ef_state e = EFFECT_SUCCEEDED)
     \<and> (\<forall>e \<in> set (sd_effects db). branch_effect e \<and> ef_state e = EFFECT_SUCCEEDED \<longrightarrow>
          ef_id e \<in> bd_effect ` set (sd_bindings db)))"

text \<open>One transaction moves an effect along the table at most once; a claim costs one attempt.\<close>

definition moved_effect :: "effect_row \<Rightarrow> effect_row \<Rightarrow> bool" where
  "moved_effect e e' = (identity e' = identity e \<and> ef_created_at e' = ef_created_at e
     \<and> (if ef_state e' = ef_state e \<and> ef_attempts e' = ef_attempts e
        then ef_error e' = ef_error e \<and> ef_completed_at e' = ef_completed_at e
        else ef_state e' \<in> set (effect_transitions (ef_state e))
          \<and> ef_attempts e' =
              ef_attempts e + (if ef_state e' \<in> {IN_FLIGHT, RECONCILIATION} then 1 else 0)))"

definition source_guar :: "source_db \<Rightarrow> source_db \<Rightarrow> bool" where
  "source_guar db db' =
     ((\<forall>e \<in> set (sd_effects db). \<exists>e' \<in> set (sd_effects db'). moved_effect e e')
      \<and> (\<forall>e' \<in> set (sd_effects db'). ef_id e' \<in> ef_id ` set (sd_effects db)
           \<or> ef_state e' = EFFECT_PLANNED)
      \<and> (\<exists>new. sd_bindings db' = sd_bindings db @ new))"

definition source_rely :: "source_db \<Rightarrow> source_db \<Rightarrow> bool" where
  "source_rely = source_guar\<^sup>*\<^sup>*"

text \<open>What a worker may remember of the database: an effect it read, that it left PLANNED, a binding.\<close>

definition recorded :: "effect_row \<Rightarrow> source_db \<Rightarrow> bool" where
  "recorded e db = (\<exists>e' \<in> set (sd_effects db). identity e' = identity e)"

definition begun :: "effect_row \<Rightarrow> source_db \<Rightarrow> bool" where
  "begun e db = (\<exists>e' \<in> set (sd_effects db). identity e' = identity e \<and> ef_state e' \<noteq> EFFECT_PLANNED)"

definition bound :: "branch_binding_row \<Rightarrow> source_db \<Rightarrow> bool" where
  "bound b db = (\<exists>b' \<in> set (sd_bindings db). binding_dto b' = Inr b)"

definition source_asks :: "source_db \<Rightarrow> source_query \<Rightarrow> bool" where
  "source_asks db q = (case q of
     HttpPostBranch path branch sha token \<Rightarrow> \<exists>e \<in> set (sd_effects db). branch_effect e
       \<and> ef_state e \<noteq> EFFECT_PLANNED \<and> map_option strip (ef_branch e) = Some branch
       \<and> map_option strip (ef_base e) = Some sha
   | RecordReady r \<Rightarrow> \<exists>b. bound b db \<and> rr_work_item r = bd_work_item b
       \<and> rr_repository r = bd_repository b \<and> rr_base r = bd_base b \<and> rr_branch r = bd_branch b
   | _ \<Rightarrow> True)"

lemma moved_refl: "moved_effect e e"
  by (simp add: moved_effect_def)

lemma source_guar_refl: "source_guar db db"
  unfolding source_guar_def using moved_refl by auto

interpretation source: rely_guarantee source_inv source_rely source_guar source_asks
  by unfold_locales (auto simp: source_rely_def source_guar_refl)

lemma strip_strip [simp]: "strip (strip s) = strip s"
proof -
  have drop: "dropWhile is_space (rev (dropWhile is_space (rev xs))) = rev (dropWhile is_space (rev xs))"
    if "dropWhile is_space xs = xs" for xs
  proof (cases "rev (dropWhile is_space (rev xs))")
    case (Cons y ys)
    have "\<exists>zs. xs = rev (dropWhile is_space (rev xs)) @ zs"
      by (metis rev_append rev_rev_ident takeWhile_dropWhile_id)
    with Cons that have "\<not> is_space y"
      by (metis append_Cons dropWhile.simps(2) dropWhile_eq_Cons_conv)
    with Cons show ?thesis by simp
  next
    case Nil
    show ?thesis unfolding Nil by (simp only: dropWhile.simps)
  qed
  have "dropWhile is_space (strip s) = strip s"
    unfolding strip_def by (rule drop) simp
  then show ?thesis by (subst strip_def) (simp add: strip_def)
qed

lemma identity_stripped [simp]: "identity (stripped_effect e) = identity e"
  by (simp add: identity_def stripped_effect_def coordinates_def option.map_comp comp_def)

lemma effect_dto_Inr: "effect_dto e = Inr d \<Longrightarrow> d = stripped_effect e"
  by (auto simp: effect_dto_def res_simps split: if_splits)

lemma recorded_dto: "effect_dto e = Inr d \<Longrightarrow> recorded d db = recorded e db"
  by (drule effect_dto_Inr) (simp add: recorded_def)

lemma begun_dto: "effect_dto e = Inr d \<Longrightarrow> begun d db = begun e db"
  by (drule effect_dto_Inr) (simp add: begun_def)

lemma recorded_in: "e \<in> set (sd_effects db) \<Longrightarrow> recorded e db"
  unfolding recorded_def by blast

lemma recorded_guar: "recorded e db \<Longrightarrow> source_guar db db' \<Longrightarrow> recorded e db'"
  unfolding recorded_def source_guar_def moved_effect_def by metis

lemma begun_guar: "begun e db \<Longrightarrow> source_guar db db' \<Longrightarrow> begun e db'"
proof -
  assume "begun e db" and g: "source_guar db db'"
  then obtain x where x: "x \<in> set (sd_effects db)" "identity x = identity e" "ef_state x \<noteq> EFFECT_PLANNED"
    unfolding begun_def by blast
  with g obtain y where y: "y \<in> set (sd_effects db')" "moved_effect x y"
    unfolding source_guar_def by blast
  with x have "ef_state y \<noteq> EFFECT_PLANNED"
    by (cases "ef_state x") (auto simp: moved_effect_def split: if_splits)
  with x y show ?thesis unfolding begun_def moved_effect_def by auto
qed

lemma bound_guar: "bound b db \<Longrightarrow> source_guar db db' \<Longrightarrow> bound b db'"
  unfolding bound_def source_guar_def by auto

lemma stable_rely:
  assumes "\<And>db db'. P db \<Longrightarrow> source_guar db db' \<Longrightarrow> P db'"
  shows "source_rely db db' \<Longrightarrow> P db \<Longrightarrow> P db'"
  unfolding source_rely_def by (induction rule: rtranclp_induct) (auto dest: assms)

lemma recorded_rely: "source_rely db db' \<Longrightarrow> recorded e db \<Longrightarrow> recorded e db'"
  by (rule stable_rely [where P = "recorded e"]) (rule recorded_guar)

lemma begun_rely: "source_rely db db' \<Longrightarrow> begun e db \<Longrightarrow> begun e db'"
  by (rule stable_rely [where P = "begun e"]) (rule begun_guar)

lemma bound_rely: "source_rely db db' \<Longrightarrow> bound b db \<Longrightarrow> bound b db'"
  by (rule stable_rely [where P = "bound b"]) (rule bound_guar)

lemma begun_recorded: "begun e db \<Longrightarrow> recorded e db"
  unfolding begun_def recorded_def by blast

end
