(* ===== verification/Source_Steps.thy ===== *)
theory Source_Steps
  imports Source_Invariant
begin

section \<open>The source control module: what each statement does to the invariant\<close>

text \<open>
  Every statement of the repository keeps \<open>source_inv\<close> and steps by \<open>source_guar\<close>: first for
  an update of effects in general, then for the compare-and-set of one effect
  (\<open>write_effect\<close>), for the claims of the reconciler and the webhooks, for a new effect and for
  a new binding. A transaction's lemma then composes those of its statements.
\<close>

named_theorems source_intros "contracts of the module's tasks"

lemma source_frame:
  assumes "sd_effects db' = sd_effects db" and "sd_bindings db' = sd_bindings db"
  shows "source_inv db' = source_inv db" and "source_guar db0 db' = source_guar db0 db"
    and "source_guar db' db0 = source_guar db db0"
  using assms by (simp_all add: source_inv_def source_guar_def)

lemma frame_keeps:
  assumes "source_inv db" and "sd_effects db' = sd_effects db" and "sd_bindings db' = sd_bindings db"
  shows "source_inv db' \<and> source_guar db db'"
  using assms(1) source_guar_refl [of db] source_frame [OF assms(2,3)] by simp

lemma source_frame_audit [simp]:
  "source_inv (append_lifecycle_audit tx i c f db) = source_inv db"
  "source_guar db0 (append_lifecycle_audit tx i c f db) = source_guar db0 db"
  "source_inv (audit_repository_change tx i c a b r db) = source_inv db"
  "source_guar db0 (audit_repository_change tx i c a b r db) = source_guar db0 db"
  by (rule source_frame; simp add: audit_repository_change_def)+

lemma same_effect:
  assumes "source_inv db" and "x \<in> set (sd_effects db)" and "y \<in> set (sd_effects db)"
  shows "ef_id x = ef_id y \<Longrightarrow> x = y"
    and "branch_effect x \<Longrightarrow> branch_effect y \<Longrightarrow> ef_work_item x = ef_work_item y \<Longrightarrow> x = y"
proof -
  from assms(1) have "distinct (map ef_id (sd_effects db))"
    and i: "inj_on ef_work_item {e \<in> set (sd_effects db). branch_effect e}"
    unfolding source_inv_def by blast+
  with assms(2,3) show "ef_id x = ef_id y \<Longrightarrow> x = y" by (blast intro: same_key)
  show "branch_effect x \<Longrightarrow> branch_effect y \<Longrightarrow> ef_work_item x = ef_work_item y \<Longrightarrow> x = y"
    using assms(2,3) i by (simp add: inj_on_def)
qed

lemma map_set_where_keys:
  "(\<And>r. r \<in> set rows \<Longrightarrow> p r \<Longrightarrow> key (f r) = key r) \<Longrightarrow> map key (set_where p f rows) = map key rows"
  by (simp add: set_where_def)

lemma identity_fields:
  "identity e' = identity e \<longleftrightarrow> ef_id e' = ef_id e \<and> ef_operation e' = ef_operation e
     \<and> ef_work_item e' = ef_work_item e \<and> coordinates e' = coordinates e"
  by (auto simp: identity_def)

lemma set_effects_inv:
  assumes inv: "source_inv db"
    and f: "\<And>e. e \<in> set (sd_effects db) \<Longrightarrow> p e \<Longrightarrow> effect_ok (f e) \<and> identity (f e) = identity e
      \<and> (ef_state (f e) = EFFECT_SUCCEEDED \<longleftrightarrow> ef_state e = EFFECT_SUCCEEDED)"
  shows "source_inv (db\<lparr>sd_effects := set_where p f (sd_effects db)\<rparr>)"
proof -
  let ?g = "\<lambda>e. if p e then f e else e"
  have g: "identity (?g e) = identity e"
    and s: "ef_state (?g e) = EFFECT_SUCCEEDED \<longleftrightarrow> ef_state e = EFFECT_SUCCEEDED"
    and ok: "effect_ok (?g e)" if "e \<in> set (sd_effects db)" for e
    using f [OF that] inv that by (auto simp: source_inv_def)
  have fields: "ef_id (?g e) = ef_id e" "branch_effect (?g e) = branch_effect e"
    "ef_work_item (?g e) = ef_work_item e" if "e \<in> set (sd_effects db)" for e
    using g [OF that] by (auto simp: identity_fields branch_effect_def)
  have b: "binds b (?g e) = binds b e" if "e \<in> set (sd_effects db)" for b e
    using g [OF that] by (auto simp: identity_fields branch_effect_def binds_def)
  let ?rows = "set_where p f (sd_effects db)"
  have "map ef_id ?rows = map ef_id (sd_effects db)"
    using f by (intro map_set_where_keys) (simp add: identity_fields)
  then have ids: "distinct (map ef_id ?rows)" using inv by (simp add: source_inv_def)
  have items: "inj_on ef_work_item {e \<in> set ?rows. branch_effect e}"
  proof (rule inj_onI)
    fix x y
    assume "x \<in> {e \<in> set ?rows. branch_effect e}" and "y \<in> {e \<in> set ?rows. branch_effect e}"
      and w: "ef_work_item x = ef_work_item y"
    then obtain x' y' where x': "x' \<in> set (sd_effects db)" "x = ?g x'" "branch_effect x"
      and y': "y' \<in> set (sd_effects db)" "y = ?g y'" "branch_effect y"
      unfolding set_set_where by blast
    have "inj_on ef_work_item {e \<in> set (sd_effects db). branch_effect e}"
      using inv by (simp add: source_inv_def)
    moreover have "ef_work_item x' = ef_work_item y'"
      using w fields(3) [OF x'(1)] fields(3) [OF y'(1)] unfolding x'(2) y'(2) by argo
    moreover have "branch_effect x'" "branch_effect y'"
      using x'(3) y'(3) fields(2) [OF x'(1)] fields(2) [OF y'(1)] unfolding x'(2) y'(2) by blast+
    ultimately have "x' = y'" using x'(1) y'(1) by (simp add: inj_on_def)
    with x'(2) y'(2) show "x = y" by simp
  qed
  have oks: "\<forall>e \<in> set ?rows. effect_ok e"
    using ok unfolding set_set_where by blast
  have sound: "\<forall>x \<in> set (sd_bindings db). \<exists>e \<in> set ?rows. binds x e \<and> ef_state e = EFFECT_SUCCEEDED"
  proof
    fix x
    assume x: "x \<in> set (sd_bindings db)"
    with inv obtain e where e: "e \<in> set (sd_effects db)" "binds x e" "ef_state e = EFFECT_SUCCEEDED"
      unfolding source_inv_def by blast
    with b s have "binds x (?g e) \<and> ef_state (?g e) = EFFECT_SUCCEEDED" by blast
    with e(1) show "\<exists>e \<in> set ?rows. binds x e \<and> ef_state e = EFFECT_SUCCEEDED"
      unfolding set_set_where by blast
  qed
  have complete: "\<forall>e \<in> set ?rows. branch_effect e \<and> ef_state e = EFFECT_SUCCEEDED \<longrightarrow>
      ef_id e \<in> bd_effect ` set (sd_bindings db)"
  proof (intro ballI impI)
    fix e
    assume e: "e \<in> set ?rows" "branch_effect e \<and> ef_state e = EFFECT_SUCCEEDED"
    then obtain e' where e': "e' \<in> set (sd_effects db)" "e = ?g e'"
      unfolding set_set_where by blast
    have "branch_effect e'" "ef_state e' = EFFECT_SUCCEEDED" "ef_id e = ef_id e'"
      using e(2) fields [OF e'(1)] s [OF e'(1)] unfolding e'(2) by blast+
    with e'(1) inv show "ef_id e \<in> bd_effect ` set (sd_bindings db)"
      unfolding source_inv_def by metis
  qed
  have "distinct (map bd_effect (sd_bindings db))" "distinct (map bd_work_item (sd_bindings db))"
    using inv unfolding source_inv_def by blast+
  with ids items oks sound complete show ?thesis unfolding source_inv_def by simp
qed

lemma set_effects_guar:
  assumes "\<And>e. e \<in> set (sd_effects db) \<Longrightarrow> p e \<Longrightarrow> moved_effect e (f e)"
  shows "source_guar db (db\<lparr>sd_effects := set_where p f (sd_effects db)\<rparr>)"
proof -
  let ?db = "db\<lparr>sd_effects := set_where p f (sd_effects db)\<rparr>"
  have m: "moved_effect e (if p e then f e else e)" if "e \<in> set (sd_effects db)" for e
    using assms [OF that] moved_refl by simp
  then have "ef_id (if p e then f e else e) = ef_id e" if "e \<in> set (sd_effects db)" for e
    using that unfolding moved_effect_def identity_fields by blast
  then have "ef_id (if p e then f e else e) \<in> ef_id ` set (sd_effects db)"
    if "e \<in> set (sd_effects db)" for e
    using that by (metis (full_types) imageI)
  then have "\<forall>e' \<in> set (sd_effects ?db). ef_id e' \<in> ef_id ` set (sd_effects db)"
    by (auto simp: set_set_where simp del: if_image_distrib split: if_splits)
  moreover have "\<forall>e \<in> set (sd_effects db). \<exists>e' \<in> set (sd_effects ?db). moved_effect e e'"
  proof
    fix e
    assume e: "e \<in> set (sd_effects db)"
    then have "(if p e then f e else e) \<in> set (sd_effects ?db)" by (simp add: set_set_where)
    with m [OF e] show "\<exists>e' \<in> set (sd_effects ?db). moved_effect e e'" ..
  qed
  ultimately show ?thesis unfolding source_guar_def by simp
qed

text \<open>A change of one effect that fits its state.\<close>

definition fits :: "effect_change \<Rightarrow> effect_row \<Rightarrow> bool" where
  "fits c e = (let e' = changed_effect c e in moved_effect e e' \<and> known_reason e'
     \<and> (ef_state e' \<in> {IN_FLIGHT, EFFECT_UNKNOWN, RECONCILIATION} \<longrightarrow> ef_next_reconcile e' \<noteq> None)
     \<and> (ef_state e' = EFFECT_PLANNED \<longrightarrow> ef_attempts e' = 0)
     \<and> (ef_state e' = EFFECT_BLOCKED \<longrightarrow> ef_error e' \<noteq> None))"

lemma write_effect_Inr:
  assumes "write_effect i st att c db = Inr (r, db')"
  shows "(\<forall>e \<in> set (sd_effects db). effect_guard i st att e \<longrightarrow> effect_row_ok (changed_effect c e))
    \<and> r = map_option (changed_effect c) (List.find (effect_guard i st att) (sd_effects db))
    \<and> db' = db\<lparr>sd_effects :=
        set_where (effect_guard i st att) (changed_effect c) (sd_effects db)\<rparr>"
  using assms by (auto simp: write_effect_def Let_def res_simps update_rows_Inr)

lemma write_effect_miss:
  assumes "write_effect i st att c db = Inr (None, db')"
  shows "db' = db"
proof -
  from write_effect_Inr [OF assms] have "\<forall>e \<in> set (sd_effects db). \<not> effect_guard i st att e"
    by (auto simp: find_None_iff)
  then show ?thesis using write_effect_Inr [OF assms] by (simp add: set_where_none)
qed

lemma find_set: "List.find p xs = Some x \<Longrightarrow> x \<in> set xs \<and> p x"
  by (induction xs) (auto split: if_splits)

lemma write_effect_hit:
  assumes "write_effect i st att c db = Inr (Some r, db')"
  obtains e where "e \<in> set (sd_effects db)" "effect_guard i st att e" "r = changed_effect c e"
    "effect_row_ok r"
    "db' = db\<lparr>sd_effects := set_where (effect_guard i st att) (changed_effect c) (sd_effects db)\<rparr>"
proof -
  note w = write_effect_Inr [OF assms]
  then have "\<exists>e. List.find (effect_guard i st att) (sd_effects db) = Some e \<and> r = changed_effect c e"
    by (cases "List.find (effect_guard i st att) (sd_effects db)") simp_all
  then obtain e where e: "List.find (effect_guard i st att) (sd_effects db) = Some e"
    "r = changed_effect c e" by blast
  from find_set [OF e(1)] w e(2) show thesis by (intro that [of e]) auto
qed

lemma write_effect_row:
  assumes "write_effect i st att c db = Inr (Some r, db')"
  shows "r \<in> set (sd_effects db')" and "ef_id r = i"
proof -
  from assms obtain e where e: "e \<in> set (sd_effects db)" "effect_guard i st att e"
    "r = changed_effect c e"
    "db' = db\<lparr>sd_effects := set_where (effect_guard i st att) (changed_effect c) (sd_effects db)\<rparr>"
    by (rule write_effect_hit)
  then show "r \<in> set (sd_effects db')" by (auto simp: set_set_where)
  from e show "ef_id r = i" by (simp add: effect_guard_def changed_effect_def)
qed

lemma write_effect_keeps:
  assumes "write_effect i st att c db = Inr (r, db')" and inv: "source_inv db"
    and fits: "\<And>e. e \<in> set (sd_effects db) \<Longrightarrow> effect_guard i st att e \<Longrightarrow> effect_ok e \<Longrightarrow> fits c e"
    and same: "or_else (ec_state c) st = EFFECT_SUCCEEDED \<longleftrightarrow> st = EFFECT_SUCCEEDED"
  shows "source_inv db' \<and> source_guar db db'"
proof -
  note w = write_effect_Inr [OF assms(1)]
  have ok: "effect_ok e" if "e \<in> set (sd_effects db)" for e
    using that inv by (simp add: source_inv_def)
  have "source_inv db'"
    unfolding conjunct2 [OF conjunct2 [OF w]]
  proof (rule set_effects_inv [OF inv])
    fix e
    assume e: "e \<in> set (sd_effects db)" "effect_guard i st att e"
    have "ef_state e = st" using e(2) by (simp add: effect_guard_def)
    then have "ef_state (changed_effect c e) = or_else (ec_state c) st"
      by (simp add: changed_effect_def)
    with same \<open>ef_state e = st\<close>
    have "ef_state (changed_effect c e) = EFFECT_SUCCEEDED \<longleftrightarrow> ef_state e = EFFECT_SUCCEEDED" by simp
    moreover have "effect_row_ok (changed_effect c e)" using w e by blast
    ultimately show "effect_ok (changed_effect c e) \<and> identity (changed_effect c e) = identity e
        \<and> (ef_state (changed_effect c e) = EFFECT_SUCCEEDED \<longleftrightarrow> ef_state e = EFFECT_SUCCEEDED)"
      using fits [OF e ok [OF e(1)]] unfolding fits_def Let_def effect_ok_def moved_effect_def
      by blast
  qed
  moreover have "source_guar db db'"
    unfolding conjunct2 [OF conjunct2 [OF w]]
    by (rule set_effects_guar) (use fits ok in \<open>auto simp: fits_def Let_def\<close>)
  ultimately show ?thesis by blast
qed

lemma changed_simps [simp]:
  "ef_id (changed_effect c e) = ef_id e" "ef_operation (changed_effect c e) = ef_operation e"
  "ef_work_item (changed_effect c e) = ef_work_item e"
  "coordinates (changed_effect c e) = coordinates e"
  "identity (changed_effect c e) = identity e"
  "branch_effect (changed_effect c e) = branch_effect e"
  "ef_created_at (changed_effect c e) = ef_created_at e"
  by (simp_all add: changed_effect_def coordinates_def identity_def branch_effect_def)

lemma or_else_simps [simp]: "or_else None x = x" "or_else (Some y) x = y"
  by (simp_all add: or_else_def)

lemma known_reason_value [simp]:
  "ef_error e = Some (reason_value r) \<Longrightarrow> known_reason e" "ef_error e = None \<Longrightarrow> known_reason e"
  by (auto simp: known_reason_def) (simp add: stored_reason_def)

lemma fits_callback: "effect_ok e \<Longrightarrow> fits ((no_change now)\<lparr>ec_callback := Some k\<rparr>) e"
  by (auto simp: fits_def Let_def moved_effect_def effect_ok_def changed_effect_def no_change_def
      known_reason_def coordinates_def identity_def)

lemma fits_in_flight:
  "ef_state e = EFFECT_PLANNED \<Longrightarrow> ef_attempts d = ef_attempts e \<Longrightarrow> fits (in_flight_change d now) e"
  if "effect_ok e"
  using that
  by (auto simp: fits_def Let_def moved_effect_def effect_ok_def changed_effect_def no_change_def
      in_flight_change_def known_reason_def coordinates_def identity_def)

lemma fits_unknown:
  "ef_state e = IN_FLIGHT \<or> ef_state e = RECONCILIATION \<Longrightarrow> fits (unknown_change p d now updated) e"
  by (auto simp: fits_def Let_def moved_effect_def changed_effect_def no_change_def
      unknown_change_def coordinates_def identity_def)

lemma fits_blocked:
  assumes "ef_state e = IN_FLIGHT \<or> ef_state e = RECONCILIATION"
  shows "fits (blocked_change reason now) e" "fits (reconciled_block reason now) e"
  using assms
  by (auto simp: fits_def Let_def moved_effect_def changed_effect_def no_change_def
      blocked_change_def reconciled_block_def coordinates_def identity_def)

subsection \<open>Claims and webhooks\<close>

lemma reconciling_moved:
  "reconcile_due now e \<Longrightarrow> moved_effect e (reconciling_effect now t e)"
  by (auto simp: reconcile_due_def moved_effect_def reconciling_effect_def identity_def
      coordinates_def)

lemma reconciling_ok:
  "effect_ok e \<Longrightarrow> effect_row_ok (reconciling_effect now t e) \<Longrightarrow> effect_ok (reconciling_effect now t e)"
  by (simp add: effect_ok_def known_reason_def) (simp add: reconciling_effect_def)

lemma claim_unknown_effects_keeps:
  assumes "claim_unknown_effects limit now t db = Inr (rows, db')" and inv: "source_inv db"
  shows "source_inv db' \<and> source_guar db db'"
    and "\<And>r. r \<in> set rows \<Longrightarrow> r \<in> set (sd_effects db') \<and> ef_state r = RECONCILIATION"
proof -
  let ?cs = "take limit (sort_key reconcile_order (filter (reconcile_due now) (sd_effects db)))"
  let ?p = "\<lambda>e. ef_id e \<in> ef_id ` set ?cs"
  let ?f = "reconciling_effect now t"
  from assms(1) have ok: "\<And>e. e \<in> set (sd_effects db) \<Longrightarrow> ?p e \<Longrightarrow> effect_row_ok (?f e)"
    and rows: "rows = map ?f ?cs"
    and db': "db' = db\<lparr>sd_effects := set_where ?p ?f (sd_effects db)\<rparr>"
    by (auto simp: claim_unknown_effects_def Let_def res_simps update_rows_Inr)
  have sub: "e \<in> set (sd_effects db) \<and> reconcile_due now e" if "e \<in> set ?cs" for e
    using in_set_takeD [OF that] by simp
  have due: "reconcile_due now e" if "e \<in> set (sd_effects db)" "?p e" for e
  proof -
    from that(2) obtain x where "x \<in> set ?cs" "ef_id e = ef_id x" by blast
    with sub [of x] that(1) same_effect(1) [OF inv] have "e = x" by blast
    with sub \<open>x \<in> set ?cs\<close> show ?thesis by blast
  qed
  have "source_inv db'" unfolding db'
  proof (rule set_effects_inv [OF inv])
    fix e
    assume e: "e \<in> set (sd_effects db)" "?p e"
    from reconciling_moved [OF due [OF e]] have "identity (?f e) = identity e"
      unfolding moved_effect_def by blast
    moreover have "effect_ok (?f e)"
      using reconciling_ok ok [OF e] inv e(1) unfolding source_inv_def by blast
    moreover have "ef_state e \<noteq> EFFECT_SUCCEEDED" using due [OF e] by (auto simp: reconcile_due_def)
    ultimately show "effect_ok (?f e) \<and> identity (?f e) = identity e
        \<and> (ef_state (?f e) = EFFECT_SUCCEEDED \<longleftrightarrow> ef_state e = EFFECT_SUCCEEDED)"
      by (simp add: reconciling_effect_def)
  qed
  moreover have "source_guar db db'" unfolding db'
    by (rule set_effects_guar) (rule reconciling_moved [OF due])
  ultimately show "source_inv db' \<and> source_guar db db'" by blast
  fix r
  assume "r \<in> set rows"
  with rows obtain e where e: "e \<in> set ?cs" "r = ?f e" by auto
  with sub [of e] show "r \<in> set (sd_effects db') \<and> ef_state r = RECONCILIATION"
    unfolding db' by (force simp: set_set_where reconciling_effect_def)
qed

lemma make_due_keeps:
  assumes "make_due p now db = Inr (n, db')" and inv: "source_inv db"
    and p: "\<And>e. p e \<Longrightarrow> ef_state e = EFFECT_UNKNOWN"
  shows "source_inv db' \<and> source_guar db db'"
proof -
  from assms(1) have ok: "\<And>e. e \<in> set (sd_effects db) \<Longrightarrow> p e \<Longrightarrow> effect_row_ok (due_effect now e)"
    and db': "db' = db\<lparr>sd_effects := set_where p (due_effect now) (sd_effects db)\<rparr>"
    by (auto simp: make_due_def res_simps update_rows_Inr)
  have id: "identity (due_effect now e) = identity e" for e
    by (simp add: identity_def coordinates_def due_effect_def)
  have "source_inv db'" unfolding db'
  proof (rule set_effects_inv [OF inv])
    fix e
    assume e: "e \<in> set (sd_effects db)" "p e"
    then have "effect_ok e" using inv by (simp add: source_inv_def)
    with ok [OF e] p [OF e(2)] have "effect_ok (due_effect now e)"
      by (simp add: effect_ok_def known_reason_def) (simp add: due_effect_def)
    with id show "effect_ok (due_effect now e) \<and> identity (due_effect now e) = identity e
        \<and> (ef_state (due_effect now e) = EFFECT_SUCCEEDED \<longleftrightarrow> ef_state e = EFFECT_SUCCEEDED)"
      by (simp add: due_effect_def)
  qed
  moreover have "source_guar db db'" unfolding db'
    by (rule set_effects_guar) (simp add: moved_effect_def id, simp add: due_effect_def)
  ultimately show ?thesis by blast
qed

subsection \<open>New effects and bindings\<close>

lemma insert_effect_keeps:
  assumes "insert_effect e db = Inr (r, db')" and inv: "source_inv db"
    and e: "branch_effect e" "ef_state e = EFFECT_PLANNED" "ef_attempts e = 0" "ef_error e = None"
  shows "source_inv db' \<and> source_guar db db'" and "r = e" and "r \<in> set (sd_effects db')"
    and "effect_ok r"
proof -
  from assms(1) have row: "effect_row_ok e"
    and fresh: "\<And>x. x \<in> set (sd_effects db) \<Longrightarrow> \<not> effect_clash e x"
    and db': "db' = db\<lparr>sd_effects := sd_effects db @ [e]\<rparr>" and r: "r = e"
    by (auto simp: insert_effect_def res_simps add_row_Inr)
  from row e have ok: "effect_ok e" by (simp add: effect_ok_def)
  have subject: "ef_subject x = ''work-item:'' @ ef_work_item x"
    if "branch_effect x" "effect_row_ok x" for x
    using that by (simp add: effect_row_ok_def effect_shape_row_ok_def branch_effect_def)
  have item: "ef_work_item x \<noteq> ef_work_item e" if x: "x \<in> set (sd_effects db)" "branch_effect x" for x
  proof
    assume "ef_work_item x = ef_work_item e"
    moreover have "effect_row_ok x" using inv x(1) by (auto simp: source_inv_def effect_ok_def)
    ultimately have "ef_subject x = ef_subject e" using subject x(2) e(1) row by simp
    with fresh [OF x(1)] x(2) e(1) show False by (simp add: effect_clash_def branch_effect_def)
  qed
  have new: "ef_id e \<notin> ef_id ` set (sd_effects db)"
  proof
    assume "ef_id e \<in> ef_id ` set (sd_effects db)"
    then obtain x where "x \<in> set (sd_effects db)" "ef_id x = ef_id e" by auto
    with fresh [of x] show False by (simp add: effect_clash_def)
  qed
  moreover have "inj_on ef_work_item {x \<in> set (sd_effects db @ [e]). branch_effect x}"
  proof (rule inj_onI)
    fix x y
    assume xy: "x \<in> {x \<in> set (sd_effects db @ [e]). branch_effect x}"
      "y \<in> {x \<in> set (sd_effects db @ [e]). branch_effect x}" "ef_work_item x = ef_work_item y"
    then have "x = e \<or> x \<in> set (sd_effects db) \<and> ef_work_item x \<noteq> ef_work_item e"
      and "y = e \<or> y \<in> set (sd_effects db) \<and> ef_work_item y \<noteq> ef_work_item e"
      using item by auto
    with xy same_effect(2) [OF inv, of x y] show "x = y" by auto
  qed
  moreover have "distinct (map ef_id (sd_effects db))"
    and bindings: "distinct (map bd_effect (sd_bindings db))" "distinct (map bd_work_item (sd_bindings db))"
    and oks: "\<forall>x \<in> set (sd_effects db). effect_ok x"
    and sound: "\<forall>b \<in> set (sd_bindings db). \<exists>x \<in> set (sd_effects db).
        binds b x \<and> ef_state x = EFFECT_SUCCEEDED"
    and complete: "\<forall>x \<in> set (sd_effects db). branch_effect x \<and> ef_state x = EFFECT_SUCCEEDED \<longrightarrow>
        ef_id x \<in> bd_effect ` set (sd_bindings db)"
    using inv unfolding source_inv_def by blast+
  moreover have "\<forall>b \<in> set (sd_bindings db'). \<exists>x \<in> set (sd_effects db').
        binds b x \<and> ef_state x = EFFECT_SUCCEEDED"
    using sound unfolding db' by auto
  ultimately have "source_inv db'"
    using ok e(2) unfolding source_inv_def db' by auto
  moreover have "source_guar db db'"
    using e(2) moved_refl unfolding source_guar_def db' by auto
  ultimately show "source_inv db' \<and> source_guar db db'" by blast
  show "r = e" "r \<in> set (sd_effects db')" "effect_ok r" using r ok unfolding db' by simp_all
qed

text \<open>The two rows of a success: the effect closes and its binding appears in one transaction.\<close>

lemma succeed_keeps:
  assumes w: "write_effect i st (Some n) c db = Inr (Some row, db1)" and inv: "source_inv db"
    and st: "st = IN_FLIGHT \<or> st = RECONCILIATION"
    and fits: "\<And>e. ef_state e = st \<Longrightarrow> effect_ok e \<Longrightarrow> fits c e"
    and target: "ec_state c = Some EFFECT_SUCCEEDED"
    and b: "insert_branch_binding b db1 = Inr (b', db2)"
    and binds: "binds b row"
  shows "source_inv db2 \<and> source_guar db db2" and "b' = b" and "b \<in> set (sd_bindings db2)"
proof -
  obtain e where e: "e \<in> set (sd_effects db)" "effect_guard i st (Some n) e"
      "row = changed_effect c e" "effect_row_ok row"
    and db1: "db1 = db\<lparr>sd_effects :=
        set_where (effect_guard i st (Some n)) (changed_effect c) (sd_effects db)\<rparr>"
    using w by (rule write_effect_hit)
  have guard: "x = e" if "x \<in> set (sd_effects db)" "effect_guard i st (Some n) x" for x
    using that e(2) same_effect(1) [OF inv that(1) e(1)] by (simp add: effect_guard_def)
  from b have fresh: "\<And>x. x \<in> set (sd_bindings db) \<Longrightarrow> \<not> binding_clash b x"
    and db2: "db2 = db1\<lparr>sd_bindings := sd_bindings db @ [b]\<rparr>" and b': "b' = b"
    by (auto simp: insert_branch_binding_def res_simps add_row_Inr db1)
  have state: "ef_state e = st" "ef_state row = EFFECT_SUCCEEDED"
    using e(2,3) target by (auto simp: effect_guard_def changed_effect_def)
  have oke: "effect_ok e" using inv e(1) by (simp add: source_inv_def)
  have ok: "effect_ok row"
    using fits [OF state(1) oke] e(3,4) unfolding fits_def effect_ok_def Let_def by blast
  have row: "identity row = identity e" using e(3) by simp
  have mem: "set (sd_effects db2) = (\<lambda>x. if x = e then row else x) ` set (sd_effects db)"
  proof -
    have "effect_guard i st (Some n) x \<longleftrightarrow> x = e" if "x \<in> set (sd_effects db)" for x
      using guard that e(2) by blast
    then have "(\<lambda>x. if effect_guard i st (Some n) x then changed_effect c x else x) ` set (sd_effects db)
      = (\<lambda>x. if x = e then row else x) ` set (sd_effects db)"
      unfolding e(3) by (intro image_cong) simp_all
    moreover have "sd_effects db2 =
        set_where (effect_guard i st (Some n)) (changed_effect c) (sd_effects db)"
      by (simp add: db2 db1)
    ultimately show ?thesis by (simp only: set_set_where)
  qed
  have keys: "map key (sd_effects db2) = map key (sd_effects db)"
    if "\<And>x y. identity x = identity y \<Longrightarrow> key x = key y" for key :: "effect_row \<Rightarrow> string"
    unfolding db2 db1 by (simp, rule map_set_where_keys) (rule that, simp)
  have "inj_on ef_work_item {x \<in> set (sd_effects db2). branch_effect x}"
  proof (rule inj_onI)
    fix x y
    assume "x \<in> {x \<in> set (sd_effects db2). branch_effect x}"
      and "y \<in> {x \<in> set (sd_effects db2). branch_effect x}" and w: "ef_work_item x = ef_work_item y"
    then obtain x' y' where x': "x' \<in> set (sd_effects db)" "x = (if x' = e then row else x')"
        "branch_effect x" and y': "y' \<in> set (sd_effects db)" "y = (if y' = e then row else y')"
        "branch_effect y"
      unfolding mem by blast
    have "ef_work_item x' = ef_work_item x" "branch_effect x' = branch_effect x"
      "ef_work_item y' = ef_work_item y" "branch_effect y' = branch_effect y"
      using x'(2) y'(2) row by (auto simp: identity_fields branch_effect_def)
    with w x'(1,3) y'(1,3) same_effect(2) [OF inv] have "x' = y'" by metis
    with x'(2) y'(2) show "x = y" by simp
  qed
  moreover have "distinct (map ef_id (sd_effects db2))"
    using keys [of ef_id] inv by (simp add: source_inv_def identity_fields)
  moreover have "\<forall>x \<in> set (sd_effects db2). effect_ok x"
    using inv ok unfolding mem source_inv_def by auto
  moreover have "distinct (map bd_effect (sd_bindings db2))"
    "distinct (map bd_work_item (sd_bindings db2))"
  proof -
    have "bd_effect b \<notin> bd_effect ` set (sd_bindings db)"
      "bd_work_item b \<notin> bd_work_item ` set (sd_bindings db)"
      by (auto dest!: fresh simp: binding_clash_def)
    moreover have "distinct (map bd_effect (sd_bindings db))"
      "distinct (map bd_work_item (sd_bindings db))"
      using inv unfolding source_inv_def by blast+
    ultimately show "distinct (map bd_effect (sd_bindings db2))"
      "distinct (map bd_work_item (sd_bindings db2))"
      unfolding db2 by simp_all
  qed
  moreover have "\<forall>x \<in> set (sd_bindings db2). \<exists>y \<in> set (sd_effects db2).
      binds x y \<and> ef_state y = EFFECT_SUCCEEDED"
  proof
    fix x
    assume "x \<in> set (sd_bindings db2)"
    then consider "x = b" | "x \<in> set (sd_bindings db)" unfolding db2 by auto
    then show "\<exists>y \<in> set (sd_effects db2). binds x y \<and> ef_state y = EFFECT_SUCCEEDED"
    proof cases
      case 1
      moreover have "row \<in> set (sd_effects db2)" using e(1) unfolding mem by force
      ultimately show ?thesis using binds state(2) by blast
    next
      case 2
      with inv obtain y where y: "y \<in> set (sd_effects db)" "binds x y" "ef_state y = EFFECT_SUCCEEDED"
        unfolding source_inv_def by blast
      with state(1) st have "y \<noteq> e" by auto
      with y(1) have "y \<in> set (sd_effects db2)" unfolding mem by force
      with y show ?thesis by blast
    qed
  qed
  moreover have "\<forall>x \<in> set (sd_effects db2). branch_effect x \<and> ef_state x = EFFECT_SUCCEEDED \<longrightarrow>
      ef_id x \<in> bd_effect ` set (sd_bindings db2)"
  proof (intro ballI impI)
    fix x
    assume x: "x \<in> set (sd_effects db2)" "branch_effect x \<and> ef_state x = EFFECT_SUCCEEDED"
    then consider "x = row" | "x \<in> set (sd_effects db)" unfolding mem by (auto split: if_splits)
    then show "ef_id x \<in> bd_effect ` set (sd_bindings db2)"
    proof cases
      case 1
      with binds show ?thesis unfolding db2 binds_def by auto
    next
      case 2
      with x(2) inv show ?thesis unfolding db2 source_inv_def by auto
    qed
  qed
  ultimately have "source_inv db2" unfolding source_inv_def by blast
  moreover have "source_guar db db2"
  proof -
    have "moved_effect x (if x = e then row else x)" for x
      using fits [OF state(1) oke] e(3) moved_refl by (simp add: fits_def Let_def)
    then have "\<forall>x \<in> set (sd_effects db). \<exists>x' \<in> set (sd_effects db2). moved_effect x x'"
      unfolding mem by blast
    moreover have "\<forall>x' \<in> set (sd_effects db2). ef_id x' \<in> ef_id ` set (sd_effects db)"
      using e(1) row unfolding mem by (auto simp: identity_fields)
    ultimately show ?thesis unfolding source_guar_def db2 by (simp add: db1)
  qed
  ultimately show "source_inv db2 \<and> source_guar db db2" by blast
  show "b' = b" "b \<in> set (sd_bindings db2)" using b' unfolding db2 by simp_all
qed

lemma fits_succeeded:
  assumes "ef_state e = IN_FLIGHT \<or> ef_state e = RECONCILIATION"
  shows "effect_ok e \<Longrightarrow> fits (succeeded_change now) e" "fits (reconciled_success now) e"
  using assms
  by (auto simp: fits_def Let_def moved_effect_def changed_effect_def no_change_def effect_ok_def
      succeeded_change_def reconciled_success_def coordinates_def identity_def known_reason_def
      stored_reason_def)

text \<open>A work item with a binding has no open effect.\<close>

lemma bound_effect_done:
  assumes "source_inv db" and "binding_by_work_item w db = Some b"
    and "e \<in> set (sd_effects db)" and "branch_effect e" and "ef_work_item e = w"
  shows "ef_state e = EFFECT_SUCCEEDED"
proof -
  from row_by_Some [OF assms(2) [unfolded binding_by_work_item_def]]
  have "b \<in> set (sd_bindings db)" "bd_work_item b = w" by blast+
  with assms(1) obtain x where x: "x \<in> set (sd_effects db)" "binds b x" "ef_state x = EFFECT_SUCCEEDED"
    unfolding source_inv_def by blast
  with assms(3-5) \<open>bd_work_item b = w\<close> have "x = e"
    using same_effect(2) [OF assms(1)] unfolding binds_def by metis
  with x(3) show ?thesis by simp
qed

lemma change_states [simp]:
  "ec_state (blocked_change r now) = Some EFFECT_BLOCKED"
  "ec_state (reconciled_block r now) = Some EFFECT_BLOCKED"
  "ec_state (unknown_change p e now updated) = Some EFFECT_UNKNOWN"
  "ec_state (succeeded_change now) = Some EFFECT_SUCCEEDED"
  "ec_state (reconciled_success now) = Some EFFECT_SUCCEEDED"
  "ec_state (in_flight_change e now) = Some IN_FLIGHT"
  by (simp_all add: blocked_change_def reconciled_block_def unknown_change_def succeeded_change_def
      reconciled_success_def in_flight_change_def)

end
