(* ===== verification/Source_Tasks.thy ===== *)
theory Source_Tasks
  imports Source_Steps
begin

section \<open>The source control module: the contract of each task\<close>

text \<open>
  Every task of the saga and the reconciler keeps the contract of \<open>source\<close>, the module's
  interpretation of the rely/guarantee interface, whatever other workers do between its
  transactions. \<open>gives P s w\<close>: from \<open>s\<close> on the task \<open>w\<close> keeps the invariant and the guarantee,
  makes only allowed calls, and if it returns \<open>x\<close> then \<open>P x\<close> holds of the database from then on.
\<close>

definition gives ::
  "('x \<Rightarrow> source_db \<Rightarrow> bool) \<Rightarrow> source_db \<Rightarrow> 'x source_task \<Rightarrow> bool" where
  "gives P s w = sat source_inv source_rely source_guar source_asks
     (\<lambda>s' r. \<forall>x. r = Inr x \<longrightarrow> P x s') s w"

abbreviation runs :: "source_db \<Rightarrow> 'x source_task \<Rightarrow> bool" where
  "runs s w \<equiv> gives (\<lambda>_ _. True) s w"

subsection \<open>Rules\<close>

lemma gives_wbind:
  assumes "gives M s w" and "source_inv s"
    and "\<And>s' x. source_rely s s' \<Longrightarrow> source_inv s' \<Longrightarrow> M x s' \<Longrightarrow> gives P s' (f x)"
  shows "gives P s (wbind w f)"
  unfolding gives_def by (rule source.sat_wbind [OF assms(1) [unfolded gives_def] assms(2)]) (use assms(3) in \<open>auto simp: gives_def\<close>)

lemma gives_attempt:
  assumes "gives M s w" and "source_inv s"
    and "\<And>s' x. source_rely s s' \<Longrightarrow> source_inv s' \<Longrightarrow> M x s' \<Longrightarrow> gives P s' (good x)"
    and "\<And>s' e. source_rely s s' \<Longrightarrow> source_inv s' \<Longrightarrow> gives P s' (bad e)"
  shows "gives P s (attempt w bad good)"
  unfolding gives_def by (rule source.sat_attempt [OF assms(1) [unfolded gives_def] assms(2)]) (use assms(3,4) in \<open>auto simp: gives_def\<close>)

lemma gives_give:
  "(\<And>s'. source_rely s s' \<Longrightarrow> source_inv s' \<Longrightarrow> P x s') \<Longrightarrow> gives P s (give x)"
  unfolding gives_def by (rule source.sat_give) simp

lemma gives_throw: "gives P s (throw e)"
  unfolding gives_def by (rule source.sat_throw) simp

lemma gives_Done:
  "(\<And>x s'. m = Inr x \<Longrightarrow> source_rely s s' \<Longrightarrow> source_inv s' \<Longrightarrow> P x s') \<Longrightarrow> gives P s (Done m)"
  unfolding gives_def by (rule sat_Done) simp

lemma gives_value:
  "(\<And>x. m = Inr x \<Longrightarrow> gives P s (f x)) \<Longrightarrow> gives P s (wbind (Done m) f)"
  by (cases m) (simp_all add: wbind_def gives_throw [unfolded throw_def])

lemma gives_transact:
  assumes "\<And>t s1 x s2. source_rely s s1 \<Longrightarrow> source_inv s1 \<Longrightarrow> body t s1 = Inr (x, s2) \<Longrightarrow>
      (source_inv s2 \<and> source_guar s1 s2) \<and>
      (\<forall>s3. source_rely s2 s3 \<longrightarrow> source_inv s3 \<longrightarrow> P x s3)"
  shows "gives P s (transact body)"
  unfolding gives_def by (rule source.sat_transact) (use assms in auto)

lemma runs_transact:
  assumes "\<And>t s1 x s2. source_inv s1 \<Longrightarrow> body t s1 = Inr (x, s2) \<Longrightarrow>
      source_inv s2 \<and> source_guar s1 s2"
  shows "runs s (transact body)"
  by (rule gives_transact) (use assms in auto)

lemma gives_observe:
  assumes "\<And>t s1 s2 x. source_rely s s1 \<Longrightarrow> source_inv s1 \<Longrightarrow> source_rely s1 s2 \<Longrightarrow>
      source_inv s2 \<Longrightarrow> f t s1 = Inr x \<Longrightarrow> P x s2"
  shows "gives P s (observe f)"
  unfolding gives_def by (rule source.sat_observe) (use assms in auto)

lemma runs_observe: "runs s (observe f)"
  by (rule gives_observe) simp

lemma gives_call:
  assumes "\<And>s1. source_rely s s1 \<Longrightarrow> source_inv s1 \<Longrightarrow> source_asks s1 q"
    and "\<And>a x s1. decode a = Inr x \<Longrightarrow> P x s1"
  shows "gives P s (call q decode)"
  unfolding gives_def by (rule source.sat_call) (use assms in auto)

lemma gives_weaken: "gives M s w \<Longrightarrow> (\<And>s' x. source_inv s' \<Longrightarrow> M x s' \<Longrightarrow> P x s') \<Longrightarrow> gives P s w"
  unfolding gives_def by (erule source.sat_weaken) simp

lemma runs_each:
  assumes "\<And>s' x. source_rely s s' \<Longrightarrow> source_inv s' \<Longrightarrow> x \<in> set xs \<Longrightarrow> runs s' (f x)" and "source_inv s"
  shows "runs s (each_task f xs)"
  using source.sat_each [OF _ assms(2), of xs f] assms(1) by (simp add: gives_def)

subsection \<open>The ports\<close>

lemma get_branch_runs: "runs s (get_branch d p name)"
  unfolding get_branch_def
  by (auto split: sum.split intro!: gives_throw gives_call simp: source_asks_def)

lemma validate_repository_runs: "runs s (validate_repository d p)"
  unfolding validate_repository_def
  by (auto split: sum.split intro!: gives_throw gives_call simp: source_asks_def)

lemma binding_context_runs: "runs s (get_binding_context w)"
  unfolding get_binding_context_def by (rule gives_call) (simp_all add: source_asks_def)

lemma evaluate_actor_runs: "runs s (evaluate_actor x)"
  unfolding evaluate_actor_def by (rule gives_call) (simp_all add: source_asks_def)

lemma record_blocked_runs: "runs s (record_blocked r)"
  unfolding record_blocked_def by (rule gives_call) (simp_all add: source_asks_def)

lemma record_ready_runs:
  assumes "bound b s"
  shows "runs s (record_ready (ready_of i b c))"
  unfolding record_ready_def
proof (rule gives_call)
  fix s1
  assume "source_rely s s1"
  then have "bound b s1" using bound_rely assms by blast
  then show "source_asks s1 (RecordReady (ready_of i b c))"
    by (auto simp: source_asks_def ready_of_def)
qed simp

text \<open>The coordinates a worker took from a validated effect are those of the stored row.\<close>

lemma begun_coordinates:
  assumes "begun e s" and "branch_effect_coordinates e = Inr (n, b, c)"
    and "map_option strip (ef_branch e) = ef_branch e" and "map_option strip (ef_base e) = ef_base e"
  shows "\<exists>x \<in> set (sd_effects s). branch_effect x \<and> ef_state x \<noteq> EFFECT_PLANNED
    \<and> map_option strip (ef_branch x) = Some b \<and> map_option strip (ef_base x) = Some c"
proof -
  from assms(1) obtain x where x: "x \<in> set (sd_effects s)" "identity x = identity e"
    "ef_state x \<noteq> EFFECT_PLANNED" unfolding begun_def by blast
  from assms(2) have "branch_effect e" "ef_branch e = Some b" "ef_base e = Some c"
    by (auto simp: branch_effect_coordinates_def branch_effect_def
        split: effect_operation.splits option.splits)
  with x(2) assms(3,4) have "branch_effect x" "map_option strip (ef_branch x) = Some b"
    "map_option strip (ef_base x) = Some c"
    by (simp_all add: identity_fields coordinates_def branch_effect_def)
  with x(1,3) show ?thesis by blast
qed

text \<open>An effect as a worker holds it: read, validated, and begun.\<close>

definition working :: "effect_row \<Rightarrow> source_db \<Rightarrow> bool" where
  "working e s = (begun e s \<and> map_option strip (ef_branch e) = ef_branch e
     \<and> map_option strip (ef_base e) = ef_base e)"

lemma working_rely: "source_rely s s' \<Longrightarrow> working e s \<Longrightarrow> working e s'"
  unfolding working_def using begun_rely by blast

lemma working_dto: "effect_dto row = Inr e \<Longrightarrow> begun row s \<Longrightarrow> working e s"
  using begun_dto [of row e s] effect_dto_Inr [of row e]
  by (simp add: working_def stripped_effect_def option.map_comp comp_def)

lemma create_branch_runs:
  assumes "working e s" and "branch_effect_coordinates e = Inr (n, b, c)"
  shows "runs s (create_branch d p b c)"
proof -
  have "source_asks s1 (HttpPostBranch path b c token)" if "source_rely s s1" for s1 path token
    using begun_coordinates [of e s1 n b c] working_rely [OF that assms(1)] assms(2)
    unfolding working_def source_asks_def by auto
  then show ?thesis unfolding create_branch_def
    by (auto split: sum.split intro!: gives_throw gives_call)
qed

lemma verify_branch_gives: "source_inv s \<Longrightarrow> gives (\<lambda>x _. bs_commit x = c) s (verify_branch d p b c)"
  unfolding verify_branch_def
  by (rule gives_attempt [OF get_branch_runs]) (auto intro!: gives_throw gives_give)

lemma create_and_verify_gives:
  assumes "working e s" and "branch_effect_coordinates e = Inr (n, b, c)" and "source_inv s"
  shows "gives (\<lambda>x _. bs_commit x = c) s (create_and_verify_branch d p b c)"
  unfolding create_and_verify_branch_def
  by (rule gives_attempt [OF create_branch_runs [OF assms(1,2)] assms(3)])
    (auto intro!: gives_throw verify_branch_gives)

subsection \<open>Callbacks\<close>

lemma complete_binding_request_frame:
  "complete_binding_request m now db = Inr db' \<Longrightarrow>
   sd_effects db' = sd_effects db \<and> sd_bindings db' = sd_bindings db"
  by (auto simp: complete_binding_request_def res_simps)

lemma complete_binding_request_keeps:
  assumes "complete_binding_request m now db = Inr db'" and "source_inv db"
  shows "source_inv db' \<and> source_guar db db'"
  using frame_keeps [OF assms(2)] complete_binding_request_frame [OF assms(1)] by simp

lemma set_callback_runs:
  assumes "source_inv s"
  shows "runs s (set_callback_state i st k)"
  unfolding set_callback_state_def
proof (rule gives_wbind [OF runs_transact assms])
  fix t s1 x s2
  assume inv: "source_inv s1" and "write_callback_state i st k t s1 = Inr (x, s2)"
  then obtain s3 where w: "write_effect i st None
      ((no_change (st_clock t 0))\<lparr>ec_callback := Some k\<rparr>) s1 = Inr (x, s3)"
    and s2: "s2 = (if x = None then s3 else append_lifecycle_audit t 0 1 (callback_fact i k) s3)"
    unfolding write_callback_state_def by (auto elim!: rbind_pairE)
  have "source_inv s3 \<and> source_guar s1 s3"
    by (rule write_effect_keeps [OF w inv]) (erule fits_callback, simp add: no_change_def)
  with s2 show "source_inv s2 \<and> source_guar s1 s2" by simp
qed (rule gives_Done, simp)

lemma acked_or_failed_gives:
  assumes "runs s w" and "source_inv s"
    and "\<And>s' k. source_rely s s' \<Longrightarrow> source_inv s' \<Longrightarrow> gives P s' (f k)"
  shows "gives P s (acked_or_failed w f)"
  unfolding acked_or_failed_def
  by (rule gives_attempt [OF assms(1,2)]) (auto intro!: assms(3) gives_throw)

lemma tell_blocked_runs: "runs s (tell_blocked d c r k x)"
  unfolding tell_blocked_def by (auto intro!: gives_throw record_blocked_runs)

lemma record_preflight_block_keeps:
  assumes "record_preflight_block c m r t s1 = Inr (x, s2)" and "source_inv s1"
  shows "source_inv s2 \<and> source_guar s1 s2"
proof -
  from assms(1) obtain s3 where "complete_binding_request m (st_clock t 0) s1 = Inr s3"
    and s2: "\<exists>f. s2 = append_lifecycle_audit t 0 1 f s3"
    unfolding record_preflight_block_def by (elim rbind_InrE) blast
  from complete_binding_request_keeps [OF this(1) assms(2)] s2 show ?thesis by auto
qed

lemma complete_preflight_block_runs:
  "source_inv s \<Longrightarrow> runs s (complete_preflight_block d c m r)"
  unfolding complete_preflight_block_def
  by (intro gives_wbind [OF tell_blocked_runs] gives_wbind [OF runs_transact] gives_give)
    (auto dest: record_preflight_block_keeps)

subsection \<open>Closing an effect\<close>

text \<open>A compare-and-set of the effect and further statements that touch neither effects nor bindings.\<close>

lemma close_keeps:
  assumes "write_effect i st att c s1 = Inr (row, s2)" and "source_inv s1"
    and "\<And>x. ef_state x = st \<Longrightarrow> effect_ok x \<Longrightarrow> fits c x"
    and "or_else (ec_state c) st = EFFECT_SUCCEEDED \<longleftrightarrow> st = EFFECT_SUCCEEDED"
    and "sd_effects s3 = sd_effects s2" and "sd_bindings s3 = sd_bindings s2"
  shows "source_inv s3 \<and> source_guar s1 s3"
proof -
  have "source_inv s2 \<and> source_guar s1 s2"
    by (rule write_effect_keeps [OF assms(1,2)]) (use assms(3,4) in \<open>auto simp: effect_guard_def\<close>)
  with source_frame [OF assms(5,6)] show ?thesis by simp
qed

definition framed :: "(source_tx \<Rightarrow> effect_row \<Rightarrow> source_db \<Rightarrow> (source_error, 'x \<times> source_db) res) \<Rightarrow> bool" where
  "framed facts \<longleftrightarrow> (\<forall>tx row db x db'. facts tx row db = Inr (x, db') \<longrightarrow>
     sd_effects db' = sd_effects db \<and> sd_bindings db' = sd_bindings db)"

lemma framed_facts: "framed (blocked_facts e m r)" "framed (unknown_facts e m)"
  "framed (reconciled_fact a e q r)"
  by (auto simp: framed_def blocked_facts_def unknown_facts_def reconciled_fact_def
      elim!: rbind_InrE dest!: complete_binding_request_frame)

lemma close_effect_Inr:
  assumes "close_effect st e change found facts t s1 = Inr (x, s2)"
  obtains (moved) y where "write_effect (ef_id e) st (Some (ef_attempts e)) (change t) s1 = Inr (None, s2)"
      and "x = Inl y"
    | (closed) row s3 y where
      "write_effect (ef_id e) st (Some (ef_attempts e)) (change t) s1 = Inr (Some row, s3)"
      and "facts t row s3 = Inr (y, s2)" and "x = Inr y"
proof -
  from assms obtain row s3 where w:
      "write_effect (ef_id e) st (Some (ef_attempts e)) (change t) s1 = Inr (row, s3)"
    and f: "(case row of
          None \<Rightarrow> rbind (found s3) (\<lambda>r. Inr (Inl r, s3))
        | Some e \<Rightarrow> rbind (facts t e s3) (\<lambda>(x, db2). Inr (Inr x, db2))) = Inr (x, s2)"
    unfolding close_effect_def by (elim rbind_pairE)
  show thesis
  proof (cases row)
    case None
    with f obtain y where "x = Inl y" "s3 = s2" by (auto elim!: rbind_InrE)
    with w None moved show ?thesis by simp
  next
    case (Some r)
    with f obtain y where "facts t r s3 = Inr (y, s2)" "x = Inr y" by (auto elim!: rbind_pairE)
    with w Some closed show ?thesis by simp
  qed
qed

lemma close_effect_runs:
  assumes "\<And>tx x. ef_state x = st \<Longrightarrow> effect_ok x \<Longrightarrow> fits (change tx) x"
    and "\<And>tx. ec_state (change tx) \<noteq> Some EFFECT_SUCCEEDED" and "st \<noteq> EFFECT_SUCCEEDED" and "framed facts"
  shows "runs s (transact (close_effect st e change found facts))"
proof (rule runs_transact)
  fix t s1 x s2
  assume inv: "source_inv s1" and "close_effect st e change found facts t s1 = Inr (x, s2)"
  moreover have "or_else (ec_state (change t)) st \<noteq> EFFECT_SUCCEEDED"
    using assms(2) [of t] assms(3) by (cases "ec_state (change t)") auto
  note keeps = close_keeps [OF _ inv assms(1)]
  from calculation(2) show "source_inv s2 \<and> source_guar s1 s2"
  proof (cases rule: close_effect_Inr)
    case (moved y)
    with keeps [OF moved(1)] \<open>or_else (ec_state (change t)) st \<noteq> EFFECT_SUCCEEDED\<close> assms(3)
    show ?thesis by simp
  next
    case (closed row s3 y)
    from closed(2) assms(4) have "sd_effects s2 = sd_effects s3" "sd_bindings s2 = sd_bindings s3"
      unfolding framed_def by blast+
    with keeps [OF closed(1)] \<open>or_else (ec_state (change t)) st \<noteq> EFFECT_SUCCEEDED\<close> assms(3)
    show ?thesis by simp
  qed
qed

lemma binding_stays: "source_rely s s' \<Longrightarrow> b \<in> set (sd_bindings s) \<Longrightarrow> b \<in> set (sd_bindings s')"
  by (rule stable_rely [where P = "\<lambda>s. b \<in> set (sd_bindings s)"]) (auto simp: source_guar_def)

text \<open>Closing with success: the transaction also records the binding of the effect's coordinates.\<close>

definition binding_facts ::
  "effect_row \<Rightarrow> int \<times> string \<times> string
   \<Rightarrow> (source_tx \<Rightarrow> effect_row \<Rightarrow> source_db
        \<Rightarrow> (source_error, (effect_row \<times> branch_binding_row) \<times> source_db) res) \<Rightarrow> bool" where
  "binding_facts e coords facts \<longleftrightarrow> (\<forall>t row db row' b' db'. facts t row db = Inr ((row', b'), db') \<longrightarrow>
     binding_by_work_item (ef_work_item e) db \<noteq> None
     \<or> (\<exists>b db1. insert_branch_binding b db = Inr (b', db1) \<and> sd_effects db' = sd_effects db1
          \<and> sd_bindings db' = sd_bindings db1 \<and> bd_effect b = ef_id e
          \<and> bd_work_item b = ef_work_item e \<and> (bd_number b, bd_branch b, bd_base b) = coords))"

lemma close_success_gives:
  assumes e: "working e s" "branch_effect_coordinates e = Inr coords"
    and st: "st = IN_FLIGHT \<or> st = RECONCILIATION"
    and fits: "\<And>t x. ef_state x = st \<Longrightarrow> effect_ok x \<Longrightarrow> fits (change t) x"
    and target: "\<And>t. ec_state (change t) = Some EFFECT_SUCCEEDED"
    and facts: "binding_facts e coords facts"
  shows "gives (\<lambda>r s. \<forall>row b. r = Inr (row, b) \<longrightarrow> b \<in> set (sd_bindings s)) s
    (transact (close_effect st e change found facts))"
proof (rule gives_transact)
  fix t s1 x s2
  assume s1: "source_rely s s1" and inv: "source_inv s1"
    and "close_effect st e change found facts t s1 = Inr (x, s2)"
  from this(3) show "(source_inv s2 \<and> source_guar s1 s2) \<and> (\<forall>s3. source_rely s2 s3 \<longrightarrow>
      source_inv s3 \<longrightarrow> (\<forall>row b. x = Inr (row, b) \<longrightarrow> b \<in> set (sd_bindings s3)))"
  proof (cases rule: close_effect_Inr)
    case (moved y)
    with write_effect_miss [OF moved(1)] inv source_guar_refl show ?thesis by simp
  next
    case (closed row s3 y)
    obtain x0 where x0: "x0 \<in> set (sd_effects s1)" "effect_guard (ef_id e) st (Some (ef_attempts e)) x0"
        "row = changed_effect (change t) x0"
      and s3: "sd_bindings s3 = sd_bindings s1"
      using closed(1) by (rule write_effect_hit) simp
    from working_rely [OF s1 e(1)] obtain x1 where x1: "x1 \<in> set (sd_effects s1)"
        "identity x1 = identity e" unfolding working_def begun_def by blast
    have "x1 = x0"
      using same_effect(1) [OF inv x1(1) x0(1)] x1(2) x0(2)
      by (simp add: identity_fields effect_guard_def)
    with x1 have id: "identity x0 = identity e" by simp
    obtain row' b' where y: "y = (row', b')" by fastforce
    have "branch_effect x0" "ef_state x0 = st" using x0(2) by (simp_all add: effect_guard_def)
    then have "binding_by_work_item (ef_work_item e) s1 = None"
      using bound_effect_done [OF inv _ x0(1)] st id
      by (cases "binding_by_work_item (ef_work_item e) s1") (auto simp: identity_fields)
    then have "binding_by_work_item (ef_work_item e) s3 = None"
      using s3 by (simp add: binding_by_work_item_def)
    with facts closed(2) y obtain b s4 where b: "insert_branch_binding b s3 = Inr (b', s4)"
      and frame: "sd_effects s2 = sd_effects s4" "sd_bindings s2 = sd_bindings s4"
      and fields: "bd_effect b = ef_id e" "bd_work_item b = ef_work_item e"
        "(bd_number b, bd_branch b, bd_base b) = coords"
      unfolding binding_facts_def by blast
    have "coordinates e = (Some (bd_number b), Some (strip (bd_branch b)), Some (strip (bd_base b)))"
      using e(2) fields(3)
      by (auto simp: branch_effect_coordinates_def coordinates_def
          split: effect_operation.splits option.splits)
    with id fields(1,2) x0(2,3) have "binds b row"
      by (simp add: binds_def identity_fields effect_guard_def)
    note keep = succeed_keeps [OF closed(1) inv st fits target b this]
    have "b' \<in> set (sd_bindings s2)" using keep(2,3) frame(2) by simp
    then have "b' \<in> set (sd_bindings s5)" if "source_rely s2 s5" for s5
      using binding_stays [OF that] by blast
    with keep(1) source_frame [OF frame] y closed(3) show ?thesis by simp
  qed
qed

lemma success_facts_bind:
  assumes "ef_work_item e = bc_work_item c" and "bs_commit v = base"
  shows "binding_facts e (n, branch, base) (success_facts e c m n branch v now)"
  unfolding binding_facts_def success_facts_def
proof (intro allI impI disjI2)
  fix t row db row' b' db'
  assume "rbind (insert_branch_binding \<lparr>bd_id = st_id t 0, bd_work_item = bc_work_item c,
         bd_requirement = bc_requirement c, bd_workspace = bc_workspace c,
         bd_repository = bc_repository c, bd_number = n,
         bd_base = bs_commit v, bd_branch = branch, bd_effect = ef_id e,
         bd_created_at = now\<rparr> db) (\<lambda>(binding, db1).
     rbind (complete_binding_request m now db1) (\<lambda>db2.
       Inr ((row, binding),
         append_lifecycle_audit t 2 1 (effect_fact ''source_control.effect.succeeded''
           (ef_id e) ''SUCCESS'' None)
         (append_lifecycle_audit t 1 0 (lifecycle_success ''source_control.binding.created''
           ''repository_branch_binding'' (bd_id binding) (effect_correlation (ef_id e))) db2))))
    = Inr ((row', b'), db')"
  with assms show "\<exists>b db1. insert_branch_binding b db = Inr (b', db1) \<and> sd_effects db' = sd_effects db1
          \<and> sd_bindings db' = sd_bindings db1 \<and> bd_effect b = ef_id e
          \<and> bd_work_item b = ef_work_item e \<and> (bd_number b, bd_branch b, bd_base b) = (n, branch, base)"
    by (elim rbind_pairE rbind_InrE)
      (auto dest!: complete_binding_request_frame intro!: exI)
qed

lemma bind_reconciled_binds:
  "binding_facts e (n, branch, base) (bind_reconciled e c n branch base now)"
  unfolding binding_facts_def
proof (intro allI impI)
  fix t row db row' b' db'
  assume facts: "bind_reconciled e c n branch base now t row db = Inr ((row', b'), db')"
  show "binding_by_work_item (ef_work_item e) db \<noteq> None
     \<or> (\<exists>b db1. insert_branch_binding b db = Inr (b', db1) \<and> sd_effects db' = sd_effects db1
          \<and> sd_bindings db' = sd_bindings db1 \<and> bd_effect b = ef_id e
          \<and> bd_work_item b = ef_work_item e \<and> (bd_number b, bd_branch b, bd_base b) = (n, branch, base))"
  proof (cases "binding_by_work_item (ef_work_item e) db")
    case None
    let ?b = "\<lparr>bd_id = st_id t 0, bd_work_item = ef_work_item e,
            bd_requirement = ef_requirement e, bd_workspace = bc_workspace c,
            bd_repository = ef_repository e, bd_number = n, bd_base = base,
            bd_branch = branch, bd_effect = ef_id e, bd_created_at = now\<rparr>"
    from facts None obtain db1 where "insert_branch_binding ?b db = Inr (b', db1)"
      "sd_effects db' = sd_effects db1" "sd_bindings db' = sd_bindings db1"
      unfolding bind_reconciled_def by (auto elim!: rbind_pairE)
    then show ?thesis by (intro disjI2 exI [of _ ?b] exI [of _ db1]) simp
  qed simp
qed

subsection \<open>The saga\<close>

lemma complete_effect_block_runs:
  assumes "source_inv s"
  shows "runs s (complete_effect_block d e c m r)"
  unfolding complete_effect_block_def close_in_flight_def
  by (rule gives_wbind [OF close_effect_runs assms])
    (auto split: sum.split intro!: gives_give acked_or_failed_gives tell_blocked_runs
      gives_wbind [OF set_callback_runs] fits_blocked framed_facts)

lemma replay_runs:
  assumes "bound b s" and "source_inv s"
  shows "runs s (replay_existing_binding d b e c)"
  unfolding replay_existing_binding_def
  by (auto intro!: gives_throw acked_or_failed_gives record_ready_runs assms gives_give
      gives_wbind [OF set_callback_runs])

lemma record_unknown_runs:
  assumes "source_inv s"
  shows "runs s (record_unknown d p e c m)"
  unfolding record_unknown_def close_in_flight_def
  by (rule gives_wbind [OF close_effect_runs assms])
    (auto split: sum.split intro!: gives_give acked_or_failed_gives tell_blocked_runs
      gives_wbind [OF set_callback_runs] gives_wbind [OF gives_Done] fits_unknown framed_facts)

lemma bound_row: "b \<in> set (sd_bindings s) \<Longrightarrow> binding_dto b = Inr x \<Longrightarrow> bound x s"
  unfolding bound_def by blast

lemma record_success_runs:
  assumes "working e s" and "branch_effect_coordinates e = Inr (n, branch, base)"
    and "ef_work_item e = bc_work_item c" and "bs_commit v = base" and "source_inv s"
  shows "runs s (record_success d e c m n branch v)"
  unfolding record_success_def close_in_flight_def
proof (rule gives_wbind [OF runs_observe assms(5)], rule gives_wbind)
  fix s1 now
  assume s1: "source_rely s s1" and inv: "source_inv s1"
  show "gives (\<lambda>r s. \<forall>row b. r = Inr (row, b) \<longrightarrow> b \<in> set (sd_bindings s)) s1
      (transact (close_effect IN_FLIGHT e (\<lambda>tx. succeeded_change now)
        (existing_effect_result (ef_id e)) (success_facts e c m n branch v now)))"
    by (rule close_success_gives [OF working_rely [OF s1 assms(1)] assms(2) _ _ _
          success_facts_bind [OF assms(3,4)]]) (auto intro: fits_succeeded)
  show "source_inv s1" by (rule inv)
  fix s2 and closed :: "process_result + (effect_row \<times> branch_binding_row)"
  assume "source_inv s2"
    and "\<forall>row b. closed = Inr (row, b) \<longrightarrow> b \<in> set (sd_bindings s2)"
  then show "runs s2 (case closed of Inl result \<Rightarrow> give result
      | Inr (row, binding) \<Rightarrow> wbind (Done (binding_dto binding)) (\<lambda>b.
          wbind (Done (effect_dto row)) (\<lambda>e. replay_existing_binding d b e c)))"
    by (auto split: sum.split prod.split intro!: gives_give gives_value replay_runs bound_row)
qed

lemma create_task_branch_runs:
  assumes "working e s" and "ef_work_item e = bc_work_item c" and "source_inv s"
  shows "runs s (create_task_branch d p e c profile m)"
  unfolding create_task_branch_def
proof (rule gives_value, clarsimp)
  fix n branch base
  assume coords: "branch_effect_coordinates e = Inr (n, branch, base)"
  show "runs s (attempt (create_and_verify_branch d profile branch base)
       (\<lambda>e'. if e' = GitLabResultUnknown then record_unknown d p e c m
            else if e' = GitLabAccessDenied then complete_effect_block d e c m ACCESS_DENIED
            else if e' = GitLabProviderUnavailable
            then complete_effect_block d e c m CONNECTOR_UNAVAILABLE
            else if e' = GitLabBranchConflict
            then complete_effect_block d e c m BINDING_CONFLICT
            else throw e')
       (\<lambda>verified. record_success d e c m n branch verified))"
    by (rule gives_attempt [OF create_and_verify_gives [OF assms(1) coords assms(3)] assms(3)])
      (auto intro!: record_success_runs [OF _ coords assms(2)] working_rely [OF _ assms(1)]
        record_unknown_runs complete_effect_block_runs gives_throw)
qed

subsection \<open>Planning and beginning an effect\<close>

definition planned :: "binding_context \<Rightarrow> effect_row \<Rightarrow> source_db \<Rightarrow> bool" where
  "planned c row s = (recorded row s \<and> branch_effect row \<and> effect_ok row
     \<and> ef_work_item row = bc_work_item c)"

lemma planned_rely: "source_rely s s' \<Longrightarrow> planned c row s \<Longrightarrow> planned c row s'"
  unfolding planned_def using recorded_rely by blast

lemma effect_by_work_item_Some:
  "effect_by_work_item w db = Some e \<Longrightarrow> e \<in> set (sd_effects db) \<and> branch_effect e \<and> ef_work_item e = w"
  unfolding effect_by_work_item_def by (auto dest: find_set)

lemma planned_found:
  "effect_by_work_item (bc_work_item c) s = Some e \<Longrightarrow> source_inv s \<Longrightarrow> planned c e s"
  by (drule effect_by_work_item_Some) (auto simp: planned_def recorded_in source_inv_def)

lemma planned_effect_gives:
  assumes "planned_effect d c inbox base t s = Inr (row, s')" and "source_inv s"
  shows "source_inv s' \<and> source_guar s s'" and "planned c row s'"
proof -
  have "(source_inv s' \<and> source_guar s s') \<and> planned c row s'"
  proof (cases "effect_by_work_item (bc_work_item c) s")
    case (Some e)
    with assms show ?thesis
      using planned_found [OF Some assms(2)] source_guar_refl by (simp add: planned_effect_def)
  next
    case None
    obtain number s1 where n: "next_work_item_number t s = (number, s1)" by fastforce
    then have s1: "sd_effects s1 = sd_effects s" "sd_bindings s1 = sd_bindings s"
      by (auto simp: next_work_item_number_def Let_def)
    let ?new = "\<lambda>branch. \<lparr>ef_id = st_id t 0,
                 ef_key = ''source-control:create-task-branch:'' @ bc_work_item c,
                 ef_operation = CREATE_TASK_BRANCH, ef_subject = ''work-item:'' @ bc_work_item c,
                 ef_payload = TaskBranchPayload, ef_work_item = bc_work_item c,
                 ef_requirement = bc_requirement c, ef_repository = bc_repository c,
                 ef_number = Some number, ef_branch = Some branch, ef_base = Some (bs_commit base),
                 ef_fingerprint = ib_payload_hash inbox, ef_attempts = 0, ef_next_reconcile = None,
                 ef_state = EFFECT_PLANNED, ef_error = None, ef_callback = CALLBACK_PENDING,
                 ef_created_at = st_clock t 0, ef_updated_at = st_clock t 0,
                 ef_completed_at = None\<rparr>"
    from assms(1) obtain branch s2 f where ins: "insert_effect (?new branch) s1 = Inr (row, s2)"
      and s': "s' = append_lifecycle_audit t 1 1 f s2"
      unfolding planned_effect_def None option.case n Let_def prod.case
      by (elim rbind_InrE rbind_pairE) blast
    have new: "branch_effect (?new b)" "ef_state (?new b) = EFFECT_PLANNED" "ef_attempts (?new b) = 0"
      "ef_error (?new b) = None" "ef_work_item (?new b) = bc_work_item c" for b
      by (simp_all add: branch_effect_def)
    note keep = insert_effect_keeps [OF ins _ new(1-4)]
    have "source_inv s1" using source_frame(1) [OF s1] assms(2) by simp
    note keep = keep [OF this]
    have row: "branch_effect row" "ef_work_item row = bc_work_item c"
      using keep(2) new(1,5) by simp_all
    have "source_inv s'" "source_guar s s'" using keep(1) source_frame(3) [OF s1] unfolding s' by simp_all
    moreover have "recorded row s'" using keep(3) unfolding s' by (simp add: recorded_in)
    ultimately show ?thesis using row keep(4) by (simp add: planned_def)
  qed
  then show "source_inv s' \<and> source_guar s s'" and "planned c row s'" by simp_all
qed

lemma plan_effect_gives:
  assumes "source_inv s"
  shows "gives (planned c) s (plan_effect d c inbox base)"
  unfolding plan_effect_def
proof (rule gives_attempt [where M = "planned c", OF gives_transact assms])
  fix t s1 row s2
  assume "source_inv s1" and "planned_effect d c inbox base t s1 = Inr (row, s2)"
  with planned_effect_gives [OF this(2,1)]
  show "(source_inv s2 \<and> source_guar s1 s2) \<and>
      (\<forall>s3. source_rely s2 s3 \<longrightarrow> source_inv s3 \<longrightarrow> planned c row s3)"
    using planned_rely by blast
next
  fix s1 row
  assume "planned c row s1"
  then show "gives (planned c) s1 (give row)" using planned_rely by (blast intro: gives_give)
next
  fix s1 e
  have "gives (planned c) s1 (observe (\<lambda>tx db. of_option e' (effect_by_work_item (bc_work_item c) db)))" for e'
    by (rule gives_observe)
      (auto simp: of_option_def split: option.splits dest: planned_found intro: planned_rely)
  then show "gives (planned c) s1 (case e of
      IntegrityError _ \<Rightarrow> observe (\<lambda>tx db. of_option e (effect_by_work_item (bc_work_item c) db))
    | _ \<Rightarrow> throw e)"
    by (simp add: gives_throw split: source_error.split)
qed

lemma write_in_flight_gives:
  assumes "planned c row s" and "effect_dto row = Inr e" and "ef_state e = EFFECT_PLANNED"
  shows "gives (\<lambda>r s. \<forall>x. r = Some x \<longrightarrow> begun x s \<and> ef_work_item x = bc_work_item c) s
    (transact (write_in_flight e))"
proof (rule gives_transact)
  fix t s1 r s2
  assume rely: "source_rely s s1" and inv: "source_inv s1"
    and "write_in_flight e t s1 = Inr (r, s2)"
  then obtain s3 where w: "write_effect (ef_id e) EFFECT_PLANNED None
        (in_flight_change e (st_clock t 0)) s1 = Inr (r, s3)"
    and s2: "s2 = s3 \<or> (\<exists>f. s2 = append_lifecycle_audit t 0 1 f s3)"
    unfolding write_in_flight_def by (elim rbind_pairE) (auto split: if_splits)
  have e: "e = stripped_effect row" using effect_dto_Inr assms(2) by blast
  have "planned c row s1" using planned_rely [OF rely assms(1)] .
  then have row: "effect_ok row" "ef_work_item row = bc_work_item c"
    and rec: "recorded row s1" by (simp_all add: planned_def)
  have attempts: "ef_attempts e = 0"
    using row(1) assms(3) unfolding e by (simp add: effect_ok_def stripped_effect_def)
  have keep: "source_inv s3 \<and> source_guar s1 s3"
  proof (rule write_effect_keeps [OF w inv])
    fix x
    assume x: "effect_guard (ef_id e) EFFECT_PLANNED None x" and ok: "effect_ok x"
    then have "ef_state x = EFFECT_PLANNED" by (simp add: effect_guard_def)
    moreover from this ok have "ef_attempts e = ef_attempts x"
      using attempts by (simp add: effect_ok_def)
    ultimately show "fits (in_flight_change e (st_clock t 0)) x" using fits_in_flight [OF ok] by simp
  qed (simp add: in_flight_change_def)
  have same: "sd_effects s2 = sd_effects s3" "sd_bindings s2 = sd_bindings s3" using s2 by auto
  have "begun x s2 \<and> ef_work_item x = bc_work_item c" if "r = Some x" for x
  proof -
    from w that obtain x0 where x0: "x0 \<in> set (sd_effects s1)"
        "effect_guard (ef_id e) EFFECT_PLANNED None x0"
        "x = changed_effect (in_flight_change e (st_clock t 0)) x0"
      by (metis write_effect_hit)
    from rec obtain x1 where x1: "x1 \<in> set (sd_effects s1)" "identity x1 = identity row"
      unfolding recorded_def by blast
    have "x1 = x0" using same_effect(1) [OF inv x1(1) x0(1)] x1(2) x0(2)
      by (simp add: identity_fields effect_guard_def e stripped_effect_def)
    with x1 x0(3) row(2) have "ef_work_item x = bc_work_item c" by (simp add: identity_fields)
    moreover have "ef_state x \<noteq> EFFECT_PLANNED"
      unfolding x0(3) by (simp add: changed_effect_def in_flight_change_def)
    moreover have "x \<in> set (sd_effects s3)" using write_effect_row(1) w that by blast
    ultimately show ?thesis unfolding begun_def same by blast
  qed
  with keep source_frame [OF same] begun_rely
  show "(source_inv s2 \<and> source_guar s1 s2) \<and> (\<forall>s3. source_rely s2 s3 \<longrightarrow> source_inv s3 \<longrightarrow>
      (\<forall>x. r = Some x \<longrightarrow> begun x s3 \<and> ef_work_item x = bc_work_item c))"
    by simp
qed

lemma run_planned_effect_runs:
  assumes "planned c row s" and "effect_dto row = Inr e" and "source_inv s"
  shows "runs s (run_planned_effect d p e c profile m)"
proof (cases "ef_state e = EFFECT_PLANNED")
  case True
  show ?thesis unfolding run_planned_effect_def
  proof (simp only: True simp_thms if_False, rule gives_wbind [OF write_in_flight_gives [OF assms(1,2) True] assms(3)])
    fix s1 r
    assume "source_inv s1" and "\<forall>x. r = Some x \<longrightarrow> begun x s1 \<and> ef_work_item x = bc_work_item c"
    then show "runs s1 (case r of
          None \<Rightarrow> wbind (observe (\<lambda>tx db. row_dto (effect_by_work_item (bc_work_item c) db)))
            (\<lambda>e. give \<lparr>pr_effect = Some e, pr_binding = None, pr_blocked = None\<rparr>)
        | Some row \<Rightarrow> wbind (Done (effect_dto row)) (\<lambda>e. create_task_branch d p e c profile m))"
      by (auto split: option.split intro!: gives_wbind [OF runs_observe] gives_give gives_value
          create_task_branch_runs working_dto)
        (auto simp: stripped_effect_def dest!: effect_dto_Inr)
  qed
qed (simp add: run_planned_effect_def gives_give)

lemma preflight_runs: "source_inv s \<Longrightarrow> runs s (preflight_gitlab d profile)"
  unfolding preflight_gitlab_def
  by (rule gives_wbind [OF validate_repository_runs]) (auto intro: get_branch_runs)

lemma execute_runs:
  assumes "source_inv s"
  shows "runs s (execute_binding_request d p c inbox m)"
proof -
  have plan: "runs s1 (wbind (plan_effect d c inbox base) (\<lambda>row.
      wbind (Done (effect_dto row)) (\<lambda>e. run_planned_effect d p e c profile m)))"
    if "source_inv s1" for s1 base profile
    by (rule gives_wbind [OF plan_effect_gives [OF that] that])
      (auto intro!: gives_value run_planned_effect_runs)
  show ?thesis unfolding execute_binding_request_def Let_def
    by (auto split: option.split prod.split intro!: complete_preflight_block_runs assms gives_throw plan
        gives_wbind [OF evaluate_actor_runs] gives_wbind [OF runs_observe] gives_attempt [OF preflight_runs])
qed

lemma claim_message_keeps:
  assumes "claim_message m t s = Inr (x, s')" and "source_inv s"
  shows "source_inv s' \<and> source_guar s s'"
proof (rule frame_keeps [OF assms(2)])
  show "sd_effects s' = sd_effects s" "sd_bindings s' = sd_bindings s"
    using assms(1) by (auto simp: claim_message_def claim_binding_request_def res_simps Let_def
        elim!: rbind_pairE)
qed

lemma settle_message_runs: "runs s (transact (settle_message m))"
  by (rule runs_transact)
    (auto simp: settle_message_def elim!: rbind_InrE dest: complete_binding_request_keeps)

lemma stored_binding:
  "binding_by_work_item w s = Some b \<Longrightarrow> binding_dto b = Inr b' \<Longrightarrow> bound b' s"
  unfolding binding_by_work_item_def row_by_def by (auto dest!: find_set intro: bound_row)

definition found_ok :: "branch_binding_row option \<times> 'y \<Rightarrow> source_db \<Rightarrow> bool" where
  "found_ok found s = (\<forall>b b'. fst found = Some b \<longrightarrow> binding_dto b = Inr b' \<longrightarrow> bound b' s)"

lemma found_rely: "source_rely s s' \<Longrightarrow> found_ok found s \<Longrightarrow> found_ok found s'"
  unfolding found_ok_def using bound_rely by blast

lemma find_binding_gives: "gives found_ok s (observe (\<lambda>tx db. Inr (binding_by_work_item w db, f db)))"
  by (rule gives_observe) (auto simp: found_ok_def intro: bound_rely [OF _ stored_binding])

lemma replay_or_execute_runs:
  assumes "source_inv s" and "found_ok found s"
  shows "runs s (replay_or_execute d p c claimed inbox m found)"
  using assms unfolding replay_or_execute_def found_ok_def
  by (auto split: option.split prod.split intro!: gives_value gives_give gives_throw replay_runs execute_runs)

lemma process_claimed_runs:
  assumes "source_inv s"
  shows "runs s (process_claimed d p claimed inbox m)"
proof -
  have "runs s1 (complete_settled claimed effect m)" for s1 effect
    unfolding complete_settled_def by (auto intro: settle_message_runs gives_give)
  then have "runs s1 (wbind (complete_settled claimed (snd found) m)
      (\<lambda>_. replay_or_execute d p c claimed inbox m found))"
    if "source_inv s1" and "found_ok found s1" for s1 c found
    by (rule gives_wbind [OF _ that(1)]) (auto intro: replay_or_execute_runs found_rely that(2))
  then have "runs s1 (wbind (observe (\<lambda>tx db. Inr (binding_by_work_item (bc_work_item c) db,
         effect_by_work_item (bc_work_item c) db))) (\<lambda>found.
     wbind (complete_settled claimed (snd found) m)
       (\<lambda>_. replay_or_execute d p c claimed inbox m found)))" if "source_inv s1" for s1 c
    by (intro gives_wbind [OF find_binding_gives that])
  then show ?thesis unfolding process_claimed_def by (intro gives_wbind [OF binding_context_runs assms])
qed

lemma process_binding_request_runs:
  "source_inv s \<Longrightarrow> runs s (process_binding_request d claim_required m)"
  unfolding process_binding_request_def
  by (auto split: option.split intro!: gives_throw process_claimed_runs
      gives_wbind [OF runs_transact] claim_message_keeps)

end
