(* ===== verification/Source_Recovery.thy ===== *)
theory Source_Recovery
  imports Source_Tasks
begin

section \<open>The source control module: the reconciler and the relay keep the contract\<close>

text \<open>
  The contracts of \<^verbatim>\<open>reconciliation.py\<close> and \<^verbatim>\<open>relay.py\<close> in the sense of \<open>gives\<close>: an effect
  claimed for reconciliation is closed or returned under the same invariant and guarantee as the
  saga's, the branch is created again only for an effect that is begun, and Requirement is told of
  a binding only when it is stored.
\<close>

lemma terminal_call_runs:
  assumes "\<And>b. binding = Some b \<Longrightarrow> bound b s" and "terminal_call e c binding = Some w"
  shows "runs s w"
  using assms(2) unfolding terminal_call_def
  by (auto split: effect_state.splits option.splits intro!: record_ready_runs assms(1) gives_value
      record_blocked_runs gives_throw)

lemma deliver_runs:
  assumes "\<And>b. binding = Some b \<Longrightarrow> bound b s" and "source_inv s"
  shows "runs s (deliver_terminal_callback d e c binding)"
  unfolding deliver_terminal_callback_def
  by (auto split: option.split intro!: set_callback_runs assms(2) gives_give
      acked_or_failed_gives terminal_call_runs [OF assms(1)])

lemma complete_success_gives:
  assumes "working e s" and "source_inv s"
  shows "gives (\<lambda>r s. \<forall>row b. r = Inr (row, b) \<longrightarrow> bound b s) s (complete_success e c)"
  unfolding complete_success_def close_reconciled_def
proof (rule gives_value, clarsimp, rule gives_wbind [OF runs_observe assms(2)], rule gives_wbind)
  fix n branch base s1 now
  assume coords: "branch_effect_coordinates e = Inr (n, branch, base)" and s1: "source_rely s s1"
    and inv: "source_inv s1"
  show "gives (\<lambda>r s. \<forall>row b. r = Inr (row, b) \<longrightarrow> b \<in> set (sd_bindings s)) s1
      (transact (close_effect RECONCILIATION e (\<lambda>tx. reconciled_success now)
        (current_binding_result e) (bind_reconciled e c n branch base now)))"
    by (rule close_success_gives [OF working_rely [OF s1 assms(1)] coords _ _ _
          bind_reconciled_binds]) (auto intro: fits_succeeded)
  show "source_inv s1" by (rule inv)
  fix s2 :: source_db and closed :: "(effect_row \<times> branch_binding_row option) + (effect_row \<times> branch_binding_row)"
  assume "\<forall>row b. closed = Inr (row, b) \<longrightarrow> b \<in> set (sd_bindings s2)"
  then show "gives (\<lambda>r s. \<forall>row b. r = Inr (row, b) \<longrightarrow> bound b s) s2
     (case closed of Inl other \<Rightarrow> give (Inl other)
      | Inr (row, b) \<Rightarrow> wbind (Done (effect_dto row)) (\<lambda>e.
          wbind (Done (binding_dto b)) (\<lambda>b'. give (Inr (e, b')))))"
    by (auto split: sum.split intro!: gives_give gives_value intro: bound_rely [OF _ bound_row])
qed

lemma close_block_runs:
  assumes "source_inv s"
  shows "runs s (complete_block e r)"
  unfolding complete_block_def close_reconciled_def
  by (rule gives_wbind [OF runs_observe assms], rule gives_wbind [OF close_effect_runs])
    (auto split: sum.split intro!: gives_give gives_value fits_blocked framed_facts)

lemma block_and_deliver_runs:
  assumes "source_inv s"
  shows "runs s (block_and_deliver d e c r)"
  unfolding block_and_deliver_def
  by (rule gives_wbind [OF close_block_runs assms]) (auto split: sum.split intro!: gives_give deliver_runs assms)

lemma succeed_and_deliver_runs:
  assumes "working e s" and "source_inv s"
  shows "runs s (succeed_and_deliver d e c)"
  unfolding succeed_and_deliver_def
  by (rule gives_wbind [OF complete_success_gives [OF assms] assms(2)])
    (auto split: sum.split intro!: gives_give deliver_runs)

lemma return_unknown_runs:
  assumes "source_inv s"
  shows "runs s (return_unknown d e)"
  unfolding return_unknown_def close_reconciled_def
  by (auto split: option.split intro!: gives_throw gives_wbind [OF runs_observe assms]
      gives_wbind [OF close_effect_runs] gives_value gives_give fits_unknown framed_facts split: sum.split)

lemma observe_branch_runs:
  assumes "working e s" and "branch_effect_coordinates e = Inr (n, branch, base)" and "source_inv s"
  shows "runs s (observe_branch d p branch base)"
proof -
  have create: "runs s1 (create_and_verify_branch d p branch base)"
    if "source_rely s s1" and "source_inv s1" for s1
    using create_and_verify_gives [OF working_rely [OF that(1) assms(1)] assms(2) that(2)]
    by (rule gives_weaken) simp
  show ?thesis unfolding observe_branch_def
    by (rule gives_attempt [OF gives_wbind [OF validate_repository_runs assms(3) get_branch_runs] assms(3)])
      (auto intro!: gives_give gives_throw gives_attempt [OF create])
qed

lemma reconcile_observed_runs:
  assumes "working e s" and "branch_effect_coordinates e = Inr (n, branch, base)" and "source_inv s"
  shows "runs s (reconcile_observed d e c p branch base)"
  unfolding reconcile_observed_def
  by (rule gives_attempt [OF observe_branch_runs [OF assms] assms(3)])
    (auto split: option.split intro!: return_unknown_runs block_and_deliver_runs gives_throw
      succeed_and_deliver_runs working_rely [OF _ assms(1)])

lemma reconcile_repository_runs:
  assumes "working e s" and "branch_effect_coordinates e = Inr (n, branch, base)" and "source_inv s"
  shows "runs s (reconcile_repository d e c branch base)"
  unfolding reconcile_repository_def
  by (rule gives_wbind [OF runs_observe assms(3)])
    (auto split: option.split intro!: block_and_deliver_runs
      reconcile_observed_runs [OF working_rely [OF _ assms(1)] assms(2)])

lemma reconcile_effect_runs:
  assumes "working e s" and "source_inv s"
  shows "runs s (reconcile_effect d e)"
  unfolding reconcile_effect_def
proof (rule gives_value)
  fix x
  assume x: "branch_effect_coordinates e = Inr x"
  have repository: "runs s2 (reconcile_repository d e c (fst (snd x)) (snd (snd x)))"
    if "source_rely s s1" "source_rely s1 s2" "source_inv s2" for s1 s2 c
    by (rule reconcile_repository_runs [OF working_rely [OF that(2) working_rely [OF that(1) assms(1)]],
          where n = "fst x"]) (use x that in simp_all)
  show "runs s (case x of (number, branch, base) \<Rightarrow>
     if \<not> dp_requirement d \<or> \<not> dp_eligibility d \<or> \<not> dp_gitlab d then return_unknown d e
     else wbind (get_binding_context (ef_work_item e)) (\<lambda>c. case bc_owner c of
         None \<Rightarrow> block_and_deliver d e c OWNER_UNASSIGNED
       | Some owner \<Rightarrow>
           if \<not> bc_assigned c then block_and_deliver d e c OWNER_UNASSIGNED
           else wbind (evaluate_actor (actor_eligibility_context c owner)) (\<lambda>(eligible, reason).
             if \<not> eligible then block_and_deliver d e c (or_else reason OWNER_INELIGIBLE)
             else reconcile_repository d e c branch base)))"
    using repository
    by (cases x) (auto split: option.split intro!: return_unknown_runs assms(2) block_and_deliver_runs
        gives_wbind [OF binding_context_runs assms(2)] gives_wbind [OF evaluate_actor_runs])
qed

subsection \<open>The due effects and the pending callbacks\<close>

lemma audit_claims_frame [simp]:
  "source_inv (audit_claims t n es s) = source_inv s"
  "source_guar s0 (audit_claims t n es s) = source_guar s0 s"
  "sd_effects (audit_claims t n es s) = sd_effects s"
  by (induction t n es s rule: audit_claims.induct) simp_all

lemma claim_due_gives:
  assumes "source_inv s"
  shows "gives (\<lambda>rows s. \<forall>row \<in> set rows. begun row s) s (transact (claim_due_effects limit now))"
proof (rule gives_transact)
  fix t s1 rows s2
  assume inv: "source_inv s1" and "claim_due_effects limit now t s1 = Inr (rows, s2)"
  then obtain s3 where c: "claim_unknown_effects limit now (now + seconds 120) s1 = Inr (rows, s3)"
    and s2: "s2 = audit_claims t 0 rows s3"
    unfolding claim_due_effects_def by (elim rbind_pairE) simp
  have "begun row s2" if "row \<in> set rows" for row
    using claim_unknown_effects_keeps(2) [OF c inv that] unfolding begun_def s2 by force
  with claim_unknown_effects_keeps(1) [OF c inv] s2
  show "(source_inv s2 \<and> source_guar s1 s2) \<and>
      (\<forall>s3. source_rely s2 s3 \<longrightarrow> source_inv s3 \<longrightarrow> (\<forall>row \<in> set rows. begun row s3))"
    using begun_rely by auto
qed

lemma replay_callback_runs:
  assumes "source_inv s"
  shows "runs s (replay_callback d e)"
proof -
  have "gives (\<lambda>r s. \<forall>b. r = Some b \<longrightarrow> bound b s) s1
      (observe (\<lambda>tx db. optional_binding_dto (binding_by_work_item w db)))" for s1 w
    by (rule gives_observe) (auto simp: optional_binding_dto_def res_simps split: option.splits
        intro: bound_rely [OF _ stored_binding])
  then have "runs s1 (wbind (observe (\<lambda>tx db. optional_binding_dto (binding_by_work_item w db)))
      (\<lambda>b. deliver_terminal_callback d e c b))" if "source_inv s1" for s1 w c
    by (rule gives_wbind [OF _ that]) (auto intro: deliver_runs)
  then show ?thesis unfolding replay_callback_def by (intro gives_wbind [OF binding_context_runs assms])
qed

lemma replay_callbacks_runs:
  "source_inv s \<Longrightarrow> runs s (replay_callbacks d processed remaining rows)"
proof (induction d processed remaining rows arbitrary: s rule: replay_callbacks.induct)
  case (3 d processed remaining row rows)
  show ?case unfolding replay_callbacks.simps
    by (rule gives_value)
      (auto intro!: 3 gives_wbind [OF replay_callback_runs [OF 3(3)]] gives_wbind [OF 3(2)] gives_give)
qed (simp_all add: gives_give)

lemma reconcile_due_effects_runs:
  assumes "source_inv s"
  shows "runs s (reconcile_due_effects d limit)"
proof -
  have each: "runs s1 (each_task (\<lambda>row. wbind (Done (effect_dto row)) (reconcile_effect d)) claimed)"
    if "source_inv s1" and "\<forall>row \<in> set claimed. begun row s1" for s1 claimed
    by (rule runs_each [OF _ that(1)]) (use that(2) begun_rely in
      \<open>blast intro: gives_value reconcile_effect_runs working_dto\<close>)
  show ?thesis unfolding reconcile_due_effects_def Let_def
    by (intro gives_wbind [OF runs_observe assms] gives_wbind [OF claim_due_gives])
      (auto intro!: gives_wbind [OF each] gives_give gives_wbind [OF runs_observe]
        gives_wbind [OF replay_callbacks_runs])
qed

subsection \<open>The relay and the repositories\<close>

lemma insert_binding_request_frame:
  "insert_binding_request r s = Inr (x, s') \<Longrightarrow>
   sd_effects s' = sd_effects s \<and> sd_bindings s' = sd_bindings s"
  unfolding insert_binding_request_def by (auto simp: res_simps split: if_splits)

lemma accept_frame:
  assumes "accept_binding_request digest e now s = Inr (r, s')"
  shows "sd_effects s' = sd_effects s \<and> sd_bindings s' = sd_bindings s"
proof (cases "inbox_request (en_message e) s")
  case (Some x)
  with assms show ?thesis by (simp add: accept_binding_request_def Let_def split: if_splits)
next
  case None
  obtain p where p: "workspace_repository (en_repository e) s = Some p"
    using assms by (cases "workspace_repository (en_repository e) s")
      (simp_all add: accept_binding_request_def Let_def None)
  from assms show ?thesis
    unfolding accept_binding_request_def Let_def None p option.case
    by (cases "rp_status p = AUTHORIZED")
      (auto dest!: insert_binding_request_frame elim!: rbind_pairE split: option.splits if_splits)
qed

lemma accept_envelope_runs: "runs s (transact (accept_envelope digest e now))"
proof (rule runs_transact, rule frame_keeps)
  fix t s1 x s2
  assume "accept_envelope digest e now t s1 = Inr (x, s2)"
  then obtain r s3 where a: "accept_binding_request digest e now s1 = Inr (r, s3)"
    and s2: "sd_effects s2 = sd_effects s3" "sd_bindings s2 = sd_bindings s3"
    unfolding accept_envelope_def by (auto simp: Let_def elim!: rbind_pairE split: if_splits)
  from accept_frame [OF a] s2 show "sd_effects s2 = sd_effects s1" "sd_bindings s2 = sd_bindings s1" by auto
qed

lemma release_request_runs: "runs s (release_request m r t)"
  unfolding release_request_def by (rule gives_call) (simp_all add: source_asks_def)

lemma acknowledge_request_runs: "runs s (acknowledge_request m)"
  unfolding acknowledge_request_def by (rule gives_call) (simp_all add: source_asks_def)

lemma claim_requests_runs: "runs s (claim_requests limit t)"
  unfolding claim_requests_def by (rule gives_call) (simp_all add: source_asks_def)

lemma relay_runs:
  assumes "source_inv s"
  shows "runs s (relay_binding_requests d digest limit)"
proof -
  have envelope: "runs s1 (relay_envelope digest now e)" if "source_inv s1" for s1 now e
    unfolding relay_envelope_def
    by (rule gives_attempt [OF accept_envelope_runs that])
      (auto intro!: gives_wbind [OF acknowledge_request_runs] gives_wbind [OF release_request_runs]
        gives_give gives_throw)
  show ?thesis unfolding relay_binding_requests_def
    by (auto intro!: gives_throw gives_wbind [OF runs_observe assms] gives_wbind [OF claim_requests_runs]
        gives_wbind [OF runs_each] envelope gives_give)
qed

lemma register_keeps:
  assumes "register_workspace_repository g actor t s = Inr (x, s')" and "source_inv s"
  shows "source_inv s' \<and> source_guar s s'"
proof -
  from assms(1) have "sd_effects s' = sd_effects s \<and> sd_bindings s' = sd_bindings s"
    unfolding register_workspace_repository_def
    by (auto simp: Let_def insert_workspace_repository_def audit_repository_change_def res_simps
        elim!: rbind_InrE rbind_pairE split: option.splits if_splits)
  with frame_keeps [OF assms(2)] show ?thesis by blast
qed

lemma remove_keeps:
  assumes "remove_workspace_repository i r actor t s = Inr (x, s')" and "source_inv s"
  shows "source_inv s' \<and> source_guar s s'"
proof -
  from assms(1) have "sd_effects s' = sd_effects s \<and> sd_bindings s' = sd_bindings s"
    unfolding remove_workspace_repository_def
    by (auto simp: repository_remove_def audit_repository_change_def res_simps Let_def
        elim!: rbind_InrE rbind_pairE split: option.splits if_splits)
  with frame_keeps [OF assms(2)] show ?thesis by blast
qed

end
