(* ===== verification/Source_Webhooks.thy ===== *)
theory Source_Webhooks
  imports Source_Recovery
begin

section \<open>The source control module: signed webhooks and the batch lanes\<close>

text \<open>
  \<^verbatim>\<open>webhooks.py\<close> and \<^verbatim>\<open>_webhook_summary.py\<close> (a signed GitLab event is verified, reduced to a safe
  summary and accepted into an inbox once), \<^verbatim>\<open>_process_webhook_inbox\<close> of
  \<^verbatim>\<open>reconciliation.py\<close> (the inbox makes the effects an event concerns due) and the lane
  scheduling of \<^verbatim>\<open>batches.py\<close>. A string of bytes is a \<open>string\<close>. HMAC-SHA256, SHA-256, the JSON
  decoder and the secret resolver are parameters (\<open>webhook_env\<close>); Base64 is written out.
\<close>

subsection \<open>Bytes\<close>

definition utf8_char :: "char \<Rightarrow> string" where
  "utf8_char c = (let n = (of_char c :: nat) in
     if n < 128 then [c] else [char_of (192 + n div 64), char_of (128 + n mod 64)])"

definition utf8 :: "string \<Rightarrow> string" where
  "utf8 s = concat (map utf8_char s)"

definition base64_alphabet :: string where
  "base64_alphabet = ''ABCDEFGHIJKLMNOPQRSTUVWXYZabcdefghijklmnopqrstuvwxyz0123456789+/''"

definition base64_digit :: "int \<Rightarrow> char" where
  "base64_digit n = base64_alphabet ! nat (n mod 64)"

definition base64_value :: "char \<Rightarrow> int option" where
  "base64_value c = map_of (zip base64_alphabet [0..63]) c"

fun base64_encode :: "string \<Rightarrow> string" where
  "base64_encode [] = []"
| "base64_encode [x] = (let n = of_char x * 16 in [base64_digit (n div 64), base64_digit n, CHR ''='', CHR ''=''])"
| "base64_encode [x, y] = (let n = (of_char x * 256 + of_char y) * 4 in
     [base64_digit (n div 4096), base64_digit (n div 64), base64_digit n, CHR ''=''])"
| "base64_encode (x # y # z # rest) = (let n = (of_char x * 256 + of_char y) * 256 + of_char z in
     base64_digit (n div 262144) # base64_digit (n div 4096) # base64_digit (n div 64)
       # base64_digit n # base64_encode rest)"

text \<open>\<open>base64.b64decode(s, validate=True)\<close>: nothing outside the alphabet, padding only at the end.\<close>

fun base64_decode :: "string \<Rightarrow> string option" where
  "base64_decode [] = Some []"
| "base64_decode (a # b # c # d # rest) =
     (case (base64_value a, base64_value b) of
        (Some p, Some q) \<Rightarrow>
          if d = CHR ''=''
          then (if rest \<noteq> [] then None
            else if c = CHR ''='' then Some [char_of ((p * 64 + q) div 16)]
            else (case base64_value c of None \<Rightarrow> None
              | Some r \<Rightarrow> let n = ((p * 64 + q) * 64 + r) div 4 in
                  Some [char_of (n div 256), char_of n]))
          else (case (base64_value c, base64_value d, base64_decode rest) of
              (Some r, Some s, Some bytes) \<Rightarrow> let n = ((p * 64 + q) * 64 + r) * 64 + s in
                Some (char_of (n div 65536) # char_of (n div 256) # char_of n # bytes)
            | _ \<Rightarrow> None)
      | _ \<Rightarrow> None)"
| "base64_decode _ = None"

subsection \<open>Verifying the signature\<close>

record webhook_env =
  we_secret :: "(string \<Rightarrow> (source_error, string) res) option"
  we_hmac :: "string \<Rightarrow> string \<Rightarrow> string"
  we_sha256 :: "string \<Rightarrow> string"
  we_loads :: "string \<Rightarrow> pyval option"

text \<open>\<open>int(timestamp)\<close> with \<open>str\<close> of it the same text: plain decimal digits, at most 4300 of them.\<close>

definition decimal_value :: "string \<Rightarrow> int" where
  "decimal_value ds = fold (\<lambda>c v. v * 10 + (of_char c - 48)) ds 0"

definition ascii_digit :: "char \<Rightarrow> bool" where
  "ascii_digit c = (c \<in> set ''0123456789'')"

definition parse_timestamp :: "string \<Rightarrow> int option" where
  "parse_timestamp s =
     (let negative = take 1 s = ''-''; ds = (if negative then drop 1 s else s);
          v = (if negative then - decimal_value ds else decimal_value ds)
      in if list_all ascii_digit ds \<and> int (length ds) \<le> 4300 \<and> str_of_int v = s then Some v else None)"

definition remove_prefix :: "string \<Rightarrow> string \<Rightarrow> string" where
  "remove_prefix p s = (if take (length p) s = p then drop (length p) s else s)"

text \<open>\<open>any(value and hmac.compare_digest(expected, value) ...)\<close>: a text outside ASCII raises.\<close>

fun any_signature :: "string \<Rightarrow> string list \<Rightarrow> (source_error, bool) res" where
  "any_signature expected [] = Inr False"
| "any_signature expected (v # vs) =
     (if v = [] then any_signature expected vs
      else if \<not> list_all (\<lambda>c. of_char c < (128 :: nat)) v then Inl UnexpectedError
      else if v = expected then Inr True
      else any_signature expected vs)"

definition earliest_timestamp :: int where
  "earliest_timestamp = - 62135596800"

definition latest_timestamp :: int where
  "latest_timestamp = 253402300799"

definition expected_signature :: "webhook_env \<Rightarrow> string \<Rightarrow> string \<Rightarrow> string \<Rightarrow> string \<Rightarrow> string" where
  "expected_signature env key webhook_id timestamp raw_body =
     ''v1,'' @ base64_encode (we_hmac env key (utf8 webhook_id @ ''.'' @ timestamp @ ''.'' @ raw_body))"

definition verify_gitlab_standard_webhook ::
  "webhook_env \<Rightarrow> string \<Rightarrow> string \<Rightarrow> string \<Rightarrow> string \<Rightarrow> string \<Rightarrow> instant \<Rightarrow> duration
   \<Rightarrow> (source_error, string \<times> instant) res" where
  "verify_gitlab_standard_webhook env token webhook_id timestamp signature_header raw_body now window =
     (if webhook_id = [] \<or> timestamp = [] \<or> signature_header = [] then Inl WebhookSignatureInvalid
      else if take 6 token \<noteq> ''whsec_'' then Inl WebhookSignatureInvalid
      else case (parse_timestamp timestamp, base64_decode (remove_prefix ''whsec_'' token)) of
        (Some t, Some key) \<Rightarrow>
          if key = [] then Inl WebhookSignatureInvalid
          else if t < earliest_timestamp \<or> latest_timestamp < t then Inl UnexpectedError
          else let occurred_at = seconds t
            in if window < abs (now - occurred_at) then Inl WebhookReplayRejected
              else rbind (any_signature (expected_signature env key webhook_id timestamp raw_body)
                  (split_on CHR '' '' signature_header)) (\<lambda>valid.
                if \<not> valid then Inl WebhookSignatureInvalid else Inr (webhook_id, occurred_at))
      | _ \<Rightarrow> Inl WebhookSignatureInvalid)"

subsection \<open>The safe summary\<close>

definition optional_text :: "(string \<times> pyval) list \<Rightarrow> string \<Rightarrow> string option" where
  "optional_text kvs k = (case map_of kvs k of
     Some (PyStr s) \<Rightarrow> if blank s then None else Some s | _ \<Rightarrow> None)"

definition required_text :: "(string \<times> pyval) list \<Rightarrow> string \<Rightarrow> (source_error, string) res" where
  "required_text kvs k = (case map_of kvs k of
     Some (PyStr s) \<Rightarrow> if blank s then Inl WebhookPayloadInvalid else Inr s
   | _ \<Rightarrow> Inl WebhookPayloadInvalid)"

definition project_text :: "pyval option \<Rightarrow> string option" where
  "project_text v = (case v of
     Some (PyStr s) \<Rightarrow> Some s | Some (PyInt i) \<Rightarrow> Some (str_of_int i) | _ \<Rightarrow> None)"

definition matches_project :: "pyval option \<Rightarrow> string \<Rightarrow> bool" where
  "matches_project v expected = (project_text v = Some expected)"

definition validate_event_header :: "string option \<Rightarrow> string \<Rightarrow> (source_error, unit) res" where
  "validate_event_header actual expected =
     (if actual \<noteq> None \<and> actual \<noteq> Some expected then Inl WebhookPayloadInvalid else Inr ())"

definition mr_actions :: "string list" where
  "mr_actions = [''open'', ''update'', ''merge'', ''close'', ''reopen'']"

definition mr_states :: "string list" where
  "mr_states = [''opened'', ''merged'', ''closed'', ''locked'']"

definition merge_request_summary ::
  "(string \<times> pyval) list \<Rightarrow> string \<Rightarrow> string option \<Rightarrow> (source_error, webhook_summary) res" where
  "merge_request_summary payload project event_header =
     rbind (validate_event_header event_header ''Merge Request Hook'') (\<lambda>_.
     case map_of payload ''object_attributes'' of
       Some (PyDict attributes) \<Rightarrow>
         (case map_of attributes ''iid'' of
            Some (PyInt iid) \<Rightarrow>
              if iid < 1 then Inl WebhookPayloadInvalid
              else if \<not> (matches_project (map_of attributes ''source_project_id'') project
                \<and> matches_project (map_of attributes ''target_project_id'') project)
              then Inl WebhookPayloadInvalid
              else rbind (required_text attributes ''action'') (\<lambda>action.
                rbind (required_text attributes ''state'') (\<lambda>state.
                rbind (required_text attributes ''source_branch'') (\<lambda>source_branch.
                rbind (required_text attributes ''target_branch'') (\<lambda>target_branch.
                case map_of attributes ''last_commit'' of
                  Some (PyDict commit) \<Rightarrow> rbind (required_text commit ''id'') (\<lambda>head.
                    let old_head = optional_text attributes ''oldrev''
                    in if action \<notin> set mr_actions \<or> state \<notin> set mr_states \<or> \<not> exact_head_sha head
                         \<or> \<not> (case old_head of None \<Rightarrow> True | Some sha \<Rightarrow> exact_head_sha sha)
                       then Inl WebhookPayloadInvalid
                       else Inr \<lparr>ws_event_type = ''Merge Request Hook'',
                         ws_object_kind = Some ''merge_request'', ws_project = project,
                         ws_ref = None, ws_before = None, ws_after = None, ws_checkout = None,
                         ws_mr_iid = Some iid, ws_mr_action = Some action,
                         ws_source_branch = Some source_branch, ws_target_branch = Some target_branch,
                         ws_mr_state = Some state, ws_old_head = old_head, ws_head = Some head\<rparr>)
                | _ \<Rightarrow> Inl WebhookPayloadInvalid))))
          | _ \<Rightarrow> Inl WebhookPayloadInvalid)
     | _ \<Rightarrow> Inl WebhookPayloadInvalid)"

definition plain_summary :: "string \<Rightarrow> string option \<Rightarrow> string \<Rightarrow> webhook_summary" where
  "plain_summary event_type object_kind project = \<lparr>ws_event_type = event_type,
     ws_object_kind = object_kind, ws_project = project, ws_ref = None, ws_before = None,
     ws_after = None, ws_checkout = None, ws_mr_iid = None, ws_mr_action = None,
     ws_source_branch = None, ws_target_branch = None, ws_mr_state = None,
     ws_old_head = None, ws_head = None\<rparr>"

definition parse_safe_webhook_summary ::
  "(string \<times> pyval) list \<Rightarrow> string \<Rightarrow> string option \<Rightarrow> (source_error, webhook_summary) res" where
  "parse_safe_webhook_summary payload project event_header =
     (let object_kind = optional_text payload ''object_kind''
      in if object_kind = Some ''merge_request''
         then merge_request_summary payload project event_header
         else if object_kind = Some ''push''
         then rbind (validate_event_header event_header ''Push Hook'') (\<lambda>_.
           Inr ((plain_summary ''Push Hook'' (Some ''push'') project)
             \<lparr>ws_ref := optional_text payload ''ref'', ws_before := optional_text payload ''before'',
              ws_after := optional_text payload ''after'',
              ws_checkout := optional_text payload ''checkout_sha''\<rparr>))
         else Inr (plain_summary (case event_header of
             Some (c # cs) \<Rightarrow> c # cs | _ \<Rightarrow> ''Unknown'') object_kind project))"

subsection \<open>Accepting an event\<close>

definition webhook_correlation :: "string \<Rightarrow> string" where
  "webhook_correlation repository = ''source-control:webhook:'' @ repository"

definition reject_webhook :: "string \<Rightarrow> string \<Rightarrow> source_error \<Rightarrow> 'x source_task" where
  "reject_webhook repository reason e =
     wbind (transact (\<lambda>tx db. Inr ((), append_lifecycle_audit tx 0 0
         \<lparr>lf_action = ''source_control.webhook.rejected'', lf_target_type = ''workspace_repository'',
          lf_target_id = repository, lf_result = ''DENIED'', lf_reason = Some reason,
          lf_correlation = Some (webhook_correlation repository)\<rparr> db)))
       (\<lambda>_. throw e)"

text \<open>\<open>{key.lower(): value}\<close>: of two names that agree the later wins.\<close>

definition header :: "(string \<times> string) list \<Rightarrow> string \<Rightarrow> string option" where
  "header headers k = map_of (rev (map (\<lambda>(key, v). (lower key, v)) headers)) k"

definition header_text :: "(string \<times> string) list \<Rightarrow> string \<Rightarrow> string" where
  "header_text headers k = (case header headers k of None \<Rightarrow> [] | Some v \<Rightarrow> v)"

definition verified_webhook ::
  "webhook_env \<Rightarrow> (string \<Rightarrow> (source_error, string) res) \<Rightarrow> string \<Rightarrow> (string \<times> string) list
   \<Rightarrow> string \<Rightarrow> policy_settings \<Rightarrow> (string \<times> instant) source_task" where
  "verified_webhook env secrets reference headers raw_body p =
     wbind (Done (secrets reference)) (\<lambda>token.
     observe (\<lambda>tx db. verify_gitlab_standard_webhook env token (header_text headers ''webhook-id'')
       (header_text headers ''webhook-timestamp'') (header_text headers ''webhook-signature'')
       raw_body (st_clock tx 0) (seconds (ps_replay_window p))))"

definition verification_failed :: "string \<Rightarrow> source_error \<Rightarrow> 'x source_task" where
  "verification_failed repository e =
     (if e = SourceControlDependencyUnavailable
      then reject_webhook repository ''WEBHOOK_VERIFICATION_UNAVAILABLE'' e
      else if e = WebhookReplayRejected
      then reject_webhook repository ''WEBHOOK_REPLAY_REJECTED'' e
      else if e = WebhookSignatureInvalid
      then reject_webhook repository ''WEBHOOK_SIGNATURE_INVALID'' e
      else reject_webhook repository ''WEBHOOK_VERIFICATION_UNAVAILABLE'' WebhookSignatureInvalid)"

definition safe_payload ::
  "webhook_env \<Rightarrow> repository_row \<Rightarrow> string \<Rightarrow> string option
   \<Rightarrow> (string \<times> source_error, webhook_summary) res" where
  "safe_payload env repository raw_body event_header =
     (case we_loads env raw_body of
        Some (PyDict payload) \<Rightarrow> (case map_of payload ''project'' of
            Some (PyDict project) \<Rightarrow>
              if \<not> matches_project (map_of project ''id'') (rp_project repository)
              then Inl (''WEBHOOK_PROJECT_MISMATCH'', WebhookPayloadInvalid)
              else (case parse_safe_webhook_summary payload (rp_project repository) event_header of
                  Inl e \<Rightarrow> Inl (''WEBHOOK_PAYLOAD_INVALID'', e) | Inr s \<Rightarrow> Inr s)
          | _ \<Rightarrow> Inl (''WEBHOOK_PAYLOAD_INVALID'', WebhookPayloadInvalid))
      | _ \<Rightarrow> Inl (''WEBHOOK_PAYLOAD_INVALID'', WebhookPayloadInvalid))"

definition summary_inbox_state :: "webhook_summary \<Rightarrow> webhook_state" where
  "summary_inbox_state s = (if ws_object_kind s \<in> {Some ''push'', Some ''merge_request''}
     then HOOK_RECEIVED else HOOK_IGNORED)"

text \<open>The accepting transaction; \<open>None\<close> when the id is known with another payload.\<close>

definition store_webhook ::
  "string \<Rightarrow> string \<times> instant \<Rightarrow> string \<Rightarrow> string option \<Rightarrow> webhook_summary \<Rightarrow> instant \<Rightarrow> source_tx
   \<Rightarrow> source_db \<Rightarrow> (source_error, webhook_row option \<times> source_db) res" where
  "store_webhook repository verified digest event_uuid summary now tx db =
     rbind (accept_webhook \<lparr>wh_id = st_id tx 0, wh_repository = repository,
         wh_webhook = fst verified, wh_timestamp = snd verified, wh_digest = digest,
         wh_event_uuid = event_uuid, wh_summary = summary, wh_state = summary_inbox_state summary,
         wh_error = None, wh_received_at = now, wh_updated_at = now,
         wh_processed_at = (if summary_inbox_state summary = HOOK_IGNORED then Some now else None)\<rparr> db)
       (\<lambda>(inserted, db1). case inserted of
          Some r \<Rightarrow> Inr (Some r, append_lifecycle_audit tx 1 0
            (lifecycle_success (if summary_inbox_state summary = HOOK_RECEIVED
                then ''source_control.webhook.accepted'' else ''source_control.webhook.ignored'')
              ''webhook_inbox'' (wh_id r) (webhook_correlation repository)) db1)
        | None \<Rightarrow> (case webhook_by_message repository (fst verified) db1 of
            None \<Rightarrow> Inl WebhookIdConflict
          | Some existing \<Rightarrow>
              if wh_digest existing \<noteq> digest
              then Inr (None, db1\<lparr>sd_audit := append_in_transaction (st_request tx)
                \<lparr>ae_id = st_id tx 1, ae_occurred_at = now, ae_actor = ''SYSTEM'',
                 ae_actor_type = ''SYSTEM'', ae_action = ''source_control.webhook.conflict'',
                 ae_target_type = ''webhook_inbox'', ae_target_id = fst verified,
                 ae_result = ''DENIED'', ae_reason = Some ''WEBHOOK_ID_CONFLICT'',
                 ae_correlation_id = webhook_correlation repository,
                 ae_request_id = None, ae_schema_version = 1\<rparr> (sd_audit db1)\<rparr>)
              else Inr (Some existing, db1)))"

definition ingest_signed_gitlab_webhook ::
  "source_deps \<Rightarrow> webhook_env \<Rightarrow> string \<Rightarrow> string \<Rightarrow> (string \<times> string) list \<Rightarrow> webhook_row source_task" where
  "ingest_signed_gitlab_webhook d env repository raw_body headers =
     wbind (observe (\<lambda>tx db. Inr (workspace_repository repository db))) (\<lambda>found.
       case (found, dp_policy d, we_secret env) of
         (Some row, Some p, Some secrets) \<Rightarrow>
           (case (rp_status row, rp_webhook_secret row) of
              (AUTHORIZED, Some reference) \<Rightarrow>
                attempt (verified_webhook env secrets reference headers raw_body p)
                  (verification_failed repository)
                  (\<lambda>verified. case safe_payload env row raw_body (header headers ''x-gitlab-event'') of
                     Inl (reason, e) \<Rightarrow> reject_webhook repository reason e
                   | Inr summary \<Rightarrow> wbind (observe (\<lambda>tx db. Inr (st_clock tx 0))) (\<lambda>now.
                       wbind (transact (store_webhook repository verified
                           (''sha256:'' @ we_sha256 env raw_body)
                           (header headers ''x-gitlab-event-uuid'') summary now))
                         (\<lambda>stored. case stored of
                            None \<Rightarrow> throw WebhookIdConflict | Some r \<Rightarrow> give r)))
            | _ \<Rightarrow> reject_webhook repository ''WEBHOOK_VERIFICATION_UNAVAILABLE'' WebhookSignatureInvalid)
       | _ \<Rightarrow> reject_webhook repository ''WEBHOOK_VERIFICATION_UNAVAILABLE'' WebhookSignatureInvalid)"

subsection \<open>Processing the inbox\<close>

definition scheduled_effects ::
  "webhook_row \<Rightarrow> instant \<Rightarrow> source_db \<Rightarrow> (source_error, nat \<times> source_db) res" where
  "scheduled_effects inbox now db =
     (let s = wh_summary inbox
      in if ws_object_kind s = Some ''merge_request''
         then (case ws_mr_iid s of
             None \<Rightarrow> Inl UnexpectedError
           | Some iid \<Rightarrow> make_integration_effect_due (wh_repository inbox) (ws_project s) iid
               (case ws_source_branch s of None \<Rightarrow> ''None'' | Some b \<Rightarrow> b)
               (case ws_target_branch s of None \<Rightarrow> ''None'' | Some b \<Rightarrow> b) now db)
         else
           let branch = (case ws_ref s of None \<Rightarrow> [] | Some r \<Rightarrow> remove_prefix ''refs/heads/'' r)
           in if branch = [] then Inr (0, db)
              else make_unknown_effect_due (wh_repository inbox) branch now db)"

definition settle_webhook ::
  "string \<Rightarrow> instant \<Rightarrow> bool \<Rightarrow> source_tx \<Rightarrow> source_db \<Rightarrow> (source_error, nat \<times> source_db) res" where
  "settle_webhook i now claim_required tx db =
     (case webhook_by_id i db of
        Some inbox \<Rightarrow>
          if wh_state inbox \<noteq> HOOK_RECEIVED
          then (if claim_required then Inl InboxClaimLost else Inr (0, db))
          else rbind (scheduled_effects inbox now db) (\<lambda>(scheduled, db1).
            rbind (complete_webhook i now db1) (\<lambda>db2.
              Inr (scheduled, append_lifecycle_audit tx 0 0 (lifecycle_success
                ''source_control.webhook.processed'' ''webhook_inbox'' i
                (webhook_correlation (wh_repository inbox))) db2)))
      | None \<Rightarrow> if claim_required then Inl InboxClaimLost else Inr (0, db))"

definition process_webhook_inbox :: "string \<Rightarrow> bool \<Rightarrow> nat source_task" where
  "process_webhook_inbox i claim_required =
     wbind (observe (\<lambda>tx db. Inr (st_clock tx 0))) (\<lambda>now.
       transact (settle_webhook i now claim_required))"

subsection \<open>The lanes of a batch\<close>

definition lane_limits :: "int \<Rightarrow> nat \<Rightarrow> int list" where
  "lane_limits limit lane_count =
     (let quotient = limit div int lane_count; remainder = limit mod int lane_count
      in map (\<lambda>i. quotient + (if int i < remainder then 1 else 0)) [0..<lane_count])"

definition safe_error_codes :: "string option list \<Rightarrow> string list" where
  "safe_error_codes values =
     concat (map (\<lambda>v. case v of Some x \<Rightarrow> (if map_of reason_table x \<noteq> None then [x] else []) | None \<Rightarrow> []) values)"

text \<open>One pass over the lanes, each with its offset; and the passes until the limit or the end.\<close>

fun round_robin_pass ::
  "nat \<Rightarrow> 'c list \<Rightarrow> ('c list \<times> nat) list \<Rightarrow> 'c list \<times> ('c list \<times> nat) list \<times> bool" where
  "round_robin_pass limit selected [] = (selected, [], False)"
| "round_robin_pass limit selected ((lane, offset) # lanes) =
     (if limit \<le> length selected then (selected, (lane, offset) # lanes, False)
      else if length lane \<le> offset
      then (case round_robin_pass limit selected lanes of
          (s, ls, added) \<Rightarrow> (s, (lane, offset) # ls, added))
      else (case round_robin_pass limit (selected @ [lane ! offset]) lanes of
          (s, ls, added) \<Rightarrow> (s, (lane, offset + 1) # ls, True)))"

lemma round_robin_pass_grows:
  "round_robin_pass limit selected lanes = (s, ls, added) \<Longrightarrow>
   length selected \<le> length s \<and> (added \<longrightarrow> length selected < length s)"
  by (induction limit selected lanes arbitrary: s ls added rule: round_robin_pass.induct)
    (fastforce split: if_splits prod.splits)+

function round_robin ::
  "nat \<Rightarrow> 'c list \<Rightarrow> ('c list \<times> nat) list \<Rightarrow> 'c list" where
  "round_robin limit selected lanes =
     (if length selected < limit
      then (case round_robin_pass limit selected lanes of
          (s, ls, added) \<Rightarrow> if added then round_robin limit s ls else s)
      else selected)"
  by pat_completeness auto
termination
  by (relation "measure (\<lambda>(limit, selected, lanes). limit - length selected)")
    (auto dest!: round_robin_pass_grows [OF sym])

definition round_robin_candidates :: "'c list list \<Rightarrow> nat \<Rightarrow> 'c list" where
  "round_robin_candidates lanes limit = round_robin limit [] (map (\<lambda>l. (l, 0)) lanes)"

definition retry_at :: "instant \<Rightarrow> int \<Rightarrow> instant" where
  "retry_at now next_attempt =
     (let exponent = min (max (next_attempt - 1) 0) 6
      in now + seconds (min (5 * 2 ^ nat exponent) 300))"

end
