(* ===== verification/Source_Pool.thy ===== *)
theory Source_Pool
  imports Source_Webhooks
begin

section \<open>The source control module: the handlers as one pool\<close>

text \<open>
  The handlers of the module (\<open>source_handlers\<close>) as one pool over the database: any number of
  relays, sagas, reconcilers and webhook requests, started, interleaved and lost at every
  transaction boundary. By \<open>source.pool_run_ok\<close> each reachable state keeps \<open>source_inv\<close> and each
  step the guarantee.
\<close>

subsection \<open>Webhooks keep the contract\<close>

lemma reject_webhook_runs: "source_inv s \<Longrightarrow> runs s (reject_webhook repository r e)"
  unfolding reject_webhook_def
  by (rule gives_wbind [OF runs_transact]) (auto intro: gives_throw simp: source_guar_refl)

lemma accept_webhook_frame:
  "accept_webhook r db = Inr (x, db') \<Longrightarrow>
   sd_effects db' = sd_effects db \<and> sd_bindings db' = sd_bindings db"
  unfolding accept_webhook_def by (auto simp: res_simps split: if_splits)

lemma store_webhook_keeps:
  assumes "store_webhook repository v digest u summary now t s = Inr (x, s')" and "source_inv s"
  shows "source_inv s' \<and> source_guar s s'"
proof -
  from assms(1) obtain r inserted s1 where a: "accept_webhook r s = Inr (inserted, s1)"
    and rest: "(case inserted of
        Some r \<Rightarrow> Inr (Some r, append_lifecycle_audit t 1 0
          (lifecycle_success (if summary_inbox_state summary = HOOK_RECEIVED
              then ''source_control.webhook.accepted'' else ''source_control.webhook.ignored'')
            ''webhook_inbox'' (wh_id r) (webhook_correlation repository)) s1)
      | None \<Rightarrow> (case webhook_by_message repository (fst v) s1 of
          None \<Rightarrow> Inl WebhookIdConflict
        | Some existing \<Rightarrow>
            if wh_digest existing \<noteq> digest
            then Inr (None, s1\<lparr>sd_audit := append_in_transaction (st_request t)
              \<lparr>ae_id = st_id t 1, ae_occurred_at = now, ae_actor = ''SYSTEM'',
               ae_actor_type = ''SYSTEM'', ae_action = ''source_control.webhook.conflict'',
               ae_target_type = ''webhook_inbox'', ae_target_id = fst v,
               ae_result = ''DENIED'', ae_reason = Some ''WEBHOOK_ID_CONFLICT'',
               ae_correlation_id = webhook_correlation repository,
               ae_request_id = None, ae_schema_version = 1\<rparr> (sd_audit s1)\<rparr>)
            else Inr (Some existing, s1))) = Inr (x, s')"
    unfolding store_webhook_def by (elim rbind_pairE) blast
  have "sd_effects s' = sd_effects s1" "sd_bindings s' = sd_bindings s1"
    using rest by (auto split: option.splits if_splits)
  with accept_webhook_frame [OF a] frame_keeps [OF assms(2)] show ?thesis by simp
qed

lemma ingest_runs:
  assumes "source_inv s"
  shows "runs s (ingest_signed_gitlab_webhook d env repository body headers)"
proof -
  have verify: "runs s1 (verified_webhook env secrets reference headers body p)" for s1 secrets reference p
    unfolding verified_webhook_def by (rule gives_value) (rule runs_observe)
  show ?thesis
    unfolding ingest_signed_gitlab_webhook_def
    by (rule gives_wbind [OF runs_observe assms])
      (auto split: option.split sum.split repository_status.split
        intro!: reject_webhook_runs gives_attempt [OF verify] gives_wbind [OF runs_observe]
          gives_wbind [OF runs_transact] store_webhook_keeps gives_throw gives_give
        simp: verification_failed_def)
qed

lemma complete_webhook_frame:
  "complete_webhook i now db = Inr db' \<Longrightarrow>
   sd_effects db' = sd_effects db \<and> sd_bindings db' = sd_bindings db"
  unfolding complete_webhook_def by (auto simp: res_simps)

lemma scheduled_effects_keeps:
  assumes "scheduled_effects inbox now s = Inr (n, s')" and "source_inv s"
  shows "source_inv s' \<and> source_guar s s'"
  using assms source_guar_refl
  unfolding scheduled_effects_def make_integration_effect_due_def make_unknown_effect_due_def Let_def
  by (auto split: if_splits option.splits
      dest!: make_due_keeps [OF _ assms(2)] simp: integration_effect_matches_def Let_def)

lemma settle_webhook_keeps:
  assumes "settle_webhook i now claim_required t s = Inr (n, s')" and inv: "source_inv s"
  shows "source_inv s' \<and> source_guar s s'"
proof (cases "s' = s")
  case False
  with assms(1) obtain inbox s1 s2 where sched: "scheduled_effects inbox now s = Inr (n, s1)"
    and close: "complete_webhook i now s1 = Inr s2"
    and s': "\<exists>f. s' = append_lifecycle_audit t 0 0 f s2"
    unfolding settle_webhook_def
    by (auto split: option.splits if_splits elim!: rbind_pairE rbind_InrE)
  note keep = scheduled_effects_keeps [OF sched inv]
  have frame: "sd_effects s2 = sd_effects s1" "sd_bindings s2 = sd_bindings s1"
    using complete_webhook_frame [OF close] by simp_all
  from s' keep source_frame [OF frame] show ?thesis by auto
qed (use inv source_guar_refl in simp)

lemma process_webhook_runs:
  "source_inv s \<Longrightarrow> runs s (process_webhook_inbox i claim_required)"
  unfolding process_webhook_inbox_def
  by (auto intro!: gives_wbind [OF runs_observe] runs_transact settle_webhook_keeps)

subsection \<open>The pool\<close>

text \<open>A handler's result goes back to its caller; the pool only needs its steps.\<close>

definition finished :: "'x source_task \<Rightarrow> (source_tx, source_db, source_query, source_answer, unit) worker" where
  "finished w = and_then w (\<lambda>_. Done ())"

inductive_set source_handlers ::
  "(source_tx, source_db, source_query, source_answer, unit) worker set" where
  register: "finished (transact (register_workspace_repository g actor)) \<in> source_handlers"
| remove: "finished (transact (remove_workspace_repository i revision actor)) \<in> source_handlers"
| relay: "finished (relay_binding_requests d digest limit) \<in> source_handlers"
| saga: "finished (process_binding_request d claim_required m) \<in> source_handlers"
| reconcile: "finished (reconcile_due_effects d quota) \<in> source_handlers"
| ingest: "finished (ingest_signed_gitlab_webhook d env i body headers) \<in> source_handlers"
| webhook: "finished (process_webhook_inbox i claim_required) \<in> source_handlers"

lemma finished_sat:
  assumes "runs s w" and "source_inv s"
  shows "sat source_inv source_rely source_guar source_asks (\<lambda>_ _. True) s (finished w)"
  unfolding finished_def
  by (rule source.sat_and_then [OF assms(1) [unfolded gives_def]]) (auto intro: sat_Done assms(2))

lemma handlers_sat:
  assumes "source_inv s" and "w \<in> source_handlers"
  shows "sat source_inv source_rely source_guar source_asks (\<lambda>_ _. True) s w"
  using assms(2)
proof cases
  case (register g actor)
  show ?thesis unfolding register(1)
    by (rule finished_sat [OF runs_transact assms(1)]) (rule register_keeps)
next
  case (remove i revision actor)
  show ?thesis unfolding remove(1)
    by (rule finished_sat [OF runs_transact assms(1)]) (rule remove_keeps)
qed (simp_all add: finished_sat relay_runs process_binding_request_runs reconcile_due_effects_runs
    ingest_runs process_webhook_runs assms(1))

abbreviation reaches :: "source_db \<times> (source_tx, source_db, source_query, source_answer, unit) worker list \<Rightarrow> bool" where
  "reaches p \<equiv> (pool_step source_handlers)\<^sup>*\<^sup>* (empty_source_db, []) p"

lemma empty_source_inv: "source_inv empty_source_db"
  by (simp add: source_inv_def empty_source_db_def)

lemma reaches_ok: "reaches p \<Longrightarrow> source.pool_ok p"
  using source.pool_run_ok [OF handlers_sat _ source.pool_ok_empty [OF empty_source_inv]] by blast

lemma reaches_inv: "reaches (db, ws) \<Longrightarrow> source_inv db"
  using reaches_ok by (force simp: source.pool_ok_def)

lemma step_moves:
  assumes "reaches (db, ws)" and "pool_step source_handlers (db, ws) (db', ws')"
  shows "source_guar db db'"
  using source.pool_step_ok [OF handlers_sat assms(2) reaches_ok [OF assms(1)]] by simp

end
