(* ===== verification/Source_Demo.thy ===== *)
theory Source_Demo
  imports Source_Pool
begin

section \<open>The source control module: a concrete run\<close>

text \<open>
  One request from start to end, for the witnesses: a repository is registered, the relay accepts
  a binding request, the saga plans its effect, creates the branch and records the binding.
  \<open>demo_tx n\<close> are the readings of a step, \<open>demo_answer\<close> what the other systems reply; the number
  of steps given to each handler is more than it takes.
\<close>

definition demo_tx :: "nat \<Rightarrow> source_tx" where
  "demo_tx n = \<lparr>st_clock = (\<lambda>_. 1000), st_id = (\<lambda>i. [char_of (65 + n), char_of (97 + i)]),
     st_skipped = 0, st_request = None\<rparr>"

definition demo_sha :: string where
  "demo_sha = replicate 40 CHR ''a''"

definition demo_registration :: registration where
  "demo_registration = \<lparr>rg_repository = ''r'', rg_workspace = ''w'', rg_project = ''7'',
     rg_path = ''g/p'', rg_connection = ''c'', rg_credential = ''openbao:k'', rg_webhook_secret = None\<rparr>"

definition demo_envelope :: binding_envelope where
  "demo_envelope = \<lparr>en_message = ''m'', en_requirement = ''q'', en_requirement_version = 1,
     en_work_item = ''i'', en_repository = ''r''\<rparr>"

definition demo_context :: binding_context where
  "demo_context = \<lparr>bc_requirement = ''q'', bc_type = ''feat'', bc_title = ''Ab'',
     bc_workspace = ''w'', bc_work_item = ''i'', bc_revision = 1, bc_repository = ''r'',
     bc_assigned = True, bc_owner = Some ''u'', bc_capabilities = []\<rparr>"

definition demo_deps :: source_deps where
  "demo_deps = \<lparr>dp_requirement = True, dp_eligibility = True, dp_gitlab = True,
     dp_policy = Some \<lparr>ps_base_delay = 5, ps_max_delay = 300, ps_replay_window = 300\<rparr>,
     dp_connection = ''c'', dp_secret = (\<lambda>_. Some ''t''), dp_nfkc = id\<rparr>"

definition demo_branch :: "string \<Rightarrow> pyval" where
  "demo_branch name = PyDict [(''path_with_namespace'', PyStr ''g/p''), (''name'', PyStr name),
     (''commit'', PyDict [(''id'', PyStr demo_sha)])]"

definition demo_answer :: "nat \<Rightarrow> source_query \<Rightarrow> source_answer" where
  "demo_answer n q = (case q of
     HttpGet path token \<Rightarrow> HttpReply 200 (Some (demo_branch ''x''))
   | HttpPostBranch path branch sha token \<Rightarrow> HttpReply 201 (Some (demo_branch branch))
   | ClaimRequests limit until \<Rightarrow> Claimed [demo_envelope]
   | BindingContext w \<Rightarrow> ContextIs demo_context
   | EvaluateActor x \<Rightarrow> ActorFacts True ''u'' ''w'' []
   | _ \<Rightarrow> Acknowledged)"

definition demo_digest :: envelope_digest where
  "demo_digest e = ''d''"

definition demo_register :: "source_db \<times> (source_tx, source_db, source_query, source_answer, unit) worker" where
  "demo_register = advance 2 demo_tx demo_answer
     (empty_source_db, finished (transact (register_workspace_repository demo_registration ''HUMAN'')))"

definition demo_relay :: "source_db \<times> (source_tx, source_db, source_query, source_answer, unit) worker" where
  "demo_relay = advance 9 demo_tx demo_answer
     (fst demo_register, finished (relay_binding_requests demo_deps demo_digest 1))"

definition demo_accepted :: source_db where
  "demo_accepted = \<lparr>sd_repositories =
       [\<lparr>rp_id = ''r'', rp_workspace = ''w'', rp_provider = ''GITLAB'', rp_project = ''7'',
         rp_path = ''g/p'', rp_default_branch = ''main'', rp_connection = ''c'',
         rp_credential = ''openbao:k'', rp_webhook_secret = None, rp_status = AUTHORIZED,
         rp_revision = 1, rp_created_at = 1000, rp_updated_at = 1000\<rparr>],
     sd_inbox = [\<lparr>ib_message = ''m'', ib_payload_hash = ''d'', ib_requirement = ''q'',
         ib_requirement_version = 1, ib_work_item = ''i'', ib_repository = ''r'',
         ib_state = RECEIVED, ib_attempts = 0, ib_available_at = 1000, ib_error = None,
         ib_received_at = 1000, ib_updated_at = 1000, ib_processed_at = None\<rparr>],
     sd_effects = [], sd_bindings = [], sd_mr_bindings = [], sd_webhooks = [], sd_sequence = 1,
     sd_audit =
       [\<lparr>ae_id = ''Ba'', ae_occurred_at = 1000, ae_actor = ''HUMAN'', ae_actor_type = ''HUMAN'',
         ae_action = ''source_control.repository.registered'',
         ae_target_type = ''workspace_repository'', ae_target_id = ''r'',
         ae_result = ''SUCCESS'', ae_reason = None, ae_correlation_id = ''source-control:r'',
         ae_request_id = None, ae_schema_version = 1\<rparr>,
        \<lparr>ae_id = ''Ga'', ae_occurred_at = 1000, ae_actor = ''SYSTEM:SOURCE_CONTROL'',
         ae_actor_type = ''SYSTEM'', ae_action = ''source_control.binding_request.accepted'',
         ae_target_type = ''binding_request_inbox'', ae_target_id = ''m'',
         ae_result = ''SUCCESS'', ae_reason = None,
         ae_correlation_id = ''source-control:work-item:i'', ae_request_id = None,
         ae_schema_version = 1\<rparr>]\<rparr>"

lemma demo_accepted: "fst demo_relay = demo_accepted"
  by code_simp

definition demo_saga :: "nat \<Rightarrow> source_db \<times> (source_tx, source_db, source_query, source_answer, unit) worker" where
  "demo_saga n = advance n demo_tx demo_answer
     (demo_accepted, finished (process_binding_request demo_deps False ''m''))"

lemma demo_saga_reached:
  "reaches (fst (demo_saga n), [snd demo_register, snd demo_relay, snd (demo_saga n)])"
proof -
  have "reaches (fst demo_register, [snd demo_register])"
    using started_runs [OF source_handlers.register, of 2 demo_tx demo_answer empty_source_db
        demo_registration "''HUMAN''" "fst demo_register" "snd demo_register" "[]"]
    by (simp add: demo_register_def)
  also have "(pool_step source_handlers)\<^sup>*\<^sup>* (fst demo_register, [snd demo_register])
      (fst demo_relay, [snd demo_register, snd demo_relay])"
    using started_runs [OF source_handlers.relay, of 9 demo_tx demo_answer "fst demo_register"
        demo_deps demo_digest 1 "fst demo_relay" "snd demo_relay" "[snd demo_register]"]
    by (simp add: demo_relay_def)
  also have "(pool_step source_handlers)\<^sup>*\<^sup>* (fst demo_relay, [snd demo_register, snd demo_relay])
      (fst (demo_saga n), [snd demo_register, snd demo_relay, snd (demo_saga n)])"
    using started_runs [OF source_handlers.saga, of n demo_tx demo_answer "fst demo_relay"
        demo_deps False "''m''" "fst (demo_saga n)" "snd (demo_saga n)" "[snd demo_register, snd demo_relay]"]
    by (simp add: demo_saga_def demo_accepted)
  finally show ?thesis .
qed

subsection \<open>What the run shows\<close>

text \<open>Nine steps in, the effect is in flight and the branch request is about to be sent.\<close>

lemma demo_effect: "map (\<lambda>e. (branch_effect e, ef_state e, ef_attempts e, ef_created_at e, ef_next_reconcile e))
      (sd_effects (fst (demo_saga 9)))
    = [(True, IN_FLIGHT, 1, 1000, Some 120001000)]"
  by code_simp

lemma demo_in_flight: "\<exists>e. sd_effects (fst (demo_saga 9)) = [e] \<and> branch_effect e
    \<and> ef_state e = IN_FLIGHT \<and> ef_attempts e = 1 \<and> ef_created_at e = 1000
    \<and> ef_next_reconcile e = Some 120001000"
  using demo_effect by (auto simp: map_eq_Cons_conv)

lemma demo_post: "(case snd (demo_saga 9) of
    Ask (HttpPostBranch path branch sha token) k \<Rightarrow> branch = ''feat/wi-1-ab'' | _ \<Rightarrow> False)"
  by code_simp

lemma demo_posting: "\<exists>path sha token k. snd (demo_saga 9) = Ask (HttpPostBranch path ''feat/wi-1-ab'' sha token) k"
  using demo_post by (auto split: worker.splits source_query.splits)

text \<open>Four steps later the branch is verified and the binding recorded.\<close>

lemma demo_bound: "sd_bindings (fst (demo_saga 13)) \<noteq> []"
  by code_simp

end
