(* ===== verification/Source_Safety.thy ===== *)
theory Source_Safety
  imports Source_Demo
begin

section \<open>The source control module: what holds under every interleaving\<close>

text \<open>
  The theorems on every state and step a pool of the module's handlers can reach: bindings and
  succeeded effects correspond, a call of another system follows the record it rests on, the
  effects refine the domain's table step by step, each having followed a path of it, a claim fences
  the attempts before it, and an effect that was begun is claimed again. The witnesses take the run of \<open>Source_Demo\<close>.
\<close>

subsection \<open>Bindings and effects\<close>

text \<open>C3: under any interleaving and loss of handlers a branch binding exists exactly for each succeeded effect: one, of the same work item, with the number, branch and base commit the effect planned.\<close>

theorem bindings_match_effects:
  assumes "(pool_step source_handlers)\<^sup>*\<^sup>* (empty_source_db, []) (db, ws)"
  shows "(\<forall>b \<in> set (sd_bindings db). \<exists>!e. e \<in> set (sd_effects db) \<and> ef_id e = bd_effect b
      \<and> branch_effect e \<and> ef_state e = EFFECT_SUCCEEDED \<and> ef_work_item e = bd_work_item b
      \<and> ef_number e = Some (bd_number b)
      \<and> map_option strip (ef_branch e) = Some (strip (bd_branch b))
      \<and> map_option strip (ef_base e) = Some (strip (bd_base b)))
    \<and> (\<forall>e \<in> set (sd_effects db). branch_effect e \<and> ef_state e = EFFECT_SUCCEEDED \<longrightarrow>
        (\<exists>!b. b \<in> set (sd_bindings db) \<and> bd_work_item b = ef_work_item e \<and> bd_effect b = ef_id e))"
proof -
  have inv: "source_inv db" using reaches_inv [OF assms] .
  have "\<exists>!e. e \<in> set (sd_effects db) \<and> ef_id e = bd_effect b \<and> branch_effect e
      \<and> ef_state e = EFFECT_SUCCEEDED \<and> ef_work_item e = bd_work_item b
      \<and> ef_number e = Some (bd_number b)
      \<and> map_option strip (ef_branch e) = Some (strip (bd_branch b))
      \<and> map_option strip (ef_base e) = Some (strip (bd_base b))"
    if b: "b \<in> set (sd_bindings db)" for b
  proof -
    obtain e where e: "e \<in> set (sd_effects db)" "binds b e" "ef_state e = EFFECT_SUCCEEDED"
      using inv b unfolding source_inv_def by blast
    note fields = e(2) [unfolded binds_def coordinates_def prod.inject]
    show ?thesis
    proof (rule ex1I [of _ e])
      fix x
      assume "x \<in> set (sd_effects db) \<and> ef_id x = bd_effect b \<and> branch_effect x
        \<and> ef_state x = EFFECT_SUCCEEDED \<and> ef_work_item x = bd_work_item b
        \<and> ef_number x = Some (bd_number b)
        \<and> map_option strip (ef_branch x) = Some (strip (bd_branch b))
        \<and> map_option strip (ef_base x) = Some (strip (bd_base b))"
      then show "x = e" using same_effect(1) [OF inv _ e(1)] fields by metis
    qed (use e(1,3) fields in blast)
  qed
  moreover have "\<exists>!b. b \<in> set (sd_bindings db) \<and> bd_work_item b = ef_work_item e \<and> bd_effect b = ef_id e"
    if e: "e \<in> set (sd_effects db)" "branch_effect e \<and> ef_state e = EFFECT_SUCCEEDED" for e
  proof -
    obtain b where b: "b \<in> set (sd_bindings db)" "bd_effect b = ef_id e"
      using inv e unfolding source_inv_def by force
    obtain x where x: "x \<in> set (sd_effects db)" "binds b x"
      using inv b(1) unfolding source_inv_def by blast
    with b(2) same_effect(1) [OF inv x(1) e(1)] have "bd_work_item b = ef_work_item e"
      by (auto simp: binds_def)
    with b show ?thesis
      using same_key [of bd_effect "sd_bindings db"] inv unfolding source_inv_def
      by (intro ex1I [of _ b]) auto
  qed
  ultimately show ?thesis by blast
qed

theorem bindings_match_effects_witness:
  "\<exists>b \<in> set (sd_bindings (fst (demo_saga 13))). \<exists>e \<in> set (sd_effects (fst (demo_saga 13))).
     ef_id e = bd_effect b \<and> ef_state e = EFFECT_SUCCEEDED \<and> ef_number e = Some (bd_number b)"
proof -
  obtain b where "b \<in> set (sd_bindings (fst (demo_saga 13)))" using demo_bound by fastforce
  with bindings_match_effects [OF demo_saga_reached, of 13] show ?thesis by blast
qed

text \<open>C4: whenever a branch creation is about to be sent to GitLab, an effect that has left PLANNED is stored with that branch and commit, and whenever Requirement is about to be told of a binding, that binding is stored; so a crash after the call leaves a record to reconcile from.\<close>

theorem calls_follow_records:
  assumes "(pool_step source_handlers)\<^sup>*\<^sup>* (empty_source_db, []) (db, ws)" and "Ask q k \<in> set ws"
  shows "(\<forall>path branch sha token. q = HttpPostBranch path branch sha token \<longrightarrow>
        (\<exists>e \<in> set (sd_effects db). branch_effect e \<and> ef_state e \<noteq> EFFECT_PLANNED
           \<and> map_option strip (ef_branch e) = Some branch \<and> map_option strip (ef_base e) = Some sha))
    \<and> (\<forall>r. q = RecordReady r \<longrightarrow> (\<exists>b \<in> set (sd_bindings db). rr_work_item r = bd_work_item b
           \<and> rr_repository r = strip (bd_repository b) \<and> rr_base r = strip (bd_base b)
           \<and> rr_branch r = strip (bd_branch b)))"
proof -
  have asks: "source_asks db q" using source.pool_asks [OF reaches_ok [OF assms(1)] assms(2)] .
  then show ?thesis
    by (cases q) (force simp: source_asks_def bound_def binding_dto_def split: if_splits)+
qed

theorem calls_follow_records_witness:
  "\<exists>e \<in> set (sd_effects (fst (demo_saga 9))). branch_effect e \<and> ef_state e \<noteq> EFFECT_PLANNED
     \<and> map_option strip (ef_branch e) = Some ''feat/wi-1-ab''"
proof -
  obtain path sha token k where
    ask: "snd (demo_saga 9) = Ask (HttpPostBranch path ''feat/wi-1-ab'' sha token) k"
    using demo_posting by blast
  then have "Ask (HttpPostBranch path ''feat/wi-1-ab'' sha token) k
      \<in> set [snd demo_register, snd demo_relay, snd (demo_saga 9)]" by simp
  from calls_follow_records [OF demo_saga_reached this] show ?thesis by blast
qed

subsection \<open>The effect's state machine\<close>

text \<open>The abstract machine: per effect its state and the attempts it has used. One step may move
  several effects, each along the domain's table; entering IN_FLIGHT or RECONCILIATION is an attempt.\<close>

type_synonym effect_map = "string \<Rightarrow> (effect_state \<times> int) option"

definition effect_map :: "source_db \<Rightarrow> effect_map" where
  "effect_map db i = map_option (\<lambda>e. (ef_state e, ef_attempts e)) (row_by ef_id i (sd_effects db))"

definition attempt_cost :: "effect_state \<Rightarrow> int" where
  "attempt_cost s = (if s = IN_FLIGHT \<or> s = RECONCILIATION then 1 else 0)"

definition effect_step :: "effect_map \<Rightarrow> effect_map \<Rightarrow> bool" where
  "effect_step m m' \<longleftrightarrow> (\<forall>i. m' i = m i
     \<or> m i = None \<and> m' i = Some (EFFECT_PLANNED, 0)
     \<or> (\<exists>s n s'. m i = Some (s, n) \<and> transition_effect s s' = Inr s'
          \<and> m' i = Some (s', n + attempt_cost s')))"

text \<open>The states an effect passes through after \<open>s\<close>, each allowed by the table after the one before,
  and the attempts they cost.\<close>

fun follows_table :: "effect_state \<Rightarrow> effect_state list \<Rightarrow> bool" where
  "follows_table s [] = True"
| "follows_table s (t # ts) = (transition_effect s t = Inr t \<and> follows_table t ts)"

definition attempts_along :: "effect_state list \<Rightarrow> int" where
  "attempts_along ts = sum_list (map attempt_cost ts)"

lemma follows_table_snoc:
  "follows_table s (ts @ [t]) \<longleftrightarrow> follows_table s ts \<and> transition_effect (last (s # ts)) t = Inr t"
  by (induction ts arbitrary: s) auto

lemma effect_row_moves:
  assumes "source_guar db db'" and "source_inv db" and "source_inv db'"
  shows "effect_step (effect_map db) (effect_map db')"
  unfolding effect_step_def
proof
  fix i
  have dist: "distinct (map ef_id (sd_effects db'))" using assms(3) by (simp add: source_inv_def)
  show "effect_map db' i = effect_map db i
     \<or> effect_map db i = None \<and> effect_map db' i = Some (EFFECT_PLANNED, 0)
     \<or> (\<exists>s n s'. effect_map db i = Some (s, n) \<and> transition_effect s s' = Inr s'
          \<and> effect_map db' i = Some (s', n + attempt_cost s'))"
  proof (cases "row_by ef_id i (sd_effects db)")
    case None
    then have new: "i \<notin> ef_id ` set (sd_effects db)" by (simp add: row_by_None)
    show ?thesis
    proof (cases "row_by ef_id i (sd_effects db')")
      case (Some e')
      with row_by_Some [OF Some] new assms(1) have "ef_state e' = EFFECT_PLANNED"
        unfolding source_guar_def by blast
      moreover from this row_by_Some [OF Some] assms(3) have "ef_attempts e' = 0"
        by (auto simp: source_inv_def effect_ok_def)
      ultimately show ?thesis using Some None by (simp add: effect_map_def)
    qed (simp add: effect_map_def None)
  next
    case (Some e)
    with row_by_Some [OF Some] assms(1) obtain e' where e': "e' \<in> set (sd_effects db')"
        "moved_effect e e'" "ef_id e = i" unfolding source_guar_def by blast
    then have "ef_id e' = i" by (simp add: moved_effect_def identity_fields)
    with row_by_distinct [OF dist e'(1)] have row: "row_by ef_id i (sd_effects db') = Some e'" by simp
    show ?thesis
    proof (cases "ef_state e' = ef_state e \<and> ef_attempts e' = ef_attempts e")
      case False
      with e'(2) have "transition_effect (ef_state e) (ef_state e') = Inr (ef_state e')"
        "ef_attempts e' = ef_attempts e + attempt_cost (ef_state e')"
        by (auto simp: moved_effect_def transition_effect_def attempt_cost_def)
      with Some row show ?thesis by (simp add: effect_map_def)
    qed (simp add: effect_map_def Some row)
  qed
qed

interpretation effects: simulation source.pool_ok "\<lambda>p. effect_map (fst p)"
    "pool_step source_handlers" effect_step
proof unfold_locales
  fix p p'
  assume p: "source.pool_ok p" and step: "pool_step source_handlers p p'"
  note ok = source.pool_step_ok [OF handlers_sat step p]
  then show "source.pool_ok p'" by blast
  have "effect_step (effect_map (fst p)) (effect_map (fst p'))"
    using ok p by (intro effect_row_moves) (simp_all add: source.pool_ok_def)
  then show "effect_map (fst p') = effect_map (fst p)
      \<or> effect_step (effect_map (fst p)) (effect_map (fst p'))" by blast
qed

text \<open>A step of the abstract machine extends the path of every effect it moves.\<close>

lemma effect_step_extends:
  assumes "effect_step m m'" and "m' i = Some (s', n')"
    and "\<forall>s n. m i = Some (s, n) \<longrightarrow> (\<exists>ts. follows_table EFFECT_PLANNED ts
        \<and> s = last (EFFECT_PLANNED # ts) \<and> n = attempts_along ts)"
  shows "\<exists>ts. follows_table EFFECT_PLANNED ts \<and> s' = last (EFFECT_PLANNED # ts) \<and> n' = attempts_along ts"
proof -
  from assms(1,2) consider "m i = Some (s', n')" | "s' = EFFECT_PLANNED" "n' = 0"
    | s n where "m i = Some (s, n)" "transition_effect s s' = Inr s'" "n' = n + attempt_cost s'"
    unfolding effect_step_def by (metis option.inject prod.inject)
  then show ?thesis
  proof cases
    case 2
    then show ?thesis by (intro exI [of _ "[]"]) (simp add: attempts_along_def)
  next
    case (3 s n)
    with assms(3) obtain ts where "follows_table EFFECT_PLANNED ts" "s = last (EFFECT_PLANNED # ts)"
      "n = attempts_along ts" by blast
    with 3 show ?thesis
      by (intro exI [of _ "ts @ [s']"]) (simp add: follows_table_snoc attempts_along_def)
  qed (use assms(3) in blast)
qed

lemma effect_paths:
  assumes "(pool_step source_handlers)\<^sup>*\<^sup>* (empty_source_db, []) p"
  shows "\<forall>i s n. effect_map (fst p) i = Some (s, n) \<longrightarrow> (\<exists>ts. follows_table EFFECT_PLANNED ts
    \<and> s = last (EFFECT_PLANNED # ts) \<and> n = attempts_along ts)"
  using assms
proof (induction rule: rtranclp_induct)
  case (step p q)
  have "source.pool_ok p" using effects.run_inv [OF step(1) source.pool_ok_empty [OF empty_source_inv]] .
  from effects.step_simulated [OF this step(2)] have moved: "effect_step (effect_map (fst p)) (effect_map (fst q))"
    by (auto simp: effect_step_def)
  then show ?case using effect_step_extends [OF moved] step(3) by blast
qed (simp add: effect_map_def empty_source_db_def)

text \<open>
  C16: the effects refine the transition table of the domain, step by step. In every reachable state
  each transaction or call of any worker leaves an effect as it is, plans a new one without an
  attempt, or moves it by one entry of the table, at the cost of exactly one attempt when it enters
  IN_FLIGHT or RECONCILIATION and of none otherwise; no effect disappears. Consequently a stored
  effect has followed a path of the table from PLANNED, and its attempts count the claims on it.
\<close>

theorem effects_refine_table:
  assumes "(pool_step source_handlers)\<^sup>*\<^sup>* (empty_source_db, []) (db, ws)"
  shows "(\<forall>db' ws'. pool_step source_handlers (db, ws) (db', ws')
        \<longrightarrow> effect_step (effect_map db) (effect_map db'))
    \<and> (\<forall>i s n. effect_map db i = Some (s, n) \<longrightarrow> (\<exists>ts. follows_table EFFECT_PLANNED ts
        \<and> s = last (EFFECT_PLANNED # ts) \<and> n = attempts_along ts))"
proof (intro conjI allI impI)
  have ok: "source.pool_ok (db, ws)"
    using effects.run_inv [OF assms source.pool_ok_empty [OF empty_source_inv]] .
  show "effect_step (effect_map db) (effect_map db')"
    if "pool_step source_handlers (db, ws) (db', ws')" for db' ws'
    using effects.step_simulated [OF ok that] by (auto simp: effect_step_def)
  show "\<exists>ts. follows_table EFFECT_PLANNED ts \<and> s = last (EFFECT_PLANNED # ts) \<and> n = attempts_along ts"
    if "effect_map db i = Some (s, n)" for i s n
    using effect_paths [OF assms] that by simp
qed

theorem effects_refine_table_witness:
  "\<exists>i ts. effect_map (fst (demo_saga 9)) i = Some (IN_FLIGHT, 1) \<and> follows_table EFFECT_PLANNED ts
     \<and> last (EFFECT_PLANNED # ts) = IN_FLIGHT \<and> attempts_along ts = 1"
proof -
  obtain e where "sd_effects (fst (demo_saga 9)) = [e]" "ef_state e = IN_FLIGHT" "ef_attempts e = 1"
    using demo_in_flight by blast
  then have "effect_map (fst (demo_saga 9)) (ef_id e) = Some (IN_FLIGHT, 1)"
    by (simp add: effect_map_def)
  with effects_refine_table [OF demo_saga_reached, of 9] show ?thesis by metis
qed

subsection \<open>Claims\<close>

text \<open>A worker whose effect was claimed again (another attempt or another state is stored) closes nothing: the database is unchanged and it answers with what it finds.\<close>

theorem stale_attempt_closes_nothing:
  assumes "close_effect st e change found facts tx db = Inr (r, db')"
    and "\<forall>x \<in> set (sd_effects db). ef_id x = ef_id e \<longrightarrow> ef_attempts x \<noteq> ef_attempts e \<or> ef_state x \<noteq> st"
  shows "db' = db \<and> (\<exists>y. r = Inl y \<and> found db = Inr y)"
proof -
  from assms(1) obtain row db1 where
    w: "write_effect (ef_id e) st (Some (ef_attempts e)) (change tx) db = Inr (row, db1)"
    and rest: "(case row of
          None \<Rightarrow> rbind (found db1) (\<lambda>r. Inr (Inl r, db1))
        | Some e \<Rightarrow> rbind (facts tx e db1) (\<lambda>(x, db2). Inr (Inr x, db2))) = Inr (r, db')"
    unfolding close_effect_def by (elim rbind_pairE)
  have "row = None"
  proof (cases row)
    case (Some x)
    with w obtain y where "y \<in> set (sd_effects db)"
      "effect_guard (ef_id e) st (Some (ef_attempts e)) y" by (blast elim: write_effect_hit)
    with assms(2) show ?thesis by (auto simp: effect_guard_def)
  qed
  with w write_effect_miss have "db1 = db" by blast
  with rest \<open>row = None\<close> show ?thesis by (auto elim!: rbind_InrE)
qed

definition demo_row :: "int \<Rightarrow> effect_row" where
  "demo_row attempts = \<lparr>ef_id = ''e'', ef_key = ''k'', ef_operation = CREATE_TASK_BRANCH,
     ef_subject = ''work-item:i'', ef_payload = TaskBranchPayload, ef_work_item = ''i'',
     ef_requirement = ''q'', ef_repository = ''r'', ef_number = Some 1,
     ef_branch = Some ''feat/wi-1-ab'', ef_base = Some ''a'', ef_fingerprint = ''d'',
     ef_attempts = attempts, ef_next_reconcile = Some 2000, ef_state = RECONCILIATION,
     ef_error = None, ef_callback = CALLBACK_PENDING, ef_created_at = 1000, ef_updated_at = 1000,
     ef_completed_at = None\<rparr>"

theorem stale_attempt_closes_nothing_witness:
  "close_effect RECONCILIATION (demo_row 1) (\<lambda>tx. reconciled_success 3000) (\<lambda>db. Inr ())
       (\<lambda>tx row db. Inr ((), db)) (demo_tx 0) (empty_source_db\<lparr>sd_effects := [demo_row 2]\<rparr>)
     = Inr (Inl (), empty_source_db\<lparr>sd_effects := [demo_row 2]\<rparr>)"
proof -
  let ?db = "empty_source_db\<lparr>sd_effects := [demo_row 2]\<rparr>"
  let ?close = "close_effect RECONCILIATION (demo_row 1) (\<lambda>tx. reconciled_success 3000)
    (\<lambda>db. Inr ()) (\<lambda>tx row db. Inr ((), db)) (demo_tx 0) ?db"
  have "\<not> isl ?close" by code_simp
  then obtain r db' where r: "?close = Inr (r, db')" by (cases ?close) auto
  have "\<forall>x \<in> set (sd_effects ?db). ef_id x = ef_id (demo_row 1) \<longrightarrow>
      ef_attempts x \<noteq> ef_attempts (demo_row 1) \<or> ef_state x \<noteq> RECONCILIATION"
    by (simp add: demo_row_def)
  from stale_attempt_closes_nothing [OF r this] r show ?thesis by auto
qed

lemma claimed_row_ok:
  assumes "effect_ok e" and "reconcile_due now e" and "ef_created_at e \<le> now" and "int4 (ef_attempts e + 1)"
  shows "effect_row_ok (reconciling_effect now lease e)"
  using assms
  by (simp add: effect_ok_def effect_row_ok_def reconcile_due_def terminal_effect_def
      reconciling_effect_def effect_shape_row_ok_def no_branch_values_def branch_effect_def)
    (auto split: option.splits)

text \<open>An effect that was begun and is not finished is never lost: it carries an instant from which every claim with enough room claims it again, one attempt on, and that claim cannot fail on a constraint while attempts are left in the column.\<close>

theorem begun_effect_is_claimed_again:
  assumes "(pool_step source_handlers)\<^sup>*\<^sup>* (empty_source_db, []) (db, ws)"
    and "e \<in> set (sd_effects db)" and "branch_effect e"
    and "ef_state e \<in> {IN_FLIGHT, EFFECT_UNKNOWN, RECONCILIATION}"
  shows "\<exists>due. ef_next_reconcile e = Some due \<and>
    (\<forall>now \<ge> due. \<forall>limit \<ge> length (sd_effects db). \<forall>tx.
       (\<forall>x \<in> set (sd_effects db). ef_created_at x \<le> now \<and> int4 (ef_attempts x + 1)) \<longrightarrow>
       (\<exists>rows db'. claim_due_effects limit now tx db = Inr (rows, db')
          \<and> reconciling_effect now (now + seconds 120) e \<in> set rows
          \<and> reconciling_effect now (now + seconds 120) e \<in> set (sd_effects db')))"
proof -
  have inv: "source_inv db" using reaches_inv [OF assms(1)] .
  then have "effect_ok e" using assms(2) unfolding source_inv_def by blast
  with assms(4) obtain due where due: "ef_next_reconcile e = Some due"
    unfolding effect_ok_def by auto
  have "\<exists>rows db'. claim_due_effects limit now tx db = Inr (rows, db')
          \<and> reconciling_effect now (now + seconds 120) e \<in> set rows
          \<and> reconciling_effect now (now + seconds 120) e \<in> set (sd_effects db')"
    if now: "due \<le> now" and limit: "length (sd_effects db) \<le> limit"
      and room: "\<forall>x \<in> set (sd_effects db). ef_created_at x \<le> now \<and> int4 (ef_attempts x + 1)"
    for now limit tx
  proof -
    let ?cs = "take limit (sort_key reconcile_order (filter (reconcile_due now) (sd_effects db)))"
    let ?p = "\<lambda>e. ef_id e \<in> ef_id ` set ?cs" and ?f = "reconciling_effect now (now + seconds 120)"
    have cs: "set ?cs = {x \<in> set (sd_effects db). reconcile_due now x}"
    proof -
      have "length (sort_key reconcile_order (filter (reconcile_due now) (sd_effects db))) \<le> limit"
        using order_trans [OF length_filter_le limit] by simp
      then show ?thesis by (simp only: take_all set_sort set_filter)
    qed
    have "effect_row_ok (?f x)" if x: "x \<in> set (sd_effects db)" "?p x" for x
    proof (rule claimed_row_ok)
      from x(2) obtain y where y: "y \<in> set (sd_effects db)" "reconcile_due now y" "ef_id x = ef_id y"
        unfolding cs by blast
      with same_effect(1) [OF inv x(1)] show "reconcile_due now x" by blast
      show "effect_ok x" using inv x(1) unfolding source_inv_def by blast
    qed (use room x(1) in blast)+
    then have upd: "update_rows ''source_control_effect'' effect_row_ok ?p ?f (sd_effects db)
        = Inr (set_where ?p ?f (sd_effects db))"
      unfolding update_rows_Inr by blast
    have claim: "claim_unknown_effects limit now (now + seconds 120) db
        = Inr (map ?f ?cs, db\<lparr>sd_effects := set_where ?p ?f (sd_effects db)\<rparr>)"
      unfolding claim_unknown_effects_def Let_def upd by simp
    have "e \<in> set ?cs" unfolding cs
      using assms(2-4) due now by (auto simp: reconcile_due_def)
    then have "?f e \<in> set (map ?f ?cs)" and "?f e \<in> set (set_where ?p ?f (sd_effects db))"
      using assms(2) by (auto simp: set_set_where)
    then show ?thesis unfolding claim_due_effects_def claim by simp
  qed
  with due show ?thesis by blast
qed

theorem begun_effect_is_claimed_again_witness:
  "\<exists>rows db'. claim_due_effects 1 200000000 (demo_tx 0) (fst (demo_saga 9)) = Inr (rows, db')
     \<and> map ef_state rows = [RECONCILIATION] \<and> map ef_attempts rows = [2]"
proof -
  obtain e where e: "sd_effects (fst (demo_saga 9)) = [e]" "branch_effect e" "ef_state e = IN_FLIGHT"
    "ef_attempts e = 1" "ef_created_at e = 1000" "ef_next_reconcile e = Some 120001000"
    using demo_in_flight by blast
  have mem: "e \<in> set (sd_effects (fst (demo_saga 9)))"
      "ef_state e \<in> {IN_FLIGHT, EFFECT_UNKNOWN, RECONCILIATION}"
    and room: "\<forall>x \<in> set (sd_effects (fst (demo_saga 9))). ef_created_at x \<le> 200000000
      \<and> int4 (ef_attempts x + 1)"
    using e by (simp_all add: int4_def)
  from begun_effect_is_claimed_again [OF demo_saga_reached mem(1) e(2) mem(2)]
  obtain due where due: "ef_next_reconcile e = Some due" and claims:
    "\<forall>now \<ge> due. \<forall>limit \<ge> length (sd_effects (fst (demo_saga 9))). \<forall>tx.
       (\<forall>x \<in> set (sd_effects (fst (demo_saga 9))). ef_created_at x \<le> now \<and> int4 (ef_attempts x + 1)) \<longrightarrow>
       (\<exists>rows db'. claim_due_effects limit now tx (fst (demo_saga 9)) = Inr (rows, db')
          \<and> reconciling_effect now (now + seconds 120) e \<in> set rows
          \<and> reconciling_effect now (now + seconds 120) e \<in> set (sd_effects db'))"
    by blast
  have "due \<le> 200000000" and "length (sd_effects (fst (demo_saga 9))) \<le> 1" using due e by simp_all
  with claims room
  obtain rows db' where claim: "claim_due_effects 1 200000000 (demo_tx 0) (fst (demo_saga 9)) = Inr (rows, db')"
    and row: "reconciling_effect 200000000 (200000000 + seconds 120) e \<in> set rows"
    by blast
  have "length rows \<le> 1"
    using claim by (auto simp: claim_due_effects_def claim_unknown_effects_def Let_def
        elim!: rbind_pairE rbind_InrE)
  with row have "rows = [reconciling_effect 200000000 (200000000 + seconds 120) e]"
    by (cases rows) auto
  with claim e show ?thesis by (simp add: reconciling_effect_def)
qed

end
