(* ===== verification/Source_Values.thy ===== *)
theory Source_Values
  imports Source_Webhooks
begin

section \<open>The source control module: names, delays, signatures, lanes\<close>

text \<open>
  What the module computes without the database: branch names are well-formed and distinct for
  distinct numbers whatever the title, the reconcile delay is the capped exponential, a verified
  webhook carries a signature over its own bytes within the replay window, a safe summary has the
  type the inbox accepts exactly when the values the parser leaves unchecked do, and the lanes of a
  batch share its limit.
\<close>

subsection \<open>Branch names\<close>

lemma slug_characters_set:
  "list_all (\<lambda>c. is_alnum c \<or> c = CHR ''-'') acc \<Longrightarrow>
   list_all (\<lambda>c. is_alnum c \<or> c = CHR ''-'') (slug_characters acc p cs)"
  by (induction acc p cs rule: slug_characters.induct) auto

lemma strip_dashes_set: "set (strip_dashes s) \<subseteq> set s"
  unfolding strip_dashes_def by (auto dest!: set_dropWhileD)

lemma strip_dashes_length: "length (strip_dashes s) \<le> length s"
  unfolding strip_dashes_def
  by (metis (no_types, lifting) length_dropWhile_le length_rev le_trans)

lemma strip_dashes_ends:
  assumes "strip_dashes s \<noteq> []"
  shows "hd (strip_dashes s) \<noteq> CHR ''-''" and "last (strip_dashes s) \<noteq> CHR ''-''"
proof -
  let ?d = "\<lambda>c. c = CHR ''-''" and ?t = "dropWhile (\<lambda>c. c = CHR ''-'') s"
  have rear: "strip_dashes s = rev (dropWhile ?d (rev ?t))" by (simp add: strip_dashes_def)
  then show "last (strip_dashes s) \<noteq> CHR ''-''"
    using assms hd_dropWhile [of ?d "rev ?t"] by (simp add: last_rev)
  obtain ys where "?t = strip_dashes s @ ys"
    unfolding rear by (metis rev_append rev_rev_ident takeWhile_dropWhile_id)
  with assms hd_dropWhile [of ?d s] show "hd (strip_dashes s) \<noteq> CHR ''-''"
    by (metis hd_append2 append_is_Nil_conv)
qed

definition name_slug :: "(string \<Rightarrow> string) \<Rightarrow> string \<Rightarrow> string \<Rightarrow> string" where
  "name_slug nfkc normalized_type title =
     (let slug = strip_dashes (take max_slug_code_points (slug_characters [] False (lower (nfkc title))))
      in if slug = [] then normalized_type else slug)"

lemma branch_name_Inr:
  assumes "build_task_branch_name nfkc requirement_type number title = Inr b"
  shows "lower (strip requirement_type) \<in> set requirement_types" and "0 < number"
    and "b = lower (strip requirement_type) @ ''/wi-'' @ str_of_int number @ ''-''
      @ name_slug nfkc (lower (strip requirement_type)) title"
  using assms by (auto simp: build_task_branch_name_def name_slug_def Let_def split: if_splits)

theorem branch_name_wellformed:
  assumes "build_task_branch_name nfkc requirement_type number title = Inr b"
  shows "lower (strip requirement_type) \<in> set requirement_types \<and> 0 < number \<and>
    (\<exists>slug. b = lower (strip requirement_type) @ ''/wi-'' @ str_of_int number @ ''-'' @ slug
       \<and> slug \<noteq> [] \<and> length slug \<le> 48 \<and> list_all (\<lambda>c. is_alnum c \<or> c = CHR ''-'') slug
       \<and> hd slug \<noteq> CHR ''-'' \<and> last slug \<noteq> CHR ''-'')"
proof -
  let ?ty = "lower (strip requirement_type)"
  let ?cut = "strip_dashes (take max_slug_code_points (slug_characters [] False (lower (nfkc title))))"
  note ty = branch_name_Inr(1,2) [OF assms] and b = branch_name_Inr(3) [OF assms]
  have "length ?cut \<le> 48"
    using strip_dashes_length [of "take max_slug_code_points (slug_characters [] False (lower (nfkc title)))"]
    by (simp add: max_slug_code_points_def)
  moreover have "list_all (\<lambda>c. is_alnum c \<or> c = CHR ''-'') ?cut"
    using slug_characters_set [of "[]" False "lower (nfkc title)"] strip_dashes_set
    by (fastforce simp: list_all_iff dest: in_set_takeD)
  moreover have "?ty \<noteq> [] \<and> length ?ty \<le> 48 \<and> list_all (\<lambda>c. is_alnum c \<or> c = CHR ''-'') ?ty
      \<and> hd ?ty \<noteq> CHR ''-'' \<and> last ?ty \<noteq> CHR ''-''"
  proof -
    have "\<forall>ty \<in> set requirement_types. ty \<noteq> [] \<and> length ty \<le> 48
        \<and> list_all (\<lambda>c. is_alnum c \<or> c = CHR ''-'') ty \<and> hd ty \<noteq> CHR ''-'' \<and> last ty \<noteq> CHR ''-''"
      by code_simp
    with ty(1) show ?thesis by blast
  qed
  ultimately have slug: "name_slug nfkc ?ty title \<noteq> [] \<and> length (name_slug nfkc ?ty title) \<le> 48
      \<and> list_all (\<lambda>c. is_alnum c \<or> c = CHR ''-'') (name_slug nfkc ?ty title)
      \<and> hd (name_slug nfkc ?ty title) \<noteq> CHR ''-'' \<and> last (name_slug nfkc ?ty title) \<noteq> CHR ''-''"
    using strip_dashes_ends unfolding name_slug_def Let_def by (cases "?cut = []") simp_all
  with ty b show ?thesis by blast
qed

theorem branch_name_wellformed_witness:
  "\<exists>slug. ''fix/wi-12-fix'' = ''fix/wi-12-'' @ slug \<and> length slug \<le> 48"
proof -
  have "build_task_branch_name id ''fix'' 12 ''--'' = Inr ''fix/wi-12-fix''" by code_simp
  from branch_name_wellformed [OF this] show ?thesis by (intro exI [of _ "''fix''"]) simp
qed

lemma str_of_nat_digits: "list_all (\<lambda>c. c \<noteq> CHR ''-'') (str_of_nat n)"
proof (induction n rule: str_of_nat.induct)
  case (1 n)
  have digit: "(char_of (48 + d) :: char) \<noteq> CHR ''-''" if "d < 10" for d :: nat
  proof
    assume "(char_of (48 + d) :: char) = CHR ''-''"
    then have "of_char (char_of (48 + d) :: char) = (of_char (CHR ''-'') :: nat)" by simp
    with that show False by simp
  qed
  show ?case
    using 1 digit [of n] digit [of "n mod 10"] by (subst str_of_nat.simps) simp
qed

text \<open>two requests get the same branch name only for the same work item number and requirement type, whatever their titles.\<close>

theorem branch_names_distinct:
  assumes "build_task_branch_name nfkc requirement_type number title = Inr b"
    and "build_task_branch_name nfkc' requirement_type' number' title' = Inr b"
  shows "number = number' \<and> lower (strip requirement_type) = lower (strip requirement_type')"
proof -
  have parts: "takeWhile (\<lambda>c. c \<noteq> CHR ''/'') b = lower (strip ty) \<and> 0 < n \<and>
      takeWhile (\<lambda>c. c \<noteq> CHR ''-'') (drop 4 (dropWhile (\<lambda>c. c \<noteq> CHR ''/'') b)) = str_of_nat (nat n)"
    if "build_task_branch_name f ty n t = Inr b" for f ty n t
  proof -
    note ty = branch_name_Inr(1) [OF that] and n = branch_name_Inr(2) [OF that]
      and b = branch_name_Inr(3) [OF that]
    have "\<forall>x \<in> set requirement_types. list_all (\<lambda>c. c \<noteq> CHR ''/'') x" by code_simp
    with ty have slash: "\<forall>c \<in> set (lower (strip ty)). c \<noteq> CHR ''/''" by (auto simp: list_all_iff)
    have digits: "\<forall>c \<in> set (str_of_nat (nat n)). c \<noteq> CHR ''-''"
      using str_of_nat_digits by (simp add: list_all_iff)
    show ?thesis unfolding b using slash digits n
      by (simp add: takeWhile_append dropWhile_append str_of_int_def)
  qed
  from parts [OF assms(1)] parts [OF assms(2)] show ?thesis by (metis eq_nat_nat_iff less_imp_le str_of_nat_inject)
qed

theorem branch_names_distinct_witness:
  "build_task_branch_name id ''feat'' 1 ''Ab'' = Inr ''feat/wi-1-ab''
   \<and> build_task_branch_name id '' Feat'' 1 ''ab!'' = Inr ''feat/wi-1-ab''
   \<and> lower (strip ''feat'') = lower (strip '' Feat'')"
proof -
  have a: "build_task_branch_name id ''feat'' 1 ''Ab'' = Inr ''feat/wi-1-ab''"
    and b: "build_task_branch_name id '' Feat'' 1 ''ab!'' = Inr ''feat/wi-1-ab''" by code_simp+
  from branch_names_distinct [OF a b] a b show ?thesis by blast
qed

subsection \<open>The reconcile delay\<close>

lemma doubled_delay_at_most: "delay \<le> maximum \<Longrightarrow> doubled_delay delay maximum n \<le> maximum"
  by (induction delay maximum n rule: doubled_delay.induct) auto

lemma doubled_delay_min:
  "0 < delay \<Longrightarrow> delay \<le> maximum \<Longrightarrow> doubled_delay delay maximum n = min (delay * 2 ^ n) maximum"
proof (induction delay maximum n rule: doubled_delay.induct)
  case (2 delay maximum n)
  have grow: "delay \<le> delay * 2 ^ k" for k using 2(2) by simp
  show ?case
  proof (cases "delay < maximum")
    case True
    then have "doubled_delay delay maximum (Suc n) = min (min (delay * 2) maximum * 2 ^ n) maximum"
      using 2 by simp
    also have "\<dots> = min (delay * 2 ^ Suc n) maximum"
    proof (cases "delay * 2 \<le> maximum")
      case False
      have "maximum \<le> maximum * 2 ^ n" "maximum \<le> delay * 2 * 2 ^ n"
        using False 2(2) True mult_mono [of maximum "delay * 2" 1 "2 ^ n"] by simp_all
      with False show ?thesis by (simp add: min_def mult.assoc)
    qed (simp add: mult.assoc)
    finally show ?thesis .
  next
    case False
    with 2(3) have "delay = maximum" by simp
    with grow [of "Suc n"] show ?thesis by simp
  qed
qed simp

text \<open>under valid settings the doubling loop of the policy computes the base delay doubled for each attempt after the first, capped at the maximum.\<close>

theorem reconcile_delay_is_capped_exponential:
  assumes "settings_ok p"
  shows "next_reconcile_at p now attempts
    = now + 1000000 * min (ps_base_delay p * 2 ^ nat (attempts - 1)) (ps_max_delay p)"
proof -
  have "nat (max attempts 1 - 1) = nat (attempts - 1)" by (simp add: max_def)
  with assms show ?thesis
    by (simp add: next_reconcile_at_def settings_ok_def doubled_delay_min seconds_def)
qed

theorem reconcile_delay_is_capped_exponential_witness:
  "next_reconcile_at \<lparr>ps_base_delay = 5, ps_max_delay = 300, ps_replay_window = 300\<rparr> 0 4 = 40000000
   \<and> next_reconcile_at \<lparr>ps_base_delay = 5, ps_max_delay = 300, ps_replay_window = 300\<rparr> 0 99 = 300000000"
  by (subst (1 2) reconcile_delay_is_capped_exponential) (simp_all add: settings_ok_def)

subsection \<open>Webhooks\<close>

lemma is_space_blank: "is_space (CHR '' '')"
  by code_simp

lemma not_blank_nonblank: "\<not> blank s \<Longrightarrow> nonblank_text s"
  unfolding blank_def nonblank_text_def list_all_iff list_ex_iff
  using is_space_blank by metis

lemma required_text_Inr: "required_text kvs k = Inr s \<Longrightarrow> \<not> blank s"
  by (auto simp: required_text_def split: option.splits pyval.splits if_splits)

lemma optional_text_Some: "optional_text kvs k = Some s \<Longrightarrow> \<not> blank s"
  by (auto simp: optional_text_def split: option.splits pyval.splits if_splits)

text \<open>What a merge request event must show before it is accepted.\<close>

lemma merge_request_summary_Inr:
  assumes "merge_request_summary payload project event_header = Inr s"
  obtains iid action source target state head where "1 \<le> iid" "action \<in> set mr_actions"
    "state \<in> set mr_states" "\<not> blank source" "\<not> blank target" "exact_head_sha head"
    "ws_object_kind s = Some ''merge_request''" "ws_project s = project"
    "ws_event_type s = ''Merge Request Hook''"
    "ws_mr_iid s = Some iid" "ws_mr_action s = Some action" "ws_source_branch s = Some source"
    "ws_target_branch s = Some target" "ws_mr_state s = Some state" "ws_head s = Some head"
    "case ws_old_head s of None \<Rightarrow> True | Some x \<Rightarrow> exact_head_sha x"
proof -
  from assms obtain attributes where a: "map_of payload ''object_attributes'' = Some (PyDict attributes)"
    unfolding merge_request_summary_def
    by (auto elim!: rbind_InrE split: option.splits pyval.splits)
  from assms obtain iid where i: "map_of attributes ''iid'' = Some (PyInt iid)"
    unfolding merge_request_summary_def a option.case pyval.case
    by (auto elim!: rbind_InrE split: option.splits pyval.splits)
  from assms have iid: "\<not> iid < 1"
    unfolding merge_request_summary_def a i option.case pyval.case
    by (auto elim!: rbind_InrE split: if_splits)
  from assms obtain action state source target where
    texts: "required_text attributes ''action'' = Inr action"
      "required_text attributes ''state'' = Inr state"
      "required_text attributes ''source_branch'' = Inr source"
      "required_text attributes ''target_branch'' = Inr target"
    and rest: "(case map_of attributes ''last_commit'' of
                  Some (PyDict commit) \<Rightarrow> rbind (required_text commit ''id'') (\<lambda>head.
                    let old_head = optional_text attributes ''oldrev''
                    in if action \<notin> set mr_actions \<or> state \<notin> set mr_states \<or> \<not> exact_head_sha head
                         \<or> \<not> (case old_head of None \<Rightarrow> True | Some sha \<Rightarrow> exact_head_sha sha)
                       then Inl WebhookPayloadInvalid
                       else Inr \<lparr>ws_event_type = ''Merge Request Hook'',
                         ws_object_kind = Some ''merge_request'', ws_project = project,
                         ws_ref = None, ws_before = None, ws_after = None, ws_checkout = None,
                         ws_mr_iid = Some iid, ws_mr_action = Some action,
                         ws_source_branch = Some source, ws_target_branch = Some target,
                         ws_mr_state = Some state, ws_old_head = old_head, ws_head = Some head\<rparr>)
                | _ \<Rightarrow> Inl WebhookPayloadInvalid) = Inr s"
    unfolding merge_request_summary_def a i option.case pyval.case
    by (elim rbind_InrE) (auto elim!: rbind_InrE split: if_splits)
  from rest obtain commit where c: "map_of attributes ''last_commit'' = Some (PyDict commit)"
    by (auto split: option.splits pyval.splits)
  from rest obtain head where "exact_head_sha head" "action \<in> set mr_actions" "state \<in> set mr_states"
    "case optional_text attributes ''oldrev'' of None \<Rightarrow> True | Some sha \<Rightarrow> exact_head_sha sha"
    "s = \<lparr>ws_event_type = ''Merge Request Hook'', ws_object_kind = Some ''merge_request'',
       ws_project = project, ws_ref = None, ws_before = None, ws_after = None, ws_checkout = None,
       ws_mr_iid = Some iid, ws_mr_action = Some action, ws_source_branch = Some source,
       ws_target_branch = Some target, ws_mr_state = Some state,
       ws_old_head = optional_text attributes ''oldrev'', ws_head = Some head\<rparr>"
    unfolding c option.case pyval.case Let_def by (elim rbind_InrE) (auto split: if_splits)
  with that [of iid action state source target head] iid required_text_Inr [OF texts(3)]
    required_text_Inr [OF texts(4)]
  show thesis by simp
qed

text \<open>The columns of an inbox row that come from the summary, within the constraints of the table.\<close>

definition summary_columns_ok :: "webhook_summary \<Rightarrow> bool" where
  "summary_columns_ok s = (nonblank_text (ws_event_type s) \<and> nonblank_text (ws_project s)
     \<and> webhook_summary_ok s)"

lemma row_summary_columns: "webhook_row_ok r \<Longrightarrow> summary_columns_ok (wh_summary r)"
  by (simp add: webhook_row_ok_def summary_columns_ok_def)

text \<open>The header that becomes the type of an event which is neither a merge request nor a push.\<close>

definition typed_by_header :: "(string \<times> pyval) list \<Rightarrow> string option \<Rightarrow> string option" where
  "typed_by_header payload event_header =
     (if optional_text payload ''object_kind'' \<in> {Some ''merge_request'', Some ''push''} then None
      else if event_header = Some [] then None else event_header)"

lemma accepted_merge_request:
  assumes "merge_request_summary payload project event_header = Inr s"
  shows "summary_columns_ok s \<longleftrightarrow> nonblank_text project \<and> (\<forall>i. ws_mr_iid s = Some i \<longrightarrow> int8 i)"
    and "ws_object_kind s = Some ''merge_request''" and "ws_mr_iid s \<noteq> None"
proof -
  from assms have "(summary_columns_ok s \<longleftrightarrow> nonblank_text project \<and> (\<forall>i. ws_mr_iid s = Some i \<longrightarrow> int8 i))
    \<and> ws_object_kind s = Some ''merge_request'' \<and> ws_mr_iid s \<noteq> None"
  proof (rule merge_request_summary_Inr)
    fix iid action source target state head
    assume f: "1 \<le> iid" "action \<in> set mr_actions"
      "state \<in> set mr_states" "\<not> blank source" "\<not> blank target" "exact_head_sha head"
      "ws_object_kind s = Some ''merge_request''" "ws_project s = project"
      "ws_event_type s = ''Merge Request Hook''"
      "ws_mr_iid s = Some iid" "ws_mr_action s = Some action" "ws_source_branch s = Some source"
      "ws_target_branch s = Some target" "ws_mr_state s = Some state" "ws_head s = Some head"
      "case ws_old_head s of None \<Rightarrow> True | Some x \<Rightarrow> exact_head_sha x"
    have "nonblank_text ''Merge Request Hook''" by code_simp
    with f show ?thesis
      by (auto simp: summary_columns_ok_def webhook_summary_ok_def mr_actions_def mr_states_def
          not_blank_nonblank)
  qed
  then show "summary_columns_ok s \<longleftrightarrow> nonblank_text project \<and> (\<forall>i. ws_mr_iid s = Some i \<longrightarrow> int8 i)"
    "ws_object_kind s = Some ''merge_request''" "ws_mr_iid s \<noteq> None" by blast+
qed

text \<open>
  C37: the summary of an accepted webhook fits the columns of the inbox exactly when three values the
  parser leaves unchecked do: the project is not blank, the number of a merge request is within 64
  bits, and the event header that becomes the type of any other event than a merge request or a push
  is not blank; all other columns always fit. A merge request number is there exactly for a merge
  request, so processing the event never raises a type error.
\<close>

theorem safe_summary_fits_inbox:
  assumes "parse_safe_webhook_summary payload project event_header = Inr s"
  shows "(summary_columns_ok s \<longleftrightarrow> nonblank_text project \<and> (\<forall>i. ws_mr_iid s = Some i \<longrightarrow> int8 i)
        \<and> (\<forall>h. typed_by_header payload event_header = Some h \<longrightarrow> nonblank_text h))
    \<and> (ws_object_kind s = Some ''merge_request'' \<longleftrightarrow> ws_mr_iid s \<noteq> None)
    \<and> (\<forall>r now db. wh_summary r = s \<longrightarrow> scheduled_effects r now db \<noteq> Inl UnexpectedError)"
proof -
  have due: "make_due p now db \<noteq> Inl UnexpectedError" for p now db
    by (auto simp: make_due_def update_rows_def)
  show ?thesis
  proof (cases "optional_text payload ''object_kind'' = Some ''merge_request''")
    case True
    with assms have "merge_request_summary payload project event_header = Inr s"
      by (simp add: parse_safe_webhook_summary_def)
    from accepted_merge_request [OF this] due True show ?thesis
      by (auto simp: typed_by_header_def scheduled_effects_def Let_def make_integration_effect_due_def)
  next
    case False
    have types: "nonblank_text ''Push Hook''" "nonblank_text ''Unknown''" by code_simp+
    from False have s: "ws_mr_iid s = None \<and> ws_mr_action s = None \<and> ws_source_branch s = None
      \<and> ws_target_branch s = None \<and> ws_mr_state s = None \<and> ws_old_head s = None \<and> ws_head s = None
      \<and> ws_project s = project \<and> ws_object_kind s = optional_text payload ''object_kind''
      \<and> ws_event_type s = (if optional_text payload ''object_kind'' = Some ''push'' then ''Push Hook''
          else case event_header of Some (c # cs) \<Rightarrow> c # cs | _ \<Rightarrow> ''Unknown'')"
      using assms
      by (auto simp: parse_safe_webhook_summary_def Let_def plain_summary_def elim!: rbind_InrE
          split: if_splits)
    then have "summary_columns_ok s \<longleftrightarrow> nonblank_text project
        \<and> (\<forall>h. typed_by_header payload event_header = Some h \<longrightarrow> nonblank_text h)"
      using False types
      by (auto simp: summary_columns_ok_def webhook_summary_ok_def typed_by_header_def
          split: option.splits list.splits)
    with s False due show ?thesis
      by (simp add: scheduled_effects_def Let_def make_unknown_effect_due_def)
  qed
qed

definition demo_merge_event :: "int \<Rightarrow> (string \<times> pyval) list" where
  "demo_merge_event iid = [(''object_kind'', PyStr ''merge_request''), (''object_attributes'', PyDict
     [(''iid'', PyInt iid), (''source_project_id'', PyInt 7), (''target_project_id'', PyInt 7),
      (''action'', PyStr ''open''), (''state'', PyStr ''opened''),
      (''source_branch'', PyStr ''feat/x''), (''target_branch'', PyStr ''main''),
      (''last_commit'', PyDict [(''id'', PyStr (replicate 40 CHR ''a''))])])]"

theorem safe_summary_fits_inbox_witness:
  "\<exists>s s' s''. parse_safe_webhook_summary (demo_merge_event 7) ''7'' (Some ''Merge Request Hook'') = Inr s
       \<and> summary_columns_ok s
     \<and> parse_safe_webhook_summary (demo_merge_event (2 ^ 63)) ''7'' (Some ''Merge Request Hook'') = Inr s'
       \<and> \<not> summary_columns_ok s'
     \<and> parse_safe_webhook_summary [] ''7'' (Some '' '') = Inr s'' \<and> \<not> summary_columns_ok s''"
proof -
  have "(case (parse_safe_webhook_summary (demo_merge_event 7) ''7'' (Some ''Merge Request Hook''),
        parse_safe_webhook_summary (demo_merge_event (2 ^ 63)) ''7'' (Some ''Merge Request Hook''),
        parse_safe_webhook_summary [] ''7'' (Some '' '')) of
      (Inr s, Inr s', Inr s'') \<Rightarrow> ws_mr_iid s = Some 7 \<and> ws_mr_iid s' = Some (2 ^ 63) | _ \<Rightarrow> False)"
    by code_simp
  then obtain s s' s'' where
    s: "parse_safe_webhook_summary (demo_merge_event 7) ''7'' (Some ''Merge Request Hook'') = Inr s"
      "ws_mr_iid s = Some 7"
    and s': "parse_safe_webhook_summary (demo_merge_event (2 ^ 63)) ''7'' (Some ''Merge Request Hook'') = Inr s'"
      "ws_mr_iid s' = Some (2 ^ 63)"
    and s'': "parse_safe_webhook_summary [] ''7'' (Some '' '') = Inr s''"
    by (auto split: sum.splits)
  have facts: "nonblank_text ''7''" "int8 7" "\<not> int8 (2 ^ 63)" "\<not> nonblank_text '' ''"
    "typed_by_header (demo_merge_event 7) (Some ''Merge Request Hook'') = None"
    "typed_by_header [] (Some '' '') = Some '' ''" by code_simp+
  have "summary_columns_ok s" using safe_summary_fits_inbox [OF s(1)] s(2) facts by simp
  moreover have "\<not> summary_columns_ok s'" using safe_summary_fits_inbox [OF s'(1)] s'(2) facts by simp
  moreover have "\<not> summary_columns_ok s''" using safe_summary_fits_inbox [OF s''] facts by simp
  ultimately show ?thesis using s(1) s'(1) s'' by blast
qed

lemma any_signature_Inr: "any_signature expected vs = Inr True \<Longrightarrow> expected \<in> set vs"
  by (induction expected vs rule: any_signature.induct) (auto split: if_splits)

text \<open>C36: a webhook that verifies lies within the replay window of its own timestamp, and one of the signatures it carries is the HMAC of its id, timestamp and body under the key of the signing token.\<close>

theorem verified_webhook_is_signed:
  assumes "verify_gitlab_standard_webhook env token webhook_id timestamp signatures body now window
    = Inr (i, occurred_at)"
  shows "i = webhook_id \<and> \<bar>now - occurred_at\<bar> \<le> window
    \<and> (\<exists>t. parse_timestamp timestamp = Some t \<and> str_of_int t = timestamp \<and> occurred_at = seconds t)
    \<and> (\<exists>key. token = ''whsec_'' @ drop 6 token \<and> base64_decode (drop 6 token) = Some key \<and> key \<noteq> []
        \<and> expected_signature env key webhook_id timestamp body \<in> set (split_on CHR '' '' signatures))"
proof -
  have prefix: "token = ''whsec_'' @ drop 6 token" "remove_prefix ''whsec_'' token = drop 6 token"
    if "take 6 token = ''whsec_''"
    using that by (metis append_take_drop_id, simp add: remove_prefix_def eval_nat_numeral)
  from assms obtain t key where t: "parse_timestamp timestamp = Some t"
    and key: "base64_decode (remove_prefix ''whsec_'' token) = Some key" "key \<noteq> []"
      "take 6 token = ''whsec_''"
    and window: "\<not> window < \<bar>now - seconds t\<bar>" and out: "i = webhook_id" "occurred_at = seconds t"
    and valid: "any_signature (expected_signature env key webhook_id timestamp body)
      (split_on CHR '' '' signatures) = Inr True"
    unfolding verify_gitlab_standard_webhook_def
    by (auto simp: Let_def elim!: rbind_InrE split: if_splits option.splits)
  from t have "str_of_int t = timestamp"
    by (auto simp: parse_timestamp_def Let_def split: if_splits)
  with t key prefix window out any_signature_Inr [OF valid] show ?thesis by auto
qed

theorem verified_webhook_is_signed_witness:
  "\<exists>env. verify_gitlab_standard_webhook env ''whsec_YWI='' ''id'' ''10'' ''v0,x v1,aGk='' ''{}'' 10000000 30000000
      = Inr (''id'', 10000000)
    \<and> expected_signature env ''ab'' ''id'' ''10'' ''{}'' \<in> set (split_on CHR '' '' ''v0,x v1,aGk='')"
proof -
  let ?env = "\<lparr>we_secret = None, we_hmac = (\<lambda>k m. if k = ''ab'' \<and> m = ''id.10.{}'' then ''hi'' else []),
    we_sha256 = id, we_loads = (\<lambda>s. None)\<rparr>"
  have v: "verify_gitlab_standard_webhook ?env ''whsec_YWI='' ''id'' ''10'' ''v0,x v1,aGk='' ''{}'' 10000000 30000000
      = Inr (''id'', 10000000)" by code_simp
  have key: "base64_decode (drop 6 ''whsec_YWI='') = Some ''ab''" by code_simp
  from verified_webhook_is_signed [OF v] key v show ?thesis by (intro exI [of _ ?env]) auto
qed

subsection \<open>Lanes\<close>

theorem lanes_share_the_limit:
  assumes "0 < k" and "int k \<le> limit"
  shows "length (lane_limits limit k) = k \<and> sum_list (lane_limits limit k) = limit
    \<and> (\<forall>q \<in> set (lane_limits limit k). 1 \<le> q \<and> limit div int k \<le> q \<and> q \<le> limit div int k + 1)"
proof -
  have m: "0 \<le> limit mod int k" "limit mod int k < int k" using assms(1) by simp_all
  have count: "sum_list (map (\<lambda>i. a + (if int i < r then 1 else 0)) [0..<n]) = a * int n + min r (int n)"
    if "0 \<le> r" for a r :: int and n
    using that by (induction n) (auto simp: algebra_simps min_def)
  have "sum_list (lane_limits limit k) = (limit div int k) * int k + min (limit mod int k) (int k)"
    using count [OF m(1), of "limit div int k" k] by (simp add: lane_limits_def Let_def)
  also have "\<dots> = limit" using m(2) by simp
  finally have "sum_list (lane_limits limit k) = limit" .
  moreover have "1 \<le> limit div int k" using assms by (simp add: pos_imp_zdiv_pos_iff int_one_le_iff_zero_less)
  ultimately show ?thesis by (auto simp: lane_limits_def Let_def)
qed

end
