(* ===== verification/Identity_Domain.thy ===== *)
theory Identity_Domain
  imports Interfaces "HOL-Library.Sublist"
begin

section \<open>The identity module: domain\<close>

text \<open>
  \<^verbatim>\<open>identity/domain\<close> and the platform's security helpers it uses
  (\<^verbatim>\<open>shared/security/password.py\<close>, \<^verbatim>\<open>totp.py\<close>): accounts, sessions and denials, the effective
  policy, the guards of an account's life cycle, the password floor, the TOTP window and the
  receipt of a policy reauthentication. Instants and durations are microseconds. pyotp's
  \<open>TOTP(secret).at\<close> and the clock of \<open>time.time()\<close> are parameters.
\<close>

datatype identity_error =
    AccountConflict string
  | AccountNotFound string
  | InvalidAccountTransition string
  | StaleAccountVersion string
  | LastEffectiveSuperAdmin string
  | SuperAdminBootstrapConflict string
  | SuperAdminConflict string
  | SuperAdminPermissionDenied string
  | SuperAdminRecoveryDenied string
  | PasswordFloorViolation "string list"
  | AuthenticationFailed string
  | TotpChallengeFailed string
  | PolicyReauthenticationDenied string
  | PolicyReauthenticationUnavailable string
  | IdentityValueError string
  | IdentityIntegrityError string
  | IdentityOverflow string
  | SecretMaterialUnavailable
  | IdentityPolicyUnavailable
  | IdentityRuntimeError string

datatype account_status = PENDING_INIT | ENABLED | DISABLED | RESTRICTED

datatype session_kind = BOOTSTRAP | FULL

datatype bootstrap_purpose = INITIAL_SETUP | PASSWORD_RESET | PASSWORD_EXPIRED

datatype auth_denial_code = INVALID_CREDENTIALS | BACKOFF_ACTIVE | INVALID_CHALLENGE

datatype auth_challenge_state = RETRY_ALLOWED | TERMINAL

definition status_text :: "account_status \<Rightarrow> string" where
  "status_text st = (case st of PENDING_INIT \<Rightarrow> ''PENDING_INIT'' | ENABLED \<Rightarrow> ''ENABLED''
     | DISABLED \<Rightarrow> ''DISABLED'' | RESTRICTED \<Rightarrow> ''RESTRICTED'')"

record authentication_denial =
  dn_code :: auth_denial_code
  dn_retry_after :: "int option"
  dn_challenge_state :: "auth_challenge_state option"

record issued_session =
  iss_account :: string
  iss_token :: string
  iss_kind :: session_kind
  iss_purpose :: "bootstrap_purpose option"

record login_challenge =
  lgc_account :: string
  lgc_token :: string
  lgc_purpose :: string

record totp_enrollment =
  te_secret :: string
  te_uri :: string

record session_principal =
  spr_account :: string
  spr_employee_no :: string
  spr_display_name :: string
  spr_kind :: session_kind
  spr_purpose :: "bootstrap_purpose option"
  spr_super_admin :: bool
  spr_reference :: "string option"
  spr_version :: "int option"

record account_dto =
  dto_id :: string
  dto_employee_no :: string
  dto_display_name :: string
  dto_profession :: "string option"
  dto_status :: account_status
  dto_password_set_at :: "instant option"
  dto_totp_confirmed_at :: "instant option"
  dto_super_admin :: bool
  dto_version :: int

record organization_account =
  oa_id :: string
  oa_employee_no :: string
  oa_display_name :: string
  oa_status :: account_status
  oa_initialized :: bool

record principal_ref =
  who_employee :: string
  who_name :: string

subsection \<open>The effective policy\<close>

record identity_policy =
  pol_temp_ttl :: duration
  pol_password_max_age :: "duration option"
  pol_session_cap :: int
  pol_idle_timeout :: duration
  pol_backoff_threshold :: int
  pol_backoff_initial :: duration
  pol_backoff_max :: duration
  pol_backoff_reset :: duration
  pol_totp_cap :: int
  pol_draft_archive :: duration

definition a_second :: duration where "a_second = 1000000"

definition a_minute :: duration where "a_minute = 60 * a_second"

definition an_hour :: duration where "an_hour = 60 * a_minute"

definition default_identity_policy :: identity_policy where
  "default_identity_policy = \<lparr>pol_temp_ttl = 24 * an_hour, pol_password_max_age = None,
     pol_session_cap = 3, pol_idle_timeout = 60 * a_minute, pol_backoff_threshold = 5,
     pol_backoff_initial = 30 * a_second, pol_backoff_max = 15 * a_minute,
     pol_backoff_reset = 24 * an_hour, pol_totp_cap = 5, pol_draft_archive = 30 * 24 * an_hour\<rparr>"

definition identity_policy_ok :: "identity_policy \<Rightarrow> bool" where
  "identity_policy_ok p = (0 < pol_temp_ttl p
     \<and> (case pol_password_max_age p of None \<Rightarrow> True | Some d \<Rightarrow> 0 < d)
     \<and> 1 \<le> pol_session_cap p \<and> pol_session_cap p \<le> 10
     \<and> 15 * a_minute \<le> pol_idle_timeout p \<and> pol_idle_timeout p \<le> 240 * a_minute
     \<and> 1 \<le> pol_backoff_threshold p \<and> 0 < pol_backoff_initial p \<and> 0 < pol_backoff_max p
     \<and> 0 < pol_backoff_reset p \<and> 1 \<le> pol_totp_cap p \<and> 0 < pol_draft_archive p
     \<and> pol_backoff_initial p \<le> pol_backoff_max p)"

text \<open>
  The lock after \<open>count\<close> failures: \<open>min(initial.total_seconds() * (2 ** exponent), max)\<close>. The
  product of a float and an int converts the int, which raises \<open>OverflowError\<close> for a power of two
  from 2 ** 1024 on; below, scaling by a power of two is exact (or infinite, and then the
  maximum is the smaller).
\<close>

definition backoff_delay :: "identity_policy \<Rightarrow> int \<Rightarrow> (identity_error, duration) res" where
  "backoff_delay p count =
     (let exponent = nat (count - pol_backoff_threshold p)
      in if 1024 \<le> exponent then Inl (IdentityOverflow ''int too large to convert to float'')
         else Inr (min (pol_backoff_initial p * 2 ^ exponent) (pol_backoff_max p)))"

subsection \<open>The guards of an account's life cycle\<close>

definition ensure_account_transition_allowed ::
  "account_status \<Rightarrow> account_status \<Rightarrow> bool \<Rightarrow> bool \<Rightarrow> (identity_error, unit) res" where
  "ensure_account_transition_allowed current target password_initialized totp_initialized =
     (if target = current \<or> target = PENDING_INIT
      then Inl (InvalidAccountTransition
        (''cannot transition '' @ status_text current @ '' to '' @ status_text target))
      else if target = ENABLED
        \<and> (current = PENDING_INIT \<or> \<not> password_initialized \<or> \<not> totp_initialized)
      then Inl (InvalidAccountTransition ''bootstrap completion is required before enabling'')
      else Inr ())"

definition ensure_effective_super_admin_remains ::
  "bool \<Rightarrow> account_status \<Rightarrow> bool \<Rightarrow> bool \<Rightarrow> int \<Rightarrow> (identity_error, unit) res" where
  "ensure_effective_super_admin_remains is_super_admin status password_initialized
     totp_initialized other_effective_super_admins =
     (let currently_effective = (is_super_admin \<and> status = ENABLED \<and> password_initialized
        \<and> totp_initialized)
      in if currently_effective \<and> other_effective_super_admins = 0
         then Inl (LastEffectiveSuperAdmin ''last effective Super Admin must remain available'')
         else Inr ())"

subsection \<open>The password floor\<close>

text \<open>
  Python's character classes on the 256 characters a HOL string may hold. \<open>str.casefold\<close> maps
  the sharp s to two letters; the micro sign, whose folding lies outside, is kept (it meets no
  other character either way).
\<close>

definition is_upper :: "char \<Rightarrow> bool" where
  "is_upper c = (let n = (of_char c :: nat) in
     (65 \<le> n \<and> n \<le> 90) \<or> (192 \<le> n \<and> n \<le> 222 \<and> n \<noteq> 215))"

definition is_lower :: "char \<Rightarrow> bool" where
  "is_lower c = (let n = (of_char c :: nat) in
     (97 \<le> n \<and> n \<le> 122) \<or> (223 \<le> n \<and> n \<noteq> 247) \<or> n = 170 \<or> n = 181 \<or> n = 186)"

definition is_alnum :: "char \<Rightarrow> bool" where
  "is_alnum c = (let n = (of_char c :: nat) in
     (48 \<le> n \<and> n \<le> 57) \<or> (65 \<le> n \<and> n \<le> 90) \<or> (97 \<le> n \<and> n \<le> 122)
     \<or> n \<in> {170, 178, 179, 181, 185, 186, 188, 189, 190} \<or> (192 \<le> n \<and> n \<noteq> 215 \<and> n \<noteq> 247))"

definition casefold :: "string \<Rightarrow> string" where
  "casefold s = concat (map (\<lambda>c. let n = (of_char c :: nat) in
     if is_upper c then [char_of (n + 32)] else if n = 223 then ''ss'' else [c]) s)"

definition weak_passwords :: "string list" where
  "weak_passwords = [''password'', ''password!2026aaaa'', ''qwerty123'', ''12345678'', ''admin123'']"

fun contains_text :: "string \<Rightarrow> string \<Rightarrow> bool" where
  "contains_text needle [] = (needle = [])"
| "contains_text needle (c # cs) = (prefix needle (c # cs) \<or> contains_text needle cs)"

lemma contains_text_sublist: "contains_text needle s \<longleftrightarrow> sublist needle s"
  by (induction s) (auto simp: sublist_Cons_right)

definition validate_password_floor :: "string \<Rightarrow> string list \<Rightarrow> string list" where
  "validate_password_floor plain context_values =
     (let normalized = casefold plain in
      (if \<not> (15 \<le> length plain \<and> length plain \<le> 64) then [''length''] else [])
      @ (if \<not> list_ex is_upper plain then [''uppercase''] else [])
      @ (if \<not> list_ex is_lower plain then [''lowercase''] else [])
      @ (if \<not> list_ex (\<lambda>c. \<not> is_alnum c) plain then [''special''] else [])
      @ (if normalized \<in> set weak_passwords then [''weak''] else [])
      @ (if list_ex (\<lambda>v. contains_text (casefold (strip v)) normalized)
             (filter (\<lambda>v. strip v \<noteq> []) context_values)
         then [''context''] else []))"

subsection \<open>Time-based one-time passwords\<close>

definition ascii_digit :: "char \<Rightarrow> bool" where
  "ascii_digit c = (let n = (of_char c :: nat) in 48 \<le> n \<and> n \<le> 57)"

definition totp_interval :: int where "totp_interval = 30"

text \<open>\<open>at secret step\<close> is the code pyotp computes for the step, \<open>None\<close> if it raises one of the
  exceptions the function catches.\<close>

definition matched_steps ::
  "(string \<Rightarrow> int \<Rightarrow> string option) \<Rightarrow> int \<Rightarrow> string \<Rightarrow> string \<Rightarrow> int list" where
  "matched_steps at unix secret code =
     filter (\<lambda>step. at secret step = Some code)
       (map (\<lambda>offset. unix div totp_interval + offset) [- 1, 0, 1])"

definition verify_totp ::
  "(string \<Rightarrow> int \<Rightarrow> string option) \<Rightarrow> int \<Rightarrow> string \<Rightarrow> string \<Rightarrow> int option \<Rightarrow> int option" where
  "verify_totp at unix secret code last_used_step =
     (if length code \<noteq> 6 \<or> \<not> list_all ascii_digit code then None
      else if list_ex (\<lambda>offset. at secret (unix div totp_interval + offset) = None) [- 1, 0, 1]
      then None
      else let fresh_steps = filter (\<lambda>step. case last_used_step of None \<Rightarrow> True
               | Some used \<Rightarrow> used < step) (matched_steps at unix secret code)
           in if fresh_steps = [] then None else Some (Max (set fresh_steps)))"

definition totp_provisioning_uri ::
  "(string \<Rightarrow> string \<Rightarrow> string) \<Rightarrow> string \<Rightarrow> string \<Rightarrow> (identity_error, string) res" where
  "totp_provisioning_uri uri secret account =
     (let normalized_account = strip account
      in if normalized_account = [] then Inl (IdentityValueError ''account is required'')
         else Inr (uri secret normalized_account))"

definition decode_ascii :: "string \<Rightarrow> (identity_error, string) res" where
  "decode_ascii s = (if list_all (\<lambda>c. (of_char c :: nat) < 128) s then Inr s
     else Inl (IdentityValueError ''ordinal not in range(128)''))"

text \<open>A code is accepted for a step of the window, never for one at or before the last used one.\<close>

lemma verify_totp_Some:
  assumes "verify_totp at unix secret code last_used_step = Some step"
  shows "at secret step = Some code" and "\<bar>step - unix div totp_interval\<bar> \<le> 1"
    and "\<And>used. last_used_step = Some used \<Longrightarrow> used < step"
    and "length code = 6"
proof -
  let ?fresh = "filter (\<lambda>step. case last_used_step of None \<Rightarrow> True | Some used \<Rightarrow> used < step)
    (matched_steps at unix secret code)"
  from assms have fresh: "?fresh \<noteq> []" and step: "step = Max (set ?fresh)"
    and code: "length code = 6"
    by (auto simp: verify_totp_def Let_def split: if_splits)
  from Max_in [of "set ?fresh"] fresh step have "step \<in> set ?fresh" by fastforce
  then have m: "step \<in> set (matched_steps at unix secret code)"
    and u: "case last_used_step of None \<Rightarrow> True | Some used \<Rightarrow> used < step" by auto
  from m show "at secret step = Some code" "\<bar>step - unix div totp_interval\<bar> \<le> 1"
    by (auto simp: matched_steps_def split: if_splits)
  from u show "\<And>used. last_used_step = Some used \<Longrightarrow> used < step" by simp
  show "length code = 6" by (rule code)
qed

subsection \<open>Policy reauthentication\<close>

record policy_reauth_binding =
  rb_actor :: string
  rb_operation :: string
  rb_namespace :: string
  rb_scope :: string
  rb_draft :: string
  rb_draft_revision :: int
  rb_content_hash :: string
  rb_schema_revision :: int
  rb_base_version :: int
  rb_dependencies :: "(string \<times> int) list"
  rb_attempt :: string
  rb_fingerprint :: string

definition policy_operations :: "string list" where
  "policy_operations = [''POLICY_PUBLISH'', ''POLICY_ROLLBACK'']"

definition trimmed_text :: "string \<Rightarrow> bool" where
  "trimmed_text s = (strip s \<noteq> [] \<and> s = strip s)"

definition hex_digest :: "string \<Rightarrow> bool" where
  "hex_digest s = (length s = 64 \<and> list_all (\<lambda>c. let n = (of_char c :: nat) in
     (48 \<le> n \<and> n \<le> 57) \<or> (97 \<le> n \<and> n \<le> 102)) s)"

text \<open>\<open>__post_init__\<close>: the checks in their order, then the dependencies sorted.\<close>

definition checked_binding ::
  "policy_reauth_binding \<Rightarrow> (identity_error, policy_reauth_binding) res" where
  "checked_binding b =
     (if rb_operation b \<notin> set policy_operations
      then Inl (IdentityValueError ''unsupported policy reauthentication operation'')
      else if \<not> list_all trimmed_text [rb_actor b, rb_namespace b, rb_scope b, rb_draft b, rb_attempt b]
      then Inl (IdentityValueError ''invalid policy reauthentication binding'')
      else if \<not> list_all (\<lambda>n. 1 \<le> n) [rb_draft_revision b, rb_schema_revision b, rb_base_version b]
      then Inl (IdentityValueError ''invalid policy reauthentication revision'')
      else if \<not> list_all hex_digest [rb_content_hash b, rb_fingerprint b]
      then Inl (IdentityValueError ''invalid policy reauthentication hash'')
      else if \<not> list_all (\<lambda>(name, n). trimmed_text name \<and> 1 \<le> n) (rb_dependencies b)
        \<or> \<not> distinct (map fst (rb_dependencies b))
      then Inl (IdentityValueError ''invalid policy dependency versions'')
      else Inr (b\<lparr>rb_dependencies := sort (rb_dependencies b)\<rparr>))"

definition policy_reauth_ttl :: duration where "policy_reauth_ttl = 5 * a_minute"

record reauth_receipt =
  rcp_id :: string
  rcp_binding :: policy_reauth_binding
  rcp_session :: string
  rcp_account_version :: int
  rcp_consumed_at :: instant
  rcp_expires_at :: instant

definition receipt_matches ::
  "reauth_receipt \<Rightarrow> policy_reauth_binding \<Rightarrow> string \<Rightarrow> instant \<Rightarrow> bool" where
  "receipt_matches r binding session_reference now =
     (rcp_binding r = binding \<and> rcp_session r = session_reference \<and> 0 < rcp_account_version r
      \<and> rcp_expires_at r = rcp_consumed_at r + policy_reauth_ttl
      \<and> rcp_consumed_at r \<le> now \<and> now < rcp_expires_at r)"

end
