(* ===== verification/Commands.thy ===== *)
theory Commands
  imports Interfaces
begin

section \<open>Commands that keep their effects when they raise\<close>

text \<open>
  A Python function that writes through a connection and then raises has still written: the rows
  are gone only when the exception leaves the transaction. A \<open>command\<close> is such a function as a
  state transformer that returns its outcome, an exception or a value, beside the state it left;
  \<open>handled\<close> is try/except inside the transaction and \<open>atomically\<close> the transaction itself.
  \<open>wp\<close> is the weakest precondition of a command for its two outcomes, with one rule per
  construct; \<open>advances\<close> says that a relation holds between the state before and the state left,
  on both outcomes, and the locale \<open>state_order\<close> has its rules for every relation that is
  reflexive and transitive.
\<close>

type_synonym ('s, 'e, 'a) command = "'s \<Rightarrow> ('e, 'a) res \<times> 's"

definition produce :: "'a \<Rightarrow> ('s, 'e, 'a) command" where
  "produce x = (\<lambda>s. (Inr x, s))"

definition raising :: "'e \<Rightarrow> ('s, 'e, 'a) command" where
  "raising e = (\<lambda>s. (Inl e, s))"

definition cbind ::
  "('s, 'e, 'a) command \<Rightarrow> ('a \<Rightarrow> ('s, 'e, 'b) command) \<Rightarrow> ('s, 'e, 'b) command" where
  "cbind m f = (\<lambda>s. case m s of (Inl e, s') \<Rightarrow> (Inl e, s') | (Inr x, s') \<Rightarrow> f x s')"

definition cseq ::
  "('s, 'e, 'a) command \<Rightarrow> ('s, 'e, 'b) command \<Rightarrow> ('s, 'e, 'b) command" where
  "cseq m n = cbind m (\<lambda>_. n)"

definition reading :: "('s \<Rightarrow> 'a) \<Rightarrow> ('s, 'e, 'a) command" where
  "reading f = (\<lambda>s. (Inr (f s), s))"

definition writing :: "('s \<Rightarrow> 's) \<Rightarrow> ('s, 'e, unit) command" where
  "writing f = (\<lambda>s. (Inr (), f s))"

text \<open>A statement of the repository: it raises with nothing written, or writes and returns.\<close>

definition statement :: "('s \<Rightarrow> ('e, 'a \<times> 's) res) \<Rightarrow> ('s, 'e, 'a) command" where
  "statement f = (\<lambda>s. case f s of Inl e \<Rightarrow> (Inl e, s) | Inr (x, s') \<Rightarrow> (Inr x, s'))"

text \<open>A computation that neither reads nor writes the state but may raise.\<close>

definition computed :: "('e, 'a) res \<Rightarrow> ('s, 'e, 'a) command" where
  "computed r = (\<lambda>s. (r, s))"

definition guarded :: "bool \<Rightarrow> 'e \<Rightarrow> ('s, 'e, unit) command" where
  "guarded b e = (if b then raising e else produce ())"

definition handled ::
  "('s, 'e, 'a) command \<Rightarrow> ('e \<Rightarrow> bool) \<Rightarrow> ('e \<Rightarrow> ('s, 'e, 'a) command) \<Rightarrow> ('s, 'e, 'a) command" where
  "handled m p h = (\<lambda>s. case m s of
     (Inl e, s') \<Rightarrow> if p e then h e s' else (Inl e, s') | (Inr x, s') \<Rightarrow> (Inr x, s'))"

definition atomically :: "('s, 'e, 'a) command \<Rightarrow> ('s, 'e, 'a) command" where
  "atomically m = (\<lambda>s. case m s of (Inl e, s') \<Rightarrow> (Inl e, s) | (Inr x, s') \<Rightarrow> (Inr x, s'))"

text \<open>The command as the body of a transaction that an exception rolls back.\<close>

definition committed :: "('s, 'e, 'a) command \<Rightarrow> 's \<Rightarrow> ('e, 'a \<times> 's) res" where
  "committed m s = (case m s of (Inl e, s') \<Rightarrow> Inl e | (Inr x, s') \<Rightarrow> Inr (x, s'))"

lemmas command_defs = produce_def raising_def cbind_def cseq_def reading_def writing_def
  statement_def computed_def guarded_def handled_def atomically_def

lemma committed_Inr: "committed m s = Inr (x, s') \<longleftrightarrow> m s = (Inr x, s')"
  by (auto simp: committed_def split: prod.splits sum.splits)

subsection \<open>Weakest preconditions\<close>

definition wp ::
  "('s, 'e, 'a) command \<Rightarrow> ('a \<Rightarrow> 's \<Rightarrow> bool) \<Rightarrow> ('e \<Rightarrow> 's \<Rightarrow> bool) \<Rightarrow> 's \<Rightarrow> bool" where
  "wp m Q E s = (case m s of (Inl e, s') \<Rightarrow> E e s' | (Inr x, s') \<Rightarrow> Q x s')"

named_theorems wp_rules "weakest precondition of each construct, as an introduction rule"

lemma wp_produce [wp_rules]: "Q x s \<Longrightarrow> wp (produce x) Q E s"
  by (simp add: wp_def produce_def)

lemma wp_raising [wp_rules]: "E e s \<Longrightarrow> wp (raising e) Q E s"
  by (simp add: wp_def raising_def)

lemma wp_cbind [wp_rules]: "wp m (\<lambda>x. wp (f x) Q E) E s \<Longrightarrow> wp (cbind m f) Q E s"
  by (auto simp: wp_def cbind_def split: prod.splits sum.splits)

lemma wp_cseq [wp_rules]: "wp m (\<lambda>_. wp n Q E) E s \<Longrightarrow> wp (cseq m n) Q E s"
  by (simp add: cseq_def wp_cbind)

lemma wp_reading [wp_rules]: "Q (f s) s \<Longrightarrow> wp (reading f) Q E s"
  by (simp add: wp_def reading_def)

lemma wp_writing [wp_rules]: "Q () (f s) \<Longrightarrow> wp (writing f) Q E s"
  by (simp add: wp_def writing_def)

lemma wp_statement [wp_rules]:
  "(\<And>e. f s = Inl e \<Longrightarrow> E e s) \<Longrightarrow> (\<And>x s'. f s = Inr (x, s') \<Longrightarrow> Q x s') \<Longrightarrow>
   wp (statement f) Q E s"
  by (auto simp: wp_def statement_def split: prod.splits sum.splits)

lemma wp_computed [wp_rules]:
  "(\<And>e. r = Inl e \<Longrightarrow> E e s) \<Longrightarrow> (\<And>x. r = Inr x \<Longrightarrow> Q x s) \<Longrightarrow> wp (computed r) Q E s"
  by (auto simp: wp_def computed_def split: sum.splits)

lemma wp_guarded [wp_rules]:
  "(b \<Longrightarrow> E e s) \<Longrightarrow> (\<not> b \<Longrightarrow> Q () s) \<Longrightarrow> wp (guarded b e) Q E s"
  by (auto simp: wp_def guarded_def raising_def produce_def)

lemma wp_if [wp_rules]:
  "(b \<Longrightarrow> wp m Q E s) \<Longrightarrow> (\<not> b \<Longrightarrow> wp n Q E s) \<Longrightarrow> wp (if b then m else n) Q E s"
  by simp

lemma wp_option [wp_rules]:
  "(x = None \<Longrightarrow> wp m Q E s) \<Longrightarrow> (\<And>y. x = Some y \<Longrightarrow> wp (f y) Q E s) \<Longrightarrow>
   wp (case x of None \<Rightarrow> m | Some y \<Rightarrow> f y) Q E s"
  by (simp split: option.split)

lemma wp_pair [wp_rules]:
  "(\<And>a b. x = (a, b) \<Longrightarrow> wp (f a b) Q E s) \<Longrightarrow> wp (case x of (a, b) \<Rightarrow> f a b) Q E s"
  by (cases x) simp

lemma wp_handled [wp_rules]:
  "wp m Q (\<lambda>e s. (p e \<longrightarrow> wp (h e) Q E s) \<and> (\<not> p e \<longrightarrow> E e s)) s \<Longrightarrow> wp (handled m p h) Q E s"
  by (cases "m s", cases "fst (m s)") (simp_all add: wp_def handled_def)

lemma wp_atomically: "wp m Q (\<lambda>e _. E e s) s \<Longrightarrow> wp (atomically m) Q E s"
  by (auto simp: wp_def atomically_def split: prod.splits sum.splits)

lemma wp_mono:
  "wp m Q E s \<Longrightarrow> (\<And>x s'. Q x s' \<Longrightarrow> Q' x s') \<Longrightarrow> (\<And>e s'. E e s' \<Longrightarrow> E' e s') \<Longrightarrow> wp m Q' E' s"
  by (auto simp: wp_def split: prod.splits sum.splits)

lemma wp_Inr: "wp m Q E s \<Longrightarrow> m s = (Inr x, s') \<Longrightarrow> Q x s'"
  by (simp add: wp_def)

lemma wp_Inl: "wp m Q E s \<Longrightarrow> m s = (Inl e, s') \<Longrightarrow> E e s'"
  by (simp add: wp_def)

lemma wp_self: "wp m (\<lambda>x s'. m s = (Inr x, s')) (\<lambda>e s'. m s = (Inl e, s')) s"
  by (auto simp: wp_def split: prod.splits sum.splits)

subsection \<open>Relations that every command respects\<close>

definition advances :: "('s \<Rightarrow> 's \<Rightarrow> bool) \<Rightarrow> ('s, 'e, 'a) command \<Rightarrow> bool" where
  "advances R m \<longleftrightarrow> (\<forall>s. R s (snd (m s)))"

named_theorems advance_rules "commands that respect a relation"

lemma advancesD: "advances R m \<Longrightarrow> m s = (r, s') \<Longrightarrow> R s s'"
  by (auto simp: advances_def dest: spec [of _ s])

lemma wp_advances:
  "advances R m \<Longrightarrow> (\<And>x s'. R s s' \<Longrightarrow> Q x s') \<Longrightarrow> (\<And>e s'. R s s' \<Longrightarrow> E e s') \<Longrightarrow> wp m Q E s"
  by (auto simp: wp_def advances_def split: prod.splits sum.splits dest: spec [of _ s])

lemma advances_wp: "advances R m \<longleftrightarrow> (\<forall>s. wp m (\<lambda>_. R s) (\<lambda>_. R s) s)"
proof -
  have "wp m (\<lambda>_. R s) (\<lambda>_. R s) s \<longleftrightarrow> R s (snd (m s))" for s
    by (cases "m s", cases "fst (m s)") (simp_all add: wp_def)
  then show ?thesis by (simp add: advances_def)
qed

text \<open>The interface of a relation that histories compose along.\<close>

locale state_order =
  fixes R :: "'s \<Rightarrow> 's \<Rightarrow> bool"
  assumes stays: "R s s" and chains: "R s t \<Longrightarrow> R t u \<Longrightarrow> R s u"
begin

lemma advances_produce: "advances R (produce x)"
  by (simp add: advances_def produce_def stays)

lemma advances_raising: "advances R (raising e)"
  by (simp add: advances_def raising_def stays)

lemma advances_reading: "advances R (reading f)"
  by (simp add: advances_def reading_def stays)

lemma advances_computed: "advances R (computed r)"
  by (simp add: advances_def computed_def stays)

lemma advances_guarded: "advances R (guarded b e)"
  by (simp add: advances_def guarded_def raising_def produce_def stays)

lemma advances_writing: "(\<And>s. R s (f s)) \<Longrightarrow> advances R (writing f)"
  by (simp add: advances_def writing_def)

lemma advances_statement:
  "(\<And>s x s'. f s = Inr (x, s') \<Longrightarrow> R s s') \<Longrightarrow> advances R (statement f)"
  by (auto simp: advances_def statement_def stays split: sum.splits)

lemma advances_cbind:
  assumes "advances R m" and "\<And>x. advances R (f x)"
  shows "advances R (cbind m f)"
  unfolding advances_def
proof
  fix s
  obtain r s' where m: "m s = (r, s')" by fastforce
  with assms(1) have "R s s'" by (rule advancesD)
  then show "R s (snd (cbind m f s))"
  proof (cases r)
    case (Inr x)
    from assms(2) [of x] have "R s' (snd (f x s'))" by (simp add: advances_def)
    with \<open>R s s'\<close> have "R s (snd (f x s'))" by (rule chains)
    with m Inr show ?thesis by (simp add: cbind_def)
  qed (simp add: m cbind_def)
qed

lemma advances_cseq: "advances R m \<Longrightarrow> advances R n \<Longrightarrow> advances R (cseq m n)"
  by (simp add: cseq_def advances_cbind)

lemma advances_if: "advances R m \<Longrightarrow> advances R n \<Longrightarrow> advances R (if b then m else n)"
  by simp

lemma advances_option:
  "advances R m \<Longrightarrow> (\<And>y. advances R (f y)) \<Longrightarrow>
   advances R (case x of None \<Rightarrow> m | Some y \<Rightarrow> f y)"
  by (simp split: option.split)

lemma advances_pair: "(\<And>a b. advances R (f a b)) \<Longrightarrow> advances R (case x of (a, b) \<Rightarrow> f a b)"
  by (cases x) simp

lemma advances_handled:
  assumes "advances R m" and "\<And>e. advances R (h e)"
  shows "advances R (handled m p h)"
  unfolding advances_def
proof
  fix s
  obtain r s' where m: "m s = (r, s')" by fastforce
  with assms(1) have "R s s'" by (rule advancesD)
  then show "R s (snd (handled m p h s))"
  proof (cases r)
    case (Inl e)
    from assms(2) [of e] have "R s' (snd (h e s'))" by (simp add: advances_def)
    with \<open>R s s'\<close> have "R s (snd (h e s'))" by (rule chains)
    with m Inl \<open>R s s'\<close> show ?thesis by (simp add: handled_def)
  qed (simp add: m handled_def)
qed

lemma advances_atomically: "advances R m \<Longrightarrow> advances R (atomically m)"
  unfolding advances_def
proof
  fix s
  assume "\<forall>s. R s (snd (m s))"
  then show "R s (snd (atomically m s))"
    by (cases "m s", cases "fst (m s)") (auto simp: atomically_def stays dest: spec [of _ s])
qed

lemmas advances_all = advances_produce advances_raising advances_reading advances_computed
  advances_guarded advances_cbind advances_cseq advances_if advances_option advances_pair
  advances_handled advances_atomically

end

text \<open>The frame: a command that leaves the part \<open>f\<close> of the state alone.\<close>

definition same :: "('s \<Rightarrow> 'v) \<Rightarrow> 's \<Rightarrow> 's \<Rightarrow> bool" where
  "same f s s' \<longleftrightarrow> f s' = f s"

interpretation kept: state_order "same f" for f :: "'s \<Rightarrow> 'v"
  by unfold_locales (simp_all add: same_def)

abbreviation keeps :: "('s \<Rightarrow> 'v) \<Rightarrow> ('s, 'e, 'a) command \<Rightarrow> bool" where
  "keeps f m \<equiv> advances (same f) m"

named_theorems keeps_rules "commands that leave a part of the state alone"

declare kept.advances_all [keeps_rules]

lemma keeps_iff: "keeps f m \<longleftrightarrow> (\<forall>s. f (snd (m s)) = f s)"
  by (simp add: advances_def same_def)

lemma keeps_statement:
  "(\<And>s x s'. h s = Inr (x, s') \<Longrightarrow> f s' = f s) \<Longrightarrow> keeps f (statement h)"
  by (rule kept.advances_statement) (simp add: same_def)

lemma keeps_sum [keeps_rules]:
  "(\<And>x. keeps f (m x)) \<Longrightarrow> (\<And>y. keeps f (n y)) \<Longrightarrow>
   keeps f (case v of Inl x \<Rightarrow> m x | Inr y \<Rightarrow> n y)"
  by (simp split: sum.split)

lemma wp_keeps:
  assumes "keeps f m" and "\<And>x s'. f s' = f s \<Longrightarrow> Q x s'" and "\<And>e s'. f s' = f s \<Longrightarrow> E e s'"
  shows "wp m Q E s"
  by (rule wp_advances [OF assms(1)]) (simp_all add: assms same_def)

end
