(* ===== verification/Identity_Store.thy ===== *)
theory Identity_Store
  imports Identity_Domain Commands Audit_Log Idempotency
begin

section \<open>The identity module: repository\<close>

text \<open>
  \<^verbatim>\<open>identity/adapters/sqlalchemy.py\<close> over the tables of \<^verbatim>\<open>migrations/identity/0001\<close> to
  \<^verbatim>\<open>0004\<close>, \<^verbatim>\<open>0010\<close> and \<^verbatim>\<open>0011\<close>: every statement of the repository port with the
  constraints of the tables. A violated constraint raises \<open>IdentityIntegrityError\<close> with the
  table's name. A command runs as one step, so the advisory locks and \<open>FOR UPDATE\<close> have nothing
  to wait for. Ids are the canonical text of UUIDs, whose order is the order of the text.
\<close>

record account_entry =
  ia_id :: string
  ia_employee_no :: string
  ia_display_name :: string
  ia_profession :: "string option"
  ia_status :: account_status
  ia_password_hash :: "string option"
  ia_password_set_at :: "instant option"
  ia_totp_sealed :: "string option"
  ia_totp_confirmed_at :: "instant option"
  ia_totp_last_step :: "int option"
  ia_super_admin :: bool
  ia_version :: int
  ia_created_at :: instant
  ia_updated_at :: instant

record temp_credential =
  tc_id :: string
  tc_account :: string
  tc_secret_hash :: string
  tc_expires_at :: instant
  tc_consumed_at :: "instant option"
  tc_issued_by :: string
  tc_created_at :: instant

record session_entry =
  ss_id :: string
  ss_account :: string
  ss_token_hash :: string
  ss_kind :: session_kind
  ss_purpose :: "bootstrap_purpose option"
  ss_totp_attempts :: int
  ss_created_at :: instant
  ss_last_seen_at :: instant
  ss_expires_hint :: instant
  ss_revoked_at :: "instant option"
  ss_revoke_reason :: "string option"

record backoff_entry =
  lb_employee_no :: string
  lb_source :: string
  lb_failure_count :: int
  lb_last_failure_at :: "instant option"
  lb_locked_until :: "instant option"

record challenge_entry =
  ch_id :: string
  ch_token_hash :: string
  ch_purpose :: string
  ch_account :: string
  ch_actor :: "string option"
  ch_issued_at :: instant
  ch_expires_at :: instant
  ch_attempt_limit :: int
  ch_attempt_count :: int
  ch_consumed_at :: "instant option"
  ch_revoked_at :: "instant option"

text \<open>The schema as a transaction sees it; how often the command has read the clock, the policy,
  the id source and the token source; and the tickets of the security changes it has begun.\<close>

record identity_state =
  id_accounts :: "account_entry list"
  id_temps :: "temp_credential list"
  id_sessions :: "session_entry list"
  id_backoffs :: "backoff_entry list"
  id_challenges :: "challenge_entry list"
  id_consumptions :: "reauth_receipt list"
  id_keys :: "idem_row list"
  id_audit :: audit_log
  id_ticks :: nat
  id_policy_reads :: nat
  id_uuids :: nat
  id_tokens :: nat
  id_tickets :: "string list"

definition empty_identity_state :: "identity_state" where
  "empty_identity_state = \<lparr>id_accounts = [], id_temps = [], id_sessions = [], id_backoffs = [],
     id_challenges = [], id_consumptions = [], id_keys = [], id_audit = [], id_ticks = 0,
     id_policy_reads = 0, id_uuids = 0, id_tokens = 0, id_tickets = []\<rparr>"

type_synonym 'a identity_command = "(identity_state, identity_error, 'a) command"

subsection \<open>Inserting and updating rows under constraints\<close>

definition inserted_row ::
  "string \<Rightarrow> bool \<Rightarrow> ('r \<Rightarrow> bool) \<Rightarrow> 'r \<Rightarrow> 'r list \<Rightarrow> (identity_error, 'r list) res" where
  "inserted_row table ok clash r rows =
     (if \<not> ok \<or> list_ex clash rows then Inl (IdentityIntegrityError table) else Inr (rows @ [r]))"

definition changed_rows ::
  "string \<Rightarrow> ('r \<Rightarrow> bool) \<Rightarrow> ('r \<Rightarrow> bool) \<Rightarrow> ('r \<Rightarrow> 'r) \<Rightarrow> 'r list
   \<Rightarrow> (identity_error, 'r list) res" where
  "changed_rows table ok p f rows =
     (if list_ex (\<lambda>r. p r \<and> \<not> ok (f r)) rows then Inl (IdentityIntegrityError table)
      else Inr (set_where p f rows))"

lemma inserted_identity_Inr: "inserted_row table ok clash r rows = Inr rows' \<longleftrightarrow>
    ok \<and> (\<forall>x \<in> set rows. \<not> clash x) \<and> rows' = rows @ [r]"
  by (auto simp: inserted_row_def list_ex_iff)

lemma inserted_row_Inl: "inserted_row table ok clash r rows = Inl e \<Longrightarrow> e = IdentityIntegrityError table"
  by (auto simp: inserted_row_def split: if_splits)

lemma changed_rows_Inr: "changed_rows table ok p f rows = Inr rows' \<longleftrightarrow>
    (\<forall>r \<in> set rows. p r \<longrightarrow> ok (f r)) \<and> rows' = set_where p f rows"
  by (auto simp: changed_rows_def list_ex_iff)

lemma changed_rows_Inl: "changed_rows table ok p f rows = Inl e \<Longrightarrow> e = IdentityIntegrityError table"
  by (auto simp: changed_rows_def split: if_splits)

definition has_account :: "string \<Rightarrow> identity_state \<Rightarrow> bool" where
  "has_account i s = list_ex (\<lambda>a. ia_id a = i) (id_accounts s)"

subsection \<open>Accounts\<close>

definition account_row_ok :: "account_entry \<Rightarrow> bool" where
  "account_row_ok a = (length (ia_employee_no a) = 8 \<and> list_all ascii_digit (ia_employee_no a)
     \<and> (case ia_totp_last_step a of None \<Rightarrow> True | Some n \<Rightarrow> 0 \<le> n \<and> int8 n)
     \<and> 0 < ia_version a \<and> int8 (ia_version a) \<and> ia_created_at a \<le> ia_updated_at a)"

text \<open>\<open>UPDATE identity.account SET ... WHERE ... RETURNING *\<close>: the row it selected, if any.\<close>

definition update_account ::
  "(account_entry \<Rightarrow> bool) \<Rightarrow> (account_entry \<Rightarrow> account_entry)
   \<Rightarrow> (account_entry option) identity_command" where
  "update_account p f = statement (\<lambda>s.
     rbind (changed_rows ''account'' account_row_ok p f (id_accounts s)) (\<lambda>rows.
       Inr (map_option f (find p (id_accounts s)), s\<lparr>id_accounts := rows\<rparr>)))"

definition any_super_admin :: "identity_state \<Rightarrow> bool" where
  "any_super_admin s = list_ex ia_super_admin (id_accounts s)"

definition super_admin_rows :: "identity_state \<Rightarrow> account_entry list" where
  "super_admin_rows s =
     sort_key (\<lambda>a. (ia_employee_no a, ia_id a)) (filter ia_super_admin (id_accounts s))"

definition new_account ::
  "string \<Rightarrow> string \<Rightarrow> string \<Rightarrow> string option \<Rightarrow> account_status \<Rightarrow> instant \<Rightarrow> account_entry" where
  "new_account i employee_no display_name profession status now =
     \<lparr>ia_id = i, ia_employee_no = employee_no, ia_display_name = display_name,
      ia_profession = profession, ia_status = status, ia_password_hash = None,
      ia_password_set_at = None, ia_totp_sealed = None, ia_totp_confirmed_at = None,
      ia_totp_last_step = None, ia_super_admin = False, ia_version = 1, ia_created_at = now,
      ia_updated_at = now\<rparr>"

text \<open>\<open>ON CONFLICT (employee_no) DO NOTHING RETURNING id\<close>, and the exception if nothing came back.\<close>

definition insert_account :: "account_entry \<Rightarrow> unit identity_command" where
  "insert_account a = statement (\<lambda>s.
     if \<not> account_row_ok a then Inl (IdentityIntegrityError ''account'')
     else if list_ex (\<lambda>x. ia_employee_no x = ia_employee_no a) (id_accounts s)
     then Inl (AccountConflict ''employee number already exists'')
     else rbind (inserted_row ''account'' True (\<lambda>x. ia_id x = ia_id a) a (id_accounts s))
       (\<lambda>rows. Inr ((), s\<lparr>id_accounts := rows\<rparr>)))"

definition account_page ::
  "string option \<Rightarrow> string option \<Rightarrow> nat \<Rightarrow> identity_state \<Rightarrow> account_entry list" where
  "account_page after_employee_no after_id limit s =
     take limit (sort_key (\<lambda>a. (ia_employee_no a, ia_id a))
       (filter (\<lambda>a. case after_employee_no of None \<Rightarrow> True
          | Some e \<Rightarrow> e < ia_employee_no a
              \<or> (ia_employee_no a = e \<and> (case after_id of None \<Rightarrow> False | Some i \<Rightarrow> i < ia_id a)))
        (id_accounts s)))"

definition account_by_id :: "string \<Rightarrow> identity_state \<Rightarrow> account_entry option" where
  "account_by_id i s = row_by ia_id i (id_accounts s)"

definition account_by_employee_no :: "string \<Rightarrow> identity_state \<Rightarrow> account_entry option" where
  "account_by_employee_no e s = row_by ia_employee_no e (id_accounts s)"

definition update_password :: "string \<Rightarrow> string \<Rightarrow> instant \<Rightarrow> (account_entry option) identity_command" where
  "update_password i password_hash now = update_account (\<lambda>a. ia_id a = i)
     (\<lambda>a. a\<lparr>ia_password_hash := Some password_hash, ia_password_set_at := Some now,
        ia_updated_at := now, ia_version := ia_version a + 1\<rparr>)"

definition reset_password_state :: "string \<Rightarrow> instant \<Rightarrow> (account_entry option) identity_command" where
  "reset_password_state i now = update_account (\<lambda>a. ia_id a = i)
     (\<lambda>a. a\<lparr>ia_password_hash := None, ia_password_set_at := None, ia_status := PENDING_INIT,
        ia_updated_at := now, ia_version := ia_version a + 1\<rparr>)"

definition reset_totp_state ::
  "string \<Rightarrow> int \<Rightarrow> instant \<Rightarrow> (account_entry option) identity_command" where
  "reset_totp_state i expected_version now =
     update_account (\<lambda>a. ia_id a = i \<and> ia_version a = expected_version)
       (\<lambda>a. a\<lparr>ia_totp_sealed := None, ia_totp_confirmed_at := None, ia_totp_last_step := None,
          ia_status := PENDING_INIT, ia_updated_at := now, ia_version := ia_version a + 1\<rparr>)"

definition reset_recovery_state :: "string \<Rightarrow> instant \<Rightarrow> (account_entry option) identity_command" where
  "reset_recovery_state i now = update_account (\<lambda>a. ia_id a = i)
     (\<lambda>a. a\<lparr>ia_password_hash := None, ia_password_set_at := None, ia_totp_sealed := None,
        ia_totp_confirmed_at := None, ia_totp_last_step := None, ia_status := PENDING_INIT,
        ia_updated_at := now, ia_version := ia_version a + 1\<rparr>)"

definition update_totp_enrollment ::
  "string \<Rightarrow> string \<Rightarrow> instant \<Rightarrow> (account_entry option) identity_command" where
  "update_totp_enrollment i sealed now = update_account (\<lambda>a. ia_id a = i)
     (\<lambda>a. a\<lparr>ia_totp_sealed := Some sealed, ia_totp_confirmed_at := None,
        ia_totp_last_step := None, ia_updated_at := now, ia_version := ia_version a + 1\<rparr>)"

definition store_totp_confirmation ::
  "string \<Rightarrow> int \<Rightarrow> instant \<Rightarrow> (account_entry option) identity_command" where
  "store_totp_confirmation i step now = update_account (\<lambda>a. ia_id a = i)
     (\<lambda>a. a\<lparr>ia_totp_confirmed_at := Some now, ia_totp_last_step := Some step,
        ia_status := ENABLED, ia_updated_at := now, ia_version := ia_version a + 1\<rparr>)"

definition restore_password_reset ::
  "string \<Rightarrow> int \<Rightarrow> instant \<Rightarrow> (account_entry option) identity_command" where
  "restore_password_reset i step now = update_account
     (\<lambda>a. ia_id a = i \<and> ia_password_hash a \<noteq> None \<and> ia_totp_confirmed_at a \<noteq> None)
     (\<lambda>a. a\<lparr>ia_totp_last_step := Some step, ia_status := ENABLED, ia_updated_at := now,
        ia_version := ia_version a + 1\<rparr>)"

definition step_unused :: "int \<Rightarrow> account_entry \<Rightarrow> bool" where
  "step_unused step a = (case ia_totp_last_step a of None \<Rightarrow> True | Some used \<Rightarrow> used < step)"

definition update_totp_step :: "string \<Rightarrow> int \<Rightarrow> instant \<Rightarrow> bool identity_command" where
  "update_totp_step i step now = cbind (update_account (\<lambda>a. ia_id a = i \<and> step_unused step a)
     (\<lambda>a. a\<lparr>ia_totp_last_step := Some step, ia_updated_at := now\<rparr>)) (\<lambda>row. produce (row \<noteq> None))"

definition effective_row :: "account_entry \<Rightarrow> bool" where
  "effective_row a = (ia_super_admin a \<and> ia_status a = ENABLED \<and> ia_password_hash a \<noteq> None
     \<and> ia_totp_confirmed_at a \<noteq> None)"

definition effective_super_admins_except :: "string \<Rightarrow> identity_state \<Rightarrow> int" where
  "effective_super_admins_except i s =
     int (length (filter (\<lambda>a. ia_id a \<noteq> i \<and> effective_row a) (id_accounts s)))"

definition update_account_status ::
  "string \<Rightarrow> account_status \<Rightarrow> int \<Rightarrow> instant \<Rightarrow> (account_entry option) identity_command" where
  "update_account_status i status expected_version now =
     update_account (\<lambda>a. ia_id a = i \<and> ia_version a = expected_version)
       (\<lambda>a. a\<lparr>ia_status := status, ia_version := ia_version a + 1, ia_updated_at := now\<rparr>)"

definition update_super_admin ::
  "string \<Rightarrow> bool \<Rightarrow> int \<Rightarrow> instant \<Rightarrow> (account_entry option) identity_command" where
  "update_super_admin i is_super_admin expected_version now =
     update_account (\<lambda>a. ia_id a = i \<and> ia_version a = expected_version)
       (\<lambda>a. a\<lparr>ia_super_admin := is_super_admin, ia_version := ia_version a + 1,
          ia_updated_at := now\<rparr>)"

subsection \<open>Temporary credentials\<close>

definition temp_row_ok :: "temp_credential \<Rightarrow> bool" where
  "temp_row_ok t = (tc_secret_hash t \<noteq> [] \<and> tc_created_at t < tc_expires_at t
     \<and> (case tc_consumed_at t of None \<Rightarrow> True
          | Some c \<Rightarrow> tc_created_at t \<le> c \<and> c < tc_expires_at t))"

definition live_temp :: "instant \<Rightarrow> temp_credential \<Rightarrow> bool" where
  "live_temp now t = (tc_consumed_at t = None \<and> now < tc_expires_at t)"

definition invalidate_temp_credentials :: "string \<Rightarrow> instant \<Rightarrow> unit identity_command" where
  "invalidate_temp_credentials account now = statement (\<lambda>s.
     rbind (changed_rows ''temp_credential'' temp_row_ok
         (\<lambda>t. tc_account t = account \<and> live_temp now t) (\<lambda>t. t\<lparr>tc_consumed_at := Some now\<rparr>)
         (id_temps s))
       (\<lambda>rows. Inr ((), s\<lparr>id_temps := rows\<rparr>)))"

definition insert_temp_credential :: "temp_credential \<Rightarrow> unit identity_command" where
  "insert_temp_credential t = statement (\<lambda>s.
     rbind (inserted_row ''temp_credential''
         (temp_row_ok t \<and> has_account (tc_account t) s \<and> has_account (tc_issued_by t) s)
         (\<lambda>x. tc_id x = tc_id t) t (id_temps s))
       (\<lambda>rows. Inr ((), s\<lparr>id_temps := rows\<rparr>)))"

text \<open>The live credential of an account created last, with the account it is joined with.\<close>

definition lock_active_temp_credential ::
  "string \<Rightarrow> instant \<Rightarrow> identity_state \<Rightarrow> (temp_credential \<times> account_entry) option" where
  "lock_active_temp_credential employee_no now s =
     (case account_by_employee_no employee_no s of
        None \<Rightarrow> None
      | Some a \<Rightarrow>
          (case rev (sort_key (\<lambda>t. (tc_created_at t, tc_id t))
                  (filter (\<lambda>t. tc_account t = ia_id a \<and> live_temp now t) (id_temps s))) of
             [] \<Rightarrow> None
           | t # _ \<Rightarrow> Some (t, a)))"

definition consume_temp_credential :: "string \<Rightarrow> instant \<Rightarrow> bool identity_command" where
  "consume_temp_credential i now = statement (\<lambda>s.
     let p = (\<lambda>t. tc_id t = i \<and> live_temp now t)
     in rbind (changed_rows ''temp_credential'' temp_row_ok p (\<lambda>t. t\<lparr>tc_consumed_at := Some now\<rparr>)
          (id_temps s))
        (\<lambda>rows. Inr (length (filter p (id_temps s)) = 1, s\<lparr>id_temps := rows\<rparr>)))"

subsection \<open>Sessions\<close>

definition session_row_ok :: "session_entry \<Rightarrow> bool" where
  "session_row_ok r = (ss_token_hash r \<noteq> [] \<and> ss_created_at r \<le> ss_last_seen_at r
     \<and> ss_created_at r < ss_expires_hint r
     \<and> (case ss_revoked_at r of None \<Rightarrow> ss_revoke_reason r = None
          | Some t \<Rightarrow> ss_created_at r \<le> t
              \<and> (case ss_revoke_reason r of None \<Rightarrow> False | Some x \<Rightarrow> nonblank_text x))
     \<and> (ss_kind r = FULL \<longleftrightarrow> ss_purpose r = None)
     \<and> 0 \<le> ss_totp_attempts r \<and> int4 (ss_totp_attempts r)
     \<and> (ss_kind r = BOOTSTRAP \<or> ss_totp_attempts r = 0))"

definition live_session :: "session_entry \<Rightarrow> bool" where
  "live_session r = (ss_revoked_at r = None)"

definition change_sessions ::
  "(session_entry \<Rightarrow> bool) \<Rightarrow> (session_entry \<Rightarrow> session_entry)
   \<Rightarrow> (session_entry list) identity_command" where
  "change_sessions p f = statement (\<lambda>s.
     rbind (changed_rows ''session'' session_row_ok p f (id_sessions s)) (\<lambda>rows.
       Inr (map f (filter p (id_sessions s)), s\<lparr>id_sessions := rows\<rparr>)))"

definition insert_session :: "session_entry \<Rightarrow> unit identity_command" where
  "insert_session r = statement (\<lambda>s.
     rbind (inserted_row ''session'' (session_row_ok r \<and> has_account (ss_account r) s)
         (\<lambda>x. ss_id x = ss_id r \<or> ss_token_hash x = ss_token_hash r) r (id_sessions s))
       (\<lambda>rows. Inr ((), s\<lparr>id_sessions := rows\<rparr>)))"

definition session_with_account ::
  "string \<Rightarrow> identity_state \<Rightarrow> (session_entry \<times> account_entry) option" where
  "session_with_account token_hash s =
     (case row_by ss_token_hash token_hash (id_sessions s) of
        None \<Rightarrow> None
      | Some r \<Rightarrow> map_option (Pair r) (account_by_id (ss_account r) s))"

definition increment_bootstrap_totp_attempts :: "string \<Rightarrow> int identity_command" where
  "increment_bootstrap_totp_attempts i = cbind
     (change_sessions (\<lambda>r. ss_id r = i \<and> ss_kind r = BOOTSTRAP \<and> live_session r)
        (\<lambda>r. r\<lparr>ss_totp_attempts := ss_totp_attempts r + 1\<rparr>))
     (\<lambda>rows. produce (case rows of [] \<Rightarrow> 0 | r # _ \<Rightarrow> ss_totp_attempts r))"

definition revoked :: "instant \<Rightarrow> string \<Rightarrow> session_entry \<Rightarrow> session_entry" where
  "revoked now reason r = r\<lparr>ss_revoked_at := Some now, ss_revoke_reason := Some reason\<rparr>"

definition revoke_sessions ::
  "string \<Rightarrow> instant \<Rightarrow> string \<Rightarrow> string option \<Rightarrow> session_kind option
   \<Rightarrow> (string list) identity_command" where
  "revoke_sessions account now reason except_session kind = cbind
     (change_sessions
        (\<lambda>r. ss_account r = account \<and> live_session r
           \<and> (case except_session of None \<Rightarrow> True | Some i \<Rightarrow> ss_id r \<noteq> i)
           \<and> (case kind of None \<Rightarrow> True | Some k \<Rightarrow> ss_kind r = k))
        (revoked now reason))
     (\<lambda>rows. produce (map ss_id rows))"

definition revoke_session ::
  "string \<Rightarrow> instant \<Rightarrow> string \<Rightarrow> (string option) identity_command" where
  "revoke_session i now reason = cbind
     (change_sessions (\<lambda>r. ss_id r = i \<and> live_session r) (revoked now reason))
     (\<lambda>rows. produce (case rows of [] \<Rightarrow> None | r # _ \<Rightarrow> Some (ss_id r)))"

definition touch_session :: "string \<Rightarrow> instant \<Rightarrow> instant \<Rightarrow> unit identity_command" where
  "touch_session i now expires_hint = cseq
     (change_sessions (\<lambda>r. ss_id r = i \<and> live_session r)
        (\<lambda>r. r\<lparr>ss_last_seen_at := now, ss_expires_hint := expires_hint\<rparr>))
     (produce ())"

definition age_key :: "session_entry \<Rightarrow> instant \<times> string" where
  "age_key r = (ss_created_at r, ss_id r)"

text \<open>The live full sessions of an account from the newest to the oldest; the statement revokes
  those whose rank is above the cap.\<close>

definition ranked_full_sessions :: "string \<Rightarrow> session_entry list \<Rightarrow> session_entry list" where
  "ranked_full_sessions account rows = rev (sort_key age_key
     (filter (\<lambda>r. ss_account r = account \<and> ss_kind r = FULL \<and> live_session r) rows))"

definition evict_old_full_sessions ::
  "string \<Rightarrow> int \<Rightarrow> instant \<Rightarrow> (string list) identity_command" where
  "evict_old_full_sessions account cap now = cbind
     (reading (\<lambda>s. map ss_id (drop (nat cap) (ranked_full_sessions account (id_sessions s)))))
     (\<lambda>old. cbind (change_sessions (\<lambda>r. ss_id r \<in> set old) (revoked now ''SESSION_CAP''))
       (\<lambda>rows. produce (map ss_id rows)))"

subsection \<open>Login challenges\<close>

definition challenge_row_ok :: "challenge_entry \<Rightarrow> bool" where
  "challenge_row_ok c = (ch_token_hash c \<noteq> [] \<and> ch_purpose c \<noteq> []
     \<and> ch_issued_at c < ch_expires_at c \<and> 0 < ch_attempt_limit c \<and> int4 (ch_attempt_limit c)
     \<and> 0 \<le> ch_attempt_count c \<and> ch_attempt_count c \<le> ch_attempt_limit c
     \<and> (case ch_consumed_at c of None \<Rightarrow> True
          | Some t \<Rightarrow> ch_issued_at c \<le> t \<and> t < ch_expires_at c)
     \<and> (case ch_revoked_at c of None \<Rightarrow> True | Some t \<Rightarrow> ch_issued_at c \<le> t)
     \<and> \<not> (ch_consumed_at c \<noteq> None \<and> ch_revoked_at c \<noteq> None))"

definition new_challenge ::
  "string \<Rightarrow> string \<Rightarrow> string \<Rightarrow> string \<Rightarrow> string option \<Rightarrow> instant \<Rightarrow> instant \<Rightarrow> int \<Rightarrow> challenge_entry" where
  "new_challenge i token_hash purpose account actor issued_at expires_at attempt_limit =
     \<lparr>ch_id = i, ch_token_hash = token_hash, ch_purpose = purpose, ch_account = account,
      ch_actor = actor, ch_issued_at = issued_at, ch_expires_at = expires_at,
      ch_attempt_limit = attempt_limit, ch_attempt_count = 0, ch_consumed_at = None,
      ch_revoked_at = None\<rparr>"

definition insert_challenge :: "challenge_entry \<Rightarrow> unit identity_command" where
  "insert_challenge c = statement (\<lambda>s.
     rbind (inserted_row ''auth_challenge''
         (challenge_row_ok c \<and> has_account (ch_account c) s
          \<and> (case ch_actor c of None \<Rightarrow> True | Some a \<Rightarrow> has_account a s))
         (\<lambda>x. ch_id x = ch_id c \<or> ch_token_hash x = ch_token_hash c) c (id_challenges s))
       (\<lambda>rows. Inr ((), s\<lparr>id_challenges := rows\<rparr>)))"

definition admin_challenge_attempts ::
  "string \<Rightarrow> string \<Rightarrow> instant \<Rightarrow> identity_state \<Rightarrow> int" where
  "admin_challenge_attempts actor purpose not_before s =
     sum_list (map ch_attempt_count (filter (\<lambda>c. ch_actor c = Some actor \<and> ch_purpose c = purpose
       \<and> not_before \<le> ch_issued_at c) (id_challenges s)))"

definition challenge_by_hash ::
  "string \<Rightarrow> identity_state \<Rightarrow> (challenge_entry \<times> account_entry) option" where
  "challenge_by_hash token_hash s =
     (case row_by ch_token_hash token_hash (id_challenges s) of
        None \<Rightarrow> None
      | Some c \<Rightarrow> map_option (Pair c) (account_by_id (ch_account c) s))"

definition change_challenges ::
  "(challenge_entry \<Rightarrow> bool) \<Rightarrow> (challenge_entry \<Rightarrow> challenge_entry)
   \<Rightarrow> (challenge_entry list) identity_command" where
  "change_challenges p f = statement (\<lambda>s.
     rbind (changed_rows ''auth_challenge'' challenge_row_ok p f (id_challenges s)) (\<lambda>rows.
       Inr (map f (filter p (id_challenges s)), s\<lparr>id_challenges := rows\<rparr>)))"

definition failed_challenge :: "instant \<Rightarrow> challenge_entry \<Rightarrow> challenge_entry" where
  "failed_challenge now c = c\<lparr>
     ch_attempt_count := min (ch_attempt_count c + 1) (ch_attempt_limit c),
     ch_revoked_at := (if ch_attempt_limit c \<le> ch_attempt_count c + 1 then Some now
       else ch_revoked_at c)\<rparr>"

definition unspent_challenge :: "challenge_entry \<Rightarrow> bool" where
  "unspent_challenge c = (ch_consumed_at c = None \<and> ch_revoked_at c = None)"

definition fail_challenge :: "string \<Rightarrow> instant \<Rightarrow> int identity_command" where
  "fail_challenge i now = cbind
     (change_challenges (\<lambda>c. ch_id c = i \<and> unspent_challenge c) (failed_challenge now))
     (\<lambda>rows. produce (case rows of [] \<Rightarrow> 0 | c # _ \<Rightarrow> ch_attempt_count c))"

definition consume_challenge :: "string \<Rightarrow> instant \<Rightarrow> bool identity_command" where
  "consume_challenge i now = cbind
     (change_challenges (\<lambda>c. ch_id c = i \<and> unspent_challenge c \<and> now < ch_expires_at c
          \<and> ch_attempt_count c < ch_attempt_limit c)
        (\<lambda>c. c\<lparr>ch_consumed_at := Some now\<rparr>))
     (\<lambda>rows. produce (length rows = 1))"

subsection \<open>Login backoff\<close>

definition backoff_scope :: "backoff_entry \<Rightarrow> string \<times> string" where
  "backoff_scope b = (lb_employee_no b, lb_source b)"

definition backoff_row_ok :: "backoff_entry \<Rightarrow> bool" where
  "backoff_row_ok b = (length (lb_employee_no b) = 8 \<and> list_all ascii_digit (lb_employee_no b)
     \<and> nonblank_text (lb_source b) \<and> 0 \<le> lb_failure_count b \<and> int4 (lb_failure_count b)
     \<and> (if lb_failure_count b = 0 then lb_last_failure_at b = None \<and> lb_locked_until b = None
        else lb_last_failure_at b \<noteq> None)
     \<and> (case lb_locked_until b of None \<Rightarrow> True
          | Some u \<Rightarrow> (case lb_last_failure_at b of None \<Rightarrow> False | Some t \<Rightarrow> t \<le> u)))"

definition backoff_by_scope :: "string \<Rightarrow> string \<Rightarrow> identity_state \<Rightarrow> backoff_entry option" where
  "backoff_by_scope employee_no source s =
     row_by backoff_scope (employee_no, source) (id_backoffs s)"

definition save_backoff ::
  "string \<Rightarrow> string \<Rightarrow> int \<Rightarrow> instant option \<Rightarrow> instant option \<Rightarrow> unit identity_command" where
  "save_backoff employee_no source failure_count last_failure_at locked_until = statement (\<lambda>s.
     let b = \<lparr>lb_employee_no = employee_no, lb_source = source, lb_failure_count = failure_count,
           lb_last_failure_at = last_failure_at, lb_locked_until = locked_until\<rparr>
     in if \<not> backoff_row_ok b then Inl (IdentityIntegrityError ''login_backoff'')
        else Inr ((), s\<lparr>id_backoffs :=
          (if backoff_by_scope employee_no source s = None then id_backoffs s @ [b]
           else set_where (\<lambda>x. backoff_scope x = (employee_no, source)) (\<lambda>_. b)
             (id_backoffs s))\<rparr>))"

subsection \<open>Consumptions of a policy reauthentication\<close>

definition attempt_consumed :: "string \<Rightarrow> string \<Rightarrow> identity_state \<Rightarrow> bool" where
  "attempt_consumed actor attempt s =
     list_ex (\<lambda>c. rb_actor (rcp_binding c) = actor \<and> rb_attempt (rcp_binding c) = attempt)
       (id_consumptions s)"

definition consumption_row_ok :: "reauth_receipt \<Rightarrow> bool" where
  "consumption_row_ok r = (rb_attempt (rcp_binding r) \<noteq> []
     \<and> rb_operation (rcp_binding r) \<in> set policy_operations
     \<and> 0 < rcp_account_version r \<and> int8 (rcp_account_version r)
     \<and> rcp_expires_at r = rcp_consumed_at r + policy_reauth_ttl)"

definition insert_consumption :: "reauth_receipt \<Rightarrow> unit identity_command" where
  "insert_consumption r = statement (\<lambda>s.
     rbind (inserted_row ''policy_reauth_consumption'' (consumption_row_ok r)
         (\<lambda>x. rcp_id x = rcp_id r
            \<or> (rb_actor (rcp_binding x) = rb_actor (rcp_binding r)
               \<and> rb_attempt (rcp_binding x) = rb_attempt (rcp_binding r))) r (id_consumptions s))
       (\<lambda>rows. Inr ((), s\<lparr>id_consumptions := rows\<rparr>)))"

definition matches_consumption :: "reauth_receipt \<Rightarrow> identity_state \<Rightarrow> bool" where
  "matches_consumption r s = (r \<in> set (id_consumptions s))"

end
