(* ===== verification/Identity_Sessions.thy ===== *)
theory Identity_Sessions
  imports Identity_Store
begin

section \<open>The identity module: dependencies, audit and sessions\<close>

text \<open>
  \<^verbatim>\<open>identity/application/common.py\<close>, \<^verbatim>\<open>dependencies.py\<close>, \<^verbatim>\<open>security_change.py\<close> and
  \<^verbatim>\<open>sessions.py\<close>. The ports are the record \<open>identity_env\<close>: what the clock, the effective policy,
  the UUID and the token source answer at their n-th reading within a command, the secret
  material, and the callback that opens a security change in the authorization module;
  \<open>None\<close> is an exception no caller handles, which rolls the transaction back. The
  cryptography (SHA-256, Argon2id, AES-GCM, pyotp) is a parameter too.
\<close>

record secret_material =
  sm_pepper :: string
  sm_totp_key :: string
  sm_idempotency_key :: string

record identity_env =
  ev_clock :: "nat \<Rightarrow> instant"
  ev_policy :: "nat \<Rightarrow> identity_policy option"
  ev_uuid :: "nat \<Rightarrow> string"
  ev_token :: "nat \<Rightarrow> string"
  ev_totp_secret :: string
  ev_material :: "secret_material option"
  ev_unix :: int
  ev_sha256 :: "string \<Rightarrow> string"
  ev_hash :: "string \<Rightarrow> string \<Rightarrow> string"
  ev_verify :: "string \<Rightarrow> string \<Rightarrow> string \<Rightarrow> bool"
  ev_seal :: "string \<Rightarrow> string \<Rightarrow> string option"
  ev_unseal :: "string \<Rightarrow> string \<Rightarrow> string option"
  ev_totp_at :: "string \<Rightarrow> int \<Rightarrow> string option"
  ev_totp_uri :: "string \<Rightarrow> string \<Rightarrow> string"
  ev_binding_hash :: "policy_reauth_binding \<Rightarrow> string"
  ev_isoformat :: "instant \<Rightarrow> string"
  ev_request_id :: "string option"
  ev_audit_id :: "nat \<Rightarrow> string"
  ev_audit_at :: "nat \<Rightarrow> instant"
  ev_correlation :: "nat \<Rightarrow> string"
  ev_on_auth_change :: "string \<Rightarrow> string option option"
  ev_source :: bool

subsection \<open>Readings of the ports\<close>

definition clock_now :: "identity_env \<Rightarrow> instant identity_command" where
  "clock_now env = (\<lambda>s. (Inr (ev_clock env (id_ticks s)), s\<lparr>id_ticks := id_ticks s + 1\<rparr>))"

definition get_identity_policy :: "identity_env \<Rightarrow> identity_policy identity_command" where
  "get_identity_policy env = (\<lambda>s.
     (of_option IdentityPolicyUnavailable (ev_policy env (id_policy_reads s)),
      s\<lparr>id_policy_reads := id_policy_reads s + 1\<rparr>))"

definition random_uuid :: "identity_env \<Rightarrow> string identity_command" where
  "random_uuid env = (\<lambda>s. (Inr (ev_uuid env (id_uuids s)), s\<lparr>id_uuids := id_uuids s + 1\<rparr>))"

definition token_urlsafe :: "identity_env \<Rightarrow> string identity_command" where
  "token_urlsafe env = (\<lambda>s. (Inr (ev_token env (id_tokens s)), s\<lparr>id_tokens := id_tokens s + 1\<rparr>))"

definition load_material :: "identity_env \<Rightarrow> secret_material identity_command" where
  "load_material env = computed (of_option SecretMaterialUnavailable (ev_material env))"

definition token_hash :: "identity_env \<Rightarrow> string \<Rightarrow> string" where
  "token_hash env raw_token = ev_sha256 env raw_token"

subsection \<open>Audit\<close>

definition system_actors :: "string list" where
  "system_actors = [''SYSTEM'', ''SYSTEM_BOOTSTRAP'', ''SYSTEM_RECOVERY'']"

text \<open>\<open>correlation_id or current_request_id() or uuid4().hex\<close>\<close>

definition audit_correlation :: "identity_env \<Rightarrow> string option \<Rightarrow> nat \<Rightarrow> string" where
  "audit_correlation env correlation n =
     (case correlation of
        Some (c # cs) \<Rightarrow> c # cs
      | _ \<Rightarrow> (case ev_request_id env of Some (c # cs) \<Rightarrow> c # cs | _ \<Rightarrow> ev_correlation env n))"

definition identity_audit ::
  "identity_env \<Rightarrow> string \<Rightarrow> string \<Rightarrow> string \<Rightarrow> string \<Rightarrow> string \<Rightarrow> string \<Rightarrow> string option
   \<Rightarrow> unit identity_command" where
  "identity_audit env actor action target_type target_id result reason correlation =
     writing (\<lambda>s. let n = length (id_audit s) in
       s\<lparr>id_audit := record_in_transaction (ev_request_id env)
          \<lparr>ae_id = ev_audit_id env n, ae_occurred_at = ev_audit_at env n, ae_actor = actor,
           ae_actor_type = (if actor \<in> set system_actors then ''SYSTEM'' else ''HUMAN''),
           ae_action = action, ae_target_type = target_type, ae_target_id = target_id,
           ae_result = result, ae_reason = Some reason,
           ae_correlation_id = audit_correlation env correlation n,
           ae_request_id = ev_request_id env, ae_schema_version = 1\<rparr> (id_audit s)\<rparr>)"

definition audit_account ::
  "identity_env \<Rightarrow> string \<Rightarrow> string \<Rightarrow> string \<Rightarrow> string \<Rightarrow> string \<Rightarrow> unit identity_command" where
  "audit_account env actor action account result reason =
     identity_audit env actor action ''account'' account result reason None"

subsection \<open>Security changes\<close>

definition notify_identity_change :: "identity_env \<Rightarrow> string \<Rightarrow> unit identity_command" where
  "notify_identity_change env account =
     cbind (computed (of_option (IdentityRuntimeError ''security change'')
         (ev_on_auth_change env account))) (\<lambda>ticket.
       case ticket of
         None \<Rightarrow> produce ()
       | Some t \<Rightarrow>
           if ev_source env then writing (\<lambda>s. s\<lparr>id_tickets := id_tickets s @ [t]\<rparr>)
           else produce ())"

definition finalize_session_revocations ::
  "identity_env \<Rightarrow> string \<Rightarrow> string list \<Rightarrow> string \<Rightarrow> string \<Rightarrow> bool \<Rightarrow> string \<Rightarrow> string option
   \<Rightarrow> unit identity_command" where
  "finalize_session_revocations env account revoked_session_ids actor reason invoke_hook action
     correlation =
     (if revoked_session_ids = [] then produce ()
      else cseq (identity_audit env actor action ''account'' account ''SUCCESS'' reason correlation)
        (if invoke_hook then notify_identity_change env account else produce ()))"

definition finalize_revocations ::
  "identity_env \<Rightarrow> string \<Rightarrow> string list \<Rightarrow> string \<Rightarrow> string \<Rightarrow> bool \<Rightarrow> unit identity_command" where
  "finalize_revocations env account revoked_session_ids actor reason invoke_hook =
     finalize_session_revocations env account revoked_session_ids actor reason invoke_hook
       ''identity.sessions.revoked'' None"

subsection \<open>Sessions\<close>

definition new_session ::
  "string \<Rightarrow> string \<Rightarrow> string \<Rightarrow> session_kind \<Rightarrow> bootstrap_purpose option \<Rightarrow> instant \<Rightarrow> session_entry" where
  "new_session i account hash kind purpose now =
     \<lparr>ss_id = i, ss_account = account, ss_token_hash = hash, ss_kind = kind, ss_purpose = purpose,
      ss_totp_attempts = 0, ss_created_at = now, ss_last_seen_at = now,
      ss_expires_hint = now + 365 * 24 * an_hour, ss_revoked_at = None, ss_revoke_reason = None\<rparr>"

definition issue_session ::
  "identity_env \<Rightarrow> string \<Rightarrow> session_kind \<Rightarrow> bootstrap_purpose option
   \<Rightarrow> issued_session identity_command" where
  "issue_session env account kind purpose =
     cbind (clock_now env) (\<lambda>now.
     cbind (token_urlsafe env) (\<lambda>raw_token.
     cbind (random_uuid env) (\<lambda>i.
     cseq (insert_session (new_session i account (token_hash env raw_token) kind purpose now))
     (produce \<lparr>iss_account = account, iss_token = raw_token, iss_kind = kind,
        iss_purpose = purpose\<rparr>))))"

definition session_allowed :: "session_entry \<Rightarrow> account_entry \<Rightarrow> bool" where
  "session_allowed r a =
     ((ss_kind r = BOOTSTRAP \<and> ia_status a \<in> {PENDING_INIT, ENABLED})
      \<or> (ss_kind r = FULL \<and> ia_status a = ENABLED \<and> ia_password_hash a \<noteq> None
         \<and> ia_totp_confirmed_at a \<noteq> None))"

definition principal_of :: "session_entry \<Rightarrow> account_entry \<Rightarrow> session_principal" where
  "principal_of r a = \<lparr>spr_account = ss_account r, spr_employee_no = ia_employee_no a,
     spr_display_name = ia_display_name a, spr_kind = ss_kind r, spr_purpose = ss_purpose r,
     spr_super_admin = ia_super_admin a, spr_reference = Some (ss_id r),
     spr_version = Some (ia_version a)\<rparr>"

text \<open>What an idle session's next use does to it.\<close>

definition revoke_idle_session ::
  "identity_env \<Rightarrow> session_entry \<Rightarrow> account_entry \<Rightarrow> instant \<Rightarrow> unit identity_command" where
  "revoke_idle_session env r a now =
     cbind (revoke_session (ss_id r) now ''IDLE_TIMEOUT'') (\<lambda>revoked_id.
       finalize_revocations env (ss_account r)
         (case revoked_id of None \<Rightarrow> [] | Some i \<Rightarrow> [i]) (ia_employee_no a) ''idle timeout'' True)"

definition validate_session ::
  "identity_env \<Rightarrow> string \<Rightarrow> bool \<Rightarrow> bool \<Rightarrow> session_principal option identity_command" where
  "validate_session env raw_token touch_activity read_only =
     cbind (reading (session_with_account (token_hash env raw_token))) (\<lambda>found.
     case found of
       None \<Rightarrow> produce None
     | Some (r, a) \<Rightarrow>
         if \<not> live_session r \<or> \<not> session_allowed r a then produce None
         else cbind (clock_now env) (\<lambda>now.
           cbind (get_identity_policy env) (\<lambda>policy.
           if ss_last_seen_at r + pol_idle_timeout policy \<le> now
           then (if read_only then produce None
                 else cseq (revoke_idle_session env r a now) (produce None))
           else cseq
             (if touch_activity \<and> \<not> read_only
              then touch_session (ss_id r) now (now + pol_idle_timeout policy) else produce ())
             (produce (Some (principal_of r a))))))"

definition logout :: "identity_env \<Rightarrow> string \<Rightarrow> bool identity_command" where
  "logout env raw_token =
     cbind (reading (session_with_account (token_hash env raw_token))) (\<lambda>found.
     case found of
       None \<Rightarrow> produce False
     | Some (r, a) \<Rightarrow>
         cbind (clock_now env) (\<lambda>now.
         cbind (revoke_session (ss_id r) now ''LOGOUT'') (\<lambda>revoked_id.
         cseq (finalize_session_revocations env (ss_account r)
             (case revoked_id of None \<Rightarrow> [] | Some i \<Rightarrow> [i]) (ia_employee_no a) ''logout'' True
             ''identity.session.logout'' None)
         (produce (revoked_id \<noteq> None)))))"

definition revoke_sessions_for ::
  "identity_env \<Rightarrow> string \<Rightarrow> string \<Rightarrow> string \<Rightarrow> nat identity_command" where
  "revoke_sessions_for env account actor reason =
     cbind (clock_now env) (\<lambda>now.
     cbind (revoke_sessions account now reason None None) (\<lambda>revoked_ids.
     cseq (audit_account env actor ''identity.sessions.revoke.requested'' account ''SUCCESS'' reason)
     (cseq (finalize_revocations env account revoked_ids actor reason True)
     (produce (length revoked_ids)))))"

end
