(* ===== verification/Identity_Accounts.thy ===== *)
theory Identity_Accounts
  imports Identity_Sessions
begin

section \<open>The identity module: accounts\<close>

text \<open>
  \<^verbatim>\<open>identity/application/accounts.py\<close>: creating an account with its temporary credential,
  resetting the password or the TOTP secret, consuming a temporary password, and the status
  changes. An assertion that fails raises \<open>IdentityRuntimeError\<close>.
\<close>

definition account_dto_of :: "account_entry \<Rightarrow> account_dto" where
  "account_dto_of a = \<lparr>dto_id = ia_id a, dto_employee_no = ia_employee_no a,
     dto_display_name = ia_display_name a, dto_profession = ia_profession a,
     dto_status = ia_status a, dto_password_set_at = ia_password_set_at a,
     dto_totp_confirmed_at = ia_totp_confirmed_at a, dto_super_admin = ia_super_admin a,
     dto_version = ia_version a\<rparr>"

definition versioned_reason :: "string \<Rightarrow> int option \<Rightarrow> int \<Rightarrow> string" where
  "versioned_reason reason prior posterior =
     reason @ ''; beforeVersion=''
     @ (case prior of None \<Rightarrow> ''none'' | Some n \<Rightarrow> str_of_int n)
     @ ''; afterVersion='' @ str_of_int posterior"

definition get_organization_account :: "string \<Rightarrow> identity_state \<Rightarrow> organization_account option" where
  "get_organization_account account s = map_option (\<lambda>a.
     \<lparr>oa_id = ia_id a, oa_employee_no = ia_employee_no a, oa_display_name = ia_display_name a,
      oa_status = ia_status a,
      oa_initialized = (ia_password_hash a \<noteq> None \<and> ia_totp_confirmed_at a \<noteq> None)\<rparr>)
     (account_by_id account s)"

text \<open>The row an operation works on, or its exception.\<close>

definition require_account :: "string \<Rightarrow> account_entry identity_command" where
  "require_account account = (\<lambda>s.
     (of_option (AccountNotFound account) (account_by_id account s), s))"

definition require_updated ::
  "identity_error \<Rightarrow> account_entry option \<Rightarrow> account_entry identity_command" where
  "require_updated e row = computed (of_option e row)"

definition get_account :: "string \<Rightarrow> account_dto identity_command" where
  "get_account account = cbind (require_account account) (\<lambda>a. produce (account_dto_of a))"

definition issue_temp ::
  "identity_env \<Rightarrow> string \<Rightarrow> string \<Rightarrow> instant \<Rightarrow> instant option \<Rightarrow> string identity_command" where
  "issue_temp env account actor now expires_at =
     cbind (get_identity_policy env) (\<lambda>policy.
     cbind (load_material env) (\<lambda>material.
     cbind (token_urlsafe env) (\<lambda>temporary_password.
     cbind (reading (account_by_employee_no actor)) (\<lambda>issuer.
     cseq (invalidate_temp_credentials account now)
     (cbind (random_uuid env) (\<lambda>i.
     cseq (insert_temp_credential
         \<lparr>tc_id = i, tc_account = account,
          tc_secret_hash = ev_hash env temporary_password (sm_pepper material),
          tc_expires_at = (case expires_at of Some t \<Rightarrow> t | None \<Rightarrow> now + pol_temp_ttl policy),
          tc_consumed_at = None,
          tc_issued_by = (case issuer of Some a \<Rightarrow> ia_id a | None \<Rightarrow> account),
          tc_created_at = now\<rparr>)
     (produce temporary_password)))))))"

definition employee_no_ok :: "string \<Rightarrow> bool" where
  "employee_no_ok s = (length s = 8 \<and> list_all ascii_digit s)"

definition is_account_conflict :: "identity_error \<Rightarrow> bool" where
  "is_account_conflict e = (case e of AccountConflict _ \<Rightarrow> True | _ \<Rightarrow> False)"

definition create_account ::
  "identity_env \<Rightarrow> string \<Rightarrow> string \<Rightarrow> string option \<Rightarrow> string \<Rightarrow> string \<Rightarrow> string option
   \<Rightarrow> (account_dto \<times> string) identity_command" where
  "create_account env employee_no display_name profession actor reason correlation =
     cseq (guarded (\<not> employee_no_ok employee_no)
       (IdentityValueError ''employee number must be an eight-digit string''))
     (cbind (random_uuid env) (\<lambda>account.
     cbind (clock_now env) (\<lambda>now.
     cseq (handled
       (insert_account (new_account account employee_no display_name profession PENDING_INIT now))
       is_account_conflict
       (\<lambda>e. cseq (identity_audit env actor ''identity.account.create'' ''account'' employee_no
           ''DENIED'' ''employee number conflict'' correlation) (raising e)))
     (cbind (issue_temp env account actor now None) (\<lambda>temporary_password.
     cbind (reading (account_by_id account)) (\<lambda>row.
     cbind (require_updated (IdentityRuntimeError ''assert row is not None'') row) (\<lambda>a.
     cseq (identity_audit env actor ''identity.account.created'' ''account'' account ''SUCCESS''
       (versioned_reason reason None (ia_version a)) correlation)
     (cseq (identity_audit env actor ''identity.temp_credential.issued'' ''account'' account
       ''SUCCESS'' reason correlation)
     (produce (account_dto_of a, temporary_password))))))))))"

definition list_accounts ::
  "string option \<Rightarrow> string option \<Rightarrow> nat \<Rightarrow> identity_state \<Rightarrow> account_dto list" where
  "list_accounts after_employee_no after_id limit s =
     map account_dto_of (account_page after_employee_no after_id limit s)"

text \<open>The guard every path calls that may take a Super Admin's effectiveness away.\<close>

definition check_super_admin_remains :: "account_entry \<Rightarrow> unit identity_command" where
  "check_super_admin_remains a = (\<lambda>s.
     (ensure_effective_super_admin_remains (ia_super_admin a) (ia_status a)
        (ia_password_hash a \<noteq> None) (ia_totp_confirmed_at a \<noteq> None)
        (effective_super_admins_except (ia_id a) s), s))"

definition issue_temp_password ::
  "identity_env \<Rightarrow> string \<Rightarrow> string \<Rightarrow> string \<Rightarrow> int option \<Rightarrow> string identity_command" where
  "issue_temp_password env account actor reason expected_version =
     cbind (require_account account) (\<lambda>row.
     cseq (guarded (case expected_version of None \<Rightarrow> False | Some n \<Rightarrow> ia_version row \<noteq> n)
       (StaleAccountVersion account))
     (cseq (check_super_admin_remains row)
     (cbind (clock_now env) (\<lambda>now.
     cbind (issue_temp env account actor now None) (\<lambda>temporary_password.
     cbind (reset_password_state account now) (\<lambda>updated_row.
     cbind (require_updated (IdentityRuntimeError ''NoResultFound'') updated_row) (\<lambda>updated.
     cbind (revoke_sessions account now ''PASSWORD_RESET'' None None) (\<lambda>revoked_ids.
     cseq (audit_account env actor ''identity.temp_credential.issued'' account ''SUCCESS''
       (versioned_reason reason (Some (ia_version row)) (ia_version updated)))
     (cseq (audit_account env actor ''identity.password.reset'' account ''SUCCESS''
       (versioned_reason reason (Some (ia_version row)) (ia_version updated)))
     (cseq (finalize_revocations env account revoked_ids actor ''password reset'' False)
     (cseq (notify_identity_change env account)
     (produce temporary_password))))))))))))"

definition reset_totp ::
  "identity_env \<Rightarrow> string \<Rightarrow> int \<Rightarrow> string \<Rightarrow> string \<Rightarrow> account_dto identity_command" where
  "reset_totp env account expected_version actor reason =
     cbind (require_account account) (\<lambda>row.
     cseq (guarded (ia_version row \<noteq> expected_version) (StaleAccountVersion account))
     (cseq (check_super_admin_remains row)
     (cbind (clock_now env) (\<lambda>now.
     cbind (reset_totp_state account expected_version now) (\<lambda>updated_row.
     cbind (require_updated (StaleAccountVersion account) updated_row) (\<lambda>updated.
     cbind (revoke_sessions account now ''TOTP_RESET'' None None) (\<lambda>revoked_ids.
     cseq (finalize_revocations env account revoked_ids actor ''TOTP reset'' False)
     (cseq (audit_account env actor ''identity.totp.reset'' account ''SUCCESS''
       (versioned_reason reason (Some (ia_version row)) (ia_version updated)))
     (cseq (notify_identity_change env account)
     (produce (account_dto_of updated)))))))))))"

definition record_account_governance_denial ::
  "identity_env \<Rightarrow> string \<Rightarrow> string \<Rightarrow> string \<Rightarrow> unit identity_command" where
  "record_account_governance_denial env account operation actor =
     audit_account env actor (''identity.account.'' @ operation) account ''DENIED''
       ''account governance denied''"

definition consume_temp_password ::
  "identity_env \<Rightarrow> string \<Rightarrow> string \<Rightarrow> issued_session option identity_command" where
  "consume_temp_password env employee_no temp_password =
     cbind (clock_now env) (\<lambda>now.
     cbind (reading (lock_active_temp_credential employee_no now)) (\<lambda>credential.
     case credential of
       None \<Rightarrow> produce None
     | Some (t, a) \<Rightarrow>
         cbind (load_material env) (\<lambda>material.
         if \<not> ev_verify env temp_password (tc_secret_hash t) (sm_pepper material) then produce None
         else cbind (consume_temp_credential (tc_id t) now) (\<lambda>consumed.
           if \<not> consumed then produce None
           else cbind (issue_session env (tc_account t) BOOTSTRAP
               (Some (if ia_totp_confirmed_at a \<noteq> None then PASSWORD_RESET else INITIAL_SETUP)))
             (\<lambda>issued.
             cseq (audit_account env employee_no ''identity.temp_credential.consumed''
               (tc_account t) ''SUCCESS'' ''bootstrap'')
             (produce (Some issued)))))))"

definition lower_status :: "account_status \<Rightarrow> string" where
  "lower_status st = (case st of PENDING_INIT \<Rightarrow> ''pending_init'' | ENABLED \<Rightarrow> ''enabled''
     | DISABLED \<Rightarrow> ''disabled'' | RESTRICTED \<Rightarrow> ''restricted'')"

definition set_account_status ::
  "identity_env \<Rightarrow> string \<Rightarrow> account_status \<Rightarrow> int \<Rightarrow> string \<Rightarrow> string \<Rightarrow> account_dto identity_command" where
  "set_account_status env account status expected_version actor reason =
     cbind (require_account account) (\<lambda>row.
     cseq (guarded (ia_version row \<noteq> expected_version) (StaleAccountVersion account))
     (cseq (computed (ensure_account_transition_allowed (ia_status row) status
       (ia_password_hash row \<noteq> None) (ia_totp_confirmed_at row \<noteq> None)))
     (cseq (if status \<noteq> ENABLED then check_super_admin_remains row else produce ())
     (cbind (clock_now env) (\<lambda>now.
     cbind (update_account_status account status expected_version now) (\<lambda>updated_row.
     cbind (require_updated (StaleAccountVersion account) updated_row) (\<lambda>updated.
     cseq (if status \<noteq> ENABLED
       then cbind (revoke_sessions account now (''ACCOUNT_'' @ status_text status) None None)
         (\<lambda>revoked_ids. finalize_revocations env account revoked_ids actor
            (''account '' @ lower_status status) False)
       else produce ())
     (cseq (audit_account env actor ''identity.account.status.changed'' account ''SUCCESS''
       (versioned_reason reason (Some (ia_version row)) (ia_version updated)))
     (cseq (notify_identity_change env account)
     (produce (account_dto_of updated)))))))))))"

end
