(* ===== verification/Identity_Auth.thy ===== *)
theory Identity_Auth
  imports Identity_Accounts
begin

section \<open>The identity module: authentication\<close>

text \<open>
  \<^verbatim>\<open>identity/application/auth.py\<close>: the bootstrap flow (set a password, enrol and confirm a
  TOTP secret), the two login steps and the login backoff. Denials are results and commit;
  exceptions roll the request's transaction back.
\<close>

definition challenge_ttl :: duration where "challenge_ttl = 5 * a_minute"

datatype bootstrap_denial = InvalidBootstrapSession

definition challenge_denial :: "int \<Rightarrow> int \<Rightarrow> authentication_denial" where
  "challenge_denial attempt_count attempt_limit =
     \<lparr>dn_code = INVALID_CHALLENGE, dn_retry_after = None,
      dn_challenge_state = Some (if 0 < attempt_count \<and> attempt_count < attempt_limit
        then RETRY_ALLOWED else TERMINAL)\<rparr>"

definition purpose_of :: "session_entry \<Rightarrow> bootstrap_purpose identity_command" where
  "purpose_of r = computed (of_option (AuthenticationFailed ''valid bootstrap session required'')
     (ss_purpose r))"

definition unsealed_secret ::
  "identity_env \<Rightarrow> secret_material \<Rightarrow> account_entry \<Rightarrow> string identity_command" where
  "unsealed_secret env material a =
     computed (rbind (of_option (IdentityValueError ''unseal'')
       (ev_unseal env (the (ia_totp_sealed a)) (sm_totp_key material))) decode_ascii)"

subsection \<open>The bootstrap flow\<close>

definition bootstrap_account ::
  "identity_env \<Rightarrow> string \<Rightarrow> bool
   \<Rightarrow> (bootstrap_denial + session_entry \<times> account_entry) identity_command" where
  "bootstrap_account env raw_token touch =
     cbind (reading (session_with_account (token_hash env raw_token))) (\<lambda>found.
     case found of
       None \<Rightarrow> produce (Inl InvalidBootstrapSession)
     | Some (r, a) \<Rightarrow>
         if \<not> live_session r \<or> ss_kind r \<noteq> BOOTSTRAP then produce (Inl InvalidBootstrapSession)
         else if ia_status a \<notin> {PENDING_INIT, ENABLED} then produce (Inl InvalidBootstrapSession)
         else cbind (clock_now env) (\<lambda>now.
           cbind (get_identity_policy env) (\<lambda>policy.
           if ss_last_seen_at r + pol_idle_timeout policy \<le> now
           then cseq (revoke_idle_session env r a now) (produce (Inl InvalidBootstrapSession))
           else cseq
             (if touch then touch_session (ss_id r) now (now + pol_idle_timeout policy)
              else produce ())
             (produce (Inr (r, a))))))"

definition revoke_exhausted_session ::
  "identity_env \<Rightarrow> session_entry \<Rightarrow> string \<Rightarrow> unit identity_command" where
  "revoke_exhausted_session env r actor =
     cbind (clock_now env) (\<lambda>now.
     cbind (revoke_session (ss_id r) now ''TOTP_ATTEMPTS_EXHAUSTED'') (\<lambda>revoked_id.
     finalize_revocations env (ss_account r) (case revoked_id of None \<Rightarrow> [] | Some i \<Rightarrow> [i]) actor
       ''TOTP attempts exhausted'' True))"

definition complete_password_setup ::
  "identity_env \<Rightarrow> string \<Rightarrow> string \<Rightarrow> bootstrap_denial option identity_command" where
  "complete_password_setup env bootstrap_token password =
     cbind (bootstrap_account env bootstrap_token True) (\<lambda>found.
     case found of
       Inl denial \<Rightarrow> produce (Some denial)
     | Inr ra \<Rightarrow> let r = fst ra; a = snd ra in
         cbind (purpose_of r) (\<lambda>purpose.
         let violations = validate_password_floor password [ia_employee_no a, ia_display_name a] in
         cseq (guarded (violations \<noteq> []) (PasswordFloorViolation violations))
         (cbind (clock_now env) (\<lambda>now.
         cbind (load_material env) (\<lambda>material.
         cseq (update_password (ss_account r) (ev_hash env password (sm_pepper material)) now)
         (cbind (revoke_sessions (ss_account r) now ''PASSWORD_CHANGED''
             (if purpose = PASSWORD_EXPIRED then None else Some (ss_id r)) None) (\<lambda>revoked_ids.
         cseq (finalize_revocations env (ss_account r) revoked_ids (ia_employee_no a)
           ''password changed'' False)
         (cseq (audit_account env (ia_employee_no a) ''identity.password.setup.completed''
           (ss_account r) ''SUCCESS'' ''bootstrap'')
         (cseq (notify_identity_change env (ss_account r))
         (produce None))))))))))"

definition enroll_totp ::
  "identity_env \<Rightarrow> string \<Rightarrow> (bootstrap_denial + totp_enrollment) identity_command" where
  "enroll_totp env bootstrap_token =
     cbind (bootstrap_account env bootstrap_token True) (\<lambda>found.
     case found of
       Inl denial \<Rightarrow> produce (Inl denial)
     | Inr ra \<Rightarrow> let r = fst ra; a = snd ra in
         cbind (purpose_of r) (\<lambda>purpose.
         cseq (guarded (purpose \<noteq> INITIAL_SETUP)
           (AuthenticationFailed ''TOTP enrollment is not allowed for this bootstrap session''))
         (cseq (guarded (ia_password_hash a = None) (AuthenticationFailed ''password setup required''))
         (cbind (computed (decode_ascii (ev_totp_secret env))) (\<lambda>secret.
         cbind (load_material env) (\<lambda>material.
         cbind (computed (of_option (IdentityValueError ''seal'')
           (ev_seal env secret (sm_totp_key material)))) (\<lambda>sealed.
         cbind (clock_now env) (\<lambda>now.
         cseq (update_totp_enrollment (ss_account r) sealed now)
         (cseq (audit_account env (ia_employee_no a) ''identity.totp.enrolled'' (ss_account r)
           ''SUCCESS'' ''bootstrap'')
         (cbind (computed (totp_provisioning_uri (ev_totp_uri env) secret (ia_employee_no a)))
           (\<lambda>uri. produce (Inr \<lparr>te_secret = secret, te_uri = uri\<rparr>))))))))))))"

datatype confirm_result =
    Confirmed issued_session
  | ConfirmBootstrapDenied bootstrap_denial
  | ConfirmDenied authentication_denial

text \<open>What a session capped at the policy's number costs the oldest ones.\<close>

definition enforce_session_cap ::
  "identity_env \<Rightarrow> string \<Rightarrow> string \<Rightarrow> instant \<Rightarrow> unit identity_command" where
  "enforce_session_cap env account actor now =
     cbind (get_identity_policy env) (\<lambda>policy.
     cbind (evict_old_full_sessions account (pol_session_cap policy) now) (\<lambda>evicted.
     finalize_revocations env account evicted actor ''session cap'' True))"

definition confirm_failure ::
  "identity_env \<Rightarrow> session_entry \<Rightarrow> string \<Rightarrow> identity_policy \<Rightarrow> confirm_result identity_command" where
  "confirm_failure env r actor policy =
     cbind (increment_bootstrap_totp_attempts (ss_id r)) (\<lambda>attempt_count.
     cseq (audit_account env actor ''identity.totp.confirmed'' (ss_account r) ''DENIED''
       ''invalid or replayed TOTP'')
     (cseq (if pol_totp_cap policy \<le> attempt_count then revoke_exhausted_session env r actor
            else produce ())
     (produce (ConfirmDenied (challenge_denial attempt_count (pol_totp_cap policy))))))"

definition store_confirmation ::
  "bootstrap_purpose \<Rightarrow> session_entry \<Rightarrow> account_entry \<Rightarrow> int \<Rightarrow> instant \<Rightarrow> unit identity_command" where
  "store_confirmation purpose r a step now =
     (if purpose = INITIAL_SETUP
      then cseq (store_totp_confirmation (ss_account r) step now) (produce ())
      else cseq (guarded (ia_totp_confirmed_at a = None)
          (AuthenticationFailed ''confirmed TOTP required for password reset''))
        (cseq (restore_password_reset (ss_account r) step now) (produce ())))"

definition complete_bootstrap ::
  "identity_env \<Rightarrow> bootstrap_purpose \<Rightarrow> session_entry \<Rightarrow> account_entry \<Rightarrow> int
   \<Rightarrow> confirm_result identity_command" where
  "complete_bootstrap env purpose r a step =
     cbind (clock_now env) (\<lambda>now.
     cseq (store_confirmation purpose r a step now)
     (cbind (revoke_sessions (ss_account r) now ''BOOTSTRAP_COMPLETED'' None None) (\<lambda>revoked_ids.
     cseq (finalize_revocations env (ss_account r) revoked_ids (ia_employee_no a)
       ''bootstrap completed'' False)
     (cbind (issue_session env (ss_account r) FULL None) (\<lambda>issued.
     cseq (enforce_session_cap env (ss_account r) (ia_employee_no a) now)
     (cseq (audit_account env (ia_employee_no a) ''identity.totp.confirmed'' (ss_account r)
       ''SUCCESS'' ''bootstrap'')
     (cseq (notify_identity_change env (ss_account r))
     (produce (Confirmed issued)))))))))"

definition confirm_totp :: "identity_env \<Rightarrow> string \<Rightarrow> string \<Rightarrow> confirm_result identity_command" where
  "confirm_totp env bootstrap_token code =
     cbind (bootstrap_account env bootstrap_token False) (\<lambda>found.
     case found of
       Inl denial \<Rightarrow> produce (ConfirmBootstrapDenied denial)
     | Inr ra \<Rightarrow> let r = fst ra; a = snd ra in
         cbind (purpose_of r) (\<lambda>purpose.
         cseq (guarded (purpose = PASSWORD_EXPIRED)
           (AuthenticationFailed ''TOTP confirmation is not allowed for this bootstrap session''))
         (cseq (guarded (ia_password_hash a = None \<or> ia_totp_sealed a = None)
           (AuthenticationFailed ''password and TOTP enrollment required''))
         (cbind (get_identity_policy env) (\<lambda>policy.
         if pol_totp_cap policy \<le> ss_totp_attempts r
         then cseq (audit_account env (ia_employee_no a) ''identity.totp.confirmed'' (ss_account r)
             ''DENIED'' ''TOTP attempt limit exhausted'')
           (cseq (revoke_exhausted_session env r (ia_employee_no a))
           (produce (ConfirmDenied (challenge_denial (ss_totp_attempts r) (pol_totp_cap policy)))))
         else
           cbind (load_material env) (\<lambda>material.
           cbind (unsealed_secret env material a) (\<lambda>secret.
           case verify_totp (ev_totp_at env) (ev_unix env) secret code (ia_totp_last_step a) of
             None \<Rightarrow> confirm_failure env r (ia_employee_no a) policy
           | Some step \<Rightarrow> complete_bootstrap env purpose r a step)))))))"

subsection \<open>Login backoff\<close>

definition check_backoff ::
  "identity_env \<Rightarrow> string \<Rightarrow> string \<Rightarrow> authentication_denial option identity_command" where
  "check_backoff env employee_no source =
     cseq (guarded (blank source) (IdentityValueError ''login source must not be empty''))
     (cbind (clock_now env) (\<lambda>now.
     cbind (get_identity_policy env) (\<lambda>policy.
     cbind (reading (backoff_by_scope employee_no source)) (\<lambda>row.
     case row of
       None \<Rightarrow> produce None
     | Some b \<Rightarrow>
         if (case lb_last_failure_at b of None \<Rightarrow> False
             | Some t \<Rightarrow> pol_backoff_reset policy \<le> now - t)
         then cseq (save_backoff employee_no source 0 None None) (produce None)
         else (case lb_locked_until b of
             None \<Rightarrow> produce None
           | Some u \<Rightarrow>
               produce (if now < u
                 then Some \<lparr>dn_code = BACKOFF_ACTIVE,
                   dn_retry_after = Some (max 1 ((u - now) div a_second)),
                   dn_challenge_state = None\<rparr>
                 else None))))))"

definition record_password_failure :: "identity_env \<Rightarrow> string \<Rightarrow> string \<Rightarrow> unit identity_command" where
  "record_password_failure env employee_no source =
     cbind (clock_now env) (\<lambda>now.
     cbind (get_identity_policy env) (\<lambda>policy.
     cbind (reading (backoff_by_scope employee_no source)) (\<lambda>row.
     let count = (case row of None \<Rightarrow> 1 | Some b \<Rightarrow>
       (case lb_last_failure_at b of None \<Rightarrow> 1
        | Some t \<Rightarrow> if now - t < pol_backoff_reset policy then lb_failure_count b + 1 else 1)) in
     cbind (if pol_backoff_threshold policy \<le> count
         then cbind (computed (backoff_delay policy count)) (\<lambda>d. produce (Some (now + d)))
         else produce None) (\<lambda>locked_until.
     save_backoff employee_no source count (Some now) locked_until))))"

subsection \<open>The first login step\<close>

datatype login_result =
    Challenged login_challenge
  | Issued issued_session
  | Denied authentication_denial

definition login_denied ::
  "identity_env \<Rightarrow> string \<Rightarrow> string \<Rightarrow> authentication_denial \<Rightarrow> login_result identity_command" where
  "login_denied env employee_no reason denial =
     cseq (audit_account env employee_no ''identity.login.password'' employee_no ''DENIED'' reason)
     (produce (Denied denial))"

text \<open>An account that lost its TOTP secret and keeps its password enrols again.\<close>

definition reenrollment_due :: "identity_env \<Rightarrow> secret_material \<Rightarrow> account_entry \<Rightarrow> string \<Rightarrow> bool" where
  "reenrollment_due env material a password =
     (ia_status a = PENDING_INIT \<and> ia_totp_sealed a = None \<and> ia_totp_confirmed_at a = None
      \<and> (case ia_password_hash a of None \<Rightarrow> False
           | Some h \<Rightarrow> ev_verify env password h (sm_pepper material)))"

definition password_valid :: "identity_env \<Rightarrow> secret_material \<Rightarrow> account_entry \<Rightarrow> string \<Rightarrow> bool" where
  "password_valid env material a password =
     (ia_status a = ENABLED
      \<and> (case ia_password_hash a of None \<Rightarrow> False
           | Some h \<Rightarrow> ev_verify env password h (sm_pepper material)))"

definition issue_bootstrap_login ::
  "identity_env \<Rightarrow> account_entry \<Rightarrow> string \<Rightarrow> string
   \<Rightarrow> issued_session identity_command \<Rightarrow> login_result identity_command" where
  "issue_bootstrap_login env a employee_no reason issue =
     cbind issue (\<lambda>issued.
     cseq (audit_account env employee_no ''identity.login.password'' (ia_id a) ''SUCCESS'' reason)
     (produce (Issued issued)))"

definition issue_login_challenge ::
  "identity_env \<Rightarrow> account_entry \<Rightarrow> string \<Rightarrow> identity_policy \<Rightarrow> instant \<Rightarrow> login_result identity_command" where
  "issue_login_challenge env a employee_no policy now =
     cbind (token_urlsafe env) (\<lambda>raw_token.
     cbind (random_uuid env) (\<lambda>i.
     cseq (insert_challenge (new_challenge i (token_hash env raw_token) ''LOGIN_TOTP'' (ia_id a) None
       now (now + challenge_ttl) (pol_totp_cap policy)))
     (cseq (audit_account env employee_no ''identity.login.password'' (ia_id a) ''SUCCESS''
       ''TOTP challenge issued'')
     (produce (Challenged \<lparr>lgc_account = ia_id a, lgc_token = raw_token,
        lgc_purpose = ''LOGIN_TOTP''\<rparr>)))))"

definition password_accepted ::
  "identity_env \<Rightarrow> account_entry \<Rightarrow> string \<Rightarrow> string \<Rightarrow> login_result identity_command" where
  "password_accepted env a employee_no source =
     cseq (save_backoff employee_no source 0 None None)
     (cbind (get_identity_policy env) (\<lambda>policy.
     cbind (clock_now env) (\<lambda>now.
     if (case (pol_password_max_age policy, ia_password_set_at a) of
           (Some age, Some t) \<Rightarrow> t + age \<le> now | _ \<Rightarrow> False)
     then issue_bootstrap_login env a employee_no ''password expired restricted flow''
       (issue_session env (ia_id a) BOOTSTRAP (Some PASSWORD_EXPIRED))
     else issue_login_challenge env a employee_no policy now)))"

definition password_login ::
  "identity_env \<Rightarrow> account_entry option \<Rightarrow> string \<Rightarrow> string \<Rightarrow> string
   \<Rightarrow> login_result identity_command" where
  "password_login env account employee_no password source =
     cbind (load_material env) (\<lambda>material.
     case account of
       Some a \<Rightarrow>
         if reenrollment_due env material a password
         then issue_bootstrap_login env a employee_no ''TOTP re-enrollment required''
           (cbind (issue_session env (ia_id a) BOOTSTRAP (Some INITIAL_SETUP)) (\<lambda>issued.
            cseq (save_backoff employee_no source 0 None None) (produce issued)))
         else if password_valid env material a password
         then password_accepted env a employee_no source
         else cseq (record_password_failure env employee_no source)
           (login_denied env employee_no ''invalid credentials''
             \<lparr>dn_code = INVALID_CREDENTIALS, dn_retry_after = None, dn_challenge_state = None\<rparr>)
     | None \<Rightarrow> cseq (record_password_failure env employee_no source)
         (login_denied env employee_no ''invalid credentials''
           \<lparr>dn_code = INVALID_CREDENTIALS, dn_retry_after = None, dn_challenge_state = None\<rparr>))"

definition login_password_step ::
  "identity_env \<Rightarrow> string \<Rightarrow> string \<Rightarrow> string \<Rightarrow> login_result identity_command" where
  "login_password_step env employee_no password source =
     cbind (check_backoff env employee_no source) (\<lambda>backoff_denial.
     case backoff_denial of
       Some denial \<Rightarrow> login_denied env employee_no ''backoff active'' denial
     | None \<Rightarrow>
         cbind (reading (account_by_employee_no employee_no)) (\<lambda>account.
         cbind (if map_option ia_status account = Some PENDING_INIT
             then consume_temp_password env employee_no password else produce None) (\<lambda>issued.
         case issued of
           Some x \<Rightarrow> cseq (save_backoff employee_no source 0 None None) (produce (Issued x))
         | None \<Rightarrow> password_login env account employee_no password source)))"

subsection \<open>The second login step\<close>

datatype totp_result = Authenticated issued_session | TotpDenied authentication_denial

definition challenge_active :: "instant \<Rightarrow> challenge_entry \<Rightarrow> account_entry \<Rightarrow> bool" where
  "challenge_active now c a =
     (ch_purpose c = ''LOGIN_TOTP'' \<and> ia_status a = ENABLED \<and> ch_consumed_at c = None
      \<and> ch_revoked_at c = None \<and> now < ch_expires_at c \<and> ch_attempt_count c < ch_attempt_limit c
      \<and> ia_totp_sealed a \<noteq> None)"

text \<open>The step a code is good for, when the challenge is active.\<close>

definition challenged_step ::
  "identity_env \<Rightarrow> bool \<Rightarrow> account_entry \<Rightarrow> string \<Rightarrow> int option identity_command" where
  "challenged_step env active a code =
     (if active
      then cbind (load_material env) (\<lambda>material.
        cbind (unsealed_secret env material a) (\<lambda>secret.
        produce (verify_totp (ev_totp_at env) (ev_unix env) secret code (ia_totp_last_step a))))
      else produce None)"

definition totp_login_failure ::
  "identity_env \<Rightarrow> challenge_entry \<Rightarrow> account_entry \<Rightarrow> instant \<Rightarrow> totp_result identity_command" where
  "totp_login_failure env c a now =
     cbind (fail_challenge (ch_id c) now) (\<lambda>attempt_count.
     cseq (audit_account env (ia_employee_no a) ''identity.login.totp'' (ch_account c) ''DENIED''
       ''invalid challenge or TOTP'')
     (produce (TotpDenied (challenge_denial attempt_count (ch_attempt_limit c)))))"

definition totp_login_success ::
  "identity_env \<Rightarrow> challenge_entry \<Rightarrow> account_entry \<Rightarrow> instant \<Rightarrow> totp_result identity_command" where
  "totp_login_success env c a now =
     cbind (issue_session env (ch_account c) FULL None) (\<lambda>issued.
     cseq (enforce_session_cap env (ch_account c) (ia_employee_no a) now)
     (cseq (audit_account env (ia_employee_no a) ''identity.login.totp'' (ch_account c) ''SUCCESS''
       ''session issued'')
     (produce (Authenticated issued))))"

definition login_totp_step :: "identity_env \<Rightarrow> string \<Rightarrow> string \<Rightarrow> totp_result identity_command" where
  "login_totp_step env challenge_token code =
     cbind (clock_now env) (\<lambda>now.
     cbind (reading (challenge_by_hash (token_hash env challenge_token))) (\<lambda>found.
     case found of
       None \<Rightarrow> cseq (audit_account env ''SYSTEM'' ''identity.login.totp'' ''unknown'' ''DENIED''
           ''invalid challenge or TOTP'')
         (produce (TotpDenied (challenge_denial 0 0)))
     | Some (c, a) \<Rightarrow>
         cbind (challenged_step env (challenge_active now c a) a code) (\<lambda>found_step.
         case found_step of
           None \<Rightarrow> totp_login_failure env c a now
         | Some step \<Rightarrow>
             cbind (update_totp_step (ch_account c) step now) (\<lambda>updated.
             if \<not> updated then totp_login_failure env c a now
             else cbind (consume_challenge (ch_id c) now) (\<lambda>consumed.
               if \<not> consumed then produce (TotpDenied (challenge_denial 0 0))
               else totp_login_success env c a now)))))"

end
