(* ===== verification/Identity_Super_Admin.thy ===== *)
theory Identity_Super_Admin
  imports Identity_Auth
begin

section \<open>The identity module: Super Admins\<close>

text \<open>
  \<^verbatim>\<open>identity/application/super_admin.py\<close>: bootstrapping the
  first Super Admin, adding and removing one behind a fresh TOTP challenge, and the break-glass
  recovery.
\<close>

definition system_bootstrap :: string where "system_bootstrap = ''SYSTEM_BOOTSTRAP''"

definition system_recovery :: string where "system_recovery = ''SYSTEM_RECOVERY''"

definition super_admin_recovery_scope :: string where
  "super_admin_recovery_scope = ''SUPER_ADMIN_AUTHENTICATION''"

definition recovery_denial_codes :: "string list" where
  "recovery_denial_codes = [''INVALID_EXPIRY'', ''INVALID_REASON'', ''INVALID_SCOPE'',
     ''OTHER_SUPER_ADMIN_AUTHENTICATING'', ''TARGET_CHANGED'', ''TARGET_NOT_SUPER_ADMIN'',
     ''TARGET_STILL_USABLE'']"

datatype super_admin_operation = ADD | REMOVE | PUBLISH_POLICY | ROLLBACK_POLICY

definition operation_text :: "super_admin_operation \<Rightarrow> string" where
  "operation_text p = (case p of ADD \<Rightarrow> ''ADD'' | REMOVE \<Rightarrow> ''REMOVE''
     | PUBLISH_POLICY \<Rightarrow> ''POLICY_PUBLISH'' | ROLLBACK_POLICY \<Rightarrow> ''POLICY_ROLLBACK'')"

definition lower_operation :: "super_admin_operation \<Rightarrow> string" where
  "lower_operation p = (case p of ADD \<Rightarrow> ''add'' | REMOVE \<Rightarrow> ''remove''
     | PUBLISH_POLICY \<Rightarrow> ''policy_publish'' | ROLLBACK_POLICY \<Rightarrow> ''policy_rollback'')"

definition challenge_purpose :: "super_admin_operation \<Rightarrow> string" where
  "challenge_purpose p = (if p \<in> {PUBLISH_POLICY, ROLLBACK_POLICY} then operation_text p
     else ''SUPER_ADMIN_'' @ operation_text p)"

subsection \<open>Bootstrap\<close>

definition bootstrap_super_admin ::
  "identity_env \<Rightarrow> string \<Rightarrow> string \<Rightarrow> string option \<Rightarrow> (account_dto \<times> string) identity_command" where
  "bootstrap_super_admin env employee_no display_name correlation =
     cbind (reading any_super_admin) (\<lambda>taken.
     cseq (guarded taken (SuperAdminBootstrapConflict ''a Super Admin already exists''))
     (cbind (create_account env employee_no display_name None system_bootstrap
         ''environment Super Admin bootstrap'' correlation) (\<lambda>(account, temporary_password).
     cbind (clock_now env) (\<lambda>now.
     cbind (update_super_admin (dto_id account) True (dto_version account) now) (\<lambda>updated_row.
     cbind (require_updated (SuperAdminBootstrapConflict
         ''Super Admin bootstrap lost account ownership'') updated_row) (\<lambda>updated.
     cseq (identity_audit env system_bootstrap ''identity.super_admin.bootstrapped'' ''account''
       (ia_id updated) ''SUCCESS'' ''environment Super Admin bootstrap'' correlation)
     (cseq (notify_identity_change env (ia_id updated))
     (produce (account_dto_of updated, temporary_password)))))))))"

definition list_super_admins :: "identity_state \<Rightarrow> account_dto list" where
  "list_super_admins s = map account_dto_of (super_admin_rows s)"

subsection \<open>Challenges\<close>

definition audit_challenge ::
  "identity_env \<Rightarrow> string \<Rightarrow> string \<Rightarrow> string \<Rightarrow> string \<Rightarrow> string \<Rightarrow> unit identity_command" where
  "audit_challenge env actor step actor_account result reason =
     audit_account env actor (''identity.super_admin.challenge.'' @ step) actor_account result reason"

definition issue_super_admin_challenge ::
  "identity_env \<Rightarrow> string \<Rightarrow> super_admin_operation \<Rightarrow> string identity_command" where
  "issue_super_admin_challenge env actor_account operation =
     cbind (reading (account_by_id actor_account)) (\<lambda>row.
     case row of
       None \<Rightarrow> raising (SuperAdminPermissionDenied ''current effective Super Admin required'')
     | Some a \<Rightarrow>
         cseq (guarded (\<not> effective_row a)
           (SuperAdminPermissionDenied ''current effective Super Admin required''))
         (cbind (clock_now env) (\<lambda>now.
         cbind (get_identity_policy env) (\<lambda>policy.
         cbind (reading (admin_challenge_attempts actor_account (challenge_purpose operation)
             (now - policy_reauth_ttl))) (\<lambda>attempts.
         if pol_totp_cap policy \<le> attempts
         then cseq (audit_challenge env (ia_employee_no a) ''issued'' actor_account ''DENIED''
             (''purpose='' @ challenge_purpose operation @ ''; attempt limit exhausted''))
           (raising (TotpChallengeFailed ''Super Admin TOTP attempt limit exhausted''))
         else
           cbind (token_urlsafe env) (\<lambda>raw_token.
           cbind (random_uuid env) (\<lambda>i.
           cseq (insert_challenge (new_challenge i (token_hash env raw_token)
             (challenge_purpose operation) actor_account (Some actor_account) now
             (now + policy_reauth_ttl) (pol_totp_cap policy)))
           (cseq (audit_challenge env (ia_employee_no a) ''issued'' actor_account ''SUCCESS''
             (''purpose='' @ challenge_purpose operation))
           (produce raw_token)))))))))"

definition admin_challenge_active ::
  "string \<Rightarrow> super_admin_operation \<Rightarrow> instant \<Rightarrow> challenge_entry \<Rightarrow> account_entry \<Rightarrow> bool" where
  "admin_challenge_active actor_account operation now c a =
     (ch_account c = actor_account \<and> ch_actor c = Some actor_account
      \<and> ch_purpose c = challenge_purpose operation \<and> ch_consumed_at c = None
      \<and> ch_revoked_at c = None \<and> now < ch_expires_at c \<and> ch_attempt_count c < ch_attempt_limit c
      \<and> effective_row a \<and> ia_totp_sealed a \<noteq> None)"

definition admin_challenge_failure ::
  "identity_env \<Rightarrow> string \<Rightarrow> super_admin_operation \<Rightarrow> challenge_entry \<Rightarrow> account_entry \<Rightarrow> instant
   \<Rightarrow> string identity_command" where
  "admin_challenge_failure env actor_account operation c a now =
     cseq (fail_challenge (ch_id c) now)
     (cseq (audit_challenge env (ia_employee_no a) ''verified'' actor_account ''DENIED''
       (''purpose='' @ challenge_purpose operation @ ''; invalid or replayed TOTP''))
     (raising (TotpChallengeFailed ''invalid Super Admin TOTP challenge'')))"

definition consume_super_admin_challenge ::
  "identity_env \<Rightarrow> string \<Rightarrow> super_admin_operation \<Rightarrow> string \<Rightarrow> string \<Rightarrow> string identity_command" where
  "consume_super_admin_challenge env actor_account operation challenge_token totp_code =
     cbind (clock_now env) (\<lambda>now.
     cbind (reading (challenge_by_hash (token_hash env challenge_token))) (\<lambda>found.
     case found of
       None \<Rightarrow> raising (TotpChallengeFailed ''invalid Super Admin TOTP challenge'')
     | Some (c, a) \<Rightarrow>
         cbind (challenged_step env (admin_challenge_active actor_account operation now c a) a
             totp_code) (\<lambda>found_step.
         case found_step of
           None \<Rightarrow> admin_challenge_failure env actor_account operation c a now
         | Some step \<Rightarrow>
             cbind (update_totp_step actor_account step now) (\<lambda>updated.
             if \<not> updated then admin_challenge_failure env actor_account operation c a now
             else cbind (consume_challenge (ch_id c) now) (\<lambda>consumed.
               cseq (guarded (\<not> consumed)
                 (TotpChallengeFailed ''invalid Super Admin TOTP challenge''))
               (cseq (audit_challenge env (ia_employee_no a) ''verified'' actor_account ''SUCCESS''
                 (''purpose='' @ challenge_purpose operation))
               (produce (ia_employee_no a))))))))"

definition verify_admin_totp ::
  "identity_env \<Rightarrow> string \<Rightarrow> string \<Rightarrow> super_admin_operation \<Rightarrow> string identity_command" where
  "verify_admin_totp env actor_account code purpose =
     cbind (issue_super_admin_challenge env actor_account purpose) (\<lambda>challenge.
     consume_super_admin_challenge env actor_account purpose challenge code)"

subsection \<open>Adding and removing a Super Admin\<close>

definition change_denied :: "identity_error \<Rightarrow> bool" where
  "change_denied e = (case e of AccountNotFound _ \<Rightarrow> True | LastEffectiveSuperAdmin _ \<Rightarrow> True
     | StaleAccountVersion _ \<Rightarrow> True | SuperAdminConflict _ \<Rightarrow> True | _ \<Rightarrow> False)"

definition denial_name :: "identity_error \<Rightarrow> string" where
  "denial_name e = (case e of AccountNotFound _ \<Rightarrow> ''AccountNotFound''
     | LastEffectiveSuperAdmin _ \<Rightarrow> ''LastEffectiveSuperAdmin''
     | StaleAccountVersion _ \<Rightarrow> ''StaleAccountVersion''
     | SuperAdminConflict _ \<Rightarrow> ''SuperAdminConflict'' | _ \<Rightarrow> '''')"

text \<open>The guarded update; the row before, the row after and the instant it was stamped with.\<close>

definition super_admin_update ::
  "identity_env \<Rightarrow> string \<Rightarrow> bool \<Rightarrow> int
   \<Rightarrow> (account_entry \<times> account_entry \<times> instant) identity_command" where
  "super_admin_update env target desired expected_version =
     cbind (require_account target) (\<lambda>a.
     cseq (guarded (ia_version a \<noteq> expected_version) (StaleAccountVersion target))
     (cseq (guarded (ia_super_admin a = desired)
       (SuperAdminConflict ''Super Admin state already matches the request''))
     (cseq (guarded (desired \<and> (ia_status a \<noteq> ENABLED \<or> ia_password_hash a = None
         \<or> ia_totp_confirmed_at a = None))
       (SuperAdminConflict ''target account must be enabled and fully initialized''))
     (cseq (if \<not> desired then check_super_admin_remains a else produce ())
     (cbind (clock_now env) (\<lambda>now.
     cbind (update_super_admin target desired (ia_version a) now) (\<lambda>updated_row.
     cbind (require_updated (SuperAdminConflict ''Super Admin state changed concurrently'')
         updated_row) (\<lambda>updated. produce (a, updated, now)))))))))"

definition change_super_admin ::
  "identity_env \<Rightarrow> string \<Rightarrow> string \<Rightarrow> super_admin_operation \<Rightarrow> string \<Rightarrow> string \<Rightarrow> string \<Rightarrow> int
   \<Rightarrow> account_dto identity_command" where
  "change_super_admin env target actor_account operation challenge_token totp_code reason
     expected_version =
     (let normalized_reason = strip reason;
          desired = (operation = ADD);
          action = (if desired then ''identity.super_admin.added''
            else ''identity.super_admin.removed'')
      in cseq (guarded (normalized_reason = []) (IdentityValueError ''reason must not be blank''))
      (cbind (consume_super_admin_challenge env actor_account operation challenge_token totp_code)
        (\<lambda>actor.
      cbind (handled (super_admin_update env target desired expected_version) change_denied
        (\<lambda>e. cseq (audit_account env actor action target ''DENIED''
            (normalized_reason @ ''; denial='' @ denial_name e)) (raising e)))
        (\<lambda>(prior, updated, now).
      cbind (revoke_sessions target now (''SUPER_ADMIN_'' @ operation_text operation) None None)
        (\<lambda>revoked_ids.
      cseq (finalize_revocations env target revoked_ids actor
        (''Super Admin '' @ lower_operation operation) False)
      (cseq (audit_account env actor action target ''SUCCESS''
        (normalized_reason @ ''; beforeVersion='' @ str_of_int (ia_version prior)
          @ ''; afterVersion='' @ str_of_int (ia_version updated)))
      (cseq (notify_identity_change env target)
      (produce (account_dto_of updated)))))))))"

definition add_super_admin ::
  "identity_env \<Rightarrow> string \<Rightarrow> string \<Rightarrow> string \<Rightarrow> string \<Rightarrow> string \<Rightarrow> int \<Rightarrow> account_dto identity_command" where
  "add_super_admin env target actor_account challenge_token totp_code reason expected_version =
     change_super_admin env target actor_account ADD challenge_token totp_code reason
       expected_version"

definition remove_super_admin ::
  "identity_env \<Rightarrow> string \<Rightarrow> string \<Rightarrow> string \<Rightarrow> string \<Rightarrow> string \<Rightarrow> int \<Rightarrow> account_dto identity_command" where
  "remove_super_admin env target actor_account challenge_token totp_code reason expected_version =
     change_super_admin env target actor_account REMOVE challenge_token totp_code reason
       expected_version"

subsection \<open>Break-glass recovery\<close>

text \<open>The expiry is an instant and whether it carried an offset.\<close>

definition recovery_target ::
  "string \<Rightarrow> bool \<Rightarrow> account_entry identity_command" where
  "recovery_target employee_no credentials_lost = (\<lambda>s.
     (case account_by_employee_no employee_no s of
        None \<Rightarrow> Inl (SuperAdminRecoveryDenied ''TARGET_NOT_SUPER_ADMIN'')
      | Some a \<Rightarrow>
          if \<not> ia_super_admin a then Inl (SuperAdminRecoveryDenied ''TARGET_NOT_SUPER_ADMIN'')
          else if ia_status a \<noteq> DISABLED \<and> \<not> credentials_lost
          then Inl (SuperAdminRecoveryDenied ''TARGET_STILL_USABLE'')
          else if \<not> credentials_lost \<and> effective_super_admins_except (ia_id a) s \<noteq> 0
          then Inl (SuperAdminRecoveryDenied ''OTHER_SUPER_ADMIN_AUTHENTICATING'')
          else Inr a, s))"

definition recovery_evidence :: "identity_env \<Rightarrow> string \<Rightarrow> string \<Rightarrow> instant \<Rightarrow> string" where
  "recovery_evidence env reason scope expiry =
     reason @ ''; scope='' @ scope @ ''; expiresAt='' @ ev_isoformat env expiry @ ''; ''"

definition recover_super_admin ::
  "identity_env \<Rightarrow> string \<Rightarrow> string \<Rightarrow> string \<Rightarrow> instant \<times> bool \<Rightarrow> bool \<Rightarrow> string option
   \<Rightarrow> (account_dto \<times> string) identity_command" where
  "recover_super_admin env employee_no reason scope expires_at credentials_lost correlation =
     (let normalized_reason = strip reason; expiry = fst expires_at
      in cseq (guarded (normalized_reason = []) (SuperAdminRecoveryDenied ''INVALID_REASON''))
      (cseq (guarded (scope \<noteq> super_admin_recovery_scope) (SuperAdminRecoveryDenied ''INVALID_SCOPE''))
      (cbind (clock_now env) (\<lambda>now.
      cbind (get_identity_policy env) (\<lambda>policy.
      cseq (guarded (\<not> snd expires_at \<or> \<not> (now < expiry \<and> expiry \<le> now + pol_temp_ttl policy))
        (SuperAdminRecoveryDenied ''INVALID_EXPIRY''))
      (cbind (recovery_target employee_no credentials_lost) (\<lambda>a.
      cbind (issue_temp env (ia_id a) system_recovery now (Some expiry)) (\<lambda>temporary_password.
      cbind (reset_recovery_state (ia_id a) now) (\<lambda>updated_row.
      cbind (require_updated (SuperAdminRecoveryDenied ''TARGET_CHANGED'') updated_row) (\<lambda>updated.
      cbind (revoke_sessions (ia_id a) now ''SUPER_ADMIN_RECOVERY'' None None) (\<lambda>revoked_ids.
      cseq (finalize_session_revocations env (ia_id a) revoked_ids system_recovery
        ''Super Admin recovery'' False ''identity.sessions.revoked'' correlation)
      (cseq (identity_audit env system_recovery ''identity.temp_credential.issued'' ''account''
        (ia_id a) ''SUCCESS''
        (recovery_evidence env normalized_reason scope expiry @ ''source=BREAK_GLASS'') correlation)
      (cseq (identity_audit env system_recovery ''identity.super_admin.recovered'' ''account''
        (ia_id a) ''SUCCESS''
        (recovery_evidence env normalized_reason scope expiry @ ''credentialsLost=''
          @ (if credentials_lost then ''true'' else ''false'')
          @ ''; beforeVersion='' @ str_of_int (ia_version a)
          @ ''; afterVersion='' @ str_of_int (ia_version updated)) correlation)
      (cseq (notify_identity_change env (ia_id a))
      (produce (account_dto_of updated, temporary_password))))))))))))))))"

text \<open>\<open>str.isdigit\<close> also holds of the superscript digits.\<close>

definition digit_char :: "char \<Rightarrow> bool" where
  "digit_char c = (ascii_digit c \<or> (of_char c :: nat) \<in> {178, 179, 185})"

definition record_super_admin_recovery_denial ::
  "identity_env \<Rightarrow> string \<Rightarrow> string \<Rightarrow> string \<Rightarrow> unit identity_command" where
  "record_super_admin_recovery_denial env employee_no reason_code correlation =
     cseq (guarded (reason_code \<notin> set recovery_denial_codes)
       (IdentityValueError ''unsupported Super Admin recovery denial code''))
     (identity_audit env system_recovery ''identity.super_admin.recovered'' ''employee''
       (if length employee_no = 8 \<and> list_all digit_char employee_no then employee_no else ''INVALID'') ''DENIED''
       (''reasonCode='' @ reason_code @ ''; scope='' @ super_admin_recovery_scope)
       (Some correlation))"

end
