(* ===== verification/Identity_Reauth.thy ===== *)
theory Identity_Reauth
  imports Identity_Super_Admin
begin

section \<open>The identity module: policy reauthentication and the command line\<close>

text \<open>
  \<^verbatim>\<open>identity/application/policy_reauthentication.py\<close> with its runtime in
  \<^verbatim>\<open>adapters/policy_reauthentication.py\<close> (the identity module's own transaction: a denial
  commits the counters it moved, any other exception rolls back), and the command line entries of
  \<^verbatim>\<open>super_admin.py\<close>, which run through the idempotent execution. JSON of the account model is
  the parameter \<open>ac_dump\<close>, \<open>ac_validate\<close>.
\<close>

definition session_reauthenticates :: "session_principal option \<Rightarrow> policy_reauth_binding \<Rightarrow> bool" where
  "session_reauthenticates session binding =
     (case session of
        None \<Rightarrow> False
      | Some p \<Rightarrow> spr_kind p = FULL \<and> spr_super_admin p \<and> spr_account p = rb_actor binding
          \<and> spr_reference p \<noteq> None \<and> spr_version p \<noteq> None)"

definition current_session ::
  "identity_env \<Rightarrow> string \<Rightarrow> policy_reauth_binding \<Rightarrow> bool \<Rightarrow> session_principal identity_command" where
  "current_session env raw_session binding read_only =
     cbind (validate_session env raw_session False read_only) (\<lambda>session.
     if session_reauthenticates session binding then produce (the session)
     else raising (PolicyReauthenticationDenied ''current FULL Super Admin session required''))"

definition operation_of :: "string \<Rightarrow> super_admin_operation" where
  "operation_of t = (if t = ''POLICY_PUBLISH'' then PUBLISH_POLICY else ROLLBACK_POLICY)"

definition reauth_denied :: "identity_error \<Rightarrow> bool" where
  "reauth_denied e = (case e of TotpChallengeFailed _ \<Rightarrow> True | SuperAdminPermissionDenied _ \<Rightarrow> True
     | _ \<Rightarrow> False)"

definition new_receipt ::
  "string \<Rightarrow> policy_reauth_binding \<Rightarrow> session_principal \<Rightarrow> instant \<Rightarrow> reauth_receipt" where
  "new_receipt i binding session now = \<lparr>rcp_id = i, rcp_binding = binding,
     rcp_session = the (spr_reference session), rcp_account_version = the (spr_version session),
     rcp_consumed_at = now, rcp_expires_at = now + policy_reauth_ttl\<rparr>"

definition consume_policy_reauthentication ::
  "identity_env \<Rightarrow> string \<Rightarrow> string \<Rightarrow> policy_reauth_binding \<Rightarrow> string
   \<Rightarrow> reauth_receipt identity_command" where
  "consume_policy_reauthentication env raw_session totp_code binding attempt =
     cseq (guarded (attempt \<noteq> rb_attempt binding)
       (PolicyReauthenticationDenied ''policy command attempt mismatch''))
     (cbind (current_session env raw_session binding False) (\<lambda>session.
     cbind (reading (attempt_consumed (rb_actor binding) attempt)) (\<lambda>used.
     cseq (guarded used (PolicyReauthenticationDenied ''policy command attempt already consumed''))
     (cbind (handled
         (verify_admin_totp env (rb_actor binding) totp_code (operation_of (rb_operation binding)))
         reauth_denied
         (\<lambda>_. raising (PolicyReauthenticationDenied ''policy reauthentication denied'')))
       (\<lambda>actor.
     cbind (clock_now env) (\<lambda>now.
     cbind (random_uuid env) (\<lambda>i.
     let receipt = new_receipt i binding session now in
     cseq (insert_consumption receipt)
     (cseq (identity_audit env actor ''identity.policy_reauth.consumed''
       ''policy_reauth_consumption'' i ''SUCCESS''
       (''operation='' @ rb_operation binding @ ''; bindingHash='' @ ev_binding_hash env binding)
       None)
     (produce receipt)))))))))"

definition validate_consumed_policy_reauthentication ::
  "identity_env \<Rightarrow> string \<Rightarrow> policy_reauth_binding \<Rightarrow> reauth_receipt \<Rightarrow> unit identity_command" where
  "validate_consumed_policy_reauthentication env raw_session binding receipt =
     cbind (reading (matches_consumption receipt)) (\<lambda>known.
     cseq (guarded (\<not> known)
       (PolicyReauthenticationDenied ''consumed policy authentication does not match''))
     (cbind (current_session env raw_session binding True) (\<lambda>session.
     if spr_version session \<noteq> Some (rcp_account_version receipt)
     then raising (PolicyReauthenticationDenied ''consumed policy authentication does not match'')
     else cbind (clock_now env) (\<lambda>now.
       guarded (\<not> receipt_matches receipt binding (the (spr_reference session)) now)
         (PolicyReauthenticationDenied ''consumed policy authentication does not match'')))))"

subsection \<open>The runtime's transactions\<close>

definition reauth_denial :: "identity_error \<Rightarrow> bool" where
  "reauth_denial e = (case e of PolicyReauthenticationDenied _ \<Rightarrow> True | _ \<Rightarrow> False)"

text \<open>\<open>commits\<close> tells whether the commit that ends the block succeeds.\<close>

definition verify_and_consume_policy_reauth ::
  "identity_env \<Rightarrow> bool \<Rightarrow> string \<Rightarrow> string \<Rightarrow> policy_reauth_binding \<Rightarrow> string
   \<Rightarrow> reauth_receipt identity_command" where
  "verify_and_consume_policy_reauth env commits raw_session totp_code binding attempt = (\<lambda>s.
     let unavailable = PolicyReauthenticationUnavailable ''policy reauthentication unavailable'' in
     case consume_policy_reauthentication env raw_session totp_code binding attempt s of
       (Inr receipt, s') \<Rightarrow> if commits then (Inr receipt, s') else (Inl unavailable, s)
     | (Inl e, s') \<Rightarrow>
         if reauth_denial e \<and> commits then (Inl e, s') else (Inl unavailable, s))"

definition validate_consumed_policy_reauth ::
  "identity_env \<Rightarrow> string \<Rightarrow> policy_reauth_binding \<Rightarrow> reauth_receipt \<Rightarrow> unit identity_command" where
  "validate_consumed_policy_reauth env raw_session binding receipt = (\<lambda>s.
     case validate_consumed_policy_reauthentication env raw_session binding receipt s of
       (Inr u, s') \<Rightarrow> (Inr u, s')
     | (Inl e, s') \<Rightarrow> (Inl (if reauth_denial e then e
         else PolicyReauthenticationUnavailable ''policy reauthentication unavailable''), s))"

subsection \<open>The command line\<close>

record cli_execution =
  cx_account :: account_dto
  cx_temporary_password :: string
  cx_correlation :: string
  cx_key :: string
  cx_replayed :: bool
  cx_tickets :: "string list"

record account_codec =
  ac_dump :: "account_dto \<Rightarrow> pyval"
  ac_validate :: "pyval \<Rightarrow> account_dto option"

definition identity_keys :: "(identity_state, identity_error) idem_repository" where
  "identity_keys = table_repository id_keys (\<lambda>rows s. s\<lparr>id_keys := rows\<rparr>)
     (IdentityIntegrityError ''idempotency_record'')"

definition cli_response :: "account_codec \<Rightarrow> account_dto \<times> string \<Rightarrow> string \<Rightarrow> idem_response" where
  "cli_response K result correlation =
     \<lparr>ip_status = 200,
      ip_body = PyDict [(''account'', ac_dump K (fst result)),
        (''temporaryPassword'', PyStr (snd result)), (''commandId'', PyStr correlation)],
      ip_headers = [], ip_cookie = None, ip_is_problem = False\<rparr>"

definition cli_execution_of ::
  "account_codec \<Rightarrow> idem_response \<Rightarrow> string \<Rightarrow> bool \<Rightarrow> string list \<Rightarrow> (identity_error, cli_execution) res" where
  "cli_execution_of K response key replayed tickets =
     (case ip_body response of
        PyDict d \<Rightarrow>
          (case (map_of d ''account'', map_of d ''temporaryPassword'', map_of d ''commandId'') of
             (Some account, Some (PyStr password), Some (PyStr correlation)) \<Rightarrow>
               (case ac_validate K account of
                  None \<Rightarrow> Inl (IdentityValueError ''account'')
                | Some dto \<Rightarrow> Inr \<lparr>cx_account = dto, cx_temporary_password = password,
                    cx_correlation = correlation, cx_key = key, cx_replayed = replayed,
                    cx_tickets = tickets\<rparr>)
           | _ \<Rightarrow> Inl (IdentityValueError ''response''))
      | _ \<Rightarrow> Inl (IdentityValueError ''response''))"

text \<open>The key of a command line call is the fingerprint of its arguments.\<close>

definition cli_descriptor :: "sealer \<Rightarrow> string \<Rightarrow> string \<Rightarrow> pyval \<Rightarrow> string \<times> string" where
  "cli_descriptor S operation path body =
     (let key = request_fingerprint S operation ''CLI'' path body
      in (key, ''cli-'' @ take 32 key))"

definition cli_request :: "identity_env \<Rightarrow> string \<Rightarrow> string \<Rightarrow> string \<Rightarrow> identity_state \<Rightarrow> idem_request" where
  "cli_request env actor operation key s =
     \<lparr>iq_actor = actor, iq_operation = operation, iq_key = key, iq_fingerprint = key,
      iq_record_id = ev_uuid env (id_uuids s + 10), iq_claim_now = ev_clock env (id_ticks s + 11),
      iq_complete_now = ev_clock env (id_ticks s + 10)\<rparr>"

definition run_cli ::
  "identity_env \<Rightarrow> sealer \<Rightarrow> account_codec \<Rightarrow> string \<Rightarrow> string \<Rightarrow> string \<Rightarrow> pyval
   \<Rightarrow> (string \<Rightarrow> (account_dto \<times> string) identity_command) \<Rightarrow> identity_state
   \<Rightarrow> (identity_error idem_error, cli_execution \<times> identity_state) res" where
  "run_cli env S K actor operation path body body_of s =
     (let (key, correlation) = cli_descriptor S operation path body in
      rbind (execute_idempotent identity_keys S (cli_request env actor operation key s) None
          (committed (cbind (body_of correlation)
             (\<lambda>result. produce (cli_response K result correlation)))) s) (\<lambda>(x, s').
      rbind (lift_command (cli_execution_of K (ix_response x) key (ix_replayed x)
          (drop (length (id_tickets s)) (id_tickets s')))) (\<lambda>cx. Inr (cx, s'))))"

definition bootstrap_body :: "string \<Rightarrow> string \<Rightarrow> pyval" where
  "bootstrap_body employee_no display_name =
     PyDict [(''employeeNo'', PyStr employee_no), (''displayName'', PyStr display_name)]"

definition bootstrap_super_admin_cli ::
  "identity_env \<Rightarrow> sealer \<Rightarrow> account_codec \<Rightarrow> string \<Rightarrow> string \<Rightarrow> identity_state
   \<Rightarrow> (identity_error idem_error, cli_execution \<times> identity_state) res" where
  "bootstrap_super_admin_cli env S K employee_no display_name =
     run_cli env S K system_bootstrap ''super_admin_bootstrap_cli''
       ''control_plane.tools.bootstrap_admin'' (bootstrap_body employee_no display_name)
       (\<lambda>correlation. bootstrap_super_admin env employee_no display_name (Some correlation))"

definition recovery_body ::
  "identity_env \<Rightarrow> string \<Rightarrow> string \<Rightarrow> string \<Rightarrow> instant \<times> bool \<Rightarrow> bool \<Rightarrow> pyval" where
  "recovery_body env employee_no reason scope expires_at credentials_lost =
     PyDict [(''employeeNo'', PyStr employee_no), (''reason'', PyStr (strip reason)),
       (''scope'', PyStr scope), (''expiresAt'', PyStr (ev_isoformat env (fst expires_at))),
       (''credentialsLost'', PyBool credentials_lost)]"

definition recover_super_admin_cli ::
  "identity_env \<Rightarrow> sealer \<Rightarrow> account_codec \<Rightarrow> string \<Rightarrow> string \<Rightarrow> string \<Rightarrow> instant \<times> bool \<Rightarrow> bool
   \<Rightarrow> identity_state \<Rightarrow> (identity_error idem_error, cli_execution \<times> identity_state) res" where
  "recover_super_admin_cli env S K employee_no reason scope expires_at credentials_lost =
     run_cli env S K system_recovery ''super_admin_recovery_cli'' ''control_plane.tools.recovery''
       (recovery_body env employee_no reason scope expires_at credentials_lost)
       (\<lambda>correlation. recover_super_admin env employee_no reason scope expires_at
          credentials_lost (Some correlation))"

text \<open>Looking a committed command up again: nothing, or the recorded answer.\<close>

definition resolve_cli ::
  "identity_env \<Rightarrow> sealer \<Rightarrow> account_codec \<Rightarrow> string \<Rightarrow> string \<Rightarrow> string \<Rightarrow> pyval \<Rightarrow> identity_state
   \<Rightarrow> (identity_error idem_error, cli_execution option \<times> identity_state) res" where
  "resolve_cli env S K actor operation path body s =
     (let (key, correlation) = cli_descriptor S operation path body in
      if row_by key_scope (actor, operation, key) (id_keys s) = None then Inr (None, s)
      else rbind (execute_idempotent identity_keys S (cli_request env actor operation key s) None
          (\<lambda>_. Inl (IdentityRuntimeError ''commit resolution must not execute a new command'')) s)
        (\<lambda>(x, s'). rbind (lift_command (cli_execution_of K (ix_response x) key True []))
          (\<lambda>cx. Inr (Some cx, s'))))"

definition resolve_bootstrap_cli ::
  "identity_env \<Rightarrow> sealer \<Rightarrow> account_codec \<Rightarrow> string \<Rightarrow> string \<Rightarrow> identity_state
   \<Rightarrow> (identity_error idem_error, cli_execution option \<times> identity_state) res" where
  "resolve_bootstrap_cli env S K employee_no display_name =
     resolve_cli env S K system_bootstrap ''super_admin_bootstrap_cli''
       ''control_plane.tools.bootstrap_admin'' (bootstrap_body employee_no display_name)"

definition resolve_recovery_cli ::
  "identity_env \<Rightarrow> sealer \<Rightarrow> account_codec \<Rightarrow> string \<Rightarrow> string \<Rightarrow> string \<Rightarrow> instant \<times> bool \<Rightarrow> bool
   \<Rightarrow> identity_state \<Rightarrow> (identity_error idem_error, cli_execution option \<times> identity_state) res" where
  "resolve_recovery_cli env S K employee_no reason scope expires_at credentials_lost =
     resolve_cli env S K system_recovery ''super_admin_recovery_cli'' ''control_plane.tools.recovery''
       (recovery_body env employee_no reason scope expires_at credentials_lost)"

end
