(* ===== verification/Identity_Api.thy ===== *)
theory Identity_Api
  imports Identity_Reauth
begin

section \<open>The identity module: HTTP commands\<close>

text \<open>
  \<^verbatim>\<open>identity/api/auth_routes.py\<close>, \<^verbatim>\<open>admin_routes.py\<close> and \<^verbatim>\<open>super_admin_routes.py\<close>: the command
  each route runs inside the request's transaction, with the responses its denials and exceptions
  become (those commit), and the idempotent execution around it (\<open>identity_execute\<close>), which
  rolls back what no route handles and completes the security changes after the commit.
  FastAPI's routing, the schema of the bodies, the capability guard and the same-origin check
  come before a command and are not modelled.
\<close>

subsection \<open>Responses\<close>

definition http_success :: "pyval \<Rightarrow> cookie_replay option \<Rightarrow> idem_response" where
  "http_success body cookie = \<lparr>ip_status = 200, ip_body = body, ip_headers = [], ip_cookie = cookie,
     ip_is_problem = False\<rparr>"

definition http_problem ::
  "int \<Rightarrow> string \<Rightarrow> (string \<times> pyval) list \<Rightarrow> (string \<times> string) list \<Rightarrow> idem_response" where
  "http_problem status title extra headers = \<lparr>ip_status = status,
     ip_body = PyDict ([(''title'', PyStr title), (''status'', PyInt status)] @ extra),
     ip_headers = headers, ip_cookie = None, ip_is_problem = True\<rparr>"

definition state_body :: "string \<Rightarrow> pyval" where
  "state_body st = PyDict [(''state'', PyStr st)]"

definition set_cookie :: "string \<Rightarrow> cookie_replay option" where
  "set_cookie token = Some \<lparr>ck_set = True, ck_value = Some token\<rparr>"

definition delete_cookie :: "cookie_replay option" where
  "delete_cookie = Some \<lparr>ck_set = False, ck_value = None\<rparr>"

definition authentication_failed :: idem_response where
  "authentication_failed = http_problem 401 ''Authentication failed'' [] []"

definition retry_problem :: "string \<Rightarrow> int \<Rightarrow> idem_response" where
  "retry_problem title n = http_problem 429 title [(''retryAfter'', PyInt n)]
     [(''Retry-After'', str_of_int n)]"

definition authentication_denial_response :: "authentication_denial \<Rightarrow> idem_response" where
  "authentication_denial_response d =
     (if dn_code d = BACKOFF_ACTIVE
      then retry_problem ''Authentication temporarily unavailable''
        (max 1 (case dn_retry_after d of Some n \<Rightarrow> if n = 0 then 1 else n | None \<Rightarrow> 1))
      else if dn_code d = INVALID_CHALLENGE \<and> dn_challenge_state d = Some TERMINAL
      then retry_problem ''Authentication challenge exhausted'' 1
      else authentication_failed)"

definition actor_scope :: "identity_env \<Rightarrow> string \<Rightarrow> string option \<Rightarrow> string" where
  "actor_scope env prefix_text raw =
     (case raw of None \<Rightarrow> prefix_text @ '':absent''
      | Some v \<Rightarrow> prefix_text @ '':'' @ ev_sha256 env v)"

definition is_auth_failure :: "identity_error \<Rightarrow> bool" where
  "is_auth_failure e = (case e of AuthenticationFailed _ \<Rightarrow> True | _ \<Rightarrow> False)"

subsection \<open>Authentication routes\<close>

type_synonym route_command = "idem_response identity_command"

definition auth_login :: "identity_env \<Rightarrow> string \<Rightarrow> string \<Rightarrow> string \<Rightarrow> route_command" where
  "auth_login env employee_no password source =
     cbind (login_password_step env employee_no password source) (\<lambda>result.
     produce (case result of
         Denied d \<Rightarrow> authentication_denial_response d
       | Challenged c \<Rightarrow> http_success (PyDict [(''state'', PyStr ''TOTP_REQUIRED''),
           (''challengeToken'', PyStr (lgc_token c))]) None
       | Issued x \<Rightarrow> http_success (state_body ''BOOTSTRAP_REQUIRED'') (set_cookie (iss_token x))))"

definition auth_totp :: "identity_env \<Rightarrow> string \<Rightarrow> string \<Rightarrow> route_command" where
  "auth_totp env challenge_token code =
     cbind (login_totp_step env challenge_token code) (\<lambda>result.
     produce (case result of
         TotpDenied d \<Rightarrow> authentication_denial_response d
       | Authenticated x \<Rightarrow> http_success (state_body ''AUTHENTICATED'') (set_cookie (iss_token x))))"

definition auth_logout :: "identity_env \<Rightarrow> string option \<Rightarrow> route_command" where
  "auth_logout env raw_token =
     cseq (case raw_token of None \<Rightarrow> produce False | Some t \<Rightarrow> logout env t)
       (produce (http_success (state_body ''LOGGED_OUT'') delete_cookie))"

definition password_setup_response ::
  "session_principal \<Rightarrow> bootstrap_denial option \<Rightarrow> idem_response" where
  "password_setup_response session denial =
     (if denial \<noteq> None then authentication_failed
      else if spr_purpose session = Some PASSWORD_EXPIRED
      then http_success (state_body ''PASSWORD_UPDATED_LOGIN_REQUIRED'') delete_cookie
      else http_success (state_body ''PASSWORD_SET'') None)"

definition password_setup_problem :: "identity_error \<Rightarrow> idem_response" where
  "password_setup_problem e =
     (case e of
        PasswordFloorViolation vs \<Rightarrow> http_problem 422 ''Password does not meet security requirements''
          [(''violations'', PyList (map PyStr vs))] []
      | _ \<Rightarrow> authentication_failed)"

definition password_setup_answered :: "identity_error \<Rightarrow> bool" where
  "password_setup_answered e =
     (is_auth_failure e \<or> (case e of PasswordFloorViolation _ \<Rightarrow> True | _ \<Rightarrow> False))"

definition auth_bootstrap_password ::
  "identity_env \<Rightarrow> string option \<Rightarrow> string \<Rightarrow> route_command" where
  "auth_bootstrap_password env raw_token password =
     (case raw_token of
        None \<Rightarrow> produce authentication_failed
      | Some t \<Rightarrow>
          cbind (validate_session env t True False) (\<lambda>found.
          case found of
            None \<Rightarrow> produce authentication_failed
          | Some session \<Rightarrow>
              if spr_kind session \<noteq> BOOTSTRAP then produce authentication_failed
              else handled
                (cbind (complete_password_setup env t password) (\<lambda>denial.
                   produce (password_setup_response session denial)))
                password_setup_answered (\<lambda>e. produce (password_setup_problem e))))"

definition auth_bootstrap_totp_enroll :: "identity_env \<Rightarrow> string option \<Rightarrow> route_command" where
  "auth_bootstrap_totp_enroll env raw_token =
     (case raw_token of
        None \<Rightarrow> produce authentication_failed
      | Some t \<Rightarrow> handled
          (cbind (enroll_totp env t) (\<lambda>result. produce (case result of
             Inl denial \<Rightarrow> authentication_failed
           | Inr e \<Rightarrow> http_success (PyDict [(''provisioningUri'', PyStr (te_uri e))]) None)))
          is_auth_failure (\<lambda>_. produce authentication_failed))"

definition auth_bootstrap_totp_confirm ::
  "identity_env \<Rightarrow> string option \<Rightarrow> string \<Rightarrow> route_command" where
  "auth_bootstrap_totp_confirm env raw_token code =
     (case raw_token of
        None \<Rightarrow> produce authentication_failed
      | Some t \<Rightarrow> handled
          (cbind (confirm_totp env t code) (\<lambda>result. produce (case result of
             ConfirmDenied d \<Rightarrow> authentication_denial_response d
           | ConfirmBootstrapDenied _ \<Rightarrow> authentication_failed
           | Confirmed x \<Rightarrow> http_success (state_body ''AUTHENTICATED'') (set_cookie (iss_token x)))))
          is_auth_failure (\<lambda>_. produce authentication_failed))"

subsection \<open>Account administration\<close>

definition entity_tag :: "int \<Rightarrow> (identity_error, string) res" where
  "entity_tag version = (if version < 1 then Inl (IdentityValueError ''entity version must be positive'')
     else Inr ([char_of (34 :: nat)] @ ''v'' @ str_of_int version @ [char_of (34 :: nat)]))"

definition opt_text :: "string option \<Rightarrow> pyval" where
  "opt_text x = (case x of None \<Rightarrow> PyNone | Some s \<Rightarrow> PyStr s)"

definition account_summary :: "account_dto \<Rightarrow> string \<Rightarrow> pyval" where
  "account_summary d tag = PyDict [(''id'', PyStr (dto_id d)),
     (''employeeNo'', PyStr (dto_employee_no d)), (''displayName'', PyStr (dto_display_name d)),
     (''profession'', opt_text (dto_profession d)), (''status'', PyStr (status_text (dto_status d))),
     (''etag'', PyStr tag)]"

definition credential_receipt :: "int \<Rightarrow> account_dto \<Rightarrow> string \<Rightarrow> route_command" where
  "credential_receipt status account temporary_password =
     cbind (computed (entity_tag (dto_version account))) (\<lambda>tag.
     produce \<lparr>ip_status = status,
       ip_body = PyDict [(''account'', account_summary account tag),
         (''temporaryPassword'', PyStr temporary_password)],
       ip_headers = [(''ETag'', tag)], ip_cookie = None, ip_is_problem = False\<rparr>)"

definition accounts_create ::
  "identity_env \<Rightarrow> string \<Rightarrow> string \<Rightarrow> string option \<Rightarrow> string \<Rightarrow> string \<Rightarrow> route_command" where
  "accounts_create env employee_no display_name profession actor reason =
     handled
       (cbind (create_account env employee_no display_name profession actor reason None)
         (\<lambda>(account, temporary_password). credential_receipt 201 account temporary_password))
       is_account_conflict (\<lambda>_. produce (http_problem 409 ''Account already exists'' [] []))"

definition governance_denied :: "identity_error \<Rightarrow> bool" where
  "governance_denied e = (case e of AccountNotFound _ \<Rightarrow> True | InvalidAccountTransition _ \<Rightarrow> True
     | LastEffectiveSuperAdmin _ \<Rightarrow> True | StaleAccountVersion _ \<Rightarrow> True | _ \<Rightarrow> False)"

definition governance_denial :: "identity_error \<Rightarrow> idem_response" where
  "governance_denial e =
     (case e of
        AccountNotFound _ \<Rightarrow> http_problem 404 ''Account not found'' [] []
      | StaleAccountVersion _ \<Rightarrow> http_problem 409 ''Stale account version'' [] []
      | LastEffectiveSuperAdmin _ \<Rightarrow> http_problem 409 ''Last effective Super Admin required'' [] []
      | _ \<Rightarrow> http_problem 409 ''Invalid account transition'' [] [])"

datatype account_operation = RESET_PASSWORD | TOTP_RESET | ENABLE | DISABLE

definition account_operation_id :: "account_operation \<Rightarrow> string" where
  "account_operation_id p = (case p of RESET_PASSWORD \<Rightarrow> ''reset_password''
     | TOTP_RESET \<Rightarrow> ''totp_reset'' | ENABLE \<Rightarrow> ''enable'' | DISABLE \<Rightarrow> ''disable'')"

definition no_content :: "account_dto \<Rightarrow> route_command" where
  "no_content account = cbind (computed (entity_tag (dto_version account))) (\<lambda>tag.
     produce \<lparr>ip_status = 204, ip_body = PyDict [], ip_headers = [(''ETag'', tag)],
       ip_cookie = None, ip_is_problem = False\<rparr>)"

definition versioned_operation ::
  "identity_env \<Rightarrow> account_operation \<Rightarrow> string \<Rightarrow> int \<Rightarrow> string \<Rightarrow> string \<Rightarrow> route_command" where
  "versioned_operation env operation account expected_version actor reason =
     (case operation of
        RESET_PASSWORD \<Rightarrow>
          cbind (issue_temp_password env account actor reason (Some expected_version))
            (\<lambda>temporary_password.
          cbind (get_account account) (\<lambda>d. credential_receipt 200 d temporary_password))
      | TOTP_RESET \<Rightarrow> cbind (reset_totp env account expected_version actor reason) no_content
      | ENABLE \<Rightarrow>
          cbind (set_account_status env account ENABLED expected_version actor reason) no_content
      | DISABLE \<Rightarrow>
          cbind (set_account_status env account DISABLED expected_version actor reason) no_content)"

definition accounts_versioned_route ::
  "identity_env \<Rightarrow> account_operation \<Rightarrow> string \<Rightarrow> int \<Rightarrow> string \<Rightarrow> string \<Rightarrow> route_command" where
  "accounts_versioned_route env operation account expected_version actor reason =
     handled (versioned_operation env operation account expected_version actor reason)
       governance_denied
       (\<lambda>e. cseq (record_account_governance_denial env account (account_operation_id operation) actor)
         (produce (governance_denial e)))"

text \<open>A page of accounts and the key of the next one.\<close>

definition accounts_list ::
  "string option \<Rightarrow> string option \<Rightarrow> nat \<Rightarrow> identity_state
   \<Rightarrow> account_dto list \<times> (string \<times> string) option" where
  "accounts_list after_employee_no after_id limit s =
     (let values = list_accounts after_employee_no after_id (limit + 1) s;
          page = take limit values
      in (page, if limit < length values
          then Some (dto_employee_no (last page), dto_id (last page)) else None))"

subsection \<open>Super Admin administration\<close>

definition opt_instant :: "identity_env \<Rightarrow> instant option \<Rightarrow> pyval" where
  "opt_instant env x = (case x of None \<Rightarrow> PyNone | Some t \<Rightarrow> PyStr (ev_isoformat env t))"

definition super_admin_body :: "identity_env \<Rightarrow> account_dto \<Rightarrow> pyval" where
  "super_admin_body env d = PyDict [(''id'', PyStr (dto_id d)),
     (''employeeNo'', PyStr (dto_employee_no d)), (''displayName'', PyStr (dto_display_name d)),
     (''profession'', opt_text (dto_profession d)), (''status'', PyStr (status_text (dto_status d))),
     (''passwordSetAt'', opt_instant env (dto_password_set_at d)),
     (''totpConfirmedAt'', opt_instant env (dto_totp_confirmed_at d)),
     (''isSuperAdmin'', PyBool (dto_super_admin d)), (''version'', PyInt (dto_version d))]"

definition super_admin_success :: "identity_env \<Rightarrow> account_dto \<Rightarrow> route_command" where
  "super_admin_success env account = cbind (computed (entity_tag (dto_version account))) (\<lambda>tag.
     produce \<lparr>ip_status = 200, ip_body = super_admin_body env account,
       ip_headers = [(''ETag'', tag)], ip_cookie = None, ip_is_problem = False\<rparr>)"

definition super_admin_denied :: "identity_error \<Rightarrow> bool" where
  "super_admin_denied e = (case e of AccountNotFound _ \<Rightarrow> True | LastEffectiveSuperAdmin _ \<Rightarrow> True
     | StaleAccountVersion _ \<Rightarrow> True | SuperAdminConflict _ \<Rightarrow> True
     | SuperAdminPermissionDenied _ \<Rightarrow> True | TotpChallengeFailed _ \<Rightarrow> True | _ \<Rightarrow> False)"

definition super_admin_denial :: "identity_error \<Rightarrow> idem_response" where
  "super_admin_denial e =
     (case e of
        AccountNotFound _ \<Rightarrow> http_problem 404 ''Account not found'' [] []
      | SuperAdminPermissionDenied _ \<Rightarrow> http_problem 403 ''Super Admin verification failed'' [] []
      | TotpChallengeFailed _ \<Rightarrow> http_problem 403 ''Super Admin verification failed'' [] []
      | StaleAccountVersion _ \<Rightarrow> http_problem 409 ''Stale account version'' [] []
      | LastEffectiveSuperAdmin _ \<Rightarrow> http_problem 409 ''Last effective Super Admin required'' [] []
      | _ \<Rightarrow> http_problem 409 ''Super Admin governance conflict'' [] [])"

definition super_admin_route ::
  "identity_env \<Rightarrow> super_admin_operation \<Rightarrow> string \<Rightarrow> string \<Rightarrow> string \<Rightarrow> string \<Rightarrow> int \<Rightarrow> route_command" where
  "super_admin_route env operation actor_account target totp_code reason expected_version =
     handled
       (cbind (issue_super_admin_challenge env actor_account operation) (\<lambda>challenge.
        cbind (if operation = ADD
          then add_super_admin env target actor_account challenge totp_code reason expected_version
          else remove_super_admin env target actor_account challenge totp_code reason
            expected_version) (super_admin_success env)))
       super_admin_denied (\<lambda>e. produce (super_admin_denial e))"

definition super_admin_add ::
  "identity_env \<Rightarrow> string \<Rightarrow> string \<Rightarrow> string \<Rightarrow> string \<Rightarrow> int \<Rightarrow> route_command" where
  "super_admin_add env actor_account target totp_code reason expected_version =
     super_admin_route env ADD actor_account target totp_code reason expected_version"

definition super_admin_remove ::
  "identity_env \<Rightarrow> string \<Rightarrow> string \<Rightarrow> string \<Rightarrow> string \<Rightarrow> int \<Rightarrow> route_command" where
  "super_admin_remove env actor_account target totp_code reason expected_version =
     super_admin_route env REMOVE actor_account target totp_code reason expected_version"

subsection \<open>The execution of a route\<close>

text \<open>Completing a security change after the commit, and the status of a replayed claim's change.\<close>

record security_changes =
  sc_complete :: "string \<Rightarrow> bool"
  sc_claim_status :: "string \<Rightarrow> string option"

definition after_commit ::
  "security_changes \<Rightarrow> idem_execution \<Rightarrow> string list \<Rightarrow> idem_response" where
  "after_commit C x tickets =
     (if \<not> list_all (sc_complete C) tickets
      then http_problem 503 ''Authorization convergence unavailable'' [] []
      else if ix_replayed x \<and> 200 \<le> ip_status (ix_response x) \<and> ip_status (ix_response x) < 300
        \<and> sc_claim_status C (ic_record_id (ix_claim x)) \<notin> {None, Some ''COMPLETED''}
      then http_problem 503 ''Authorization convergence unavailable'' [] []
      else ix_response x)"

definition identity_execute ::
  "sealer \<Rightarrow> security_changes \<Rightarrow> idem_request \<Rightarrow> route_command \<Rightarrow> identity_state
   \<Rightarrow> (identity_error, idem_response) res \<times> identity_state" where
  "identity_execute S C q command s =
     (case execute_idempotent identity_keys S q None (committed command) s of
        Inl (IdempotencyConflict _) \<Rightarrow> (Inr (http_problem 409 ''Idempotency conflict'' [] []), s)
      | Inl (IdempotencyReplayUnavailable _) \<Rightarrow>
          (Inr (http_problem 409 ''Idempotency replay unavailable'' [] []), s)
      | Inl (CommandError e) \<Rightarrow> (Inl e, s)
      | Inr (x, s') \<Rightarrow>
          (Inr (after_commit C x (drop (length (id_tickets s)) (id_tickets s'))), s'))"

end
