(* ===== verification/Identity_Invariant.thy ===== *)
theory Identity_Invariant
  imports Identity_Api
begin

section \<open>The identity module: frames\<close>

text \<open>
  Which part of the state each statement and each reading of a port leaves alone: \<open>keeps f m\<close>
  whenever the field that \<open>m\<close> writes is not in \<open>f\<close>.
\<close>

lemma keeps_clock [keeps_rules]:
  "(\<And>s n. f (s\<lparr>id_ticks := n\<rparr>) = f s) \<Longrightarrow> keeps f (clock_now env)"
  by (simp add: keeps_iff clock_now_def)

lemma keeps_policy [keeps_rules]:
  "(\<And>s n. f (s\<lparr>id_policy_reads := n\<rparr>) = f s) \<Longrightarrow> keeps f (get_identity_policy env)"
  by (simp add: keeps_iff get_identity_policy_def)

lemma keeps_uuid [keeps_rules]:
  "(\<And>s n. f (s\<lparr>id_uuids := n\<rparr>) = f s) \<Longrightarrow> keeps f (random_uuid env)"
  by (simp add: keeps_iff random_uuid_def)

lemma keeps_token [keeps_rules]:
  "(\<And>s n. f (s\<lparr>id_tokens := n\<rparr>) = f s) \<Longrightarrow> keeps f (token_urlsafe env)"
  by (simp add: keeps_iff token_urlsafe_def)

lemma keeps_material [keeps_rules]: "keeps f (load_material env)"
  by (simp add: load_material_def kept.advances_all)

lemma keeps_audit [keeps_rules]:
  "(\<And>s l. f (s\<lparr>id_audit := l\<rparr>) = f s) \<Longrightarrow>
   keeps f (identity_audit env actor action tt ti result reason correlation)"
  by (simp add: keeps_iff identity_audit_def writing_def Let_def)

lemma keeps_audit_account [keeps_rules]:
  "(\<And>s l. f (s\<lparr>id_audit := l\<rparr>) = f s) \<Longrightarrow>
   keeps f (audit_account env actor action account result reason)"
  by (simp add: audit_account_def keeps_audit)

lemma keeps_notify [keeps_rules]:
  "(\<And>s t. f (s\<lparr>id_tickets := t\<rparr>) = f s) \<Longrightarrow> keeps f (notify_identity_change env account)"
  unfolding notify_identity_change_def
  by (intro kept.advances_all) (simp add: keeps_iff writing_def)

lemma keeps_finalize [keeps_rules]:
  "(\<And>s l. f (s\<lparr>id_audit := l\<rparr>) = f s) \<Longrightarrow> (\<And>s t. f (s\<lparr>id_tickets := t\<rparr>) = f s) \<Longrightarrow>
   keeps f (finalize_session_revocations env account ids actor reason hook action correlation)"
  unfolding finalize_session_revocations_def by (intro keeps_rules) simp_all

lemma keeps_finalize_revocations [keeps_rules]:
  "(\<And>s l. f (s\<lparr>id_audit := l\<rparr>) = f s) \<Longrightarrow> (\<And>s t. f (s\<lparr>id_tickets := t\<rparr>) = f s) \<Longrightarrow>
   keeps f (finalize_revocations env account ids actor reason hook)"
  by (simp add: finalize_revocations_def keeps_finalize)

lemma keeps_save_backoff [keeps_rules]:
  "(\<And>s b. f (s\<lparr>id_backoffs := b\<rparr>) = f s) \<Longrightarrow> keeps f (save_backoff e so n t u)"
  unfolding save_backoff_def by (rule keeps_statement) (auto simp: Let_def split: if_splits)

lemma keeps_temps [keeps_rules]:
  assumes "\<And>s b. f (s\<lparr>id_temps := b\<rparr>) = f s"
  shows "keeps f (invalidate_temp_credentials account now)"
    and "keeps f (insert_temp_credential t)" and "keeps f (consume_temp_credential i now)"
  unfolding invalidate_temp_credentials_def insert_temp_credential_def consume_temp_credential_def
  by (rule keeps_statement, auto simp: res_simps assms Let_def)+

lemma keeps_insert_challenge [keeps_rules]:
  "(\<And>s b. f (s\<lparr>id_challenges := b\<rparr>) = f s) \<Longrightarrow> keeps f (insert_challenge c)"
  unfolding insert_challenge_def by (rule keeps_statement) (auto simp: res_simps)

lemma keeps_change_challenges:
  "(\<And>s b. f (s\<lparr>id_challenges := b\<rparr>) = f s) \<Longrightarrow> keeps f (change_challenges p g)"
  unfolding change_challenges_def by (rule keeps_statement) (auto simp: res_simps)

lemma keeps_challenges [keeps_rules]:
  assumes "\<And>s b. f (s\<lparr>id_challenges := b\<rparr>) = f s"
  shows "keeps f (fail_challenge i now)" and "keeps f (consume_challenge i now)"
  unfolding fail_challenge_def consume_challenge_def
  by (intro kept.advances_all keeps_change_challenges assms)+

lemma keeps_consumption [keeps_rules]:
  "(\<And>s b. f (s\<lparr>id_consumptions := b\<rparr>) = f s) \<Longrightarrow> keeps f (insert_consumption r)"
  unfolding insert_consumption_def by (rule keeps_statement) (auto simp: res_simps)

lemma keeps_update_account:
  "(\<And>s b. f (s\<lparr>id_accounts := b\<rparr>) = f s) \<Longrightarrow> keeps f (update_account p h)"
  unfolding update_account_def by (rule keeps_statement) (auto simp: res_simps)

lemma keeps_updates [keeps_rules]:
  assumes "\<And>s b. f (s\<lparr>id_accounts := b\<rparr>) = f s"
  shows "keeps f (update_password i h now)" and "keeps f (reset_password_state i now)"
    and "keeps f (reset_totp_state i n now)" and "keeps f (reset_recovery_state i now)"
    and "keeps f (update_totp_enrollment i x now)" and "keeps f (store_totp_confirmation i k now)"
    and "keeps f (restore_password_reset i k now)" and "keeps f (update_totp_step i k now)"
    and "keeps f (update_account_status i st n now)" and "keeps f (update_super_admin i b n now)"
  unfolding update_password_def reset_password_state_def reset_totp_state_def
    reset_recovery_state_def update_totp_enrollment_def store_totp_confirmation_def
    restore_password_reset_def update_totp_step_def update_account_status_def update_super_admin_def
  by (intro kept.advances_all keeps_update_account assms)+

lemma keeps_insert_account [keeps_rules]:
  "(\<And>s b. f (s\<lparr>id_accounts := b\<rparr>) = f s) \<Longrightarrow> keeps f (insert_account a)"
  unfolding insert_account_def by (rule keeps_statement) (auto simp: res_simps split: if_splits)

lemma keeps_insert_session [keeps_rules]:
  "(\<And>s b. f (s\<lparr>id_sessions := b\<rparr>) = f s) \<Longrightarrow> keeps f (insert_session r)"
  unfolding insert_session_def by (rule keeps_statement) (auto simp: res_simps)

lemma keeps_change_sessions:
  "(\<And>s b. f (s\<lparr>id_sessions := b\<rparr>) = f s) \<Longrightarrow> keeps f (change_sessions p h)"
  unfolding change_sessions_def by (rule keeps_statement) (auto simp: res_simps)

lemma keeps_sessions [keeps_rules]:
  assumes "\<And>s b. f (s\<lparr>id_sessions := b\<rparr>) = f s"
  shows "keeps f (increment_bootstrap_totp_attempts i)"
    and "keeps f (revoke_sessions account now reason x k)" and "keeps f (revoke_session i now reason)"
    and "keeps f (touch_session i now hint)" and "keeps f (evict_old_full_sessions account cap now)"
  unfolding increment_bootstrap_totp_attempts_def revoke_sessions_def revoke_session_def
    touch_session_def evict_old_full_sessions_def
  by (intro kept.advances_all keeps_change_sessions assms)+

lemma keeps_require [keeps_rules]:
  "keeps f (require_account i)" "keeps f (require_updated e row)"
  "keeps f (check_super_admin_remains a)" "keeps f (recovery_target n l)"
  "keeps f (purpose_of r)" "keeps f (unsealed_secret env material a)"
  by (simp_all add: keeps_iff require_account_def require_updated_def computed_def
      check_super_admin_remains_def recovery_target_def purpose_of_def unsealed_secret_def)

section \<open>The identity module: invariant\<close>

text \<open>
  What every committed request keeps (\<open>sound\<close>): an enabled account has its password and its
  confirmed TOTP secret, and a live session fits the status of its account, the accounts of a set
  \<open>X\<close> being exempt while a command is between changing a status and revoking the sessions. With
  \<open>g\<close> set, some Super Admin is effective. It speaks of two tables only, \<open>core\<close>. A request may
  answer an exception and commit, so an exit by an exception that some route answers has to keep
  it too (\<open>answered\<close>).
\<close>

definition core :: "identity_state \<Rightarrow> account_entry list \<times> session_entry list" where
  "core s = (id_accounts s, id_sessions s)"

definition account_sound :: "account_entry \<Rightarrow> bool" where
  "account_sound a \<longleftrightarrow>
     (ia_status a = ENABLED \<longrightarrow> ia_password_hash a \<noteq> None \<and> ia_totp_confirmed_at a \<noteq> None)
     \<and> (ia_totp_confirmed_at a \<noteq> None \<longrightarrow> ia_totp_sealed a \<noteq> None)"

definition session_fits :: "account_entry \<Rightarrow> session_entry \<Rightarrow> bool" where
  "session_fits a r \<longleftrightarrow> ia_status a =
     (if ss_kind r = FULL \<or> ss_purpose r = Some PASSWORD_EXPIRED then ENABLED else PENDING_INIT)"

definition sound ::
  "bool \<Rightarrow> string set \<Rightarrow> account_entry list \<times> session_entry list \<Rightarrow> bool" where
  "sound g X c \<longleftrightarrow> distinct (map ia_id (fst c)) \<and> (\<forall>a \<in> set (fst c). account_sound a)
     \<and> (\<forall>r \<in> set (snd c). live_session r \<longrightarrow> ss_account r \<notin> X \<longrightarrow>
          (\<exists>a \<in> set (fst c). ia_id a = ss_account r \<and> session_fits a r))
     \<and> (g \<longrightarrow> (\<exists>a \<in> set (fst c). effective_row a))"

definition answered :: "identity_error \<Rightarrow> bool" where
  "answered e = (case e of IdentityIntegrityError _ \<Rightarrow> False | IdentityValueError _ \<Rightarrow> False
     | IdentityOverflow _ \<Rightarrow> False | SecretMaterialUnavailable \<Rightarrow> False
     | IdentityPolicyUnavailable \<Rightarrow> False | IdentityRuntimeError _ \<Rightarrow> False | _ \<Rightarrow> True)"

subsection \<open>Changes of the two tables\<close>

lemma sound_row:
  assumes "sound g X (A, S)" and "a \<in> set A"
  shows "account_sound a" and "distinct (map ia_id A)"
  using assms by (auto simp: sound_def)

lemma sound_more: "sound g X c \<Longrightarrow> X \<subseteq> Y \<Longrightarrow> sound g Y c"
  unfolding sound_def by blast

lemma sound_accounts:
  assumes "sound g X (A, S)" and "\<And>a. ia_id (f a) = ia_id a" and "\<And>a. p a \<Longrightarrow> ia_id a = i"
    and "\<And>a. a \<in> set A \<Longrightarrow> p a \<Longrightarrow> account_sound (f a)"
    and "i \<in> Y \<or> (\<forall>a \<in> set A. p a \<longrightarrow> ia_status (f a) = ia_status a)" and "X \<subseteq> Y"
    and "g \<Longrightarrow> \<exists>a \<in> set A. effective_row (if p a then f a else a)"
  shows "sound g Y (set_where p f A, S)"
proof -
  let ?h = "\<lambda>a. if p a then f a else a"
  have rows: "set (set_where p f A) = ?h ` set A" by (rule set_set_where)
  have "\<exists>b \<in> ?h ` set A. ia_id b = ss_account r \<and> session_fits b r"
    if r: "r \<in> set S" "live_session r" "ss_account r \<notin> Y" for r
  proof -
    from assms(1,6) r obtain a where a: "a \<in> set A" "ia_id a = ss_account r" "session_fits a r"
      unfolding sound_def by fastforce
    from assms(5) have "ia_status (?h a) = ia_status a"
    proof
      assume "i \<in> Y"
      with a r(3) assms(3) show ?thesis by metis
    qed (use a(1) in auto)
    with a have "session_fits (?h a) r" by (simp add: session_fits_def)
    moreover have "ia_id (?h a) = ss_account r" using a(2) assms(2) by simp
    ultimately show ?thesis using a(1) by blast
  qed
  moreover have "account_sound b" if "b \<in> ?h ` set A" for b
    using that assms(1,4) by (auto simp: sound_def)
  moreover have "g \<Longrightarrow> \<exists>b \<in> ?h ` set A. effective_row b" using assms(7) by blast
  moreover have "distinct (map ia_id (set_where p f A))"
    using assms(1,2) by (simp add: sound_def)
  ultimately show ?thesis unfolding sound_def fst_conv snd_conv rows by blast
qed

lemma sound_sessions:
  assumes "sound g X (A, S)"
    and "\<And>r. ss_account (f r) = ss_account r \<and> ss_kind (f r) = ss_kind r \<and> ss_purpose (f r) = ss_purpose r"
    and "\<And>r. p r \<Longrightarrow> live_session (f r) \<Longrightarrow> live_session r"
    and "\<And>r. r \<in> set S \<Longrightarrow> live_session r \<Longrightarrow> ss_account r \<in> X \<Longrightarrow>
      ss_account r \<in> Y \<or> p r \<and> \<not> live_session (f r)"
  shows "sound g Y (A, set_where p f S)"
proof -
  have "\<exists>a \<in> set A. ia_id a = ss_account r \<and> session_fits a r"
    if r: "r \<in> set (set_where p f S)" "live_session r" "ss_account r \<notin> Y" for r
  proof -
    from r(1) obtain q where q: "q \<in> set S" "r = (if p q then f q else q)"
      by (auto simp: set_set_where)
    then have same: "ss_account r = ss_account q" "ss_kind r = ss_kind q" "ss_purpose r = ss_purpose q"
      using assms(2) by auto
    have "live_session q" using q r(2) assms(3) by (auto split: if_splits)
    moreover have "ss_account q \<notin> X" using assms(4) [OF q(1) \<open>live_session q\<close>] q(2) r same(1)
      by (auto split: if_splits)
    ultimately obtain a where "a \<in> set A" "ia_id a = ss_account q" "session_fits a q"
      using assms(1) q(1) unfolding sound_def by fastforce
    then show ?thesis using same by (auto simp: session_fits_def)
  qed
  with assms(1) show ?thesis by (auto simp: sound_def)
qed

lemma sound_new_session:
  assumes "sound g {} (A, S)" and "a \<in> set A" and "ia_id a = ss_account r" and "session_fits a r"
  shows "sound g {} (A, S @ [r])"
  using assms unfolding sound_def by auto

lemma sound_new_account:
  assumes "sound g X (A, S)" and "ia_id a \<notin> ia_id ` set A" and "account_sound a"
  shows "sound g X (A @ [a], S)"
  using assms unfolding sound_def by auto

subsection \<open>Statements over the two tables\<close>

lemma core_simps [simp]:
  "core (s\<lparr>id_accounts := A\<rparr>) = (A, snd (core s))" "core (s\<lparr>id_sessions := S\<rparr>) = (fst (core s), S)"
  "core (s\<lparr>id_temps := x1\<rparr>) = core s" "core (s\<lparr>id_backoffs := x2\<rparr>) = core s"
  "core (s\<lparr>id_challenges := x3\<rparr>) = core s" "core (s\<lparr>id_consumptions := x4\<rparr>) = core s"
  "core (s\<lparr>id_keys := x5\<rparr>) = core s" "core (s\<lparr>id_audit := x6\<rparr>) = core s"
  "core (s\<lparr>id_ticks := x7\<rparr>) = core s" "core (s\<lparr>id_policy_reads := x7\<rparr>) = core s"
  "core (s\<lparr>id_uuids := x7\<rparr>) = core s" "core (s\<lparr>id_tokens := x7\<rparr>) = core s"
  "core (s\<lparr>id_tickets := x8\<rparr>) = core s"
  by (simp_all add: core_def)

lemma core_fields: "core s = (A, S) \<longleftrightarrow> id_accounts s = A \<and> id_sessions s = S"
  by (simp add: core_def)

lemma wp_core:
  assumes "keeps core m" and "core s = c" and "\<And>x s'. core s' = c \<Longrightarrow> Q x s'"
    and "\<And>e s'. core s' = c \<Longrightarrow> E e s'"
  shows "wp m Q E s"
  by (rule wp_keeps [OF assms(1)]) (simp_all add: assms)

lemma wp_update_account:
  assumes "core s = (A, S)" and "E (IdentityIntegrityError ''account'') s"
    and "\<And>s'. core s' = (set_where p f A, S) \<Longrightarrow> Q (map_option f (find p A)) s'"
  shows "wp (update_account p f) Q E s"
  unfolding update_account_def
  by (rule wp_statement)
    (use assms in \<open>auto simp: res_simps changed_rows_Inr core_fields dest!: changed_rows_Inl\<close>)

lemma wp_change_sessions:
  assumes "core s = (A, S)" and "E (IdentityIntegrityError ''session'') s"
    and "\<And>s'. core s' = (A, set_where p f S) \<Longrightarrow> Q (map f (filter p S)) s'"
  shows "wp (change_sessions p f) Q E s"
  unfolding change_sessions_def
  by (rule wp_statement)
    (use assms in \<open>auto simp: res_simps changed_rows_Inr core_fields dest!: changed_rows_Inl\<close>)

lemma wp_insert_session:
  assumes "core s = (A, S)" and "E (IdentityIntegrityError ''session'') s"
    and "\<And>s'. core s' = (A, S @ [r]) \<Longrightarrow> Q () s'"
  shows "wp (insert_session r) Q E s"
  unfolding insert_session_def
  by (rule wp_statement)
    (use assms in \<open>auto simp: res_simps inserted_identity_Inr core_fields dest!: inserted_row_Inl\<close>)

section \<open>The identity module: every operation keeps the invariant\<close>

text \<open>
  Most statements keep the invariant wherever they run, on both exits (\<open>lawful\<close>); an operation
  built from them is lawful by the rules of \<open>state_order\<close>. What depends on the account it works on
  (issuing a session, enrolling, confirming, resetting, changing a status) is executed
  symbolically by the weakest precondition rules.
\<close>

definition guards :: "bool \<Rightarrow> identity_state \<Rightarrow> identity_state \<Rightarrow> bool" where
  "guards g s s' \<longleftrightarrow> (sound g {} (core s) \<longrightarrow> sound g {} (core s'))"

interpretation lawful: state_order "guards g" for g
  by unfold_locales (auto simp: guards_def)

abbreviation lawful :: "bool \<Rightarrow> 'a identity_command \<Rightarrow> bool" where
  "lawful g m \<equiv> advances (guards g) m"

named_theorems lawful_rules "commands that keep the invariant on both exits"

declare lawful.advances_all [lawful_rules]

lemma lawful_core: "keeps core m \<Longrightarrow> lawful g m"
  by (simp add: advances_def same_def guards_def)

lemma lawful_statement:
  "(\<And>s x s'. f s = Inr (x, s') \<Longrightarrow> sound g {} (core s) \<Longrightarrow> sound g {} (core s')) \<Longrightarrow>
   lawful g (statement f)"
  by (rule lawful.advances_statement) (simp add: guards_def)

lemma lawful_sum [lawful_rules]:
  "(\<And>x. lawful g (m x)) \<Longrightarrow> (\<And>y. lawful g (n y)) \<Longrightarrow>
   lawful g (case v of Inl x \<Rightarrow> m x | Inr y \<Rightarrow> n y)"
  by (simp split: sum.split)

lemma wp_lawful:
  assumes "lawful g m" and "sound g {} (core s)"
    and "\<And>x s'. sound g {} (core s') \<Longrightarrow> Q x s'" and "\<And>e s'. sound g {} (core s') \<Longrightarrow> E e s'"
  shows "wp m Q E s"
  by (rule wp_advances [OF assms(1)]) (use assms in \<open>simp_all add: guards_def\<close>)

subsection \<open>Sessions\<close>

lemma lawful_change_sessions:
  assumes "\<And>r. ss_account (f r) = ss_account r \<and> ss_kind (f r) = ss_kind r \<and> ss_purpose (f r) = ss_purpose r"
    and "\<And>r. p r \<Longrightarrow> live_session (f r) \<Longrightarrow> live_session r"
  shows "lawful g (change_sessions p f)"
  unfolding change_sessions_def
proof (rule lawful_statement)
  fix s x and s' :: identity_state
  assume "rbind (changed_rows ''session'' session_row_ok p f (id_sessions s))
      (\<lambda>rows. Inr (map f (filter p (id_sessions s)), s\<lparr>id_sessions := rows\<rparr>)) = Inr (x, s')"
  then have "core s' = (fst (core s), set_where p f (snd (core s)))"
    by (auto simp: res_simps changed_rows_Inr core_def)
  moreover assume "sound g {} (core s)"
  ultimately show "sound g {} (core s')"
    using sound_sessions [of g "{}" "fst (core s)" "snd (core s)" f p "{}"] assms by simp
qed

lemma revoked_simps [simp]:
  "ss_account (revoked now reason r) = ss_account r" "ss_kind (revoked now reason r) = ss_kind r"
  "ss_purpose (revoked now reason r) = ss_purpose r" "ss_id (revoked now reason r) = ss_id r"
  "\<not> live_session (revoked now reason r)"
  by (simp_all add: revoked_def live_session_def)

lemma lawful_sessions [lawful_rules]:
  "lawful g (increment_bootstrap_totp_attempts i)" "lawful g (revoke_sessions account now reason x k)"
  "lawful g (revoke_session i now reason)" "lawful g (touch_session i now hint)"
  "lawful g (evict_old_full_sessions account cap now)"
  unfolding increment_bootstrap_totp_attempts_def revoke_sessions_def revoke_session_def
    touch_session_def evict_old_full_sessions_def
  by (intro lawful_rules lawful_change_sessions;
      simp add: live_session_def revoked_simps(5) [unfolded live_session_def])+

lemmas lawful_frames [lawful_rules] = keeps_clock [THEN lawful_core] keeps_policy [THEN lawful_core]
  keeps_uuid [THEN lawful_core] keeps_token [THEN lawful_core] keeps_material [THEN lawful_core]
  keeps_audit [THEN lawful_core] keeps_audit_account [THEN lawful_core]
  keeps_notify [THEN lawful_core] keeps_finalize [THEN lawful_core]
  keeps_finalize_revocations [THEN lawful_core] keeps_save_backoff [THEN lawful_core]
  keeps_temps [THEN lawful_core] keeps_insert_challenge [THEN lawful_core]
  keeps_challenges [THEN lawful_core] keeps_consumption [THEN lawful_core]
  keeps_require [THEN lawful_core]

lemma lawful_revoke_idle [lawful_rules]: "lawful g (revoke_idle_session env r a now)"
  unfolding revoke_idle_session_def by (intro lawful_rules) simp_all

lemma lawful_validate_session [lawful_rules]: "lawful g (validate_session env t touch ro)"
  unfolding validate_session_def by (intro lawful_rules) simp_all

lemma lawful_logout [lawful_rules]: "lawful g (logout env t)"
  unfolding logout_def by (intro lawful_rules) simp_all

lemma lawful_revoke_sessions_for [lawful_rules]: "lawful g (revoke_sessions_for env account actor reason)"
  unfolding revoke_sessions_for_def by (intro lawful_rules) simp_all

lemma lawful_bootstrap_account [lawful_rules]: "lawful g (bootstrap_account env t touch)"
  unfolding bootstrap_account_def by (intro lawful_rules) simp_all

lemma lawful_revoke_exhausted [lawful_rules]: "lawful g (revoke_exhausted_session env r actor)"
  unfolding revoke_exhausted_session_def by (intro lawful_rules) simp_all

lemma lawful_enforce_cap [lawful_rules]: "lawful g (enforce_session_cap env account actor now)"
  unfolding enforce_session_cap_def by (intro lawful_rules) simp_all

lemma lawful_confirm_failure [lawful_rules]: "lawful g (confirm_failure env r actor policy)"
  unfolding confirm_failure_def by (intro lawful_rules) simp_all

subsection \<open>Accounts whose status stays\<close>

lemma lawful_update_account:
  assumes "\<And>a. ia_id (f a) = ia_id a" and "\<And>a. ia_status (f a) = ia_status a"
    and "\<And>a. p a \<Longrightarrow> ia_id a = i" and "\<And>a. account_sound a \<Longrightarrow> p a \<Longrightarrow> account_sound (f a)"
    and "\<And>a. effective_row a \<Longrightarrow> effective_row (f a)"
  shows "lawful g (update_account p f)"
  unfolding update_account_def
proof (rule lawful_statement)
  fix s x and s' :: identity_state
  assume "rbind (changed_rows ''account'' account_row_ok p f (id_accounts s))
      (\<lambda>rows. Inr (map_option f (find p (id_accounts s)), s\<lparr>id_accounts := rows\<rparr>)) = Inr (x, s')"
  then have c: "core s' = (set_where p f (fst (core s)), snd (core s))"
    by (auto simp: res_simps changed_rows_Inr core_def)
  assume inv: "sound g {} (core s)"
  have "sound g {} (set_where p f (fst (core s)), snd (core s))"
  proof (rule sound_accounts [where i = i and X = "{}"])
    show "sound g {} (fst (core s), snd (core s))" using inv by simp
    show "\<And>a. a \<in> set (fst (core s)) \<Longrightarrow> p a \<Longrightarrow> account_sound (f a)"
      using inv assms(4) by (auto simp: sound_def)
    assume g
    with inv obtain a where "a \<in> set (fst (core s))" "effective_row a" by (auto simp: sound_def)
    then show "\<exists>a \<in> set (fst (core s)). effective_row (if p a then f a else a)"
      using assms(5) by (intro bexI [of _ a]) simp_all
  qed (use assms in simp_all)
  with c show "sound g {} (core s')" by simp
qed

lemma lawful_update_password [lawful_rules]: "lawful g (update_password i h now)"
  unfolding update_password_def
  by (rule lawful_update_account [where i = i]) (simp_all add: account_sound_def effective_row_def)

lemma lawful_update_totp_step [lawful_rules]: "lawful g (update_totp_step i k now)"
  unfolding update_totp_step_def
  by (intro lawful_rules lawful_update_account [where i = i])
    (simp_all add: account_sound_def effective_row_def)

lemma lawful_complete_password_setup [lawful_rules]:
  "lawful g (complete_password_setup env t password)"
  unfolding complete_password_setup_def Let_def by (intro lawful_rules) simp_all

subsection \<open>Login failures, backoff and challenges\<close>

lemma keeps_check_backoff [keeps_rules]: "keeps core (check_backoff env e so)"
  unfolding check_backoff_def by (intro keeps_rules) simp_all

lemma keeps_record_failure [keeps_rules]: "keeps core (record_password_failure env e so)"
  unfolding record_password_failure_def Let_def by (intro keeps_rules) simp_all

lemma keeps_login_denied [keeps_rules]: "keeps core (login_denied env e reason d)"
  unfolding login_denied_def by (intro keeps_rules) simp_all

lemma keeps_issue_login_challenge [keeps_rules]: "keeps core (issue_login_challenge env a e policy now)"
  unfolding issue_login_challenge_def by (intro keeps_rules) simp_all

lemma keeps_challenged_step [keeps_rules]: "keeps f (challenged_step env active a code)"
  unfolding challenged_step_def by (intro keeps_rules)

lemma keeps_totp_login_failure [keeps_rules]: "keeps core (totp_login_failure env c a now)"
  unfolding totp_login_failure_def by (intro keeps_rules) simp_all

lemma keeps_issue_temp [keeps_rules]: "keeps core (issue_temp env account actor now expires_at)"
  unfolding issue_temp_def by (intro keeps_rules) simp_all

lemma keeps_audit_challenge [keeps_rules]: "keeps core (audit_challenge env actor step account result reason)"
  unfolding audit_challenge_def by (intro keeps_rules) simp

lemma keeps_admin_challenge [keeps_rules]: "keeps core (issue_super_admin_challenge env actor p)"
  unfolding issue_super_admin_challenge_def by (intro keeps_rules) simp_all

lemma keeps_admin_failure [keeps_rules]: "keeps core (admin_challenge_failure env account p c a now)"
  unfolding admin_challenge_failure_def by (intro keeps_rules) simp_all

lemma lawful_consume_super_admin_challenge [lawful_rules]:
  "lawful g (consume_super_admin_challenge env account p t code)"
  unfolding consume_super_admin_challenge_def
  by (intro lawful_rules keeps_admin_failure [THEN lawful_core] keeps_challenged_step [THEN lawful_core]
      keeps_audit_challenge [THEN lawful_core]) simp_all

lemma lawful_verify_admin_totp [lawful_rules]: "lawful g (verify_admin_totp env account code p)"
  unfolding verify_admin_totp_def by (intro lawful_rules keeps_admin_challenge [THEN lawful_core])

end
