(* ===== verification/Identity_Changes.thy ===== *)
theory Identity_Changes
  imports Identity_Invariant
begin

section \<open>The identity module: changes of status and new sessions\<close>

text \<open>
  The operations that depend on the account they work on. \<open>obeys\<close>: from a sound state the command
  returns in a sound state, or raises what no route answers, or raises in a sound state.
\<close>

definition exits :: "bool \<Rightarrow> identity_error \<Rightarrow> identity_state \<Rightarrow> bool" where
  "exits g e s \<longleftrightarrow> (answered e \<longrightarrow> sound g {} (core s))"

abbreviation ends :: "bool \<Rightarrow> 'a identity_command \<Rightarrow> identity_state \<Rightarrow> bool" where
  "ends g m s \<equiv> wp m (\<lambda>_ s'. sound g {} (core s')) (exits g) s"

definition obeys :: "bool \<Rightarrow> 'a identity_command \<Rightarrow> bool" where
  "obeys g m \<longleftrightarrow> (\<forall>s. sound g {} (core s) \<longrightarrow> ends g m s)"

named_theorems obeys_rules "commands that end in a sound state"

lemma obeysI: "(\<And>s. sound g {} (core s) \<Longrightarrow> ends g m s) \<Longrightarrow> obeys g m"
  by (simp add: obeys_def)

lemma obeys_lawful: "lawful g m \<Longrightarrow> obeys g m"
  by (rule obeysI, rule wp_lawful [where g = g]) (simp_all add: exits_def)

lemma wp_obeys:
  assumes "obeys g m" and "sound g {} (core s)" and "\<And>x s'. sound g {} (core s') \<Longrightarrow> Q x s'"
    and "\<And>e s'. exits g e s' \<Longrightarrow> E e s'"
  shows "wp m Q E s"
  using assms by (auto simp: obeys_def intro: wp_mono)

lemma obeys_cbind [obeys_rules]: "obeys g m \<Longrightarrow> (\<And>x. obeys g (f x)) \<Longrightarrow> obeys g (cbind m f)"
  by (rule obeysI, rule wp_cbind, rule wp_obeys) (auto simp: obeys_def)

lemma obeys_cseq [obeys_rules]: "obeys g m \<Longrightarrow> obeys g n \<Longrightarrow> obeys g (cseq m n)"
  by (simp add: cseq_def obeys_cbind)

lemma obeys_if [obeys_rules]: "obeys g m \<Longrightarrow> obeys g n \<Longrightarrow> obeys g (if b then m else n)"
  by simp

lemma obeys_option [obeys_rules]:
  "obeys g m \<Longrightarrow> (\<And>y. obeys g (f y)) \<Longrightarrow> obeys g (case x of None \<Rightarrow> m | Some y \<Rightarrow> f y)"
  by (simp split: option.split)

lemma obeys_pair [obeys_rules]:
  "(\<And>a b. obeys g (f a b)) \<Longrightarrow> obeys g (case x of (a, b) \<Rightarrow> f a b)"
  by (cases x) simp

lemma obeys_handled:
  assumes "obeys g m" and "\<And>e. p e \<Longrightarrow> answered e" and "\<And>e. obeys g (h e)"
  shows "obeys g (handled m p h)"
  by (rule obeysI, rule wp_handled, rule wp_obeys [OF assms(1)])
    (use assms(2,3) in \<open>auto simp: exits_def obeys_def\<close>)

lemma not_answered [simp]:
  "\<not> answered (IdentityIntegrityError t)" "\<not> answered (IdentityValueError t)"
  "\<not> answered (IdentityOverflow t)" "\<not> answered SecretMaterialUnavailable"
  "\<not> answered IdentityPolicyUnavailable" "\<not> answered (IdentityRuntimeError t)"
  by (simp_all add: answered_def)

lemma exits_unanswered: "\<not> answered e \<Longrightarrow> exits g e s"
  by (simp add: exits_def)

lemma exits_core: "sound g {} (core s) \<Longrightarrow> exits g e s"
  by (simp add: exits_def)

text \<open>A frame in the middle of a change raises nothing that is answered.\<close>

definition quiet :: "'a identity_command \<Rightarrow> bool" where
  "quiet m \<longleftrightarrow> (\<forall>s e s'. m s = (Inl e, s') \<longrightarrow> \<not> answered e)"

lemma quiet_cseq: "quiet m \<Longrightarrow> quiet n \<Longrightarrow> quiet (cseq m n)"
  by (auto simp: quiet_def cseq_def cbind_def split: prod.splits sum.splits)

lemma quiet_audit: "quiet (identity_audit env actor action tt ti result reason correlation)"
  by (simp add: quiet_def identity_audit_def writing_def)

lemma quiet_notify: "quiet (notify_identity_change env account)"
  by (auto simp: quiet_def notify_identity_change_def cbind_def computed_def of_option_def
      produce_def writing_def split: option.splits if_splits)

lemma quiet_finalize:
  "quiet (finalize_session_revocations env account ids actor reason hook action correlation)"
  unfolding finalize_session_revocations_def
  using quiet_cseq [OF quiet_audit quiet_notify]
    quiet_cseq [OF quiet_audit, of "produce () :: unit identity_command"]
  by (simp add: quiet_def produce_def)

lemma wp_quiet:
  assumes "keeps core m" and "quiet m" and "core s = c" and "\<And>x s'. core s' = c \<Longrightarrow> Q x s'"
  shows "wp m Q (exits g) s"
  using assms by (auto simp: wp_def keeps_iff quiet_def exits_def split: prod.splits sum.splits)
    (metis snd_conv)+

subsection \<open>New sessions\<close>

lemma wp_clock:
  assumes "core s = c" and "\<And>t s'. core s' = c \<Longrightarrow> Q t s'"
  shows "wp (clock_now env) Q E s"
  using assms by (simp add: wp_def clock_now_def)

lemma wp_token:
  assumes "core s = c" and "\<And>t s'. core s' = c \<Longrightarrow> Q t s'"
  shows "wp (token_urlsafe env) Q E s"
  using assms by (simp add: wp_def token_urlsafe_def)

lemma wp_uuid:
  assumes "core s = c" and "\<And>t s'. core s' = c \<Longrightarrow> Q t s'"
  shows "wp (random_uuid env) Q E s"
  using assms by (simp add: wp_def random_uuid_def)

lemma wp_issue_session:
  assumes "core s = (A, S)"
    and "\<And>x s' r. core s' = (A, S @ [r]) \<Longrightarrow> ss_account r = account \<Longrightarrow> ss_kind r = kind \<Longrightarrow>
      ss_purpose r = purpose \<Longrightarrow> Q x s'"
    and "\<And>e s'. core s' = (A, S) \<Longrightarrow> \<not> answered e \<Longrightarrow> E e s'"
  shows "wp (issue_session env account kind purpose) Q E s"
  unfolding issue_session_def
  apply (rule wp_cbind, rule wp_clock [OF assms(1)])
  apply (rule wp_cbind, rule wp_token, assumption)
  apply (rule wp_cbind, rule wp_uuid, assumption)
  apply (rule wp_cseq, rule wp_insert_session, assumption)
   apply (rule assms(3), assumption, simp)
  apply (rule wp_produce, rule assms(2), assumption)
    apply (simp_all add: new_session_def)
  done

lemma wp_issue_sound:
  assumes "core s = (A, S)" and "sound g {} (A, S)" and "a \<in> set A" and "ia_id a = account"
    and "ia_status a = (if kind = FULL \<or> purpose = Some PASSWORD_EXPIRED then ENABLED else PENDING_INIT)"
    and "\<And>x s'. sound g {} (core s') \<Longrightarrow> Q x s'"
    and "\<And>e s'. core s' = (A, S) \<Longrightarrow> \<not> answered e \<Longrightarrow> E e s'"
  shows "wp (issue_session env account kind purpose) Q E s"
proof (rule wp_issue_session [OF assms(1)])
  fix x s' r
  assume "core s' = (A, S @ [r])" "ss_account r = account" "ss_kind r = kind" "ss_purpose r = purpose"
  with sound_new_session [OF assms(2,3), of r] assms(4-6) show "Q x s'"
    by (simp add: session_fits_def)
qed (rule assms(7))

lemma row_by_mem: "row_by ia_employee_no k rows = Some r \<Longrightarrow> r \<in> set rows"
  by (drule row_by_Some) simp

lemma sound_row_by:
  assumes "sound g X (A, S)" and "a \<in> set A"
  shows "row_by ia_id (ia_id a) A = Some a"
  using row_by_distinct [where key = ia_id and rows = A and r = a, OF sound_row(2) [OF assms] assms(2)] .

lemma sound_session:
  assumes "sound g {} (A, S)" and "r \<in> set S" and "live_session r" and "a \<in> set A"
    and "ia_id a = ss_account r"
  shows "session_fits a r"
proof -
  from assms(1-3) obtain b where b: "b \<in> set A" "ia_id b = ss_account r" "session_fits b r"
    by (auto simp: sound_def)
  with assms(1,4,5) have "b = a" by (auto simp: sound_def dest: same_key)
  with b show ?thesis by simp
qed

subsection \<open>The login\<close>

lemma lock_active_account:
  assumes "lock_active_temp_credential e now s = Some (t, a)"
  shows "account_by_employee_no e s = Some a" and "tc_account t = ia_id a" and "live_temp now t"
proof -
  let ?ts = "\<lambda>b. sort_key (\<lambda>t. (tc_created_at t, tc_id t))
    (filter (\<lambda>t. tc_account t = ia_id b \<and> live_temp now t) (id_temps s))"
  from assms obtain ys where a: "account_by_employee_no e s = Some a" and ys: "rev (?ts a) = t # ys"
    by (auto simp: lock_active_temp_credential_def split: option.splits list.splits)
  have "t \<in> set (rev (?ts a))" unfolding ys by simp
  then have "tc_account t = ia_id a \<and> live_temp now t" by simp
  with a show "account_by_employee_no e s = Some a" "tc_account t = ia_id a" "live_temp now t"
    by simp_all
qed

lemma lock_active_core:
  assumes "lock_active_temp_credential e now s = Some (t, b)" and "core s = (A, S)"
    and "row_by ia_employee_no e A = Some a"
  shows "b = a \<and> tc_account t = ia_id a"
  using lock_active_account [OF assms(1)] assms(2,3)
  by (simp add: account_by_employee_no_def core_fields)

lemma wp_consume_temp:
  assumes c: "core s = (A, S)" and sd: "sound g {} (A, S)"
    and a: "row_by ia_employee_no e A = Some a" "ia_status a = PENDING_INIT"
    and none: "\<And>s'. core s' = (A, S) \<Longrightarrow> Q None s'"
    and some: "\<And>x s'. sound g {} (core s') \<Longrightarrow> Q (Some x) s'"
    and err: "\<And>e s'. sound g {} (core s') \<Longrightarrow> E e s'"
  shows "wp (consume_temp_password env e pw) Q E s"
  unfolding consume_temp_password_def
  apply (rule wp_cbind, rule wp_clock [OF c], rule wp_cbind, rule wp_reading, rule wp_option)
  apply (rule wp_produce, rule none, assumption)
  apply (rule wp_pair)
  apply (rule wp_cbind, rule wp_core [OF keeps_material], assumption)
  apply (rule wp_if, rule wp_produce, rule none, assumption)
  apply (rule wp_cbind, rule wp_core [OF keeps_temps(3)], simp, assumption)
  apply (rule wp_if, rule wp_produce, rule none, assumption)
  apply (rule wp_cbind, rule wp_issue_sound [where A = A and S = S and a = a], assumption, rule sd)
  subgoal using a(1) by (rule row_by_mem)
  subgoal using a(1) by (auto dest: lock_active_core)
  subgoal using a(2) by simp
  apply (rule wp_cseq, rule wp_lawful [where g = g], rule lawful_rules, simp, assumption)
  apply (rule wp_produce, rule some, assumption)
  apply (rule err, assumption)
  apply (rule err, simp add: sd)
  apply (rule err, simp add: sd)
  apply (rule err, simp add: sd)
  done

end
