(* ===== verification/Identity_Operations.thy ===== *)
theory Identity_Operations
  imports Identity_Changes
begin

section \<open>The identity module: every command ends in a sound state\<close>

text \<open>
  The commands of \<open>Identity_Auth\<close>, \<open>Identity_Accounts\<close> and \<open>Identity_Super_Admin\<close> obey the
  invariant. One that lowers an account's status exempts it until its sessions are revoked; one
  that may take the effectiveness of a Super Admin away first asks for another one.
\<close>

subsection \<open>Rows, guards and changes\<close>

lemma wp_require_account:
  assumes "core s = (A, S)" and "E (AccountNotFound i) s"
    and "\<And>a. a \<in> set A \<Longrightarrow> ia_id a = i \<Longrightarrow> Q a s"
  shows "wp (require_account i) Q E s"
proof (cases "row_by ia_id i A")
  case None
  with assms(1,2) show ?thesis
    by (simp add: wp_def require_account_def account_by_id_def core_fields)
next
  case (Some a)
  from row_by_Some [where key = ia_id, OF Some] assms(1,3) Some show ?thesis
    by (simp add: wp_def require_account_def account_by_id_def core_fields)
qed

lemma wp_require_updated:
  assumes "x = None \<Longrightarrow> E e s" and "\<And>a. x = Some a \<Longrightarrow> Q a s"
  shows "wp (require_updated e x) Q E s"
  using assms by (cases x) (simp_all add: wp_def require_updated_def computed_def)

definition another_effective :: "bool \<Rightarrow> account_entry list \<Rightarrow> string \<Rightarrow> bool" where
  "another_effective g A i \<longleftrightarrow> (g \<longrightarrow> (\<exists>b \<in> set A. effective_row b \<and> ia_id b \<noteq> i))"

lemma another_if_not_effective:
  assumes "sound g X (A, S)" and "a \<in> set A" and "\<not> effective_row a"
  shows "another_effective g A (ia_id a)"
  unfolding another_effective_def
proof
  assume g
  with assms(1) obtain b where b: "b \<in> set A" "effective_row b" by (auto simp: sound_def)
  with assms(3) have "b \<noteq> a" by blast
  with same_key [where key = ia_id, OF sound_row(2) [OF assms(1,2)] b(1) assms(2)] b
  show "\<exists>b \<in> set A. effective_row b \<and> ia_id b \<noteq> ia_id a" by blast
qed

lemma wp_check_remains:
  assumes c: "core s = (A, S)" and sd: "sound g X (A, S)" and a: "a \<in> set A"
    and "\<And>e. E e s" and Q: "another_effective g A (ia_id a) \<Longrightarrow> Q () s"
  shows "wp (check_super_admin_remains a) Q E s"
proof (cases "effective_row a \<and> effective_super_admins_except (ia_id a) s = 0")
  case True
  with assms(4) show ?thesis
    by (simp add: wp_def check_super_admin_remains_def ensure_effective_super_admin_remains_def
        effective_row_def)
next
  case False
  have "another_effective g A (ia_id a)"
  proof (cases "effective_row a")
    case True
    with False have "filter (\<lambda>b. ia_id b \<noteq> ia_id a \<and> effective_row b) A \<noteq> []"
      using c by (auto simp: effective_super_admins_except_def core_fields)
    then show ?thesis by (auto simp: another_effective_def filter_empty_conv)
  qed (rule another_if_not_effective [OF sd a])
  then have "Q () s" by (rule Q)
  with False show ?thesis
    by (auto simp: wp_def check_super_admin_remains_def ensure_effective_super_admin_remains_def
        effective_row_def)
qed

lemma find_set_where: "find p A = None \<Longrightarrow> set_where p f A = A"
  by (simp add: find_None_iff set_where_none)

text \<open>The account the update selects is exempt until its sessions are revoked.\<close>

lemma wp_exempt:
  assumes c: "core s = (A, S)" and sd: "sound g {} (A, S)"
    and f: "\<And>a. ia_id (f a) = ia_id a" and p: "\<And>a. p a \<Longrightarrow> ia_id a = i"
    and ok: "\<And>a. a \<in> set A \<Longrightarrow> p a \<Longrightarrow> account_sound (f a)"
    and eff: "another_effective g A i"
    and none: "\<And>s'. core s' = (A, S) \<Longrightarrow> find p A = None \<Longrightarrow> Q None s'"
    and some: "\<And>a s'. core s' = (set_where p f A, S) \<Longrightarrow> sound g {i} (set_where p f A, S) \<Longrightarrow>
      find p A = Some a \<Longrightarrow> Q (Some (f a)) s'"
  shows "wp (update_account p f) Q (exits g) s"
proof (rule wp_update_account [OF c])
  show "exits g (IdentityIntegrityError ''account'') s" by (simp add: exits_unanswered)
  fix s' :: identity_state
  assume c': "core s' = (set_where p f A, S)"
  show "Q (map_option f (find p A)) s'"
  proof (cases "find p A")
    case None
    with c' have "core s' = (A, S)" by (simp add: find_set_where)
    from none [OF this None] None show ?thesis by simp
  next
    case (Some a)
    have "sound g {i} (set_where p f A, S)"
    proof (rule sound_accounts [OF sd f p ok])
      assume g
      with eff obtain b where "b \<in> set A" "effective_row b" "ia_id b \<noteq> i"
        by (auto simp: another_effective_def)
      with p show "\<exists>a \<in> set A. effective_row (if p a then f a else a)" by (intro bexI [of _ b]) auto
    qed simp_all
    from some [OF c' this Some] Some show ?thesis by simp
  qed
qed

lemma wp_revoke_all:
  assumes c: "core s = (A, S)" and sd: "sound g {i} (A, S)"
    and Q: "\<And>ids s' S'. core s' = (A, S') \<Longrightarrow> sound g {} (A, S') \<Longrightarrow> Q ids s'"
  shows "wp (revoke_sessions i now reason None None) Q (exits g) s"
  unfolding revoke_sessions_def
proof (rule wp_cbind, rule wp_change_sessions [OF c], simp add: exits_unanswered, rule wp_produce)
  fix s' :: identity_state
  let ?p = "\<lambda>r. ss_account r = i \<and> live_session r \<and> (case None of None \<Rightarrow> True | Some i \<Rightarrow> ss_id r \<noteq> i)
    \<and> (case None of None \<Rightarrow> True | Some k \<Rightarrow> ss_kind r = k)"
  assume "core s' = (A, set_where ?p (revoked now reason) S)"
  moreover have "sound g {} (A, set_where ?p (revoked now reason) S)"
    by (rule sound_sessions [OF sd]) simp_all
  ultimately show "Q (map ss_id (map (revoked now reason) (filter ?p S))) s'" by (rule Q)
qed

text \<open>The tail of a command keeps the invariant.\<close>

lemma wp_tail:
  assumes "lawful g m" and "sound g {} (core s)"
  shows "ends g m s"
  by (rule wp_lawful [where g = g, OF assms]) (simp_all add: exits_core)

subsection \<open>Taking an account back to its initialization\<close>

text \<open>The update, its assertion, the revocation of every session, and a tail that is lawful.\<close>

lemma ends_demotion:
  assumes c: "core s = (A, S)" and sd: "sound g {} (A, S)"
    and f: "\<And>a. ia_id (f a) = ia_id a" and p: "\<And>a. p a \<Longrightarrow> ia_id a = i"
    and ok: "\<And>a. a \<in> set A \<Longrightarrow> account_sound a \<Longrightarrow> p a \<Longrightarrow> account_sound (f a)"
    and eff: "another_effective g A i" and tail: "\<And>u ids. lawful g (k u ids)"
  shows "ends g (cbind (update_account p f) (\<lambda>row. cbind (require_updated e row) (\<lambda>u.
    cbind (revoke_sessions i now reason None None) (k u)))) s"
proof (rule wp_cbind, rule wp_exempt [OF c sd f p])
  show "another_effective g A i" by (rule eff)
  show "account_sound (f a)" if "a \<in> set A" "p a" for a
    using that sound_row(1) [OF sd that(1)] ok by blast
next
  fix s' :: identity_state
  assume "core s' = (A, S)"
  with sd show "ends g (cbind (require_updated e None) (\<lambda>u.
    cbind (revoke_sessions i now reason None None) (k u))) s'"
    by (intro wp_cbind wp_require_updated) (simp_all add: exits_core)
next
  fix a and s' :: identity_state
  assume c': "core s' = (set_where p f A, S)" and sd': "sound g {i} (set_where p f A, S)"
  show "ends g (cbind (require_updated e (Some (f a))) (\<lambda>u.
    cbind (revoke_sessions i now reason None None) (k u))) s'"
    by (rule wp_cbind, rule wp_require_updated, simp,
      rule wp_cbind, rule wp_revoke_all [OF c' sd'], rule wp_tail [OF tail], simp)
qed

lemma obeys_issue_temp_password [obeys_rules]: "obeys g (issue_temp_password env i actor reason n)"
proof (rule obeysI)
  fix s assume "sound g {} (core s)"
  moreover obtain A S where c: "core s = (A, S)" by fastforce
  ultimately have sd: "sound g {} (A, S)" by simp
  note x = exits_core [OF sd [folded c]]
  show "ends g (issue_temp_password env i actor reason n) s"
    unfolding issue_temp_password_def reset_password_state_def
    apply (rule wp_cbind, rule wp_require_account [OF c], rule x)
    apply (rule wp_cseq, rule wp_guarded, rule x)
    apply (rule wp_cseq, rule wp_check_remains [OF c sd], assumption, rule x)
    apply (rule wp_cbind, rule wp_clock [OF c])
    apply (rule wp_cbind, rule wp_core [OF keeps_issue_temp], assumption)
    apply (rule ends_demotion, assumption, rule sd)
    by (simp_all add: account_sound_def exits_core sd lawful_rules)
qed

lemma obeys_reset_totp [obeys_rules]: "obeys g (reset_totp env i n actor reason)"
proof (rule obeysI)
  fix s assume "sound g {} (core s)"
  moreover obtain A S where c: "core s = (A, S)" by fastforce
  ultimately have sd: "sound g {} (A, S)" by simp
  note x = exits_core [OF sd [folded c]]
  show "ends g (reset_totp env i n actor reason) s"
    unfolding reset_totp_def reset_totp_state_def
    apply (rule wp_cbind, rule wp_require_account [OF c], rule x)
    apply (rule wp_cseq, rule wp_guarded, rule x)
    apply (rule wp_cseq, rule wp_check_remains [OF c sd], assumption, rule x)
    apply (rule wp_cbind, rule wp_clock [OF c])
    apply (rule ends_demotion, assumption, rule sd)
    by (simp_all add: account_sound_def lawful_rules)
qed

lemma wp_recovery_target:
  assumes c: "core s = (A, S)" and sd: "sound g {} (A, S)" and lost: "g \<Longrightarrow> \<not> lost"
    and "\<And>e. E e s" and Q: "\<And>a. another_effective g A (ia_id a) \<Longrightarrow> Q a s"
  shows "wp (recovery_target e lost) Q E s"
proof (cases "fst (recovery_target e lost s)")
  case (Inl d)
  with assms(4) show ?thesis by (simp add: wp_def recovery_target_def split: sum.splits)
next
  case (Inr a)
  have "another_effective g A (ia_id a)"
  proof (cases g)
    case True
    with Inr lost c have "row_by ia_employee_no e A = Some a" "ia_status a = DISABLED"
      by (auto simp: recovery_target_def account_by_employee_no_def core_fields
          split: option.splits if_splits)
    then show ?thesis
      by (intro another_if_not_effective [OF sd]) (auto dest: row_by_mem simp: effective_row_def)
  qed (simp add: another_effective_def)
  from Q [OF this] Inr show ?thesis
    by (simp add: wp_def recovery_target_def split: sum.splits)
qed

lemma obeys_recover_super_admin [obeys_rules]:
  "(g \<Longrightarrow> \<not> lost) \<Longrightarrow> obeys g (recover_super_admin env e reason scope x lost correlation)"
proof (rule obeysI)
  fix s assume "sound g {} (core s)"
  moreover obtain A S where c: "core s = (A, S)" by fastforce
  ultimately have sd: "sound g {} (A, S)" by simp
  assume lost: "g \<Longrightarrow> \<not> lost"
  note x = exits_core [OF sd [folded c]]
  show "ends g (recover_super_admin env e reason scope x lost correlation) s"
    unfolding recover_super_admin_def reset_recovery_state_def Let_def
    apply (rule wp_cseq, rule wp_guarded, rule x)
    apply (rule wp_cseq, rule wp_guarded, rule x)
    apply (rule wp_cbind, rule wp_clock [OF c])
    apply (rule wp_cbind, rule wp_core [OF keeps_policy], simp, assumption)
    apply (rule wp_cseq, rule wp_guarded, simp add: exits_core sd)
    apply (rule wp_cbind, rule wp_recovery_target [OF _ sd lost], assumption, assumption,
        simp add: exits_core sd)
    apply (rule wp_cbind, rule wp_core [OF keeps_issue_temp], assumption)
    apply (rule ends_demotion, assumption, rule sd)
    by (simp_all add: account_sound_def exits_core sd lawful_rules)
qed

subsection \<open>Changing a status\<close>

lemma cseq_cbind: "cseq (cbind m f) n = cbind m (\<lambda>x. cseq (f x) n)"
  by (auto simp: cseq_def cbind_def fun_eq_iff split: prod.splits sum.splits)

lemma sound_no_exempt:
  assumes "sound g {i} (A, S)" and "\<And>r. r \<in> set S \<Longrightarrow> live_session r \<Longrightarrow> ss_account r \<noteq> i"
  shows "sound g {} (A, S)"
  using assms by (auto simp: sound_def)

lemma idle_account:
  assumes "sound g {} (A, S)" and "a \<in> set A" and "ia_status a \<notin> {ENABLED, PENDING_INIT}"
    and "r \<in> set S" and "live_session r"
  shows "ss_account r \<noteq> ia_id a"
  using sound_session [OF assms(1,4,5,2)] assms(3) by (auto simp: session_fits_def split: if_splits)

lemma transition_allowed:
  "ensure_account_transition_allowed st target p t = Inr () \<longleftrightarrow>
     target \<noteq> st \<and> target \<noteq> PENDING_INIT \<and> (target = ENABLED \<longrightarrow> st \<noteq> PENDING_INIT \<and> p \<and> t)"
  by (auto simp: ensure_account_transition_allowed_def)

lemma ends_enabling:
  assumes c: "core s = (A, S)" and sd: "sound g {} (A, S)" and a: "a \<in> set A"
    and ok: "ensure_account_transition_allowed (ia_status a) ENABLED (ia_password_hash a \<noteq> None)
      (ia_totp_confirmed_at a \<noteq> None) = Inr ()" and tail: "\<And>u. lawful g (k u)"
  shows "ends g (cbind (update_account_status (ia_id a) ENABLED n now) (\<lambda>row.
    cbind (require_updated e row) k)) s"
  unfolding update_account_status_def
proof (rule wp_cbind, rule wp_exempt [OF c sd, where i = "ia_id a"])
  have st: "ia_status a \<notin> {ENABLED, PENDING_INIT}" using ok by (auto simp: transition_allowed)
  then show "another_effective g A (ia_id a)"
    by (intro another_if_not_effective [OF sd a]) (simp add: effective_row_def)
  fix b assume b: "b \<in> set A" and "ia_id b = ia_id a \<and> ia_version b = n"
  then have "b = a" using same_key [where key = ia_id, OF sound_row(2) [OF sd a] b a] by simp
  with ok sound_row(1) [OF sd a]
  show "account_sound (b\<lparr>ia_status := ENABLED, ia_version := ia_version b + 1, ia_updated_at := now\<rparr>)"
    by (simp add: transition_allowed account_sound_def)
next
  fix s' :: identity_state
  assume "core s' = (A, S)"
  with sd show "ends g (cbind (require_updated e None) k) s'"
    by (intro wp_cbind wp_require_updated) (simp_all add: exits_core)
next
  fix b and s' :: identity_state
  let ?A = "set_where (\<lambda>b. ia_id b = ia_id a \<and> ia_version b = n) (\<lambda>b. b\<lparr>ia_status := ENABLED,
    ia_version := ia_version b + 1, ia_updated_at := now\<rparr>) A"
  assume c': "core s' = (?A, S)" and sd': "sound g {ia_id a} (?A, S)"
  have "ia_status a \<notin> {ENABLED, PENDING_INIT}" using ok by (auto simp: transition_allowed)
  from sound_no_exempt [OF sd' idle_account [OF sd a this]] c'
  have "sound g {} (core s')" by simp
  then show "ends g (cbind (require_updated e (Some (b\<lparr>ia_status := ENABLED,
    ia_version := ia_version b + 1, ia_updated_at := now\<rparr>))) k) s'"
    by (intro wp_cbind wp_require_updated) (simp_all add: wp_tail [OF tail])
qed simp_all

lemma obeys_set_account_status [obeys_rules]: "obeys g (set_account_status env i status n actor reason)"
proof (rule obeysI)
  fix s assume "sound g {} (core s)"
  moreover obtain A S where c: "core s = (A, S)" by fastforce
  ultimately have sd: "sound g {} (A, S)" by simp
  note x = exits_core [OF sd [folded c]]
  show "ends g (set_account_status env i status n actor reason) s"
    unfolding set_account_status_def
  proof (rule wp_cbind, rule wp_require_account [OF c], rule x, rule wp_cseq, rule wp_guarded,
      rule x, rule wp_cseq, rule wp_computed, rule x)
    fix a u
    assume a: "a \<in> set A" "ia_id a = i"
      and ok: "ensure_account_transition_allowed (ia_status a) status (ia_password_hash a \<noteq> None)
        (ia_totp_confirmed_at a \<noteq> None) = Inr u"
    show "ends g (cseq (if status \<noteq> ENABLED then check_super_admin_remains a else produce ())
      (cbind (clock_now env) (\<lambda>now. cbind (update_account_status i status n now) (\<lambda>updated_row.
       cbind (require_updated (StaleAccountVersion i) updated_row) (\<lambda>updated.
       cseq (if status \<noteq> ENABLED
         then cbind (revoke_sessions i now (''ACCOUNT_'' @ status_text status) None None)
           (\<lambda>revoked_ids. finalize_revocations env i revoked_ids actor
              (''account '' @ lower_status status) False)
         else produce ())
       (cseq (audit_account env actor ''identity.account.status.changed'' i ''SUCCESS''
         (versioned_reason reason (Some (ia_version a)) (ia_version updated)))
       (cseq (notify_identity_change env i) (produce (account_dto_of updated))))))))) s"
    proof (cases "status = ENABLED")
      case True
      with ok show ?thesis
        apply (simp only: simp_thms if_False a(2) [symmetric])
        apply (rule wp_cseq, rule wp_produce, rule wp_cbind, rule wp_clock [OF c])
        apply (rule ends_enabling [OF _ sd a(1)], assumption)
        by (simp_all add: lawful_rules)
    next
      case False
      with ok have "status \<noteq> PENDING_INIT" by (simp add: transition_allowed)
      with False a(2) show ?thesis
        unfolding update_account_status_def
        apply (simp only: simp_thms if_True cseq_cbind not_False_eq_True)
        apply (rule wp_cseq, rule wp_check_remains [OF c sd a(1)], rule x)
        apply (rule wp_cbind, rule wp_clock [OF c])
        apply (rule ends_demotion, assumption, rule sd)
        by (simp_all add: account_sound_def lawful_rules)
    qed
  qed
qed

subsection \<open>New accounts and Super Admins\<close>

lemma lawful_insert_account [lawful_rules]:
  "lawful g (insert_account (new_account i e d p PENDING_INIT now))"
  unfolding insert_account_def
proof (rule lawful_statement)
  let ?a = "new_account i e d p PENDING_INIT now"
  fix s x and s' :: identity_state
  assume "(if \<not> account_row_ok ?a then Inl (IdentityIntegrityError ''account'')
     else if list_ex (\<lambda>x. ia_employee_no x = ia_employee_no ?a) (id_accounts s)
     then Inl (AccountConflict ''employee number already exists'')
     else rbind (inserted_row ''account'' True (\<lambda>x. ia_id x = ia_id ?a) ?a (id_accounts s))
       (\<lambda>rows. Inr ((), s\<lparr>id_accounts := rows\<rparr>))) = Inr (x, s')"
  then have "core s' = (id_accounts s @ [?a], id_sessions s)"
    and "\<forall>x \<in> set (id_accounts s). ia_id x \<noteq> ia_id ?a"
    by (auto simp: res_simps inserted_identity_Inr core_def split: if_splits)
  moreover assume "sound g {} (core s)"
  ultimately show "sound g {} (core s')"
    by (simp add: core_def, intro sound_new_account) (auto simp: account_sound_def new_account_def)
qed

lemma lawful_create_account [lawful_rules]:
  "lawful g (create_account env e d p actor reason correlation)"
  unfolding create_account_def
  by (intro lawful_rules keeps_issue_temp [THEN lawful_core]) simp_all

lemma lawful_promotion [lawful_rules]: "lawful g (update_super_admin i True n now)"
  unfolding update_super_admin_def
  by (rule lawful_update_account [where i = i]) (simp_all add: account_sound_def effective_row_def)

lemma lawful_bootstrap_super_admin [lawful_rules]:
  "lawful g (bootstrap_super_admin env e d correlation)"
  unfolding bootstrap_super_admin_def by (intro lawful_rules) simp_all

lemma wp_super_admin_change:
  assumes c: "core s = (A, S)" and sd: "sound g {} (A, S)" and eff: "\<not> b \<Longrightarrow> another_effective g A i"
    and Q: "\<And>x s'. sound g {} (core s') \<Longrightarrow> Q x s'"
  shows "wp (update_super_admin i b n now) Q (exits g) s"
  unfolding update_super_admin_def
proof (rule wp_update_account [OF c], simp add: exits_unanswered)
  fix s' :: identity_state
  let ?p = "\<lambda>a. ia_id a = i \<and> ia_version a = n"
  let ?f = "\<lambda>a. a\<lparr>ia_super_admin := b, ia_version := ia_version a + 1, ia_updated_at := now\<rparr>"
  assume "core s' = (set_where ?p ?f A, S)"
  moreover have "sound g {} (set_where ?p ?f A, S)"
  proof (rule sound_accounts [OF sd, where i = i])
    fix a assume "a \<in> set A"
    from sound_row(1) [OF sd this] show "account_sound (?f a)" by (simp add: account_sound_def)
  next
    assume g
    show "\<exists>a \<in> set A. effective_row (if ?p a then ?f a else a)"
    proof (cases b)
      case True
      from sd \<open>g\<close> obtain a where "a \<in> set A" "effective_row a" by (auto simp: sound_def)
      with True show ?thesis by (intro bexI [of _ a]) (simp_all add: effective_row_def)
    next
      case False
      from eff [OF False] \<open>g\<close> obtain a where "a \<in> set A" "effective_row a" "ia_id a \<noteq> i"
        by (auto simp: another_effective_def)
      then show ?thesis by (intro bexI [of _ a]) simp_all
    qed
  qed simp_all
  ultimately have "sound g {} (core s')" by simp
  then show "Q (map_option ?f (find ?p A)) s'" by (rule Q)
qed

lemma obeys_super_admin_update [obeys_rules]: "obeys g (super_admin_update env i b n)"
proof (rule obeysI)
  fix s assume "sound g {} (core s)"
  moreover obtain A S where c: "core s = (A, S)" by fastforce
  ultimately have sd: "sound g {} (A, S)" by simp
  note x = exits_core [OF sd [folded c]]
  have update: "ends g (cbind (clock_now env) (\<lambda>now.
      cbind (update_super_admin i b (ia_version a) now) (\<lambda>updated_row.
      cbind (require_updated e updated_row) (\<lambda>updated. produce (a, updated, now))))) s"
    if "\<not> b \<Longrightarrow> another_effective g A i" for a e
    by (rule wp_cbind, rule wp_clock [OF c], rule wp_cbind, rule wp_super_admin_change [OF _ sd that],
      assumption, assumption, rule wp_tail) (simp_all add: lawful_rules)
  show "ends g (super_admin_update env i b n) s"
    unfolding super_admin_update_def
  proof (rule wp_cbind, rule wp_require_account [OF c], rule x, rule wp_cseq, rule wp_guarded,
      rule x, rule wp_cseq, rule wp_guarded, rule x, rule wp_cseq, rule wp_guarded, rule x,
      rule wp_cseq, rule wp_if)
    fix a assume a: "a \<in> set A" "ia_id a = i" and "\<not> b"
    show "wp (check_super_admin_remains a) (\<lambda>_. ends g (cbind (clock_now env) (\<lambda>now.
      cbind (update_super_admin i b (ia_version a) now) (\<lambda>updated_row.
      cbind (require_updated (SuperAdminConflict ''Super Admin state changed concurrently'')
        updated_row) (\<lambda>updated. produce (a, updated, now)))))) (exits g) s"
      by (rule wp_check_remains [OF c sd a(1)], rule x, rule update) (simp add: a(2))
  next
    fix a assume "\<not> \<not> b"
    then show "wp (produce ()) (\<lambda>_. ends g (cbind (clock_now env) (\<lambda>now.
      cbind (update_super_admin i b (ia_version a) now) (\<lambda>updated_row.
      cbind (require_updated (SuperAdminConflict ''Super Admin state changed concurrently'')
        updated_row) (\<lambda>updated. produce (a, updated, now)))))) (exits g) s"
      by (intro wp_produce update) simp
  qed
qed

lemma lawful_raising: "lawful g (raising e)"
  by (intro lawful_rules)

lemma obeys_change_super_admin [obeys_rules]:
  "obeys g (change_super_admin env target actor p token code reason n)"
  unfolding change_super_admin_def Let_def
  by (intro obeys_rules obeys_handled obeys_lawful [OF lawful_consume_super_admin_challenge])
    (auto simp: change_denied_def answered_def lawful_rules obeys_lawful obeys_pair
      split: identity_error.splits)

end
