(* ===== verification/Identity_Logins.thy ===== *)
theory Identity_Logins
  imports Identity_Operations
begin

section \<open>The identity module: logins and bootstrap end in a sound state\<close>

text \<open>
  The operations of \<open>Identity_Auth\<close> that issue a session or change an account: the session they
  issue fits the status of its account at that instant, because the account row they decided on
  is still the current one.
\<close>

subsection \<open>The account of a bootstrap session\<close>

lemma session_with_account_core:
  assumes "session_with_account h s = Some (r, a)" and "core s = (A, S)"
  shows "r \<in> set S" and "a \<in> set A" and "ia_id a = ss_account r" and "ss_token_hash r = h"
proof -
  from assms have r: "row_by ss_token_hash h S = Some r" and a: "row_by ia_id (ss_account r) A = Some a"
    by (auto simp: session_with_account_def account_by_id_def core_fields split: option.splits)
  from row_by_Some [where key = ss_token_hash, OF r] row_by_Some [where key = ia_id, OF a]
  show "r \<in> set S" "a \<in> set A" "ia_id a = ss_account r" "ss_token_hash r = h" by simp_all
qed

lemma wp_touch_session:
  assumes c: "core s = (A, S)" and sd: "sound g {} (A, S)"
    and Q: "\<And>s' S'. core s' = (A, S') \<Longrightarrow> sound g {} (A, S') \<Longrightarrow> Q () s'"
    and E: "\<And>e. E e s"
  shows "wp (touch_session i now hint) Q E s"
  unfolding touch_session_def
proof (rule wp_cseq, rule wp_change_sessions [OF c], rule E, rule wp_produce)
  fix s' :: identity_state
  let ?p = "\<lambda>r. ss_id r = i \<and> live_session r"
  let ?f = "\<lambda>r. r\<lparr>ss_last_seen_at := now, ss_expires_hint := hint\<rparr>"
  assume "core s' = (A, set_where ?p ?f S)"
  moreover have "sound g {} (A, set_where ?p ?f S)"
    by (rule sound_sessions [OF sd]) simp_all
  ultimately show "Q () s'" by (rule Q)
qed

lemma wp_bootstrap_account:
  assumes c: "core s = (A, S)" and sd: "sound g {} (A, S)"
    and inl: "\<And>d s'. sound g {} (core s') \<Longrightarrow> Q (Inl d) s'"
    and inr: "\<And>r a s' S'. core s' = (A, S') \<Longrightarrow> sound g {} (A, S') \<Longrightarrow> a \<in> set A \<Longrightarrow>
      ia_id a = ss_account r \<Longrightarrow> session_fits a r \<Longrightarrow> ss_kind r = BOOTSTRAP \<Longrightarrow> Q (Inr (r, a)) s'"
    and err: "\<And>e s'. sound g {} (core s') \<Longrightarrow> E e s'"
  shows "wp (bootstrap_account env t touch) Q E s"
  unfolding bootstrap_account_def
proof (rule wp_cbind, rule wp_reading, rule wp_option, rule wp_produce, rule inl, simp add: c sd,
    rule wp_pair)
  fix ra r a assume "session_with_account (token_hash env t) s = Some ra" and "ra = (r, a)"
  then have found: "session_with_account (token_hash env t) s = Some (r, a)" by simp
  note row = session_with_account_core [OF found c]
  have sc: "sound g {} (core s)" by (simp add: c sd)
  show "wp (if \<not> live_session r \<or> ss_kind r \<noteq> BOOTSTRAP then produce (Inl InvalidBootstrapSession)
      else if ia_status a \<notin> {PENDING_INIT, ENABLED} then produce (Inl InvalidBootstrapSession)
      else cbind (clock_now env) (\<lambda>now. cbind (get_identity_policy env) (\<lambda>policy.
        if ss_last_seen_at r + pol_idle_timeout policy \<le> now
        then cseq (revoke_idle_session env r a now) (produce (Inl InvalidBootstrapSession))
        else cseq (if touch then touch_session (ss_id r) now (now + pol_idle_timeout policy)
               else produce ()) (produce (Inr (r, a)))))) Q E s"
    apply (rule wp_if, rule wp_produce, rule inl, rule sc)
    apply (rule wp_if, rule wp_produce, rule inl, rule sc)
    apply (rule wp_cbind, rule wp_clock [OF c], rule wp_cbind, rule wp_core [OF keeps_policy], simp,
        assumption)
     apply (rule wp_if)
      apply (rule wp_cseq, rule wp_lawful [where g = g], rule lawful_rules, simp add: sd,
        rule wp_produce, rule inl, assumption, rule err, assumption)
     apply (rule wp_cseq, rule wp_if, rule wp_touch_session [OF _ sd], assumption)
       apply (rule wp_produce, rule inr, assumption, assumption)
    subgoal by (rule row)
    subgoal by (rule row)
    subgoal using sound_session [OF sd row(1) _ row(2,3)] by simp
    subgoal by simp
      apply (rule err, simp add: sd)
     apply (rule wp_produce, rule wp_produce, rule inr, assumption, rule sd)
    subgoal by (rule row)
    subgoal by (rule row)
    subgoal using sound_session [OF sd row(1) _ row(2,3)] by simp
    subgoal by simp
    apply (rule err, simp add: sd)
    done
qed

subsection \<open>Enrolling and confirming\<close>

lemma wp_enrollment:
  assumes c: "core s = (A, S)" and sd: "sound g {} (A, S)" and a: "a \<in> set A" "ia_id a = i"
    "ia_status a = PENDING_INIT" and Q: "\<And>x s'. sound g {} (core s') \<Longrightarrow> Q x s'"
  shows "wp (update_totp_enrollment i sealed now) Q (exits g) s"
  unfolding update_totp_enrollment_def
proof (rule wp_update_account [OF c], simp add: exits_unanswered)
  fix s' :: identity_state
  let ?p = "\<lambda>a. ia_id a = i"
  let ?f = "\<lambda>a. a\<lparr>ia_totp_sealed := Some sealed, ia_totp_confirmed_at := None,
    ia_totp_last_step := None, ia_updated_at := now, ia_version := ia_version a + 1\<rparr>"
  assume "core s' = (set_where ?p ?f A, S)"
  moreover have "sound g {} (set_where ?p ?f A, S)"
  proof (rule sound_accounts [OF sd, where i = i])
    fix b assume "b \<in> set A" "?p b"
    with same_key [where key = ia_id, OF sound_row(2) [OF sd a(1)] _ a(1), of b] a
    have "b = a" by simp
    with a(3) show "account_sound (?f b)" by (simp add: account_sound_def)
  next
    assume g
    with another_if_not_effective [OF sd a(1)] a(3)
    obtain b where "b \<in> set A" "effective_row b" "ia_id b \<noteq> ia_id a"
      by (auto simp: another_effective_def effective_row_def)
    with a(2) show "\<exists>b \<in> set A. effective_row (if ?p b then ?f b else b)"
      by (intro bexI [of _ b]) simp_all
  qed simp_all
  ultimately have "sound g {} (core s')" by simp
  then show "Q (map_option ?f (find ?p A)) s'" by (rule Q)
qed

lemma wp_purpose:
  assumes "E (AuthenticationFailed ''valid bootstrap session required'') s"
    and "\<And>p. ss_purpose r = Some p \<Longrightarrow> Q p s"
  shows "wp (purpose_of r) Q E s"
  using assms by (cases "ss_purpose r") (simp_all add: wp_def purpose_of_def computed_def)

lemma obeys_enroll_totp [obeys_rules]: "obeys g (enroll_totp env t)"
proof (rule obeysI)
  fix s assume "sound g {} (core s)"
  moreover obtain A S where c: "core s = (A, S)" by fastforce
  ultimately have sd: "sound g {} (A, S)" by simp
  show "ends g (enroll_totp env t) s"
    unfolding enroll_totp_def
  proof (rule wp_cbind, rule wp_bootstrap_account [OF c sd])
    fix r a S' and s' :: identity_state
    assume c': "core s' = (A, S')" and sd': "sound g {} (A, S')" and a: "a \<in> set A"
      "ia_id a = ss_account r" "session_fits a r" "ss_kind r = BOOTSTRAP"
    have x: "exits g e s'" for e by (simp add: exits_core c' sd')
    have st: "ia_status a = PENDING_INIT" if "ss_purpose r = Some p" "\<not> p \<noteq> INITIAL_SETUP" for p
      using a(3,4) that by (simp add: session_fits_def)
    show "ends g (case Inr (r, a) of Inl denial \<Rightarrow> produce (Inl denial)
     | Inr ra \<Rightarrow> let r = fst ra; a = snd ra in
         cbind (purpose_of r) (\<lambda>purpose.
         cseq (guarded (purpose \<noteq> INITIAL_SETUP)
           (AuthenticationFailed ''TOTP enrollment is not allowed for this bootstrap session''))
         (cseq (guarded (ia_password_hash a = None) (AuthenticationFailed ''password setup required''))
         (cbind (computed (decode_ascii (ev_totp_secret env))) (\<lambda>secret.
         cbind (load_material env) (\<lambda>material.
         cbind (computed (of_option (IdentityValueError ''seal'')
           (ev_seal env secret (sm_totp_key material)))) (\<lambda>sealed.
         cbind (clock_now env) (\<lambda>now.
         cseq (update_totp_enrollment (ss_account r) sealed now)
         (cseq (audit_account env (ia_employee_no a) ''identity.totp.enrolled'' (ss_account r)
           ''SUCCESS'' ''bootstrap'')
         (cbind (computed (totp_provisioning_uri (ev_totp_uri env) secret (ia_employee_no a)))
           (\<lambda>uri. produce (Inr \<lparr>te_secret = secret, te_uri = uri\<rparr>)))))))))))) s'"
      unfolding sum.case Let_def fst_conv snd_conv
      apply (rule wp_cbind, rule wp_purpose, rule x)
      apply (rule wp_cseq, rule wp_guarded, rule x)
      apply (rule wp_cseq, rule wp_guarded, rule x)
      apply (rule wp_cbind, rule wp_computed, rule x)
      apply (rule wp_cbind, rule wp_core [OF keeps_material], rule c')
       apply (rule wp_cbind, rule wp_computed, simp add: exits_core sd')
       apply (rule wp_cbind, rule wp_clock, assumption)
       apply (rule wp_cseq, rule wp_enrollment [OF _ sd' a(1,2)], assumption, rule st, assumption,
          assumption)
       apply (rule wp_tail, intro lawful_rules, simp_all add: exits_core sd')
      done
  qed (simp_all add: wp_produce exits_core)
qed

lemma wp_enabling:
  assumes c: "core s = (A, S)" and sd: "sound g {} (A, S)" and a: "a \<in> set A" "ia_id a = i" "p a"
    "ia_status a = PENDING_INIT"
    and f: "\<And>a. ia_id (f a) = ia_id a" and p: "\<And>b. p b \<Longrightarrow> ia_id b = i"
    and ok: "account_sound (f a)" "ia_status (f a) = ENABLED"
    and Q: "\<And>s' A' b. core s' = (A', S) \<Longrightarrow> sound g {i} (A', S) \<Longrightarrow> b \<in> set A' \<Longrightarrow>
      ia_id b = i \<Longrightarrow> ia_status b = ENABLED \<Longrightarrow> Q () s'"
  shows "wp (cseq (update_account p f) (produce ())) Q (exits g) s"
proof (rule wp_cseq, rule wp_exempt [OF c sd f p])
  fix b assume "b \<in> set A" "p b"
  with same_key [where key = ia_id, OF sound_row(2) [OF sd a(1)] _ a(1), of b] a(2) p
  have "b = a" by simp
  with ok(1) show "account_sound (f b)" by simp
next
  from another_if_not_effective [OF sd a(1)] a(2,4) show "another_effective g A i"
    by (simp add: effective_row_def)
next
  fix s' :: identity_state
  assume "find p A = None"
  with a(1,3) show "wp (produce ()) Q (exits g) s'" by (simp add: find_None_iff)
next
  fix s' :: identity_state
  assume c': "core s' = (set_where p f A, S)" and sd': "sound g {i} (set_where p f A, S)"
  have "f a \<in> set (set_where p f A)" using a(1,3) by (force simp: set_set_where)
  from Q [OF c' sd' this] f a(2) ok(2) show "wp (produce ()) Q (exits g) s'"
    by (intro wp_produce) simp
qed

lemma wp_store_confirmation:
  assumes c: "core s = (A, S)" and sd: "sound g {} (A, S)" and a: "a \<in> set A"
    "ia_id a = ss_account r" "ia_status a = PENDING_INIT"
    and ready: "ia_password_hash a \<noteq> None" "ia_totp_sealed a \<noteq> None"
    and Q: "\<And>s' A' b. core s' = (A', S) \<Longrightarrow> sound g {ss_account r} (A', S) \<Longrightarrow> b \<in> set A' \<Longrightarrow>
      ia_id b = ss_account r \<Longrightarrow> ia_status b = ENABLED \<Longrightarrow> Q () s'"
  shows "wp (store_confirmation purpose r a step now) Q (exits g) s"
  unfolding store_confirmation_def store_totp_confirmation_def restore_password_reset_def
proof (rule wp_if)
  show "wp (cseq (update_account (\<lambda>a. ia_id a = ss_account r)
     (\<lambda>a. a\<lparr>ia_totp_confirmed_at := Some now, ia_totp_last_step := Some step,
        ia_status := ENABLED, ia_updated_at := now, ia_version := ia_version a + 1\<rparr>)) (produce ()))
     Q (exits g) s"
    by (rule wp_enabling [OF c sd a(1,2) _ a(3)]) (use a ready Q in \<open>simp_all add: account_sound_def\<close>)
next
  show "wp (cseq (guarded (ia_totp_confirmed_at a = None)
          (AuthenticationFailed ''confirmed TOTP required for password reset''))
     (cseq (update_account
       (\<lambda>a. ia_id a = ss_account r \<and> ia_password_hash a \<noteq> None \<and> ia_totp_confirmed_at a \<noteq> None)
       (\<lambda>a. a\<lparr>ia_totp_last_step := Some step, ia_status := ENABLED, ia_updated_at := now,
        ia_version := ia_version a + 1\<rparr>)) (produce ()))) Q (exits g) s"
    apply (rule wp_cseq, rule wp_guarded, simp add: exits_core c sd)
    by (rule wp_enabling [OF c sd a(1,2) _ a(3)]) (use a ready Q in \<open>simp_all add: account_sound_def\<close>)
qed

lemma ends_completion:
  assumes c: "core s = (A, S)" and sd: "sound g {} (A, S)" and a: "a \<in> set A"
    "ia_id a = ss_account r" "ia_status a = PENDING_INIT"
    and ready: "ia_password_hash a \<noteq> None" "ia_totp_sealed a \<noteq> None"
  shows "ends g (complete_bootstrap env purpose r a step) s"
  unfolding complete_bootstrap_def
proof (rule wp_cbind, rule wp_clock [OF c], rule wp_cseq,
    rule wp_store_confirmation [OF _ sd a ready], assumption, rule wp_cbind)
  fix now A' b and s' :: identity_state
  assume c': "core s' = (A', S)" "sound g {ss_account r} (A', S)" and b: "b \<in> set A'"
    "ia_id b = ss_account r" "ia_status b = ENABLED"
  show "wp (revoke_sessions (ss_account r) now ''BOOTSTRAP_COMPLETED'' None None) (\<lambda>revoked_ids.
      ends g (cseq (finalize_revocations env (ss_account r) revoked_ids (ia_employee_no a)
       ''bootstrap completed'' False)
     (cbind (issue_session env (ss_account r) FULL None) (\<lambda>issued.
     cseq (enforce_session_cap env (ss_account r) (ia_employee_no a) now)
     (cseq (audit_account env (ia_employee_no a) ''identity.totp.confirmed'' (ss_account r)
       ''SUCCESS'' ''bootstrap'')
     (cseq (notify_identity_change env (ss_account r))
     (produce (Confirmed issued)))))))) (exits g) s'"
  proof (rule wp_revoke_all [OF c'])
    fix ids S' and t :: identity_state
    assume c: "core t = (A', S')" and sd: "sound g {} (A', S')"
    show "ends g (cseq (finalize_revocations env (ss_account r) ids (ia_employee_no a)
       ''bootstrap completed'' False)
     (cbind (issue_session env (ss_account r) FULL None) (\<lambda>issued.
     cseq (enforce_session_cap env (ss_account r) (ia_employee_no a) now)
     (cseq (audit_account env (ia_employee_no a) ''identity.totp.confirmed'' (ss_account r)
       ''SUCCESS'' ''bootstrap'')
     (cseq (notify_identity_change env (ss_account r))
     (produce (Confirmed issued))))))) t"
      apply (rule wp_cseq, rule wp_core [OF keeps_finalize_revocations], simp, simp, rule c)
       apply (rule wp_cbind, rule wp_issue_sound [OF _ sd b(1,2)], assumption, simp add: b)
        apply (rule wp_tail, intro lawful_rules, simp_all add: exits_core sd)
      done
  qed
qed

lemma obeys_confirm_totp [obeys_rules]: "obeys g (confirm_totp env t code)"
proof (rule obeysI)
  fix s assume "sound g {} (core s)"
  moreover obtain A S where c: "core s = (A, S)" by fastforce
  ultimately have sd: "sound g {} (A, S)" by simp
  show "ends g (confirm_totp env t code) s"
    unfolding confirm_totp_def
    apply (rule wp_cbind, rule wp_bootstrap_account [OF c sd])
    subgoal by (simp add: wp_produce)
    subgoal premises prems for r a s' S'
    proof -
      note c' = prems(1) and sd' = prems(2) and a = prems(3-6)
      have x: "exits g e s'" for e by (simp add: exits_core c' sd')
      have st: "ia_status a = PENDING_INIT" if "ss_purpose r = Some p" "p \<noteq> PASSWORD_EXPIRED" for p
        using a(3,4) that by (simp add: session_fits_def)
      show ?thesis
        unfolding sum.case Let_def fst_conv snd_conv
        apply (rule wp_cbind, rule wp_purpose, rule x)
        apply (rule wp_cseq, rule wp_guarded, rule x)
        apply (rule wp_cseq, rule wp_guarded, rule x)
        apply (rule wp_cbind, rule wp_core [OF keeps_policy], simp, rule c')
         apply (rule wp_if)
          apply (rule wp_tail, intro lawful_rules, simp_all add: exits_core sd')
        apply (rule wp_cbind, rule wp_core [OF keeps_material], assumption)
         apply (rule wp_cbind, rule wp_core [OF keeps_require(6)], assumption)
          apply (rule wp_option)
           apply (rule wp_tail, rule lawful_rules, simp add: sd')
          apply (rule ends_completion [OF _ sd' a(1,2)], assumption, rule st)
             apply (simp_all add: exits_core sd')
        done
    qed
    by (simp add: exits_core)
qed

subsection \<open>The login\<close>

lemma ends_issue_bootstrap_login:
  assumes "ends g issue s"
  shows "ends g (issue_bootstrap_login env a e reason issue) s"
  unfolding issue_bootstrap_login_def
  apply (rule wp_cbind, rule wp_mono [OF assms])
   apply (rule wp_tail, intro lawful_rules, simp_all)
  done

lemma ends_password_accepted:
  assumes c: "core s = (A, S)" and sd: "sound g {} (A, S)" and a: "a \<in> set A" "ia_status a = ENABLED"
  shows "ends g (password_accepted env a e source) s"
  unfolding password_accepted_def
  apply (rule wp_cseq, rule wp_core [OF keeps_save_backoff], simp, rule c)
   apply (rule wp_cbind, rule wp_core [OF keeps_policy], simp, assumption)
    apply (rule wp_cbind, rule wp_clock, assumption, rule wp_if)
     apply (rule ends_issue_bootstrap_login, rule wp_issue_sound [OF _ sd a(1)], assumption, simp)
       apply (simp_all add: a exits_core sd)
  apply (rule wp_tail, rule keeps_issue_login_challenge [THEN lawful_core], simp add: sd)
  done

lemma ends_password_login:
  assumes c: "core s = (A, S)" and sd: "sound g {} (A, S)" and a: "row_by ia_employee_no e A = account"
  shows "ends g (password_login env account e password source) s"
proof -
  have member: "a \<in> set A" if "account = Some a" for a
    using a that by (auto dest: row_by_mem)
  have failure: "lawful g (cseq (record_password_failure env e source) (login_denied env e reason d))"
    for reason d
    by (intro lawful_rules keeps_record_failure [THEN lawful_core] keeps_login_denied [THEN lawful_core])
  show ?thesis
    unfolding password_login_def
    apply (rule wp_cbind, rule wp_core [OF keeps_material], rule c, rule wp_option)
      apply (rule wp_tail, rule failure, simp add: sd)
     apply (rule wp_if, rule ends_issue_bootstrap_login, rule wp_cbind,
        rule wp_issue_sound [OF _ sd member], assumption, assumption, simp)
        apply (simp add: reenrollment_due_def)
    subgoal by (rule wp_tail, intro lawful_rules) simp_all
    subgoal by (simp add: exits_core sd)
    apply (rule wp_if, rule ends_password_accepted [OF _ sd member], assumption, assumption)
     apply (simp add: password_valid_def)
    subgoal by (rule wp_tail, rule failure) (simp add: sd)
    subgoal by (simp add: exits_core sd)
    done
qed

lemma obeys_login_password_step [obeys_rules]: "obeys g (login_password_step env e password source)"
proof (rule obeysI)
  fix s assume "sound g {} (core s)"
  moreover obtain A S where c: "core s = (A, S)" by fastforce
  ultimately have sd: "sound g {} (A, S)" by simp
  show "ends g (login_password_step env e password source) s"
    unfolding login_password_step_def
    apply (rule wp_cbind, rule wp_core [OF keeps_check_backoff c], rule wp_option)
      apply (rule wp_cbind, rule wp_reading, rule wp_cbind)
    subgoal premises prems for x s'
    proof -
      note c' = prems(1)
      let ?account = "account_by_employee_no e s'"
      have a: "row_by ia_employee_no e A = ?account"
        using c' by (simp add: account_by_employee_no_def core_fields)
      show ?thesis
      proof (rule wp_if)
        assume "map_option ia_status ?account = Some PENDING_INIT"
        then obtain b where b: "row_by ia_employee_no e A = Some b" "ia_status b = PENDING_INIT"
          using a by (cases ?account) simp_all
        show "wp (consume_temp_password env e password) (\<lambda>issued. ends g (case issued of
            None \<Rightarrow> password_login env ?account e password source
          | Some x \<Rightarrow> cseq (save_backoff e source 0 None None) (produce (Issued x)))) (exits g) s'"
          apply (rule wp_consume_temp [OF c' sd b])
          subgoal by (simp add: ends_password_login [OF _ sd a])
          subgoal by (simp, rule wp_tail, intro lawful_rules) simp_all
          by (simp add: exits_core)
      next
        show "wp (produce None) (\<lambda>issued. ends g (case issued of
            None \<Rightarrow> password_login env ?account e password source
          | Some x \<Rightarrow> cseq (save_backoff e source 0 None None) (produce (Issued x)))) (exits g) s'"
          by (rule wp_produce) (simp add: ends_password_login [OF c' sd a])
      qed
    qed
    subgoal by (rule wp_tail, rule keeps_login_denied [THEN lawful_core]) (simp add: sd)
    subgoal by (simp add: exits_core sd)
    done
qed

lemma wp_totp_step:
  assumes c: "core s = (A, S)" and sd: "sound g {} (A, S)" and a: "a \<in> set A"
    and Q: "\<And>x s' A' b. core s' = (A', S) \<Longrightarrow> sound g {} (A', S) \<Longrightarrow> b \<in> set A' \<Longrightarrow>
      ia_id b = ia_id a \<Longrightarrow> ia_status b = ia_status a \<Longrightarrow> Q x s'"
    and E: "\<And>e. E e s"
  shows "wp (update_totp_step i k now) Q E s"
  unfolding update_totp_step_def
proof (rule wp_cbind, rule wp_update_account [OF c], rule E, rule wp_produce)
  fix s' :: identity_state
  let ?p = "\<lambda>a. ia_id a = i \<and> step_unused k a"
  let ?f = "\<lambda>a. a\<lparr>ia_totp_last_step := Some k, ia_updated_at := now\<rparr>"
  assume c': "core s' = (set_where ?p ?f A, S)"
  have "sound g {} (set_where ?p ?f A, S)"
  proof (rule sound_accounts [OF sd, where i = i])
    fix b assume "b \<in> set A"
    from sound_row(1) [OF sd this] show "account_sound (?f b)" by (simp add: account_sound_def)
  next
    assume g
    with sd obtain b where "b \<in> set A" "effective_row b" by (auto simp: sound_def)
    then show "\<exists>b \<in> set A. effective_row (if ?p b then ?f b else b)"
      by (intro bexI [of _ b]) (simp_all add: effective_row_def)
  qed simp_all
  moreover have "(if ?p a then ?f a else a) \<in> set (set_where ?p ?f A)"
    using a by (auto simp: set_set_where)
  ultimately show "Q (map_option ?f (find ?p A) \<noteq> None) s'"
    using Q [OF c', of "if ?p a then ?f a else a"] by simp
qed

lemma challenge_by_hash_core:
  assumes "challenge_by_hash h s = Some (c, a)" and "core s = (A, S)"
  shows "a \<in> set A \<and> ia_id a = ch_account c"
proof -
  from assms have a: "row_by ia_id (ch_account c) A = Some a"
    by (auto simp: challenge_by_hash_def account_by_id_def core_fields split: option.splits)
  from row_by_Some [where key = ia_id, OF a] show ?thesis by simp
qed

lemma ends_totp_login:
  assumes c: "core s = (A, S)" and sd: "sound g {} (A, S)" and a: "a \<in> set A" "ia_id a = ch_account ch"
    "ia_status a = ENABLED"
  shows "ends g (cbind (update_totp_step (ch_account ch) step now) (\<lambda>updated.
     if \<not> updated then totp_login_failure env ch a now
     else cbind (consume_challenge (ch_id ch) now) (\<lambda>consumed.
       if \<not> consumed then produce (TotpDenied (challenge_denial 0 0))
       else totp_login_success env ch a now))) s"
  unfolding totp_login_success_def
  apply (rule wp_cbind, rule wp_totp_step [OF c sd a(1)], rule wp_if)
    apply (rule wp_tail, rule keeps_totp_login_failure [THEN lawful_core], simp)
   apply (rule wp_cbind, rule wp_core [OF keeps_challenges(2)], simp, assumption)
    apply (rule wp_if, rule wp_produce, simp, rule wp_cbind, rule wp_issue_sound, assumption,
      assumption, assumption, simp add: a, simp add: a)
  subgoal by (rule wp_tail, intro lawful_rules) simp_all
  subgoal by (simp add: exits_core)
  subgoal by (simp add: exits_core)
  subgoal by (simp add: exits_core c sd)
  done

lemma obeys_login_totp_step [obeys_rules]: "obeys g (login_totp_step env t code)"
proof (rule obeysI)
  fix s assume "sound g {} (core s)"
  moreover obtain A S where c: "core s = (A, S)" by fastforce
  ultimately have sd: "sound g {} (A, S)" by simp
  have fail: "ends g (totp_login_failure env ch a now) t" if "core t = (A, S)" for ch a now t
    by (rule wp_tail, rule keeps_totp_login_failure [THEN lawful_core]) (simp add: that sd)
  show "ends g (login_totp_step env t code) s"
    unfolding login_totp_step_def
    apply (rule wp_cbind, rule wp_clock [OF c], rule wp_cbind, rule wp_reading, rule wp_option)
    subgoal by (rule wp_tail, intro lawful_rules) (simp_all add: sd)
    apply (rule wp_pair)
    subgoal premises prems for now s' y ch a
    proof -
      have a: "a \<in> set A" "ia_id a = ch_account ch"
        using challenge_by_hash_core [of "token_hash env t" s' ch a A S] prems by simp_all
      show ?thesis
        unfolding challenged_step_def
        apply (rule wp_cbind, rule wp_if)
         apply (rule wp_cbind, rule wp_core [OF keeps_material prems(1)])
          apply (rule wp_cbind, rule wp_core [OF keeps_require(6)], assumption)
           apply (rule wp_produce, rule wp_option, rule fail, assumption)
           apply (rule ends_totp_login [OF _ sd a], assumption, simp add: challenge_active_def)
          apply (simp_all add: exits_core sd)
        by (simp add: wp_produce fail prems(1))
    qed
    done
qed

end
