(* ===== verification/Identity_Safety.thy ===== *)
theory Identity_Safety
  imports Identity_Logins
begin

section \<open>The identity module: histories\<close>

text \<open>
  A step of the identity module is one committed transaction: a route through its idempotent
  execution, the validation of a session by the HTTP layer, a policy reauthentication, one of the
  command line entries, or a call of the facade. \<open>identity_step ok lost\<close> allows a break-glass
  recovery with \<open>credentials_lost\<close> only if \<open>lost\<close>. What holds of every command that commits
  (\<open>identity_run\<close>) holds of every step.
\<close>

datatype identity_request =
    LoginRequest string string string
  | TotpRequest string string
  | LogoutRequest "string option"
  | PasswordRequest "string option" string
  | EnrollRequest "string option"
  | ConfirmRequest "string option" string
  | CreateRequest string string "string option" string string
  | VersionedRequest account_operation string int string string
  | SuperAdminRequest super_admin_operation string string string string int

definition route_of :: "identity_env \<Rightarrow> identity_request \<Rightarrow> route_command" where
  "route_of env r = (case r of
       LoginRequest employee_no password source \<Rightarrow> auth_login env employee_no password source
     | TotpRequest challenge code \<Rightarrow> auth_totp env challenge code
     | LogoutRequest t \<Rightarrow> auth_logout env t
     | PasswordRequest t password \<Rightarrow> auth_bootstrap_password env t password
     | EnrollRequest t \<Rightarrow> auth_bootstrap_totp_enroll env t
     | ConfirmRequest t code \<Rightarrow> auth_bootstrap_totp_confirm env t code
     | CreateRequest employee_no name profession actor reason \<Rightarrow>
         accounts_create env employee_no name profession actor reason
     | VersionedRequest p account version actor reason \<Rightarrow>
         accounts_versioned_route env p account version actor reason
     | SuperAdminRequest p actor target code reason version \<Rightarrow>
         super_admin_route env p actor target code reason version)"

inductive identity_run ::
  "(identity_request \<Rightarrow> bool) \<Rightarrow> bool \<Rightarrow> identity_state \<Rightarrow> identity_state \<Rightarrow> bool" for ok lost where
  routed: "route_of env r s = (Inr x, s') \<Longrightarrow> ok r \<Longrightarrow> identity_run ok lost s s'"
| validated: "validate_session env t touch ro s = (Inr p, s') \<Longrightarrow> identity_run ok lost s s'"
| reauthenticated: "consume_policy_reauthentication env t code binding attempt s = (x, s') \<Longrightarrow>
    (case x of Inl e \<Rightarrow> reauth_denial e | Inr r \<Rightarrow> True) \<Longrightarrow> identity_run ok lost s s'"
| revoked_sessions: "revoke_sessions_for env account actor reason s = (Inr n, s') \<Longrightarrow>
    identity_run ok lost s s'"
| bootstrapped: "bootstrap_super_admin env e d c s = (Inr x, s') \<Longrightarrow> identity_run ok lost s s'"
| recovered: "recover_super_admin env e reason scope expiry l c s = (Inr x, s') \<Longrightarrow> (l \<longrightarrow> lost) \<Longrightarrow>
    identity_run ok lost s s'"
| recovery_denied: "record_super_admin_recovery_denial env e reason c s = (Inr u, s') \<Longrightarrow>
    identity_run ok lost s s'"

inductive identity_step ::
  "(identity_request \<Rightarrow> bool) \<Rightarrow> bool \<Rightarrow> identity_state \<Rightarrow> identity_state \<Rightarrow> bool" for ok lost where
  Route: "identity_execute S C q (route_of env r) s = (x, s') \<Longrightarrow> ok r \<Longrightarrow>
    identity_step ok lost s s'"
| Validate: "validate_session env t touch ro s = (Inr p, s') \<Longrightarrow> identity_step ok lost s s'"
| Reauthenticate: "verify_and_consume_policy_reauth env commits t code binding attempt s = (x, s') \<Longrightarrow>
    identity_step ok lost s s'"
| Revoke_sessions: "revoke_sessions_for env account actor reason s = (Inr n, s') \<Longrightarrow>
    identity_step ok lost s s'"
| Bootstrap: "bootstrap_super_admin_cli env S K e d s = Inr (x, s') \<Longrightarrow> identity_step ok lost s s'"
| Recover: "recover_super_admin_cli env S K e reason scope expiry l s = Inr (x, s') \<Longrightarrow> (l \<longrightarrow> lost) \<Longrightarrow>
    identity_step ok lost s s'"
| Recovery_denied: "record_super_admin_recovery_denial env e reason c s = (Inr u, s') \<Longrightarrow>
    identity_step ok lost s s'"

abbreviation any_request :: "identity_request \<Rightarrow> bool" where
  "any_request \<equiv> \<lambda>_. True"

definition identity_reachable :: "identity_state \<Rightarrow> bool" where
  "identity_reachable s \<longleftrightarrow> (identity_step any_request True)\<^sup>*\<^sup>* empty_identity_state s"

subsection \<open>What every run keeps, every step keeps\<close>

lemma execute_identity_leads:
  assumes "execute_idempotent identity_keys S q None (committed m) s = Inr (x, s')" and "P s"
    and keys: "\<And>t l. P t \<Longrightarrow> P (t\<lparr>id_keys := l\<rparr>)"
    and run: "\<And>t y t'. m t = (Inr y, t') \<Longrightarrow> P t \<Longrightarrow> P t'"
  shows "P s'"
proof (rule execute_preserves [where P = P and Q = P, OF assms(1,2)])
  fix i a p k fp now t c t'
  assume "claim_idempotency identity_keys i a p k fp now t = Inr (c, t')" and "P t"
  then show "P t'" using keys by (auto simp: identity_keys_def table_repository_def elim!: rbind_pairE)
next
  fix i st md sealed now t c t'
  assume "complete_idempotency identity_keys i st md sealed now t = Inr (c, t')" and "P t"
  then show "P t'" using keys by (auto simp: identity_keys_def table_repository_def elim!: rbind_pairE)
next
  fix t resp t'
  assume "committed m t = Inr (resp, t')" and "P t"
  then show "P t'" by (auto simp: committed_Inr intro: run)
qed

lemma run_cli_leads:
  assumes "run_cli env S K actor operation path body once s = Inr (x, s')" and "P s"
    and keys: "\<And>t l. P t \<Longrightarrow> P (t\<lparr>id_keys := l\<rparr>)"
    and run: "\<And>c t y t'. once c t = (Inr y, t') \<Longrightarrow> P t \<Longrightarrow> P t'"
  shows "P s'"
proof -
  obtain key correlation where kc: "cli_descriptor S operation path body = (key, correlation)"
    by fastforce
  from assms(1) obtain y where
    "execute_idempotent identity_keys S (cli_request env actor operation key s) None
      (committed (cbind (once correlation) (\<lambda>result. produce (cli_response K result correlation)))) s
      = Inr (y, s')"
    by (auto simp: run_cli_def kc elim!: rbind_pairE rbind_InrE)
  then show ?thesis
  proof (rule execute_identity_leads [where P = P])
    fix t y t'
    assume "cbind (once correlation) (\<lambda>result. produce (cli_response K result correlation)) t = (Inr y, t')"
    then show "P t \<Longrightarrow> P t'"
      by (auto simp: cbind_def produce_def split: prod.splits sum.splits intro: run)
  qed (use assms(2) keys in simp_all)
qed

lemma identity_step_leads:
  assumes step: "identity_step ok lost s s'" and "P s"
    and keys: "\<And>t l. P t \<Longrightarrow> P (t\<lparr>id_keys := l\<rparr>)"
    and run: "\<And>t t'. identity_run ok lost t t' \<Longrightarrow> P t \<Longrightarrow> P t'"
  shows "P s'"
  using step
proof cases
  case (Route S C q env r x)
  show ?thesis
  proof (cases "execute_idempotent identity_keys S q None (committed (route_of env r)) s")
    case (Inl e)
    with Route(1) assms(2) show ?thesis by (simp add: identity_execute_def split: idem_error.splits)
  next
    case (Inr y)
    with Route have "execute_idempotent identity_keys S q None (committed (route_of env r)) s = Inr (fst y, s')"
      by (cases y) (simp add: identity_execute_def)
    then show ?thesis
      by (rule execute_identity_leads [where P = P]) (blast intro: assms(2) keys run [OF routed] Route(2))+
  qed
next
  case (Reauthenticate env commits t code binding attempt x)
  obtain y t' where m: "consume_policy_reauthentication env t code binding attempt s = (y, t')" by fastforce
  with Reauthenticate have "s' = s \<or> s' = t' \<and> (case y of Inl e \<Rightarrow> reauth_denial e | Inr r \<Rightarrow> True)"
    by (auto simp: verify_and_consume_policy_reauth_def split: sum.splits if_splits)
  with reauthenticated [OF m] run assms(2) show ?thesis by blast
next
  case (Bootstrap env S K e d x)
  then show ?thesis unfolding bootstrap_super_admin_cli_def
    by (rule run_cli_leads [where P = P]) (blast intro: assms(2) keys run [OF bootstrapped])+
next
  case (Recover env S K e reason scope expiry l x)
  from Recover(1) show ?thesis unfolding recover_super_admin_cli_def
    by (rule run_cli_leads [where P = P]) (use Recover(2) in \<open>blast intro: assms(2) keys run [OF recovered]\<close>)+
qed (use assms(2) run in \<open>blast intro: identity_run.intros\<close>)+

subsection \<open>Every run keeps the invariant\<close>

lemma obeys_lawfuls [obeys_rules]:
  "obeys g (produce x)" "obeys g (computed r)" "obeys g (raising e)" "obeys g (reading f)"
  "obeys g (guarded b e)"
  by (rule obeys_lawful, rule lawful_rules)+

lemma lawful_get_account [lawful_rules]: "lawful g (get_account i)"
  unfolding get_account_def by (intro lawful_rules)

lemma obeys_versioned_operation: "obeys g (versioned_operation env p i n actor reason)"
  unfolding versioned_operation_def credential_receipt_def no_content_def
  by (cases p) (simp_all, (intro obeys_rules obeys_lawful [OF lawful_get_account])+)

lemma lawful_validate: "lawful g (validate_session env t True False)"
  by (rule lawful_rules)

lemma obeys_auth_failure: "is_auth_failure e \<Longrightarrow> answered e"
  by (simp add: is_auth_failure_def answered_def split: identity_error.splits)

lemma obeys_route: "obeys g (route_of env r)"
proof (cases r)
  case (PasswordRequest t password)
  then show ?thesis
    unfolding route_of_def auth_bootstrap_password_def
    by (auto simp: password_setup_answered_def answered_def is_auth_failure_def
        intro!: obeys_rules obeys_handled obeys_lawful [OF lawful_validate_session]
          obeys_lawful [OF lawful_complete_password_setup] split: option.splits identity_error.splits)
next
  case (VersionedRequest p i n actor reason)
  then show ?thesis
    unfolding route_of_def accounts_versioned_route_def record_account_governance_denial_def
    by (auto simp: governance_denied_def answered_def
        intro!: obeys_rules obeys_handled obeys_versioned_operation obeys_lawful [OF keeps_audit_account [THEN lawful_core]]
        split: identity_error.splits)
next
  case (SuperAdminRequest p actor target code reason n)
  then show ?thesis
    unfolding route_of_def super_admin_route_def add_super_admin_def remove_super_admin_def
      super_admin_success_def
    by (auto simp: super_admin_denied_def answered_def
        intro!: obeys_rules obeys_handled
          obeys_lawful [OF keeps_admin_challenge [THEN lawful_core]] split: identity_error.splits)
next
  case (CreateRequest e name profession actor reason)
  then show ?thesis
    unfolding route_of_def accounts_create_def credential_receipt_def
    by (auto simp: is_account_conflict_def answered_def
        intro!: obeys_rules obeys_handled obeys_lawful [OF lawful_create_account]
        split: identity_error.splits)
next
  case (LogoutRequest t)
  then show ?thesis
    unfolding route_of_def auth_logout_def
    by (auto intro!: obeys_rules obeys_lawful [OF lawful_logout] split: option.splits)
next
  case (EnrollRequest t)
  then show ?thesis
    unfolding route_of_def auth_bootstrap_totp_enroll_def
    by (auto intro!: obeys_rules obeys_handled obeys_auth_failure split: option.splits)
next
  case (ConfirmRequest t code)
  then show ?thesis
    unfolding route_of_def auth_bootstrap_totp_confirm_def
    by (auto intro!: obeys_rules obeys_handled obeys_auth_failure split: option.splits)
next
  case (LoginRequest e password source)
  then show ?thesis unfolding route_of_def auth_login_def by (auto intro!: obeys_rules)
next
  case (TotpRequest t code)
  then show ?thesis unfolding route_of_def auth_totp_def by (auto intro!: obeys_rules)
qed

lemma lawful_policy_reauthentication:
  "lawful g (consume_policy_reauthentication env t code binding attempt)"
  unfolding consume_policy_reauthentication_def current_session_def Let_def
  by (intro lawful_rules) simp_all

lemma lawful_recovery_denial: "lawful g (record_super_admin_recovery_denial env e reason c)"
  unfolding record_super_admin_recovery_denial_def by (intro lawful_rules) simp_all

lemma lawfulD: "lawful g m \<Longrightarrow> m s = (x, s') \<Longrightarrow> sound g {} (core s) \<Longrightarrow> sound g {} (core s')"
  by (auto simp: guards_def dest: advancesD)

lemma obeysD: "obeys g m \<Longrightarrow> m s = (Inr x, s') \<Longrightarrow> sound g {} (core s) \<Longrightarrow> sound g {} (core s')"
  by (auto simp: obeys_def wp_def)

lemma sound_run:
  assumes "identity_run ok lost s s'" and "lost \<longrightarrow> \<not> g" and sd: "sound g {} (core s)"
  shows "sound g {} (core s')"
  using assms(1)
proof cases
  case (routed env r x)
  from obeysD [OF obeys_route routed(1) sd] show ?thesis .
next
  case (validated env t touch ro p)
  from lawfulD [OF lawful_validate_session validated sd] show ?thesis .
next
  case (reauthenticated env t code binding attempt x)
  from lawfulD [OF lawful_policy_reauthentication reauthenticated(1) sd] show ?thesis .
next
  case (revoked_sessions env account actor reason n)
  from lawfulD [OF lawful_revoke_sessions_for revoked_sessions sd] show ?thesis .
next
  case (bootstrapped env e d c x)
  from lawfulD [OF lawful_bootstrap_super_admin bootstrapped sd] show ?thesis .
next
  case (recovered env e reason scope expiry l c x)
  with assms(2) have "g \<Longrightarrow> \<not> l" by blast
  from obeysD [OF obeys_recover_super_admin [OF this] recovered(1) sd] show ?thesis .
next
  case (recovery_denied env e reason c u)
  from lawfulD [OF lawful_recovery_denial recovery_denied sd] show ?thesis .
qed

lemma sound_step:
  assumes "identity_step ok lost s s'" and "lost \<longrightarrow> \<not> g" and "sound g {} (core s)"
  shows "sound g {} (core s')"
  using assms(1,3)
  by (rule identity_step_leads [where P = "\<lambda>t. sound g {} (core t)"]) (simp_all add: sound_run assms(2))

lemma sound_steps:
  assumes "(identity_step ok lost)\<^sup>*\<^sup>* s s'" and "lost \<longrightarrow> \<not> g" and "sound g {} (core s)"
  shows "sound g {} (core s')"
  using assms(1,3) by (induction rule: rtranclp_induct) (simp_all add: sound_step [OF _ assms(2)])

lemma sound_reachable: "identity_reachable s \<Longrightarrow> sound False {} (core s)"
  unfolding identity_reachable_def
  by (erule sound_steps) (simp_all add: sound_def core_def empty_identity_state_def)

end
