(* ===== verification/Identity_History.thy ===== *)
theory Identity_History
  imports Identity_Safety
begin

section \<open>The identity module: how its tables evolve\<close>

text \<open>
  No command deletes a row, and none changes what identifies one. \<open>evolves K\<close> relates the state
  before a command with the state it leaves, whether it returns or raises: every row of accounts,
  sessions, challenges, consumptions and audit is still at its place, changed at most in the way
  \<open>account_step\<close>, \<open>session_step\<close> and \<open>challenge_step\<close> allow; rows are only added behind, and the
  added sessions are of a kind in \<open>K\<close>.
\<close>

definition grows :: "('r \<Rightarrow> 'r \<Rightarrow> bool) \<Rightarrow> ('r \<Rightarrow> bool) \<Rightarrow> 'r list \<Rightarrow> 'r list \<Rightarrow> bool" where
  "grows step new xs ys \<longleftrightarrow>
     (\<exists>zs ws. ys = zs @ ws \<and> list_all2 step xs zs \<and> (\<forall>w \<in> set ws. new w))"

lemma paired_rows:
  assumes "list_all2 step xs ys"
  shows "x \<in> set xs \<Longrightarrow> \<exists>y \<in> set ys. step x y" and "y \<in> set ys \<Longrightarrow> \<exists>x \<in> set xs. step x y"
  using assms by (induction rule: list_all2_induct) auto

lemma grows_refl: "(\<And>x. step x x) \<Longrightarrow> grows step new xs xs"
  unfolding grows_def by (intro exI [of _ xs] exI [of _ "[]"]) (simp add: list_all2_refl)

lemma grows_trans:
  assumes "grows step new xs ys" and "grows step new ys zs"
    and step: "\<And>x y z. step x y \<Longrightarrow> step y z \<Longrightarrow> step x z"
    and new: "\<And>x y. new x \<Longrightarrow> step x y \<Longrightarrow> new y"
  shows "grows step new xs zs"
proof -
  from assms(1) obtain ys1 ys2 where ys: "ys = ys1 @ ys2" "list_all2 step xs ys1" "\<forall>w \<in> set ys2. new w"
    by (auto simp: grows_def)
  from assms(2) ys(1) obtain us ws where zs: "zs = us @ ws" "list_all2 step (ys1 @ ys2) us"
    "\<forall>w \<in> set ws. new w" by (auto simp: grows_def)
  from zs(2) obtain us1 us2 where us: "us = us1 @ us2" "list_all2 step ys1 us1" "list_all2 step ys2 us2"
    by (auto simp: list_all2_append1)
  have "list_all2 step xs us1" using ys(2) us(2) step by (rule list_all2_trans [rotated 1]) blast
  moreover have "new w" if "w \<in> set us2" for w
  proof -
    from paired_rows(2) [OF us(3) that] obtain y where "y \<in> set ys2" "step y w" by blast
    with ys(3) new show ?thesis by blast
  qed
  ultimately show ?thesis unfolding grows_def
    using zs us by (intro exI [of _ us1] exI [of _ "us2 @ ws"]) auto
qed

lemma grows_append: "(\<And>x. step x x) \<Longrightarrow> new r \<Longrightarrow> grows step new xs (xs @ [r])"
  unfolding grows_def by (intro exI [of _ xs] exI [of _ "[r]"]) (simp add: list_all2_refl)

lemma grows_set_where:
  "(\<And>x. step x x) \<Longrightarrow> (\<And>x. x \<in> set xs \<Longrightarrow> p x \<Longrightarrow> step x (f x)) \<Longrightarrow> grows step new xs (set_where p f xs)"
  unfolding grows_def
  by (intro exI [of _ "set_where p f xs"] exI [of _ "[]"])
    (simp add: set_where_def list_all2_conv_all_nth)

lemma grows_mem:
  assumes "grows step new xs ys" and "x \<in> set xs"
  obtains y where "y \<in> set ys" and "step x y"
proof -
  from assms(1) obtain zs ws where "ys = zs @ ws" "list_all2 step xs zs" by (auto simp: grows_def)
  with paired_rows(1) [OF this(2) assms(2)] that show thesis by auto
qed

lemma grows_back:
  assumes "grows step new xs ys" and "y \<in> set ys"
  shows "new y \<or> (\<exists>x \<in> set xs. step x y)"
proof -
  from assms(1) obtain zs ws where "ys = zs @ ws" "list_all2 step xs zs" "\<forall>w \<in> set ws. new w"
    by (auto simp: grows_def)
  with paired_rows(2) [OF this(2), of y] assms(2) show ?thesis by auto
qed

text \<open>A row found by a key that steps keep is found again, after its steps.\<close>

lemma grows_row_by:
  assumes "grows step new xs ys" and "row_by key k xs = Some x" and "\<And>x y. step x y \<Longrightarrow> key y = key x"
  obtains y where "row_by key k ys = Some y" and "step x y"
proof -
  from assms(1) obtain zs ws where ys: "ys = zs @ ws" and "list_all2 step xs zs"
    by (auto simp: grows_def)
  from this(2) assms(2) have "\<exists>y. row_by key k zs = Some y \<and> step x y"
    by (induction rule: list_all2_induct) (auto simp: assms(3) split: if_splits)
  with ys that show ?thesis by (auto simp: row_by_append)
qed

subsection \<open>Steps of a row\<close>

text \<open>The version of an account identifies its status, its credentials and its Super Admin flag; the
  last used TOTP step only rises while the version stays.\<close>

definition step_order :: "int option \<Rightarrow> int option \<Rightarrow> bool" where
  "step_order x y \<longleftrightarrow> (case x of None \<Rightarrow> True | Some k \<Rightarrow> (case y of None \<Rightarrow> False | Some k' \<Rightarrow> k \<le> k'))"

definition account_step :: "account_entry \<Rightarrow> account_entry \<Rightarrow> bool" where
  "account_step a b \<longleftrightarrow> ia_id b = ia_id a \<and> ia_employee_no b = ia_employee_no a
     \<and> ia_version a \<le> ia_version b
     \<and> (ia_version b = ia_version a \<longrightarrow> ia_status b = ia_status a
          \<and> ia_password_hash b = ia_password_hash a \<and> ia_totp_sealed b = ia_totp_sealed a
          \<and> ia_totp_confirmed_at b = ia_totp_confirmed_at a \<and> ia_super_admin b = ia_super_admin a
          \<and> step_order (ia_totp_last_step a) (ia_totp_last_step b))"

definition session_step :: "session_entry \<Rightarrow> session_entry \<Rightarrow> bool" where
  "session_step r q \<longleftrightarrow> ss_id q = ss_id r \<and> ss_account q = ss_account r
     \<and> ss_token_hash q = ss_token_hash r \<and> ss_kind q = ss_kind r \<and> ss_purpose q = ss_purpose r
     \<and> ss_created_at q = ss_created_at r \<and> (live_session q \<longrightarrow> live_session r)
     \<and> ss_totp_attempts r \<le> ss_totp_attempts q"

definition challenge_step :: "challenge_entry \<Rightarrow> challenge_entry \<Rightarrow> bool" where
  "challenge_step c d \<longleftrightarrow> ch_id d = ch_id c \<and> ch_token_hash d = ch_token_hash c
     \<and> ch_purpose d = ch_purpose c \<and> ch_account d = ch_account c \<and> ch_actor d = ch_actor c
     \<and> ch_expires_at d = ch_expires_at c \<and> ch_attempt_limit d = ch_attempt_limit c
     \<and> (\<not> unspent_challenge c \<longrightarrow> \<not> unspent_challenge d)
     \<and> (ch_attempt_count c \<le> ch_attempt_limit c \<longrightarrow>
          ch_attempt_count c \<le> ch_attempt_count d \<and> ch_attempt_count d \<le> ch_attempt_limit d)"

lemmas row_steps = account_step_def session_step_def challenge_step_def

lemma step_order_refl [simp]: "step_order x x"
  by (simp add: step_order_def split: option.split)

lemma step_order_trans: "step_order x y \<Longrightarrow> step_order y z \<Longrightarrow> step_order x z"
  by (auto simp: step_order_def split: option.splits)

lemma row_step_refl [simp]: "account_step a a" "session_step r r" "challenge_step c c"
  by (simp_all add: row_steps)

lemma account_step_trans: "account_step a b \<Longrightarrow> account_step b c \<Longrightarrow> account_step a c"
  unfolding account_step_def by (auto intro: step_order_trans)

lemma session_step_trans: "session_step a b \<Longrightarrow> session_step b c \<Longrightarrow> session_step a c"
  unfolding session_step_def by auto

lemma challenge_step_trans: "challenge_step a b \<Longrightarrow> challenge_step b c \<Longrightarrow> challenge_step a c"
  unfolding challenge_step_def by auto

definition evolves :: "session_kind set \<Rightarrow> identity_state \<Rightarrow> identity_state \<Rightarrow> bool" where
  "evolves K s t \<longleftrightarrow>
     grows account_step (\<lambda>a. True) (id_accounts s) (id_accounts t)
     \<and> grows session_step (\<lambda>r. ss_kind r \<in> K) (id_sessions s) (id_sessions t)
     \<and> grows challenge_step (\<lambda>c. ch_attempt_count c \<le> ch_attempt_limit c) (id_challenges s) (id_challenges t)
     \<and> grows (=) (\<lambda>c. True) (id_consumptions s) (id_consumptions t)
     \<and> grows (=) (\<lambda>e. True) (id_audit s) (id_audit t)"

interpretation evolution: state_order "evolves K" for K
proof
  show "evolves K s s" for s by (simp add: evolves_def grows_refl)
  show "evolves K s u" if "evolves K s t" "evolves K t u" for s t u
    using that unfolding evolves_def
    by (intro conjI; elim conjE)
      (erule (1) grows_trans; auto intro: account_step_trans session_step_trans challenge_step_trans
        simp: session_step_def challenge_step_def)+
qed

subsection \<open>Statements\<close>

named_theorems evolve_rules "commands along which the tables evolve"

declare evolution.advances_all [evolve_rules]

abbreviation evolving :: "session_kind set \<Rightarrow> 'a identity_command \<Rightarrow> bool" where
  "evolving K m \<equiv> advances (evolves K) m"

definition tables :: "identity_state \<Rightarrow> account_entry list \<times> session_entry list \<times> challenge_entry list
    \<times> reauth_receipt list \<times> audit_log" where
  "tables s = (id_accounts s, id_sessions s, id_challenges s, id_consumptions s, id_audit s)"

lemma tables_simps [simp]:
  "tables (s\<lparr>id_temps := x1\<rparr>) = tables s" "tables (s\<lparr>id_backoffs := x2\<rparr>) = tables s"
  "tables (s\<lparr>id_keys := x3\<rparr>) = tables s" "tables (s\<lparr>id_ticks := n\<rparr>) = tables s"
  "tables (s\<lparr>id_policy_reads := n\<rparr>) = tables s" "tables (s\<lparr>id_uuids := n\<rparr>) = tables s"
  "tables (s\<lparr>id_tokens := n\<rparr>) = tables s" "tables (s\<lparr>id_tickets := x4\<rparr>) = tables s"
  by (simp_all add: tables_def)

lemma evolves_tables: "tables t = tables s \<Longrightarrow> evolves K s t"
  using evolution.stays [of K s] by (simp add: tables_def evolves_def)

lemma evolve_frame: "keeps tables m \<Longrightarrow> evolving K m"
  by (simp add: advances_def same_def evolves_tables)

lemma evolve_sum [evolve_rules]:
  "(\<And>x. evolving K (m x)) \<Longrightarrow> (\<And>y. evolving K (n y)) \<Longrightarrow>
   evolving K (case v of Inl x \<Rightarrow> m x | Inr y \<Rightarrow> n y)"
  by (simp split: sum.split)

lemma evolve_update_account:
  assumes "\<And>a. p a \<Longrightarrow> account_step a (f a)"
  shows "evolving K (update_account p f)"
  unfolding update_account_def
  by (rule evolution.advances_statement)
    (auto simp: res_simps changed_rows_Inr evolves_def assms intro!: grows_set_where grows_refl)

lemma evolve_updates [evolve_rules]:
  "evolving K (update_password i h now)" "evolving K (reset_password_state i now)"
  "evolving K (reset_totp_state i n now)" "evolving K (reset_recovery_state i now)"
  "evolving K (update_totp_enrollment i x now)" "evolving K (store_totp_confirmation i k now)"
  "evolving K (restore_password_reset i k now)" "evolving K (update_account_status i st n now)"
  "evolving K (update_super_admin i b n now)" "evolving K (update_totp_step i k now)"
  unfolding update_password_def reset_password_state_def reset_totp_state_def
    reset_recovery_state_def update_totp_enrollment_def store_totp_confirmation_def
    restore_password_reset_def update_account_status_def update_super_admin_def update_totp_step_def
  by (intro evolve_rules evolve_update_account;
      auto simp: account_step_def step_order_def step_unused_def split: option.splits)+

lemma evolve_insert_account [evolve_rules]: "evolving K (insert_account a)"
  unfolding insert_account_def
  by (rule evolution.advances_statement)
    (auto simp: res_simps inserted_identity_Inr evolves_def split: if_splits
      intro!: grows_append grows_refl)

lemma evolve_change_sessions:
  assumes "\<And>r. p r \<Longrightarrow> session_step r (f r)"
  shows "evolving K (change_sessions p f)"
  unfolding change_sessions_def
  by (rule evolution.advances_statement)
    (auto simp: res_simps changed_rows_Inr evolves_def assms intro!: grows_set_where grows_refl)

lemma evolve_sessions [evolve_rules]:
  "evolving K (increment_bootstrap_totp_attempts i)" "evolving K (revoke_sessions account now reason x k)"
  "evolving K (revoke_session i now reason)" "evolving K (touch_session i now hint)"
  "evolving K (evict_old_full_sessions account cap now)"
  unfolding increment_bootstrap_totp_attempts_def revoke_sessions_def revoke_session_def
    touch_session_def evict_old_full_sessions_def
  by (intro evolve_rules evolve_change_sessions; simp add: session_step_def revoked_def live_session_def)+

lemma evolve_insert_session: "ss_kind r \<in> K \<Longrightarrow> evolving K (insert_session r)"
  unfolding insert_session_def
  by (rule evolution.advances_statement)
    (auto simp: res_simps inserted_identity_Inr evolves_def intro!: grows_append grows_refl)

lemma evolve_change_challenges:
  assumes "\<And>c. p c \<Longrightarrow> challenge_step c (f c)"
  shows "evolving K (change_challenges p f)"
  unfolding change_challenges_def
  by (rule evolution.advances_statement)
    (auto simp: res_simps changed_rows_Inr evolves_def assms intro!: grows_set_where grows_refl)

lemma evolve_challenges [evolve_rules]:
  "evolving K (fail_challenge i now)" "evolving K (consume_challenge i now)"
  unfolding fail_challenge_def consume_challenge_def
  by (intro evolve_rules evolve_change_challenges;
      auto simp: challenge_step_def failed_challenge_def unspent_challenge_def)+

lemma evolve_insert_challenge [evolve_rules]: "evolving K (insert_challenge c)"
  unfolding insert_challenge_def
  by (rule evolution.advances_statement)
    (auto simp: res_simps inserted_identity_Inr evolves_def challenge_row_ok_def
      intro!: grows_append grows_refl)

lemma evolve_consumption [evolve_rules]: "evolving K (insert_consumption r)"
  unfolding insert_consumption_def
  by (rule evolution.advances_statement)
    (auto simp: res_simps inserted_identity_Inr evolves_def intro!: grows_append grows_refl)

lemma evolve_audit [evolve_rules]: "evolving K (identity_audit env actor action tt ti result reason c)"
  unfolding identity_audit_def
  by (rule evolution.advances_writing)
    (auto simp: Let_def evolves_def record_in_transaction_def append_in_transaction_def
      intro!: grows_append grows_refl)

section \<open>The identity module: what a history keeps\<close>

text \<open>
  Every command lets the tables evolve; only the second login step and the confirmation of a TOTP
  secret add FULL sessions (\<open>evolves {BOOTSTRAP}\<close> of all the others). From the evolution follow the
  properties over histories: a spent challenge and a revoked session stay so, a reauthentication is
  consumed once, and an account's version identifies its security state.
\<close>

subsection \<open>Operations\<close>

lemma evolve_frames [evolve_rules]:
  "evolving K (clock_now env)" "evolving K (get_identity_policy env)" "evolving K (random_uuid env)"
  "evolving K (token_urlsafe env)" "evolving K (load_material env)"
  "evolving K (notify_identity_change env i)" "evolving K (save_backoff e so n x y)"
  "evolving K (invalidate_temp_credentials i now)" "evolving K (insert_temp_credential c)"
  "evolving K (consume_temp_credential i now)" "evolving K (require_account i)"
  "evolving K (require_updated err row)" "evolving K (check_super_admin_remains a)"
  "evolving K (recovery_target i l)" "evolving K (purpose_of r)" "evolving K (unsealed_secret env m a)"
  by (intro evolve_frame keeps_rules; simp)+

lemma evolve_common [evolve_rules]:
  "evolving K (audit_account env actor action i result reason)"
  "evolving K (finalize_session_revocations env i ids actor reason hook action c)"
  "evolving K (finalize_revocations env i ids actor reason hook)"
  unfolding audit_account_def finalize_revocations_def finalize_session_revocations_def
  by (intro evolve_rules)+

lemma evolve_issue_session: "k \<in> K \<Longrightarrow> evolving K (issue_session env i k p)"
  unfolding issue_session_def
  by (intro evolve_rules evolve_insert_session) (simp add: new_session_def)

lemma evolve_session_commands [evolve_rules]:
  "evolving K (revoke_idle_session env r a now)" "evolving K (validate_session env t touch ro)"
  "evolving K (logout env t)" "evolving K (revoke_sessions_for env i actor reason)"
  unfolding validate_session_def logout_def revoke_sessions_for_def revoke_idle_session_def
  by (intro evolve_rules)+

lemma evolve_account_commands [evolve_rules]:
  "evolving K (issue_temp env i actor now x)" "evolving K (get_account i)"
  "evolving K (create_account env e d p actor reason c)"
  "evolving K (issue_temp_password env i actor reason n)"
  "evolving K (reset_totp env i v actor reason)"
  "evolving K (set_account_status env i st v actor reason)"
  "evolving K (record_account_governance_denial env i operation actor)"
  unfolding issue_temp_def create_account_def issue_temp_password_def reset_totp_def
    set_account_status_def record_account_governance_denial_def get_account_def
  by (intro evolve_rules)+

lemma evolve_consume_temp: "BOOTSTRAP \<in> K \<Longrightarrow> evolving K (consume_temp_password env e pw)"
  unfolding consume_temp_password_def by (intro evolve_rules evolve_issue_session)

lemma evolve_bootstrap_commands [evolve_rules]:
  "evolving K (bootstrap_account env t touch)" "evolving K (revoke_exhausted_session env r actor)"
  "evolving K (complete_password_setup env t pw)" "evolving K (enroll_totp env t)"
  "evolving K (enforce_session_cap env i actor now)" "evolving K (confirm_failure env r actor policy)"
  "evolving K (store_confirmation p r a k now)"
  unfolding bootstrap_account_def revoke_exhausted_session_def complete_password_setup_def
    enroll_totp_def enforce_session_cap_def confirm_failure_def store_confirmation_def Let_def
    revoke_idle_session_def
  by (intro evolve_rules)+

lemma evolve_confirm: "FULL \<in> K \<Longrightarrow> evolving K (confirm_totp env t code)"
  unfolding confirm_totp_def complete_bootstrap_def Let_def
  by (intro evolve_rules evolve_issue_session)

lemma evolve_login_parts [evolve_rules]:
  "evolving K (check_backoff env e so)" "evolving K (record_password_failure env e so)"
  "evolving K (login_denied env e reason d)" "evolving K (issue_login_challenge env a e policy now)"
  "evolving K (challenged_step env active a code)" "evolving K (totp_login_failure env c a now)"
  unfolding check_backoff_def record_password_failure_def login_denied_def issue_login_challenge_def
    challenged_step_def totp_login_failure_def Let_def
  by (intro evolve_rules)+

lemma evolve_login: "BOOTSTRAP \<in> K \<Longrightarrow> evolving K (login_password_step env e pw so)"
  unfolding login_password_step_def password_login_def password_accepted_def issue_bootstrap_login_def
  by (intro evolve_rules evolve_issue_session evolve_consume_temp)

lemma evolve_totp_login: "FULL \<in> K \<Longrightarrow> evolving K (login_totp_step env t code)"
  unfolding login_totp_step_def totp_login_success_def
  by (intro evolve_rules evolve_issue_session)

lemma evolve_admin_commands [evolve_rules]:
  "evolving K (audit_challenge env actor step i result reason)"
  "evolving K (issue_super_admin_challenge env i p)"
  "evolving K (admin_challenge_failure env i p c a now)"
  "evolving K (consume_super_admin_challenge env i p t code)"
  "evolving K (verify_admin_totp env i code p)"
  "evolving K (super_admin_update env i b n)"
  "evolving K (change_super_admin env target actor p t code reason n)"
  "evolving K (bootstrap_super_admin env e d corr)"
  "evolving K (recover_super_admin env e reason scope expiry l corr)"
  "evolving K (record_super_admin_recovery_denial env e reason corr')"
  "evolving K (consume_policy_reauthentication env t code binding attempt)"
  unfolding audit_challenge_def issue_super_admin_challenge_def admin_challenge_failure_def
    consume_super_admin_challenge_def verify_admin_totp_def super_admin_update_def
    change_super_admin_def bootstrap_super_admin_def recover_super_admin_def
    record_super_admin_recovery_denial_def consume_policy_reauthentication_def current_session_def
    Let_def
  by (intro evolve_rules)+

subsection \<open>Routes, runs and steps\<close>

definition second_factor_request :: "identity_request \<Rightarrow> bool" where
  "second_factor_request r = (case r of TotpRequest _ _ \<Rightarrow> True | ConfirmRequest _ _ \<Rightarrow> True | _ \<Rightarrow> False)"

lemma evolve_versioned: "evolving K (versioned_operation env p i n actor reason)"
  unfolding versioned_operation_def credential_receipt_def no_content_def
  by (cases p) (simp_all, (intro evolve_rules)+)

lemma evolve_route:
  assumes "BOOTSTRAP \<in> K" and "second_factor_request r \<Longrightarrow> FULL \<in> K"
  shows "evolving K (route_of env r)"
proof (cases r)
  case (LoginRequest e password source)
  then show ?thesis unfolding route_of_def auth_login_def
    by (auto intro!: evolve_rules evolve_login assms(1))
next
  case (TotpRequest t code)
  with assms(2) show ?thesis unfolding route_of_def auth_totp_def
    by (auto intro!: evolve_rules evolve_totp_login simp: second_factor_request_def)
next
  case (LogoutRequest t)
  then show ?thesis unfolding route_of_def auth_logout_def
    by (auto intro!: evolve_rules split: option.splits)
next
  case (PasswordRequest t password)
  then show ?thesis unfolding route_of_def auth_bootstrap_password_def
    by (auto intro!: evolve_rules split: option.splits)
next
  case (EnrollRequest t)
  then show ?thesis unfolding route_of_def auth_bootstrap_totp_enroll_def
    by (auto intro!: evolve_rules split: option.splits)
next
  case (ConfirmRequest t code)
  with assms(2) show ?thesis unfolding route_of_def auth_bootstrap_totp_confirm_def
    by (auto intro!: evolve_rules evolve_confirm simp: second_factor_request_def split: option.splits)
next
  case (CreateRequest e name profession actor reason)
  then show ?thesis unfolding route_of_def accounts_create_def credential_receipt_def
    by (auto intro!: evolve_rules)
next
  case (VersionedRequest p i n actor reason)
  then show ?thesis unfolding route_of_def accounts_versioned_route_def
    by (auto intro!: evolve_rules evolve_versioned)
next
  case (SuperAdminRequest p actor target code reason n)
  then show ?thesis
    unfolding route_of_def super_admin_route_def add_super_admin_def remove_super_admin_def
      super_admin_success_def
    by (auto intro!: evolve_rules)
qed

lemma evolves_run:
  assumes "identity_run ok lost s s'" and "BOOTSTRAP \<in> K"
    and "\<And>r. ok r \<Longrightarrow> second_factor_request r \<Longrightarrow> FULL \<in> K"
  shows "evolves K s s'"
  using assms(1)
proof cases
  case (routed env r x)
  from evolve_route [OF assms(2,3)] routed show ?thesis by (blast intro: advancesD)
qed (erule advancesD [rotated], rule evolve_rules)+

lemma evolves_steps:
  assumes "(identity_step ok lost)\<^sup>*\<^sup>* s t" and K: "BOOTSTRAP \<in> K"
    "\<And>r. ok r \<Longrightarrow> second_factor_request r \<Longrightarrow> FULL \<in> K"
  shows "evolves K s t"
  using assms(1)
proof induction
  case base
  show ?case by (rule evolution.stays)
next
  case (step t u)
  from step(2,3) show ?case
  proof (rule identity_step_leads [where P = "evolves K s"])
    show "evolves K s (t\<lparr>id_keys := l\<rparr>)" if "evolves K s t" for t l
      using that by (rule evolution.chains) (simp add: evolves_tables)
    show "evolves K s u" if "identity_run ok lost t u" "evolves K s t" for t u
      using that(2) evolves_run [OF that(1) K] by (rule evolution.chains)
  qed
qed

lemmas evolves_history = evolves_steps [where K = UNIV, simplified]

subsection \<open>Properties\<close>

text \<open>
  A token whose session has been revoked stays worthless: however the history goes on, no
  validation accepts it, no matter at what time and under which policy.
\<close>

lemma revoked_session_stays_revoked:
  assumes "row_by ss_token_hash (token_hash env token) (id_sessions s) = Some r"
    and "ss_revoked_at r \<noteq> None" and "(identity_step any_request lost)\<^sup>*\<^sup>* s t"
    and "validate_session env token touch ro t = (Inr p, t')"
  shows "p = None"
proof -
  from evolves_history [OF assms(3)]
  have "grows session_step (\<lambda>r. True) (id_sessions s) (id_sessions t)" by (simp add: evolves_def)
  from grows_row_by [where key = ss_token_hash, OF this assms(1)]
  obtain q where "row_by ss_token_hash (token_hash env token) (id_sessions t) = Some q"
    "session_step r q" by (auto simp: session_step_def)
  with assms(2,4) show ?thesis
    by (auto simp: validate_session_def session_with_account_def cbind_def reading_def produce_def
        session_step_def live_session_def split: option.splits)
qed

lemma wp_any:
  assumes "\<And>x s'. Q x s'" and "\<And>e s'. E e s'"
  shows "wp m Q E s"
  using assms by (simp add: wp_def split: prod.splits sum.splits)

lemma keepsD: "keeps f m \<Longrightarrow> m s = (x, s') \<Longrightarrow> f s' = f s"
  by (auto simp: keeps_iff dest: spec [of _ s])

lemma keeps_current_session: "keeps id_consumptions (current_session env token binding ro)"
  unfolding current_session_def validate_session_def revoke_idle_session_def
  by (intro keeps_rules) simp_all

lemma wp_insert_consumption:
  assumes "\<And>s'. r \<in> set (id_consumptions s') \<Longrightarrow> Q () s'" and "\<And>e. E e s"
  shows "wp (insert_consumption r) Q E s"
  unfolding insert_consumption_def
  by (rule wp_statement) (use assms in \<open>auto simp: res_simps inserted_identity_Inr\<close>)

lemma consumed_Inr:
  assumes "consume_policy_reauthentication env token code binding attempt s = (Inr receipt, s')"
  shows "\<not> attempt_consumed (rb_actor binding) attempt s \<and> attempt_consumed (rb_actor binding) attempt s'"
proof -
  have "wp (consume_policy_reauthentication env token code binding attempt)
    (\<lambda>_ s'. \<not> attempt_consumed (rb_actor binding) attempt s
       \<and> attempt_consumed (rb_actor binding) attempt s') (\<lambda>_ _. True) s"
    unfolding consume_policy_reauthentication_def Let_def
    apply (rule wp_cseq, rule wp_guarded, simp)
    apply (rule wp_cbind, rule wp_keeps [OF keeps_current_session])
     apply (rule wp_cbind, rule wp_reading, rule wp_cseq, rule wp_guarded, simp)
     apply (rule wp_cbind, rule wp_any)
      apply (rule wp_cbind, rule wp_any)
       apply (rule wp_cbind, rule wp_any)
        apply (rule wp_cseq, rule wp_insert_consumption)
         apply (rule wp_cseq, rule wp_keeps [where f = id_consumptions, OF keeps_audit], simp)
          apply (rule wp_produce)
          apply (auto simp: attempt_consumed_def list_ex_iff new_receipt_def)
    apply (rule bexI [rotated], assumption, simp)
    done
  from wp_Inr [OF this assms] show ?thesis .
qed

lemma verified_Inr:
  "verify_and_consume_policy_reauth env commits token code binding attempt s = (Inr receipt, s') \<Longrightarrow>
   consume_policy_reauthentication env token code binding attempt s = (Inr receipt, s')"
  by (auto simp: verify_and_consume_policy_reauth_def Let_def split: prod.splits sum.splits if_splits)

end
