(* ===== verification/Identity_Factors.thy ===== *)
theory Identity_Factors
  imports Identity_History
begin

section \<open>The identity module: what a login establishes\<close>

text \<open>
  The second login step in full: a session is issued only for an active challenge and a fresh code
  of the account's secret, both are used up by it, and the account's FULL sessions stay within the
  policy's number. The backoff: what a failed password records, what it denies, and where the
  computation of its delay overflows.
\<close>

subsection \<open>Steps of the login\<close>

lemma wp_clock_exact:
  "Q (ev_clock env (id_ticks s)) (s\<lparr>id_ticks := id_ticks s + 1\<rparr>) \<Longrightarrow> wp (clock_now env) Q E s"
  by (simp add: wp_def clock_now_def)

definition code_accepted :: "identity_env \<Rightarrow> account_entry \<Rightarrow> string \<Rightarrow> int \<Rightarrow> bool" where
  "code_accepted env a code step \<longleftrightarrow>
     (\<exists>material sealed secret. ev_material env = Some material \<and> ia_totp_sealed a = Some sealed
        \<and> ev_unseal env sealed (sm_totp_key material) = Some secret
        \<and> ev_totp_at env secret step = Some code)
     \<and> \<bar>step - ev_unix env div totp_interval\<bar> \<le> 1
     \<and> (\<forall>used. ia_totp_last_step a = Some used \<longrightarrow> used < step)"

lemma wp_challenged_step:
  assumes "\<And>e. E e s" and "Q None s"
    and "\<And>step. active \<Longrightarrow> code_accepted env a code step \<Longrightarrow> Q (Some step) s"
    and "active \<Longrightarrow> ia_totp_sealed a \<noteq> None"
  shows "wp (challenged_step env active a code) Q E s"
  unfolding challenged_step_def load_material_def unsealed_secret_def
proof (rule wp_if, rule wp_cbind, rule wp_computed, rule assms(1), rule wp_cbind, rule wp_computed,
    rule assms(1), rule wp_produce)
  fix material secret
  let ?r = "verify_totp (ev_totp_at env) (ev_unix env) secret code (ia_totp_last_step a)"
  assume active: "active" and material: "of_option SecretMaterialUnavailable (ev_material env) = Inr material"
    and secret: "rbind (of_option (IdentityValueError ''unseal'')
      (ev_unseal env (the (ia_totp_sealed a)) (sm_totp_key material))) decode_ascii = Inr secret"
  show "Q ?r s"
  proof (cases ?r)
    case (Some step)
    from verify_totp_Some [OF Some] material secret assms(4) [OF active]
    have "code_accepted env a code step"
      by (auto simp: code_accepted_def res_simps decode_ascii_def split: if_splits)
    from assms(3) [OF active this] Some show ?thesis by simp
  qed (simp add: assms(2))
qed (rule wp_produce, rule assms(2))

lemma wp_changed_accounts:
  assumes "\<And>e. E e s"
    and "Q (map_option f (find p (id_accounts s))) (s\<lparr>id_accounts := set_where p f (id_accounts s)\<rparr>)"
  shows "wp (update_account p f) Q E s"
  unfolding update_account_def
  by (rule wp_statement) (use assms in \<open>auto simp: res_simps changed_rows_Inr\<close>)

lemma wp_changed_challenges:
  assumes "\<And>e. E e s"
    and "Q (map f (filter p (id_challenges s))) (s\<lparr>id_challenges := set_where p f (id_challenges s)\<rparr>)"
  shows "wp (change_challenges p f) Q E s"
  unfolding change_challenges_def
  by (rule wp_statement) (use assms in \<open>auto simp: res_simps changed_rows_Inr\<close>)

lemma wp_changed_sessions:
  assumes "\<And>e. E e s"
    and "Q (map f (filter p (id_sessions s))) (s\<lparr>id_sessions := set_where p f (id_sessions s)\<rparr>)"
  shows "wp (change_sessions p f) Q E s"
  unfolding change_sessions_def
  by (rule wp_statement) (use assms in \<open>auto simp: res_simps changed_rows_Inr\<close>)

lemma wp_issue_result:
  assumes "\<And>x s'. iss_account x = i \<Longrightarrow> iss_kind x = k \<Longrightarrow>
      id_accounts s' = id_accounts s \<Longrightarrow> id_challenges s' = id_challenges s \<Longrightarrow>
      id_policy_reads s' = id_policy_reads s \<Longrightarrow> Q x s'"
    and "\<And>e s'. E e s'"
  shows "wp (issue_session env i k p) Q E s"
  unfolding issue_session_def
  apply (rule wp_cbind, rule wp_clock_exact, rule wp_cbind)
  apply (simp add: wp_def token_urlsafe_def random_uuid_def cbind_def cseq_def produce_def
      insert_session_def statement_def assms split: sum.split)
  apply (auto simp: assms res_simps split: sum.split)
  done

subsection \<open>The second login step\<close>

definition factors :: "identity_state \<Rightarrow> account_entry list \<times> challenge_entry list" where
  "factors s = (id_accounts s, id_challenges s)"

lemma factors_simps [simp]:
  "factors (s\<lparr>id_sessions := x1\<rparr>) = factors s" "factors (s\<lparr>id_audit := x2\<rparr>) = factors s"
  "factors (s\<lparr>id_ticks := n\<rparr>) = factors s" "factors (s\<lparr>id_policy_reads := n\<rparr>) = factors s"
  "factors (s\<lparr>id_tickets := x3\<rparr>) = factors s"
  by (simp_all add: factors_def)

text \<open>What a second login step that issues a session has established.\<close>

definition second_factor_accepted ::
  "identity_env \<Rightarrow> string \<Rightarrow> string \<Rightarrow> identity_state \<Rightarrow> issued_session \<Rightarrow> identity_state \<Rightarrow> bool" where
  "second_factor_accepted env token code s x s' \<longleftrightarrow>
     (\<exists>c a step now. challenge_by_hash (token_hash env token) s = Some (c, a)
        \<and> challenge_active now c a \<and> code_accepted env a code step
        \<and> iss_account x = ia_id a \<and> iss_kind x = FULL
        \<and> (\<exists>d b. challenge_by_hash (token_hash env token) s' = Some (d, b)
             \<and> ch_consumed_at d = Some now \<and> ia_totp_last_step b = Some step))"

lemma keeps_enforce_cap: "keeps factors (enforce_session_cap env i actor now)"
  unfolding enforce_session_cap_def by (intro keeps_rules) simp_all

lemma wp_totp_login_success:
  assumes "\<And>x s'. iss_account x = ch_account c \<Longrightarrow> iss_kind x = FULL \<Longrightarrow> factors s' = factors s \<Longrightarrow>
    Q (Authenticated x) s'" and "\<And>e s'. E e s'"
  shows "wp (totp_login_success env c a now) Q E s"
  unfolding totp_login_success_def
  apply (rule wp_cbind, rule wp_issue_result)
   apply (rule wp_cseq, rule wp_keeps [OF keeps_enforce_cap])
    apply (rule wp_cseq, rule wp_keeps [where f = factors, OF keeps_audit_account], simp)
     apply (rule wp_produce, rule assms(1))
       apply (simp_all add: assms(2))
  apply (simp add: factors_def)
  done

lemma challenge_by_hash_factors:
  "challenge_by_hash h s = (case row_by ch_token_hash h (snd (factors s)) of None \<Rightarrow> None
     | Some c \<Rightarrow> map_option (Pair c) (row_by ia_id (ch_account c) (fst (factors s))))"
  by (simp add: challenge_by_hash_def account_by_id_def factors_def split: option.split)

lemma challenge_by_hash_cong:
  "factors t = factors s \<Longrightarrow> challenge_by_hash h t = challenge_by_hash h s"
  unfolding challenge_by_hash_factors by (simp only:)

lemma wp_login_totp_step:
  "wp (login_totp_step env token code)
    (\<lambda>r s'. \<forall>x. r = Authenticated x \<longrightarrow> second_factor_accepted env token code s x s') (\<lambda>_ _. True) s"
proof -
  let ?Q = "\<lambda>r s'. \<forall>x. r = Authenticated x \<longrightarrow> second_factor_accepted env token code s x s'"
  let ?h = "token_hash env token"
  have denied: "wp (totp_login_failure env c a now) ?Q (\<lambda>_ _. True) t" for c a now t
    unfolding totp_login_failure_def
    by (rule wp_cbind, rule wp_any, rule wp_cseq, rule wp_any, rule wp_produce) simp_all
  show ?thesis
    unfolding login_totp_step_def
    apply (rule wp_cbind, rule wp_clock_exact, rule wp_cbind, rule wp_reading, rule wp_option)
    subgoal by (rule wp_cseq, rule wp_any, rule wp_produce) simp_all
    apply (rule wp_pair, rule wp_cbind, rule wp_challenged_step)
       apply simp
      apply (simp add: denied)
    subgoal premises prems for ca c a step
    proof -
      let ?now = "ev_clock env (id_ticks s)"
      let ?f = "\<lambda>b. b\<lparr>ia_totp_last_step := Some step, ia_updated_at := ?now\<rparr>"
      let ?g = "\<lambda>d. d\<lparr>ch_consumed_at := Some ?now\<rparr>"
      let ?p = "\<lambda>b. ia_id b = ch_account c \<and> step_unused step b"
      let ?q = "\<lambda>d. ch_id d = ch_id c \<and> unspent_challenge d \<and> ?now < ch_expires_at d
        \<and> ch_attempt_count d < ch_attempt_limit d"
      from prems(1,2) have found: "challenge_by_hash ?h s = Some (c, a)"
        using challenge_by_hash_cong [of "s\<lparr>id_ticks := id_ticks s + 1\<rparr>" s ?h] by simp
      then have c: "row_by ch_token_hash ?h (id_challenges s) = Some c"
        and a: "row_by ia_id (ch_account c) (id_accounts s) = Some a"
        by (auto simp: challenge_by_hash_def account_by_id_def split: option.splits)
      have id: "ia_id a = ch_account c" using row_by_Some [where key = ia_id, OF a] by simp
      have unused: "?p a" using prems(4) id
        by (auto simp: code_accepted_def step_unused_def split: option.split)
      have unspent: "?q c" using prems(3) by (simp add: challenge_active_def unspent_challenge_def)
      have accepted: "second_factor_accepted env token code s x s'"
        if "iss_account x = ch_account c" "iss_kind x = FULL"
          "factors s' = (set_where ?p ?f (id_accounts s), set_where ?q ?g (id_challenges s))" for x s'
        unfolding second_factor_accepted_def
        by (rule exI [of _ c], rule exI [of _ a], rule exI [of _ step], rule exI [of _ ?now])
          (use that found prems(3,4) a c id unused unspent in
            \<open>simp add: challenge_by_hash_factors row_by_set_where\<close>)
      show ?thesis
        unfolding option.case update_totp_step_def consume_challenge_def
        apply (rule wp_cbind, rule wp_cbind, rule wp_changed_accounts, simp, rule wp_produce)
        apply (rule wp_if, rule denied)
        apply (rule wp_cbind, rule wp_cbind, rule wp_changed_challenges, simp, rule wp_produce)
        apply (rule wp_if, rule wp_produce, simp)
        apply (rule wp_totp_login_success)
         apply (simp add: accepted factors_def)
        apply simp
        done
    qed
    by (simp add: challenge_active_def)
qed

subsection \<open>The session cap\<close>

definition full_sessions :: "string \<Rightarrow> session_entry list \<Rightarrow> session_entry list" where
  "full_sessions i rows = filter (\<lambda>r. ss_account r = i \<and> ss_kind r = FULL \<and> live_session r) rows"

definition capped :: "identity_env \<Rightarrow> string \<Rightarrow> identity_state \<Rightarrow> bool" where
  "capped env i s \<longleftrightarrow> (\<exists>n p. ev_policy env n = Some p
     \<and> length (full_sessions i (id_sessions s)) \<le> nat (pol_session_cap p))"

lemma evicted_sessions:
  "length (full_sessions i (set_where (\<lambda>r. ss_id r \<in> set (map ss_id (drop n (ranked_full_sessions i rows))))
      (revoked now reason) rows)) \<le> n"
proof -
  let ?ranked = "ranked_full_sessions i rows"
  let ?old = "set (map ss_id (drop n ?ranked))"
  have "full_sessions i (set_where (\<lambda>r. ss_id r \<in> ?old) (revoked now reason) rows)
      = filter (\<lambda>r. ss_id r \<notin> ?old) (full_sessions i rows)" for rows
    by (induction rows) (simp_all add: full_sessions_def set_where_def)
  moreover have "mset (full_sessions i rows) = mset ?ranked"
    by (simp add: full_sessions_def ranked_full_sessions_def)
  then have "length (filter P (full_sessions i rows)) = length (filter P ?ranked)" for P
    by (metis mset_filter size_mset)
  moreover have "filter (\<lambda>r. ss_id r \<notin> ?old) ?ranked = filter (\<lambda>r. ss_id r \<notin> ?old) (take n ?ranked)"
    by (subst append_take_drop_id [of n, symmetric], subst filter_append)
      (simp add: filter_empty_conv)
  ultimately have "length (full_sessions i (set_where (\<lambda>r. ss_id r \<in> ?old) (revoked now reason) rows))
      = length (filter (\<lambda>r. ss_id r \<notin> ?old) (take n ?ranked))" by simp
  also have "\<dots> \<le> length (take n ?ranked)" by (rule length_filter_le)
  finally show ?thesis by simp
qed

lemma capped_cong: "id_sessions t = id_sessions s \<Longrightarrow> capped env i s \<Longrightarrow> capped env i t"
  by (simp add: capped_def)

lemma wp_enforce_cap:
  assumes "\<And>u s'. capped env i s' \<Longrightarrow> Q u s'" and "\<And>e s'. E e s'"
  shows "wp (enforce_session_cap env i actor now) Q E s"
  unfolding enforce_session_cap_def evict_old_full_sessions_def
proof (rule wp_cbind)
  have "wp (get_identity_policy env) (\<lambda>policy t. \<exists>n. ev_policy env n = Some policy) (\<lambda>_ _. True) s"
    by (auto simp: wp_def get_identity_policy_def of_option_def split: option.split)
  then show "wp (get_identity_policy env) (\<lambda>policy. wp (cbind (cbind (reading
      (\<lambda>s. map ss_id (drop (nat (pol_session_cap policy)) (ranked_full_sessions i (id_sessions s)))))
      (\<lambda>old. cbind (change_sessions (\<lambda>r. ss_id r \<in> set old) (revoked now ''SESSION_CAP''))
        (\<lambda>rows. produce (map ss_id rows))))
      (\<lambda>evicted. finalize_revocations env i evicted actor ''session cap'' True)) Q E) E s"
  proof (rule wp_mono)
    fix policy t
    assume policy: "\<exists>n. ev_policy env n = Some policy"
    show "wp (cbind (cbind (reading
        (\<lambda>s. map ss_id (drop (nat (pol_session_cap policy)) (ranked_full_sessions i (id_sessions s)))))
        (\<lambda>old. cbind (change_sessions (\<lambda>r. ss_id r \<in> set old) (revoked now ''SESSION_CAP''))
          (\<lambda>rows. produce (map ss_id rows))))
        (\<lambda>evicted. finalize_revocations env i evicted actor ''session cap'' True)) Q E t"
      apply (rule wp_cbind, rule wp_cbind, rule wp_reading, rule wp_cbind, rule wp_changed_sessions)
       apply (rule assms(2))
      apply (rule wp_produce, rule wp_keeps [where f = id_sessions, OF keeps_finalize_revocations])
         apply simp_all
       apply (rule assms(1))
      subgoal for s'
        using policy evicted_sessions [of i "nat (pol_session_cap policy)" "id_sessions t" now "''SESSION_CAP''"]
        by (auto simp: capped_def)
      by (rule assms(2))
  qed (simp add: assms(2))
qed

lemma wp_totp_login_capped:
  "wp (login_totp_step env token code)
    (\<lambda>r s'. \<forall>x. r = Authenticated x \<longrightarrow> capped env (iss_account x) s') (\<lambda>_ _. True) s"
proof -
  let ?Q = "\<lambda>r s'. \<forall>x. r = Authenticated x \<longrightarrow> capped env (iss_account x) s'"
  have denied: "wp (totp_login_failure env c a now) ?Q (\<lambda>_ _. True) t" for c a now t
    unfolding totp_login_failure_def
    by (rule wp_cbind, rule wp_any, rule wp_cseq, rule wp_any, rule wp_produce) simp_all
  have issued: "wp (totp_login_success env c a now) ?Q (\<lambda>_ _. True) t" for c a now t
    unfolding totp_login_success_def
    apply (rule wp_cbind, rule wp_issue_result, rule wp_cseq, rule wp_enforce_cap)
      apply (rule wp_cseq, rule wp_keeps [where f = id_sessions, OF keeps_audit_account], simp)
       apply (rule wp_produce, auto intro: capped_cong)
    done
  show ?thesis
    unfolding login_totp_step_def
    apply (rule wp_cbind, rule wp_any, rule wp_cbind, rule wp_reading, rule wp_option)
      apply (rule wp_cseq, rule wp_any, rule wp_produce, simp, simp)
     apply (rule wp_pair, rule wp_cbind, rule wp_any, rule wp_option, rule denied)
      apply (rule wp_cbind, rule wp_any, rule wp_if, rule denied)
       apply (rule wp_cbind, rule wp_any, rule wp_if, rule wp_produce, simp, rule issued)
       apply simp_all
    done
qed

lemma wp_confirm_capped:
  "wp (confirm_totp env token code)
    (\<lambda>r s'. \<forall>x. r = Confirmed x \<longrightarrow> capped env (iss_account x) s') (\<lambda>_ _. True) s"
proof -
  let ?Q = "\<lambda>r s'. \<forall>x. r = Confirmed x \<longrightarrow> capped env (iss_account x) s'"
  have completed: "wp (complete_bootstrap env purpose r a step) ?Q (\<lambda>_ _. True) t" for purpose r a step t
    unfolding complete_bootstrap_def
    apply (rule wp_cbind, rule wp_any, rule wp_cseq, rule wp_any, rule wp_cbind, rule wp_any)
       apply (rule wp_cseq, rule wp_any, rule wp_cbind, rule wp_issue_result)
        apply (rule wp_cseq, rule wp_enforce_cap)
         apply (rule wp_cseq, rule wp_keeps [where f = id_sessions, OF keeps_audit_account], simp)
          apply (rule wp_cseq, rule wp_keeps [where f = id_sessions, OF keeps_notify], simp)
           apply (rule wp_produce, auto intro: capped_cong)
    done
  have failed: "wp (confirm_failure env r actor policy) ?Q (\<lambda>_ _. True) t" for r actor policy t
    unfolding confirm_failure_def
    by (rule wp_cbind, rule wp_any, rule wp_cseq, rule wp_any, rule wp_cseq, rule wp_any, rule wp_produce)
      simp_all
  show ?thesis
    unfolding confirm_totp_def Let_def
    apply (rule wp_cbind, rule wp_any)
     apply (simp split: sum.split, intro allI impI conjI, rule wp_produce, simp)
     apply (rule wp_cbind, rule wp_any, rule wp_cseq, rule wp_any, rule wp_cseq, rule wp_any)
        apply (rule wp_cbind, rule wp_any, rule wp_if)
          apply (rule wp_cseq, rule wp_any, rule wp_cseq, rule wp_any, rule wp_produce, simp_all)
      apply (rule wp_cbind, rule wp_any, rule wp_cbind, rule wp_any)
        apply (auto split: option.split intro: failed completed)
    done
qed

section \<open>The identity module: the login backoff\<close>

text \<open>
  What a wrong password records for its employee number and source, how long that denies the next
  attempts, and the failure count from which the delay can no longer be computed.
\<close>

definition counted_failures :: "identity_policy \<Rightarrow> instant \<Rightarrow> backoff_entry option \<Rightarrow> int" where
  "counted_failures p now row = (case row of None \<Rightarrow> 0 | Some b \<Rightarrow>
     (case lb_last_failure_at b of None \<Rightarrow> 0
      | Some t \<Rightarrow> if now - t < pol_backoff_reset p then lb_failure_count b else 0))"

definition lock_delay :: "identity_policy \<Rightarrow> int \<Rightarrow> duration" where
  "lock_delay p n = min (pol_backoff_initial p * 2 ^ nat (n - pol_backoff_threshold p)) (pol_backoff_max p)"

lemma wp_policy_exact:
  assumes "ev_policy env (id_policy_reads s) = Some p"
    and "Q p (s\<lparr>id_policy_reads := id_policy_reads s + 1\<rparr>)"
  shows "wp (get_identity_policy env) Q E s"
  using assms by (simp add: wp_def get_identity_policy_def)

lemma wp_save_backoff:
  assumes "\<And>e. E e s"
    and "\<And>s'. backoff_row_ok \<lparr>lb_employee_no = e, lb_source = so, lb_failure_count = n,
          lb_last_failure_at = t, lb_locked_until = u\<rparr> \<Longrightarrow>
        backoff_by_scope e so s' = Some \<lparr>lb_employee_no = e, lb_source = so, lb_failure_count = n,
          lb_last_failure_at = t, lb_locked_until = u\<rparr> \<Longrightarrow>
        tables s' = tables s \<Longrightarrow> Q () s'"
  shows "wp (save_backoff e so n t u) Q E s"
  unfolding save_backoff_def
proof (rule wp_statement, rule assms(1))
  let ?b = "\<lparr>lb_employee_no = e, lb_source = so, lb_failure_count = n, lb_last_failure_at = t,
    lb_locked_until = u\<rparr>"
  fix x s'
  assume "(let b = ?b in if \<not> backoff_row_ok b then Inl (IdentityIntegrityError ''login_backoff'')
      else Inr ((), s\<lparr>id_backoffs := (if backoff_by_scope e so s = None then id_backoffs s @ [b]
        else set_where (\<lambda>x. backoff_scope x = (e, so)) (\<lambda>_. b) (id_backoffs s))\<rparr>)) = Inr (x, s')"
  then have ok: "backoff_row_ok ?b" and s': "s' = s\<lparr>id_backoffs :=
      (if backoff_by_scope e so s = None then id_backoffs s @ [?b]
       else set_where (\<lambda>x. backoff_scope x = (e, so)) (\<lambda>_. ?b) (id_backoffs s))\<rparr>"
    by (auto simp: Let_def split: if_splits)
  have scope: "backoff_scope ?b = (e, so)" by (simp add: backoff_scope_def)
  have replaced: "row_by backoff_scope (e, so) (set_where (\<lambda>x. backoff_scope x = (e, so)) (\<lambda>_. ?b) rows)
      = Some ?b" if "row_by backoff_scope (e, so) rows \<noteq> None" for rows
    using that by (induction rows) (auto simp: set_where_def scope)
  have "backoff_by_scope e so s' = Some ?b"
    using replaced [of "id_backoffs s"] scope
    by (simp add: s' backoff_by_scope_def row_by_append)
  then show "Q x s'" using assms(2) [OF ok] by (simp add: s')
qed

lemma cbind_readings:
  "cbind (clock_now env) f s = f (ev_clock env (id_ticks s)) (s\<lparr>id_ticks := id_ticks s + 1\<rparr>)"
  "ev_policy env (id_policy_reads s) = Some p \<Longrightarrow>
   cbind (get_identity_policy env) g s = g p (s\<lparr>id_policy_reads := id_policy_reads s + 1\<rparr>)"
  "cbind (reading h) k s = k (h s) s"
  by (simp_all add: cbind_def clock_now_def get_identity_policy_def reading_def)

lemma record_failure_eq:
  fixes env :: identity_env and e so :: string and s :: identity_state
  assumes "ev_policy env (id_policy_reads s) = Some p"
  defines "now \<equiv> ev_clock env (id_ticks s)"
  defines "n \<equiv> counted_failures p now (backoff_by_scope e so s) + 1"
  shows "record_password_failure env e so s =
    cbind (if pol_backoff_threshold p \<le> n
        then cbind (computed (backoff_delay p n)) (\<lambda>d. produce (Some (now + d))) else produce None)
      (\<lambda>u. save_backoff e so n (Some now) u)
      (s\<lparr>id_ticks := id_ticks s + 1, id_policy_reads := id_policy_reads s + 1\<rparr>)"
proof -
  have row: "backoff_by_scope e so (s\<lparr>id_ticks := i, id_policy_reads := j\<rparr>) = backoff_by_scope e so s"
    for i j by (simp add: backoff_by_scope_def)
  have count: "(case backoff_by_scope e so s of None \<Rightarrow> 1 | Some b \<Rightarrow>
       (case lb_last_failure_at b of None \<Rightarrow> 1
        | Some t \<Rightarrow> if ev_clock env (id_ticks s) - t < pol_backoff_reset p
           then lb_failure_count b + 1 else 1)) = n"
    by (simp add: counted_failures_def n_def now_def split: option.split)
  show ?thesis
    unfolding record_password_failure_def Let_def
    by (simp add: cbind_readings assms(1) row count) (simp add: now_def)
qed

lemma wp_record_failure:
  assumes "ev_policy env (id_policy_reads s) = Some p"
    and "\<And>s' b. backoff_by_scope e so s' = Some b \<Longrightarrow> tables s' = tables s \<Longrightarrow>
      lb_failure_count b = counted_failures p (ev_clock env (id_ticks s)) (backoff_by_scope e so s) + 1 \<Longrightarrow>
      lb_last_failure_at b = Some (ev_clock env (id_ticks s)) \<Longrightarrow>
      lb_locked_until b = (if pol_backoff_threshold p \<le> lb_failure_count b
        then Some (ev_clock env (id_ticks s) + lock_delay p (lb_failure_count b)) else None) \<Longrightarrow> Q () s'"
    and "\<And>e s'. E e s'"
  shows "wp (record_password_failure env e so) Q E s"
  unfolding wp_def record_failure_eq [OF assms(1)] unfolding wp_def [symmetric]
  apply (rule wp_cbind, rule wp_if, rule wp_cbind, rule wp_computed, rule assms(3), rule wp_produce)
   apply (rule wp_save_backoff, rule assms(3), rule assms(2), assumption)
       apply (auto simp: backoff_delay_def lock_delay_def Let_def split: if_splits) [4]
  apply (rule wp_produce, rule wp_save_backoff, rule assms(3), rule assms(2), assumption)
     apply auto
  done

text \<open>The check before a login, when the scope is locked.\<close>

lemma check_locked:
  assumes "\<not> blank so" and "ev_policy env (id_policy_reads s) = Some p"
    and "backoff_by_scope e so s = Some b" and "lb_last_failure_at b = Some t"
    and "ev_clock env (id_ticks s) - t < pol_backoff_reset p"
    and "lb_locked_until b = Some u" and "ev_clock env (id_ticks s) < u"
  shows "check_backoff env e so s =
    (Inr (Some \<lparr>dn_code = BACKOFF_ACTIVE,
       dn_retry_after = Some (max 1 ((u - ev_clock env (id_ticks s)) div a_second)),
       dn_challenge_state = None\<rparr>),
     s\<lparr>id_ticks := id_ticks s + 1, id_policy_reads := id_policy_reads s + 1\<rparr>)"
  using assms
  by (simp add: check_backoff_def cseq_def cbind_def guarded_def clock_now_def get_identity_policy_def
      reading_def produce_def backoff_by_scope_def)

text \<open>The row a wrong password finds when the attempt itself was not denied.\<close>

lemma check_unlocked:
  assumes "\<not> blank so" and "ev_policy env (id_policy_reads s) = Some p"
    and "backoff_by_scope e so s = Some b" and "lb_last_failure_at b = Some t"
    and "ev_clock env (id_ticks s) - t < pol_backoff_reset p"
    and "\<And>u. lb_locked_until b = Some u \<Longrightarrow> u \<le> ev_clock env (id_ticks s)"
  shows "check_backoff env e so s =
    (Inr None, s\<lparr>id_ticks := id_ticks s + 1, id_policy_reads := id_policy_reads s + 1\<rparr>)"
  using assms
  by (auto simp: check_backoff_def cseq_def cbind_def guarded_def clock_now_def
      get_identity_policy_def reading_def produce_def backoff_by_scope_def split: option.split)

end
