(* ===== verification/Identity_Demo.thy ===== *)
theory Identity_Demo
  imports Identity_Factors
begin

section \<open>The identity module: a first Super Admin, from bootstrap to login\<close>

text \<open>
  A small history on an empty database, the concrete input of the witnesses: the first Super Admin
  is bootstrapped from the command line, logs in with the temporary password, sets a password,
  enrols and confirms a TOTP secret, and later logs in with both factors. The cryptography of
  \<open>demo_identity\<close> is transparent; its clock stands still during a command.
\<close>

definition demo_code :: "int \<Rightarrow> string" where
  "demo_code step = (if step = 10 then ''000010'' else if step = 20 then ''000020'' else ''000000'')"

definition demo_identity :: "instant \<Rightarrow> int \<Rightarrow> identity_env" where
  "demo_identity now unix = \<lparr>ev_clock = (\<lambda>_. now), ev_policy = (\<lambda>_. Some default_identity_policy),
     ev_uuid = (\<lambda>n. CHR ''i'' # replicate n CHR ''u''), ev_token = (\<lambda>n. CHR ''k'' # replicate n CHR ''t''),
     ev_totp_secret = ''S'',
     ev_material = Some \<lparr>sm_pepper = ''p'', sm_totp_key = ''q'', sm_idempotency_key = ''r''\<rparr>,
     ev_unix = unix, ev_sha256 = (\<lambda>x. x), ev_hash = (\<lambda>x y. y @ x), ev_verify = (\<lambda>x h y. h = y @ x),
     ev_seal = (\<lambda>x k. Some (k @ x)), ev_unseal = (\<lambda>y k. Some (drop (length k) y)),
     ev_totp_at = (\<lambda>_ step. Some (demo_code step)), ev_totp_uri = (\<lambda>x y. x @ y),
     ev_binding_hash = (\<lambda>_. ''b''), ev_isoformat = (\<lambda>_. ''now''), ev_request_id = None,
     ev_audit_id = (\<lambda>n. replicate n CHR ''a''), ev_audit_at = (\<lambda>_. now), ev_correlation = (\<lambda>_. ''c''),
     ev_on_auth_change = (\<lambda>_. Some None), ev_source = False\<rparr>"

definition demo_seal :: sealer where
  "demo_seal = \<lparr>seal = (\<lambda>_. ''s''), unseal = (\<lambda>_. None), request_fingerprint = (\<lambda>p _ _ _. p)\<rparr>"

definition demo_changes :: security_changes where
  "demo_changes = \<lparr>sc_complete = (\<lambda>_. True), sc_claim_status = (\<lambda>_. None)\<rparr>"

definition demo_account :: account_dto where
  "demo_account = \<lparr>dto_id = ''i'', dto_employee_no = ''00000001'', dto_display_name = ''Ann'',
     dto_profession = None, dto_status = PENDING_INIT, dto_password_set_at = None,
     dto_totp_confirmed_at = None, dto_super_admin = True, dto_version = 2\<rparr>"

definition demo_accounts :: account_codec where
  "demo_accounts = \<lparr>ac_dump = (\<lambda>_. PyNone), ac_validate = (\<lambda>_. Some demo_account)\<rparr>"

definition demo_call :: "string \<Rightarrow> idem_request" where
  "demo_call key = \<lparr>iq_actor = ''a'', iq_operation = ''o'', iq_key = key, iq_fingerprint = ''f'',
     iq_record_id = key, iq_claim_now = 0, iq_complete_now = 0\<rparr>"

definition demo_step :: "instant \<Rightarrow> int \<Rightarrow> string \<Rightarrow> identity_request \<Rightarrow> identity_state \<Rightarrow> identity_state" where
  "demo_step now unix key r s =
     snd (identity_execute demo_seal demo_changes (demo_call key) (route_of (demo_identity now unix) r) s)"

definition demo_boot :: "identity_state \<Rightarrow> (identity_error idem_error, cli_execution \<times> identity_state) res" where
  "demo_boot = bootstrap_super_admin_cli (demo_identity 0 0) demo_seal demo_accounts ''00000001'' ''Ann''"

definition after_boot :: "(identity_error idem_error, cli_execution \<times> identity_state) res \<Rightarrow> identity_state" where
  "after_boot r = (case r of Inl e \<Rightarrow> empty_identity_state | Inr (x, s) \<Rightarrow> s)"

definition demo_booted :: identity_state where
  "demo_booted = after_boot (demo_boot empty_identity_state)"

definition demo_enabled :: "identity_state \<Rightarrow> identity_state" where
  "demo_enabled s =
     demo_step 4 300 ''4'' (ConfirmRequest (Some ''kt'') ''000010'')
    (demo_step 3 300 ''3'' (EnrollRequest (Some ''kt''))
    (demo_step 2 300 ''2'' (PasswordRequest (Some ''kt'') ''Correct-Horse-9x'')
    (demo_step 1 300 ''1'' (LoginRequest ''00000001'' ''k'' ''host'') s)))"

definition demo_challenged :: "identity_state \<Rightarrow> identity_state" where
  "demo_challenged s = demo_step 5 600 ''5'' (LoginRequest ''00000001'' ''Correct-Horse-9x'' ''host'') s"

definition demo_code_used :: "(identity_error, totp_result) res \<Rightarrow> bool" where
  "demo_code_used r = (case r of Inr (Authenticated x) \<Rightarrow> iss_account x = ''i'' | _ \<Rightarrow> False)"

definition demo_binding :: policy_reauth_binding where
  "demo_binding = \<lparr>rb_actor = ''i'', rb_operation = ''POLICY_PUBLISH'', rb_namespace = ''n'',
     rb_scope = ''s'', rb_draft = ''d'', rb_draft_revision = 1, rb_content_hash = ''h'',
     rb_schema_revision = 1, rb_base_version = 1, rb_dependencies = [], rb_attempt = ''x'',
     rb_fingerprint = ''f''\<rparr>"

definition demo_reauthentication :: "identity_state \<Rightarrow> (identity_error, reauth_receipt) res \<times> identity_state" where
  "demo_reauthentication =
     verify_and_consume_policy_reauth (demo_identity 6 600) True ''ktt'' ''000020'' demo_binding ''x''"

definition demo_login :: "identity_state \<Rightarrow> (identity_error, totp_result) res \<times> identity_state" where
  "demo_login = login_totp_step (demo_identity 6 600) ''kttt'' ''000020''"

definition returns :: "('e, 'a) res \<Rightarrow> bool" where
  "returns r = (case r of Inl e \<Rightarrow> False | Inr x \<Rightarrow> True)"

text \<open>The history, evaluated once.\<close>

lemma demo_evaluated:
  "returns (demo_boot empty_identity_state)
   \<and> (let s = demo_enabled demo_booted; t = demo_challenged s in
      list_ex effective_row (id_accounts s) \<and> account_by_id ''i'' s \<noteq> None
      \<and> list_ex (\<lambda>r. ss_kind r = FULL \<and> live_session r) (id_sessions s)
      \<and> list_ex (\<lambda>r. ss_kind r = FULL) (id_sessions t)
      \<and> returns (fst (demo_reauthentication s)) \<and> demo_code_used (fst (demo_login t)))"
  by code_simp

lemmas demo_facts = demo_evaluated [unfolded Let_def]

subsection \<open>The history as steps\<close>

lemma demo_step_step: "ok r \<Longrightarrow> identity_step ok lost s (demo_step now unix key r s)"
  unfolding demo_step_def by (rule Route [OF prod.collapse [symmetric]])

lemma demo_boot_step: "identity_step ok lost empty_identity_state demo_booted"
proof -
  from demo_facts obtain x s where "demo_boot empty_identity_state = Inr (x, s)"
    by (auto simp: returns_def split: sum.splits)
  then show ?thesis
    unfolding demo_booted_def after_boot_def by (auto simp: demo_boot_def intro: Bootstrap)
qed

lemma demo_step_steps:
  "(identity_step ok lost)\<^sup>*\<^sup>* s t \<Longrightarrow> ok r \<Longrightarrow> (identity_step ok lost)\<^sup>*\<^sup>* s (demo_step now unix key r t)"
  by (erule rtranclp.rtrancl_into_rtrancl) (rule demo_step_step)

lemma demo_identity_reachable: "identity_reachable (demo_enabled demo_booted)"
  unfolding identity_reachable_def demo_enabled_def
  by (intro demo_step_steps r_into_rtranclp demo_boot_step) simp_all

lemma demo_login_steps:
  "ok (LoginRequest ''00000001'' ''Correct-Horse-9x'' ''host'') \<Longrightarrow>
   (identity_step ok lost)\<^sup>*\<^sup>* s (demo_challenged s)"
  unfolding demo_challenged_def by (rule demo_step_steps) simp_all

lemma demo_logged_in:
  obtains x s' where "login_totp_step (demo_identity 6 600) ''kttt'' ''000020''
    (demo_challenged (demo_enabled demo_booted)) = (Inr (Authenticated x), s')"
proof (cases "demo_login (demo_challenged (demo_enabled demo_booted))")
  case (Pair r s')
  with demo_facts have "demo_code_used r" by simp
  then obtain x where "r = Inr (Authenticated x)"
    by (auto simp: demo_code_used_def split: sum.splits totp_result.splits)
  with Pair that show thesis by (simp add: demo_login_def)
qed

lemma demo_reauthenticated:
  obtains receipt s' where "demo_reauthentication (demo_enabled demo_booted) = (Inr receipt, s')"
proof (cases "demo_reauthentication (demo_enabled demo_booted)")
  case (Pair r s')
  with demo_facts have "returns r" by simp
  with Pair that show thesis by (auto simp: returns_def split: sum.splits)
qed

lemma demo_policy: "ev_policy (demo_identity now unix) n = Some default_identity_policy"
  by (simp add: demo_identity_def)

lemma demo_clock: "ev_clock (demo_identity now unix) n = now"
  by (simp add: demo_identity_def)

lemma demo_session_account:
  "login_totp_step (demo_identity 6 600) ''kttt'' ''000020'' (demo_challenged (demo_enabled demo_booted))
     = (Inr (Authenticated x), s') \<Longrightarrow> iss_account x = ''i''"
  using demo_facts by (simp add: demo_login_def demo_code_used_def)

text \<open>A scope with four failures behind it, and one with more than a thousand.\<close>

definition demo_failures :: "int \<Rightarrow> identity_state" where
  "demo_failures n = empty_identity_state\<lparr>
     id_accounts := [(new_account ''i'' ''00000001'' ''Ann'' None ENABLED 0)\<lparr>ia_password_hash := Some ''pw''\<rparr>],
     id_backoffs := [\<lparr>lb_employee_no = ''00000001'', lb_source = ''host'', lb_failure_count = n,
       lb_last_failure_at = Some 0, lb_locked_until = None\<rparr>]\<rparr>"

lemma demo_failure_recorded:
  obtains s' where
    "record_password_failure (demo_identity 1 0) ''00000001'' ''host'' (demo_failures 4) = (Inr (), s')"
proof (cases "record_password_failure (demo_identity 1 0) ''00000001'' ''host'' (demo_failures 4)")
  case (Pair r s')
  have "(case record_password_failure (demo_identity 1 0) ''00000001'' ''host'' (demo_failures 4) of
      (r, s) \<Rightarrow> returns r)" by code_simp
  with Pair that show thesis by (auto simp: returns_def split: sum.splits)
qed

end
