(* ===== verification/Identity_Properties.thy ===== *)
theory Identity_Properties
  imports Identity_Demo
begin

section \<open>The identity module: properties\<close>

text \<open>
  What the platform relies on in its identity module, over every reachable history of
  \<open>Identity_Safety\<close> and for single operations, with the history of \<open>Identity_Demo\<close> as the witness.
\<close>

text \<open>
  C5: Once some Super Admin is effective (enabled, with a password and a confirmed TOTP secret),
  every later state has an effective one, whatever the requests, validations, reauthentications
  and command line entries in between, as long as no break-glass recovery declares credentials lost.
\<close>

theorem super_admin_remains:
  assumes "identity_reachable s" and "a \<in> set (id_accounts s)" and "effective_row a"
    and "(identity_step any_request False)\<^sup>*\<^sup>* s t"
  shows "\<exists>b \<in> set (id_accounts t). effective_row b"
proof -
  from sound_reachable [OF assms(1)] assms(2,3) have "sound True {} (core s)"
    by (auto simp: sound_def core_def)
  from sound_steps [OF assms(4) _ this] show ?thesis by (simp add: sound_def core_def)
qed

theorem super_admin_remains_witness:
  "\<exists>b \<in> set (id_accounts (demo_challenged (demo_enabled demo_booted))). effective_row b"
proof -
  from demo_facts obtain a where "a \<in> set (id_accounts (demo_enabled demo_booted))" "effective_row a"
    by (auto simp: list_ex_iff)
  from super_admin_remains [OF demo_identity_reachable this demo_login_steps] show ?thesis by simp
qed

text \<open>
  C10: Over every reachable history a session that is not revoked fits its account: a FULL one
  belongs to an enabled account with a password and a confirmed TOTP secret, one for an expired
  password to an enabled account, and one for the initial setup or a password reset to an account
  that is pending, so disabling or resetting an account leaves it no session it could go on with.
\<close>

theorem live_sessions_fit:
  assumes "identity_reachable s" and "r \<in> set (id_sessions s)" and "live_session r"
  shows "\<exists>a \<in> set (id_accounts s). ia_id a = ss_account r
    \<and> (ss_kind r = FULL \<longrightarrow> ia_status a = ENABLED \<and> ia_password_hash a \<noteq> None
        \<and> ia_totp_confirmed_at a \<noteq> None \<and> ia_totp_sealed a \<noteq> None)
    \<and> (ss_kind r = BOOTSTRAP \<longrightarrow>
        ia_status a = (if ss_purpose r = Some PASSWORD_EXPIRED then ENABLED else PENDING_INIT))"
proof -
  from sound_reachable [OF assms(1)] assms(2,3) obtain a where a: "a \<in> set (id_accounts s)"
    "ia_id a = ss_account r" "session_fits a r" and "account_sound a"
    by (fastforce simp: sound_def core_def)
  then show ?thesis by (intro bexI [of _ a]) (auto simp: session_fits_def account_sound_def)
qed

theorem live_sessions_fit_witness:
  "\<exists>r \<in> set (id_sessions (demo_enabled demo_booted)). ss_kind r = FULL
    \<and> (\<exists>a \<in> set (id_accounts (demo_enabled demo_booted)). ia_id a = ss_account r \<and> ia_status a = ENABLED)"
proof -
  from demo_facts obtain r where r: "r \<in> set (id_sessions (demo_enabled demo_booted))"
    "ss_kind r = FULL" "live_session r" by (auto simp: list_ex_iff)
  from live_sessions_fit [OF demo_identity_reachable r(1,3)] r(1,2) show ?thesis by (intro bexI [of _ r]) auto
qed

text \<open>
  C11: A FULL session comes only from a second factor: in a history without a request to the second
  login step or to the confirmation of a TOTP secret, whatever else happens, every FULL session
  was there before, with the same token and the same account.
\<close>

theorem full_session_needs_second_factor:
  assumes "(identity_step (\<lambda>r. \<not> second_factor_request r) lost)\<^sup>*\<^sup>* s t"
    and "q \<in> set (id_sessions t)" and "ss_kind q = FULL"
  shows "\<exists>r \<in> set (id_sessions s). ss_kind r = FULL \<and> ss_id r = ss_id q
    \<and> ss_token_hash r = ss_token_hash q \<and> ss_account r = ss_account q"
proof -
  have "evolves {BOOTSTRAP} s t" by (rule evolves_steps [OF assms(1)]) simp_all
  then have "grows session_step (\<lambda>r. ss_kind r \<in> {BOOTSTRAP}) (id_sessions s) (id_sessions t)"
    by (simp add: evolves_def)
  from grows_back [OF this assms(2)] assms(3) obtain r where "r \<in> set (id_sessions s)" "session_step r q"
    by auto
  with assms(3) show ?thesis by (intro bexI [of _ r]) (simp_all add: session_step_def)
qed

theorem full_session_needs_second_factor_witness:
  "\<exists>r \<in> set (id_sessions (demo_enabled demo_booted)). ss_kind r = FULL"
proof -
  from demo_facts obtain q where q: "q \<in> set (id_sessions (demo_challenged (demo_enabled demo_booted)))"
    "ss_kind q = FULL" by (auto simp: list_ex_iff)
  have "(identity_step (\<lambda>r. \<not> second_factor_request r) False)\<^sup>*\<^sup>* (demo_enabled demo_booted)
    (demo_challenged (demo_enabled demo_booted))"
    by (rule demo_login_steps) (simp add: second_factor_request_def)
  from full_session_needs_second_factor [OF this q] show ?thesis by blast
qed

text \<open>
  C8: The second login step issues a session only for both factors, and uses both up: there was an
  active login challenge of an enabled account for the token, the code is the one of the account's secret at a step of the window that is later than every step
  used before; afterwards the challenge is consumed and the step is the account's last used one.
\<close>

theorem totp_login_uses_both_factors:
  assumes "login_totp_step env token code s = (Inr (Authenticated x), s')"
  shows "second_factor_accepted env token code s x s'"
  using wp_Inr [OF wp_login_totp_step assms] by simp

theorem totp_login_uses_both_factors_witness:
  "\<exists>x s'. second_factor_accepted (demo_identity 6 600) ''kttt'' ''000020''
    (demo_challenged (demo_enabled demo_booted)) x s'"
proof -
  obtain x s' where "login_totp_step (demo_identity 6 600) ''kttt'' ''000020''
    (demo_challenged (demo_enabled demo_booted)) = (Inr (Authenticated x), s')" by (rule demo_logged_in)
  from totp_login_uses_both_factors [OF this] show ?thesis by blast
qed

text \<open>
  C17: A login challenge is redeemed at most once: after it has led to a session, no later second
  login step with its token issues another, whatever happened in between and whatever the code.
\<close>

theorem challenge_redeemed_once:
  assumes "login_totp_step env token code s = (Inr (Authenticated x), s')"
    and "(identity_step any_request lost)\<^sup>*\<^sup>* (s'\<lparr>id_keys := keys\<rparr>) t"
    and "token_hash env' token' = token_hash env token"
  shows "fst (login_totp_step env' token' code' t) \<noteq> Inr (Authenticated y)"
proof
  let ?h = "token_hash env token"
  from wp_Inr [OF wp_login_totp_step assms(1)] obtain d b where
    "challenge_by_hash ?h s' = Some (d, b)" "ch_consumed_at d \<noteq> None"
    by (auto simp: second_factor_accepted_def)
  then have d: "row_by ch_token_hash ?h (id_challenges (s'\<lparr>id_keys := keys\<rparr>)) = Some d"
    "\<not> unspent_challenge d"
    by (auto simp: challenge_by_hash_def unspent_challenge_def split: option.splits)
  from evolves_history [OF assms(2)]
  have "grows challenge_step (\<lambda>c. ch_attempt_count c \<le> ch_attempt_limit c)
    (id_challenges (s'\<lparr>id_keys := keys\<rparr>)) (id_challenges t)" by (simp add: evolves_def)
  from grows_row_by [where key = ch_token_hash, OF this d(1)] obtain e where
    e: "row_by ch_token_hash ?h (id_challenges t) = Some e" "challenge_step d e"
    by (auto simp: challenge_step_def)
  assume "fst (login_totp_step env' token' code' t) = Inr (Authenticated y)"
  then obtain t' where "login_totp_step env' token' code' t = (Inr (Authenticated y), t')"
    by (metis prod.collapse)
  from wp_Inr [OF wp_login_totp_step this] assms(3) obtain c a now where
    "challenge_by_hash ?h t = Some (c, a)" "challenge_active now c a"
    by (auto simp: second_factor_accepted_def)
  with e d(2) show False
    by (auto simp: challenge_by_hash_def challenge_active_def unspent_challenge_def
        challenge_step_def split: option.splits)
qed

theorem challenge_redeemed_once_witness:
  "\<forall>y. fst (login_totp_step (demo_identity 7 600) ''kttt'' ''000020'' (demo_challenged
    (snd (demo_login (demo_challenged (demo_enabled demo_booted)))\<lparr>id_keys := []\<rparr>)))
    \<noteq> Inr (Authenticated y)"
proof -
  obtain x s' where s': "login_totp_step (demo_identity 6 600) ''kttt'' ''000020''
    (demo_challenged (demo_enabled demo_booted)) = (Inr (Authenticated x), s')" by (rule demo_logged_in)
  from challenge_redeemed_once [OF this demo_login_steps,
      where keys = "[]" and env' = "demo_identity 7 600" and token' = "''kttt''"]
  show ?thesis by (simp add: s' demo_login_def token_hash_def) (simp add: demo_identity_def)
qed

text \<open>
  C20: The version of an account, the ETag that its writers have to name, identifies its security
  state: as long as the version of an account is the same in two states of a history, so are its
  status, its password, its TOTP secret and its Super Admin flag, and its last used TOTP step has
  not gone back.
\<close>

theorem version_identifies_account:
  assumes "(identity_step any_request lost)\<^sup>*\<^sup>* s t" and "account_by_id i s = Some a"
  shows "\<exists>b. account_by_id i t = Some b \<and> ia_employee_no b = ia_employee_no a
    \<and> ia_version a \<le> ia_version b
    \<and> (ia_version b = ia_version a \<longrightarrow> ia_status b = ia_status a
        \<and> ia_password_hash b = ia_password_hash a \<and> ia_totp_sealed b = ia_totp_sealed a
        \<and> ia_totp_confirmed_at b = ia_totp_confirmed_at a \<and> ia_super_admin b = ia_super_admin a
        \<and> (\<forall>k. ia_totp_last_step a = Some k \<longrightarrow> (\<exists>l. ia_totp_last_step b = Some l \<and> k \<le> l)))"
proof -
  from evolves_history [OF assms(1)] have "grows account_step (\<lambda>a. True) (id_accounts s) (id_accounts t)"
    by (simp add: evolves_def)
  from grows_row_by [where key = ia_id, OF this assms(2) [unfolded account_by_id_def]]
  obtain b where "row_by ia_id i (id_accounts t) = Some b" "account_step a b"
    by (auto simp: account_step_def)
  then show ?thesis
    by (auto simp: account_by_id_def account_step_def step_order_def split: option.splits)
qed

theorem version_identifies_account_witness:
  "\<exists>a b. account_by_id ''i'' (demo_enabled demo_booted) = Some a
    \<and> account_by_id ''i'' (demo_challenged (demo_enabled demo_booted)) = Some b \<and> ia_version a \<le> ia_version b"
proof -
  from demo_facts obtain a where a: "account_by_id ''i'' (demo_enabled demo_booted) = Some a" by auto
  from version_identifies_account [OF demo_login_steps this] a show ?thesis by auto
qed

text \<open>
  A policy reauthentication is consumed at most once per attempt: after one succeeded, no later
  one for the same actor and attempt does, with whatever session, code and binding.
\<close>

theorem reauthentication_once:
  assumes "verify_and_consume_policy_reauth env commits token code binding attempt s = (Inr receipt, s')"
    and "(identity_step any_request lost)\<^sup>*\<^sup>* s' t" and "rb_actor binding' = rb_actor binding"
  shows "fst (verify_and_consume_policy_reauth env' commits' token' code' binding' attempt t) \<noteq> Inr receipt'"
proof
  assume "fst (verify_and_consume_policy_reauth env' commits' token' code' binding' attempt t) = Inr receipt'"
  then obtain t' where
    "verify_and_consume_policy_reauth env' commits' token' code' binding' attempt t = (Inr receipt', t')"
    by (metis prod.collapse)
  from consumed_Inr [OF verified_Inr [OF this]]
  have "\<not> attempt_consumed (rb_actor binding) attempt t" by (simp add: assms(3))
  moreover have "grows (=) (\<lambda>c. True) (id_consumptions s') (id_consumptions t)"
    using evolves_history [OF assms(2)] by (simp add: evolves_def)
  moreover have "attempt_consumed (rb_actor binding) attempt s'"
    using consumed_Inr [OF verified_Inr [OF assms(1)]] by simp
  ultimately show False by (auto simp: attempt_consumed_def list_ex_iff elim: grows_mem)
qed

theorem reauthentication_once_witness:
  "\<forall>receipt. fst (demo_reauthentication (demo_challenged
    (snd (demo_reauthentication (demo_enabled demo_booted))))) \<noteq> Inr receipt"
proof -
  obtain receipt s' where s': "demo_reauthentication (demo_enabled demo_booted) = (Inr receipt, s')"
    by (rule demo_reauthenticated)
  from reauthentication_once [OF this [unfolded demo_reauthentication_def] demo_login_steps refl]
  show ?thesis unfolding s' snd_conv by (simp add: demo_reauthentication_def)
qed

text \<open>
  C26: Whichever way a FULL session is issued, by the second login step or by confirming a TOTP
  secret, the account has afterwards at most as many FULL sessions that are not revoked as the
  effective policy allows.
\<close>

theorem session_cap_enforced:
  assumes "login_totp_step env token code s = (Inr (Authenticated x), s')
    \<or> confirm_totp env token code s = (Inr (Confirmed x), s')"
  shows "\<exists>n p. ev_policy env n = Some p \<and> length (filter (\<lambda>r. ss_account r = iss_account x
    \<and> ss_kind r = FULL \<and> live_session r) (id_sessions s')) \<le> nat (pol_session_cap p)"
  using assms wp_Inr [OF wp_totp_login_capped] wp_Inr [OF wp_confirm_capped]
  unfolding capped_def full_sessions_def by blast

theorem session_cap_enforced_witness:
  "length (filter (\<lambda>r. ss_account r = ''i'' \<and> ss_kind r = FULL \<and> live_session r)
    (id_sessions (snd (demo_login (demo_challenged (demo_enabled demo_booted)))))) \<le> 3"
proof -
  obtain x s' where s': "login_totp_step (demo_identity 6 600) ''kttt'' ''000020''
    (demo_challenged (demo_enabled demo_booted)) = (Inr (Authenticated x), s')" by (rule demo_logged_in)
  from session_cap_enforced [OF disjI1 [OF this]] demo_session_account [OF this] s' show ?thesis
    by (simp add: demo_login_def demo_policy) (simp add: default_identity_policy_def)
qed

text \<open>Login attempts one after the other, each in a transaction of its own.\<close>

fun logins :: "string \<Rightarrow> string \<Rightarrow> (identity_env \<times> string) list \<Rightarrow> identity_state
    \<Rightarrow> (identity_error, idem_response) res list \<times> identity_state" where
  "logins e so [] t = ([], t)"
| "logins e so ((env, password) # attempts) t =
     (case atomically (auth_login env e password so) t of (r, t') \<Rightarrow>
        apfst ((#) r) (logins e so attempts t'))"

text \<open>The effective policy and the clock as an attempt may read them: before the lock and the reset
  period after the failure have ended.\<close>

definition within_lock :: "instant \<Rightarrow> instant \<Rightarrow> identity_env \<Rightarrow> bool" where
  "within_lock since until env \<longleftrightarrow> (\<forall>k. ev_clock env k < until
     \<and> (\<forall>j. \<exists>p. ev_policy env j = Some p \<and> ev_clock env k - since < pol_backoff_reset p))"

lemma audit_appends:
  "\<exists>l. audit_account env actor action account result reason t
    = (Inr (), t\<lparr>id_audit := id_audit t @ [l]\<rparr>)"
  unfolding audit_account_def identity_audit_def writing_def Let_def record_in_transaction_def
    append_in_transaction_def
  by (intro exI) (rule refl)

lemma locked_attempt:
  assumes "\<not> blank so" and "within_lock since until env"
    and "backoff_by_scope e so t = Some b" and "lb_last_failure_at b = Some since"
    and "lb_locked_until b = Some until"
  shows "\<exists>resp k j l. atomically (auth_login env e password so) t
      = (Inr resp, t\<lparr>id_ticks := k, id_policy_reads := j, id_audit := id_audit t @ [l]\<rparr>)
    \<and> ip_status resp = 429"
proof -
  from assms(2) obtain p where p: "ev_policy env (id_policy_reads t) = Some p"
    "ev_clock env (id_ticks t) - since < pol_backoff_reset p" and "ev_clock env (id_ticks t) < until"
    unfolding within_lock_def by blast
  let ?t = "t\<lparr>id_ticks := id_ticks t + 1, id_policy_reads := id_policy_reads t + 1\<rparr>"
  obtain l where "audit_account env e ''identity.login.password'' e ''DENIED'' ''backoff active'' ?t
    = (Inr (), ?t\<lparr>id_audit := id_audit ?t @ [l]\<rparr>)" using audit_appends by blast
  with check_locked [OF assms(1) p(1) assms(3,4) p(2) assms(5) \<open>ev_clock env (id_ticks t) < until\<close>]
  show ?thesis
    by (intro exI [of _ "authentication_denial_response \<lparr>dn_code = BACKOFF_ACTIVE, dn_retry_after =
          Some (max 1 ((until - ev_clock env (id_ticks t)) div a_second)), dn_challenge_state = None\<rparr>"]
        exI [of _ "id_ticks t + 1"] exI [of _ "id_policy_reads t + 1"] exI [of _ l])
      (simp add: atomically_def auth_login_def login_password_step_def cbind_def login_denied_def cseq_def
        produce_def authentication_denial_response_def retry_problem_def http_problem_def)
qed

lemma locked_attempts:
  assumes "\<not> blank so" and "\<forall>(env, password) \<in> set attempts. within_lock since until env"
    and "backoff_by_scope e so t = Some b" and "lb_last_failure_at b = Some since"
    and "lb_locked_until b = Some until"
  shows "\<exists>rs k j ls. logins e so attempts t
      = (rs, t\<lparr>id_ticks := k, id_policy_reads := j, id_audit := id_audit t @ ls\<rparr>)
    \<and> length rs = length attempts \<and> length ls = length attempts
    \<and> (\<forall>r \<in> set rs. \<exists>resp. r = Inr resp \<and> ip_status resp = 429)"
  using assms(2,3)
proof (induction attempts arbitrary: t)
  case Nil
  show ?case
    by (intro exI [of _ "[]"] exI [of _ "id_ticks t"] exI [of _ "id_policy_reads t"]) simp
next
  case (Cons x attempts)
  obtain env password where x: "x = (env, password)" by fastforce
  with Cons.prems(1) have "within_lock since until env" by simp
  from locked_attempt [OF assms(1) this Cons.prems(2) assms(4,5), of password] obtain resp k j l where
    first: "atomically (auth_login env e password so) t
      = (Inr resp, t\<lparr>id_ticks := k, id_policy_reads := j, id_audit := id_audit t @ [l]\<rparr>)"
    "ip_status resp = 429" by blast
  let ?t = "t\<lparr>id_ticks := k, id_policy_reads := j, id_audit := id_audit t @ [l]\<rparr>"
  have "backoff_by_scope e so ?t = Some b" using Cons.prems(2) by (simp add: backoff_by_scope_def)
  with Cons.IH [of ?t] Cons.prems(1) obtain rs k' j' ls where
    rest: "logins e so attempts ?t
      = (rs, ?t\<lparr>id_ticks := k', id_policy_reads := j', id_audit := id_audit ?t @ ls\<rparr>)"
    "length rs = length attempts" "length ls = length attempts"
    "\<forall>r \<in> set rs. \<exists>resp. r = Inr resp \<and> ip_status resp = 429" by auto
  then show ?case using first
    by (intro exI [of _ "Inr resp # rs"] exI [of _ k'] exI [of _ j'] exI [of _ "l # ls"]) (simp add: x)
qed

text \<open>
  C29: A wrong password locks: the failure it records for the employee number and source is one more
  than those since the reset period began, and from the policy's threshold on it locks them for the
  initial delay doubled with every failure beyond the threshold, at most the maximum. In every later
  state in which this row still stands, the check before a login denies if and only if the lock has
  not ended and the reset period of the policy then effective has not passed since the failure
  (a policy may have a reset period shorter than the lock, which then lifts it); the answer names
  the seconds left. Any number of attempts while both hold are answered 429, whatever passwords they
  carry, and each changes nothing but its audit entry and the counts of the clock and policy readings.
\<close>

theorem backoff_locks_login:
  assumes "record_password_failure env e so s = (Inr u, s')"
    and "ev_policy env (id_policy_reads s) = Some p" and "\<not> blank so"
    and "since = ev_clock env (id_ticks s)"
    and n: "n = counted_failures p since (backoff_by_scope e so s) + 1"
    and "pol_backoff_threshold p \<le> n" and until: "until = since + lock_delay p n"
  shows "backoff_by_scope e so s' = Some \<lparr>lb_employee_no = e, lb_source = so, lb_failure_count = n,
      lb_last_failure_at = Some since, lb_locked_until = Some until\<rparr>
    \<and> (\<forall>t env' p' at. backoff_by_scope e so t = backoff_by_scope e so s'
        \<and> ev_policy env' (id_policy_reads t) = Some p' \<and> at = ev_clock env' (id_ticks t) \<longrightarrow>
        (\<forall>d. fst (check_backoff env' e so t) = Inr (Some d) \<longleftrightarrow>
          at < until \<and> at - since < pol_backoff_reset p'
          \<and> d = \<lparr>dn_code = BACKOFF_ACTIVE, dn_retry_after = Some (max 1 ((until - at) div a_second)),
                dn_challenge_state = None\<rparr>))
    \<and> (\<forall>t attempts. backoff_by_scope e so t = backoff_by_scope e so s'
        \<and> (\<forall>(env', password) \<in> set attempts. within_lock since until env') \<longrightarrow>
        (\<exists>rs k j ls. logins e so attempts t
            = (rs, t\<lparr>id_ticks := k, id_policy_reads := j, id_audit := id_audit t @ ls\<rparr>)
          \<and> length rs = length attempts \<and> length ls = length attempts
          \<and> (\<forall>r \<in> set rs. \<exists>resp. r = Inr resp \<and> ip_status resp = 429)))"
proof -
  let ?b = "\<lparr>lb_employee_no = e, lb_source = so, lb_failure_count = n, lb_last_failure_at = Some since,
    lb_locked_until = Some until\<rparr>"
  have "wp (record_password_failure env e so) (\<lambda>_ s'. backoff_by_scope e so s' = Some ?b) (\<lambda>_ _. True) s"
  proof (rule wp_record_failure [OF assms(2)])
    fix s' and b :: backoff_entry
    assume "backoff_by_scope e so s' = Some b"
      "lb_failure_count b = counted_failures p (ev_clock env (id_ticks s)) (backoff_by_scope e so s) + 1"
      "lb_last_failure_at b = Some (ev_clock env (id_ticks s))"
      "lb_locked_until b = (if pol_backoff_threshold p \<le> lb_failure_count b
        then Some (ev_clock env (id_ticks s) + lock_delay p (lb_failure_count b)) else None)"
    note b = this
    have count: "lb_failure_count b = n" using b(2) by (simp add: n assms(4))
    have "backoff_scope b = (e, so)" using b(1) by (auto simp: backoff_by_scope_def dest: row_by_Some)
    then have "b = ?b" using b(3,4) assms(4,6) until count
      by (intro backoff_entry.equality) (simp_all add: backoff_scope_def)
    with b(1) show "backoff_by_scope e so s' = Some ?b" by simp
  qed simp
  from wp_Inr [OF this assms(1)] have row: "backoff_by_scope e so s' = Some ?b" .
  have denied: "fst (check_backoff env' e so t) = Inr (Some d) \<longleftrightarrow> at < until \<and> at - since < pol_backoff_reset p'
      \<and> d = \<lparr>dn_code = BACKOFF_ACTIVE, dn_retry_after = Some (max 1 ((until - at) div a_second)),
            dn_challenge_state = None\<rparr>"
    if "backoff_by_scope e so t = Some ?b" "ev_policy env' (id_policy_reads t) = Some p'"
      "at = ev_clock env' (id_ticks t)" for t env' p' d at
    using that assms(3)
    by (auto simp: check_backoff_def cseq_def cbind_def guarded_def clock_now_def get_identity_policy_def
        reading_def produce_def save_backoff_def statement_def Let_def backoff_by_scope_def)
  have answered: "\<exists>rs k j ls. logins e so attempts t
        = (rs, t\<lparr>id_ticks := k, id_policy_reads := j, id_audit := id_audit t @ ls\<rparr>)
      \<and> length rs = length attempts \<and> length ls = length attempts
      \<and> (\<forall>r \<in> set rs. \<exists>resp. r = Inr resp \<and> ip_status resp = 429)"
    if "backoff_by_scope e so t = Some ?b" "\<forall>(env', password) \<in> set attempts. within_lock since until env'"
    for t attempts
    using locked_attempts [OF assms(3) that(2,1)] by simp
  show ?thesis unfolding row
    by (intro conjI allI impI refl; elim conjE; rule denied answered; assumption)
qed

theorem backoff_locks_login_witness:
  "\<exists>s t resp resp'. backoff_by_scope ''00000001'' ''host'' s \<noteq> None
    \<and> logins ''00000001'' ''host'' [(demo_identity 2 0, ''any''), (demo_identity 3 0, ''pw'')] s
      = ([Inr resp, Inr resp'], t) \<and> ip_status resp = 429 \<and> ip_status resp' = 429
    \<and> id_backoffs t = id_backoffs s"
proof -
  obtain s where s: "record_password_failure (demo_identity 1 0) ''00000001'' ''host'' (demo_failures 4)
    = (Inr (), s)" by (rule demo_failure_recorded)
  have n: "5 = counted_failures default_identity_policy 1
      (backoff_by_scope ''00000001'' ''host'' (demo_failures 4)) + 1"
    and "\<not> blank ''host''" and "pol_backoff_threshold default_identity_policy \<le> 5"
    and window: "3 < 1 + lock_delay default_identity_policy 5"
      "3 - 1 < pol_backoff_reset default_identity_policy" by code_simp+
  note locked = backoff_locks_login [OF s demo_policy this(2) demo_clock [symmetric] n this(3) refl]
  have "\<forall>(env', password) \<in> set [(demo_identity 2 0, ''any''), (demo_identity 3 0, ''pw'')].
    within_lock 1 (1 + lock_delay default_identity_policy 5) env'"
    using window by (simp add: within_lock_def demo_clock demo_policy)
  with locked [THEN conjunct2, THEN conjunct2, rule_format, OF conjI [OF refl]]
  obtain rs k j ls where rs: "logins ''00000001'' ''host''
      [(demo_identity 2 0, ''any''), (demo_identity 3 0, ''pw'')] s
      = (rs, s\<lparr>id_ticks := k, id_policy_reads := j, id_audit := id_audit s @ ls\<rparr>)"
      "length rs = 2" "\<forall>r \<in> set rs. \<exists>resp. r = Inr resp \<and> ip_status resp = 429"
    by (metis length_Cons list.size(3) numeral_2_eq_2)
  have row: "backoff_by_scope ''00000001'' ''host'' s \<noteq> None"
    using locked [THEN conjunct1] by simp
  from rs(2) obtain r r' where "rs = [r, r']" by (auto simp: numeral_2_eq_2 length_Suc_conv)
  with rs row show ?thesis by auto
qed

text \<open>
  C30: The delay overflows: once 1023 failures beyond the threshold are recorded, each within the
  reset period of the one before, a wrong password after the lock ended raises OverflowError while
  the next delay is computed. No route handles it, so the request fails and its transaction is rolled
  back: the failure is not recorded, no new lock begins, and the next password may be tried at once.
\<close>

theorem backoff_overflow_unlocks:
  assumes "\<not> blank so" and "\<And>n. ev_policy env n = Some p"
    and "backoff_by_scope e so s = Some b" and "lb_last_failure_at b = Some t"
    and "\<And>n. ev_clock env n - t < pol_backoff_reset p"
    and "\<And>u n. lb_locked_until b = Some u \<Longrightarrow> u \<le> ev_clock env n"
    and "pol_backoff_threshold p + 1023 \<le> lb_failure_count b"
    and "account_by_employee_no e s = Some a" and "ia_status a = ENABLED"
    and "ev_material env = Some material" and "ia_password_hash a = Some h"
    and "\<not> ev_verify env password h (sm_pepper material)"
  shows "committed (auth_login env e password so) s
    = Inl (IdentityOverflow ''int too large to convert to float'')"
proof -
  let ?s = "s\<lparr>id_ticks := id_ticks s + 1, id_policy_reads := id_policy_reads s + 1\<rparr>"
  have found: "account_by_employee_no e ?s = Some a"
    using assms(8) by (simp add: account_by_employee_no_def)
  have row: "backoff_by_scope e so ?s = Some b" using assms(3) by (simp add: backoff_by_scope_def)
  have count: "counted_failures p (ev_clock env n) (Some b) = lb_failure_count b" for n
    using assms(4,5) by (simp add: counted_failures_def)
  have "fst (record_password_failure env e so ?s)
      = Inl (IdentityOverflow ''int too large to convert to float'')"
    unfolding record_failure_eq [OF assms(2)] row count
    using assms(7) by (simp add: backoff_delay_def Let_def cbind_def computed_def le_nat_iff)
  then have "fst (login_password_step env e password so s)
      = Inl (IdentityOverflow ''int too large to convert to float'')"
    using check_unlocked [OF assms(1,2,3,4,5,6)] found assms(9-12)
    by (cases "record_password_failure env e so ?s")
      (simp add: login_password_step_def password_login_def load_material_def computed_def cbind_def
        reading_def produce_def cseq_def reenrollment_due_def password_valid_def)
  then show ?thesis
    by (cases "login_password_step env e password so s") (simp add: committed_def auth_login_def cbind_def)
qed

theorem backoff_overflow_unlocks_witness:
  "committed (auth_login (demo_identity 1 0) ''00000001'' ''guess'' ''host'') (demo_failures 2000)
    = Inl (IdentityOverflow ''int too large to convert to float'')"
  by (rule backoff_overflow_unlocks [where p = default_identity_policy and t = 0 and h = "''pw''"
      and b = "hd (id_backoffs (demo_failures 2000))" and a = "hd (id_accounts (demo_failures 2000))"
      and material = "\<lparr>sm_pepper = ''p'', sm_totp_key = ''q'', sm_idempotency_key = ''r''\<rparr>"])
    (simp_all add: demo_identity_def default_identity_policy_def demo_failures_def
      backoff_by_scope_def backoff_scope_def blank_def is_space_def empty_identity_state_def
      a_second_def a_minute_def an_hour_def new_account_def account_by_employee_no_def)

end
