(* ===== verification/Workspace_Store.thy ===== *)
theory Workspace_Store
  imports Commands Org_Queries Idempotency
begin

section \<open>The workspace module: repository\<close>

text \<open>
  \<^verbatim>\<open>workspace/domain/models.py\<close> and \<^verbatim>\<open>workspace/adapters/sqlalchemy.py\<close> over the tables of
  \<^verbatim>\<open>migrations/workspace/0001_workspace_base.py\<close>: every statement of the repository port with the
  constraints of the tables; a violated one raises \<open>WorkspaceIntegrityError\<close> with the table's name.
  A command holds the lock of the workspace it writes (\<open>FOR UPDATE\<close>) and runs as one step. Ids
  are the canonical text of UUIDs, whose order is the order of the text.
\<close>

datatype workspace_error =
    WorkspaceNotFound string
  | WorkspaceArchived string
  | InvalidWorkspaceParticipant string
  | InvalidWorkspaceName string
  | WorkspaceOwnerRequired string
  | StaleWorkspaceVersion string
  | LeaderAlreadyInvited string
  | LeaderNotInvited string
  | OwnerCannotBeRemoved string
  | WorkspaceValueError string
  | WorkspaceIntegrityError string
  | WorkspacePortFailure string

datatype member_source = FORMAL_OWNER | FORMAL_LEADER | DIRECT_REPORT

definition source_value :: "member_source \<Rightarrow> string" where
  "source_value s = (case s of FORMAL_OWNER \<Rightarrow> ''OWNER'' | FORMAL_LEADER \<Rightarrow> ''LEADER''
     | DIRECT_REPORT \<Rightarrow> ''DIRECT_REPORT'')"

record workspace_row =
  ws_id :: string
  ws_name :: string
  ws_owner :: string
  ws_archived_at :: "instant option"
  ws_version :: int

record leader_row =
  wl_workspace :: string
  wl_account :: string
  wl_invited_by :: string

record member_row =
  wm_workspace :: string
  wm_account :: string
  wm_source :: member_source
  wm_computed_at :: instant

text \<open>The schema as a transaction sees it, and how often the command has read the clock and the id
  source.\<close>

record workspace_state =
  wk_workspaces :: "workspace_row list"
  wk_leaders :: "leader_row list"
  wk_members :: "member_row list"
  wk_keys :: "idem_row list"
  wk_audit :: audit_log
  wk_ticks :: nat
  wk_uuids :: nat

definition empty_workspace_state :: workspace_state where
  "empty_workspace_state = \<lparr>wk_workspaces = [], wk_leaders = [], wk_members = [], wk_keys = [],
     wk_audit = [], wk_ticks = 0, wk_uuids = 0\<rparr>"

type_synonym 'a workspace_command = "(workspace_state, workspace_error, 'a) command"

text \<open>The keys of the tables.\<close>

definition leader_key :: "leader_row \<Rightarrow> string \<times> string" where
  "leader_key r = (wl_workspace r, wl_account r)"

definition member_key :: "member_row \<Rightarrow> string \<times> string" where
  "member_key r = (wm_workspace r, wm_account r)"

definition workspace_row_ok :: "workspace_row \<Rightarrow> bool" where
  "workspace_row_ok w = (nonblank_text (ws_name w) \<and> nonblank_text (ws_owner w)
     \<and> 1 \<le> ws_version w \<and> int4 (ws_version w))"

subsection \<open>Reading\<close>

definition workspace_by_id :: "string \<Rightarrow> workspace_state \<Rightarrow> workspace_row option" where
  "workspace_by_id i s = row_by ws_id i (wk_workspaces s)"

definition list_workspace_rows :: "workspace_state \<Rightarrow> workspace_row list" where
  "list_workspace_rows s = sort_key (\<lambda>w. (ws_name w, ws_id w)) (wk_workspaces s)"

definition workspace_leader_ids :: "string \<Rightarrow> workspace_state \<Rightarrow> string list" where
  "workspace_leader_ids i s = sort (map wl_account (filter (\<lambda>r. wl_workspace r = i) (wk_leaders s)))"

definition projection_rows :: "string \<Rightarrow> workspace_state \<Rightarrow> member_row list" where
  "projection_rows i s = sort_key wm_account (filter (\<lambda>r. wm_workspace r = i) (wk_members s))"

definition active_workspace_ids :: "workspace_state \<Rightarrow> string list" where
  "active_workspace_ids s =
     sort (map ws_id (filter (\<lambda>w. ws_archived_at w = None) (wk_workspaces s)))"

subsection \<open>Writing\<close>

definition insert_workspace ::
  "string \<Rightarrow> string \<Rightarrow> string \<Rightarrow> workspace_row workspace_command" where
  "insert_workspace i name owner = statement (\<lambda>s.
     let w = \<lparr>ws_id = i, ws_name = name, ws_owner = owner, ws_archived_at = None, ws_version = 1\<rparr>
     in if \<not> workspace_row_ok w \<or> workspace_by_id i s \<noteq> None
        then Inl (WorkspaceIntegrityError ''workspace'')
        else Inr (w, s\<lparr>wk_workspaces := wk_workspaces s @ [w]\<rparr>))"

text \<open>\<open>ON CONFLICT DO NOTHING\<close>: whether a row was inserted.\<close>

definition insert_leader :: "string \<Rightarrow> string \<Rightarrow> string \<Rightarrow> bool workspace_command" where
  "insert_leader i account invited_by = statement (\<lambda>s.
     let r = \<lparr>wl_workspace = i, wl_account = account, wl_invited_by = invited_by\<rparr>
     in if \<not> nonblank_text account \<or> \<not> nonblank_text invited_by
        then Inl (WorkspaceIntegrityError ''leader'')
        else if row_by leader_key (i, account) (wk_leaders s) \<noteq> None then Inr (False, s)
        else if workspace_by_id i s = None then Inl (WorkspaceIntegrityError ''leader'')
        else Inr (True, s\<lparr>wk_leaders := wk_leaders s @ [r]\<rparr>))"

definition delete_leader :: "string \<Rightarrow> string \<Rightarrow> bool workspace_command" where
  "delete_leader i account = statement (\<lambda>s.
     Inr (length (filter (\<lambda>r. leader_key r = (i, account)) (wk_leaders s)) = 1,
       s\<lparr>wk_leaders := filter (\<lambda>r. leader_key r \<noteq> (i, account)) (wk_leaders s)\<rparr>))"

definition change_workspaces ::
  "string \<Rightarrow> (workspace_row \<Rightarrow> workspace_row) \<Rightarrow> workspace_state
   \<Rightarrow> (workspace_error, workspace_state) res" where
  "change_workspaces i f s =
     (if list_ex (\<lambda>w. ws_id w = i \<and> \<not> workspace_row_ok (f w)) (wk_workspaces s)
      then Inl (WorkspaceIntegrityError ''workspace'')
      else Inr (s\<lparr>wk_workspaces := set_where (\<lambda>w. ws_id w = i) f (wk_workspaces s)\<rparr>))"

definition update_owner :: "string \<Rightarrow> string \<Rightarrow> unit workspace_command" where
  "update_owner i owner = statement (\<lambda>s.
     rbind (change_workspaces i (\<lambda>w. w\<lparr>ws_owner := owner\<rparr>) s) (\<lambda>s'. Inr ((), s')))"

text \<open>\<open>RETURNING *\<close> and \<open>one()\<close>: the statement raises when there is no such workspace.\<close>

definition bump_version :: "string \<Rightarrow> workspace_row workspace_command" where
  "bump_version i = statement (\<lambda>s.
     rbind (change_workspaces i (\<lambda>w. w\<lparr>ws_version := ws_version w + 1\<rparr>) s) (\<lambda>s'.
       case workspace_by_id i s' of
         None \<Rightarrow> Inl (WorkspaceIntegrityError ''NoResultFound'') | Some w \<Rightarrow> Inr (w, s')))"

definition member_rows ::
  "string \<Rightarrow> instant \<Rightarrow> (string, member_source) dict \<Rightarrow> member_row list" where
  "member_rows i now members = map (\<lambda>(account, source). \<lparr>wm_workspace = i, wm_account = account,
     wm_source = source, wm_computed_at = now\<rparr>) (sort_key fst members)"

definition replace_members ::
  "string \<Rightarrow> (string, member_source) dict \<Rightarrow> instant \<Rightarrow> unit workspace_command" where
  "replace_members i members now = statement (\<lambda>s.
     if list_ex (\<lambda>m. \<not> nonblank_text (fst m)) members
        \<or> (members \<noteq> [] \<and> workspace_by_id i s = None)
     then Inl (WorkspaceIntegrityError ''members_projection'')
     else Inr ((), s\<lparr>wk_members := filter (\<lambda>r. wm_workspace r \<noteq> i) (wk_members s)
            @ member_rows i now members\<rparr>))"

subsection \<open>Idempotency keys\<close>

definition workspace_keys :: "(workspace_state, workspace_error) idem_repository" where
  "workspace_keys = table_repository wk_keys (\<lambda>rows s. s\<lparr>wk_keys := rows\<rparr>)
     (WorkspaceIntegrityError ''idempotency_record'')"

end
