(* ===== verification/Workspace_Commands.thy ===== *)
theory Workspace_Commands
  imports Workspace_Store
begin

section \<open>The workspace module: commands and queries\<close>

text \<open>
  \<^verbatim>\<open>workspace/application\<close>: \<^verbatim>\<open>common.py\<close>, \<^verbatim>\<open>projection.py\<close>, \<^verbatim>\<open>commands.py\<close> and
  \<^verbatim>\<open>queries.py\<close>. The identity lookup, the organization's reports (each opens a connection of its
  own), the clock, the id source and the request id are the ports of \<open>workspace_env\<close>;
  the state counts the readings of the clock and of the id source. A reading of the organization may
  raise; the lookup of an account is taken to answer, what it raises on a lost connection would end
  the request as an organization's failure does.
\<close>

record participant_view =
  pt_id :: string
  pt_status :: string
  pt_initialized :: bool

record workspace_env =
  wv_account :: "string \<Rightarrow> participant_view option"
  wv_is_leader :: "string \<Rightarrow> bool answer"
  wv_reports :: "string \<Rightarrow> (string list) answer"
  wv_clock :: "nat \<Rightarrow> instant"
  wv_uuid4 :: "nat \<Rightarrow> string"
  wv_request_id :: "string option"
  wv_isoformat :: "instant \<Rightarrow> string"

subsection \<open>Common\<close>

definition workspace_now :: "workspace_env \<Rightarrow> instant workspace_command" where
  "workspace_now env = (\<lambda>s. (Inr (wv_clock env (wk_ticks s)), s\<lparr>wk_ticks := Suc (wk_ticks s)\<rparr>))"

definition workspace_uuid :: "workspace_env \<Rightarrow> string workspace_command" where
  "workspace_uuid env = (\<lambda>s. (Inr (wv_uuid4 env (wk_uuids s)), s\<lparr>wk_uuids := Suc (wk_uuids s)\<rparr>))"

definition workspace_actor_id :: "org_actor \<Rightarrow> (workspace_error, string) res" where
  "workspace_actor_id actor =
     (case oa_account_id actor of
        Some (c # cs) \<Rightarrow> Inr (c # cs)
      | _ \<Rightarrow> (case oa_employee_id actor of
                Some (c # cs) \<Rightarrow> Inr (c # cs)
              | _ \<Rightarrow> Inl (WorkspaceValueError ''actor has no stable identity'')))"

definition participant_effective :: "participant_view option \<Rightarrow> bool" where
  "participant_effective account =
     (case account of None \<Rightarrow> False | Some v \<Rightarrow> pt_status v = ''ENABLED'' \<and> pt_initialized v)"

definition workspace_audit ::
  "workspace_env \<Rightarrow> string \<Rightarrow> string \<Rightarrow> string \<Rightarrow> string \<Rightarrow> unit workspace_command" where
  "workspace_audit env actor action i reason =
     cbind (workspace_now env) (\<lambda>now.
     cbind (workspace_uuid env) (\<lambda>audit_id.
     cbind (case wv_request_id env of Some (c # cs) \<Rightarrow> produce (c # cs) | _ \<Rightarrow> workspace_uuid env)
       (\<lambda>correlation_id.
     writing (\<lambda>s. s\<lparr>wk_audit := record_in_transaction (wv_request_id env)
       \<lparr>ae_id = audit_id, ae_occurred_at = now, ae_actor = actor,
        ae_actor_type = (if actor = ''SYSTEM'' then ''SYSTEM'' else ''HUMAN''), ae_action = action,
        ae_target_type = ''WORKSPACE'', ae_target_id = i, ae_result = ''SUCCESS'',
        ae_reason = Some reason, ae_correlation_id = correlation_id, ae_request_id = None,
        ae_schema_version = 1\<rparr> (wk_audit s)\<rparr>))))"

subsection \<open>The projection\<close>

definition setdefault :: "'k \<Rightarrow> 'v \<Rightarrow> ('k, 'v) dict \<Rightarrow> ('k, 'v) dict" where
  "setdefault k v d = (if map_of d k = None then d @ [(k, v)] else d)"

definition with_reports ::
  "workspace_env \<Rightarrow> string list \<Rightarrow> (string, member_source) dict \<Rightarrow> (string, member_source) dict" where
  "with_reports env reports desired =
     fold (\<lambda>r d. if participant_effective (wv_account env r) then setdefault r DIRECT_REPORT d else d)
       reports desired"

text \<open>The loop over the owner and the leaders; the organization is asked only for an effective
  account.\<close>

fun scan_leaders ::
  "workspace_env \<Rightarrow> string list \<Rightarrow> (string, member_source) dict
   \<Rightarrow> (workspace_error, (string, member_source) dict) res" where
  "scan_leaders env [] desired = Inr desired"
| "scan_leaders env (l # ls) desired =
     (if \<not> participant_effective (wv_account env l)
      then Inl (InvalidWorkspaceParticipant ''workspace leader is not effective'')
      else case wv_is_leader env l of
        Raised \<Rightarrow> Inl (WorkspacePortFailure ''is_effective_leader'')
      | Answer False \<Rightarrow> Inl (InvalidWorkspaceParticipant ''workspace leader is not effective'')
      | Answer True \<Rightarrow>
          (case wv_reports env l of
             Raised \<Rightarrow> Inl (WorkspacePortFailure ''direct_reports'')
           | Answer reports \<Rightarrow> scan_leaders env ls (with_reports env reports desired)))"

definition invited_members :: "string \<Rightarrow> string list \<Rightarrow> (string, member_source) dict" where
  "invited_members owner leaders =
     fold (\<lambda>l d. setdefault l FORMAL_LEADER d) leaders [(owner, FORMAL_OWNER)]"

definition desired_members ::
  "workspace_env \<Rightarrow> string \<Rightarrow> string \<Rightarrow> ((string, member_source) dict) workspace_command" where
  "desired_members env i owner =
     cbind (reading (workspace_leader_ids i)) (\<lambda>leaders.
     computed (scan_leaders env (owner # leaders) (invited_members owner leaders)))"

definition existing_members :: "string \<Rightarrow> workspace_state \<Rightarrow> (string, member_source) dict" where
  "existing_members i s = dict_of_rows wm_account wm_source (projection_rows i s)"

text \<open>Equality of two dictionaries, whatever their insertion order.\<close>

definition same_dict :: "('k, 'v) dict \<Rightarrow> ('k, 'v) dict \<Rightarrow> bool" where
  "same_dict d e =
     (length d = length e \<and> list_all (\<lambda>(k, v). map_of e k = Some v) d)"

definition replace_projection ::
  "workspace_env \<Rightarrow> string \<Rightarrow> string \<Rightarrow> (nat \<times> bool) workspace_command" where
  "replace_projection env i owner =
     cbind (desired_members env i owner) (\<lambda>desired.
     cbind (reading (existing_members i)) (\<lambda>existing.
     cseq (if \<not> same_dict existing desired
           then cbind (workspace_now env) (replace_members i desired) else produce ())
       (produce (length desired, \<not> same_dict existing desired))))"

definition recomputed_reason :: "nat \<Rightarrow> bool \<Rightarrow> int \<Rightarrow> string" where
  "recomputed_reason n changed version = ''count='' @ str_of_nat n @ ''; changed=''
     @ (if changed then ''true'' else ''false'') @ ''; version='' @ str_of_int version"

definition audit_recomputed ::
  "workspace_env \<Rightarrow> string \<Rightarrow> nat \<Rightarrow> bool \<Rightarrow> int \<Rightarrow> unit workspace_command" where
  "audit_recomputed env i n changed version =
     workspace_audit env ''SYSTEM'' ''workspace.members.recomputed'' i
       (recomputed_reason n changed version)"

definition recompute_members :: "workspace_env \<Rightarrow> string \<Rightarrow> nat workspace_command" where
  "recompute_members env i =
     cbind (reading (workspace_by_id i)) (\<lambda>found. case found of
       None \<Rightarrow> raising (WorkspaceNotFound i)
     | Some w \<Rightarrow>
         if ws_archived_at w \<noteq> None then raising (WorkspaceArchived i)
         else cbind (replace_projection env i (ws_owner w)) (\<lambda>(n, changed).
           cbind (if changed then bump_version i else produce w) (\<lambda>final.
           cseq (audit_recomputed env i n changed (ws_version final)) (produce n))))"

text \<open>\<open>WorkspaceMembershipChangeHandler\<close>: one transaction over the active workspaces.\<close>

fun for_each :: "('a \<Rightarrow> ('s, 'e, unit) command) \<Rightarrow> 'a list \<Rightarrow> ('s, 'e, unit) command" where
  "for_each f [] = produce ()"
| "for_each f (x # xs) = cseq (f x) (for_each f xs)"

definition refresh_projection ::
  "workspace_env \<Rightarrow> string \<Rightarrow> workspace_row \<Rightarrow> (string, member_source) dict
   \<Rightarrow> (string, member_source) dict \<Rightarrow> unit workspace_command" where
  "refresh_projection env i w desired existing =
     cbind (if \<not> same_dict existing desired
            then cseq (cbind (workspace_now env) (replace_members i desired)) (bump_version i)
            else produce w)
       (\<lambda>final. audit_recomputed env i (length desired) (\<not> same_dict existing desired)
          (ws_version final))"

definition refresh_affected ::
  "workspace_env \<Rightarrow> string list \<Rightarrow> string \<Rightarrow> workspace_row \<Rightarrow> unit workspace_command" where
  "refresh_affected env affected i w =
     cbind (desired_members env i (ws_owner w)) (\<lambda>desired.
     cbind (reading (existing_members i)) (\<lambda>existing.
     if \<not> list_ex (\<lambda>a. map_of existing a \<noteq> None) affected
        \<and> \<not> list_ex (\<lambda>a. map_of desired a \<noteq> None) affected
     then produce () else refresh_projection env i w desired existing))"

definition recompute_affected ::
  "workspace_env \<Rightarrow> string list \<Rightarrow> string \<Rightarrow> unit workspace_command" where
  "recompute_affected env affected i =
     cbind (reading (workspace_by_id i)) (\<lambda>found. case found of
       None \<Rightarrow> produce ()
     | Some w \<Rightarrow>
         if ws_archived_at w \<noteq> None then produce () else refresh_affected env affected i w)"

definition membership_change_handler :: "workspace_env \<Rightarrow> string list \<Rightarrow> unit workspace_command" where
  "membership_change_handler env account_ids =
     (if account_ids = [] then produce ()
      else atomically (cbind (reading active_workspace_ids)
        (for_each (recompute_affected env account_ids))))"

subsection \<open>Commands\<close>

definition valid_leader :: "workspace_env \<Rightarrow> string \<Rightarrow> (workspace_error, bool) res" where
  "valid_leader env account =
     (if \<not> participant_effective (wv_account env account) then Inr False
      else case wv_is_leader env account of
        Raised \<Rightarrow> Inl (WorkspacePortFailure ''is_effective_leader'') | Answer b \<Rightarrow> Inr b)"

definition locked_owned_workspace ::
  "string \<Rightarrow> int \<Rightarrow> org_actor \<Rightarrow> workspace_row workspace_command" where
  "locked_owned_workspace i expected_version actor =
     cbind (reading (workspace_by_id i)) (\<lambda>found. case found of
       None \<Rightarrow> raising (WorkspaceNotFound i)
     | Some w \<Rightarrow>
         if ws_archived_at w \<noteq> None then raising (WorkspaceArchived i)
         else cbind (computed (workspace_actor_id actor)) (\<lambda>a.
           if ws_owner w \<noteq> a then raising (WorkspaceOwnerRequired i)
           else if ws_version w \<noteq> expected_version then raising (StaleWorkspaceVersion i)
           else produce w))"

text \<open>What follows the write of every versioned command: project, bump, audit twice.\<close>

definition governed ::
  "workspace_env \<Rightarrow> string \<Rightarrow> string \<Rightarrow> string \<Rightarrow> string \<Rightarrow> (int \<Rightarrow> string)
   \<Rightarrow> workspace_row workspace_command" where
  "governed env i owner actor action reason =
     cbind (replace_projection env i owner) (\<lambda>(n, _).
     cbind (bump_version i) (\<lambda>final.
     cseq (workspace_audit env actor action i (reason (ws_version final)))
    (cseq (audit_recomputed env i n True (ws_version final))
     (produce final))))"

definition create_workspace ::
  "workspace_env \<Rightarrow> string \<Rightarrow> string \<Rightarrow> org_actor \<Rightarrow> string \<Rightarrow> workspace_row workspace_command" where
  "create_workspace env name owner actor reason =
     cseq (guarded (strip name = []) (InvalidWorkspaceName ''workspace name is required''))
    (cbind (computed (workspace_actor_id actor)) (\<lambda>a.
     cbind (if a \<noteq> owner then produce False else computed (valid_leader env owner)) (\<lambda>valid.
     cseq (guarded (\<not> valid)
       (InvalidWorkspaceParticipant ''workspace owner must be the creating leader''))
    (cbind (workspace_uuid env) (\<lambda>i.
     cbind (insert_workspace i (strip name) owner) (\<lambda>row.
     cbind (replace_projection env i owner) (\<lambda>(n, _).
     cseq (workspace_audit env a ''workspace.created'' i (reason @ ''; version=1''))
    (cseq (audit_recomputed env i n True 1)
     (produce row)))))))))"

definition invite_leader ::
  "workspace_env \<Rightarrow> string \<Rightarrow> string \<Rightarrow> int \<Rightarrow> org_actor \<Rightarrow> string \<Rightarrow> workspace_row workspace_command" where
  "invite_leader env i account expected_version actor reason =
     cbind (locked_owned_workspace i expected_version actor) (\<lambda>w.
     cbind (computed (valid_leader env account)) (\<lambda>valid.
     cseq (guarded (\<not> valid)
       (InvalidWorkspaceParticipant ''invited account must be an effective leader''))
    (cbind (computed (workspace_actor_id actor)) (\<lambda>a.
     cbind (insert_leader i account a) (\<lambda>inserted.
     cseq (guarded (\<not> inserted) (LeaderAlreadyInvited account))
    (governed env i (ws_owner w) a ''workspace.leader.invited''
       (\<lambda>v. reason @ ''; account='' @ account @ ''; version='' @ str_of_int v)))))))"

definition remove_leader ::
  "workspace_env \<Rightarrow> string \<Rightarrow> string \<Rightarrow> int \<Rightarrow> org_actor \<Rightarrow> string \<Rightarrow> workspace_row workspace_command" where
  "remove_leader env i account expected_version actor reason =
     cbind (locked_owned_workspace i expected_version actor) (\<lambda>w.
     cseq (guarded (account = ws_owner w) (OwnerCannotBeRemoved account))
    (cbind (delete_leader i account) (\<lambda>deleted.
     cseq (guarded (\<not> deleted) (LeaderNotInvited account))
    (cbind (computed (workspace_actor_id actor)) (\<lambda>a.
     governed env i (ws_owner w) a ''workspace.leader.removed''
       (\<lambda>v. reason @ ''; account='' @ account @ ''; version='' @ str_of_int v))))))"

definition transfer_owner ::
  "workspace_env \<Rightarrow> string \<Rightarrow> string \<Rightarrow> int \<Rightarrow> org_actor \<Rightarrow> string \<Rightarrow> workspace_row workspace_command" where
  "transfer_owner env i new_owner expected_version actor reason =
     cbind (locked_owned_workspace i expected_version actor) (\<lambda>w.
     cbind (reading (workspace_leader_ids i)) (\<lambda>leaders.
     cseq (guarded (new_owner \<notin> set leaders) (LeaderNotInvited new_owner))
    (cbind (computed (valid_leader env new_owner)) (\<lambda>valid.
     cseq (guarded (\<not> valid)
       (InvalidWorkspaceParticipant ''new owner must remain an effective leader''))
    (cseq (update_owner i new_owner)
    (cbind (computed (workspace_actor_id actor)) (\<lambda>a.
     governed env i new_owner a ''workspace.owner.transferred''
       (\<lambda>v. reason @ ''; oldOwner='' @ ws_owner w @ ''; newOwner='' @ new_owner
          @ ''; version='' @ str_of_int v))))))))"

subsection \<open>Queries\<close>

definition get_workspace :: "string \<Rightarrow> workspace_state \<Rightarrow> (workspace_error, workspace_row) res" where
  "get_workspace i s =
     (case workspace_by_id i s of
        None \<Rightarrow> Inl (WorkspaceNotFound i)
      | Some w \<Rightarrow> if ws_archived_at w \<noteq> None then Inl (WorkspaceArchived i) else Inr w)"

definition workspace_members ::
  "workspace_env \<Rightarrow> string \<Rightarrow> workspace_state \<Rightarrow> (workspace_error, member_row list) res" where
  "workspace_members env i s =
     rbind (get_workspace i s) (\<lambda>_.
       Inr (filter (\<lambda>r. participant_effective (wv_account env (wm_account r))) (projection_rows i s)))"

definition is_formal_member :: "workspace_env \<Rightarrow> string \<Rightarrow> string \<Rightarrow> workspace_state \<Rightarrow> bool" where
  "is_formal_member env i account s =
     (case workspace_by_id i s of
        None \<Rightarrow> False
      | Some w \<Rightarrow> ws_archived_at w = None \<and> participant_effective (wv_account env account)
          \<and> list_ex (\<lambda>r. wm_account r = account) (projection_rows i s))"

section \<open>The workspace module: HTTP commands\<close>

text \<open>
  \<^verbatim>\<open>workspace/api/routes.py\<close>: the command each route runs inside the request's transaction, the
  response a denial becomes (the request commits then), and the execution around it, which begins a
  security change when the idempotency key is claimed, cancels it when the request fails or is
  denied and completes it after the commit. Routing, the schema of the bodies, the capability guard
  and the same-origin check come before the command and are not modelled; the transaction commits.
\<close>

definition workspace_problem :: "int \<Rightarrow> string \<Rightarrow> idem_response" where
  "workspace_problem status title = \<lparr>ip_status = status,
     ip_body = PyDict [(''title'', PyStr title), (''status'', PyInt status)], ip_headers = [],
     ip_cookie = None, ip_is_problem = True\<rparr>"

definition workspace_tag :: "int \<Rightarrow> (workspace_error, string) res" where
  "workspace_tag version =
     (if version < 1 then Inl (WorkspaceValueError ''entity version must be positive'')
      else Inr ([char_of (34 :: nat)] @ ''v'' @ str_of_int version @ [char_of (34 :: nat)]))"

definition workspace_body :: "workspace_env \<Rightarrow> workspace_row \<Rightarrow> pyval" where
  "workspace_body env w = PyDict [(''id'', PyStr (ws_id w)), (''name'', PyStr (ws_name w)),
     (''ownerId'', PyStr (ws_owner w)),
     (''archivedAt'', case ws_archived_at w of None \<Rightarrow> PyNone | Some t \<Rightarrow> PyStr (wv_isoformat env t)),
     (''version'', PyInt (ws_version w))]"

definition workspace_response ::
  "workspace_env \<Rightarrow> int \<Rightarrow> workspace_row \<Rightarrow> idem_response workspace_command" where
  "workspace_response env status w =
     cbind (computed (workspace_tag (ws_version w))) (\<lambda>tag.
     produce \<lparr>ip_status = status, ip_body = workspace_body env w, ip_headers = [(''ETag'', tag)],
       ip_cookie = None, ip_is_problem = False\<rparr>)"

text \<open>The classes below \<open>WorkspaceError\<close>.\<close>

definition is_workspace_error :: "workspace_error \<Rightarrow> bool" where
  "is_workspace_error e = (case e of WorkspaceValueError _ \<Rightarrow> False
     | WorkspaceIntegrityError _ \<Rightarrow> False | WorkspacePortFailure _ \<Rightarrow> False | _ \<Rightarrow> True)"

definition workspace_denial :: "workspace_error \<Rightarrow> idem_response" where
  "workspace_denial e =
     (case e of
        WorkspaceNotFound _ \<Rightarrow> workspace_problem 404 ''Workspace not found''
      | WorkspaceOwnerRequired _ \<Rightarrow> workspace_problem 403 ''Workspace owner required''
      | StaleWorkspaceVersion _ \<Rightarrow> workspace_problem 409 ''Stale workspace version''
      | WorkspaceArchived _ \<Rightarrow> workspace_problem 409 ''Workspace archived''
      | _ \<Rightarrow> workspace_problem 409 ''Workspace governance conflict'')"

definition workspace_route ::
  "workspace_env \<Rightarrow> int \<Rightarrow> workspace_row workspace_command \<Rightarrow> idem_response workspace_command" where
  "workspace_route env status m =
     cbind (handled (cbind m (\<lambda>w. produce (Inr w))) is_workspace_error (\<lambda>e. produce (Inl e)))
       (\<lambda>outcome. case outcome of
          Inl e \<Rightarrow> produce (workspace_denial e) | Inr w \<Rightarrow> workspace_response env status w)"

text \<open>The four writing routes: the command, its status, the accounts and the workspaces affected.\<close>

datatype workspace_request =
    CreateWorkspace string string string
  | InviteLeader string string int string
  | RemoveLeader string string int string
  | TransferOwner string string int string

definition request_command ::
  "workspace_env \<Rightarrow> org_actor \<Rightarrow> workspace_request \<Rightarrow> workspace_row workspace_command" where
  "request_command env caller q =
     (case q of
        CreateWorkspace name owner reason \<Rightarrow> create_workspace env name owner caller reason
      | InviteLeader i account v reason \<Rightarrow> invite_leader env i account v caller reason
      | RemoveLeader i account v reason \<Rightarrow> remove_leader env i account v caller reason
      | TransferOwner i owner v reason \<Rightarrow> transfer_owner env i owner v caller reason)"

definition request_status :: "workspace_request \<Rightarrow> int" where
  "request_status q = (case q of CreateWorkspace _ _ _ \<Rightarrow> 201 | _ \<Rightarrow> 200)"

definition affected_account_ids :: "workspace_request \<Rightarrow> string list" where
  "affected_account_ids q = (case q of CreateWorkspace _ owner _ \<Rightarrow> [owner]
     | InviteLeader _ a _ _ \<Rightarrow> [a] | RemoveLeader _ a _ _ \<Rightarrow> [a] | TransferOwner _ a _ _ \<Rightarrow> [a])"

definition affected_workspace_ids :: "workspace_request \<Rightarrow> string list" where
  "affected_workspace_ids q = (case q of CreateWorkspace _ _ _ \<Rightarrow> []
     | InviteLeader i _ _ _ \<Rightarrow> [i] | RemoveLeader i _ _ _ \<Rightarrow> [i] | TransferOwner i _ _ _ \<Rightarrow> [i])"

definition request_route ::
  "workspace_env \<Rightarrow> org_actor \<Rightarrow> workspace_request \<Rightarrow> idem_response workspace_command" where
  "request_route env caller q =
     workspace_route env (request_status q) (request_command env caller q)"

definition route_members ::
  "workspace_env \<Rightarrow> string \<Rightarrow> workspace_state \<Rightarrow> idem_response + member_row list" where
  "route_members env i s =
     (case workspace_members env i s of Inl e \<Rightarrow> Inl (workspace_denial e) | Inr rows \<Rightarrow> Inr rows)"

subsection \<open>The execution of a route\<close>

text \<open>
  The security changes a request asks for. Beginning one has its own transaction, so it stays begun
  when the request's is rolled back; cancelling may raise, the \<open>n\<close>-th time depending on \<open>n\<close>.
\<close>

record security_port =
  sp_begin :: "idem_claim \<Rightarrow> string list \<Rightarrow> string list \<Rightarrow> string answer"
  sp_complete :: "string \<Rightarrow> bool"
  sp_cancel :: "string \<Rightarrow> nat \<Rightarrow> bool"
  sp_converged :: "string \<Rightarrow> bool"

datatype security_call = BeginChange string | CompleteChange string | CancelChange string

text \<open>The claim the execution hands to \<open>on_claimed\<close>, when the key is new.\<close>

definition new_claim :: "idem_request \<Rightarrow> workspace_state \<Rightarrow> idem_claim option" where
  "new_claim q s =
     (case claim_idempotency workspace_keys (iq_record_id q) (iq_actor q) (iq_operation q)
             (iq_key q) (iq_fingerprint q) (iq_claim_now q) s of
        Inr (True, s1) \<Rightarrow>
          (case idempotency_by_scope workspace_keys (iq_actor q) (iq_operation q) (iq_key q) s1 of
             Inr (Some row) \<Rightarrow>
               if ir_fingerprint row \<noteq> iq_fingerprint q then None
               else Some \<lparr>ic_record_id = ir_id row, ic_actor = iq_actor q,
                 ic_operation = iq_operation q, ic_key = iq_key q,
                 ic_fingerprint = iq_fingerprint q, ic_created = True\<rparr>
           | _ \<Rightarrow> None)
      | _ \<Rightarrow> None)"

definition change_ticket ::
  "security_port option \<Rightarrow> idem_request \<Rightarrow> string list \<Rightarrow> string list \<Rightarrow> workspace_state
   \<Rightarrow> string option" where
  "change_ticket port q accounts workspaces s =
     (case port of None \<Rightarrow> None
      | Some p \<Rightarrow>
          (case new_claim q s of None \<Rightarrow> None
           | Some claim \<Rightarrow>
               (case sp_begin p claim accounts workspaces of
                  Raised \<Rightarrow> None | Answer t \<Rightarrow> Some t)))"

definition register_security_change ::
  "security_port option \<Rightarrow> string list \<Rightarrow> string list \<Rightarrow> idem_claim \<Rightarrow> workspace_state
   \<Rightarrow> (workspace_error, workspace_state) res" where
  "register_security_change port accounts workspaces claim s =
     (case port of None \<Rightarrow> Inr s
      | Some p \<Rightarrow>
          (case sp_begin p claim accounts workspaces of
             Raised \<Rightarrow> Inl (WorkspacePortFailure ''begin'') | Answer t \<Rightarrow> Inr s))"

definition success_status :: "idem_response \<Rightarrow> bool" where
  "success_status r = (200 \<le> ip_status r \<and> ip_status r < 300)"

text \<open>A cancellation outside the transaction: the outcome when it returns, and the calls.\<close>

definition cancelling ::
  "security_port \<Rightarrow> string option \<Rightarrow> (workspace_error, idem_response) res
   \<Rightarrow> (workspace_error, idem_response) res \<times> security_call list" where
  "cancelling p ticket outcome =
     (case ticket of None \<Rightarrow> (outcome, [])
      | Some t \<Rightarrow> (if sp_cancel p t 0 then outcome else Inl (WorkspacePortFailure ''cancel''),
          [CancelChange t]))"

definition after_transaction ::
  "security_port \<Rightarrow> idem_execution \<Rightarrow> string option
   \<Rightarrow> (workspace_error, idem_response) res \<times> security_call list" where
  "after_transaction p x ticket =
     (let unavailable = Inr (workspace_problem 503 ''Authorization convergence unavailable'')
      in if ix_replayed x \<and> success_status (ix_response x)
            \<and> \<not> sp_converged p (ic_record_id (ix_claim x))
         then (unavailable, [])
         else case ticket of
           None \<Rightarrow> (Inr (ix_response x), [])
         | Some t \<Rightarrow> (if sp_complete p t then Inr (ix_response x) else unavailable, [CompleteChange t]))"

definition workspace_execute ::
  "sealer \<Rightarrow> security_port option \<Rightarrow> idem_request \<Rightarrow> string list \<Rightarrow> string list
   \<Rightarrow> idem_response workspace_command \<Rightarrow> workspace_state
   \<Rightarrow> ((workspace_error, idem_response) res \<times> security_call list) \<times> workspace_state" where
  "workspace_execute S port q accounts workspaces command s =
     (let execution = execute_idempotent workspace_keys S q
            (Some (register_security_change port accounts workspaces)) (committed command) s
      in case port of
        None \<Rightarrow>
          (case execution of
             Inl (IdempotencyConflict _) \<Rightarrow> ((Inr (workspace_problem 409 ''Idempotency conflict''), []), s)
           | Inl (IdempotencyReplayUnavailable _) \<Rightarrow>
               ((Inr (workspace_problem 409 ''Idempotency replay unavailable''), []), s)
           | Inl (CommandError e) \<Rightarrow> ((Inl e, []), s)
           | Inr (x, s') \<Rightarrow> ((Inr (ix_response x), []), s'))
      | Some p \<Rightarrow>
          (let ticket = change_ticket port q accounts workspaces s;
               begun = (case ticket of None \<Rightarrow> [] | Some t \<Rightarrow> [BeginChange t]);
               cancelled = (\<lambda>outcome. apsnd ((@) begun) (cancelling p ticket outcome))
           in case execution of
             Inl (IdempotencyConflict _) \<Rightarrow>
               (cancelled (Inr (workspace_problem 409 ''Idempotency conflict'')), s)
           | Inl (IdempotencyReplayUnavailable _) \<Rightarrow>
               (cancelled (Inr (workspace_problem 409 ''Idempotency replay unavailable'')), s)
           | Inl (CommandError e) \<Rightarrow> (cancelled (Inl e), s)
           | Inr (x, s') \<Rightarrow>
               (case ticket of
                  Some t \<Rightarrow>
                    if success_status (ix_response x)
                    then (apsnd ((@) begun) (after_transaction p x ticket), s')
                    else if sp_cancel p t 0
                    then ((Inr (ix_response x), begun @ [CancelChange t]), s')
                    else ((Inl (WorkspacePortFailure ''cancel''),
                        begun @ [CancelChange t, CancelChange t]), s)
                | None \<Rightarrow> (after_transaction p x None, s'))))"

definition workspace_http ::
  "workspace_env \<Rightarrow> sealer \<Rightarrow> security_port option \<Rightarrow> idem_request \<Rightarrow> org_actor
   \<Rightarrow> workspace_request \<Rightarrow> workspace_state
   \<Rightarrow> ((workspace_error, idem_response) res \<times> security_call list) \<times> workspace_state" where
  "workspace_http env S port q caller r s =
     workspace_execute S port q (affected_account_ids r) (affected_workspace_ids r)
       (request_route env caller r) s"

end
