(* ===== verification/Workspace_Members.thy ===== *)
theory Workspace_Members
  imports Workspace_Commands
begin

section \<open>The workspace module: formal members\<close>

text \<open>
  The contract of the projection: the formal members of a workspace are its owner, its invited
  leaders and the effective direct reports of both, each under the first of these sources
  (\<open>formal_source\<close>). The dictionary the code builds is this map (\<open>scan_formal\<close>), the comparison
  of dictionaries is equality of maps (\<open>same_dict_iff\<close>), and a replaced projection holds it
  (\<open>wp_replace_projection\<close>), with every other workspace's left alone.
\<close>

definition leader_reports :: "workspace_env \<Rightarrow> string \<Rightarrow> string list" where
  "leader_reports env l = (case wv_reports env l of Raised \<Rightarrow> [] | Answer rs \<Rightarrow> rs)"

definition formal_source ::
  "workspace_env \<Rightarrow> string \<Rightarrow> string list \<Rightarrow> string \<Rightarrow> member_source option" where
  "formal_source env owner leaders a =
     (if a = owner then Some FORMAL_OWNER
      else if a \<in> set leaders then Some FORMAL_LEADER
      else if participant_effective (wv_account env a)
        \<and> list_ex (\<lambda>l. a \<in> set (leader_reports env l)) (owner # leaders) then Some DIRECT_REPORT
      else None)"

text \<open>What the scan asks of an account before it projects a workspace it leads.\<close>

definition leads :: "workspace_env \<Rightarrow> string \<Rightarrow> bool" where
  "leads env l \<longleftrightarrow> participant_effective (wv_account env l) \<and> wv_is_leader env l = Answer True
     \<and> wv_reports env l \<noteq> Raised"

text \<open>The stored source of an account in a workspace.\<close>

definition projected :: "member_row list \<Rightarrow> string \<Rightarrow> string \<Rightarrow> member_source option" where
  "projected M i a = map_option wm_source (row_by member_key (i, a) M)"

definition leaders_in :: "leader_row list \<Rightarrow> string \<Rightarrow> string list" where
  "leaders_in L i = sort (map wl_account (filter (\<lambda>r. wl_workspace r = i) L))"

subsection \<open>Dictionaries\<close>

lemma map_of_setdefault:
  "map_of (setdefault k v d) = (if map_of d k = None then (map_of d)(k \<mapsto> v) else map_of d)"
  by (auto simp: setdefault_def map_add_def fun_eq_iff split: option.splits)

lemma dict_ok_setdefault: "dict_ok d \<Longrightarrow> dict_ok (setdefault k v d)"
  by (auto simp: dict_ok_def setdefault_def map_of_eq_None_iff)

lemma with_reports_ok: "dict_ok d \<Longrightarrow> dict_ok (with_reports env rs d)"
  unfolding with_reports_def by (induction rs arbitrary: d) (auto intro: dict_ok_setdefault)

lemma map_of_with_reports: "map_of (with_reports env rs d) a =
    (case map_of d a of Some v \<Rightarrow> Some v
     | None \<Rightarrow> if a \<in> set rs \<and> participant_effective (wv_account env a) then Some DIRECT_REPORT else None)"
proof (induction rs arbitrary: d)
  case (Cons r rs)
  have "with_reports env (r # rs) d = with_reports env rs
      (if participant_effective (wv_account env r) then setdefault r DIRECT_REPORT d else d)"
    by (simp add: with_reports_def)
  with Cons show ?case by (auto simp: map_of_setdefault split: option.splits)
qed (simp add: with_reports_def split: option.split)

lemma invited_ok: "dict_ok d \<Longrightarrow> dict_ok (fold (\<lambda>l d. setdefault l FORMAL_LEADER d) ls d)"
  by (induction ls arbitrary: d) (auto intro: dict_ok_setdefault)

lemma map_of_invited: "map_of (fold (\<lambda>l d. setdefault l FORMAL_LEADER d) ls d) a =
    (case map_of d a of Some v \<Rightarrow> Some v | None \<Rightarrow> if a \<in> set ls then Some FORMAL_LEADER else None)"
  by (induction ls arbitrary: d) (auto simp: map_of_setdefault split: option.splits)

lemma map_of_sets:
  assumes "dict_ok d" and "dict_ok e"
  shows "map_of d = map_of e \<longleftrightarrow> set d = set e"
proof
  assume "map_of d = map_of e"
  then have "(k, v) \<in> set d \<longleftrightarrow> (k, v) \<in> set e" for k v
    using map_of_dict [OF assms(1)] map_of_dict [OF assms(2)] by metis
  then show "set d = set e" by auto
next
  assume eq: "set d = set e"
  show "map_of d = map_of e"
  proof
    fix k
    have "map_of d k = Some v \<longleftrightarrow> map_of e k = Some v" for v
      using map_of_dict [OF assms(1)] map_of_dict [OF assms(2)] eq by metis
    then show "map_of d k = map_of e k" by (metis not_None_eq)
  qed
qed

lemma same_dict_iff:
  assumes "dict_ok d" and "dict_ok e"
  shows "same_dict d e \<longleftrightarrow> map_of d = map_of e"
proof -
  have len: "card (set d) = length d" "card (set e) = length e"
    using assms by (simp_all add: dict_ok_def distinct_map distinct_card)
  have "list_all (\<lambda>(k, v). map_of e k = Some v) d \<longleftrightarrow> set d \<subseteq> set e"
    using map_of_dict [OF assms(2)] by (auto simp: list_all_iff)
  then have "same_dict d e \<longleftrightarrow> set d = set e"
    unfolding same_dict_def using len by (metis List.finite_set card_subset_eq order_refl)
  with map_of_sets [OF assms] show ?thesis by simp
qed

subsection \<open>The scan\<close>

lemma scan_leaders_Inr:
  "scan_leaders env ls d = Inr d' \<Longrightarrow> dict_ok d \<Longrightarrow> dict_ok d' \<and> (\<forall>l \<in> set ls. leads env l)
   \<and> map_of d' a = (case map_of d a of Some v \<Rightarrow> Some v
      | None \<Rightarrow> if participant_effective (wv_account env a)
           \<and> list_ex (\<lambda>l. a \<in> set (leader_reports env l)) ls then Some DIRECT_REPORT else None)"
proof (induction ls arbitrary: d)
  case (Cons l ls)
  from Cons.prems(1) obtain rs where l: "leads env l" "wv_reports env l = Answer rs"
    and rest: "scan_leaders env ls (with_reports env rs d) = Inr d'"
    by (auto simp: leads_def split: if_splits answer.splits bool.splits)
  from Cons.IH [OF rest with_reports_ok [OF Cons.prems(2)]] l show ?case
    by (auto simp: map_of_with_reports leader_reports_def split: option.splits)
qed (simp split: option.split)

lemma scan_formal:
  assumes "scan_leaders env (owner # leaders) (invited_members owner leaders) = Inr d"
  shows "dict_ok d" and "map_of d = formal_source env owner leaders"
    and "\<forall>l \<in> set (owner # leaders). leads env l"
proof -
  have ok: "dict_ok (invited_members owner leaders)"
    unfolding invited_members_def by (rule invited_ok) (simp add: dict_ok_def)
  have inv: "map_of (invited_members owner leaders) a = (if a = owner then Some FORMAL_OWNER
      else if a \<in> set leaders then Some FORMAL_LEADER else None)" for a
    by (simp add: invited_members_def map_of_invited)
  from scan_leaders_Inr [OF assms ok] show "dict_ok d" "\<forall>l \<in> set (owner # leaders). leads env l"
    by blast+
  show "map_of d = formal_source env owner leaders"
  proof
    fix a
    from scan_leaders_Inr [OF assms ok, of a] inv [of a]
    show "map_of d a = formal_source env owner leaders a"
      by (auto simp: formal_source_def)
  qed
qed

lemma scan_possible: "\<forall>l \<in> set ls. leads env l \<Longrightarrow> \<exists>d'. scan_leaders env ls d = Inr d'"
proof (induction ls arbitrary: d)
  case (Cons l ls)
  then show ?case by (auto simp: leads_def split: answer.split)
qed simp

text \<open>With answering ports the scan fails exactly on a leader that is not effective.\<close>

lemma scan_refuses:
  assumes "l \<in> set ls" and "\<not> participant_effective (wv_account env l)"
    and "\<And>k. wv_is_leader env k \<noteq> Raised"
    and "\<And>k. wv_is_leader env k = Answer True \<Longrightarrow> wv_reports env k \<noteq> Raised"
  shows "\<exists>m. scan_leaders env ls d = Inl (InvalidWorkspaceParticipant m)"
  using assms(1)
proof (induction ls arbitrary: d)
  case (Cons k ks)
  with assms(2-4) show ?case by (auto split: answer.split bool.split)
qed simp

lemma scan_Inl: "l \<in> set ls \<Longrightarrow> \<not> leads env l \<Longrightarrow> \<exists>e. scan_leaders env ls d = Inl e"
proof (cases "scan_leaders env ls d")
  case (Inr d')
  then have "\<forall>l \<in> set ls. leads env l"
  proof (induction ls arbitrary: d)
    case (Cons k ks)
    then show ?case by (auto simp: leads_def split: if_splits answer.splits bool.splits)
  qed simp
  moreover assume "l \<in> set ls" and "\<not> leads env l"
  ultimately show ?thesis by blast
qed blast

subsection \<open>The stored projection\<close>

lemma existing_projected:
  assumes "distinct (map member_key (wk_members s))"
  shows "dict_ok (existing_members i s)" and "map_of (existing_members i s) = projected (wk_members s) i"
proof -
  let ?rows = "filter (\<lambda>r. wm_workspace r = i) (wk_members s)"
  show "dict_ok (existing_members i s)" by (simp add: existing_members_def)
  have d: "distinct (map wm_account ?rows)"
    using assms by (auto simp: distinct_map inj_on_def member_key_def)
  have "row_by wm_account a (filter (\<lambda>r. wm_workspace r = i) rows) = row_by member_key (i, a) rows" for a rows
    by (induction rows) (auto simp: member_key_def)
  then show "map_of (existing_members i s) = projected (wk_members s) i"
    using d by (simp add: existing_members_def projection_rows_def dict_of_rows_distinct distinct_map
      map_of_rows row_by_sorted projected_def fun_eq_iff)
qed

lemma row_by_filter_out:
  "(\<And>r. key r = k \<Longrightarrow> p r) \<Longrightarrow> row_by key k (filter p rows) = row_by key k rows"
  by (induction rows) auto

lemma row_by_member_rows:
  "dict_ok d \<Longrightarrow> row_by member_key (i, a) (member_rows i now d)
     = map_option (\<lambda>v. \<lparr>wm_workspace = i, wm_account = a, wm_source = v, wm_computed_at = now\<rparr>)
         (map_of d a)"
proof -
  assume ok: "dict_ok d"
  have "row_by member_key (i, a) (map (\<lambda>(account, source). \<lparr>wm_workspace = i, wm_account = account,
     wm_source = source, wm_computed_at = now\<rparr>) xs) = map_option
        (\<lambda>v. \<lparr>wm_workspace = i, wm_account = a, wm_source = v, wm_computed_at = now\<rparr>) (map_of xs a)"
    for xs :: "(string, member_source) dict"
    by (induction xs) (auto simp: member_key_def)
  moreover have "map_of (sort_key fst d) = map_of d"
    using ok by (subst map_of_sets) (simp_all add: dict_ok_def distinct_map)
  ultimately show ?thesis by (simp add: member_rows_def)
qed

lemma member_rows_keys:
  assumes "dict_ok d"
  shows "distinct (map member_key (member_rows i now d))"
    and "member_key ` set (member_rows i now d) = Pair i ` fst ` set d"
proof -
  have keys: "map member_key (member_rows i now d) = map (Pair i) (map fst (sort_key fst d))"
    by (simp add: member_rows_def member_key_def split_def)
  moreover have "distinct (map fst (sort_key fst d))" using assms by (simp add: dict_ok_def distinct_map)
  ultimately show "distinct (map member_key (member_rows i now d))"
    by (simp add: distinct_map inj_on_def)
  from arg_cong [OF keys, of set] show "member_key ` set (member_rows i now d) = Pair i ` fst ` set d"
    by (simp add: image_image)
qed

text \<open>The tables a command writes beside the keys and the audit.\<close>

definition tables_of ::
  "workspace_state \<Rightarrow> workspace_row list \<times> leader_row list \<times> member_row list" where
  "tables_of s = (wk_workspaces s, wk_leaders s, wk_members s)"

lemma tables_of_fields [simp]: "tables_of s = (W, L, M) \<longleftrightarrow>
    wk_workspaces s = W \<and> wk_leaders s = L \<and> wk_members s = M"
  by (simp add: tables_of_def)

text \<open>The projection of one workspace becomes \<open>f\<close>, the others stay.\<close>

definition reprojected ::
  "string \<Rightarrow> (string \<Rightarrow> member_source option) \<Rightarrow> member_row list \<Rightarrow> member_row list \<Rightarrow> bool" where
  "reprojected i f M M' \<longleftrightarrow> distinct (map member_key M')
     \<and> (\<forall>j. projected M' j = (if j = i then f else projected M j))
     \<and> (\<forall>r \<in> set M'. wm_workspace r = i \<or> r \<in> set M)"

text \<open>The projection of a workspace becomes its formal members, whose leaders all lead.\<close>

definition formed ::
  "workspace_env \<Rightarrow> string \<Rightarrow> string list \<Rightarrow> string \<Rightarrow> member_row list \<Rightarrow> member_row list \<Rightarrow> bool" where
  "formed env owner leaders i M M' \<longleftrightarrow> reprojected i (formal_source env owner leaders) M M'
     \<and> (\<forall>l \<in> set (owner # leaders). leads env l)"

lemma reprojected_rows:
  assumes "distinct (map member_key M)" and "dict_ok d"
  shows "reprojected i (map_of d) M (filter (\<lambda>r. wm_workspace r \<noteq> i) M @ member_rows i now d)"
proof -
  let ?M = "filter (\<lambda>r. wm_workspace r \<noteq> i) M"
  have "distinct (map member_key (?M @ member_rows i now d))"
    using assms member_rows_keys [OF assms(2)]
    by (auto simp: distinct_map member_key_def inj_on_def image_iff)
  moreover have "projected (?M @ member_rows i now d) j = (if j = i then map_of d else projected M j)" for j
  proof
    fix a
    show "projected (?M @ member_rows i now d) j a = (if j = i then map_of d else projected M j) a"
    proof (cases "j = i")
      case True
      then have "row_by member_key (j, a) ?M = None" by (auto simp: row_by_None member_key_def)
      with True show ?thesis
        by (simp add: projected_def row_simps row_by_member_rows [OF assms(2)] option.map_comp o_def
          map_option.identity)
    next
      case False
      then have "row_by member_key (j, a) (member_rows i now d) = None"
        using member_rows_keys(2) [OF assms(2)] by (auto simp: row_by_None)
      moreover have "row_by member_key (j, a) ?M = row_by member_key (j, a) M"
        using False by (intro row_by_filter_out) (auto simp: member_key_def)
      ultimately show ?thesis using False by (simp add: projected_def row_simps split: option.split)
    qed
  qed
  moreover have "\<forall>r \<in> set (member_rows i now d). wm_workspace r = i" by (auto simp: member_rows_def)
  ultimately show ?thesis unfolding reprojected_def by auto
qed

lemma reprojected_same: "distinct (map member_key M) \<Longrightarrow> projected M i = f \<Longrightarrow> reprojected i f M M"
  by (simp add: reprojected_def)

lemma workspace_leaders: "workspace_leader_ids i s = leaders_in (wk_leaders s) i"
  by (simp add: workspace_leader_ids_def leaders_in_def)

subsection \<open>Weakest preconditions\<close>

text \<open>A reading of a port and an audit entry do not raise.\<close>

lemma wp_workspace_now: "(\<And>now s'. tables_of s' = tables_of s \<Longrightarrow> Q now s') \<Longrightarrow> wp (workspace_now env) Q E s"
  by (simp add: wp_def workspace_now_def tables_of_def)

lemma wp_workspace_uuid: "(\<And>i s'. tables_of s' = tables_of s \<Longrightarrow> Q i s') \<Longrightarrow> wp (workspace_uuid env) Q E s"
  by (simp add: wp_def workspace_uuid_def tables_of_def)

lemma wp_workspace_audit:
  "(\<And>s'. tables_of s' = tables_of s \<Longrightarrow> Q () s') \<Longrightarrow> wp (workspace_audit env actor action i reason) Q E s"
  unfolding workspace_audit_def
  by (rule wp_cbind, rule wp_workspace_now, rule wp_cbind, rule wp_workspace_uuid)
    (auto intro!: wp_cbind wp_writing wp_produce wp_workspace_uuid simp: tables_of_def
      split: option.split list.split)

lemma wp_audit_recomputed:
  "(\<And>s'. tables_of s' = tables_of s \<Longrightarrow> Q () s') \<Longrightarrow> wp (audit_recomputed env i n c v) Q E s"
  unfolding audit_recomputed_def by (rule wp_workspace_audit)

lemma wp_desired_members:
  assumes "\<And>e. scan_leaders env (owner # leaders_in (wk_leaders s) i)
       (invited_members owner (leaders_in (wk_leaders s) i)) = Inl e \<Longrightarrow> E e s"
    and "\<And>d. dict_ok d \<Longrightarrow> map_of d = formal_source env owner (leaders_in (wk_leaders s) i) \<Longrightarrow>
       \<forall>l \<in> set (owner # leaders_in (wk_leaders s) i). leads env l \<Longrightarrow> Q d s"
  shows "wp (desired_members env i owner) Q E s"
  unfolding desired_members_def workspace_leaders
proof (rule wp_cbind, rule wp_reading, rule wp_computed)
  fix d
  assume "scan_leaders env (owner # leaders_in (wk_leaders s) i)
    (invited_members owner (leaders_in (wk_leaders s) i)) = Inr d"
  from scan_formal [OF this] show "Q d s" by (rule assms(2))
qed (rule assms(1))

lemma wp_replace_members:
  assumes t: "tables_of s = (W, L, M)" and "distinct (map member_key M)" and "dict_ok d"
    and "E (WorkspaceIntegrityError ''members_projection'') s"
    and "\<And>M' s'. tables_of s' = (W, L, M') \<Longrightarrow> reprojected i (map_of d) M M' \<Longrightarrow> Q () s'"
  shows "wp (replace_members i d now) Q E s"
  unfolding replace_members_def
  by (rule wp_statement) (use assms reprojected_rows [OF assms(2,3)] in \<open>auto split: if_splits\<close>)

lemma wp_replace_projection:
  assumes t: "tables_of s = (W, L, M)" and d: "distinct (map member_key M)"
    and scan: "\<And>e. scan_leaders env (owner # leaders_in L i) (invited_members owner (leaders_in L i)) = Inl e
      \<Longrightarrow> E e s"
    and broken: "\<And>s'. tables_of s' = (W, L, M) \<Longrightarrow> E (WorkspaceIntegrityError ''members_projection'') s'"
    and ok: "\<And>n c M' s'. tables_of s' = (W, L, M') \<Longrightarrow>
      formed env owner (leaders_in L i) i M M' \<Longrightarrow>
      c \<longleftrightarrow> projected M i \<noteq> formal_source env owner (leaders_in L i) \<Longrightarrow>
      \<not> c \<longrightarrow> M' = M \<Longrightarrow> Q (n, c) s'"
  shows "wp (replace_projection env i owner) Q E s"
  unfolding replace_projection_def
proof (rule wp_cbind, rule wp_desired_members)
  fix e
  assume "scan_leaders env (owner # leaders_in (wk_leaders s) i)
    (invited_members owner (leaders_in (wk_leaders s) i)) = Inl e"
  with t show "E e s" by (auto intro: scan)
next
  fix desired
  let ?f = "formal_source env owner (leaders_in L i)"
  assume des: "dict_ok desired" and "map_of desired = formal_source env owner (leaders_in (wk_leaders s) i)"
    and "\<forall>l \<in> set (owner # leaders_in (wk_leaders s) i). leads env l"
  with t have f: "map_of desired = ?f" and lead: "\<forall>l \<in> set (owner # leaders_in L i). leads env l"
    by simp_all
  have ex: "dict_ok (existing_members i s)" "map_of (existing_members i s) = projected M i"
    using existing_projected [of s i] t d by simp_all
  have same: "same_dict (existing_members i s) desired \<longleftrightarrow> projected M i = ?f"
    using same_dict_iff [OF ex(1) des] ex(2) f by simp
  show "wp (cbind (reading (existing_members i)) (\<lambda>existing.
     cseq (if \<not> same_dict existing desired
           then cbind (workspace_now env) (replace_members i desired) else produce ())
       (produce (length desired, \<not> same_dict existing desired)))) Q E s"
  proof (rule wp_cbind, rule wp_reading, rule wp_cseq, rule wp_if)
    assume "\<not> same_dict (existing_members i s) desired"
    with same have ne: "projected M i \<noteq> ?f" by simp
    show "wp (cbind (workspace_now env) (replace_members i desired))
      (\<lambda>_. wp (produce (length desired, \<not> same_dict (existing_members i s) desired)) Q E) E s"
    proof (rule wp_cbind, rule wp_workspace_now)
      fix now s'
      assume "tables_of s' = tables_of s"
      with t have t': "tables_of s' = (W, L, M)" by simp
      show "wp (replace_members i desired now)
        (\<lambda>_. wp (produce (length desired, \<not> same_dict (existing_members i s) desired)) Q E) E s'"
        by (rule wp_replace_members [OF t' d des], rule broken [OF t'], rule wp_produce, rule ok)
          (use f same ne lead in \<open>auto simp: formed_def\<close>)
    qed
  next
    assume "\<not> \<not> same_dict (existing_members i s) desired"
    with same have eq: "projected M i = ?f" by simp
    show "wp (produce ()) (\<lambda>_. wp (produce (length desired, \<not> same_dict (existing_members i s) desired)) Q E) E s"
      by (rule wp_produce, rule wp_produce, rule ok [OF t])
        (use same eq lead reprojected_same [OF d eq] in \<open>auto simp: formed_def\<close>)
  qed
qed

end
