(* ===== verification/Workspace_Safety.thy ===== *)
theory Workspace_Safety
  imports Workspace_Members
begin

section \<open>The workspace module: what the commands write\<close>

text \<open>
  The outcome of every command, on success, on a denial (which commits) and on an exception, in
  terms of the three tables. The versioned commands share one description: what the request
  requires (\<open>admitted\<close>), what it writes first (\<open>change_leaders\<close>, \<open>change_owner\<close>) and the
  projection and the version written last (\<open>wp_versioned\<close>).
\<close>

definition version_bumped :: "string \<Rightarrow> workspace_row list \<Rightarrow> workspace_row list" where
  "version_bumped i W = set_where (\<lambda>w. ws_id w = i) (\<lambda>w. w\<lparr>ws_version := ws_version w + 1\<rparr>) W"

definition bump_ok :: "string \<Rightarrow> workspace_row list \<Rightarrow> bool" where
  "bump_ok i W \<longleftrightarrow> (\<forall>w \<in> set W. ws_id w = i \<longrightarrow> workspace_row_ok (w\<lparr>ws_version := ws_version w + 1\<rparr>))"

definition scan_fails :: "workspace_env \<Rightarrow> string \<Rightarrow> string list \<Rightarrow> workspace_error \<Rightarrow> bool" where
  "scan_fails env owner leaders e \<longleftrightarrow>
     scan_leaders env (owner # leaders) (invited_members owner leaders) = Inl e"

lemma scan_fails_leads: "\<forall>l \<in> set (owner # leaders). leads env l \<Longrightarrow> \<not> scan_fails env owner leaders e"
  using scan_possible [of "owner # leaders" env "invited_members owner leaders"]
  by (auto simp: scan_fails_def simp del: scan_leaders.simps)

lemma change_workspaces_Inr: "change_workspaces i f s = Inr s' \<longleftrightarrow>
    (\<forall>w \<in> set (wk_workspaces s). ws_id w = i \<longrightarrow> workspace_row_ok (f w))
    \<and> s' = s\<lparr>wk_workspaces := set_where (\<lambda>w. ws_id w = i) f (wk_workspaces s)\<rparr>"
  by (auto simp: change_workspaces_def list_ex_iff)

lemma change_workspaces_Inl:
  "change_workspaces i f s = Inl e \<Longrightarrow> e = WorkspaceIntegrityError ''workspace''"
  by (auto simp: change_workspaces_def split: if_splits)

lemma integrity_error [simp]:
  "\<not> is_workspace_error (WorkspaceIntegrityError t)" "\<not> is_workspace_error (WorkspacePortFailure t)"
  "\<not> is_workspace_error (WorkspaceValueError t)"
  by (simp_all add: is_workspace_error_def)

lemma wp_bump_version:
  assumes t: "tables_of s = (W, L, M)" and w: "row_by ws_id i W = Some w"
    and "\<And>t. E (WorkspaceIntegrityError t) s"
    and "\<And>s'. tables_of s' = (version_bumped i W, L, M) \<Longrightarrow> bump_ok i W \<Longrightarrow>
      Q (w\<lparr>ws_version := ws_version w + 1\<rparr>) s'"
  shows "wp (bump_version i) Q E s"
proof -
  have "row_by ws_id i (version_bumped i W) = Some (w\<lparr>ws_version := ws_version w + 1\<rparr>)"
    using w row_by_Some [OF w] by (simp add: version_bumped_def row_simps)
  with assms show ?thesis
    unfolding bump_version_def
    by (intro wp_statement)
      (auto simp: change_workspaces_Inr rbind_Inl_iff rbind_Inr_iff workspace_by_id_def version_bumped_def
        bump_ok_def dest!: change_workspaces_Inl split: option.splits)
qed

lemma wp_governed:
  assumes t: "tables_of s = (W, L, M)" and d: "distinct (map member_key M)"
    and w: "row_by ws_id i W = Some w"
    and scan: "\<And>e. scan_fails env owner (leaders_in L i) e \<Longrightarrow> E e s"
    and broken: "\<And>e s'. \<not> is_workspace_error e \<Longrightarrow> E e s'"
    and ok: "\<And>M' s'. tables_of s' = (version_bumped i W, L, M') \<Longrightarrow>
      formed env owner (leaders_in L i) i M M' \<Longrightarrow> bump_ok i W \<Longrightarrow>
      Q (w\<lparr>ws_version := ws_version w + 1\<rparr>) s'"
  shows "wp (governed env i owner actor action reason) Q E s"
  unfolding governed_def
proof (rule wp_cbind, rule wp_replace_projection [OF t d])
  fix e
  assume "scan_leaders env (owner # leaders_in L i) (invited_members owner (leaders_in L i)) = Inl e"
  then show "E e s" by (intro scan) (simp add: scan_fails_def)
next
  fix n c M' s1
  assume t1: "tables_of s1 = (W, L, M')"
    and re: "formed env owner (leaders_in L i) i M M'"
  show "wp (case (n, c) of (n, _) \<Rightarrow> cbind (bump_version i) (\<lambda>final.
     cseq (workspace_audit env actor action i (reason (ws_version final)))
    (cseq (audit_recomputed env i n True (ws_version final)) (produce final)))) Q E s1"
    unfolding prod.case
    by (rule wp_cbind, rule wp_bump_version [OF t1 w], rule broken, simp,
        rule wp_cseq, rule wp_workspace_audit, rule wp_cseq, rule wp_audit_recomputed,
        rule wp_produce, rule ok [OF _ re]) simp_all
qed (rule broken, simp)

subsection \<open>The versioned commands\<close>

definition request_workspace :: "workspace_request \<Rightarrow> string option" where
  "request_workspace q = (case q of CreateWorkspace _ _ _ \<Rightarrow> None
     | InviteLeader i _ _ _ \<Rightarrow> Some i | RemoveLeader i _ _ _ \<Rightarrow> Some i | TransferOwner i _ _ _ \<Rightarrow> Some i)"

definition expected_version :: "workspace_request \<Rightarrow> int" where
  "expected_version q = (case q of CreateWorkspace _ _ _ \<Rightarrow> 0
     | InviteLeader _ _ v _ \<Rightarrow> v | RemoveLeader _ _ v _ \<Rightarrow> v | TransferOwner _ _ v _ \<Rightarrow> v)"

definition change_leaders :: "workspace_request \<Rightarrow> string \<Rightarrow> leader_row list \<Rightarrow> leader_row list" where
  "change_leaders q a L = (case q of
       InviteLeader i account _ _ \<Rightarrow> L @ [\<lparr>wl_workspace = i, wl_account = account, wl_invited_by = a\<rparr>]
     | RemoveLeader i account _ _ \<Rightarrow> filter (\<lambda>r. leader_key r \<noteq> (i, account)) L
     | _ \<Rightarrow> L)"

definition change_owner :: "workspace_request \<Rightarrow> workspace_row list \<Rightarrow> workspace_row list" where
  "change_owner q W = (case q of
       TransferOwner i owner _ _ \<Rightarrow> set_where (\<lambda>w. ws_id w = i) (\<lambda>w. w\<lparr>ws_owner := owner\<rparr>) W
     | _ \<Rightarrow> W)"

definition owner_after :: "workspace_request \<Rightarrow> workspace_row \<Rightarrow> string" where
  "owner_after q w = (case q of TransferOwner _ owner _ _ \<Rightarrow> owner | _ \<Rightarrow> ws_owner w)"

text \<open>What a versioned request has to satisfy before it writes.\<close>

definition admitted ::
  "workspace_env \<Rightarrow> org_actor \<Rightarrow> workspace_request \<Rightarrow> workspace_row list \<Rightarrow> leader_row list
   \<Rightarrow> workspace_row \<Rightarrow> bool" where
  "admitted env actor q W L w \<longleftrightarrow> ws_archived_at w = None
     \<and> workspace_actor_id actor = Inr (ws_owner w) \<and> ws_version w = expected_version q
     \<and> (case q of
          InviteLeader i account _ _ \<Rightarrow> row_by ws_id i W = Some w \<and> valid_leader env account = Inr True
            \<and> (i, account) \<notin> leader_key ` set L \<and> nonblank_text account
        | RemoveLeader i account _ _ \<Rightarrow> row_by ws_id i W = Some w \<and> account \<noteq> ws_owner w
            \<and> (i, account) \<in> leader_key ` set L
        | TransferOwner i owner _ _ \<Rightarrow> row_by ws_id i W = Some w \<and> owner \<in> set (leaders_in L i)
            \<and> valid_leader env owner = Inr True
            \<and> (\<forall>x \<in> set W. ws_id x = i \<longrightarrow> workspace_row_ok (x\<lparr>ws_owner := owner\<rparr>))
        | CreateWorkspace _ _ _ \<Rightarrow> False)"

lemma wp_locked:
  assumes "tables_of s = (W, L, M)" and "\<And>e. E e s"
    and "\<And>w. row_by ws_id i W = Some w \<Longrightarrow> ws_archived_at w = None \<Longrightarrow>
      workspace_actor_id actor = Inr (ws_owner w) \<Longrightarrow> ws_version w = v \<Longrightarrow> Q w s"
  shows "wp (locked_owned_workspace i v actor) Q E s"
  unfolding locked_owned_workspace_def
  by (intro wp_rules) (use assms in \<open>auto simp: workspace_by_id_def\<close>)

lemma wp_invite:
  assumes t: "tables_of s = (W, L, M)" and d: "distinct (map member_key M)"
    and q: "q = InviteLeader i account v reason"
    and early: "\<And>e. E e s" and broken: "\<And>e s'. \<not> is_workspace_error e \<Longrightarrow> E e s'"
    and late: "\<And>w e s'. admitted env actor q W L w \<Longrightarrow> tables_of s' = (W, change_leaders q (ws_owner w) L, M) \<Longrightarrow>
      scan_fails env (ws_owner w) (leaders_in (change_leaders q (ws_owner w) L) i) e \<Longrightarrow>
      wk_audit s' = wk_audit s \<Longrightarrow> E e s'"
    and ok: "\<And>w M' s'. admitted env actor q W L w \<Longrightarrow> bump_ok i W \<Longrightarrow>
      tables_of s' = (version_bumped i W, change_leaders q (ws_owner w) L, M') \<Longrightarrow>
      formed env (ws_owner w) (leaders_in (change_leaders q (ws_owner w) L) i) i M M' \<Longrightarrow>
      Q (w\<lparr>ws_version := ws_version w + 1\<rparr>) s'"
  shows "wp (invite_leader env i account v actor reason) Q E s"
  unfolding invite_leader_def
proof (rule wp_cbind, rule wp_locked [OF t], rule early, rule wp_cbind, rule wp_computed, rule early,
    rule wp_cseq, rule wp_guarded, rule early, rule wp_cbind, rule wp_computed, rule early)
  fix w valid a
  assume w: "row_by ws_id i W = Some w" "ws_archived_at w = None"
      "workspace_actor_id actor = Inr (ws_owner w)" "ws_version w = v"
    and "valid_leader env account = Inr valid" and "\<not> \<not> valid" and a: "workspace_actor_id actor = Inr a"
  then have valid: "valid_leader env account = Inr True" by simp
  from w(3) a have a: "a = ws_owner w" by simp
  show "wp (cbind (insert_leader i account a) (\<lambda>inserted. cseq (guarded (\<not> inserted) (LeaderAlreadyInvited account))
      (governed env i (ws_owner w) a ''workspace.leader.invited''
         (\<lambda>v. reason @ ''; account='' @ account @ ''; version='' @ str_of_int v)))) Q E s"
    unfolding insert_leader_def
  proof (rule wp_cbind, rule wp_statement)
    fix x s1
    assume ins: "(let r = \<lparr>wl_workspace = i, wl_account = account, wl_invited_by = a\<rparr>
       in if \<not> nonblank_text account \<or> \<not> nonblank_text a then Inl (WorkspaceIntegrityError ''leader'')
          else if row_by leader_key (i, account) (wk_leaders s) \<noteq> None then Inr (False, s)
          else if workspace_by_id i s = None then Inl (WorkspaceIntegrityError ''leader'')
          else Inr (True, s\<lparr>wk_leaders := wk_leaders s @ [r]\<rparr>)) = Inr (x, s1)"
    show "wp (cseq (guarded (\<not> x) (LeaderAlreadyInvited account))
      (governed env i (ws_owner w) a ''workspace.leader.invited''
         (\<lambda>v. reason @ ''; account='' @ account @ ''; version='' @ str_of_int v))) Q E s1"
    proof (cases x)
      case False
      with ins have "s1 = s" by (auto simp: Let_def split: if_splits)
      with False show ?thesis by (auto intro!: wp_cseq wp_guarded early)
    next
      case True
      with ins t have ad: "nonblank_text account" "(i, account) \<notin> leader_key ` set L"
        and t1: "tables_of s1 = (W, change_leaders q (ws_owner w) L, M)" and au: "wk_audit s1 = wk_audit s"
        by (auto simp: Let_def row_by_None change_leaders_def q a split: if_splits)
      with w valid have adm: "admitted env actor q W L w"
        by (simp add: admitted_def q expected_version_def)
      show ?thesis
        by (rule wp_cseq, rule wp_guarded, simp add: True, rule wp_governed [OF t1 d w(1)],
            erule late [OF adm t1 _ au], erule broken, rule ok [OF adm]) simp_all
    qed
  qed (auto simp: Let_def intro: broken split: if_splits)
qed

lemma wp_remove:
  assumes t: "tables_of s = (W, L, M)" and d: "distinct (map member_key M)"
    and q: "q = RemoveLeader i account v reason" and L: "distinct (map leader_key L)"
    and early: "\<And>e. E e s" and broken: "\<And>e s'. \<not> is_workspace_error e \<Longrightarrow> E e s'"
    and late: "\<And>w e s'. admitted env actor q W L w \<Longrightarrow> tables_of s' = (W, change_leaders q (ws_owner w) L, M) \<Longrightarrow>
      scan_fails env (ws_owner w) (leaders_in (change_leaders q (ws_owner w) L) i) e \<Longrightarrow>
      wk_audit s' = wk_audit s \<Longrightarrow> E e s'"
    and ok: "\<And>w M' s'. admitted env actor q W L w \<Longrightarrow> bump_ok i W \<Longrightarrow>
      tables_of s' = (version_bumped i W, change_leaders q (ws_owner w) L, M') \<Longrightarrow>
      formed env (ws_owner w) (leaders_in (change_leaders q (ws_owner w) L) i) i M M' \<Longrightarrow>
      Q (w\<lparr>ws_version := ws_version w + 1\<rparr>) s'"
  shows "wp (remove_leader env i account v actor reason) Q E s"
  unfolding remove_leader_def
proof (rule wp_cbind, rule wp_locked [OF t], rule early, rule wp_cseq, rule wp_guarded, rule early)
  fix w
  assume w: "row_by ws_id i W = Some w" "ws_archived_at w = None"
      "workspace_actor_id actor = Inr (ws_owner w)" "ws_version w = v"
    and ne: "account \<noteq> ws_owner w"
  show "wp (cbind (delete_leader i account) (\<lambda>deleted.
     cseq (guarded (\<not> deleted) (LeaderNotInvited account))
    (cbind (computed (workspace_actor_id actor)) (\<lambda>a.
     governed env i (ws_owner w) a ''workspace.leader.removed''
       (\<lambda>v. reason @ ''; account='' @ account @ ''; version='' @ str_of_int v))))) Q E s"
    unfolding delete_leader_def
  proof (rule wp_cbind, rule wp_statement)
    fix x s1
    let ?p = "\<lambda>r. leader_key r = (i, account)"
    assume "Inr (length (filter ?p (wk_leaders s)) = 1,
      s\<lparr>wk_leaders := filter (\<lambda>r. leader_key r \<noteq> (i, account)) (wk_leaders s)\<rparr>) = Inr (x, s1)"
    then have x: "x \<longleftrightarrow> length (filter ?p L) = 1"
      and s1: "s1 = s\<lparr>wk_leaders := filter (\<lambda>r. leader_key r \<noteq> (i, account)) L\<rparr>"
      using t by auto
    show "wp (cseq (guarded (\<not> x) (LeaderNotInvited account)) (cbind (computed (workspace_actor_id actor)) (\<lambda>a.
       governed env i (ws_owner w) a ''workspace.leader.removed''
         (\<lambda>v. reason @ ''; account='' @ account @ ''; version='' @ str_of_int v)))) Q E s1"
    proof (cases x)
      case False
      have "filter ?p L = []"
      proof (cases "filter ?p L")
        case (Cons r rs)
        have "distinct (map leader_key (filter ?p L))" using L by (rule distinct_map_filter)
        with Cons have "leader_key r \<notin> leader_key ` set rs" by simp
        moreover have "\<forall>y \<in> set (filter ?p L). leader_key y = (i, account)" by simp
        ultimately have "rs = []" using Cons by (cases rs) auto
        with Cons False x show ?thesis by simp
      qed
      then have "filter (\<lambda>r. leader_key r \<noteq> (i, account)) L = L" by (simp add: filter_empty_conv filter_id_conv)
      with s1 t have "s1 = s" by simp
      with False show ?thesis by (auto intro!: wp_cseq wp_guarded early)
    next
      case True
      with x have "filter ?p L \<noteq> []" by auto
      then have "(i, account) \<in> leader_key ` set L" by (force simp: filter_empty_conv)
      with w ne have adm: "admitted env actor q W L w" by (simp add: admitted_def q expected_version_def)
      have t1: "tables_of s1 = (W, change_leaders q (ws_owner w) L, M)" and au: "wk_audit s1 = wk_audit s"
        using s1 t by (auto simp: change_leaders_def q)
      show ?thesis
      proof (rule wp_cseq, rule wp_guarded, simp add: True, rule wp_cbind, rule wp_computed)
        fix a
        show "wp (governed env i (ws_owner w) a ''workspace.leader.removed''
           (\<lambda>v. reason @ ''; account='' @ account @ ''; version='' @ str_of_int v)) Q E s1"
          by (rule wp_governed [OF t1 d w(1)], erule late [OF adm t1 _ au], erule broken,
              rule ok [OF adm]) simp_all
      qed (use w in simp)
    qed
  qed simp
qed

lemma wp_transfer:
  assumes t: "tables_of s = (W, L, M)" and d: "distinct (map member_key M)"
    and q: "q = TransferOwner i owner v reason"
    and early: "\<And>e. E e s" and broken: "\<And>e s'. \<not> is_workspace_error e \<Longrightarrow> E e s'"
    and late: "\<And>w e s'. admitted env actor q W L w \<Longrightarrow> tables_of s' = (change_owner q W, L, M) \<Longrightarrow>
      scan_fails env owner (leaders_in L i) e \<Longrightarrow> wk_audit s' = wk_audit s \<Longrightarrow> E e s'"
    and ok: "\<And>w M' s'. admitted env actor q W L w \<Longrightarrow> bump_ok i (change_owner q W) \<Longrightarrow>
      tables_of s' = (version_bumped i (change_owner q W), L, M') \<Longrightarrow>
      formed env owner (leaders_in L i) i M M' \<Longrightarrow>
      Q (w\<lparr>ws_owner := owner, ws_version := ws_version w + 1\<rparr>) s'"
  shows "wp (transfer_owner env i owner v actor reason) Q E s"
  unfolding transfer_owner_def workspace_leaders
proof (rule wp_cbind, rule wp_locked [OF t], rule early, rule wp_cbind, rule wp_reading,
    rule wp_cseq, rule wp_guarded, rule early, rule wp_cbind, rule wp_computed, rule early,
    rule wp_cseq, rule wp_guarded, rule early)
  fix w valid
  assume w: "row_by ws_id i W = Some w" "ws_archived_at w = None"
      "workspace_actor_id actor = Inr (ws_owner w)" "ws_version w = v"
    and mem: "\<not> owner \<notin> set (leaders_in (wk_leaders s) i)"
    and "valid_leader env owner = Inr valid" and "\<not> \<not> valid"
  then have valid: "valid_leader env owner = Inr True" by simp
  show "wp (cseq (update_owner i owner) (cbind (computed (workspace_actor_id actor)) (\<lambda>a.
     governed env i owner a ''workspace.owner.transferred''
       (\<lambda>v. reason @ ''; oldOwner='' @ ws_owner w @ ''; newOwner='' @ owner
          @ ''; version='' @ str_of_int v)))) Q E s"
    unfolding update_owner_def
  proof (rule wp_cseq, rule wp_statement)
    fix x s1
    assume "rbind (change_workspaces i (\<lambda>w. w\<lparr>ws_owner := owner\<rparr>) s) (\<lambda>s'. Inr ((), s')) = Inr (x, s1)"
    with t have rows: "\<forall>x \<in> set W. ws_id x = i \<longrightarrow> workspace_row_ok (x\<lparr>ws_owner := owner\<rparr>)"
      and t1: "tables_of s1 = (change_owner q W, L, M)" and au: "wk_audit s1 = wk_audit s"
      by (auto simp: rbind_Inr_iff change_workspaces_Inr change_owner_def q)
    have adm: "admitted env actor q W L w"
      using w mem valid rows t by (simp add: admitted_def q expected_version_def)
    have w1: "row_by ws_id i (change_owner q W) = Some (w\<lparr>ws_owner := owner\<rparr>)"
      using w(1) row_by_Some [OF w(1)] by (simp add: change_owner_def q row_simps)
    show "wp (cbind (computed (workspace_actor_id actor)) (\<lambda>a.
       governed env i owner a ''workspace.owner.transferred''
         (\<lambda>v. reason @ ''; oldOwner='' @ ws_owner w @ ''; newOwner='' @ owner
            @ ''; version='' @ str_of_int v))) Q E s1"
    proof (rule wp_cbind, rule wp_computed)
      fix a
      show "wp (governed env i owner a ''workspace.owner.transferred''
         (\<lambda>v. reason @ ''; oldOwner='' @ ws_owner w @ ''; newOwner='' @ owner
            @ ''; version='' @ str_of_int v)) Q E s1"
      proof (rule wp_governed [OF t1 d w1])
        fix M' s'
        assume "tables_of s' = (version_bumped i (change_owner q W), L, M')"
          and "formed env owner (leaders_in L i) i M M'"
          and "bump_ok i (change_owner q W)"
        from ok [OF adm this(3,1,2)]
        show "Q (w\<lparr>ws_owner := owner\<rparr>\<lparr>ws_version := ws_version (w\<lparr>ws_owner := owner\<rparr>) + 1\<rparr>) s'" by simp
      qed (erule late [OF adm t1 _ au], erule broken)
    qed (use w in simp)
  qed (auto simp: rbind_Inl_iff dest!: change_workspaces_Inl intro: broken)
qed

lemma wp_versioned:
  assumes t: "tables_of s = (W, L, M)" and d: "distinct (map member_key M)"
    and q: "request_workspace q = Some i" and L: "distinct (map leader_key L)"
    and early: "\<And>e. E e s" and broken: "\<And>e s'. \<not> is_workspace_error e \<Longrightarrow> E e s'"
    and late: "\<And>w e s'. admitted env actor q W L w \<Longrightarrow>
      tables_of s' = (change_owner q W, change_leaders q (ws_owner w) L, M) \<Longrightarrow>
      scan_fails env (owner_after q w) (leaders_in (change_leaders q (ws_owner w) L) i) e \<Longrightarrow>
      wk_audit s' = wk_audit s \<Longrightarrow> E e s'"
    and ok: "\<And>w M' s'. admitted env actor q W L w \<Longrightarrow> bump_ok i (change_owner q W) \<Longrightarrow>
      tables_of s' = (version_bumped i (change_owner q W), change_leaders q (ws_owner w) L, M') \<Longrightarrow>
      formed env (owner_after q w)
        (leaders_in (change_leaders q (ws_owner w) L) i) i M M' \<Longrightarrow>
      Q (w\<lparr>ws_owner := owner_after q w, ws_version := ws_version w + 1\<rparr>) s'"
  shows "wp (request_command env actor q) Q E s"
proof (cases q)
  case (InviteLeader j account v reason)
  with q have j: "j = i" by (simp add: request_workspace_def)
  have own: "change_owner q W = W" "\<And>w. owner_after q w = ws_owner w"
    by (simp_all add: InviteLeader change_owner_def owner_after_def)
  have "wp (invite_leader env i account v actor reason) Q E s"
  proof (rule wp_invite [OF t d InviteLeader [unfolded j]])
    show "E e s" for e by (rule early)
    show "E e s'" if "\<not> is_workspace_error e" for e s' using that by (rule broken)
    show "E e s'" if "admitted env actor q W L w" "tables_of s' = (W, change_leaders q (ws_owner w) L, M)"
      "scan_fails env (ws_owner w) (leaders_in (change_leaders q (ws_owner w) L) i) e"
      "wk_audit s' = wk_audit s" for w e s'
      using late [of w s' e] that own by simp
    show "Q (w\<lparr>ws_version := ws_version w + 1\<rparr>) s'" if "admitted env actor q W L w" "bump_ok i W"
      "tables_of s' = (version_bumped i W, change_leaders q (ws_owner w) L, M')"
      "formed env (ws_owner w) (leaders_in (change_leaders q (ws_owner w) L) i) i M M'"
      for w M' s'
      using ok [of w s' M'] that own by simp
  qed
  then show ?thesis by (simp add: InviteLeader j request_command_def)
next
  case (RemoveLeader j account v reason)
  with q have j: "j = i" by (simp add: request_workspace_def)
  have own: "change_owner q W = W" "\<And>w. owner_after q w = ws_owner w"
    by (simp_all add: RemoveLeader change_owner_def owner_after_def)
  have "wp (remove_leader env i account v actor reason) Q E s"
  proof (rule wp_remove [OF t d RemoveLeader [unfolded j] L])
    show "E e s" for e by (rule early)
    show "E e s'" if "\<not> is_workspace_error e" for e s' using that by (rule broken)
    show "E e s'" if "admitted env actor q W L w" "tables_of s' = (W, change_leaders q (ws_owner w) L, M)"
      "scan_fails env (ws_owner w) (leaders_in (change_leaders q (ws_owner w) L) i) e"
      "wk_audit s' = wk_audit s" for w e s'
      using late [of w s' e] that own by simp
    show "Q (w\<lparr>ws_version := ws_version w + 1\<rparr>) s'" if "admitted env actor q W L w" "bump_ok i W"
      "tables_of s' = (version_bumped i W, change_leaders q (ws_owner w) L, M')"
      "formed env (ws_owner w) (leaders_in (change_leaders q (ws_owner w) L) i) i M M'"
      for w M' s'
      using ok [of w s' M'] that own by simp
  qed
  then show ?thesis by (simp add: RemoveLeader j request_command_def)
next
  case (TransferOwner j owner v reason)
  with q have j: "j = i" by (simp add: request_workspace_def)
  have own: "\<And>a. change_leaders q a L = L" "\<And>w. owner_after q w = owner"
    by (simp_all add: TransferOwner change_leaders_def owner_after_def)
  have "wp (transfer_owner env i owner v actor reason) Q E s"
  proof (rule wp_transfer [OF t d TransferOwner [unfolded j]])
    show "E e s" for e by (rule early)
    show "E e s'" if "\<not> is_workspace_error e" for e s' using that by (rule broken)
    show "E e s'" if "admitted env actor q W L w" "tables_of s' = (change_owner q W, L, M)"
      "scan_fails env owner (leaders_in L i) e" "wk_audit s' = wk_audit s" for w e s'
      using late [of w s' e] that own by simp
    show "Q (w\<lparr>ws_owner := owner, ws_version := ws_version w + 1\<rparr>) s'"
      if "admitted env actor q W L w" "bump_ok i (change_owner q W)"
        "tables_of s' = (version_bumped i (change_owner q W), L, M')"
        "formed env owner (leaders_in L i) i M M'" for w M' s'
      using ok [of w s' M'] that own by simp
  qed
  then show ?thesis by (simp add: TransferOwner j request_command_def)
qed (use q in \<open>simp add: request_workspace_def\<close>)

subsection \<open>Creating a workspace\<close>

definition new_workspace :: "string \<Rightarrow> string \<Rightarrow> string \<Rightarrow> workspace_row" where
  "new_workspace i name owner = \<lparr>ws_id = i, ws_name = strip name, ws_owner = owner,
     ws_archived_at = None, ws_version = 1\<rparr>"

lemma wp_create:
  assumes t: "tables_of s = (W, L, M)" and d: "distinct (map member_key M)"
    and early: "\<And>e s'. tables_of s' = (W, L, M) \<Longrightarrow> E e s'"
    and broken: "\<And>e s'. \<not> is_workspace_error e \<Longrightarrow> E e s'"
    and late: "\<And>i e s'. i \<notin> ws_id ` set W \<Longrightarrow> valid_leader env owner = Inr True \<Longrightarrow>
      scan_fails env owner (leaders_in L i) e \<Longrightarrow> E e s'"
    and ok: "\<And>i M' s'. i \<notin> ws_id ` set W \<Longrightarrow> valid_leader env owner = Inr True \<Longrightarrow>
      workspace_actor_id actor = Inr owner \<Longrightarrow> workspace_row_ok (new_workspace i name owner) \<Longrightarrow>
      tables_of s' = (W @ [new_workspace i name owner], L, M') \<Longrightarrow>
      formed env owner (leaders_in L i) i M M' \<Longrightarrow>
      Q (new_workspace i name owner) s'"
  shows "wp (create_workspace env name owner actor reason) Q E s"
  unfolding create_workspace_def
proof (rule wp_cseq, rule wp_guarded, rule early [OF t], rule wp_cbind, rule wp_computed,
    rule early [OF t])
  fix a
  assume a: "workspace_actor_id actor = Inr a"
  let ?rest = "\<lambda>i. cbind (insert_workspace i (strip name) owner) (\<lambda>row.
     cbind (replace_projection env i owner) (\<lambda>(n, _).
     cseq (workspace_audit env a ''workspace.created'' i (reason @ ''; version=1''))
    (cseq (audit_recomputed env i n True 1) (produce row))))"
  have rest: "wp (cbind (workspace_uuid env) ?rest) Q E s"
    if valid: "valid_leader env owner = Inr True" and actor: "workspace_actor_id actor = Inr owner"
  proof (rule wp_cbind, rule wp_workspace_uuid)
    fix i s1
    assume "tables_of s1 = tables_of s"
    with t have t1: "tables_of s1 = (W, L, M)" by simp
    show "wp (?rest i) Q E s1"
      unfolding insert_workspace_def
    proof (rule wp_cbind, rule wp_statement)
      fix w s2
      assume "(let w = \<lparr>ws_id = i, ws_name = strip name, ws_owner = owner, ws_archived_at = None, ws_version = 1\<rparr>
         in if \<not> workspace_row_ok w \<or> workspace_by_id i s1 \<noteq> None
            then Inl (WorkspaceIntegrityError ''workspace'')
            else Inr (w, s1\<lparr>wk_workspaces := wk_workspaces s1 @ [w]\<rparr>)) = Inr (w, s2)"
      with t1 have w: "w = new_workspace i name owner" "workspace_row_ok (new_workspace i name owner)"
        and i: "i \<notin> ws_id ` set W" and t2: "tables_of s2 = (W @ [new_workspace i name owner], L, M)"
        by (auto simp: Let_def new_workspace_def workspace_by_id_def row_by_None split: if_splits)
      show "wp (cbind (replace_projection env i owner) (\<lambda>(n, _).
         cseq (workspace_audit env a ''workspace.created'' i (reason @ ''; version=1''))
        (cseq (audit_recomputed env i n True 1) (produce w)))) Q E s2"
      proof (rule wp_cbind, rule wp_replace_projection [OF t2 d])
        fix e
        assume "scan_leaders env (owner # leaders_in L i) (invited_members owner (leaders_in L i)) = Inl e"
        then show "E e s2" by (intro late [OF i valid]) (simp add: scan_fails_def)
      next
        fix n c M' s3
        assume t3: "tables_of s3 = (W @ [new_workspace i name owner], L, M')"
          and re: "formed env owner (leaders_in L i) i M M'"
        show "wp (case (n, c) of (n, _) \<Rightarrow>
           cseq (workspace_audit env a ''workspace.created'' i (reason @ ''; version=1''))
          (cseq (audit_recomputed env i n True 1) (produce w))) Q E s3"
          unfolding prod.case w(1)
          by (rule wp_cseq, rule wp_workspace_audit, rule wp_cseq, rule wp_audit_recomputed,
              rule wp_produce, rule ok [OF i valid actor w(2) _ re]) (use t3 in simp)
      qed (rule broken, simp)
    qed (auto simp: Let_def intro: broken split: if_splits)
  qed
  show "wp (cbind (if a \<noteq> owner then produce False else computed (valid_leader env owner)) (\<lambda>valid.
     cseq (guarded (\<not> valid) (InvalidWorkspaceParticipant ''workspace owner must be the creating leader''))
    (cbind (workspace_uuid env) ?rest))) Q E s"
  proof (rule wp_cbind, rule wp_if)
    assume "\<not> a \<noteq> owner"
    with a have actor: "workspace_actor_id actor = Inr owner" by simp
    show "wp (computed (valid_leader env owner)) (\<lambda>valid. wp (cseq (guarded (\<not> valid)
       (InvalidWorkspaceParticipant ''workspace owner must be the creating leader''))
      (cbind (workspace_uuid env) ?rest)) Q E) E s"
      by (rule wp_computed, rule early [OF t], rule wp_cseq, rule wp_guarded, rule early [OF t],
          rule rest [OF _ actor]) simp
  qed (auto intro!: wp_produce wp_cseq wp_guarded early [OF t])
qed

section \<open>The workspace module: invariant and evolution\<close>

text \<open>
  What every committed request, recomputation and membership change keeps (\<open>workspace_sound\<close>): the
  constraints of the tables, and that every workspace has exactly one projected owner; and how a
  workspace evolves (\<open>tracked\<close>): its version never decreases, and while it stays so does the
  projection. \<open>workspace_step\<close> is one such transition with ports of its own.
\<close>

type_synonym workspace_tables = "workspace_row list \<times> leader_row list \<times> member_row list"

definition workspace_sound :: "workspace_tables \<Rightarrow> bool" where
  "workspace_sound T \<longleftrightarrow> (case T of (W, L, M) \<Rightarrow>
     distinct (map ws_id W) \<and> (\<forall>w \<in> set W. workspace_row_ok w)
     \<and> distinct (map leader_key L) \<and> (\<forall>r \<in> set L. wl_workspace r \<in> ws_id ` set W)
     \<and> distinct (map member_key M) \<and> (\<forall>r \<in> set M. wm_workspace r \<in> ws_id ` set W)
     \<and> (\<forall>i \<in> ws_id ` set W. \<exists>!a. projected M i a = Some FORMAL_OWNER))"

definition tracked :: "workspace_tables \<Rightarrow> workspace_tables \<Rightarrow> bool" where
  "tracked T T' \<longleftrightarrow> (case (T, T') of ((W, L, M), (W', L', M')) \<Rightarrow>
     \<forall>w \<in> set W. \<exists>w' \<in> set W'. ws_id w' = ws_id w \<and> ws_name w' = ws_name w
       \<and> ws_archived_at w' = ws_archived_at w \<and> ws_version w \<le> ws_version w'
       \<and> (ws_version w' = ws_version w \<longrightarrow> projected M' (ws_id w) = projected M (ws_id w)))"

definition moves :: "workspace_state \<Rightarrow> workspace_state \<Rightarrow> bool" where
  "moves s s' \<longleftrightarrow> workspace_sound (tables_of s') \<and> tracked (tables_of s) (tables_of s')"

lemma tracked_refl: "tracked T T"
  by (cases T) (auto simp: tracked_def)

lemma tracked_trans:
  assumes "tracked T U" and "tracked U V"
  shows "tracked T V"
proof -
  obtain W1 L1 M1 W2 L2 M2 W3 L3 M3 where eq: "T = (W1, L1, M1)" "U = (W2, L2, M2)" "V = (W3, L3, M3)"
    by (metis prod_cases3)
  show ?thesis unfolding tracked_def eq prod.case
  proof
    fix w
    assume "w \<in> set W1"
    with assms(1) eq obtain x where x: "x \<in> set W2" "ws_id x = ws_id w" "ws_name x = ws_name w"
      "ws_archived_at x = ws_archived_at w" "ws_version w \<le> ws_version x"
      "ws_version x = ws_version w \<longrightarrow> projected M2 (ws_id w) = projected M1 (ws_id w)"
      unfolding tracked_def by auto
    with assms(2) eq obtain y where y: "y \<in> set W3" "ws_id y = ws_id x" "ws_name y = ws_name x"
      "ws_archived_at y = ws_archived_at x" "ws_version x \<le> ws_version y"
      "ws_version y = ws_version x \<longrightarrow> projected M3 (ws_id x) = projected M2 (ws_id x)"
      unfolding tracked_def by auto
    with x show "\<exists>w' \<in> set W3. ws_id w' = ws_id w \<and> ws_name w' = ws_name w
       \<and> ws_archived_at w' = ws_archived_at w \<and> ws_version w \<le> ws_version w'
       \<and> (ws_version w' = ws_version w \<longrightarrow> projected M3 (ws_id w) = projected M1 (ws_id w))"
      by (intro bexI [of _ y]) auto
  qed
qed

lemma moves_same: "workspace_sound (tables_of s) \<Longrightarrow> tables_of s' = tables_of s \<Longrightarrow> moves s s'"
  by (simp add: moves_def tracked_refl del: tables_of_fields)

lemma sound_parts:
  assumes "workspace_sound (W, L, M)"
  shows "distinct (map ws_id W)" and "distinct (map leader_key L)" and "distinct (map member_key M)"
  using assms by (simp_all add: workspace_sound_def)

subsection \<open>The writes\<close>

lemma formal_owner: "\<exists>!a. formal_source env owner leaders a = Some FORMAL_OWNER"
  by (rule ex1I [of _ owner]) (auto simp: formal_source_def split: if_splits)

lemma sound_reprojected:
  assumes "workspace_sound (W, L, M)" and "reprojected i (formal_source env owner leaders) M M'"
    and "i \<in> ws_id ` set W"
  shows "workspace_sound (W, L, M')"
  using assms formal_owner [of env owner leaders]
  unfolding workspace_sound_def reprojected_def by auto

lemma ids_set_where:
  assumes "\<And>w. ws_id (f w) = ws_id w"
  shows "ws_id ` set (set_where p f W) = ws_id ` set W"
  using set_where_keys [of ws_id f p W, OF assms] by (metis set_map)

lemma sound_set_where:
  assumes "workspace_sound (W, L, M)" and "\<And>w. ws_id (f w) = ws_id w"
    and "\<forall>w \<in> set W. ws_id w = i \<longrightarrow> workspace_row_ok (f w)"
  shows "workspace_sound (set_where (\<lambda>w. ws_id w = i) f W, L, M)"
proof -
  let ?W = "set_where (\<lambda>w. ws_id w = i) f W"
  have "ws_id ` set ?W = ws_id ` set W"
    by (rule ids_set_where) (rule assms(2))
  moreover have "\<forall>w \<in> set ?W. workspace_row_ok w"
    using assms(1,3) by (auto simp: set_set_where workspace_sound_def)
  moreover have "distinct (map ws_id ?W)" using assms(1,2) by (simp add: workspace_sound_def)
  ultimately show ?thesis using assms(1) unfolding workspace_sound_def prod.case by metis
qed

lemma sound_bumped: "workspace_sound (W, L, M) \<Longrightarrow> bump_ok i W \<Longrightarrow> workspace_sound (version_bumped i W, L, M)"
  unfolding version_bumped_def by (rule sound_set_where) (auto simp: bump_ok_def)

lemma change_owner_ids [simp]: "ws_id ` set (change_owner q W) = ws_id ` set W"
  by (simp add: change_owner_def ids_set_where split: workspace_request.split)

lemma sound_change_owner:
  "workspace_sound (W, L, M) \<Longrightarrow> admitted env actor q W L w \<Longrightarrow> workspace_sound (change_owner q W, L, M)"
  by (auto simp: change_owner_def admitted_def split: workspace_request.splits intro!: sound_set_where)

lemma admitted_row:
  "admitted env actor q W L w \<Longrightarrow> request_workspace q = Some i \<Longrightarrow>
   row_by ws_id i W = Some w \<and> w \<in> set W \<and> ws_id w = i"
  using row_by_Some [of ws_id i W w]
  by (auto simp: admitted_def request_workspace_def split: workspace_request.splits)

lemma sound_change_leaders:
  assumes "workspace_sound (W, L, M)" and "admitted env actor q W' L w"
    and "request_workspace q = Some i" and "ws_id ` set W' = ws_id ` set W"
  shows "workspace_sound (W, change_leaders q a L, M)"
proof -
  have i: "i \<in> ws_id ` set W" using admitted_row [OF assms(2,3)] assms(4) by auto
  have "distinct (map leader_key (filter p L))" for p
    using assms(1) by (auto simp: workspace_sound_def intro: distinct_map_filter)
  with assms i show ?thesis
    by (cases q) (auto simp: workspace_sound_def change_leaders_def admitted_def request_workspace_def
      leader_key_def)
qed

lemma tracked_versioned:
  assumes "workspace_sound (W, L, M)" and "reprojected i f M M'"
  shows "tracked (W, L, M) (version_bumped i (change_owner q W), L', M')"
  unfolding tracked_def prod.case
proof
  fix w :: workspace_row
  let ?o = "case q of TransferOwner j owner _ _ \<Rightarrow> if ws_id w = j then w\<lparr>ws_owner := owner\<rparr> else w | _ \<Rightarrow> w"
  let ?w = "if ws_id w = i then ?o\<lparr>ws_version := ws_version ?o + 1\<rparr> else ?o"
  assume "w \<in> set W"
  then have o: "?o \<in> set (change_owner q W)"
    by (auto simp: change_owner_def set_set_where split: workspace_request.split)
  have ido: "ws_id ?o = ws_id w" "ws_version ?o = ws_version w" "ws_name ?o = ws_name w"
      "ws_archived_at ?o = ws_archived_at w"
    by (simp_all split: workspace_request.split)
  from imageI [OF o, of "\<lambda>x. if ws_id x = i then x\<lparr>ws_version := ws_version x + 1\<rparr> else x"] ido
  have "?w \<in> set (version_bumped i (change_owner q W))"
    by (simp only: version_bumped_def set_set_where)
  moreover have "ws_id w \<noteq> i \<Longrightarrow> projected M' (ws_id w) = projected M (ws_id w)"
    using assms(2) by (simp add: reprojected_def)
  ultimately show "\<exists>w' \<in> set (version_bumped i (change_owner q W)). ws_id w' = ws_id w \<and> ws_name w' = ws_name w
     \<and> ws_archived_at w' = ws_archived_at w \<and> ws_version w \<le> ws_version w'
     \<and> (ws_version w' = ws_version w \<longrightarrow> projected M' (ws_id w) = projected M (ws_id w))"
    using ido by (intro bexI [of _ ?w]) auto
qed

lemma tracked_denied: "tracked (W, L, M) (change_owner q W, L', M)"
  unfolding tracked_def prod.case
proof
  fix w :: workspace_row
  let ?o = "case q of TransferOwner j owner _ _ \<Rightarrow> if ws_id w = j then w\<lparr>ws_owner := owner\<rparr> else w | _ \<Rightarrow> w"
  assume "w \<in> set W"
  then have "?o \<in> set (change_owner q W)"
    by (auto simp: change_owner_def set_set_where split: workspace_request.split)
  then show "\<exists>w' \<in> set (change_owner q W). ws_id w' = ws_id w \<and> ws_name w' = ws_name w
     \<and> ws_archived_at w' = ws_archived_at w \<and> ws_version w \<le> ws_version w'
     \<and> (ws_version w' = ws_version w \<longrightarrow> projected M (ws_id w) = projected M (ws_id w))"
    by (intro bexI [of _ ?o]) (auto split: workspace_request.split)
qed

lemma tracked_created:
  assumes "workspace_sound (W, L, M)" and "i \<notin> ws_id ` set W" and "reprojected i f M M'"
  shows "tracked (W, L, M) (W @ [w0], L', M')"
proof -
  have "projected M' (ws_id w) = projected M (ws_id w)" if "w \<in> set W" for w
    using that assms(2,3) by (auto simp: reprojected_def)
  then show ?thesis unfolding tracked_def by fastforce
qed

lemma no_leaders_yet: "workspace_sound (W, L, M) \<Longrightarrow> i \<notin> ws_id ` set W \<Longrightarrow> leaders_in L i = []"
proof -
  assume "workspace_sound (W, L, M)" and "i \<notin> ws_id ` set W"
  then have "filter (\<lambda>r. wl_workspace r = i) L = []"
    by (auto simp: workspace_sound_def filter_empty_conv)
  then show ?thesis by (simp add: leaders_in_def)
qed

lemma sound_created:
  assumes s: "workspace_sound (W, L, M)" and i: "i \<notin> ws_id ` set W"
    and w: "workspace_row_ok (new_workspace i name owner)"
    and re: "reprojected i (formal_source env owner leaders) M M'"
  shows "workspace_sound (W @ [new_workspace i name owner], L, M')"
proof -
  let ?w = "new_workspace i name owner"
  have id: "ws_id ?w = i" by (simp add: new_workspace_def)
  then have ids: "ws_id ` set (W @ [?w]) = insert i (ws_id ` set W)" by simp
  have "\<exists>!a. projected M' j a = Some FORMAL_OWNER" if "j \<in> ws_id ` set (W @ [?w])" for j
    using that s re formal_owner [of env owner leaders]
    unfolding ids reprojected_def workspace_sound_def by auto
  then have owners: "\<forall>j \<in> ws_id ` set (W @ [?w]). \<exists>!a. projected M' j a = Some FORMAL_OWNER" by blast
  have "distinct (map ws_id (W @ [?w]))" "\<forall>x \<in> set (W @ [?w]). workspace_row_ok x"
    "distinct (map leader_key L)" "\<forall>r \<in> set L. wl_workspace r \<in> ws_id ` set (W @ [?w])"
    using s i w id by (auto simp: workspace_sound_def)
  moreover have "distinct (map member_key M')" "\<forall>r \<in> set M'. wm_workspace r \<in> ws_id ` set (W @ [?w])"
    using s re unfolding ids reprojected_def workspace_sound_def by auto
  ultimately show ?thesis using owners unfolding workspace_sound_def prod.case by blast
qed

lemma creating_scan: "valid_leader env owner = Inr True \<Longrightarrow> scan_fails env owner [] e \<Longrightarrow> \<not> is_workspace_error e"
  by (auto simp: scan_fails_def valid_leader_def split: if_splits answer.splits bool.splits)

text \<open>On success, and on every exit that a route answers, the tables are sound and tracked.\<close>

lemma request_moves:
  assumes s: "workspace_sound (tables_of s)"
  shows "wp (request_command env actor q) (\<lambda>_. moves s) (\<lambda>e s'. is_workspace_error e \<longrightarrow> moves s s') s"
proof -
  obtain W L M where t: "tables_of s = (W, L, M)" by (metis prod_cases3)
  with s have sound: "workspace_sound (W, L, M)" by (simp del: tables_of_fields)
  note d = sound_parts(3) [OF sound] and l = sound_parts(2) [OF sound]
  note early = moves_same [OF s]
  show ?thesis
  proof (cases "request_workspace q")
    case (Some i)
    show ?thesis
    proof (rule wp_versioned [OF t d Some l])
      fix w e s'
      assume ad: "admitted env actor q W L w"
        and "tables_of s' = (change_owner q W, change_leaders q (ws_owner w) L, M)"
      with t sound_change_leaders [OF sound_change_owner [OF sound ad] ad Some change_owner_ids [symmetric]]
      show "is_workspace_error e \<longrightarrow> moves s s'"
        by (simp add: moves_def tracked_denied del: tables_of_fields)
    next
      fix w M' s'
      assume ad: "admitted env actor q W L w" and b: "bump_ok i (change_owner q W)"
        and t': "tables_of s' = (version_bumped i (change_owner q W), change_leaders q (ws_owner w) L, M')"
        and "formed env (owner_after q w) (leaders_in (change_leaders q (ws_owner w) L) i) i M M'"
      then have re: "reprojected i (formal_source env (owner_after q w)
          (leaders_in (change_leaders q (ws_owner w) L) i)) M M'" by (simp add: formed_def)
      have i: "i \<in> ws_id ` set (change_owner q W)" using admitted_row [OF ad Some] by auto
      have "workspace_sound (change_owner q W, change_leaders q (ws_owner w) L, M)"
        by (rule sound_change_leaders [OF sound_change_owner [OF sound ad] ad Some]) simp
      from sound_bumped [OF sound_reprojected [OF this re i] b] t t' tracked_versioned [OF sound re]
      show "moves s s'" by (simp add: moves_def del: tables_of_fields)
    qed (use early in simp_all)
  next
    case None
    then obtain name owner reason where q: "q = CreateWorkspace name owner reason"
      by (cases q) (simp_all add: request_workspace_def)
    have "wp (create_workspace env name owner actor reason) (\<lambda>_. moves s)
      (\<lambda>e s'. is_workspace_error e \<longrightarrow> moves s s') s"
    proof (rule wp_create [OF t d])
      fix i e s'
      assume "i \<notin> ws_id ` set W" "valid_leader env owner = Inr True" "scan_fails env owner (leaders_in L i) e"
      with creating_scan [of env owner e] no_leaders_yet [OF sound]
      show "is_workspace_error e \<longrightarrow> moves s s'" by simp
    next
      fix i M' s'
      assume i: "i \<notin> ws_id ` set W" and w: "workspace_row_ok (new_workspace i name owner)"
        and t': "tables_of s' = (W @ [new_workspace i name owner], L, M')"
        and "formed env owner (leaders_in L i) i M M'"
      then have re: "reprojected i (formal_source env owner (leaders_in L i)) M M'"
        by (simp add: formed_def)
      from sound_created [OF sound i w re] tracked_created [OF sound i re] t t'
      show "moves s s'" by (simp add: moves_def del: tables_of_fields)
    qed (use early t in \<open>simp_all del: tables_of_fields\<close>)
    then show ?thesis by (simp add: q request_command_def)
  qed
qed

end
