(* ===== verification/Workspace_Changes.thy ===== *)
theory Workspace_Changes
  imports Workspace_Safety
begin

section \<open>The workspace module: recomputation and requests\<close>

text \<open>
  The membership recomputations move the tables like a request does (\<open>recompute_moves\<close>,
  \<open>handler_moves\<close>); one that returns has brought the projections of the changed accounts to the
  formal members and has found every leader of every active workspace effective
  (\<open>handler_outcome\<close>). A request commits nothing else than its command's tables
  (\<open>execute_tables\<close>).
\<close>

definition workspace_step :: "workspace_state \<Rightarrow> workspace_state \<Rightarrow> bool" where
  "workspace_step s s' \<longleftrightarrow>
     (\<exists>env S port q caller r out. workspace_http env S port q caller r s = (out, s'))
     \<or> (\<exists>env i n. committed (recompute_members env i) s = Inr (n, s'))
     \<or> (\<exists>env accounts out. membership_change_handler env accounts s = (out, s'))"

definition workspace_reachable :: "workspace_state \<Rightarrow> bool" where
  "workspace_reachable s \<longleftrightarrow> workspace_step\<^sup>*\<^sup>* empty_workspace_state s"

subsection \<open>One workspace\<close>

definition active_row :: "workspace_row list \<Rightarrow> string \<Rightarrow> workspace_row \<Rightarrow> bool" where
  "active_row W i w \<longleftrightarrow> row_by ws_id i W = Some w \<and> ws_archived_at w = None"

lemma wp_refresh_projection:
  assumes t: "tables_of s = (W, L, M)" and d: "distinct (map member_key M)"
    and w: "row_by ws_id i W = Some w" and des: "dict_ok desired"
    and same: "same_dict existing desired \<longleftrightarrow> projected M i = map_of desired"
    and broken: "\<And>e s'. \<not> is_workspace_error e \<Longrightarrow> E e s'"
    and stay: "\<And>s'. tables_of s' = (W, L, M) \<Longrightarrow> projected M i = map_of desired \<Longrightarrow> Q () s'"
    and ok: "\<And>M' s'. tables_of s' = (version_bumped i W, L, M') \<Longrightarrow> bump_ok i W \<Longrightarrow>
      reprojected i (map_of desired) M M' \<Longrightarrow> Q () s'"
  shows "wp (refresh_projection env i w desired existing) Q E s"
  unfolding refresh_projection_def
proof (rule wp_cbind, rule wp_if)
  let ?last = "\<lambda>x. wp (audit_recomputed env i (length desired) (\<not> same_dict existing desired)
    (ws_version x)) Q E"
  show "wp (cseq (cbind (workspace_now env) (replace_members i desired)) (bump_version i)) ?last E s"
  proof (rule wp_cseq, rule wp_cbind, rule wp_workspace_now)
    fix now s1
    assume "tables_of s1 = tables_of s"
    with t have t1: "tables_of s1 = (W, L, M)" by simp
    show "wp (replace_members i desired now) (\<lambda>_. wp (bump_version i) ?last E) E s1"
    proof (rule wp_replace_members [OF t1 d des], rule broken, simp)
      fix M' s2
      assume t2: "tables_of s2 = (W, L, M')" and re: "reprojected i (map_of desired) M M'"
      show "wp (bump_version i) ?last E s2"
        by (rule wp_bump_version [OF t2 w], rule broken, simp, rule wp_audit_recomputed,
            rule ok [OF _ _ re]) simp_all
    qed
  qed
next
  assume "\<not> \<not> same_dict existing desired"
  with same show "wp (produce w) (\<lambda>x. wp (audit_recomputed env i (length desired)
    (\<not> same_dict existing desired) (ws_version x)) Q E) E s"
    by (auto intro!: wp_produce wp_audit_recomputed stay simp: t [unfolded tables_of_fields])
qed

lemma wp_refresh_affected:
  assumes t: "tables_of s = (W, L, M)" and d: "distinct (map member_key M)"
    and w: "row_by ws_id i W = Some w"
    and scan: "\<And>e. E e s" and broken: "\<And>e s'. \<not> is_workspace_error e \<Longrightarrow> E e s'"
    and ok: "\<And>W' M' s'. tables_of s' = (W', L, M') \<Longrightarrow>
      (W' = W \<and> M' = M) \<or> (W' = version_bumped i W \<and> bump_ok i W
        \<and> reprojected i (formal_source env (ws_owner w) (leaders_in L i)) M M') \<Longrightarrow>
      \<forall>l \<in> set (ws_owner w # leaders_in L i). leads env l \<Longrightarrow>
      \<forall>a \<in> set affected. projected M' i a = formal_source env (ws_owner w) (leaders_in L i) a \<Longrightarrow>
      Q () s'"
  shows "wp (refresh_affected env affected i w) Q E s"
  unfolding refresh_affected_def
proof (rule wp_cbind, rule wp_desired_members, rule scan, rule wp_cbind, rule wp_reading)
  fix desired
  let ?e = "existing_members i s" and ?f = "formal_source env (ws_owner w) (leaders_in L i)"
  assume des: "dict_ok desired"
    and "map_of desired = formal_source env (ws_owner w) (leaders_in (wk_leaders s) i)"
    and "\<forall>l \<in> set (ws_owner w # leaders_in (wk_leaders s) i). leads env l"
  with t have f: "map_of desired = ?f" and lead: "\<forall>l \<in> set (ws_owner w # leaders_in L i). leads env l"
    by simp_all
  have ex: "dict_ok ?e" "map_of ?e = projected M i"
    using existing_projected [of s i] t d by simp_all
  have same: "same_dict ?e desired \<longleftrightarrow> projected M i = map_of desired"
    using same_dict_iff [OF ex(1) des] ex(2) by simp
  have stay: "Q () s'" if "tables_of s' = (W, L, M)" "\<forall>a \<in> set affected. projected M i a = ?f a" for s'
    using ok [OF that(1) _ lead that(2)] by blast
  show "wp (if \<not> list_ex (\<lambda>a. map_of ?e a \<noteq> None) affected
      \<and> \<not> list_ex (\<lambda>a. map_of desired a \<noteq> None) affected
    then produce () else refresh_projection env i w desired ?e) Q E s"
  proof (rule wp_if)
    assume "\<not> list_ex (\<lambda>a. map_of ?e a \<noteq> None) affected \<and> \<not> list_ex (\<lambda>a. map_of desired a \<noteq> None) affected"
    then have "\<forall>a \<in> set affected. projected M i a = ?f a" using ex(2) f by (simp add: list_ex_iff)
    from stay [OF t this] show "wp (produce ()) Q E s" by (rule wp_produce)
  next
    show "wp (refresh_projection env i w desired ?e) Q E s"
    proof (rule wp_refresh_projection [OF t d w des same])
      fix M' s'
      assume t': "tables_of s' = (version_bumped i W, L, M')" and b: "bump_ok i W"
        and re: "reprojected i (map_of desired) M M'"
      then have "\<forall>a \<in> set affected. projected M' i a = ?f a" by (simp add: reprojected_def f)
      from ok [OF t' _ lead this] b re f show "Q () s'" by simp
    qed (use broken stay f in auto)
  qed
qed

lemma wp_recompute_affected:
  assumes t: "tables_of s = (W, L, M)" and d: "distinct (map member_key M)"
    and scan: "\<And>e. E e s" and broken: "\<And>e s'. \<not> is_workspace_error e \<Longrightarrow> E e s'"
    and ok: "\<And>W' M' s'. tables_of s' = (W', L, M') \<Longrightarrow>
      (W' = W \<and> M' = M) \<or> (\<exists>w. active_row W i w \<and> W' = version_bumped i W \<and> bump_ok i W
        \<and> reprojected i (formal_source env (ws_owner w) (leaders_in L i)) M M') \<Longrightarrow>
      (\<And>w. active_row W i w \<Longrightarrow> (\<forall>l \<in> set (ws_owner w # leaders_in L i). leads env l)
        \<and> (\<forall>a \<in> set affected. projected M' i a = formal_source env (ws_owner w) (leaders_in L i) a)) \<Longrightarrow>
      Q () s'"
  shows "wp (recompute_affected env affected i) Q E s"
proof -
  have unknown: "Q () s" if "\<And>w. \<not> active_row W i w" using ok [OF t] that by blast
  show ?thesis
    unfolding recompute_affected_def
  proof (rule wp_cbind, rule wp_reading, rule wp_option)
    assume "workspace_by_id i s = None"
    with t show "wp (produce ()) Q E s"
      by (auto intro!: wp_produce unknown simp: active_row_def workspace_by_id_def)
  next
    fix w
    assume "workspace_by_id i s = Some w"
    with t have w: "row_by ws_id i W = Some w" by (simp add: workspace_by_id_def)
    show "wp (if ws_archived_at w \<noteq> None then produce () else refresh_affected env affected i w) Q E s"
    proof (rule wp_if)
      assume "ws_archived_at w \<noteq> None"
      with w show "wp (produce ()) Q E s" by (intro wp_produce unknown) (auto simp: active_row_def)
    next
      assume "\<not> ws_archived_at w \<noteq> None"
      with w have act: "active_row W i w" by (simp add: active_row_def)
      have only: "x = w" if "active_row W i x" for x using that w by (simp add: active_row_def)
      show "wp (refresh_affected env affected i w) Q E s"
        by (rule wp_refresh_affected [OF t d w], rule scan, erule broken, erule ok)
          (use act only in blast)+
    qed
  qed
qed

subsection \<open>The loop over the active workspaces\<close>

text \<open>What a recomputation leaves alone of every workspace.\<close>

definition roles :: "workspace_row list \<Rightarrow> string \<Rightarrow> (string \<times> instant option) option" where
  "roles W i = map_option (\<lambda>w. (ws_owner w, ws_archived_at w)) (row_by ws_id i W)"

lemma roles_bumped: "roles (version_bumped i W) = roles W"
proof
  fix j
  show "roles (version_bumped i W) j = roles W j"
    by (cases "row_by ws_id j W") (simp_all add: roles_def version_bumped_def row_simps)
qed

lemma active_roles:
  "roles W' = roles W \<Longrightarrow> active_row W i w \<Longrightarrow> \<exists>w'. active_row W' i w' \<and> ws_owner w' = ws_owner w"
proof -
  assume "roles W' = roles W" and w: "active_row W i w"
  then have "roles W' i = roles W i" by simp
  with w show ?thesis by (auto simp: roles_def active_row_def)
qed

lemma tracked_bumped:
  "workspace_sound (W, L, M) \<Longrightarrow> reprojected i f M M' \<Longrightarrow> tracked (W, L, M) (version_bumped i W, L', M')"
  using tracked_versioned [of W L M i f M' "RemoveLeader i i 0 i"] by (simp add: change_owner_def)

text \<open>The projections of the changed accounts are the formal members.\<close>

definition settled_in ::
  "workspace_env \<Rightarrow> string list \<Rightarrow> workspace_row list \<Rightarrow> leader_row list \<Rightarrow> member_row list
   \<Rightarrow> string \<Rightarrow> bool" where
  "settled_in env affected W L M i \<longleftrightarrow> (\<forall>w. active_row W i w \<longrightarrow>
     (\<forall>l \<in> set (ws_owner w # leaders_in L i). leads env l)
     \<and> (\<forall>a \<in> set affected. projected M i a = formal_source env (ws_owner w) (leaders_in L i) a))"

definition refreshed ::
  "workspace_env \<Rightarrow> string list \<Rightarrow> workspace_tables \<Rightarrow> string list \<Rightarrow> workspace_state \<Rightarrow> bool" where
  "refreshed env affected T is s \<longleftrightarrow> (case T of (W, L, M) \<Rightarrow> \<exists>W' M'. tables_of s = (W', L, M')
     \<and> roles W' = roles W \<and> workspace_sound (W', L, M') \<and> tracked (W, L, M) (W', L, M')
     \<and> (\<forall>i \<in> set is. settled_in env affected W' L M' i))"

lemma settled_roles:
  assumes "roles W' = roles W" and "settled_in env affected W L M i"
    and "\<And>a. projected M' i a = projected M i a"
  shows "settled_in env affected W' L M' i"
  unfolding settled_in_def
proof (intro allI impI)
  fix w
  assume "active_row W' i w"
  with active_roles [OF assms(1) [symmetric]] obtain v where "active_row W i v" "ws_owner v = ws_owner w"
    by blast
  with assms(2,3) show "(\<forall>l \<in> set (ws_owner w # leaders_in L i). leads env l)
     \<and> (\<forall>a \<in> set affected. projected M' i a = formal_source env (ws_owner w) (leaders_in L i) a)"
    unfolding settled_in_def by metis
qed

lemma refreshed_step:
  assumes r: "refreshed env affected (W, L, M) is s" and early: "\<And>e s'. E e s'"
  shows "wp (recompute_affected env affected i) (\<lambda>_. refreshed env affected (W, L, M) (i # is)) E s"
proof -
  from r obtain W1 M1 where t: "tables_of s = (W1, L, M1)" and ro: "roles W1 = roles W"
    and so: "workspace_sound (W1, L, M1)" and tr: "tracked (W, L, M) (W1, L, M1)"
    and se: "\<forall>j \<in> set is. settled_in env affected W1 L M1 j"
    unfolding refreshed_def by auto
  show ?thesis
  proof (rule wp_recompute_affected [OF t sound_parts(3) [OF so]], rule early, rule early)
    fix W2 M2 s'
    assume t2: "tables_of s' = (W2, L, M2)"
      and how: "(W2 = W1 \<and> M2 = M1) \<or> (\<exists>w. active_row W1 i w \<and> W2 = version_bumped i W1 \<and> bump_ok i W1
        \<and> reprojected i (formal_source env (ws_owner w) (leaders_in L i)) M1 M2)"
      and at: "\<And>w. active_row W1 i w \<Longrightarrow> (\<forall>l \<in> set (ws_owner w # leaders_in L i). leads env l)
        \<and> (\<forall>a \<in> set affected. projected M2 i a = formal_source env (ws_owner w) (leaders_in L i) a)"
    have ro2: "roles W2 = roles W1" using how by (auto simp: roles_bumped)
    have other: "projected M2 j = projected M1 j" if "j \<noteq> i" for j
      using how that by (auto simp: reprojected_def)
    have "settled_in env affected W1 L M2 i" using at by (simp add: settled_in_def)
    then have new: "settled_in env affected W2 L M2 i" by (rule settled_roles [OF ro2]) simp
    have "settled_in env affected W2 L M2 j" if "j \<in> set is" for j
    proof (cases "j = i")
      case False
      show ?thesis by (rule settled_roles [OF ro2, of env affected L M1]) (use se that other False in simp_all)
    qed (use new in simp)
    moreover have "workspace_sound (W2, L, M2) \<and> tracked (W1, L, M1) (W2, L, M2)"
      using how
    proof
      assume "\<exists>w. active_row W1 i w \<and> W2 = version_bumped i W1 \<and> bump_ok i W1
        \<and> reprojected i (formal_source env (ws_owner w) (leaders_in L i)) M1 M2"
      then obtain w where w: "active_row W1 i w" and W2: "W2 = version_bumped i W1" "bump_ok i W1"
        and re: "reprojected i (formal_source env (ws_owner w) (leaders_in L i)) M1 M2" by blast
      have "i \<in> ws_id ` set W1" using w row_by_Some [of ws_id i W1 w] by (auto simp: active_row_def)
      from sound_bumped [OF sound_reprojected [OF so re this] W2(2)] tracked_bumped [OF so re]
      show ?thesis by (simp add: W2(1))
    qed (use so tracked_refl in simp)
    ultimately show "refreshed env affected (W, L, M) (i # is) s'"
      unfolding refreshed_def prod.case
      using t2 ro ro2 new tracked_trans [OF tr] by (intro exI [of _ W2] exI [of _ M2]) simp
  qed
qed

lemma refreshed_loop:
  assumes "refreshed env affected T ys s" and "\<And>e s'. E e s'"
  shows "wp (for_each (recompute_affected env affected) xs)
    (\<lambda>_. refreshed env affected T (rev xs @ ys)) E s"
  using assms(1)
proof (induction xs arbitrary: ys s)
  case Nil
  then show ?case by (simp add: wp_produce)
next
  case (Cons x xs)
  obtain W L M where T: "T = (W, L, M)" by (metis prod_cases3)
  have "wp (recompute_affected env affected x) (\<lambda>_. refreshed env affected T (x # ys)) E s"
    unfolding T by (rule refreshed_step) (use Cons.prems T assms(2) in auto)
  then have "wp (recompute_affected env affected x)
      (\<lambda>_. wp (for_each (recompute_affected env affected) xs)
        (\<lambda>_. refreshed env affected T (rev xs @ x # ys)) E) E s"
    by (rule wp_mono) (use Cons.IH in auto)
  then show ?case by (simp add: wp_cseq)
qed

lemma active_listed:
  assumes "distinct (map ws_id (wk_workspaces s))"
  shows "i \<in> set (active_workspace_ids s) \<longleftrightarrow> (\<exists>w. active_row (wk_workspaces s) i w)"
proof
  assume "i \<in> set (active_workspace_ids s)"
  then obtain w where "w \<in> set (wk_workspaces s)" "ws_archived_at w = None" "ws_id w = i"
    by (auto simp: active_workspace_ids_def)
  with row_by_unique [OF assms, of w i] show "\<exists>w. active_row (wk_workspaces s) i w"
    by (auto simp: active_row_def)
next
  assume "\<exists>w. active_row (wk_workspaces s) i w"
  then show "i \<in> set (active_workspace_ids s)"
    using row_by_Some by (fastforce simp: active_row_def active_workspace_ids_def)
qed

text \<open>The handler changes nothing, or it returns with every active workspace settled.\<close>

lemma handler_outcome:
  assumes so: "workspace_sound (tables_of s)" and ne: "accounts \<noteq> []"
  shows "wp (membership_change_handler env accounts)
    (\<lambda>_ s'. refreshed env accounts (tables_of s) (rev (active_workspace_ids s)) s') (\<lambda>_ s'. s' = s) s"
proof -
  obtain W L M where t: "tables_of s = (W, L, M)" by (metis prod_cases3)
  have "refreshed env accounts (tables_of s) [] s"
    using so by (simp add: refreshed_def t tracked_refl del: tables_of_fields)
  then have "wp (for_each (recompute_affected env accounts) (active_workspace_ids s))
     (\<lambda>_. refreshed env accounts (tables_of s) (rev (active_workspace_ids s) @ [])) (\<lambda>e s'. True) s"
    by (rule refreshed_loop) simp
  with ne show ?thesis
    by (auto simp: membership_change_handler_def wp_def atomically_def cbind_def reading_def
        split: prod.splits sum.splits)
qed

lemma handler_moves:
  assumes so: "workspace_sound (tables_of s)"
  shows "wp (membership_change_handler env accounts) (\<lambda>_. moves s) (\<lambda>_. moves s) s"
proof (cases "accounts = []")
  case True
  then show ?thesis by (simp add: membership_change_handler_def wp_produce moves_same [OF so])
next
  case False
  from handler_outcome [OF so this, of env] show ?thesis
  proof (rule wp_mono)
    fix x s'
    assume "refreshed env accounts (tables_of s) (rev (active_workspace_ids s)) s'"
    then show "moves s s'"
      by (cases "tables_of s") (auto simp: refreshed_def moves_def simp del: tables_of_fields)
  qed (simp add: moves_same [OF so])
qed

subsection \<open>One recomputation\<close>

lemma recompute_moves:
  assumes so: "workspace_sound (tables_of s)"
  shows "wp (recompute_members env i) (\<lambda>_. moves s) (\<lambda>e s'. is_workspace_error e \<longrightarrow> moves s s') s"
proof -
  obtain W L M where t: "tables_of s = (W, L, M)" by (metis prod_cases3)
  with so have sound: "workspace_sound (W, L, M)" by (simp del: tables_of_fields)
  note same = moves_same [OF so]
  show ?thesis
    unfolding recompute_members_def
  proof (rule wp_cbind, rule wp_reading, rule wp_option, rule wp_raising, simp add: same, rule wp_if,
      rule wp_raising, simp add: same, rule wp_cbind,
      rule wp_replace_projection [OF t sound_parts(3) [OF sound]])
    fix w n c M' s1
    assume "workspace_by_id i s = Some w"
    with t have w: "row_by ws_id i W = Some w" by (simp add: workspace_by_id_def)
    then have i: "i \<in> ws_id ` set W" using row_by_Some [OF w] by auto
    assume t1: "tables_of s1 = (W, L, M')" and c: "\<not> c \<longrightarrow> M' = M"
      and "formed env (ws_owner w) (leaders_in L i) i M M'"
    then have re: "reprojected i (formal_source env (ws_owner w) (leaders_in L i)) M M'"
      by (simp add: formed_def)
    have unchanged: "moves s s'" if "tables_of s' = (W, L, M)" for s' using same that t by metis
    have bump: "moves s s'" if "tables_of s' = (version_bumped i W, L, M')" "bump_ok i W" for s'
      using sound_bumped [OF sound_reprojected [OF sound re i] that(2)] tracked_bumped [OF sound re]
      by (simp add: moves_def t that(1) del: tables_of_fields)
    show "wp (case (n, c) of (n, changed) \<Rightarrow> cbind (if changed then bump_version i else produce w)
        (\<lambda>final. cseq (audit_recomputed env i n changed (ws_version final)) (produce n)))
      (\<lambda>_. moves s) (\<lambda>e s'. is_workspace_error e \<longrightarrow> moves s s') s1"
      unfolding prod.case
    proof (rule wp_cbind, rule wp_if)
      show "wp (bump_version i) (\<lambda>x. wp (cseq (audit_recomputed env i n c (ws_version x)) (produce n))
        (\<lambda>_. moves s) (\<lambda>e s'. is_workspace_error e \<longrightarrow> moves s s')) (\<lambda>e s'. is_workspace_error e \<longrightarrow> moves s s') s1"
        by (rule wp_bump_version [OF t1 w], simp, rule wp_cseq, rule wp_audit_recomputed,
            rule wp_produce, rule bump) simp_all
    next
      assume "\<not> c"
      with c t1 have "tables_of s1 = (W, L, M)" by simp
      then show "wp (produce w) (\<lambda>x. wp (cseq (audit_recomputed env i n c (ws_version x)) (produce n))
        (\<lambda>_. moves s) (\<lambda>e s'. is_workspace_error e \<longrightarrow> moves s s')) (\<lambda>e s'. is_workspace_error e \<longrightarrow> moves s s') s1"
        by (auto intro!: wp_produce wp_cseq wp_audit_recomputed unchanged)
    qed
  qed (use same t in \<open>simp_all del: tables_of_fields\<close>)
qed

subsection \<open>A request\<close>

lemma tables_of_keys [simp]: "tables_of (s\<lparr>wk_keys := rows\<rparr>) = tables_of s"
  by (simp add: tables_of_def)

lemma claim_tables: "claim_idempotency workspace_keys i a p k fp now s = Inr (c, s') \<Longrightarrow> tables_of s' = tables_of s"
  by (auto simp: workspace_keys_def table_repository_def tables_of_def elim!: rbind_pairE)

lemma complete_tables: "complete_idempotency workspace_keys i st md sealed now s = Inr (c, s') \<Longrightarrow> tables_of s' = tables_of s"
  by (auto simp: workspace_keys_def table_repository_def tables_of_def elim!: rbind_pairE)

lemma register_same: "register_security_change port xs ws claim s = Inr s' \<Longrightarrow> s' = s"
  by (auto simp: register_security_change_def split: option.splits answer.splits)

text \<open>An execution replays a stored response, or it is a new claim and runs the command.\<close>

lemma execute_cases:
  assumes "execute_idempotent workspace_keys S q (Some (register_security_change port xs ws)) command s
    = Inr (x, s')"
  shows "(ix_replayed x \<and> new_claim q s = None \<and> tables_of s' = tables_of s)
    \<or> (\<not> ix_replayed x \<and> (\<exists>s1 s2 claim. new_claim q s = Some claim \<and> tables_of s1 = tables_of s
        \<and> register_security_change port xs ws claim s1 = Inr s1
        \<and> command s1 = Inr (ix_response x, s2) \<and> tables_of s' = tables_of s2))"
proof -
  let ?c = "claim_idempotency workspace_keys (iq_record_id q) (iq_actor q) (iq_operation q) (iq_key q)
    (iq_fingerprint q) (iq_claim_now q) s"
  from assms obtain claimed s1 row where cl: "?c = Inr (claimed, s1)"
    and sc: "idempotency_by_scope workspace_keys (iq_actor q) (iq_operation q) (iq_key q) s1 = Inr (Some row)"
    and fp: "ir_fingerprint row = iq_fingerprint q"
    by (auto simp: execute_idempotent_def rbind_Inr_iff lift_command_Inr split: option.splits if_splits)
  note t1 = claim_tables [OF cl]
  show ?thesis
  proof (cases claimed)
    case False
    with assms cl sc fp have "ix_replayed x" "s' = s1"
      by (auto simp: execute_idempotent_def rbind_Inr_iff Let_def)
    moreover have "new_claim q s = None" using cl False by (simp add: new_claim_def)
    ultimately show ?thesis using t1 by simp
  next
    case True
    let ?claim = "\<lparr>ic_record_id = ir_id row, ic_actor = iq_actor q, ic_operation = iq_operation q,
      ic_key = iq_key q, ic_fingerprint = iq_fingerprint q, ic_created = True\<rparr>"
    have nc: "new_claim q s = Some ?claim" using cl sc fp True by (simp add: new_claim_def)
    from assms cl sc fp True obtain s2 where
      reg: "register_security_change port xs ws ?claim s1 = Inr s2"
      and run: "run_claimed workspace_keys S q ?claim (ir_id row) command s2 = Inr (x, s')"
      by (auto simp: execute_idempotent_def rbind_Inr_iff lift_command_Inr Let_def)
    have [simp]: "s2 = s1" by (rule register_same [OF reg])
    from run obtain resp s3 fin s4 md se now where
      "command s1 = Inr (resp, s3)" "x = \<lparr>ix_response = resp, ix_replayed = False, ix_claim = ?claim\<rparr>"
      "complete_idempotency workspace_keys (ir_id row) (ip_status resp) md se now s3 = Inr (fin, s4)" "s' = s4"
      by (auto simp: run_claimed_def rbind_Inr_iff lift_command_Inr Let_def split: if_splits)
    with nc reg t1 complete_tables show ?thesis
      by (metis \<open>s2 = s1\<close> idem_execution.select_convs(1,2))
  qed
qed

lemma route_moves:
  assumes "workspace_sound (tables_of s)" and "request_route env caller r s = (Inr resp, s')"
  shows "moves s s'"
proof -
  have "wp (workspace_route env st (request_command env caller r)) (\<lambda>_. moves s) (\<lambda>_ _. True) s" for st
    unfolding workspace_route_def
    by (rule wp_cbind, rule wp_handled, rule wp_cbind,
        rule wp_mono [OF request_moves [OF assms(1), of env caller r]])
      (auto intro!: wp_produce simp: workspace_response_def wp_def cbind_def produce_def computed_def
        split: sum.splits)
  from wp_Inr [OF this] assms(2) show ?thesis unfolding request_route_def by blast
qed

lemma http_cases:
  assumes "workspace_http env S port q caller r s = (out, s')"
  shows "tables_of s' = tables_of s \<or> (\<exists>s1 s2 resp. tables_of s1 = tables_of s
    \<and> request_route env caller r s1 = (Inr resp, s2) \<and> tables_of s' = tables_of s2)"
proof -
  have exec: "tables_of t = tables_of s \<or> (\<exists>s1 s2 resp. tables_of s1 = tables_of s
      \<and> request_route env caller r s1 = (Inr resp, s2) \<and> tables_of t = tables_of s2)"
    if "execute_idempotent workspace_keys S q (Some (register_security_change port
      (affected_account_ids r) (affected_workspace_ids r))) (committed (request_route env caller r)) s
      = Inr (x, t)" for x t
    using execute_cases [OF that] by (auto simp: committed_Inr simp del: tables_of_fields)
  show ?thesis
    using assms exec unfolding workspace_http_def workspace_execute_def Let_def
    by (auto simp del: tables_of_fields split: option.splits sum.splits idem_error.splits prod.splits if_splits)
qed

lemma workspace_step_moves:
  assumes "workspace_sound (tables_of s)" and "workspace_step s s'"
  shows "moves s s'"
  using assms(2) unfolding workspace_step_def
proof (elim disjE exE)
  fix env S port q caller r out
  assume "workspace_http env S port q caller r s = (out, s')"
  from http_cases [OF this] show ?thesis
  proof (elim disjE exE conjE)
    fix s1 s2 resp
    assume t1: "tables_of s1 = tables_of s" and "request_route env caller r s1 = (Inr resp, s2)"
      and t2: "tables_of s' = tables_of s2"
    with route_moves [of s1 env caller r resp s2] assms(1) show ?thesis
      by (simp add: moves_def del: tables_of_fields)
  qed (rule moves_same [OF assms(1)])
next
  fix env i n
  assume "committed (recompute_members env i) s = Inr (n, s')"
  with wp_Inr [OF recompute_moves [OF assms(1)]] show ?thesis by (simp add: committed_Inr)
next
  fix env accounts out
  assume run: "membership_change_handler env accounts s = (out, s')"
  from handler_moves [OF assms(1), of env accounts] run show ?thesis
    by (simp add: wp_def split: sum.splits)
qed

lemma steps_move: "workspace_step\<^sup>*\<^sup>* s s' \<Longrightarrow> workspace_sound (tables_of s) \<Longrightarrow> moves s s'"
proof (induction rule: rtranclp_induct)
  case (step t u)
  then have "moves s t" by simp
  with workspace_step_moves [OF _ step.hyps(2)] show ?case
    by (auto simp: moves_def intro: tracked_trans simp del: tables_of_fields)
qed (simp add: moves_same)

lemma reachable_sound: "workspace_reachable s \<Longrightarrow> workspace_sound (tables_of s)"
proof -
  have "workspace_sound (tables_of empty_workspace_state)"
    by (simp add: workspace_sound_def empty_workspace_state_def tables_of_def)
  moreover assume "workspace_reachable s"
  ultimately show ?thesis
    using steps_move [of empty_workspace_state s] by (simp add: workspace_reachable_def moves_def del: tables_of_fields)
qed

end
