(* ===== verification/Workspace_Organization.thy ===== *)
theory Workspace_Organization
  imports Workspace_Changes
begin

section \<open>The workspace module over the organization module\<close>

text \<open>
  \<^verbatim>\<open>workspace/adapters/identity.py\<close> and \<^verbatim>\<open>workspace/adapters/organization.py\<close>: the ports the
  commands use, answered by the identity lookup and by the organization's queries (\<open>wired\<close>). What
  a workspace relies on is the locale \<open>leader_directory\<close>, interpreted on those queries; the direct
  reports it then projects are the effective members below its leaders in the stored hierarchy
  (\<open>wired_report\<close>).
\<close>

definition participant_of_account :: "org_account_view \<Rightarrow> participant_view" where
  "participant_of_account v =
     \<lparr>pt_id = ov_id v, pt_status = ov_status v, pt_initialized = ov_initialized v\<rparr>"

definition identity_lookup :: "org_env \<Rightarrow> string \<Rightarrow> participant_view option" where
  "identity_lookup env a = map_option participant_of_account (identity_get env a)"

definition organization_leader :: "org_env \<Rightarrow> org_db \<Rightarrow> string \<Rightarrow> bool answer" where
  "organization_leader env db l =
     (case is_effective_leader env l db of Inl _ \<Rightarrow> Raised | Inr b \<Rightarrow> Answer b)"

definition organization_reports :: "org_env \<Rightarrow> org_db \<Rightarrow> string \<Rightarrow> (string list) answer" where
  "organization_reports env db l =
     (case direct_reports env l db of Inl _ \<Rightarrow> Raised | Inr rs \<Rightarrow> Answer (map ref_id rs))"

definition wired :: "org_env \<Rightarrow> org_db \<Rightarrow> workspace_env \<Rightarrow> workspace_env" where
  "wired env db wv = wv\<lparr>wv_account := identity_lookup env,
     wv_is_leader := organization_leader env db, wv_reports := organization_reports env db\<rparr>"

lemma lookup_effective [simp]:
  "participant_effective (identity_lookup env a) \<longleftrightarrow> is_effective (identity_get env a)"
  by (simp add: participant_effective_def identity_lookup_def participant_of_account_def
    is_effective_def split: option.split)

text \<open>The interface: whoever is an effective leader is effective and has an answer for its reports.\<close>

locale leader_directory =
  fixes effective :: "string \<Rightarrow> bool"
    and leader :: "string \<Rightarrow> bool answer"
    and reports :: "string \<Rightarrow> (string list) answer"
  assumes leader_effective: "leader l = Answer True \<Longrightarrow> effective l"
    and leader_answered: "leader l = Answer True \<Longrightarrow> reports l \<noteq> Raised"
begin

lemma accepted_iff: "effective l \<and> leader l = Answer True \<and> reports l \<noteq> Raised \<longleftrightarrow> leader l = Answer True"
  using leader_effective leader_answered by blast

lemma all_accepted:
  "(\<forall>l \<in> A. effective l \<and> leader l = Answer True \<and> reports l \<noteq> Raised) \<longleftrightarrow> (\<forall>l \<in> A. leader l = Answer True)"
  using accepted_iff by blast

end

lemma organization_leader_iff: "organization_leader env db l = Answer True \<longleftrightarrow>
    (\<exists>edges s. valid_edges db = Inr edges \<and> map_of edges l = Some (s, ''LEADER'')
      \<and> is_effective (identity_get env l))"
  by (auto simp: organization_leader_def is_effective_leader_def rbind_def split: sum.splits option.splits)

interpretation organization: leader_directory
  "\<lambda>l. is_effective (identity_get env l)" "organization_leader env db" "organization_reports env db"
  for env db
proof
  fix l
  assume l: "organization_leader env db l = Answer True"
  then show "is_effective (identity_get env l)" by (auto simp: organization_leader_iff)
  from l show "organization_reports env db l \<noteq> Raised"
    by (auto simp: organization_leader_iff organization_reports_def direct_reports_def)
qed

lemma wired_leads: "leads (wired env db wv) l \<longleftrightarrow> organization_leader env db l = Answer True"
  using organization.accepted_iff [of env l db] by (simp add: leads_def wired_def)

lemma effective_refs_ids:
  "identity_faithful env \<Longrightarrow> set (map ref_id (effective_refs env ids)) = {i \<in> set ids. is_effective (identity_get env i)}"
  by (induction ids)
    (auto simp: effective_refs_def List.map_filter_def identity_faithful_def account_ref_of_def
      is_effective_def split: option.splits if_splits)

lemma ids_under_iff:
  "dict_ok edges \<Longrightarrow> a \<in> set (ids_under edges l k) \<longleftrightarrow> map_of edges a = Some (Some l, k)"
  using map_of_dict [of edges a "(Some l, k)"] by (force simp: ids_under_def)

lemma wired_report:
  assumes "identity_faithful env" and "leads (wired env db wv) l"
  shows "a \<in> set (leader_reports (wired env db wv) l) \<longleftrightarrow>
    is_effective (identity_get env a) \<and> map_of (edges_of db) a = Some (Some l, ''MEMBER'')"
proof -
  from assms(2) obtain edges s where e: "valid_edges db = Inr edges" "map_of edges l = Some (s, ''LEADER'')"
      "is_effective (identity_get env l)"
    by (auto simp: wired_leads organization_leader_iff)
  then have edges: "edges = edges_of db" by (simp add: valid_edges_def split: sum.splits)
  have "leader_reports (wired env db wv) l
      = map ref_id (sort_key ref_sort_key (effective_refs env (ids_under edges l ''MEMBER'')))"
    using e by (simp add: leader_reports_def wired_def organization_reports_def direct_reports_def)
  then have "set (leader_reports (wired env db wv) l) = set (map ref_id (effective_refs env (ids_under edges l ''MEMBER'')))"
    by simp
  with effective_refs_ids [OF assms(1), of "ids_under edges l ''MEMBER''"] edges
  show ?thesis by (auto simp: ids_under_iff)
qed

text \<open>The formal members over the stored hierarchy.\<close>

lemma wired_source:
  assumes "identity_faithful env" and "\<forall>l \<in> set (owner # leaders). leads (wired env db wv) l"
  shows "formal_source (wired env db wv) owner leaders a =
    (if a = owner then Some FORMAL_OWNER else if a \<in> set leaders then Some FORMAL_LEADER
     else if is_effective (identity_get env a)
       \<and> (\<exists>l \<in> set (owner # leaders). map_of (edges_of db) a = Some (Some l, ''MEMBER''))
     then Some DIRECT_REPORT else None)"
proof -
  have "list_ex (\<lambda>l. a \<in> set (leader_reports (wired env db wv) l)) (owner # leaders) \<longleftrightarrow>
      is_effective (identity_get env a)
      \<and> (\<exists>l \<in> set (owner # leaders). map_of (edges_of db) a = Some (Some l, ''MEMBER''))"
    using wired_report [OF assms(1)] assms(2) unfolding list_ex_iff by metis
  moreover have "participant_effective (wv_account (wired env db wv) a) \<longleftrightarrow> is_effective (identity_get env a)"
    by (simp add: wired_def)
  ultimately show ?thesis unfolding formal_source_def by simp
qed

section \<open>The workspace module: a small organization\<close>

text \<open>
  The concrete input of the witnesses: a manager \<open>m\<close> over the leaders \<open>l\<close>, \<open>k\<close> and \<open>j\<close>, the members
  \<open>a\<close> below \<open>l\<close> and \<open>b\<close> below \<open>k\<close>, and a workspace that \<open>l\<close> creates on an empty database and
  to which \<open>l\<close> then invites \<open>k\<close>. \<open>team_env off\<close> are the ports when the accounts \<open>off\<close> are disabled.
\<close>

definition team_account :: "string list \<Rightarrow> string \<Rightarrow> org_account_view option" where
  "team_account off i = (if i \<in> set [''m'', ''l'', ''k'', ''j'', ''a'', ''b''] then Some \<lparr>ov_id = i,
     ov_employee_no = i, ov_display_name = i,
     ov_status = (if i \<in> set off then ''DISABLED'' else ''ENABLED''), ov_initialized = True\<rparr> else None)"

definition team_org :: "string list \<Rightarrow> org_env" where
  "team_org off = \<lparr>identity_get = team_account off, org_now = 0, org_uuid4 = (\<lambda>_. ''u''),
     on_membership_change = (\<lambda>_. True), org_request_id = None\<rparr>"

definition team_edge :: "string \<Rightarrow> string option \<Rightarrow> string \<Rightarrow> org_edge_row" where
  "team_edge a s k = \<lparr>er_account = a, er_superior = s, er_kind = k, er_created_at = 0, er_updated_at = 0\<rparr>"

definition team_db :: org_db where
  "team_db = \<lparr>od_edges = [team_edge ''m'' None ''MANAGER'', team_edge ''l'' (Some ''m'') ''LEADER'',
     team_edge ''k'' (Some ''m'') ''LEADER'', team_edge ''j'' (Some ''m'') ''LEADER'', team_edge ''a'' (Some ''l'') ''MEMBER'',
     team_edge ''b'' (Some ''k'') ''MEMBER''], od_audit = []\<rparr>"

definition team_ports :: workspace_env where
  "team_ports = \<lparr>wv_account = (\<lambda>_. None), wv_is_leader = (\<lambda>_. Raised), wv_reports = (\<lambda>_. Raised),
     wv_clock = (\<lambda>_. 5), wv_uuid4 = (\<lambda>n. CHR ''w'' # replicate n CHR ''x''),
     wv_request_id = Some ''q'', wv_isoformat = (\<lambda>_. ''now'')\<rparr>"

definition team_env :: "string list \<Rightarrow> workspace_env" where
  "team_env off = wired (team_org off) team_db team_ports"

definition team_seal :: sealer where
  "team_seal = \<lparr>seal = (\<lambda>_. ''s''), unseal = (\<lambda>_. None), request_fingerprint = (\<lambda>p _ _ _. p)\<rparr>"

definition team_security :: security_port where
  "team_security = \<lparr>sp_begin = (\<lambda>_ _ _. Answer ''t''), sp_complete = (\<lambda>_. True),
     sp_cancel = (\<lambda>_ _. True), sp_converged = (\<lambda>_. True)\<rparr>"

definition team_caller :: org_actor where
  "team_caller = \<lparr>oa_account_id = Some ''l'', oa_employee_id = None\<rparr>"

definition team_call :: "string \<Rightarrow> idem_request" where
  "team_call key = \<lparr>iq_actor = ''l'', iq_operation = ''o'', iq_key = key, iq_fingerprint = ''f'',
     iq_record_id = key, iq_claim_now = 0, iq_complete_now = 0\<rparr>"

definition team_http ::
  "string list \<Rightarrow> string \<Rightarrow> workspace_request \<Rightarrow> workspace_state
   \<Rightarrow> ((workspace_error, idem_response) res \<times> security_call list) \<times> workspace_state" where
  "team_http off key r s = workspace_http (team_env off) team_seal (Some team_security) (team_call key)
     team_caller r s"

definition team_create :: workspace_request where
  "team_create = CreateWorkspace ''Team'' ''l'' ''start''"

definition team_invite :: workspace_request where
  "team_invite = InviteLeader ''w'' ''k'' 1 ''help''"

definition team_row :: "int \<Rightarrow> workspace_row" where
  "team_row v = \<lparr>ws_id = ''w'', ws_name = ''Team'', ws_owner = ''l'', ws_archived_at = None, ws_version = v\<rparr>"

definition team_created :: workspace_state where
  "team_created = snd (team_http [] ''1'' team_create empty_workspace_state)"

definition team_invited :: workspace_state where
  "team_invited = snd (team_http [] ''2'' team_invite team_created)"

lemma team_steps: "workspace_step empty_workspace_state team_created" "workspace_step team_created team_invited"
proof -
  have "workspace_step s (snd (team_http off key r s))" for off key r s
    unfolding workspace_step_def team_http_def by (metis prod.collapse)
  then show "workspace_step empty_workspace_state team_created" "workspace_step team_created team_invited"
    by (simp_all add: team_created_def team_invited_def)
qed

lemma team_reachable: "workspace_reachable empty_workspace_state" "workspace_reachable team_created"
  using team_steps(1) by (auto simp: workspace_reachable_def)

lemma team_faithful: "identity_faithful (team_org off)"
  by (simp add: identity_faithful_def team_org_def team_account_def)

text \<open>The requests as commands, a disabled member, and a denied invitation.\<close>

definition team_run :: "(workspace_error, workspace_row) res \<times> workspace_state" where
  "team_run = request_command (team_env []) team_caller team_create empty_workspace_state"

definition team_second :: "(workspace_error, workspace_row) res \<times> workspace_state" where
  "team_second = request_command (team_env []) team_caller team_invite team_created"

definition team_change :: "(workspace_error, unit) res \<times> workspace_state" where
  "team_change = membership_change_handler (team_env [''a'']) [''a''] team_created"

definition team_denied :: "((workspace_error, idem_response) res \<times> security_call list) \<times> workspace_state" where
  "team_denied = team_http [''k''] ''3'' (InviteLeader ''w'' ''j'' 2 ''more'') team_invited"

lemma team_run_eval: "fst team_run = Inr (team_row 1) \<and> workspace_leader_ids ''w'' (snd team_run) = []
    \<and> map_of (edges_of team_db) ''a'' = Some (Some ''l'', ''MEMBER'') \<and> is_effective (team_account [] ''a'')"
  by code_simp

lemma team_second_eval: "fst team_second = Inr (team_row 2)"
  by code_simp

lemma team_created_eval:
  "fst (team_http [] ''1'' team_create empty_workspace_state) = (Inr (
     \<lparr>ip_status = 201, ip_body = PyDict [(''id'', PyStr ''w''), (''name'', PyStr ''Team''),
       (''ownerId'', PyStr ''l''), (''archivedAt'', PyNone), (''version'', PyInt 1)],
      ip_headers = [(''ETag'', [CHR 0x22, CHR ''v'', CHR ''1'', CHR 0x22])], ip_cookie = None,
      ip_is_problem = False\<rparr>), [BeginChange ''t'', CompleteChange ''t''])
   \<and> wk_workspaces team_created = [team_row 1] \<and> wk_leaders team_created = []
   \<and> map (\<lambda>r. (wm_account r, wm_source r)) (wk_members team_created)
     = [(''a'', DIRECT_REPORT), (''l'', FORMAL_OWNER)]"
  by code_simp

lemma team_invited_eval: "wk_workspaces team_invited = [team_row 2]
    \<and> workspace_leader_ids ''w'' team_invited = [''k'']
    \<and> map (\<lambda>r. (wm_account r, wm_source r)) (wk_members team_invited)
      = [(''a'', DIRECT_REPORT), (''b'', DIRECT_REPORT), (''k'', FORMAL_LEADER), (''l'', FORMAL_OWNER)]"
  by code_simp

lemma team_change_eval: "fst team_change = Inr () \<and> wk_workspaces (snd team_change) = [team_row 2]
    \<and> workspace_leader_ids ''w'' (snd team_change) = []
    \<and> formal_source (team_env [''a'']) ''l'' [] ''a'' = None"
  by code_simp

lemma team_denied_eval: "snd (fst team_denied) = [BeginChange ''t'', CancelChange ''t'']
    \<and> workspace_leader_ids ''w'' (snd team_denied) = [''j'', ''k'']
    \<and> wk_workspaces (snd team_denied) = [team_row 2]"
  by code_simp

lemma team_leaders_eval: "valid_leader (team_env [''k'']) ''j'' = Inr True
    \<and> \<not> participant_effective (wv_account (team_env [''k'']) ''k'')
    \<and> \<not> participant_effective (wv_account (team_env [''l'']) ''l'')
    \<and> workspace_actor_id team_caller = Inr ''l'' \<and> nonblank_text ''l'' \<and> nonblank_text ''j''"
  by code_simp

text \<open>The organization answers whether an account leads, and the reports of one that does.\<close>

lemma team_ports_answer: "wv_is_leader (team_env off) k \<noteq> Raised
    \<and> (wv_is_leader (team_env off) k = Answer True \<longrightarrow> wv_reports (team_env off) k \<noteq> Raised)"
proof -
  have "case valid_edges team_db of Inl _ \<Rightarrow> False | Inr _ \<Rightarrow> True" by code_simp
  then obtain edges where "valid_edges team_db = Inr edges" by (auto split: sum.splits)
  then have "wv_is_leader (team_env off) k \<noteq> Raised"
    by (simp add: team_env_def wired_def organization_leader_def is_effective_leader_def)
  moreover have "wv_is_leader (team_env off) k = Answer True \<longrightarrow> wv_reports (team_env off) k \<noteq> Raised"
    using organization.leader_answered by (simp add: team_env_def wired_def)
  ultimately show ?thesis by blast
qed

end
