(* ===== verification/Workspace_Properties.thy ===== *)
theory Workspace_Properties
  imports Workspace_Organization Authz_Safety
begin

section \<open>The workspace module: properties\<close>

text \<open>
  The theorems about the workspace module: its projections, the discipline of its versions, the
  convergence of a membership change and what stops it, and the security changes around a request.
\<close>

subsection \<open>A successful request\<close>

lemma change_owner_other:
  "request_workspace q = Some i \<Longrightarrow> j \<noteq> i \<Longrightarrow> row_by ws_id j (change_owner q W) = row_by ws_id j W"
  by (cases q; cases "row_by ws_id j W")
    (auto simp: change_owner_def request_workspace_def row_simps dest: row_by_Some)

lemma version_bumped_other: "j \<noteq> i \<Longrightarrow> row_by ws_id j (version_bumped i W) = row_by ws_id j W"
  by (cases "row_by ws_id j W") (auto simp: version_bumped_def row_simps dest: row_by_Some)

lemma change_leaders_other:
  assumes "request_workspace q = Some i" and "j \<noteq> i"
  shows "leaders_in (change_leaders q a L) j = leaders_in L j"
proof -
  have "filter (\<lambda>r. wl_workspace r = j) (change_leaders q a L) = filter (\<lambda>r. wl_workspace r = j) L"
    using assms by (cases q) (auto simp: change_leaders_def request_workspace_def leader_key_def intro: filter_cong)
  then show ?thesis by (simp add: leaders_in_def)
qed

lemma change_owner_row:
  assumes "admitted env actor q W L w" and "request_workspace q = Some i"
  shows "row_by ws_id i (change_owner q W) = Some (w\<lparr>ws_owner := owner_after q w\<rparr>)"
  using admitted_row [OF assms] assms(2)
  by (cases q) (auto simp: change_owner_def owner_after_def request_workspace_def row_simps)

lemma version_bumped_row:
  "row_by ws_id i W = Some w \<Longrightarrow> row_by ws_id i (version_bumped i W) = Some (w\<lparr>ws_version := ws_version w + 1\<rparr>)"
  by (auto simp: version_bumped_def row_simps dest: row_by_Some)

definition only_workspace :: "string \<Rightarrow> workspace_state \<Rightarrow> workspace_state \<Rightarrow> bool" where
  "only_workspace i s s' \<longleftrightarrow> (\<forall>j. j \<noteq> i \<longrightarrow> workspace_by_id j s' = workspace_by_id j s
     \<and> workspace_leader_ids j s' = workspace_leader_ids j s
     \<and> projected (wk_members s') j = projected (wk_members s) j)"

definition formed_in :: "workspace_env \<Rightarrow> workspace_row \<Rightarrow> workspace_state \<Rightarrow> bool" where
  "formed_in env w s \<longleftrightarrow> workspace_by_id (ws_id w) s = Some w
     \<and> projected (wk_members s) (ws_id w)
         = formal_source env (ws_owner w) (workspace_leader_ids (ws_id w) s)
     \<and> (\<forall>l \<in> set (ws_owner w # workspace_leader_ids (ws_id w) s). leads env l)"

lemma request_outcome:
  assumes so: "workspace_sound (tables_of s)" and run: "request_command env actor q s = (Inr w, s')"
  shows "formed_in env w s' \<and> only_workspace (ws_id w) s s'"
proof -
  obtain W L M where t: "tables_of s = (W, L, M)" by (metis prod_cases3)
  with so have sound: "workspace_sound (W, L, M)" by (simp del: tables_of_fields)
  note d = sound_parts(3) [OF sound] and l = sound_parts(2) [OF sound]
  have "wp (request_command env actor q) (\<lambda>w s'. formed_in env w s' \<and> only_workspace (ws_id w) s s')
    (\<lambda>_ _. True) s"
  proof (cases "request_workspace q")
    case (Some i)
    show ?thesis
    proof (rule wp_versioned [OF t d Some l])
      fix w M' s'
      assume ad: "admitted env actor q W L w"
        and t': "tables_of s' = (version_bumped i (change_owner q W), change_leaders q (ws_owner w) L, M')"
        and fo: "formed env (owner_after q w) (leaders_in (change_leaders q (ws_owner w) L) i) i M M'"
      from admitted_row [OF ad Some] have "ws_id w = i" by simp
      with t t' fo version_bumped_row [OF change_owner_row [OF ad Some]] Some
      show "formed_in env (w\<lparr>ws_owner := owner_after q w, ws_version := ws_version w + 1\<rparr>) s'
        \<and> only_workspace (ws_id (w\<lparr>ws_owner := owner_after q w, ws_version := ws_version w + 1\<rparr>)) s s'"
        by (simp add: formed_in_def only_workspace_def workspace_by_id_def workspace_leaders formed_def
          reprojected_def version_bumped_other change_owner_other change_leaders_other)
    qed simp_all
  next
    case None
    then obtain name owner reason where q: "q = CreateWorkspace name owner reason"
      by (cases q) (simp_all add: request_workspace_def)
    have "wp (create_workspace env name owner actor reason)
      (\<lambda>w s'. formed_in env w s' \<and> only_workspace (ws_id w) s s') (\<lambda>_ _. True) s"
    proof (rule wp_create [OF t d])
      fix i M' s'
      assume i: "i \<notin> ws_id ` set W" and t': "tables_of s' = (W @ [new_workspace i name owner], L, M')"
        and fo: "formed env owner (leaders_in L i) i M M'"
      have "ws_id (new_workspace i name owner) = i" "ws_owner (new_workspace i name owner) = owner"
        by (simp_all add: new_workspace_def)
      with t t' fo i show "formed_in env (new_workspace i name owner) s'
        \<and> only_workspace (ws_id (new_workspace i name owner)) s s'"
        by (simp add: formed_in_def only_workspace_def workspace_by_id_def workspace_leaders formed_def
          reprojected_def row_simps split: option.split)
    qed simp_all
    then show ?thesis by (simp add: q request_command_def)
  qed
  from wp_Inr [OF this run] show ?thesis .
qed

lemma wired_leader: "leads (wired oenv odb wv) l \<longleftrightarrow> is_effective_leader oenv l odb = Inr True"
  by (auto simp: wired_leads organization_leader_def split: sum.splits)

text \<open>
  C6: after a successful request, the projection of its workspace is its formal membership over the
  stored organization: the owner, the invited leaders, and the effective accounts that are members
  directly below one of them, each with exactly its source; the owner and every leader is then an
  effective leader of the organization, and no other workspace is touched.
\<close>

theorem formal_members_exact:
  assumes "workspace_reachable s" and "identity_faithful oenv"
    and "request_command (wired oenv odb wv) actor q s = (Inr w, s')"
  shows "workspace_by_id (ws_id w) s' = Some w
    \<and> (\<forall>a. projected (wk_members s') (ws_id w) a =
        (if a = ws_owner w then Some FORMAL_OWNER
         else if a \<in> set (workspace_leader_ids (ws_id w) s') then Some FORMAL_LEADER
         else if is_effective (identity_get oenv a)
           \<and> (\<exists>l \<in> set (ws_owner w # workspace_leader_ids (ws_id w) s').
                map_of (edges_of odb) a = Some (Some l, ''MEMBER''))
         then Some DIRECT_REPORT else None))
    \<and> (\<forall>l \<in> set (ws_owner w # workspace_leader_ids (ws_id w) s').
         is_effective_leader oenv l odb = Inr True)
    \<and> only_workspace (ws_id w) s s'"
proof -
  from request_outcome [OF reachable_sound [OF assms(1)] assms(3)]
  have out: "formed_in (wired oenv odb wv) w s'" "only_workspace (ws_id w) s s'" by blast+
  then have lead: "\<forall>l \<in> set (ws_owner w # workspace_leader_ids (ws_id w) s'). leads (wired oenv odb wv) l"
    by (simp add: formed_in_def)
  then have "\<forall>l \<in> set (ws_owner w # workspace_leader_ids (ws_id w) s'). is_effective_leader oenv l odb = Inr True"
    by (simp only: wired_leader)
  with out wired_source [OF assms(2) lead] show ?thesis unfolding formed_in_def by simp
qed

theorem formal_members_exact_witness:
  "projected (wk_members (snd team_run)) ''w'' ''a'' = Some DIRECT_REPORT
   \<and> is_effective_leader (team_org []) ''l'' team_db = Inr True"
proof -
  have run: "request_command (wired (team_org []) team_db team_ports) team_caller team_create
      empty_workspace_state = (Inr (team_row 1), snd team_run)"
    using team_run_eval unfolding team_run_def team_env_def by (metis prod.collapse)
  have "\<forall>a. projected (wk_members (snd team_run)) ''w'' a =
      (if a = ''l'' then Some FORMAL_OWNER else if a \<in> set [] then Some FORMAL_LEADER
       else if is_effective (identity_get (team_org []) a)
         \<and> (\<exists>l \<in> set [''l'']. map_of (edges_of team_db) a = Some (Some l, ''MEMBER''))
       then Some DIRECT_REPORT else None)" "is_effective_leader (team_org []) ''l'' team_db = Inr True"
    using formal_members_exact [OF team_reachable(1) team_faithful run] team_run_eval
    by (simp_all add: team_row_def)
  with team_run_eval show ?thesis by (simp add: team_org_def)
qed

subsection \<open>Versions\<close>

lemma versioned_admitted:
  assumes "workspace_sound (tables_of s)" and "request_workspace q = Some i"
    and "request_command env actor q s = (Inr w, s')"
  shows "\<exists>v. workspace_by_id i s = Some v \<and> workspace_actor_id actor = Inr (ws_owner v)
    \<and> ws_archived_at v = None \<and> ws_version v = expected_version q
    \<and> w = v\<lparr>ws_owner := owner_after q v, ws_version := ws_version v + 1\<rparr>"
proof -
  obtain W L M where t: "tables_of s = (W, L, M)" by (metis prod_cases3)
  with assms(1) have sound: "workspace_sound (W, L, M)" by (simp del: tables_of_fields)
  have "wp (request_command env actor q) (\<lambda>w _. \<exists>v. workspace_by_id i s = Some v
    \<and> workspace_actor_id actor = Inr (ws_owner v) \<and> ws_archived_at v = None
    \<and> ws_version v = expected_version q
    \<and> w = v\<lparr>ws_owner := owner_after q v, ws_version := ws_version v + 1\<rparr>) (\<lambda>_ _. True) s"
  proof (rule wp_versioned [OF t sound_parts(3) [OF sound] assms(2) sound_parts(2) [OF sound]])
    fix w M' s'
    assume ad: "admitted env actor q W L w"
    with admitted_row [OF ad assms(2)] t show "\<exists>v. workspace_by_id i s = Some v
      \<and> workspace_actor_id actor = Inr (ws_owner v) \<and> ws_archived_at v = None
      \<and> ws_version v = expected_version q
      \<and> w\<lparr>ws_owner := owner_after q w, ws_version := ws_version w + 1\<rparr>
        = v\<lparr>ws_owner := owner_after q v, ws_version := ws_version v + 1\<rparr>"
      by (auto simp: workspace_by_id_def admitted_def)
  qed simp_all
  from wp_Inr [OF this assms(3)] show ?thesis .
qed

lemma version_grows:
  assumes "workspace_sound (tables_of s)" and "workspace_step\<^sup>*\<^sup>* s s'"
    and "workspace_by_id i s = Some w"
  shows "\<exists>w'. workspace_by_id i s' = Some w' \<and> ws_version w \<le> ws_version w'
    \<and> (ws_version w' = ws_version w \<longrightarrow> projected (wk_members s') i = projected (wk_members s) i)"
proof -
  from steps_move [OF assms(2,1)] have tr: "tracked (tables_of s) (tables_of s')"
    and so: "workspace_sound (tables_of s')" by (simp_all add: moves_def)
  from assms(3) row_by_Some have w: "w \<in> set (wk_workspaces s)" "ws_id w = i"
    unfolding workspace_by_id_def by fast+
  with tr obtain w' where "w' \<in> set (wk_workspaces s')" "ws_id w' = i" "ws_version w \<le> ws_version w'"
    "ws_version w' = ws_version w \<longrightarrow> projected (wk_members s') i = projected (wk_members s) i"
    by (fastforce simp: tracked_def tables_of_def)
  moreover have "distinct (map ws_id (wk_workspaces s'))" using so by (simp add: workspace_sound_def tables_of_def)
  ultimately show ?thesis unfolding workspace_by_id_def using row_by_unique by metis
qed

text \<open>
  C28: a version admits one change. A versioned request succeeds only for the owner and at the
  workspace's current version, which it raises by one; after that, over any history, no request
  that names the same version for this workspace succeeds.
\<close>

theorem one_change_per_version:
  assumes "workspace_reachable s" and "request_workspace q = Some i"
    and run: "request_command env actor q s = (Inr w, s1)" and "workspace_step\<^sup>*\<^sup>* s1 s2"
    and "request_workspace q' = Some i" and "expected_version q' = expected_version q"
  shows "(\<exists>v. workspace_by_id i s = Some v \<and> workspace_actor_id actor = Inr (ws_owner v)
      \<and> ws_version v = expected_version q) \<and> ws_version w = expected_version q + 1
    \<and> (\<exists>e. fst (request_command env' actor' q' s2) = Inl e)"
proof -
  note so = reachable_sound [OF assms(1)]
  from versioned_admitted [OF so assms(2) run] obtain v where v: "workspace_by_id i s = Some v"
    "workspace_actor_id actor = Inr (ws_owner v)" "ws_version v = expected_version q"
    and w: "w = v\<lparr>ws_owner := owner_after q v, ws_version := ws_version v + 1\<rparr>" by blast
  have so1: "workspace_sound (tables_of s1)"
    using wp_Inr [OF request_moves [OF so, of env actor q] run] by (simp add: moves_def)
  have "ws_id v = i" using v(1) row_by_Some by (fastforce simp: workspace_by_id_def)
  with w request_outcome [OF so run] have "workspace_by_id i s1 = Some w" by (simp add: formed_in_def)
  from version_grows [OF so1 assms(4) this] obtain w' where w': "workspace_by_id i s2 = Some w'"
    "ws_version w \<le> ws_version w'" by blast
  have so2: "workspace_sound (tables_of s2)" using steps_move [OF assms(4) so1] by (simp add: moves_def)
  have "\<exists>e. fst (request_command env' actor' q' s2) = Inl e"
  proof (cases "fst (request_command env' actor' q' s2)")
    case (Inr x)
    then obtain s3 where "request_command env' actor' q' s2 = (Inr x, s3)" by (metis prod.collapse)
    from versioned_admitted [OF so2 assms(5) this] w' v w assms(6) show ?thesis by auto
  qed simp
  with v w show ?thesis by auto
qed

theorem one_change_per_version_witness:
  "\<exists>e. fst (request_command (team_env []) team_caller (RemoveLeader ''w'' ''k'' 1 ''undo'') (snd team_second))
    = Inl e"
proof -
  have run: "request_command (team_env []) team_caller team_invite team_created
      = (Inr (team_row 2), snd team_second)"
    using team_second_eval unfolding team_second_def by (metis prod.collapse)
  from one_change_per_version [OF team_reachable(2) _ run rtranclp.rtrancl_refl, of "''w''"
      "RemoveLeader ''w'' ''k'' 1 ''undo''" "team_env []" team_caller]
  show ?thesis by (simp add: request_workspace_def expected_version_def team_invite_def)
qed

lemma sound_owner:
  "workspace_sound (tables_of s) \<Longrightarrow> i \<in> ws_id ` set (wk_workspaces s) \<Longrightarrow>
   \<exists>!a. projected (wk_members s) i a = Some FORMAL_OWNER"
  unfolding workspace_sound_def tables_of_def prod.case by blast

text \<open>
  The version of a workspace, its ETag, identifies its membership. Every workspace has exactly
  one projected owner, and over any history the version never decreases, and while it stays so does
  the whole projection.
\<close>

theorem version_identifies_members:
  assumes "workspace_reachable s" and "workspace_step\<^sup>*\<^sup>* s s'" and "workspace_by_id i s = Some w"
  shows "(\<exists>!a. projected (wk_members s) i a = Some FORMAL_OWNER)
    \<and> (\<exists>w'. workspace_by_id i s' = Some w' \<and> ws_version w \<le> ws_version w'
        \<and> (ws_version w' = ws_version w \<longrightarrow> projected (wk_members s') i = projected (wk_members s) i))"
proof -
  note so = reachable_sound [OF assms(1)]
  have "i \<in> ws_id ` set (wk_workspaces s)"
    using assms(3) row_by_Some [of ws_id i "wk_workspaces s" w] by (auto simp: workspace_by_id_def)
  from sound_owner [OF so this] have "\<exists>!a. projected (wk_members s) i a = Some FORMAL_OWNER" .
  with version_grows [OF so assms(2,3)] show ?thesis by blast
qed

theorem version_identifies_members_witness:
  "\<exists>w'. workspace_by_id ''w'' team_invited = Some w' \<and> 1 \<le> ws_version w'"
proof -
  have "workspace_by_id ''w'' team_created = Some (team_row 1)"
    using team_created_eval by (simp add: workspace_by_id_def team_row_def)
  with version_identifies_members [OF team_reachable(2), of team_invited "''w''" "team_row 1"]
    team_steps(2)
  show ?thesis by (auto simp: team_row_def)
qed

subsection \<open>Membership changes\<close>

lemma projection_listed: "list_ex (\<lambda>r. wm_account r = a) (projection_rows i s)
    \<longleftrightarrow> projected (wk_members s) i a \<noteq> None"
proof -
  have "projected (wk_members s) i a \<noteq> None \<longleftrightarrow> row_by member_key (i, a) (wk_members s) \<noteq> None"
    by (simp add: projected_def)
  also have "\<dots> \<longleftrightarrow> (i, a) \<in> member_key ` set (wk_members s)" by (metis row_by_None)
  finally show ?thesis
    by (auto simp: projection_rows_def list_ex_iff member_key_def)
qed

lemma formal_member_iff: "is_formal_member env i a s \<longleftrightarrow> (\<exists>w. workspace_by_id i s = Some w
    \<and> ws_archived_at w = None) \<and> participant_effective (wv_account env a)
    \<and> projected (wk_members s) i a \<noteq> None"
  by (auto simp: is_formal_member_def projection_listed split: option.splits)

lemma handler_settles:
  assumes so: "workspace_sound (tables_of s)" and ne: "accounts \<noteq> []"
    and run: "membership_change_handler env accounts s = (Inr u, s')"
  shows "workspace_sound (tables_of s') \<and> wk_leaders s' = wk_leaders s
    \<and> roles (wk_workspaces s') = roles (wk_workspaces s)
    \<and> (\<forall>i. settled_in env accounts (wk_workspaces s') (wk_leaders s') (wk_members s') i)"
proof -
  obtain W L M where t: "tables_of s = (W, L, M)" by (metis prod_cases3)
  from wp_Inr [OF handler_outcome [OF so ne, of env] run] obtain W' M' where
    t': "tables_of s' = (W', L, M')" and ro: "roles W' = roles W" and so': "workspace_sound (W', L, M')"
    and se: "\<forall>i \<in> set (active_workspace_ids s). settled_in env accounts W' L M' i"
    by (auto simp: refreshed_def t simp del: tables_of_fields)
  have W: "wk_workspaces s = W" "wk_leaders s = L" using t by simp_all
  have "settled_in env accounts W' L M' i" for i
  proof (cases "i \<in> set (active_workspace_ids s)")
    case False
    have "distinct (map ws_id (wk_workspaces s))" using so t by (simp add: workspace_sound_def)
    with False have "\<not> active_row W i w" for w using active_listed W by blast
    then have "\<not> active_row W' i w" for w using active_roles [OF ro [symmetric]] by blast
    then show ?thesis by (simp add: settled_in_def)
  qed (use se in blast)
  with so' ro W show ?thesis by (simp add: tables_of_def t' [unfolded tables_of_fields])
qed

text \<open>
  C13: a membership change that returns has converged. In every active workspace each changed
  account is projected exactly as the ports then define its formal membership, so the permission
  check \<open>is_formal_member\<close> lets it in exactly when it is an effective formal member; no owner and no
  leader has been changed.
\<close>

theorem membership_converges:
  assumes "workspace_reachable s" and "membership_change_handler env accounts s = (Inr u, s')"
    and "workspace_by_id i s' = Some w" and "ws_archived_at w = None" and "a \<in> set accounts"
  shows "projected (wk_members s') i a = formal_source env (ws_owner w) (workspace_leader_ids i s') a
    \<and> (is_formal_member env i a s' \<longleftrightarrow> participant_effective (wv_account env a)
         \<and> formal_source env (ws_owner w) (workspace_leader_ids i s') a \<noteq> None)
    \<and> wk_leaders s' = wk_leaders s
    \<and> (\<exists>v. workspace_by_id i s = Some v \<and> ws_owner v = ws_owner w)"
proof -
  have ne: "accounts \<noteq> []" using assms(5) by auto
  from handler_settles [OF reachable_sound [OF assms(1)] ne assms(2)]
  have le: "wk_leaders s' = wk_leaders s" and ro: "roles (wk_workspaces s') = roles (wk_workspaces s)"
    and se: "settled_in env accounts (wk_workspaces s') (wk_leaders s') (wk_members s') i" by blast+
  have act: "active_row (wk_workspaces s') i w" using assms(3,4) by (simp add: active_row_def workspace_by_id_def)
  from active_roles [OF ro [symmetric] act] have "\<exists>v. workspace_by_id i s = Some v \<and> ws_owner v = ws_owner w"
    by (auto simp: active_row_def workspace_by_id_def)
  moreover from se act assms(5)
  have pr: "projected (wk_members s') i a = formal_source env (ws_owner w) (workspace_leader_ids i s') a"
    unfolding settled_in_def workspace_leaders by blast
  moreover have "is_formal_member env i a s' \<longleftrightarrow> participant_effective (wv_account env a)
      \<and> formal_source env (ws_owner w) (workspace_leader_ids i s') a \<noteq> None"
    using assms(3,4) by (simp add: formal_member_iff pr)
  ultimately show ?thesis using le by blast
qed

theorem membership_converges_witness:
  "\<not> is_formal_member (team_env [''a'']) ''w'' ''a'' (snd team_change)"
proof -
  have run: "membership_change_handler (team_env [''a'']) [''a''] team_created = (Inr (), snd team_change)"
    using team_change_eval unfolding team_change_def by (metis prod.collapse)
  have "workspace_by_id ''w'' (snd team_change) = Some (team_row 2)"
    using team_change_eval by (simp add: workspace_by_id_def team_row_def)
  from membership_converges [OF team_reachable(2) run this] team_change_eval
  show ?thesis by (simp add: team_row_def)
qed

text \<open>\<^verbatim>\<open>bootstrap/app.py\<close> hands the handler to the security changes: it returns, or raises.\<close>

definition recompute_port :: "workspace_env \<Rightarrow> workspace_state \<Rightarrow> string list \<Rightarrow> string option" where
  "recompute_port env s accounts =
     (case fst (membership_change_handler env accounts s) of
        Inl _ \<Rightarrow> Some ''membership recompute'' | Inr _ \<Rightarrow> None)"

lemma handler_refuses:
  assumes so: "workspace_sound (tables_of s)" and ne: "accounts \<noteq> []"
    and w: "workspace_by_id i s = Some w" "ws_archived_at w = None"
    and l: "l \<in> set (ws_owner w # workspace_leader_ids i s)" "\<not> leads env l"
  shows "\<exists>e. membership_change_handler env accounts s = (Inl e, s)"
proof -
  obtain r s' where run: "membership_change_handler env accounts s = (r, s')" by fastforce
  show ?thesis
  proof (cases r)
    case (Inl e)
    with wp_Inl [OF handler_outcome [OF so ne, of env]] run show ?thesis by auto
  next
    case (Inr u)
    from handler_settles [OF so ne run [unfolded Inr]]
    have le: "wk_leaders s' = wk_leaders s" and ro: "roles (wk_workspaces s') = roles (wk_workspaces s)"
      and se: "settled_in env accounts (wk_workspaces s') (wk_leaders s') (wk_members s') i" by blast+
    have "active_row (wk_workspaces s) i w" using w by (simp add: active_row_def workspace_by_id_def)
    from active_roles [OF ro this] obtain w' where
      "active_row (wk_workspaces s') i w'" "ws_owner w' = ws_owner w" by blast
    with se l le show ?thesis unfolding settled_in_def workspace_leaders by auto
  qed
qed

text \<open>
  C14: one ineffective leader stops every membership change. While the owner or an invited leader of
  any active workspace is not an effective leader (a disabled account, for instance), the handler
  raises whatever accounts it is called for, and no security change that asks for a membership
  recomputation is completed: reconciling it raises, although its source transaction has
  committed, and the accounts it covers stay fenced, whether the workspace concerns them or not.
\<close>

theorem ineffective_leader_stalls_changes:
  assumes "workspace_reachable s" and "workspace_by_id i s = Some w" and "ws_archived_at w = None"
    and "l \<in> set (ws_owner w # workspace_leader_ids i s)" and "\<not> leads env l"
    and "zv_recompute aenv = Some (recompute_port env s)"
    and "work_by_id k db = Some c" and "cw_status c = WORK_PENDING" and "cw_xid c = Some x"
    and "zv_xact_status aenv x = ''committed''" and "cw_recompute c" and "cw_accounts c \<noteq> []"
  shows "(\<exists>e. membership_change_handler env (cw_accounts c) s = (Inl e, s))
    \<and> (\<exists>e. reconcile_work aenv k no_effects db = Inl e)"
proof -
  from handler_refuses [OF reachable_sound [OF assms(1)] assms(12,2,3,4,5)]
  obtain e where e: "membership_change_handler env (cw_accounts c) s = (Inl e, s)" ..
  then have "recompute_port env s (cw_accounts c) = Some ''membership recompute''"
    by (simp add: recompute_port_def)
  with assms(6,11) have "\<exists>e. run_recompute aenv c db = Inl e"
    by (cases "update_convergence_phase (cw_id c) RECOMPUTE_PENDING (zv_clock aenv 1) db")
      (simp_all add: run_recompute_def)
  then have "\<exists>e. converge_work aenv no_effects c db = Inl e"
    by (auto simp: converge_work_def updated_effects_def)
  with assms(7-10) e show ?thesis by (simp add: reconcile_work_def)
qed

theorem ineffective_leader_stalls_changes_witness:
  "\<exists>e. reconcile_work ((demo_authz_env ''r'' 4)\<lparr>zv_recompute :=
     Some (recompute_port (team_env [''l'']) team_created)\<rparr>) ''w1'' no_effects demo_az2 = Inl e"
proof -
  have "case work_by_id ''w1'' demo_az2 of Some c \<Rightarrow> cw_status c = WORK_PENDING \<and> cw_xid c = Some ''77''
      \<and> cw_recompute c \<and> cw_accounts c = [''ann''] | None \<Rightarrow> False" by code_simp
  then obtain c where c: "work_by_id ''w1'' demo_az2 = Some c" "cw_status c = WORK_PENDING"
      "cw_xid c = Some ''77''" "cw_recompute c" "cw_accounts c \<noteq> []"
    by (auto split: option.splits)
  have w: "workspace_by_id ''w'' team_created = Some (team_row 1)"
    using team_created_eval by (simp add: workspace_by_id_def team_row_def)
  have l: "\<not> leads (team_env [''l'']) ''l''" using team_leaders_eval by (simp add: leads_def)
  from ineffective_leader_stalls_changes [OF team_reachable(2) w _ _ l _ c(1-3) _ c(4,5)]
  show ?thesis by (simp add: team_row_def demo_authz_env_def)
qed

subsection \<open>Denials\<close>

text \<open>
  C24: a denied invitation may persist. If the owner invites an effective leader while the owner or
  another leader of the workspace is not effective, the request is answered with 409 and no
  membership is recomputed, no version raised and nothing audited; but the request commits with
  the invited account among the leaders.
\<close>

theorem denied_invitation_persists:
  assumes w: "workspace_by_id i s = Some w" "ws_archived_at w = None"
    and actor: "workspace_actor_id actor = Inr (ws_owner w)" and owner: "nonblank_text (ws_owner w)"
    and account: "valid_leader env account = Inr True" "nonblank_text account"
      "account \<notin> set (workspace_leader_ids i s)"
    and l: "l \<in> set (ws_owner w # workspace_leader_ids i s)" "\<not> participant_effective (wv_account env l)"
    and ports: "\<forall>k. wv_is_leader env k \<noteq> Raised
      \<and> (wv_is_leader env k = Answer True \<longrightarrow> wv_reports env k \<noteq> Raised)"
  shows "\<exists>s'. request_route env actor (InviteLeader i account (ws_version w) reason) s
      = (Inr (workspace_problem 409 ''Workspace governance conflict''), s')
    \<and> account \<in> set (workspace_leader_ids i s') \<and> workspace_by_id i s' = Some w
    \<and> wk_members s' = wk_members s \<and> wk_audit s' = wk_audit s"
proof -
  let ?s = "s\<lparr>wk_leaders := wk_leaders s
    @ [\<lparr>wl_workspace = i, wl_account = account, wl_invited_by = ws_owner w\<rparr>]\<rparr>"
  have absent: "row_by leader_key (i, account) (wk_leaders s) = None"
    using account(3) by (auto simp: row_by_None workspace_leader_ids_def leader_key_def image_iff)
  have "l \<in> set (ws_owner w # workspace_leader_ids i ?s)"
    using l(1) by (auto simp: workspace_leader_ids_def)
  from scan_refuses [OF this l(2), of "invited_members (ws_owner w) (workspace_leader_ids i ?s)"] ports
  obtain m where "scan_leaders env (ws_owner w # workspace_leader_ids i ?s)
    (invited_members (ws_owner w) (workspace_leader_ids i ?s)) = Inl (InvalidWorkspaceParticipant m)"
    by blast
  then have gov: "governed env i (ws_owner w) a act f ?s = (Inl (InvalidWorkspaceParticipant m), ?s)" for a act f
    by (simp add: governed_def replace_projection_def desired_members_def cbind_def reading_def
      computed_def del: scan_leaders.simps)
  have "invite_leader env i account (ws_version w) actor reason s = (Inl (InvalidWorkspaceParticipant m), ?s)"
    using w actor owner account absent gov
    by (simp add: invite_leader_def locked_owned_workspace_def cbind_def reading_def computed_def
      cseq_def Commands.guarded_def produce_def insert_leader_def statement_def Let_def workspace_by_id_def)
  then have "request_route env actor (InviteLeader i account (ws_version w) reason) s
      = (Inr (workspace_problem 409 ''Workspace governance conflict''), ?s)"
    by (simp add: request_route_def workspace_route_def request_command_def handled_def cbind_def
      produce_def is_workspace_error_def workspace_denial_def)
  with w(1) show ?thesis
    by (intro exI [of _ ?s]) (simp add: workspace_leader_ids_def workspace_by_id_def)
qed

theorem denied_invitation_persists_witness:
  "(\<exists>s'. request_route (team_env [''k'']) team_caller (InviteLeader ''w'' ''j'' 2 ''more'') team_invited
      = (Inr (workspace_problem 409 ''Workspace governance conflict''), s')
      \<and> ''j'' \<in> set (workspace_leader_ids ''w'' s'))
   \<and> snd (fst team_denied) = [BeginChange ''t'', CancelChange ''t'']
   \<and> ''j'' \<in> set (workspace_leader_ids ''w'' (snd team_denied))"
proof -
  have w: "workspace_by_id ''w'' team_invited = Some (team_row 2)"
    using team_invited_eval by (simp add: workspace_by_id_def team_row_def)
  from denied_invitation_persists [OF w, of team_caller "team_env [''k'']" "''j''" "''k''" "''more''"]
    team_invited_eval team_leaders_eval team_ports_answer [of "[''k'']"] team_denied_eval
  show ?thesis by (auto simp: team_row_def)
qed

subsection \<open>The security change of a request\<close>

lemma begun_settled:
  assumes run: "workspace_execute S (Some p) q xs ws command s = ((outcome, calls), s')"
    and exec: "execute_idempotent workspace_keys S q (Some (register_security_change (Some p) xs ws))
      (committed command) s = Inr (x, u)"
    and t: "change_ticket (Some p) q xs ws s = Some t" and new: "\<not> ix_replayed x"
  shows "(calls = [BeginChange t, CompleteChange t] \<and> success_status (ix_response x)
        \<and> outcome = Inr (if sp_complete p t then ix_response x
            else workspace_problem 503 ''Authorization convergence unavailable''))
    \<or> (\<exists>n. calls = BeginChange t # replicate (Suc n) (CancelChange t)
        \<and> (\<forall>resp. outcome = Inr resp \<longrightarrow> \<not> success_status resp)
        \<and> (\<forall>e. outcome = Inl e \<longrightarrow> s' = s))"
proof (cases "success_status (ix_response x)")
  case True
  with run exec t new show ?thesis
    by (auto simp: workspace_execute_def after_transaction_def Let_def split: if_splits)
next
  case False
  show ?thesis
  proof (cases "sp_cancel p t 0")
    case True
    with run exec t False have "calls = BeginChange t # replicate (Suc 0) (CancelChange t)"
      "outcome = Inr (ix_response x)" by (auto simp: workspace_execute_def)
    with False show ?thesis by blast
  next
    assume "\<not> sp_cancel p t 0"
    with run exec t False have "calls = BeginChange t # replicate (Suc 1) (CancelChange t)"
      "outcome = Inl (WorkspacePortFailure ''cancel'')" "s' = s" by (auto simp: workspace_execute_def)
    then show ?thesis by blast
  qed
qed

text \<open>
  C27: every request settles the security change it begins. A request either begins none, and then
  leaves the workspaces, leaders and members as they are; or it commits a success and asks for the
  change to be completed; or it fails or is denied, and cancels the change.
\<close>

theorem security_change_settled:
  assumes "workspace_http env S (Some p) q caller r s = ((outcome, calls), s')"
  shows "(calls = [] \<and> tables_of s' = tables_of s)
    \<or> (\<exists>t resp. calls = [BeginChange t, CompleteChange t] \<and> success_status resp
        \<and> outcome = Inr (if sp_complete p t then resp
            else workspace_problem 503 ''Authorization convergence unavailable''))
    \<or> (\<exists>t n. calls = BeginChange t # replicate (Suc n) (CancelChange t)
        \<and> (\<forall>resp. outcome = Inr resp \<longrightarrow> \<not> success_status resp)
        \<and> (\<forall>e. outcome = Inl e \<longrightarrow> s' = s))"
proof -
  let ?port = "Some p" and ?xs = "affected_account_ids r" and ?ws = "affected_workspace_ids r"
  let ?x = "execute_idempotent workspace_keys S q (Some (register_security_change ?port ?xs ?ws))
    (committed (request_route env caller r)) s"
  note run = assms [unfolded workspace_http_def workspace_execute_def Let_def option.case]
  show ?thesis
  proof (cases "change_ticket ?port q ?xs ?ws s")
    case None
    have "\<not> (new_claim q s = Some claim \<and> register_security_change ?port ?xs ?ws claim s1 = Inr s1)" for claim s1
      using None by (auto simp: change_ticket_def register_security_change_def split: answer.splits)
    with execute_cases [of S q ?port ?xs ?ws "committed (request_route env caller r)" s]
    have same: "tables_of t = tables_of s" if "?x = Inr (x, t)" for x t using that by blast
    from run None same show ?thesis
      by (auto simp: cancelling_def after_transaction_def Let_def simp del: tables_of_fields
        split: sum.splits idem_error.splits prod.splits if_splits)
  next
    case (Some t)
    then have "new_claim q s \<noteq> None" by (auto simp: change_ticket_def split: option.splits)
    with execute_cases [of S q ?port ?xs ?ws "committed (request_route env caller r)" s]
    have new: "\<not> ix_replayed x" if "?x = Inr (x, u)" for x u using that by auto
    have probs: "\<not> success_status (workspace_problem 409 m)" for m
      by (simp add: success_status_def workspace_problem_def)
    show ?thesis
    proof (cases ?x)
      case (Inl e)
      with run Some probs have "calls = BeginChange t # replicate (Suc 0) (CancelChange t)"
        "\<forall>resp. outcome = Inr resp \<longrightarrow> \<not> success_status resp" "s' = s"
        by (auto simp: cancelling_def split: idem_error.splits if_splits)
      then show ?thesis by blast
    next
      case (Inr xu)
      then obtain x u where x: "?x = Inr (x, u)" by (cases xu) simp
      from begun_settled [OF assms [unfolded workspace_http_def] x Some new [OF x]] show ?thesis by blast
    qed
  qed
qed

theorem security_change_settled_witness:
  "\<exists>resp. fst (team_http [] ''1'' team_create empty_workspace_state)
    = (Inr resp, [BeginChange ''t'', CompleteChange ''t'']) \<and> success_status resp"
proof -
  obtain resp where r: "fst (team_http [] ''1'' team_create empty_workspace_state)
      = (Inr resp, [BeginChange ''t'', CompleteChange ''t''])"
    using team_created_eval by auto
  then have "team_http [] ''1'' team_create empty_workspace_state
      = ((Inr resp, [BeginChange ''t'', CompleteChange ''t'']), team_created)"
    unfolding team_created_def by (metis prod.collapse)
  from security_change_settled [OF this [unfolded team_http_def]] r show ?thesis
    by (auto simp: team_security_def)
qed

end
