(* ===== verification/Spec2Isabelle.thy ===== *)
theory Spec2Isabelle
  imports Audit_Log Org_Queries Agent_Safety Agent_Idempotency
    Authz_Decision_Safety Requirement_History Source_Safety Source_Values
    Identity_Properties Workspace_Properties
begin

section \<open>The control plane of the engineering platform\<close>

text \<open>
  \<^bold>\<open>The program.\<close> A modular monolith in Python over PostgreSQL. Every module under
  \<^verbatim>\<open>control_plane/app/modules\<close> has a domain (\<^verbatim>\<open>domain/\<close>), commands (\<^verbatim>\<open>application/\<close>),
  a repository of SQL statements (\<^verbatim>\<open>adapters/\<close>) over tables of its own (\<^verbatim>\<open>migrations/\<close>),
  and ports through which it sees the others. A command runs in one database transaction under
  row locks; a saga alternates such transactions with calls of another system. This development
  models the modules that carry the platform's own logic:

  \<^item> audit: the log every module appends to, and its paged query;
  \<^item> organization: the three-level reporting hierarchy, its changes and its queries;
  \<^item> authorization: grants, decisions, and security changes that fence the accounts they
    touch until they are completed;
  \<^item> agent: runs and attempts, the canonical event log of a worker, cancel and resume, and
    the queue of workflow commands dispatched to an orchestrator;
  \<^item> requirement: requirements with their work items, baselines, confirmation gates and the
    outbox of repository binding requests;
  \<^item> source control: authorized repositories, the inbox that takes those requests over, the saga
    that creates a task branch at GitLab, its reconciliation, and signed webhooks;
  \<^item> identity: accounts, temporary credentials, TOTP, sessions, Super Admins and their
    reauthentication;
  \<^item> workspace: workspaces with an owner and invited leaders, and the projection of their formal
    members from the organization;
  \<^item> idempotent execution of commands (\<^verbatim>\<open>shared/idempotency.py\<close>), which agent, requirement,
    identity, workspace and the authorization grants go through.

  \<^bold>\<open>How they interact.\<close> Creating a requirement writes one binding request per work item into its
  outbox. The relay of source control claims them, accepts each into its inbox and acknowledges.
  The saga turns an inbox message into an effect and, at the end, calls back into requirement,
  which records the binding and derives the work item's state from it. Workspace asks identity and
  organization who leads and who reports to whom (\<open>Workspace_Organization\<close>), and a security change
  of authorization that touches memberships calls its recomputation before it is completed. Every command appends
  audit envelopes in its own transaction, so a command that rolls back leaves no event.
\<close>

text \<open>
  \<^bold>\<open>How the code is represented.\<close> A Python class or table row is a record, an enumeration a
  datatype, a table the list of its rows in insertion order, a module's database the record of its
  tables. A function that may raise returns \<open>error + value\<close> (\<open>res\<close> of \<open>Prelude\<close>, chained by
  \<open>rbind\<close>); a transaction returns the new database on success and leaves the old one otherwise. An
  UPDATE with a revision or attempt in its WHERE clause is a compare-and-set. The constraints of the
  migrations are predicates (\<open>effect_row_ok\<close>, \<open>gate_row_ok\<close> and the like) and a violated one is an
  \<open>IntegrityError\<close>. Clock readings and new ids are inputs, one per reading and in the order of the
  code. Strings are lists of 8-bit characters. Python's integers are \<open>int\<close>; the ranges of
  PostgreSQL's INTEGER and BIGINT (\<open>int4\<close>, \<open>int8\<close>) appear in the row constraints, so an overflow is
  an error value. Instants count microseconds.

  \<^bold>\<open>Concurrency.\<close> Commands that lock every row they change run one after another; their sequences
  are the step relations of \<open>Agent_Safety\<close>, \<open>Authz_Safety\<close>, \<open>Requirement_Safety\<close>,
  \<open>Identity_Safety\<close> and \<open>Workspace_Changes\<close>. Workers that
  interleave are step relations over a pool: \<open>Agent_Queue_Safety\<close> for the dispatchers and
  \<open>Workers\<close> for any handler that alternates transactions and calls. There a handler is a tree
  (\<open>Done\<close>, \<open>Txn\<close>, \<open>Ask\<close>); the pool starts handlers, lets any of them take its next step, gives a
  call any answer, and loses workers at any point. Sequences that PostgreSQL draws
  outside transactions may skip values.
\<close>

text \<open>
  \<^bold>\<open>The theories.\<close>

  \<^item> \<open>Prelude\<close>, \<open>Interfaces\<close>: results, dictionaries, rows, text; the locales \<open>lifecycle\<close>,
    \<open>ranked_lifecycle\<close>, \<open>versioned_store\<close>, \<open>simulation\<close>. \<open>Platform_Json\<close>: frozen snapshots.
    \<open>Idempotency\<close>: the executor, the locale of the stores it needs, and the table that is one.
    \<open>Workers\<close>: the pool and the locale \<open>rely_guarantee\<close>, whose rules verify a handler alone.
  \<^item> \<open>Audit_Log\<close>: envelope, append, cursor codec and query of \<^verbatim>\<open>audit/\<close>.
  \<^item> \<open>Org_Structure\<close>, \<open>Org_Commands\<close>, \<open>Org_Queries\<close>: \<^verbatim>\<open>organization/\<close>.
  \<^item> \<open>Agent_Domain\<close>, \<open>Agent_Lifecycle\<close> (\<^verbatim>\<open>agent/domain\<close>), \<open>Agent_Store\<close>, \<open>Agent_Queue\<close>
    (\<^verbatim>\<open>agent/adapters/sqlalchemy.py\<close>), \<open>Agent_Events\<close>, \<open>Agent_Runs\<close>, \<open>Agent_Control\<close>,
    \<open>Agent_Workflow\<close> (the commands of \<^verbatim>\<open>agent/application\<close>); \<open>Agent_Invariant\<close>, \<open>Agent_Steps\<close>,
    \<open>Agent_Safety\<close>, \<open>Agent_Idempotency\<close>, \<open>Agent_Queue_Safety\<close>: their properties.
  \<^item> \<open>Authz_Store\<close>, \<open>Authz_Changes\<close>, \<open>Authz_Decisions\<close>: \<^verbatim>\<open>authorization/\<close>; \<open>Authz_Fence\<close>,
    \<open>Authz_Steps\<close>, \<open>Authz_Safety\<close>, \<open>Authz_Decision_Safety\<close>: their properties.
  \<^item> \<open>Requirement_Domain\<close>, \<open>Requirement_Store\<close>, \<open>Requirement_Planning\<close>, \<open>Requirement_Gates\<close>,
    \<open>Requirement_Commands\<close>: \<^verbatim>\<open>requirement/\<close>; \<open>Requirement_Invariant\<close>, \<open>Requirement_Steps\<close>,
    \<open>Requirement_Safety\<close>, \<open>Requirement_History\<close>: their properties.
  \<^item> \<open>Source_Domain\<close>, \<open>Source_Store\<close>, \<open>Source_Gateway\<close>, \<open>Source_Saga\<close>, \<open>Source_Reconcile\<close>,
    \<open>Source_Webhooks\<close>: \<^verbatim>\<open>source_control/\<close>; \<open>Source_Invariant\<close>, \<open>Source_Steps\<close>, \<open>Source_Tasks\<close>,
    \<open>Source_Recovery\<close>, \<open>Source_Pool\<close>, \<open>Source_Safety\<close>, \<open>Source_Values\<close>: their properties.
  \<^item> \<open>Commands\<close>: commands that keep what they wrote when they raise, and rules for their weakest
    preconditions. \<open>Identity_Domain\<close>, \<open>Identity_Store\<close>, \<open>Identity_Sessions\<close>, \<open>Identity_Accounts\<close>,
    \<open>Identity_Auth\<close>, \<open>Identity_Super_Admin\<close>, \<open>Identity_Reauth\<close>, \<open>Identity_Api\<close>: \<^verbatim>\<open>identity/\<close>;
    \<open>Identity_Invariant\<close>, \<open>Identity_Changes\<close>,
    \<open>Identity_Operations\<close>, \<open>Identity_Logins\<close> (the invariant), \<open>Identity_Safety\<close> (histories),
    \<open>Identity_History\<close> (how the tables evolve), \<open>Identity_Factors\<close>
    (with the login backoff), \<open>Identity_Properties\<close>: their properties.
  \<^item> \<open>Workspace_Store\<close>, \<open>Workspace_Commands\<close> (with the HTTP commands), \<open>Workspace_Organization\<close>
    (the adapters, the locale \<open>leader_directory\<close> of what a workspace relies on, and the evaluated
    run of its witnesses): \<^verbatim>\<open>workspace/\<close>;
    \<open>Workspace_Members\<close> (the formal members as a specification), \<open>Workspace_Safety\<close>,
    \<open>Workspace_Changes\<close>, \<open>Workspace_Properties\<close>: their properties.
  \<^item> \<open>Agent_Demo\<close>, \<open>Requirement_Demo\<close>, \<open>Source_Demo\<close>, \<open>Identity_Demo\<close>: evaluated runs for the witnesses.

  \<^bold>\<open>What the lemmas show.\<close> Each repository operation is described once by its effect on the tables;
  each handler preserves the module's invariant (\<open>agent_inv\<close>, \<open>authz_inv\<close>, \<open>requirement_inv\<close>,
  \<open>source_inv\<close>, \<open>sound\<close>, \<open>workspace_sound\<close>); the theorems with a number in the text before them are read off the invariants of reachable
  states or off single steps. An attempt's event log has no gap; a run and its attempt agree; an agent command takes
  effect once per key; a command of the queue is handed out at most three times; a
  changed principal is rejected while its change is open, and each operation on changes opens or
  closes exactly the fence it should; authorize fails closed and decides as
  specified; no work starts without an approved baseline; requirements keep a linear history
  and a decision writes its outcome once;
  task branches and succeeded effects correspond; a call of GitLab follows the record of its effect;
  a Super Admin remains effective, a FULL session costs both factors and each of them is used once;
  a projected membership is the formal one and changes only with its workspace's version;
  and what a cursor, a structure or a webhook computes is exact.
\<close>

text \<open>
  \<^bold>\<open>Bounds and termination.\<close> Loops over rows are structural recursions. The climb over the
  organization graph and the affected accounts terminate by the accounts not yet seen, the round robin
  of a batch by the room left under its limit, the audit query and the reporting chain by their SQL limits. No definition takes
  fuel except \<open>advance\<close>, which only runs demonstrations; the recursive reporting query has
  depth 3 because the code's recursive SQL stops there.

  \<^bold>\<open>Parameters.\<close> Hashes and signatures (SHA-256, HMAC), Argon2, TOTP codes, random tokens, AES sealing of responses, the JSON decoder,
  Unicode NFKC, pydantic's dump and validate of results, policies read from the configuration
  module, and what another system or module answers are arguments of the definitions that use them. Assumptions on
  them are named in the statements: a codec that inverts itself, an identity directory that is
  consistent. In \<open>Workers\<close> every answer is possible.

  \<^bold>\<open>Not modelled.\<close> Of source control the integration and formal merge requests, evidence and agent
  pushes; of requirement the stages after integration, its read models and its gate policy
  adapter; of identity the drafts and versions of its policy; the modules configuration, model gateway
  and agent run; the HTTP layer, wiring, settings and tools. Database behaviour beyond the statements, such as lock
  timeouts, deadlocks and connection loss, shows only as a lost worker or a rolled back
  transaction. Logging is left out.
\<close>

end
